(* ===== verification/Prelude.thy ===== *)
theory Prelude
  imports Main "HOL-Library.Word"
begin

unbundle bit_operations_syntax

text \<open>
  Shared vocabulary of the development: the machine integer types of the C sources, the
  \<^theory_text>\<open>named_theorems\<close> collections the component theories fill, and the generic facts on
  words, flag masks and finite index ranges that their proofs share.

  C's \<open>uint8_t\<close>, \<open>uint16_t\<close>, \<open>uint32_t\<close> and \<open>uint64_t\<close> are words of that width, so that
  \<open>+\<close> and \<open>-\<close> wrap exactly as the sources' assignments back to those types do.  Where an
  expression of the sources is evaluated in \<open>int\<close> and only its sign or an upper bit is used,
  the model computes with \<open>int\<close>.  A C array is a total function from its index (\<open>nat\<close>): reading or
  writing past the array's end is then visible as an access to an index at or above its length.
\<close>

type_synonym u8 = "8 word"
type_synonym u16 = "16 word"
type_synonym u32 = "32 word"
type_synonym u64 = "64 word"

text \<open>Unfolding rules of state updates that only append to the observers' log.\<close>
named_theorems emit_defs

text \<open>Definitions of the opcode handlers, in the order of the opcode table.\<close>
named_theorems op_defs

text \<open>Facts of the form "this operation leaves that part of the state alone".\<close>
named_theorems frame_simps

subsection \<open>Flag masks\<close>

text \<open>C tests \<open>reg & MASK\<close> against a one-bit mask; the mathematical reading is \<open>bit reg n\<close>.\<close>

lemma and_push_bit_1: "(w AND push_bit n 1 = 0) = (\<not> bit w n)" for w :: "'a::len word"
  by (metis and_exp_eq_0_iff_not_bit push_bit_of_1)

lemma mask_bit_8:
  fixes w :: u8
  shows "(w AND 1 = 0) = (\<not> bit w 0)" "(w AND 2 = 0) = (\<not> bit w 1)"
    "(w AND 4 = 0) = (\<not> bit w 2)" "(w AND 8 = 0) = (\<not> bit w 3)"
    "(w AND 16 = 0) = (\<not> bit w 4)" "(w AND 32 = 0) = (\<not> bit w 5)"
    "(w AND 64 = 0) = (\<not> bit w 6)" "(w AND 128 = 0) = (\<not> bit w 7)"
  using and_push_bit_1 [of w 0] and_push_bit_1 [of w 1] and_push_bit_1 [of w 2]
    and_push_bit_1 [of w 3] and_push_bit_1 [of w 4] and_push_bit_1 [of w 5]
    and_push_bit_1 [of w 6] and_push_bit_1 [of w 7]
  by simp_all

subsection \<open>Words as numbers\<close>

lemma unat_lt: "unat w < 2 ^ LENGTH('a)" for w :: "'a::len word"
  by (rule unsigned_less)
lemma unat_u8: "unat w < 256" for w :: u8
  using unat_lt [of w] by simp
lemma unat_u16: "unat w < 65536" for w :: u16
  using unat_lt [of w] by simp
lemma unat_ucast_up:
  "LENGTH('a) \<le> LENGTH('b) \<Longrightarrow> unat (ucast w :: 'b::len word) = unat w" for w :: "'a::len word"
proof -
  assume le: "LENGTH('a) \<le> LENGTH('b)"
  have "unat w < 2 ^ LENGTH('b)"
    using unat_lt [of w] power_increasing [OF le, of "2::nat"] by (metis less_le_trans one_le_numeral)
  then show ?thesis by (simp add: unsigned_ucast_eq take_bit_nat_eq_self)
qed
lemma ucast_up_simps [simp]:
  "unat (ucast (w::u8) :: u16) = unat w"
  "unat (ucast (w::u8) :: u32) = unat w"
  "unat (ucast (v::u16) :: u32) = unat v"
  by (simp_all add: unat_ucast_up)

lemma unat_add_ok: "unat a + unat b < 2 ^ LENGTH('a) \<Longrightarrow> unat (a + b) = unat a + unat b" for a b :: "'a::len word"
  by (simp add: unat_word_ariths)
lemma unat_mult_ok: "unat a * unat b < 2 ^ LENGTH('a) \<Longrightarrow> unat (a * b) = unat a * unat b" for a b :: "'a::len word"
  by (simp add: unat_word_ariths)

lemma unat_low_nibble: "unat (d AND 0x0f) = unat d mod 16" for d :: u8
proof -
  have "d AND 0x0f = take_bit 4 d" by (simp add: take_bit_eq_mask mask_eq_exp_minus_1)
  then show ?thesis by (simp add: take_bit_eq_mod unat_mod)
qed

lemma unat_high_nibble: "unat (drop_bit 4 d) = unat d div 16" for d :: u8
  by (simp add: unat_drop_bit_eq drop_bit_eq_div unat_div)

lemma and_1f: "unat (w AND 0x1f) = unat w mod 32" for w :: u8
proof -
  have "w AND 0x1f = take_bit 5 w" by (simp add: take_bit_eq_mask mask_eq_exp_minus_1)
  then show ?thesis by (simp add: take_bit_eq_mod unat_mod)
qed

lemma unat_small: "n < 256 \<Longrightarrow> unat (word_of_nat n :: u8) = n"
  by (simp add: unat_of_nat take_bit_nat_eq_self)

lemma u8_of_nat_eq: "n < 256 \<Longrightarrow> (w = word_of_nat n) = (unat w = n)" for w :: u8
  by (simp add: word_unat_eq_iff unat_small)

subsection \<open>Bytes of 16-bit values\<close>

lemma unat_u8_inc: "unat (w + 1) = (unat w + 1) mod 256" for w :: u8
  by (simp add: unat_word_ariths)

lemma inc_u16: "unat ((ucast w :: u16) + 1) = unat w + 1" for w :: u8
  using unat_u8 [of w] unat_add_ok [of "ucast w :: u16" 1] by simp

lemma low_byte: "unat (ucast (v AND 0xff :: u16) :: u8) = unat v mod 256"
proof -
  have "v AND 0xff = take_bit 8 v" by (simp add: take_bit_eq_mask mask_eq_exp_minus_1)
  then show ?thesis
    by (simp add: unsigned_ucast_eq take_bit_eq_mod unat_mod)
qed

lemma low5_merge: "unat ((w AND NOT 0x1f) OR z) mod 32 = unat z mod 32" for w z :: u8
proof -
  have "((w AND NOT 0x1f) OR z) AND 0x1f = z AND 0x1f"
    by (rule bit_word_eqI) (auto simp: bit_simps)
  then show ?thesis by (metis and_1f)
qed

lemma low5: "unat (ucast (v AND 0x1f :: u16) :: u8) = unat v mod 32"
proof -
  have "v AND 0x1f = take_bit 5 v" by (simp add: take_bit_eq_mask mask_eq_exp_minus_1)
  then show ?thesis
    by (simp add: unsigned_ucast_eq take_bit_eq_mod unat_mod)
qed

lemma mode_cases: "w AND 3 \<noteq> 3 \<Longrightarrow> w AND 3 = 0 \<or> w AND 3 = 1 \<or> w AND 3 = 2" for w :: u8
proof -
  assume n: "w AND 3 \<noteq> 3"
  have "w AND 3 = take_bit 2 w" by (simp add: take_bit_eq_mask mask_eq_exp_minus_1)
  then have "unat (w AND 3) < 4" by (simp add: take_bit_eq_mod unat_mod)
  with n show ?thesis by (auto simp: word_unat_eq_iff)
qed

lemma bit_u8_length: "bit w n \<Longrightarrow> n < 8" for w :: u8
  using bit_imp_le_length [of w n] by simp

lemma bit_ff: "bit (0xff :: nat) n = (n < 8)" "bit (0xff :: int) n = (n < 8)" "bit (0xff :: u16) n = (n < 8)"
proof -
  have "mask 8 = (0xff :: nat)" "mask 8 = (0xff :: int)" "mask 8 = (0xff :: u16)"
    by (simp_all add: mask_eq_exp_minus_1)
  then show "bit (0xff :: nat) n = (n < 8)" "bit (0xff :: int) n = (n < 8)" "bit (0xff :: u16) n = (n < 8)"
    using bit_mask_iff [where 'a = nat, of 8 n] bit_mask_iff [where 'a = int, of 8 n]
      bit_mask_iff [where 'a = "16 word", of 8 n]
    by (auto simp del: bit_mask_iff)
qed

lemma unat_join: "unat (push_bit 8 (ucast h :: u16) OR ucast l) = 256 * unat h + unat l" for h l :: u8
proof -
  have "push_bit 8 (ucast h :: u16) OR ucast l = push_bit 8 (ucast h) + ucast l"
    by (rule disjunctive_add_eq_or [symmetric], rule bit_word_eqI) (auto simp: bit_simps dest: bit_u8_length)
  moreover have "unat (push_bit 8 (ucast h :: u16)) = 256 * unat h"
    using unat_u8 [of h] unat_mult_ok [of "256 :: u16" "ucast h"] by (simp add: push_bit_eq_mult mult.commute)
  ultimately show ?thesis
    using unat_u8 [of h] unat_u8 [of l] unat_add_ok [of "push_bit 8 (ucast h :: u16)" "ucast l"] by simp
qed

lemma join_halves [simp]:
  "ucast (drop_bit 8 (push_bit 8 (ucast h :: u16) OR ucast l)) = h"
  "ucast ((push_bit 8 (ucast h :: u16) OR ucast l) AND 0xff) = l" for h l :: u8
  by (rule bit_word_eqI; auto simp: bit_simps bit_ff dest: bit_u8_length)+

lemma halves_join [simp]:
  "push_bit 8 (ucast (ucast (drop_bit 8 a) :: u8)) OR ucast (ucast (a AND 0xff) :: u8) = a" for a :: u16
  by (rule bit_word_eqI; auto simp: bit_simps bit_ff)+

lemma unat_high_byte: "unat (ucast (drop_bit 8 v) :: u8) = unat v div 256" for v :: u16
  using unat_u16 [of v] by (simp add: unsigned_ucast_eq take_bit_nat_eq_self unat_drop_bit_eq drop_bit_eq_div unat_div)

subsection \<open>Lists\<close>

lemma sorted_map_snoc:
  fixes f :: "'a \<Rightarrow> 'b::linorder"
  assumes "sorted (map f xs)" "xs \<noteq> [] \<longrightarrow> f (last xs) \<le> f x"
  shows "sorted (map f (xs @ [x]))"
  using assms by (cases xs rule: rev_cases) (auto simp: sorted_append intro: order_trans)

end
