(* ===== verification/Machine.thy ===== *)
theory Machine
  imports Prelude
begin

text \<open>
  The data model of \<^verbatim>\<open>lib/include/emusa80535/emu8051.h\<close>: register indices and flag masks, the
  enumerations, the immutable records handed to observers, and the CPU object.

  \<^verbatim>\<open>struct em8051\<close> is split in two.  \<open>em8051\<close> is the record of its data fields.
  \<open>em8051_callbacks\<close> holds its function pointers and observer slots, because a HOL record cannot
  contain functions on itself; every operation takes it as its first argument.  A callback that
  receives a mutable CPU pointer (\<open>except\<close>, \<open>sfrread\<close>, \<open>sfrwrite\<close>, \<open>xread\<close>, \<open>xwrite\<close>) is an
  arbitrary function on the CPU, the code of the embedding program.  A record-only observer
  receives immutable data and a context the CPU never reads, so what it can see is the sequence
  of records delivered to it: the slot is a flag saying whether it is installed and the
  delivered records are kept, newest first, in the log \<open>mEvents\<close>.  The raw observer
  (\<open>mObservation\<close>) additionally answers a number computed from what it was told so far; the
  execution-abort predicate may inspect the CPU and the log.

  Memory that C reaches through pointers (\<open>mCodeMem\<close>, \<open>mExtData\<close>) is a store of numbered buffers,
  so that code and external data may be the same buffer; \<open>mUpperData\<close> is null, the CPU's own
  array or a caller's array.
\<close>

subsection \<open>SFR indices and flag masks\<close>

abbreviation (input) REG_ACC :: nat where "REG_ACC \<equiv> 0x60"
abbreviation (input) REG_B :: nat where "REG_B \<equiv> 0x70"
abbreviation (input) REG_PSW :: nat where "REG_PSW \<equiv> 0x50"
abbreviation (input) REG_SP :: nat where "REG_SP \<equiv> 0x01"
abbreviation (input) REG_DPL :: nat where "REG_DPL \<equiv> 0x02"
abbreviation (input) REG_DPH :: nat where "REG_DPH \<equiv> 0x03"
abbreviation (input) REG_P0 :: nat where "REG_P0 \<equiv> 0x00"
abbreviation (input) REG_P1 :: nat where "REG_P1 \<equiv> 0x10"
abbreviation (input) REG_P2 :: nat where "REG_P2 \<equiv> 0x20"
abbreviation (input) REG_P3 :: nat where "REG_P3 \<equiv> 0x30"
abbreviation (input) REG_IP :: nat where "REG_IP \<equiv> 0x38"
abbreviation (input) REG_IE :: nat where "REG_IE \<equiv> 0x28"
abbreviation (input) REG_TMOD :: nat where "REG_TMOD \<equiv> 0x09"
abbreviation (input) REG_TCON :: nat where "REG_TCON \<equiv> 0x08"
abbreviation (input) REG_TH0 :: nat where "REG_TH0 \<equiv> 0x0C"
abbreviation (input) REG_TL0 :: nat where "REG_TL0 \<equiv> 0x0A"
abbreviation (input) REG_TH1 :: nat where "REG_TH1 \<equiv> 0x0D"
abbreviation (input) REG_TL1 :: nat where "REG_TL1 \<equiv> 0x0B"
abbreviation (input) REG_SCON :: nat where "REG_SCON \<equiv> 0x18"
abbreviation (input) REG_SBUF :: nat where "REG_SBUF \<equiv> 0x19"
abbreviation (input) REG_PCON :: nat where "REG_PCON \<equiv> 0x07"

text \<open>The Siemens registers, by \<^verbatim>\<open>SAB_SFR_INDEX\<close>, that is full address minus 0x80.\<close>

abbreviation (input) SAB_IEN0 :: nat where "SAB_IEN0 \<equiv> 0x28"
abbreviation (input) SAB_IP0 :: nat where "SAB_IP0 \<equiv> 0x29"
abbreviation (input) SAB_IEN1 :: nat where "SAB_IEN1 \<equiv> 0x38"
abbreviation (input) SAB_IP1 :: nat where "SAB_IP1 \<equiv> 0x39"
abbreviation (input) SAB_IRCON :: nat where "SAB_IRCON \<equiv> 0x40"
abbreviation (input) SAB_T2CON :: nat where "SAB_T2CON \<equiv> 0x48"
abbreviation (input) SAB_TL2 :: nat where "SAB_TL2 \<equiv> 0x4C"
abbreviation (input) SAB_TH2 :: nat where "SAB_TH2 \<equiv> 0x4D"
abbreviation (input) SAB_ADCON :: nat where "SAB_ADCON \<equiv> 0x58"
abbreviation (input) SAB_ADDAT :: nat where "SAB_ADDAT \<equiv> 0x59"
abbreviation (input) SAB_DAPR :: nat where "SAB_DAPR \<equiv> 0x5A"
abbreviation (input) SAB_P6 :: nat where "SAB_P6 \<equiv> 0x5B"
abbreviation (input) SAB_P4 :: nat where "SAB_P4 \<equiv> 0x68"
abbreviation (input) SAB_P5 :: nat where "SAB_P5 \<equiv> 0x78"

abbreviation (input) PSWMASK_P :: u8 where "PSWMASK_P \<equiv> 0x01"
abbreviation (input) PSWMASK_OV :: u8 where "PSWMASK_OV \<equiv> 0x04"
abbreviation (input) PSWMASK_RS0 :: u8 where "PSWMASK_RS0 \<equiv> 0x08"
abbreviation (input) PSWMASK_RS1 :: u8 where "PSWMASK_RS1 \<equiv> 0x10"
abbreviation (input) PSWMASK_AC :: u8 where "PSWMASK_AC \<equiv> 0x40"
abbreviation (input) PSWMASK_C :: u8 where "PSWMASK_C \<equiv> 0x80"
abbreviation (input) IEMASK_EX0 :: u8 where "IEMASK_EX0 \<equiv> 0x01"
abbreviation (input) IEMASK_ET0 :: u8 where "IEMASK_ET0 \<equiv> 0x02"
abbreviation (input) IEMASK_EX1 :: u8 where "IEMASK_EX1 \<equiv> 0x04"
abbreviation (input) IEMASK_ET1 :: u8 where "IEMASK_ET1 \<equiv> 0x08"
abbreviation (input) IEMASK_ES :: u8 where "IEMASK_ES \<equiv> 0x10"
abbreviation (input) IEMASK_ET2 :: u8 where "IEMASK_ET2 \<equiv> 0x20"
abbreviation (input) IEMASK_EA :: u8 where "IEMASK_EA \<equiv> 0x80"
abbreviation (input) IPMASK_PX0 :: u8 where "IPMASK_PX0 \<equiv> 0x01"
abbreviation (input) IPMASK_PT0 :: u8 where "IPMASK_PT0 \<equiv> 0x02"
abbreviation (input) IPMASK_PX1 :: u8 where "IPMASK_PX1 \<equiv> 0x04"
abbreviation (input) IPMASK_PT1 :: u8 where "IPMASK_PT1 \<equiv> 0x08"
abbreviation (input) IPMASK_PS :: u8 where "IPMASK_PS \<equiv> 0x10"
abbreviation (input) TCONMASK_IT0 :: u8 where "TCONMASK_IT0 \<equiv> 0x01"
abbreviation (input) TCONMASK_IE0 :: u8 where "TCONMASK_IE0 \<equiv> 0x02"
abbreviation (input) TCONMASK_IT1 :: u8 where "TCONMASK_IT1 \<equiv> 0x04"
abbreviation (input) TCONMASK_IE1 :: u8 where "TCONMASK_IE1 \<equiv> 0x08"
abbreviation (input) TCONMASK_TR0 :: u8 where "TCONMASK_TR0 \<equiv> 0x10"
abbreviation (input) TCONMASK_TF0 :: u8 where "TCONMASK_TF0 \<equiv> 0x20"
abbreviation (input) TCONMASK_TR1 :: u8 where "TCONMASK_TR1 \<equiv> 0x40"
abbreviation (input) TCONMASK_TF1 :: u8 where "TCONMASK_TF1 \<equiv> 0x80"
abbreviation (input) TMODMASK_M0_0 :: u8 where "TMODMASK_M0_0 \<equiv> 0x01"
abbreviation (input) TMODMASK_M1_0 :: u8 where "TMODMASK_M1_0 \<equiv> 0x02"
abbreviation (input) TMODMASK_CT_0 :: u8 where "TMODMASK_CT_0 \<equiv> 0x04"
abbreviation (input) TMODMASK_GATE_0 :: u8 where "TMODMASK_GATE_0 \<equiv> 0x08"
abbreviation (input) TMODMASK_M0_1 :: u8 where "TMODMASK_M0_1 \<equiv> 0x10"
abbreviation (input) TMODMASK_M1_1 :: u8 where "TMODMASK_M1_1 \<equiv> 0x20"
abbreviation (input) TMODMASK_CT_1 :: u8 where "TMODMASK_CT_1 \<equiv> 0x40"
abbreviation (input) TMODMASK_GATE_1 :: u8 where "TMODMASK_GATE_1 \<equiv> 0x80"
abbreviation (input) SCONMASK_RI :: u8 where "SCONMASK_RI \<equiv> 0x01"
abbreviation (input) SCONMASK_TI :: u8 where "SCONMASK_TI \<equiv> 0x02"
abbreviation (input) SCONMASK_RB8 :: u8 where "SCONMASK_RB8 \<equiv> 0x04"
abbreviation (input) SCONMASK_TB8 :: u8 where "SCONMASK_TB8 \<equiv> 0x08"
abbreviation (input) SCONMASK_REN :: u8 where "SCONMASK_REN \<equiv> 0x10"
abbreviation (input) SCONMASK_SM2 :: u8 where "SCONMASK_SM2 \<equiv> 0x20"
abbreviation (input) SCONMASK_SM1 :: u8 where "SCONMASK_SM1 \<equiv> 0x40"
abbreviation (input) SCONMASK_SM0 :: u8 where "SCONMASK_SM0 \<equiv> 0x80"
abbreviation (input) PCONMASK_SMOD :: u8 where "PCONMASK_SMOD \<equiv> 0x80"
abbreviation (input) SAB_IEN1MASK_EXEN2 :: u8 where "SAB_IEN1MASK_EXEN2 \<equiv> 0x80"
abbreviation (input) SAB_IRCONMASK_IADC :: u8 where "SAB_IRCONMASK_IADC \<equiv> 0x01"
abbreviation (input) SAB_IRCONMASK_IEX2 :: u8 where "SAB_IRCONMASK_IEX2 \<equiv> 0x02"
abbreviation (input) SAB_IRCONMASK_IEX3 :: u8 where "SAB_IRCONMASK_IEX3 \<equiv> 0x04"
abbreviation (input) SAB_IRCONMASK_IEX4 :: u8 where "SAB_IRCONMASK_IEX4 \<equiv> 0x08"
abbreviation (input) SAB_IRCONMASK_IEX5 :: u8 where "SAB_IRCONMASK_IEX5 \<equiv> 0x10"
abbreviation (input) SAB_IRCONMASK_IEX6 :: u8 where "SAB_IRCONMASK_IEX6 \<equiv> 0x20"
abbreviation (input) SAB_IRCONMASK_TF2 :: u8 where "SAB_IRCONMASK_TF2 \<equiv> 0x40"
abbreviation (input) SAB_IRCONMASK_EXF2 :: u8 where "SAB_IRCONMASK_EXF2 \<equiv> 0x80"
abbreviation (input) SAB_T2CONMASK_T2I0 :: u8 where "SAB_T2CONMASK_T2I0 \<equiv> 0x01"
abbreviation (input) SAB_T2CONMASK_T2I1 :: u8 where "SAB_T2CONMASK_T2I1 \<equiv> 0x02"
abbreviation (input) SAB_T2CONMASK_T2R1 :: u8 where "SAB_T2CONMASK_T2R1 \<equiv> 0x10"
abbreviation (input) SAB_T2CONMASK_I2FR :: u8 where "SAB_T2CONMASK_I2FR \<equiv> 0x20"
abbreviation (input) SAB_T2CONMASK_I3FR :: u8 where "SAB_T2CONMASK_I3FR \<equiv> 0x40"
abbreviation (input) SAB_T2CONMASK_T2PS :: u8 where "SAB_T2CONMASK_T2PS \<equiv> 0x80"
abbreviation (input) SAB_ADCONMASK_MX :: u8 where "SAB_ADCONMASK_MX \<equiv> 0x07"
abbreviation (input) SAB_ADCONMASK_ADM :: u8 where "SAB_ADCONMASK_ADM \<equiv> 0x08"
abbreviation (input) SAB_ADCONMASK_BSY :: u8 where "SAB_ADCONMASK_BSY \<equiv> 0x10"
abbreviation (input) SAB_ADCONMASK_BD :: u8 where "SAB_ADCONMASK_BD \<equiv> 0x80"

subsection \<open>Enumerations\<close>

datatype em8051_variant =
  EM8051_VARIANT_8051 | EM8051_VARIANT_8052 | EM8051_VARIANT_SAB80535

datatype em8051_sab_irq_source =
  EM8051_SAB_IRQ_INT0 | EM8051_SAB_IRQ_TIMER0 | EM8051_SAB_IRQ_INT1 | EM8051_SAB_IRQ_TIMER1
| EM8051_SAB_IRQ_UART | EM8051_SAB_IRQ_TIMER2 | EM8051_SAB_IRQ_ADC | EM8051_SAB_IRQ_INT2
| EM8051_SAB_IRQ_INT3 | EM8051_SAB_IRQ_INT4 | EM8051_SAB_IRQ_INT5 | EM8051_SAB_IRQ_INT6

datatype em8051_sab_irq_trace_event =
  EM8051_SAB_IRQ_TRACE_REQUEST | EM8051_SAB_IRQ_TRACE_ACCEPT | EM8051_SAB_IRQ_TRACE_RELEASE

datatype em8051_timer = EM8051_TIMER0 | EM8051_TIMER1 | EM8051_TIMER2

datatype em8051_sab_uart_trace_event =
  EM8051_SAB_UART_TRACE_TX_START | EM8051_SAB_UART_TRACE_TX_BIT | EM8051_SAB_UART_TRACE_TX_STOP
| EM8051_SAB_UART_TRACE_TX_END | EM8051_SAB_UART_TRACE_RX_START
| EM8051_SAB_UART_TRACE_RX_ACCEPT | EM8051_SAB_UART_TRACE_RX_DROP | EM8051_SAB_UART_TRACE_RX_END

datatype em8051_movx_direction = EM8051_MOVX_READ | EM8051_MOVX_WRITE

datatype em8051_sab_external_source =
  EM8051_SAB_EXTERNAL_INT0 | EM8051_SAB_EXTERNAL_INT1 | EM8051_SAB_EXTERNAL_INT2
| EM8051_SAB_EXTERNAL_INT3 | EM8051_SAB_EXTERNAL_INT4 | EM8051_SAB_EXTERNAL_INT5
| EM8051_SAB_EXTERNAL_INT6

datatype em8051_sab_external_trace_trigger =
  EM8051_SAB_EXTERNAL_TRACE_NON_QUALIFYING | EM8051_SAB_EXTERNAL_TRACE_FALLING_EDGE
| EM8051_SAB_EXTERNAL_TRACE_RISING_EDGE | EM8051_SAB_EXTERNAL_TRACE_LOW_LEVEL_ASSERT
| EM8051_SAB_EXTERNAL_TRACE_LEVEL_RELEASE

datatype em8051_sab_adc_trace_event =
  EM8051_SAB_ADC_TRACE_START | EM8051_SAB_ADC_TRACE_RESTART | EM8051_SAB_ADC_TRACE_COMPLETE

datatype em8051_trace_type =
  EM8051_TRACE_INSTRUCTION | EM8051_TRACE_SFR_WRITE | EM8051_TRACE_MOVX_READ
| EM8051_TRACE_MOVX_WRITE | EM8051_TRACE_UNSUPPORTED_MOVX_READ
| EM8051_TRACE_UNSUPPORTED_MOVX_WRITE

datatype em8051_stop_reason =
  EM8051_STOP_INSTRUCTION_LIMIT | EM8051_STOP_BREAKPOINT | EM8051_STOP_TARGET_PC
| EM8051_STOP_EXCEPTION | EM8051_STOP_HALT | EM8051_STOP_ABORTED

text \<open>Exception codes keep their numeric values: \<open>mLastException\<close> is an \<open>int\<close> and -1 means none.\<close>

abbreviation (input) EXCEPTION_STACK :: int where "EXCEPTION_STACK \<equiv> 0"
abbreviation (input) EXCEPTION_ACC_TO_A :: int where "EXCEPTION_ACC_TO_A \<equiv> 1"
abbreviation (input) EXCEPTION_IRET_PSW_MISMATCH :: int where "EXCEPTION_IRET_PSW_MISMATCH \<equiv> 2"
abbreviation (input) EXCEPTION_IRET_SP_MISMATCH :: int where "EXCEPTION_IRET_SP_MISMATCH \<equiv> 3"
abbreviation (input) EXCEPTION_IRET_ACC_MISMATCH :: int where "EXCEPTION_IRET_ACC_MISMATCH \<equiv> 4"
abbreviation (input) EXCEPTION_ILLEGAL_OPCODE :: int where "EXCEPTION_ILLEGAL_OPCODE \<equiv> 5"

datatype emu_cpu_raw_fact =
  EMU_RAW_BEGIN | EMU_RAW_OPERAND | EMU_RAW_OPCODE_END | EMU_RAW_CYCLE_BEGIN
| EMU_RAW_CONTEXT_PREFLIGHT | EMU_RAW_CALL | EMU_RAW_RET | EMU_RAW_RETI | EMU_RAW_IRQ_ENTER
| EMU_RAW_IRQ_REQUEST | EMU_RAW_TX_HOLD | EMU_RAW_TX_START
| EMU_RAW_TX_STOP | EMU_RAW_TX_TI | EMU_RAW_TX_END
| EMU_RAW_RX_START | EMU_RAW_RX_ACCEPT | EMU_RAW_RX_DROP | EMU_RAW_RX_END
| EMU_RAW_ACCESS_BEGIN | EMU_RAW_ACCESS_OLD | EMU_RAW_ACCESS_END

text \<open>
  The handlers of \<^verbatim>\<open>opcodes.c\<close>, by name, in five groups: an entry of the function-pointer
  table \<open>op\<close>.
\<close>

datatype jump_op =
  op_ajmp_offset | op_ljmp_address | op_jbc_bitaddr_offset | op_acall_offset |
  op_lcall_address | op_jb_bitaddr_offset | op_ret | op_jnb_bitaddr_offset | op_reti |
  op_jc_offset | op_jnc_offset | op_jz_offset | op_jnz_offset | op_jmp_indir_a_dptr |
  op_sjmp_offset | op_cjne_a_imm_offset | op_cjne_a_mem_offset | op_cjne_indir_rx_imm_offset |
  op_cjne_rx_imm_offset | op_djnz_mem_offset | op_djnz_rx_offset | op_nop

datatype arith_op =
  op_inc_a | op_inc_mem | op_inc_indir_rx | op_dec_a | op_dec_mem | op_dec_indir_rx |
  op_add_a_imm | op_add_a_mem | op_add_a_indir_rx | op_addc_a_imm | op_addc_a_mem |
  op_addc_a_indir_rx | op_div_ab | op_subb_a_imm | op_subb_a_mem | op_subb_a_indir_rx |
  op_inc_dptr | op_mul_ab | op_da_a | op_inc_rx | op_dec_rx | op_add_a_rx | op_addc_a_rx |
  op_subb_a_rx

datatype logic_op =
  op_rr_a | op_rrc_a | op_rl_a | op_rlc_a | op_orl_mem_a | op_orl_mem_imm | op_orl_a_imm |
  op_orl_a_mem | op_orl_a_indir_rx | op_anl_mem_a | op_anl_mem_imm | op_anl_a_imm |
  op_anl_a_mem | op_anl_a_indir_rx | op_xrl_mem_a | op_xrl_mem_imm | op_xrl_a_imm |
  op_xrl_a_mem | op_xrl_a_indir_rx | op_swap_a | op_clr_a | op_cpl_a | op_orl_a_rx |
  op_anl_a_rx | op_xrl_a_rx

datatype bit_op =
  op_orl_c_bitaddr | op_anl_c_bitaddr | op_mov_bitaddr_c | op_orl_c_compl_bitaddr |
  op_mov_c_bitaddr | op_anl_c_compl_bitaddr | op_cpl_bitaddr | op_cpl_c | op_clr_bitaddr |
  op_clr_c | op_setb_bitaddr | op_setb_c

datatype move_op =
  op_mov_a_imm | op_mov_mem_imm | op_mov_indir_rx_imm | op_movc_a_indir_a_pc | op_mov_mem_mem
  | op_mov_mem_indir_rx | op_mov_dptr_imm | op_movc_a_indir_a_dptr | op_mov_indir_rx_mem |
  op_push_mem | op_xch_a_mem | op_xch_a_indir_rx | op_pop_mem | op_xchd_a_indir_rx |
  op_movx_a_indir_dptr | op_movx_a_indir_rx | op_mov_a_mem | op_mov_a_indir_rx |
  op_movx_indir_dptr_a | op_movx_indir_rx_a | op_mov_mem_a | op_mov_indir_rx_a | op_mov_rx_imm
  | op_mov_mem_rx | op_mov_rx_mem | op_xch_a_rx | op_mov_a_rx | op_mov_rx_a

datatype opname =
  Jump jump_op | Arith arith_op | Logic logic_op | Bit bit_op | Move move_op

subsection \<open>Records delivered to observers\<close>

record em8051_sab_irq_trace_record =
  ir_event :: em8051_sab_irq_trace_event
  ir_machine_cycle :: u64
  ir_pc :: u16
  ir_source :: em8051_sab_irq_source
  ir_priority :: u8
  ir_asserted :: bool
  ir_global_enabled :: bool
  ir_pending_mask :: u16
  ir_enabled_mask :: u16
  ir_in_service_mask :: u16
  ir_in_service_depth :: u8

record em8051_timer_overflow_record =
  to_timer :: em8051_timer
  to_machine_cycle :: u64
  to_tl :: u8
  to_th :: u8

record em8051_sab_uart_trace_record =
  ua_event :: em8051_sab_uart_trace_event
  ua_machine_cycle :: u64
  ua_pc :: u16
  ua_data :: u8
  ua_ninth_bit :: bool
  ua_bit_index :: u8
  ua_bit_value :: bool

record em8051_movx_context =
  mx_machine_cycle :: u64
  mx_pc :: u16
  mx_address :: u16
  mx_direction :: em8051_movx_direction
  mx_value :: u8
  mx_p1_latch :: u8

record em8051_sab_external_trace_record =
  ex_machine_cycle :: u64
  ex_source :: em8051_sab_external_source
  ex_old_level :: bool
  ex_new_level :: bool
  ex_trigger :: em8051_sab_external_trace_trigger
  ex_request_pending :: bool

record em8051_sab_adc_trace_record =
  ad_event :: em8051_sab_adc_trace_event
  ad_machine_cycle :: u64
  ad_channel :: u8
  ad_dapr :: u8
  ad_normalized_input :: u16
  ad_addat :: u8
  ad_busy :: bool
  ad_iadc :: bool
  ad_references_valid :: bool
  ad_continuous_requested :: bool

record em8051_trace_record =
  tr_type :: em8051_trace_type
  tr_machine_cycle :: u64
  tr_pc :: u16
  tr_address :: u16
  tr_value :: u8

record emu_cpu_raw_record =
  rw_kind :: emu_cpu_raw_fact
  rw_cycle :: u64
  rw_a :: u64
  rw_b :: u32
  rw_c :: u32
  rw_d :: u32

datatype em8051_event =
  EvTrace em8051_trace_record
| EvIrq em8051_sab_irq_trace_record
| EvTimer em8051_timer_overflow_record
| EvUart em8051_sab_uart_trace_record
| EvMovx em8051_movx_context
| EvExternal em8051_sab_external_trace_record
| EvAdc em8051_sab_adc_trace_record
| EvRaw emu_cpu_raw_record

text \<open>
  A schedule event as the embedder passes it: \<open>source\<close> and \<open>action\<close> are C enumerations, that is
  integers the callee range-checks.
\<close>

record em8051_sab_external_schedule_event =
  se_machine_cycle :: u64
  se_source :: int
  se_action :: int
  se_level :: bool

abbreviation (input) EM8051_SAB_EXTERNAL_SCHEDULE_CAPACITY :: nat
  where "EM8051_SAB_EXTERNAL_SCHEDULE_CAPACITY \<equiv> 64"

record em8051_run_result =
  rr_reason :: em8051_stop_reason
  rr_instructions :: u64
  rr_machine_cycles :: u64
  rr_pc :: u16
  rr_exception_code :: int

record em8051_variant_descriptor =
  vd_variant :: em8051_variant
  vd_name :: string
  vd_default_oscillator_hz :: u32
  vd_has_upper_iram :: bool
  vd_interrupt_enable0_sfr :: u16
  vd_interrupt_priority0_sfr :: u16
  vd_interrupt_enable1_sfr :: u16
  vd_interrupt_priority1_sfr :: u16

subsection \<open>The CPU object\<close>

datatype upper_ptr = UpperNull | UpperOwned | UpperCaller

record em8051 =
  mBuffers :: "nat \<Rightarrow> u16 \<Rightarrow> u8"
  mCodeMem :: "nat option"
  mCodeMemMaxIdx :: u16
  mExtData :: "nat option"
  mExtDataMaxIdx :: u16
  mLowerData :: "nat \<Rightarrow> u8"
  mUpperData :: upper_ptr
  mOwnedUpperData :: "nat \<Rightarrow> u8"
  mCallerUpperData :: "nat \<Rightarrow> u8"
  mSFR :: "nat \<Rightarrow> u8"
  mPC :: u16
  mTickDelay :: u8
  mOp :: "u8 \<Rightarrow> opname"
  mSABPortExternalMask :: "nat \<Rightarrow> u8"
  mSABPortExternalLevels :: "nat \<Rightarrow> u8"
  mSABExternalSampledLevels :: u8
  mSABExternalLevelAsserted :: u8
  mSABExternalSchedule :: "nat \<Rightarrow> em8051_sab_external_schedule_event"
  mSABExternalScheduleHead :: u8
  mSABExternalScheduleCount :: u8
  mSABADCInputs :: "nat \<Rightarrow> u16"
  mSABADCLatchedInput :: u16
  mSABSfrWriteDepth :: u16
  mSABADCLatchedChannel :: u8
  mSABADCLatchedDAPR :: u8
  mSABADCCycles :: u8
  mSABADCStartPending :: bool
  mSABADCArmRestart :: bool
  mSABADCArmed :: bool
  mSABADCActive :: bool
  mSABADCBusy :: bool
  mSABADCReferenceValid :: bool
  mSABADCContinuousRequested :: bool
  mVariant :: em8051_variant
  mOscillatorHz :: u32
  mResetSeed :: u32
  mResetSeedConfigured :: bool
  mInstructionCount :: u64
  mMachineCycleCount :: u64
  mTimerOverflowCount :: "em8051_timer \<Rightarrow> u64"
  mBreakpointEnabled :: bool
  mBreakpoint :: u16
  mExceptionRaised :: bool
  mLastException :: int
  mTracePC :: u16
  mInInstruction :: bool
  mInterruptActive :: u8
  int_a :: "nat \<Rightarrow> u8"
  int_psw :: "nat \<Rightarrow> u8"
  int_sp :: "nat \<Rightarrow> u8"
  mSABIrqPending :: u16
  mSABIrqEnabled :: u16
  mSABIrqInService :: u16
  mSABIrqDepth :: u8
  mSABIrqSourceStack :: "nat \<Rightarrow> u8"
  mSABIrqPriorityStack :: "nat \<Rightarrow> u8"
  mSABIrqSavedACC :: "nat \<Rightarrow> u8"
  mSABIrqSavedPSW :: "nat \<Rightarrow> u8"
  mSABIrqSavedSP :: "nat \<Rightarrow> u8"
  mSABIrqInhibitInstructions :: u8
  mSABUartDividerPhase :: u8
  mSABUartRxDividerPhase :: u8
  mSABUartRxData :: u8
  mSABUartTxPendingData :: u8
  mSABUartTxData :: u8
  mSABUartTxBitIndex :: u8
  mSABUartRxPendingData :: u8
  mSABUartRxBitIndex :: u8
  mSABUartTxPendingNinth :: bool
  mSABUartTxNinth :: bool
  mSABUartTxPending :: bool
  mSABUartTxActive :: bool
  mSABUartRxPendingNinth :: bool
  mSABUartRxActive :: bool
  serial_out :: "nat \<Rightarrow> u8"
  serial_out_idx :: u8
  serial_out_remaining_bits :: u8
  serial_interrupt_trigger :: bool
  mEvents :: "em8051_event list"

text \<open>The callback slots of the CPU object.\<close>

record em8051_callbacks =
  except :: "(em8051 \<Rightarrow> int \<Rightarrow> em8051) option"
  sfrread :: "nat \<Rightarrow> (em8051 \<Rightarrow> u8 \<Rightarrow> u8 \<times> em8051) option"
  sfrwrite :: "nat \<Rightarrow> (em8051 \<Rightarrow> u8 \<Rightarrow> em8051) option"
  xread :: "(em8051 \<Rightarrow> u16 \<Rightarrow> u8 \<times> em8051) option"
  xwrite :: "(em8051 \<Rightarrow> u16 \<Rightarrow> u8 \<Rightarrow> em8051) option"
  movx_observer :: bool
  sab_external_trace :: bool
  sab_adc_trace :: bool
  cpu_trace :: bool
  sab_irq_trace :: bool
  timer_overflow :: bool
  sab_uart_trace :: bool
  execution_abort :: "(em8051 \<Rightarrow> bool) option"
  mObservation :: "(em8051_event list \<Rightarrow> emu_cpu_raw_record \<Rightarrow> u64) option"

end
