(* ===== verification/Observe.thy ===== *)
theory Observe
  imports Machine
begin

text \<open>
  Access primitives every component uses: register updates, program-memory reads, the execution
  abort predicate, the observer notifications of \<^verbatim>\<open>core.c\<close> and the private observation
  seams of \<^verbatim>\<open>emu_cpu_observation_internal.h\<close>.  Everything an observer notification does to the
  CPU object is to append to \<open>mEvents\<close>; the facts collected in \<open>emit_defs\<close> state that.
\<close>

subsection \<open>Registers\<close>

definition sfr_set :: "nat \<Rightarrow> u8 \<Rightarrow> em8051 \<Rightarrow> em8051" where
  "sfr_set i v c = mSFR_update (\<lambda>s. s(i := v)) c"

definition sfr_mod :: "nat \<Rightarrow> (u8 \<Rightarrow> u8) \<Rightarrow> em8051 \<Rightarrow> em8051" where
  "sfr_mod i f c = mSFR_update (\<lambda>s. s(i := f (s i))) c"

lemma sfr_upd_simps [simp]:
  "mSFR (sfr_set i v c) = (mSFR c)(i := v)"
  "mSFR (sfr_mod i f c) = (mSFR c)(i := f (mSFR c i))"
  by (simp_all add: sfr_set_def sfr_mod_def)

abbreviation (input) is_sab :: "em8051 \<Rightarrow> bool" where
  "is_sab c \<equiv> mVariant c = EM8051_VARIANT_SAB80535"

text \<open>\<open>CODEMEM(x)\<close>: reading through a null \<open>mCodeMem\<close> is undefined in C and reads 0 here.\<close>

definition CODEMEM :: "em8051 \<Rightarrow> u16 \<Rightarrow> u8" where
  "CODEMEM c x = (case mCodeMem c of None \<Rightarrow> 0 | Some p \<Rightarrow> mBuffers c p (x AND mCodeMemMaxIdx c))"

subsection \<open>Abort predicate and raw observation\<close>

definition em8051_execution_aborted :: "em8051_callbacks \<Rightarrow> em8051 \<Rightarrow> bool" where
  "em8051_execution_aborted E c = (case execution_abort E of None \<Rightarrow> False | Some f \<Rightarrow> f c)"

definition emu_cpu_raw :: "em8051_callbacks \<Rightarrow> emu_cpu_raw_fact \<Rightarrow> u64 \<Rightarrow> u64 \<Rightarrow> u32 \<Rightarrow> u32 \<Rightarrow> u32
    \<Rightarrow> em8051 \<Rightarrow> u64 \<times> em8051" where
  "emu_cpu_raw E kind cycle a b c d cpu =
     (case mObservation E of
        None \<Rightarrow> (0, cpu)
      | Some answer \<Rightarrow>
          let r = \<lparr>rw_kind = kind, rw_cycle = cycle, rw_a = a, rw_b = b, rw_c = c, rw_d = d\<rparr>
          in (answer (mEvents cpu) r, mEvents_update (\<lambda>l. EvRaw r # l) cpu))"

text \<open>A raw fact whose answer the caller discards.\<close>

definition raw_note :: "em8051_callbacks \<Rightarrow> emu_cpu_raw_fact \<Rightarrow> u64 \<Rightarrow> u64 \<Rightarrow> u32 \<Rightarrow> u32 \<Rightarrow> u32
    \<Rightarrow> em8051 \<Rightarrow> em8051" where
  "raw_note E kind cycle a b c d cpu = snd (emu_cpu_raw E kind cycle a b c d cpu)"

definition emu_cpu_operand :: "em8051_callbacks \<Rightarrow> u16 \<Rightarrow> em8051 \<Rightarrow> u8 \<times> em8051" where
  "emu_cpu_operand E off cpu =
     (let value = CODEMEM cpu (mPC cpu + off)
      in (value, raw_note E EMU_RAW_OPERAND (mMachineCycleCount cpu) (ucast off) (ucast value) 0 0 cpu))"

text \<open>
  Source \<open>n\<close> of the request loop in \<open>emu_cpu_irq_write\<close>: the register it watches and its mask.
\<close>

definition irq_request_watch :: "nat \<Rightarrow> nat \<times> u8" where
  "irq_request_watch source =
     (if source < 4 then
        (REG_TCON, push_bit (if source = 0 then 1 else if source = 1 then 5
                             else if source = 2 then 3 else 7) 1)
      else if source = 4 then (REG_SCON, SCONMASK_RI OR SCONMASK_TI)
      else (SAB_IRCON, if source = 5 then SAB_IRCONMASK_TF2 OR SAB_IRCONMASK_EXF2
                       else push_bit (source - 6) 1))"

definition emu_cpu_irq_write :: "em8051_callbacks \<Rightarrow> nat \<Rightarrow> u8 \<Rightarrow> u64 \<Rightarrow> em8051 \<Rightarrow> em8051" where
  "emu_cpu_irq_write E index value cycle cpu =
     (let old = mSFR cpu index; cpu1 = sfr_set index value cpu
      in if mObservation E = None \<or> \<not> is_sab cpu1 then cpu1
         else fold (\<lambda>source cpu'.
                let (reg, mask) = irq_request_watch source
                in if index = reg \<and> old AND mask = 0 \<and> value AND mask \<noteq> 0
                   then raw_note E EMU_RAW_IRQ_REQUEST cycle (of_nat source) 0 0 0 cpu' else cpu')
              [0..<12] cpu1)"

lemma raw_note_eq [emit_defs]:
  "raw_note E kind cycle a b c d cpu =
     mEvents_update (case mObservation E of None \<Rightarrow> id
       | Some _ \<Rightarrow> Cons (EvRaw \<lparr>rw_kind = kind, rw_cycle = cycle, rw_a = a, rw_b = b, rw_c = c, rw_d = d\<rparr>)) cpu"
  by (simp add: raw_note_def emu_cpu_raw_def Let_def split: option.split)

lemma snd_emu_cpu_raw [simp]: "snd (emu_cpu_raw E kind cycle a b c d cpu) = raw_note E kind cycle a b c d cpu"
  by (simp add: raw_note_def)

text \<open>Folding log-only steps only changes the log.\<close>

lemma fold_log_only:
  assumes "\<And>x c. x \<in> set xs \<Longrightarrow> \<exists>l. f x c = mEvents_update l c"
  shows "\<exists>l. fold f xs c = mEvents_update l c"
  using assms
proof (induction xs arbitrary: c)
  case Nil
  show ?case by (rule exI [of _ id]) simp
next
  case (Cons x xs)
  obtain l1 where l1: "f x c = mEvents_update l1 c" using Cons.prems [of x c] by auto
  obtain l2 where l2: "fold f xs (f x c) = mEvents_update l2 (f x c)" using Cons by fastforce
  show ?case by (rule exI [of _ "l2 \<circ> l1"]) (simp add: l1 l2 [unfolded l1])
qed

lemma emu_cpu_irq_write_log:
  "\<exists>l. emu_cpu_irq_write E index value cycle cpu = mEvents_update l (sfr_set index value cpu)"
proof (cases "mObservation E = None \<or> \<not> is_sab (sfr_set index value cpu)")
  case True
  then show ?thesis
    by (intro exI [of _ id]) (auto simp: emu_cpu_irq_write_def Let_def)
next
  case False
  have "\<exists>l. fold (\<lambda>source cpu'.
                let (reg, mask) = irq_request_watch source
                in if index = reg \<and> mSFR cpu index AND mask = 0 \<and> value AND mask \<noteq> 0
                   then raw_note E EMU_RAW_IRQ_REQUEST cycle (of_nat source) 0 0 0 cpu' else cpu')
              [0..<12] (sfr_set index value cpu) = mEvents_update l (sfr_set index value cpu)"
    by (rule fold_log_only) (auto simp: raw_note_eq split: prod.split intro: exI [of _ id])
  with False show ?thesis
    by (simp only: emu_cpu_irq_write_def Let_def if_False)
qed

text \<open>
  The request-edge log written by \<open>emu_cpu_irq_write\<close>, as one update of the log: all the
  architectural effect is the register write.
\<close>

definition irq_write_log :: "em8051_callbacks \<Rightarrow> nat \<Rightarrow> u8 \<Rightarrow> u64 \<Rightarrow> em8051 \<Rightarrow> em8051_event list" where
  "irq_write_log E index value cycle cpu = mEvents (emu_cpu_irq_write E index value cycle cpu)"

lemma emu_cpu_irq_write_eq [emit_defs]:
  "emu_cpu_irq_write E index value cycle cpu =
     mEvents_update (\<lambda>_. irq_write_log E index value cycle cpu) (mSFR_update (\<lambda>s. s(index := value)) cpu)"
  using emu_cpu_irq_write_log [of E index "value" cycle cpu]
  by (auto simp: irq_write_log_def sfr_set_def)

subsection \<open>Observer notifications\<close>

definition emit :: "bool \<Rightarrow> em8051_event \<Rightarrow> em8051 \<Rightarrow> em8051" where
  "emit installed ev c = mEvents_update (\<lambda>l. if installed then ev # l else l) c"

declare emit_def [emit_defs]

definition observed_pc :: "em8051 \<Rightarrow> u16" where
  "observed_pc c = (if mInInstruction c then mTracePC c else mPC c)"

definition em8051_trace_emit :: "em8051_callbacks \<Rightarrow> em8051_trace_type \<Rightarrow> u16 \<Rightarrow> u8 \<Rightarrow> em8051 \<Rightarrow> em8051" where
  "em8051_trace_emit E aType aAddress aValue c =
     (if em8051_execution_aborted E c \<or> \<not> cpu_trace E then c
      else emit True (EvTrace \<lparr>tr_type = aType, tr_machine_cycle = mMachineCycleCount c,
             tr_pc = observed_pc c, tr_address = aAddress, tr_value = aValue\<rparr>) c)"

lemma em8051_trace_emit_eq [emit_defs]:
  "em8051_trace_emit E aType aAddress aValue c =
     mEvents_update (\<lambda>l. if em8051_execution_aborted E c \<or> \<not> cpu_trace E then l
       else EvTrace \<lparr>tr_type = aType, tr_machine_cycle = mMachineCycleCount c,
             tr_pc = observed_pc c, tr_address = aAddress, tr_value = aValue\<rparr> # l) c"
  by (simp add: em8051_trace_emit_def emit_def)

definition sab_irq_trace_emit :: "em8051_callbacks \<Rightarrow> em8051_sab_irq_trace_event
    \<Rightarrow> em8051_sab_irq_source \<Rightarrow> u8 \<Rightarrow> bool \<Rightarrow> u16 \<Rightarrow> em8051 \<Rightarrow> em8051" where
  "sab_irq_trace_emit E aEvent aSource aPriority aAsserted aPendingSnapshot c =
     emit (sab_irq_trace E) (EvIrq \<lparr>ir_event = aEvent, ir_machine_cycle = mMachineCycleCount c,
       ir_pc = observed_pc c, ir_source = aSource, ir_priority = aPriority,
       ir_asserted = aAsserted, ir_global_enabled = (mSFR c SAB_IEN0 AND IEMASK_EA \<noteq> 0),
       ir_pending_mask = aPendingSnapshot, ir_enabled_mask = mSABIrqEnabled c,
       ir_in_service_mask = mSABIrqInService c, ir_in_service_depth = mSABIrqDepth c\<rparr>) c"

definition sab_uart_trace_emit :: "em8051_callbacks \<Rightarrow> em8051_sab_uart_trace_event \<Rightarrow> u64 \<Rightarrow> u8
    \<Rightarrow> bool \<Rightarrow> u8 \<Rightarrow> bool \<Rightarrow> em8051 \<Rightarrow> em8051" where
  "sab_uart_trace_emit E aEvent aMachineCycle aData aNinthBit aBitIndex aBitValue c =
     emit (sab_uart_trace E) (EvUart \<lparr>ua_event = aEvent, ua_machine_cycle = aMachineCycle,
       ua_pc = mPC c, ua_data = aData, ua_ninth_bit = aNinthBit, ua_bit_index = aBitIndex,
       ua_bit_value = aBitValue\<rparr>) c"

definition sab_adc_trace_emit :: "em8051_callbacks \<Rightarrow> em8051_sab_adc_trace_event \<Rightarrow> u64 \<Rightarrow> em8051 \<Rightarrow> em8051" where
  "sab_adc_trace_emit E aEvent aMachineCycle c =
     emit (sab_adc_trace E) (EvAdc \<lparr>ad_event = aEvent, ad_machine_cycle = aMachineCycle,
       ad_channel = mSABADCLatchedChannel c, ad_dapr = mSABADCLatchedDAPR c,
       ad_normalized_input = mSABADCLatchedInput c, ad_addat = mSFR c SAB_ADDAT,
       ad_busy = mSABADCBusy c, ad_iadc = (mSFR c SAB_IRCON AND SAB_IRCONMASK_IADC \<noteq> 0),
       ad_references_valid = mSABADCReferenceValid c,
       ad_continuous_requested = mSABADCContinuousRequested c\<rparr>) c"

lemmas trace_emit_defs [emit_defs] =
  sab_irq_trace_emit_def sab_uart_trace_emit_def sab_adc_trace_emit_def

subsection \<open>Exceptions\<close>

definition em8051_raise_exception :: "em8051_callbacks \<Rightarrow> int \<Rightarrow> em8051 \<Rightarrow> em8051" where
  "em8051_raise_exception E aCode c =
     (let c1 = c\<lparr>mExceptionRaised := True, mLastException := aCode\<rparr>
      in case except E of None \<Rightarrow> c1 | Some f \<Rightarrow> f c1 aCode)"

subsection \<open>Installing callbacks\<close>

definition em8051_set_execution_abort ::
    "(em8051 \<Rightarrow> bool) option \<Rightarrow> em8051_callbacks \<Rightarrow> em8051_callbacks" where
  "em8051_set_execution_abort aAbort E = E\<lparr>execution_abort := aAbort\<rparr>"

definition em8051_set_trace :: "bool \<Rightarrow> em8051_callbacks \<Rightarrow> em8051_callbacks" where
  "em8051_set_trace aTrace E = E\<lparr>cpu_trace := aTrace\<rparr>"

definition em8051_set_sab_irq_trace :: "bool \<Rightarrow> em8051_callbacks \<Rightarrow> em8051_callbacks" where
  "em8051_set_sab_irq_trace aTrace E = E\<lparr>sab_irq_trace := aTrace\<rparr>"

definition em8051_set_timer_overflow_callback :: "bool \<Rightarrow> em8051_callbacks \<Rightarrow> em8051_callbacks" where
  "em8051_set_timer_overflow_callback aCallback E = E\<lparr>timer_overflow := aCallback\<rparr>"

definition em8051_set_sab_uart_trace :: "bool \<Rightarrow> em8051_callbacks \<Rightarrow> em8051_callbacks" where
  "em8051_set_sab_uart_trace aTrace E = E\<lparr>sab_uart_trace := aTrace\<rparr>"

definition em8051_set_movx_observer :: "bool \<Rightarrow> em8051_callbacks \<Rightarrow> em8051_callbacks" where
  "em8051_set_movx_observer aObserver E = E\<lparr>movx_observer := aObserver\<rparr>"

definition em8051_set_sab_external_trace :: "bool \<Rightarrow> em8051_callbacks \<Rightarrow> em8051_callbacks" where
  "em8051_set_sab_external_trace aTrace E = E\<lparr>sab_external_trace := aTrace\<rparr>"

definition em8051_set_sab_adc_trace :: "bool \<Rightarrow> em8051_callbacks \<Rightarrow> em8051_callbacks" where
  "em8051_set_sab_adc_trace aTrace E = E\<lparr>sab_adc_trace := aTrace\<rparr>"

text \<open>The slots of a zero-initialised CPU object: no callback is installed.\<close>

definition null_callbacks :: em8051_callbacks where
  "null_callbacks = \<lparr>except = None, sfrread = (\<lambda>_. None), sfrwrite = (\<lambda>_. None),
     xread = None, xwrite = None, movx_observer = False, sab_external_trace = False,
     sab_adc_trace = False, cpu_trace = False, sab_irq_trace = False, timer_overflow = False,
     sab_uart_trace = False, execution_abort = None, mObservation = None\<rparr>"

lemma null_callbacks_slots [simp]:
  "except null_callbacks = None" "sfrread null_callbacks i = None" "sfrwrite null_callbacks i = None"
  "xread null_callbacks = None" "xwrite null_callbacks = None" "execution_abort null_callbacks = None"
  "mObservation null_callbacks = None"
  by (simp_all add: null_callbacks_def)

end
