(* ===== verification/Frame.thy ===== *)
theory Frame
  imports Observe
begin

text \<open>
  Frames: which fields of the CPU object a group of operations leaves alone.  \<open>cpu_part\<close> blanks
  every field the peripherals own, so \<open>cpu_part (f c) = cpu_part c\<close> says that \<open>f\<close> touches
  peripheral state only; \<open>ext_rest\<close> blanks just the registers, the external-line samples, the
  controller's request bitmaps and the log.  The two \<open>D\<close> lemmas turn such an equation into
  one equation per field.
\<close>

text \<open>A zero-initialised CPU object (\<^verbatim>\<open>calloc\<close>): the state before a variant is selected.\<close>

definition zero_cpu :: em8051 where
  "zero_cpu = \<lparr>mBuffers = (\<lambda>_ _. 0), mCodeMem = None, mCodeMemMaxIdx = 0,
     mExtData = None, mExtDataMaxIdx = 0, mLowerData = (\<lambda>_. 0), mUpperData = UpperNull,
     mOwnedUpperData = (\<lambda>_. 0), mCallerUpperData = (\<lambda>_. 0), mSFR = (\<lambda>_.
     0), mPC = 0, mTickDelay = 0, mOp = (\<lambda>_. Jump op_nop), mSABPortExternalMask =
     (\<lambda>_. 0), mSABPortExternalLevels = (\<lambda>_. 0), mSABExternalSampledLevels = 0,
     mSABExternalLevelAsserted = 0, mSABExternalSchedule = (\<lambda>_. \<lparr>se_machine_cycle
     = 0, se_source = 0, se_action = 0, se_level = False\<rparr>), mSABExternalScheduleHead = 0,
     mSABExternalScheduleCount = 0, mSABADCInputs = (\<lambda>_. 0), mSABADCLatchedInput = 0,
     mSABSfrWriteDepth = 0, mSABADCLatchedChannel = 0, mSABADCLatchedDAPR = 0, mSABADCCycles =
     0, mSABADCStartPending = False, mSABADCArmRestart = False, mSABADCArmed = False,
     mSABADCActive = False, mSABADCBusy = False, mSABADCReferenceValid = False,
     mSABADCContinuousRequested = False, mVariant = EM8051_VARIANT_8051, mOscillatorHz = 0,
     mResetSeed = 0, mResetSeedConfigured = False, mInstructionCount = 0, mMachineCycleCount =
     0, mTimerOverflowCount = (\<lambda>_. 0), mBreakpointEnabled = False, mBreakpoint = 0,
     mExceptionRaised = False, mLastException = 0, mTracePC = 0, mInInstruction = False,
     mInterruptActive = 0, int_a = (\<lambda>_. 0), int_psw = (\<lambda>_. 0), int_sp =
     (\<lambda>_. 0), mSABIrqPending = 0, mSABIrqEnabled = 0, mSABIrqInService = 0, mSABIrqDepth
     = 0, mSABIrqSourceStack = (\<lambda>_. 0), mSABIrqPriorityStack = (\<lambda>_. 0),
     mSABIrqSavedACC = (\<lambda>_. 0), mSABIrqSavedPSW = (\<lambda>_. 0), mSABIrqSavedSP =
     (\<lambda>_. 0), mSABIrqInhibitInstructions = 0, mSABUartDividerPhase = 0,
     mSABUartRxDividerPhase = 0, mSABUartRxData = 0, mSABUartTxPendingData = 0, mSABUartTxData =
     0, mSABUartTxBitIndex = 0, mSABUartRxPendingData = 0, mSABUartRxBitIndex = 0,
     mSABUartTxPendingNinth = False, mSABUartTxNinth = False, mSABUartTxPending = False,
     mSABUartTxActive = False, mSABUartRxPendingNinth = False, mSABUartRxActive = False,
     serial_out = (\<lambda>_. 0), serial_out_idx = 0, serial_out_remaining_bits = 0,
     serial_interrupt_trigger = False, mEvents = []\<rparr>"

text \<open>The same object as a SAB80535, from which the witnesses build their states.\<close>

definition sab_zero :: em8051 where
  "sab_zero = zero_cpu\<lparr>mVariant := EM8051_VARIANT_SAB80535\<rparr>"

definition cpu_part :: "em8051 \<Rightarrow> em8051" where
  "cpu_part c = c\<lparr>mSFR := mSFR zero_cpu, mSABPortExternalMask :=
     mSABPortExternalMask zero_cpu, mSABPortExternalLevels := mSABPortExternalLevels
     zero_cpu, mSABExternalSampledLevels := mSABExternalSampledLevels zero_cpu,
     mSABExternalLevelAsserted := mSABExternalLevelAsserted zero_cpu, mSABExternalSchedule
     := mSABExternalSchedule zero_cpu, mSABExternalScheduleHead := mSABExternalScheduleHead
     zero_cpu, mSABExternalScheduleCount := mSABExternalScheduleCount zero_cpu,
     mSABADCInputs := mSABADCInputs zero_cpu, mSABADCLatchedInput := mSABADCLatchedInput
     zero_cpu, mSABSfrWriteDepth := mSABSfrWriteDepth zero_cpu, mSABADCLatchedChannel
     := mSABADCLatchedChannel zero_cpu, mSABADCLatchedDAPR := mSABADCLatchedDAPR
     zero_cpu, mSABADCCycles := mSABADCCycles zero_cpu, mSABADCStartPending :=
     mSABADCStartPending zero_cpu, mSABADCArmRestart := mSABADCArmRestart zero_cpu,
     mSABADCArmed := mSABADCArmed zero_cpu, mSABADCActive := mSABADCActive zero_cpu,
     mSABADCBusy := mSABADCBusy zero_cpu, mSABADCReferenceValid := mSABADCReferenceValid
     zero_cpu, mSABADCContinuousRequested := mSABADCContinuousRequested zero_cpu,
     mMachineCycleCount := mMachineCycleCount zero_cpu, mTimerOverflowCount :=
     mTimerOverflowCount zero_cpu, mSABIrqPending := mSABIrqPending zero_cpu,
     mSABIrqEnabled := mSABIrqEnabled zero_cpu, mSABUartDividerPhase :=
     mSABUartDividerPhase zero_cpu, mSABUartRxDividerPhase := mSABUartRxDividerPhase
     zero_cpu, mSABUartRxData := mSABUartRxData zero_cpu, mSABUartTxPendingData :=
     mSABUartTxPendingData zero_cpu, mSABUartTxData := mSABUartTxData zero_cpu,
     mSABUartTxBitIndex := mSABUartTxBitIndex zero_cpu, mSABUartRxPendingData :=
     mSABUartRxPendingData zero_cpu, mSABUartRxBitIndex := mSABUartRxBitIndex
     zero_cpu, mSABUartTxPendingNinth := mSABUartTxPendingNinth zero_cpu,
     mSABUartTxNinth := mSABUartTxNinth zero_cpu, mSABUartTxPending := mSABUartTxPending
     zero_cpu, mSABUartTxActive := mSABUartTxActive zero_cpu, mSABUartRxPendingNinth
     := mSABUartRxPendingNinth zero_cpu, mSABUartRxActive := mSABUartRxActive
     zero_cpu, serial_out := serial_out zero_cpu, serial_out_idx := serial_out_idx
     zero_cpu, serial_out_remaining_bits := serial_out_remaining_bits zero_cpu,
     serial_interrupt_trigger := serial_interrupt_trigger zero_cpu, mEvents := mEvents
     zero_cpu\<rparr>"

definition ext_rest :: "em8051 \<Rightarrow> em8051" where
  "ext_rest c = c\<lparr>mSFR := mSFR zero_cpu, mSABExternalSampledLevels :=
     mSABExternalSampledLevels zero_cpu, mSABExternalLevelAsserted :=
     mSABExternalLevelAsserted zero_cpu, mSABIrqPending := mSABIrqPending zero_cpu,
     mSABIrqEnabled := mSABIrqEnabled zero_cpu, mEvents := mEvents zero_cpu\<rparr>"

lemma cpu_partD:
  assumes "cpu_part a = cpu_part b"
  shows "mBuffers a = mBuffers b \<and> mCodeMem a = mCodeMem b \<and> mCodeMemMaxIdx a =
     mCodeMemMaxIdx b \<and> mExtData a = mExtData b \<and> mExtDataMaxIdx a = mExtDataMaxIdx
     b \<and> mLowerData a = mLowerData b \<and> mUpperData a = mUpperData b \<and>
     mOwnedUpperData a = mOwnedUpperData b \<and> mCallerUpperData a = mCallerUpperData b
     \<and> mPC a = mPC b \<and> mTickDelay a = mTickDelay b \<and> mOp a = mOp b \<and>
     mVariant a = mVariant b \<and> mOscillatorHz a = mOscillatorHz b \<and> mResetSeed a =
     mResetSeed b \<and> mResetSeedConfigured a = mResetSeedConfigured b \<and>
     mInstructionCount a = mInstructionCount b \<and> mBreakpointEnabled a =
     mBreakpointEnabled b \<and> mBreakpoint a = mBreakpoint b \<and> mExceptionRaised a =
     mExceptionRaised b \<and> mLastException a = mLastException b \<and> mTracePC a =
     mTracePC b \<and> mInInstruction a = mInInstruction b \<and> mInterruptActive a =
     mInterruptActive b \<and> int_a a = int_a b \<and> int_psw a = int_psw b \<and> int_sp a
     = int_sp b \<and> mSABIrqInService a = mSABIrqInService b \<and> mSABIrqDepth a =
     mSABIrqDepth b \<and> mSABIrqSourceStack a = mSABIrqSourceStack b \<and>
     mSABIrqPriorityStack a = mSABIrqPriorityStack b \<and> mSABIrqSavedACC a =
     mSABIrqSavedACC b \<and> mSABIrqSavedPSW a = mSABIrqSavedPSW b \<and> mSABIrqSavedSP a =
     mSABIrqSavedSP b \<and> mSABIrqInhibitInstructions a = mSABIrqInhibitInstructions b"
  using assms by (cases a; cases b) (simp add: cpu_part_def)

lemma ext_restD:
  assumes "ext_rest a = ext_rest b"
  shows "mBuffers a = mBuffers b \<and> mCodeMem a = mCodeMem b \<and> mCodeMemMaxIdx a =
     mCodeMemMaxIdx b \<and> mExtData a = mExtData b \<and> mExtDataMaxIdx a = mExtDataMaxIdx
     b \<and> mLowerData a = mLowerData b \<and> mUpperData a = mUpperData b \<and>
     mOwnedUpperData a = mOwnedUpperData b \<and> mCallerUpperData a = mCallerUpperData b
     \<and> mPC a = mPC b \<and> mTickDelay a = mTickDelay b \<and> mOp a = mOp b \<and>
     mSABPortExternalMask a = mSABPortExternalMask b \<and> mSABPortExternalLevels a =
     mSABPortExternalLevels b \<and> mSABExternalSchedule a = mSABExternalSchedule b \<and>
     mSABExternalScheduleHead a = mSABExternalScheduleHead b \<and> mSABExternalScheduleCount
     a = mSABExternalScheduleCount b \<and> mSABADCInputs a = mSABADCInputs b \<and>
     mSABADCLatchedInput a = mSABADCLatchedInput b \<and> mSABSfrWriteDepth a =
     mSABSfrWriteDepth b \<and> mSABADCLatchedChannel a = mSABADCLatchedChannel b \<and>
     mSABADCLatchedDAPR a = mSABADCLatchedDAPR b \<and> mSABADCCycles a = mSABADCCycles b
     \<and> mSABADCStartPending a = mSABADCStartPending b \<and> mSABADCArmRestart a =
     mSABADCArmRestart b \<and> mSABADCArmed a = mSABADCArmed b \<and> mSABADCActive a =
     mSABADCActive b \<and> mSABADCBusy a = mSABADCBusy b \<and> mSABADCReferenceValid a =
     mSABADCReferenceValid b \<and> mSABADCContinuousRequested a = mSABADCContinuousRequested
     b \<and> mVariant a = mVariant b \<and> mOscillatorHz a = mOscillatorHz b \<and>
     mResetSeed a = mResetSeed b \<and> mResetSeedConfigured a = mResetSeedConfigured b \<and>
     mInstructionCount a = mInstructionCount b \<and> mMachineCycleCount a =
     mMachineCycleCount b \<and> mTimerOverflowCount a = mTimerOverflowCount b \<and>
     mBreakpointEnabled a = mBreakpointEnabled b \<and> mBreakpoint a = mBreakpoint b \<and>
     mExceptionRaised a = mExceptionRaised b \<and> mLastException a = mLastException b \<and>
     mTracePC a = mTracePC b \<and> mInInstruction a = mInInstruction b \<and>
     mInterruptActive a = mInterruptActive b \<and> int_a a = int_a b \<and> int_psw a =
     int_psw b \<and> int_sp a = int_sp b \<and> mSABIrqInService a = mSABIrqInService b
     \<and> mSABIrqDepth a = mSABIrqDepth b \<and> mSABIrqSourceStack a = mSABIrqSourceStack b
     \<and> mSABIrqPriorityStack a = mSABIrqPriorityStack b \<and> mSABIrqSavedACC a =
     mSABIrqSavedACC b \<and> mSABIrqSavedPSW a = mSABIrqSavedPSW b \<and> mSABIrqSavedSP a =
     mSABIrqSavedSP b \<and> mSABIrqInhibitInstructions a = mSABIrqInhibitInstructions b
     \<and> mSABUartDividerPhase a = mSABUartDividerPhase b \<and> mSABUartRxDividerPhase a =
     mSABUartRxDividerPhase b \<and> mSABUartRxData a = mSABUartRxData b \<and>
     mSABUartTxPendingData a = mSABUartTxPendingData b \<and> mSABUartTxData a =
     mSABUartTxData b \<and> mSABUartTxBitIndex a = mSABUartTxBitIndex b \<and>
     mSABUartRxPendingData a = mSABUartRxPendingData b \<and> mSABUartRxBitIndex a =
     mSABUartRxBitIndex b \<and> mSABUartTxPendingNinth a = mSABUartTxPendingNinth b \<and>
     mSABUartTxNinth a = mSABUartTxNinth b \<and> mSABUartTxPending a = mSABUartTxPending b
     \<and> mSABUartTxActive a = mSABUartTxActive b \<and> mSABUartRxPendingNinth a =
     mSABUartRxPendingNinth b \<and> mSABUartRxActive a = mSABUartRxActive b \<and> serial_out
     a = serial_out b \<and> serial_out_idx a = serial_out_idx b \<and>
     serial_out_remaining_bits a = serial_out_remaining_bits b \<and> serial_interrupt_trigger
     a = serial_interrupt_trigger b"
  using assms by (cases a; cases b) (simp add: ext_rest_def)

lemma ext_rest_cpu_part: "ext_rest a = ext_rest b \<Longrightarrow> cpu_part a = cpu_part b"
  by (cases a; cases b) (simp add: ext_rest_def cpu_part_def)

lemma ext_rest_recover:
  "ext_rest a = ext_rest c \<Longrightarrow>
   a = c\<lparr>mSFR := mSFR a, mSABExternalSampledLevels := mSABExternalSampledLevels a,
         mSABExternalLevelAsserted := mSABExternalLevelAsserted a, mSABIrqPending := mSABIrqPending a,
         mSABIrqEnabled := mSABIrqEnabled a, mEvents := mEvents a\<rparr>"
proof -
  assume eq: "ext_rest a = ext_rest c"
  let ?upd = "\<lambda>x. x\<lparr>mSFR := mSFR a, mSABExternalSampledLevels := mSABExternalSampledLevels a,
         mSABExternalLevelAsserted := mSABExternalLevelAsserted a, mSABIrqPending := mSABIrqPending a,
         mSABIrqEnabled := mSABIrqEnabled a, mEvents := mEvents a\<rparr>"
  have "?upd (ext_rest x) = ?upd x" for x by (simp add: ext_rest_def)
  from this [of a] this [of c] eq have "?upd a = ?upd c" by simp
  then show ?thesis by simp
qed

lemma ext_rest_upd [simp]:
  "ext_rest (mSFR_update f1 c) = ext_rest c"
  "ext_rest (mSABExternalSampledLevels_update f2 c) = ext_rest c"
  "ext_rest (mSABExternalLevelAsserted_update f2 c) = ext_rest c"
  "ext_rest (mSABIrqPending_update f3 c) = ext_rest c"
  "ext_rest (mSABIrqEnabled_update f3 c) = ext_rest c"
  "ext_rest (mEvents_update f4 c) = ext_rest c"
  by (simp_all add: ext_rest_def)

lemma ext_rest_sfr [simp]:
  "ext_rest (sfr_set i v c) = ext_rest c" "ext_rest (sfr_mod i f c) = ext_rest c"
  by (simp_all add: sfr_set_def sfr_mod_def)

lemma cpu_part_upd [simp]:
  "cpu_part (mSFR_update f_mSFR c) = cpu_part c"
  "cpu_part (mSABPortExternalMask_update f_mSABPortExternalMask c) = cpu_part c"
  "cpu_part (mSABPortExternalLevels_update f_mSABPortExternalLevels c) = cpu_part c"
  "cpu_part (mSABExternalSampledLevels_update f_mSABExternalSampledLevels c) = cpu_part c"
  "cpu_part (mSABExternalLevelAsserted_update f_mSABExternalLevelAsserted c) = cpu_part c"
  "cpu_part (mSABExternalSchedule_update f_mSABExternalSchedule c) = cpu_part c"
  "cpu_part (mSABExternalScheduleHead_update f_mSABExternalScheduleHead c) = cpu_part c"
  "cpu_part (mSABExternalScheduleCount_update f_mSABExternalScheduleCount c) = cpu_part c"
  "cpu_part (mSABADCInputs_update f_mSABADCInputs c) = cpu_part c"
  "cpu_part (mSABADCLatchedInput_update f_mSABADCLatchedInput c) = cpu_part c"
  "cpu_part (mSABSfrWriteDepth_update f_mSABSfrWriteDepth c) = cpu_part c"
  "cpu_part (mSABADCLatchedChannel_update f_mSABADCLatchedChannel c) = cpu_part c"
  "cpu_part (mSABADCLatchedDAPR_update f_mSABADCLatchedDAPR c) = cpu_part c"
  "cpu_part (mSABADCCycles_update f_mSABADCCycles c) = cpu_part c"
  "cpu_part (mSABADCStartPending_update f_mSABADCStartPending c) = cpu_part c"
  "cpu_part (mSABADCArmRestart_update f_mSABADCArmRestart c) = cpu_part c"
  "cpu_part (mSABADCArmed_update f_mSABADCArmed c) = cpu_part c"
  "cpu_part (mSABADCActive_update f_mSABADCActive c) = cpu_part c"
  "cpu_part (mSABADCBusy_update f_mSABADCBusy c) = cpu_part c"
  "cpu_part (mSABADCReferenceValid_update f_mSABADCReferenceValid c) = cpu_part c"
  "cpu_part (mSABADCContinuousRequested_update f_mSABADCContinuousRequested c) = cpu_part c"
  "cpu_part (mMachineCycleCount_update f_mMachineCycleCount c) = cpu_part c"
  "cpu_part (mTimerOverflowCount_update f_mTimerOverflowCount c) = cpu_part c"
  "cpu_part (mSABIrqPending_update f_mSABIrqPending c) = cpu_part c"
  "cpu_part (mSABIrqEnabled_update f_mSABIrqEnabled c) = cpu_part c"
  "cpu_part (mSABUartDividerPhase_update f_mSABUartDividerPhase c) = cpu_part c"
  "cpu_part (mSABUartRxDividerPhase_update f_mSABUartRxDividerPhase c) = cpu_part c"
  "cpu_part (mSABUartRxData_update f_mSABUartRxData c) = cpu_part c"
  "cpu_part (mSABUartTxPendingData_update f_mSABUartTxPendingData c) = cpu_part c"
  "cpu_part (mSABUartTxData_update f_mSABUartTxData c) = cpu_part c"
  "cpu_part (mSABUartTxBitIndex_update f_mSABUartTxBitIndex c) = cpu_part c"
  "cpu_part (mSABUartRxPendingData_update f_mSABUartRxPendingData c) = cpu_part c"
  "cpu_part (mSABUartRxBitIndex_update f_mSABUartRxBitIndex c) = cpu_part c"
  "cpu_part (mSABUartTxPendingNinth_update f_mSABUartTxPendingNinth c) = cpu_part c"
  "cpu_part (mSABUartTxNinth_update f_mSABUartTxNinth c) = cpu_part c"
  "cpu_part (mSABUartTxPending_update f_mSABUartTxPending c) = cpu_part c"
  "cpu_part (mSABUartTxActive_update f_mSABUartTxActive c) = cpu_part c"
  "cpu_part (mSABUartRxPendingNinth_update f_mSABUartRxPendingNinth c) = cpu_part c"
  "cpu_part (mSABUartRxActive_update f_mSABUartRxActive c) = cpu_part c"
  "cpu_part (serial_out_update f_serial_out c) = cpu_part c"
  "cpu_part (serial_out_idx_update f_serial_out_idx c) = cpu_part c"
  "cpu_part (serial_out_remaining_bits_update f_serial_out_remaining_bits c) = cpu_part c"
  "cpu_part (serial_interrupt_trigger_update f_serial_interrupt_trigger c) = cpu_part c"
  "cpu_part (mEvents_update f_mEvents c) = cpu_part c"
  by (simp_all add: cpu_part_def)

lemma cpu_part_sfr [simp]:
  "cpu_part (sfr_set i v c) = cpu_part c" "cpu_part (sfr_mod i f c) = cpu_part c"
  by (simp_all add: sfr_set_def sfr_mod_def)

lemma raw_note_frame [simp]:
  "ext_rest (raw_note E k cy a b d e c) = ext_rest c"
  "cpu_part (raw_note E k cy a b d e c) = cpu_part c"
  "mSFR (raw_note E k cy a b d e c) = mSFR c"
  by (simp_all add: emit_defs)

lemma irq_write_frame [simp]:
  "ext_rest (emu_cpu_irq_write E i v cy c) = ext_rest c"
  "cpu_part (emu_cpu_irq_write E i v cy c) = cpu_part c"
  "mSFR (emu_cpu_irq_write E i v cy c) = (mSFR c)(i := v)"
  by (simp_all add: emit_defs)

lemma emit_frame [simp]:
  "ext_rest (emit b ev c) = ext_rest c" "cpu_part (emit b ev c) = cpu_part c"
  "mSFR (emit b ev c) = mSFR c"
  by (simp_all add: emit_defs)

lemma trace_emit_frame [simp]:
  "ext_rest (em8051_trace_emit E t a v c) = ext_rest c" "mSFR (em8051_trace_emit E t a v c) = mSFR c"
  "ext_rest (sab_irq_trace_emit E ie s p b n c) = ext_rest c" "mSFR (sab_irq_trace_emit E ie s p b n c) = mSFR c"
  "ext_rest (sab_uart_trace_emit E ue m d nb i bv c) = ext_rest c"
  "mSFR (sab_uart_trace_emit E ue m d nb i bv c) = mSFR c"
  "ext_rest (sab_adc_trace_emit E ae m c) = ext_rest c" "mSFR (sab_adc_trace_emit E ae m c) = mSFR c"
  by (simp_all add: emit_defs)

text \<open>The per-field consequences, and the four fields \<open>ext_rest\<close> does not cover.\<close>

lemmas sfr_fields [simp] = ext_restD [OF ext_rest_sfr(1)] ext_restD [OF ext_rest_sfr(2)]
lemmas raw_note_fields [simp] = ext_restD [OF raw_note_frame(1)]
lemmas irq_write_fields [simp] = ext_restD [OF irq_write_frame(1)]
lemmas emit_fields [simp] = ext_restD [OF emit_frame(1)]
lemmas trace_emit_fields [simp] = ext_restD [OF trace_emit_frame(1)] ext_restD [OF trace_emit_frame(3)]
  ext_restD [OF trace_emit_frame(5)] ext_restD [OF trace_emit_frame(7)]
lemmas trace_emit_cpu_part [simp] = ext_rest_cpu_part [OF trace_emit_frame(1)]
  ext_rest_cpu_part [OF trace_emit_frame(3)] ext_rest_cpu_part [OF trace_emit_frame(5)]
  ext_rest_cpu_part [OF trace_emit_frame(7)]

lemma log_only_bitmaps [simp]:
  "mSABIrqPending (raw_note E k cy a b d e c) = mSABIrqPending c"
  "mSABIrqEnabled (raw_note E k cy a b d e c) = mSABIrqEnabled c"
  "mSABIrqPending (sab_irq_trace_emit E ie s p bo n c) = mSABIrqPending c"
  "mSABIrqEnabled (sab_irq_trace_emit E ie s p bo n c) = mSABIrqEnabled c"
  "mSABIrqPending (em8051_trace_emit E t ad v c) = mSABIrqPending c"
  "mSABIrqEnabled (em8051_trace_emit E t ad v c) = mSABIrqEnabled c"
  "mSABIrqPending (emu_cpu_irq_write E ix iv cy c) = mSABIrqPending c"
  "mSABIrqEnabled (emu_cpu_irq_write E ix iv cy c) = mSABIrqEnabled c"
  "mSABIrqPending (sfr_set i x c) = mSABIrqPending c" "mSABIrqEnabled (sfr_set i x c) = mSABIrqEnabled c"
  "mSABIrqPending (sfr_mod i f c) = mSABIrqPending c" "mSABIrqEnabled (sfr_mod i f c) = mSABIrqEnabled c"
  by (simp_all add: emit_defs sfr_set_def sfr_mod_def)

end
