(* ===== verification/Ports.thy ===== *)
theory Ports
  imports Frame
begin

text \<open>
  The virtual port pins and the external-interrupt lines of \<^verbatim>\<open>core.c\<close>: which pin a source
  samples, how a pin level resolves from the CPU's latch and the external drive, how a level
  change becomes a request, and the bitmaps of pending and enabled interrupt sources
  (\<open>sab_irq_sync\<close>).
\<close>

subsection \<open>Source numbering\<close>

fun external_index :: "em8051_sab_external_source \<Rightarrow> nat" where
  "external_index EM8051_SAB_EXTERNAL_INT0 = 0"
| "external_index EM8051_SAB_EXTERNAL_INT1 = 1"
| "external_index EM8051_SAB_EXTERNAL_INT2 = 2"
| "external_index EM8051_SAB_EXTERNAL_INT3 = 3"
| "external_index EM8051_SAB_EXTERNAL_INT4 = 4"
| "external_index EM8051_SAB_EXTERNAL_INT5 = 5"
| "external_index EM8051_SAB_EXTERNAL_INT6 = 6"

definition external_sources :: "em8051_sab_external_source list" where
  "external_sources =
     [EM8051_SAB_EXTERNAL_INT0, EM8051_SAB_EXTERNAL_INT1, EM8051_SAB_EXTERNAL_INT2,
      EM8051_SAB_EXTERNAL_INT3, EM8051_SAB_EXTERNAL_INT4, EM8051_SAB_EXTERNAL_INT5,
      EM8051_SAB_EXTERNAL_INT6]"

text \<open>A C enumeration value is an integer; one outside the enumeration names no source.\<close>

definition external_source_of :: "int \<Rightarrow> em8051_sab_external_source option" where
  "external_source_of n = (if 0 \<le> n \<and> n < 7 then Some (external_sources ! nat n) else None)"

fun irq_index :: "em8051_sab_irq_source \<Rightarrow> nat" where
  "irq_index EM8051_SAB_IRQ_INT0 = 0"
| "irq_index EM8051_SAB_IRQ_TIMER0 = 1"
| "irq_index EM8051_SAB_IRQ_INT1 = 2"
| "irq_index EM8051_SAB_IRQ_TIMER1 = 3"
| "irq_index EM8051_SAB_IRQ_UART = 4"
| "irq_index EM8051_SAB_IRQ_TIMER2 = 5"
| "irq_index EM8051_SAB_IRQ_ADC = 6"
| "irq_index EM8051_SAB_IRQ_INT2 = 7"
| "irq_index EM8051_SAB_IRQ_INT3 = 8"
| "irq_index EM8051_SAB_IRQ_INT4 = 9"
| "irq_index EM8051_SAB_IRQ_INT5 = 10"
| "irq_index EM8051_SAB_IRQ_INT6 = 11"

definition irq_sources :: "em8051_sab_irq_source list" where
  "irq_sources =
     [EM8051_SAB_IRQ_INT0, EM8051_SAB_IRQ_TIMER0, EM8051_SAB_IRQ_INT1, EM8051_SAB_IRQ_TIMER1,
      EM8051_SAB_IRQ_UART, EM8051_SAB_IRQ_TIMER2, EM8051_SAB_IRQ_ADC, EM8051_SAB_IRQ_INT2,
      EM8051_SAB_IRQ_INT3, EM8051_SAB_IRQ_INT4, EM8051_SAB_IRQ_INT5, EM8051_SAB_IRQ_INT6]"

definition SAB_IRQ_BIT :: "em8051_sab_irq_source \<Rightarrow> u16" where
  "SAB_IRQ_BIT aSource = push_bit (irq_index aSource) 1"

subsection \<open>Ports\<close>

abbreviation (input) EM8051_SAB_PORT_P1 :: u8 where "EM8051_SAB_PORT_P1 \<equiv> 0x90"
abbreviation (input) EM8051_SAB_PORT_P3 :: u8 where "EM8051_SAB_PORT_P3 \<equiv> 0xB0"
abbreviation (input) EM8051_SAB_PORT_P4 :: u8 where "EM8051_SAB_PORT_P4 \<equiv> 0xE8"
abbreviation (input) EM8051_SAB_PORT_P5 :: u8 where "EM8051_SAB_PORT_P5 \<equiv> 0xF8"

fun sab_external_pin :: "em8051_sab_external_source \<Rightarrow> u8 \<times> u8" where
  "sab_external_pin EM8051_SAB_EXTERNAL_INT0 = (EM8051_SAB_PORT_P3, 0x04)"
| "sab_external_pin EM8051_SAB_EXTERNAL_INT1 = (EM8051_SAB_PORT_P3, 0x08)"
| "sab_external_pin EM8051_SAB_EXTERNAL_INT2 = (EM8051_SAB_PORT_P1, 0x10)"
| "sab_external_pin EM8051_SAB_EXTERNAL_INT3 = (EM8051_SAB_PORT_P1, 0x01)"
| "sab_external_pin EM8051_SAB_EXTERNAL_INT4 = (EM8051_SAB_PORT_P1, 0x02)"
| "sab_external_pin EM8051_SAB_EXTERNAL_INT5 = (EM8051_SAB_PORT_P1, 0x04)"
| "sab_external_pin EM8051_SAB_EXTERNAL_INT6 = (EM8051_SAB_PORT_P1, 0x08)"

definition sab_external_sample_bit :: "em8051_sab_external_source \<Rightarrow> u8" where
  "sab_external_sample_bit aSource = push_bit (external_index aSource) 1"

text \<open>The register that holds a source's request flag, by index, and the flag's mask.\<close>

definition sab_external_request_sfr :: "em8051_sab_external_source \<Rightarrow> nat \<times> u8" where
  "sab_external_request_sfr aSource =
     (if aSource = EM8051_SAB_EXTERNAL_INT0 then (REG_TCON, TCONMASK_IE0)
      else if aSource = EM8051_SAB_EXTERNAL_INT1 then (REG_TCON, TCONMASK_IE1)
      else (SAB_IRCON, push_bit (external_index aSource - 2) SAB_IRCONMASK_IEX2))"

definition sab_port_index :: "em8051 \<Rightarrow> u8 \<Rightarrow> nat option" where
  "sab_port_index c aPort =
     (if \<not> is_sab c then None
      else if aPort = EM8051_SAB_PORT_P1 then Some 0
      else if aPort = EM8051_SAB_PORT_P3 then Some 1
      else if aPort = EM8051_SAB_PORT_P4 then Some 2
      else if aPort = EM8051_SAB_PORT_P5 then Some 3
      else None)"

definition em8051_sab_port_get_latch :: "em8051 \<Rightarrow> u8 \<Rightarrow> u8 option" where
  "em8051_sab_port_get_latch c aPort =
     (case sab_port_index c aPort of None \<Rightarrow> None | Some _ \<Rightarrow> Some (mSFR c (unat (aPort - 0x80))))"

definition em8051_sab_port_get_pins :: "em8051 \<Rightarrow> u8 \<Rightarrow> u8 option" where
  "em8051_sab_port_get_pins c aPort =
     (case sab_port_index c aPort of
        None \<Rightarrow> None
      | Some index \<Rightarrow>
          let latch = mSFR c (unat (aPort - 0x80))
          in Some (latch AND (NOT (mSABPortExternalMask c index) OR mSABPortExternalLevels c index)))"

subsection \<open>Level requests and the controller's bitmaps\<close>

definition maintain_level_request ::
    "em8051_callbacks \<Rightarrow> u8 \<Rightarrow> em8051_sab_external_source \<Rightarrow> em8051 \<Rightarrow> em8051" where
  "maintain_level_request E pins source c =
     (let is0 = (source = EM8051_SAB_EXTERNAL_INT0);
          pin_mask = (if is0 then 0x04 else 0x08);
          mode_mask = (if is0 then TCONMASK_IT0 else TCONMASK_IT1);
          request_mask = (if is0 then TCONMASK_IE0 else TCONMASK_IE1);
          sample_bit = sab_external_sample_bit source
      in if mSFR c REG_TCON AND mode_mask \<noteq> 0 then
           c\<lparr>mSABExternalLevelAsserted := mSABExternalLevelAsserted c AND NOT sample_bit\<rparr>
         else if pins AND pin_mask = 0 then
           (let c1 = emu_cpu_irq_write E REG_TCON (mSFR c REG_TCON OR request_mask)
                       (mMachineCycleCount c) c
            in c1\<lparr>mSABExternalLevelAsserted := mSABExternalLevelAsserted c1 OR sample_bit\<rparr>)
         else if mSABExternalLevelAsserted c AND sample_bit \<noteq> 0 then
           (sfr_mod REG_TCON (\<lambda>v. v AND NOT request_mask) c)
             \<lparr>mSABExternalLevelAsserted := mSABExternalLevelAsserted c AND NOT sample_bit\<rparr>
         else c)"

definition sab_external_maintain_level_requests :: "em8051_callbacks \<Rightarrow> em8051 \<Rightarrow> em8051" where
  "sab_external_maintain_level_requests E c =
     (if \<not> is_sab c then c
      else case em8051_sab_port_get_pins c EM8051_SAB_PORT_P3 of
        None \<Rightarrow> c
      | Some pins \<Rightarrow>
          maintain_level_request E pins EM8051_SAB_EXTERNAL_INT1
            (maintain_level_request E pins EM8051_SAB_EXTERNAL_INT0 c))"

definition irq_pending_bits :: "u8 \<Rightarrow> u8 \<Rightarrow> u8 \<Rightarrow> u16" where
  "irq_pending_bits tcon scon ircon =
     (if tcon AND TCONMASK_IE0 \<noteq> 0 then SAB_IRQ_BIT EM8051_SAB_IRQ_INT0 else 0) OR
     (if tcon AND TCONMASK_TF0 \<noteq> 0 then SAB_IRQ_BIT EM8051_SAB_IRQ_TIMER0 else 0) OR
     (if tcon AND TCONMASK_IE1 \<noteq> 0 then SAB_IRQ_BIT EM8051_SAB_IRQ_INT1 else 0) OR
     (if tcon AND TCONMASK_TF1 \<noteq> 0 then SAB_IRQ_BIT EM8051_SAB_IRQ_TIMER1 else 0) OR
     (if scon AND (SCONMASK_RI OR SCONMASK_TI) \<noteq> 0 then SAB_IRQ_BIT EM8051_SAB_IRQ_UART else 0) OR
     (if ircon AND (SAB_IRCONMASK_TF2 OR SAB_IRCONMASK_EXF2) \<noteq> 0
      then SAB_IRQ_BIT EM8051_SAB_IRQ_TIMER2 else 0) OR
     (if ircon AND SAB_IRCONMASK_IADC \<noteq> 0 then SAB_IRQ_BIT EM8051_SAB_IRQ_ADC else 0) OR
     (if ircon AND SAB_IRCONMASK_IEX2 \<noteq> 0 then SAB_IRQ_BIT EM8051_SAB_IRQ_INT2 else 0) OR
     (if ircon AND SAB_IRCONMASK_IEX3 \<noteq> 0 then SAB_IRQ_BIT EM8051_SAB_IRQ_INT3 else 0) OR
     (if ircon AND SAB_IRCONMASK_IEX4 \<noteq> 0 then SAB_IRQ_BIT EM8051_SAB_IRQ_INT4 else 0) OR
     (if ircon AND SAB_IRCONMASK_IEX5 \<noteq> 0 then SAB_IRQ_BIT EM8051_SAB_IRQ_INT5 else 0) OR
     (if ircon AND SAB_IRCONMASK_IEX6 \<noteq> 0 then SAB_IRQ_BIT EM8051_SAB_IRQ_INT6 else 0)"

text \<open>The two loops over \<open>IEN0\<close> (sources 0 to 4) and \<open>IEN1\<close> (sources 6 to 11), with Timer 2 between.\<close>

definition irq_enabled_bits :: "u8 \<Rightarrow> u8 \<Rightarrow> u16" where
  "irq_enabled_bits ien0 ien1 =
     (let e0 = fold (\<lambda>source enabled.
                 if ien0 AND push_bit source 1 \<noteq> 0 then enabled OR push_bit source 1 else enabled)
                 [0..<5] 0;
          e1 = (if ien0 AND IEMASK_ET2 \<noteq> 0 \<or> ien1 AND SAB_IEN1MASK_EXEN2 \<noteq> 0
                then e0 OR SAB_IRQ_BIT EM8051_SAB_IRQ_TIMER2 else e0)
      in fold (\<lambda>source enabled.
           if ien1 AND push_bit (source - 6) 1 \<noteq> 0 then enabled OR push_bit source 1 else enabled)
           [6..<12] e1)"

definition sab_irq_sync :: "em8051_callbacks \<Rightarrow> em8051 \<Rightarrow> em8051" where
  "sab_irq_sync E c =
     (let scon = mSFR c REG_SCON;
          ien0 = mSFR c SAB_IEN0;
          ien1 = mSFR c SAB_IEN1;
          ircon = mSFR c SAB_IRCON;
          c1 = sab_external_maintain_level_requests E c;
          tcon = mSFR c1 REG_TCON
      in c1\<lparr>mSABIrqPending := irq_pending_bits tcon scon ircon,
            mSABIrqEnabled := irq_enabled_bits ien0 ien1\<rparr>)"

subsection \<open>Observing a level change\<close>

definition sab_external_request_is_set :: "em8051_sab_external_source \<Rightarrow> em8051 \<Rightarrow> bool" where
  "sab_external_request_is_set aSource c =
     (let (i, request_mask) = sab_external_request_sfr aSource in mSFR c i AND request_mask \<noteq> 0)"

definition sab_external_trace_emit :: "em8051_callbacks \<Rightarrow> em8051_sab_external_source \<Rightarrow> bool \<Rightarrow> bool
    \<Rightarrow> em8051_sab_external_trace_trigger \<Rightarrow> em8051 \<Rightarrow> em8051" where
  "sab_external_trace_emit E aSource aOldLevel aNewLevel aTrigger c =
     emit (sab_external_trace E) (EvExternal \<lparr>ex_machine_cycle = mMachineCycleCount c,
       ex_source = aSource, ex_old_level = aOldLevel, ex_new_level = aNewLevel,
       ex_trigger = aTrigger, ex_request_pending = sab_external_request_is_set aSource c\<rparr>) c"

text \<open>
  The classification of a level change: whether it requests an interrupt, the trigger reported,
  and the state after the bookkeeping of level mode (INT0 and INT1 with IT0 or IT1 clear).
\<close>

definition sab_external_classify ::
    "em8051_sab_external_source \<Rightarrow> bool \<Rightarrow> bool \<Rightarrow> em8051
      \<Rightarrow> bool \<times> em8051_sab_external_trace_trigger \<times> em8051" where
  "sab_external_classify aSource aOldLevel aNewLevel c =
     (let (i, request_mask) = sab_external_request_sfr aSource
      in if aSource = EM8051_SAB_EXTERNAL_INT0 \<or> aSource = EM8051_SAB_EXTERNAL_INT1 then
           (let mode_mask = (if aSource = EM8051_SAB_EXTERNAL_INT0 then TCONMASK_IT0 else TCONMASK_IT1);
                sample_bit = sab_external_sample_bit aSource
            in if mSFR c REG_TCON AND mode_mask \<noteq> 0 then
                 (if aOldLevel \<and> \<not> aNewLevel
                  then (True, EM8051_SAB_EXTERNAL_TRACE_FALLING_EDGE, c)
                  else (False, EM8051_SAB_EXTERNAL_TRACE_NON_QUALIFYING, c))
               else if \<not> aNewLevel then
                 (True, EM8051_SAB_EXTERNAL_TRACE_LOW_LEVEL_ASSERT,
                  c\<lparr>mSABExternalLevelAsserted := mSABExternalLevelAsserted c OR sample_bit\<rparr>)
               else
                 (let c1 = (if mSABExternalLevelAsserted c AND sample_bit \<noteq> 0
                            then sfr_mod i (\<lambda>v. v AND NOT request_mask) c else c)
                  in (False, EM8051_SAB_EXTERNAL_TRACE_LEVEL_RELEASE,
                      c1\<lparr>mSABExternalLevelAsserted := mSABExternalLevelAsserted c1 AND NOT sample_bit\<rparr>)))
         else if aSource = EM8051_SAB_EXTERNAL_INT2 \<or> aSource = EM8051_SAB_EXTERNAL_INT3 then
           (let selection_mask = (if aSource = EM8051_SAB_EXTERNAL_INT2
                                  then SAB_T2CONMASK_I2FR else SAB_T2CONMASK_I3FR);
                select_rising = (mSFR c SAB_T2CON AND selection_mask \<noteq> 0);
                qualifying = (if select_rising then \<not> aOldLevel \<and> aNewLevel
                              else aOldLevel \<and> \<not> aNewLevel)
            in (qualifying,
                if qualifying then (if select_rising then EM8051_SAB_EXTERNAL_TRACE_RISING_EDGE
                                    else EM8051_SAB_EXTERNAL_TRACE_FALLING_EDGE)
                else EM8051_SAB_EXTERNAL_TRACE_NON_QUALIFYING, c))
         else
           (let qualifying = (\<not> aOldLevel \<and> aNewLevel)
            in (qualifying,
                if qualifying then EM8051_SAB_EXTERNAL_TRACE_RISING_EDGE
                else EM8051_SAB_EXTERNAL_TRACE_NON_QUALIFYING, c)))"

definition sab_external_observe_change ::
    "em8051_callbacks \<Rightarrow> em8051_sab_external_source \<Rightarrow> bool \<Rightarrow> bool \<Rightarrow> em8051 \<Rightarrow> em8051" where
  "sab_external_observe_change E aSource aOldLevel aNewLevel c =
     (let (i, request_mask) = sab_external_request_sfr aSource;
          (qualifying, trigger, c1) = sab_external_classify aSource aOldLevel aNewLevel c;
          c2 = (if qualifying
                then emu_cpu_irq_write E i (mSFR c1 i OR request_mask) (mMachineCycleCount c1) c1
                else c1);
          c3 = sab_irq_sync E c2
      in sab_external_trace_emit E aSource aOldLevel aNewLevel trigger c3)"

text \<open>One iteration of the loop of \<open>sab_external_sample_port\<close>.\<close>

definition sab_external_sample_source ::
    "em8051_callbacks \<Rightarrow> u8 \<Rightarrow> u8 \<Rightarrow> em8051_sab_external_source \<Rightarrow> em8051 \<Rightarrow> em8051" where
  "sab_external_sample_source E aPort pins source c =
     (let (source_port, pin_mask) = sab_external_pin source;
          sample_bit = sab_external_sample_bit source
      in if source_port \<noteq> aPort then c
         else let old_level = (mSABExternalSampledLevels c AND sample_bit \<noteq> 0);
                  new_level = (pins AND pin_mask \<noteq> 0)
              in if old_level = new_level then c
                 else let c1 = mSABExternalSampledLevels_update
                                 (\<lambda>s. if new_level then s OR sample_bit else s AND NOT sample_bit) c
                      in sab_external_observe_change E source old_level new_level c1)"

definition sab_external_sample_port :: "em8051_callbacks \<Rightarrow> u8 \<Rightarrow> em8051 \<Rightarrow> em8051" where
  "sab_external_sample_port E aPort c =
     (if \<not> is_sab c then c
      else case em8051_sab_port_get_pins c aPort of
        None \<Rightarrow> c
      | Some pins \<Rightarrow> fold (sab_external_sample_source E aPort pins) external_sources c)"

subsection \<open>Driving and releasing pins\<close>

definition em8051_sab_port_drive ::
    "em8051_callbacks \<Rightarrow> u8 \<Rightarrow> u8 \<Rightarrow> u8 \<Rightarrow> em8051 \<Rightarrow> bool \<times> em8051" where
  "em8051_sab_port_drive E aPort aMask aLevels c =
     (case sab_port_index c aPort of
        None \<Rightarrow> (False, c)
      | Some index \<Rightarrow>
          let c1 = mSABPortExternalLevels_update
                     (\<lambda>l. l(index := (l index AND NOT aMask) OR (aLevels AND aMask))) c;
              c2 = mSABPortExternalMask_update (\<lambda>m. m(index := m index OR aMask)) c1
          in (True, sab_external_sample_port E aPort c2))"

definition em8051_sab_port_release ::
    "em8051_callbacks \<Rightarrow> u8 \<Rightarrow> u8 \<Rightarrow> em8051 \<Rightarrow> bool \<times> em8051" where
  "em8051_sab_port_release E aPort aMask c =
     (case sab_port_index c aPort of
        None \<Rightarrow> (False, c)
      | Some index \<Rightarrow>
          let c1 = mSABPortExternalMask_update (\<lambda>m. m(index := m index AND NOT aMask)) c;
              c2 = mSABPortExternalLevels_update (\<lambda>l. l(index := l index AND NOT aMask)) c1
          in (True, sab_external_sample_port E aPort c2))"

definition em8051_sab_external_drive ::
    "em8051_callbacks \<Rightarrow> int \<Rightarrow> bool \<Rightarrow> em8051 \<Rightarrow> bool \<times> em8051" where
  "em8051_sab_external_drive E aSource aLevel c =
     (if \<not> is_sab c then (False, c)
      else case external_source_of aSource of
        None \<Rightarrow> (False, c)
      | Some source \<Rightarrow>
          let (port, mask) = sab_external_pin source
          in em8051_sab_port_drive E port mask (if aLevel then mask else 0) c)"

definition em8051_sab_external_release ::
    "em8051_callbacks \<Rightarrow> int \<Rightarrow> em8051 \<Rightarrow> bool \<times> em8051" where
  "em8051_sab_external_release E aSource c =
     (if \<not> is_sab c then (False, c)
      else case external_source_of aSource of
        None \<Rightarrow> (False, c)
      | Some source \<Rightarrow>
          let (port, mask) = sab_external_pin source
          in em8051_sab_port_release E port mask c)"

subsection \<open>Frames\<close>

lemma ext_rest_maintain_level_request: "ext_rest (maintain_level_request E pins s c) = ext_rest c"
  by (simp add: maintain_level_request_def Let_def)

lemmas maintain_level_request_fields [simp] = ext_restD [OF ext_rest_maintain_level_request]

lemma maintain_level_request_sfr:
  "i \<noteq> REG_TCON \<Longrightarrow> mSFR (maintain_level_request E pins s c) i = mSFR c i"
  by (simp add: maintain_level_request_def Let_def)

lemma ext_rest_maintain_level_requests:
  "ext_rest (sab_external_maintain_level_requests E c) = ext_rest c"
  by (simp add: sab_external_maintain_level_requests_def ext_rest_maintain_level_request
      split: option.split)

lemmas maintain_level_requests_fields [simp] = ext_restD [OF ext_rest_maintain_level_requests]

lemma maintain_level_requests_sfr [simp]:
  "i \<noteq> REG_TCON \<Longrightarrow> mSFR (sab_external_maintain_level_requests E c) i = mSFR c i"
  by (simp add: sab_external_maintain_level_requests_def maintain_level_request_sfr
      split: option.split)

lemma ext_rest_sab_irq_sync: "ext_rest (sab_irq_sync E c) = ext_rest c"
  by (simp add: sab_irq_sync_def Let_def ext_rest_maintain_level_requests)

lemmas sab_irq_sync_fields [simp] = ext_restD [OF ext_rest_sab_irq_sync]

lemma sab_irq_sync_sfr [simp]: "i \<noteq> REG_TCON \<Longrightarrow> mSFR (sab_irq_sync E c) i = mSFR c i"
  by (simp add: sab_irq_sync_def Let_def)

lemma classify_frame:
  "sab_external_classify s a b c = (q, t, c') \<Longrightarrow>
     ext_rest c' = ext_rest c \<and> (\<forall>i. i \<noteq> REG_TCON \<longrightarrow> mSFR c' i = mSFR c i)"
  by (auto simp: sab_external_classify_def sab_external_request_sfr_def Let_def split: if_splits)

lemma request_sfr_cases: "fst (sab_external_request_sfr s) = REG_TCON \<or> fst (sab_external_request_sfr s) = SAB_IRCON"
  by (simp add: sab_external_request_sfr_def)

lemma observe_change_frame:
  "ext_rest (sab_external_observe_change E s a b c) = ext_rest c \<and>
   (\<forall>i. i \<noteq> REG_TCON \<longrightarrow> i \<noteq> SAB_IRCON \<longrightarrow> mSFR (sab_external_observe_change E s a b c) i = mSFR c i)"
proof -
  obtain q t c1 where cl: "sab_external_classify s a b c = (q, t, c1)"
    by (cases "sab_external_classify s a b c") auto
  obtain i m where rq: "sab_external_request_sfr s = (i, m)"
    by (cases "sab_external_request_sfr s") auto
  show ?thesis
    using classify_frame [OF cl] request_sfr_cases [of s]
    by (auto simp: sab_external_observe_change_def cl rq Let_def sab_external_trace_emit_def
        ext_rest_sab_irq_sync)
qed

lemma sample_source_frame:
  "ext_rest (sab_external_sample_source E p pins s c) = ext_rest c \<and>
   (\<forall>i. i \<noteq> REG_TCON \<longrightarrow> i \<noteq> SAB_IRCON \<longrightarrow> mSFR (sab_external_sample_source E p pins s c) i = mSFR c i)"
  by (simp add: sab_external_sample_source_def Let_def observe_change_frame split: prod.split)

lemma fold_sample_source_frame:
  "ext_rest (fold (sab_external_sample_source E p pins) ss c) = ext_rest c \<and>
   (\<forall>i. i \<noteq> REG_TCON \<longrightarrow> i \<noteq> SAB_IRCON
     \<longrightarrow> mSFR (fold (sab_external_sample_source E p pins) ss c) i = mSFR c i)"
  by (induction ss arbitrary: c) (simp_all add: sample_source_frame)

lemma ext_rest_sample_port: "ext_rest (sab_external_sample_port E p c) = ext_rest c"
  by (simp add: sab_external_sample_port_def fold_sample_source_frame split: option.split)

lemmas sample_port_fields [simp] = ext_restD [OF ext_rest_sample_port]

lemma sample_port_sfr [simp]:
  "i \<noteq> REG_TCON \<Longrightarrow> i \<noteq> SAB_IRCON \<Longrightarrow> mSFR (sab_external_sample_port E p c) i = mSFR c i"
  by (simp add: sab_external_sample_port_def fold_sample_source_frame split: option.split)

end
