(* ===== verification/Adc.thy ===== *)
theory Adc
  imports Ports
begin

text \<open>
  The single-conversion A/D converter of \<^verbatim>\<open>core.c\<close>: reference validation and the integer
  conversion, the start request coalesced through the SFR write gateway, and the fifteen-cycle
  conversion driven by \<open>sab_adc_tick\<close>.
\<close>

subsection \<open>Operations\<close>

definition em8051_sab_adc_set_input :: "u8 \<Rightarrow> u16 \<Rightarrow> em8051 \<Rightarrow> bool \<times> em8051" where
  "em8051_sab_adc_set_input aChannel aNormalizedInput c =
     (if \<not> is_sab c \<or> aChannel \<ge> 8 then (False, c)
      else (True, c\<lparr>mSABADCInputs := (mSABADCInputs c)(unat aChannel := aNormalizedInput)\<rparr>))"

definition sab_adc_set_busy :: "bool \<Rightarrow> em8051 \<Rightarrow> em8051" where
  "sab_adc_set_busy aBusy c =
     sfr_mod SAB_ADCON (\<lambda>v. if aBusy then v OR SAB_ADCONMASK_BSY else v AND NOT SAB_ADCONMASK_BSY)
       (c\<lparr>mSABADCBusy := aBusy\<rparr>)"

definition sab_adc_references_valid :: "u8 \<Rightarrow> bool" where
  "sab_adc_references_valid aDAPR =
     (let lower = aDAPR AND 0x0f;
          upper_nibble = drop_bit 4 aDAPR;
          upper = (if upper_nibble = 0 then 16 else upper_nibble)
      in if lower > 12 \<or> (upper_nibble \<noteq> 0 \<and> upper_nibble < 4) \<or> upper < lower then False
         else upper - lower \<ge> 4)"

definition sab_adc_convert :: "u16 \<Rightarrow> u8 \<Rightarrow> u8" where
  "sab_adc_convert aInput aDAPR =
     (let lower = ucast (aDAPR AND 0x0f) :: u32;
          upper_nibble = ucast (drop_bit 4 aDAPR) :: u32;
          upper = (if upper_nibble = 0 then 16 else upper_nibble);
          scaled_input = 16 * ucast aInput;
          lower_endpoint = 65535 * lower;
          upper_endpoint = 65535 * upper
      in if scaled_input \<le> lower_endpoint then 0
         else if scaled_input \<ge> upper_endpoint then 0xff
         else let numerator = (scaled_input - lower_endpoint) * 256;
                  denominator = 65535 * (upper - lower);
                  result = numerator div denominator
              in ucast (if result > 0xff then 0xff else result))"

definition sab_adc_request_start :: "em8051 \<Rightarrow> em8051" where
  "sab_adc_request_start c =
     (let c1 = (if \<not> mSABADCStartPending c
                then c\<lparr>mSABADCArmRestart := mSABADCActive c \<or> mSABADCArmed c\<rparr> else c)
      in c1\<lparr>mSABADCActive := False, mSABADCArmed := False, mSABADCCycles := 0,
            mSABADCStartPending := True\<rparr>)"

definition sab_adc_finish_sfr_transaction :: "em8051 \<Rightarrow> em8051" where
  "sab_adc_finish_sfr_transaction c =
     (if \<not> is_sab c then c
      else
        let c1 = (if mSABSfrWriteDepth c \<noteq> 0 then c\<lparr>mSABSfrWriteDepth := mSABSfrWriteDepth c - 1\<rparr> else c);
            c2 = sab_adc_set_busy (mSABADCBusy c1) c1
        in if mSABSfrWriteDepth c2 = 0 \<and> mSABADCStartPending c2
           then c2\<lparr>mSABADCStartPending := False, mSABADCArmed := True\<rparr> else c2)"

text \<open>The cycle that starts an armed conversion: everything the conversion will use is latched.\<close>

definition sab_adc_begin :: "em8051_callbacks \<Rightarrow> u64 \<Rightarrow> em8051 \<Rightarrow> em8051" where
  "sab_adc_begin E machine_cycle c =
     (let adcon = mSFR c SAB_ADCON;
          channel = adcon AND SAB_ADCONMASK_MX;
          dapr = mSFR c SAB_DAPR;
          c1 = c\<lparr>mSABADCLatchedChannel := channel, mSABADCLatchedDAPR := dapr,
                 mSABADCLatchedInput := mSABADCInputs c (unat channel),
                 mSABADCReferenceValid := sab_adc_references_valid dapr,
                 mSABADCContinuousRequested := (adcon AND SAB_ADCONMASK_ADM \<noteq> 0),
                 mSABADCArmed := False, mSABADCActive := True, mSABADCCycles := 1\<rparr>;
          c2 = sab_adc_set_busy True c1;
          c3 = sab_adc_trace_emit E (if mSABADCArmRestart c2 then EM8051_SAB_ADC_TRACE_RESTART
                                     else EM8051_SAB_ADC_TRACE_START) machine_cycle c2
      in c3\<lparr>mSABADCArmRestart := False\<rparr>)"

definition sab_adc_complete :: "em8051_callbacks \<Rightarrow> u64 \<Rightarrow> em8051 \<Rightarrow> em8051" where
  "sab_adc_complete E machine_cycle c =
     (let c1 = (if mSABADCReferenceValid c
                then sfr_set SAB_ADDAT (sab_adc_convert (mSABADCLatchedInput c) (mSABADCLatchedDAPR c)) c
                else c);
          c2 = sab_adc_set_busy False (c1\<lparr>mSABADCActive := False\<rparr>);
          c3 = emu_cpu_irq_write E SAB_IRCON (mSFR c2 SAB_IRCON OR SAB_IRCONMASK_IADC) machine_cycle c2;
          c4 = sab_irq_sync E c3
      in sab_adc_trace_emit E EM8051_SAB_ADC_TRACE_COMPLETE machine_cycle c4)"

definition sab_adc_tick :: "em8051_callbacks \<Rightarrow> em8051 \<Rightarrow> em8051" where
  "sab_adc_tick E c =
     (if \<not> is_sab c \<or> mSABADCStartPending c then c
      else
        let machine_cycle = mMachineCycleCount c + 1
        in if mSABADCArmed c then sab_adc_begin E machine_cycle c
           else if \<not> mSABADCActive c then c
           else
             let c1 = c\<lparr>mSABADCCycles := mSABADCCycles c + 1\<rparr>
             in if mSABADCCycles c1 < 15 then c1 else sab_adc_complete E machine_cycle c1)"

subsection \<open>The conversion as exact arithmetic\<close>

text \<open>
  The reference voltages in sixteenths and the level of an input between them, over the natural
  numbers: nothing here can wrap around.
\<close>

definition adc_lower :: "u8 \<Rightarrow> nat" where "adc_lower d = unat d mod 16"
definition adc_upper :: "u8 \<Rightarrow> nat" where
  "adc_upper d = (if unat d div 16 = 0 then 16 else unat d div 16)"

definition adc_level :: "nat \<Rightarrow> u8 \<Rightarrow> nat" where
  "adc_level i d =
     (if 16 * i \<le> 65535 * adc_lower d then 0
      else if 16 * i \<ge> 65535 * adc_upper d then 255
      else (16 * i - 65535 * adc_lower d) * 256 div (65535 * (adc_upper d - adc_lower d)))"

lemma adc_level_bound: "i \<le> 65535 \<Longrightarrow> adc_level i d \<le> 255"
proof (cases "16 * i \<le> 65535 * adc_lower d \<or> 16 * i \<ge> 65535 * adc_upper d")
  case True then show ?thesis by (auto simp: adc_level_def)
next
  case False
  then have "(16 * i - 65535 * adc_lower d) * 256 < 65535 * (adc_upper d - adc_lower d) * 256"
    by (simp add: diff_mult_distrib2 diff_less_mono)
  then have "(16 * i - 65535 * adc_lower d) * 256 div (65535 * (adc_upper d - adc_lower d)) < 256"
    by (simp add: less_mult_imp_div_less mult.commute)
  with False show ?thesis by (simp add: adc_level_def)
qed

lemma unat_adc_convert: "unat (sab_adc_convert i d) = adc_level (unat i) d"
proof -
  define lo where "lo = (ucast (d AND 0x0f) :: u32)"
  define un where "un = (ucast (drop_bit 4 d) :: u32)"
  define up where "up = (if un = 0 then 16 else un)"
  define s where "s = 16 * (ucast i :: u32)"
  have i: "unat i \<le> 65535" using unat_u16 [of i] by simp
  have lo: "unat lo = adc_lower d" by (simp only: lo_def adc_lower_def ucast_up_simps unat_low_nibble)
  have lo16: "adc_lower d < 16" by (simp add: adc_lower_def)
  have un: "unat un = unat d div 16" by (simp only: un_def ucast_up_simps unat_high_nibble)
  have "(un = 0) = (unat d div 16 = 0)" using un by (metis unat_eq_zero)
  then have up: "unat up = adc_upper d" using un by (simp add: up_def adc_upper_def)
  have up16: "adc_upper d \<le> 16" using unat_u8 [of d] by (auto simp: adc_upper_def)
  have s: "unat s = 16 * unat i" using i unat_mult_ok [of "16 :: u32" "ucast i"] by (simp add: s_def)
  have le: "unat (65535 * lo) = 65535 * adc_lower d"
    using lo16 unat_mult_ok [of "65535 :: u32" lo] by (simp add: lo)
  have ue: "unat (65535 * up) = 65535 * adc_upper d"
    using up16 unat_mult_ok [of "65535 :: u32" up] by (simp add: up)
  have conv: "sab_adc_convert i d =
      (if s \<le> 65535 * lo then 0 else if s \<ge> 65535 * up then 0xff
       else let r = (s - 65535 * lo) * 256 div (65535 * (up - lo)) in ucast (if r > 0xff then 0xff else r))"
    by (simp only: sab_adc_convert_def Let_def lo_def un_def up_def s_def)
  show ?thesis
  proof (cases "s \<le> 65535 * lo \<or> s \<ge> 65535 * up")
    case True
    then show ?thesis by (auto simp: conv adc_level_def word_le_nat_alt le ue s)
  next
    case False
    then have mid: "65535 * adc_lower d < 16 * unat i" "16 * unat i < 65535 * adc_upper d"
      by (auto simp: word_le_nat_alt le ue s not_le)
    have d1: "unat (s - 65535 * lo) = 16 * unat i - 65535 * adc_lower d"
      using mid by (simp add: unat_sub word_le_nat_alt le s)
    have d2: "unat (up - lo) = adc_upper d - adc_lower d"
      using mid by (simp add: unat_sub word_le_nat_alt lo up)
    have n: "unat ((s - 65535 * lo) * 256) = (16 * unat i - 65535 * adc_lower d) * 256"
      using i unat_mult_ok [of "s - 65535 * lo" 256] by (simp add: d1)
    have de: "unat (65535 * (up - lo)) = 65535 * (adc_upper d - adc_lower d)"
      using up16 unat_mult_ok [of "65535 :: u32" "up - lo"] by (simp add: d2)
    define r where "r = (s - 65535 * lo) * 256 div (65535 * (up - lo))"
    have r: "unat r = adc_level (unat i) d"
      using mid by (simp only: r_def unat_div n de adc_level_def not_le [symmetric] if_False)
    have r255: "unat r \<le> 255" using adc_level_bound [OF i] r by simp
    have "sab_adc_convert i d = ucast (if r > 0xff then 0xff else r)"
      using False by (simp add: conv r_def)
    also have "\<dots> = ucast r" using r255 by (simp add: word_less_nat_alt)
    finally show ?thesis using r r255 by (simp add: unsigned_ucast_eq take_bit_nat_eq_self)
  qed
qed
lemma adc_level_mono:
  assumes "i \<le> j" "j \<le> 65535"
  shows "adc_level i d \<le> adc_level j d"
proof (cases "16 * i \<le> 65535 * adc_lower d \<or> 16 * j \<ge> 65535 * adc_upper d")
  case True
  then show ?thesis
    using adc_level_bound [of i d] assms by (auto simp: adc_level_def)
next
  case False
  then have "\<not> 16 * j \<le> 65535 * adc_lower d" "\<not> 16 * i \<ge> 65535 * adc_upper d"
    using assms(1) by auto
  with False show ?thesis
    using assms(1) by (simp add: adc_level_def div_le_mono diff_le_mono)
qed

text \<open>
  C10. The 32-bit integer arithmetic of the converter is exact: for every input and every reference
  setting, also an invalid one, the result is the floor of the input's position between the two
  references in 256ths, clamped at the ends; nothing overflows, no division by zero is reached, and
  the result grows with the input.
\<close>

theorem adc_convert_exact:
  assumes "i \<le> j"
  shows "unat (sab_adc_convert i d) = adc_level (unat i) d \<and>
         sab_adc_convert i d \<le> sab_adc_convert j d"
  using assms unat_u16 [of j] adc_level_mono [of "unat i" "unat j" d]
  by (simp add: word_le_nat_alt unat_adc_convert)

theorem adc_convert_exact_witness:
  "unat (sab_adc_convert 0x6000 0x84) = 128 \<and> sab_adc_convert 0x6000 0x84 \<le> sab_adc_convert 0x7000 0x84"
  using adc_convert_exact [of "0x6000" "0x7000" "0x84"]
  by (simp add: adc_level_def adc_lower_def adc_upper_def)

subsection \<open>The fifteen-cycle conversion\<close>

text \<open>The converter \<open>k\<close> cycles into the conversion that was armed in state \<open>c\<close>.\<close>

definition adc_running :: "em8051 \<Rightarrow> nat \<Rightarrow> em8051 \<Rightarrow> bool" where
  "adc_running c k c' \<longleftrightarrow>
     is_sab c' \<and> \<not> mSABADCStartPending c' \<and> \<not> mSABADCArmed c' \<and> mSABADCActive c' \<and> mSABADCBusy c' \<and>
     mSFR c' SAB_ADCON AND SAB_ADCONMASK_BSY \<noteq> 0 \<and> mSABADCCycles c' = word_of_nat k \<and>
     mSABADCLatchedDAPR c' = mSFR c SAB_DAPR \<and>
     mSABADCLatchedInput c' = mSABADCInputs c (unat (mSFR c SAB_ADCON AND SAB_ADCONMASK_MX)) \<and>
     mSABADCReferenceValid c' = sab_adc_references_valid (mSFR c SAB_DAPR) \<and>
     mSFR c' SAB_ADDAT = mSFR c SAB_ADDAT"

lemma adc_begin_running:
  assumes "is_sab c" "\<not> mSABADCStartPending c" "mSABADCArmed c"
  shows "adc_running c 1 (sab_adc_tick E c)"
  using assms
  by (simp add: sab_adc_tick_def sab_adc_begin_def sab_adc_set_busy_def adc_running_def Let_def mask_bit_8
      bit_or_iff)

lemma adc_step_running:
  assumes "adc_running c k c'" "0 < k" "k < 14"
  shows "adc_running c (Suc k) (sab_adc_tick E c')"
proof -
  have "(word_of_nat k + 1 :: u8) = word_of_nat (Suc k)" by simp
  moreover have "(word_of_nat (Suc k) :: u8) < 15"
    using assms(2,3) by (simp add: word_less_nat_alt unat_of_nat take_bit_nat_eq_self del: of_nat_Suc)
  ultimately show ?thesis
    using assms by (simp add: adc_running_def sab_adc_tick_def Let_def add.commute del: of_nat_Suc)
qed

lemma adc_running_at:
  assumes "is_sab c" "\<not> mSABADCStartPending c" "mSABADCArmed c" "0 < k" "k \<le> 14"
  shows "adc_running c k ((sab_adc_tick E ^^ k) c)"
  using assms(4,5)
proof (induction k)
  case (Suc k)
  then show ?case
    using assms(1-3) adc_begin_running [of c E] adc_step_running [of c k "(sab_adc_tick E ^^ k) c" E]
    by (cases "k = 0") simp_all
qed simp

lemma adc_finish:
  assumes "adc_running c 14 c'"
  shows "mSFR (sab_adc_tick E c') SAB_ADDAT =
     (if sab_adc_references_valid (mSFR c SAB_DAPR)
      then sab_adc_convert (mSABADCInputs c (unat (mSFR c SAB_ADCON AND SAB_ADCONMASK_MX))) (mSFR c SAB_DAPR)
      else mSFR c SAB_ADDAT)"
   and "\<not> mSABADCBusy (sab_adc_tick E c')"
   and "\<not> mSABADCActive (sab_adc_tick E c')"
   and "mSFR (sab_adc_tick E c') SAB_ADCON AND SAB_ADCONMASK_BSY = 0"
   and "mSFR (sab_adc_tick E c') SAB_IRCON AND SAB_IRCONMASK_IADC \<noteq> 0"
  using assms
  by (simp_all add: adc_running_def sab_adc_tick_def sab_adc_complete_def sab_adc_set_busy_def Let_def
      mask_bit_8 bit_or_iff bit_and_iff bit_not_iff)

text \<open>
  C11. A conversion armed by a start request takes fifteen machine cycles: the busy flag and its
  mirror in \<open>ADCON\<close> are set and \<open>ADDAT\<close> keeps its value for fourteen cycles; the fifteenth clears them,
  raises \<open>IADC\<close> and stores the conversion of the input that was selected when it began, or leaves
  \<open>ADDAT\<close> alone when the reference setting is invalid.
\<close>

theorem adc_conversion:
  assumes "is_sab c" "\<not> mSABADCStartPending c" "mSABADCArmed c" "0 < k" "k < 15"
  shows "(let now = (sab_adc_tick E ^^ k) c; done_state = (sab_adc_tick E ^^ 15) c;
              input = mSABADCInputs c (unat (mSFR c SAB_ADCON AND SAB_ADCONMASK_MX))
          in mSABADCBusy now \<and> mSFR now SAB_ADCON AND SAB_ADCONMASK_BSY \<noteq> 0 \<and>
             mSFR now SAB_ADDAT = mSFR c SAB_ADDAT \<and>
             \<not> mSABADCBusy done_state \<and> \<not> mSABADCActive done_state \<and> mSFR done_state SAB_ADCON AND SAB_ADCONMASK_BSY = 0 \<and>
             mSFR done_state SAB_IRCON AND SAB_IRCONMASK_IADC \<noteq> 0 \<and>
             mSFR done_state SAB_ADDAT = (if sab_adc_references_valid (mSFR c SAB_DAPR)
                                    then sab_adc_convert input (mSFR c SAB_DAPR) else mSFR c SAB_ADDAT))"
proof -
  have "(sab_adc_tick E ^^ 15) c = sab_adc_tick E ((sab_adc_tick E ^^ 14) c)"
    by (simp add: numeral_eq_Suc)
  moreover have "adc_running c k ((sab_adc_tick E ^^ k) c)" "adc_running c 14 ((sab_adc_tick E ^^ 14) c)"
    using assms by (auto intro: adc_running_at)
  ultimately show ?thesis
    by (simp add: adc_finish adc_running_def [of c k] Let_def)
qed
text \<open>A SAB80535 with a conversion of channel 2 armed, the input at half scale.\<close>

definition adc_armed :: em8051 where
  "adc_armed = sfr_set SAB_ADCON 2 (sab_zero\<lparr>mSABADCArmed := True,
     mSABADCInputs := (\<lambda>_. 0)(2 := 0x8000)\<rparr>)"

theorem adc_conversion_witness:
  "mSABADCBusy ((sab_adc_tick null_callbacks ^^ 9) adc_armed) \<and>
   mSFR ((sab_adc_tick null_callbacks ^^ 15) adc_armed) SAB_ADDAT = sab_adc_convert 0x8000 0"
proof -
  have "is_sab adc_armed" "\<not> mSABADCStartPending adc_armed" "mSABADCArmed adc_armed"
    by (simp_all add: adc_armed_def sab_zero_def zero_cpu_def)
  from adc_conversion [OF this, of 9 null_callbacks] show ?thesis
    by (simp add: Let_def) (simp add: adc_armed_def sab_zero_def zero_cpu_def sab_adc_references_valid_def)
qed

end
