(* ===== verification/Uart.thy ===== *)
theory Uart
  imports Frame
begin

text \<open>
  The SAB80535 mode-3 UART of \<^verbatim>\<open>core.c\<close>: the divider that turns Timer-1 overflows into bit
  boundaries, the transmitter (start bit, eight data bits, ninth bit, stop bit), the receiver of
  injected frames, and the write of \<open>SBUF\<close> that loads the transmitter's holding register.
\<close>

subsection \<open>Operations\<close>

definition sab_uart_mode3 :: "em8051 \<Rightarrow> bool" where
  "sab_uart_mode3 c \<longleftrightarrow>
     is_sab c \<and>
     mSFR c REG_SCON AND (SCONMASK_SM0 OR SCONMASK_SM1) = SCONMASK_SM0 OR SCONMASK_SM1 \<and>
     mSFR c SAB_ADCON AND SAB_ADCONMASK_BD = 0"

definition sab_uart_divider_step :: "u8 \<Rightarrow> bool \<Rightarrow> bool \<times> u8" where
  "sab_uart_divider_step aPhase aSmod =
     (let phase = (aPhase + 1) AND 0x1f in (phase = 0 \<or> (aSmod \<and> phase = 16), phase))"

definition sab_uart_tx_bit_value :: "em8051 \<Rightarrow> u8 \<Rightarrow> bool" where
  "sab_uart_tx_bit_value c aBitIndex =
     (if aBitIndex = 0 then False
      else if aBitIndex \<le> 8 then drop_bit (unat (aBitIndex - 1)) (mSABUartTxData c) AND 1 \<noteq> 0
      else if aBitIndex = 9 then mSABUartTxNinth c
      else True)"

definition sab_uart_tx_start :: "em8051_callbacks \<Rightarrow> u64 \<Rightarrow> em8051 \<Rightarrow> em8051" where
  "sab_uart_tx_start E aMachineCycle c =
     (let c1 = c\<lparr>mSABUartTxData := mSABUartTxPendingData c, mSABUartTxNinth := mSABUartTxPendingNinth c,
                 mSABUartTxPending := False, mSABUartTxActive := True, mSABUartTxBitIndex := 0\<rparr>;
          c2 = raw_note E EMU_RAW_TX_START aMachineCycle (ucast (mSABUartTxData c1))
                 (of_bool (mSABUartTxNinth c1)) 0 0 c1
      in sab_uart_trace_emit E EM8051_SAB_UART_TRACE_TX_START aMachineCycle (mSABUartTxData c2)
           (mSABUartTxNinth c2) 0 False c2)"

text \<open>The stop-bit boundary sets \<open>TI\<close>; the raw observer learns whether it was a rising edge of \<open>TI\<close>.\<close>

definition sab_uart_tx_stop :: "em8051_callbacks \<Rightarrow> u64 \<Rightarrow> em8051 \<Rightarrow> em8051" where
  "sab_uart_tx_stop E aMachineCycle c =
     (let c1 = c\<lparr>mSABUartTxBitIndex := 10\<rparr>;
          ti_edge = (mSFR c1 REG_SCON AND SCONMASK_TI = 0);
          c2 = emu_cpu_irq_write E REG_SCON (mSFR c1 REG_SCON OR SCONMASK_TI) aMachineCycle c1;
          c3 = raw_note E EMU_RAW_TX_STOP aMachineCycle 0 0 0 0 c2;
          c4 = (if ti_edge then raw_note E EMU_RAW_TX_TI aMachineCycle 0 0 0 0 c3 else c3)
      in sab_uart_trace_emit E EM8051_SAB_UART_TRACE_TX_STOP aMachineCycle (mSABUartTxData c4)
           (mSABUartTxNinth c4) 10 True c4)"

definition sab_uart_tx_boundary :: "em8051_callbacks \<Rightarrow> u64 \<Rightarrow> em8051 \<Rightarrow> em8051" where
  "sab_uart_tx_boundary E aMachineCycle c =
     (if \<not> mSABUartTxActive c then
        (if mSABUartTxPending c then sab_uart_tx_start E aMachineCycle c else c)
      else if mSABUartTxBitIndex c < 9 then
        (let c1 = c\<lparr>mSABUartTxBitIndex := mSABUartTxBitIndex c + 1\<rparr>
         in sab_uart_trace_emit E EM8051_SAB_UART_TRACE_TX_BIT aMachineCycle (mSABUartTxData c1)
              (mSABUartTxNinth c1) (mSABUartTxBitIndex c1)
              (sab_uart_tx_bit_value c1 (mSABUartTxBitIndex c1)) c1)
      else if mSABUartTxBitIndex c = 9 then sab_uart_tx_stop E aMachineCycle c
      else
        (let c1 = raw_note E EMU_RAW_TX_END aMachineCycle 0 0 0 0 c;
             c2 = sab_uart_trace_emit E EM8051_SAB_UART_TRACE_TX_END aMachineCycle
                    (mSABUartTxData c1) (mSABUartTxNinth c1) 10 True c1
         in if em8051_execution_aborted E c2 then c2
            else let c3 = c2\<lparr>mSABUartTxActive := False\<rparr>
                 in if mSABUartTxPending c3 then sab_uart_tx_start E aMachineCycle c3 else c3))"

text \<open>\<open>EMUIF_OBS_REASON_RI\<close> and \<open>EMUIF_OBS_REASON_SM2\<close> of \<^verbatim>\<open>contracts/observation.h\<close>.\<close>

abbreviation (input) EMUIF_OBS_REASON_RI :: u64 where "EMUIF_OBS_REASON_RI \<equiv> 3"
abbreviation (input) EMUIF_OBS_REASON_SM2 :: u64 where "EMUIF_OBS_REASON_SM2 \<equiv> 4"

definition sab_uart_rx_accepts :: "em8051 \<Rightarrow> bool" where
  "sab_uart_rx_accepts c \<longleftrightarrow>
     mSFR c REG_SCON AND SCONMASK_RI = 0 \<and>
     (mSFR c REG_SCON AND SCONMASK_SM2 = 0 \<or> mSABUartRxPendingNinth c)"

definition sab_uart_rx_boundary :: "em8051_callbacks \<Rightarrow> u64 \<Rightarrow> em8051 \<Rightarrow> em8051" where
  "sab_uart_rx_boundary E aMachineCycle c =
     (let c0 = c\<lparr>mSABUartRxBitIndex := mSABUartRxBitIndex c + 1\<rparr>
      in if mSABUartRxBitIndex c0 = 10 then
           (if sab_uart_rx_accepts c0 then
              (let c1 = c0\<lparr>mSABUartRxData := mSABUartRxPendingData c0\<rparr>;
                   c2 = sfr_set REG_SBUF (mSABUartRxData c1) c1;
                   c3 = sfr_mod REG_SCON (\<lambda>v. v AND NOT SCONMASK_RB8) c2;
                   c4 = (if mSABUartRxPendingNinth c3
                         then sfr_mod REG_SCON (\<lambda>v. v OR SCONMASK_RB8) c3 else c3);
                   c5 = emu_cpu_irq_write E REG_SCON (mSFR c4 REG_SCON OR SCONMASK_RI) aMachineCycle c4;
                   c6 = raw_note E EMU_RAW_RX_ACCEPT aMachineCycle (ucast (mSABUartRxPendingData c5))
                          (of_bool (mSABUartRxPendingNinth c5)) 0 0 c5
               in sab_uart_trace_emit E EM8051_SAB_UART_TRACE_RX_ACCEPT aMachineCycle
                    (mSABUartRxPendingData c6) (mSABUartRxPendingNinth c6) 10 True c6)
            else
              (let c1 = raw_note E EMU_RAW_RX_DROP aMachineCycle
                          (if mSFR c0 REG_SCON AND SCONMASK_RI \<noteq> 0
                           then EMUIF_OBS_REASON_RI else EMUIF_OBS_REASON_SM2) 0 0 0 c0
               in sab_uart_trace_emit E EM8051_SAB_UART_TRACE_RX_DROP aMachineCycle
                    (mSABUartRxPendingData c1) (mSABUartRxPendingNinth c1) 10 True c1))
         else if mSABUartRxBitIndex c0 = 11 then
           (let c1 = c0\<lparr>mSABUartRxActive := False\<rparr>;
                c2 = raw_note E EMU_RAW_RX_END aMachineCycle 0 0 0 0 c1
            in sab_uart_trace_emit E EM8051_SAB_UART_TRACE_RX_END aMachineCycle
                 (mSABUartRxPendingData c2) (mSABUartRxPendingNinth c2) 10 True c2)
         else c0)"

definition sab_uart_timer1_overflow :: "em8051_callbacks \<Rightarrow> em8051 \<Rightarrow> em8051" where
  "sab_uart_timer1_overflow E c =
     (if \<not> sab_uart_mode3 c then c
      else
        let smod = (mSFR c REG_PCON AND PCONMASK_SMOD \<noteq> 0);
            completed_cycle = mMachineCycleCount c + 1;
            (tx, phase) = sab_uart_divider_step (mSABUartDividerPhase c) smod;
            c1 = c\<lparr>mSABUartDividerPhase := phase\<rparr>;
            c2 = (if tx then sab_uart_tx_boundary E completed_cycle c1 else c1)
        in if em8051_execution_aborted E c2 then c2
           else if mSABUartRxActive c2 then
             (let (rx, rxphase) = sab_uart_divider_step (mSABUartRxDividerPhase c2) smod;
                  c3 = c2\<lparr>mSABUartRxDividerPhase := rxphase\<rparr>
              in if rx then sab_uart_rx_boundary E completed_cycle c3 else c3)
           else c2)"

definition sab_uart_sbuf_write :: "em8051_callbacks \<Rightarrow> u8 \<Rightarrow> em8051 \<Rightarrow> em8051" where
  "sab_uart_sbuf_write E aValue c =
     (if \<not> sab_uart_mode3 c then c
      else
        let c1 = c\<lparr>mSABUartTxPendingData := aValue,
                   mSABUartTxPendingNinth := (mSFR c REG_SCON AND SCONMASK_TB8 \<noteq> 0),
                   mSABUartTxPending := True\<rparr>
        in raw_note E EMU_RAW_TX_HOLD (mMachineCycleCount c1) (ucast aValue)
             (of_bool (mSABUartTxPendingNinth c1)) 0 0 c1)"

definition em8051_sab_uart_inject_rx_frame ::
    "em8051_callbacks \<Rightarrow> u8 \<Rightarrow> bool \<Rightarrow> em8051 \<Rightarrow> bool \<times> em8051" where
  "em8051_sab_uart_inject_rx_frame E aData aNinthBit c =
     (if \<not> sab_uart_mode3 c \<or> mSFR c REG_SCON AND SCONMASK_REN = 0 \<or> mSABUartRxActive c
      then (False, c)
      else
        let c1 = c\<lparr>mSABUartRxPendingData := aData, mSABUartRxPendingNinth := aNinthBit,
                   mSABUartRxDividerPhase := 0, mSABUartRxBitIndex := 0, mSABUartRxActive := True\<rparr>;
            c2 = raw_note E EMU_RAW_RX_START (mMachineCycleCount c1) (ucast aData)
                   (of_bool aNinthBit) 0 0 c1
        in (True, sab_uart_trace_emit E EM8051_SAB_UART_TRACE_RX_START (mMachineCycleCount c2)
              aData aNinthBit 0 False c2))"

lemmas uart_defs = sab_uart_tx_start_def sab_uart_tx_stop_def sab_uart_tx_boundary_def
  sab_uart_rx_boundary_def sab_uart_sbuf_write_def

subsection \<open>Baud rate\<close>

text \<open>Timer-1 overflows per bit: 32, or 16 with \<open>SMOD\<close> set.\<close>

definition uart_period :: "bool \<Rightarrow> nat" where
  "uart_period smod = (if smod then 16 else 32)"

lemma divider_step_phase:
  "sab_uart_divider_step (word_of_nat (n mod 32)) smod =
     (Suc n mod uart_period smod = 0, word_of_nat (Suc n mod 32))"
proof -
  have "unat (word_of_nat (n mod 32) + 1 :: u8) = n mod 32 + 1"
    using unat_add_ok [of "word_of_nat (n mod 32) :: u8" 1] by (simp add: unat_small)
  then have w: "(word_of_nat (n mod 32) + 1 :: u8) AND 0x1f = word_of_nat (Suc n mod 32)"
    by (simp add: u8_of_nat_eq and_1f mod_Suc_eq)
  have "Suc n mod 16 = 0 \<longleftrightarrow> Suc n mod 32 = 0 \<or> Suc n mod 32 = 16" by presburger
  moreover have "((word_of_nat (Suc n mod 32) :: u8) = 0) = (Suc n mod 32 = 0)"
    "((word_of_nat (Suc n mod 32) :: u8) = 16) = (Suc n mod 32 = 16)"
    by (simp_all add: word_unat_eq_iff unat_small)
  ultimately show ?thesis
    unfolding sab_uart_divider_step_def Let_def w by (auto simp: uart_period_def)
qed

subsection \<open>Transmission of a frame\<close>

text \<open>The eleven line levels of a mode-3 frame: start bit, data from bit 0, ninth bit, stop bit.\<close>

definition uart_frame :: "u8 \<Rightarrow> bool \<Rightarrow> bool list" where
  "uart_frame d ninth = False # map (bit d) [0..<8] @ [ninth, True]"

text \<open>
  The transmitter \<open>b\<close> bit boundaries after it was idle with a byte waiting, in state \<open>c\<close>: waiting,
  then sending bit \<open>b - 1\<close> of the frame, then idle again.
\<close>

definition uart_tx_at :: "em8051 \<Rightarrow> nat \<Rightarrow> em8051 \<Rightarrow> bool" where
  "uart_tx_at c b c' \<longleftrightarrow>
     mSABUartTxPending c' = (b = 0) \<and> mSABUartTxActive c' = (0 < b \<and> b \<le> 11) \<and>
     bit (mSFR c' REG_SCON) 1 = (bit (mSFR c REG_SCON) 1 \<or> b \<ge> 11) \<and>
     (if b = 0 then mSABUartTxPendingData c' = mSABUartTxPendingData c \<and>
                    mSABUartTxPendingNinth c' = mSABUartTxPendingNinth c
      else mSABUartTxData c' = mSABUartTxPendingData c \<and> mSABUartTxNinth c' = mSABUartTxPendingNinth c \<and>
           (b \<le> 11 \<longrightarrow> mSABUartTxBitIndex c' = word_of_nat (b - 1)))"

text \<open>What the divider and the receiver see, which a transmitter boundary leaves alone.\<close>

definition uart_line :: "bool \<Rightarrow> u8 \<Rightarrow> em8051 \<Rightarrow> bool" where
  "uart_line smod phase c \<longleftrightarrow>
     sab_uart_mode3 c \<and> \<not> mSABUartRxActive c \<and> bit (mSFR c REG_PCON) 7 = smod \<and>
     mSABUartDividerPhase c = phase"

lemma mode3_cong:
  "mVariant c' = mVariant c \<Longrightarrow> mSFR c' SAB_ADCON = mSFR c SAB_ADCON \<Longrightarrow>
   mSFR c' REG_SCON AND 0xC0 = mSFR c REG_SCON AND 0xC0 \<Longrightarrow> sab_uart_mode3 c' = sab_uart_mode3 c"
  by (simp add: sab_uart_mode3_def)

lemma and_c0: "((w :: u8) OR 2) AND 0xC0 = w AND 0xC0"
  by (simp add: bit.conj_disj_distrib2)

text \<open>What one bit boundary does, by the state of the transmitter, when no abort is requested.\<close>

lemma tx_boundary_start:
  assumes "\<not> mSABUartTxActive c" "mSABUartTxPending c"
  shows "ext_rest (sab_uart_tx_boundary E m c) = ext_rest (c\<lparr>mSABUartTxData := mSABUartTxPendingData c,
           mSABUartTxNinth := mSABUartTxPendingNinth c, mSABUartTxPending := False, mSABUartTxActive := True,
           mSABUartTxBitIndex := 0\<rparr>) \<and> mSFR (sab_uart_tx_boundary E m c) = mSFR c"
  using assms by (simp add: sab_uart_tx_boundary_def sab_uart_tx_start_def Let_def)

lemma tx_boundary_bit:
  assumes "mSABUartTxActive c" "mSABUartTxBitIndex c < 9"
  shows "ext_rest (sab_uart_tx_boundary E m c) = ext_rest (c\<lparr>mSABUartTxBitIndex := mSABUartTxBitIndex c + 1\<rparr>)
         \<and> mSFR (sab_uart_tx_boundary E m c) = mSFR c"
  using assms by (simp add: sab_uart_tx_boundary_def Let_def)

lemma tx_boundary_stop:
  assumes "mSABUartTxActive c" "mSABUartTxBitIndex c = 9"
  shows "ext_rest (sab_uart_tx_boundary E m c) = ext_rest (c\<lparr>mSABUartTxBitIndex := 10\<rparr>) \<and>
         mSFR (sab_uart_tx_boundary E m c) = (mSFR c)(REG_SCON := mSFR c REG_SCON OR SCONMASK_TI)"
  using assms by (simp add: sab_uart_tx_boundary_def sab_uart_tx_stop_def Let_def)

lemma tx_boundary_end:
  assumes "mSABUartTxActive c" "mSABUartTxBitIndex c = 10" "\<not> mSABUartTxPending c"
    "execution_abort E = None"
  shows "ext_rest (sab_uart_tx_boundary E m c) = ext_rest (c\<lparr>mSABUartTxActive := False\<rparr>) \<and>
         mSFR (sab_uart_tx_boundary E m c) = mSFR c"
proof -
  have "ext_rest (a\<lparr>mSABUartTxActive := False\<rparr>) = (ext_rest a)\<lparr>mSABUartTxActive := False\<rparr>" for a
    by (simp add: ext_rest_def)
  with assms show ?thesis
    by (simp add: sab_uart_tx_boundary_def Let_def em8051_execution_aborted_def)
qed

lemma tx_boundary_idle:
  "\<not> mSABUartTxActive c \<Longrightarrow> \<not> mSABUartTxPending c \<Longrightarrow> sab_uart_tx_boundary E m c = c"
  by (simp add: sab_uart_tx_boundary_def)

lemma uart_tx_at_boundary:
  assumes at: "uart_tx_at c b d" and line: "uart_line smod ph d" and na: "execution_abort E = None"
  shows "uart_tx_at c (Suc b) (sab_uart_tx_boundary E m d) \<and> uart_line smod ph (sab_uart_tx_boundary E m d)"
proof -
  have idx: "mSABUartTxBitIndex d = word_of_nat (b - 1)" if "0 < b" "b \<le> 11"
    using at that by (simp add: uart_tx_at_def)
  consider "b = 0" | "0 < b \<and> b < 10" | "b = 10" | "b = 11" | "b > 11" by linarith
  then show ?thesis
  proof cases
    case 1
    then show ?thesis
      using at line tx_boundary_start [of d E m] ext_restD [OF tx_boundary_start [of d E m, THEN conjunct1]]
      by (simp add: uart_tx_at_def uart_line_def sab_uart_mode3_def)
  next
    case 2
    then obtain j where j: "b = Suc j" "j < 9" by (cases b) auto
    then have "mSABUartTxBitIndex d < 9"
      using idx by (simp add: word_less_nat_alt unat_small)
    with 2 j show ?thesis
      using at line tx_boundary_bit [of d E m] ext_restD [OF tx_boundary_bit [of d E m, THEN conjunct1]] idx
      by (simp add: uart_tx_at_def uart_line_def sab_uart_mode3_def)
  next
    case 3
    then show ?thesis
      using at line tx_boundary_stop [of d E m] ext_restD [OF tx_boundary_stop [of d E m, THEN conjunct1]]
      by (simp add: uart_tx_at_def uart_line_def sab_uart_mode3_def and_c0 bit_or_iff)
  next
    case 4
    then show ?thesis
      using at line na tx_boundary_end [of d E m] ext_restD [OF tx_boundary_end [of d E m, THEN conjunct1]]
      by (simp add: uart_tx_at_def uart_line_def sab_uart_mode3_def)
  next
    case 5
    then show ?thesis
      using at line by (simp add: uart_tx_at_def tx_boundary_idle)
  qed
qed

text \<open>An overflow in mode 3 with an idle receiver: the divider, and a boundary when it wraps.\<close>

lemma uart_tx_step:
  assumes at: "uart_tx_at c (n div uart_period smod) c'" and line: "uart_line smod (word_of_nat (n mod 32)) c'"
    and na: "execution_abort E = None"
  shows "uart_tx_at c (Suc n div uart_period smod) (sab_uart_timer1_overflow E c') \<and>
         uart_line smod (word_of_nat (Suc n mod 32)) (sab_uart_timer1_overflow E c')"
proof -
  define d where "d = c'\<lparr>mSABUartDividerPhase := word_of_nat (Suc n mod 32)\<rparr>"
  define t where "t = (if Suc n mod uart_period smod = 0
    then sab_uart_tx_boundary E (mMachineCycleCount c' + 1) d else d)"
  have P: "uart_period smod > 0" by (simp add: uart_period_def)
  have atd: "uart_tx_at c (n div uart_period smod) d" and lined: "uart_line smod (word_of_nat (Suc n mod 32)) d"
    using at line by (simp_all add: d_def uart_tx_at_def uart_line_def sab_uart_mode3_def)
  have t: "uart_tx_at c (Suc n div uart_period smod) t \<and> uart_line smod (word_of_nat (Suc n mod 32)) t"
    using atd lined uart_tx_at_boundary [OF atd lined na] P by (simp add: t_def div_Suc)
  have m: "sab_uart_mode3 c'" "mSABUartDividerPhase c' = word_of_nat (n mod 32)"
    "(mSFR c' REG_PCON AND PCONMASK_SMOD \<noteq> 0) = smod"
    using line by (simp_all add: uart_line_def mask_bit_8)
  have "sab_uart_timer1_overflow E c' = (if mSABUartRxActive t then sab_uart_timer1_overflow E c' else t)"
    unfolding sab_uart_timer1_overflow_def Let_def m divider_step_phase
    using na by (simp add: em8051_execution_aborted_def t_def d_def m)
  moreover have "\<not> mSABUartRxActive t" using t by (simp add: uart_line_def)
  ultimately show ?thesis using t by simp
qed

lemma uart_tx_progress:
  assumes "uart_tx_at c 0 c" "uart_line smod 0 c" "execution_abort E = None"
  shows "uart_tx_at c (n div uart_period smod) ((sab_uart_timer1_overflow E ^^ n) c) \<and>
         uart_line smod (word_of_nat (n mod 32)) ((sab_uart_timer1_overflow E ^^ n) c)"
proof (induction n)
  case (Suc n)
  then show ?case
    using uart_tx_step [of c n smod "(sab_uart_timer1_overflow E ^^ n) c" E] assms(3) by simp
qed (use assms in simp)

lemma uart_frame_bit:
  assumes "k < 11" "mSABUartTxBitIndex c = word_of_nat k"
  shows "sab_uart_tx_bit_value c (mSABUartTxBitIndex c) = uart_frame (mSABUartTxData c) (mSABUartTxNinth c) ! k"
proof -
  have "k \<in> {0,1,2,3,4,5,6,7,8,9,10}" using assms(1) by (simp add: eval_nat_numeral less_Suc_eq)
  then show ?thesis
    using assms(2) by (elim insertE) (simp_all add: uart_frame_def sab_uart_tx_bit_value_def upt_rec
        bit_iff_odd drop_bit_eq_div even_iff_mod_2_eq_zero and_one_eq)
qed

text \<open>
  C12. Transmission.  A byte waiting in the holding register of an idle transmitter in mode 3 is sent
  as the eleven-bit frame start, data from bit 0 up, ninth bit, stop, at one bit per 32 Timer-1
  overflows (16 with \<open>SMOD\<close>): during bit \<open>k\<close> the transmitter is active at index \<open>k\<close> and its line level
  is the frame's, \<open>TI\<close> rises exactly with the stop bit, and one bit time later it is idle again.
\<close>

theorem uart_tx_frame:
  assumes "sab_uart_mode3 c" "\<not> mSABUartRxActive c" "mSABUartDividerPhase c = 0"
    "\<not> mSABUartTxActive c" "mSABUartTxPending c" "execution_abort E = None" "k < 11"
  shows "(let period = (if bit (mSFR c REG_PCON) 7 then 16 else 32);
              now = (sab_uart_timer1_overflow E ^^ (period * (k + 1))) c;
              after = (sab_uart_timer1_overflow E ^^ (period * 12)) c
          in mSABUartTxActive now \<and> mSABUartTxBitIndex now = word_of_nat k \<and>
             sab_uart_tx_bit_value now (mSABUartTxBitIndex now) =
               uart_frame (mSABUartTxPendingData c) (mSABUartTxPendingNinth c) ! k \<and>
             bit (mSFR now REG_SCON) 1 = (bit (mSFR c REG_SCON) 1 \<or> k = 10) \<and>
             \<not> mSABUartTxActive after \<and> \<not> mSABUartTxPending after \<and> bit (mSFR after REG_SCON) 1)"
proof -
  define p where "p = uart_period (bit (mSFR c REG_PCON) 7)"
  have p0: "p > 0" and p: "(if bit (mSFR c REG_PCON) 7 then 16 else 32) = p"
    by (simp_all add: p_def uart_period_def)
  have init: "uart_tx_at c 0 c" "uart_line (bit (mSFR c REG_PCON) 7) 0 c"
    using assms by (simp_all add: uart_tx_at_def uart_line_def)
  note at = uart_tx_progress [OF init assms(6), folded p_def, THEN conjunct1]
  define now where "now = (sab_uart_timer1_overflow E ^^ (p * (k + 1))) c"
  have now: "uart_tx_at c (k + 1) now" using at [of "p * (k + 1)"] p0 by (simp add: now_def)
  then have "sab_uart_tx_bit_value now (mSABUartTxBitIndex now) =
      uart_frame (mSABUartTxPendingData c) (mSABUartTxPendingNinth c) ! k"
    using uart_frame_bit [of k now] assms(7) by (simp add: uart_tx_at_def)
  moreover have "uart_tx_at c 12 ((sab_uart_timer1_overflow E ^^ (p * 12)) c)"
    using at [of "p * 12"] p0 by simp
  ultimately show ?thesis
    using now assms(7) by (simp only: Let_def p now_def [symmetric] uart_tx_at_def) auto
qed
text \<open>A SAB80535 in mode 3 with the receiver enabled and a byte waiting in the transmitter.\<close>

definition uart_ready :: em8051 where
  "uart_ready = sfr_set REG_SCON 0xD0 (sab_zero\<lparr>mSABUartTxPendingData := 0xA5, mSABUartTxPending := True\<rparr>)"

lemma uart_ready_state:
  "sab_uart_mode3 uart_ready" "\<not> mSABUartRxActive uart_ready" "mSABUartDividerPhase uart_ready = 0"
  "\<not> mSABUartTxActive uart_ready" "mSABUartTxPending uart_ready" "mSFR uart_ready REG_SCON = 0xD0"
  "mSFR uart_ready REG_PCON = 0" "mSFR uart_ready REG_SBUF = 0" "mSABUartTxPendingData uart_ready = 0xA5"
  by (simp_all add: uart_ready_def sab_uart_mode3_def sab_zero_def zero_cpu_def)

theorem uart_tx_frame_witness:
  "mSABUartTxBitIndex ((sab_uart_timer1_overflow null_callbacks ^^ 64) uart_ready) = 1 \<and>
   sab_uart_tx_bit_value ((sab_uart_timer1_overflow null_callbacks ^^ 64) uart_ready) 1"
  using uart_tx_frame [OF uart_ready_state(1-5), of null_callbacks 1]
  by (auto simp: Let_def uart_ready_state uart_frame_def upt_rec bit_numeral_rec)

subsection \<open>Reception of a frame\<close>

text \<open>The receiver \<open>b\<close> bit boundaries into the frame injected in state \<open>c\<close>, before the stop bit.\<close>

definition uart_rx_at :: "u8 \<Rightarrow> bool \<Rightarrow> em8051 \<Rightarrow> nat \<Rightarrow> em8051 \<Rightarrow> bool" where
  "uart_rx_at d ninth c b c' \<longleftrightarrow>
     mSABUartRxActive c' \<and> mSABUartRxBitIndex c' = word_of_nat b \<and> mSABUartRxPendingData c' = d \<and>
     mSABUartRxPendingNinth c' = ninth \<and> mSFR c' = mSFR c"

lemma rx_boundary_early:
  assumes "uart_rx_at d ninth c b c'" "b < 9"
  shows "uart_rx_at d ninth c (Suc b) (sab_uart_rx_boundary E m c')"
proof -
  have "unat (mSABUartRxBitIndex c' + 1) = Suc b"
    using assms unat_add_ok [of "mSABUartRxBitIndex c'" 1] by (simp add: uart_rx_at_def unat_small)
  then have "mSABUartRxBitIndex c' + 1 \<noteq> 10" "mSABUartRxBitIndex c' + 1 \<noteq> 11"
    using assms(2) by (auto simp: word_unat_eq_iff)
  then show ?thesis
    using assms by (simp add: sab_uart_rx_boundary_def Let_def uart_rx_at_def)
qed

lemma rx_boundaries_early:
  assumes "uart_rx_at d ninth c 0 c'" "b \<le> 9"
  shows "uart_rx_at d ninth c b ((sab_uart_rx_boundary E m ^^ b) c')"
  using assms(2) by (induction b) (use assms(1) rx_boundary_early in auto)

lemma rx_boundary_stop:
  assumes "uart_rx_at d ninth c 9 c'"
  defines "accept \<equiv> \<not> bit (mSFR c REG_SCON) 0 \<and> (\<not> bit (mSFR c REG_SCON) 5 \<or> ninth)"
  shows "mSABUartRxActive (sab_uart_rx_boundary E m c') \<and> mSABUartRxBitIndex (sab_uart_rx_boundary E m c') = 10 \<and>
         mSFR (sab_uart_rx_boundary E m c') =
           (if accept then (mSFR c)(REG_SBUF := d,
              REG_SCON := (if ninth then (mSFR c REG_SCON AND NOT SCONMASK_RB8) OR SCONMASK_RB8
                           else mSFR c REG_SCON AND NOT SCONMASK_RB8) OR SCONMASK_RI)
            else mSFR c)"
  using assms
  by (simp add: sab_uart_rx_boundary_def Let_def uart_rx_at_def sab_uart_rx_accepts_def accept_def mask_bit_8)

lemma rx_boundary_end:
  assumes "mSABUartRxBitIndex c' = 10"
  shows "\<not> mSABUartRxActive (sab_uart_rx_boundary E m c') \<and> mSFR (sab_uart_rx_boundary E m c') = mSFR c'"
  using assms by (simp add: sab_uart_rx_boundary_def Let_def)

text \<open>
  C13. Reception.  A frame injected into an idle enabled receiver is taken at its stop bit, ten bit
  boundaries later, exactly when \<open>RI\<close> is clear and either \<open>SM2\<close> is clear or the ninth bit is set:
  then \<open>SBUF\<close> gets the data, \<open>RB8\<close> the ninth bit and \<open>RI\<close> rises; otherwise the frame is dropped and
  the registers keep their values.  The receiver is idle again one boundary after that.
\<close>

theorem uart_rx_frame:
  assumes "sab_uart_mode3 c" "bit (mSFR c REG_SCON) 4" "\<not> mSABUartRxActive c"
  shows "(let accept = (\<not> bit (mSFR c REG_SCON) 0 \<and> (\<not> bit (mSFR c REG_SCON) 5 \<or> ninth));
              (ok, c0) = em8051_sab_uart_inject_rx_frame E d ninth c;
              now = (sab_uart_rx_boundary E m ^^ 10) c0;
              after = (sab_uart_rx_boundary E m ^^ 11) c0
          in ok \<and> mSABUartRxActive now \<and> \<not> mSABUartRxActive after \<and> mSFR after = mSFR now \<and>
             mSFR now REG_SBUF = (if accept then d else mSFR c REG_SBUF) \<and>
             bit (mSFR now REG_SCON) 0 = (accept \<or> bit (mSFR c REG_SCON) 0) \<and>
             bit (mSFR now REG_SCON) 2 = (if accept then ninth else bit (mSFR c REG_SCON) 2))"
proof -
  define c0 where "c0 = snd (em8051_sab_uart_inject_rx_frame E d ninth c)"
  have inj: "em8051_sab_uart_inject_rx_frame E d ninth c = (True, c0)" and at0: "uart_rx_at d ninth c 0 c0"
    using assms by (simp_all add: c0_def em8051_sab_uart_inject_rx_frame_def Let_def mask_bit_8 uart_rx_at_def)
  define now where "now = (sab_uart_rx_boundary E m ^^ 10) c0"
  have now: "now = sab_uart_rx_boundary E m ((sab_uart_rx_boundary E m ^^ 9) c0)"
    by (simp add: now_def numeral_eq_Suc)
  note stop = rx_boundary_stop [OF rx_boundaries_early [OF at0, of 9 E m, simplified], of E m, folded now]
  have "(sab_uart_rx_boundary E m ^^ 11) c0 = sab_uart_rx_boundary E m now"
    by (simp add: now_def numeral_eq_Suc)
  then show ?thesis
    using stop rx_boundary_end [of now E m]
    by (auto simp: inj Let_def bit_or_iff bit_and_iff bit_not_iff simp flip: now_def)
qed
theorem uart_rx_frame_witness:
  "mSFR ((sab_uart_rx_boundary null_callbacks 0 ^^ 10)
     (snd (em8051_sab_uart_inject_rx_frame null_callbacks 0x41 True uart_ready))) REG_SBUF = 0x41"
proof -
  have "bit (mSFR uart_ready REG_SCON) 4" by (simp add: uart_ready_state bit_numeral_rec)
  from uart_rx_frame [OF uart_ready_state(1) this uart_ready_state(2), where d = "0x41" and ninth = True
      and E = null_callbacks and m = 0]
  show ?thesis by (simp add: Let_def split_beta uart_ready_state bit_numeral_rec)
qed

end
