(* ===== verification/Timers.thy ===== *)
theory Timers
  imports Adc Uart
begin

text \<open>
  The timers of \<^verbatim>\<open>core.c\<close> (lines 1326 to 1700), advanced once per machine cycle: timers 0 and 1 in
  their 13-bit, 16-bit, 8-bit auto-reload and split modes, the classic serial shortcut clocked by
  timer 1, and the SAB80535's timer 2.  External counting and gating are inert in the code.
\<close>

subsection \<open>Classic serial transmitter\<close>

definition serial_tx :: "em8051 \<Rightarrow> em8051" where
  "serial_tx c =
     (if serial_out_remaining_bits c = 0 then c
      else
        let c1 = c\<lparr>serial_out_remaining_bits := serial_out_remaining_bits c - 1\<rparr>;
            tx_bit = (drop_bit (unat (serial_out_remaining_bits c1)) (mSFR c1 REG_SBUF) \<noteq> 0);
            c2 = sfr_mod REG_P3 (\<lambda>v. v AND NOT (push_bit 1 1)) c1;
            c3 = (if tx_bit then sfr_mod REG_P3 (\<lambda>v. v OR push_bit 1 1) c2 else c2)
        in if serial_out_remaining_bits c3 = 0 then
             (let c4 = c3\<lparr>serial_out := (serial_out c3)(unat (serial_out_idx c3) := mSFR c3 REG_SBUF),
                         serial_out_idx := (serial_out_idx c3 + 1) mod 18\<rparr>;
                  c5 = sfr_mod REG_SCON (\<lambda>v. v OR push_bit 1 1) c4
              in if mSFR c5 REG_IE AND IEMASK_ES \<noteq> 0 then c5\<lparr>serial_interrupt_trigger := True\<rparr> else c5)
           else c3)"

subsection \<open>Overflow notification\<close>

fun timer_tl :: "em8051_timer \<Rightarrow> nat" where
  "timer_tl EM8051_TIMER0 = REG_TL0"
| "timer_tl EM8051_TIMER1 = REG_TL1"
| "timer_tl EM8051_TIMER2 = SAB_TL2"

fun timer_th :: "em8051_timer \<Rightarrow> nat" where
  "timer_th EM8051_TIMER0 = REG_TH0"
| "timer_th EM8051_TIMER1 = REG_TH1"
| "timer_th EM8051_TIMER2 = SAB_TH2"

definition timer_overflow_emit :: "em8051_callbacks \<Rightarrow> em8051_timer \<Rightarrow> em8051 \<Rightarrow> em8051" where
  "timer_overflow_emit E aTimer c =
     (let c1 = c\<lparr>mTimerOverflowCount :=
                   (mTimerOverflowCount c)(aTimer := mTimerOverflowCount c aTimer + 1)\<rparr>;
          c2 = (if aTimer = EM8051_TIMER1 \<and> is_sab c1 then sab_uart_timer1_overflow E c1 else c1)
      in if em8051_execution_aborted E c2 then c2
         else emit (timer_overflow E) (EvTimer \<lparr>to_timer = aTimer,
                to_machine_cycle = mMachineCycleCount c2 + 1,
                to_tl = mSFR c2 (timer_tl aTimer), to_th = mSFR c2 (timer_th aTimer)\<rparr>) c2)"

subsection \<open>Counting\<close>

text \<open>
  The increments the modes share; \<open>v\<close> is the C code's 16-bit temporary and the flag of the result
  says whether the count overflowed.
\<close>

definition count8 :: "nat \<Rightarrow> em8051 \<Rightarrow> bool \<times> em8051" where
  "count8 reg c =
     (let v = (ucast (mSFR c reg) :: u16) + 1
      in (v > 0xff, sfr_set reg (ucast (v AND 0xff)) c))"

definition count13 :: "nat \<Rightarrow> nat \<Rightarrow> em8051 \<Rightarrow> bool \<times> em8051" where
  "count13 tlo thi c =
     (let v = (ucast (mSFR c tlo AND 0x1f) :: u16) + 1;
          c1 = sfr_mod tlo (\<lambda>x. (x AND NOT 0x1f) OR ucast (v AND 0x1f)) c
      in if v > 0x1f then count8 thi c1 else (False, c1))"

definition count16 :: "nat \<Rightarrow> nat \<Rightarrow> em8051 \<Rightarrow> bool \<times> em8051" where
  "count16 tlo thi c = (let (ov, c1) = count8 tlo c in if ov then count8 thi c1 else (False, c1))"

definition count8_reload :: "nat \<Rightarrow> nat \<Rightarrow> em8051 \<Rightarrow> bool \<times> em8051" where
  "count8_reload tlo thi c =
     (let (ov, c1) = count8 tlo c in if ov then (True, sfr_set tlo (mSFR c1 thi) c1) else (False, c1))"

text \<open>Whether a timer runs: not gated, run bit set, and counting machine cycles.\<close>

definition timer_increment :: "u8 \<Rightarrow> u8 \<Rightarrow> u8 \<Rightarrow> em8051 \<Rightarrow> bool" where
  "timer_increment gate ct tr c \<longleftrightarrow>
     mSFR c REG_TMOD AND gate = 0 \<and> mSFR c REG_TCON AND tr \<noteq> 0 \<and> mSFR c REG_TMOD AND ct = 0"

abbreviation (input) timer0_increment :: "em8051 \<Rightarrow> bool" where
  "timer0_increment \<equiv> timer_increment TMODMASK_GATE_0 TMODMASK_CT_0 TCONMASK_TR0"

abbreviation (input) timer1_increment :: "em8051 \<Rightarrow> bool" where
  "timer1_increment \<equiv> timer_increment TMODMASK_GATE_1 TMODMASK_CT_1 TCONMASK_TR1"

definition set_timer_flag :: "em8051_callbacks \<Rightarrow> u8 \<Rightarrow> em8051 \<Rightarrow> em8051" where
  "set_timer_flag E flag c =
     emu_cpu_irq_write E REG_TCON (mSFR c REG_TCON OR flag) (mMachineCycleCount c + 1) c"

abbreviation (input) T0_MODE3_MASK :: u8 where "T0_MODE3_MASK \<equiv> TMODMASK_M0_0 OR TMODMASK_M1_0"

definition timer0_mode3 :: "em8051 \<Rightarrow> bool" where
  "timer0_mode3 c \<longleftrightarrow> mSFR c REG_TMOD AND T0_MODE3_MASK = T0_MODE3_MASK"

text \<open>Timer 0 in mode 3: TL0 runs with timer 0's controls and TH0 with timer 1's.\<close>

definition timer0_mode3_tick :: "em8051_callbacks \<Rightarrow> em8051 \<Rightarrow> em8051" where
  "timer0_mode3_tick E c =
     (if \<not> timer0_mode3 c then c
      else
        let c1 = (if timer0_increment c then
                    (let (ov, c') = count8 REG_TL0 c
                     in if ov then set_timer_flag E TCONMASK_TF0 c' else c')
                  else c)
        in if timer1_increment c1 then
             (let (ov, c') = count8 REG_TH0 c1
              in if ov then set_timer_flag E TCONMASK_TF1 c' else c')
           else c1)"

definition timer0_tick :: "em8051_callbacks \<Rightarrow> em8051 \<Rightarrow> em8051" where
  "timer0_tick E c =
     (if \<not> timer0_increment c then c
      else
        let mode = mSFR c REG_TMOD AND (TMODMASK_M0_0 OR TMODMASK_M1_0)
        in if mode = 0 then
             (let (ov, c1) = count13 REG_TL0 REG_TH0 c
              in if ov then set_timer_flag E TCONMASK_TF0 c1 else c1)
           else if mode = TMODMASK_M0_0 then
             (let (ov, c1) = count16 REG_TL0 REG_TH0 c
              in if ov then timer_overflow_emit E EM8051_TIMER0 (set_timer_flag E TCONMASK_TF0 c1) else c1)
           else if mode = TMODMASK_M1_0 then
             (let (ov, c1) = count8_reload REG_TL0 REG_TH0 c
              in if ov then set_timer_flag E TCONMASK_TF0 c1 else c1)
           else c)"

definition timer1_count :: "em8051_callbacks \<Rightarrow> em8051 \<Rightarrow> em8051" where
  "timer1_count E c =
     (let mode = mSFR c REG_TMOD AND (TMODMASK_M0_1 OR TMODMASK_M1_1)
      in if mode = 0 then
           (let (ov, c1) = count13 REG_TL1 REG_TH1 c
            in if ov \<and> \<not> timer0_mode3 c1 then set_timer_flag E TCONMASK_TF1 c1 else c1)
         else if mode = TMODMASK_M0_1 then
           (let (ov, c1) = count16 REG_TL1 REG_TH1 c
            in if ov \<and> \<not> timer0_mode3 c1 then set_timer_flag E TCONMASK_TF1 c1 else c1)
         else if mode = TMODMASK_M1_1 then
           (let (ov, c1) = count8_reload REG_TL1 REG_TH1 c
            in if ov \<and> \<not> timer0_mode3 c1
               then timer_overflow_emit E EM8051_TIMER1 (set_timer_flag E TCONMASK_TF1 c1) else c1)
         else c)"

definition timer1_tick :: "em8051_callbacks \<Rightarrow> em8051 \<Rightarrow> em8051" where
  "timer1_tick E c =
     (if \<not> timer1_increment c then c
      else
        let c1 = timer1_count E c
        in if \<not> is_sab c1 \<and> mSFR c1 REG_TCON AND TCONMASK_TF1 \<noteq> 0 \<and>
              mSFR c1 REG_SCON AND SCONMASK_SM1 \<noteq> 0
           then sfr_mod REG_TCON (\<lambda>v. v AND NOT TCONMASK_TF1) (serial_tx c1)
           else c1)"

definition timer_tick :: "em8051_callbacks \<Rightarrow> em8051 \<Rightarrow> em8051" where
  "timer_tick E c =
     (let c1 = timer0_tick E (timer0_mode3_tick E c)
      in if em8051_execution_aborted E c1 then c1 else timer1_tick E c1)"

subsection \<open>Timer 2 of the SAB80535\<close>

definition timer2_runs :: "em8051 \<Rightarrow> bool" where
  "timer2_runs c \<longleftrightarrow>
     (let t2con = mSFR c SAB_T2CON
      in t2con AND (SAB_T2CONMASK_T2I1 OR SAB_T2CONMASK_T2I0) = SAB_T2CONMASK_T2I0 \<and>
         t2con AND SAB_T2CONMASK_T2R1 = 0 \<and>
         \<not> (t2con AND SAB_T2CONMASK_T2PS \<noteq> 0 \<and> (mMachineCycleCount c + 1) AND 1 \<noteq> 0))"

definition sab_timer2_tick :: "em8051_callbacks \<Rightarrow> em8051 \<Rightarrow> em8051" where
  "sab_timer2_tick E c =
     (if \<not> is_sab c \<or> \<not> timer2_runs c then c
      else
        let v = (push_bit 8 (ucast (mSFR c SAB_TH2)) OR ucast (mSFR c SAB_TL2)) + (1 :: u16);
            c1 = sfr_set SAB_TL2 (ucast (v AND 0xff)) c;
            c2 = sfr_set SAB_TH2 (ucast (drop_bit 8 v)) c1
        in if v \<noteq> 0 then c2
           else
             let c3 = emu_cpu_irq_write E SAB_IRCON (mSFR c2 SAB_IRCON OR SAB_IRCONMASK_TF2)
                        (mMachineCycleCount c2 + 1) c2;
                 c4 = timer_overflow_emit E EM8051_TIMER2 c3
             in if em8051_execution_aborted E c4 then c4 else sab_irq_sync E c4)"

subsection \<open>Counting, as numbers\<close>

definition reg16 :: "nat \<Rightarrow> nat \<Rightarrow> em8051 \<Rightarrow> nat" where
  "reg16 tlo thi c = 256 * unat (mSFR c thi) + unat (mSFR c tlo)"

definition reg13 :: "nat \<Rightarrow> nat \<Rightarrow> em8051 \<Rightarrow> nat" where
  "reg13 tlo thi c = 32 * unat (mSFR c thi) + unat (mSFR c tlo) mod 32"

lemma count8_value:
  "fst (count8 r c) = (unat (mSFR c r) = 255)"
  "mSFR (snd (count8 r c)) = (mSFR c)(r := mSFR c r + 1)"
proof -
  show "fst (count8 r c) = (unat (mSFR c r) = 255)"
    using unat_u8 [of "mSFR c r"] by (auto simp: count8_def Let_def word_less_nat_alt inc_u16)
  have "ucast (((ucast (mSFR c r) :: u16) + 1) AND 0xff) = mSFR c r + 1"
    by (simp only: word_unat_eq_iff low_byte inc_u16 unat_u8_inc)
  then show "mSFR (snd (count8 r c)) = (mSFR c)(r := mSFR c r + 1)"
    by (simp add: count8_def Let_def)
qed

lemma count16_value:
  assumes "tlo \<noteq> thi"
  shows "fst (count16 tlo thi c) = (reg16 tlo thi c = 65535)"
    "reg16 tlo thi (snd (count16 tlo thi c)) = (reg16 tlo thi c + 1) mod 65536"
    "i \<noteq> tlo \<Longrightarrow> i \<noteq> thi \<Longrightarrow> mSFR (snd (count16 tlo thi c)) i = mSFR c i"
proof -
  have l: "unat (mSFR c tlo) < 256" and h: "unat (mSFR c thi) < 256" by (simp_all add: unat_u8)
  show "fst (count16 tlo thi c) = (reg16 tlo thi c = 65535)"
    using assms l h by (auto simp: count16_def split_beta Let_def count8_value reg16_def)
  show "reg16 tlo thi (snd (count16 tlo thi c)) = (reg16 tlo thi c + 1) mod 65536"
    using assms l h
    by (auto simp: count16_def split_beta Let_def count8_value reg16_def unat_u8_inc mod_if)
  show "i \<noteq> tlo \<Longrightarrow> i \<noteq> thi \<Longrightarrow> mSFR (snd (count16 tlo thi c)) i = mSFR c i"
    by (simp add: count16_def split_beta Let_def count8_value)
qed

lemma count13_value:
  assumes "tlo \<noteq> thi"
  shows "fst (count13 tlo thi c) = (reg13 tlo thi c = 8191)"
    "reg13 tlo thi (snd (count13 tlo thi c)) = (reg13 tlo thi c + 1) mod 8192"
    "i \<noteq> tlo \<Longrightarrow> i \<noteq> thi \<Longrightarrow> mSFR (snd (count13 tlo thi c)) i = mSFR c i"
proof -
  have h: "unat (mSFR c thi) < 256" by (simp add: unat_u8)
  define v where "v = (ucast (mSFR c tlo AND 0x1f) :: u16) + 1"
  have v: "unat v = unat (mSFR c tlo) mod 32 + 1" by (simp add: v_def inc_u16 and_1f)
  have ov: "(v > 0x1f) = (unat (mSFR c tlo) mod 32 = 31)" by (auto simp: word_less_nat_alt v)
  have l: "unat ((x AND NOT 0x1f) OR ucast (v AND 0x1f)) mod 32 = (unat (mSFR c tlo) mod 32 + 1) mod 32" for x :: u8
    by (simp only: low5_merge low5 v mod_mod_trivial)
  have eq: "count13 tlo thi c = (let c1 = sfr_mod tlo (\<lambda>x. (x AND NOT 0x1f) OR ucast (v AND 0x1f)) c
      in if v > 0x1f then count8 thi c1 else (False, c1))"
    by (simp add: count13_def v_def Let_def)
  show "fst (count13 tlo thi c) = (reg13 tlo thi c = 8191)"
    using assms h mod_less_divisor [of 32 "unat (mSFR c tlo)"]
    by (auto simp: eq ov Let_def count8_value reg13_def simp del: mod_less_divisor)
  show "reg13 tlo thi (snd (count13 tlo thi c)) = (reg13 tlo thi c + 1) mod 8192"
  proof (cases "unat (mSFR c tlo) mod 32 = 31")
    case True
    then have "reg13 tlo thi (snd (count13 tlo thi c)) = 32 * ((unat (mSFR c thi) + 1) mod 256)"
      using assms by (simp add: eq ov count8_value reg13_def l [simplified] unat_u8_inc)
    with True show ?thesis
      using h by (cases "unat (mSFR c thi) = 255") (simp_all add: reg13_def)
  next
    case False
    then have less: "unat (mSFR c tlo) mod 32 < 31" using mod_less_divisor [of 32 "unat (mSFR c tlo)"] by linarith
    then have "reg13 tlo thi (snd (count13 tlo thi c)) = 32 * unat (mSFR c thi) + (unat (mSFR c tlo) mod 32 + 1)"
      using assms False by (simp add: eq ov reg13_def l [simplified])
    with less h show ?thesis by (simp add: reg13_def)
  qed
  show "i \<noteq> tlo \<Longrightarrow> i \<noteq> thi \<Longrightarrow> mSFR (snd (count13 tlo thi c)) i = mSFR c i"
    by (simp add: eq Let_def count8_value)
qed

lemma count8_reload_value:
  assumes "tlo \<noteq> thi"
  shows "fst (count8_reload tlo thi c) = (unat (mSFR c tlo) = 255)"
    "mSFR (snd (count8_reload tlo thi c)) =
       (mSFR c)(tlo := if unat (mSFR c tlo) = 255 then mSFR c thi else mSFR c tlo + 1)"
  using assms by (simp_all add: count8_reload_def split_beta Let_def count8_value)

subsection \<open>Frames\<close>

lemma uart_boundary_sfr:
  "i \<noteq> REG_SCON \<Longrightarrow> mSFR (sab_uart_tx_boundary E m c) i = mSFR c i"
  "i \<noteq> REG_SCON \<Longrightarrow> i \<noteq> REG_SBUF \<Longrightarrow> mSFR (sab_uart_rx_boundary E m c) i = mSFR c i"
  by (simp_all add: uart_defs Let_def)

lemma uart_overflow_sfr:
  "i \<noteq> REG_SCON \<Longrightarrow> i \<noteq> REG_SBUF \<Longrightarrow> mSFR (sab_uart_timer1_overflow E c) i = mSFR c i"
  by (simp add: sab_uart_timer1_overflow_def Let_def split_beta uart_boundary_sfr)

lemma overflow_emit_sfr:
  "i \<noteq> REG_SCON \<Longrightarrow> i \<noteq> REG_SBUF \<Longrightarrow> mSFR (timer_overflow_emit E t c) i = mSFR c i"
  by (simp add: timer_overflow_emit_def Let_def uart_overflow_sfr)

lemma set_timer_flag_sfr [simp]:
  "mSFR (set_timer_flag E f c) = (mSFR c)(REG_TCON := mSFR c REG_TCON OR f)"
  by (simp add: set_timer_flag_def)

lemma serial_tx_sfr:
  "i \<noteq> REG_SCON \<Longrightarrow> i \<noteq> REG_P3 \<Longrightarrow> mSFR (serial_tx c) i = mSFR c i"
  by (simp add: serial_tx_def Let_def)

text \<open>Timer 1 leaves timer 0's registers and flag alone.\<close>

lemma timer1_count_sfr:
  "i \<notin> {REG_TL1, REG_TH1, REG_TCON, REG_SCON, REG_SBUF} \<Longrightarrow> mSFR (timer1_count E c) i = mSFR c i"
  "bit (mSFR (timer1_count E c) REG_TCON) 5 = bit (mSFR c REG_TCON) 5"
  by (simp_all add: timer1_count_def Let_def split_beta count13_value count16_value count8_reload_value
      overflow_emit_sfr bit_or_iff bit_numeral_rec)

lemma timer1_tick_sfr:
  "i \<notin> {REG_TL1, REG_TH1, REG_TCON, REG_SCON, REG_SBUF, REG_P3} \<Longrightarrow> mSFR (timer1_tick E c) i = mSFR c i"
  "bit (mSFR (timer1_tick E c) REG_TCON) 5 = bit (mSFR c REG_TCON) 5"
  by (simp_all add: timer1_tick_def Let_def timer1_count_sfr serial_tx_sfr bit_and_iff bit_not_iff bit_numeral_rec)

subsection \<open>Timer behaviour\<close>

lemma timer0_tick_values:
  assumes "timer0_increment c"
  shows "mSFR c REG_TMOD AND 3 = 0 \<Longrightarrow> reg13 REG_TL0 REG_TH0 (timer0_tick E c) = (reg13 REG_TL0 REG_TH0 c + 1) mod 8192
           \<and> bit (mSFR (timer0_tick E c) REG_TCON) 5 = (bit (mSFR c REG_TCON) 5 \<or> reg13 REG_TL0 REG_TH0 c = 8191)"
    "mSFR c REG_TMOD AND 3 = 1 \<Longrightarrow> reg16 REG_TL0 REG_TH0 (timer0_tick E c) = (reg16 REG_TL0 REG_TH0 c + 1) mod 65536
           \<and> bit (mSFR (timer0_tick E c) REG_TCON) 5 = (bit (mSFR c REG_TCON) 5 \<or> reg16 REG_TL0 REG_TH0 c = 65535)"
    "mSFR c REG_TMOD AND 3 = 2 \<Longrightarrow> mSFR (timer0_tick E c) REG_TH0 = mSFR c REG_TH0 \<and>
           mSFR (timer0_tick E c) REG_TL0 = (if mSFR c REG_TL0 = 255 then mSFR c REG_TH0 else mSFR c REG_TL0 + 1)
           \<and> bit (mSFR (timer0_tick E c) REG_TCON) 5 = (bit (mSFR c REG_TCON) 5 \<or> mSFR c REG_TL0 = 255)"
proof -
  have frame: "reg13 REG_TL0 REG_TH0 (set_timer_flag E f x) = reg13 REG_TL0 REG_TH0 x"
    "reg16 REG_TL0 REG_TH0 (set_timer_flag E f x) = reg16 REG_TL0 REG_TH0 x"
    "reg16 REG_TL0 REG_TH0 (timer_overflow_emit E t x) = reg16 REG_TL0 REG_TH0 x" for f x t
    by (simp_all add: reg13_def reg16_def overflow_emit_sfr)
  have ff: "(w = 255) = (unat w = 255)" for w :: u8 by (simp add: word_unat_eq_iff)
  show "mSFR c REG_TMOD AND 3 = 0 \<Longrightarrow> reg13 REG_TL0 REG_TH0 (timer0_tick E c) = (reg13 REG_TL0 REG_TH0 c + 1) mod 8192
           \<and> bit (mSFR (timer0_tick E c) REG_TCON) 5 = (bit (mSFR c REG_TCON) 5 \<or> reg13 REG_TL0 REG_TH0 c = 8191)"
    using assms by (simp add: timer0_tick_def Let_def split_beta count13_value frame bit_or_iff bit_numeral_rec)
  show "mSFR c REG_TMOD AND 3 = 1 \<Longrightarrow> reg16 REG_TL0 REG_TH0 (timer0_tick E c) = (reg16 REG_TL0 REG_TH0 c + 1) mod 65536
           \<and> bit (mSFR (timer0_tick E c) REG_TCON) 5 = (bit (mSFR c REG_TCON) 5 \<or> reg16 REG_TL0 REG_TH0 c = 65535)"
    using assms
    by (simp add: timer0_tick_def Let_def split_beta count16_value frame overflow_emit_sfr bit_or_iff bit_numeral_rec)
  show "mSFR c REG_TMOD AND 3 = 2 \<Longrightarrow> mSFR (timer0_tick E c) REG_TH0 = mSFR c REG_TH0 \<and>
           mSFR (timer0_tick E c) REG_TL0 = (if mSFR c REG_TL0 = 255 then mSFR c REG_TH0 else mSFR c REG_TL0 + 1)
           \<and> bit (mSFR (timer0_tick E c) REG_TCON) 5 = (bit (mSFR c REG_TCON) 5 \<or> mSFR c REG_TL0 = 255)"
    using assms
    by (simp add: timer0_tick_def Let_def split_beta count8_reload_value ff bit_or_iff bit_numeral_rec)
qed

text \<open>
  Timer 0.  While it runs, every machine cycle advances it by one: the 13-bit counter of mode 0 and
  the 16-bit counter of mode 1 count modulo their range and the 8-bit counter of mode 2 reloads from
  \<open>TH0\<close>; \<open>TF0\<close> is raised exactly in the cycle the counter overflows and otherwise keeps its value.
  A stopped timer keeps its registers and flag.
\<close>

theorem timer0_counts:
  assumes "execution_abort E = None" "mSFR c REG_TMOD AND 3 \<noteq> 3"
  shows "(let c' = timer_tick E c;
              run = timer_increment TMODMASK_GATE_0 TMODMASK_CT_0 TCONMASK_TR0 c;
              mode = mSFR c REG_TMOD AND 3;
              v13 = reg13 REG_TL0 REG_TH0; v16 = reg16 REG_TL0 REG_TH0;
              overflow = (if mode = 0 then v13 c = 8191 else if mode = 1 then v16 c = 65535
                          else mSFR c REG_TL0 = 255)
          in bit (mSFR c' REG_TCON) 5 = (bit (mSFR c REG_TCON) 5 \<or> run \<and> overflow) \<and>
             (\<not> run \<longrightarrow> v16 c' = v16 c) \<and>
             (run \<and> mode = 0 \<longrightarrow> v13 c' = (v13 c + 1) mod 8192) \<and>
             (run \<and> mode = 1 \<longrightarrow> v16 c' = (v16 c + 1) mod 65536) \<and>
             (run \<and> mode = 2 \<longrightarrow> mSFR c' REG_TH0 = mSFR c REG_TH0 \<and>
                mSFR c' REG_TL0 = (if mSFR c REG_TL0 = 255 then mSFR c REG_TH0 else mSFR c REG_TL0 + 1)))"
proof -
  define d where "d = timer0_tick E c"
  have m3: "timer0_mode3_tick E c = c" using assms(2) by (simp add: timer0_mode3_tick_def timer0_mode3_def)
  have tick: "timer_tick E c = timer1_tick E d"
    using assms(1) by (simp add: timer_tick_def m3 em8051_execution_aborted_def d_def)
  have regs: "reg13 REG_TL0 REG_TH0 (timer1_tick E x) = reg13 REG_TL0 REG_TH0 x"
    "reg16 REG_TL0 REG_TH0 (timer1_tick E x) = reg16 REG_TL0 REG_TH0 x" for x
    by (simp_all add: reg13_def reg16_def timer1_tick_sfr)
  have idle: "\<not> timer0_increment c \<Longrightarrow> d = c" by (simp add: d_def timer0_tick_def)
  show ?thesis
    using mode_cases [OF assms(2)] timer0_tick_values [of c E, folded d_def] idle
    by (cases "timer0_increment c") (auto simp: Let_def tick regs timer1_tick_sfr)
qed
text \<open>A SAB80535 with timer 0 in 16-bit mode and timer 2 running, both about to overflow.\<close>

definition timers_full :: em8051 where
  "timers_full = sab_zero\<lparr>mSFR := (\<lambda>_. 0)(REG_TMOD := 1, REG_TCON := 0x10, REG_TL0 := 0xff, REG_TH0 := 0xff,
     SAB_T2CON := 1, SAB_TL2 := 0xff, SAB_TH2 := 0xff)\<rparr>"

theorem timer0_counts_witness:
  "reg16 REG_TL0 REG_TH0 (timer_tick null_callbacks timers_full) = 0 \<and>
   bit (mSFR (timer_tick null_callbacks timers_full) REG_TCON) 5"
  using timer0_counts [of null_callbacks timers_full]
  by (simp add: Let_def timers_full_def timer_increment_def reg16_def)

text \<open>
  C14. Timer 2 of the SAB80535.  In a cycle in which it counts (timer function selected, reload off, and
  with the prescaler only every second cycle) its 16-bit value advances by one modulo 65536; \<open>TF2\<close> is
  raised and the overflow counter advanced exactly when it wraps; otherwise nothing changes.
\<close>

theorem timer2_counts:
  assumes "is_sab c" "execution_abort E = None"
  shows "(let c' = sab_timer2_tick E c; v = reg16 SAB_TL2 SAB_TH2; overflow = (timer2_runs c \<and> v c = 65535)
          in v c' = (if timer2_runs c then (v c + 1) mod 65536 else v c) \<and>
             bit (mSFR c' SAB_IRCON) 6 = (bit (mSFR c SAB_IRCON) 6 \<or> overflow) \<and>
             mTimerOverflowCount c' EM8051_TIMER2 = mTimerOverflowCount c EM8051_TIMER2 + of_bool overflow)"
proof (cases "timer2_runs c")
  case False
  then show ?thesis by (simp add: sab_timer2_tick_def)
next
  case True
  define v where "v = (push_bit 8 (ucast (mSFR c SAB_TH2)) OR ucast (mSFR c SAB_TL2)) + (1 :: u16)"
  define c2 where "c2 = sfr_set SAB_TH2 (ucast (drop_bit 8 v)) (sfr_set SAB_TL2 (ucast (v AND 0xff)) c)"
  have v: "unat v = (reg16 SAB_TL2 SAB_TH2 c + 1) mod 65536"
    by (simp add: v_def unat_word_ariths unat_join reg16_def)
  have r: "reg16 SAB_TL2 SAB_TH2 c2 = unat v"
    by (simp add: c2_def reg16_def low_byte unat_high_byte)
  have lt: "reg16 SAB_TL2 SAB_TH2 c < 65536"
    using unat_u8 [of "mSFR c SAB_TH2"] unat_u8 [of "mSFR c SAB_TL2"] by (simp add: reg16_def)
  have ov: "(v = 0) = (reg16 SAB_TL2 SAB_TH2 c = 65535)"
    using lt by (auto simp: word_unat_eq_iff v mod_if)
  have emit: "mSFR (timer_overflow_emit E EM8051_TIMER2 x) = mSFR x"
    "mTimerOverflowCount (timer_overflow_emit E EM8051_TIMER2 x) EM8051_TIMER2 = mTimerOverflowCount x EM8051_TIMER2 + 1" for x
    by (simp_all add: timer_overflow_emit_def Let_def)
  have eq: "sab_timer2_tick E c = (if v \<noteq> 0 then c2 else sab_irq_sync E (timer_overflow_emit E EM8051_TIMER2
      (emu_cpu_irq_write E SAB_IRCON (mSFR c2 SAB_IRCON OR SAB_IRCONMASK_TF2) (mMachineCycleCount c2 + 1) c2)))"
    using True assms unfolding sab_timer2_tick_def Let_def v_def [symmetric] c2_def [symmetric]
    by (simp add: em8051_execution_aborted_def)
  have c2: "mSFR c2 SAB_IRCON = mSFR c SAB_IRCON" "mTimerOverflowCount c2 = mTimerOverflowCount c"
    by (simp_all add: c2_def)
  have keep: "reg16 SAB_TL2 SAB_TH2 (sab_irq_sync E x) = reg16 SAB_TL2 SAB_TH2 x" for x by (simp add: reg16_def)
  have tr: "reg16 SAB_TL2 SAB_TH2 (timer_overflow_emit E EM8051_TIMER2 x) = reg16 SAB_TL2 SAB_TH2 x"
    "reg16 SAB_TL2 SAB_TH2 (emu_cpu_irq_write E SAB_IRCON y m x) = reg16 SAB_TL2 SAB_TH2 x" for x y m
    by (simp_all add: reg16_def emit)
  show ?thesis
    using True by (simp add: Let_def eq ov r v keep tr emit c2 bit_or_iff bit_numeral_rec)
qed
theorem timer2_counts_witness:
  "reg16 SAB_TL2 SAB_TH2 (sab_timer2_tick null_callbacks timers_full) = 0 \<and>
   bit (mSFR (sab_timer2_tick null_callbacks timers_full) SAB_IRCON) 6"
proof -
  have "is_sab timers_full" "reg16 SAB_TL2 SAB_TH2 timers_full = 65535" "timer2_runs timers_full"
    by (simp_all add: timers_full_def sab_zero_def reg16_def timer2_runs_def Let_def)
  then show ?thesis using timer2_counts [of timers_full null_callbacks] by (simp add: Let_def)
qed

end
