(* ===== verification/Schedule.thy ===== *)
theory Schedule
  imports Ports
begin

text \<open>
  The bounded queue of scheduled external-line events (\<^verbatim>\<open>core.c\<close>,
  \<open>em8051_sab_external_schedule\<close> to \<open>sab_external_apply_scheduled\<close>): a ring of
  64 slots in the CPU object with a head index and a count.
\<close>

subsection \<open>Operations\<close>

abbreviation (input) EM8051_SAB_EXTERNAL_SCHEDULE_DRIVE :: int
  where "EM8051_SAB_EXTERNAL_SCHEDULE_DRIVE \<equiv> 0"
abbreviation (input) EM8051_SAB_EXTERNAL_SCHEDULE_RELEASE :: int
  where "EM8051_SAB_EXTERNAL_SCHEDULE_RELEASE \<equiv> 1"

definition sab_external_apply_event ::
    "em8051_callbacks \<Rightarrow> em8051_sab_external_schedule_event \<Rightarrow> em8051 \<Rightarrow> bool \<times> em8051" where
  "sab_external_apply_event E aEvent c =
     (if se_action aEvent = EM8051_SAB_EXTERNAL_SCHEDULE_DRIVE
      then em8051_sab_external_drive E (se_source aEvent) (se_level aEvent) c
      else em8051_sab_external_release E (se_source aEvent) c)"

text \<open>The unsigned range checks of \<open>source\<close> and \<open>action\<close>: a negative enumeration value is out of range.\<close>

definition schedule_event_in_range :: "em8051_sab_external_schedule_event \<Rightarrow> bool" where
  "schedule_event_in_range aEvent \<longleftrightarrow>
     0 \<le> se_source aEvent \<and> se_source aEvent < 7 \<and> 0 \<le> se_action aEvent \<and> se_action aEvent \<le> 1"

definition em8051_sab_external_schedule ::
    "em8051_callbacks \<Rightarrow> em8051_sab_external_schedule_event \<Rightarrow> em8051 \<Rightarrow> bool \<times> em8051" where
  "em8051_sab_external_schedule E aEvent c =
     (if \<not> is_sab c \<or> \<not> schedule_event_in_range aEvent
         \<or> se_machine_cycle aEvent < mMachineCycleCount c then (False, c)
      else if se_machine_cycle aEvent = mMachineCycleCount c then sab_external_apply_event E aEvent c
      else
        let head = unat (mSABExternalScheduleHead c);
            count = unat (mSABExternalScheduleCount c);
            last = (head + count - 1) mod EM8051_SAB_EXTERNAL_SCHEDULE_CAPACITY
        in if count \<noteq> 0 \<and> se_machine_cycle aEvent < se_machine_cycle (mSABExternalSchedule c last)
           then (False, c)
           else if count \<ge> EM8051_SAB_EXTERNAL_SCHEDULE_CAPACITY then (False, c)
           else let index = (head + count) mod EM8051_SAB_EXTERNAL_SCHEDULE_CAPACITY
                in (True, c\<lparr>mSABExternalSchedule := (mSABExternalSchedule c)(index := aEvent),
                             mSABExternalScheduleCount := mSABExternalScheduleCount c + 1\<rparr>))"

definition em8051_sab_external_clear_schedule :: "em8051 \<Rightarrow> em8051" where
  "em8051_sab_external_clear_schedule c =
     (if \<not> is_sab c then c
      else c\<lparr>mSABExternalScheduleHead := 0, mSABExternalScheduleCount := 0\<rparr>)"

definition em8051_sab_external_scheduled_count :: "em8051 \<Rightarrow> u8" where
  "em8051_sab_external_scheduled_count c = (if \<not> is_sab c then 0 else mSABExternalScheduleCount c)"

subsection \<open>Frames of an applied event\<close>

lemma port_drive_fields [simp]:
  "mVariant (snd (em8051_sab_port_drive E p m l c)) = mVariant c"
  "mSABExternalSchedule (snd (em8051_sab_port_drive E p m l c)) = mSABExternalSchedule c"
  "mSABExternalScheduleHead (snd (em8051_sab_port_drive E p m l c)) = mSABExternalScheduleHead c"
  "mSABExternalScheduleCount (snd (em8051_sab_port_drive E p m l c)) = mSABExternalScheduleCount c"
  "mMachineCycleCount (snd (em8051_sab_port_drive E p m l c)) = mMachineCycleCount c"
  "cpu_part (snd (em8051_sab_port_drive E p m l c)) = cpu_part c"
  by (simp_all add: em8051_sab_port_drive_def Let_def ext_rest_cpu_part [OF ext_rest_sample_port]
      split: option.split)

lemma port_release_fields [simp]:
  "mVariant (snd (em8051_sab_port_release E p m c)) = mVariant c"
  "mSABExternalSchedule (snd (em8051_sab_port_release E p m c)) = mSABExternalSchedule c"
  "mSABExternalScheduleHead (snd (em8051_sab_port_release E p m c)) = mSABExternalScheduleHead c"
  "mSABExternalScheduleCount (snd (em8051_sab_port_release E p m c)) = mSABExternalScheduleCount c"
  "mMachineCycleCount (snd (em8051_sab_port_release E p m c)) = mMachineCycleCount c"
  "cpu_part (snd (em8051_sab_port_release E p m c)) = cpu_part c"
  by (simp_all add: em8051_sab_port_release_def Let_def ext_rest_cpu_part [OF ext_rest_sample_port]
      split: option.split)

lemma apply_event_fields [simp]:
  "mVariant (snd (sab_external_apply_event E e c)) = mVariant c"
  "mSABExternalSchedule (snd (sab_external_apply_event E e c)) = mSABExternalSchedule c"
  "mSABExternalScheduleHead (snd (sab_external_apply_event E e c)) = mSABExternalScheduleHead c"
  "mSABExternalScheduleCount (snd (sab_external_apply_event E e c)) = mSABExternalScheduleCount c"
  "mMachineCycleCount (snd (sab_external_apply_event E e c)) = mMachineCycleCount c"
  "cpu_part (snd (sab_external_apply_event E e c)) = cpu_part c"
  by (simp_all add: sab_external_apply_event_def em8051_sab_external_drive_def
      em8051_sab_external_release_def split: option.split prod.split)

subsection \<open>Applying due events\<close>

text \<open>Popping the head slot, as the loop of \<open>sab_external_apply_scheduled\<close> does before it applies the event.\<close>

definition schedule_pop :: "em8051 \<Rightarrow> em8051" where
  "schedule_pop c =
     c\<lparr>mSABExternalScheduleHead :=
          word_of_nat ((unat (mSABExternalScheduleHead c) + 1) mod EM8051_SAB_EXTERNAL_SCHEDULE_CAPACITY),
       mSABExternalScheduleCount := mSABExternalScheduleCount c - 1\<rparr>"

function apply_scheduled_loop :: "em8051_callbacks \<Rightarrow> em8051 \<Rightarrow> em8051" where
  "apply_scheduled_loop E c =
     (if is_sab c \<and> mSABExternalScheduleCount c \<noteq> 0 then
        (let event = mSABExternalSchedule c (unat (mSABExternalScheduleHead c))
         in if se_machine_cycle event > mMachineCycleCount c then c
            else apply_scheduled_loop E (snd (sab_external_apply_event E event (schedule_pop c))))
      else c)"
  by pat_completeness auto
termination
  by (relation "measure (\<lambda>(E, c). unat (mSABExternalScheduleCount c))")
    (auto simp: schedule_pop_def unat_sub_if_size word_le_nat_alt unat_gt_0 not_le)

declare apply_scheduled_loop.simps [simp del]

definition sab_external_apply_scheduled :: "em8051_callbacks \<Rightarrow> em8051 \<Rightarrow> em8051" where
  "sab_external_apply_scheduled E c =
     (let c1 = apply_scheduled_loop E c
      in if mSABExternalScheduleCount c1 = 0 then c1\<lparr>mSABExternalScheduleHead := 0\<rparr> else c1)"

subsection \<open>Interface: a bounded first-in first-out queue of timed events\<close>

text \<open>
  What the event loop relies on.  \<open>items\<close> is the abstract content, oldest first; \<open>pop\<close> removes
  the oldest item, \<open>push\<close> appends one while there is room; \<open>act\<close> carries out an item without
  touching the queue.
\<close>

locale timed_fifo =
  fixes invar :: "'s \<Rightarrow> bool"
    and items :: "'s \<Rightarrow> 'e list"
    and front :: "'s \<Rightarrow> 'e"
    and pop :: "'s \<Rightarrow> 's"
    and push :: "'e \<Rightarrow> 's \<Rightarrow> 's"
    and act :: "'e \<Rightarrow> 's \<Rightarrow> 's"
    and due :: "'s \<Rightarrow> 'e \<Rightarrow> bool"
    and cap :: nat
  assumes items_bound: "invar s \<Longrightarrow> length (items s) \<le> cap"
    and front_items: "invar s \<Longrightarrow> items s \<noteq> [] \<Longrightarrow> front s = hd (items s)"
    and items_pop: "invar s \<Longrightarrow> items s \<noteq> [] \<Longrightarrow> items (pop s) = tl (items s)"
    and items_push: "invar s \<Longrightarrow> length (items s) < cap \<Longrightarrow> items (push e s) = items s @ [e]"
    and items_act: "items (act e s) = items s"
    and invar_pop: "invar s \<Longrightarrow> items s \<noteq> [] \<Longrightarrow> invar (pop s)"
    and invar_push: "invar s \<Longrightarrow> length (items s) < cap \<Longrightarrow> invar (push e s)"
    and invar_act: "invar s \<Longrightarrow> invar (act e s)"
    and due_pop: "due (pop s) = due s"
    and due_act: "due (act e s) = due s"
begin

text \<open>Running \<open>pop; act\<close> over the due prefix of the queue.\<close>

definition run_due :: "'s \<Rightarrow> 's" where
  "run_due s = fold (\<lambda>e s. act e (pop s)) (takeWhile (due s) (items s)) s"

lemma fold_pop_act:
  assumes "invar s" "items s = xs @ ys"
  shows "invar (fold (\<lambda>e s. act e (pop s)) xs s) \<and> items (fold (\<lambda>e s. act e (pop s)) xs s) = ys"
  using assms
proof (induction xs arbitrary: s)
  case Nil
  then show ?case by simp
next
  case (Cons x xs)
  have "invar (act x (pop s))" using Cons.prems by (simp add: invar_act invar_pop)
  moreover have "items (act x (pop s)) = xs @ ys"
    using Cons.prems by (simp add: items_act items_pop)
  ultimately show ?case using Cons.IH by simp
qed

lemma run_due_items:
  assumes "invar s"
  shows "invar (run_due s)" "items (run_due s) = dropWhile (due s) (items s)"
  using fold_pop_act [OF assms, of "takeWhile (due s) (items s)" "dropWhile (due s) (items s)"]
  by (simp_all add: run_due_def)

lemma run_due_step:
  assumes "invar s" "items s \<noteq> []" "due s (front s)"
  shows "run_due s = run_due (act (front s) (pop s))"
proof -
  have "items s = front s # items (pop s)"
    using assms by (simp add: front_items items_pop)
  then have "takeWhile (due s) (items s) = front s # takeWhile (due s) (items (pop s))"
    using assms(3) by simp
  then show ?thesis by (simp add: run_due_def items_act due_act due_pop)
qed

lemma run_due_stop: "invar s \<Longrightarrow> items s = [] \<or> \<not> due s (front s) \<Longrightarrow> run_due s = s"
  by (cases "items s") (auto simp: run_due_def front_items)

end

subsection \<open>The ring implements the queue\<close>

definition schedule_list :: "em8051 \<Rightarrow> em8051_sab_external_schedule_event list" where
  "schedule_list c =
     map (\<lambda>i. mSABExternalSchedule c ((unat (mSABExternalScheduleHead c) + i) mod 64))
       [0..<unat (mSABExternalScheduleCount c)]"

definition schedule_bounds :: "em8051 \<Rightarrow> bool" where
  "schedule_bounds c \<longleftrightarrow>
     unat (mSABExternalScheduleHead c) < 64 \<and> unat (mSABExternalScheduleCount c) \<le> 64"

definition schedule_push :: "em8051_sab_external_schedule_event \<Rightarrow> em8051 \<Rightarrow> em8051" where
  "schedule_push e c =
     c\<lparr>mSABExternalSchedule := (mSABExternalSchedule c)
         ((unat (mSABExternalScheduleHead c) + unat (mSABExternalScheduleCount c)) mod 64 := e),
       mSABExternalScheduleCount := mSABExternalScheduleCount c + 1\<rparr>"

lemma schedule_list_empty: "schedule_list c = [] \<longleftrightarrow> mSABExternalScheduleCount c = 0"
  by (simp add: schedule_list_def unat_eq_zero)

lemma length_schedule_list [simp]: "length (schedule_list c) = unat (mSABExternalScheduleCount c)"
  by (simp add: schedule_list_def)

lemma unat_ring_index: "unat (word_of_nat (n mod 64) :: u8) = n mod 64"
  by (simp add: unat_of_nat)

lemma schedule_list_pop:
  assumes "mSABExternalScheduleCount c \<noteq> 0"
  shows "schedule_list (schedule_pop c) = tl (schedule_list c)"
proof -
  let ?n = "unat (mSABExternalScheduleCount c)"
  obtain k where k: "?n = Suc k" using assms by (cases ?n) (auto simp: unat_eq_zero)
  have "unat (mSABExternalScheduleCount c - 1) = k"
    using assms k by (simp add: unat_minus_one)
  then show ?thesis
    by (simp add: schedule_list_def schedule_pop_def unat_of_nat k upt_rec [of 0] mod_simps
        map_Suc_upt [symmetric] del: upt_Suc map_Suc_upt)
qed

lemma ring_index_distinct: "i < n \<Longrightarrow> n < 64 \<Longrightarrow> (h + i) mod 64 \<noteq> (h + n) mod (64::nat)"
proof
  assume "i < n" "n < 64" "(h + i) mod 64 = (h + n) mod (64::nat)"
  then have "64 dvd n - i" using mod_eq_dvd_iff_nat [of "h + i" "h + n" 64] by simp
  with \<open>i < n\<close> have "64 \<le> n - i" by (intro dvd_imp_le) auto
  with \<open>n < 64\<close> show False by simp
qed

lemma schedule_list_push:
  assumes "unat (mSABExternalScheduleCount c) < 64"
  shows "schedule_list (schedule_push e c) = schedule_list c @ [e]"
proof -
  let ?h = "unat (mSABExternalScheduleHead c)" and ?n = "unat (mSABExternalScheduleCount c)"
  have n: "unat (mSABExternalScheduleCount c + 1) = Suc ?n"
    using assms by (simp add: unat_word_ariths)
  have "(?h + i) mod 64 \<noteq> (?h + ?n) mod 64" if "i < ?n" for i
    using that assms by (rule ring_index_distinct)
  then show ?thesis
    by (simp add: schedule_list_def schedule_push_def n)
qed

text \<open>The loop body's view of the current time: events no later than the current cycle are due.\<close>

definition schedule_due :: "em8051 \<Rightarrow> em8051_sab_external_schedule_event \<Rightarrow> bool" where
  "schedule_due c e \<longleftrightarrow> se_machine_cycle e \<le> mMachineCycleCount c"

interpretation schedule: timed_fifo schedule_bounds schedule_list
  "\<lambda>c. mSABExternalSchedule c (unat (mSABExternalScheduleHead c))" schedule_pop schedule_push
  "\<lambda>e c. snd (sab_external_apply_event E e c)" schedule_due 64
  for E
proof
  fix s :: em8051 and e
  assume inv: "schedule_bounds s"
  show "length (schedule_list s) \<le> 64"
    using inv by (simp add: schedule_bounds_def)
  show "schedule_list s \<noteq> [] \<Longrightarrow>
      mSABExternalSchedule s (unat (mSABExternalScheduleHead s)) = hd (schedule_list s)"
    using inv by (simp add: schedule_list_def schedule_bounds_def hd_map)
  show "schedule_list s \<noteq> [] \<Longrightarrow> schedule_list (schedule_pop s) = tl (schedule_list s)"
    by (simp add: schedule_list_empty schedule_list_pop)
  show "length (schedule_list s) < 64 \<Longrightarrow> schedule_list (schedule_push e s) = schedule_list s @ [e]"
    by (simp add: schedule_list_push)
  show "schedule_list s \<noteq> [] \<Longrightarrow> schedule_bounds (schedule_pop s)"
    using inv by (auto simp: schedule_list_empty schedule_bounds_def schedule_pop_def unat_of_nat
        unat_minus_one)
  show "length (schedule_list s) < 64 \<Longrightarrow> schedule_bounds (schedule_push e s)"
    using inv by (simp add: schedule_bounds_def schedule_push_def unat_word_ariths)
  show "schedule_bounds (snd (sab_external_apply_event E e s))"
    using inv by (simp add: schedule_bounds_def)
next
  fix s :: em8051 and e
  show "schedule_list (snd (sab_external_apply_event E e s)) = schedule_list s"
    by (simp add: schedule_list_def)
  show "schedule_due (schedule_pop s) = schedule_due s"
    by (auto simp: schedule_due_def schedule_pop_def)
  show "schedule_due (snd (sab_external_apply_event E e s)) = schedule_due s"
    by (auto simp: schedule_due_def)
qed

lemma apply_scheduled_loop_run_due:
  assumes "schedule_bounds c" "is_sab c"
  shows "apply_scheduled_loop E c = schedule.run_due E c"
  using assms
proof (induction E c rule: apply_scheduled_loop.induct)
  case (1 E c)
  let ?e = "mSABExternalSchedule c (unat (mSABExternalScheduleHead c))"
  show ?case
  proof (cases "mSABExternalScheduleCount c \<noteq> 0 \<and> schedule_due c ?e")
    case True
    let ?c' = "snd (sab_external_apply_event E ?e (schedule_pop c))"
    have "schedule_bounds ?c'"
      using True "1.prems"(1) by (simp add: schedule.invar_act schedule.invar_pop schedule_list_empty)
    then have "apply_scheduled_loop E ?c' = schedule.run_due E ?c'"
      using True "1.prems" by (intro "1.IH") (auto simp: schedule_due_def schedule_pop_def not_less)
    also have "\<dots> = schedule.run_due E c"
      using True "1.prems" by (subst schedule.run_due_step) (auto simp: schedule_list_empty)
    moreover have "\<not> se_machine_cycle ?e > mMachineCycleCount c"
      using True by (simp add: schedule_due_def not_less)
    ultimately show ?thesis
      using True "1.prems"(2) by (simp add: apply_scheduled_loop.simps [of E c])
  next
    case False
    then have "schedule.run_due E c = c"
      using "1.prems"(1) by (intro schedule.run_due_stop) (auto simp: schedule_list_empty)
    moreover have "apply_scheduled_loop E c = c"
      using False by (auto simp: apply_scheduled_loop.simps [of E c] schedule_due_def Let_def)
    ultimately show ?thesis by simp
  qed
qed

lemma schedule_list_reset_head:
  "mSABExternalScheduleCount c = 0 \<Longrightarrow> schedule_list (c\<lparr>mSABExternalScheduleHead := 0\<rparr>) = schedule_list c"
  by (simp add: schedule_list_def)

lemma apply_scheduled_list:
  assumes "schedule_bounds c" "is_sab c"
  shows "schedule_list (sab_external_apply_scheduled E c) = dropWhile (schedule_due c) (schedule_list c)"
    and "schedule_bounds (sab_external_apply_scheduled E c)"
proof -
  have "schedule_list (apply_scheduled_loop E c) = dropWhile (schedule_due c) (schedule_list c)"
    and "schedule_bounds (apply_scheduled_loop E c)"
    using schedule.run_due_items [OF assms(1)] by (simp_all add: apply_scheduled_loop_run_due assms)
  then show "schedule_list (sab_external_apply_scheduled E c) = dropWhile (schedule_due c) (schedule_list c)"
    and "schedule_bounds (sab_external_apply_scheduled E c)"
    by (simp_all add: sab_external_apply_scheduled_def Let_def schedule_list_reset_head schedule_bounds_def)
qed

subsection \<open>The queue is kept in time order\<close>

definition schedule_inv :: "em8051 \<Rightarrow> bool" where
  "schedule_inv c \<longleftrightarrow> schedule_bounds c \<and> sorted (map se_machine_cycle (schedule_list c)) \<and>
     list_all schedule_event_in_range (schedule_list c)"

lemma sorted_due_suffix_later:
  "sorted (map se_machine_cycle es) \<Longrightarrow> e \<in> set (dropWhile (schedule_due c) es) \<Longrightarrow> \<not> schedule_due c e"
  by (induction es) (auto simp: schedule_due_def split: if_splits dest: order_trans)

lemma sorted_due_split:
  assumes "sorted (map se_machine_cycle es)"
  shows "takeWhile (schedule_due c) es = filter (schedule_due c) es"
    and "dropWhile (schedule_due c) es = filter (\<lambda>e. \<not> schedule_due c e) es"
proof -
  show "takeWhile (schedule_due c) es = filter (schedule_due c) es"
    using sorted_due_suffix_later [OF assms] by (rule takeWhile_eq_filter)
  have "filter (\<lambda>e. \<not> schedule_due c e) (takeWhile (schedule_due c) es @ dropWhile (schedule_due c) es)
      = dropWhile (schedule_due c) es"
    using sorted_due_suffix_later [OF assms]
    by (auto simp: filter_empty_conv filter_id_conv dest: set_takeWhileD simp del: takeWhile_dropWhile_id)
  then show "dropWhile (schedule_due c) es = filter (\<lambda>e. \<not> schedule_due c e) es" by simp
qed

text \<open>
  C8. Scheduling an event for a later cycle is a bounded FIFO enqueue: on a queue in time order it
  is refused, with the CPU unchanged, exactly when 64 events are waiting or the event is earlier
  than the last waiting one; otherwise it is appended, the order is kept and nothing else changes.
\<close>

theorem schedule_enqueue:
  assumes "schedule_inv c" "is_sab c" "schedule_event_in_range e"
    and "mMachineCycleCount c < se_machine_cycle e"
  shows "if length (schedule_list c) = 64 \<or>
            (schedule_list c \<noteq> [] \<and> se_machine_cycle e < se_machine_cycle (last (schedule_list c)))
         then em8051_sab_external_schedule E e c = (False, c)
         else \<exists>c'. em8051_sab_external_schedule E e c = (True, c') \<and> schedule_inv c' \<and>
                schedule_list c' = schedule_list c @ [e] \<and>
                c' = c\<lparr>mSABExternalSchedule := mSABExternalSchedule c',
                       mSABExternalScheduleCount := mSABExternalScheduleCount c'\<rparr>"
proof -
  let ?h = "unat (mSABExternalScheduleHead c)" and ?n = "unat (mSABExternalScheduleCount c)"
  let ?late = "?n \<noteq> 0 \<and> se_machine_cycle e < se_machine_cycle (mSABExternalSchedule c ((?h + ?n - 1) mod 64))"
  have inv: "?n \<le> 64" "schedule_bounds c" "sorted (map se_machine_cycle (schedule_list c))"
    using assms(1) by (simp_all add: schedule_inv_def schedule_bounds_def)
  have ne: "schedule_list c = [] \<longleftrightarrow> ?n = 0" by (simp add: schedule_list_def)
  have last: "?n \<noteq> 0 \<Longrightarrow> last (schedule_list c) = mSABExternalSchedule c ((?h + ?n - 1) mod 64)"
    by (simp add: schedule_list_def last_map)
  have run: "em8051_sab_external_schedule E e c =
      (if ?late \<or> ?n = 64 then (False, c) else (True, schedule_push e c))"
    using assms inv(1) by (auto simp: em8051_sab_external_schedule_def schedule_push_def Let_def)
  have kept: "schedule_inv (schedule_push e c)" if ok: "\<not> ?late" "?n < 64"
  proof -
    have "sorted (map se_machine_cycle (schedule_list c @ [e]))"
      using inv(3) ok(1) ne last by (intro sorted_map_snoc) auto
    then show ?thesis
      using assms(1,3) ok(2) inv(2) schedule.invar_push [of c e]
      by (simp add: schedule_inv_def schedule_list_push)
  qed
  show ?thesis
    using inv(1) ne last kept schedule_list_push [of c e]
    by (auto simp: run) (simp_all add: schedule_push_def)
qed

text \<open>An event for the INT0 line, for the witnesses.\<close>

definition int0_low_at :: "u64 \<Rightarrow> em8051_sab_external_schedule_event" where
  "int0_low_at n = \<lparr>se_machine_cycle = n, se_source = 0, se_action = 0, se_level = False\<rparr>"

lemma sab_zero_schedule_inv: "schedule_inv sab_zero"
  by (simp add: schedule_inv_def schedule_bounds_def schedule_list_def sab_zero_def zero_cpu_def)

theorem schedule_enqueue_witness:
  "\<exists>c'. em8051_sab_external_schedule null_callbacks (int0_low_at 5) sab_zero = (True, c') \<and>
     schedule_list c' = [int0_low_at 5]"
proof -
  have e: "schedule_event_in_range (int0_low_at 5)"
    by (simp add: schedule_event_in_range_def int0_low_at_def)
  have v: "is_sab sab_zero" and l: "schedule_list sab_zero = []"
    and t: "mMachineCycleCount sab_zero < se_machine_cycle (int0_low_at 5)"
    by (simp_all add: sab_zero_def zero_cpu_def schedule_list_def int0_low_at_def)
  show ?thesis
    using schedule_enqueue [OF sab_zero_schedule_inv v e t, of null_callbacks] l by auto
qed

text \<open>The specification of a drain: remove and carry out the due events, oldest first.\<close>

definition run_due_events :: "em8051_callbacks \<Rightarrow> em8051 \<Rightarrow> em8051" where
  "run_due_events E c = fold (\<lambda>e s. snd (sab_external_apply_event E e (schedule_pop s)))
     (filter (schedule_due c) (schedule_list c)) c"

text \<open>
  C9. At the end of a machine cycle the waiting events whose time has come are carried out
  exactly once each, in the order they were scheduled, and exactly the later events stay queued,
  still in time order: the loop over the ring computes the fold of the event action over the due
  events of the abstract queue.
\<close>

theorem apply_scheduled_runs_due_events:
  assumes "schedule_inv c" "is_sab c"
  shows "sab_external_apply_scheduled E c =
           (if mSABExternalScheduleCount (run_due_events E c) = 0
            then (run_due_events E c)\<lparr>mSABExternalScheduleHead := 0\<rparr> else run_due_events E c) \<and>
         schedule_list (sab_external_apply_scheduled E c) =
           filter (\<lambda>e. \<not> schedule_due c e) (schedule_list c) \<and>
         schedule_inv (sab_external_apply_scheduled E c)"
proof (intro conjI)
  have b: "schedule_bounds c" and srt: "sorted (map se_machine_cycle (schedule_list c))"
    using assms(1) by (simp_all add: schedule_inv_def)
  have "apply_scheduled_loop E c = run_due_events E c"
    using b assms(2) by (simp add: apply_scheduled_loop_run_due schedule.run_due_def
        run_due_events_def sorted_due_split [OF srt])
  then show "sab_external_apply_scheduled E c =
      (if mSABExternalScheduleCount (run_due_events E c) = 0
       then (run_due_events E c)\<lparr>mSABExternalScheduleHead := 0\<rparr> else run_due_events E c)"
    by (simp add: sab_external_apply_scheduled_def)
  show rest: "schedule_list (sab_external_apply_scheduled E c) =
      filter (\<lambda>e. \<not> schedule_due c e) (schedule_list c)"
    by (simp add: apply_scheduled_list [OF b assms(2)] sorted_due_split [OF srt])
  show "schedule_inv (sab_external_apply_scheduled E c)"
    using assms(1) apply_scheduled_list(2) [OF b assms(2)]
    by (auto simp: schedule_inv_def rest list_all_iff sorted_filter)
qed

text \<open>The same CPU with two events waiting, one of them due.\<close>

definition sab_two_events :: em8051 where
  "sab_two_events = schedule_push (int0_low_at 9) (schedule_push (int0_low_at 0) sab_zero)"

theorem apply_scheduled_runs_due_events_witness:
  "schedule_list (sab_external_apply_scheduled null_callbacks sab_two_events) = [int0_low_at 9]"
proof -
  have l: "schedule_list sab_two_events = [int0_low_at 0, int0_low_at 9]"
    by (simp add: sab_two_events_def schedule_list_def schedule_push_def sab_zero_def zero_cpu_def upt_rec)
  have "schedule_bounds sab_two_events" "is_sab sab_two_events" "mMachineCycleCount sab_two_events = 0"
    by (simp_all add: sab_two_events_def schedule_bounds_def schedule_push_def sab_zero_def zero_cpu_def)
  moreover have "schedule_inv sab_two_events"
    using calculation l
    by (simp add: schedule_inv_def schedule_event_in_range_def int0_low_at_def)
  ultimately show ?thesis
    using apply_scheduled_runs_due_events [of sab_two_events null_callbacks, THEN conjunct2, THEN conjunct1] l
    by (simp add: schedule_due_def int0_low_at_def)
qed

end
