(* ===== verification/Cycle.thy ===== *)
theory Cycle
  imports Timers Schedule
begin

text \<open>
  One machine cycle of the peripherals (\<^verbatim>\<open>core.c\<close>, \<open>advance_machine_cycle\<close>), and the frame that
  separates it from instruction execution: a cycle changes peripheral state only.
\<close>

definition advance_machine_cycle :: "em8051_callbacks \<Rightarrow> em8051 \<Rightarrow> em8051" where
  "advance_machine_cycle E c =
     (if em8051_execution_aborted E c then c
      else
        let c1 = raw_note E EMU_RAW_CYCLE_BEGIN (mMachineCycleCount c + 1) 0 0 0 0 c;
            c2 = timer_tick E c1
        in if em8051_execution_aborted E c2 then c2
           else
             let c3 = sab_timer2_tick E c2
             in if em8051_execution_aborted E c3 then c3
                else
                  let c4 = sab_adc_tick E c3
                  in if em8051_execution_aborted E c4 then c4
                     else
                       let c5 = c4\<lparr>mMachineCycleCount := mMachineCycleCount c4 + 1\<rparr>;
                           c6 = sab_external_apply_scheduled E c5
                       in sab_external_maintain_level_requests E c6)"

subsection \<open>Frames of the peripherals\<close>

text \<open>
  What one cycle of the peripherals may change: the registers listed, and the fields \<open>peri_rest\<close>
  blanks.  The port arrays are blanked inside their bounds only.
\<close>

definition peripheral_regs :: "nat set" where
  "peripheral_regs = {REG_TL0, REG_TH0, REG_TL1, REG_TH1, REG_TCON, REG_SCON, REG_SBUF, REG_P3,
     SAB_TL2, SAB_TH2, SAB_IRCON, SAB_ADCON, SAB_ADDAT}"

definition other_regs :: "(nat \<Rightarrow> u8) \<Rightarrow> nat \<Rightarrow> u8" where
  "other_regs s i = (if i \<in> peripheral_regs then 0 else s i)"

definition beyond_ports :: "(nat \<Rightarrow> u8) \<Rightarrow> nat \<Rightarrow> u8" where
  "beyond_ports m i = (if i < 4 then 0 else m i)"

definition peri_rest :: "em8051 \<Rightarrow> em8051" where
  "peri_rest c = c\<lparr>mSFR := other_regs (mSFR c),
     mSABPortExternalMask := beyond_ports (mSABPortExternalMask c),
     mSABPortExternalLevels := beyond_ports (mSABPortExternalLevels c),
     mSABExternalSampledLevels := mSABExternalSampledLevels zero_cpu, mSABExternalLevelAsserted :=
     mSABExternalLevelAsserted zero_cpu, mSABExternalScheduleHead := mSABExternalScheduleHead
     zero_cpu, mSABExternalScheduleCount := mSABExternalScheduleCount zero_cpu, mSABADCLatchedInput
     := mSABADCLatchedInput zero_cpu, mSABADCLatchedChannel := mSABADCLatchedChannel zero_cpu,
     mSABADCLatchedDAPR := mSABADCLatchedDAPR zero_cpu, mSABADCCycles := mSABADCCycles zero_cpu,
     mSABADCArmRestart := mSABADCArmRestart zero_cpu, mSABADCArmed := mSABADCArmed zero_cpu,
     mSABADCActive := mSABADCActive zero_cpu, mSABADCBusy := mSABADCBusy zero_cpu,
     mSABADCReferenceValid := mSABADCReferenceValid zero_cpu, mSABADCContinuousRequested :=
     mSABADCContinuousRequested zero_cpu, mTimerOverflowCount := mTimerOverflowCount zero_cpu,
     mSABIrqPending := mSABIrqPending zero_cpu, mSABIrqEnabled := mSABIrqEnabled zero_cpu,
     mSABUartDividerPhase := mSABUartDividerPhase zero_cpu, mSABUartRxDividerPhase :=
     mSABUartRxDividerPhase zero_cpu, mSABUartRxData := mSABUartRxData zero_cpu, mSABUartTxData :=
     mSABUartTxData zero_cpu, mSABUartTxBitIndex := mSABUartTxBitIndex zero_cpu, mSABUartRxBitIndex
     := mSABUartRxBitIndex zero_cpu, mSABUartTxNinth := mSABUartTxNinth zero_cpu, mSABUartTxPending
     := mSABUartTxPending zero_cpu, mSABUartTxActive := mSABUartTxActive zero_cpu, mSABUartRxActive
     := mSABUartRxActive zero_cpu, serial_out := serial_out zero_cpu, serial_out_idx :=
     serial_out_idx zero_cpu, serial_out_remaining_bits := serial_out_remaining_bits zero_cpu,
     serial_interrupt_trigger := serial_interrupt_trigger zero_cpu, mEvents := mEvents zero_cpu\<rparr>"

lemma peri_rest_fields [simp]:
  "peri_rest (mSABExternalSampledLevels_update f0 c) = peri_rest c"
  "peri_rest (mSABExternalLevelAsserted_update f1 c) = peri_rest c"
  "peri_rest (mSABExternalScheduleHead_update f2 c) = peri_rest c"
  "peri_rest (mSABExternalScheduleCount_update f3 c) = peri_rest c"
  "peri_rest (mSABADCLatchedInput_update f4 c) = peri_rest c"
  "peri_rest (mSABADCLatchedChannel_update f5 c) = peri_rest c"
  "peri_rest (mSABADCLatchedDAPR_update f6 c) = peri_rest c"
  "peri_rest (mSABADCCycles_update f7 c) = peri_rest c"
  "peri_rest (mSABADCArmRestart_update f8 c) = peri_rest c"
  "peri_rest (mSABADCArmed_update f9 c) = peri_rest c"
  "peri_rest (mSABADCActive_update f10 c) = peri_rest c"
  "peri_rest (mSABADCBusy_update f11 c) = peri_rest c"
  "peri_rest (mSABADCReferenceValid_update f12 c) = peri_rest c"
  "peri_rest (mSABADCContinuousRequested_update f13 c) = peri_rest c"
  "peri_rest (mTimerOverflowCount_update f14 c) = peri_rest c"
  "peri_rest (mSABIrqPending_update f15 c) = peri_rest c"
  "peri_rest (mSABIrqEnabled_update f16 c) = peri_rest c"
  "peri_rest (mSABUartDividerPhase_update f17 c) = peri_rest c"
  "peri_rest (mSABUartRxDividerPhase_update f18 c) = peri_rest c"
  "peri_rest (mSABUartRxData_update f19 c) = peri_rest c"
  "peri_rest (mSABUartTxData_update f20 c) = peri_rest c"
  "peri_rest (mSABUartTxBitIndex_update f21 c) = peri_rest c"
  "peri_rest (mSABUartRxBitIndex_update f22 c) = peri_rest c"
  "peri_rest (mSABUartTxNinth_update f23 c) = peri_rest c"
  "peri_rest (mSABUartTxPending_update f24 c) = peri_rest c"
  "peri_rest (mSABUartTxActive_update f25 c) = peri_rest c"
  "peri_rest (mSABUartRxActive_update f26 c) = peri_rest c"
  "peri_rest (serial_out_update f27 c) = peri_rest c"
  "peri_rest (serial_out_idx_update f28 c) = peri_rest c"
  "peri_rest (serial_out_remaining_bits_update f29 c) = peri_rest c"
  "peri_rest (serial_interrupt_trigger_update f30 c) = peri_rest c"
  "peri_rest (mEvents_update f31 c) = peri_rest c"
  by (simp_all add: peri_rest_def)

lemma peri_rest_sfr:
  assumes "\<And>i. i \<notin> peripheral_regs \<Longrightarrow> s i = mSFR c i"
  shows "peri_rest (mSFR_update (\<lambda>_. s) c) = peri_rest c"
proof -
  have "other_regs s = other_regs (mSFR c)" using assms by (auto simp: other_regs_def)
  then show ?thesis by (simp add: peri_rest_def)
qed

lemma mSFR_update_const: "mSFR_update f c = c\<lparr>mSFR := f (mSFR c)\<rparr>"
  by (cases c) simp

lemma peri_rest_sfr_set [simp]:
  assumes "i \<in> peripheral_regs"
  shows "peri_rest (sfr_set i v c) = peri_rest c" "peri_rest (sfr_mod i f c) = peri_rest c"
  unfolding sfr_set_def sfr_mod_def mSFR_update_const [of "\<lambda>s. s(i := v)"] mSFR_update_const [of "\<lambda>s. s(i := f (s i))"]
  using assms by (auto intro: peri_rest_sfr)

lemma peri_rest_ports [simp]:
  "i < 4 \<Longrightarrow> peri_rest (mSABPortExternalMask_update (\<lambda>m. m(i := f m)) c) = peri_rest c"
  "i < 4 \<Longrightarrow> peri_rest (mSABPortExternalLevels_update (\<lambda>m. m(i := f m)) c) = peri_rest c"
proof -
  assume "i < 4"
  then have "beyond_ports (m(i := v)) = beyond_ports m" for m v by (auto simp: beyond_ports_def)
  then show "peri_rest (mSABPortExternalMask_update (\<lambda>m. m(i := f m)) c) = peri_rest c"
    "peri_rest (mSABPortExternalLevels_update (\<lambda>m. m(i := f m)) c) = peri_rest c"
    by (simp_all add: peri_rest_def)
qed

lemma peri_rest_ext:
  assumes "ext_rest a = ext_rest c" "\<And>i. i \<notin> peripheral_regs \<Longrightarrow> mSFR a i = mSFR c i"
  shows "peri_rest a = peri_rest c"
proof -
  have "peri_rest (c\<lparr>mSFR := mSFR a, mSABExternalSampledLevels := mSABExternalSampledLevels a,
         mSABExternalLevelAsserted := mSABExternalLevelAsserted a, mSABIrqPending := mSABIrqPending a,
         mSABIrqEnabled := mSABIrqEnabled a, mEvents := mEvents a\<rparr>) = peri_rest c"
    using peri_rest_sfr [of "mSFR a" c] assms(2) by simp
  with ext_rest_recover [OF assms(1)] show ?thesis by simp
qed


lemma peripheral_regs_mem [simp]:
  "REG_TL0 \<in> peripheral_regs" "REG_TH0 \<in> peripheral_regs" "REG_TL1 \<in> peripheral_regs" "REG_TH1 \<in> peripheral_regs"
  "REG_TCON \<in> peripheral_regs" "REG_SCON \<in> peripheral_regs" "REG_SBUF \<in> peripheral_regs" "REG_P3 \<in> peripheral_regs"
  "SAB_TL2 \<in> peripheral_regs" "SAB_TH2 \<in> peripheral_regs" "SAB_IRCON \<in> peripheral_regs"
  "SAB_ADCON \<in> peripheral_regs" "SAB_ADDAT \<in> peripheral_regs"
  by (simp_all add: peripheral_regs_def)

lemma not_tcon: "i \<notin> peripheral_regs \<Longrightarrow> i \<noteq> REG_TCON" "i \<notin> peripheral_regs \<Longrightarrow> i \<noteq> SAB_IRCON"
  by (auto simp: peripheral_regs_def)

lemma peri_rest_notes [simp]:
  "peri_rest (raw_note E k' cy a' b' d' e' c) = peri_rest c" "peri_rest (emit ins ev c) = peri_rest c"
  "peri_rest (sab_uart_trace_emit E ue cy d n b v c) = peri_rest c" "peri_rest (sab_adc_trace_emit E ae cy c) = peri_rest c"
  by (simp_all add: emit_defs)

lemma peri_rest_irq_write [simp]: "r \<in> peripheral_regs \<Longrightarrow> peri_rest (emu_cpu_irq_write E r v cy c) = peri_rest c"
  by (rule peri_rest_ext) auto

lemma peri_rest_sync [simp]:
  "peri_rest (sab_irq_sync E c) = peri_rest c" "peri_rest (sab_external_sample_port E p c) = peri_rest c"
  "peri_rest (sab_external_maintain_level_requests E c) = peri_rest c"
  by (rule peri_rest_ext; simp add: ext_rest_sab_irq_sync ext_rest_sample_port ext_rest_maintain_level_requests not_tcon)+

lemma peri_rest_serial_tx [simp]: "peri_rest (serial_tx c) = peri_rest c"
  by (simp add: serial_tx_def Let_def)

lemma peri_rest_uart [simp]:
  "peri_rest (sab_uart_tx_boundary E m c) = peri_rest c" "peri_rest (sab_uart_rx_boundary E m c) = peri_rest c"
  by (simp_all add: uart_defs Let_def)

lemma peri_rest_uart_overflow [simp]: "peri_rest (sab_uart_timer1_overflow E c) = peri_rest c"
  by (simp add: sab_uart_timer1_overflow_def Let_def split_beta)

lemma peri_rest_timer_overflow [simp]: "peri_rest (timer_overflow_emit E t c) = peri_rest c"
  by (simp add: timer_overflow_emit_def Let_def)

lemma peri_rest_count [simp]:
  "l \<in> peripheral_regs \<Longrightarrow> peri_rest (snd (count8 l c)) = peri_rest c"
  "l \<in> peripheral_regs \<Longrightarrow> h \<in> peripheral_regs \<Longrightarrow> peri_rest (snd (count13 l h c)) = peri_rest c"
  "l \<in> peripheral_regs \<Longrightarrow> h \<in> peripheral_regs \<Longrightarrow> peri_rest (snd (count16 l h c)) = peri_rest c"
  "l \<in> peripheral_regs \<Longrightarrow> h \<in> peripheral_regs \<Longrightarrow> peri_rest (snd (count8_reload l h c)) = peri_rest c"
  by (simp_all add: count8_def count13_def count16_def count8_reload_def Let_def)

lemma peri_rest_timer_flag [simp]: "peri_rest (set_timer_flag E f c) = peri_rest c"
  by (simp add: set_timer_flag_def)

lemma peri_rest_timer0 [simp]: "peri_rest (timer0_mode3_tick E c) = peri_rest c" "peri_rest (timer0_tick E c) = peri_rest c"
  by (simp_all add: timer0_mode3_tick_def timer0_tick_def Let_def split_beta)

lemma peri_rest_timer1_count [simp]: "peri_rest (timer1_count E c) = peri_rest c"
  by (simp add: timer1_count_def Let_def split_beta)

lemma peri_rest_timer_tick [simp]: "peri_rest (timer_tick E c) = peri_rest c"
  by (simp add: timer_tick_def timer1_tick_def Let_def)

lemma peri_rest_timer2_tick [simp]: "peri_rest (sab_timer2_tick E c) = peri_rest c"
  by (simp add: sab_timer2_tick_def Let_def)

lemma peri_rest_adc_busy [simp]: "peri_rest (sab_adc_set_busy b c) = peri_rest c"
  by (simp add: sab_adc_set_busy_def)

lemma peri_rest_adc_tick [simp]: "peri_rest (sab_adc_tick E c) = peri_rest c"
  by (simp add: sab_adc_tick_def sab_adc_begin_def sab_adc_complete_def Let_def)

lemma sab_port_index_bound: "sab_port_index c p = Some i \<Longrightarrow> i < 4"
  by (auto simp: sab_port_index_def split: if_splits)

lemma peri_rest_port [simp]:
  "peri_rest (snd (em8051_sab_port_drive E p m l c)) = peri_rest c"
  "peri_rest (snd (em8051_sab_port_release E p m c)) = peri_rest c"
  by (auto simp: em8051_sab_port_drive_def em8051_sab_port_release_def Let_def sab_port_index_bound split: option.split)

lemma peri_rest_apply_event [simp]: "peri_rest (snd (sab_external_apply_event E e c)) = peri_rest c"
  by (simp add: sab_external_apply_event_def em8051_sab_external_drive_def em8051_sab_external_release_def
      split: option.split prod.split)

lemma peri_rest_apply_loop [simp]: "peri_rest (apply_scheduled_loop E c) = peri_rest c"
proof (induction E c rule: apply_scheduled_loop.induct)
  case (1 E c)
  have "peri_rest (schedule_pop c) = peri_rest c" by (simp add: schedule_pop_def)
  with 1 show ?case by (subst apply_scheduled_loop.simps) (simp add: Let_def)
qed

lemma peri_rest_apply_scheduled [simp]: "peri_rest (sab_external_apply_scheduled E c) = peri_rest c"
  by (simp add: sab_external_apply_scheduled_def Let_def)

text \<open>One machine cycle: the cycle counter advances by one, and an abort ends the cycle early.\<close>

lemma peri_restD:
  assumes "peri_rest a = peri_rest b"
  shows "cpu_part a = cpu_part b" "mMachineCycleCount a = mMachineCycleCount b"
    "i \<notin> peripheral_regs \<Longrightarrow> mSFR a i = mSFR b i"
    "beyond_ports (mSABPortExternalMask a) = beyond_ports (mSABPortExternalMask b)"
    "beyond_ports (mSABPortExternalLevels a) = beyond_ports (mSABPortExternalLevels b)"
    "mSABExternalSchedule a = mSABExternalSchedule b" "mSABADCInputs a = mSABADCInputs b"
proof -
  have "cpu_part (peri_rest x) = cpu_part x" for x by (simp add: peri_rest_def)
  then show "cpu_part a = cpu_part b" using assms by metis
  show "mMachineCycleCount a = mMachineCycleCount b" using arg_cong [OF assms, of mMachineCycleCount] by (simp add: peri_rest_def)
  show "mSFR a i = mSFR b i" if "i \<notin> peripheral_regs"
    using fun_cong [OF arg_cong [OF assms, of mSFR], of i] that by (simp add: peri_rest_def other_regs_def)
  show "beyond_ports (mSABPortExternalMask a) = beyond_ports (mSABPortExternalMask b)"
    "beyond_ports (mSABPortExternalLevels a) = beyond_ports (mSABPortExternalLevels b)"
    using arg_cong [OF assms, of mSABPortExternalMask] arg_cong [OF assms, of mSABPortExternalLevels]
    by (simp_all add: peri_rest_def)
  show "mSABExternalSchedule a = mSABExternalSchedule b" "mSABADCInputs a = mSABADCInputs b"
    using arg_cong [OF assms, of mSABExternalSchedule] arg_cong [OF assms, of mSABADCInputs] by (simp_all add: peri_rest_def)
qed

lemma peri_rest_clock:
  assumes "peri_rest a = peri_rest b"
  shows "peri_rest (a\<lparr>mMachineCycleCount := n\<rparr>) = peri_rest (b\<lparr>mMachineCycleCount := n\<rparr>)"
proof -
  have "peri_rest (x\<lparr>mMachineCycleCount := n\<rparr>) = (peri_rest x)\<lparr>mMachineCycleCount := n\<rparr>" for x
    by (simp add: peri_rest_def)
  then show ?thesis using assms by simp
qed

lemma peri_rest_cycle:
  "peri_rest (advance_machine_cycle E c) = peri_rest c \<and> execution_abort E \<noteq> None \<or>
   peri_rest (advance_machine_cycle E c) = peri_rest (c\<lparr>mMachineCycleCount := mMachineCycleCount c + 1\<rparr>)"
proof -
  define d where "d = sab_adc_tick E (sab_timer2_tick E (timer_tick E (raw_note E EMU_RAW_CYCLE_BEGIN (mMachineCycleCount c + 1) 0 0 0 0 c)))"
  have d: "peri_rest d = peri_rest c" by (simp add: d_def)
  have "peri_rest (d\<lparr>mMachineCycleCount := mMachineCycleCount d + 1\<rparr>) = peri_rest (c\<lparr>mMachineCycleCount := mMachineCycleCount c + 1\<rparr>)"
    using peri_rest_clock [OF d] peri_restD(2) [OF d] by simp
  then show ?thesis
    using d by (auto simp: advance_machine_cycle_def Let_def em8051_execution_aborted_def simp flip: d_def split: option.split)
qed

lemma cycle_cases:
  obtains (ran) "peri_rest (advance_machine_cycle E c) = peri_rest (c\<lparr>mMachineCycleCount := mMachineCycleCount c + 1\<rparr>)"
    | (aborted) "peri_rest (advance_machine_cycle E c) = peri_rest c" "execution_abort E \<noteq> None"
  using peri_rest_cycle [of E c] by blast

lemma cpu_part_advance_machine_cycle [simp]: "cpu_part (advance_machine_cycle E c) = cpu_part c"
  by (cases E c rule: cycle_cases) (drule peri_restD(1), simp)+

lemmas advance_machine_cycle_fields [simp] = cpu_partD [OF cpu_part_advance_machine_cycle]

lemma cycle_clock:
  "mMachineCycleCount (advance_machine_cycle E c) = mMachineCycleCount c + 1 \<or>
   execution_abort E \<noteq> None \<and> mMachineCycleCount (advance_machine_cycle E c) = mMachineCycleCount c"
  by (cases E c rule: cycle_cases) (drule peri_restD(2), simp)+

lemma cycle_regs: "i \<notin> peripheral_regs \<Longrightarrow> mSFR (advance_machine_cycle E c) i = mSFR c i"
  by (cases E c rule: cycle_cases) (drule peri_restD(3), simp_all)+

end
