(* ===== verification/Sfr.thy ===== *)
theory Sfr
  imports Adc Uart
begin

text \<open>
  The SFR access gateways of \<^verbatim>\<open>core.c\<close>, through which every direct-address access above 0x7F
  goes.  A read may be overridden by an installed callback, resolves a port's pins, and gives the
  receive side of \<open>SBUF\<close> on the SAB80535; a read-modify-write reads a port's latch; a write has the
  side effects of the register (transmit start, conversion start, line sampling, arbitration
  inhibit).
\<close>

definition em8051_sfr_read :: "em8051_callbacks \<Rightarrow> u8 \<Rightarrow> em8051 \<Rightarrow> u8 \<times> em8051" where
  "em8051_sfr_read E aAddress c =
     (if aAddress < 0x80 then (0xff, c)
      else
        let index = unat (aAddress - 0x80)
        in if is_sab c \<and> aAddress = 0x99 then
             (case sfrread E index of Some f \<Rightarrow> f c aAddress | None \<Rightarrow> (mSABUartRxData c, c))
           else
             (case sfrread E index of
                Some f \<Rightarrow> f c aAddress
              | None \<Rightarrow>
                  (case em8051_sab_port_get_pins c aAddress of
                     Some pins \<Rightarrow> (pins, c)
                   | None \<Rightarrow> (mSFR c index, c))))"

definition em8051_sfr_rmw_read :: "em8051_callbacks \<Rightarrow> u8 \<Rightarrow> em8051 \<Rightarrow> u8 \<times> em8051" where
  "em8051_sfr_rmw_read E aAddress c =
     (if aAddress < 0x80 then (0xff, c)
      else case em8051_sab_port_get_latch c aAddress of
        Some latch \<Rightarrow> (latch, c)
      | None \<Rightarrow> em8051_sfr_read E aAddress c)"

definition sab_irq_arm_inhibit :: "em8051 \<Rightarrow> em8051" where
  "sab_irq_arm_inhibit c = c\<lparr>mSABIrqInhibitInstructions := (if mInInstruction c then 2 else 1)\<rparr>"

text \<open>\<open>EMUIF_SPACE_SFR\<close> and the access kinds of the contract headers, as used in raw facts.\<close>

abbreviation (input) EMUIF_SPACE_SFR :: u32 where "EMUIF_SPACE_SFR \<equiv> 2"
abbreviation (input) EMUIF_OBS_ACCESS_WRITE :: u32 where "EMUIF_OBS_ACCESS_WRITE \<equiv> 4"
abbreviation (input) EMUIF_OBS_ACCESS_RMW :: u32 where "EMUIF_OBS_ACCESS_RMW \<equiv> 8"

definition call_sfrwrite :: "em8051_callbacks \<Rightarrow> nat \<Rightarrow> u8 \<Rightarrow> em8051 \<Rightarrow> em8051" where
  "call_sfrwrite E index aAddress c =
     (case sfrwrite E index of None \<Rightarrow> c | Some f \<Rightarrow> f c aAddress)"

text \<open>The \<open>SBUF\<close> branch of \<open>em8051_sfr_write\<close> on the SAB80535.\<close>

definition sfr_write_sbuf :: "em8051_callbacks \<Rightarrow> u8 \<Rightarrow> u8 \<Rightarrow> em8051 \<Rightarrow> em8051" where
  "sfr_write_sbuf E aAddress aValue c =
     (let (observed_access, c1) = emu_cpu_raw E EMU_RAW_ACCESS_BEGIN (mMachineCycleCount c)
            (ucast aAddress) EMUIF_SPACE_SFR EMUIF_OBS_ACCESS_WRITE (ucast aValue) c
      in if em8051_execution_aborted E c1 then c1
         else
           let c2 = sab_uart_sbuf_write E aValue c1;
               c3 = sfr_set REG_SBUF aValue c2;
               c4 = call_sfrwrite E REG_SBUF aAddress c3
           in if em8051_execution_aborted E c4 then
                raw_note E EMU_RAW_ACCESS_END (mMachineCycleCount c4) observed_access (ucast aAddress)
                  (push_bit 16 EMUIF_SPACE_SFR OR EMUIF_OBS_ACCESS_WRITE) (ucast aValue) c4
              else
                let c5 = sfr_set REG_SBUF (mSABUartRxData c4) c4;
                    c6 = em8051_trace_emit E EM8051_TRACE_SFR_WRITE (ucast aAddress) aValue c5;
                    c7 = sab_adc_finish_sfr_transaction c6
                in raw_note E EMU_RAW_ACCESS_END (mMachineCycleCount c7) observed_access (ucast aAddress)
                     (push_bit 16 EMUIF_SPACE_SFR OR EMUIF_OBS_ACCESS_WRITE) (ucast aValue) c7)"

definition em8051_sfr_write :: "em8051_callbacks \<Rightarrow> u8 \<Rightarrow> u8 \<Rightarrow> em8051 \<Rightarrow> em8051" where
  "em8051_sfr_write E aAddress aValue c =
     (if aAddress < 0x80 then c
      else
        let index = unat (aAddress - 0x80);
            c1 = (if is_sab c then c\<lparr>mSABSfrWriteDepth := mSABSfrWriteDepth c + 1\<rparr> else c);
            v = (if is_sab c \<and> aAddress = 0xD8
                 then (aValue AND NOT SAB_ADCONMASK_BSY) OR (if mSABADCBusy c then SAB_ADCONMASK_BSY else 0)
                 else aValue)
        in if is_sab c \<and> aAddress = 0x99 then sfr_write_sbuf E aAddress v c1
           else
             let c2 = emu_cpu_irq_write E index v (mMachineCycleCount c1) c1;
                 c3 = (if is_sab c2 \<and> aAddress = 0xDA then sab_adc_request_start c2 else c2);
                 c4 = call_sfrwrite E index aAddress c3
             in if em8051_execution_aborted E c4 then c4
                else
                  let c5 = (if sab_port_index c4 aAddress \<noteq> None
                            then sab_external_sample_port E aAddress c4 else c4);
                      c6 = em8051_trace_emit E EM8051_TRACE_SFR_WRITE (ucast aAddress) v c5;
                      c7 = (if is_sab c6 \<and> (aAddress = 0xA8 \<or> aAddress = 0xB8 \<or>
                                            aAddress = 0xA9 \<or> aAddress = 0xB9)
                            then sab_irq_arm_inhibit c6 else c6)
                  in sab_adc_finish_sfr_transaction c7)"

end
