(* ===== verification/Memory.thy ===== *)
theory Memory
  imports Sfr
begin

text \<open>
  Data memory and the stack (\<^verbatim>\<open>opcodes.c\<close>, lines 51 to 187): direct, read-modify-write and
  indirect accesses, pushing and popping through the indirect space, and the MOVX transaction
  record.  Direct addresses above 0x7F are special function registers, indirect ones the upper
  RAM, which may be absent.
\<close>

subsection \<open>Data memory\<close>

definition read_mem :: "em8051_callbacks \<Rightarrow> u8 \<Rightarrow> em8051 \<Rightarrow> u8 \<times> em8051" where
  "read_mem E aAddress c =
     (if aAddress > 0x7f then em8051_sfr_read E aAddress c else (mLowerData c (unat aAddress), c))"

definition read_mem_rmw :: "em8051_callbacks \<Rightarrow> u8 \<Rightarrow> em8051 \<Rightarrow> u8 \<times> em8051" where
  "read_mem_rmw E aAddress c =
     (if aAddress = 0x99 then
        (let (id, c1) = emu_cpu_raw E EMU_RAW_ACCESS_BEGIN (mMachineCycleCount c) (ucast aAddress)
               EMUIF_SPACE_SFR EMUIF_OBS_ACCESS_RMW 0 c;
             (v, c2) = em8051_sfr_rmw_read E aAddress c1
         in (v, raw_note E EMU_RAW_ACCESS_OLD (mMachineCycleCount c2) id (ucast v) 0 0 c2))
      else if aAddress > 0x7f then em8051_sfr_rmw_read E aAddress c
      else (mLowerData c (unat aAddress), c))"

abbreviation (input) BAD_VALUE :: u8 where "BAD_VALUE \<equiv> 0x77"

definition read_mem_indir :: "u8 \<Rightarrow> em8051 \<Rightarrow> u8" where
  "read_mem_indir aAddress c =
     (if aAddress > 0x7f then
        (case mUpperData c of
           UpperNull \<Rightarrow> BAD_VALUE
         | UpperOwned \<Rightarrow> mOwnedUpperData c (unat (aAddress - 0x80))
         | UpperCaller \<Rightarrow> mCallerUpperData c (unat (aAddress - 0x80)))
      else mLowerData c (unat aAddress))"

definition lower_set :: "nat \<Rightarrow> u8 \<Rightarrow> em8051 \<Rightarrow> em8051" where
  "lower_set i v c = mLowerData_update (\<lambda>m. m(i := v)) c"

definition lower_mod :: "nat \<Rightarrow> (u8 \<Rightarrow> u8) \<Rightarrow> em8051 \<Rightarrow> em8051" where
  "lower_mod i f c = mLowerData_update (\<lambda>m. m(i := f (m i))) c"

definition write_mem :: "em8051_callbacks \<Rightarrow> u8 \<Rightarrow> u8 \<Rightarrow> em8051 \<Rightarrow> em8051" where
  "write_mem E aAddress v c =
     (if aAddress > 0x7f then em8051_sfr_write E aAddress v c else lower_set (unat aAddress) v c)"

definition write_mem_indir :: "u8 \<Rightarrow> u8 \<Rightarrow> em8051 \<Rightarrow> em8051" where
  "write_mem_indir aAddress v c =
     (if aAddress > 0x7f then
        (case mUpperData c of
           UpperNull \<Rightarrow> c
         | UpperOwned \<Rightarrow> mOwnedUpperData_update (\<lambda>m. m(unat (aAddress - 0x80) := v)) c
         | UpperCaller \<Rightarrow> mCallerUpperData_update (\<lambda>m. m(unat (aAddress - 0x80) := v)) c)
      else lower_set (unat aAddress) v c)"

subsection \<open>Stack\<close>

definition push_to_stack :: "em8051_callbacks \<Rightarrow> u8 \<Rightarrow> em8051 \<Rightarrow> bool \<times> em8051" where
  "push_to_stack E aValue c =
     (let c1 = sfr_mod REG_SP (\<lambda>v. v + 1) c
      in if mSFR c1 REG_SP > 0x7f \<and> mUpperData c1 = UpperNull
         then (False, em8051_raise_exception E EXCEPTION_STACK c1)
         else
           let c2 = write_mem_indir (mSFR c1 REG_SP) aValue c1
           in if mSFR c2 REG_SP = 0 then (False, em8051_raise_exception E EXCEPTION_STACK c2)
              else (True, c2))"

definition pop_from_stack :: "em8051_callbacks \<Rightarrow> em8051 \<Rightarrow> u8 option \<times> em8051" where
  "pop_from_stack E c =
     (if mSFR c REG_SP > 0x7f \<and> mUpperData c = UpperNull
      then (None, em8051_raise_exception E EXCEPTION_STACK c)
      else
        let v = read_mem_indir (mSFR c REG_SP) c;
            c1 = sfr_mod REG_SP (\<lambda>s. s - 1) c
        in if mSFR c1 REG_SP = 0xff then (None, em8051_raise_exception E EXCEPTION_STACK c1)
           else (Some v, c1))"

subsection \<open>MOVX transactions\<close>

definition movx_context_capture ::
    "em8051 \<Rightarrow> u16 \<Rightarrow> em8051_movx_direction \<Rightarrow> u8 \<Rightarrow> em8051_movx_context" where
  "movx_context_capture c aAddress aDirection aValue =
     \<lparr>mx_machine_cycle = mMachineCycleCount c, mx_pc = mPC c, mx_address = aAddress,
      mx_direction = aDirection, mx_value = aValue, mx_p1_latch = mSFR c REG_P1\<rparr>"

definition movx_context_emit ::
    "em8051_callbacks \<Rightarrow> em8051_movx_context \<Rightarrow> u8 \<Rightarrow> em8051 \<Rightarrow> em8051" where
  "movx_context_emit E aContext aValue c =
     emit (movx_observer E) (EvMovx (aContext\<lparr>mx_value := aValue\<rparr>)) c"

declare movx_context_emit_def [emit_defs]

definition EXTDATA :: "em8051 \<Rightarrow> u16 \<Rightarrow> u8 option" where
  "EXTDATA c x = map_option (\<lambda>p. mBuffers c p (x AND mExtDataMaxIdx c)) (mExtData c)"

definition extdata_set :: "u16 \<Rightarrow> u8 \<Rightarrow> em8051 \<Rightarrow> em8051" where
  "extdata_set x v c =
     (case mExtData c of
        None \<Rightarrow> c
      | Some p \<Rightarrow> c\<lparr>mBuffers := (mBuffers c)(p := (mBuffers c p)(x AND mExtDataMaxIdx c := v))\<rparr>)"

subsection \<open>Interface: byte-addressed memory\<close>

text \<open>
  What the stack relies on: a cell that exists reads back what was last written to it, and a write
  to an existing cell changes no other cell and no cell's existence.
\<close>

locale byte_memory =
  fixes rd :: "'a \<Rightarrow> 's \<Rightarrow> 'v"
    and wr :: "'a \<Rightarrow> 'v \<Rightarrow> 's \<Rightarrow> 's"
    and cell :: "'a \<Rightarrow> 's \<Rightarrow> bool"
  assumes rd_wr: "cell a s \<Longrightarrow> rd b (wr a v s) = (if b = a then v else rd b s)"
    and cell_wr: "cell b (wr a v s) = cell b s"
begin

lemma rd_wr_two:
  assumes "cell a s" "cell b s" "a \<noteq> b"
  shows "rd a (wr b w (wr a v s)) = v" "rd b (wr b w (wr a v s)) = w"
    "d \<noteq> a \<Longrightarrow> d \<noteq> b \<Longrightarrow> rd d (wr b w (wr a v s)) = rd d s"
  using assms by (simp_all add: rd_wr cell_wr)

end

definition iram_cell :: "u8 \<Rightarrow> em8051 \<Rightarrow> bool" where
  "iram_cell a c \<longleftrightarrow> a \<le> 0x7f \<or> mUpperData c \<noteq> UpperNull"

lemma write_indir_frame [simp]:
  "mSFR (write_mem_indir a v c) = mSFR c" "mUpperData (write_mem_indir a v c) = mUpperData c"
  "mPC (write_mem_indir a v c) = mPC c" "mVariant (write_mem_indir a v c) = mVariant c"
  by (simp_all add: write_mem_indir_def lower_set_def split: upper_ptr.split)

lemma read_indir_sfr [simp]:
  "read_mem_indir a (sfr_mod i f c) = read_mem_indir a c" "read_mem_indir a (sfr_set i v c) = read_mem_indir a c"
  by (simp_all add: read_mem_indir_def split: upper_ptr.split)

interpretation iram: byte_memory read_mem_indir write_mem_indir iram_cell
proof
  show "iram_cell a s \<Longrightarrow> read_mem_indir b (write_mem_indir a v s) = (if b = a then v else read_mem_indir b s)" for a b v s
    by (auto simp: iram_cell_def read_mem_indir_def write_mem_indir_def lower_set_def not_less
        simp flip: word_unat_eq_iff split: upper_ptr.split)
  show "iram_cell b (write_mem_indir a v s) = iram_cell b s" for a b v s
    by (simp add: iram_cell_def)
qed

subsection \<open>The stack\<close>

text \<open>Whether a byte can be pushed: the next stack address exists and is not the wrapped one.\<close>

definition push_ok :: "em8051 \<Rightarrow> bool" where
  "push_ok c \<longleftrightarrow> mSFR c REG_SP \<noteq> 0xff \<and> iram_cell (mSFR c REG_SP + 1) c"

definition pushed :: "u8 \<Rightarrow> em8051 \<Rightarrow> em8051" where
  "pushed v c = write_mem_indir (mSFR c REG_SP + 1) v (sfr_mod REG_SP (\<lambda>s. s + 1) c)"

lemma sp_wrap: "(s + 1 = 0) = (s = 0xff)" for s :: u8
  using unat_u8 [of s] by (auto simp: word_unat_eq_iff unat_u8_inc mod_if)

lemma push_value: "push_ok c \<Longrightarrow> push_to_stack E v c = (True, pushed v c)"
  by (auto simp: push_ok_def push_to_stack_def pushed_def iram_cell_def Let_def sp_wrap)

lemma push_error:
  "\<not> push_ok c \<Longrightarrow> \<exists>d. push_to_stack E v c = (False, em8051_raise_exception E EXCEPTION_STACK d)"
  by (auto simp: push_ok_def push_to_stack_def iram_cell_def Let_def sp_wrap not_le)

lemma pushed_fields [simp]:
  "mSFR (pushed v c) = (mSFR c)(REG_SP := mSFR c REG_SP + 1)" "mUpperData (pushed v c) = mUpperData c"
  "mPC (pushed v c) = mPC c" "mVariant (pushed v c) = mVariant c"
  by (simp_all add: pushed_def)

lemma pop_value:
  assumes "iram_cell (mSFR c REG_SP) c" "mSFR c REG_SP \<noteq> 0"
  shows "pop_from_stack E c = (Some (read_mem_indir (mSFR c REG_SP) c), sfr_mod REG_SP (\<lambda>s. s - 1) c)"
proof -
  have "mSFR c REG_SP - 1 \<noteq> 0xff" using assms(2) by (metis diff_add_cancel sp_wrap)
  then show ?thesis using assms(1) by (auto simp: pop_from_stack_def Let_def iram_cell_def)
qed

lemma pop_pushed:
  assumes "push_ok c"
  shows "pop_from_stack E (pushed v c) = (Some v, sfr_mod REG_SP (\<lambda>s. s - 1) (pushed v c))"
proof -
  have cell: "iram_cell (mSFR c REG_SP + 1) (sfr_mod REG_SP (\<lambda>s. s + 1) c)" "iram_cell (mSFR c REG_SP + 1) (pushed v c)"
    using assms by (simp_all add: push_ok_def pushed_def iram_cell_def)
  have "read_mem_indir (mSFR c REG_SP + 1) (pushed v c) = v"
    using iram.rd_wr [OF cell(1), of "mSFR c REG_SP + 1" v] by (simp add: pushed_def)
  then show ?thesis
    using pop_value [of "pushed v c" E] cell(2) assms by (simp add: push_ok_def sp_wrap)
qed

text \<open>
  Push and pop.  Where there is room, a push succeeds and the pop after it returns the pushed
  byte, restores every register and leaves every other cell of the indirect space as it was; where
  there is none (no upper RAM above 7Fh, or the stack pointer wraps) the push reports failure and
  raises the stack exception.
\<close>

theorem push_pop:
  "if push_ok c then
     (case push_to_stack E v c of (ok, c1) \<Rightarrow> case pop_from_stack E c1 of (r, c2) \<Rightarrow>
        ok \<and> r = Some v \<and> mSFR c2 = mSFR c \<and>
        read_mem_indir a c2 = (if a = mSFR c REG_SP + 1 then v else read_mem_indir a c))
   else \<exists>d. push_to_stack E v c = (False, em8051_raise_exception E EXCEPTION_STACK d)"
proof (cases "push_ok c")
  case True
  have "iram_cell (mSFR c REG_SP + 1) (sfr_mod REG_SP (\<lambda>s. s + 1) c)"
    using True by (simp add: push_ok_def iram_cell_def)
  then have "read_mem_indir a (pushed v c) = (if a = mSFR c REG_SP + 1 then v else read_mem_indir a c)"
    by (simp only: pushed_def iram.rd_wr read_indir_sfr)
  then show ?thesis
    using True by (simp add: push_value pop_pushed)
qed (simp add: push_error)

end
