(* ===== verification/Irq.thy ===== *)
theory Irq
  imports Memory
begin

text \<open>
  The interrupt controllers of \<^verbatim>\<open>core.c\<close>: the SAB80535's twelve sources with four priority
  levels, a stack of at most four services in progress and an inhibit window after \<open>RETI\<close> and
  after writes of the enable and priority registers; and the two-level classic controller.
\<close>

subsection \<open>SAB80535 controller\<close>

fun gSABIrqVectors :: "em8051_sab_irq_source \<Rightarrow> u16" where
  "gSABIrqVectors EM8051_SAB_IRQ_INT0 = 0x0003"
| "gSABIrqVectors EM8051_SAB_IRQ_TIMER0 = 0x000B"
| "gSABIrqVectors EM8051_SAB_IRQ_INT1 = 0x0013"
| "gSABIrqVectors EM8051_SAB_IRQ_TIMER1 = 0x001B"
| "gSABIrqVectors EM8051_SAB_IRQ_UART = 0x0023"
| "gSABIrqVectors EM8051_SAB_IRQ_TIMER2 = 0x002B"
| "gSABIrqVectors EM8051_SAB_IRQ_ADC = 0x0043"
| "gSABIrqVectors EM8051_SAB_IRQ_INT2 = 0x004B"
| "gSABIrqVectors EM8051_SAB_IRQ_INT3 = 0x0053"
| "gSABIrqVectors EM8051_SAB_IRQ_INT4 = 0x005B"
| "gSABIrqVectors EM8051_SAB_IRQ_INT5 = 0x0063"
| "gSABIrqVectors EM8051_SAB_IRQ_INT6 = 0x006B"

definition irq_source_of :: "int \<Rightarrow> em8051_sab_irq_source option" where
  "irq_source_of n = (if 0 \<le> n \<and> n < 12 then Some (irq_sources ! nat n) else None)"

definition sab_irq_priority :: "em8051 \<Rightarrow> em8051_sab_irq_source \<Rightarrow> u8" where
  "sab_irq_priority c aSource =
     (let pair = (if irq_index aSource \<ge> 6 then irq_index aSource - 6 else irq_index aSource);
          b = push_bit pair 1;
          ip0 = mSFR c SAB_IP0;
          ip1 = mSFR c SAB_IP1
      in (if ip0 AND b \<noteq> 0 then 1 else 0) OR (if ip1 AND b \<noteq> 0 then 2 else 0))"

text \<open>The request register of a source, by index, and the mask that clears the source.\<close>

fun sab_irq_request :: "em8051_sab_irq_source \<Rightarrow> nat \<times> u8" where
  "sab_irq_request EM8051_SAB_IRQ_INT0 = (REG_TCON, TCONMASK_IE0)"
| "sab_irq_request EM8051_SAB_IRQ_TIMER0 = (REG_TCON, TCONMASK_TF0)"
| "sab_irq_request EM8051_SAB_IRQ_INT1 = (REG_TCON, TCONMASK_IE1)"
| "sab_irq_request EM8051_SAB_IRQ_TIMER1 = (REG_TCON, TCONMASK_TF1)"
| "sab_irq_request EM8051_SAB_IRQ_UART = (REG_SCON, SCONMASK_RI OR SCONMASK_TI)"
| "sab_irq_request EM8051_SAB_IRQ_TIMER2 = (SAB_IRCON, SAB_IRCONMASK_TF2 OR SAB_IRCONMASK_EXF2)"
| "sab_irq_request EM8051_SAB_IRQ_ADC = (SAB_IRCON, SAB_IRCONMASK_IADC)"
| "sab_irq_request aSource = (SAB_IRCON, push_bit (irq_index aSource - 6) 1)"

definition em8051_sab_irq_set_pending ::
    "em8051_callbacks \<Rightarrow> int \<Rightarrow> bool \<Rightarrow> em8051 \<Rightarrow> bool \<times> em8051" where
  "em8051_sab_irq_set_pending E aSource aPending c =
     (if \<not> is_sab c then (False, c)
      else case irq_source_of aSource of
        None \<Rightarrow> (False, c)
      | Some source \<Rightarrow>
          let (request_sfr, mask) = sab_irq_request source;
              c1 = (if aPending then
                      (let request_mask = (if source = EM8051_SAB_IRQ_UART then SCONMASK_RI
                                           else if source = EM8051_SAB_IRQ_TIMER2 then SAB_IRCONMASK_TF2
                                           else mask)
                       in emu_cpu_irq_write E request_sfr (mSFR c request_sfr OR request_mask)
                            (mMachineCycleCount c) c)
                    else sfr_mod request_sfr (\<lambda>v. v AND NOT mask) c);
              c2 = sab_irq_sync E c1
          in (True, sab_irq_trace_emit E EM8051_SAB_IRQ_TRACE_REQUEST source
                (sab_irq_priority c2 source) aPending (mSABIrqPending c2) c2))"

definition sab_irq_timer2_is_enabled :: "em8051 \<Rightarrow> bool" where
  "sab_irq_timer2_is_enabled c \<longleftrightarrow>
     (mSFR c SAB_IRCON AND SAB_IRCONMASK_TF2 \<noteq> 0 \<and> mSFR c SAB_IEN0 AND IEMASK_ET2 \<noteq> 0) \<or>
     (mSFR c SAB_IRCON AND SAB_IRCONMASK_EXF2 \<noteq> 0 \<and> mSFR c SAB_IEN1 AND SAB_IEN1MASK_EXEN2 \<noteq> 0)"

fun sab_irq_auto_clear :: "em8051_sab_irq_source \<Rightarrow> em8051 \<Rightarrow> em8051" where
  "sab_irq_auto_clear EM8051_SAB_IRQ_INT0 c =
     (if mSFR c REG_TCON AND TCONMASK_IT0 \<noteq> 0
      then sfr_mod REG_TCON (\<lambda>v. v AND NOT TCONMASK_IE0) c else c)"
| "sab_irq_auto_clear EM8051_SAB_IRQ_TIMER0 c = sfr_mod REG_TCON (\<lambda>v. v AND NOT TCONMASK_TF0) c"
| "sab_irq_auto_clear EM8051_SAB_IRQ_INT1 c =
     (if mSFR c REG_TCON AND TCONMASK_IT1 \<noteq> 0
      then sfr_mod REG_TCON (\<lambda>v. v AND NOT TCONMASK_IE1) c else c)"
| "sab_irq_auto_clear EM8051_SAB_IRQ_TIMER1 c = sfr_mod REG_TCON (\<lambda>v. v AND NOT TCONMASK_TF1) c"
| "sab_irq_auto_clear EM8051_SAB_IRQ_UART c = c"
| "sab_irq_auto_clear EM8051_SAB_IRQ_TIMER2 c = c"
| "sab_irq_auto_clear EM8051_SAB_IRQ_ADC c = c"
| "sab_irq_auto_clear aSource c =
     sfr_mod SAB_IRCON (\<lambda>v. v AND NOT (push_bit (irq_index aSource - 6) 1)) c"

text \<open>The \<open>continue\<close> conditions of the arbitration loop: whether a source competes at all.\<close>

definition irq_candidate :: "em8051 \<Rightarrow> em8051_sab_irq_source \<Rightarrow> bool" where
  "irq_candidate c s \<longleftrightarrow>
     mSABIrqPending c AND SAB_IRQ_BIT s \<noteq> 0 \<and> mSABIrqEnabled c AND SAB_IRQ_BIT s \<noteq> 0 \<and>
     mSABIrqInService c AND SAB_IRQ_BIT s = 0 \<and>
     (s = EM8051_SAB_IRQ_TIMER2 \<longrightarrow> sab_irq_timer2_is_enabled c) \<and>
     (mSABIrqDepth c \<noteq> 0 \<longrightarrow>
        \<not> sab_irq_priority c s \<le> mSABIrqPriorityStack c (unat (mSABIrqDepth c) - 1))"

text \<open>
  The arbitration loop: \<open>None\<close> is \<open>selected = -1\<close>.  A later source replaces the selected one only
  with a strictly higher priority.
\<close>

definition irq_arbitrate_step :: "em8051 \<Rightarrow> em8051_sab_irq_source
    \<Rightarrow> em8051_sab_irq_source option \<Rightarrow> em8051_sab_irq_source option" where
  "irq_arbitrate_step c s selected =
     (if \<not> irq_candidate c s then selected
      else case selected of
        None \<Rightarrow> Some s
      | Some t \<Rightarrow> if sab_irq_priority c s > sab_irq_priority c t then Some s else selected)"

definition irq_arbitrate :: "em8051 \<Rightarrow> em8051_sab_irq_source option" where
  "irq_arbitrate c = fold (irq_arbitrate_step c) irq_sources None"

text \<open>Entering the service of a selected source once the return address is on the stack.\<close>

definition sab_irq_enter :: "em8051_callbacks \<Rightarrow> u8 \<Rightarrow> em8051_sab_irq_source \<Rightarrow> u8 \<Rightarrow> u16 \<Rightarrow> u16 \<Rightarrow> u8
    \<Rightarrow> em8051 \<Rightarrow> em8051" where
  "sab_irq_enter E depth selected selected_priority pending_snapshot observed_return_pc observed_sp c =
     (let d = unat depth;
          c1 = sfr_mod REG_PCON (\<lambda>v. v AND NOT 0x01) c;
          c2 = c1\<lparr>mPC := gSABIrqVectors selected,
                  mTickDelay := 1,
                  mSABIrqSourceStack := (mSABIrqSourceStack c1)(d := word_of_nat (irq_index selected)),
                  mSABIrqPriorityStack := (mSABIrqPriorityStack c1)(d := selected_priority),
                  mSABIrqSavedACC := (mSABIrqSavedACC c1)(d := mSFR c1 REG_ACC),
                  mSABIrqSavedPSW := (mSABIrqSavedPSW c1)(d := mSFR c1 REG_PSW),
                  mSABIrqSavedSP := (mSABIrqSavedSP c1)(d := mSFR c1 REG_SP),
                  mSABIrqDepth := depth + 1,
                  mSABIrqInService := mSABIrqInService c1 OR SAB_IRQ_BIT selected\<rparr>;
          c3 = raw_note E EMU_RAW_IRQ_ENTER (mMachineCycleCount c2) (of_nat (irq_index selected))
                 (ucast observed_return_pc) (ucast observed_sp) (ucast (mSFR c2 REG_SP)) c2;
          c4 = sab_irq_auto_clear selected c3;
          c5 = sab_irq_sync E c4
      in sab_irq_trace_emit E EM8051_SAB_IRQ_TRACE_ACCEPT selected selected_priority True
           pending_snapshot c5)"

definition handle_sab_interrupts :: "em8051_callbacks \<Rightarrow> em8051 \<Rightarrow> bool \<times> em8051" where
  "handle_sab_interrupts E c0 =
     (let c = sab_irq_sync E c0
      in if mSABIrqInhibitInstructions c \<noteq> 0 then (True, c)
         else if mSFR c SAB_IEN0 AND IEMASK_EA = 0 then (True, c)
         else case irq_arbitrate c of
           None \<Rightarrow> (True, c)
         | Some selected \<Rightarrow>
             if mSABIrqDepth c \<ge> 4 then (True, c)
             else
               let selected_priority = sab_irq_priority c selected;
                   (ok, c1) = (case mObservation E of
                      None \<Rightarrow> (True, c)
                    | Some _ \<Rightarrow>
                        let (r, c') = emu_cpu_raw E EMU_RAW_CONTEXT_PREFLIGHT (mMachineCycleCount c) 0 0 0 0 c
                        in (r \<noteq> 0, c'))
               in if \<not> ok then (False, c1)
                  else
                    let pending_snapshot = mSABIrqPending c1;
                        observed_return_pc = mPC c1;
                        observed_sp = mSFR c1 REG_SP;
                        (ok1, c2) = push_to_stack E (ucast (mPC c1 AND 0xff)) c1
                    in if \<not> ok1 then (False, c2)
                       else
                         let (ok2, c3) = push_to_stack E (ucast (drop_bit 8 (mPC c2))) c2
                         in if \<not> ok2 then (False, c3)
                            else (True, sab_irq_enter E (mSABIrqDepth c) selected selected_priority pending_snapshot
                                    observed_return_pc observed_sp c3))"

definition iret_psw_mask :: u8 where
  "iret_psw_mask = PSWMASK_OV OR PSWMASK_RS0 OR PSWMASK_RS1 OR PSWMASK_AC OR PSWMASK_C"

text \<open>
  The three checks of an interrupt return, in order; each may raise and, when the embedder then
  requests an abort, end the return.  The flag is \<open>True\<close> when the checks ran to the end.  The
  saved values are read from the CPU when each check is made, after the callbacks of the
  earlier ones.
\<close>

definition iret_checks :: "em8051_callbacks \<Rightarrow> (em8051 \<Rightarrow> u8) \<Rightarrow> (em8051 \<Rightarrow> u8) \<Rightarrow> (em8051 \<Rightarrow> u8)
    \<Rightarrow> u8 \<Rightarrow> em8051 \<Rightarrow> bool \<times> em8051" where
  "iret_checks E savedACC savedSP savedPSW aOriginalSP c =
     (let c1 = (if savedACC c \<noteq> mSFR c REG_ACC
                then em8051_raise_exception E EXCEPTION_IRET_ACC_MISMATCH c else c)
      in if em8051_execution_aborted E c1 then (False, c1)
         else
           let c2 = (if savedSP c1 \<noteq> aOriginalSP
                     then em8051_raise_exception E EXCEPTION_IRET_SP_MISMATCH c1 else c1)
           in if em8051_execution_aborted E c2 then (False, c2)
              else
                let c3 = (if savedPSW c2 AND iret_psw_mask \<noteq> mSFR c2 REG_PSW AND iret_psw_mask
                          then em8051_raise_exception E EXCEPTION_IRET_PSW_MISMATCH c2 else c2)
                in if em8051_execution_aborted E c3 then (False, c3) else (True, c3))"

definition em8051_sab_irq_reti :: "em8051_callbacks \<Rightarrow> u8 \<Rightarrow> em8051 \<Rightarrow> em8051" where
  "em8051_sab_irq_reti E aOriginalSP c =
     (if \<not> is_sab c then c
      else if mSABIrqDepth c \<noteq> 0 then
        let index = mSABIrqDepth c - 1;
            source = irq_sources ! unat (mSABIrqSourceStack c (unat index));
            source_bit = push_bit (unat (mSABIrqSourceStack c (unat index))) 1;
            priority = mSABIrqPriorityStack c (unat index);
            (ok, c1) = iret_checks E (\<lambda>c. mSABIrqSavedACC c (unat index))
                         (\<lambda>c. mSABIrqSavedSP c (unat index)) (\<lambda>c. mSABIrqSavedPSW c (unat index)) aOriginalSP c
        in if \<not> ok then c1
           else
             let c2 = c1\<lparr>mSABIrqDepth := index, mSABIrqInService := mSABIrqInService c1 AND NOT source_bit\<rparr>;
                 c3 = sab_irq_sync E c2;
                 c4 = sab_irq_trace_emit E EM8051_SAB_IRQ_TRACE_RELEASE source priority False
                        (mSABIrqPending c3) c3
             in sab_irq_arm_inhibit c4
      else sab_irq_arm_inhibit c)"

subsection \<open>Classic controller\<close>

abbreviation (input) ISR_INT0 :: u16 where "ISR_INT0 \<equiv> 0x03"
abbreviation (input) ISR_TF0 :: u16 where "ISR_TF0 \<equiv> 0x0B"
abbreviation (input) ISR_INT1 :: u16 where "ISR_INT1 \<equiv> 0x13"
abbreviation (input) ISR_TF1 :: u16 where "ISR_TF1 \<equiv> 0x1B"
abbreviation (input) ISR_SR :: u16 where "ISR_SR \<equiv> 0x23"

text \<open>
  The polling chain as it is coded: the locals \<open>dest_ip\<close> (\<open>None\<close> for -1), \<open>hi\<close> and \<open>lo\<close>, updated
  by one test per source in the order INT0, TF0, INT1, TF1, serial.
\<close>

type_synonym classic_poll_state = "u16 option \<times> bool \<times> bool"

definition classic_poll :: "bool \<Rightarrow> bool \<Rightarrow> u16 \<Rightarrow> classic_poll_state \<Rightarrow> classic_poll_state" where
  "classic_poll requested high vector st =
     (case st of (dest_ip, hi, lo) \<Rightarrow>
        if requested \<and> \<not> hi then
          let (dest1, lo1) = (if \<not> lo then (Some vector, True) else (dest_ip, lo))
          in if high then (Some vector, True, lo1) else (dest1, hi, lo1)
        else st)"

definition classic_arbitrate :: "em8051 \<Rightarrow> u16 option \<times> bool" where
  "classic_arbitrate c =
     (let ie = mSFR c REG_IE; tcon = mSFR c REG_TCON; ip = mSFR c REG_IP;
          s0 = (None, False, False);
          s1 = (if ie AND IEMASK_EX0 \<noteq> 0 \<and> tcon AND TCONMASK_IE0 \<noteq> 0
                then (Some ISR_INT0, ip AND IPMASK_PX0 \<noteq> 0, True) else s0);
          s2 = classic_poll (ie AND IEMASK_ET0 \<noteq> 0 \<and> tcon AND TCONMASK_TF0 \<noteq> 0)
                 (ip AND IPMASK_PT0 \<noteq> 0) ISR_TF0 s1;
          s3 = classic_poll (ie AND IEMASK_EX1 \<noteq> 0 \<and> tcon AND TCONMASK_IE1 \<noteq> 0)
                 (ip AND IPMASK_PX1 \<noteq> 0) ISR_INT1 s2;
          s4 = classic_poll (ie AND IEMASK_ET1 \<noteq> 0 \<and> tcon AND TCONMASK_TF1 \<noteq> 0)
                 (ip AND IPMASK_PT1 \<noteq> 0) ISR_TF1 s3;
          s5 = classic_poll (ie AND IEMASK_ES \<noteq> 0 \<and> serial_interrupt_trigger c)
                 (ip AND IPMASK_PS \<noteq> 0) ISR_SR s4
      in if ie AND IEMASK_EA \<noteq> 0 then (fst s5, fst (snd s5)) else (None, False))"

definition classic_enter :: "u16 \<Rightarrow> bool \<Rightarrow> em8051 \<Rightarrow> em8051" where
  "classic_enter dest_ip hi c =
     (let level = (if hi then 1 else 0);
          c1 = sfr_mod REG_PCON (\<lambda>v. v AND NOT 0x01) c;
          c2 = c1\<lparr>mPC := dest_ip, mTickDelay := 1\<rparr>;
          c3 = (if dest_ip = ISR_TF0 then sfr_mod REG_TCON (\<lambda>v. v AND NOT TCONMASK_TF0) c2
                else if dest_ip = ISR_TF1 then sfr_mod REG_TCON (\<lambda>v. v AND NOT TCONMASK_TF1) c2
                else if dest_ip = ISR_SR then c2\<lparr>serial_interrupt_trigger := False\<rparr>
                else c2)
      in c3\<lparr>mInterruptActive := (if hi then mInterruptActive c3 OR 2 else 1),
             int_a := (int_a c3)(level := mSFR c3 REG_ACC),
             int_psw := (int_psw c3)(level := mSFR c3 REG_PSW),
             int_sp := (int_sp c3)(level := mSFR c3 REG_SP)\<rparr>)"

definition handle_classic_interrupts :: "em8051_callbacks \<Rightarrow> em8051 \<Rightarrow> bool \<times> em8051" where
  "handle_classic_interrupts E c =
     (if mInterruptActive c > 1 then (True, c)
      else case classic_arbitrate c of
        (None, _) \<Rightarrow> (True, c)
      | (Some dest_ip, hi) \<Rightarrow>
          if mInterruptActive c = 1 \<and> \<not> hi then (True, c)
          else
            let (ok1, c1) = push_to_stack E (ucast (mPC c AND 0xff)) c
            in if \<not> ok1 then (False, c1)
               else
                 let (ok2, c2) = push_to_stack E (ucast (drop_bit 8 (mPC c1))) c1
                 in if \<not> ok2 then (False, c2) else (True, classic_enter dest_ip hi c2))"

definition handle_interrupts :: "em8051_callbacks \<Rightarrow> em8051 \<Rightarrow> bool \<times> em8051" where
  "handle_interrupts E c =
     (if is_sab c then handle_sab_interrupts E c else handle_classic_interrupts E c)"

subsection \<open>Polling order\<close>

text \<open>Sources are ordered as the arbitration loop polls them.\<close>

instantiation em8051_sab_irq_source :: linorder
begin

definition less_eq_em8051_sab_irq_source :: "em8051_sab_irq_source \<Rightarrow> em8051_sab_irq_source \<Rightarrow> bool" where
  "less_eq_em8051_sab_irq_source s t \<longleftrightarrow> irq_index s \<le> irq_index t"

definition less_em8051_sab_irq_source :: "em8051_sab_irq_source \<Rightarrow> em8051_sab_irq_source \<Rightarrow> bool" where
  "less_em8051_sab_irq_source s t \<longleftrightarrow> irq_index s < irq_index t"

instance
proof
  fix s t :: em8051_sab_irq_source
  show "s \<le> t \<Longrightarrow> t \<le> s \<Longrightarrow> s = t"
    by (cases s; cases t) (simp_all add: less_eq_em8051_sab_irq_source_def)
qed (auto simp: less_eq_em8051_sab_irq_source_def less_em8051_sab_irq_source_def)

end

lemma sorted_irq_sources: "sorted_wrt (<) irq_sources"
  by (simp add: irq_sources_def less_em8051_sab_irq_source_def)

lemma set_irq_sources [simp]: "set irq_sources = UNIV"
proof -
  have "s \<in> set irq_sources" for s by (cases s) (simp_all add: irq_sources_def)
  then show ?thesis by blast
qed

text \<open>The winner of an arbitration: the first of the competing sources with the highest priority.\<close>

definition irq_winner :: "em8051 \<Rightarrow> em8051_sab_irq_source set \<Rightarrow> em8051_sab_irq_source \<Rightarrow> bool" where
  "irq_winner c polled s \<longleftrightarrow> s \<in> polled \<and> irq_candidate c s \<and>
     (\<forall>t \<in> polled. irq_candidate c t \<longrightarrow>
        sab_irq_priority c t < sab_irq_priority c s \<or> sab_irq_priority c t = sab_irq_priority c s \<and> s \<le> t)"

lemma arbitrate_fold:
  assumes "sorted_wrt (<) xs"
  shows "(case fold (irq_arbitrate_step c) xs None of
            None \<Rightarrow> \<forall>t \<in> set xs. \<not> irq_candidate c t
          | Some s \<Rightarrow> irq_winner c (set xs) s)"
  using assms
proof (induction xs rule: rev_induct)
  case (snoc x xs)
  define r where "r = fold (irq_arbitrate_step c) xs None"
  have less: "\<forall>t \<in> set xs. t < x" and srt: "sorted_wrt (<) xs"
    using snoc.prems by (simp_all add: sorted_wrt_append)
  have ih: "case r of None \<Rightarrow> \<forall>t \<in> set xs. \<not> irq_candidate c t | Some s \<Rightarrow> irq_winner c (set xs) s"
    using snoc.IH [OF srt] by (simp add: r_def)
  have step: "fold (irq_arbitrate_step c) (xs @ [x]) None = irq_arbitrate_step c x r" by (simp add: r_def)
  show ?case
  proof (cases r)
    case None
    then show ?thesis
      unfolding step using ih by (auto simp: irq_arbitrate_step_def irq_winner_def)
  next
    case (Some s)
    then have w: "irq_winner c (set xs) s" using ih by simp
    then have "s < x" using less by (simp add: irq_winner_def)
    with w Some show ?thesis
      unfolding step
      by (auto simp: irq_arbitrate_step_def irq_winner_def not_less less_imp_le
          intro: less_trans le_less_trans)
  qed
qed simp

lemma winner_unique: "irq_winner c A s \<Longrightarrow> irq_winner c A t \<Longrightarrow> s = t"
  unfolding irq_winner_def by (metis antisym less_asym)

lemma arbitrate_result:
  "case irq_arbitrate c of None \<Rightarrow> \<forall>t. \<not> irq_candidate c t | Some s \<Rightarrow> irq_winner c UNIV s"
  using arbitrate_fold [OF sorted_irq_sources, of c] by (simp add: irq_arbitrate_def split: option.splits)

lemma arbitrate_candidate: "irq_arbitrate c = Some s \<Longrightarrow> irq_candidate c s"
  using arbitrate_result [of c] by (simp add: irq_winner_def)

text \<open>
  C4. Arbitration.  The controller accepts a source exactly when that source competes (pending,
  enabled, not in service, and above the priority of the service in progress), no competing source
  has a higher priority, and none of the same priority comes earlier in the polling order; it accepts
  none exactly when no source competes.
\<close>

theorem arbitration_first_highest:
  "(irq_arbitrate c = Some s \<longleftrightarrow> irq_winner c UNIV s) \<and> (irq_arbitrate c = None \<longleftrightarrow> (\<nexists>t. irq_candidate c t))"
proof (cases "irq_arbitrate c")
  case None
  then show ?thesis using arbitrate_result [of c] by (auto simp: irq_winner_def)
next
  case (Some t)
  then have t: "irq_winner c UNIV t" using arbitrate_result [of c] by simp
  have "Some t = Some s \<longleftrightarrow> irq_winner c UNIV s" using t winner_unique [OF t, of s] by blast
  moreover have "irq_candidate c t" using t by (simp add: irq_winner_def)
  ultimately show ?thesis using Some by auto
qed

subsection \<open>The controller's bitmaps\<close>

text \<open>The enable bit of a source: \<open>IEN0\<close> for the first five, \<open>IEN1\<close> for the last six, either for timer 2.\<close>

definition irq_enable_bit :: "em8051 \<Rightarrow> em8051_sab_irq_source \<Rightarrow> bool" where
  "irq_enable_bit c s =
     (if s = EM8051_SAB_IRQ_TIMER2 then bit (mSFR c SAB_IEN0) 5 \<or> bit (mSFR c SAB_IEN1) 7
      else if irq_index s < 5 then bit (mSFR c SAB_IEN0) (irq_index s)
      else bit (mSFR c SAB_IEN1) (irq_index s - 6))"

lemma bit_if_exp: "bit (if b then SAB_IRQ_BIT s else 0) n = (b \<and> n = irq_index s)"
proof -
  have "irq_index s < 16" by (cases s) simp_all
  then show ?thesis by (auto simp: SAB_IRQ_BIT_def bit_exp_iff)
qed

lemma pending_bit:
  "bit (irq_pending_bits tcon scon ircon) (irq_index s) =
     ((if fst (sab_irq_request s) = REG_TCON then tcon else if fst (sab_irq_request s) = REG_SCON then scon else ircon)
        AND snd (sab_irq_request s) \<noteq> 0)"
  unfolding irq_pending_bits_def bit_or_iff bit_if_exp by (cases s) simp_all

lemma bit_or_exp:
  "n < 16 \<Longrightarrow> bit (if b then e OR push_bit n 1 else e :: u16) m = (bit e m \<or> b \<and> m = n)"
  by (auto simp: bit_or_iff bit_exp_iff)

lemma bit_fold_or:
  assumes "\<forall>n \<in> set ns. n < 16"
  shows "bit (fold (\<lambda>n e. if f n then e OR push_bit n 1 else e) ns (e :: u16)) m = (bit e m \<or> m \<in> set ns \<and> f m)"
  using assms
proof (induction ns arbitrary: e)
  case (Cons n ns)
  then show ?case by (simp only: fold.simps o_apply) (auto simp: bit_or_iff bit_exp_iff)
qed simp

lemma enabled_bit:
  "bit (irq_enabled_bits ien0 ien1) n =
     (n < 5 \<and> bit ien0 n \<or> n = 5 \<and> (bit ien0 5 \<or> bit ien1 7) \<or> 6 \<le> n \<and> n < 12 \<and> bit ien1 (n - 6))"
proof -
  have m: "(ien0 AND IEMASK_ET2 \<noteq> 0) = bit ien0 5" "(ien1 AND SAB_IEN1MASK_EXEN2 \<noteq> 0) = bit ien1 7"
    using and_push_bit_1 [of ien0 5] and_push_bit_1 [of ien1 7] by simp_all
  have i: "irq_index EM8051_SAB_IRQ_TIMER2 = 5" by simp
  show ?thesis
    unfolding irq_enabled_bits_def Let_def m SAB_IRQ_BIT_def i
    by (subst bit_fold_or, simp, subst bit_or_exp, simp, subst bit_fold_or, simp)
      (auto simp only: and_push_bit_1 not_not bit_0_eq set_upt atLeastLessThan_iff)
qed

text \<open>
  The controller's bitmaps.  After a synchronisation a source's bit of the pending map is set exactly
  when its request flag is set in the register the source is documented to use, its bit of the
  enable map exactly when its enable bit is, and the register and mask by which a request edge is
  reported to the raw observer are those by which it is cleared.
\<close>

theorem sync_bitmaps:
  "bit (mSABIrqPending (sab_irq_sync E c)) (irq_index s) =
     (mSFR (sab_irq_sync E c) (fst (sab_irq_request s)) AND snd (sab_irq_request s) \<noteq> 0) \<and>
   bit (mSABIrqEnabled (sab_irq_sync E c)) (irq_index s) = irq_enable_bit (sab_irq_sync E c) s \<and>
   irq_request_watch (irq_index s) = sab_irq_request s"
proof (intro conjI)
  have sfr: "mSFR (sab_irq_sync E c) = mSFR (sab_external_maintain_level_requests E c)"
    and pend: "mSABIrqPending (sab_irq_sync E c) = irq_pending_bits (mSFR (sab_irq_sync E c) REG_TCON)
      (mSFR c REG_SCON) (mSFR c SAB_IRCON)"
    and en: "mSABIrqEnabled (sab_irq_sync E c) = irq_enabled_bits (mSFR c SAB_IEN0) (mSFR c SAB_IEN1)"
    by (simp_all add: sab_irq_sync_def Let_def)
  show "bit (mSABIrqPending (sab_irq_sync E c)) (irq_index s) =
     (mSFR (sab_irq_sync E c) (fst (sab_irq_request s)) AND snd (sab_irq_request s) \<noteq> 0)"
    unfolding pend pending_bit by (cases s) simp_all
  show "bit (mSABIrqEnabled (sab_irq_sync E c)) (irq_index s) = irq_enable_bit (sab_irq_sync E c) s"
    unfolding en enabled_bit irq_enable_bit_def by (cases s) simp_all
  show "irq_request_watch (irq_index s) = sab_irq_request s"
    by (cases s) (simp_all add: irq_request_watch_def)
qed

end
