(* ===== verification/OpcodeBase.thy ===== *)
theory OpcodeBase
  imports Irq
begin

text \<open>
  What the opcode handlers of \<^verbatim>\<open>opcodes.c\<close> share: the register macros, operand fetches, program
  counter updates, flag computation and bit addressing.  A handler maps the CPU to the number of
  further machine cycles of the instruction and the new CPU.  Where C leaves the order of two
  operand fetches open, the model takes them left to right; only the order of two entries of the
  raw observation log depends on it.
\<close>

type_synonym operation = "em8051_callbacks \<Rightarrow> em8051 \<Rightarrow> u8 \<times> em8051"

subsection \<open>Register macros\<close>

abbreviation (input) PSW :: "em8051 \<Rightarrow> u8" where "PSW c \<equiv> mSFR c REG_PSW"
abbreviation (input) ACC :: "em8051 \<Rightarrow> u8" where "ACC c \<equiv> mSFR c REG_ACC"

definition DPTR :: "em8051 \<Rightarrow> u16" where
  "DPTR c = push_bit 8 (ucast (mSFR c REG_DPH)) OR ucast (mSFR c REG_DPL)"

definition OPCODE :: "em8051 \<Rightarrow> u8" where
  "OPCODE c = CODEMEM c (mPC c + 0)"

definition PSW_BANK :: "em8051 \<Rightarrow> u8" where
  "PSW_BANK c = drop_bit 3 (PSW c AND (PSWMASK_RS0 OR PSWMASK_RS1))"

definition RX_ADDRESS :: "em8051 \<Rightarrow> nat" where
  "RX_ADDRESS c = unat ((OPCODE c AND 7) + 8 * PSW_BANK c)"

definition INDIR_RX_ADDRESS :: "em8051 \<Rightarrow> u8" where
  "INDIR_RX_ADDRESS c = mLowerData c (unat ((OPCODE c AND 1) + 8 * PSW_BANK c))"

definition CARRY :: "em8051 \<Rightarrow> bool" where
  "CARRY c \<longleftrightarrow> drop_bit 7 (PSW c AND PSWMASK_C) \<noteq> 0"

abbreviation (input) OPERAND1 :: "em8051_callbacks \<Rightarrow> em8051 \<Rightarrow> u8 \<times> em8051" where
  "OPERAND1 E \<equiv> emu_cpu_operand E 1"

abbreviation (input) OPERAND2 :: "em8051_callbacks \<Rightarrow> em8051 \<Rightarrow> u8 \<times> em8051" where
  "OPERAND2 E \<equiv> emu_cpu_operand E 2"

definition acc_set :: "u8 \<Rightarrow> em8051 \<Rightarrow> em8051" where
  "acc_set v c = sfr_set REG_ACC v c"

definition acc_mod :: "(u8 \<Rightarrow> u8) \<Rightarrow> em8051 \<Rightarrow> em8051" where
  "acc_mod f c = sfr_mod REG_ACC f c"

definition psw_mod :: "(u8 \<Rightarrow> u8) \<Rightarrow> em8051 \<Rightarrow> em8051" where
  "psw_mod f c = sfr_mod REG_PSW f c"

definition psw_carry :: "bool \<Rightarrow> em8051 \<Rightarrow> em8051" where
  "psw_carry b c = psw_mod (\<lambda>p. (p AND NOT PSWMASK_C) OR (PSWMASK_C * of_bool b)) c"

subsection \<open>Program counter\<close>

definition pc_add :: "u16 \<Rightarrow> em8051 \<Rightarrow> em8051" where
  "pc_add n c = mPC_update (\<lambda>pc. pc + n) c"

definition pc_set :: "u16 \<Rightarrow> em8051 \<Rightarrow> em8051" where
  "pc_set a c = mPC_update (\<lambda>_. a) c"

text \<open>
  The two arms of a relative branch of an \<open>n\<close>-byte instruction, whose last byte is the signed
  displacement; it is fetched only when the branch is taken.
\<close>

definition branch :: "em8051_callbacks \<Rightarrow> bool \<Rightarrow> u16 \<Rightarrow> em8051 \<Rightarrow> em8051" where
  "branch E taken n c =
     (if taken then let (rel, c1) = emu_cpu_operand E (n - 1) c in pc_add (scast rel + n) c1
      else pc_add n c)"

subsection \<open>Flags\<close>

definition psw_flags :: "bool \<Rightarrow> bool \<Rightarrow> bool \<Rightarrow> u8 \<Rightarrow> u8" where
  "psw_flags carry auxcarry overflow p =
     (p AND NOT (PSWMASK_C OR PSWMASK_AC OR PSWMASK_OV)) OR
     push_bit 7 (of_bool carry) OR push_bit 6 (of_bool auxcarry) OR push_bit 2 (of_bool overflow)"

definition add_solve_flags :: "u8 \<Rightarrow> u8 \<Rightarrow> bool \<Rightarrow> em8051 \<Rightarrow> em8051" where
  "add_solve_flags value1 value2 carryin c =
     (let carry = drop_bit 8 (uint (value1 AND 255) + uint (value2 AND 255) + of_bool carryin) \<noteq> 0;
          auxcarry = drop_bit 3 (uint (value1 AND 7) + uint (value2 AND 7) + of_bool carryin) \<noteq> 0;
          overflow = drop_bit 7 (uint (value1 AND 127) + uint (value2 AND 127) + of_bool carryin)
                       XOR of_bool carry \<noteq> 0
      in psw_mod (psw_flags carry auxcarry overflow) c)"

definition sub_solve_flags :: "u8 \<Rightarrow> u8 \<Rightarrow> bool \<Rightarrow> em8051 \<Rightarrow> em8051" where
  "sub_solve_flags value1 value2 carryin c =
     (let carry = drop_bit 8 (uint (value1 AND 255) - uint (value2 AND 255) - of_bool carryin) AND 1 \<noteq> 0;
          auxcarry = drop_bit 3 (uint (value1 AND 7) - uint (value2 AND 7) - of_bool carryin) AND 1 \<noteq> 0;
          overflow = (drop_bit 7 (uint (value1 AND 127) - uint (value2 AND 127) - of_bool carryin) AND 1)
                       XOR of_bool carry \<noteq> 0
      in psw_mod (psw_flags carry auxcarry overflow) c)"

subsection \<open>Bit addresses\<close>

definition bit_mask :: "u8 \<Rightarrow> u8" where
  "bit_mask address = push_bit (unat (address AND 7)) 1"

definition bit_byte :: "u8 \<Rightarrow> nat" where
  "bit_byte address = unat (drop_bit 3 address + 0x20)"

text \<open>Reading the byte of a bit address and testing the bit.\<close>

definition bit_read :: "em8051_callbacks \<Rightarrow> u8 \<Rightarrow> em8051 \<Rightarrow> bool \<times> em8051" where
  "bit_read E address c =
     (if address > 0x7f then
        (let (v, c1) = em8051_sfr_read E (address AND 0xf8) c in (v AND bit_mask address \<noteq> 0, c1))
      else (mLowerData c (bit_byte address) AND bit_mask address \<noteq> 0, c))"

text \<open>
  Rewriting the byte of a bit address from its latch.  The flag says that the write was to a
  register and the embedder has asked to abort, when the handler returns at once.
\<close>

definition bit_modify :: "em8051_callbacks \<Rightarrow> u8 \<Rightarrow> (u8 \<Rightarrow> u8) \<Rightarrow> em8051 \<Rightarrow> bool \<times> em8051" where
  "bit_modify E address f c =
     (if address > 0x7f then
        (let reg = address AND 0xf8;
             c1 = em8051_sfr_write E reg (f (mSFR c (unat (reg - 0x80)))) c
         in (em8051_execution_aborted E c1, c1))
      else (False, lower_mod (bit_byte address) f c))"

text \<open>The end of a handler that gives up, with no further cycles, once an abort is requested.\<close>

definition unless_aborted :: "em8051_callbacks \<Rightarrow> (em8051 \<Rightarrow> u8 \<times> em8051) \<Rightarrow> em8051 \<Rightarrow> u8 \<times> em8051" where
  "unless_aborted E k c = (if em8051_execution_aborted E c then (0, c) else k c)"

text \<open>The read-modify-write of a direct address.\<close>

definition direct_rmw :: "em8051_callbacks \<Rightarrow> u8 \<Rightarrow> (u8 \<Rightarrow> em8051 \<Rightarrow> u8) \<Rightarrow> em8051 \<Rightarrow> em8051" where
  "direct_rmw E address f c =
     (let (v, c1) = read_mem_rmw E address c in write_mem E address (f v c1) c1)"

lemmas reg_defs = acc_set_def acc_mod_def psw_mod_def psw_carry_def pc_add_def pc_set_def

subsection \<open>Bytes as integers\<close>

lemma uint_and_255: "uint (w AND 255) = uint w" for w :: u8
proof -
  have "w AND 255 = take_bit 8 w" by (simp add: take_bit_eq_mask mask_eq_exp_minus_1)
  then show ?thesis by (simp add: take_bit_word_eq_self)
qed

lemma uint_low7: "uint (w AND 127) = uint w mod 128" for w :: u8
proof -
  have "w AND 127 = take_bit 7 w" by (simp add: take_bit_eq_mask mask_eq_exp_minus_1)
  then show ?thesis by (simp add: take_bit_eq_mod uint_mod)
qed

lemma uint_low3: "uint (w AND 7) = uint w mod 8" for w :: u8
proof -
  have "w AND 7 = take_bit 3 w" by (simp add: take_bit_eq_mask mask_eq_exp_minus_1)
  then show ?thesis by (simp add: take_bit_eq_mod uint_mod)
qed

lemma uint_u8: "0 \<le> uint w \<and> uint w < 256" for w :: u8
  using uint_lt2p [of w] by simp

lemma sint_u8: "sint w = (if uint w < 128 then uint w else uint w - 256)" for w :: u8
proof -
  have "bit (uint w) 7 = (128 \<le> uint w)"
  proof -
    have "uint w div 128 = (if 128 \<le> uint w then 1 else 0)" using uint_u8 [of w] by auto
    then show ?thesis by (simp add: bit_iff_odd)
  qed
  then show ?thesis
    using uint_u8 [of w] by (simp add: sint_uint signed_take_bit_eq_take_bit_minus take_bit_int_eq_self)
qed

subsection \<open>The flags as arithmetic\<close>

lemma bit_push_of_bool: "bit (push_bit k (of_bool b) :: u8) n = (b \<and> n = k \<and> k < 8)"
  by (cases b) (auto simp: bit_exp_iff)

lemma psw_flags_bits:
  "bit (psw_flags cy ac ov p) 7 = cy" "bit (psw_flags cy ac ov p) 6 = ac" "bit (psw_flags cy ac ov p) 2 = ov"
  "n \<notin> {2, 6, 7} \<Longrightarrow> bit (psw_flags cy ac ov p) n = bit p n"
proof -
  have m: "bit (PSWMASK_C OR PSWMASK_AC OR PSWMASK_OV) n = (n \<in> {2, 6, 7})" for n
  proof -
    have "PSWMASK_C OR PSWMASK_AC OR PSWMASK_OV =
        push_bit 7 (of_bool True) OR push_bit 6 (of_bool True) OR push_bit 2 (of_bool True)" by simp
    then show ?thesis by (simp only: bit_or_iff bit_push_of_bool) auto
  qed
  have "bit (psw_flags cy ac ov p) n = (n < 8 \<and>
      (bit p n \<and> n \<notin> {2, 6, 7} \<or> cy \<and> n = 7 \<or> ac \<and> n = 6 \<or> ov \<and> n = 2))" for n
    unfolding psw_flags_def bit_or_iff bit_and_iff bit_not_iff bit_push_of_bool m [unfolded bit_or_iff]
    using bit_u8_length [of p n] by auto
  then show "bit (psw_flags cy ac ov p) 7 = cy" "bit (psw_flags cy ac ov p) 6 = ac"
    "bit (psw_flags cy ac ov p) 2 = ov"
    "n \<notin> {2, 6, 7} \<Longrightarrow> bit (psw_flags cy ac ov p) n = bit p n"
    using bit_u8_length [of p n] by auto
qed

text \<open>The arithmetic core: carries of 8-bit addition and borrows of subtraction.\<close>

lemma int_xor_eq_0: "(a XOR b = 0) = (a = b)" for a b :: int
  by (metis bit.xor_self xor.assoc xor.right_neutral)

lemma div_nonzero: "0 \<le> z \<Longrightarrow> 0 < m \<Longrightarrow> (z div m \<noteq> 0) = (m \<le> z)" for z m :: int
  by (auto simp: zdiv_eq_0_iff)

lemma mod_128: "0 \<le> x \<Longrightarrow> x < 256 \<Longrightarrow> x mod 128 = (if x < 128 then x else x - 128)" for x :: int
  by auto presburger

lemma signed_overflow_add:
  fixes x y :: int
  assumes "0 \<le> x" "x < 256" "0 \<le> y" "y < 256"
  shows "((x mod 128 + y mod 128 + of_bool cy) div 128 XOR of_bool (x + y + of_bool cy \<ge> 256) \<noteq> 0) =
         ((if x < 128 then x else x - 256) + (if y < 128 then y else y - 256) + of_bool cy < -128 \<or>
          (if x < 128 then x else x - 256) + (if y < 128 then y else y - 256) + of_bool cy > 127)"
proof -
  have "(x mod 128 + y mod 128 + of_bool cy) div 128 = of_bool (x mod 128 + y mod 128 + of_bool cy \<ge> 128)"
    using pos_mod_bound [of 128 x] pos_mod_bound [of 128 y] pos_mod_sign [of 128 x] pos_mod_sign [of 128 y]
    by (cases cy) auto
  then show ?thesis
    using assms by (cases cy) (auto simp: int_xor_eq_0 mod_128)
qed

lemma borrow: "-n \<le> z \<Longrightarrow> z < n \<Longrightarrow> 0 < n \<Longrightarrow> z div n mod 2 = of_bool (z < 0)" for z n :: int
proof (cases "z < 0")
  assume a: "-n \<le> z" "z < n" "0 < n" and True: "z < 0"
  then have "z div n = -1" by (intro int_div_pos_eq [of _ _ _ "z + n"]) auto
  with True show ?thesis by simp
qed (simp add: div_pos_pos_trivial)

lemma borrow_diff:
  fixes x y n :: int
  assumes "0 \<le> x" "x < n" "0 \<le> y" "y < n"
  shows "(x - y - of_bool cy) div n mod 2 = of_bool (x < y + of_bool cy)"
proof -
  have k: "0 \<le> (of_bool cy :: int)" "of_bool cy \<le> (1 :: int)" by simp_all
  have "(x - y - of_bool cy) div n mod 2 = of_bool (x - y - of_bool cy < 0)"
    by (rule borrow) (use assms k in linarith)+
  then show ?thesis by (simp add: algebra_simps)
qed

lemma signed_overflow_sub:
  fixes x y :: int
  assumes "0 \<le> x" "x < 256" "0 \<le> y" "y < 256"
  shows "(((x mod 128 - y mod 128 - of_bool cy) div 128 mod 2) XOR of_bool (x < y + of_bool cy) \<noteq> 0) =
         ((if x < 128 then x else x - 256) - (if y < 128 then y else y - 256) - of_bool cy < -128 \<or>
          (if x < 128 then x else x - 256) - (if y < 128 then y else y - 256) - of_bool cy > 127)"
proof -
  have "(x mod 128 - y mod 128 - of_bool cy) div 128 mod 2 = of_bool (x mod 128 < y mod 128 + of_bool cy)"
    by (rule borrow_diff) simp_all
  then show ?thesis
    using assms by (cases cy) (auto simp: int_xor_eq_0 mod_128)
qed

lemma add_solve_flags_bits:
  fixes a b :: u8 and cy :: bool
  defines "t \<equiv> sint a + sint b + of_bool cy"
  shows "bit (PSW (add_solve_flags a b cy c)) 7 = (uint a + uint b + of_bool cy \<ge> 256)"
    "bit (PSW (add_solve_flags a b cy c)) 2 = (t < -128 \<or> t > 127)"
    "bit (PSW (add_solve_flags a b cy c)) 6 = (uint a mod 8 + uint b mod 8 + of_bool cy \<ge> 8)"
    "n \<notin> {2, 6, 7} \<Longrightarrow> bit (PSW (add_solve_flags a b cy c)) n = bit (PSW c) n"
proof -
  have c8: "(drop_bit 8 (uint (a AND 255) + uint (b AND 255) + of_bool cy) \<noteq> 0) =
      (uint a + uint b + of_bool cy \<ge> 256)"
    using uint_u8 [of a] uint_u8 [of b] by (simp add: uint_and_255 drop_bit_eq_div div_nonzero)
  have c7: "(drop_bit 7 (uint (a AND 127) + uint (b AND 127) + of_bool cy) XOR
      of_bool (uint a + uint b + of_bool cy \<ge> 256) \<noteq> 0) = (t < -128 \<or> t > 127)"
    using signed_overflow_add [of "uint a" "uint b" cy] uint_u8 [of a] uint_u8 [of b]
    by (simp add: uint_low7 drop_bit_eq_div t_def sint_u8)
  have c3: "(drop_bit 3 (uint (a AND 7) + uint (b AND 7) + of_bool cy) \<noteq> 0) =
      (uint a mod 8 + uint b mod 8 + of_bool cy \<ge> 8)"
    by (simp add: uint_low3 drop_bit_eq_div div_nonzero)
  have eq: "PSW (add_solve_flags a b cy c) = psw_flags (uint a + uint b + of_bool cy \<ge> 256)
      (uint a mod 8 + uint b mod 8 + of_bool cy \<ge> 8) (t < -128 \<or> t > 127) (PSW c)"
    unfolding add_solve_flags_def Let_def c8 c7 c3 by (simp add: psw_mod_def)
  show "bit (PSW (add_solve_flags a b cy c)) 7 = (uint a + uint b + of_bool cy \<ge> 256)"
    "bit (PSW (add_solve_flags a b cy c)) 2 = (t < -128 \<or> t > 127)"
    "bit (PSW (add_solve_flags a b cy c)) 6 = (uint a mod 8 + uint b mod 8 + of_bool cy \<ge> 8)"
    "n \<notin> {2, 6, 7} \<Longrightarrow> bit (PSW (add_solve_flags a b cy c)) n = bit (PSW c) n"
    unfolding eq by (auto simp: psw_flags_bits)
qed

lemma sub_solve_flags_bits:
  fixes a b :: u8 and cy :: bool
  defines "t \<equiv> sint a - sint b - of_bool cy"
  shows "bit (PSW (sub_solve_flags a b cy c)) 7 = (uint a < uint b + of_bool cy)"
    "bit (PSW (sub_solve_flags a b cy c)) 2 = (t < -128 \<or> t > 127)"
    "bit (PSW (sub_solve_flags a b cy c)) 6 = (uint a mod 8 < uint b mod 8 + of_bool cy)"
    "n \<notin> {2, 6, 7} \<Longrightarrow> bit (PSW (sub_solve_flags a b cy c)) n = bit (PSW c) n"
proof -
  have c8: "(drop_bit 8 (uint (a AND 255) - uint (b AND 255) - of_bool cy) AND 1 \<noteq> 0) =
      (uint a < uint b + of_bool cy)"
    using borrow_diff [of "uint a" 256 "uint b" cy] uint_u8 [of a] uint_u8 [of b]
    by (simp add: uint_and_255 drop_bit_eq_div and_one_eq)
  have c7: "((drop_bit 7 (uint (a AND 127) - uint (b AND 127) - of_bool cy) AND 1) XOR
      of_bool (uint a < uint b + of_bool cy) \<noteq> 0) = (t < -128 \<or> t > 127)"
    using signed_overflow_sub [of "uint a" "uint b" cy] uint_u8 [of a] uint_u8 [of b]
    by (simp add: uint_low7 drop_bit_eq_div t_def sint_u8 and_one_eq)
  have c3: "(drop_bit 3 (uint (a AND 7) - uint (b AND 7) - of_bool cy) AND 1 \<noteq> 0) =
      (uint a mod 8 < uint b mod 8 + of_bool cy)"
    using borrow_diff [of "uint a mod 8" 8 "uint b mod 8" cy] by (simp add: uint_low3 drop_bit_eq_div and_one_eq)
  have eq: "PSW (sub_solve_flags a b cy c) = psw_flags (uint a < uint b + of_bool cy)
      (uint a mod 8 < uint b mod 8 + of_bool cy) (t < -128 \<or> t > 127) (PSW c)"
    unfolding sub_solve_flags_def Let_def c8 c7 c3 by (simp add: psw_mod_def)
  show "bit (PSW (sub_solve_flags a b cy c)) 7 = (uint a < uint b + of_bool cy)"
    "bit (PSW (sub_solve_flags a b cy c)) 2 = (t < -128 \<or> t > 127)"
    "bit (PSW (sub_solve_flags a b cy c)) 6 = (uint a mod 8 < uint b mod 8 + of_bool cy)"
    "n \<notin> {2, 6, 7} \<Longrightarrow> bit (PSW (sub_solve_flags a b cy c)) n = bit (PSW c) n"
    unfolding eq by (auto simp: psw_flags_bits)
qed

subsection \<open>Frames of the shared steps\<close>

lemma fst_operand [simp]: "fst (emu_cpu_operand E off c) = CODEMEM c (mPC c + off)"
  by (simp add: emu_cpu_operand_def Let_def)

lemma snd_operand_frame [simp]:
  "ext_rest (snd (emu_cpu_operand E off c)) = ext_rest c" "mSFR (snd (emu_cpu_operand E off c)) = mSFR c"
  by (simp_all add: emu_cpu_operand_def Let_def)

lemmas snd_operand_fields [simp] = ext_restD [OF snd_operand_frame(1)]

lemma CODEMEM_cong:
  "mBuffers a = mBuffers b \<Longrightarrow> mCodeMem a = mCodeMem b \<Longrightarrow> mCodeMemMaxIdx a = mCodeMemMaxIdx b \<Longrightarrow>
   CODEMEM a = CODEMEM b"
  by (rule ext) (simp add: CODEMEM_def split: option.split)

lemma CODEMEM_operand [simp]: "CODEMEM (snd (emu_cpu_operand E off c)) = CODEMEM c"
  by (rule CODEMEM_cong) simp_all

lemma flags_frame [simp]:
  "ext_rest (add_solve_flags a b cy c) = ext_rest c" "ext_rest (sub_solve_flags a b cy c) = ext_rest c"
  "i \<noteq> REG_PSW \<Longrightarrow> mSFR (add_solve_flags a b cy c) i = mSFR c i"
  "i \<noteq> REG_PSW \<Longrightarrow> mSFR (sub_solve_flags a b cy c) i = mSFR c i"
  by (simp_all add: add_solve_flags_def sub_solve_flags_def psw_mod_def Let_def)

lemmas flags_fields [simp] = ext_restD [OF flags_frame(1)] ext_restD [OF flags_frame(2)]

lemma CODEMEM_flags [simp]:
  "CODEMEM (add_solve_flags a b cy c) = CODEMEM c" "CODEMEM (sub_solve_flags a b cy c) = CODEMEM c"
  by (rule CODEMEM_cong; simp)+

lemma CARRY_bit [simp]: "CARRY c = bit (PSW c) 7"
proof -
  have "drop_bit 7 (PSW c AND 0x80) = of_bool (bit (PSW c) 7)"
    by (rule bit_word_eqI) (auto simp: bit_simps bit_numeral_rec dest: bit_u8_length)
  then show ?thesis by (simp add: CARRY_def)
qed

end
