(* ===== verification/OpsArith.thy ===== *)
theory OpsArith
  imports OpcodeBase
begin

text \<open>Arithmetic handlers of \<^verbatim>\<open>opcodes.c\<close>: increments, addition, subtraction, MUL, DIV and DA.\<close>

subsection \<open>Increment and decrement\<close>

definition inc_a :: operation where
  "inc_a E c = (0, pc_add 1 (acc_mod (\<lambda>a. a + 1) c))"

definition inc_mem :: operation where
  "inc_mem E c =
     (let (address, c1) = OPERAND1 E c
      in unless_aborted E (\<lambda>c. (0, pc_add 2 c)) (direct_rmw E address (\<lambda>v _. v + 1) c1))"

definition inc_indir_rx :: operation where
  "inc_indir_rx E c =
     (let address = INDIR_RX_ADDRESS c
      in (0, pc_add 1 (write_mem_indir address (read_mem_indir address c + 1) c)))"

definition inc_rx :: operation where
  "inc_rx E c = (0, pc_add 1 (lower_mod (RX_ADDRESS c) (\<lambda>v. v + 1) c))"

definition inc_dptr :: operation where
  "inc_dptr E c =
     (let c1 = sfr_mod REG_DPL (\<lambda>v. v + 1) c;
          c2 = (if mSFR c1 REG_DPL = 0 then sfr_mod REG_DPH (\<lambda>v. v + 1) c1 else c1)
      in (1, pc_add 1 c2))"

definition dec_a :: operation where
  "dec_a E c = (0, pc_add 1 (acc_mod (\<lambda>a. a - 1) c))"

definition dec_mem :: operation where
  "dec_mem E c =
     (let (address, c1) = OPERAND1 E c
      in unless_aborted E (\<lambda>c. (0, pc_add 2 c)) (direct_rmw E address (\<lambda>v _. v - 1) c1))"

definition dec_indir_rx :: operation where
  "dec_indir_rx E c =
     (let address = INDIR_RX_ADDRESS c
      in (0, pc_add 1 (write_mem_indir address (read_mem_indir address c - 1) c)))"

definition dec_rx :: operation where
  "dec_rx E c = (0, pc_add 1 (lower_mod (RX_ADDRESS c) (\<lambda>v. v - 1) c))"

subsection \<open>Addition\<close>

definition add_a_imm :: operation where
  "add_a_imm E c =
     (let (value, c1) = OPERAND1 E c;
          c2 = add_solve_flags (ACC c1) value False c1;
          (value', c3) = OPERAND1 E c2
      in (0, pc_add 2 (acc_mod (\<lambda>a. a + value') c3)))"

definition add_a_mem :: operation where
  "add_a_mem E c =
     (let (address, c1) = OPERAND1 E c;
          (value, c2) = read_mem E address c1;
          c3 = add_solve_flags (ACC c2) value False c2
      in (0, pc_add 2 (acc_mod (\<lambda>a. a + value) c3)))"

definition add_a_indir_rx :: operation where
  "add_a_indir_rx E c =
     (let value = read_mem_indir (INDIR_RX_ADDRESS c) c;
          c1 = add_solve_flags (ACC c) value False c
      in (0, pc_add 1 (acc_mod (\<lambda>a. a + value) c1)))"

definition add_a_rx :: operation where
  "add_a_rx E c =
     (let rx = RX_ADDRESS c;
          c1 = add_solve_flags (mLowerData c rx) (ACC c) False c
      in (0, pc_add 1 (acc_mod (\<lambda>a. a + mLowerData c1 rx) c1)))"

definition addc_a_imm :: operation where
  "addc_a_imm E c =
     (let carry = CARRY c;
          (value, c1) = OPERAND1 E c;
          c2 = add_solve_flags (ACC c1) value carry c1;
          (value', c3) = OPERAND1 E c2
      in (0, pc_add 2 (acc_mod (\<lambda>a. a + (value' + of_bool carry)) c3)))"

definition addc_a_mem :: operation where
  "addc_a_mem E c =
     (let carry = CARRY c;
          (address, c1) = OPERAND1 E c;
          (value, c2) = read_mem E address c1;
          c3 = add_solve_flags (ACC c2) value carry c2
      in (0, pc_add 2 (acc_mod (\<lambda>a. a + (value + of_bool carry)) c3)))"

definition addc_a_indir_rx :: operation where
  "addc_a_indir_rx E c =
     (let carry = CARRY c;
          value = read_mem_indir (INDIR_RX_ADDRESS c) c;
          c1 = add_solve_flags (ACC c) value carry c
      in (0, pc_add 1 (acc_mod (\<lambda>a. a + (value + of_bool carry)) c1)))"

definition addc_a_rx :: operation where
  "addc_a_rx E c =
     (let rx = RX_ADDRESS c;
          carry = CARRY c;
          c1 = add_solve_flags (mLowerData c rx) (ACC c) carry c
      in (0, pc_add 1 (acc_mod (\<lambda>a. a + (mLowerData c1 rx + of_bool carry)) c1)))"

subsection \<open>Subtraction\<close>

definition subb_a_imm :: operation where
  "subb_a_imm E c =
     (let carry = CARRY c;
          (value, c1) = OPERAND1 E c;
          c2 = sub_solve_flags (ACC c1) value carry c1;
          (value', c3) = OPERAND1 E c2
      in (0, pc_add 2 (acc_mod (\<lambda>a. a - (value' + of_bool carry)) c3)))"

definition subb_a_mem :: operation where
  "subb_a_mem E c =
     (let carry = CARRY c;
          (address, c1) = OPERAND1 E c;
          (value, c2) = read_mem E address c1;
          c3 = sub_solve_flags (ACC c2) value carry c2
      in (0, pc_add 2 (acc_mod (\<lambda>a. a - (value + of_bool carry)) c3)))"

definition subb_a_indir_rx :: operation where
  "subb_a_indir_rx E c =
     (let carry = CARRY c;
          value = read_mem_indir (INDIR_RX_ADDRESS c) c;
          c1 = sub_solve_flags (ACC c) value carry c
      in (0, pc_add 1 (acc_mod (\<lambda>a. a - (value + of_bool carry)) c1)))"

definition subb_a_rx :: operation where
  "subb_a_rx E c =
     (let rx = RX_ADDRESS c;
          carry = CARRY c;
          c1 = sub_solve_flags (ACC c) (mLowerData c rx) carry c
      in (0, pc_add 1 (acc_mod (\<lambda>a. a - (mLowerData c1 rx + of_bool carry)) c1)))"

subsection \<open>Multiplication, division and decimal adjustment\<close>

definition mul_ab :: operation where
  "mul_ab E c =
     (let res = (ucast (ACC c) :: u16) * ucast (mSFR c REG_B);
          c1 = acc_set (ucast (res AND 0xff)) c;
          c2 = sfr_set REG_B (ucast (drop_bit 8 res)) c1;
          c3 = psw_mod (\<lambda>p. p AND NOT (PSWMASK_C OR PSWMASK_OV)) c2;
          c4 = (if mSFR c3 REG_B \<noteq> 0 then psw_mod (\<lambda>p. p OR PSWMASK_OV) c3 else c3)
      in (3, pc_add 1 c4))"

definition div_ab :: operation where
  "div_ab E c =
     (let a = ACC c;
          b = mSFR c REG_B;
          c1 = psw_mod (\<lambda>p. p AND NOT (PSWMASK_C OR PSWMASK_OV)) c;
          (a', b', c2) = (if b \<noteq> 0 then (a div b, a mod b, c1)
                          else (a, b, psw_mod (\<lambda>p. p OR PSWMASK_OV) c1))
      in (3, pc_add 1 (sfr_set REG_B b' (acc_set a' c2))))"

definition da_a :: operation where
  "da_a E c =
     (let r0 = (ucast (ACC c) :: u16);
          r1 = (if r0 AND 0xf > 9 \<or> PSW c AND PSWMASK_AC \<noteq> 0 then r0 + 0x6 else r0);
          r2 = (if r1 AND 0xff0 > 0x90 \<or> PSW c AND PSWMASK_C \<noteq> 0 then r1 + 0x60 else r1);
          c1 = (if r2 > 0x99 then psw_mod (\<lambda>p. p OR PSWMASK_C) c else c)
      in (0, pc_add 1 (acc_set (ucast r2) c1)))"

lemmas arith_op_defs = inc_a_def inc_mem_def inc_indir_rx_def inc_rx_def inc_dptr_def dec_a_def
  dec_mem_def dec_indir_rx_def dec_rx_def add_a_imm_def add_a_mem_def add_a_indir_rx_def
  add_a_rx_def addc_a_imm_def addc_a_mem_def addc_a_indir_rx_def addc_a_rx_def subb_a_imm_def
  subb_a_mem_def subb_a_indir_rx_def subb_a_rx_def mul_ab_def div_ab_def da_a_def

subsection \<open>Addition and subtraction\<close>

lemma solved_flags:
  "add_solve_flags a b cy (c\<lparr>mEvents := es\<rparr>) = c\<lparr>mEvents := es, mSFR := (mSFR c)(REG_PSW := PSW (add_solve_flags a b cy c))\<rparr>"
proof -
  obtain f where f: "add_solve_flags a b cy c' = psw_mod f c'" for c' unfolding add_solve_flags_def Let_def by blast
  show ?thesis unfolding f by (simp add: psw_mod_def sfr_mod_def fun_upd_def)
qed

lemma operand_value: "emu_cpu_operand E n c = (CODEMEM c (mPC c + n), c\<lparr>mEvents := (if mObservation E = None then [] else
    [EvRaw \<lparr>rw_kind = EMU_RAW_OPERAND, rw_cycle = mMachineCycleCount c, rw_a = ucast n, rw_b = ucast (CODEMEM c (mPC c + n)), rw_c = 0, rw_d = 0\<rparr>]) @ mEvents c\<rparr>)"
  by (simp add: emu_cpu_operand_def raw_note_def emu_cpu_raw_def Let_def split: option.split)

text \<open>
  C15. \<open>ADDC A,#data\<close> adds as the manual says: the accumulator gets the sum modulo 256, \<open>C\<close> is the
  unsigned carry and \<open>OV\<close> the signed overflow; \<open>AC\<close>, however, is the carry out of bit 2.  The other bits
  of the status word (register bank, user flags, parity) stay, the program counter moves past the two bytes, and
  nothing else of the CPU changes; an installed observer is told of the operand, which the code fetches twice.
\<close>

theorem addc_a_imm_correct:
  "(let a = ACC c; b = CODEMEM c (mPC c + 1); cy = bit (PSW c) 7;
        s = sint a + sint b + of_bool cy; (delay, c') = addc_a_imm E c;
        fetched = EvRaw \<lparr>rw_kind = EMU_RAW_OPERAND, rw_cycle = mMachineCycleCount c, rw_a = 1, rw_b = ucast b, rw_c = 0, rw_d = 0\<rparr>
    in delay = 0 \<and>
       uint (ACC c') = (uint a + uint b + of_bool cy) mod 256 \<and>
       bit (PSW c') 7 = (uint a + uint b + of_bool cy \<ge> 256) \<and>
       bit (PSW c') 2 = (s < -128 \<or> s > 127) \<and>
       bit (PSW c') 6 = (uint a mod 8 + uint b mod 8 + of_bool cy \<ge> 8) \<and>
       PSW c' AND 0x3b = PSW c AND 0x3b \<and>
       c' = c\<lparr>mPC := mPC c + 2, mSFR := (mSFR c)(REG_ACC := ACC c', REG_PSW := PSW c'),
         mEvents := (if mObservation E = None then [] else [fetched, fetched]) @ mEvents c\<rparr>)"
proof -
  define b where "b = CODEMEM c (mPC c + 1)"
  define cy where "cy = bit (PSW c) 7"
  define fetched where "fetched = EvRaw \<lparr>rw_kind = EMU_RAW_OPERAND, rw_cycle = mMachineCycleCount c, rw_a = 1, rw_b = ucast b, rw_c = 0, rw_d = 0\<rparr>"
  define p where "p = PSW (add_solve_flags (ACC c) b cy c)"
  note f = solved_flags [where a = "ACC c" and b = b and cy = cy and c = c, folded p_def]
  have r: "addc_a_imm E c = (0, c\<lparr>mPC := mPC c + 2, mSFR := (mSFR c)(REG_ACC := ACC c + (b + of_bool cy), REG_PSW := p),
      mEvents := (if mObservation E = None then [] else [fetched, fetched]) @ mEvents c\<rparr>)"
  proof -
    have "CARRY c = cy" by (simp add: cy_def)
    moreover have "CODEMEM (c\<lparr>mEvents := es, mSFR := m\<rparr>) = CODEMEM c" "CODEMEM (c\<lparr>mEvents := es\<rparr>) = CODEMEM c" for es m by (simp_all add: CODEMEM_def fun_eq_iff split: option.split)
    ultimately show ?thesis
      by (simp add: addc_a_imm_def operand_value Let_def f b_def [symmetric] acc_mod_def sfr_mod_def pc_add_def fetched_def fun_upd_twist)
  qed
  have rest: "p AND 0x3b = PSW c AND 0x3b"
  proof (rule bit_word_eqI)
    fix n
    assume "n < LENGTH(8)"
    then consider "n \<in> {2, 6, 7}" | "n \<notin> {2, 6, 7}" "n < 8" by auto
    then show "bit (p AND 0x3b) n = bit (PSW c AND 0x3b) n"
      by cases (auto simp: bit_and_iff p_def add_solve_flags_bits(4))
  qed
  show ?thesis unfolding r b_def [symmetric] cy_def [symmetric] fetched_def [symmetric] Let_def prod.case
    using rest by (simp add: p_def add_solve_flags_bits uint_word_ariths mod_simps add.assoc)
qed

text \<open>
  \<open>SUBB A,#data\<close> subtracts with borrow modulo 256: \<open>C\<close> is the unsigned borrow, \<open>OV\<close> the signed
  overflow, and nothing but the accumulator and the status word changes.  \<open>AC\<close> is the borrow into bit 3.
\<close>

theorem subb_a_imm_correct:
  "(let a = ACC c; b = CODEMEM c (mPC c + 1); cy = bit (PSW c) 7;
        s = sint a - sint b - of_bool cy; (delay, c') = subb_a_imm E c
    in delay = 0 \<and> mPC c' = mPC c + 2 \<and>
       uint (ACC c') = (uint a - uint b - of_bool cy) mod 256 \<and>
       bit (PSW c') 7 = (uint a < uint b + of_bool cy) \<and>
       bit (PSW c') 2 = (s < -128 \<or> s > 127) \<and>
       bit (PSW c') 6 = (uint a mod 8 < uint b mod 8 + of_bool cy) \<and>
       mSFR c' = (mSFR c)(REG_ACC := ACC c', REG_PSW := PSW c') \<and> mLowerData c' = mLowerData c)"
  by (simp add: subb_a_imm_def Let_def split_beta acc_mod_def pc_add_def sub_solve_flags_bits uint_word_ariths
      mod_simps fun_eq_iff algebra_simps)

text \<open>
  C17. Because \<open>AC\<close> is the carry out of bit 2 and not of bit 3, a decimal addition goes wrong: adding
  08 to 08 and adjusting gives 10, although 8 + 8 is 16.
\<close>

theorem decimal_add_wrong:
  assumes "ACC c = 0x08" "CODEMEM c (mPC c + 1) = 0x08"
  shows "\<not> bit (PSW (snd (add_a_imm E c))) 6 \<and> ACC (snd (da_a E (snd (add_a_imm E c)))) = 0x10"
proof -
  have bits: "\<not> bit (PSW (snd (add_a_imm E c))) 6" "\<not> bit (PSW (snd (add_a_imm E c))) 7"
    using assms by (simp_all add: add_a_imm_def Let_def split_beta acc_mod_def pc_add_def add_solve_flags_bits)
  have "ACC (snd (add_a_imm E c)) = 0x10"
    using assms by (simp add: add_a_imm_def Let_def split_beta acc_mod_def pc_add_def)
  then show ?thesis
    using bits by (simp add: da_a_def Let_def mask_bit_8 reg_defs)
qed

text \<open>A CPU about to execute \<open>ADD A,#08h\<close> with 08 in the accumulator.\<close>

definition bcd_state :: em8051 where
  "bcd_state = sfr_set REG_ACC 0x08 (zero_cpu\<lparr>mCodeMem := Some 0, mCodeMemMaxIdx := 1,
     mBuffers := (\<lambda>_ x. if x = 0 then 0x24 else 0x08)\<rparr>)"

theorem decimal_add_wrong_witness:
  "ACC (snd (da_a null_callbacks (snd (add_a_imm null_callbacks bcd_state)))) = 0x10"
  using decimal_add_wrong [of bcd_state null_callbacks]
  by (simp add: bcd_state_def zero_cpu_def CODEMEM_def)

subsection \<open>Multiplication and division\<close>

lemma mul_ab_values:
  "fst (mul_ab E c) = 3" "mPC (snd (mul_ab E c)) = mPC c + 1"
  "256 * unat (mSFR (snd (mul_ab E c)) REG_B) + unat (ACC (snd (mul_ab E c))) = unat (ACC c) * unat (mSFR c REG_B)"
  "bit (PSW (snd (mul_ab E c))) 2 = (unat (ACC c) * unat (mSFR c REG_B) \<ge> 256)"
  "\<not> bit (PSW (snd (mul_ab E c))) 7"
proof -
  define r where "r = (ucast (ACC c) :: u16) * ucast (mSFR c REG_B)"
  have "unat (ACC c) * unat (mSFR c REG_B) \<le> 255 * 255"
    using unat_u8 [of "ACC c"] unat_u8 [of "mSFR c REG_B"] by (intro mult_le_mono) simp_all
  then have r: "unat r = unat (ACC c) * unat (mSFR c REG_B)"
    using unat_mult_ok [of "ucast (ACC c) :: u16" "ucast (mSFR c REG_B)"] by (simp add: r_def)
  have hi: "unat (ucast (drop_bit 8 r) :: u8) = unat r div 256" by (rule unat_high_byte)
  have ov: "((ucast (drop_bit 8 r) :: u8) = 0) = (unat r < 256)"
    by (simp only: word_unat_eq_iff hi unsigned_0 div_eq_0_iff) simp
  have eq: "mul_ab E c = (let c1 = sfr_set REG_B (ucast (drop_bit 8 r)) (acc_set (ucast (r AND 0xff)) c);
      c3 = psw_mod (\<lambda>p. p AND NOT (PSWMASK_C OR PSWMASK_OV)) c1;
      c4 = (if mSFR c3 REG_B \<noteq> 0 then psw_mod (\<lambda>p. p OR PSWMASK_OV) c3 else c3) in (3, pc_add 1 c4))"
    by (simp only: mul_ab_def r_def Let_def)
  show "fst (mul_ab E c) = 3" "mPC (snd (mul_ab E c)) = mPC c + 1"
    by (simp_all add: eq reg_defs Let_def)
  have "unat (mSFR (snd (mul_ab E c)) REG_B) = unat r div 256" "unat (ACC (snd (mul_ab E c))) = unat r mod 256"
    by (simp_all add: eq reg_defs Let_def hi low_byte ov [simplified])
  then show "256 * unat (mSFR (snd (mul_ab E c)) REG_B) + unat (ACC (snd (mul_ab E c))) =
      unat (ACC c) * unat (mSFR c REG_B)"
    by (simp add: r [symmetric])
  show "bit (PSW (snd (mul_ab E c))) 2 = (unat (ACC c) * unat (mSFR c REG_B) \<ge> 256)"
    "\<not> bit (PSW (snd (mul_ab E c))) 7"
    unfolding r [symmetric]
    by (simp_all add: eq reg_defs Let_def ov [simplified] not_less bit_or_iff bit_and_iff bit_not_iff bit_numeral_rec)
qed

lemma div_ab_values:
  "fst (div_ab E c) = 3" "mPC (snd (div_ab E c)) = mPC c + 1"
  "ACC (snd (div_ab E c)) = (if mSFR c REG_B = 0 then ACC c else ACC c div mSFR c REG_B)"
  "mSFR (snd (div_ab E c)) REG_B = (if mSFR c REG_B = 0 then 0 else ACC c mod mSFR c REG_B)"
  "bit (PSW (snd (div_ab E c))) 2 = (mSFR c REG_B = 0)" "\<not> bit (PSW (snd (div_ab E c))) 7"
  by (simp_all add: div_ab_def reg_defs Let_def split_beta bit_or_iff bit_and_iff bit_not_iff bit_numeral_rec)

text \<open>
  \<open>MUL AB\<close> leaves the full 16-bit product in B:A with \<open>OV\<close> set exactly when it exceeds a byte;
  \<open>DIV AB\<close> leaves quotient and remainder in A and B, or sets \<open>OV\<close> and changes neither when B is 0.
  Both clear the carry and take four machine cycles in all.
\<close>

theorem mul_div_correct:
  "(let a = ACC c; b = mSFR c REG_B; (dm, m) = mul_ab E c; (dd, d) = div_ab E c
    in dm = 3 \<and> mPC m = mPC c + 1 \<and>
       256 * unat (mSFR m REG_B) + unat (ACC m) = unat a * unat b \<and>
       bit (PSW m) 2 = (unat a * unat b \<ge> 256) \<and> \<not> bit (PSW m) 7 \<and>
       dd = 3 \<and> mPC d = mPC c + 1 \<and> \<not> bit (PSW d) 7 \<and> bit (PSW d) 2 = (b = 0) \<and>
       (if b = 0 then ACC d = a \<and> mSFR d REG_B = b
        else unat a = unat (ACC d) * unat b + unat (mSFR d REG_B) \<and> mSFR d REG_B < b))"
  by (simp add: Let_def split_beta mul_ab_values div_ab_values unat_div unat_mod word_less_nat_alt
      unat_gt_0)
end
