(* ===== verification/OpsLogic.thy ===== *)
theory OpsLogic
  imports OpcodeBase
begin

text \<open>Logical handlers of \<^verbatim>\<open>opcodes.c\<close>: rotations, ORL, ANL, XRL, CLR, CPL and SWAP on bytes.\<close>

subsection \<open>Rotations and accumulator operations\<close>

definition rr_a :: operation where
  "rr_a E c = (0, pc_add 1 (acc_mod (\<lambda>a. drop_bit 1 a OR push_bit 7 a) c))"

definition rrc_a :: operation where
  "rrc_a E c =
     (let cy = drop_bit 7 (PSW c AND PSWMASK_C);
          newc = ACC c AND 1;
          c1 = acc_mod (\<lambda>a. drop_bit 1 a OR push_bit 7 cy) c;
          c2 = psw_mod (\<lambda>p. (p AND NOT PSWMASK_C) OR push_bit 7 newc) c1
      in (0, pc_add 1 c2))"

definition rl_a :: operation where
  "rl_a E c = (0, pc_add 1 (acc_mod (\<lambda>a. push_bit 1 a OR drop_bit 7 a) c))"

definition rlc_a :: operation where
  "rlc_a E c =
     (let carry = CARRY c;
          new_carry = (drop_bit 7 (ACC c) \<noteq> 0);
          c1 = acc_mod (\<lambda>a. push_bit 1 a OR of_bool carry) c;
          c2 = psw_mod (\<lambda>p. (p AND NOT PSWMASK_C) OR push_bit 7 (of_bool new_carry)) c1
      in (0, pc_add 1 c2))"

definition swap_a :: operation where
  "swap_a E c = (0, pc_add 1 (acc_mod (\<lambda>a. push_bit 4 a OR drop_bit 4 a) c))"

definition clr_a :: operation where
  "clr_a E c = (0, pc_add 1 (acc_set 0 c))"

definition cpl_a :: operation where
  "cpl_a E c = (0, pc_add 1 (acc_mod (\<lambda>a. NOT a) c))"

subsection \<open>ORL\<close>

definition orl_mem_a :: operation where
  "orl_mem_a E c =
     (let (address, c1) = OPERAND1 E c
      in unless_aborted E (\<lambda>c. (0, pc_add 2 c)) (direct_rmw E address (\<lambda>v c. v OR ACC c) c1))"

definition orl_mem_imm :: operation where
  "orl_mem_imm E c =
     (let (address, c1) = OPERAND1 E c;
          (value, c2) = read_mem_rmw E address c1;
          (imm, c3) = OPERAND2 E c2
      in unless_aborted E (\<lambda>c. (1, pc_add 3 c)) (write_mem E address (value OR imm) c3))"

definition orl_a_imm :: operation where
  "orl_a_imm E c =
     (let (imm, c1) = OPERAND1 E c in (0, pc_add 2 (acc_mod (\<lambda>a. a OR imm) c1)))"

definition orl_a_mem :: operation where
  "orl_a_mem E c =
     (let (address, c1) = OPERAND1 E c;
          (value, c2) = read_mem E address c1
      in (0, pc_add 2 (acc_mod (\<lambda>a. a OR value) c2)))"

definition orl_a_indir_rx :: operation where
  "orl_a_indir_rx E c =
     (let value = read_mem_indir (INDIR_RX_ADDRESS c) c
      in (0, pc_add 1 (acc_mod (\<lambda>a. a OR value) c)))"

definition orl_a_rx :: operation where
  "orl_a_rx E c = (0, pc_add 1 (acc_mod (\<lambda>a. a OR mLowerData c (RX_ADDRESS c)) c))"

subsection \<open>ANL\<close>

definition anl_mem_a :: operation where
  "anl_mem_a E c =
     (let (address, c1) = OPERAND1 E c
      in if address > 0x7f
         then unless_aborted E (\<lambda>c. (0, pc_add 2 c))
                (em8051_sfr_write E address (mSFR c1 (unat (address - 0x80)) AND ACC c1) c1)
         else (0, pc_add 2 (lower_mod (unat address) (\<lambda>v. v AND ACC c1) c1)))"

definition anl_mem_imm :: operation where
  "anl_mem_imm E c =
     (let (address, c1) = OPERAND1 E c;
          (value, c2) = read_mem_rmw E address c1;
          (imm, c3) = OPERAND2 E c2
      in unless_aborted E (\<lambda>c. (1, pc_add 3 c)) (write_mem E address (value AND imm) c3))"

definition anl_a_imm :: operation where
  "anl_a_imm E c =
     (let (imm, c1) = OPERAND1 E c in (0, pc_add 2 (acc_mod (\<lambda>a. a AND imm) c1)))"

definition anl_a_mem :: operation where
  "anl_a_mem E c =
     (let (address, c1) = OPERAND1 E c;
          (value, c2) = read_mem E address c1
      in (0, pc_add 2 (acc_mod (\<lambda>a. a AND value) c2)))"

definition anl_a_indir_rx :: operation where
  "anl_a_indir_rx E c =
     (let value = read_mem_indir (INDIR_RX_ADDRESS c) c
      in (0, pc_add 1 (acc_mod (\<lambda>a. a AND value) c)))"

definition anl_a_rx :: operation where
  "anl_a_rx E c = (0, pc_add 1 (acc_mod (\<lambda>a. a AND mLowerData c (RX_ADDRESS c)) c))"

subsection \<open>XRL\<close>

definition xrl_mem_a :: operation where
  "xrl_mem_a E c =
     (let (address, c1) = OPERAND1 E c
      in if address > 0x7f
         then unless_aborted E (\<lambda>c. (0, pc_add 2 c))
                (em8051_sfr_write E address (mSFR c1 (unat (address - 0x80)) XOR ACC c1) c1)
         else (0, pc_add 2 (lower_mod (unat address) (\<lambda>v. v XOR ACC c1) c1)))"

definition xrl_mem_imm :: operation where
  "xrl_mem_imm E c =
     (let (address, c1) = OPERAND1 E c;
          (value, c2) = read_mem_rmw E address c1;
          (imm, c3) = OPERAND2 E c2
      in unless_aborted E (\<lambda>c. (1, pc_add 3 c)) (write_mem E address (value XOR imm) c3))"

definition xrl_a_imm :: operation where
  "xrl_a_imm E c =
     (let (imm, c1) = OPERAND1 E c in (0, pc_add 2 (acc_mod (\<lambda>a. a XOR imm) c1)))"

definition xrl_a_mem :: operation where
  "xrl_a_mem E c =
     (let (address, c1) = OPERAND1 E c;
          (value, c2) = read_mem E address c1
      in (0, pc_add 2 (acc_mod (\<lambda>a. a XOR value) c2)))"

definition xrl_a_indir_rx :: operation where
  "xrl_a_indir_rx E c =
     (let value = read_mem_indir (INDIR_RX_ADDRESS c) c
      in (0, pc_add 1 (acc_mod (\<lambda>a. a XOR value) c)))"

definition xrl_a_rx :: operation where
  "xrl_a_rx E c = (0, pc_add 1 (acc_mod (\<lambda>a. a XOR mLowerData c (RX_ADDRESS c)) c))"

lemmas logic_op_defs = rr_a_def rrc_a_def rl_a_def rlc_a_def swap_a_def clr_a_def cpl_a_def
  orl_mem_a_def orl_mem_imm_def orl_a_imm_def orl_a_mem_def orl_a_indir_rx_def orl_a_rx_def
  anl_mem_a_def anl_mem_imm_def anl_a_imm_def anl_a_mem_def anl_a_indir_rx_def anl_a_rx_def
  xrl_mem_a_def xrl_mem_imm_def xrl_a_imm_def xrl_a_mem_def xrl_a_indir_rx_def xrl_a_rx_def

end
