(* ===== verification/OpsBits.thy ===== *)
theory OpsBits
  imports OpcodeBase
begin

text \<open>Handlers of \<^verbatim>\<open>opcodes.c\<close> on single bits and the carry flag.\<close>

subsection \<open>Carry with a bit\<close>

definition orl_c_bitaddr :: operation where
  "orl_c_bitaddr E c =
     (let (address, c1) = OPERAND1 E c;
          carry = CARRY c1;
          (b, c2) = bit_read E address c1
      in (1, pc_add 2 (psw_carry (if b then True else carry) c2)))"

definition orl_c_compl_bitaddr :: operation where
  "orl_c_compl_bitaddr E c =
     (let (address, c1) = OPERAND1 E c;
          carry = CARRY c1;
          (b, c2) = bit_read E address c1
      in (0, pc_add 2 (psw_carry (if b then carry else True) c2)))"

definition anl_c_bitaddr :: operation where
  "anl_c_bitaddr E c =
     (let (address, c1) = OPERAND1 E c;
          carry = CARRY c1;
          (b, c2) = bit_read E address c1
      in (0, pc_add 2 (psw_carry (if b then carry else False) c2)))"

definition anl_c_compl_bitaddr :: operation where
  "anl_c_compl_bitaddr E c =
     (let (address, c1) = OPERAND1 E c;
          carry = CARRY c1;
          (b, c2) = bit_read E address c1
      in (0, pc_add 2 (psw_carry (if b then False else carry) c2)))"

definition mov_c_bitaddr :: operation where
  "mov_c_bitaddr E c =
     (let (address, c1) = OPERAND1 E c;
          (b, c2) = bit_read E address c1
      in (0, pc_add 2 (psw_carry b c2)))"

definition cpl_c :: operation where
  "cpl_c E c = (0, pc_add 1 (psw_mod (\<lambda>p. p XOR PSWMASK_C) c))"

definition clr_c :: operation where
  "clr_c E c = (0, pc_add 1 (psw_mod (\<lambda>p. p AND NOT PSWMASK_C) c))"

definition setb_c :: operation where
  "setb_c E c = (0, pc_add 1 (psw_mod (\<lambda>p. p OR PSWMASK_C) c))"

subsection \<open>Bit writes\<close>

definition mov_bitaddr_c :: operation where
  "mov_bitaddr_c E c =
     (let (address, c1) = OPERAND1 E c;
          carry = CARRY c1;
          (aborted, c2) = bit_modify E address
             (\<lambda>v. (v AND NOT (bit_mask address)) OR push_bit (unat (address AND 7)) (of_bool carry)) c1
      in if aborted then (0, c2) else (1, pc_add 2 c2))"

definition cpl_bitaddr :: operation where
  "cpl_bitaddr E c =
     (let (address, c1) = OPERAND1 E c;
          (aborted, c2) = bit_modify E address (\<lambda>v. v XOR bit_mask address) c1
      in if aborted then (0, c2) else (0, pc_add 2 c2))"

definition clr_bitaddr :: operation where
  "clr_bitaddr E c =
     (let (address, c1) = OPERAND1 E c;
          (aborted, c2) = bit_modify E address (\<lambda>v. v AND NOT (bit_mask address)) c1
      in if aborted then (0, c2) else (0, pc_add 2 c2))"

definition setb_bitaddr :: operation where
  "setb_bitaddr E c =
     (let (address, c1) = OPERAND1 E c;
          (aborted, c2) = bit_modify E address (\<lambda>v. v OR bit_mask address) c1
      in if aborted then (0, c2) else (0, pc_add 2 c2))"

lemmas bit_op_defs = orl_c_bitaddr_def orl_c_compl_bitaddr_def anl_c_bitaddr_def
  anl_c_compl_bitaddr_def mov_c_bitaddr_def cpl_c_def clr_c_def setb_c_def mov_bitaddr_c_def
  cpl_bitaddr_def clr_bitaddr_def setb_bitaddr_def

end
