(* ===== verification/OpsJump.thy ===== *)
theory OpsJump
  imports OpcodeBase
begin

text \<open>Control transfer handlers of \<^verbatim>\<open>opcodes.c\<close>: jumps, calls, returns, compare and loop branches.\<close>

subsection \<open>Jumps\<close>

text \<open>The 11-bit address shared by AJMP and ACALL.\<close>

definition page_address :: "u8 \<Rightarrow> em8051 \<Rightarrow> u16" where
  "page_address operand c =
     ((mPC c + 2) AND 0xf800) OR ucast operand OR push_bit 3 (ucast (OPCODE c AND 0xe0))"

definition ajmp_offset :: operation where
  "ajmp_offset E c = (let (o1, c1) = OPERAND1 E c in (1, pc_set (page_address o1 c1) c1))"

definition ljmp_address :: operation where
  "ljmp_address E c =
     (let (o1, c1) = OPERAND1 E c;
          (o2, c2) = OPERAND2 E c1
      in (1, pc_set (push_bit 8 (ucast o1) OR ucast o2) c2))"

definition sjmp_offset :: operation where
  "sjmp_offset E c = (1, branch E True 2 c)"

definition jmp_indir_a_dptr :: operation where
  "jmp_indir_a_dptr E c = (1, pc_set (DPTR c + ucast (ACC c)) c)"

definition nop :: operation where
  "nop E c =
     (let c1 = (if CODEMEM c (mPC c) \<noteq> 0 then em8051_raise_exception E EXCEPTION_ILLEGAL_OPCODE c else c)
      in unless_aborted E (\<lambda>c. (0, pc_add 1 c)) c1)"

subsection \<open>Conditional branches\<close>

definition jc_offset :: operation where
  "jc_offset E c = (1, branch E (PSW c AND PSWMASK_C \<noteq> 0) 2 c)"

definition jnc_offset :: operation where
  "jnc_offset E c = (1, branch E (\<not> PSW c AND PSWMASK_C \<noteq> 0) 2 c)"

definition jz_offset :: operation where
  "jz_offset E c = (1, branch E (ACC c = 0) 2 c)"

definition jnz_offset :: operation where
  "jnz_offset E c = (1, branch E (ACC c \<noteq> 0) 2 c)"

definition jb_bitaddr_offset :: operation where
  "jb_bitaddr_offset E c =
     (let (address, c1) = OPERAND1 E c;
          (b, c2) = bit_read E address c1
      in (1, branch E b 3 c2))"

definition jnb_bitaddr_offset :: operation where
  "jnb_bitaddr_offset E c =
     (let (address, c1) = OPERAND1 E c;
          (b, c2) = bit_read E address c1
      in (1, branch E (\<not> b) 3 c2))"

text \<open>JBC tests the latch, not the pins, and clears the bit only when it was set.\<close>

definition jbc_bitaddr_offset :: operation where
  "jbc_bitaddr_offset E c =
     (let (address, c1) = OPERAND1 E c;
          mask = bit_mask address
      in if (if address > 0x7f then mSFR c1 (unat ((address AND 0xf8) - 0x80))
             else mLowerData c1 (bit_byte address)) AND mask \<noteq> 0
         then
           let (aborted, c2) = bit_modify E address (\<lambda>v. v AND NOT mask) c1
           in if aborted then (0, c2) else (1, branch E True 3 c2)
         else (1, branch E False 3 c1))"

text \<open>The comparison of the CJNE forms: carry is set on unsigned less-than.\<close>

definition compare_branch :: "em8051_callbacks \<Rightarrow> u8 \<Rightarrow> u8 \<Rightarrow> em8051 \<Rightarrow> u8 \<times> em8051" where
  "compare_branch E value1 value2 c =
     (let c1 = (if value1 < value2 then psw_mod (\<lambda>p. p OR PSWMASK_C) c
                else psw_mod (\<lambda>p. p AND NOT PSWMASK_C) c)
      in (1, branch E (value1 \<noteq> value2) 3 c1))"

definition cjne_a_imm_offset :: operation where
  "cjne_a_imm_offset E c = (let (v, c1) = OPERAND1 E c in compare_branch E (ACC c1) v c1)"

definition cjne_a_mem_offset :: operation where
  "cjne_a_mem_offset E c =
     (let (address, c1) = OPERAND1 E c;
          (v, c2) = read_mem E address c1
      in compare_branch E (ACC c2) v c2)"

definition cjne_indir_rx_imm_offset :: operation where
  "cjne_indir_rx_imm_offset E c =
     (let value1 = read_mem_indir (INDIR_RX_ADDRESS c) c;
          (value2, c1) = OPERAND1 E c
      in compare_branch E value1 value2 c1)"

definition cjne_rx_imm_offset :: operation where
  "cjne_rx_imm_offset E c =
     (let rx = RX_ADDRESS c;
          (v, c1) = OPERAND1 E c
      in compare_branch E (mLowerData c1 rx) v c1)"

definition djnz_mem_offset :: operation where
  "djnz_mem_offset E c =
     (let (address, c1) = OPERAND1 E c;
          (v, c2) = read_mem_rmw E address c1;
          v' = v - 1
      in unless_aborted E (\<lambda>c. (1, branch E (v' \<noteq> 0) 3 c)) (write_mem E address v' c2))"

definition djnz_rx_offset :: operation where
  "djnz_rx_offset E c =
     (let rx = RX_ADDRESS c;
          c1 = lower_mod rx (\<lambda>v. v - 1) c
      in (1, branch E (mLowerData c1 rx \<noteq> 0) 2 c1))"

subsection \<open>Calls and returns\<close>

text \<open>The context preflight of the raw observer: without an observer the call proceeds.\<close>

definition context_preflight :: "em8051_callbacks \<Rightarrow> em8051 \<Rightarrow> bool \<times> em8051" where
  "context_preflight E c =
     (case mObservation E of
        None \<Rightarrow> (True, c)
      | Some _ \<Rightarrow>
          let (r, c1) = emu_cpu_raw E EMU_RAW_CONTEXT_PREFLIGHT (mMachineCycleCount c) 0 0 0 0 c
          in (r \<noteq> 0, c1))"

text \<open>Pushing the address after an \<open>n\<close>-byte call, low byte first.\<close>

definition push_return :: "em8051_callbacks \<Rightarrow> u16 \<Rightarrow> em8051 \<Rightarrow> bool \<times> em8051" where
  "push_return E n c =
     (let (ok1, c1) = push_to_stack E (ucast ((mPC c + n) AND 0xff)) c
      in if \<not> ok1 then (False, c1)
         else push_to_stack E (ucast (drop_bit 8 (mPC c1 + n))) c1)"

definition call_note :: "em8051_callbacks \<Rightarrow> u16 \<Rightarrow> u16 \<Rightarrow> em8051 \<Rightarrow> em8051" where
  "call_note E target n c =
     raw_note E EMU_RAW_CALL (mMachineCycleCount c) (ucast target) (ucast (mPC c + n))
       (ucast (mSFR c REG_SP - 2)) (ucast (mSFR c REG_SP)) c"

definition acall_offset :: operation where
  "acall_offset E c =
     (let (o1, c1) = OPERAND1 E c;
          address = page_address o1 c1;
          (go, c2) = context_preflight E c1
      in if \<not> go then (1, c2)
         else
           let (ok, c3) = push_return E 2 c2
           in if \<not> ok then (1, c3) else (1, pc_set address (call_note E address 2 c3)))"

definition lcall_address :: operation where
  "lcall_address E c =
     (let (go, c1) = context_preflight E c
      in if \<not> go then (1, c1)
         else
           let (ok, c2) = push_return E 3 c1
           in if \<not> ok then (1, c2)
              else
                let (high, c3) = OPERAND1 E c2;
                    (low, c4) = OPERAND2 E c3;
                    target = push_bit 8 (ucast high) OR ucast low
                in (1, pc_set target (call_note E target 3 c4)))"

text \<open>Popping a return address, high byte first.\<close>

definition pop_return :: "em8051_callbacks \<Rightarrow> em8051 \<Rightarrow> u16 option \<times> em8051" where
  "pop_return E c =
     (case pop_from_stack E c of
        (None, c1) \<Rightarrow> (None, c1)
      | (Some high, c1) \<Rightarrow>
          (case pop_from_stack E c1 of
             (None, c2) \<Rightarrow> (None, c2)
           | (Some low, c2) \<Rightarrow> (Some (push_bit 8 (ucast high) OR ucast low), c2)))"

definition return_note :: "em8051_callbacks \<Rightarrow> emu_cpu_raw_fact \<Rightarrow> em8051 \<Rightarrow> em8051" where
  "return_note E kind c =
     raw_note E kind (mMachineCycleCount c) (ucast (mPC c)) 0 (ucast (mSFR c REG_SP + 2))
       (ucast (mSFR c REG_SP)) c"

definition ret :: operation where
  "ret E c =
     (case pop_return E c of
        (None, c1) \<Rightarrow> (1, c1)
      | (Some address, c1) \<Rightarrow> (1, return_note E EMU_RAW_RET (pc_set address c1)))"

text \<open>The classic part of RETI: check the saved context, then leave the interrupt level.\<close>

definition classic_reti :: "em8051_callbacks \<Rightarrow> u8 \<Rightarrow> em8051 \<Rightarrow> bool \<times> em8051" where
  "classic_reti E original_sp c =
     (if mInterruptActive c = 0 then (True, c)
      else
        let hi = (if mInterruptActive c > 1 then 1 else 0);
            (ok, c1) = iret_checks E (\<lambda>c. int_a c hi) (\<lambda>c. int_sp c hi) (\<lambda>c. int_psw c hi) original_sp c
        in if \<not> ok then (False, c1)
           else if mInterruptActive c1 AND 2 \<noteq> 0
           then (True, c1\<lparr>mInterruptActive := mInterruptActive c1 AND NOT 2\<rparr>)
           else (True, c1\<lparr>mInterruptActive := 0\<rparr>))"

definition reti :: operation where
  "reti E c =
     (let original_sp = mSFR c REG_SP
      in case pop_return E c of
           (None, c1) \<Rightarrow> (1, c1)
         | (Some address, c1) \<Rightarrow>
             let (ok, c2) = (if is_sab c1 then
                               (let c' = em8051_sab_irq_reti E original_sp c1
                                in (\<not> em8051_execution_aborted E c', c'))
                             else classic_reti E original_sp c1)
             in if \<not> ok then (0, c2)
                else (1, return_note E EMU_RAW_RETI (pc_set address c2)))"

lemmas jump_op_defs = ajmp_offset_def ljmp_address_def sjmp_offset_def jmp_indir_a_dptr_def nop_def
  jc_offset_def jnc_offset_def jz_offset_def jnz_offset_def jb_bitaddr_offset_def
  jnb_bitaddr_offset_def jbc_bitaddr_offset_def cjne_a_imm_offset_def cjne_a_mem_offset_def
  cjne_indir_rx_imm_offset_def cjne_rx_imm_offset_def djnz_mem_offset_def djnz_rx_offset_def
  acall_offset_def lcall_address_def ret_def

subsection \<open>Calls return\<close>

text \<open>Room for a return address: two more bytes.\<close>

definition call_ok :: "em8051 \<Rightarrow> bool" where
  "call_ok c \<longleftrightarrow> push_ok c \<and> push_ok (pushed 0 c)"

lemma push_ok_pushed: "push_ok (pushed v c) = push_ok (pushed w c)"
  by (simp add: push_ok_def iram_cell_def)

definition pushed_return :: "u16 \<Rightarrow> em8051 \<Rightarrow> em8051" where
  "pushed_return a c = pushed (ucast (drop_bit 8 a)) (pushed (ucast (a AND 0xff)) c)"

lemma push_return_value: "call_ok c \<Longrightarrow> push_return E n c = (True, pushed_return (mPC c + n) c)"
  using push_ok_pushed [of _ c 0] by (simp add: call_ok_def push_return_def push_value pushed_return_def)

lemma read_pushed: "push_ok c \<Longrightarrow> a \<noteq> mSFR c REG_SP + 1 \<Longrightarrow> read_mem_indir a (pushed v c) = read_mem_indir a c"
  using iram.rd_wr [of "mSFR c REG_SP + 1" "sfr_mod REG_SP (\<lambda>s. s + 1) c" a v]
  by (simp add: pushed_def push_ok_def iram_cell_def)

lemma pop_return_pushed:
  assumes ok: "call_ok c"
    and mem: "\<And>a. read_mem_indir a d = read_mem_indir a (pushed_return r c)"
    and regs: "mSFR d REG_SP = mSFR c REG_SP + 2" "mUpperData d = mUpperData c"
  shows "pop_return E d = (Some r, sfr_mod REG_SP (\<lambda>s. s - 1) (sfr_mod REG_SP (\<lambda>s. s - 1) d))"
proof -
  let ?lo = "ucast (r AND 0xff) :: u8" and ?hi = "ucast (drop_bit 8 r) :: u8"
  have ok1: "push_ok c" and ok2: "push_ok (pushed ?lo c)"
    using ok push_ok_pushed [of ?lo c 0] by (simp_all add: call_ok_def)
  note sp = regs(1)
  have nz: "mSFR c REG_SP + 2 \<noteq> 0" "mSFR c REG_SP + 1 \<noteq> 0"
    using ok1 ok2 sp_wrap [of "mSFR c REG_SP + 1"] sp_wrap [of "mSFR c REG_SP"] by (auto simp: push_ok_def add.commute)
  have cells: "iram_cell (mSFR c REG_SP + 1) c" "iram_cell (mSFR c REG_SP + 2) c"
    using ok1 ok2 by (simp_all add: push_ok_def iram_cell_def add.commute)
  have v1: "read_mem_indir (mSFR c REG_SP + 2) (pushed_return r c) = ?hi"
    using pop_pushed [OF ok2, of E ?hi] pop_value [of "pushed_return r c" E] nz cells
    by (simp add: pushed_return_def iram_cell_def add.commute)
  have v2: "read_mem_indir (mSFR c REG_SP + 1) (pushed_return r c) = ?lo"
    using pop_pushed [OF ok1, of E ?lo] pop_value [of "pushed ?lo c" E] nz cells read_pushed [OF ok2]
    by (simp add: pushed_return_def iram_cell_def)
  have p1: "pop_from_stack E d = (Some ?hi, sfr_mod REG_SP (\<lambda>s. s - 1) d)"
    using pop_value [of d E] sp nz cells regs(2) v1 mem by (simp add: iram_cell_def)
  have p2: "pop_from_stack E (sfr_mod REG_SP (\<lambda>s. s - 1) d) =
      (Some ?lo, sfr_mod REG_SP (\<lambda>s. s - 1) (sfr_mod REG_SP (\<lambda>s. s - 1) d))"
    using pop_value [of "sfr_mod REG_SP (\<lambda>s. s - 1) d" E] sp nz cells regs(2) v2 mem
    by (simp add: iram_cell_def add.commute)
  show ?thesis by (simp add: pop_return_def p1 p2 del: One_nat_def)
qed

lemma unobserved:
  assumes "mObservation E = None"
  shows "raw_note E k cy a b d e c = c" "emu_cpu_operand E off c = (CODEMEM c (mPC c + off), c)"
    "context_preflight E c = (True, c)"
  using assms by (simp_all add: raw_note_def emu_cpu_raw_def emu_cpu_operand_def context_preflight_def Let_def)

lemma pushed_return_fields [simp]:
  "mSFR (pushed_return a c) = (mSFR c)(REG_SP := mSFR c REG_SP + 2)"
  "mPC (pushed_return a c) = mPC c" "mUpperData (pushed_return a c) = mUpperData c"
  "CODEMEM (pushed_return a c) = CODEMEM c"
proof -
  have "CODEMEM (pushed v d) = CODEMEM d" for v d
    by (rule CODEMEM_cong) (simp_all add: pushed_def write_mem_indir_def lower_set_def split: upper_ptr.split)
  then show "CODEMEM (pushed_return a c) = CODEMEM c" by (simp add: pushed_return_def)
qed (simp_all add: pushed_return_def add.commute)

lemma pc_set_fields [simp]: "mPC (pc_set a c) = a" "mSFR (pc_set a c) = mSFR c"
  by (simp_all add: pc_set_def)

lemma ret_pushed:
  assumes "call_ok c" "mObservation E = None"
  shows "fst (ret E (pc_set t (pushed_return r c))) = 1" "mPC (snd (ret E (pc_set t (pushed_return r c)))) = r"
    "mSFR (snd (ret E (pc_set t (pushed_return r c)))) = mSFR c"
proof -
  have "read_mem_indir a (pc_set t (pushed_return r c)) = read_mem_indir a (pushed_return r c)" for a
    by (simp add: read_mem_indir_def pc_set_def split: upper_ptr.split)
  then have p: "pop_return E (pc_set t (pushed_return r c)) =
      (Some r, sfr_mod REG_SP (\<lambda>s. s - 1) (sfr_mod REG_SP (\<lambda>s. s - 1) (pc_set t (pushed_return r c))))"
    by (intro pop_return_pushed [OF assms(1)]) (simp_all add: pc_set_def)
  show "fst (ret E (pc_set t (pushed_return r c))) = 1" "mPC (snd (ret E (pc_set t (pushed_return r c)))) = r"
    "mSFR (snd (ret E (pc_set t (pushed_return r c)))) = mSFR c"
    by (simp_all add: ret_def p return_note_def unobserved [OF assms(2)])
qed

text \<open>
  C16. Calls return.  With room for the return address, \<open>LCALL\<close> and \<open>ACALL\<close> go to their target with two
  bytes pushed, and \<open>RET\<close> from there comes back to the instruction after the call with every special
  function register, the stack pointer included, as it was.
\<close>

theorem call_return:
  assumes "call_ok c" "mObservation E = None"
  shows "(case lcall_address E c of (d1, c1) \<Rightarrow> case ret E c1 of (d2, c2) \<Rightarrow>
            d1 = 1 \<and> mPC c1 = push_bit 8 (ucast (CODEMEM c (mPC c + 1))) OR ucast (CODEMEM c (mPC c + 2)) \<and>
            mSFR c1 REG_SP = mSFR c REG_SP + 2 \<and>
            d2 = 1 \<and> mPC c2 = mPC c + 3 \<and> mSFR c2 = mSFR c) \<and>
         (case acall_offset E c of (d1, c1) \<Rightarrow> case ret E c1 of (d2, c2) \<Rightarrow>
            d1 = 1 \<and> mPC c1 = page_address (CODEMEM c (mPC c + 1)) c \<and>
            d2 = 1 \<and> mPC c2 = mPC c + 2 \<and> mSFR c2 = mSFR c)"
proof -
  have l: "lcall_address E c = (1, pc_set (push_bit 8 (ucast (CODEMEM c (mPC c + 1))) OR
      ucast (CODEMEM c (mPC c + 2))) (pushed_return (mPC c + 3) c))"
    using assms by (simp add: lcall_address_def unobserved push_return_value call_note_def)
  have a: "acall_offset E c = (1, pc_set (page_address (CODEMEM c (mPC c + 1)) c) (pushed_return (mPC c + 2) c))"
    using assms by (simp add: acall_offset_def unobserved push_return_value call_note_def Let_def)
  show ?thesis
    by (simp add: l a ret_pushed [OF assms] split_beta)
qed
theorem call_return_witness:
  "mPC (snd (ret null_callbacks (snd (lcall_address null_callbacks sab_zero)))) = 3"
proof -
  have "call_ok sab_zero"
    by (simp add: call_ok_def push_ok_def iram_cell_def sab_zero_def zero_cpu_def)
  then show ?thesis
    using call_return [of sab_zero null_callbacks] by (simp add: split_beta sab_zero_def zero_cpu_def)
qed

end
