(* ===== verification/OpsMove.thy ===== *)
theory OpsMove
  imports OpcodeBase
begin

text \<open>Data transfer handlers of \<^verbatim>\<open>opcodes.c\<close>: MOV, MOVC, MOVX, PUSH, POP and the exchanges.\<close>

subsection \<open>MOV\<close>

definition mov_a_imm :: operation where
  "mov_a_imm E c = (let (imm, c1) = OPERAND1 E c in (0, pc_add 2 (acc_set imm c1)))"

definition mov_a_mem :: operation where
  "mov_a_mem E c =
     (let (address, c1) = OPERAND1 E c;
          (value, c2) = read_mem E address c1;
          c3 = (if address = 0xe0 then em8051_raise_exception E EXCEPTION_ACC_TO_A c2 else c2)
      in unless_aborted E (\<lambda>c. (0, pc_add 2 (acc_set value c))) c3)"

definition mov_a_indir_rx :: operation where
  "mov_a_indir_rx E c = (0, pc_add 1 (acc_set (read_mem_indir (INDIR_RX_ADDRESS c) c) c))"

definition mov_a_rx :: operation where
  "mov_a_rx E c = (0, pc_add 1 (acc_set (mLowerData c (RX_ADDRESS c)) c))"

definition mov_mem_imm :: operation where
  "mov_mem_imm E c =
     (let (address, c1) = OPERAND1 E c;
          (imm, c2) = OPERAND2 E c1
      in unless_aborted E (\<lambda>c. (1, pc_add 3 c)) (write_mem E address imm c2))"

definition mov_mem_a :: operation where
  "mov_mem_a E c =
     (let (address, c1) = OPERAND1 E c
      in unless_aborted E (\<lambda>c. (0, pc_add 2 c)) (write_mem E address (ACC c1) c1))"

definition mov_mem_rx :: operation where
  "mov_mem_rx E c =
     (let rx = RX_ADDRESS c;
          (address, c1) = OPERAND1 E c
      in unless_aborted E (\<lambda>c. (1, pc_add 2 c)) (write_mem E address (mLowerData c1 rx) c1))"

definition mov_mem_mem :: operation where
  "mov_mem_mem E c =
     (let (address_from, c1) = OPERAND1 E c;
          (address_to, c2) = OPERAND2 E c1;
          (value, c3) = read_mem E address_from c2
      in unless_aborted E (\<lambda>c. (1, pc_add 3 c)) (write_mem E address_to value c3))"

definition mov_mem_indir_rx :: operation where
  "mov_mem_indir_rx E c =
     (let address_from = INDIR_RX_ADDRESS c;
          (address_to, c1) = OPERAND1 E c;
          value = read_mem_indir address_from c1
      in unless_aborted E (\<lambda>c. (1, pc_add 2 c)) (write_mem E address_to value c1))"

definition mov_indir_rx_imm :: operation where
  "mov_indir_rx_imm E c =
     (let address = INDIR_RX_ADDRESS c;
          (imm, c1) = OPERAND1 E c
      in (0, pc_add 2 (write_mem_indir address imm c1)))"

definition mov_indir_rx_mem :: operation where
  "mov_indir_rx_mem E c =
     (let address_to = INDIR_RX_ADDRESS c;
          (address_from, c1) = OPERAND1 E c;
          (value, c2) = read_mem E address_from c1
      in (1, pc_add 2 (write_mem_indir address_to value c2)))"

definition mov_indir_rx_a :: operation where
  "mov_indir_rx_a E c = (0, pc_add 1 (write_mem_indir (INDIR_RX_ADDRESS c) (ACC c) c))"

definition mov_rx_imm :: operation where
  "mov_rx_imm E c =
     (let rx = RX_ADDRESS c;
          (imm, c1) = OPERAND1 E c
      in (0, pc_add 2 (lower_set rx imm c1)))"

definition mov_rx_mem :: operation where
  "mov_rx_mem E c =
     (let rx = RX_ADDRESS c;
          (address, c1) = OPERAND1 E c;
          (value, c2) = read_mem E address c1
      in (1, pc_add 2 (lower_set rx value c2)))"

definition mov_rx_a :: operation where
  "mov_rx_a E c = (0, pc_add 1 (lower_set (RX_ADDRESS c) (ACC c) c))"

definition mov_dptr_imm :: operation where
  "mov_dptr_imm E c =
     (let (o1, c1) = OPERAND1 E c;
          c2 = sfr_set REG_DPH o1 c1;
          (o2, c3) = OPERAND2 E c2
      in (1, pc_add 3 (sfr_set REG_DPL o2 c3)))"

subsection \<open>MOVC\<close>

definition movc_a_indir_a_pc :: operation where
  "movc_a_indir_a_pc E c = (0, pc_add 1 (acc_set (CODEMEM c (mPC c + 1 + ucast (ACC c))) c))"

definition movc_a_indir_a_dptr :: operation where
  "movc_a_indir_a_dptr E c = (1, pc_add 1 (acc_set (CODEMEM c (DPTR c + ucast (ACC c))) c))"

subsection \<open>Stack and exchange\<close>

definition push_mem :: operation where
  "push_mem E c =
     (let (address, c1) = OPERAND1 E c;
          (value, c2) = read_mem E address c1;
          (ok, c3) = push_to_stack E value c2
      in if \<not> ok then (1, c3) else (1, pc_add 2 c3))"

definition pop_mem :: operation where
  "pop_mem E c =
     (let (address, c1) = OPERAND1 E c
      in case pop_from_stack E c1 of
           (None, c2) \<Rightarrow> (1, c2)
         | (Some value, c2) \<Rightarrow>
             unless_aborted E (\<lambda>c. (1, pc_add 2 c)) (write_mem E address value c2))"

definition xch_a_mem :: operation where
  "xch_a_mem E c =
     (let (address, c1) = OPERAND1 E c;
          (value, c2) = read_mem E address c1
      in unless_aborted E (\<lambda>c. (0, pc_add 2 (acc_set value c))) (write_mem E address (ACC c2) c2))"

definition xch_a_indir_rx :: operation where
  "xch_a_indir_rx E c =
     (let address = INDIR_RX_ADDRESS c;
          value = read_mem_indir address c
      in (0, pc_add 1 (acc_set value (write_mem_indir address (ACC c) c))))"

definition xch_a_rx :: operation where
  "xch_a_rx E c =
     (let rx = RX_ADDRESS c;
          a = ACC c;
          c1 = acc_set (mLowerData c rx) c
      in (0, pc_add 1 (lower_set rx a c1)))"

definition xchd_a_indir_rx :: operation where
  "xchd_a_indir_rx E c =
     (let address = INDIR_RX_ADDRESS c;
          value = read_mem_indir address c;
          c1 = acc_mod (\<lambda>a. (a AND 0xf0) OR (value AND 0x0f)) c;
          value' = (value AND 0xf0) OR (ACC c1 AND 0x0f)
      in (0, pc_add 1 (write_mem_indir address value' c1)))"

subsection \<open>MOVX\<close>

text \<open>
  The two forms of each direction differ in the address only.  A read goes to the embedder's
  \<open>xread\<close>, else to the external buffer, else leaves the accumulator alone and is reported as
  unsupported; a write likewise.
\<close>

definition movx_report :: "em8051_callbacks \<Rightarrow> em8051_movx_context \<Rightarrow> u8 \<Rightarrow> em8051_trace_type
    \<Rightarrow> u16 \<Rightarrow> em8051 \<Rightarrow> u8 \<times> em8051" where
  "movx_report E context value type address c =
     (let c1 = movx_context_emit E context value c;
          c2 = em8051_trace_emit E type address (ACC c1) c1
      in (1, pc_add 1 c2))"

definition movx_read :: "em8051_callbacks \<Rightarrow> u16 \<Rightarrow> em8051 \<Rightarrow> u8 \<times> em8051" where
  "movx_read E address c =
     (let context = movx_context_capture c address EM8051_MOVX_READ (ACC c)
      in case xread E of
           Some f \<Rightarrow>
             let (result, c1) = f c address
             in unless_aborted E (\<lambda>c. let c2 = acc_set result c
                  in movx_report E context (ACC c2) EM8051_TRACE_MOVX_READ address c2) c1
         | None \<Rightarrow>
             case EXTDATA c address of
               Some v \<Rightarrow> let c2 = acc_set v c
                 in movx_report E context (ACC c2) EM8051_TRACE_MOVX_READ address c2
             | None \<Rightarrow> movx_report E context (ACC c) EM8051_TRACE_UNSUPPORTED_MOVX_READ address c)"

definition movx_write :: "em8051_callbacks \<Rightarrow> u16 \<Rightarrow> em8051 \<Rightarrow> u8 \<times> em8051" where
  "movx_write E address c =
     (let context = movx_context_capture c address EM8051_MOVX_WRITE (ACC c)
      in case xwrite E of
           Some f \<Rightarrow>
             unless_aborted E (movx_report E context (mx_value context) EM8051_TRACE_MOVX_WRITE address)
               (f c address (ACC c))
         | None \<Rightarrow>
             case mExtData c of
               Some _ \<Rightarrow> movx_report E context (mx_value context) EM8051_TRACE_MOVX_WRITE address
                           (extdata_set address (ACC c) c)
             | None \<Rightarrow> movx_report E context (mx_value context) EM8051_TRACE_UNSUPPORTED_MOVX_WRITE
                           address c)"

definition movx_a_indir_dptr :: operation where
  "movx_a_indir_dptr E c = movx_read E (DPTR c) c"

definition movx_a_indir_rx :: operation where
  "movx_a_indir_rx E c = movx_read E (ucast (INDIR_RX_ADDRESS c)) c"

definition movx_indir_dptr_a :: operation where
  "movx_indir_dptr_a E c = movx_write E (DPTR c) c"

definition movx_indir_rx_a :: operation where
  "movx_indir_rx_a E c = movx_write E (ucast (INDIR_RX_ADDRESS c)) c"

lemmas move_op_defs = mov_a_imm_def mov_a_mem_def mov_a_indir_rx_def mov_a_rx_def mov_mem_imm_def
  mov_mem_a_def mov_mem_rx_def mov_mem_mem_def mov_mem_indir_rx_def mov_indir_rx_imm_def
  mov_indir_rx_mem_def mov_indir_rx_a_def mov_rx_imm_def mov_rx_mem_def mov_rx_a_def
  mov_dptr_imm_def movc_a_indir_a_pc_def movc_a_indir_a_dptr_def push_mem_def pop_mem_def
  xch_a_mem_def xch_a_indir_rx_def xch_a_rx_def xchd_a_indir_rx_def movx_a_indir_dptr_def
  movx_a_indir_rx_def movx_indir_dptr_a_def movx_indir_rx_a_def

subsection \<open>Exchange of digits\<close>

lemma read_indir_frame:
  "read_mem_indir a (acc_mod f c) = read_mem_indir a c" "read_mem_indir a (pc_add n c) = read_mem_indir a c"
  by (simp_all add: read_mem_indir_def acc_mod_def pc_add_def split: upper_ptr.split)

lemma write_back_indir: "read_mem_indir b (write_mem_indir a (read_mem_indir a c) c) = read_mem_indir b c"
  by (auto simp: read_mem_indir_def write_mem_indir_def lower_set_def split: upper_ptr.split)

text \<open>
  C18. \<open>XCHD A,@Ri\<close> does not exchange digits: the accumulator is overwritten before its low digit is
  copied out, so memory keeps its value at every address and only the accumulator changes.
\<close>

theorem xchd_keeps_memory:
  "(let a = INDIR_RX_ADDRESS c; (delay, c') = xchd_a_indir_rx E c
    in delay = 0 \<and> read_mem_indir b c' = read_mem_indir b c \<and>
       ACC c' = (ACC c AND 0xf0) OR (read_mem_indir a c AND 0x0f))"
proof -
  define a where "a = INDIR_RX_ADDRESS c"
  define v where "v = read_mem_indir a c"
  define d where "d = acc_mod (\<lambda>x. (x AND 0xf0) OR (v AND 0x0f)) c"
  have "(v AND 0xf0) OR (((ACC c AND 0xf0) OR (v AND 0x0f)) AND 0x0f) = v"
  proof (rule bit_word_eqI)
    fix n assume "n < LENGTH(8)"
    moreover have "bit (0xf0 :: u8) n = (4 \<le> n)" "bit (0x0f :: u8) n = (n < 4)" if "n < 8"
      using that by (auto simp: less_Suc_eq numeral_eq_Suc)
    ultimately show "bit ((v AND 0xf0) OR (((ACC c AND 0xf0) OR (v AND 0x0f)) AND 0x0f)) n = bit v n"
      by (auto simp: bit_or_iff bit_and_iff)
  qed
  then have v': "(v AND 0xf0) OR (ACC d AND 0x0f) = v" by (simp add: d_def acc_mod_def)
  have "v = read_mem_indir a d" by (simp add: v_def d_def read_indir_frame)
  then have m: "read_mem_indir b (write_mem_indir a v d) = read_mem_indir b c"
    using write_back_indir [of b a d] by (simp add: d_def read_indir_frame)
  have acc: "ACC (pc_add 1 (write_mem_indir a v d)) = (ACC c AND 0xf0) OR (v AND 0x0f)"
    by (simp add: write_mem_indir_def lower_set_def pc_add_def d_def acc_mod_def split: upper_ptr.split)
  have "xchd_a_indir_rx E c = (0, pc_add 1 (write_mem_indir a v d))"
    using v' by (simp only: xchd_a_indir_rx_def Let_def a_def [symmetric] v_def [symmetric] d_def [symmetric])
  then show ?thesis
    using m acc by (simp add: Let_def read_indir_frame a_def [symmetric] v_def [symmetric])
qed

end
