(* ===== verification/Dispatch.thy ===== *)
theory Dispatch
  imports OpsArith OpsLogic OpsBits OpsJump OpsMove
begin

text \<open>
  The dispatch of \<^verbatim>\<open>opcodes.c\<close>: what a table entry means (\<open>run_op\<close>), the table \<open>op_setptrs\<close> fills
  in and the switch of \<open>do_op\<close>, a second dispatcher for the same instruction set.
\<close>

subsection \<open>Handlers by name\<close>

fun run_jump_op :: "jump_op \<Rightarrow> operation" where
  "run_jump_op op_ajmp_offset = ajmp_offset"
| "run_jump_op op_ljmp_address = ljmp_address"
| "run_jump_op op_jbc_bitaddr_offset = jbc_bitaddr_offset"
| "run_jump_op op_acall_offset = acall_offset"
| "run_jump_op op_lcall_address = lcall_address"
| "run_jump_op op_jb_bitaddr_offset = jb_bitaddr_offset"
| "run_jump_op op_ret = ret"
| "run_jump_op op_jnb_bitaddr_offset = jnb_bitaddr_offset"
| "run_jump_op op_reti = reti"
| "run_jump_op op_jc_offset = jc_offset"
| "run_jump_op op_jnc_offset = jnc_offset"
| "run_jump_op op_jz_offset = jz_offset"
| "run_jump_op op_jnz_offset = jnz_offset"
| "run_jump_op op_jmp_indir_a_dptr = jmp_indir_a_dptr"
| "run_jump_op op_sjmp_offset = sjmp_offset"
| "run_jump_op op_cjne_a_imm_offset = cjne_a_imm_offset"
| "run_jump_op op_cjne_a_mem_offset = cjne_a_mem_offset"
| "run_jump_op op_cjne_indir_rx_imm_offset = cjne_indir_rx_imm_offset"
| "run_jump_op op_cjne_rx_imm_offset = cjne_rx_imm_offset"
| "run_jump_op op_djnz_mem_offset = djnz_mem_offset"
| "run_jump_op op_djnz_rx_offset = djnz_rx_offset"
| "run_jump_op op_nop = nop"

fun run_arith_op :: "arith_op \<Rightarrow> operation" where
  "run_arith_op op_inc_a = inc_a"
| "run_arith_op op_inc_mem = inc_mem"
| "run_arith_op op_inc_indir_rx = inc_indir_rx"
| "run_arith_op op_dec_a = dec_a"
| "run_arith_op op_dec_mem = dec_mem"
| "run_arith_op op_dec_indir_rx = dec_indir_rx"
| "run_arith_op op_add_a_imm = add_a_imm"
| "run_arith_op op_add_a_mem = add_a_mem"
| "run_arith_op op_add_a_indir_rx = add_a_indir_rx"
| "run_arith_op op_addc_a_imm = addc_a_imm"
| "run_arith_op op_addc_a_mem = addc_a_mem"
| "run_arith_op op_addc_a_indir_rx = addc_a_indir_rx"
| "run_arith_op op_div_ab = div_ab"
| "run_arith_op op_subb_a_imm = subb_a_imm"
| "run_arith_op op_subb_a_mem = subb_a_mem"
| "run_arith_op op_subb_a_indir_rx = subb_a_indir_rx"
| "run_arith_op op_inc_dptr = inc_dptr"
| "run_arith_op op_mul_ab = mul_ab"
| "run_arith_op op_da_a = da_a"
| "run_arith_op op_inc_rx = inc_rx"
| "run_arith_op op_dec_rx = dec_rx"
| "run_arith_op op_add_a_rx = add_a_rx"
| "run_arith_op op_addc_a_rx = addc_a_rx"
| "run_arith_op op_subb_a_rx = subb_a_rx"

fun run_logic_op :: "logic_op \<Rightarrow> operation" where
  "run_logic_op op_rr_a = rr_a"
| "run_logic_op op_rrc_a = rrc_a"
| "run_logic_op op_rl_a = rl_a"
| "run_logic_op op_rlc_a = rlc_a"
| "run_logic_op op_orl_mem_a = orl_mem_a"
| "run_logic_op op_orl_mem_imm = orl_mem_imm"
| "run_logic_op op_orl_a_imm = orl_a_imm"
| "run_logic_op op_orl_a_mem = orl_a_mem"
| "run_logic_op op_orl_a_indir_rx = orl_a_indir_rx"
| "run_logic_op op_anl_mem_a = anl_mem_a"
| "run_logic_op op_anl_mem_imm = anl_mem_imm"
| "run_logic_op op_anl_a_imm = anl_a_imm"
| "run_logic_op op_anl_a_mem = anl_a_mem"
| "run_logic_op op_anl_a_indir_rx = anl_a_indir_rx"
| "run_logic_op op_xrl_mem_a = xrl_mem_a"
| "run_logic_op op_xrl_mem_imm = xrl_mem_imm"
| "run_logic_op op_xrl_a_imm = xrl_a_imm"
| "run_logic_op op_xrl_a_mem = xrl_a_mem"
| "run_logic_op op_xrl_a_indir_rx = xrl_a_indir_rx"
| "run_logic_op op_swap_a = swap_a"
| "run_logic_op op_clr_a = clr_a"
| "run_logic_op op_cpl_a = cpl_a"
| "run_logic_op op_orl_a_rx = orl_a_rx"
| "run_logic_op op_anl_a_rx = anl_a_rx"
| "run_logic_op op_xrl_a_rx = xrl_a_rx"

fun run_bit_op :: "bit_op \<Rightarrow> operation" where
  "run_bit_op op_orl_c_bitaddr = orl_c_bitaddr"
| "run_bit_op op_anl_c_bitaddr = anl_c_bitaddr"
| "run_bit_op op_mov_bitaddr_c = mov_bitaddr_c"
| "run_bit_op op_orl_c_compl_bitaddr = orl_c_compl_bitaddr"
| "run_bit_op op_mov_c_bitaddr = mov_c_bitaddr"
| "run_bit_op op_anl_c_compl_bitaddr = anl_c_compl_bitaddr"
| "run_bit_op op_cpl_bitaddr = cpl_bitaddr"
| "run_bit_op op_cpl_c = cpl_c"
| "run_bit_op op_clr_bitaddr = clr_bitaddr"
| "run_bit_op op_clr_c = clr_c"
| "run_bit_op op_setb_bitaddr = setb_bitaddr"
| "run_bit_op op_setb_c = setb_c"

fun run_move_op :: "move_op \<Rightarrow> operation" where
  "run_move_op op_mov_a_imm = mov_a_imm"
| "run_move_op op_mov_mem_imm = mov_mem_imm"
| "run_move_op op_mov_indir_rx_imm = mov_indir_rx_imm"
| "run_move_op op_movc_a_indir_a_pc = movc_a_indir_a_pc"
| "run_move_op op_mov_mem_mem = mov_mem_mem"
| "run_move_op op_mov_mem_indir_rx = mov_mem_indir_rx"
| "run_move_op op_mov_dptr_imm = mov_dptr_imm"
| "run_move_op op_movc_a_indir_a_dptr = movc_a_indir_a_dptr"
| "run_move_op op_mov_indir_rx_mem = mov_indir_rx_mem"
| "run_move_op op_push_mem = push_mem"
| "run_move_op op_xch_a_mem = xch_a_mem"
| "run_move_op op_xch_a_indir_rx = xch_a_indir_rx"
| "run_move_op op_pop_mem = pop_mem"
| "run_move_op op_xchd_a_indir_rx = xchd_a_indir_rx"
| "run_move_op op_movx_a_indir_dptr = movx_a_indir_dptr"
| "run_move_op op_movx_a_indir_rx = movx_a_indir_rx"
| "run_move_op op_mov_a_mem = mov_a_mem"
| "run_move_op op_mov_a_indir_rx = mov_a_indir_rx"
| "run_move_op op_movx_indir_dptr_a = movx_indir_dptr_a"
| "run_move_op op_movx_indir_rx_a = movx_indir_rx_a"
| "run_move_op op_mov_mem_a = mov_mem_a"
| "run_move_op op_mov_indir_rx_a = mov_indir_rx_a"
| "run_move_op op_mov_rx_imm = mov_rx_imm"
| "run_move_op op_mov_mem_rx = mov_mem_rx"
| "run_move_op op_mov_rx_mem = mov_rx_mem"
| "run_move_op op_xch_a_rx = xch_a_rx"
| "run_move_op op_mov_a_rx = mov_a_rx"
| "run_move_op op_mov_rx_a = mov_rx_a"

fun run_op :: "opname \<Rightarrow> operation" where
  "run_op (Jump h) = run_jump_op h"
| "run_op (Arith h) = run_arith_op h"
| "run_op (Logic h) = run_logic_op h"
| "run_op (Bit h) = run_bit_op h"
| "run_op (Move h) = run_move_op h"

subsection \<open>The handler table\<close>

text \<open>
  The assignments of \<open>op_setptrs\<close> in the order of the code: the loop over the register forms and
  then one assignment per remaining opcode.
\<close>

definition op_rows :: "(u8 \<times> opname) list" where
  "op_rows =
    [(0x08, Arith op_inc_rx), (0x18, Arith op_dec_rx), (0x28, Arith op_add_a_rx),
     (0x38, Arith op_addc_a_rx), (0x48, Logic op_orl_a_rx), (0x58, Logic op_anl_a_rx),
     (0x68, Logic op_xrl_a_rx), (0x78, Move op_mov_rx_imm), (0x88, Move op_mov_mem_rx),
     (0x98, Arith op_subb_a_rx), (0xA8, Move op_mov_rx_mem),
     (0xB8, Jump op_cjne_rx_imm_offset), (0xC8, Move op_xch_a_rx),
     (0xD8, Jump op_djnz_rx_offset), (0xE8, Move op_mov_a_rx), (0xF8, Move op_mov_rx_a)]"

definition op_singles :: "(u8 \<times> opname) list" where
  "op_singles =
    [(0x00, Jump op_nop), (0x01, Jump op_ajmp_offset), (0x02, Jump op_ljmp_address),
     (0x03, Logic op_rr_a), (0x04, Arith op_inc_a), (0x05, Arith op_inc_mem),
     (0x06, Arith op_inc_indir_rx), (0x07, Arith op_inc_indir_rx),
     (0x10, Jump op_jbc_bitaddr_offset), (0x11, Jump op_acall_offset),
     (0x12, Jump op_lcall_address), (0x13, Logic op_rrc_a), (0x14, Arith op_dec_a),
     (0x15, Arith op_dec_mem), (0x16, Arith op_dec_indir_rx), (0x17, Arith op_dec_indir_rx),
     (0x20, Jump op_jb_bitaddr_offset), (0x21, Jump op_ajmp_offset), (0x22, Jump op_ret),
     (0x23, Logic op_rl_a), (0x24, Arith op_add_a_imm), (0x25, Arith op_add_a_mem),
     (0x26, Arith op_add_a_indir_rx), (0x27, Arith op_add_a_indir_rx),
     (0x30, Jump op_jnb_bitaddr_offset), (0x31, Jump op_acall_offset), (0x32, Jump op_reti),
     (0x33, Logic op_rlc_a), (0x34, Arith op_addc_a_imm), (0x35, Arith op_addc_a_mem),
     (0x36, Arith op_addc_a_indir_rx), (0x37, Arith op_addc_a_indir_rx),
     (0x40, Jump op_jc_offset), (0x41, Jump op_ajmp_offset), (0x42, Logic op_orl_mem_a),
     (0x43, Logic op_orl_mem_imm), (0x44, Logic op_orl_a_imm), (0x45, Logic op_orl_a_mem),
     (0x46, Logic op_orl_a_indir_rx), (0x47, Logic op_orl_a_indir_rx),
     (0x50, Jump op_jnc_offset), (0x51, Jump op_acall_offset), (0x52, Logic op_anl_mem_a),
     (0x53, Logic op_anl_mem_imm), (0x54, Logic op_anl_a_imm), (0x55, Logic op_anl_a_mem),
     (0x56, Logic op_anl_a_indir_rx), (0x57, Logic op_anl_a_indir_rx),
     (0x60, Jump op_jz_offset), (0x61, Jump op_ajmp_offset), (0x62, Logic op_xrl_mem_a),
     (0x63, Logic op_xrl_mem_imm), (0x64, Logic op_xrl_a_imm), (0x65, Logic op_xrl_a_mem),
     (0x66, Logic op_xrl_a_indir_rx), (0x67, Logic op_xrl_a_indir_rx),
     (0x70, Jump op_jnz_offset), (0x71, Jump op_acall_offset), (0x72, Bit op_orl_c_bitaddr),
     (0x73, Jump op_jmp_indir_a_dptr), (0x74, Move op_mov_a_imm), (0x75, Move op_mov_mem_imm),
     (0x76, Move op_mov_indir_rx_imm), (0x77, Move op_mov_indir_rx_imm),
     (0x80, Jump op_sjmp_offset), (0x81, Jump op_ajmp_offset), (0x82, Bit op_anl_c_bitaddr),
     (0x83, Move op_movc_a_indir_a_pc), (0x84, Arith op_div_ab), (0x85, Move op_mov_mem_mem),
     (0x86, Move op_mov_mem_indir_rx), (0x87, Move op_mov_mem_indir_rx),
     (0x90, Move op_mov_dptr_imm), (0x91, Jump op_acall_offset), (0x92, Bit op_mov_bitaddr_c),
     (0x93, Move op_movc_a_indir_a_dptr), (0x94, Arith op_subb_a_imm),
     (0x95, Arith op_subb_a_mem), (0x96, Arith op_subb_a_indir_rx),
     (0x97, Arith op_subb_a_indir_rx), (0xA0, Bit op_orl_c_compl_bitaddr),
     (0xA1, Jump op_ajmp_offset), (0xA2, Bit op_mov_c_bitaddr), (0xA3, Arith op_inc_dptr),
     (0xA4, Arith op_mul_ab), (0xA5, Jump op_nop), (0xA6, Move op_mov_indir_rx_mem),
     (0xA7, Move op_mov_indir_rx_mem), (0xB0, Bit op_anl_c_compl_bitaddr),
     (0xB1, Jump op_acall_offset), (0xB2, Bit op_cpl_bitaddr), (0xB3, Bit op_cpl_c),
     (0xB4, Jump op_cjne_a_imm_offset), (0xB5, Jump op_cjne_a_mem_offset),
     (0xB6, Jump op_cjne_indir_rx_imm_offset), (0xB7, Jump op_cjne_indir_rx_imm_offset),
     (0xC0, Move op_push_mem), (0xC1, Jump op_ajmp_offset), (0xC2, Bit op_clr_bitaddr),
     (0xC3, Bit op_clr_c), (0xC4, Logic op_swap_a), (0xC5, Move op_xch_a_mem),
     (0xC6, Move op_xch_a_indir_rx), (0xC7, Move op_xch_a_indir_rx), (0xD0, Move op_pop_mem),
     (0xD1, Jump op_acall_offset), (0xD2, Bit op_setb_bitaddr), (0xD3, Bit op_setb_c),
     (0xD4, Arith op_da_a), (0xD5, Jump op_djnz_mem_offset), (0xD6, Move op_xchd_a_indir_rx),
     (0xD7, Move op_xchd_a_indir_rx), (0xE0, Move op_movx_a_indir_dptr),
     (0xE1, Jump op_ajmp_offset), (0xE2, Move op_movx_a_indir_rx),
     (0xE3, Move op_movx_a_indir_rx), (0xE4, Logic op_clr_a), (0xE5, Move op_mov_a_mem),
     (0xE6, Move op_mov_a_indir_rx), (0xE7, Move op_mov_a_indir_rx),
     (0xF0, Move op_movx_indir_dptr_a), (0xF1, Jump op_acall_offset),
     (0xF2, Move op_movx_indir_rx_a), (0xF3, Move op_movx_indir_rx_a), (0xF4, Logic op_cpl_a),
     (0xF5, Move op_mov_mem_a), (0xF6, Move op_mov_indir_rx_a), (0xF7, Move op_mov_indir_rx_a)]"

definition op_assignments :: "(u8 \<times> opname) list" where
  "op_assignments =
     concat (map (\<lambda>i. map (\<lambda>(base, h). (base + i, h)) op_rows) [0, 1, 2, 3, 4, 5, 6, 7]) @ op_singles"

definition op_setptrs :: "em8051 \<Rightarrow> em8051" where
  "op_setptrs c = mOp_update (fold (\<lambda>(opcode, h) table. table(opcode := h)) op_assignments) c"

subsection \<open>The switch dispatcher\<close>

definition op_row :: "u8 \<Rightarrow> opname \<Rightarrow> (u8 \<times> opname) list" where
  "op_row base h = map (\<lambda>i. (base + i, h)) [0, 1, 2, 3, 4, 5, 6, 7]"

definition do_op_cases :: "(u8 \<times> opname) list" where
  "do_op_cases =
    [(0x00, Jump op_nop), (0x01, Jump op_ajmp_offset), (0x02, Jump op_ljmp_address),
     (0x03, Logic op_rr_a), (0x04, Arith op_inc_a), (0x05, Arith op_inc_mem),
     (0x06, Arith op_inc_indir_rx), (0x07, Arith op_inc_indir_rx)] @
    op_row 0x08 (Arith op_inc_rx) @
    [(0x10, Jump op_jbc_bitaddr_offset), (0x11, Jump op_acall_offset),
     (0x12, Jump op_lcall_address), (0x13, Logic op_rrc_a), (0x14, Arith op_dec_a),
     (0x15, Arith op_dec_mem), (0x16, Arith op_dec_indir_rx), (0x17, Arith op_dec_indir_rx)] @
    op_row 0x18 (Arith op_dec_rx) @
    [(0x20, Jump op_jb_bitaddr_offset), (0x21, Jump op_ajmp_offset), (0x22, Jump op_ret),
     (0x23, Logic op_rl_a), (0x24, Arith op_add_a_imm), (0x25, Arith op_add_a_mem),
     (0x26, Arith op_add_a_indir_rx), (0x27, Arith op_add_a_indir_rx)] @
    op_row 0x28 (Arith op_add_a_rx) @
    [(0x30, Jump op_jnb_bitaddr_offset), (0x31, Jump op_acall_offset), (0x32, Jump op_reti),
     (0x33, Logic op_rlc_a), (0x34, Arith op_addc_a_imm), (0x35, Arith op_addc_a_mem),
     (0x36, Arith op_addc_a_indir_rx), (0x37, Arith op_addc_a_indir_rx)] @
    op_row 0x38 (Arith op_addc_a_rx) @
    [(0x40, Jump op_jc_offset), (0x41, Jump op_ajmp_offset), (0x42, Logic op_orl_mem_a),
     (0x43, Logic op_orl_mem_imm), (0x44, Logic op_orl_a_imm), (0x45, Logic op_orl_a_mem),
     (0x46, Logic op_orl_a_indir_rx), (0x47, Logic op_orl_a_indir_rx)] @
    op_row 0x48 (Logic op_orl_a_rx) @
    [(0x50, Jump op_jnc_offset), (0x51, Jump op_acall_offset), (0x52, Logic op_anl_mem_a),
     (0x53, Logic op_anl_mem_imm), (0x54, Logic op_anl_a_imm), (0x55, Logic op_anl_a_mem),
     (0x56, Logic op_anl_a_indir_rx), (0x57, Logic op_anl_a_indir_rx)] @
    op_row 0x58 (Logic op_anl_a_rx) @
    [(0x60, Jump op_jz_offset), (0x61, Jump op_ajmp_offset), (0x62, Logic op_xrl_mem_a),
     (0x63, Logic op_xrl_mem_imm), (0x64, Logic op_xrl_a_imm), (0x65, Logic op_xrl_a_mem),
     (0x66, Logic op_xrl_a_indir_rx), (0x67, Logic op_xrl_a_indir_rx)] @
    op_row 0x68 (Logic op_xrl_a_rx) @
    [(0x70, Jump op_jnz_offset), (0x71, Jump op_acall_offset), (0x72, Bit op_orl_c_bitaddr),
     (0x73, Jump op_jmp_indir_a_dptr), (0x74, Move op_mov_a_imm), (0x75, Move op_mov_mem_imm),
     (0x76, Move op_mov_indir_rx_imm), (0x77, Move op_mov_indir_rx_imm)] @
    op_row 0x78 (Move op_mov_rx_imm) @
    [(0x80, Jump op_sjmp_offset), (0x81, Jump op_ajmp_offset), (0x82, Bit op_anl_c_bitaddr),
     (0x83, Move op_movc_a_indir_a_pc), (0x84, Arith op_div_ab), (0x85, Move op_mov_mem_mem),
     (0x86, Move op_mov_mem_indir_rx), (0x87, Move op_mov_mem_indir_rx)] @
    op_row 0x88 (Move op_mov_mem_rx) @
    [(0x90, Move op_mov_dptr_imm), (0x91, Jump op_acall_offset), (0x92, Bit op_mov_bitaddr_c),
     (0x93, Move op_movc_a_indir_a_dptr), (0x94, Arith op_subb_a_imm),
     (0x95, Arith op_subb_a_mem), (0x96, Arith op_subb_a_indir_rx),
     (0x97, Arith op_subb_a_indir_rx)] @
    op_row 0x98 (Arith op_subb_a_rx) @
    [(0xA0, Bit op_orl_c_compl_bitaddr), (0xA1, Jump op_ajmp_offset),
     (0xA2, Bit op_mov_c_bitaddr), (0xA3, Arith op_inc_dptr), (0xA4, Arith op_mul_ab),
     (0xA5, Jump op_nop), (0xA6, Move op_mov_indir_rx_mem), (0xA7, Move op_mov_indir_rx_mem)] @
    op_row 0xA8 (Move op_mov_rx_mem) @
    [(0xB0, Bit op_anl_c_compl_bitaddr), (0xB1, Jump op_acall_offset),
     (0xB2, Bit op_cpl_bitaddr), (0xB3, Bit op_cpl_c), (0xB4, Jump op_cjne_a_imm_offset),
     (0xB5, Jump op_cjne_a_mem_offset), (0xB6, Jump op_cjne_indir_rx_imm_offset),
     (0xB7, Jump op_cjne_indir_rx_imm_offset)] @
    op_row 0xB8 (Jump op_cjne_rx_imm_offset) @
    [(0xC0, Move op_push_mem), (0xC1, Jump op_ajmp_offset), (0xC2, Bit op_clr_bitaddr),
     (0xC3, Bit op_clr_c), (0xC4, Logic op_swap_a), (0xC5, Move op_xch_a_mem),
     (0xC6, Move op_xch_a_indir_rx), (0xC7, Move op_xch_a_indir_rx)] @
    op_row 0xC8 (Move op_xch_a_rx) @
    [(0xD0, Move op_pop_mem), (0xD1, Jump op_acall_offset), (0xD2, Bit op_setb_bitaddr),
     (0xD3, Bit op_setb_c), (0xD4, Arith op_da_a), (0xD5, Jump op_djnz_mem_offset),
     (0xD6, Move op_xchd_a_indir_rx), (0xD7, Move op_xchd_a_indir_rx)] @
    op_row 0xD8 (Jump op_djnz_rx_offset) @
    [(0xE0, Move op_movx_a_indir_dptr), (0xE1, Jump op_ajmp_offset),
     (0xE2, Move op_movx_a_indir_rx), (0xE3, Move op_movx_a_indir_rx), (0xE4, Logic op_clr_a),
     (0xE5, Move op_mov_a_mem), (0xE6, Move op_mov_a_indir_rx), (0xE7, Move op_mov_a_indir_rx)] @
    op_row 0xE8 (Move op_mov_a_rx) @
    [(0xF0, Move op_movx_indir_dptr_a), (0xF1, Jump op_acall_offset),
     (0xF2, Move op_movx_indir_rx_a), (0xF3, Move op_movx_indir_rx_a), (0xF4, Logic op_cpl_a),
     (0xF5, Move op_mov_mem_a), (0xF6, Move op_mov_indir_rx_a), (0xF7, Move op_mov_indir_rx_a)] @
    op_row 0xF8 (Move op_mov_rx_a)"

definition do_op :: operation where
  "do_op E c =
     (case map_of do_op_cases (OPCODE c) of
        Some h \<Rightarrow> run_op h E c
      | None \<Rightarrow> (0, c))"

end
