(* ===== verification/Exec.thy ===== *)
theory Exec
  imports Cycle Dispatch
begin

text \<open>
  Instruction stepping and run control of \<^verbatim>\<open>core.c\<close>: \<open>tick\<close>, the loop that completes pending cycles,
  and \<open>run_control\<close> with its public entry points.  The outer loop of \<open>run_control\<close> may run forever
  for some callbacks, so it is a partial function whose value is \<open>None\<close> when it does not return.
\<close>

subsection \<open>One tick\<close>

definition parity_of :: "u8 \<Rightarrow> u8" where
  "parity_of a =
     (let v1 = a XOR drop_bit 4 a;
          v2 = v1 AND 0xf
      in ucast (drop_bit (unat v2) (0x6996 :: u16)) AND 1)"

definition update_parity :: "em8051 \<Rightarrow> em8051" where
  "update_parity c = psw_mod (\<lambda>p. (p AND NOT PSWMASK_P) OR (parity_of (ACC c) * PSWMASK_P)) c"

text \<open>Running one opcode through the handler table; the flag is the tick's \<open>ticked\<close>.\<close>

definition execute_opcode :: "em8051_callbacks \<Rightarrow> em8051 \<Rightarrow> bool \<times> em8051" where
  "execute_opcode E c =
     (let opcode = CODEMEM c (mPC c);
          c1 = c\<lparr>mTracePC := mPC c, mInInstruction := True\<rparr>;
          c2 = raw_note E EMU_RAW_BEGIN (mMachineCycleCount c1) (ucast (mPC c1)) (ucast opcode) 0 0 c1;
          c3 = em8051_trace_emit E EM8051_TRACE_INSTRUCTION (mPC c2) opcode c2
      in if em8051_execution_aborted E c3 then (False, c3\<lparr>mInInstruction := False\<rparr>)
         else
           let (delay, c4) = run_op (mOp c3 opcode) E c3;
               c5 = c4\<lparr>mTickDelay := delay, mInInstruction := False\<rparr>;
               c6 = raw_note E EMU_RAW_OPCODE_END (mMachineCycleCount c5) (ucast (mPC c5)) 0 0 0 c5
           in if em8051_execution_aborted E c6 then (False, c6)
              else
                let c7 = c6\<lparr>mInstructionCount := mInstructionCount c6 + 1\<rparr>
                in (True, if is_sab c7 \<and> mSABIrqInhibitInstructions c7 \<noteq> 0
                          then c7\<lparr>mSABIrqInhibitInstructions := mSABIrqInhibitInstructions c7 - 1\<rparr>
                          else c7))"

definition tick :: "em8051_callbacks \<Rightarrow> em8051 \<Rightarrow> bool \<times> em8051" where
  "tick E c =
     (if em8051_execution_aborted E c then (False, c)
      else if mTickDelay c \<noteq> 0 then
        (False, advance_machine_cycle E (c\<lparr>mTickDelay := mTickDelay c - 1\<rparr>))
      else if mSFR c REG_PCON AND 0x02 \<noteq> 0 then (False, c)
      else
        let (ok, c1) = handle_interrupts E c
        in if \<not> ok then (False, advance_machine_cycle E c1)
           else if em8051_execution_aborted E c1 then (False, c1)
           else if mTickDelay c1 = 0 then
             (if mSFR c1 REG_PCON AND 0x01 \<noteq> 0
              then (False, advance_machine_cycle E (update_parity c1))
              else
                let (ticked, c2) = execute_opcode E c1
                in if \<not> ticked then (False, c2)
                   else (True, advance_machine_cycle E (update_parity c2)))
           else (False, advance_machine_cycle E c1))"

subsection \<open>Run control\<close>

text \<open>
  A tick with pending cycles is one peripheral cycle and one pending cycle fewer, whatever the
  callbacks do: no code of the embedder that can change the CPU runs in it.
\<close>

lemma tick_pending:
  assumes "mTickDelay c \<noteq> 0" "\<not> em8051_execution_aborted E c"
  shows "tick E c = (False, advance_machine_cycle E (c\<lparr>mTickDelay := mTickDelay c - 1\<rparr>))"
  using assms by (simp add: tick_def)

function complete_cycles :: "em8051_callbacks \<Rightarrow> em8051 \<Rightarrow> em8051" where
  "complete_cycles E c =
     (if mTickDelay c \<noteq> 0 \<and> \<not> em8051_execution_aborted E c then complete_cycles E (snd (tick E c)) else c)"
  by pat_completeness auto
termination
  by (relation "measure (\<lambda>(E, c). unat (mTickDelay c))")
    (auto simp: tick_pending unat_sub_if_size word_le_nat_alt unat_gt_0 not_le)

declare complete_cycles.simps [simp del]

text \<open>The tests of the loop, in order; \<open>None\<close> means that another tick is taken.\<close>

definition run_stop :: "em8051_callbacks \<Rightarrow> bool \<Rightarrow> u16 \<Rightarrow> u64 \<Rightarrow> u64 \<Rightarrow> em8051 \<Rightarrow> em8051_stop_reason option" where
  "run_stop E aHasTarget aTargetPC aMaxInstructions start_instructions c =
     (if em8051_execution_aborted E c then Some EM8051_STOP_ABORTED
      else if mExceptionRaised c then Some EM8051_STOP_EXCEPTION
      else if aHasTarget \<and> mPC c = aTargetPC then Some EM8051_STOP_TARGET_PC
      else if mBreakpointEnabled c \<and> mPC c = mBreakpoint c then Some EM8051_STOP_BREAKPOINT
      else if mSFR c REG_PCON AND 0x03 \<noteq> 0 then Some EM8051_STOP_HALT
      else if mInstructionCount c - start_instructions \<ge> aMaxInstructions
      then Some EM8051_STOP_INSTRUCTION_LIMIT
      else None)"

partial_function (option) run_loop :: "em8051_callbacks \<Rightarrow> (em8051 \<Rightarrow> em8051_stop_reason option)
    \<Rightarrow> em8051 \<Rightarrow> (em8051_stop_reason \<times> em8051) option" where
  "run_loop E stop c =
     (let c1 = complete_cycles E c
      in case stop c1 of
           Some reason \<Rightarrow> Some (reason, c1)
         | None \<Rightarrow> run_loop E stop (snd (tick E c1)))"

declare run_loop.simps [code]

definition fill_run_result :: "em8051 \<Rightarrow> em8051_stop_reason \<Rightarrow> u64 \<Rightarrow> u64 \<Rightarrow> em8051_run_result" where
  "fill_run_result c aReason aStartInstructions aStartCycles =
     \<lparr>rr_reason = aReason,
      rr_instructions = mInstructionCount c - aStartInstructions,
      rr_machine_cycles = mMachineCycleCount c - aStartCycles,
      rr_pc = mPC c,
      rr_exception_code = (if mExceptionRaised c then mLastException c else -1)\<rparr>"

definition run_control :: "em8051_callbacks \<Rightarrow> bool \<Rightarrow> u16 \<Rightarrow> u64 \<Rightarrow> em8051
    \<Rightarrow> (em8051_run_result \<times> em8051) option" where
  "run_control E aHasTarget aTargetPC aMaxInstructions c =
     (let start_instructions = mInstructionCount c;
          start_cycles = mMachineCycleCount c;
          c0 = c\<lparr>mExceptionRaised := False, mLastException := -1\<rparr>
      in case run_loop E (run_stop E aHasTarget aTargetPC aMaxInstructions start_instructions) c0 of
           None \<Rightarrow> None
         | Some (reason, c1) \<Rightarrow>
             Some (fill_run_result c1 reason start_instructions start_cycles, c1))"

definition em8051_run :: "em8051_callbacks \<Rightarrow> u64 \<Rightarrow> em8051 \<Rightarrow> (em8051_run_result \<times> em8051) option" where
  "em8051_run E aMaxInstructions c = run_control E False 0 aMaxInstructions c"

definition em8051_step_instruction ::
    "em8051_callbacks \<Rightarrow> em8051 \<Rightarrow> (em8051_run_result \<times> em8051) option" where
  "em8051_step_instruction E c = em8051_run E 1 c"

definition em8051_run_until_pc ::
    "em8051_callbacks \<Rightarrow> u16 \<Rightarrow> u64 \<Rightarrow> em8051 \<Rightarrow> (em8051_run_result \<times> em8051) option" where
  "em8051_run_until_pc E aTargetPC aMaxInstructions c = run_control E True aTargetPC aMaxInstructions c"

definition em8051_set_breakpoint :: "u16 \<Rightarrow> bool \<Rightarrow> em8051 \<Rightarrow> em8051" where
  "em8051_set_breakpoint aPC aEnabled c = c\<lparr>mBreakpoint := aPC, mBreakpointEnabled := aEnabled\<rparr>"

subsection \<open>Invariants of the run loop\<close>

text \<open>What every tick keeps, a run keeps.\<close>

lemma complete_cycles_keeps:
  assumes "\<And>c. P c \<Longrightarrow> P (snd (tick E c))" "P c"
  shows "P (complete_cycles E c)"
  using assms
proof (induction E c rule: complete_cycles.induct)
  case (1 E c)
  then show ?case by (subst complete_cycles.simps) auto
qed

lemma complete_cycles_boundary: "mTickDelay (complete_cycles E c) = 0 \<or> em8051_execution_aborted E (complete_cycles E c)"
proof (induction E c rule: complete_cycles.induct)
  case (1 E c)
  then show ?case by (subst (1 2) complete_cycles.simps) auto
qed

lemma run_loop_ends:
  assumes "run_loop E stop c = Some rd"
  shows "(\<forall>P. (\<forall>c. P c \<longrightarrow> P (snd (tick E c))) \<longrightarrow> P c \<longrightarrow> P (snd rd)) \<and> stop (snd rd) = Some (fst rd) \<and>
    (mTickDelay (snd rd) = 0 \<or> em8051_execution_aborted E (snd rd))"
proof (induction rule: run_loop.raw_induct [OF _ assms])
  case (1 loop E stop c rd)
  let ?c = "complete_cycles E c"
  have keep: "\<forall>P. (\<forall>c. P c \<longrightarrow> P (snd (tick E c))) \<longrightarrow> P c \<longrightarrow> P ?c"
    using complete_cycles_keeps [where E = E and c = c] by blast
  show ?case
  proof (cases "stop ?c")
    case None
    then have "loop E stop (snd (tick E ?c)) = Some rd" using 1(2) by simp
    then show ?thesis using 1(1) keep by blast
  next
    case (Some r)
    then have "rd = (r, ?c)" using 1(2) by simp
    then show ?thesis using Some keep complete_cycles_boundary [of E c] by simp
  qed
qed

end
