(* ===== verification/OpFrame.thy ===== *)
theory OpFrame
  imports Dispatch
begin

text \<open>
  What instruction execution cannot touch.  The locale \<open>access_frame\<close> is the contract between the
  register and memory accesses of the opcode handlers and any part \<open>F\<close> of the CPU that their
  elementary updates leave alone: the registers and memory arrays are only ever updated inside their
  bounds, and beside them only the exception record, the arbitration inhibit, the peripherals'
  bookkeeping and the log.  \<open>op_frame\<close> adds the program counter and the external data; inside it
  every handler but \<open>RETI\<close> is shown to keep \<open>F\<close>, once for all such parts.
\<close>

lemma lower_mod_set: "lower_mod i f c = lower_set i (f (mLowerData c i)) c"
  by (cases c) (simp add: lower_set_def lower_mod_def)

locale access_frame =
  fixes E :: em8051_callbacks and F :: "em8051 \<Rightarrow> 'f"
  assumes F_sfr: "(\<And>i. 128 \<le> i \<Longrightarrow> s i = mSFR c i) \<Longrightarrow> F (mSFR_update (\<lambda>_. s) c) = F c"
    and F_lower: "i < 128 \<Longrightarrow> F (lower_set i v c) = F c"
    and F_owned: "i < 128 \<Longrightarrow> F (mOwnedUpperData_update (\<lambda>m. m(i := v)) c) = F c"
    and F_caller: "i < 128 \<Longrightarrow> F (mCallerUpperData_update (\<lambda>m. m(i := v)) c) = F c"
    and F_log: "F (mEvents_update g c) = F c"
    and F_raise: "F (c\<lparr>mExceptionRaised := True, mLastException := n\<rparr>) = F c"
    and F_inhibit: "F (mSABIrqInhibitInstructions_update h c) = F c"
    and F_lines: "F (mSABExternalSampledLevels_update h c) = F c" "F (mSABExternalLevelAsserted_update h c) = F c"
    and F_bitmaps: "F (mSABIrqPending_update k c) = F c" "F (mSABIrqEnabled_update k c) = F c"
    and F_adc: "F (mSABADCStartPending_update b c) = F c" "F (mSABADCArmRestart_update b c) = F c"
      "F (mSABADCArmed_update b c) = F c" "F (mSABADCActive_update b c) = F c" "F (mSABADCBusy_update b c) = F c"
      "F (mSABADCCycles_update h c) = F c" "F (mSABSfrWriteDepth_update k c) = F c"
    and F_uart: "F (mSABUartTxPendingData_update h c) = F c" "F (mSABUartTxPendingNinth_update b c) = F c"
      "F (mSABUartTxPending_update b c) = F c"
    and F_except: "except E = Some ex \<Longrightarrow> F (ex c n) = F c"
    and F_sfrread: "sfrread E j = Some rd \<Longrightarrow> F (snd (rd c a)) = F c"
    and F_sfrwrite: "sfrwrite E j = Some wr \<Longrightarrow> F (wr c a) = F c"
begin

lemma F_ext_rest:
  assumes "ext_rest a = ext_rest c" "\<And>i. 128 \<le> i \<Longrightarrow> mSFR a i = mSFR c i"
  shows "F a = F c"
proof -
  have "F (c\<lparr>mSFR := mSFR a, mSABExternalSampledLevels := mSABExternalSampledLevels a,
         mSABExternalLevelAsserted := mSABExternalLevelAsserted a, mSABIrqPending := mSABIrqPending a,
         mSABIrqEnabled := mSABIrqEnabled a, mEvents := mEvents a\<rparr>) = F c"
    using assms(2) by (simp only: F_log F_bitmaps F_lines F_sfr)
  with ext_rest_recover [OF assms(1)] show ?thesis by simp
qed

lemma F_sfr_set [simp]: "i < 128 \<Longrightarrow> F (sfr_set i v c) = F c"
  by (rule F_ext_rest) simp_all

lemma F_sfr_mod [simp]: "i < 128 \<Longrightarrow> F (sfr_mod i f c) = F c"
  by (rule F_ext_rest) simp_all

lemma F_lower_set [simp]: "i < 128 \<Longrightarrow> F (lower_set i v c) = F c"
  by (rule F_lower)

lemma F_lower_mod [simp]: "i < 128 \<Longrightarrow> F (lower_mod i f c) = F c"
  by (simp add: lower_mod_set)

lemmas F_updates [simp] = F_log F_inhibit F_adc F_uart

lemma F_notes [simp]:
  "F (raw_note E' k' cy a' b' d' e' c) = F c" "F (emit ins ev c) = F c" "F (em8051_trace_emit E' t ad v c) = F c"
  "F (sab_irq_trace_emit E' ie so p bo nn c) = F c" "F (movx_context_emit E' cx v c) = F c"
  by (simp_all add: emit_defs)

lemma F_operand [simp]: "F (snd (emu_cpu_operand E' off c)) = F c"
  by (simp add: emu_cpu_operand_def Let_def)

lemma F_raw [simp]: "F (snd (emu_cpu_raw E' k' cy a' b' d' e' c)) = F c"
  by simp

lemma F_irq_write [simp]: "i < 128 \<Longrightarrow> F (emu_cpu_irq_write E' i v cy c) = F c"
  by (rule F_ext_rest) simp_all

lemma F_sync [simp]: "F (sab_irq_sync E' c) = F c"
  by (rule F_ext_rest) (simp_all add: ext_rest_sab_irq_sync)

lemma F_sample_port [simp]: "F (sab_external_sample_port E' p c) = F c"
  by (rule F_ext_rest) (simp_all add: ext_rest_sample_port)

lemma F_raise_exception [simp]: "F (em8051_raise_exception E n c) = F c"
  by (simp add: em8051_raise_exception_def Let_def F_except F_raise split: option.split)

subsection \<open>Register access and memory\<close>

lemma index_bound [simp]: "\<not> a < 0x80 \<Longrightarrow> unat (a - 0x80) < 128" "0x7f < a \<Longrightarrow> unat (a - 0x80) < 128" for a :: u8
  using unat_u8 [of a] by (simp_all add: unat_sub_if_size word_le_nat_alt word_less_nat_alt)

lemma F_sfr_read [simp]: "F (snd (em8051_sfr_read E a c)) = F c"
  by (simp add: em8051_sfr_read_def Let_def F_sfrread split: option.split)

lemma F_sfr_rmw_read [simp]: "F (snd (em8051_sfr_rmw_read E a c)) = F c"
  by (simp add: em8051_sfr_rmw_read_def split: option.split)

lemma F_call_sfrwrite [simp]: "F (call_sfrwrite E j a c) = F c"
  by (simp add: call_sfrwrite_def F_sfrwrite split: option.split)

lemma F_set_busy [simp]: "F (sab_adc_set_busy b c) = F c"
  by (simp add: sab_adc_set_busy_def)

lemma F_finish [simp]: "F (sab_adc_finish_sfr_transaction c) = F c"
  by (simp add: sab_adc_finish_sfr_transaction_def Let_def)

lemma F_request_start [simp]: "F (sab_adc_request_start c) = F c"
  by (simp add: sab_adc_request_start_def Let_def)

lemma F_arm_inhibit [simp]: "F (sab_irq_arm_inhibit c) = F c"
  by (simp add: sab_irq_arm_inhibit_def)

lemma F_sbuf_write [simp]: "F (sab_uart_sbuf_write E v c) = F c"
  by (simp add: sab_uart_sbuf_write_def Let_def)

lemma F_write_sbuf [simp]: "F (sfr_write_sbuf E a v c) = F c"
  by (simp add: sfr_write_sbuf_def Let_def split_beta)

lemma F_sfr_write [simp]: "F (em8051_sfr_write E a v c) = F c"
  by (simp add: em8051_sfr_write_def Let_def)

lemma F_read_mem [simp]: "F (snd (read_mem E a c)) = F c"
  by (simp add: read_mem_def)

lemma F_read_mem_rmw [simp]: "F (snd (read_mem_rmw E a c)) = F c"
  by (simp add: read_mem_rmw_def Let_def split_beta)

lemma lower_bound [simp]: "\<not> 0x7f < a \<Longrightarrow> unat a < 128" for a :: u8
  by (simp add: word_less_nat_alt)

lemma F_write_mem [simp]: "F (write_mem E a v c) = F c"
  by (simp add: write_mem_def)

lemma F_write_mem_indir [simp]: "F (write_mem_indir a v c) = F c"
  by (simp add: write_mem_indir_def F_owned F_caller split: upper_ptr.split)

lemma F_push [simp]: "F (snd (push_to_stack E v c)) = F c"
  by (simp add: push_to_stack_def Let_def)

lemma F_pop [simp]: "F (snd (pop_from_stack E c)) = F c"
  by (simp add: pop_from_stack_def Let_def)

subsection \<open>Steps the handlers share\<close>

lemma F_flags [simp]:
  "F (acc_set v c) = F c" "F (acc_mod f c) = F c" "F (psw_mod f c) = F c" "F (psw_carry b c) = F c"
  "F (add_solve_flags a b' cy c) = F c" "F (sub_solve_flags a b' cy c) = F c"
  by (simp_all add: reg_defs add_solve_flags_def sub_solve_flags_def Let_def)

lemma byte_and_bounds:
  "unat (a AND 7) \<le> 7" "unat (a AND 1) \<le> 1" "unat (drop_bit 3 (a AND 0x18)) \<le> 3" "unat (drop_bit 3 a) < 32"
  for a :: u8
proof -
  show "unat (a AND 7) \<le> 7" "unat (a AND 1) \<le> 1"
    using word_and_le1 [of a 7] word_and_le1 [of a 1] by (simp_all add: word_le_nat_alt)
  have "unat (a AND 0x18) \<le> 0x18" using word_and_le1 [of a "0x18"] by (simp add: word_le_nat_alt)
  then show "unat (drop_bit 3 (a AND 0x18)) \<le> 3" by (simp add: unat_drop_bit_eq drop_bit_eq_div unat_div)
  show "unat (drop_bit 3 a) < 32" using unat_u8 [of a] by (simp add: unat_drop_bit_eq drop_bit_eq_div unat_div)
qed

lemma rx_address_bound [simp]: "RX_ADDRESS c < 128"
proof -
  have b: "unat (PSW_BANK c) \<le> 3" using byte_and_bounds(3) [of "PSW c"] by (simp add: PSW_BANK_def)
  have m: "unat (8 * PSW_BANK c) = 8 * unat (PSW_BANK c)" using b unat_mult_ok [of "8 :: u8" "PSW_BANK c"] by simp
  have "unat ((OPCODE c AND 7) + 8 * PSW_BANK c) = unat (OPCODE c AND 7) + 8 * unat (PSW_BANK c)"
    using b byte_and_bounds(1) [of "OPCODE c"] unat_add_ok [of "OPCODE c AND 7" "8 * PSW_BANK c"] by (simp add: m)
  then show ?thesis using b byte_and_bounds(1) [of "OPCODE c"] by (simp add: RX_ADDRESS_def)
qed

lemma bit_byte_bound [simp]: "bit_byte a < 128"
  using byte_and_bounds(4) [of a] unat_add_ok [of "drop_bit 3 a" "0x20"] by (simp add: bit_byte_def)

lemma F_bit_read [simp]: "F (snd (bit_read E a c)) = F c"
  by (simp add: bit_read_def Let_def split_beta)

lemma F_bit_modify [simp]: "F (snd (bit_modify E a f c)) = F c"
  by (simp add: bit_modify_def Let_def)

lemma F_direct_rmw [simp]: "F (direct_rmw E a f c) = F c"
  by (simp add: direct_rmw_def split_beta)

end

text \<open>A part of the CPU that is apart from the program counter and the external data as well.\<close>

locale op_frame = access_frame E F for E and F :: "em8051 \<Rightarrow> 'f" +
  assumes F_ext: "F (extdata_set x v c) = F c"
    and F_pc: "F (mPC_update f c) = F c"
    and F_xread: "xread E = Some xr \<Longrightarrow> F (snd (xr c x)) = F c"
    and F_xwrite: "xwrite E = Some xw \<Longrightarrow> F (xw c x v) = F c"
begin

lemmas F_code_updates [simp] = F_pc F_ext

lemma F_regs [simp]:
  "F (acc_set v c) = F c" "F (acc_mod f c) = F c" "F (psw_mod f c) = F c" "F (psw_carry b c) = F c"
  "F (pc_add m c) = F c" "F (pc_set m c) = F c"
  "F (add_solve_flags a b' cy c) = F c" "F (sub_solve_flags a b' cy c) = F c"
  by (simp_all add: reg_defs add_solve_flags_def sub_solve_flags_def Let_def)

lemma F_branch [simp]: "F (branch E t m c) = F c"
  by (simp add: branch_def Let_def split_beta)

lemma F_unless_aborted: "(\<And>d. F d = F c \<Longrightarrow> F (snd (k d)) = F c) \<Longrightarrow> F d = F c \<Longrightarrow> F (snd (unless_aborted E k d)) = F c"
  by (simp add: unless_aborted_def)

lemma F_unless [simp]:
  "F (snd (unless_aborted E (\<lambda>c. (n, pc_add m c)) d)) = F d"
  "F (snd (unless_aborted E (\<lambda>c. (n, pc_add m (acc_set v c))) d)) = F d"
  "F (snd (unless_aborted E (\<lambda>c. (n, branch E t m c)) d)) = F d"
  by (simp_all add: unless_aborted_def)

subsection \<open>The handlers\<close>

lemma F_arith [simp]: "F (snd (run_arith_op h E c)) = F c"
  by (cases h) (simp_all add: arith_op_defs Let_def split_beta)

lemma F_logic [simp]: "F (snd (run_logic_op h E c)) = F c"
  by (cases h) (simp_all add: logic_op_defs Let_def split_beta)

lemma F_bit [simp]: "F (snd (run_bit_op h E c)) = F c"
  by (cases h) (simp_all add: bit_op_defs Let_def split_beta)

lemma F_movx_report [simp]: "F (snd (movx_report E cx v t a c)) = F c"
  by (simp add: movx_report_def Let_def)

lemma F_movx_read [simp]: "F (snd (movx_read E a c)) = F c"
  by (auto simp: movx_read_def Let_def split_beta unless_aborted_def F_xread split: option.split)

lemma F_movx_write [simp]: "F (snd (movx_write E a c)) = F c"
  by (auto simp: movx_write_def Let_def unless_aborted_def F_xwrite split: option.split)

lemma F_pop_mem [simp]: "F (snd (pop_mem E c)) = F c"
proof -
  obtain r d where "pop_from_stack E (snd (OPERAND1 E c)) = (r, d)" by fastforce
  moreover from this have "F d = F c" using F_pop [of "snd (OPERAND1 E c)"] by simp
  ultimately show ?thesis by (simp add: pop_mem_def split_beta split: option.split)
qed

lemma F_move [simp]: "F (snd (run_move_op h E c)) = F c"
  by (cases h) (simp_all add: move_op_defs Let_def split_beta del: pop_mem_def)

lemma F_context_preflight [simp]: "F (snd (context_preflight E c)) = F c"
  by (simp add: context_preflight_def Let_def split_beta split: option.split)

lemma F_push_return [simp]: "F (snd (push_return E n c)) = F c"
  by (simp add: push_return_def Let_def split_beta)

lemma F_call_note [simp]: "F (call_note E t n c) = F c" "F (return_note E k' c) = F c"
  by (simp_all add: call_note_def return_note_def)

lemma F_pop_return [simp]: "F (snd (pop_return E c)) = F c"
proof -
  obtain r d where p: "pop_from_stack E c = (r, d)" by fastforce
  obtain r' d' where p': "pop_from_stack E d = (r', d')" by fastforce
  have "F d = F c" "F d' = F d" using F_pop [of c] F_pop [of d] p p' by simp_all
  then show ?thesis by (simp add: pop_return_def p p' split: option.split)
qed

lemma F_ret [simp]: "F (snd (ret E c)) = F c"
proof -
  obtain r d where p: "pop_return E c = (r, d)" by fastforce
  then have "F d = F c" using F_pop_return [of c] by simp
  then show ?thesis by (simp add: ret_def p split: option.split)
qed

lemma F_compare_branch [simp]: "F (snd (compare_branch E a b' c)) = F c"
  by (simp add: compare_branch_def Let_def)

lemma F_jump: "h \<noteq> op_reti \<Longrightarrow> F (snd (run_jump_op h E c)) = F c"
  by (cases h) (simp_all add: jump_op_defs Let_def split_beta del: ret_def)

lemma F_run_op: "op \<noteq> Jump op_reti \<Longrightarrow> F (snd (run_op op E c)) = F c"
  by (cases op) (simp_all add: F_jump)

end

end
