(* ===== verification/ServiceFrame.thy ===== *)
theory ServiceFrame
  imports OpFrame
begin

text \<open>
  What instruction execution and interrupt entry together cannot touch: the contract \<open>op_frame\<close>
  extended by the controllers' own state, whose arrays are only updated inside their bounds.  With
  it \<open>RETI\<close> and both controllers keep \<open>F\<close> as well.
\<close>

locale service_frame = op_frame E F for E and F :: "em8051 \<Rightarrow> 'f" +
  assumes F_depth: "F (mSABIrqDepth_update h c) = F c"
    and F_in_service: "F (mSABIrqInService_update k c) = F c"
    and F_irq_stacks: "(\<And>i. 4 \<le> i \<Longrightarrow> s i = mSABIrqSourceStack c i) \<Longrightarrow> F (mSABIrqSourceStack_update (\<lambda>_. s) c) = F c"
      "(\<And>i. 4 \<le> i \<Longrightarrow> s i = mSABIrqPriorityStack c i) \<Longrightarrow> F (mSABIrqPriorityStack_update (\<lambda>_. s) c) = F c"
      "(\<And>i. 4 \<le> i \<Longrightarrow> s i = mSABIrqSavedACC c i) \<Longrightarrow> F (mSABIrqSavedACC_update (\<lambda>_. s) c) = F c"
      "(\<And>i. 4 \<le> i \<Longrightarrow> s i = mSABIrqSavedPSW c i) \<Longrightarrow> F (mSABIrqSavedPSW_update (\<lambda>_. s) c) = F c"
      "(\<And>i. 4 \<le> i \<Longrightarrow> s i = mSABIrqSavedSP c i) \<Longrightarrow> F (mSABIrqSavedSP_update (\<lambda>_. s) c) = F c"
    and F_active: "F (mInterruptActive_update h c) = F c"
    and F_classic_saved: "(\<And>i. 2 \<le> i \<Longrightarrow> s i = int_a c i) \<Longrightarrow> F (int_a_update (\<lambda>_. s) c) = F c"
      "(\<And>i. 2 \<le> i \<Longrightarrow> s i = int_psw c i) \<Longrightarrow> F (int_psw_update (\<lambda>_. s) c) = F c"
      "(\<And>i. 2 \<le> i \<Longrightarrow> s i = int_sp c i) \<Longrightarrow> F (int_sp_update (\<lambda>_. s) c) = F c"
    and F_delay: "F (mTickDelay_update h c) = F c"
    and F_trigger: "F (serial_interrupt_trigger_update b c) = F c"
begin

lemmas F_service_updates [simp] = F_depth F_in_service F_active F_delay F_trigger

lemma F_iret_checks [simp]: "F (snd (iret_checks E a s p sp c)) = F c"
  by (simp add: iret_checks_def Let_def)

lemma F_sab_reti [simp]: "F (em8051_sab_irq_reti E sp c) = F c"
  by (simp add: em8051_sab_irq_reti_def Let_def split_beta)

lemma F_classic_reti [simp]: "F (snd (classic_reti E sp c)) = F c"
  by (simp add: classic_reti_def Let_def split_beta)

lemma F_reti [simp]: "F (snd (reti E c)) = F c"
proof -
  obtain r d where p: "pop_return E c = (r, d)" by fastforce
  then have "F d = F c" using F_pop_return [of c] by simp
  then show ?thesis by (simp add: reti_def p Let_def split_beta split: option.split)
qed

lemma F_any_op [simp]: "F (snd (run_op op E c)) = F c"
  using F_run_op by (cases "op = Jump op_reti") simp_all

lemma F_auto_clear [simp]: "F (sab_irq_auto_clear s c) = F c"
  by (cases s) simp_all

lemma F_enter:
  assumes "d < 4"
  shows "F (sab_irq_enter E d s p ps pc sp c) = F c"
proof -
  have "unat d < 4" using assms by (simp add: word_less_nat_alt)
  then show ?thesis
    by (simp add: sab_irq_enter_def Let_def F_irq_stacks)
qed

lemma F_handle_sab [simp]: "F (snd (handle_sab_interrupts E c)) = F c"
proof -
  have "F (sab_irq_enter E (mSABIrqDepth c) s p ps pc sp x) = F x" if "\<not> 4 \<le> mSABIrqDepth c" for s p ps pc sp x
    using F_enter that by (simp add: not_le)
  then show ?thesis
    by (simp add: handle_sab_interrupts_def Let_def split_beta split: option.split)
qed

lemma F_classic_enter [simp]: "F (classic_enter d h c) = F c"
  by (simp add: classic_enter_def Let_def F_classic_saved)

lemma F_handle_classic [simp]: "F (snd (handle_classic_interrupts E c)) = F c"
  by (simp add: handle_classic_interrupts_def Let_def split_beta split: option.split)

lemma F_handle_interrupts [simp]: "F (snd (handle_interrupts E c)) = F c"
  by (simp add: handle_interrupts_def)

end

end
