(* ===== verification/RunControl.thy ===== *)
theory RunControl
  imports Exec ServiceFrame
begin

text \<open>
  Runs end.  A tick at a cycle boundary executes an instruction, enters an interrupt service or
  raises an exception; the number of entries in a row is bounded by the interrupt levels left, so
  the loop of \<open>run_control\<close> returns whenever the callbacks respect the counters it depends on.
\<close>

subsection \<open>What a run depends on\<close>

definition run_part :: "em8051 \<Rightarrow> em8051_variant \<times> u64 \<times> u8 \<times> u8" where
  "run_part c = (mVariant c, mInstructionCount c, mSABIrqDepth c, mInterruptActive c)"

text \<open>
  The contract of the embedder's callbacks for a run to end: they leave the variant, the instruction
  counter and the interrupt levels alone, and the exception callback does not withdraw the
  exception.
\<close>

definition keeps_run :: "em8051_callbacks \<Rightarrow> bool" where
  "keeps_run E \<longleftrightarrow>
     (\<forall>f c n. except E = Some f \<longrightarrow> run_part (f c n) = run_part c \<and> mExceptionRaised (f c n) = mExceptionRaised c) \<and>
     (\<forall>f i c a. sfrread E i = Some f \<longrightarrow> run_part (snd (f c a)) = run_part c) \<and>
     (\<forall>f i c a. sfrwrite E i = Some f \<longrightarrow> run_part (f c a) = run_part c) \<and>
     (\<forall>f c x. xread E = Some f \<longrightarrow> run_part (snd (f c x)) = run_part c) \<and>
     (\<forall>f c x v. xwrite E = Some f \<longrightarrow> run_part (f c x v) = run_part c)"

lemma keeps_run_frame: "keeps_run E \<Longrightarrow> op_frame E run_part"
  by unfold_locales
    (auto simp: run_part_def lower_set_def extdata_set_def keeps_run_def split: option.split)

lemmas keeps_run_access = op_frame.axioms(1) [OF keeps_run_frame]

lemma keeps_run_count_frame: "keeps_run E \<Longrightarrow> service_frame E mInstructionCount"
  by unfold_locales
    (auto simp: run_part_def lower_set_def extdata_set_def keeps_run_def split: option.split)

lemma null_keeps_run: "keeps_run null_callbacks"
  by (simp add: keeps_run_def)

interpretation null_run: op_frame null_callbacks run_part
  by (rule keeps_run_frame [OF null_keeps_run])

interpretation null_count: service_frame null_callbacks mInstructionCount
  by (rule keeps_run_count_frame [OF null_keeps_run])

lemma run_partD:
  "run_part a = run_part b \<Longrightarrow> mVariant a = mVariant b \<and> mInstructionCount a = mInstructionCount b \<and>
     mSABIrqDepth a = mSABIrqDepth b \<and> mInterruptActive a = mInterruptActive b"
  by (simp add: run_part_def)

text \<open>How many more interrupt entries can follow one another with no instruction between them.\<close>

definition irq_room :: "em8051 \<Rightarrow> nat" where
  "irq_room c =
     (if is_sab c then 4 - unat (mSABIrqDepth c)
      else if mInterruptActive c = 0 then 2 else if mInterruptActive c = 1 then 1 else 0)"

lemma irq_room_cong: "run_part a = run_part b \<Longrightarrow> irq_room a = irq_room b"
  by (simp add: run_part_def irq_room_def)

subsection \<open>The three outcomes of a tick\<close>

lemma run_op_count: "keeps_run E \<Longrightarrow> mInstructionCount (snd (run_op op E c)) = mInstructionCount c"
  by (rule service_frame.F_any_op [OF keeps_run_count_frame])

lemma execute_count:
  assumes E: "keeps_run E" and ab: "execution_abort E = None"
  shows "fst (execute_opcode E c)" "mInstructionCount (snd (execute_opcode E c)) = mInstructionCount c + 1"
  using ab by (simp_all add: execute_opcode_def Let_def split_beta em8051_execution_aborted_def run_op_count [OF E])

lemma failed_push:
  assumes "keeps_run E" "\<not> fst (push_to_stack E v c)"
  shows "mExceptionRaised (snd (push_to_stack E v c))"
proof (cases "push_ok c")
  case True
  then show ?thesis using assms(2) by (simp add: push_value)
next
  case False
  then show ?thesis
    using push_error [of c E v] assms(1)
    by (auto simp: em8051_raise_exception_def Let_def keeps_run_def split: option.splits)
qed

text \<open>
  Polling for interrupts ends in one of three ways: nothing is accepted and the CPU keeps its
  registers, a service is entered and uses up one level, or the stack is exhausted.
\<close>

definition poll_outcome :: "em8051 \<Rightarrow> bool \<times> em8051 \<Rightarrow> bool" where
  "poll_outcome c r \<longleftrightarrow>
     (if fst r then
        run_part (snd r) = run_part c \<and> mTickDelay (snd r) = mTickDelay c \<and> mSFR (snd r) REG_PCON = mSFR c REG_PCON \<or>
        mTickDelay (snd r) = 1 \<and> mInstructionCount (snd r) = mInstructionCount c \<and> irq_room (snd r) < irq_room c
      else run_part (snd r) = run_part c \<and> mExceptionRaised (snd r))"

lemma sab_enter_room:
  assumes "run_part x = run_part c" "is_sab c" "mSABIrqDepth c < 4"
  shows "irq_room (sab_irq_enter E (mSABIrqDepth c) s p ps pc sp x) < irq_room c \<and>
    mInstructionCount (sab_irq_enter E (mSABIrqDepth c) s p ps pc sp x) = mInstructionCount c \<and>
    mTickDelay (sab_irq_enter E (mSABIrqDepth c) s p ps pc sp x) = 1"
proof -
  have clr: "mVariant (sab_irq_auto_clear s y) = mVariant y" "mInstructionCount (sab_irq_auto_clear s y) = mInstructionCount y"
    "mSABIrqDepth (sab_irq_auto_clear s y) = mSABIrqDepth y" "mTickDelay (sab_irq_auto_clear s y) = mTickDelay y" for y
    by (cases s; simp)+
  have "unat (mSABIrqDepth c + 1) = Suc (unat (mSABIrqDepth c))"
    using assms(3) unat_add_ok [of "mSABIrqDepth c" 1] by (simp add: word_less_nat_alt)
  then show ?thesis
    using run_partD [OF assms(1)] assms(2,3)
    by (simp add: sab_irq_enter_def Let_def clr irq_room_def word_less_nat_alt)
qed

lemma handle_sab_outcome:
  assumes E: "keeps_run E" and ob: "mObservation E = None" and sab: "is_sab c"
  shows "poll_outcome c (handle_sab_interrupts E c)"
proof -
  define c0 where "c0 = sab_irq_sync E c"
  have c0: "run_part c0 = run_part c" "mTickDelay c0 = mTickDelay c" "mSFR c0 REG_PCON = mSFR c REG_PCON"
    "is_sab c0" "mSABIrqDepth c0 = mSABIrqDepth c"
    using sab by (simp_all add: c0_def run_part_def)
  note push = access_frame.F_push [OF keeps_run_access [OF E]]
  define p1 where "p1 = push_to_stack E (ucast (mPC c0 AND 0xff)) c0"
  define p2 where "p2 = push_to_stack E (ucast (drop_bit 8 (mPC (snd p1)))) (snd p1)"
  have p: "run_part (snd p1) = run_part c0" "run_part (snd p2) = run_part c0"
    by (simp_all add: p1_def p2_def push)
  have f: "\<not> fst p1 \<Longrightarrow> mExceptionRaised (snd p1)" "\<not> fst p2 \<Longrightarrow> mExceptionRaised (snd p2)"
    using failed_push [OF E] by (simp_all add: p1_def p2_def)
  have room: "irq_room c0 = irq_room c" "mInstructionCount c0 = mInstructionCount c"
    using irq_room_cong [OF c0(1)] run_partD [OF c0(1)] by simp_all
  show ?thesis
    using ob p f c0 sab_enter_room [OF p(2) c0(4)] room
    by (simp add: handle_sab_interrupts_def Let_def split_beta poll_outcome_def not_le
        flip: c0_def p1_def p2_def split: option.split)
qed

lemma handle_classic_outcome:
  assumes E: "keeps_run E" and cl: "\<not> is_sab c"
  shows "poll_outcome c (handle_classic_interrupts E c)"
proof -
  note push = access_frame.F_push [OF keeps_run_access [OF E]]
  define p1 where "p1 = push_to_stack E (ucast (mPC c AND 0xff)) c"
  define p2 where "p2 = push_to_stack E (ucast (drop_bit 8 (mPC (snd p1)))) (snd p1)"
  have p: "run_part (snd p1) = run_part c" "run_part (snd p2) = run_part c"
    by (simp_all add: p1_def p2_def push)
  have f: "\<not> fst p1 \<Longrightarrow> mExceptionRaised (snd p1)" "\<not> fst p2 \<Longrightarrow> mExceptionRaised (snd p2)"
    using failed_push [OF E] by (simp_all add: p1_def p2_def)
  have enter: "mTickDelay (classic_enter d hi x) = 1" "mInstructionCount (classic_enter d hi x) = mInstructionCount x"
    "mVariant (classic_enter d hi x) = mVariant x"
    "mInterruptActive (classic_enter d hi x) = (if hi then mInterruptActive x OR 2 else 1)" for d hi x
    by (simp_all add: classic_enter_def Let_def)
  have small: "mInterruptActive c = 0 \<or> mInterruptActive c = 1" if "\<not> 1 < mInterruptActive c"
    using that by (auto simp: word_less_nat_alt word_unat_eq_iff)
  have "irq_room (classic_enter d hi (snd p2)) < irq_room c"
    if "\<not> 1 < mInterruptActive c" "\<not> (mInterruptActive c = 1 \<and> \<not> hi)" for d hi
    using small [OF that(1)] that(2) cl run_partD [OF p(2)] by (auto simp: irq_room_def enter)
  then show ?thesis
    using p f enter run_partD [OF p(2)]
    by (auto simp: handle_classic_interrupts_def Let_def split_beta poll_outcome_def
        simp flip: p1_def p2_def split: option.split)
qed


lemma tick_progress:
  assumes E: "keeps_run E" and ab: "execution_abort E = None" and ob: "mObservation E = None"
    and z: "mTickDelay c = 0" and run: "mSFR c REG_PCON AND 0x03 = 0"
  shows "mInstructionCount (snd (tick E c)) = mInstructionCount c + 1 \<or>
    mInstructionCount (snd (tick E c)) = mInstructionCount c \<and>
      (irq_room (snd (tick E c)) < irq_room c \<or> mExceptionRaised (snd (tick E c)))"
proof -
  have "mSFR c REG_PCON AND 0x02 = (mSFR c REG_PCON AND 0x03) AND 0x02"
    "mSFR c REG_PCON AND 0x01 = (mSFR c REG_PCON AND 0x03) AND 0x01" by (simp_all add: and.assoc)
  then have pcon: "mSFR c REG_PCON AND 0x02 = 0" "mSFR c REG_PCON AND 0x01 = 0" unfolding run by simp_all
  have cyc: "mInstructionCount (advance_machine_cycle E x) = mInstructionCount x"
    "irq_room (advance_machine_cycle E x) = irq_room x" "mExceptionRaised (advance_machine_cycle E x) = mExceptionRaised x" for x
    by (simp_all add: irq_room_def)
  have par: "mInstructionCount (update_parity x) = mInstructionCount x" for x
    by (simp add: update_parity_def psw_mod_def)
  define h where "h = handle_interrupts E c"
  have h: "poll_outcome c h"
    using handle_sab_outcome [OF E ob] handle_classic_outcome [OF E] by (simp add: h_def handle_interrupts_def)
  show ?thesis
    using h ab z pcon execute_count [OF E ab, of "snd h"] run_partD [of "snd h" c]
    by (auto simp: tick_def Let_def split_beta em8051_execution_aborted_def poll_outcome_def cyc par
        simp flip: h_def split: if_splits)
qed


subsection \<open>Every run ends\<close>

lemma complete_cycles_part:
  "cpu_part ((complete_cycles E c)\<lparr>mTickDelay := 0\<rparr>) = cpu_part (c\<lparr>mTickDelay := 0\<rparr>)"
proof (induction E c rule: complete_cycles.induct)
  case (1 E c)
  have z: "cpu_part (mTickDelay_update (\<lambda>_. 0) x) = mTickDelay_update (\<lambda>_. 0) (cpu_part x)" for x
    by (simp add: cpu_part_def)
  show ?case
  proof (cases "mTickDelay c \<noteq> 0 \<and> \<not> em8051_execution_aborted E c")
    case True
    then have "complete_cycles E c = complete_cycles E (snd (tick E c))" by (subst complete_cycles.simps) simp
    moreover have "cpu_part ((snd (tick E c))\<lparr>mTickDelay := 0\<rparr>) = cpu_part (c\<lparr>mTickDelay := 0\<rparr>)"
      unfolding z using True by (simp add: tick_pending) (simp add: cpu_part_def)
    ultimately show ?thesis using 1 True by simp
  next
    case False
    then show ?thesis by (subst complete_cycles.simps) auto
  qed
qed

lemmas complete_cycles_fields [simp] = cpu_partD [OF complete_cycles_part, simplified]


lemma irq_room_le: "irq_room c \<le> 4"
  by (simp add: irq_room_def)

lemma irq_room_complete [simp]: "irq_room (complete_cycles E c) = irq_room c"
  by (simp add: irq_room_def)

definition executed :: "u64 \<Rightarrow> em8051 \<Rightarrow> nat" where
  "executed start c = unat (mInstructionCount c - start)"

lemma executed_complete [simp]: "executed start (complete_cycles E c) = executed start c"
  by (simp add: executed_def)

lemma executed_inc:
  assumes "executed start c < unat (m :: u64)" "mInstructionCount d = mInstructionCount c + 1"
  shows "executed start d = Suc (executed start c)"
proof -
  define n where "n = mInstructionCount c - start"
  have d: "mInstructionCount d - start = n + 1" using assms(2) by (simp add: n_def algebra_simps)
  have "unat m < 2 ^ 64" using unat_lt [of m] by simp
  then have "unat n + 1 < 2 ^ 64" using assms(1) unfolding executed_def n_def [symmetric] by linarith
  then show ?thesis
    using unat_add_ok [of n 1] unfolding executed_def d n_def [symmetric] by simp
qed

lemma run_loop_returns:
  assumes E: "keeps_run E" and ab: "execution_abort E = None" and ob: "mObservation E = None"
    and le: "executed start c \<le> unat m"
  shows "\<exists>rd. run_loop E (run_stop E h t m start) c = Some rd \<and> executed start (snd rd) \<le> unat m"
  using le
proof (induction "(unat m - executed start c) * 5 + irq_room c" arbitrary: c rule: less_induct)
  case less
  let ?stop = "run_stop E h t m start" and ?c = "complete_cycles E c"
  have z: "mTickDelay ?c = 0"
    using complete_cycles_boundary [of E c] ab by (simp add: em8051_execution_aborted_def)
  show ?case
  proof (cases "?stop ?c")
    case (Some r)
    then show ?thesis using less.prems by (subst run_loop.simps) (simp add: Let_def)
  next
    case None
    let ?d = "snd (tick E ?c)"
    have step: "run_loop E ?stop c = run_loop E ?stop ?d" using None by (subst run_loop.simps) (simp add: Let_def)
    have run: "mSFR ?c REG_PCON AND 0x03 = 0" and lt: "executed start ?c < unat m"
      using None by (simp_all add: run_stop_def executed_def word_le_nat_alt split: if_splits)
    from tick_progress [OF E ab ob z run]
    consider (ran) "mInstructionCount ?d = mInstructionCount ?c + 1"
      | (entered) "mInstructionCount ?d = mInstructionCount ?c" "irq_room ?d < irq_room ?c"
      | (raised) "mInstructionCount ?d = mInstructionCount ?c" "mExceptionRaised ?d" by blast
    then show ?thesis
    proof cases
      case ran
      then have "executed start ?d = Suc (executed start c)" using executed_inc [OF lt] by simp
      then show ?thesis
        unfolding step using less.hyps [of ?d] lt irq_room_le [of ?d] by simp
    next
      case entered
      then have "executed start ?d = executed start c" by (simp add: executed_def)
      then show ?thesis unfolding step using less.hyps [of ?d] less.prems entered by simp
    next
      case raised
      then have "?stop (complete_cycles E ?d) = Some EM8051_STOP_EXCEPTION" "executed start ?d = executed start c"
        using ab by (simp_all add: run_stop_def em8051_execution_aborted_def executed_def)
      then show ?thesis
        unfolding step using less.prems by (subst run_loop.simps) (simp add: Let_def)
    qed
  qed
qed


text \<open>
  C1. Every run ends.  Without an abort predicate or a raw observer, and with callbacks that leave the
  instruction counter and the interrupt levels alone, \<open>run_control\<close> returns from every state, at a
  completed machine cycle, having executed at most the instructions it was allowed, and exactly
  that many when it reports the limit; the reason it reports is the first of its stop conditions
  that holds in the state it leaves.
\<close>

theorem run_control_returns:
  assumes "keeps_run E" "execution_abort E = None" "mObservation E = None"
  shows "\<exists>r c'. run_control E h t m c = Some (r, c') \<and>
           mTickDelay c' = 0 \<and> rr_pc r = mPC c' \<and> rr_instructions r \<le> m \<and>
           run_stop E h t m (mInstructionCount c) c' = Some (rr_reason r) \<and>
           (rr_reason r = EM8051_STOP_INSTRUCTION_LIMIT \<longrightarrow> rr_instructions r = m)"
proof -
  let ?c0 = "c\<lparr>mExceptionRaised := False, mLastException := -1\<rparr>"
  obtain reason d where loop: "run_loop E (run_stop E h t m (mInstructionCount c)) ?c0 = Some (reason, d)"
    and le: "executed (mInstructionCount c) d \<le> unat m"
    using run_loop_returns [OF assms, of "mInstructionCount c" ?c0 m h t] by (auto simp: executed_def)
  have stop: "run_stop E h t m (mInstructionCount c) d = Some reason" and z: "mTickDelay d = 0"
    using run_loop_ends [OF loop] assms(2) by (simp_all add: em8051_execution_aborted_def)
  have lim: "mInstructionCount d - mInstructionCount c = m" if "reason = EM8051_STOP_INSTRUCTION_LIMIT"
    using stop that le by (simp add: run_stop_def executed_def word_le_nat_alt word_unat_eq_iff split: if_splits)
  show ?thesis
    using stop z le lim loop
    by (simp add: run_control_def Let_def fill_run_result_def executed_def word_le_nat_alt)
qed

theorem run_control_returns_witness:
  "\<exists>r c'. run_control null_callbacks True 2 5 sab_zero = Some (r, c') \<and> rr_instructions r \<le> 5"
  using run_control_returns [of null_callbacks True 2 5 sab_zero] null_keeps_run by auto

end
