(* ===== verification/Reset.thy ===== *)
theory Reset
  imports Dispatch
begin

text \<open>
  Variants and reset (\<^verbatim>\<open>core.c\<close>, \<open>reset_random\<close> to \<open>em8051_init_variant\<close>, and \<open>reset\<close>).  The C
  library's \<open>rand()\<close>, used for the undefined serial buffer when no seed is configured, is the
  argument \<open>rand\<close>.  The disassembly table is not part of the model; the handler table is.
\<close>

subsection \<open>Variants\<close>

abbreviation (input) EM8051_SFR_UNAVAILABLE :: u16 where "EM8051_SFR_UNAVAILABLE \<equiv> 0xFFFF"

fun gVariants :: "em8051_variant \<Rightarrow> em8051_variant_descriptor" where
  "gVariants EM8051_VARIANT_8051 =
     \<lparr>vd_variant = EM8051_VARIANT_8051, vd_name = ''8051'', vd_default_oscillator_hz = 12000000,
      vd_has_upper_iram = False, vd_interrupt_enable0_sfr = 0xA8, vd_interrupt_priority0_sfr = 0xB8,
      vd_interrupt_enable1_sfr = EM8051_SFR_UNAVAILABLE, vd_interrupt_priority1_sfr = EM8051_SFR_UNAVAILABLE\<rparr>"
| "gVariants EM8051_VARIANT_8052 =
     \<lparr>vd_variant = EM8051_VARIANT_8052, vd_name = ''8052'', vd_default_oscillator_hz = 12000000,
      vd_has_upper_iram = True, vd_interrupt_enable0_sfr = 0xA8, vd_interrupt_priority0_sfr = 0xB8,
      vd_interrupt_enable1_sfr = EM8051_SFR_UNAVAILABLE, vd_interrupt_priority1_sfr = EM8051_SFR_UNAVAILABLE\<rparr>"
| "gVariants EM8051_VARIANT_SAB80535 =
     \<lparr>vd_variant = EM8051_VARIANT_SAB80535, vd_name = ''SAB80535'', vd_default_oscillator_hz = 11059200,
      vd_has_upper_iram = True, vd_interrupt_enable0_sfr = 0xA8, vd_interrupt_priority0_sfr = 0xA9,
      vd_interrupt_enable1_sfr = 0xB8, vd_interrupt_priority1_sfr = 0xB9\<rparr>"

text \<open>The argument is a C enumeration value, range-checked by the callee.\<close>

definition em8051_get_variant_descriptor :: "int \<Rightarrow> em8051_variant_descriptor option" where
  "em8051_get_variant_descriptor aVariant =
     (if aVariant = 0 then Some (gVariants EM8051_VARIANT_8051)
      else if aVariant = 1 then Some (gVariants EM8051_VARIANT_8052)
      else if aVariant = 2 then Some (gVariants EM8051_VARIANT_SAB80535)
      else None)"

subsection \<open>Reset\<close>

text \<open>The xorshift step; the value and the new state are the same number.\<close>

definition reset_random :: "u32 \<Rightarrow> u32" where
  "reset_random aState =
     (let s0 = (if aState = 0 then 0x6D2B79F5 else aState);
          s1 = s0 XOR push_bit 13 s0;
          s2 = s1 XOR drop_bit 17 s1
      in s2 XOR push_bit 5 s2)"

text \<open>Filling \<open>n\<close> array cells from index \<open>i\<close> with successive random bytes.\<close>

fun fill_random :: "nat \<Rightarrow> nat \<Rightarrow> u32 \<Rightarrow> (nat \<Rightarrow> u8) \<Rightarrow> (nat \<Rightarrow> u8) \<times> u32" where
  "fill_random 0 i s m = (m, s)"
| "fill_random (Suc n) i s m =
     (let s' = reset_random s in fill_random n (Suc i) s' (m(i := ucast s')))"

text \<open>\<^verbatim>\<open>memset\<close> of the cells below a bound.\<close>

definition zero_below :: "nat \<Rightarrow> (nat \<Rightarrow> 'a) \<Rightarrow> 'a \<Rightarrow> nat \<Rightarrow> 'a" where
  "zero_below n m z i = (if i < n then z else m i)"

definition wipe_buffer :: "nat option \<Rightarrow> u16 \<Rightarrow> em8051 \<Rightarrow> em8051" where
  "wipe_buffer p max_idx c =
     (case p of
        None \<Rightarrow> c
      | Some b \<Rightarrow> c\<lparr>mBuffers := (mBuffers c)(b := \<lambda>x. if x \<le> max_idx then 0 else mBuffers c b x)\<rparr>)"

definition upper_fill :: "((nat \<Rightarrow> u8) \<Rightarrow> nat \<Rightarrow> u8) \<Rightarrow> em8051 \<Rightarrow> em8051" where
  "upper_fill f c =
     (case mUpperData c of
        UpperNull \<Rightarrow> c
      | UpperOwned \<Rightarrow> mOwnedUpperData_update f c
      | UpperCaller \<Rightarrow> mCallerUpperData_update f c)"

text \<open>The data-memory part of a wiping reset; the generator state is returned for the serial buffer.\<close>

definition reset_wipe :: "em8051 \<Rightarrow> em8051 \<times> u32" where
  "reset_wipe c =
     (let random_state = mResetSeed c;
          c1 = wipe_buffer (mCodeMem c) (mCodeMemMaxIdx c) c;
          c2 = wipe_buffer (mExtData c1) (mExtDataMaxIdx c1) c1
      in if mResetSeedConfigured c2 then
           let (lower, s1) = fill_random 128 0 random_state (mLowerData c2);
               c3 = c2\<lparr>mLowerData := lower\<rparr>;
               s2 = (if mUpperData c3 = UpperNull then s1 else snd (fill_random 128 0 s1 (\<lambda>_. 0)));
               c4 = upper_fill (\<lambda>m. fst (fill_random 128 0 s1 m)) c3
           in (c4, s2)
         else
           let c3 = c2\<lparr>mLowerData := zero_below 128 (mLowerData c2) 0\<rparr>
           in (upper_fill (\<lambda>m. zero_below 128 m 0) c3, random_state))"

text \<open>The register part: everything zero, then the documented reset values.\<close>

definition reset_sfr :: "bool \<Rightarrow> u8 \<Rightarrow> em8051 \<Rightarrow> em8051" where
  "reset_sfr aWipe sbuf c =
     (let c1 = c\<lparr>mSFR := zero_below 128 (mSFR c) 0\<rparr>;
          c2 = sfr_set REG_P3 0xff (sfr_set REG_P2 0xff (sfr_set REG_P1 0xff (sfr_set REG_P0 0xff
                 (sfr_set REG_SP 7 c1))));
          c3 = (if is_sab c2 then sfr_set SAB_P6 0xff (sfr_set SAB_P5 0xff (sfr_set SAB_P4 0xff c2)) else c2);
          c4 = (if aWipe then sfr_mod REG_PCON (\<lambda>v. v OR push_bit 4 1) c3 else c3)
      in if aWipe then sfr_set REG_SBUF sbuf c4 else c4)"

definition reset_peripherals :: "em8051 \<Rightarrow> em8051" where
  "reset_peripherals c =
     c\<lparr>mSABPortExternalMask := zero_below 4 (mSABPortExternalMask c) 0,
       mSABPortExternalLevels := zero_below 4 (mSABPortExternalLevels c) 0,
       mSABExternalSampledLevels := push_bit 7 1 - 1,
       mSABExternalLevelAsserted := 0,
       mSABExternalScheduleHead := 0,
       mSABExternalScheduleCount := 0,
       mSABExternalSchedule := zero_below 64 (mSABExternalSchedule c)
         \<lparr>se_machine_cycle = 0, se_source = 0, se_action = 0, se_level = False\<rparr>,
       mSABADCInputs := zero_below 8 (mSABADCInputs c) 0,
       mSABADCLatchedInput := 0, mSABSfrWriteDepth := 0, mSABADCLatchedChannel := 0,
       mSABADCLatchedDAPR := 0, mSABADCCycles := 0, mSABADCStartPending := False,
       mSABADCArmRestart := False, mSABADCArmed := False, mSABADCActive := False,
       mSABADCBusy := False, mSABADCReferenceValid := False, mSABADCContinuousRequested := False,
       mPC := 0, mTickDelay := 0\<rparr>"

definition reset_internal :: "em8051 \<Rightarrow> em8051" where
  "reset_internal c =
     c\<lparr>mInterruptActive := 0, mSABIrqPending := 0, mSABIrqEnabled := 0, mSABIrqInService := 0,
       mSABIrqDepth := 0,
       mSABIrqSourceStack := zero_below 4 (mSABIrqSourceStack c) 0,
       mSABIrqPriorityStack := zero_below 4 (mSABIrqPriorityStack c) 0,
       mSABIrqSavedACC := zero_below 4 (mSABIrqSavedACC c) 0,
       mSABIrqSavedPSW := zero_below 4 (mSABIrqSavedPSW c) 0,
       mSABIrqSavedSP := zero_below 4 (mSABIrqSavedSP c) 0,
       mSABIrqInhibitInstructions := 0, mTimerOverflowCount := (\<lambda>_. 0),
       mSABUartDividerPhase := 0, mSABUartRxDividerPhase := 0, mSABUartRxData := mSFR c REG_SBUF,
       mSABUartTxPendingData := 0, mSABUartTxData := 0, mSABUartTxBitIndex := 0,
       mSABUartRxPendingData := 0, mSABUartRxBitIndex := 0, mSABUartTxPendingNinth := False,
       mSABUartTxNinth := False, mSABUartTxPending := False, mSABUartTxActive := False,
       mSABUartRxPendingNinth := False, mSABUartRxActive := False,
       mInstructionCount := 0, mMachineCycleCount := 0, mExceptionRaised := False,
       mLastException := -1, mInInstruction := False, mBreakpointEnabled := False,
       serial_interrupt_trigger := False, serial_out_remaining_bits := 0\<rparr>"

text \<open>
  The descriptor lookup cannot fail here: \<open>mVariant\<close> is one of the three variants by its type.
\<close>

definition reset :: "u8 \<Rightarrow> bool \<Rightarrow> em8051 \<Rightarrow> em8051" where
  "reset rand aWipe c =
     (let descriptor = gVariants (mVariant c);
          c1 = (if mOscillatorHz c = 0 then c\<lparr>mOscillatorHz := vd_default_oscillator_hz descriptor\<rparr> else c);
          c2 = (if vd_has_upper_iram descriptor then c1\<lparr>mUpperData := UpperOwned\<rparr> else c1);
          (c3, random_state) = (if aWipe then reset_wipe c2 else (c2, mResetSeed c2));
          sbuf = (if mResetSeedConfigured c3 then ucast (reset_random random_state) else rand);
          c4 = reset_sfr aWipe sbuf (reset_peripherals c3)
      in reset_internal (op_setptrs c4))"

definition em8051_set_reset_seed :: "u32 \<Rightarrow> em8051 \<Rightarrow> em8051" where
  "em8051_set_reset_seed aSeed c = c\<lparr>mResetSeed := aSeed, mResetSeedConfigured := True\<rparr>"

definition em8051_init_variant :: "u8 \<Rightarrow> int \<Rightarrow> em8051 \<Rightarrow> int \<times> em8051" where
  "em8051_init_variant rand aVariant c =
     (case em8051_get_variant_descriptor aVariant of
        None \<Rightarrow> (-1, c)
      | Some descriptor \<Rightarrow>
          let c1 = c\<lparr>mVariant := vd_variant descriptor,
                     mOscillatorHz := vd_default_oscillator_hz descriptor,
                     mUpperData := (if vd_has_upper_iram descriptor then UpperOwned else UpperNull)\<rparr>
          in (0, reset rand True (em8051_set_reset_seed 0x80535 c1)))"

end
