(* ===== verification/IrqNesting.thy ===== *)
theory IrqNesting
  imports OpFrame Exec Reset
begin

text \<open>
  The nesting discipline of the SAB80535 interrupt controller: the services in progress form a stack
  of at most four, of distinct sources with strictly increasing priorities, whose sources are exactly
  the bits of the in-service mask.  Entry pushes, \<open>RETI\<close> pops, and nothing else touches it.
\<close>

subsection \<open>The abstract stack\<close>

definition irq_stack :: "em8051 \<Rightarrow> (nat \<times> u8) list" where
  "irq_stack c = map (\<lambda>i. (unat (mSABIrqSourceStack c i), mSABIrqPriorityStack c i)) [0..<unat (mSABIrqDepth c)]"

definition irq_inv :: "em8051 \<Rightarrow> bool" where
  "irq_inv c \<longleftrightarrow>
     length (irq_stack c) \<le> 4 \<and> (\<forall>s \<in> set (map fst (irq_stack c)). s < 12) \<and>
     distinct (map fst (irq_stack c)) \<and> sorted_wrt (<) (map snd (irq_stack c)) \<and>
     (\<forall>n. bit (mSABIrqInService c) n = (n \<in> set (map fst (irq_stack c))))"

definition irq_core :: "em8051 \<Rightarrow> em8051_variant \<times> u8 \<times> (nat \<Rightarrow> u8) \<times> (nat \<Rightarrow> u8) \<times> u16" where
  "irq_core c = (mVariant c, mSABIrqDepth c, mSABIrqSourceStack c, mSABIrqPriorityStack c, mSABIrqInService c)"

lemma irq_core_cong:
  assumes "irq_core a = irq_core b"
  shows "irq_stack a = irq_stack b" "irq_inv a = irq_inv b" "mSABIrqDepth a = mSABIrqDepth b"
    "mSABIrqInService a = mSABIrqInService b" "mVariant a = mVariant b"
proof -
  show st: "irq_stack a = irq_stack b" using assms by (simp add: irq_core_def irq_stack_def)
  show "irq_inv a = irq_inv b" using assms by (simp add: irq_inv_def st) (simp add: irq_core_def)
qed (use assms in \<open>simp_all add: irq_core_def\<close>)

lemma cpu_part_irq_core: "cpu_part a = cpu_part b \<Longrightarrow> irq_core a = irq_core b"
  using cpu_partD [of a b] by (simp add: irq_core_def)

text \<open>
  The abstract transitions of the stack: a source enters when it is not in service and outranks the
  service in progress, and the last entered service leaves first.
\<close>

definition irq_above :: "(nat \<times> u8) list \<Rightarrow> nat \<Rightarrow> u8 \<Rightarrow> bool" where
  "irq_above xs s p \<longleftrightarrow> s < 12 \<and> s \<notin> set (map fst xs) \<and> (xs \<noteq> [] \<longrightarrow> snd (last xs) < p)"

inductive nest_step :: "(nat \<times> u8) list \<Rightarrow> (nat \<times> u8) list \<Rightarrow> bool" where
  stay: "nest_step xs xs"
| enter: "irq_above xs s p \<Longrightarrow> length xs < 4 \<Longrightarrow> nest_step xs (xs @ [(s, p)])"
| leave: "nest_step (xs @ [x]) xs"

subsection \<open>Callbacks that respect the controller\<close>

text \<open>
  The contract of the embedder's callbacks: whatever they do to the CPU, they leave the variant and
  the controller's stack alone.  Callbacks that only talk to the outside world satisfy it.
\<close>

definition keeps_irq :: "em8051_callbacks \<Rightarrow> bool" where
  "keeps_irq E \<longleftrightarrow>
     (\<forall>f c n. except E = Some f \<longrightarrow> irq_core (f c n) = irq_core c) \<and>
     (\<forall>f i c a. sfrread E i = Some f \<longrightarrow> irq_core (snd (f c a)) = irq_core c) \<and>
     (\<forall>f i c a. sfrwrite E i = Some f \<longrightarrow> irq_core (f c a) = irq_core c) \<and>
     (\<forall>f c x. xread E = Some f \<longrightarrow> irq_core (snd (f c x)) = irq_core c) \<and>
     (\<forall>f c x v. xwrite E = Some f \<longrightarrow> irq_core (f c x v) = irq_core c)"

lemma keeps_irq_frame: "keeps_irq E \<Longrightarrow> op_frame E irq_core"
  by unfold_locales
    (auto simp: irq_core_def lower_set_def extdata_set_def keeps_irq_def split: option.split)

lemmas keeps_irq_access = op_frame.axioms(1) [OF keeps_irq_frame]

lemma null_keeps_irq: "keeps_irq null_callbacks"
  by (simp add: keeps_irq_def)

interpretation null_irq: op_frame null_callbacks irq_core
  by (rule keeps_irq_frame [OF null_keeps_irq])

subsection \<open>Entry\<close>

lemma length_irq_stack [simp]: "length (irq_stack c) = unat (mSABIrqDepth c)"
  by (simp add: irq_stack_def)

lemma irq_core_auto_clear [simp]: "irq_core (sab_irq_auto_clear s c) = irq_core c"
  by (cases s) (simp_all add: irq_core_def)

lemma irq_core_sync [simp]: "irq_core (sab_irq_sync E c) = irq_core c"
  by (simp add: irq_core_def)

lemma irq_index_bound: "irq_index s < 12"
  by (cases s) simp_all

lemma irq_bit_test: "(w AND SAB_IRQ_BIT s = 0) = (\<not> bit w (irq_index s))"
  by (simp only: SAB_IRQ_BIT_def and_push_bit_1)

lemma enter_core:
  "irq_core (sab_irq_enter E d s p ps pc sp c) =
     (mVariant c, d + 1, (mSABIrqSourceStack c)(unat d := word_of_nat (irq_index s)),
      (mSABIrqPriorityStack c)(unat d := p), mSABIrqInService c OR SAB_IRQ_BIT s)"
proof -
  have core: "irq_core (sab_irq_trace_emit E ev s' p' b n (sab_irq_sync E (sab_irq_auto_clear s x))) = irq_core x"
    for ev s' p' b n x
    using irq_core_auto_clear [of s x] by (simp add: irq_core_def)
  show ?thesis
    unfolding sab_irq_enter_def Let_def core by (simp add: irq_core_def)
qed

lemma enter_stack:
  assumes "mSABIrqDepth c < 4"
  shows "irq_stack (sab_irq_enter E (mSABIrqDepth c) s p ps pc sp c) = irq_stack c @ [(irq_index s, p)]"
    "mSABIrqInService (sab_irq_enter E (mSABIrqDepth c) s p ps pc sp c) = mSABIrqInService c OR SAB_IRQ_BIT s"
proof -
  let ?d = "mSABIrqDepth c" and ?e = "sab_irq_enter E (mSABIrqDepth c) s p ps pc sp c"
  have d: "unat (?d + 1) = Suc (unat ?d)"
    using assms unat_add_ok [of ?d 1] by (simp add: word_less_nat_alt)
  have "unat (word_of_nat (irq_index s) :: u8) = irq_index s"
    using irq_index_bound [of s] by (simp add: unat_small)
  moreover have "mSABIrqDepth ?e = ?d + 1"
    "mSABIrqSourceStack ?e = (mSABIrqSourceStack c)(unat ?d := word_of_nat (irq_index s))"
    "mSABIrqPriorityStack ?e = (mSABIrqPriorityStack c)(unat ?d := p)"
    using enter_core [of E ?d s p ps pc sp c] by (simp_all add: irq_core_def)
  ultimately show "irq_stack ?e = irq_stack c @ [(irq_index s, p)]"
    by (simp add: irq_stack_def d)
  show "mSABIrqInService ?e = mSABIrqInService c OR SAB_IRQ_BIT s"
    using enter_core [of E ?d s p ps pc sp c] by (simp add: irq_core_def)
qed

text \<open>A source that competes is not in service and outranks the service in progress.\<close>

lemma sorted_wrt_snoc:
  fixes xs :: "'a::linorder list"
  assumes "sorted_wrt (<) xs" "xs \<noteq> [] \<longrightarrow> last xs < x"
  shows "sorted_wrt (<) (xs @ [x])"
proof (cases xs rule: rev_cases)
  case (snoc ys y)
  then show ?thesis using assms by (auto simp: sorted_wrt_append intro: less_trans)
qed simp

lemma candidate_above:
  assumes inv: "irq_inv c" and cand: "irq_candidate c s"
  shows "irq_above (irq_stack c) (irq_index s) (sab_irq_priority c s)"
proof -
  let ?d = "unat (mSABIrqDepth c)"
  have "snd (last (irq_stack c)) = mSABIrqPriorityStack c (?d - 1)" if nz: "?d \<noteq> 0"
  proof -
    obtain k where k: "?d = Suc k" using not0_implies_Suc [OF nz] by blast
    then show ?thesis by (simp add: irq_stack_def)
  qed
  moreover have "irq_stack c \<noteq> [] \<longleftrightarrow> ?d \<noteq> 0" by (simp add: irq_stack_def)
  ultimately show ?thesis
    using inv cand irq_index_bound [of s]
    by (auto simp: irq_above_def irq_inv_def irq_candidate_def irq_bit_test not_le unat_eq_zero)
qed

lemma enter_inv:
  assumes inv: "irq_inv c" and above: "irq_above (irq_stack c) (irq_index s) p" and room: "mSABIrqDepth c < 4"
  shows "irq_inv (sab_irq_enter E (mSABIrqDepth c) s p ps pc sp c)"
proof -
  have top: "map snd (irq_stack c) \<noteq> [] \<longrightarrow> last (map snd (irq_stack c)) < p"
    using above by (simp add: irq_above_def last_map)
  have bits: "bit (mSABIrqInService c OR SAB_IRQ_BIT s) n =
      (n \<in> set (map fst (irq_stack c @ [(irq_index s, p)])))" for n
    using inv irq_index_bound [of s]
    by (auto simp: irq_inv_def SAB_IRQ_BIT_def bit_or_iff bit_push_bit_iff bit_1_iff bit_exp_iff)
  show ?thesis
    using inv above room sorted_wrt_snoc [OF _ top] irq_index_bound [of s]
    unfolding irq_inv_def enter_stack [OF room] bits
    by (auto simp: word_less_nat_alt irq_above_def)
qed

lemma enter_transfer:
  assumes "irq_core c = irq_core c0"
  shows "irq_core (sab_irq_enter E d s p ps pc sp c) = irq_core (sab_irq_enter E d s p ps pc sp c0)"
  using assms by (simp add: enter_core) (simp add: irq_core_def)

lemma nest_by_core: "irq_core a = irq_core b \<Longrightarrow> irq_inv b \<Longrightarrow> irq_inv a \<and> nest_step (irq_stack b) (irq_stack a)"
  using irq_core_cong [of a b] by (simp add: nest_step.stay)

lemma enter_delay: "mTickDelay (sab_irq_enter E d s p ps pc sp c) = 1"
proof -
  have "mTickDelay (sab_irq_auto_clear s x) = mTickDelay x" for x by (cases s) simp_all
  then show ?thesis by (simp add: sab_irq_enter_def Let_def)
qed

text \<open>
  Polling the controller leaves the stack alone or enters the service the arbitration selected,
  which leaves one machine cycle pending.
\<close>

lemma handle_sab_nests:
  assumes E: "keeps_irq E" and inv: "irq_inv c"
  shows "irq_core (snd (handle_sab_interrupts E c)) = irq_core c \<or>
    (\<exists>s. irq_arbitrate (sab_irq_sync E c) = Some s \<and> mTickDelay (snd (handle_sab_interrupts E c)) = 1 \<and>
       irq_inv (snd (handle_sab_interrupts E c)) \<and>
       nest_step (irq_stack c) (irq_stack (snd (handle_sab_interrupts E c))))"
proof -
  define c0 where "c0 = sab_irq_sync E c"
  have c0: "irq_core c0 = irq_core c" by (simp add: c0_def)
  note push = access_frame.F_push [OF keeps_irq_access [OF E]]
  note raw = access_frame.F_raw [OF keeps_irq_access [OF E], where E' = E]
  show ?thesis
  proof (cases "mSABIrqInhibitInstructions c0 \<noteq> 0 \<or> mSFR c0 SAB_IEN0 AND IEMASK_EA = 0 \<or> irq_arbitrate c0 = None \<or>
      mSABIrqDepth c0 \<ge> 4")
    case True
    then have "snd (handle_sab_interrupts E c) = c0"
      by (auto simp: handle_sab_interrupts_def Let_def simp flip: c0_def split: option.split)
    then show ?thesis using c0 by simp
  next
    case False
    then obtain s where s: "irq_arbitrate c0 = Some s" and room: "mSABIrqDepth c0 < 4" by auto
    have inv0: "irq_inv c0" using irq_core_cong(2) [OF c0] inv by simp
    have above: "irq_above (irq_stack c0) (irq_index s) (sab_irq_priority c0 s)"
      by (rule candidate_above [OF inv0 arbitrate_candidate [OF s]])
    define p where "p = (case mObservation E of None \<Rightarrow> (True, c0)
      | Some _ \<Rightarrow> let (r, c') = emu_cpu_raw E EMU_RAW_CONTEXT_PREFLIGHT (mMachineCycleCount c0) 0 0 0 0 c0 in (r \<noteq> 0, c'))"
    have p: "irq_core (snd p) = irq_core c0"
      using raw [of EMU_RAW_CONTEXT_PREFLIGHT _ 0 0 0 0 c0] by (simp add: p_def split_beta split: option.split)
    define c1 where "c1 = snd p"
    define c2 where "c2 = snd (push_to_stack E (ucast (mPC c1 AND 0xff)) c1)"
    define c3 where "c3 = snd (push_to_stack E (ucast (drop_bit 8 (mPC c2))) c2)"
    have core: "irq_core c1 = irq_core c0" "irq_core c2 = irq_core c0" "irq_core c3 = irq_core c0"
      using p by (simp_all add: c1_def c2_def c3_def push)
    let ?enter = "\<lambda>ps pc sp. sab_irq_enter E (mSABIrqDepth c0) s (sab_irq_priority c0 s) ps pc sp"
    have ent: "irq_core (?enter ps pc sp c3) = irq_core (?enter ps pc sp c0)" for ps pc sp
      by (rule enter_transfer [OF core(3)])
    have cases: "snd (handle_sab_interrupts E c) = c1 \<or> snd (handle_sab_interrupts E c) = c2 \<or>
        snd (handle_sab_interrupts E c) = c3 \<or> (\<exists>ps pc sp. snd (handle_sab_interrupts E c) = ?enter ps pc sp c3)"
      using False s
      by (simp add: handle_sab_interrupts_def Let_def split_beta flip: c0_def p_def)
        (auto simp flip: c1_def c2_def c3_def)
    have "mTickDelay (?enter ps pc sp c3) = 1 \<and> irq_inv (?enter ps pc sp c3) \<and>
      nest_step (irq_stack c) (irq_stack (?enter ps pc sp c3))" for ps pc sp
      using enter_delay enter_inv [OF inv0 above room] irq_core_cong [OF ent] enter_stack(1) [OF room]
        nest_step.enter [OF above] room irq_core_cong(1,3) [OF c0] by (simp add: word_less_nat_alt)
    with cases core c0 s show ?thesis unfolding c0_def [symmetric] by metis
  qed
qed

subsection \<open>Return\<close>

lemma handle_classic_core:
  assumes E: "keeps_irq E"
  shows "irq_core (snd (handle_classic_interrupts E c)) = irq_core c"
proof -
  note push = access_frame.F_push [OF keeps_irq_access [OF E]]
  have enter: "irq_core (classic_enter d h x) = irq_core x" for d h x
    by (simp add: classic_enter_def Let_def irq_core_def)
  show ?thesis
    by (simp add: handle_classic_interrupts_def Let_def split_beta enter push split: option.split)
qed

lemma iret_checks_core:
  assumes E: "keeps_irq E"
  shows "irq_core (snd (iret_checks E a s p sp c)) = irq_core c"
  by (simp add: iret_checks_def Let_def access_frame.F_raise_exception [OF keeps_irq_access [OF E]])

lemma classic_reti_core: "keeps_irq E \<Longrightarrow> irq_core (snd (classic_reti E sp c)) = irq_core c"
proof -
  assume E: "keeps_irq E"
  have "irq_core (mInterruptActive_update f x) = irq_core x" for f x by (simp add: irq_core_def)
  then show ?thesis
    by (simp add: classic_reti_def Let_def split_beta iret_checks_core [OF E])
qed

text \<open>Leaving a service: the top of the stack is popped and its bit of the in-service mask cleared.\<close>

lemma irq_stack_snoc:
  assumes "mSABIrqDepth c \<noteq> 0"
  shows "irq_stack c = irq_stack (mSABIrqDepth_update (\<lambda>d. d - 1) c) @
    [(unat (mSABIrqSourceStack c (unat (mSABIrqDepth c - 1))), mSABIrqPriorityStack c (unat (mSABIrqDepth c - 1)))]"
proof -
  have "unat (mSABIrqDepth c) = Suc (unat (mSABIrqDepth c - 1))"
    using assms by (simp add: unat_minus_one unat_gt_0)
  then show ?thesis by (simp add: irq_stack_def)
qed

lemma leave_inv:
  assumes inv: "irq_inv c" and d: "mSABIrqDepth c \<noteq> 0"
    and e: "irq_core e = irq_core (c\<lparr>mSABIrqDepth := mSABIrqDepth c - 1, mSABIrqInService := mSABIrqInService c AND
      NOT (push_bit (unat (mSABIrqSourceStack c (unat (mSABIrqDepth c - 1)))) 1)\<rparr>)"
  shows "irq_inv e" "irq_stack c = irq_stack e @
    [(unat (mSABIrqSourceStack c (unat (mSABIrqDepth c - 1))), mSABIrqPriorityStack c (unat (mSABIrqDepth c - 1)))]"
proof -
  define x where "x = (unat (mSABIrqSourceStack c (unat (mSABIrqDepth c - 1))), mSABIrqPriorityStack c (unat (mSABIrqDepth c - 1)))"
  have "irq_stack (c\<lparr>mSABIrqDepth := mSABIrqDepth c - 1, mSABIrqInService := w\<rparr>) =
      irq_stack (mSABIrqDepth_update (\<lambda>d. d - 1) c)" for w by (simp add: irq_stack_def)
  then have st: "irq_stack c = irq_stack e @ [x]" using irq_core_cong(1) [OF e] irq_stack_snoc [OF d] by (simp add: x_def)
  then show "irq_stack c = irq_stack e @
    [(unat (mSABIrqSourceStack c (unat (mSABIrqDepth c - 1))), mSABIrqPriorityStack c (unat (mSABIrqDepth c - 1)))]"
    by (simp add: x_def)
  have svc: "mSABIrqInService e = mSABIrqInService c AND NOT (push_bit (fst x) 1)"
    using irq_core_cong(4) [OF e] by (simp add: x_def)
  have "fst x < 12" using inv st by (simp add: irq_inv_def)
  then have bits: "bit (mSABIrqInService e) n = (bit (mSABIrqInService c) n \<and> n \<noteq> fst x)" for n
    unfolding svc by (auto simp: bit_and_iff bit_not_iff bit_exp_iff dest: bit_imp_le_length)
  show "irq_inv e"
    using inv bits unfolding irq_inv_def st
    by (auto simp: sorted_wrt_append image_iff)
qed

lemma sab_reti_nests:
  assumes E: "keeps_irq E" and inv: "irq_inv c"
  shows "irq_inv (em8051_sab_irq_reti E sp c) \<and> nest_step (irq_stack c) (irq_stack (em8051_sab_irq_reti E sp c))"
proof -
  have arm: "irq_core (sab_irq_arm_inhibit x) = irq_core x" for x
    by (rule access_frame.F_arm_inhibit [OF keeps_irq_access [OF E]])
  have emit: "irq_core (sab_irq_trace_emit E ev so p b n x) = irq_core x" for ev so p b n x
    by (rule access_frame.F_notes(4) [OF keeps_irq_access [OF E]])
  note checks = iret_checks_core [OF E]
  define i where "i = mSABIrqDepth c - 1"
  define k where "k = iret_checks E (\<lambda>c. mSABIrqSavedACC c (unat i)) (\<lambda>c. mSABIrqSavedSP c (unat i))
    (\<lambda>c. mSABIrqSavedPSW c (unat i)) sp c"
  have k: "irq_core (snd k) = irq_core c" by (simp add: k_def checks)
  show ?thesis
  proof (cases "is_sab c \<and> mSABIrqDepth c \<noteq> 0 \<and> fst k")
    case True
    then have "irq_core (em8051_sab_irq_reti E sp c) = irq_core ((snd k)\<lparr>mSABIrqDepth := i, mSABIrqInService :=
        mSABIrqInService (snd k) AND NOT (push_bit (unat (mSABIrqSourceStack c (unat i))) 1)\<rparr>)"
      by (simp add: em8051_sab_irq_reti_def Let_def split_beta arm emit flip: i_def k_def)
    also have "\<dots> = irq_core (c\<lparr>mSABIrqDepth := i, mSABIrqInService :=
        mSABIrqInService c AND NOT (push_bit (unat (mSABIrqSourceStack c (unat i))) 1)\<rparr>)"
      using k by (simp add: irq_core_def)
    finally show ?thesis
      using leave_inv [OF inv] True nest_step.leave by (metis i_def)
  next
    case False
    then have "irq_core (em8051_sab_irq_reti E sp c) = irq_core c"
      by (auto simp: em8051_sab_irq_reti_def Let_def split_beta arm k simp flip: i_def k_def)
    then show ?thesis using nest_by_core inv by blast
  qed
qed


subsection \<open>Instructions and ticks\<close>

lemma reti_nests:
  assumes E: "keeps_irq E" and inv: "irq_inv c"
  shows "irq_inv (snd (reti E c)) \<and> nest_step (irq_stack c) (irq_stack (snd (reti E c)))"
proof -
  note frame = keeps_irq_frame [OF E]
  obtain r d where p: "pop_return E c = (r, d)" by fastforce
  then have d: "irq_core d = irq_core c" using op_frame.F_pop_return [OF frame, of c] by simp
  then have invd: "irq_inv d" using irq_core_cong(2) [OF d] inv by simp
  have fin: "irq_core (return_note E k (pc_set a x)) = irq_core x" for k a x
    by (simp add: op_frame.F_call_note(2) [OF frame] op_frame.F_regs(6) [OF frame])
  define e where "e = (if is_sab d then em8051_sab_irq_reti E (mSFR c REG_SP) d else snd (classic_reti E (mSFR c REG_SP) d))"
  have e: "irq_inv e \<and> nest_step (irq_stack d) (irq_stack e)"
    using sab_reti_nests [OF E invd] nest_by_core [OF classic_reti_core [OF E] invd] by (simp add: e_def)
  have "irq_core (snd (reti E c)) = (case r of None \<Rightarrow> irq_core d | Some _ \<Rightarrow> irq_core e)"
    by (simp add: reti_def p Let_def split_beta fin e_def split: option.split)
  then show ?thesis
    using e nest_by_core [OF d inv] irq_core_cong [of "snd (reti E c)" d] irq_core_cong [of "snd (reti E c)" e]
      irq_core_cong(1) [OF d] by (cases r) auto
qed

lemma run_op_nests:
  assumes E: "keeps_irq E" and inv: "irq_inv c"
  shows "irq_inv (snd (run_op op E c)) \<and> nest_step (irq_stack c) (irq_stack (snd (run_op op E c)))"
proof (cases "op = Jump op_reti")
  case True
  then show ?thesis using reti_nests [OF E inv] by simp
next
  case False
  then show ?thesis by (intro nest_by_core [OF _ inv] op_frame.F_run_op [OF keeps_irq_frame [OF E]])
qed

lemma execute_nests:
  assumes E: "keeps_irq E" and inv: "irq_inv c"
  shows "irq_inv (snd (execute_opcode E c)) \<and> nest_step (irq_stack c) (irq_stack (snd (execute_opcode E c)))"
proof -
  have fields: "irq_core (mTickDelay_update f x) = irq_core x" "irq_core (mInInstruction_update g x) = irq_core x"
    "irq_core (mInstructionCount_update h x) = irq_core x" "irq_core (mSABIrqInhibitInstructions_update f x) = irq_core x"
    "irq_core (mTracePC_update k x) = irq_core x" for f g h k x by (simp_all add: irq_core_def)
  note log = access_frame.F_notes(1,3) [OF keeps_irq_access [OF E]]
  define c3 where "c3 = em8051_trace_emit E EM8051_TRACE_INSTRUCTION (mPC c) (CODEMEM c (mPC c))
    (raw_note E EMU_RAW_BEGIN (mMachineCycleCount c) (ucast (mPC c)) (ucast (CODEMEM c (mPC c))) 0 0
      (c\<lparr>mTracePC := mPC c, mInInstruction := True\<rparr>))"
  define c4 where "c4 = snd (run_op (mOp c3 (CODEMEM c (mPC c))) E c3)"
  have c3: "irq_core c3 = irq_core c" by (simp add: c3_def log fields)
  have inv3: "irq_inv c3" using irq_core_cong(2) [OF c3] inv by simp
  have c4: "irq_inv c4 \<and> nest_step (irq_stack c) (irq_stack c4)"
    using run_op_nests [OF E inv3] irq_core_cong(1) [OF c3] by (simp add: c4_def)
  have "irq_core (snd (execute_opcode E c)) = irq_core c3 \<or> irq_core (snd (execute_opcode E c)) = irq_core c4"
    by (auto simp: execute_opcode_def Let_def split_beta fields log c4_def simp flip: c3_def)
  then show ?thesis
    using c4 nest_by_core [OF c3 inv] irq_core_cong [of "snd (execute_opcode E c)" c3] irq_core_cong [of "snd (execute_opcode E c)" c4]
    by auto
qed

lemma handle_nests:
  assumes E: "keeps_irq E" and inv: "irq_inv c"
  shows "irq_core (snd (handle_interrupts E c)) = irq_core c \<or>
    mTickDelay (snd (handle_interrupts E c)) = 1 \<and> irq_inv (snd (handle_interrupts E c)) \<and>
       nest_step (irq_stack c) (irq_stack (snd (handle_interrupts E c)))"
  using handle_sab_nests [OF E inv] handle_classic_core [OF E, of c] by (auto simp: handle_interrupts_def)

lemma tick_nests:
  assumes E: "keeps_irq E" and inv: "irq_inv c"
  shows "irq_inv (snd (tick E c)) \<and> nest_step (irq_stack c) (irq_stack (snd (tick E c)))"
proof -
  have cyc: "irq_core (advance_machine_cycle E x) = irq_core x" for x by (rule cpu_part_irq_core) simp
  have par: "irq_core (update_parity x) = irq_core x" for x
    by (simp add: update_parity_def op_frame.F_regs(3) [OF keeps_irq_frame [OF E]])
  have dly: "irq_core (mTickDelay_update f x) = irq_core x" for f x by (simp add: irq_core_def)
  define h where "h = snd (handle_interrupts E c)"
  define e where "e = snd (execute_opcode E h)"
  have cases: "irq_core (snd (tick E c)) = irq_core c \<or> irq_core (snd (tick E c)) = irq_core h \<or>
      mTickDelay h = 0 \<and> irq_core (snd (tick E c)) = irq_core e"
    by (auto simp: tick_def Let_def split_beta cyc par dly simp flip: h_def e_def)
  have "irq_inv e \<and> nest_step (irq_stack c) (irq_stack e)" if "irq_core h = irq_core c"
    using execute_nests [OF E, of h] irq_core_cong [OF that] inv by (simp add: e_def)
  with cases handle_nests [OF E inv] nest_by_core [OF _ inv] show ?thesis
    unfolding h_def [symmetric] by (metis irq_core_cong(1,2) zero_neq_one)
qed

end
