(* ===== verification/IrqService.thy ===== *)
theory IrqService
  imports IrqNesting
begin

text \<open>
  One interrupt service from acceptance to \<open>RETI\<close>: what the CPU looks like when the vector is
  reached, and that a return with the entry's registers undoes the entry.
\<close>

subsection \<open>A service and its return\<close>

lemma read_indir_cong:
  "mLowerData a = mLowerData b \<Longrightarrow> mUpperData a = mUpperData b \<Longrightarrow> mOwnedUpperData a = mOwnedUpperData b \<Longrightarrow>
   mCallerUpperData a = mCallerUpperData b \<Longrightarrow> read_mem_indir x a = read_mem_indir x b"
  by (simp add: read_mem_indir_def split: upper_ptr.split)

lemma auto_clear_frame:
  "ext_rest (sab_irq_auto_clear s c) = ext_rest c"
  "i \<noteq> REG_TCON \<Longrightarrow> i \<noteq> SAB_IRCON \<Longrightarrow> mSFR (sab_irq_auto_clear s c) i = mSFR c i"
  by (cases s; simp)+

lemmas auto_clear_fields [simp] = ext_restD [OF auto_clear_frame(1)]

lemma enter_fields:
  "mPC (sab_irq_enter E d s p ps pc sp c) = gSABIrqVectors s"
  "mExceptionRaised (sab_irq_enter E d s p ps pc sp c) = mExceptionRaised c"
  "mLastException (sab_irq_enter E d s p ps pc sp c) = mLastException c"
  "mVariant (sab_irq_enter E d s p ps pc sp c) = mVariant c"
  "mSABIrqSavedACC (sab_irq_enter E d s p ps pc sp c) = (mSABIrqSavedACC c)(unat d := mSFR c REG_ACC)"
  "mSABIrqSavedPSW (sab_irq_enter E d s p ps pc sp c) = (mSABIrqSavedPSW c)(unat d := mSFR c REG_PSW)"
  "mSABIrqSavedSP (sab_irq_enter E d s p ps pc sp c) = (mSABIrqSavedSP c)(unat d := mSFR c REG_SP)"
  "mLowerData (sab_irq_enter E d s p ps pc sp c) = mLowerData c"
  "mUpperData (sab_irq_enter E d s p ps pc sp c) = mUpperData c"
  "mOwnedUpperData (sab_irq_enter E d s p ps pc sp c) = mOwnedUpperData c"
  "mCallerUpperData (sab_irq_enter E d s p ps pc sp c) = mCallerUpperData c"
  by (simp_all add: sab_irq_enter_def Let_def)

lemma enter_sfr:
  assumes "i \<noteq> REG_TCON" "i \<noteq> SAB_IRCON" "i \<noteq> REG_PCON"
  shows "mSFR (sab_irq_enter E d s p ps pc sp c) i = mSFR c i"
  using assms by (simp add: sab_irq_enter_def Let_def auto_clear_frame(2) emit_defs)

lemma iret_checks_pass:
  assumes "savedACC c = mSFR c REG_ACC" "savedSP c = sp" "savedPSW c = mSFR c REG_PSW" "\<not> em8051_execution_aborted E c"
  shows "iret_checks E savedACC savedSP savedPSW sp c = (True, c)"
  using assms by (simp add: iret_checks_def)

lemma sync_call_ok [simp]: "call_ok (sab_irq_sync E c) = call_ok c"
  by (simp add: call_ok_def push_ok_def iram_cell_def)

lemma handle_sab_enters:
  assumes "call_ok c" "mObservation E = None" "mSABIrqInhibitInstructions c = 0" "mSFR c SAB_IEN0 AND IEMASK_EA \<noteq> 0"
    and "irq_arbitrate (sab_irq_sync E c) = Some s" "mSABIrqDepth c < 4"
  shows "handle_sab_interrupts E c = (True, sab_irq_enter E (mSABIrqDepth c) s (sab_irq_priority (sab_irq_sync E c) s)
           (mSABIrqPending (sab_irq_sync E c)) (mPC c) (mSFR c REG_SP) (pushed_return (mPC c) (sab_irq_sync E c)))"
proof -
  let ?c = "sab_irq_sync E c"
  have "call_ok ?c" using assms(1) by simp
  then have "push_ok ?c" "push_ok (pushed v ?c)" for v
    using push_ok_pushed [of v ?c 0] by (simp_all only: call_ok_def)
  then show ?thesis
    using assms by (simp add: handle_sab_interrupts_def Let_def push_value pushed_return_def)
qed


lemma pushed_frame:
  "mSABIrqDepth (pushed v c) = mSABIrqDepth c" "mSABIrqSourceStack (pushed v c) = mSABIrqSourceStack c"
  "mSABIrqPriorityStack (pushed v c) = mSABIrqPriorityStack c" "mSABIrqInService (pushed v c) = mSABIrqInService c"
  "mExceptionRaised (pushed v c) = mExceptionRaised c" "mLastException (pushed v c) = mLastException c"
  "mInInstruction (pushed v c) = mInInstruction c"
  by (simp_all add: pushed_def write_mem_indir_def lower_set_def split: upper_ptr.split)

lemma irq_core_pushed_return [simp]: "irq_core (pushed_return r c) = irq_core c"
  by (simp add: irq_core_def pushed_return_def pushed_frame)

text \<open>Returning from the service that was entered last, with the registers it was entered with.\<close>

lemma reti_top:
  assumes c: "is_sab c" "mSABIrqDepth c \<noteq> 0" "execution_abort E = None" "mObservation E = None"
    and pop: "pop_return E c = (Some r, d)" and core: "irq_core d = irq_core c"
    and saved: "mSABIrqSavedACC d (unat (mSABIrqDepth c - 1)) = mSFR d REG_ACC"
      "mSABIrqSavedPSW d (unat (mSABIrqDepth c - 1)) = mSFR d REG_PSW"
      "mSABIrqSavedSP d (unat (mSABIrqDepth c - 1)) = mSFR c REG_SP"
  shows "\<exists>e. reti E c = (1, e) \<and> mPC e = r \<and> mSFR e REG_SP = mSFR d REG_SP \<and>
    mExceptionRaised e = mExceptionRaised d \<and> mLastException e = mLastException d \<and> mSABIrqInhibitInstructions e \<noteq> 0 \<and>
    irq_core e = irq_core (d\<lparr>mSABIrqDepth := mSABIrqDepth d - 1, mSABIrqInService := mSABIrqInService d AND
      NOT (push_bit (unat (mSABIrqSourceStack d (unat (mSABIrqDepth d - 1)))) 1)\<rparr>)"
proof -
  have na: "\<not> em8051_execution_aborted E x" for x using c(3) by (simp add: em8051_execution_aborted_def)
  have d: "is_sab d" "mSABIrqDepth d = mSABIrqDepth c" using core c(1) by (simp_all add: irq_core_def)
  have chk: "iret_checks E (\<lambda>x. mSABIrqSavedACC x (unat (mSABIrqDepth c - 1))) (\<lambda>x. mSABIrqSavedSP x (unat (mSABIrqDepth c - 1)))
      (\<lambda>x. mSABIrqSavedPSW x (unat (mSABIrqDepth c - 1))) (mSFR c REG_SP) d = (True, d)"
    using saved d by (intro iret_checks_pass) (simp_all add: na)
  show ?thesis
    using c d by (simp add: reti_def pop em8051_sab_irq_reti_def Let_def chk na return_note_def unobserved
        sab_irq_arm_inhibit_def pc_set_def irq_core_def emit_defs del: One_nat_def)
qed

lemma leave_undoes_enter:
  assumes d: "irq_stack d = xs @ [(irq_index s, p)]" "mSABIrqInService d = w OR SAB_IRQ_BIT s" "\<not> bit w (irq_index s)"
    and e: "irq_core e = irq_core (d\<lparr>mSABIrqDepth := mSABIrqDepth d - 1, mSABIrqInService := mSABIrqInService d AND
      NOT (push_bit (unat (mSABIrqSourceStack d (unat (mSABIrqDepth d - 1)))) 1)\<rparr>)"
  shows "irq_stack e = xs" "mSABIrqInService e = w"
proof -
  have "length (irq_stack d) \<noteq> 0" using d(1) by simp
  then have nz: "mSABIrqDepth d \<noteq> 0" by (simp add: unat_eq_zero)
  have "irq_stack e = irq_stack (mSABIrqDepth_update (\<lambda>x. x - 1) d)"
    using irq_core_cong(1) [OF e] by (simp add: irq_stack_def)
  then show "irq_stack e = xs" using irq_stack_snoc [OF nz] d(1) by simp
  have top: "unat (mSABIrqSourceStack d (unat (mSABIrqDepth d - 1))) = irq_index s"
    using irq_stack_snoc [OF nz] d(1) by simp
  have "mSABIrqInService e = (w OR SAB_IRQ_BIT s) AND NOT (push_bit (irq_index s) 1)"
    using irq_core_cong(4) [OF e] d(2) by (simp add: top)
  also have "\<dots> = w"
    using d(3) by (auto intro!: bit_word_eqI simp: SAB_IRQ_BIT_def bit_and_iff bit_or_iff bit_not_iff bit_exp_iff)
  finally show "mSABIrqInService e = w" .
qed

text \<open>
  The state on entry: the service is on the controller's stack, its saved registers are those of the
  CPU, and popping the return address gives the interrupted program counter.
\<close>

lemma service_entry:
  assumes "is_sab c" "call_ok c" "mObservation E = None" "execution_abort E = None"
    and "mSABIrqInhibitInstructions c = 0" "mSFR c SAB_IEN0 AND IEMASK_EA \<noteq> 0"
    and "irq_arbitrate (sab_irq_sync E c) = Some s" "mSABIrqDepth c < 4"
  obtains c1 d where "handle_sab_interrupts E c = (True, c1)" "is_sab c1" "mSABIrqDepth c1 \<noteq> 0"
    "mPC c1 = gSABIrqVectors s" "mSFR c1 REG_SP = mSFR c REG_SP + 2" "mTickDelay c1 = 1"
    "irq_stack c1 = irq_stack c @ [(irq_index s, sab_irq_priority (sab_irq_sync E c) s)]"
    "mSABIrqInService c1 = mSABIrqInService c OR SAB_IRQ_BIT s"
    "pop_return E c1 = (Some (mPC c), d)" "irq_core d = irq_core c1" "mSFR d REG_SP = mSFR c REG_SP"
    "mExceptionRaised d = mExceptionRaised c" "mLastException d = mLastException c"
    "mSABIrqSavedACC d (unat (mSABIrqDepth c1 - 1)) = mSFR d REG_ACC"
    "mSABIrqSavedPSW d (unat (mSABIrqDepth c1 - 1)) = mSFR d REG_PSW"
    "mSABIrqSavedSP d (unat (mSABIrqDepth c1 - 1)) = mSFR c1 REG_SP"
proof -
  define c0 where "c0 = sab_irq_sync E c"
  define p where "p = sab_irq_priority c0 s"
  define c1 where "c1 = sab_irq_enter E (mSABIrqDepth c) s p (mSABIrqPending c0) (mPC c) (mSFR c REG_SP) (pushed_return (mPC c) c0)"
  define d where "d = sfr_mod REG_SP (\<lambda>s. s - 1) (sfr_mod REG_SP (\<lambda>s. s - 1) c1)"
  have c0: "irq_core c0 = irq_core c" "mSABIrqDepth c0 = mSABIrqDepth c" "call_ok c0" "mPC c0 = mPC c"
    "mSFR c0 REG_SP = mSFR c REG_SP" "mUpperData c0 = mUpperData c" "is_sab c0"
    "mExceptionRaised c0 = mExceptionRaised c" "mLastException c0 = mLastException c"
    using assms(1,2) by (simp_all add: c0_def)
  let ?q = "pushed_return (mPC c) c0"
  have q: "irq_core ?q = irq_core c" "mSABIrqDepth ?q = mSABIrqDepth c" "mSABIrqDepth ?q < 4"
    using c0 assms(8) irq_core_cong(3) [OF irq_core_pushed_return, of "mPC c" c0] by simp_all
  have h: "handle_sab_interrupts E c = (True, c1)"
    using handle_sab_enters [OF assms(2,3,5-8)] by (simp add: c1_def p_def c0_def)
  have st1: "irq_stack c1 = irq_stack c @ [(irq_index s, p)]" "mSABIrqInService c1 = mSABIrqInService c OR SAB_IRQ_BIT s"
    using enter_stack [OF q(3)] q(2) irq_core_cong(1,4) [OF q(1)] by (simp_all add: c1_def)
  have mem: "read_mem_indir a c1 = read_mem_indir a ?q" for a
    by (rule read_indir_cong) (simp_all add: c1_def enter_fields)
  have sp: "mSFR c1 REG_SP = mSFR c REG_SP + 2" and up: "mUpperData c1 = mUpperData c0"
    using c0 by (simp_all add: c1_def enter_sfr enter_fields del: One_nat_def)
  have pop: "pop_return E c1 = (Some (mPC c), d)"
    unfolding d_def using pop_return_pushed [OF c0(3) mem _ up] sp c0(5) by (simp only:)
  have d1: "mSABIrqDepth c1 = mSABIrqDepth c + 1" "is_sab c1" "mSABIrqDepth c1 \<noteq> 0" "mSABIrqDepth c1 - 1 = mSABIrqDepth c"
  proof -
    show e: "mSABIrqDepth c1 = mSABIrqDepth c + 1" and "is_sab c1"
      using enter_core [of E "mSABIrqDepth c" s p "mSABIrqPending c0" "mPC c" "mSFR c REG_SP" ?q] c0(7)
      by (simp_all add: c1_def irq_core_def enter_fields pushed_return_def del: One_nat_def)
    show "mSABIrqDepth c1 \<noteq> 0" "mSABIrqDepth c1 - 1 = mSABIrqDepth c"
      using assms(8) unfolding e by (auto simp: sp_wrap)
  qed
  have core: "irq_core d = irq_core c1" by (simp add: d_def irq_core_def)
  have regs: "mSFR ?q REG_ACC = mSFR c1 REG_ACC" "mSFR ?q REG_PSW = mSFR c1 REG_PSW" "mSFR ?q REG_SP = mSFR c1 REG_SP"
    by (simp_all add: c1_def enter_sfr)
  have saved: "mSABIrqSavedACC d (unat (mSABIrqDepth c1 - 1)) = mSFR d REG_ACC"
    "mSABIrqSavedPSW d (unat (mSABIrqDepth c1 - 1)) = mSFR d REG_PSW"
    "mSABIrqSavedSP d (unat (mSABIrqDepth c1 - 1)) = mSFR c1 REG_SP"
    unfolding d1(4) using regs by (simp_all add: d_def c1_def enter_fields)
  have "mSFR d REG_SP = mSFR c REG_SP" "mExceptionRaised d = mExceptionRaised c" "mLastException d = mLastException c"
    using sp c0 by (simp_all add: d_def c1_def enter_fields pushed_return_def pushed_frame)
  moreover have "mTickDelay c1 = 1" "mPC c1 = gSABIrqVectors s" by (simp_all add: c1_def enter_delay enter_fields)
  ultimately show thesis
    using that [OF h d1(2,3) _ sp _ _ st1(2) pop core _ _ _ saved] st1(1) by (simp add: p_def c0_def)
qed

text \<open>
  C5. A service and its return.  When the controller accepts a source, the CPU goes to the source's
  vector with the return address on the stack and one more service in progress; a return with the
  stack and the registers as they were on entry resumes the interrupted instruction, releases
  exactly that service, raises no exception and holds further acceptance off for an instruction.
\<close>

theorem service_returns:
  assumes "is_sab c" "call_ok c" "mObservation E = None" "execution_abort E = None"
    and "mSABIrqInhibitInstructions c = 0" "mSFR c SAB_IEN0 AND IEMASK_EA \<noteq> 0"
    and "irq_arbitrate (sab_irq_sync E c) = Some s" "mSABIrqDepth c < 4"
  shows "\<exists>c1 c2. handle_sab_interrupts E c = (True, c1) \<and> reti E c1 = (1, c2) \<and>
           mPC c1 = gSABIrqVectors s \<and> mSFR c1 REG_SP = mSFR c REG_SP + 2 \<and> mTickDelay c1 = 1 \<and>
           irq_stack c1 = irq_stack c @ [(irq_index s, sab_irq_priority (sab_irq_sync E c) s)] \<and>
           mPC c2 = mPC c \<and> mSFR c2 REG_SP = mSFR c REG_SP \<and> irq_stack c2 = irq_stack c \<and>
           mSABIrqInService c2 = mSABIrqInService c \<and>
           mExceptionRaised c2 = mExceptionRaised c \<and> mLastException c2 = mLastException c \<and>
           mSABIrqInhibitInstructions c2 \<noteq> 0"
proof -
  obtain c1 d where e: "handle_sab_interrupts E c = (True, c1)" "is_sab c1" "mSABIrqDepth c1 \<noteq> 0"
    "mPC c1 = gSABIrqVectors s" "mSFR c1 REG_SP = mSFR c REG_SP + 2" "mTickDelay c1 = 1"
    "irq_stack c1 = irq_stack c @ [(irq_index s, sab_irq_priority (sab_irq_sync E c) s)]"
    "mSABIrqInService c1 = mSABIrqInService c OR SAB_IRQ_BIT s"
    and pop: "pop_return E c1 = (Some (mPC c), d)" "irq_core d = irq_core c1" "mSFR d REG_SP = mSFR c REG_SP"
    "mExceptionRaised d = mExceptionRaised c" "mLastException d = mLastException c"
    and saved: "mSABIrqSavedACC d (unat (mSABIrqDepth c1 - 1)) = mSFR d REG_ACC"
    "mSABIrqSavedPSW d (unat (mSABIrqDepth c1 - 1)) = mSFR d REG_PSW"
    "mSABIrqSavedSP d (unat (mSABIrqDepth c1 - 1)) = mSFR c1 REG_SP"
    by (rule service_entry [OF assms]) blast
  obtain c2 where c2: "reti E c1 = (1, c2)" "mPC c2 = mPC c" "mSFR c2 REG_SP = mSFR d REG_SP"
    "mExceptionRaised c2 = mExceptionRaised d" "mLastException c2 = mLastException d" "mSABIrqInhibitInstructions c2 \<noteq> 0"
    "irq_core c2 = irq_core (d\<lparr>mSABIrqDepth := mSABIrqDepth d - 1, mSABIrqInService := mSABIrqInService d AND
      NOT (push_bit (unat (mSABIrqSourceStack d (unat (mSABIrqDepth d - 1)))) 1)\<rparr>)"
    using reti_top [OF e(2,3) assms(4,3) pop(1,2) saved] by blast
  have "\<not> bit (mSABIrqInService c) (irq_index s)"
    using arbitrate_candidate [OF assms(7)] by (simp add: irq_candidate_def irq_bit_test)
  then have "irq_stack c2 = irq_stack c" "mSABIrqInService c2 = mSABIrqInService c"
    using leave_undoes_enter [OF _ _ _ c2(7)] e(7,8) irq_core_cong(1,4) [OF pop(2)] by metis+
  then show ?thesis using e pop c2 by auto
qed

text \<open>A CPU with a timer 0 request pending and enabled.\<close>

definition timer0_request :: em8051 where
  "timer0_request = sfr_set REG_P3 0xff (sfr_set SAB_IEN0 0x82 (sfr_set REG_TCON TCONMASK_TF0 (sfr_set REG_SP 7 sab_zero)))"

theorem service_returns_witness:
  "mPC (snd (handle_sab_interrupts null_callbacks timer0_request)) = 0x0B \<and>
   mPC (snd (reti null_callbacks (snd (handle_sab_interrupts null_callbacks timer0_request)))) = 0"
proof -
  have "irq_arbitrate (sab_irq_sync null_callbacks timer0_request) = Some EM8051_SAB_IRQ_TIMER0" by code_simp
  moreover have "call_ok timer0_request" "is_sab timer0_request" "mSABIrqInhibitInstructions timer0_request = 0"
    "mSFR timer0_request SAB_IEN0 AND IEMASK_EA \<noteq> 0" "mSABIrqDepth timer0_request < 4" "mPC timer0_request = 0"
    by (simp_all add: call_ok_def push_ok_def iram_cell_def timer0_request_def sab_zero_def zero_cpu_def)
  ultimately show ?thesis
    using service_returns [of timer0_request null_callbacks EM8051_SAB_IRQ_TIMER0] by auto
qed

end
