(* ===== verification/Reachable.thy ===== *)
theory Reachable
  imports IrqNesting RunControl
begin

text \<open>
  The states an embedding program can bring the CPU into, as an inductive relation over the public
  operations, and the invariants that hold in all of them.
\<close>

subsection \<open>Reachable states\<close>

text \<open>
  The states an embedding program can bring a CPU into through the public operations: initialising
  it as any variant, writing its memory buffers, and then any sequence of ticks, runs, resets,
  register writes, pin and line events, analogue inputs, injected frames and requests.
\<close>

inductive reachable :: "em8051_callbacks \<Rightarrow> em8051 \<Rightarrow> bool" for E where
  init: "em8051_init_variant rand v c = (0, c') \<Longrightarrow> reachable E c'"
| load: "reachable E c \<Longrightarrow> reachable E (mBuffers_update f c)"
| reset: "reachable E c \<Longrightarrow> reachable E (reset rand wipe c)"
| tick: "reachable E c \<Longrightarrow> reachable E (snd (tick E c))"
| run: "reachable E c \<Longrightarrow> run_control E h t m c = Some (r, c') \<Longrightarrow> reachable E c'"
| breakpoint: "reachable E c \<Longrightarrow> reachable E (em8051_set_breakpoint pc b c)"
| sfr_write: "reachable E c \<Longrightarrow> reachable E (em8051_sfr_write E a x c)"
| sfr_read: "reachable E c \<Longrightarrow> reachable E (snd (em8051_sfr_read E a c))"
| port_drive: "reachable E c \<Longrightarrow> reachable E (snd (em8051_sab_port_drive E p k l c))"
| port_release: "reachable E c \<Longrightarrow> reachable E (snd (em8051_sab_port_release E p k c))"
| line_drive: "reachable E c \<Longrightarrow> reachable E (snd (em8051_sab_external_drive E s b c))"
| line_release: "reachable E c \<Longrightarrow> reachable E (snd (em8051_sab_external_release E s c))"
| schedule: "reachable E c \<Longrightarrow> reachable E (snd (em8051_sab_external_schedule E e c))"
| clear: "reachable E c \<Longrightarrow> reachable E (em8051_sab_external_clear_schedule c)"
| adc_input: "reachable E c \<Longrightarrow> reachable E (snd (em8051_sab_adc_set_input ch inp c))"
| request: "reachable E c \<Longrightarrow> reachable E (snd (em8051_sab_irq_set_pending E s b c))"
| frame: "reachable E c \<Longrightarrow> reachable E (snd (em8051_sab_uart_inject_rx_frame E d n c))"

lemma reset_irq_inv: "irq_inv (reset rand wipe c)"
proof -
  have "mSABIrqDepth (reset rand wipe c) = 0" "mSABIrqInService (reset rand wipe c) = 0"
    by (simp_all add: reset_def reset_internal_def Let_def split_beta)
  then show ?thesis by (simp add: irq_inv_def irq_stack_def)
qed

lemma init_irq_inv: "em8051_init_variant rand v c = (0, c') \<Longrightarrow> irq_inv c'"
  by (auto simp: em8051_init_variant_def Let_def reset_irq_inv split: option.splits)

lemma external_line_part [simp]:
  "cpu_part (snd (em8051_sab_external_drive E s b c)) = cpu_part c"
  "cpu_part (snd (em8051_sab_external_release E s c)) = cpu_part c"
  by (simp_all add: em8051_sab_external_drive_def em8051_sab_external_release_def split: option.split prod.split)

lemma schedule_part [simp]: "cpu_part (snd (em8051_sab_external_schedule E e c)) = cpu_part c"
  by (simp add: em8051_sab_external_schedule_def Let_def)

lemma peripheral_api_part [simp]:
  "cpu_part (em8051_sab_external_clear_schedule c) = cpu_part c"
  "cpu_part (snd (em8051_sab_adc_set_input ch inp c)) = cpu_part c"
  "cpu_part (snd (em8051_sab_uart_inject_rx_frame E d n c)) = cpu_part c"
  by (simp_all add: em8051_sab_external_clear_schedule_def em8051_sab_adc_set_input_def
      em8051_sab_uart_inject_rx_frame_def Let_def)

lemma set_pending_part [simp]: "cpu_part (snd (em8051_sab_irq_set_pending E s b c)) = cpu_part c"
  by (simp add: em8051_sab_irq_set_pending_def Let_def split_beta ext_rest_cpu_part [OF ext_rest_sab_irq_sync]
    split: option.split)

lemma run_control_keeps:
  assumes "run_control E h t m c = Some (r, c')" "P c"
    and "\<And>c. P c \<Longrightarrow> P (snd (tick E c))" "\<And>c. P c \<Longrightarrow> P (c\<lparr>mExceptionRaised := False, mLastException := -1\<rparr>)"
  shows "P c'"
proof -
  obtain x where "run_loop E (run_stop E h t m (mInstructionCount c)) (c\<lparr>mExceptionRaised := False, mLastException := -1\<rparr>) = Some x"
    "c' = snd x"
    using assms(1) by (auto simp: run_control_def Let_def split: option.splits)
  then show ?thesis using run_loop_ends [of E _ _ x] assms(2-) by blast
qed

lemma part_irq_inv: "cpu_part a = cpu_part b \<Longrightarrow> irq_inv b \<Longrightarrow> irq_inv a"
  using irq_core_cong(2) [OF cpu_part_irq_core] by blast

text \<open>
  C2. The nesting discipline.  In every state an embedding program can reach, with callbacks that leave
  the controller alone, the services in progress form a stack of at most four distinct sources with
  strictly increasing priorities, and the in-service mask is exactly their set; one tick leaves that
  stack alone, enters one source that outranks the top, or leaves the top.
\<close>

theorem reachable_irq_discipline:
  assumes "keeps_irq E" "reachable E c"
  shows "length (irq_stack c) \<le> 4 \<and> irq_inv c \<and> nest_step (irq_stack c) (irq_stack (snd (tick E c)))"
proof -
  have "irq_inv c"
    using assms(2)
  proof induction
    case (load c f)
    then show ?case using irq_core_cong(2) [of "mBuffers_update f c" c] by (simp add: irq_core_def)
  next
    case (run c h t m r c')
    have "irq_inv (c\<lparr>mExceptionRaised := False, mLastException := -1\<rparr>)" if "irq_inv c" for c
      using that irq_core_cong(2) [of "c\<lparr>mExceptionRaised := False, mLastException := -1\<rparr>" c] by (simp add: irq_core_def)
    then show ?case using run_control_keeps [OF run(2), of irq_inv] run.IH tick_nests [OF assms(1)] by blast
  next
    case (breakpoint c pc b)
    then show ?case using irq_core_cong(2) [of "em8051_set_breakpoint pc b c" c] by (simp add: irq_core_def em8051_set_breakpoint_def)
  next
    case (sfr_write c a x)
    then show ?case using irq_core_cong(2) [OF access_frame.F_sfr_write [OF keeps_irq_access [OF assms(1)]]] by simp
  next
    case (sfr_read c a)
    then show ?case using irq_core_cong(2) [OF access_frame.F_sfr_read [OF keeps_irq_access [OF assms(1)]]] by simp
  qed (auto simp: reset_irq_inv init_irq_inv tick_nests [OF assms(1)] intro: part_irq_inv)
  then show ?thesis using tick_nests [OF assms(1), of c] by (simp add: irq_inv_def)
qed

theorem reachable_irq_discipline_witness:
  "irq_inv (snd (tick null_callbacks (snd (em8051_init_variant 0 2 zero_cpu))))"
proof -
  have "em8051_init_variant 0 2 zero_cpu = (0, snd (em8051_init_variant 0 2 zero_cpu))"
    by (simp add: em8051_init_variant_def em8051_get_variant_descriptor_def Let_def)
  then have "reachable null_callbacks (snd (tick null_callbacks (snd (em8051_init_variant 0 2 zero_cpu))))"
    by (intro reachable.tick reachable.init)
  then show ?thesis
    using reachable_irq_discipline [OF null_keeps_irq, of "snd (tick null_callbacks (snd (em8051_init_variant 0 2 zero_cpu)))"]
    by blast
qed

end
