(* ===== verification/TickTime.thy ===== *)
theory TickTime
  imports Exec ServiceFrame
begin

text \<open>
  Virtual time of \<open>tick\<close> (\<open>core.c\<close>): which ticks move the machine-cycle counter, how many cycles a
  pending instruction still takes, and the parity flag an executed instruction leaves.
\<close>

subsection \<open>Parity\<close>

text \<open>The number of one bits of a byte, the reference for the \<open>0x6996\<close> nibble table of the sources.\<close>


definition ones :: "u8 \<Rightarrow> nat" where
  "ones a = length (filter (bit a) [0..<8])"

lemma nibble_table:
  "list_all (\<lambda>n. ucast (drop_bit n (0x6996 :: u16)) AND (1 :: u8) = of_bool (odd (ones (word_of_nat n)))) [0..<16]"
  by code_simp

lemma parity_of_ones: "parity_of a = of_bool (odd (ones a))"
proof -
  define v where "v = (a XOR drop_bit 4 a) AND 0xf"
  have "unat v < 16" using word_and_le1 [of "a XOR drop_bit 4 a" "0xf"] by (simp add: v_def word_le_nat_alt)
  then have "unat v \<in> set [0..<16]" by simp
  then have "parity_of a = of_bool (odd (ones v))"
    using nibble_table unfolding list_all_iff by (fastforce simp: parity_of_def Let_def v_def)
  also have "odd (ones v) = odd (ones a)"
    by (simp add: ones_def upt_conv_Cons v_def bit_and_iff bit_xor_iff bit_drop_bit_eq bit_numeral_rec)
      (simp add: numeral_eq_Suc)
  finally show ?thesis .
qed

subsection \<open>Virtual time\<close>

text \<open>Callbacks that leave the machine-cycle counter alone.\<close>

definition keeps_clock :: "em8051_callbacks \<Rightarrow> bool" where
  "keeps_clock E \<longleftrightarrow>
     (\<forall>f c n. except E = Some f \<longrightarrow> mMachineCycleCount (f c n) = mMachineCycleCount c) \<and>
     (\<forall>f i c a. sfrread E i = Some f \<longrightarrow> mMachineCycleCount (snd (f c a)) = mMachineCycleCount c) \<and>
     (\<forall>f i c a. sfrwrite E i = Some f \<longrightarrow> mMachineCycleCount (f c a) = mMachineCycleCount c) \<and>
     (\<forall>f c x. xread E = Some f \<longrightarrow> mMachineCycleCount (snd (f c x)) = mMachineCycleCount c) \<and>
     (\<forall>f c x v. xwrite E = Some f \<longrightarrow> mMachineCycleCount (f c x v) = mMachineCycleCount c)"

lemma keeps_clock_frame: "keeps_clock E \<Longrightarrow> service_frame E mMachineCycleCount"
  by unfold_locales (auto simp: lower_set_def extdata_set_def keeps_clock_def split: option.split)

lemma null_keeps_clock: "keeps_clock null_callbacks"
  by (simp add: keeps_clock_def)

interpretation null_clock: service_frame null_callbacks mMachineCycleCount
  by (rule keeps_clock_frame [OF null_keeps_clock])

lemma execute_clock: "keeps_clock E \<Longrightarrow> mMachineCycleCount (snd (execute_opcode E c)) = mMachineCycleCount c"
  by (simp add: execute_opcode_def Let_def split_beta service_frame.F_any_op [OF keeps_clock_frame])

lemma parity_fields [simp]:
  "mMachineCycleCount (update_parity c) = mMachineCycleCount c" "mTickDelay (update_parity c) = mTickDelay c"
  by (simp_all add: update_parity_def psw_mod_def)

lemma update_parity_bit: "bit (PSW (update_parity c)) 0 = odd (ones (ACC (update_parity c)))"
  by (simp add: update_parity_def psw_mod_def parity_of_ones bit_or_iff bit_and_iff bit_not_iff)

lemma regs_not_peripheral: "REG_ACC \<notin> peripheral_regs" "REG_PSW \<notin> peripheral_regs"
  by (simp_all add: peripheral_regs_def)

lemma cycle_ticks: "execution_abort E = None \<Longrightarrow> mMachineCycleCount (advance_machine_cycle E c) = mMachineCycleCount c + 1"
  using cycle_clock [of E c] by simp

lemma tick_clock:
  assumes "keeps_clock E" "execution_abort E = None"
  shows "mMachineCycleCount (snd (tick E c)) = mMachineCycleCount c +
    (if mTickDelay c = 0 \<and> mSFR c REG_PCON AND 0x02 \<noteq> 0 then 0 else 1)"
proof -
  have h: "mMachineCycleCount (snd (handle_interrupts E c)) = mMachineCycleCount c"
    by (rule service_frame.F_handle_interrupts [OF keeps_clock_frame [OF assms(1)]])
  have na: "\<not> em8051_execution_aborted E x" for x using assms(2) by (simp add: em8051_execution_aborted_def)
  then have x: "fst (execute_opcode E x)" for x by (simp add: execute_opcode_def Let_def split_beta)
  show ?thesis
    by (simp add: tick_def Let_def split_beta na x h cycle_ticks [OF assms(2)] execute_clock [OF assms(1)])
qed

lemma u64up: "unat (ucast w :: u64) = unat w" for w :: u8
  by (simp add: unat_ucast_up)
lemma unat_pred: "unat (d - 1) + 1 = unat d" if "d \<noteq> 0" for d :: u8
proof -
  have "0 < unat d" using that unat_gt_0 by blast
  then show ?thesis using unat_minus_one [OF that] by linarith
qed
lemma ucast_pred: "d \<noteq> 0 \<Longrightarrow> (ucast d :: u64) = ucast (d - 1) + 1" for d :: u8
proof -
  assume d: "d \<noteq> 0"
  have "unat (ucast (d - 1) + 1 :: u64) = unat (ucast (d - 1) :: u64) + unat (1 :: u64)"
    by (rule unat_add_ok) (use unat_u8 [of "d - 1"] u64up [of "d - 1"] in simp)
  also have "\<dots> = unat (ucast d :: u64)" using unat_pred [OF d] u64up [of d] u64up [of "d - 1"] unat_1 [where 'a = 64] by linarith
  finally show ?thesis by (metis word_unat_eq_iff)
qed

lemma complete_cycles_clock:
  assumes "execution_abort E = None"
  shows "mMachineCycleCount (complete_cycles E c) = mMachineCycleCount c + ucast (mTickDelay c)"
  using assms
proof (induction E c rule: complete_cycles.induct)
  case (1 E c)
  have na: "\<not> em8051_execution_aborted E x" for x using 1(2) by (simp add: em8051_execution_aborted_def)
  show ?case
  proof (cases "mTickDelay c = 0")
    case True
    then show ?thesis by (subst complete_cycles.simps) simp
  next
    case False
    then have t: "snd (tick E c) = advance_machine_cycle E (c\<lparr>mTickDelay := mTickDelay c - 1\<rparr>)"
      by (simp add: tick_pending na)
    have "complete_cycles E c = complete_cycles E (snd (tick E c))" using False na by (subst complete_cycles.simps) simp
    then show ?thesis using 1 False na by (simp add: t cycle_ticks ucast_pred [OF False])
  qed
qed

lemma tick_parity:
  assumes "fst (tick E c)"
  shows "bit (PSW (snd (tick E c))) 0 = odd (ones (ACC (snd (tick E c))))"
proof -
  have "mSFR (advance_machine_cycle E x) REG_ACC = mSFR x REG_ACC" "mSFR (advance_machine_cycle E x) REG_PSW = mSFR x REG_PSW" for x
    using cycle_regs regs_not_peripheral by simp_all
  then show ?thesis
    using assms update_parity_bit by (auto simp: tick_def Let_def split_beta split: if_splits)
qed

text \<open>
  C7. Virtual time.  With callbacks that leave the clock alone and no abort, every tick is one machine
  cycle, except that a powered-down CPU stands still; the cycles an instruction left pending are
  completed one by one; and after an executed instruction the parity flag is the parity of the
  accumulator.
\<close>

theorem tick_is_one_cycle:
  assumes "keeps_clock E" "execution_abort E = None"
  shows "mMachineCycleCount (snd (tick E c)) = mMachineCycleCount c +
           (if mTickDelay c = 0 \<and> mSFR c REG_PCON AND 0x02 \<noteq> 0 then 0 else 1) \<and>
         mMachineCycleCount (complete_cycles E c) = mMachineCycleCount c + ucast (mTickDelay c) \<and>
         (fst (tick E c) \<longrightarrow> bit (PSW (snd (tick E c))) 0 = odd (ones (ACC (snd (tick E c)))))"
  using tick_clock [OF assms] complete_cycles_clock [OF assms(2)] tick_parity by simp

theorem tick_is_one_cycle_witness:
  "mMachineCycleCount (snd (tick null_callbacks sab_zero)) = 1"
  using tick_is_one_cycle [OF null_keeps_clock, of sab_zero] by (simp add: sab_zero_def zero_cpu_def)

end
