(* ===== verification/DispatchTable.thy ===== *)
theory DispatchTable
  imports Dispatch "HOL-Library.RBT_Impl"
begin

text \<open>
  The two dispatchers of \<^verbatim>\<open>opcodes.c\<close> agree.  The assignments of \<open>op_setptrs\<close>, later ones first, are
  sorted and deduplicated in a red-black tree; what is left is the case list of \<open>do_op\<close>.
\<close>

lemma lookup_bulkload_unique:
  fixes xs ys :: "('k::linorder \<times> 'v) list"
  assumes "RBT_Impl.entries (rbt_bulkload xs) = ys"
  shows "map_of xs = map_of ys"
  using assms rbt_lookup_rbt_bulkload [of xs] map_of_entries [of "rbt_bulkload xs"] rbt_bulkload_is_rbt [of xs]
  by (auto simp: is_rbt_def)

lemma fold_update_map_of: "fold (\<lambda>(k, v) f. f(k := v)) xs f k = (case map_of (rev xs) k of None \<Rightarrow> f k | Some v \<Rightarrow> v)"
proof (induction xs arbitrary: f)
  case (Cons x xs)
  then show ?case by (cases x) (auto simp: map_add_def split: option.split)
qed simp

lemma table_is_switch: "RBT_Impl.entries (rbt_bulkload (rev op_assignments)) = do_op_cases"
  by code_simp


lemma do_op_keys: "map fst do_op_cases = map word_of_nat [0..<256]"
  by (simp add: do_op_cases_def op_row_def upt_conv_Cons)

lemma do_op_total: "map_of do_op_cases k \<noteq> None"
proof -
  have "k = word_of_nat (unat k)" "unat k \<in> set [0..<256]" using unat_u8 [of k] by simp_all
  then have "k \<in> set (map fst do_op_cases)" unfolding do_op_keys by (metis image_eqI list.set_map)
  then show ?thesis by (simp add: map_of_eq_None_iff)
qed

lemma table_lookup: "mOp (op_setptrs c) k = the (map_of do_op_cases k)"
proof -
  have "map_of (rev op_assignments) = map_of do_op_cases" by (rule lookup_bulkload_unique [OF table_is_switch])
  then show ?thesis
    using do_op_total [of k] by (auto simp: op_setptrs_def fold_update_map_of)
qed

text \<open>
  C6. One instruction set, two dispatchers.  After \<open>op_setptrs\<close> the function-pointer table holds, for
  each of the 256 opcodes, the handler that the switch of \<open>do_op\<close> calls for it: executing through the
  table and through the switch are the same function of the CPU.
\<close>

theorem dispatchers_agree: "run_op (mOp (op_setptrs d) (OPCODE c)) E c = do_op E c"
  using do_op_total [of "OPCODE c"] by (auto simp: do_op_def table_lookup)

end
