(* ===== verification/Printf.thy ===== *)
theory Printf
  imports Main
begin

text \<open>
  The conversions of C's \<open>printf\<close> family that the sources use for instructions and messages: \<open>%0wX\<close>,
  \<open>%d\<close> and \<open>%+d\<close>, with the facts on their lengths that bound the text buffers.
\<close>

definition hex_digit :: "nat \<Rightarrow> char" where
  "hex_digit d = ''0123456789ABCDEF'' ! d"

fun hex_digits :: "nat \<Rightarrow> string" where
  "hex_digits n = (if n < 16 then [hex_digit n] else hex_digits (n div 16) @ [hex_digit (n mod 16)])"

definition fmt_X :: "nat \<Rightarrow> nat \<Rightarrow> string" where
  "fmt_X w n = (let s = hex_digits n in replicate (w - length s) CHR ''0'' @ s)"

definition dec_digit :: "nat \<Rightarrow> char" where
  "dec_digit d = ''0123456789'' ! d"

fun dec_digits :: "nat \<Rightarrow> string" where
  "dec_digits n = (if n < 10 then [dec_digit n] else dec_digits (n div 10) @ [dec_digit (n mod 10)])"

definition fmt_d :: "int \<Rightarrow> string" where
  "fmt_d i = (if i < 0 then ''-'' @ dec_digits (nat (- i)) else dec_digits (nat i))"

definition fmt_plus_d :: "int \<Rightarrow> string" where
  "fmt_plus_d i = (if i < 0 then ''-'' @ dec_digits (nat (- i)) else ''+'' @ dec_digits (nat i))"

declare hex_digits.simps [simp del] dec_digits.simps [simp del]

subsection \<open>Lengths\<close>

lemma length_hex_digits: "n < 16 ^ Suc w \<Longrightarrow> length (hex_digits n) \<le> Suc w"
proof (induction w arbitrary: n)
  case (Suc w)
  have "length (hex_digits (n div 16)) \<le> Suc w"
    using Suc(2) by (intro Suc(1)) (simp add: less_mult_imp_div_less mult.commute)
  then show ?case by (subst hex_digits.simps) simp
qed (simp add: hex_digits.simps)

lemma length_dec_digits: "n < 10 ^ Suc w \<Longrightarrow> length (dec_digits n) \<le> Suc w"
proof (induction w arbitrary: n)
  case (Suc w)
  have "length (dec_digits (n div 10)) \<le> Suc w"
    using Suc(2) by (intro Suc(1)) (simp add: less_mult_imp_div_less mult.commute)
  then show ?case by (subst dec_digits.simps) simp
qed (simp add: dec_digits.simps)

lemma length_fmt_X: "n < 16 ^ Suc w \<Longrightarrow> length (fmt_X (Suc w) n) = Suc w"
  using length_hex_digits [of n w] by (simp add: fmt_X_def Let_def)

lemma length_fmt_plus_d: "\<bar>i\<bar> < 10 ^ Suc w \<Longrightarrow> length (fmt_plus_d i) \<le> Suc (Suc w)"
  using length_dec_digits [of "nat (- i)" w] length_dec_digits [of "nat i" w]
  by (auto simp: fmt_plus_d_def nat_less_iff)

lemma length_fmt_d: "0 \<le> i \<Longrightarrow> i < 10 ^ Suc w \<Longrightarrow> length (fmt_d i) \<le> Suc w"
  using length_dec_digits [of "nat i" w] by (auto simp: fmt_d_def nat_less_iff)

subsection \<open>Reading back\<close>

text \<open>What the digits say: a number is recovered from its decimal and hexadecimal text.\<close>

definition digit_value :: "char \<Rightarrow> nat" where
  "digit_value ch = (if of_char ch \<le> (57 :: nat) then of_char ch - 48 else of_char ch - 55)"

definition read_base :: "nat \<Rightarrow> string \<Rightarrow> nat" where
  "read_base b s = fold (\<lambda>ch n. b * n + digit_value ch) s 0"

lemma read_base_snoc [simp]: "read_base b (s @ [ch]) = b * read_base b s + digit_value ch"
  by (simp add: read_base_def)

lemma hex_digit_value: "d < 16 \<Longrightarrow> digit_value (hex_digit d) = d"
proof -
  assume "d < 16"
  then have "d \<in> set [0..<16]" by simp
  moreover have "list_all (\<lambda>d. digit_value (hex_digit d) = d) [0..<16]" by code_simp
  ultimately show ?thesis by (simp only: list_all_iff)
qed

lemma dec_digit_value: "d < 10 \<Longrightarrow> digit_value (dec_digit d) = d"
proof -
  assume "d < 10"
  then have "d \<in> set [0..<10]" by simp
  moreover have "list_all (\<lambda>d. digit_value (dec_digit d) = d) [0..<10]" by code_simp
  ultimately show ?thesis by (simp only: list_all_iff)
qed

lemma read_hex_digits: "read_base 16 (hex_digits n) = n"
proof (induction n rule: hex_digits.induct)
  case (1 n)
  then show ?case by (subst hex_digits.simps) (auto simp: read_base_def hex_digit_value)
qed

lemma read_dec_digits: "read_base 10 (dec_digits n) = n"
proof (induction n rule: dec_digits.induct)
  case (1 n)
  then show ?case by (subst dec_digits.simps) (auto simp: read_base_def dec_digit_value)
qed

lemma read_base_zeros: "read_base b (replicate k CHR ''0'' @ s) = read_base b s"
proof -
  have "fold (\<lambda>ch n. b * n + digit_value ch) (replicate k CHR ''0'') 0 = 0"
    by (induction k) (simp_all add: digit_value_def)
  then show ?thesis by (simp add: read_base_def)
qed

lemma read_fmt_X: "read_base 16 (fmt_X w n) = n"
  by (simp add: fmt_X_def Let_def read_base_zeros read_hex_digits)

end
