(* ===== verification/Disasm.thy ===== *)
theory Disasm
  imports Printf Frame
begin

text \<open>
  The disassembler (\<^verbatim>\<open>disasm.c\<close>): names of directly addressed registers and bits, one decoder per
  instruction and the decoding of captured bytes.  A decoder writes text into the caller's buffer
  and returns the instruction's size; its model returns both.  Positions are \<open>uint16_t\<close> and promoted
  to \<open>int\<close> before an operand offset is added; since every access masks the sum with the 16-bit
  \<open>mCodeMemMaxIdx\<close>, and the page of \<open>AJMP\<close> and \<open>ACALL\<close> with \<open>0xf800\<close>, the sum modulo 65536 is the same.
\<close>

type_synonym decoder = "em8051 \<Rightarrow> u16 \<Rightarrow> u8 \<times> string"

definition OPCODE_AT :: "em8051 \<Rightarrow> u16 \<Rightarrow> u8" where
  "OPCODE_AT c p = CODEMEM c (p + 0)"

definition OPERAND1_AT :: "em8051 \<Rightarrow> u16 \<Rightarrow> u8" where
  "OPERAND1_AT c p = CODEMEM c (p + 1)"

definition OPERAND2_AT :: "em8051 \<Rightarrow> u16 \<Rightarrow> u8" where
  "OPERAND2_AT c p = CODEMEM c (p + 2)"

subsection \<open>Names\<close>

text \<open>The register names of the Siemens device, by full address, and of the 8051, by index.\<close>

definition sab_sfr_names :: "(u8 \<times> string) list" where
  "sab_sfr_names =
    [(0xA8, ''IEN0''), (0xA9, ''IP0''), (0xB8, ''IEN1''), (0xB9, ''IP1''), (0xC0, ''IRCON''),
     (0xC1, ''CCEN''), (0xC8, ''T2CON''), (0xCA, ''CRCL''), (0xCB, ''CRCH''), (0xCC, ''TL2''),
     (0xCD, ''TH2''), (0xD8, ''ADCON''), (0xD9, ''ADDAT''), (0xDA, ''DAPR''), (0xDB, ''P6''),
     (0xE8, ''P4''), (0xF8, ''P5'')]"

definition sfr_names :: "(nat \<times> string) list" where
  "sfr_names =
    [(REG_ACC, ''ACC''), (REG_B, ''B''), (REG_PSW, ''PSW''), (REG_SP, ''SP''), (REG_DPL, ''DPL''),
     (REG_DPH, ''DPH''), (REG_P0, ''P0''), (REG_P1, ''P1''), (REG_P2, ''P2''), (REG_P3, ''P3''),
     (REG_IP, ''IP''), (REG_IE, ''IE''), (REG_TMOD, ''TMOD''), (REG_TCON, ''TCON''),
     (REG_TH0, ''TH0''), (REG_TL0, ''TL0''), (REG_TH1, ''TH1''), (REG_TL1, ''TL1''),
     (REG_SCON, ''SCON''), (REG_PCON, ''PCON''), (REG_SBUF, ''SBUF'')]"

definition mem_memonic_for_variant :: "em8051 \<Rightarrow> u8 \<Rightarrow> string" where
  "mem_memonic_for_variant c v =
     (if v > 0x7f then
        (case (if mVariant c = EM8051_VARIANT_SAB80535 then map_of sab_sfr_names v else None) of
           Some name \<Rightarrow> name
         | None \<Rightarrow>
             (case map_of sfr_names (unat v - 0x80) of
                Some name \<Rightarrow> name
              | None \<Rightarrow> fmt_X 2 (unat v) @ ''h''))
      else fmt_X 2 (unat v) @ ''h'')"

definition sab_bit_sfr_names :: "(u8 \<times> string) list" where
  "sab_bit_sfr_names =
    [(0xA8, ''IEN0''), (0xB8, ''IEN1''), (0xC0, ''IRCON''), (0xC8, ''T2CON''), (0xD8, ''ADCON''),
     (0xE8, ''P4''), (0xF8, ''P5'')]"

definition bit_sfr_names :: "(nat \<times> string) list" where
  "bit_sfr_names =
    [(REG_ACC, ''ACC''), (REG_B, ''B''), (REG_PSW, ''PSW''), (REG_SP, ''SP''), (REG_DPL, ''DPL''),
     (REG_DPH, ''DPH''), (REG_P0, ''P0''), (REG_P1, ''P1''), (REG_P2, ''P2''), (REG_P3, ''P3''),
     (REG_IP, ''IP''), (REG_IE, ''IE''), (REG_TMOD, ''TMOD''), (REG_TCON, ''TCON''),
     (REG_TH0, ''TH0''), (REG_TL0, ''TL0''), (REG_TH1, ''TH1''), (REG_TL1, ''TL1''),
     (REG_SCON, ''SCON''), (REG_PCON, ''PCON'')]"

definition bitaddr_regname :: "em8051 \<Rightarrow> u8 \<Rightarrow> string" where
  "bitaddr_regname c v =
     (if v > 0x7f then
        (case (if mVariant c = EM8051_VARIANT_SAB80535 then map_of sab_bit_sfr_names (v AND 0xf8) else None) of
           Some name \<Rightarrow> name
         | None \<Rightarrow>
             (case map_of bit_sfr_names (unat (v AND 0xf8) - 0x80) of
                Some name \<Rightarrow> name
              | None \<Rightarrow> fmt_X 2 (unat (v AND 0xf8)) @ ''h''))
      else fmt_X 2 (unat (drop_bit 3 v)) @ ''h'')"

definition bitaddr_memonic_for_variant :: "em8051 \<Rightarrow> u8 \<Rightarrow> string" where
  "bitaddr_memonic_for_variant c v = bitaddr_regname c v @ ''.'' @ fmt_d (uint (v AND 7))"

text \<open>The target of \<open>AJMP\<close> and \<open>ACALL\<close>: the page of the following instruction and eleven address bits.\<close>

definition page_target :: "em8051 \<Rightarrow> u16 \<Rightarrow> u16" where
  "page_target c p =
     ((p + 2) AND 0xf800) OR ucast (OPERAND1_AT c p) OR push_bit 3 (ucast (OPCODE_AT c p AND 0xe0))"

subsection \<open>Decoders: control transfer\<close>

definition disasm_ajmp_offset :: decoder where
  "disasm_ajmp_offset c p = (2, ''AJMP  #'' @ fmt_X 4 (unat (page_target c p)) @ ''h'')"

definition disasm_ljmp_address :: decoder where
  "disasm_ljmp_address c p =
     (3, ''LJMP  #'' @ fmt_X 4 (unat (push_bit 8 (ucast (OPERAND1_AT c p) :: u16) OR ucast (OPERAND2_AT c p))) @ ''h'')"

definition disasm_jbc_bitaddr_offset :: decoder where
  "disasm_jbc_bitaddr_offset c p =
     (3, ''JBC   '' @ bitaddr_memonic_for_variant c (OPERAND1_AT c p) @ '', #'' @ fmt_plus_d (sint (OPERAND2_AT c p)))"

definition disasm_acall_offset :: decoder where
  "disasm_acall_offset c p = (2, ''ACALL '' @ fmt_X 4 (unat (page_target c p)) @ ''h'')"

definition disasm_lcall_address :: decoder where
  "disasm_lcall_address c p =
     (3, ''LCALL #'' @ fmt_X 4 (unat (push_bit 8 (ucast (OPERAND1_AT c p) :: u16) OR ucast (OPERAND2_AT c p))) @ ''h'')"

definition disasm_jb_bitaddr_offset :: decoder where
  "disasm_jb_bitaddr_offset c p =
     (3, ''JB   '' @ bitaddr_memonic_for_variant c (OPERAND1_AT c p) @ '', #'' @ fmt_plus_d (sint (OPERAND2_AT c p)))"

definition disasm_ret :: decoder where
  "disasm_ret c p = (1, ''RET'')"

definition disasm_jnb_bitaddr_offset :: decoder where
  "disasm_jnb_bitaddr_offset c p =
     (3, ''JNB   '' @ bitaddr_memonic_for_variant c (OPERAND1_AT c p) @ '', #'' @ fmt_plus_d (sint (OPERAND2_AT c p)))"

definition disasm_reti :: decoder where
  "disasm_reti c p = (1, ''RETI'')"

definition disasm_jc_offset :: decoder where
  "disasm_jc_offset c p = (2, ''JC    #'' @ fmt_plus_d (sint (OPERAND1_AT c p)))"

definition disasm_jnc_offset :: decoder where
  "disasm_jnc_offset c p = (2, ''JNC   #'' @ fmt_plus_d (sint (OPERAND1_AT c p)))"

definition disasm_jz_offset :: decoder where
  "disasm_jz_offset c p = (2, ''JZ    #'' @ fmt_plus_d (sint (OPERAND1_AT c p)))"

definition disasm_jnz_offset :: decoder where
  "disasm_jnz_offset c p = (2, ''JNZ   #'' @ fmt_plus_d (sint (OPERAND1_AT c p)))"

definition disasm_jmp_indir_a_dptr :: decoder where
  "disasm_jmp_indir_a_dptr c p = (1, ''JMP   @A+DPTR'')"

definition disasm_sjmp_offset :: decoder where
  "disasm_sjmp_offset c p = (2, ''SJMP  #'' @ fmt_plus_d (sint (OPERAND1_AT c p)))"

definition disasm_cjne_a_imm_offset :: decoder where
  "disasm_cjne_a_imm_offset c p =
     (3, ''CJNE  A, #'' @ fmt_X 2 (unat (OPERAND1_AT c p)) @ ''h, #'' @ fmt_plus_d (sint (OPERAND2_AT c p)))"

definition disasm_cjne_a_mem_offset :: decoder where
  "disasm_cjne_a_mem_offset c p =
     (3, ''CJNE  A, '' @ mem_memonic_for_variant c (OPERAND1_AT c p) @ '', #'' @ fmt_plus_d (sint (OPERAND2_AT c p)))"

definition disasm_cjne_indir_rx_imm_offset :: decoder where
  "disasm_cjne_indir_rx_imm_offset c p =
     (3, ''CJNE  @R'' @ fmt_d (uint (OPCODE_AT c p AND 1)) @ '', #'' @ fmt_X 2 (unat (OPERAND1_AT c p)) @ ''h, #'' @ fmt_plus_d (sint (OPERAND2_AT c p)))"

definition disasm_cjne_rx_imm_offset :: decoder where
  "disasm_cjne_rx_imm_offset c p =
     (3, ''CJNE  R'' @ fmt_d (uint (OPCODE_AT c p AND 7)) @ '', #'' @ fmt_X 2 (unat (OPERAND1_AT c p)) @ ''h, #'' @ fmt_plus_d (sint (OPERAND2_AT c p)))"

definition disasm_djnz_mem_offset :: decoder where
  "disasm_djnz_mem_offset c p =
     (3, ''DJNZ  '' @ mem_memonic_for_variant c (OPERAND1_AT c p) @ '', #'' @ fmt_plus_d (sint (OPERAND2_AT c p)))"

definition disasm_djnz_rx_offset :: decoder where
  "disasm_djnz_rx_offset c p =
     (2, ''DJNZ  R'' @ fmt_d (uint (OPCODE_AT c p AND 7)) @ '', #'' @ fmt_plus_d (sint (OPERAND1_AT c p)))"

definition disasm_nop :: decoder where
  "disasm_nop c p = (1, if OPCODE_AT c p \<noteq> 0 then ''??UNKNOWN'' else ''NOP'')"

subsection \<open>Decoders: arithmetic\<close>

definition disasm_inc_a :: decoder where
  "disasm_inc_a c p = (1, ''INC   A'')"

definition disasm_inc_mem :: decoder where
  "disasm_inc_mem c p = (2, ''INC   '' @ mem_memonic_for_variant c (OPERAND1_AT c p))"

definition disasm_inc_indir_rx :: decoder where
  "disasm_inc_indir_rx c p = (1, ''INC   @R'' @ fmt_d (uint (OPCODE_AT c p AND 1)))"

definition disasm_dec_a :: decoder where
  "disasm_dec_a c p = (1, ''DEC   A'')"

definition disasm_dec_mem :: decoder where
  "disasm_dec_mem c p = (2, ''DEC   '' @ mem_memonic_for_variant c (OPERAND1_AT c p))"

definition disasm_dec_indir_rx :: decoder where
  "disasm_dec_indir_rx c p = (1, ''DEC   @R'' @ fmt_d (uint (OPCODE_AT c p AND 1)))"

definition disasm_add_a_imm :: decoder where
  "disasm_add_a_imm c p = (2, ''ADD   A, #'' @ fmt_X 2 (unat (OPERAND1_AT c p)) @ ''h'')"

definition disasm_add_a_mem :: decoder where
  "disasm_add_a_mem c p = (2, ''ADD   A, '' @ mem_memonic_for_variant c (OPERAND1_AT c p))"

definition disasm_add_a_indir_rx :: decoder where
  "disasm_add_a_indir_rx c p = (1, ''ADD   A, @R'' @ fmt_d (uint (OPCODE_AT c p AND 1)))"

definition disasm_addc_a_imm :: decoder where
  "disasm_addc_a_imm c p = (2, ''ADDC  A, #'' @ fmt_X 2 (unat (OPERAND1_AT c p)) @ ''h'')"

definition disasm_addc_a_mem :: decoder where
  "disasm_addc_a_mem c p = (2, ''ADDC  A, '' @ mem_memonic_for_variant c (OPERAND1_AT c p))"

definition disasm_addc_a_indir_rx :: decoder where
  "disasm_addc_a_indir_rx c p = (1, ''ADDC  A, @R'' @ fmt_d (uint (OPCODE_AT c p AND 1)))"

definition disasm_div_ab :: decoder where
  "disasm_div_ab c p = (1, ''DIV   AB'')"

definition disasm_subb_a_imm :: decoder where
  "disasm_subb_a_imm c p = (2, ''SUBB  A, #'' @ fmt_X 2 (unat (OPERAND1_AT c p)) @ ''h'')"

definition disasm_subb_a_mem :: decoder where
  "disasm_subb_a_mem c p = (2, ''SUBB  A, '' @ mem_memonic_for_variant c (OPERAND1_AT c p))"

definition disasm_subb_a_indir_rx :: decoder where
  "disasm_subb_a_indir_rx c p = (1, ''SUBB  A, @R'' @ fmt_d (uint (OPCODE_AT c p AND 1)))"

definition disasm_inc_dptr :: decoder where
  "disasm_inc_dptr c p = (1, ''INC   DPTR'')"

definition disasm_mul_ab :: decoder where
  "disasm_mul_ab c p = (1, ''MUL   AB'')"

definition disasm_da_a :: decoder where
  "disasm_da_a c p = (1, ''DA    A'')"

definition disasm_inc_rx :: decoder where
  "disasm_inc_rx c p = (1, ''INC   R'' @ fmt_d (uint (OPCODE_AT c p AND 7)))"

definition disasm_dec_rx :: decoder where
  "disasm_dec_rx c p = (1, ''DEC   R'' @ fmt_d (uint (OPCODE_AT c p AND 7)))"

definition disasm_add_a_rx :: decoder where
  "disasm_add_a_rx c p = (1, ''ADD   A, R'' @ fmt_d (uint (OPCODE_AT c p AND 7)))"

definition disasm_addc_a_rx :: decoder where
  "disasm_addc_a_rx c p = (1, ''ADDC  A, R'' @ fmt_d (uint (OPCODE_AT c p AND 7)))"

definition disasm_subb_a_rx :: decoder where
  "disasm_subb_a_rx c p = (1, ''SUBB  A, R'' @ fmt_d (uint (OPCODE_AT c p AND 7)))"

subsection \<open>Decoders: logic on bytes\<close>

definition disasm_rr_a :: decoder where
  "disasm_rr_a c p = (1, ''RR    A'')"

definition disasm_rrc_a :: decoder where
  "disasm_rrc_a c p = (1, ''RRC   A'')"

definition disasm_rl_a :: decoder where
  "disasm_rl_a c p = (1, ''RL    A'')"

definition disasm_rlc_a :: decoder where
  "disasm_rlc_a c p = (1, ''RLC   A'')"

definition disasm_orl_mem_a :: decoder where
  "disasm_orl_mem_a c p = (2, ''ORL   '' @ mem_memonic_for_variant c (OPERAND1_AT c p) @ '', A'')"

definition disasm_orl_mem_imm :: decoder where
  "disasm_orl_mem_imm c p =
     (3, ''ORL   '' @ mem_memonic_for_variant c (OPERAND1_AT c p) @ '', #'' @ fmt_X 2 (unat (OPERAND2_AT c p)) @ ''h'')"

definition disasm_orl_a_imm :: decoder where
  "disasm_orl_a_imm c p = (2, ''ORL   A, #'' @ fmt_X 2 (unat (OPERAND1_AT c p)) @ ''h'')"

definition disasm_orl_a_mem :: decoder where
  "disasm_orl_a_mem c p = (2, ''ORL   A, '' @ mem_memonic_for_variant c (OPERAND1_AT c p))"

definition disasm_orl_a_indir_rx :: decoder where
  "disasm_orl_a_indir_rx c p = (1, ''ORL   A, @R'' @ fmt_d (uint (OPCODE_AT c p AND 1)))"

definition disasm_anl_mem_a :: decoder where
  "disasm_anl_mem_a c p = (2, ''ANL   '' @ mem_memonic_for_variant c (OPERAND1_AT c p) @ '', A'')"

definition disasm_anl_mem_imm :: decoder where
  "disasm_anl_mem_imm c p =
     (3, ''ANL   '' @ mem_memonic_for_variant c (OPERAND1_AT c p) @ '', #'' @ fmt_X 2 (unat (OPERAND2_AT c p)) @ ''h'')"

definition disasm_anl_a_imm :: decoder where
  "disasm_anl_a_imm c p = (2, ''ANL   A, #'' @ fmt_X 2 (unat (OPERAND1_AT c p)) @ ''h'')"

definition disasm_anl_a_mem :: decoder where
  "disasm_anl_a_mem c p = (2, ''ANL   A, '' @ mem_memonic_for_variant c (OPERAND1_AT c p))"

definition disasm_anl_a_indir_rx :: decoder where
  "disasm_anl_a_indir_rx c p = (1, ''ANL   A, @R'' @ fmt_d (uint (OPCODE_AT c p AND 1)))"

definition disasm_xrl_mem_a :: decoder where
  "disasm_xrl_mem_a c p = (2, ''XRL   '' @ mem_memonic_for_variant c (OPERAND1_AT c p) @ '', A'')"

definition disasm_xrl_mem_imm :: decoder where
  "disasm_xrl_mem_imm c p =
     (3, ''XRL   '' @ mem_memonic_for_variant c (OPERAND1_AT c p) @ '', #'' @ fmt_X 2 (unat (OPERAND2_AT c p)) @ ''h'')"

definition disasm_xrl_a_imm :: decoder where
  "disasm_xrl_a_imm c p = (2, ''XRL   A, #'' @ fmt_X 2 (unat (OPERAND1_AT c p)) @ ''h'')"

definition disasm_xrl_a_mem :: decoder where
  "disasm_xrl_a_mem c p = (2, ''XRL   A, '' @ mem_memonic_for_variant c (OPERAND1_AT c p))"

definition disasm_xrl_a_indir_rx :: decoder where
  "disasm_xrl_a_indir_rx c p = (1, ''XRL   A, @R'' @ fmt_d (uint (OPCODE_AT c p AND 1)))"

definition disasm_swap_a :: decoder where
  "disasm_swap_a c p = (1, ''SWAP  A'')"

definition disasm_clr_a :: decoder where
  "disasm_clr_a c p = (1, ''CLR   A'')"

definition disasm_cpl_a :: decoder where
  "disasm_cpl_a c p = (1, ''CPL   A'')"

definition disasm_orl_a_rx :: decoder where
  "disasm_orl_a_rx c p = (1, ''ORL   A, R'' @ fmt_d (uint (OPCODE_AT c p AND 7)))"

definition disasm_anl_a_rx :: decoder where
  "disasm_anl_a_rx c p = (1, ''ANL   A, R'' @ fmt_d (uint (OPCODE_AT c p AND 7)))"

definition disasm_xrl_a_rx :: decoder where
  "disasm_xrl_a_rx c p = (1, ''XRL   A, R'' @ fmt_d (uint (OPCODE_AT c p AND 7)))"

subsection \<open>Decoders: bits and the carry\<close>

definition disasm_orl_c_bitaddr :: decoder where
  "disasm_orl_c_bitaddr c p = (2, ''ORL   C, '' @ bitaddr_memonic_for_variant c (OPERAND1_AT c p))"

definition disasm_anl_c_bitaddr :: decoder where
  "disasm_anl_c_bitaddr c p = (2, ''ANL   C, '' @ bitaddr_memonic_for_variant c (OPERAND1_AT c p))"

definition disasm_mov_bitaddr_c :: decoder where
  "disasm_mov_bitaddr_c c p = (2, ''MOV   '' @ bitaddr_memonic_for_variant c (OPERAND1_AT c p) @ '', C'')"

definition disasm_orl_c_compl_bitaddr :: decoder where
  "disasm_orl_c_compl_bitaddr c p = (2, ''ORL   C, /'' @ bitaddr_memonic_for_variant c (OPERAND1_AT c p))"

definition disasm_mov_c_bitaddr :: decoder where
  "disasm_mov_c_bitaddr c p = (2, ''MOV   C, '' @ bitaddr_memonic_for_variant c (OPERAND1_AT c p))"

definition disasm_anl_c_compl_bitaddr :: decoder where
  "disasm_anl_c_compl_bitaddr c p = (2, ''ANL   C, /'' @ bitaddr_memonic_for_variant c (OPERAND1_AT c p))"

definition disasm_cpl_bitaddr :: decoder where
  "disasm_cpl_bitaddr c p = (2, ''CPL   '' @ bitaddr_memonic_for_variant c (OPERAND1_AT c p))"

definition disasm_cpl_c :: decoder where
  "disasm_cpl_c c p = (1, ''CPL   C'')"

definition disasm_clr_bitaddr :: decoder where
  "disasm_clr_bitaddr c p = (2, ''CLR   '' @ bitaddr_memonic_for_variant c (OPERAND1_AT c p))"

definition disasm_clr_c :: decoder where
  "disasm_clr_c c p = (1, ''CLR   C'')"

definition disasm_setb_bitaddr :: decoder where
  "disasm_setb_bitaddr c p = (2, ''SETB  '' @ bitaddr_memonic_for_variant c (OPERAND1_AT c p))"

definition disasm_setb_c :: decoder where
  "disasm_setb_c c p = (1, ''SETB  C'')"

subsection \<open>Decoders: data transfer\<close>

definition disasm_mov_a_imm :: decoder where
  "disasm_mov_a_imm c p = (2, ''MOV   A, #'' @ fmt_X 2 (unat (OPERAND1_AT c p)) @ ''h'')"

definition disasm_mov_mem_imm :: decoder where
  "disasm_mov_mem_imm c p =
     (3, ''MOV   '' @ mem_memonic_for_variant c (OPERAND1_AT c p) @ '', #'' @ fmt_X 2 (unat (OPERAND2_AT c p)) @ ''h'')"

definition disasm_mov_indir_rx_imm :: decoder where
  "disasm_mov_indir_rx_imm c p =
     (2, ''MOV   @R'' @ fmt_d (uint (OPCODE_AT c p AND 1)) @ '', #'' @ fmt_X 2 (unat (OPERAND1_AT c p)) @ ''h'')"

definition disasm_movc_a_indir_a_pc :: decoder where
  "disasm_movc_a_indir_a_pc c p = (1, ''MOVC  A, @A+PC'')"

definition disasm_mov_mem_mem :: decoder where
  "disasm_mov_mem_mem c p =
     (3, ''MOV   '' @ mem_memonic_for_variant c (OPERAND2_AT c p) @ '', '' @ mem_memonic_for_variant c (OPERAND1_AT c p))"

definition disasm_mov_mem_indir_rx :: decoder where
  "disasm_mov_mem_indir_rx c p =
     (2, ''MOV   '' @ mem_memonic_for_variant c (OPERAND1_AT c p) @ '', @R'' @ fmt_d (uint (OPCODE_AT c p AND 1)))"

definition disasm_mov_dptr_imm :: decoder where
  "disasm_mov_dptr_imm c p =
     (3, ''MOV   DPTR, #0'' @ fmt_X 2 (unat (OPERAND1_AT c p)) @ fmt_X 2 (unat (OPERAND2_AT c p)) @ ''h'')"

definition disasm_movc_a_indir_a_dptr :: decoder where
  "disasm_movc_a_indir_a_dptr c p = (1, ''MOVC  A, @A+DPTR'')"

definition disasm_mov_indir_rx_mem :: decoder where
  "disasm_mov_indir_rx_mem c p =
     (2, ''MOV   @R'' @ fmt_d (uint (OPCODE_AT c p AND 1)) @ '', '' @ mem_memonic_for_variant c (OPERAND1_AT c p))"

definition disasm_push_mem :: decoder where
  "disasm_push_mem c p = (2, ''PUSH  '' @ mem_memonic_for_variant c (OPERAND1_AT c p))"

definition disasm_xch_a_mem :: decoder where
  "disasm_xch_a_mem c p = (2, ''XCH   A, '' @ mem_memonic_for_variant c (OPERAND1_AT c p))"

definition disasm_xch_a_indir_rx :: decoder where
  "disasm_xch_a_indir_rx c p = (1, ''XCH   A, @R'' @ fmt_d (uint (OPCODE_AT c p AND 1)))"

definition disasm_pop_mem :: decoder where
  "disasm_pop_mem c p = (2, ''POP   '' @ mem_memonic_for_variant c (OPERAND1_AT c p))"

definition disasm_xchd_a_indir_rx :: decoder where
  "disasm_xchd_a_indir_rx c p = (1, ''XCHD  A, @R'' @ fmt_d (uint (OPCODE_AT c p AND 1)))"

definition disasm_movx_a_indir_dptr :: decoder where
  "disasm_movx_a_indir_dptr c p = (1, ''MOVX  A, @DPTR'')"

definition disasm_movx_a_indir_rx :: decoder where
  "disasm_movx_a_indir_rx c p = (1, ''MOVX  A, @R'' @ fmt_d (uint (OPCODE_AT c p AND 1)))"

definition disasm_mov_a_mem :: decoder where
  "disasm_mov_a_mem c p = (2, ''MOV   A, '' @ mem_memonic_for_variant c (OPERAND1_AT c p))"

definition disasm_mov_a_indir_rx :: decoder where
  "disasm_mov_a_indir_rx c p = (1, ''MOV   A, @R'' @ fmt_d (uint (OPCODE_AT c p AND 1)))"

definition disasm_movx_indir_dptr_a :: decoder where
  "disasm_movx_indir_dptr_a c p = (1, ''MOVX  @DPTR, A'')"

definition disasm_movx_indir_rx_a :: decoder where
  "disasm_movx_indir_rx_a c p = (1, ''MOVX  @R'' @ fmt_d (uint (OPCODE_AT c p AND 1)) @ '', A'')"

definition disasm_mov_mem_a :: decoder where
  "disasm_mov_mem_a c p = (2, ''MOV   '' @ mem_memonic_for_variant c (OPERAND1_AT c p) @ '', A'')"

definition disasm_mov_indir_rx_a :: decoder where
  "disasm_mov_indir_rx_a c p = (1, ''MOV   @R'' @ fmt_d (uint (OPCODE_AT c p AND 1)) @ '', A'')"

definition disasm_mov_rx_imm :: decoder where
  "disasm_mov_rx_imm c p =
     (2, ''MOV   R'' @ fmt_d (uint (OPCODE_AT c p AND 7)) @ '', #'' @ fmt_X 2 (unat (OPERAND1_AT c p)) @ ''h'')"

definition disasm_mov_mem_rx :: decoder where
  "disasm_mov_mem_rx c p =
     (2, ''MOV   '' @ mem_memonic_for_variant c (OPERAND1_AT c p) @ '', R'' @ fmt_d (uint (OPCODE_AT c p AND 7)))"

definition disasm_mov_rx_mem :: decoder where
  "disasm_mov_rx_mem c p =
     (2, ''MOV   R'' @ fmt_d (uint (OPCODE_AT c p AND 7)) @ '', '' @ mem_memonic_for_variant c (OPERAND1_AT c p))"

definition disasm_xch_a_rx :: decoder where
  "disasm_xch_a_rx c p = (1, ''XCH   A, R'' @ fmt_d (uint (OPCODE_AT c p AND 7)))"

definition disasm_mov_a_rx :: decoder where
  "disasm_mov_a_rx c p = (1, ''MOV   A, R'' @ fmt_d (uint (OPCODE_AT c p AND 7)))"

definition disasm_mov_rx_a :: decoder where
  "disasm_mov_rx_a c p = (1, ''MOV   R'' @ fmt_d (uint (OPCODE_AT c p AND 7)) @ '', A'')"

subsection \<open>The decoder table and its clients\<close>

definition disasm_rows :: "(u8 \<times> decoder) list" where
  "disasm_rows =
    [(0x08, disasm_inc_rx), (0x18, disasm_dec_rx), (0x28, disasm_add_a_rx), (0x38, disasm_addc_a_rx),
     (0x48, disasm_orl_a_rx), (0x58, disasm_anl_a_rx), (0x68, disasm_xrl_a_rx),
     (0x78, disasm_mov_rx_imm), (0x88, disasm_mov_mem_rx), (0x98, disasm_subb_a_rx),
     (0xa8, disasm_mov_rx_mem), (0xb8, disasm_cjne_rx_imm_offset), (0xc8, disasm_xch_a_rx),
     (0xd8, disasm_djnz_rx_offset), (0xe8, disasm_mov_a_rx), (0xf8, disasm_mov_rx_a)]"

definition disasm_singles :: "(u8 \<times> decoder) list" where
  "disasm_singles =
    [(0x00, disasm_nop), (0x01, disasm_ajmp_offset), (0x02, disasm_ljmp_address), (0x03, disasm_rr_a),
     (0x04, disasm_inc_a), (0x05, disasm_inc_mem), (0x06, disasm_inc_indir_rx),
     (0x07, disasm_inc_indir_rx), (0x10, disasm_jbc_bitaddr_offset), (0x11, disasm_acall_offset),
     (0x12, disasm_lcall_address), (0x13, disasm_rrc_a), (0x14, disasm_dec_a), (0x15, disasm_dec_mem),
     (0x16, disasm_dec_indir_rx), (0x17, disasm_dec_indir_rx), (0x20, disasm_jb_bitaddr_offset),
     (0x21, disasm_ajmp_offset), (0x22, disasm_ret), (0x23, disasm_rl_a), (0x24, disasm_add_a_imm),
     (0x25, disasm_add_a_mem), (0x26, disasm_add_a_indir_rx), (0x27, disasm_add_a_indir_rx),
     (0x30, disasm_jnb_bitaddr_offset), (0x31, disasm_acall_offset), (0x32, disasm_reti),
     (0x33, disasm_rlc_a), (0x34, disasm_addc_a_imm), (0x35, disasm_addc_a_mem),
     (0x36, disasm_addc_a_indir_rx), (0x37, disasm_addc_a_indir_rx), (0x40, disasm_jc_offset),
     (0x41, disasm_ajmp_offset), (0x42, disasm_orl_mem_a), (0x43, disasm_orl_mem_imm),
     (0x44, disasm_orl_a_imm), (0x45, disasm_orl_a_mem), (0x46, disasm_orl_a_indir_rx),
     (0x47, disasm_orl_a_indir_rx), (0x50, disasm_jnc_offset), (0x51, disasm_acall_offset),
     (0x52, disasm_anl_mem_a), (0x53, disasm_anl_mem_imm), (0x54, disasm_anl_a_imm),
     (0x55, disasm_anl_a_mem), (0x56, disasm_anl_a_indir_rx), (0x57, disasm_anl_a_indir_rx),
     (0x60, disasm_jz_offset), (0x61, disasm_ajmp_offset), (0x62, disasm_xrl_mem_a),
     (0x63, disasm_xrl_mem_imm), (0x64, disasm_xrl_a_imm), (0x65, disasm_xrl_a_mem),
     (0x66, disasm_xrl_a_indir_rx), (0x67, disasm_xrl_a_indir_rx), (0x70, disasm_jnz_offset),
     (0x71, disasm_acall_offset), (0x72, disasm_orl_c_bitaddr), (0x73, disasm_jmp_indir_a_dptr),
     (0x74, disasm_mov_a_imm), (0x75, disasm_mov_mem_imm), (0x76, disasm_mov_indir_rx_imm),
     (0x77, disasm_mov_indir_rx_imm), (0x80, disasm_sjmp_offset), (0x81, disasm_ajmp_offset),
     (0x82, disasm_anl_c_bitaddr), (0x83, disasm_movc_a_indir_a_pc), (0x84, disasm_div_ab),
     (0x85, disasm_mov_mem_mem), (0x86, disasm_mov_mem_indir_rx), (0x87, disasm_mov_mem_indir_rx),
     (0x90, disasm_mov_dptr_imm), (0x91, disasm_acall_offset), (0x92, disasm_mov_bitaddr_c),
     (0x93, disasm_movc_a_indir_a_dptr), (0x94, disasm_subb_a_imm), (0x95, disasm_subb_a_mem),
     (0x96, disasm_subb_a_indir_rx), (0x97, disasm_subb_a_indir_rx),
     (0xa0, disasm_orl_c_compl_bitaddr), (0xa1, disasm_ajmp_offset), (0xa2, disasm_mov_c_bitaddr),
     (0xa3, disasm_inc_dptr), (0xa4, disasm_mul_ab), (0xa5, disasm_nop),
     (0xa6, disasm_mov_indir_rx_mem), (0xa7, disasm_mov_indir_rx_mem),
     (0xb0, disasm_anl_c_compl_bitaddr), (0xb1, disasm_acall_offset), (0xb2, disasm_cpl_bitaddr),
     (0xb3, disasm_cpl_c), (0xb4, disasm_cjne_a_imm_offset), (0xb5, disasm_cjne_a_mem_offset),
     (0xb6, disasm_cjne_indir_rx_imm_offset), (0xb7, disasm_cjne_indir_rx_imm_offset),
     (0xc0, disasm_push_mem), (0xc1, disasm_ajmp_offset), (0xc2, disasm_clr_bitaddr),
     (0xc3, disasm_clr_c), (0xc4, disasm_swap_a), (0xc5, disasm_xch_a_mem),
     (0xc6, disasm_xch_a_indir_rx), (0xc7, disasm_xch_a_indir_rx), (0xd0, disasm_pop_mem),
     (0xd1, disasm_acall_offset), (0xd2, disasm_setb_bitaddr), (0xd3, disasm_setb_c),
     (0xd4, disasm_da_a), (0xd5, disasm_djnz_mem_offset), (0xd6, disasm_xchd_a_indir_rx),
     (0xd7, disasm_xchd_a_indir_rx), (0xe0, disasm_movx_a_indir_dptr), (0xe1, disasm_ajmp_offset),
     (0xe2, disasm_movx_a_indir_rx), (0xe3, disasm_movx_a_indir_rx), (0xe4, disasm_clr_a),
     (0xe5, disasm_mov_a_mem), (0xe6, disasm_mov_a_indir_rx), (0xe7, disasm_mov_a_indir_rx),
     (0xf0, disasm_movx_indir_dptr_a), (0xf1, disasm_acall_offset), (0xf2, disasm_movx_indir_rx_a),
     (0xf3, disasm_movx_indir_rx_a), (0xf4, disasm_cpl_a), (0xf5, disasm_mov_mem_a),
     (0xf6, disasm_mov_indir_rx_a), (0xf7, disasm_mov_indir_rx_a)]"

definition disasm_assignments :: "(u8 \<times> decoder) list" where
  "disasm_assignments =
     concat (map (\<lambda>i. map (\<lambda>(base, d). (base + i, d)) disasm_rows) [0, 1, 2, 3, 4, 5, 6, 7]) @ disasm_singles"

definition disasm_setptrs :: "(u8 \<Rightarrow> decoder) \<Rightarrow> u8 \<Rightarrow> decoder" where
  "disasm_setptrs dec = fold (\<lambda>(opcode, d) table. table(opcode := d)) disasm_assignments dec"

definition decode :: "(u8 \<Rightarrow> decoder) \<Rightarrow> decoder" where
  "decode dec c p =
     (if mSFR c REG_PCON AND 0x01 \<noteq> 0 then (0, ''IDLE'')
      else if mSFR c REG_PCON AND 0x02 \<noteq> 0 then (0, ''POWER DOWN'')
      else dec (CODEMEM c p) c p)"

text \<open>
  \<open>em8051_decode_captured\<close> decodes up to three captured bytes through a circular view of four bytes.
  An incomplete instruction is not printed.
\<close>

definition captured_view :: "em8051 \<Rightarrow> u16 \<Rightarrow> (nat \<Rightarrow> u8) \<Rightarrow> nat \<Rightarrow> em8051" where
  "captured_view c pc bytes count = zero_cpu\<lparr>mVariant := mVariant c, mCodeMem := Some 0, mCodeMemMaxIdx := 3,
     mBuffers := (\<lambda>_. fold (\<lambda>i code. code((pc + word_of_nat i) AND 3 := bytes i)) [0..<count] (\<lambda>_. 0))\<rparr>"

definition em8051_decode_captured :: "(u8 \<Rightarrow> decoder) \<Rightarrow> em8051 \<Rightarrow> u16 \<Rightarrow> (nat \<Rightarrow> u8) \<Rightarrow> nat \<Rightarrow> u8 \<times> string" where
  "em8051_decode_captured dec c pc bytes count =
     (if count = 0 \<or> count > 3 then (0, [])
      else let (size, staged) = dec (bytes 0) (captured_view c pc bytes count) pc
           in (size, if unat size \<le> count then take 96 staged else []))"

lemmas disasm_jump_defs = disasm_ajmp_offset_def disasm_ljmp_address_def disasm_jbc_bitaddr_offset_def
  disasm_acall_offset_def disasm_lcall_address_def disasm_jb_bitaddr_offset_def disasm_ret_def
  disasm_jnb_bitaddr_offset_def disasm_reti_def disasm_jc_offset_def disasm_jnc_offset_def
  disasm_jz_offset_def disasm_jnz_offset_def disasm_jmp_indir_a_dptr_def disasm_sjmp_offset_def
  disasm_cjne_a_imm_offset_def disasm_cjne_a_mem_offset_def disasm_cjne_indir_rx_imm_offset_def
  disasm_cjne_rx_imm_offset_def disasm_djnz_mem_offset_def disasm_djnz_rx_offset_def disasm_nop_def

lemmas disasm_arith_defs = disasm_inc_a_def disasm_inc_mem_def disasm_inc_indir_rx_def disasm_dec_a_def
  disasm_dec_mem_def disasm_dec_indir_rx_def disasm_add_a_imm_def disasm_add_a_mem_def
  disasm_add_a_indir_rx_def disasm_addc_a_imm_def disasm_addc_a_mem_def disasm_addc_a_indir_rx_def
  disasm_div_ab_def disasm_subb_a_imm_def disasm_subb_a_mem_def disasm_subb_a_indir_rx_def
  disasm_inc_dptr_def disasm_mul_ab_def disasm_da_a_def disasm_inc_rx_def disasm_dec_rx_def
  disasm_add_a_rx_def disasm_addc_a_rx_def disasm_subb_a_rx_def

lemmas disasm_logic_defs = disasm_rr_a_def disasm_rrc_a_def disasm_rl_a_def disasm_rlc_a_def
  disasm_orl_mem_a_def disasm_orl_mem_imm_def disasm_orl_a_imm_def disasm_orl_a_mem_def
  disasm_orl_a_indir_rx_def disasm_anl_mem_a_def disasm_anl_mem_imm_def disasm_anl_a_imm_def
  disasm_anl_a_mem_def disasm_anl_a_indir_rx_def disasm_xrl_mem_a_def disasm_xrl_mem_imm_def
  disasm_xrl_a_imm_def disasm_xrl_a_mem_def disasm_xrl_a_indir_rx_def disasm_swap_a_def disasm_clr_a_def
  disasm_cpl_a_def disasm_orl_a_rx_def disasm_anl_a_rx_def disasm_xrl_a_rx_def

lemmas disasm_bit_defs = disasm_orl_c_bitaddr_def disasm_anl_c_bitaddr_def disasm_mov_bitaddr_c_def
  disasm_orl_c_compl_bitaddr_def disasm_mov_c_bitaddr_def disasm_anl_c_compl_bitaddr_def
  disasm_cpl_bitaddr_def disasm_cpl_c_def disasm_clr_bitaddr_def disasm_clr_c_def
  disasm_setb_bitaddr_def disasm_setb_c_def

lemmas disasm_move_defs = disasm_mov_a_imm_def disasm_mov_mem_imm_def disasm_mov_indir_rx_imm_def
  disasm_movc_a_indir_a_pc_def disasm_mov_mem_mem_def disasm_mov_mem_indir_rx_def
  disasm_mov_dptr_imm_def disasm_movc_a_indir_a_dptr_def disasm_mov_indir_rx_mem_def disasm_push_mem_def
  disasm_xch_a_mem_def disasm_xch_a_indir_rx_def disasm_pop_mem_def disasm_xchd_a_indir_rx_def
  disasm_movx_a_indir_dptr_def disasm_movx_a_indir_rx_def disasm_mov_a_mem_def disasm_mov_a_indir_rx_def
  disasm_movx_indir_dptr_a_def disasm_movx_indir_rx_a_def disasm_mov_mem_a_def disasm_mov_indir_rx_a_def
  disasm_mov_rx_imm_def disasm_mov_mem_rx_def disasm_mov_rx_mem_def disasm_xch_a_rx_def
  disasm_mov_a_rx_def disasm_mov_rx_a_def

end
