(* ===== verification/DisasmTable.thy ===== *)
theory DisasmTable
  imports Disasm DispatchTable OpFrame
begin

text \<open>
  Facts on the disassembler: its table against the handler table, the bounds of what it prints and
  the decoding of captured bytes.
\<close>

subsection \<open>Decoders by handler\<close>

fun disasm_jump_op :: "jump_op \<Rightarrow> decoder" where
  "disasm_jump_op op_ajmp_offset = disasm_ajmp_offset"
| "disasm_jump_op op_ljmp_address = disasm_ljmp_address"
| "disasm_jump_op op_jbc_bitaddr_offset = disasm_jbc_bitaddr_offset"
| "disasm_jump_op op_acall_offset = disasm_acall_offset"
| "disasm_jump_op op_lcall_address = disasm_lcall_address"
| "disasm_jump_op op_jb_bitaddr_offset = disasm_jb_bitaddr_offset"
| "disasm_jump_op op_ret = disasm_ret"
| "disasm_jump_op op_jnb_bitaddr_offset = disasm_jnb_bitaddr_offset"
| "disasm_jump_op op_reti = disasm_reti"
| "disasm_jump_op op_jc_offset = disasm_jc_offset"
| "disasm_jump_op op_jnc_offset = disasm_jnc_offset"
| "disasm_jump_op op_jz_offset = disasm_jz_offset"
| "disasm_jump_op op_jnz_offset = disasm_jnz_offset"
| "disasm_jump_op op_jmp_indir_a_dptr = disasm_jmp_indir_a_dptr"
| "disasm_jump_op op_sjmp_offset = disasm_sjmp_offset"
| "disasm_jump_op op_cjne_a_imm_offset = disasm_cjne_a_imm_offset"
| "disasm_jump_op op_cjne_a_mem_offset = disasm_cjne_a_mem_offset"
| "disasm_jump_op op_cjne_indir_rx_imm_offset = disasm_cjne_indir_rx_imm_offset"
| "disasm_jump_op op_cjne_rx_imm_offset = disasm_cjne_rx_imm_offset"
| "disasm_jump_op op_djnz_mem_offset = disasm_djnz_mem_offset"
| "disasm_jump_op op_djnz_rx_offset = disasm_djnz_rx_offset"
| "disasm_jump_op op_nop = disasm_nop"

fun disasm_arith_op :: "arith_op \<Rightarrow> decoder" where
  "disasm_arith_op op_inc_a = disasm_inc_a"
| "disasm_arith_op op_inc_mem = disasm_inc_mem"
| "disasm_arith_op op_inc_indir_rx = disasm_inc_indir_rx"
| "disasm_arith_op op_dec_a = disasm_dec_a"
| "disasm_arith_op op_dec_mem = disasm_dec_mem"
| "disasm_arith_op op_dec_indir_rx = disasm_dec_indir_rx"
| "disasm_arith_op op_add_a_imm = disasm_add_a_imm"
| "disasm_arith_op op_add_a_mem = disasm_add_a_mem"
| "disasm_arith_op op_add_a_indir_rx = disasm_add_a_indir_rx"
| "disasm_arith_op op_addc_a_imm = disasm_addc_a_imm"
| "disasm_arith_op op_addc_a_mem = disasm_addc_a_mem"
| "disasm_arith_op op_addc_a_indir_rx = disasm_addc_a_indir_rx"
| "disasm_arith_op op_div_ab = disasm_div_ab"
| "disasm_arith_op op_subb_a_imm = disasm_subb_a_imm"
| "disasm_arith_op op_subb_a_mem = disasm_subb_a_mem"
| "disasm_arith_op op_subb_a_indir_rx = disasm_subb_a_indir_rx"
| "disasm_arith_op op_inc_dptr = disasm_inc_dptr"
| "disasm_arith_op op_mul_ab = disasm_mul_ab"
| "disasm_arith_op op_da_a = disasm_da_a"
| "disasm_arith_op op_inc_rx = disasm_inc_rx"
| "disasm_arith_op op_dec_rx = disasm_dec_rx"
| "disasm_arith_op op_add_a_rx = disasm_add_a_rx"
| "disasm_arith_op op_addc_a_rx = disasm_addc_a_rx"
| "disasm_arith_op op_subb_a_rx = disasm_subb_a_rx"

fun disasm_logic_op :: "logic_op \<Rightarrow> decoder" where
  "disasm_logic_op op_rr_a = disasm_rr_a"
| "disasm_logic_op op_rrc_a = disasm_rrc_a"
| "disasm_logic_op op_rl_a = disasm_rl_a"
| "disasm_logic_op op_rlc_a = disasm_rlc_a"
| "disasm_logic_op op_orl_mem_a = disasm_orl_mem_a"
| "disasm_logic_op op_orl_mem_imm = disasm_orl_mem_imm"
| "disasm_logic_op op_orl_a_imm = disasm_orl_a_imm"
| "disasm_logic_op op_orl_a_mem = disasm_orl_a_mem"
| "disasm_logic_op op_orl_a_indir_rx = disasm_orl_a_indir_rx"
| "disasm_logic_op op_anl_mem_a = disasm_anl_mem_a"
| "disasm_logic_op op_anl_mem_imm = disasm_anl_mem_imm"
| "disasm_logic_op op_anl_a_imm = disasm_anl_a_imm"
| "disasm_logic_op op_anl_a_mem = disasm_anl_a_mem"
| "disasm_logic_op op_anl_a_indir_rx = disasm_anl_a_indir_rx"
| "disasm_logic_op op_xrl_mem_a = disasm_xrl_mem_a"
| "disasm_logic_op op_xrl_mem_imm = disasm_xrl_mem_imm"
| "disasm_logic_op op_xrl_a_imm = disasm_xrl_a_imm"
| "disasm_logic_op op_xrl_a_mem = disasm_xrl_a_mem"
| "disasm_logic_op op_xrl_a_indir_rx = disasm_xrl_a_indir_rx"
| "disasm_logic_op op_swap_a = disasm_swap_a"
| "disasm_logic_op op_clr_a = disasm_clr_a"
| "disasm_logic_op op_cpl_a = disasm_cpl_a"
| "disasm_logic_op op_orl_a_rx = disasm_orl_a_rx"
| "disasm_logic_op op_anl_a_rx = disasm_anl_a_rx"
| "disasm_logic_op op_xrl_a_rx = disasm_xrl_a_rx"

fun disasm_bit_op :: "bit_op \<Rightarrow> decoder" where
  "disasm_bit_op op_orl_c_bitaddr = disasm_orl_c_bitaddr"
| "disasm_bit_op op_anl_c_bitaddr = disasm_anl_c_bitaddr"
| "disasm_bit_op op_mov_bitaddr_c = disasm_mov_bitaddr_c"
| "disasm_bit_op op_orl_c_compl_bitaddr = disasm_orl_c_compl_bitaddr"
| "disasm_bit_op op_mov_c_bitaddr = disasm_mov_c_bitaddr"
| "disasm_bit_op op_anl_c_compl_bitaddr = disasm_anl_c_compl_bitaddr"
| "disasm_bit_op op_cpl_bitaddr = disasm_cpl_bitaddr"
| "disasm_bit_op op_cpl_c = disasm_cpl_c"
| "disasm_bit_op op_clr_bitaddr = disasm_clr_bitaddr"
| "disasm_bit_op op_clr_c = disasm_clr_c"
| "disasm_bit_op op_setb_bitaddr = disasm_setb_bitaddr"
| "disasm_bit_op op_setb_c = disasm_setb_c"

fun disasm_move_op :: "move_op \<Rightarrow> decoder" where
  "disasm_move_op op_mov_a_imm = disasm_mov_a_imm"
| "disasm_move_op op_mov_mem_imm = disasm_mov_mem_imm"
| "disasm_move_op op_mov_indir_rx_imm = disasm_mov_indir_rx_imm"
| "disasm_move_op op_movc_a_indir_a_pc = disasm_movc_a_indir_a_pc"
| "disasm_move_op op_mov_mem_mem = disasm_mov_mem_mem"
| "disasm_move_op op_mov_mem_indir_rx = disasm_mov_mem_indir_rx"
| "disasm_move_op op_mov_dptr_imm = disasm_mov_dptr_imm"
| "disasm_move_op op_movc_a_indir_a_dptr = disasm_movc_a_indir_a_dptr"
| "disasm_move_op op_mov_indir_rx_mem = disasm_mov_indir_rx_mem"
| "disasm_move_op op_push_mem = disasm_push_mem"
| "disasm_move_op op_xch_a_mem = disasm_xch_a_mem"
| "disasm_move_op op_xch_a_indir_rx = disasm_xch_a_indir_rx"
| "disasm_move_op op_pop_mem = disasm_pop_mem"
| "disasm_move_op op_xchd_a_indir_rx = disasm_xchd_a_indir_rx"
| "disasm_move_op op_movx_a_indir_dptr = disasm_movx_a_indir_dptr"
| "disasm_move_op op_movx_a_indir_rx = disasm_movx_a_indir_rx"
| "disasm_move_op op_mov_a_mem = disasm_mov_a_mem"
| "disasm_move_op op_mov_a_indir_rx = disasm_mov_a_indir_rx"
| "disasm_move_op op_movx_indir_dptr_a = disasm_movx_indir_dptr_a"
| "disasm_move_op op_movx_indir_rx_a = disasm_movx_indir_rx_a"
| "disasm_move_op op_mov_mem_a = disasm_mov_mem_a"
| "disasm_move_op op_mov_indir_rx_a = disasm_mov_indir_rx_a"
| "disasm_move_op op_mov_rx_imm = disasm_mov_rx_imm"
| "disasm_move_op op_mov_mem_rx = disasm_mov_mem_rx"
| "disasm_move_op op_mov_rx_mem = disasm_mov_rx_mem"
| "disasm_move_op op_xch_a_rx = disasm_xch_a_rx"
| "disasm_move_op op_mov_a_rx = disasm_mov_a_rx"
| "disasm_move_op op_mov_rx_a = disasm_mov_rx_a"

fun disasm_op :: "opname \<Rightarrow> decoder" where
  "disasm_op (Jump h) = disasm_jump_op h"
| "disasm_op (Arith h) = disasm_arith_op h"
| "disasm_op (Logic h) = disasm_logic_op h"
| "disasm_op (Bit h) = disasm_bit_op h"
| "disasm_op (Move h) = disasm_move_op h"

subsection \<open>The table\<close>

lemma assignments_by_handler: "disasm_assignments = map (\<lambda>(k, h). (k, disasm_op h)) op_assignments"
  by (simp add: disasm_assignments_def op_assignments_def disasm_rows_def op_rows_def disasm_singles_def op_singles_def)

lemma decoder_lookup: "disasm_setptrs dec k = disasm_op (mOp (op_setptrs c) k)"
proof -
  have "map_of (rev disasm_assignments) k = map_option disasm_op (map_of (rev op_assignments) k)"
    by (simp add: assignments_by_handler rev_map map_of_map)
  moreover have "map_of (rev op_assignments) k \<noteq> None"
    using lookup_bulkload_unique [OF table_is_switch] do_op_total [of k] by simp
  ultimately show ?thesis
    by (auto simp: disasm_setptrs_def op_setptrs_def fold_update_map_of)
qed

subsection \<open>Bounds of the text\<close>

lemma length_X2 [simp]: "length (fmt_X 2 (unat v)) = 2" for v :: u8
  using length_fmt_X [of "unat v" 1] unat_u8 [of v] by (simp add: numeral_2_eq_2)

lemma length_X4 [simp]: "length (fmt_X 4 (unat v)) = 4" for v :: u16
  using length_fmt_X [of "unat v" 3] unat_u16 [of v] by simp

lemma length_offset: "length (fmt_plus_d (sint v)) \<le> 4" for v :: u8
proof -
  have "\<bar>sint v\<bar> < 10 ^ Suc 2" using sint_range_size [of v] by (simp add: size_word_def abs_less_iff)
  then show ?thesis using length_fmt_plus_d [of "sint v" 2] by simp
qed

lemma length_digit: "length (fmt_d (uint (v AND 7))) \<le> 1" "length (fmt_d (uint (v AND 1))) \<le> 1" for v :: u8
proof -
  have "v AND 7 \<le> 7" "v AND 1 \<le> 1" by (rule word_and_le1)+
  then have "uint (v AND 7) < 10 ^ Suc 0" "uint (v AND 1) < 10 ^ Suc 0" by (simp_all add: word_le_def)
  then show "length (fmt_d (uint (v AND 7))) \<le> 1" "length (fmt_d (uint (v AND 1))) \<le> 1"
    using length_fmt_d [of "uint (v AND 7)" 0] length_fmt_d [of "uint (v AND 1)" 0] by simp_all
qed

lemma map_of_all: "map_of xs k = Some v \<Longrightarrow> list_all (\<lambda>(k, v). P v) xs \<Longrightarrow> P v"
  by (auto dest!: map_of_SomeD simp: list_all_iff)

lemma length_mem: "length (mem_memonic_for_variant c v) \<le> 5"
proof -
  have "list_all (\<lambda>(k, n). length n \<le> 5) sab_sfr_names" "list_all (\<lambda>(k, n). length n \<le> 5) sfr_names"
    by (simp_all add: sab_sfr_names_def sfr_names_def)
  then show ?thesis
    by (auto simp: mem_memonic_for_variant_def split: option.split dest: map_of_all)
qed

lemma length_regname: "length (bitaddr_regname c v) \<le> 5"
proof -
  have "list_all (\<lambda>(k, n). length n \<le> 5) sab_bit_sfr_names" "list_all (\<lambda>(k, n). length n \<le> 5) bit_sfr_names"
    by (simp_all add: sab_bit_sfr_names_def bit_sfr_names_def)
  then show ?thesis
    by (auto simp: bitaddr_regname_def split: option.split dest: map_of_all)
qed

lemma length_bitaddr: "length (bitaddr_memonic_for_variant c v) \<le> 7"
  using length_regname [of c v] length_digit(1) [of v] by (simp add: bitaddr_memonic_for_variant_def)

lemmas text_bounds = length_offset length_digit length_mem length_bitaddr

text \<open>What every decoder returns: a size from 1 to 3 and a text that fits the smallest buffer.\<close>

text \<open>What every decoder returns: a size from 1 to 3 and a text that fits the smallest buffer.\<close>

definition printable_size :: "u8 \<times> string \<Rightarrow> bool" where
  "printable_size r \<longleftrightarrow> fst r \<in> {1, 2, 3} \<and> length (snd r) \<le> 24"

lemma operand_bounds:
  "length (mem_memonic_for_variant c (OPERAND1_AT c p)) \<le> 5" "length (mem_memonic_for_variant c (OPERAND2_AT c p)) \<le> 5"
  "length (bitaddr_memonic_for_variant c (OPERAND1_AT c p)) \<le> 7"
  "length (fmt_plus_d (sint (OPERAND1_AT c p))) \<le> 4" "length (fmt_plus_d (sint (OPERAND2_AT c p))) \<le> 4"
  "length (fmt_d (uint (OPCODE_AT c p AND 1))) \<le> 1" "length (fmt_d (uint (OPCODE_AT c p AND 7))) \<le> 1"
  by (rule text_bounds)+

lemma printable_jump: "printable_size (disasm_jump_op h c p)"
  using operand_bounds [of c p] by (cases h) (simp_all add: printable_size_def disasm_jump_defs)

lemma printable_arith: "printable_size (disasm_arith_op h c p)"
  using operand_bounds [of c p] by (cases h) (simp_all add: printable_size_def disasm_arith_defs)

lemma printable_logic: "printable_size (disasm_logic_op h c p)"
  using operand_bounds [of c p] by (cases h) (simp_all add: printable_size_def disasm_logic_defs)

lemma printable_bit: "printable_size (disasm_bit_op h c p)"
  using operand_bounds [of c p] by (cases h) (simp_all add: printable_size_def disasm_bit_defs)

lemma printable_move: "printable_size (disasm_move_op h c p)"
  using operand_bounds [of c p] by (cases h) (simp_all add: printable_size_def disasm_move_defs)

lemma printable_op: "printable_size (disasm_op h c p)"
  by (cases h) (simp_all add: printable_jump printable_arith printable_logic printable_bit printable_move)

subsection \<open>What a decoder reads\<close>

text \<open>A decoder looks at the variant and at the bytes of its own instruction, and at nothing else.\<close>

definition same_bytes :: "u8 \<Rightarrow> em8051 \<Rightarrow> em8051 \<Rightarrow> u16 \<Rightarrow> bool" where
  "same_bytes n c d p \<longleftrightarrow> mVariant c = mVariant d \<and> OPCODE_AT c p = OPCODE_AT d p \<and>
     (2 \<le> n \<longrightarrow> OPERAND1_AT c p = OPERAND1_AT d p) \<and> (3 \<le> n \<longrightarrow> OPERAND2_AT c p = OPERAND2_AT d p)"

lemma name_cong:
  assumes "mVariant c = mVariant d"
  shows "mem_memonic_for_variant c = mem_memonic_for_variant d"
    and "bitaddr_memonic_for_variant c = bitaddr_memonic_for_variant d"
  using assms by (auto simp: mem_memonic_for_variant_def bitaddr_memonic_for_variant_def bitaddr_regname_def
      intro!: ext split: option.split)

definition local_decoder :: "decoder \<Rightarrow> bool" where
  "local_decoder f \<longleftrightarrow> (\<forall>c d p. same_bytes (fst (f c p)) c d p \<longrightarrow> f d p = f c p)"

lemma local_jump: "local_decoder (disasm_jump_op h)"
  by (cases h) (auto simp: local_decoder_def same_bytes_def disasm_jump_defs page_target_def dest: name_cong)

lemma local_arith: "local_decoder (disasm_arith_op h)"
  by (cases h) (auto simp: local_decoder_def same_bytes_def disasm_arith_defs dest: name_cong)

lemma local_logic: "local_decoder (disasm_logic_op h)"
  by (cases h) (auto simp: local_decoder_def same_bytes_def disasm_logic_defs dest: name_cong)

lemma local_bit: "local_decoder (disasm_bit_op h)"
  by (cases h) (auto simp: local_decoder_def same_bytes_def disasm_bit_defs dest: name_cong)

lemma local_move: "local_decoder (disasm_move_op h)"
  by (cases h) (auto simp: local_decoder_def same_bytes_def disasm_move_defs dest: name_cong)

lemma local_op: "local_decoder (disasm_op h)"
  by (cases h) (simp_all add: local_jump local_arith local_logic local_bit local_move)

text \<open>
  C35. What the disassembler writes.  Whatever the code holds, the decoder selected for an opcode
  returns a size from 1 to 3 and at most 24 characters, so that the terminated text fits the callers'
  buffers of 96 and 97 bytes; register and bit names fit the 16-byte buffers they are staged in.
\<close>

theorem disasm_fits:
  "fst (disasm_setptrs dec k c p) \<in> {1, 2, 3} \<and> length (snd (disasm_setptrs dec k c p)) \<le> 24 \<and>
   length (mem_memonic_for_variant c a) < 16 \<and> length (bitaddr_regname c a) < 16 \<and>
   length (bitaddr_memonic_for_variant c a) < 16"
  using printable_op [of "mOp (op_setptrs c) k" c p] decoder_lookup [of dec k c]
    length_mem [of c a] length_regname [of c a] length_bitaddr [of c a]
  by (simp add: printable_size_def)

subsection \<open>Captured bytes\<close>

lemma size_const: "fst (disasm_op h c p) = fst (disasm_op h d q)"
proof (cases h)
  case (Jump x) then show ?thesis by (cases x) (simp_all add: disasm_jump_defs)
next
  case (Arith x) then show ?thesis by (cases x) (simp_all add: disasm_arith_defs)
next
  case (Logic x) then show ?thesis by (cases x) (simp_all add: disasm_logic_defs)
next
  case (Bit x) then show ?thesis by (cases x) (simp_all add: disasm_bit_defs)
next
  case (Move x) then show ?thesis by (cases x) (simp_all add: disasm_move_defs)
qed

lemma and3_mod: "unat (w AND 3) = unat w mod 4" for w :: u16
proof -
  have "w AND 3 = take_bit 2 w" by (simp add: take_bit_eq_mask mask_eq_exp_minus_1)
  then show ?thesis by (simp add: take_bit_eq_mod unat_mod)
qed

lemma view_slots_distinct: "pc AND 3 \<noteq> (pc + 1) AND 3" "pc AND 3 \<noteq> (pc + 2) AND 3" "(pc + 1) AND 3 \<noteq> (pc + 2) AND 3"
  for pc :: u16
proof -
  have i: "unat (pc + 1) mod 4 = (unat pc + 1) mod 4" "unat (pc + 2) mod 4 = (unat pc + 2) mod 4"
    by (simp_all add: unat_word_ariths mod_mod_cancel)
  have n: "(n :: nat) mod 4 \<noteq> (n + 1) mod 4" "n mod 4 \<noteq> (n + 2) mod 4" "(n + 1) mod 4 \<noteq> (n + 2) mod 4" for n by presburger+
  show "pc AND 3 \<noteq> (pc + 1) AND 3" "pc AND 3 \<noteq> (pc + 2) AND 3" "(pc + 1) AND 3 \<noteq> (pc + 2) AND 3"
    using n [of "unat pc"] by (metis and3_mod i)+
qed

lemma captured_view_bytes:
  assumes "count \<noteq> 0" "count \<le> 3"
  shows "OPCODE_AT (captured_view c pc bytes count) pc = bytes 0"
    "2 \<le> count \<Longrightarrow> OPERAND1_AT (captured_view c pc bytes count) pc = bytes 1"
    "3 \<le> count \<Longrightarrow> OPERAND2_AT (captured_view c pc bytes count) pc = bytes 2"
proof -
  have "count = 1 \<or> count = 2 \<or> count = 3" using assms by linarith
  then show "OPCODE_AT (captured_view c pc bytes count) pc = bytes 0"
    "2 \<le> count \<Longrightarrow> OPERAND1_AT (captured_view c pc bytes count) pc = bytes 1"
    "3 \<le> count \<Longrightarrow> OPERAND2_AT (captured_view c pc bytes count) pc = bytes 2"
    using view_slots_distinct [of pc]
    by (auto simp: captured_view_def OPCODE_AT_def OPERAND1_AT_def OPERAND2_AT_def CODEMEM_def numeral_3_eq_3 numeral_2_eq_2)
qed

text \<open>
  Decoding captured evidence.  When the captured bytes are those the CPU's code holds at that
  address, \<open>em8051_decode_captured\<close> returns the size that decoding in place returns and the same text,
  or no text at all when fewer bytes than the instruction has were captured.
\<close>

theorem captured_decoding:
  assumes "count \<noteq> 0" "count \<le> 3" "\<forall>i<count. bytes i = CODEMEM c (pc + word_of_nat i)"
  shows "em8051_decode_captured (disasm_setptrs dec) c pc bytes count =
     (let (size, text) = disasm_setptrs dec (CODEMEM c pc) c pc
      in (size, if unat size \<le> count then text else []))"
proof -
  define v where "v = captured_view c pc bytes count"
  define h where "h = mOp (op_setptrs c) (CODEMEM c pc)"
  have t: "disasm_setptrs dec (CODEMEM c pc) = disasm_op h" by (simp add: h_def decoder_lookup [where c = c])
  have b: "bytes 0 = CODEMEM c pc" "2 \<le> count \<Longrightarrow> bytes 1 = OPERAND1_AT c pc" "3 \<le> count \<Longrightarrow> bytes 2 = OPERAND2_AT c pc"
    using assms by (auto simp: OPERAND1_AT_def OPERAND2_AT_def)
  have s: "fst (disasm_op h v pc) = fst (disasm_op h c pc)" by (rule size_const)
  have eq: "disasm_op h v pc = disasm_op h c pc" if fits: "unat (fst (disasm_op h c pc)) \<le> count"
  proof -
    have "same_bytes (fst (disasm_op h c pc)) c v pc"
      using captured_view_bytes [OF assms(1,2), of c pc bytes] b fits
      by (auto simp: same_bytes_def v_def OPCODE_AT_def word_le_nat_alt captured_view_def)
    then show ?thesis using local_op [of h] by (simp add: local_decoder_def)
  qed
  have "length (snd (disasm_op h c pc)) \<le> 96" using printable_op [of h c pc] by (simp add: printable_size_def)
  then show ?thesis
    using assms(1,2) eq s by (simp add: em8051_decode_captured_def b(1) t v_def [symmetric] Let_def split_beta)
qed

text \<open>A CPU about to execute \<open>SJMP #-2\<close>, the idle loop of many programs.\<close>

definition idle_loop :: em8051 where
  "idle_loop = zero_cpu\<lparr>mCodeMem := Some 0, mCodeMemMaxIdx := 1, mBuffers := (\<lambda>_ x. if x = 0 then 0x80 else 0xFE)\<rparr>"

lemma idle_loop_code: "CODEMEM idle_loop 0 = 0x80" "CODEMEM idle_loop 1 = 0xFE" "mPC idle_loop = 0"
  by (simp_all add: CODEMEM_def idle_loop_def zero_cpu_def)

lemma idle_loop_handler: "mOp (op_setptrs c) 0x80 = Jump op_sjmp_offset"
  by (simp add: table_lookup do_op_cases_def op_row_def)

lemma idle_loop_decoder: "disasm_setptrs dec 0x80 = disasm_sjmp_offset"
  using decoder_lookup [of dec "0x80"] by (simp add: idle_loop_handler)

theorem captured_decoding_witness:
  "em8051_decode_captured (disasm_setptrs (\<lambda>_ _ _. (0, []))) idle_loop 0 (\<lambda>i. if i = 0 then 0x80 else 0xFE) 2 =
     (2, ''SJMP  #-2'')"
proof -
  have "fmt_plus_d (sint (0xFE :: u8)) = ''-2''" by code_simp
  then have d: "disasm_sjmp_offset idle_loop 0 = (2, ''SJMP  #-2'')"
    by (simp add: disasm_sjmp_offset_def OPERAND1_AT_def idle_loop_code)
  have b: "\<forall>i<2. (if i = 0 then 0x80 else 0xFE) = CODEMEM idle_loop (0 + word_of_nat i)"
    by (auto simp: less_2_cases_iff idle_loop_code)
  show ?thesis
    using captured_decoding [OF _ _ b, of "\<lambda>_ _ _. (0, [])"] by (simp add: idle_loop_code idle_loop_decoder d)
qed

end
