(* ===== verification/DecodeLength.thy ===== *)
theory DecodeLength
  imports DisasmTable
begin

text \<open>
  The disassembler against the executor: how far an executed instruction moves the program counter
  and where a control transfer goes, in terms of the size and the operands the decoder prints.
\<close>

text \<open>The part of the CPU instruction fetch depends on.\<close>

definition code_part :: "em8051 \<Rightarrow> u16 \<times> (nat \<Rightarrow> u16 \<Rightarrow> u8) \<times> nat option \<times> u16" where
  "code_part c = (mPC c, mBuffers c, mCodeMem c, mCodeMemMaxIdx c)"

text \<open>The highest address of the stack, the address on top of it, and the stack pointer with what bounds it.\<close>

definition stack_limit :: "em8051 \<Rightarrow> nat" where
  "stack_limit c = (if mUpperData c = UpperNull then 0x7f else 0xff)"

definition stacked_address :: "em8051 \<Rightarrow> u16" where
  "stacked_address c = push_bit 8 (ucast (read_mem_indir (mSFR c REG_SP) c)) OR ucast (read_mem_indir (mSFR c REG_SP - 1) c)"

definition stack_part :: "em8051 \<Rightarrow> u8 \<times> upper_ptr" where
  "stack_part c = (mSFR c REG_SP, mUpperData c)"

text \<open>
  Where an instruction of \<open>n\<close> bytes may leave the program counter: after the instruction; for a conditional branch, there or at the
  displacement in its last byte; for a jump or call, at the target it names; for a return, at the address on the stack.  Only
  where a push finds the stack full, or a pop finds it empty or out of memory, the program counter stays.
\<close>

fun successors :: "opname \<Rightarrow> u16 \<Rightarrow> em8051 \<Rightarrow> u16 set" where
  "successors (Jump h) n c =
     (let pc = mPC c; sp = unat (mSFR c REG_SP);
          relative = pc + n + scast (CODEMEM c (pc + n - 1));
          long = push_bit 8 (ucast (OPERAND1_AT c pc)) OR ucast (OPERAND2_AT c pc);
          call = (\<lambda>target. if sp + 2 \<le> stack_limit c then {target} else {pc});
          return = (if 2 \<le> sp \<and> sp \<le> stack_limit c then {stacked_address c} else {pc})
      in case h of
           op_nop \<Rightarrow> {pc + n}
         | op_sjmp_offset \<Rightarrow> {relative}
         | op_ajmp_offset \<Rightarrow> {page_target c pc}
         | op_acall_offset \<Rightarrow> call (page_target c pc)
         | op_ljmp_address \<Rightarrow> {long}
         | op_lcall_address \<Rightarrow> call long
         | op_ret \<Rightarrow> return
         | op_reti \<Rightarrow> return
         | op_jmp_indir_a_dptr \<Rightarrow> {DPTR c + ucast (ACC c)}
         | _ \<Rightarrow> {pc + n, relative})"
| "successors (Move h) n c =
     (let pc = mPC c; sp = unat (mSFR c REG_SP)
      in if h = op_push_mem then (if sp + 1 \<le> stack_limit c then {pc + n} else {pc})
         else if h = op_pop_mem then (if 1 \<le> sp \<and> sp \<le> stack_limit c then {pc + n} else {pc})
         else {pc + n})"
| "successors _ n c = {mPC c + n}"

subsection \<open>Room on the stack\<close>

lemma sp_next: "unat (s + 1) = (if s = 0xff then 0 else unat s + 1)" for s :: u8
  using unat_u8 [of s] by (auto simp: unat_u8_inc mod_if word_unat_eq_iff)

lemma push_room: "fst (push_to_stack E v c) \<longleftrightarrow> unat (mSFR c REG_SP) + 1 \<le> stack_limit c"
proof -
  have "push_ok c \<longleftrightarrow> unat (mSFR c REG_SP) + 1 \<le> stack_limit c"
    using unat_u8 [of "mSFR c REG_SP"]
    by (auto simp: push_ok_def iram_cell_def stack_limit_def word_le_nat_alt sp_next word_unat_eq_iff)
  then show ?thesis using push_value [of c E v] push_error [of c E v] by (cases "push_ok c") auto
qed

lemma pushed_limit: "fst (push_to_stack E v c) \<Longrightarrow> mSFR (snd (push_to_stack E v c)) REG_SP = mSFR c REG_SP + 1 \<and> stack_limit (snd (push_to_stack E v c)) = stack_limit c"
  using push_value [of c E v] push_error [of c E v] by (cases "push_ok c") (auto simp: stack_limit_def)

lemma push_return_room: "fst (push_return E n c) \<longleftrightarrow> unat (mSFR c REG_SP) + 2 \<le> stack_limit c"
proof -
  obtain ok c1 where p: "push_to_stack E (ucast ((mPC c + n) AND 0xff)) c = (ok, c1)" by fastforce
  show ?thesis
  proof (cases ok)
    case True
    then have "unat (mSFR c REG_SP) + 1 \<le> stack_limit c" "mSFR c1 REG_SP = mSFR c REG_SP + 1" "stack_limit c1 = stack_limit c"
      using push_room [of E "ucast ((mPC c + n) AND 0xff)" c] pushed_limit [of E "ucast ((mPC c + n) AND 0xff)" c] by (simp_all add: p)
    moreover from this have "unat (mSFR c1 REG_SP) = unat (mSFR c REG_SP) + 1" by (auto simp: sp_next stack_limit_def split: if_splits)
    ultimately show ?thesis using True by (simp add: push_return_def p push_room)
  next
    case False
    then show ?thesis using push_room [of E "ucast ((mPC c + n) AND 0xff)" c] by (simp add: push_return_def p)
  qed
qed

lemma pop_room: "fst (pop_from_stack E c) = (if 1 \<le> unat (mSFR c REG_SP) \<and> unat (mSFR c REG_SP) \<le> stack_limit c then Some (read_mem_indir (mSFR c REG_SP) c) else None)"
proof -
  define s where "s = mSFR c REG_SP"
  have w: "s - 1 = 0xff \<longleftrightarrow> s = 0" by (metis diff_add_cancel sp_wrap)
  have u: "1 \<le> unat s \<longleftrightarrow> s \<noteq> 0" by (simp add: Suc_le_eq unat_gt_0)
  have l: "s > 0x7f \<and> mUpperData c = UpperNull \<longleftrightarrow> \<not> unat s \<le> stack_limit c" using unat_u8 [of s] by (auto simp: stack_limit_def word_less_nat_alt not_le)
  have m: "mSFR (sfr_mod REG_SP (\<lambda>s. s - 1) c) REG_SP = s - 1" by (simp add: s_def)
  show ?thesis unfolding s_def [symmetric] u pop_from_stack_def Let_def m w l by simp
qed

lemma pop_rest: "fst (pop_from_stack E c) = Some v \<Longrightarrow> snd (pop_from_stack E c) = sfr_mod REG_SP (\<lambda>s. s - 1) c"
  by (auto simp: pop_from_stack_def Let_def split: if_splits)

lemma pop_return_room:
  "fst (pop_return E c) = (if 2 \<le> unat (mSFR c REG_SP) \<and> unat (mSFR c REG_SP) \<le> stack_limit c then Some (stacked_address c) else None)"
proof (cases "fst (pop_from_stack E c)")
  case None
  moreover from this have "\<not> (2 \<le> unat (mSFR c REG_SP) \<and> unat (mSFR c REG_SP) \<le> stack_limit c)" by (auto simp: pop_room split: if_splits)
  ultimately show ?thesis by (auto simp: pop_return_def split: prod.split)
next
  case (Some high)
  define c1 where "c1 = sfr_mod REG_SP (\<lambda>s. s - 1) c"
  have p: "pop_from_stack E c = (Some high, c1)" using pop_rest [OF Some] Some by (metis c1_def prod.collapse)
  have h: "1 \<le> unat (mSFR c REG_SP)" "unat (mSFR c REG_SP) \<le> stack_limit c" "high = read_mem_indir (mSFR c REG_SP) c"
    using Some by (auto simp: pop_room split: if_splits)
  have "mSFR c1 REG_SP = mSFR c REG_SP - 1" "stack_limit c1 = stack_limit c" by (simp_all add: c1_def stack_limit_def)
  moreover have "unat (mSFR c REG_SP - 1) = unat (mSFR c REG_SP) - 1" using h(1) by (simp add: unat_minus_one word_neq_0_conv [symmetric] unat_gt_0 flip: word_unat_eq_iff) (metis One_nat_def not_one_le_zero unat_0 unat_minus_one)
  ultimately have "fst (pop_from_stack E c1) = (if 2 \<le> unat (mSFR c REG_SP) then Some (read_mem_indir (mSFR c REG_SP - 1) c) else None)"
    using h by (auto simp: pop_room c1_def)
  then show ?thesis using h by (auto simp: pop_return_def p stacked_address_def split: prod.split option.split if_splits)
qed

text \<open>The contract with the embedder under which the accesses of an instruction do not move the code.\<close>

locale code_frame = access_frame E code_part for E +
  assumes pc_xread: "xread E = Some xr \<Longrightarrow> mPC (snd (xr c x)) = mPC c"
    and pc_xwrite: "xwrite E = Some xw \<Longrightarrow> mPC (xw c x v) = mPC c"
    and no_abort: "execution_abort E = None"
    and stack_sfrread: "sfrread E i = Some f \<Longrightarrow> stack_part (snd (f c a)) = stack_part c"
    and calls_admitted: "mObservation E = Some answer \<Longrightarrow> rw_kind r = EMU_RAW_CONTEXT_PREFLIGHT \<Longrightarrow> answer es r \<noteq> 0"
begin

lemma code_partD:
  assumes "code_part a = code_part c"
  shows "mPC a = mPC c" "CODEMEM a = CODEMEM c"
  using assms by (auto simp: code_part_def CODEMEM_def intro!: ext split: option.split)

lemmas code_read_mem [simp] = code_partD [OF F_read_mem]
lemmas code_read_mem_rmw [simp] = code_partD [OF F_read_mem_rmw]
lemmas code_write_mem [simp] = code_partD [OF F_write_mem]
lemmas code_write_mem_indir [simp] = code_partD [OF F_write_mem_indir]
lemmas code_push [simp] = code_partD [OF F_push]
lemmas code_pop [simp] = code_partD [OF F_pop]
lemmas code_bit_read [simp] = code_partD [OF F_bit_read]
lemmas code_bit_modify [simp] = code_partD [OF F_bit_modify]
lemmas code_direct_rmw [simp] = code_partD [OF F_direct_rmw]
lemmas code_raise [simp] = code_partD [OF F_raise_exception]
lemmas code_operand [simp] = code_partD [OF F_operand]
lemmas code_flags [simp] = F_flags [THEN code_partD(1)] F_flags [THEN code_partD(2)]
lemmas code_notes [simp] = F_notes [THEN code_partD(1)] F_notes [THEN code_partD(2)]
lemmas code_lower_set [simp] = code_partD [OF F_lower_set]
lemmas code_lower_mod [simp] = code_partD [OF F_lower_mod]
lemmas code_sfr_set [simp] = code_partD [OF F_sfr_set]
lemmas code_sfr_mod [simp] = code_partD [OF F_sfr_mod]
lemmas code_sfr_write [simp] = code_partD [OF F_sfr_write]
lemmas code_raw [simp] = code_partD [OF F_raw]

lemma pc_moves [simp]: "mPC (pc_add n c) = mPC c + n" "mPC (pc_set a c) = a"
  by (simp_all add: pc_add_def pc_set_def)

lemma goes_on [simp]: "unless_aborted E k c = k c"
  by (simp add: unless_aborted_def em8051_execution_aborted_def no_abort)

lemma not_aborted [simp]: "\<not> em8051_execution_aborted E c"
  by (simp add: em8051_execution_aborted_def no_abort)

lemma bit_modify_goes_on [simp]: "\<not> fst (bit_modify E a f c)"
  by (simp add: bit_modify_def Let_def)

lemma pc_extdata [simp]: "mPC (extdata_set x v c) = mPC c"
  by (simp add: extdata_set_def split: option.split)

lemma pc_branch: "mPC (branch E t n c) = mPC c + n + (if t then scast (CODEMEM c (mPC c + (n - 1))) else 0)"
  by (simp add: branch_def Let_def split_beta ac_simps)

lemma pc_arith: "mPC (snd (run_arith_op h E c)) = mPC c + ucast (fst (disasm_arith_op h c (mPC c)))"
  by (cases h) (simp_all add: arith_op_defs disasm_arith_defs Let_def split_beta)

lemma pc_logic: "mPC (snd (run_logic_op h E c)) = mPC c + ucast (fst (disasm_logic_op h c (mPC c)))"
  by (cases h) (simp_all add: logic_op_defs disasm_logic_defs Let_def split_beta)

lemma pc_bit: "mPC (snd (run_bit_op h E c)) = mPC c + ucast (fst (disasm_bit_op h c (mPC c)))"
  by (cases h) (simp_all add: bit_op_defs disasm_bit_defs Let_def split_beta)

lemma pc_movx [simp]: "mPC (snd (movx_read E a c)) = mPC c + 1" "mPC (snd (movx_write E a c)) = mPC c + 1"
  by (auto simp: movx_read_def movx_write_def movx_report_def Let_def split_beta pc_xread pc_xwrite split: option.split)

lemma stack_read_mem: "stack_part (snd (read_mem E a c)) = stack_part c"
  by (auto simp: read_mem_def em8051_sfr_read_def Let_def stack_sfrread split: option.split)

lemma stack_notes: "stack_part (snd (emu_cpu_operand E n c)) = stack_part c" "stack_part (snd (context_preflight E c)) = stack_part c"
  by (simp_all add: operand_value context_preflight_def emu_cpu_raw_def stack_part_def Let_def split: option.split)

lemma stack_partD: "stack_part a = stack_part c \<Longrightarrow> mSFR a REG_SP = mSFR c REG_SP \<and> stack_limit a = stack_limit c"
  by (simp add: stack_part_def stack_limit_def)

lemma call_goes_on [simp]: "fst (context_preflight E c)"
  by (auto simp: context_preflight_def emu_cpu_raw_def calls_admitted Let_def split: option.split)

lemma pc_push_mem: "mPC (snd (push_mem E c)) = (if unat (mSFR c REG_SP) + 1 \<le> stack_limit c then mPC c + 2 else mPC c)"
proof -
  define d where "d = snd (read_mem E (CODEMEM c (mPC c + 1)) (snd (emu_cpu_operand E 1 c)))"
  have "mSFR d REG_SP = mSFR c REG_SP \<and> stack_limit d = stack_limit c" by (intro stack_partD) (simp add: d_def stack_read_mem stack_notes)
  moreover have "mPC d = mPC c" by (simp add: d_def)
  ultimately show ?thesis by (simp add: push_mem_def Let_def split_beta d_def [symmetric] push_room del: One_nat_def)
qed

lemma pc_pop_mem: "mPC (snd (pop_mem E c)) = (if 1 \<le> unat (mSFR c REG_SP) \<and> unat (mSFR c REG_SP) \<le> stack_limit c then mPC c + 2 else mPC c)"
proof -
  define d where "d = snd (emu_cpu_operand E 1 c)"
  have s: "mSFR d REG_SP = mSFR c REG_SP \<and> stack_limit d = stack_limit c" by (intro stack_partD) (simp add: d_def stack_notes)
  have "mPC d = mPC c" by (simp add: d_def)
  obtain r d1 where p: "pop_from_stack E d = (r, d1)" by fastforce
  then have "mPC d1 = mPC c" using code_pop(1) [of d] by (simp add: d_def)
  moreover have "r = None \<longleftrightarrow> \<not> (1 \<le> unat (mSFR c REG_SP) \<and> unat (mSFR c REG_SP) \<le> stack_limit c)" using pop_room [of E d] s by (auto simp: p)
  ultimately show ?thesis by (cases r) (auto simp: pop_mem_def split_beta d_def [symmetric] p)
qed

lemma pc_move: "mPC (snd (run_move_op h E c)) \<in> successors (Move h) (ucast (fst (disasm_move_op h c (mPC c)))) c"
proof (cases "h \<in> {op_push_mem, op_pop_mem}")
  case True
  then show ?thesis by (auto simp: pc_push_mem pc_pop_mem disasm_push_mem_def disasm_pop_mem_def Let_def split_beta)
next
  case False
  then show ?thesis by (cases h) (simp_all add: move_op_defs disasm_move_defs Let_def split_beta)
qed

lemma code_push_return [simp]: "mPC (snd (push_return E n c)) = mPC c" "CODEMEM (snd (push_return E n c)) = CODEMEM c"
  by (simp_all add: push_return_def Let_def split_beta)

lemma code_preflight [simp]: "mPC (snd (context_preflight E c)) = mPC c" "CODEMEM (snd (context_preflight E c)) = CODEMEM c"
  by (simp_all add: context_preflight_def Let_def split_beta split: option.split)

lemma code_call_note [simp]: "mPC (call_note E t n c) = mPC c"
  by (simp add: call_note_def)

lemma pc_calls:
  "mPC (snd (acall_offset E c)) = (if unat (mSFR c REG_SP) + 2 \<le> stack_limit c then page_target c (mPC c) else mPC c)"
  "mPC (snd (lcall_address E c)) = (if unat (mSFR c REG_SP) + 2 \<le> stack_limit c
     then push_bit 8 (ucast (OPERAND1_AT c (mPC c))) OR ucast (OPERAND2_AT c (mPC c)) else mPC c)"
proof -
  define d where "d = snd (context_preflight E (snd (emu_cpu_operand E 1 c)))"
  have "mSFR d REG_SP = mSFR c REG_SP \<and> stack_limit d = stack_limit c" by (intro stack_partD) (simp add: d_def stack_notes)
  then show "mPC (snd (acall_offset E c)) = (if unat (mSFR c REG_SP) + 2 \<le> stack_limit c then page_target c (mPC c) else mPC c)"
    by (simp add: acall_offset_def Let_def split_beta d_def [symmetric] push_return_room)
       (simp add: d_def page_address_def page_target_def OPCODE_def OPCODE_AT_def OPERAND1_AT_def add.commute [of "mPC c"])
  define e where "e = snd (context_preflight E c)"
  have "mSFR e REG_SP = mSFR c REG_SP \<and> stack_limit e = stack_limit c" by (intro stack_partD) (simp add: e_def stack_notes)
  then show "mPC (snd (lcall_address E c)) = (if unat (mSFR c REG_SP) + 2 \<le> stack_limit c
      then push_bit 8 (ucast (OPERAND1_AT c (mPC c))) OR ucast (OPERAND2_AT c (mPC c)) else mPC c)"
    by (simp add: lcall_address_def Let_def split_beta e_def [symmetric] push_return_room)
       (simp add: e_def OPERAND1_AT_def OPERAND2_AT_def)
qed

lemma pc_pop_return: "mPC (snd (pop_return E c)) = mPC c"
proof -
  obtain r d r1 d1 where p: "pop_from_stack E c = (r, d)" "pop_from_stack E d = (r1, d1)" by fastforce
  then have "mPC d = mPC c" "mPC d1 = mPC d" using code_pop(1) [of c] code_pop(1) [of d] by simp_all
  then show ?thesis by (simp add: pop_return_def p split: option.split)
qed

lemma pc_returns:
  fixes c defines "room \<equiv> 2 \<le> unat (mSFR c REG_SP) \<and> unat (mSFR c REG_SP) \<le> stack_limit c"
  shows "mPC (snd (ret E c)) = (if room then stacked_address c else mPC c)" "mPC (snd (reti E c)) = (if room then stacked_address c else mPC c)"
proof -
  obtain r d where p: "pop_return E c = (r, d)" by fastforce
  have r: "r = (if room then Some (stacked_address c) else None)" "mPC d = mPC c"
    using pop_return_room [of E c] pc_pop_return [of c] by (simp_all add: p room_def)
  show "mPC (snd (ret E c)) = (if room then stacked_address c else mPC c)" using r by (simp add: ret_def p return_note_def)
  have "fst (classic_reti E s c')" for s c' by (simp add: classic_reti_def iret_checks_def Let_def split_beta)
  then show "mPC (snd (reti E c)) = (if room then stacked_address c else mPC c)" using r by (simp add: reti_def p return_note_def Let_def split_beta)
qed

lemma pc_jump: "mPC (snd (run_jump_op h E c)) \<in> successors (Jump h) (ucast (fst (disasm_jump_op h c (mPC c)))) c"
proof (cases "h \<in> {op_acall_offset, op_lcall_address, op_ret, op_reti}")
  case True
  then show ?thesis by (auto simp: pc_calls pc_returns Let_def)
next
  case False
  then show ?thesis
    by (cases h) (auto simp: jump_op_defs disasm_jump_defs compare_branch_def page_address_def page_target_def
      OPCODE_def OPCODE_AT_def OPERAND1_AT_def OPERAND2_AT_def pc_branch Let_def split_beta add.commute [of "mPC c"])
qed

lemma pc_op: "mPC (snd (run_op h E c)) \<in> successors h (ucast (fst (disasm_op h c (mPC c)))) c"
  using pc_jump pc_move by (cases h) (simp_all add: pc_arith pc_logic pc_bit)

end

text \<open>
  Embedder's hooks that leave the program counter and the code alone, and when a register is read the stack pointer too; the
  external memory hooks may write the code, but not move the program counter.  Execution is not aborted, and an observer admits calls.
\<close>

definition keeps_code :: "em8051_callbacks \<Rightarrow> bool" where
  "keeps_code E \<longleftrightarrow> execution_abort E = None \<and>
     (\<forall>f c n. except E = Some f \<longrightarrow> code_part (f c n) = code_part c) \<and>
     (\<forall>f i c a. sfrread E i = Some f \<longrightarrow> code_part (snd (f c a)) = code_part c \<and> stack_part (snd (f c a)) = stack_part c) \<and>
     (\<forall>f i c a. sfrwrite E i = Some f \<longrightarrow> code_part (f c a) = code_part c) \<and>
     (\<forall>f c x. xread E = Some f \<longrightarrow> mPC (snd (f c x)) = mPC c) \<and>
     (\<forall>f c x v. xwrite E = Some f \<longrightarrow> mPC (f c x v) = mPC c) \<and>
     (\<forall>f es r. mObservation E = Some f \<longrightarrow> rw_kind r = EMU_RAW_CONTEXT_PREFLIGHT \<longrightarrow> f es r \<noteq> 0)"

lemma keeps_code_frame: "keeps_code E \<Longrightarrow> code_frame E"
  by unfold_locales (auto simp: lower_set_def keeps_code_def code_part_def split: option.split)

lemma null_keeps_code: "keeps_code null_callbacks"
  by (simp add: keeps_code_def)

interpretation null_code: code_frame null_callbacks
  by (rule keeps_code_frame [OF null_keeps_code])

text \<open>
  C19. Decoded size is executed size.  Under hooks that leave the code and the stack pointer alone, do not abort and admit calls, every opcode
  leaves the program counter behind the bytes the decoder counts, or, for a conditional branch, there or at the displacement in the
  last of them, or at the very target the decoder prints for a jump or call, or, for \<open>RET\<close> and \<open>RETI\<close>, at the address on top of the
  stack; it stays exactly where a call or push finds no room on the stack, or a return or pop nothing on it.
\<close>

theorem executed_length:
  assumes "keeps_code E"
  shows "mPC (snd (do_op E c)) \<in> successors (mOp (op_setptrs d) (OPCODE c))
           (ucast (fst (disasm_setptrs dec (OPCODE c) c (mPC c)))) c"
proof -
  have "do_op E c = run_op (mOp (op_setptrs d) (OPCODE c)) E c"
    using do_op_total [of "OPCODE c"] by (auto simp: do_op_def table_lookup)
  then show ?thesis
    using code_frame.pc_op [OF keeps_code_frame [OF assms]] decoder_lookup [of dec "OPCODE c" d] by simp
qed

theorem executed_length_witness: "mPC (snd (do_op null_callbacks idle_loop)) = 0"
proof -
  have op: "OPCODE idle_loop = 0x80" using idle_loop_code(1,3) by (simp add: OPCODE_def)
  show ?thesis
    using executed_length [OF null_keeps_code, of idle_loop idle_loop "\<lambda>_ _ _. (0, [])"]
    by (simp add: op idle_loop_code idle_loop_handler idle_loop_decoder disasm_sjmp_offset_def)
qed

end
