(* ===== verification/DecodeWindow.thy ===== *)
theory DecodeWindow
  imports DisasmTable
begin

text \<open>
  The decoder history of the debugger (\<^verbatim>\<open>emu_decode_internal.c\<close>): which instruction was seen to
  precede which address, and the window of decoded instructions around a reference address.  Null
  pointers are outside the model; the outcome of the temporary allocation is a parameter.  Records
  under construction are local to the C functions and only appear in the results here.
\<close>

datatype em8051_debug_status =
  EM8051_DEBUG_OK | EM8051_DEBUG_INVALID_ARGUMENT | EM8051_DEBUG_INVALID_STATE | EM8051_DEBUG_IMAGE_READ
| EM8051_DEBUG_IMAGE_SIZE | EM8051_DEBUG_IMAGE_HASH | EM8051_DEBUG_RANGE | EM8051_DEBUG_BREAKPOINT_LIMIT
| EM8051_DEBUG_INTERNAL

record em8051_debug_decoded =
  dd_address :: u16
  dd_size :: u8
  dd_valid :: bool
  dd_text :: string

record emu_decode_cache =
  dc_predecessor :: "nat \<Rightarrow> u16"
  dc_known :: "nat \<Rightarrow> bool"

definition emu_decode_clear :: "emu_decode_cache \<Rightarrow> emu_decode_cache" where
  "emu_decode_clear cache = cache\<lparr>dc_known := (\<lambda>_. False)\<rparr>"

text \<open>The opcode is read without the address mask; the decoder itself masks.\<close>

definition emu_decode_at :: "(u8 \<Rightarrow> decoder) \<Rightarrow> em8051 \<Rightarrow> u16 \<Rightarrow> u8 \<times> string" where
  "emu_decode_at dec c address =
     dec (case mCodeMem c of None \<Rightarrow> 0 | Some p \<Rightarrow> mBuffers c p address) c address"

definition emu_decode_completed :: "u16 \<Rightarrow> u8 \<Rightarrow> u16 \<Rightarrow> emu_decode_cache \<Rightarrow> emu_decode_cache" where
  "emu_decode_completed pc isize resulting_pc cache =
     (let sequential = unat pc + unat isize
      in if isize \<noteq> 0 \<and> sequential < 65536 \<and> unat resulting_pc = sequential
         then cache\<lparr>dc_predecessor := (dc_predecessor cache)(sequential := pc),
                    dc_known := (dc_known cache)(sequential := True)\<rparr>
         else cache)"

definition decode_record :: "(u8 \<Rightarrow> decoder) \<Rightarrow> em8051 \<Rightarrow> nat \<Rightarrow> em8051_debug_status + em8051_debug_decoded" where
  "decode_record dec c address =
     (if address > 0xffff then Inl EM8051_DEBUG_RANGE
      else let (size, text) = emu_decode_at dec c (word_of_nat address)
           in if size = 0 \<or> address + unat size > 65536 then Inl EM8051_DEBUG_RANGE
              else Inr \<lparr>dd_address = word_of_nat address, dd_size = size, dd_valid = True, dd_text = text\<rparr>)"

definition invalid_record :: "u16 \<Rightarrow> em8051_debug_decoded" where
  "invalid_record address = \<lparr>dd_address = address, dd_size = 1, dd_valid = False, dd_text = ''<invalid>''\<rparr>"

text \<open>
  The walk backwards, \<open>step\<close> by \<open>step\<close>: along the known predecessors, and byte by byte once the history
  gives out.  \<open>left\<close> counts the steps still to do; only the last \<open>length temporary\<close> of them are stored.
\<close>

fun window_back :: "(u8 \<Rightarrow> decoder) \<Rightarrow> em8051 \<Rightarrow> emu_decode_cache \<Rightarrow> nat \<Rightarrow> bool \<Rightarrow> nat
    \<Rightarrow> em8051_debug_decoded list \<Rightarrow> em8051_debug_status + em8051_debug_decoded list" where
  "window_back dec c cache 0 known cursor temporary = Inr temporary"
| "window_back dec c cache (Suc left) known cursor temporary =
     (let store = (\<lambda>record. if left < length temporary then temporary[left := record] else temporary)
      in if known \<and> dc_known cache cursor
         then let cursor = unat (dc_predecessor cache cursor)
              in (case decode_record dec c cursor of
                    Inl status \<Rightarrow> Inl status
                  | Inr record \<Rightarrow> window_back dec c cache left True cursor (store record))
         else if cursor = 0 then Inl EM8051_DEBUG_RANGE
         else window_back dec c cache left False (cursor - 1) (store (invalid_record (word_of_nat (cursor - 1)))))"

fun window_skip :: "(u8 \<Rightarrow> decoder) \<Rightarrow> em8051 \<Rightarrow> nat \<Rightarrow> nat \<Rightarrow> em8051_debug_status + nat" where
  "window_skip dec c 0 cursor = Inr cursor"
| "window_skip dec c (Suc steps) cursor =
     (case decode_record dec c cursor of
        Inl status \<Rightarrow> Inl status
      | Inr skipped \<Rightarrow>
          if cursor + unat (dd_size skipped) > 0xffff then Inl EM8051_DEBUG_RANGE
          else window_skip dec c steps (cursor + unat (dd_size skipped)))"

text \<open>The forward part: the records and the staged history updates, \<open>todo\<close> records to go.\<close>

fun window_forward :: "(u8 \<Rightarrow> decoder) \<Rightarrow> em8051 \<Rightarrow> nat \<Rightarrow> nat \<Rightarrow> em8051_debug_decoded list \<Rightarrow> (nat \<times> u16) list
    \<Rightarrow> em8051_debug_status + em8051_debug_decoded list \<times> (nat \<times> u16) list" where
  "window_forward dec c 0 cursor records staged = Inr (records, staged)"
| "window_forward dec c (Suc todo) cursor records staged =
     (case decode_record dec c cursor of
        Inl status \<Rightarrow> Inl status
      | Inr record \<Rightarrow>
          let next = cursor + unat (dd_size record);
              staged' = (if next < 65536 then staged @ [(next, word_of_nat cursor)] else staged)
          in if todo \<noteq> 0 \<and> next > 0xffff then Inl EM8051_DEBUG_RANGE
             else window_forward dec c todo next (records @ [record]) staged')"

definition commit_history :: "(nat \<times> u16) list \<Rightarrow> emu_decode_cache \<Rightarrow> emu_decode_cache" where
  "commit_history staged cache =
     fold (\<lambda>(a, p) cache. cache\<lparr>dc_predecessor := (dc_predecessor cache)(a := p), dc_known := (dc_known cache)(a := True)\<rparr>)
       staged cache"

definition zero_record :: em8051_debug_decoded where
  "zero_record = \<lparr>dd_address = 0, dd_size = 0, dd_valid = False, dd_text = []\<rparr>"

definition window_start :: "(u8 \<Rightarrow> decoder) \<Rightarrow> em8051 \<Rightarrow> emu_decode_cache \<Rightarrow> bool \<Rightarrow> nat \<Rightarrow> int \<Rightarrow> nat
    \<Rightarrow> em8051_debug_status + em8051_debug_decoded list \<times> nat" where
  "window_start dec c cache allocated base instruction_offset count =
     (if instruction_offset < 0 then
        let predecessor_count = nat (- instruction_offset)
        in if \<not> allocated then Inl EM8051_DEBUG_INTERNAL
           else (case window_back dec c cache predecessor_count True base (replicate (min predecessor_count count) zero_record) of
                   Inl status \<Rightarrow> Inl status
                 | Inr temporary \<Rightarrow> Inr (temporary, base))
      else (case window_skip dec c (nat instruction_offset) base of
              Inl status \<Rightarrow> Inl status
            | Inr cursor \<Rightarrow> Inr ([], cursor)))"

definition emu_decode_window :: "(u8 \<Rightarrow> decoder) \<Rightarrow> em8051 \<Rightarrow> emu_decode_cache \<Rightarrow> bool \<Rightarrow> u16 \<Rightarrow> int \<Rightarrow> int \<Rightarrow> nat
    \<Rightarrow> em8051_debug_decoded list \<Rightarrow> em8051_debug_status \<times> emu_decode_cache \<times> em8051_debug_decoded list" where
  "emu_decode_window dec c cache allocated reference byte_offset instruction_offset count destination =
     (if count = 0 \<or> count > 256 \<or> byte_offset < -65536 \<or> byte_offset > 65536 \<or>
         instruction_offset < -65536 \<or> instruction_offset > 65536
      then (EM8051_DEBUG_INVALID_ARGUMENT, cache, destination)
      else let base = uint reference + byte_offset
      in if base < 0 \<or> base > 0xffff then (EM8051_DEBUG_RANGE, cache, destination)
      else case window_start dec c cache allocated (nat base) instruction_offset count of
             Inl status \<Rightarrow> (status, cache, destination)
           | Inr (before, cursor) \<Rightarrow>
               (case window_forward dec c (count - length before) cursor before [] of
                  Inl status \<Rightarrow> (status, cache, destination)
                | Inr (records, staged) \<Rightarrow>
                    (EM8051_DEBUG_OK, commit_history staged cache, records @ drop count destination)))"

subsection \<open>What the history and a window promise\<close>

text \<open>Every remembered predecessor is an instruction that ends where the history says.\<close>

definition history_ok :: "(u8 \<Rightarrow> decoder) \<Rightarrow> em8051 \<Rightarrow> emu_decode_cache \<Rightarrow> bool" where
  "history_ok dec c cache \<longleftrightarrow> (\<forall>a<65536. dc_known cache a \<longrightarrow>
     fst (emu_decode_at dec c (dc_predecessor cache a)) \<noteq> 0 \<and>
     unat (dc_predecessor cache a) + unat (fst (emu_decode_at dec c (dc_predecessor cache a))) = a)"

definition record_ok :: "(u8 \<Rightarrow> decoder) \<Rightarrow> em8051 \<Rightarrow> em8051_debug_decoded \<Rightarrow> bool" where
  "record_ok dec c r \<longleftrightarrow>
     (if dd_valid r then emu_decode_at dec c (dd_address r) = (dd_size r, dd_text r)
      else r = invalid_record (dd_address r))"

text \<open>Records that cover an address range without gap or overlap.\<close>

fun listing :: "nat \<Rightarrow> em8051_debug_decoded list \<Rightarrow> nat \<Rightarrow> bool" where
  "listing a [] b \<longleftrightarrow> a = b"
| "listing a (r # rs) b \<longleftrightarrow> unat (dd_address r) = a \<and> dd_size r \<noteq> 0 \<and> listing (a + unat (dd_size r)) rs b"

lemma listing_append: "listing a (xs @ ys) b \<longleftrightarrow> (\<exists>m. listing a xs m \<and> listing m ys b)"
  by (induction xs arbitrary: a) auto

lemma listing_take: "listing a rs b \<Longrightarrow> \<exists>m. listing a (take n rs) m"
  using listing_append [of a "take n rs" "drop n rs" b] by auto

lemma decode_recordD:
  assumes "decode_record dec c a = Inr r"
  shows "a < 65536" "unat (dd_address r) = a" "dd_size r \<noteq> 0" "a + unat (dd_size r) \<le> 65536" "record_ok dec c r"
    "dd_size r = fst (emu_decode_at dec c (word_of_nat a))" "dd_valid r"
  using assms by (auto simp: decode_record_def record_ok_def Let_def split_beta unat_of_nat take_bit_nat_eq_self split: if_splits)

lemma unat_of_nat_u16: "a < 65536 \<Longrightarrow> unat (word_of_nat a :: u16) = a"
  by (simp add: unat_of_nat take_bit_nat_eq_self)

lemma window_back_records:
  assumes "history_ok dec c cache" "window_back dec c cache n known cursor temporary = Inr out" "cursor < 65536"
  shows "\<exists>lo full. length full = n \<and> listing lo full cursor \<and> list_all (record_ok dec c) full \<and>
           out = take (length temporary) full @ drop n temporary"
  using assms
proof (induction n arbitrary: known cursor temporary)
  case (Suc left)
  let ?store = "\<lambda>r. if left < length temporary then temporary[left := r] else temporary"
  have stored: ?case
    if r: "record_ok dec c r" "unat (dd_address r) + unat (dd_size r) = cursor" "dd_size r \<noteq> 0"
      and rec: "window_back dec c cache left k (unat (dd_address r)) (?store r) = Inr out" for r k
  proof -
    have "unat (dd_address r) < 65536" using Suc.prems(3) r(2) by simp
    from Suc.IH [OF Suc.prems(1) rec this] obtain lo full where f: "length full = left" "listing lo full (unat (dd_address r))"
      "list_all (record_ok dec c) full" "out = take (length (?store r)) full @ drop left (?store r)" by blast
    have "out = take (length temporary) (full @ [r]) @ drop (Suc left) temporary"
      using f(1,4) by (auto simp: drop_update_cancel not_less Cons_nth_drop_Suc [symmetric] nth_list_update drop_update_swap)
    then show ?thesis
      using f r by (intro exI [of _ lo] exI [of _ "full @ [r]"]) (auto simp: listing_append)
  qed
  show ?case
  proof (cases "known \<and> dc_known cache cursor")
    case True
    define p where "p = dc_predecessor cache cursor"
    from True Suc.prems(2) obtain r where r: "decode_record dec c (unat p) = Inr r"
      "window_back dec c cache left True (unat p) (?store r) = Inr out"
      by (auto simp: p_def Let_def split: sum.splits)
    have "unat p + unat (fst (emu_decode_at dec c p)) = cursor"
      using Suc.prems(1,3) True by (auto simp: history_ok_def p_def)
    with decode_recordD [OF r(1)] show ?thesis using r(2) by (intro stored [of r True]) simp_all
  next
    case False
    define q r where "q = cursor - 1" and "r = invalid_record (word_of_nat q)"
    have w: "cursor = Suc q" "window_back dec c cache left False q (?store r) = Inr out"
      using Suc.prems(2) False by (auto simp: Let_def q_def r_def split: if_splits)
    have "unat (dd_address r) = q" using Suc.prems(3) w(1) by (simp add: r_def invalid_record_def unat_of_nat_u16)
    moreover have "dd_size r = 1" "record_ok dec c r" by (simp_all add: r_def invalid_record_def record_ok_def)
    ultimately show ?thesis using w by (intro stored [of r False]) simp_all
  qed
qed simp

lemma window_skip_bound: "window_skip dec c n cursor = Inr out \<Longrightarrow> cursor < 65536 \<Longrightarrow> out < 65536"
  by (induction n arbitrary: cursor) (auto split: sum.splits if_splits)

definition staged_ok :: "(u8 \<Rightarrow> decoder) \<Rightarrow> em8051 \<Rightarrow> nat \<times> u16 \<Rightarrow> bool" where
  "staged_ok dec c e \<longleftrightarrow> fst (emu_decode_at dec c (snd e)) \<noteq> 0 \<and> unat (snd e) + unat (fst (emu_decode_at dec c (snd e))) = fst e"

lemma window_forward_records:
  assumes "window_forward dec c n cursor records staged = Inr (out, st)" "list_all (staged_ok dec c) staged"
  shows "\<exists>new end. out = records @ new \<and> length new = n \<and> listing cursor new end \<and>
           list_all (\<lambda>r. record_ok dec c r \<and> dd_valid r) new \<and> list_all (staged_ok dec c) st"
  using assms
proof (induction n arbitrary: cursor records staged)
  case (Suc n)
  from Suc.prems(1) obtain r where r: "decode_record dec c cursor = Inr r" by (auto split: sum.splits)
  note d = decode_recordD [OF r]
  define nx where "nx = cursor + unat (dd_size r)"
  define staged' where "staged' = (if nx < 65536 then staged @ [(nx, word_of_nat cursor)] else staged)"
  have w: "window_forward dec c n nx (records @ [r]) staged' = Inr (out, st)"
    using Suc.prems(1) by (auto simp: r Let_def nx_def staged'_def split: if_splits)
  have "staged_ok dec c (nx, word_of_nat cursor)" using d by (simp add: staged_ok_def nx_def unat_of_nat_u16)
  then have "list_all (staged_ok dec c) staged'" using Suc.prems(2) by (simp add: staged'_def)
  from Suc.IH [OF w this] obtain new e where "out = (records @ [r]) @ new" "length new = n" "listing nx new e"
    "list_all (\<lambda>r. record_ok dec c r \<and> dd_valid r) new" "list_all (staged_ok dec c) st" by blast
  then show ?case
    using d by (intro exI [of _ "r # new"] exI [of _ e]) (simp add: nx_def)
next
  case 0
  then show ?case by (intro exI [of _ "[]"] exI [of _ cursor]) simp
qed

lemma commit_history_ok:
  "history_ok dec c cache \<Longrightarrow> list_all (staged_ok dec c) st \<Longrightarrow> history_ok dec c (commit_history st cache)"
proof (induction st arbitrary: cache)
  case (Cons e st)
  obtain a p where e: "e = (a, p)" by fastforce
  have "history_ok dec c (cache\<lparr>dc_predecessor := (dc_predecessor cache)(a := p), dc_known := (dc_known cache)(a := True)\<rparr>)"
    using Cons.prems by (auto simp: history_ok_def staged_ok_def e)
  from Cons.IH [OF this] show ?case using Cons.prems by (simp add: commit_history_def e)
qed (simp add: commit_history_def)

lemma clear_ok: "history_ok dec c (emu_decode_clear cache)"
  by (simp add: history_ok_def emu_decode_clear_def)

lemma completed_ok: "history_ok dec c cache \<Longrightarrow> history_ok dec c (emu_decode_completed pc (fst (emu_decode_at dec c pc)) pc' cache)"
  by (auto simp: history_ok_def emu_decode_completed_def Let_def)

lemma window_start_records:
  assumes "history_ok dec c cache" "window_start dec c cache allocated base io count = Inr (before, cursor)" "base < 65536" "0 < count"
  shows "cursor < 65536 \<and> length before \<le> count \<and> list_all (record_ok dec c) before \<and>
    (\<exists>lo hi. listing lo before hi \<and> (length before < count \<longrightarrow> hi = cursor)) \<and>
    (io \<le> 0 \<and> nat (- io) < count \<longrightarrow> cursor = base \<and> length before = nat (- io))"
proof (cases "io < 0")
  case True
  define n where "n = nat (- io)"
  from assms(2) True have w: "window_back dec c cache n True base (replicate (min n count) zero_record) = Inr before" "cursor = base"
    by (auto simp: window_start_def n_def Let_def split: if_splits sum.splits)
  obtain lo full where f: "length full = n" "listing lo full base" "list_all (record_ok dec c) full" "before = take (min n count) full"
    using window_back_records [OF assms(1) w(1) assms(3)] by auto
  have "length before = min n count" using f by simp
  moreover have "list_all (record_ok dec c) before" using f(3,4) by (auto simp: list_all_iff dest: in_set_takeD)
  moreover have "\<exists>lo hi. listing lo before hi \<and> (length before < count \<longrightarrow> hi = cursor)"
  proof (cases "n < count")
    case True
    then show ?thesis using f w by auto
  next
    case False
    then show ?thesis using f listing_take [OF f(2), of "min n count"] by auto
  qed
  ultimately show ?thesis using w assms(3) by (auto simp: n_def min_def)
next
  case False
  then show ?thesis
    using assms window_skip_bound by (auto simp: window_start_def split: sum.splits)
qed

text \<open>An error return never reports success.\<close>

lemma error_not_ok:
  "decode_record dec c a \<noteq> Inl EM8051_DEBUG_OK"
  "window_back dec c cache n known a temporary \<noteq> Inl EM8051_DEBUG_OK"
  "window_skip dec c n a \<noteq> Inl EM8051_DEBUG_OK"
  "window_forward dec c n a records staged \<noteq> Inl EM8051_DEBUG_OK"
  "window_start dec c cache allocated b io count \<noteq> Inl EM8051_DEBUG_OK"
proof -
  have d: "decode_record dec c a \<noteq> Inl EM8051_DEBUG_OK" for a by (auto simp: decode_record_def Let_def split_beta)
  have b: "window_back dec c cache n known a temporary \<noteq> Inl EM8051_DEBUG_OK" for n known a temporary
    using d by (induction n arbitrary: known a temporary) (auto simp: Let_def split: sum.split)
  have s: "window_skip dec c n a \<noteq> Inl EM8051_DEBUG_OK" for n a
    using d by (induction n arbitrary: a) (auto split: sum.split)
  have "window_forward dec c n a records staged \<noteq> Inl EM8051_DEBUG_OK" for n a records staged
    using d by (induction n arbitrary: a records staged) (auto simp: Let_def split: sum.split)
  then show "decode_record dec c a \<noteq> Inl EM8051_DEBUG_OK"
    "window_back dec c cache n known a temporary \<noteq> Inl EM8051_DEBUG_OK"
    "window_skip dec c n a \<noteq> Inl EM8051_DEBUG_OK"
    "window_forward dec c n a records staged \<noteq> Inl EM8051_DEBUG_OK"
    "window_start dec c cache allocated b io count \<noteq> Inl EM8051_DEBUG_OK"
    using d b s by (auto simp: window_start_def Let_def split: sum.split)
qed

lemma window_ok:
  assumes "history_ok dec c cache" "emu_decode_window dec c cache allocated ref bo io count dest = (EM8051_DEBUG_OK, cache', out)"
  shows "history_ok dec c cache' \<and> length out = max count (length dest) \<and>
    (\<exists>lo hi. listing lo (take count out) hi) \<and> list_all (record_ok dec c) (take count out) \<and>
    (io \<le> 0 \<and> nat (- io) < count \<longrightarrow> uint (dd_address (out ! nat (- io))) = uint ref + bo)"
proof -
  define base where "base = nat (uint ref + bo)"
  have g: "count \<noteq> 0" "0 \<le> uint ref + bo" "uint ref + bo \<le> 0xffff"
    using assms(2) by (auto simp: emu_decode_window_def Let_def split: if_splits)
  then have base: "base < 65536" "int base = uint ref + bo" by (simp_all add: base_def)
  from assms(2) g obtain before cursor records staged where
    w: "window_start dec c cache allocated base io count = Inr (before, cursor)"
      "window_forward dec c (count - length before) cursor before [] = Inr (records, staged)"
    and out: "cache' = commit_history staged cache" "out = records @ drop count dest"
    by (auto simp: emu_decode_window_def Let_def base_def error_not_ok split: if_splits sum.splits)
  have s: "cursor < 65536" "length before \<le> count" "list_all (record_ok dec c) before"
    "\<exists>lo hi. listing lo before hi \<and> (length before < count \<longrightarrow> hi = cursor)"
    "io \<le> 0 \<and> nat (- io) < count \<longrightarrow> cursor = base \<and> length before = nat (- io)"
    using window_start_records [OF assms(1) w(1) base(1)] g(1) by blast+
  obtain new hi where f: "records = before @ new" "length new = count - length before" "listing cursor new hi"
    "list_all (\<lambda>r. record_ok dec c r \<and> dd_valid r) new" "list_all (staged_ok dec c) staged"
    using window_forward_records [OF w(2)] by auto
  have len: "length records = count" using f(1,2) s(2) by simp
  then have t: "take count out = records" using out(2) by simp
  have "\<exists>lo hi. listing lo records hi"
    using s(2,4) f(1,2,3) by (cases "length before < count") (auto simp: listing_append)
  moreover have "list_all (record_ok dec c) records" using s(3) f(1,4) by (auto simp: list_all_iff)
  moreover have "uint (dd_address (out ! nat (- io))) = uint ref + bo" if io: "io \<le> 0" "nat (- io) < count"
  proof -
    have c: "cursor = base" "length before = nat (- io)" using s(5) io by auto
    obtain r rs where "new = r # rs" using f(2) c(2) io(2) by (cases new) auto
    then have "out ! nat (- io) = r" "unat (dd_address r) = base"
      using out(2) f(1,3) c by (simp_all add: nth_append)
    then show ?thesis using base(2) by (metis uint_nat)
  qed
  ultimately show ?thesis
    using commit_history_ok [OF assms(1) f(5)] len out by (simp add: t max_def)
qed

text \<open>
  C34. Decoder windows.  Starting from a history in which every remembered predecessor really ends
  where it is said to, clearing, recording a completed instruction and serving a window keep it so.
  A window that is served holds exactly the requested number of records, lists its address range
  without gap or overlap, prints every valid record as the decoder does at its address and marks
  the others, and has the reference address at the requested place; a refused window changes
  neither the history nor the caller's records.
\<close>

theorem decode_window:
  assumes "history_ok dec c cache"
  shows "history_ok dec c (emu_decode_clear cache) \<and>
    history_ok dec c (emu_decode_completed pc (fst (emu_decode_at dec c pc)) pc' cache) \<and>
    (case emu_decode_window dec c cache allocated ref bo io count dest of (status, cache', out) \<Rightarrow>
       if status = EM8051_DEBUG_OK then
         history_ok dec c cache' \<and> length out = max count (length dest) \<and>
         (\<exists>lo hi. listing lo (take count out) hi) \<and> list_all (record_ok dec c) (take count out) \<and>
         (io \<le> 0 \<and> nat (- io) < count \<longrightarrow> uint (dd_address (out ! nat (- io))) = uint ref + bo)
       else cache' = cache \<and> out = dest)"
proof -
  obtain status cache' out where w: "emu_decode_window dec c cache allocated ref bo io count dest = (status, cache', out)"
    by (metis prod_cases3)
  have "cache' = cache \<and> out = dest" if "status \<noteq> EM8051_DEBUG_OK"
    using w that by (auto simp: emu_decode_window_def Let_def split: if_splits sum.splits)
  then show ?thesis
    using w window_ok [OF assms] clear_ok completed_ok [OF assms] by auto
qed

text \<open>A window of one record on the idle loop, with an empty history.\<close>

definition unknown_history :: emu_decode_cache where
  "unknown_history = \<lparr>dc_predecessor = (\<lambda>_. 0), dc_known = (\<lambda>_. False)\<rparr>"

definition idle_decoder :: "u8 \<Rightarrow> decoder" where
  "idle_decoder = disasm_setptrs (\<lambda>_ _ _. (0, []))"

theorem decode_window_witness:
  "\<exists>cache' out. emu_decode_window idle_decoder idle_loop unknown_history True 0 0 0 1 [zero_record] = (EM8051_DEBUG_OK, cache', out) \<and>
     history_ok idle_decoder idle_loop cache' \<and> dc_known cache' 2 \<and> list_all (record_ok idle_decoder idle_loop) (take 1 out)"
proof -
  have "emu_decode_at idle_decoder idle_loop 0 = disasm_sjmp_offset idle_loop 0"
    by (simp add: emu_decode_at_def idle_loop_def zero_cpu_def idle_decoder_def idle_loop_decoder)
  then have w: "emu_decode_window idle_decoder idle_loop unknown_history True 0 0 0 1 [zero_record] =
      (EM8051_DEBUG_OK, commit_history [(2, 0)] unknown_history,
        [\<lparr>dd_address = 0, dd_size = 2, dd_valid = True, dd_text = snd (disasm_sjmp_offset idle_loop 0)\<rparr>])"
    by (simp add: emu_decode_window_def window_start_def decode_record_def disasm_sjmp_offset_def) (simp add: numeral_2_eq_2)
  have "history_ok idle_decoder idle_loop unknown_history" by (simp add: history_ok_def unknown_history_def)
  from decode_window [OF this, where allocated = True and ref = 0 and bo = 0 and io = 0 and count = 1 and dest = "[zero_record]"] w
  show ?thesis
    by (simp add: commit_history_def)
qed

end
