(* ===== verification/Sha256.thy ===== *)
theory Sha256
  imports Prelude
begin

text \<open>
  The SHA-256 of \<^verbatim>\<open>emu_sha_internal.c\<close>, which identifies program images and configurations: the
  compression function, the streaming interface and its hexadecimal form, with the digest of the
  standard as reference.  Arrays are lists that keep their length; sizes are natural numbers.
\<close>

subsection \<open>The code\<close>

record sha256_context =
  sc_state :: "u32 list"
  sc_bit_count :: u64
  sc_block :: "u8 list"
  sc_used :: nat

definition gSHA256Constants :: "u32 list" where
  "gSHA256Constants =
    [0x428a2f98, 0x71374491, 0xb5c0fbcf, 0xe9b5dba5] @ [0x3956c25b, 0x59f111f1, 0x923f82a4, 0xab1c5ed5] @
    [0xd807aa98, 0x12835b01, 0x243185be, 0x550c7dc3] @ [0x72be5d74, 0x80deb1fe, 0x9bdc06a7, 0xc19bf174] @
    [0xe49b69c1, 0xefbe4786, 0x0fc19dc6, 0x240ca1cc] @ [0x2de92c6f, 0x4a7484aa, 0x5cb0a9dc, 0x76f988da] @
    [0x983e5152, 0xa831c66d, 0xb00327c8, 0xbf597fc7] @ [0xc6e00bf3, 0xd5a79147, 0x06ca6351, 0x14292967] @
    [0x27b70a85, 0x2e1b2138, 0x4d2c6dfc, 0x53380d13] @ [0x650a7354, 0x766a0abb, 0x81c2c92e, 0x92722c85] @
    [0xa2bfe8a1, 0xa81a664b, 0xc24b8b70, 0xc76c51a3] @ [0xd192e819, 0xd6990624, 0xf40e3585, 0x106aa070] @
    [0x19a4c116, 0x1e376c08, 0x2748774c, 0x34b0bcb5] @ [0x391c0cb3, 0x4ed8aa4a, 0x5b9cca4f, 0x682e6ff3] @
    [0x748f82ee, 0x78a5636f, 0x84c87814, 0x8cc70208] @ [0x90befffa, 0xa4506ceb, 0xbef9a3f7, 0xc67178f2]"

definition rotate_right :: "u32 \<Rightarrow> nat \<Rightarrow> u32" where
  "rotate_right v n = drop_bit n v OR push_bit (32 - n) v"

text \<open>The word array of \<open>sha256_transform\<close>, filled from index 0 up.\<close>

definition load_word :: "u8 list \<Rightarrow> nat \<Rightarrow> u32" where
  "load_word block i =
     push_bit 24 (ucast (block ! (i * 4))) OR push_bit 16 (ucast (block ! (i * 4 + 1))) OR
     push_bit 8 (ucast (block ! (i * 4 + 2))) OR ucast (block ! (i * 4 + 3))"

definition extend_words :: "nat \<Rightarrow> u32 list \<Rightarrow> u32 list" where
  "extend_words i words =
     (let x = words ! (i - 15);
          s0 = rotate_right x 7 XOR rotate_right x 18 XOR drop_bit 3 x;
          y = words ! (i - 2);
          s1 = rotate_right y 17 XOR rotate_right y 19 XOR drop_bit 10 y
      in words @ [words ! (i - 16) + s0 + words ! (i - 7) + s1])"

definition transform_words :: "u8 list \<Rightarrow> u32 list" where
  "transform_words block = fold extend_words [16..<64] (map (load_word block) [0..<16])"

definition transform_round :: "u32 list \<Rightarrow> nat \<Rightarrow> u32 list \<Rightarrow> u32 list" where
  "transform_round words i v =
     (let a = v ! 0; b = v ! 1; c = v ! 2; d = v ! 3; e = v ! 4; f = v ! 5; g = v ! 6; h = v ! 7;
          s1 = rotate_right e 6 XOR rotate_right e 11 XOR rotate_right e 25;
          choice = (e AND f) XOR (NOT e AND g);
          temp1 = h + s1 + choice + gSHA256Constants ! i + words ! i;
          s0 = rotate_right a 2 XOR rotate_right a 13 XOR rotate_right a 22;
          majority = (a AND b) XOR (a AND c) XOR (b AND c);
          temp2 = s0 + majority
      in [temp1 + temp2, a, b, c, d + temp1, e, f, g])"

definition sha256_transform :: "u8 list \<Rightarrow> sha256_context \<Rightarrow> sha256_context" where
  "sha256_transform block x =
     (let v = fold (transform_round (transform_words block)) [0..<64] (sc_state x)
      in x\<lparr>sc_state := map2 (+) (sc_state x) v\<rparr>)"

definition sha256_initial :: "u32 list" where
  "sha256_initial =
    [0x6a09e667, 0xbb67ae85, 0x3c6ef372, 0xa54ff53a, 0x510e527f, 0x9b05688c, 0x1f83d9ab, 0x5be0cd19]"

definition sha256_init :: "sha256_context \<Rightarrow> sha256_context" where
  "sha256_init x = x\<lparr>sc_state := sha256_initial, sc_bit_count := 0, sc_used := 0\<rparr>"

text \<open>
  One turn of the loop of \<open>sha256_update\<close>.  The loop itself would not end on a full block, hence the
  option; a context between calls never has one.
\<close>

definition copy_bytes :: "nat \<Rightarrow> u8 list \<Rightarrow> u8 list \<Rightarrow> u8 list" where
  "copy_bytes at xs block = take at block @ xs @ drop (at + length xs) block"

definition update_turn :: "nat \<Rightarrow> u8 list \<Rightarrow> sha256_context \<Rightarrow> sha256_context" where
  "update_turn n data x =
     (let y = x\<lparr>sc_block := copy_bytes (sc_used x) (take n data) (sc_block x), sc_used := sc_used x + n\<rparr>
      in if sc_used y = 64
         then (sha256_transform (sc_block y) y)\<lparr>sc_bit_count := sc_bit_count y + 512, sc_used := 0\<rparr>
         else y)"

partial_function (option) sha256_update :: "u8 list \<Rightarrow> sha256_context \<Rightarrow> sha256_context option" where
  [code]: "sha256_update data x =
     (if data = [] then Some x
      else let n = min (length data) (64 - sc_used x)
           in sha256_update (drop n data) (update_turn n data x))"

function pad_zeros :: "nat \<Rightarrow> sha256_context \<Rightarrow> sha256_context" where
  "pad_zeros n x =
     (if sc_used x < n then pad_zeros n (x\<lparr>sc_block := (sc_block x)[sc_used x := 0], sc_used := sc_used x + 1\<rparr>)
      else x)"
  by auto
termination by (relation "measure (\<lambda>(n, x). n - sc_used x)") auto

declare pad_zeros.simps [simp del]

definition be32_bytes :: "u32 \<Rightarrow> u8 list" where
  "be32_bytes w = [ucast (drop_bit 24 w), ucast (drop_bit 16 w), ucast (drop_bit 8 w), ucast w]"

definition store_length :: "u64 \<Rightarrow> u8 list \<Rightarrow> u8 list" where
  "store_length total_bits block = fold (\<lambda>i b. b[63 - i := ucast (drop_bit (i * 8) total_bits)]) [0..<8] block"

definition sha256_final :: "sha256_context \<Rightarrow> u8 list \<times> sha256_context" where
  "sha256_final x =
     (let total_bits = sc_bit_count x + word_of_nat (sc_used x) * 8;
          x1 = x\<lparr>sc_block := (sc_block x)[sc_used x := 0x80], sc_used := sc_used x + 1\<rparr>;
          x2 = (if sc_used x1 > 56
                then let y = pad_zeros 64 x1 in (sha256_transform (sc_block y) y)\<lparr>sc_used := 0\<rparr>
                else x1);
          x3 = pad_zeros 56 x2;
          x4 = x3\<lparr>sc_block := store_length total_bits (sc_block x3)\<rparr>;
          x5 = sha256_transform (sc_block x4) x4
      in (concat (map be32_bytes (sc_state x5)), x5))"

definition sha256_hex :: "sha256_context \<Rightarrow> u8 list \<Rightarrow> string option" where
  "sha256_hex context data =
     (case sha256_update data (sha256_init context) of
        None \<Rightarrow> None
      | Some x \<Rightarrow>
          Some (concat (map (\<lambda>b. [''0123456789abcdef'' ! unat (drop_bit 4 b), ''0123456789abcdef'' ! unat (b AND 0x0f)])
            (fst (sha256_final x)))))"

subsection \<open>The reference\<close>

text \<open>
  The standard's functions on words, the message schedule as a recurrence, the rounds, and the digest
  of a message: the fold of the compression function over the blocks of the padded message.
\<close>

definition Ch :: "u32 \<Rightarrow> u32 \<Rightarrow> u32 \<Rightarrow> u32" where
  "Ch x y z = (x AND y) OR (NOT x AND z)"

definition Maj :: "u32 \<Rightarrow> u32 \<Rightarrow> u32 \<Rightarrow> u32" where
  "Maj x y z = (x AND y) OR (x AND z) OR (y AND z)"

definition big_sigma0 :: "u32 \<Rightarrow> u32" where
  "big_sigma0 x = word_rotr 2 x XOR word_rotr 13 x XOR word_rotr 22 x"

definition big_sigma1 :: "u32 \<Rightarrow> u32" where
  "big_sigma1 x = word_rotr 6 x XOR word_rotr 11 x XOR word_rotr 25 x"

definition small_sigma0 :: "u32 \<Rightarrow> u32" where
  "small_sigma0 x = word_rotr 7 x XOR word_rotr 18 x XOR drop_bit 3 x"

definition small_sigma1 :: "u32 \<Rightarrow> u32" where
  "small_sigma1 x = word_rotr 17 x XOR word_rotr 19 x XOR drop_bit 10 x"

fun schedule :: "u8 list \<Rightarrow> nat \<Rightarrow> u32" where
  "schedule block t =
     (if t < 16 then load_word block t
      else small_sigma1 (schedule block (t - 2)) + schedule block (t - 7) +
           small_sigma0 (schedule block (t - 15)) + schedule block (t - 16))"

declare schedule.simps [simp del]

fun spec_round :: "u32 \<Rightarrow> u32 \<Rightarrow> u32 list \<Rightarrow> u32 list" where
  "spec_round k w [a, b, c, d, e, f, g, h] =
     (let t1 = h + big_sigma1 e + Ch e f g + k + w; t2 = big_sigma0 a + Maj a b c
      in [t1 + t2, a, b, c, d + t1, e, f, g])"
| "spec_round k w _ = []"

primrec spec_rounds :: "u8 list \<Rightarrow> u32 list \<Rightarrow> nat \<Rightarrow> u32 list" where
  "spec_rounds block v 0 = v"
| "spec_rounds block v (Suc t) = spec_round (gSHA256Constants ! t) (schedule block t) (spec_rounds block v t)"

definition compress :: "u8 list \<Rightarrow> u32 list \<Rightarrow> u32 list" where
  "compress block v = map2 (+) v (spec_rounds block v 64)"

definition be64_bytes :: "u64 \<Rightarrow> u8 list" where
  "be64_bytes w = map (\<lambda>i. ucast (drop_bit (56 - 8 * i) w)) [0..<8]"

definition pad_message :: "u8 list \<Rightarrow> u8 list" where
  "pad_message m = m @ [0x80] @ replicate ((119 - length m mod 64) mod 64) 0 @ be64_bytes (word_of_nat (8 * length m))"

function blocks :: "u8 list \<Rightarrow> u8 list list" where
  "blocks xs = (if xs = [] then [] else take 64 xs # blocks (drop 64 xs))"
  by auto
termination by (relation "measure length") auto

declare blocks.simps [simp del]

definition sha256_digest :: "u8 list \<Rightarrow> u8 list" where
  "sha256_digest m = concat (map be32_bytes (fold compress (blocks (pad_message m)) sha256_initial))"

subsection \<open>The compression function\<close>

lemma rotate_right_rotr: "0 < n \<Longrightarrow> n < 32 \<Longrightarrow> rotate_right v n = word_rotr n v"
proof (rule bit_word_eqI)
  fix i assume n: "0 < n" "n < 32" and "i < LENGTH(32)"
  then have i: "i < 32" by simp
  have "bit (rotate_right v n) i = (bit v (n + i) \<or> 32 - n \<le> i \<and> bit v (i - (32 - n)))"
    using n i by (simp add: rotate_right_def bit_or_iff bit_drop_bit_eq bit_push_bit_iff)
  also have "\<dots> = bit v ((i + n) mod 32)"
  proof (cases "i + n < 32")
    case True
    then show ?thesis by (auto simp: add.commute)
  next
    case False
    then have "(i + n) mod 32 = i + n - 32" using n i by (simp add: mod_if)
    moreover have "\<not> bit v (n + i)" using False bit_imp_le_length [of v "n + i"] by auto
    ultimately show ?thesis using False n i by (auto simp: algebra_simps)
  qed
  finally show "bit (rotate_right v n) i = bit (word_rotr n v) i" using i by (simp add: bit_word_rotr_iff)
qed

lemma choice_Ch: "(x AND y) XOR (NOT x AND z) = Ch x y z"
  by (rule bit_word_eqI) (auto simp: Ch_def bit_simps)

lemma majority_Maj: "(x AND y) XOR (x AND z) XOR (y AND z) = Maj x y z"
  by (rule bit_word_eqI) (auto simp: Maj_def bit_simps)

lemmas word_functions = rotate_right_rotr choice_Ch majority_Maj

lemma extend_schedule:
  assumes "16 \<le> i" "words = map (schedule block) [0..<i]"
  shows "extend_words i words = map (schedule block) [0..<Suc i]"
proof -
  have "schedule block i = small_sigma1 (schedule block (i - 2)) + schedule block (i - 7) +
      small_sigma0 (schedule block (i - 15)) + schedule block (i - 16)"
    using assms(1) by (subst schedule.simps) simp
  then show ?thesis
    using assms by (simp add: extend_words_def Let_def word_functions small_sigma0_def small_sigma1_def ac_simps)
qed

lemma fold_extend: "16 \<le> i \<Longrightarrow> fold extend_words [16..<i] (map (schedule block) [0..<16]) = map (schedule block) [0..<i]"
proof (induction rule: dec_induct)
  case (step i)
  have "[16..<Suc i] = [16..<i] @ [i]" using step(1) by (rule upt_Suc_append)
  then show ?case using step extend_schedule [of i _ block] by (simp only: fold_append fold_simps comp_apply)
qed simp

lemma transform_words_schedule: "transform_words block = map (schedule block) [0..<64]"
proof -
  have "map (load_word block) [0..<16] = map (schedule block) [0..<16]"
    by (rule map_cong) (simp_all add: schedule.simps)
  then show ?thesis using fold_extend [of 64 block] by (simp only: transform_words_def)
qed

lemma eight: "length (v :: 'a list) = 8 \<Longrightarrow> \<exists>a b c d e f g h. v = [a, b, c, d, e, f, g, h]"
  by (auto simp: numeral_eq_Suc length_Suc_conv)

lemma round_spec:
  assumes "length v = 8" "i < 64"
  shows "transform_round (transform_words block) i v = spec_round (gSHA256Constants ! i) (schedule block i) v"
proof -
  obtain a b c d e f g h where "v = [a, b, c, d, e, f, g, h]" using eight [OF assms(1)] by blast
  then show ?thesis
    using assms(2) by (simp add: transform_round_def Let_def transform_words_schedule word_functions
        big_sigma0_def big_sigma1_def)
qed

lemma length_spec_round: "length v = 8 \<Longrightarrow> length (spec_round k w v) = 8"
  using eight [of v] by (auto simp: Let_def)

lemma length_spec_rounds: "length v = 8 \<Longrightarrow> length (spec_rounds block v t) = 8"
  by (induction t) (simp_all add: length_spec_round)

lemma length_compress [simp]: "length v = 8 \<Longrightarrow> length (compress block v) = 8"
  by (simp add: compress_def length_spec_rounds)

lemma fold_rounds: "length v = 8 \<Longrightarrow> n \<le> 64 \<Longrightarrow> fold (transform_round (transform_words block)) [0..<n] v = spec_rounds block v n"
proof (induction n)
  case (Suc n)
  then show ?case by (simp add: round_spec length_spec_rounds)
qed simp

lemma transform_compress:
  "length (sc_state x) = 8 \<Longrightarrow> sha256_transform block x = x\<lparr>sc_state := compress block (sc_state x)\<rparr>"
  by (simp add: sha256_transform_def compress_def fold_rounds)

subsection \<open>Streaming\<close>

text \<open>A context between calls: a block that is not full.\<close>

definition sha_ready :: "sha256_context \<Rightarrow> bool" where
  "sha_ready x \<longleftrightarrow> length (sc_state x) = 8 \<and> length (sc_block x) = 64 \<and> sc_used x < 64"

definition absorb :: "u8 \<Rightarrow> sha256_context \<Rightarrow> sha256_context" where
  "absorb b x = update_turn 1 [b] x"

lemma length_copy_bytes [simp]: "at + length xs \<le> length block \<Longrightarrow> length (copy_bytes at xs block) = length block"
  by (simp add: copy_bytes_def)

lemma copy_bytes_cons: "at + length (b # xs) \<le> length block \<Longrightarrow>
    copy_bytes at (b # xs) block = copy_bytes (Suc at) xs (copy_bytes at [b] block)"
  by (simp add: copy_bytes_def take_Suc_conv_app_nth add.commute)

lemma update_turn_ready:
  assumes "sha_ready x" "n \<le> length data" "n \<le> 64 - sc_used x"
  shows "sha_ready (update_turn n data x)"
  using assms by (auto simp: sha_ready_def update_turn_def Let_def transform_compress)

lemma absorb_ready: "sha_ready x \<Longrightarrow> sha_ready (absorb b x)"
  unfolding absorb_def by (rule update_turn_ready) (auto simp: sha_ready_def)

lemma fold_absorb_ready: "sha_ready x \<Longrightarrow> sha_ready (fold absorb xs x)"
  by (induction xs arbitrary: x) (simp_all add: absorb_ready)

lemma turn_is_absorb:
  assumes "sha_ready x" "xs \<noteq> []" "length xs \<le> 64 - sc_used x"
  shows "update_turn (length xs) xs x = fold absorb xs x"
  using assms
proof (induction xs arbitrary: x)
  case (Cons b xs)
  show ?case
  proof (cases "xs = []")
    case False
    then have more: "sc_used x + 1 < 64" "Suc (length xs) + sc_used x \<le> 64"
      using Cons.prems by (auto simp: Suc_le_eq simp flip: length_greater_0_conv)
    then have a: "absorb b x = x\<lparr>sc_block := copy_bytes (sc_used x) [b] (sc_block x), sc_used := Suc (sc_used x)\<rparr>"
      by (simp add: absorb_def update_turn_def Let_def)
    have "fold absorb (b # xs) x = update_turn (length xs) xs (absorb b x)"
      using Cons.IH [OF absorb_ready [OF Cons.prems(1), of b] False] more a by simp
    also have "\<dots> = update_turn (length (b # xs)) (b # xs) x"
      using more Cons.prems(1) by (simp add: a update_turn_def Let_def copy_bytes_cons [of _ b xs "sc_block x"] sha_ready_def)
    finally show ?thesis by simp
  qed (simp add: absorb_def)
qed simp

lemma turn_take: "n \<le> length data \<Longrightarrow> update_turn n data x = update_turn (length (take n data)) (take n data) x"
  by (simp add: update_turn_def)

lemma update_is_absorb: "sha_ready x \<Longrightarrow> sha256_update data x = Some (fold absorb data x)"
proof (induction data arbitrary: x rule: length_induct)
  case (1 data)
  show ?case
  proof (cases "data = []")
    case False
    define n where "n = min (length data) (64 - sc_used x)"
    have n: "n \<noteq> 0" "n \<le> length data" "n \<le> 64 - sc_used x" using False 1(2) by (auto simp: n_def sha_ready_def)
    have turn: "update_turn n data x = fold absorb (take n data) x"
      using turn_take [OF n(2), of x] turn_is_absorb [OF 1(2), of "take n data"] n False by simp
    have "sha256_update data x = sha256_update (drop n data) (update_turn n data x)"
      using False by (subst sha256_update.simps) (simp add: n_def Let_def)
    also have "\<dots> = Some (fold absorb (drop n data) (update_turn n data x))"
      using 1(1) update_turn_ready [OF 1(2) n(2,3)] n False by simp
    also have "fold absorb (drop n data) (update_turn n data x) = fold absorb data x"
      unfolding turn by (metis append_take_drop_id comp_apply fold_append)
    finally show ?thesis .
  qed (simp add: sha256_update.simps)
qed

subsection \<open>Blocks of the message\<close>

definition whole :: "u8 list \<Rightarrow> nat" where
  "whole m = 64 * (length m div 64)"

lemma whole_le: "whole m \<le> length m" by (simp add: whole_def)

lemma rest_length [simp]: "length m - whole m = length m mod 64" by (simp add: whole_def minus_mult_div_eq_mod)

lemma blocks_append: "64 dvd length xs \<Longrightarrow> blocks (xs @ ys) = blocks xs @ blocks ys"
proof (induction xs rule: blocks.induct)
  case (1 xs)
  show ?case
  proof (cases "xs = []")
    case False
    then have l: "64 \<le> length xs" using 1(2) by (simp add: dvd_imp_le)
    have "64 dvd length (drop 64 xs)" using 1(2) by (simp add: dvd_diff_nat)
    then have "blocks (drop 64 xs @ ys) = blocks (drop 64 xs) @ blocks ys" using 1(1) False by simp
    then show ?thesis using False l by (subst (1 2) blocks.simps) simp
  qed (simp add: blocks.simps)
qed

lemma blocks_one: "length b = 64 \<Longrightarrow> blocks b = [b]"
  by (subst blocks.simps) (auto simp: blocks.simps)

definition chained :: "u8 list \<Rightarrow> u32 list" where
  "chained xs = fold compress (blocks xs) sha256_initial"

lemma chained_append: "64 dvd length xs \<Longrightarrow> length b = 64 \<Longrightarrow> chained (xs @ b) = compress b (chained xs)"
  by (simp add: chained_def blocks_append blocks_one)

lemma length_chained [simp]: "length (chained xs) = 8"
proof -
  have "length (fold compress bs v) = 8" if "length v = 8" for bs v
    using that by (induction bs arbitrary: v) simp_all
  then show ?thesis by (simp add: chained_def sha256_initial_def)
qed

text \<open>What a context holds after the message \<open>m\<close>: the chained whole blocks and the rest of \<open>m\<close>.\<close>

definition absorbed :: "u8 list \<Rightarrow> sha256_context \<Rightarrow> bool" where
  "absorbed m x \<longleftrightarrow> length (sc_block x) = 64 \<and> sc_used x = length m mod 64 \<and>
     sc_state x = chained (take (whole m) m) \<and> take (sc_used x) (sc_block x) = drop (whole m) m \<and>
     sc_bit_count x = word_of_nat (8 * whole m)"

lemma absorbed_ready: "absorbed m x \<Longrightarrow> sha_ready x"
  by (simp add: absorbed_def sha_ready_def)

lemma absorb_absorbed:
  assumes "absorbed m x"
  shows "absorbed (m @ [b]) (absorb b x)"
proof -
  define y where "y = copy_bytes (sc_used x) [b] (sc_block x)"
  have x: "length (sc_block x) = 64" "sc_used x = length m mod 64" "sc_used x < 64"
    "sc_state x = chained (take (whole m) m)" "take (sc_used x) (sc_block x) = drop (whole m) m"
    "sc_bit_count x = word_of_nat (8 * whole m)"
    using assms by (auto simp: absorbed_def)
  have y: "length y = 64" "take (Suc (sc_used x)) y = drop (whole m) m @ [b]"
    using x by (simp_all add: y_def copy_bytes_def)
  have yd: "copy_bytes (length m mod 64) [b] (sc_block x) = y" using x(2) by (simp add: y_def)
  show ?thesis
  proof (cases "sc_used x = 63")
    case False
    then have w: "whole (m @ [b]) = whole m" "Suc (length m) mod 64 = Suc (sc_used x)"
      using x(2,3) by (simp_all add: whole_def div_Suc mod_Suc)
    then show ?thesis
      using x y False whole_le [of m] by (simp add: absorbed_def absorb_def update_turn_def Let_def yd)
  next
    case True
    then have w: "whole (m @ [b]) = Suc (length m)" "Suc (length m) mod 64 = 0" "Suc (length m) = whole m + 64"
      using x(2) div_mult_mod_eq [of "length m" 64] by (simp_all add: whole_def div_Suc mod_Suc)
    have yb: "y = drop (whole m) m @ [b]" using y True by simp
    have y63: "copy_bytes 63 [b] (sc_block x) = y" using True by (simp add: y_def)
    have "chained (m @ [b]) = compress y (chained (take (whole m) m))"
      using chained_append [of "take (whole m) m" y] y(1) whole_le [of m] by (simp add: yb whole_def flip: append_assoc)
    then show ?thesis
      using x y True w by (simp add: absorbed_def absorb_def update_turn_def Let_def y63 transform_compress)
  qed
qed

lemma fold_absorbed: "absorbed m x \<Longrightarrow> absorbed (m @ xs) (fold absorb xs x)"
proof (induction xs arbitrary: m x)
  case (Cons b xs)
  then show ?case using Cons.IH [OF absorb_absorbed [OF Cons.prems]] by simp
qed simp

lemma init_absorbed: "length (sc_block x) = 64 \<Longrightarrow> absorbed [] (sha256_init x)"
  by (simp add: absorbed_def sha256_init_def chained_def blocks.simps whole_def)

subsection \<open>The digest\<close>

lemma pad_zeros_closed:
  assumes "length (sc_block x) = 64" "sc_used x \<le> n" "n \<le> 64"
  shows "pad_zeros n x = x\<lparr>sc_block := take (sc_used x) (sc_block x) @ replicate (n - sc_used x) 0 @ drop n (sc_block x),
    sc_used := n\<rparr>"
  using assms
proof (induction n x rule: pad_zeros.induct)
  case (1 n x)
  show ?case
  proof (cases "sc_used x < n")
    case True
    define y where "y = x\<lparr>sc_block := (sc_block x)[sc_used x := 0], sc_used := sc_used x + 1\<rparr>"
    have z: "replicate (n - sc_used x) (0::u8) = 0 # replicate (n - Suc (sc_used x)) 0"
      using True by (metis Suc_diff_Suc replicate_Suc)
    have "pad_zeros n x = pad_zeros n y" using True by (subst pad_zeros.simps) (simp add: y_def)
    also have "\<dots> = y\<lparr>sc_block := take (sc_used y) (sc_block y) @ replicate (n - sc_used y) 0 @ drop n (sc_block y), sc_used := n\<rparr>"
      using 1 True by (simp add: y_def)
    finally show ?thesis
      using True 1(2-) by (simp add: y_def z take_Suc_conv_app_nth)
  next
    case False
    then have "sc_used x = n" using 1(3) by simp
    then show ?thesis by (subst pad_zeros.simps) simp
  qed
qed

lemma store_length_block:
  assumes "length b = 64"
  shows "store_length t b = take 56 b @ be64_bytes t"
proof -
  define q r where "q = take 56 b" and "r = drop 56 b"
  have b: "b = q @ r" "length q = 56" "length r = 8" using assms by (simp_all add: q_def r_def)
  obtain r0 r1 r2 r3 r4 r5 r6 r7 where r: "r = [r0, r1, r2, r3, r4, r5, r6, r7]" using eight [OF b(3)] by blast
  show ?thesis
    using b(2) by (simp add: b(1) r store_length_def be64_bytes_def upt_rec list_update_append)
qed

lemma length_be64 [simp]: "length (be64_bytes t) = 8"
  by (simp add: be64_bytes_def)

lemma message_bits: "word_of_nat (8 * whole m) + word_of_nat (length m mod 64) * 8 = (word_of_nat (8 * length m) :: u64)"
proof -
  have "8 * length m = 8 * whole m + (length m mod 64) * 8"
    using mult_div_mod_eq [of 64 "length m"] unfolding whole_def by linarith
  then show ?thesis by (simp only: of_nat_add of_nat_mult) simp
qed

lemma final_short:
  assumes "absorbed m x" "length m mod 64 \<le> 55"
  shows "fst (sha256_final x) = sha256_digest m"
proof -
  define u where "u = length m mod 64"
  define B where "B = drop (whole m) m @ [0x80] @ replicate (55 - u) 0 @ be64_bytes (word_of_nat (8 * length m))"
  have x: "length (sc_block x) = 64" "sc_used x = u" "sc_state x = chained (take (whole m) m)"
    "take u (sc_block x) = drop (whole m) m" "sc_bit_count x = word_of_nat (8 * whole m)"
    using assms(1) by (auto simp: absorbed_def u_def)
  have u: "u \<le> 55" "length (drop (whole m) m) = u" using assms(2) by (simp_all add: u_def)
  have B: "length B = 64" using u by (simp add: B_def)
  have s: "56 - u = Suc (55 - u)" using u by simp
  define y where "y = x\<lparr>sc_block := (sc_block x)[u := 0x80], sc_used := u + 1\<rparr>"
  have blk: "take (Suc u) ((sc_block x)[u := 0x80]) = drop (whole m) m @ [0x80]"
    using x u by (simp add: take_Suc_conv_app_nth)
  have "store_length (word_of_nat (8 * length m)) (sc_block (pad_zeros 56 y)) = B"
    using x u blk by (simp add: pad_zeros_closed y_def store_length_block B_def s)
  then have "fst (sha256_final x) = concat (map be32_bytes (compress B (chained (take (whole m) m))))"
    using x u message_bits [of m]
    by (simp add: sha256_final_def Let_def transform_compress pad_zeros_closed y_def u_def [symmetric])
  moreover have "pad_message m = take (whole m) m @ B"
    using u whole_le [of m] by (simp add: pad_message_def B_def u_def [symmetric] mod_if)
  moreover have "64 dvd length (take (whole m) m)" using whole_le [of m] by (simp add: whole_def)
  ultimately show ?thesis using B by (simp add: sha256_digest_def chained_append flip: chained_def)
qed

lemma final_long:
  assumes "absorbed m x" "55 < length m mod 64"
  shows "fst (sha256_final x) = sha256_digest m"
proof -
  define u where "u = length m mod 64"
  define B where "B = drop (whole m) m @ [0x80] @ replicate (63 - u) 0"
  define L where "L = replicate 56 0 @ be64_bytes (word_of_nat (8 * length m))"
  have x: "length (sc_block x) = 64" "sc_used x = u" "sc_state x = chained (take (whole m) m)"
    "take u (sc_block x) = drop (whole m) m" "sc_bit_count x = word_of_nat (8 * whole m)"
    using assms(1) by (auto simp: absorbed_def u_def)
  have u: "55 < u" "u \<le> 63" "length (drop (whole m) m) = u" using assms(2) by (simp_all add: u_def)
  have B: "length B = 64" "length L = 64" using u by (simp_all add: B_def L_def)
  define y where "y = x\<lparr>sc_block := (sc_block x)[u := 0x80], sc_used := u + 1\<rparr>"
  have blk: "take (Suc u) ((sc_block x)[u := 0x80]) = drop (whole m) m @ [0x80]"
    using x u by (simp add: take_Suc_conv_app_nth)
  have py: "pad_zeros 64 y = x\<lparr>sc_block := B, sc_used := 64\<rparr>"
    using x u blk by (simp add: pad_zeros_closed y_def B_def)
  have "store_length (word_of_nat (8 * length m)) (sc_block (pad_zeros 56 (x\<lparr>sc_state := h, sc_block := B, sc_used := 0\<rparr>))) = L" for h
    using B by (simp add: pad_zeros_closed store_length_block L_def)
  then have "fst (sha256_final x) = concat (map be32_bytes (compress L (compress B (chained (take (whole m) m)))))"
    using x u B message_bits [of m] py
    by (simp add: sha256_final_def Let_def transform_compress pad_zeros_closed y_def u_def [symmetric] store_length_block L_def)
  moreover have "replicate ((119 - u) mod 64) (0::u8) = replicate (63 - u) 0 @ replicate 56 0"
    using u by (simp flip: replicate_add)
  then have "pad_message m = (take (whole m) m @ B) @ L"
    using whole_le [of m] by (simp add: pad_message_def B_def L_def u_def [symmetric])
  moreover have "64 dvd length (take (whole m) m)" "64 dvd length (take (whole m) m @ B)"
    using whole_le [of m] B by (simp_all add: whole_def)
  ultimately show ?thesis using B by (simp add: sha256_digest_def chained_append flip: chained_def append_assoc)
qed

lemma final_digest: "absorbed m x \<Longrightarrow> fst (sha256_final x) = sha256_digest m"
  using final_short final_long by (cases "length m mod 64 \<le> 55") simp_all

primrec update_all :: "u8 list list \<Rightarrow> sha256_context \<Rightarrow> sha256_context option" where
  "update_all [] x = Some x"
| "update_all (c # cs) x = (case sha256_update c x of None \<Rightarrow> None | Some y \<Rightarrow> update_all cs y)"

lemma update_all_absorbed: "absorbed m x \<Longrightarrow> \<exists>y. update_all cs x = Some y \<and> absorbed (m @ concat cs) y"
proof (induction cs arbitrary: m x)
  case (Cons c cs)
  then show ?case
    using Cons.IH [OF fold_absorbed [OF Cons.prems, of c]] by (simp add: update_is_absorb [OF absorbed_ready [OF Cons.prems]])
qed simp

definition hex_of_bytes :: "u8 list \<Rightarrow> string" where
  "hex_of_bytes bs = concat (map (\<lambda>b. [''0123456789abcdef'' ! (unat b div 16), ''0123456789abcdef'' ! (unat b mod 16)]) bs)"

lemma hex_digest:
  assumes "length (sc_block x) = 64"
  shows "sha256_hex x m = Some (hex_of_bytes (sha256_digest m))"
proof -
  have a: "absorbed [] (sha256_init x)" by (rule init_absorbed [OF assms])
  then have "sha256_update m (sha256_init x) = Some (fold absorb m (sha256_init x))"
    by (rule update_is_absorb [OF absorbed_ready])
  moreover have "fst (sha256_final (fold absorb m (sha256_init x))) = sha256_digest m"
    using final_digest [OF fold_absorbed [OF a, of m]] by simp
  ultimately show ?thesis by (simp add: sha256_hex_def hex_of_bytes_def unat_high_nibble unat_low_nibble)
qed

text \<open>
  C33. Streaming SHA-256.  However a message is cut into pieces, the context that is initialised and
  updated with them one after the other never gets stuck, and the final digest is that of the
  standard on the whole message, with the standard's padding, schedule and rounds; \<open>sha256_hex\<close> is its
  hexadecimal text.
\<close>

theorem sha256_streaming:
  assumes "length (sc_block x) = 64"
  shows "\<exists>y. update_all cs (sha256_init x) = Some y \<and> fst (sha256_final y) = sha256_digest (concat cs) \<and>
     sha256_hex x (concat cs) = Some (hex_of_bytes (sha256_digest (concat cs)))"
  using update_all_absorbed [OF init_absorbed [OF assms], of cs] final_digest hex_digest [OF assms] by fastforce

text \<open>The published digest of \<open>abc\<close>, computed by the code from a context full of garbage, in two pieces.\<close>

definition stale_context :: sha256_context where
  "stale_context = \<lparr>sc_state = [], sc_bit_count = 7, sc_block = replicate 64 0xff, sc_used = 9\<rparr>"

theorem sha256_streaming_witness:
  "sha256_digest [0x61, 0x62, 0x63] =
     [0xba, 0x78, 0x16, 0xbf, 0x8f, 0x01, 0xcf, 0xea, 0x41, 0x41, 0x40, 0xde, 0x5d, 0xae, 0x22, 0x23,
      0xb0, 0x03, 0x61, 0xa3, 0x96, 0x17, 0x7a, 0x9c, 0xb4, 0x10, 0xff, 0x61, 0xf2, 0x00, 0x15, 0xad]"
proof -
  have "fst (sha256_final (the (update_all [[0x61], [0x62, 0x63]] (sha256_init stale_context)))) =
     [0xba, 0x78, 0x16, 0xbf, 0x8f, 0x01, 0xcf, 0xea, 0x41, 0x41, 0x40, 0xde, 0x5d, 0xae, 0x22, 0x23,
      0xb0, 0x03, 0x61, 0xa3, 0x96, 0x17, 0x7a, 0x9c, 0xb4, 0x10, 0xff, 0x61, 0xf2, 0x00, 0x15, 0xad]"
    by code_simp
  then show ?thesis using sha256_streaming [of stale_context "[[0x61], [0x62, 0x63]]"] by (auto simp: stale_context_def)
qed

end
