(* ===== verification/Breakpoints.thy ===== *)
theory Breakpoints
  imports Prelude
begin

text \<open>
  The breakpoint bitmap of \<^verbatim>\<open>emu_breakpoint_internal.h\<close>: one bit per code address, replaced as a whole
  by a list of addresses, which is refused when an address occurs twice.
\<close>

definition EMU_BREAKPOINT_BYTES :: nat where
  "EMU_BREAKPOINT_BYTES = 8192"

definition emu_breakpoint_at :: "(nat \<Rightarrow> u8) \<Rightarrow> u16 \<Rightarrow> bool" where
  "emu_breakpoint_at bitmap address \<longleftrightarrow>
     bitmap (unat (drop_bit 3 address)) AND push_bit (unat (address AND 7)) 1 \<noteq> 0"

fun replacement_loop :: "u16 list \<Rightarrow> (nat \<Rightarrow> u8) \<Rightarrow> (nat \<Rightarrow> u8) option" where
  "replacement_loop [] replacement = Some replacement"
| "replacement_loop (a # as) replacement =
     (if emu_breakpoint_at replacement a then None
      else replacement_loop as (replacement(unat (drop_bit 3 a) :=
             replacement (unat (drop_bit 3 a)) OR push_bit (unat (a AND 7)) 1)))"

definition emu_breakpoint_replace :: "(nat \<Rightarrow> u8) \<Rightarrow> u16 list \<Rightarrow> bool \<times> (nat \<Rightarrow> u8)" where
  "emu_breakpoint_replace bitmap addresses =
     (case replacement_loop addresses (\<lambda>_. 0) of
        None \<Rightarrow> (False, bitmap)
      | Some replacement \<Rightarrow> (True, \<lambda>i. if i < EMU_BREAKPOINT_BYTES then replacement i else bitmap i))"

lemma and7_mod: "unat (a AND 7) = unat a mod 8" for a :: u16
proof -
  have "a AND 7 = take_bit 3 a" by (simp add: take_bit_eq_mask mask_eq_exp_minus_1)
  then show ?thesis by (simp add: take_bit_eq_mod unat_mod)
qed

lemma drop3_div: "unat (drop_bit 3 a) = unat a div 8" for a :: u16
  by (simp add: unat_drop_bit_eq drop_bit_eq_div unat_div)

lemma at_bit: "emu_breakpoint_at m a = bit (m (unat a div 8)) (unat a mod 8)"
  using and_push_bit_1 [of "m (unat a div 8)" "unat a mod 8"] by (simp only: emu_breakpoint_at_def drop3_div and7_mod) simp

lemma same_slot: "(unat b div 8 = unat a div 8 \<and> unat b mod 8 = unat a mod 8) = (b = a)" for a b :: u16
  by (metis div_mult_mod_eq word_unat_eq_iff)

lemma at_marked:
  "emu_breakpoint_at (m(unat (drop_bit 3 a) := m (unat (drop_bit 3 a)) OR push_bit (unat (a AND 7)) 1)) b =
     (b = a \<or> emu_breakpoint_at m b)"
proof -
  have "unat a mod 8 < 8" by simp
  then show ?thesis
    unfolding at_bit drop3_div and7_mod
    using same_slot [of b a] by (auto simp: bit_or_iff bit_exp_iff)
qed

lemma replacement_loop_result:
  "if distinct as \<and> (\<forall>a\<in>set as. \<not> emu_breakpoint_at m a)
   then \<exists>r. replacement_loop as m = Some r \<and> (\<forall>b. emu_breakpoint_at r b = (b \<in> set as \<or> emu_breakpoint_at m b))
   else replacement_loop as m = None"
proof (induction as arbitrary: m)
  case (Cons a as)
  define m' where "m' = m(unat (drop_bit 3 a) := m (unat (drop_bit 3 a)) OR push_bit (unat (a AND 7)) 1)"
  have at: "emu_breakpoint_at m' b = (b = a \<or> emu_breakpoint_at m b)" for b unfolding m'_def by (rule at_marked)
  have step: "replacement_loop (a # as) m = (if emu_breakpoint_at m a then None else replacement_loop as m')"
    by (simp add: m'_def)
  show ?case
    using Cons.IH [of m'] by (auto simp: at step simp del: replacement_loop.simps split: if_splits)
qed simp

text \<open>
  Replacing the breakpoints.  A replacement is accepted exactly when its addresses are distinct;
  then exactly these addresses have a breakpoint, whatever the bitmap held before; otherwise the
  bitmap is left as it was.  No byte beyond the bitmap is touched.
\<close>

theorem breakpoint_replace:
  "fst (emu_breakpoint_replace m as) = distinct as \<and>
   {a. emu_breakpoint_at (snd (emu_breakpoint_replace m as)) a} =
     (if distinct as then set as else {a. emu_breakpoint_at m a}) \<and>
   snd (emu_breakpoint_replace m as) (EMU_BREAKPOINT_BYTES + i) = m (EMU_BREAKPOINT_BYTES + i)"
proof -
  have z: "\<not> emu_breakpoint_at (\<lambda>_. 0) a" for a by (simp add: emu_breakpoint_at_def)
  have low: "unat a div 8 < 8192" for a :: u16 using unat_u16 [of a] by (simp add: less_mult_imp_div_less)
  show ?thesis
  proof (cases "distinct as")
    case True
    then obtain r where r: "replacement_loop as (\<lambda>_. 0) = Some r" "\<forall>b. emu_breakpoint_at r b = (b \<in> set as)"
      using replacement_loop_result [of as "\<lambda>_. 0"] z by auto
    then show ?thesis using True low by (simp add: emu_breakpoint_replace_def EMU_BREAKPOINT_BYTES_def at_bit)
  next
    case False
    then show ?thesis using False replacement_loop_result [of as "\<lambda>_. 0"] by (simp add: emu_breakpoint_replace_def)
  qed
qed

end
