(* ===== verification/Loader.thy ===== *)
theory Loader
  imports Frame
begin

text \<open>
  The raw image loader (\<^verbatim>\<open>binary_loader.c\<close>).  What the host's standard input and output library
  answers is a parameter: whether the file opens and the buffer is allocated, the bytes of the file,
  whether reading it fails, and whether closing succeeds.
\<close>

datatype em8051_load_result =
  EM8051_LOAD_OK | EM8051_LOAD_IO_ERROR | EM8051_LOAD_SIZE_ERROR | EM8051_LOAD_CONFIGURATION_ERROR

record host_file =
  hf_opens :: bool
  hf_allocates :: bool
  hf_bytes :: "u8 list"
  hf_fails :: bool
  hf_closes :: bool

text \<open>\<open>memcpy\<close> of a whole image into the buffer behind \<open>mCodeMem\<close>.\<close>

definition copy_image :: "u8 list \<Rightarrow> nat \<Rightarrow> em8051 \<Rightarrow> em8051" where
  "copy_image bytes p c = mBuffers_update (\<lambda>m. m(p := (\<lambda>x. bytes ! unat x))) c"

text \<open>\<open>fread\<close> delivers at most 65536 bytes; \<open>fgetc\<close> then finds the end of the file or a further byte.\<close>

definition em8051_load_binary :: "bool \<Rightarrow> host_file \<Rightarrow> em8051 option \<Rightarrow> em8051_load_result \<times> em8051 option" where
  "em8051_load_binary named f cpu =
     (if \<not> named then (EM8051_LOAD_IO_ERROR, cpu)
      else case cpu of
        None \<Rightarrow> (EM8051_LOAD_CONFIGURATION_ERROR, cpu)
      | Some c \<Rightarrow>
          (case mCodeMem c of
             None \<Rightarrow> (EM8051_LOAD_CONFIGURATION_ERROR, cpu)
           | Some p \<Rightarrow>
               if mCodeMemMaxIdx c \<noteq> 0xffff then (EM8051_LOAD_CONFIGURATION_ERROR, cpu)
               else if \<not> hf_opens f then (EM8051_LOAD_IO_ERROR, cpu)
               else if \<not> hf_allocates f then (EM8051_LOAD_IO_ERROR, cpu)
               else
                 let bytes_read = min 65536 (length (hf_bytes f));
                     trailing_eof = (length (hf_bytes f) \<le> 65536);
                     (r, c') = (if hf_fails f then (EM8051_LOAD_IO_ERROR, c)
                                else if bytes_read \<noteq> 65536 \<or> \<not> trailing_eof then (EM8051_LOAD_SIZE_ERROR, c)
                                else (EM8051_LOAD_OK, copy_image (take 65536 (hf_bytes f)) p c))
                 in (if \<not> hf_closes f \<and> r = EM8051_LOAD_OK then EM8051_LOAD_IO_ERROR else r, Some c')))"

text \<open>
  Loading an image.  A load that succeeds found a file of exactly 65536 bytes, and the code
  memory then holds the file byte for byte; a load that reports the size or the configuration
  leaves the CPU as it was, and so does one that reports an input error, unless the image was
  complete and only closing the file failed.
\<close>

theorem load_binary_result:
  "case em8051_load_binary named f cpu of (r, cpu') \<Rightarrow>
     if r = EM8051_LOAD_OK then
       length (hf_bytes f) = 65536 \<and> \<not> hf_fails f \<and>
       (\<exists>c c'. cpu = Some c \<and> cpu' = Some c' \<and> c' = mBuffers_update (\<lambda>_. mBuffers c') c \<and>
         (\<forall>x. CODEMEM c' x = hf_bytes f ! unat x))
     else cpu' = cpu \<or> r = EM8051_LOAD_IO_ERROR \<and> length (hf_bytes f) = 65536 \<and> \<not> hf_fails f \<and> \<not> hf_closes f"
proof (cases "em8051_load_binary named f cpu")
  case (Pair r cpu')
  have m: "x AND 0xffff = x" for x :: u16
  proof -
    have "mask 16 = (0xffff :: u16)" by (simp add: mask_eq_exp_minus_1)
    moreover have "x AND mask 16 = x" by (rule bit_word_eqI) (simp add: bit_and_iff bit_mask_iff)
    ultimately show ?thesis by metis
  qed
  show ?thesis
    using Pair unat_u16
    by (auto simp: em8051_load_binary_def Let_def copy_image_def CODEMEM_def m split: if_splits option.splits)
qed

end
