(* ===== verification/JsonSyntax.thy ===== *)
theory JsonSyntax
  imports Prelude
begin

text \<open>
  The strict JSON syntax check of \<^verbatim>\<open>emu_json_internal.c\<close>.  The text is a list of characters and the
  position of \<open>struct json_syntax\<close> is the rest of the text still to be read; a check returns the rest
  behind the construct it accepted, or \<open>None\<close> where the C function returns false, whose position no
  caller reads.  The nesting depth is given by the depth still allowed.  The loops over elements and
  members are partial: \<open>None\<close> in the outer option would be a loop that does not end.
\<close>

definition strchr :: "string \<Rightarrow> char \<Rightarrow> bool" where
  "strchr s ch \<longleftrightarrow> ch = CHR 0x00 \<or> ch \<in> set s"

definition json_blank :: string where
  "json_blank = [CHR 0x20, CHR 0x09, CHR 0x0D, CHR 0x0A]"

subsection \<open>Numbers and primitives\<close>

definition is_digit :: "char \<Rightarrow> bool" where
  "is_digit ch \<longleftrightarrow> (48 :: nat) \<le> of_char ch \<and> of_char ch \<le> (57 :: nat)"

definition number_exponent :: "string \<Rightarrow> bool" where
  "number_exponent s =
     (case s of
        [] \<Rightarrow> True
      | ch # t \<Rightarrow>
          (ch = CHR ''e'' \<or> ch = CHR ''E'') \<and>
          (case (case t of sg # u \<Rightarrow> if sg = CHR ''+'' \<or> sg = CHR ''-'' then u else t | [] \<Rightarrow> t) of
             [] \<Rightarrow> False
           | d # u \<Rightarrow> is_digit d \<and> dropWhile is_digit u = []))"

definition number_fraction :: "string \<Rightarrow> bool" where
  "number_fraction s =
     (case s of
        [] \<Rightarrow> number_exponent s
      | ch # t \<Rightarrow>
          if ch = CHR ''.'' then
            (case t of
               [] \<Rightarrow> False
             | d # u \<Rightarrow> is_digit d \<and> number_exponent (dropWhile is_digit u))
          else number_exponent s)"

definition json_number :: "string \<Rightarrow> bool" where
  "json_number s =
     (case (case s of ch # t \<Rightarrow> if ch = CHR ''-'' then t else s | [] \<Rightarrow> s) of
        [] \<Rightarrow> False
      | d # t \<Rightarrow>
          if d = CHR ''0'' then number_fraction t
          else is_digit d \<and> number_fraction (dropWhile is_digit t))"

definition json_primitive_valid :: "string \<Rightarrow> bool" where
  "json_primitive_valid s \<longleftrightarrow> s = ''true'' \<or> s = ''false'' \<or> s = ''null'' \<or> json_number s"

subsection \<open>Strings\<close>

definition syntax_space :: "string \<Rightarrow> string" where
  "syntax_space s = dropWhile (strchr json_blank) s"

definition is_hex :: "char \<Rightarrow> bool" where
  "is_hex ch \<longleftrightarrow> is_digit ch \<or> (97 :: nat) \<le> of_char ch \<and> of_char ch \<le> (102 :: nat) \<or>
     (65 :: nat) \<le> of_char ch \<and> of_char ch \<le> (70 :: nat)"

definition json_escapes :: string where
  "json_escapes = [CHR 0x22, CHR 0x5C, CHR ''/'', CHR ''b'', CHR ''f'', CHR ''n'', CHR ''r'', CHR ''t'']"

fun string_tail :: "string \<Rightarrow> string option" where
  "string_tail [] = None"
| "string_tail (ch # t) =
     (if ch = CHR 0x22 then Some t
      else if of_char ch < (0x20 :: nat) then None
      else if ch = CHR 0x5C then
        (case t of
           [] \<Rightarrow> None
         | v # u \<Rightarrow>
             if v \<noteq> CHR ''u'' then (if strchr json_escapes v then string_tail u else None)
             else (case u of
                     h1 # h2 # h3 # h4 # w \<Rightarrow>
                       if is_hex h1 \<and> is_hex h2 \<and> is_hex h3 \<and> is_hex h4 then string_tail w else None
                   | _ \<Rightarrow> None))
      else string_tail t)"

definition syntax_string :: "string \<Rightarrow> string option" where
  "syntax_string s = (case s of [] \<Rightarrow> None | ch # t \<Rightarrow> if ch = CHR 0x22 then string_tail t else None)"

subsection \<open>Values\<close>

type_synonym checker = "string \<Rightarrow> string option option"

text \<open>
  The loops of \<open>syntax_array\<close> and \<open>syntax_object\<close> differ in the closing bracket and in what is checked
  between the commas: a value, or a string, a colon and a value.
\<close>

partial_function (option) list_loop :: "char \<Rightarrow> checker \<Rightarrow> checker" where
  [code]: "list_loop closing item s =
     (case item s of
        None \<Rightarrow> None
      | Some None \<Rightarrow> Some None
      | Some (Some r) \<Rightarrow>
          (case syntax_space r of
             [] \<Rightarrow> Some None
           | ch # t \<Rightarrow>
               if ch = closing then Some (Some t)
               else if ch \<noteq> CHR '','' then Some None
               else list_loop closing item (syntax_space t)))"

definition syntax_array :: "checker \<Rightarrow> checker" where
  "syntax_array val s =
     (case syntax_space (tl s) of
        [] \<Rightarrow> list_loop CHR '']'' val []
      | ch # t \<Rightarrow> if ch = CHR '']'' then Some (Some t) else list_loop CHR '']'' val (ch # t))"

definition syntax_member :: "checker \<Rightarrow> checker" where
  "syntax_member val s =
     (case syntax_string s of
        None \<Rightarrow> Some None
      | Some r \<Rightarrow>
          (case syntax_space r of
             [] \<Rightarrow> Some None
           | colon # t \<Rightarrow> if colon \<noteq> CHR '':'' then Some None else val (syntax_space t)))"

definition syntax_object :: "checker \<Rightarrow> checker" where
  "syntax_object val s =
     (case syntax_space (tl s) of
        [] \<Rightarrow> list_loop CHR ''}'' (syntax_member val) []
      | ch # t \<Rightarrow> if ch = CHR ''}'' then Some (Some t) else list_loop CHR ''}'' (syntax_member val) (ch # t))"

definition primitive_stop :: string where
  "primitive_stop = json_blank @ '',]}''"

definition syntax_primitive :: checker where
  "syntax_primitive s =
     (let token = takeWhile (\<lambda>ch. \<not> strchr primitive_stop ch) s
      in Some (if token \<noteq> [] \<and> json_primitive_valid token then Some (drop (length token) s) else None))"

primrec syntax_value :: "nat \<Rightarrow> checker" where
  "syntax_value 0 s = Some None"
| "syntax_value (Suc depth) s =
     (case s of
        [] \<Rightarrow> Some None
      | ch # t \<Rightarrow>
          if ch = CHR ''{'' then syntax_object (syntax_value depth) s
          else if ch = CHR ''['' then syntax_array (syntax_value depth) s
          else if ch = CHR 0x22 then Some (syntax_string s)
          else syntax_primitive s)"

definition json_syntax_valid :: "string \<Rightarrow> bool option" where
  "json_syntax_valid s =
     (case syntax_value 64 (syntax_space s) of
        None \<Rightarrow> None
      | Some None \<Rightarrow> Some False
      | Some (Some r) \<Rightarrow> Some (syntax_space r = []))"

end
