(* ===== verification/JsonGrammar.thy ===== *)
theory JsonGrammar
  imports JsonSyntax
begin

text \<open>
  The syntax check against the grammar of the JSON standard (RFC 8259): the grammar as inductive
  predicates, soundness and completeness of the check, and that it always returns.
\<close>

subsection \<open>The grammar\<close>

definition blanks :: "string \<Rightarrow> bool" where
  "blanks w \<longleftrightarrow> set w \<subseteq> set json_blank"

definition digits :: "string \<Rightarrow> bool" where
  "digits ds \<longleftrightarrow> ds \<noteq> [] \<and> list_all is_digit ds"

definition number_text :: "string \<Rightarrow> bool" where
  "number_text s \<longleftrightarrow> (\<exists>minus int frac exp.
     s = minus @ int @ frac @ exp \<and> minus \<in> {[], ''-''} \<and>
     (int = ''0'' \<or> digits int \<and> hd int \<noteq> CHR ''0'') \<and>
     (frac = [] \<or> (\<exists>ds. frac = CHR ''.'' # ds \<and> digits ds)) \<and>
     (exp = [] \<or> (\<exists>e sg ds. exp = e # sg @ ds \<and> e \<in> set ''eE'' \<and> sg \<in> {[], ''+'', ''-''} \<and> digits ds)))"

definition primitive_text :: "string \<Rightarrow> bool" where
  "primitive_text s \<longleftrightarrow> s \<in> {''true'', ''false'', ''null''} \<or> number_text s"

inductive string_chars :: "string \<Rightarrow> bool" where
  empty: "string_chars []"
| plain: "string_chars s \<Longrightarrow> (0x20 :: nat) \<le> of_char ch \<Longrightarrow> ch \<noteq> CHR 0x22 \<Longrightarrow> ch \<noteq> CHR 0x5C \<Longrightarrow> string_chars (ch # s)"
| escape: "string_chars s \<Longrightarrow> ch \<in> set json_escapes \<Longrightarrow> string_chars (CHR 0x5C # ch # s)"
| unicode: "string_chars s \<Longrightarrow> list_all is_hex [h1, h2, h3, h4] \<Longrightarrow> string_chars (CHR 0x5C # CHR ''u'' # h1 # h2 # h3 # h4 # s)"

definition string_text :: "string \<Rightarrow> bool" where
  "string_text s \<longleftrightarrow> (\<exists>t. s = CHR 0x22 # t @ [CHR 0x22] \<and> string_chars t)"

text \<open>Items separated by commas, each followed by blanks, and a bracketed list of them.\<close>

inductive list_text :: "(string \<Rightarrow> bool) \<Rightarrow> string \<Rightarrow> bool" for I where
  last: "I v \<Longrightarrow> blanks w \<Longrightarrow> list_text I (v @ w)"
| more: "I v \<Longrightarrow> blanks w \<Longrightarrow> blanks w' \<Longrightarrow> list_text I es \<Longrightarrow> list_text I (v @ w @ '','' @ w' @ es)"

definition bracketed :: "char \<Rightarrow> char \<Rightarrow> (string \<Rightarrow> bool) \<Rightarrow> string \<Rightarrow> bool" where
  "bracketed open_b closing I s \<longleftrightarrow> (\<exists>w es. s = open_b # w @ es @ [closing] \<and> blanks w \<and> (es = [] \<or> list_text I es))"

definition member_text :: "(string \<Rightarrow> bool) \<Rightarrow> string \<Rightarrow> bool" where
  "member_text V s \<longleftrightarrow> (\<exists>k w w' v. s = k @ w @ '':'' @ w' @ v \<and> string_text k \<and> blanks w \<and> blanks w' \<and> V v)"

text \<open>Values nested at most \<open>d\<close> deep.\<close>

primrec value_text :: "nat \<Rightarrow> string \<Rightarrow> bool" where
  "value_text 0 s \<longleftrightarrow> False"
| "value_text (Suc d) s \<longleftrightarrow> primitive_text s \<or> string_text s \<or> bracketed CHR ''['' CHR '']'' (value_text d) s \<or>
     bracketed CHR ''{'' CHR ''}'' (member_text (value_text d)) s"

definition json_text :: "nat \<Rightarrow> string \<Rightarrow> bool" where
  "json_text d s \<longleftrightarrow> (\<exists>w v w'. s = w @ v @ w' \<and> blanks w \<and> value_text d v \<and> blanks w')"

subsection \<open>Numbers\<close>

lemma takeWhile_digits: "list_all is_digit (takeWhile is_digit s)"
  by (auto simp: list_all_iff dest: set_takeWhileD)

lemma dropWhile_digits: "list_all is_digit ds \<Longrightarrow> t = [] \<or> \<not> is_digit (hd t) \<Longrightarrow> dropWhile is_digit (ds @ t) = t"
  by (induction ds) (auto simp: dropWhile_eq_self_iff)

lemma not_digit [simp]: "\<not> is_digit CHR ''e''" "\<not> is_digit CHR ''E''" "\<not> is_digit CHR ''.''" "\<not> is_digit CHR ''+''" "\<not> is_digit CHR ''-''"
  by (simp_all add: is_digit_def)

definition exponent_text :: "string \<Rightarrow> bool" where
  "exponent_text s \<longleftrightarrow> s = [] \<or> (\<exists>e sg ds. s = e # sg @ ds \<and> e \<in> set ''eE'' \<and> sg \<in> {[], ''+'', ''-''} \<and> digits ds)"

definition fraction_text :: "string \<Rightarrow> bool" where
  "fraction_text s \<longleftrightarrow> (\<exists>frac exp. s = frac @ exp \<and> (frac = [] \<or> (\<exists>ds. frac = CHR ''.'' # ds \<and> digits ds)) \<and> exponent_text exp)"

lemma digits_split: "is_digit d \<Longrightarrow> dropWhile is_digit u = [] \<Longrightarrow> digits (d # u)"
  by (auto simp: digits_def list_all_iff dropWhile_eq_Nil_conv)

lemma number_exponent_text: "number_exponent s = exponent_text s"
proof
  assume a: "number_exponent s"
  show "exponent_text s"
  proof (cases s)
    case (Cons e t)
    with a have e: "e \<in> set ''eE''" by (auto simp: number_exponent_def)
    define u where "u = (case t of sg # u \<Rightarrow> if sg = CHR ''+'' \<or> sg = CHR ''-'' then u else t | [] \<Rightarrow> t)"
    have "digits u" using a Cons by (auto simp: number_exponent_def u_def [symmetric] intro: digits_split split: list.splits)
    moreover have "\<exists>sg. t = sg @ u \<and> sg \<in> {[], ''+'', ''-''}" by (auto simp: u_def split: list.split)
    ultimately show ?thesis using e Cons by (auto simp: exponent_text_def)
  qed (simp add: exponent_text_def)
next
  assume "exponent_text s"
  then show "number_exponent s"
  proof (unfold exponent_text_def, elim disjE exE conjE)
    fix e sg ds assume s: "s = e # sg @ ds" "e \<in> set ''eE''" "sg \<in> {[], ''+'', ''-''}" "digits ds"
    obtain d u where d: "ds = d # u" "is_digit d" "list_all is_digit u" using s(4) by (cases ds) (auto simp: digits_def)
    moreover have "d \<noteq> CHR ''+''" "d \<noteq> CHR ''-''" using d(2) by auto
    ultimately show ?thesis using s(1-3) by (auto simp: number_exponent_def list_all_iff)
  qed (simp add: number_exponent_def)
qed

lemma exponent_head: "exponent_text s \<Longrightarrow> s = [] \<or> \<not> is_digit (hd s) \<and> hd s \<noteq> CHR ''.''"
  by (auto simp: exponent_text_def)

lemma number_fraction_text: "number_fraction s = fraction_text s"
proof
  assume a: "number_fraction s"
  show "fraction_text s"
  proof (cases "\<exists>t. s = CHR ''.'' # t")
    case True
    then obtain d u where s: "s = CHR ''.'' # d # u" "is_digit d" "exponent_text (dropWhile is_digit u)"
      using a by (auto simp: number_fraction_def number_exponent_text split: list.splits)
    have "digits (d # takeWhile is_digit u)" using s(2) takeWhile_digits by (simp add: digits_def)
    moreover have "s = (CHR ''.'' # d # takeWhile is_digit u) @ dropWhile is_digit u" using s(1) by simp
    ultimately show ?thesis using s(3) unfolding fraction_text_def by blast
  next
    case False
    then have "exponent_text s" using a by (auto simp: number_fraction_def number_exponent_text split: list.splits)
    then show ?thesis unfolding fraction_text_def by (metis append_Nil)
  qed
next
  assume "fraction_text s"
  then obtain frac exp where s: "s = frac @ exp" "exponent_text exp" "frac = [] \<or> (\<exists>ds. frac = CHR ''.'' # ds \<and> digits ds)"
    unfolding fraction_text_def by blast
  show "number_fraction s"
  proof (cases "frac = []")
    case True
    then show ?thesis using s exponent_head [OF s(2)] by (auto simp: number_fraction_def number_exponent_text split: list.splits)
  next
    case False
    then obtain d u where f: "frac = CHR ''.'' # d # u" "is_digit d" "list_all is_digit u"
      using s(3) by (auto simp: digits_def neq_Nil_conv)
    have "dropWhile is_digit (u @ exp) = exp" using exponent_head [OF s(2)] by (intro dropWhile_digits f(3)) auto
    then show ?thesis using s(1,2) f(1,2) by (simp add: number_fraction_def number_exponent_text)
  qed
qed

lemma fraction_head: "fraction_text s \<Longrightarrow> s = [] \<or> \<not> is_digit (hd s)"
  unfolding fraction_text_def using exponent_head by fastforce

lemma number_text_fraction:
  "number_text s \<longleftrightarrow> (\<exists>minus int frac. s = minus @ int @ frac \<and> minus \<in> {[], ''-''} \<and>
     (int = ''0'' \<or> digits int \<and> hd int \<noteq> CHR ''0'') \<and> fraction_text frac)"
  unfolding number_text_def fraction_text_def exponent_text_def by blast

lemma json_number_text: "json_number s = number_text s"
proof
  assume a: "json_number s"
  define u where "u = (case s of ch # t \<Rightarrow> if ch = CHR ''-'' then t else s | [] \<Rightarrow> s)"
  have m: "\<exists>minus. s = minus @ u \<and> minus \<in> {[], ''-''}" by (auto simp: u_def split: list.split)
  obtain d t where u: "u = d # t" using a by (auto simp: json_number_def u_def [symmetric] split: list.splits)
  have "\<exists>int frac. u = int @ frac \<and> (int = ''0'' \<or> digits int \<and> hd int \<noteq> CHR ''0'') \<and> fraction_text frac"
  proof (cases "d = CHR ''0''")
    case True
    then have "fraction_text t" using a u by (simp add: json_number_def u_def [symmetric] number_fraction_text)
    then show ?thesis using u True by (intro exI [of _ "''0''"] exI [of _ t]) simp
  next
    case False
    then have "is_digit d" "fraction_text (dropWhile is_digit t)"
      using a u by (simp_all add: json_number_def u_def [symmetric] number_fraction_text)
    then show ?thesis
      using u False takeWhile_digits
      by (intro exI [of _ "d # takeWhile is_digit t"] exI [of _ "dropWhile is_digit t"]) (simp add: digits_def)
  qed
  with m show "number_text s" unfolding number_text_fraction by blast
next
  assume "number_text s"
  then obtain minus int frac where s: "s = minus @ int @ frac" "minus \<in> {[], ''-''}"
    "int = ''0'' \<or> digits int \<and> hd int \<noteq> CHR ''0''" "fraction_text frac"
    unfolding number_text_fraction by blast
  obtain d u where i: "int = d # u" "is_digit d" "list_all is_digit u" "d = CHR ''0'' \<longrightarrow> u = []"
  proof (cases "int = ''0''")
    case True
    then show ?thesis by (intro that [of "CHR ''0''" "[]"]) (simp_all add: is_digit_def)
  next
    case False
    then show ?thesis using s(3) by (intro that [of "hd int" "tl int"]) (auto simp: digits_def neq_Nil_conv)
  qed
  have "d \<noteq> CHR ''-''" using i(2) by auto
  moreover have "dropWhile is_digit (u @ frac) = frac" using fraction_head [OF s(4)] by (intro dropWhile_digits i(3)) auto
  ultimately show "json_number s"
    using s(2,4) i(2,4) by (auto simp: s(1) i(1) json_number_def number_fraction_text)
qed

lemma primitive_valid_text: "json_primitive_valid s = primitive_text s"
  by (auto simp: json_primitive_valid_def primitive_text_def json_number_text)

subsection \<open>Blanks and strings\<close>

definition nul_free :: "string \<Rightarrow> bool" where
  "nul_free s \<longleftrightarrow> CHR 0x00 \<notin> set s"

lemma nul_free_simps [simp]: "nul_free []" "nul_free (ch # s) \<longleftrightarrow> ch \<noteq> CHR 0x00 \<and> nul_free s" "nul_free (s @ t) \<longleftrightarrow> nul_free s \<and> nul_free t"
  by (auto simp: nul_free_def)

lemma space_split: "nul_free s \<Longrightarrow> \<exists>w. s = w @ syntax_space s \<and> blanks w"
proof (induction s)
  case (Cons ch s)
  then obtain w where w: "s = w @ syntax_space s" "blanks w" by auto
  show ?case
  proof (cases "ch \<in> set json_blank")
    case True
    then have "ch # s = (ch # w) @ syntax_space (ch # s)" "blanks (ch # w)"
      using w by (simp_all add: syntax_space_def strchr_def blanks_def)
    then show ?thesis by blast
  next
    case False
    then have "syntax_space (ch # s) = ch # s" using Cons.prems by (simp add: syntax_space_def strchr_def)
    then show ?thesis by (intro exI [of _ "[]"]) (simp add: blanks_def)
  qed
qed (simp add: blanks_def syntax_space_def)

definition solid :: "string \<Rightarrow> bool" where
  "solid t \<longleftrightarrow> t = [] \<or> \<not> strchr json_blank (hd t)"

lemma space_blanks: "blanks w \<Longrightarrow> solid t \<Longrightarrow> syntax_space (w @ t) = t"
  by (induction w) (auto simp: solid_def syntax_space_def strchr_def blanks_def dropWhile_eq_self_iff)

lemma space_solid: "solid t \<Longrightarrow> syntax_space t = t"
  using space_blanks [of "[]" t] by (simp add: blanks_def)

lemma space_nul_free: "nul_free s \<Longrightarrow> nul_free (syntax_space s)"
  using space_split [of s] by (metis nul_free_simps(3))

lemma string_tail_cases:
  assumes "string_tail (ch # t) = Some r"
  obtains (close) "ch = CHR 0x22" "t = r"
    | (escape) v u where "ch = CHR 0x5C" "t = v # u" "strchr json_escapes v" "string_tail u = Some r"
    | (unicode) h1 h2 h3 h4 w where "ch = CHR 0x5C" "t = CHR ''u'' # h1 # h2 # h3 # h4 # w" "list_all is_hex [h1, h2, h3, h4]"
        "string_tail w = Some r"
    | (plain) "ch \<noteq> CHR 0x22" "ch \<noteq> CHR 0x5C" "(0x20 :: nat) \<le> of_char ch" "string_tail t = Some r"
proof (cases "ch = CHR 0x22")
  case True
  then show ?thesis using assms close by simp
next
  case q: False
  then have ge: "(0x20 :: nat) \<le> of_char ch" using assms by (simp split: if_splits)
  show ?thesis
  proof (cases "ch = CHR 0x5C")
    case True
    then obtain v u where t: "t = v # u" using assms by (cases t) simp_all
    show ?thesis
    proof (cases "v = CHR ''u''")
      case v: True
      then have "(case u of h1 # h2 # h3 # h4 # w \<Rightarrow> if is_hex h1 \<and> is_hex h2 \<and> is_hex h3 \<and> is_hex h4 then string_tail w else None
          | _ \<Rightarrow> None) = Some r"
        using assms True t by simp
      then show ?thesis using unicode True t v by (auto split: list.splits if_splits)
    next
      case False
      then show ?thesis using assms True t escape by (simp split: if_splits)
    qed
  next
    case False
    then show ?thesis using assms q ge plain by simp
  qed
qed

lemma string_tail_sound: "string_tail s = Some r \<Longrightarrow> nul_free s \<Longrightarrow> \<exists>t. s = t @ CHR 0x22 # r \<and> string_chars t"
proof (induction "length s" arbitrary: s rule: less_induct)
  case less
  obtain ch t where s: "s = ch # t" using less.prems(1) by (cases s) simp_all
  have IH: "\<exists>q. u = q @ CHR 0x22 # r \<and> string_chars q" if "string_tail u = Some r" "\<exists>x. s = x @ u \<and> x \<noteq> []" for u
    using less.hyps [of u] that less.prems(2) by auto
  from less.prems(1) [unfolded s] show ?case
  proof (cases rule: string_tail_cases)
    case close
    then show ?thesis using s by (intro exI [of _ "[]"]) (simp add: string_chars.empty)
  next
    case (escape v u)
    then obtain q where "u = q @ CHR 0x22 # r" "string_chars q" using IH [of u] s by fastforce
    then show ?thesis
      using escape s less.prems(2) by (intro exI [of _ "CHR 0x5C # v # q"]) (simp add: string_chars.escape strchr_def)
  next
    case (unicode h1 h2 h3 h4 w)
    then obtain q where "w = q @ CHR 0x22 # r" "string_chars q" using IH [of w] s by fastforce
    then show ?thesis
      using unicode s by (intro exI [of _ "CHR 0x5C # CHR ''u'' # h1 # h2 # h3 # h4 # q"]) (simp add: string_chars.unicode)
  next
    case plain
    then obtain q where "t = q @ CHR 0x22 # r" "string_chars q" using IH [of t] s by fastforce
    then show ?thesis using plain s by (intro exI [of _ "ch # q"]) (simp add: string_chars.plain)
  qed
qed

lemma string_tail_complete: "string_chars t \<Longrightarrow> string_tail (t @ CHR 0x22 # r) = Some r"
  by (induction rule: string_chars.induct) (auto simp: strchr_def json_escapes_def)

lemma syntax_string_sound: "syntax_string s = Some r \<Longrightarrow> nul_free s \<Longrightarrow> \<exists>k. s = k @ r \<and> string_text k"
  using string_tail_sound [of "tl s" r]
  by (cases s) (auto simp: syntax_string_def string_text_def split: if_splits)

lemma syntax_string_complete: "string_text k \<Longrightarrow> syntax_string (k @ r) = Some r"
  using string_tail_complete by (auto simp: string_text_def syntax_string_def)

subsection \<open>Soundness: what the check accepts is in the grammar\<close>

lemma string_text_head: "string_text s \<Longrightarrow> s \<noteq> [] \<and> hd s = CHR 0x22"
  by (auto simp: string_text_def)

lemma number_chars: "number_text s \<Longrightarrow> s \<noteq> [] \<and> (\<forall>ch\<in>set s. is_digit ch \<or> ch \<in> set ''-+.eE'')"
proof -
  assume "number_text s"
  then obtain minus int frac exp where s: "s = minus @ int @ frac @ exp" "minus \<in> {[], ''-''}"
    and i: "int = ''0'' \<or> digits int \<and> hd int \<noteq> CHR ''0''"
    and f: "frac = [] \<or> (\<exists>ds. frac = CHR ''.'' # ds \<and> digits ds)"
    and e: "exp = [] \<or> (\<exists>e sg ds. exp = e # sg @ ds \<and> e \<in> set ''eE'' \<and> sg \<in> {[], ''+'', ''-''} \<and> digits ds)"
    unfolding number_text_def by blast
  define A where "A = {ch. is_digit ch} \<union> set ''-+.eE''"
  have d: "set ds \<subseteq> A" if "digits ds" for ds using that by (auto simp: digits_def list_all_iff A_def)
  have "set minus \<subseteq> A" using s(2) by (auto simp: A_def)
  moreover have "set int \<subseteq> A" "int \<noteq> []" using i d by (auto simp: A_def is_digit_def digits_def)
  moreover have "set frac \<subseteq> A" using f
  proof
    assume "\<exists>ds. frac = CHR ''.'' # ds \<and> digits ds"
    then obtain ds where "frac = CHR ''.'' # ds" "digits ds" by blast
    then show ?thesis using d [of ds] by (simp add: A_def)
  qed simp
  moreover have "set exp \<subseteq> A" using e
  proof
    assume "\<exists>e sg ds. exp = e # sg @ ds \<and> e \<in> set ''eE'' \<and> sg \<in> {[], ''+'', ''-''} \<and> digits ds"
    then obtain x sg ds where x: "exp = x # sg @ ds" "x \<in> set ''eE''" "sg \<in> {[], ''+'', ''-''}" "digits ds" by blast
    have "x \<in> A" "set sg \<subseteq> A" using x(2,3) by (auto simp: A_def)
    then show ?thesis using x(1) d [OF x(4)] by simp
  qed simp
  ultimately have "s \<noteq> []" "set s \<subseteq> A" using s(1) by simp_all
  then show ?thesis by (auto simp: A_def)
qed

lemma primitive_chars: "primitive_text s \<Longrightarrow> s \<noteq> [] \<and> (\<forall>ch\<in>set s. is_digit ch \<or> ch \<in> set ''-+.eEtrufalsn'')"
  using number_chars [of s] by (auto simp: primitive_text_def)

lemma digit_not_special: "is_digit ch \<Longrightarrow> \<not> strchr primitive_stop ch \<and> \<not> strchr json_blank ch \<and> ch \<notin> set ''{[]},'' \<and> ch \<noteq> CHR 0x22"
  by (auto simp: is_digit_def strchr_def primitive_stop_def json_blank_def)

lemma primitive_not_special:
  assumes "primitive_text s" "ch \<in> set s"
  shows "\<not> strchr primitive_stop ch \<and> \<not> strchr json_blank ch \<and> ch \<notin> set ''{[]},'' \<and> ch \<noteq> CHR 0x22"
proof (cases "is_digit ch")
  case False
  then have "ch \<in> set ''-+.eEtrufalsn''" using primitive_chars [OF assms(1)] assms(2) by blast
  then show ?thesis by (auto simp: strchr_def primitive_stop_def json_blank_def)
qed (rule digit_not_special)

lemma value_head:
  assumes "value_text d v"
  shows "v \<noteq> []" "\<not> strchr json_blank (hd v)" "hd v \<noteq> CHR '']''" "hd v \<noteq> CHR ''}''"
proof -
  obtain d' where "d = Suc d'" using assms by (cases d) simp_all
  then consider "primitive_text v" | "string_text v" | "bracketed CHR ''['' CHR '']'' (value_text d') v"
    | "bracketed CHR ''{'' CHR ''}'' (member_text (value_text d')) v"
    using assms by auto
  then have "v \<noteq> [] \<and> \<not> strchr json_blank (hd v) \<and> hd v \<noteq> CHR '']'' \<and> hd v \<noteq> CHR ''}''"
  proof cases
    case 1
    then show ?thesis using primitive_chars primitive_not_special [of v "hd v"] by auto
  next
    case 2
    then show ?thesis using string_text_head by (auto simp: strchr_def json_blank_def)
  qed (auto simp: bracketed_def strchr_def json_blank_def)
  then show "v \<noteq> []" "\<not> strchr json_blank (hd v)" "hd v \<noteq> CHR '']''" "hd v \<noteq> CHR ''}''" by blast+
qed

definition checks :: "checker \<Rightarrow> (string \<Rightarrow> bool) \<Rightarrow> bool" where
  "checks f G \<longleftrightarrow> (\<forall>s. nul_free s \<longrightarrow> (\<exists>x. f s = Some x \<and> (\<forall>r. x = Some r \<longrightarrow> (\<exists>v. s = v @ r \<and> G v))))"

lemma checksI: "(\<And>s. nul_free s \<Longrightarrow> \<exists>x. f s = Some x \<and> (\<forall>r. x = Some r \<longrightarrow> (\<exists>v. s = v @ r \<and> G v))) \<Longrightarrow> checks f G"
  by (simp add: checks_def)

lemma checksE:
  assumes "checks f G" "nul_free s"
  obtains (reject) "f s = Some None" | (accept) v r where "f s = Some (Some r)" "s = v @ r" "G v"
proof -
  obtain x where x: "f s = Some x" "\<forall>r. x = Some r \<longrightarrow> (\<exists>v. s = v @ r \<and> G v)" using assms unfolding checks_def by blast
  then show ?thesis using reject accept by (cases x) auto
qed

lemma spaceE:
  assumes "nul_free r"
  obtains (end_of_text) "syntax_space r = []" | (more) w ch t where "syntax_space r = ch # t" "r = w @ ch # t" "blanks w" "nul_free t"
proof (cases "syntax_space r")
  case (Cons ch t)
  moreover obtain w where "r = w @ syntax_space r" "blanks w" using space_split [OF assms] by blast
  ultimately show ?thesis using assms more [of ch t w] by (metis nul_free_simps(2,3))
qed (rule end_of_text)

lemma list_loop_checks:
  assumes "checks item I" "\<And>v. I v \<Longrightarrow> v \<noteq> []"
  shows "checks (list_loop closing item) (\<lambda>v. \<exists>es. v = es @ [closing] \<and> list_text I es)"
proof (rule checksI)
  fix s show "nul_free s \<Longrightarrow> \<exists>x. list_loop closing item s = Some x \<and>
      (\<forall>r. x = Some r \<longrightarrow> (\<exists>v. s = v @ r \<and> (\<exists>es. v = es @ [closing] \<and> list_text I es)))"
  proof (induction "length s" arbitrary: s rule: less_induct)
    case less
    from assms(1) less.prems show ?case
    proof (cases rule: checksE)
      case reject
      then show ?thesis by (subst list_loop.simps) simp
    next
      case v: (accept v r)
      then have "nul_free r" using less.prems by simp
      then show ?thesis
      proof (cases rule: spaceE)
        case end_of_text
        then show ?thesis using v(1) by (subst list_loop.simps) simp
      next
        case (more w ch t)
        consider "ch = closing" | "ch = CHR '',''" "ch \<noteq> closing" | "ch \<noteq> closing" "ch \<noteq> CHR '',''" by blast
        then show ?thesis
        proof cases
          case 1
          have "list_loop closing item s = Some (Some t)" using v(1) more(1) 1 by (subst list_loop.simps) simp
          moreover have "list_text I (v @ w)" using v(3) more(3) by (rule list_text.last)
          ultimately show ?thesis using v(2) more(2) 1 by auto
        next
          case 2
          obtain w' where w': "t = w' @ syntax_space t" "blanks w'" using space_split [OF more(4)] by blast
          have "length (syntax_space t) \<le> length t" by (simp add: syntax_space_def length_dropWhile_le)
          then have "length (syntax_space t) < length s" using v(2) more(2) by simp
          with less.hyps space_nul_free [OF more(4)] obtain x where
            x: "list_loop closing item (syntax_space t) = Some x"
              "\<forall>r. x = Some r \<longrightarrow> (\<exists>v. syntax_space t = v @ r \<and> (\<exists>es. v = es @ [closing] \<and> list_text I es))" by blast
          have "list_loop closing item s = Some x" using v(1) more(1) 2 x(1) by (subst list_loop.simps) simp
          moreover have "\<exists>u. s = u @ r \<and> (\<exists>es. u = es @ [closing] \<and> list_text I es)" if xr: "x = Some r" for r
          proof -
            obtain es where es: "syntax_space t = es @ [closing] @ r" "list_text I es" using x(2) xr by auto
            have "list_text I (v @ w @ '','' @ w' @ es)" using v(3) more(3) w'(2) es(2) by (rule list_text.more)
            moreover have "s = (v @ w @ '','' @ w' @ es) @ [closing] @ r" using v(2) more(2) 2 w'(1) es(1) by simp
            ultimately show ?thesis by (metis append_assoc)
          qed
          ultimately show ?thesis by blast
        next
          case 3
          then show ?thesis using v(1) more(1) by (subst list_loop.simps) simp
        qed
      qed
    qed
  qed
qed

lemma member_checks:
  assumes "checks val V"
  shows "checks (syntax_member val) (member_text V)"
proof (rule checksI)
  fix s assume s: "nul_free s"
  show "\<exists>x. syntax_member val s = Some x \<and> (\<forall>r. x = Some r \<longrightarrow> (\<exists>v. s = v @ r \<and> member_text V v))"
  proof (cases "syntax_string s")
    case (Some q)
    then obtain k where k: "s = k @ q" "string_text k" using syntax_string_sound [OF _ s] by blast
    then have "nul_free q" using s by simp
    then show ?thesis
    proof (cases rule: spaceE)
      case (more w ch t)
      show ?thesis
      proof (cases "ch = CHR '':''")
        case True
        obtain w' where w': "t = w' @ syntax_space t" "blanks w'" using space_split [OF more(4)] by blast
        have e: "syntax_member val s = val (syntax_space t)" using Some more(1) True by (simp add: syntax_member_def)
        from assms space_nul_free [OF more(4)] show ?thesis
        proof (cases rule: checksE)
          case (accept v r)
          have "s = (k @ w @ '':'' @ w' @ v) @ r" using k(1) more(2) True w'(1) accept(2) by simp
          moreover have "member_text V (k @ w @ '':'' @ w' @ v)"
            using k(2) more(3) w'(2) accept(3) unfolding member_text_def by blast
          ultimately show ?thesis using e accept(1) by auto
        qed (use e in simp)
      qed (use Some more(1) in \<open>simp add: syntax_member_def\<close>)
    qed (use Some in \<open>simp add: syntax_member_def\<close>)
  qed (simp add: syntax_member_def)
qed

lemma member_nonempty: "member_text V s \<Longrightarrow> s \<noteq> [] \<and> hd s = CHR 0x22"
  using string_text_head by (fastforce simp: member_text_def)

text \<open>What \<open>syntax_array\<close> and \<open>syntax_object\<close> share: an opening bracket and a possibly empty list.\<close>

definition bracket_check :: "char \<Rightarrow> checker \<Rightarrow> checker" where
  "bracket_check closing item s =
      (case syntax_space (tl s) of
         [] \<Rightarrow> list_loop closing item []
       | ch # t \<Rightarrow> if ch = closing then Some (Some t) else list_loop closing item (ch # t))"

lemma array_object_bracket:
  "syntax_array val = bracket_check CHR '']'' val" "syntax_object val = bracket_check CHR ''}'' (syntax_member val)"
  by (auto simp: syntax_array_def syntax_object_def bracket_check_def intro!: ext)

lemma bracket_checks:
  assumes "checks item I" "\<And>v. I v \<Longrightarrow> v \<noteq> []" "nul_free (open_b # t)"
  shows "\<exists>x. bracket_check closing item (open_b # t) = Some x \<and>
    (\<forall>r. x = Some r \<longrightarrow> (\<exists>v. open_b # t = v @ r \<and> bracketed open_b closing I v))"
proof -
  have loop: "checks (list_loop closing item) (\<lambda>v. \<exists>es. v = es @ [closing] \<and> list_text I es)"
    by (rule list_loop_checks [OF assms(1,2)])
  have t: "nul_free t" using assms(3) by simp
  then show ?thesis
  proof (cases rule: spaceE)
    case end_of_text
    have "nul_free []" by simp
    with loop show ?thesis using end_of_text by (cases rule: checksE) (simp_all add: bracket_check_def)
  next
    case (more w ch u)
    show ?thesis
    proof (cases "ch = closing")
      case True
      have "bracketed open_b closing I (open_b # w @ [] @ [closing])" unfolding bracketed_def using more(3) by blast
      then show ?thesis using more True by (auto simp: bracket_check_def)
    next
      case False
      have e: "bracket_check closing item (open_b # t) = list_loop closing item (ch # u)"
        using more(1) False by (simp add: bracket_check_def)
      have "nul_free (ch # u)" using more(2) t by simp
      with loop show ?thesis
      proof (cases rule: checksE)
        case (accept v r)
        then obtain es where es: "v = es @ [closing]" "list_text I es" by blast
        have "bracketed open_b closing I (open_b # w @ es @ [closing])" using more(3) es(2) by (auto simp: bracketed_def)
        moreover have "open_b # t = (open_b # w @ es @ [closing]) @ r" using more(2) accept(2) es(1) by simp
        ultimately have "\<exists>v. open_b # t = v @ r \<and> bracketed open_b closing I v" by blast
        then show ?thesis using e accept(1) by simp
      qed (use e in simp)
    qed
  qed
qed

lemma primitive_checks: "checks syntax_primitive primitive_text"
proof (rule checksI)
  fix s :: string
  have "s = takeWhile P s @ drop (length (takeWhile P s)) s" for P
    by (metis dropWhile_eq_drop takeWhile_dropWhile_id)
  then show "\<exists>x. syntax_primitive s = Some x \<and> (\<forall>r. x = Some r \<longrightarrow> (\<exists>v. s = v @ r \<and> primitive_text v))"
    by (auto simp: syntax_primitive_def Let_def primitive_valid_text)
qed

lemma value_checks: "checks (syntax_value d) (value_text d)"
proof (induction d)
  case (Suc d)
  show ?case
  proof (rule checksI)
    fix s assume s: "nul_free s"
    show "\<exists>x. syntax_value (Suc d) s = Some x \<and> (\<forall>r. x = Some r \<longrightarrow> (\<exists>v. s = v @ r \<and> value_text (Suc d) v))"
    proof (cases s)
      case (Cons ch t)
      consider "ch = CHR ''{''" | "ch = CHR ''[''" | "ch = CHR 0x22" | "ch \<noteq> CHR ''{''" "ch \<noteq> CHR ''[''" "ch \<noteq> CHR 0x22" by blast
      then show ?thesis
      proof cases
        case 1
        then have e: "syntax_value (Suc d) s = bracket_check CHR ''}'' (syntax_member (syntax_value d)) s"
          using Cons by (simp add: array_object_bracket)
        have "member_text (value_text d) v \<Longrightarrow> v \<noteq> []" for v using member_nonempty by blast
        from bracket_checks [OF member_checks [OF Suc] this, of "CHR ''{''" t "CHR ''}''"] show ?thesis
          using s Cons 1 e by auto
      next
        case 2
        then have e: "syntax_value (Suc d) s = bracket_check CHR '']'' (syntax_value d) s"
          using Cons by (simp add: array_object_bracket)
        from bracket_checks [OF Suc value_head(1), of "\<lambda>_. d" "CHR ''[''" t "CHR '']''"] show ?thesis
          using s Cons 2 e by auto
      next
        case 3
        then show ?thesis using syntax_string_sound [OF _ s] Cons by auto
      next
        case 4
        then have e: "syntax_value (Suc d) s = syntax_primitive s" using Cons by simp
        from primitive_checks s show ?thesis by (cases rule: checksE) (use e in auto)
      qed
    qed simp
  qed
qed (simp add: checks_def)

subsection \<open>Completeness: what is in the grammar is accepted\<close>

definition follow :: "string \<Rightarrow> bool" where
  "follow r \<longleftrightarrow> r = [] \<or> hd r \<in> set primitive_stop"

lemma follow_blanks: "blanks w \<Longrightarrow> follow r \<Longrightarrow> follow (w @ r)"
  by (cases w) (auto simp: follow_def blanks_def primitive_stop_def)

definition accepts :: "checker \<Rightarrow> (string \<Rightarrow> bool) \<Rightarrow> bool" where
  "accepts f G \<longleftrightarrow> (\<forall>v r. G v \<longrightarrow> follow r \<longrightarrow> f (v @ r) = Some (Some r))"

lemma primitive_accepts: "primitive_text v \<Longrightarrow> follow r \<Longrightarrow> syntax_primitive (v @ r) = Some (Some r)"
proof -
  assume v: "primitive_text v" and r: "follow r"
  have "takeWhile (\<lambda>ch. \<not> strchr primitive_stop ch) (v @ r) = v @ takeWhile (\<lambda>ch. \<not> strchr primitive_stop ch) r"
    using primitive_not_special [OF v] by (intro takeWhile_append2) blast
  also have "takeWhile (\<lambda>ch. \<not> strchr primitive_stop ch) r = []" using r by (cases r) (auto simp: follow_def strchr_def)
  finally show ?thesis using v primitive_chars [OF v] by (simp add: syntax_primitive_def primitive_valid_text)
qed

lemma bracket_not_blank: "\<not> strchr json_blank CHR '']''" "\<not> strchr json_blank CHR ''}''" "\<not> strchr json_blank CHR '',''"
  "\<not> strchr json_blank CHR '':''"
  by (simp_all add: strchr_def json_blank_def)

lemma list_text_head: "list_text I es \<Longrightarrow> (\<And>v. I v \<Longrightarrow> v \<noteq> [] \<and> P (hd v)) \<Longrightarrow> es \<noteq> [] \<and> P (hd es)"
  by (induction rule: list_text.induct) auto

lemma list_loop_accepts:
  assumes "accepts item I" "\<And>v. I v \<Longrightarrow> v \<noteq> [] \<and> \<not> strchr json_blank (hd v)" "closing \<in> {CHR '']'', CHR ''}''}"
    "list_text I es"
  shows "list_loop closing item (es @ closing # r) = Some (Some r)"
  using assms(4)
proof (induction rule: list_text.induct)
  case (last v w)
  have "follow (w @ closing # r)" using last(2) assms(3) by (intro follow_blanks) (auto simp: follow_def primitive_stop_def)
  then have "item (v @ w @ closing # r) = Some (Some (w @ closing # r))" using assms(1) last(1) by (simp add: accepts_def)
  moreover have "syntax_space (w @ closing # r) = closing # r"
    using last(2) assms(3) bracket_not_blank by (intro space_blanks) (auto simp: solid_def)
  ultimately show ?case by (subst list_loop.simps) simp
next
  case (more v w w' es)
  have "follow (w @ '','' @ w' @ es @ closing # r)" by (rule follow_blanks [OF more(2)]) (simp add: follow_def primitive_stop_def)
  then have "item (v @ w @ '','' @ w' @ es @ closing # r) = Some (Some (w @ '','' @ w' @ es @ closing # r))"
    using assms(1) more(1) by (simp add: accepts_def)
  moreover have "syntax_space (w @ '','' @ w' @ es @ closing # r) = CHR '','' # w' @ es @ closing # r"
    using space_blanks [OF more(2), of "CHR '','' # w' @ es @ closing # r"] bracket_not_blank by (simp add: solid_def)
  moreover have "syntax_space (w' @ es @ closing # r) = es @ closing # r"
    using list_text_head [OF more(4), of "\<lambda>ch. \<not> strchr json_blank ch"] assms(2)
    by (intro space_blanks more(3)) (auto simp: solid_def)
  moreover have "CHR '','' \<noteq> closing" using assms(3) by auto
  ultimately show ?case using more.IH by (subst list_loop.simps) simp
qed

lemma bracket_accepts:
  assumes "accepts item I" "\<And>v. I v \<Longrightarrow> v \<noteq> [] \<and> \<not> strchr json_blank (hd v) \<and> hd v \<noteq> closing"
    "closing \<in> {CHR '']'', CHR ''}''}" "bracketed open_b closing I v"
  shows "bracket_check closing item (v @ r) = Some (Some r)"
proof -
  obtain w es where v: "v = open_b # w @ es @ [closing]" "blanks w" "es = [] \<or> list_text I es"
    using assms(4) unfolding bracketed_def by blast
  show ?thesis
  proof (cases "es = []")
    case True
    then have "syntax_space (tl (v @ r)) = closing # r"
      using v bracket_not_blank assms(3) space_blanks [OF v(2), of "closing # r"] by (auto simp: solid_def)
    then show ?thesis by (simp add: bracket_check_def)
  next
    case False
    then have es: "list_text I es" using v(3) by blast
    from list_text_head [OF es, of "\<lambda>ch. \<not> strchr json_blank ch \<and> ch \<noteq> closing"] assms(2)
    have h: "es \<noteq> []" "\<not> strchr json_blank (hd es)" "hd es \<noteq> closing" by auto
    then have "syntax_space (tl (v @ r)) = es @ closing # r"
      using v(1) space_blanks [OF v(2), of "es @ closing # r"] by (simp add: solid_def)
    moreover have "list_loop closing item (es @ closing # r) = Some (Some r)"
      using assms(1,2,3) es by (intro list_loop_accepts) auto
    ultimately show ?thesis using h by (cases es) (simp_all add: bracket_check_def)
  qed
qed

lemma member_accepts:
  assumes "accepts val V" "\<And>v. V v \<Longrightarrow> v \<noteq> [] \<and> \<not> strchr json_blank (hd v)"
  shows "accepts (syntax_member val) (member_text V)"
  unfolding accepts_def
proof (intro allI impI)
  fix s r assume "member_text V s" and r: "follow r"
  then obtain k w w' v where s: "s = k @ w @ '':'' @ w' @ v" "string_text k" "blanks w" "blanks w'" "V v"
    unfolding member_text_def by blast
  have "syntax_space (w @ '':'' @ w' @ v @ r) = CHR '':'' # w' @ v @ r"
    using space_blanks [OF s(3), of "CHR '':'' # w' @ v @ r"] bracket_not_blank by (simp add: solid_def)
  moreover have "syntax_space (w' @ v @ r) = v @ r"
    using assms(2) [OF s(5)] by (intro space_blanks s(4)) (simp add: solid_def)
  ultimately show "syntax_member val (s @ r) = Some (Some r)"
    using syntax_string_complete [OF s(2)] assms(1) s(5) r by (simp add: syntax_member_def s(1) accepts_def)
qed

lemma value_accepts: "accepts (syntax_value d) (value_text d)"
proof (induction d)
  case (Suc d)
  have m: "member_text (value_text d) v \<Longrightarrow> v \<noteq> [] \<and> \<not> strchr json_blank (hd v) \<and> hd v \<noteq> CHR ''}''" for v
    using member_nonempty by (auto simp: strchr_def json_blank_def)
  show ?case unfolding accepts_def
  proof (intro allI impI)
    fix v r assume v: "value_text (Suc d) v" and r: "follow r"
    from v consider "primitive_text v" | "string_text v" | "bracketed CHR ''['' CHR '']'' (value_text d) v"
      | "bracketed CHR ''{'' CHR ''}'' (member_text (value_text d)) v" by auto
    then show "syntax_value (Suc d) (v @ r) = Some (Some r)"
    proof cases
      case 1
      then have "v \<noteq> []" "hd v \<notin> set ''{[''" "hd v \<noteq> CHR 0x22"
        using primitive_chars primitive_not_special [OF 1, of "hd v"] by auto
      then show ?thesis using primitive_accepts [OF 1 r] by (cases v) auto
    next
      case 2
      then show ?thesis using string_text_head [OF 2] syntax_string_complete [OF 2, of r] by (cases v) auto
    next
      case 3
      have "bracket_check CHR '']'' (syntax_value d) (v @ r) = Some (Some r)"
        using value_head [of d] 3 by (intro bracket_accepts [OF Suc]) auto
      then show ?thesis using 3 by (auto simp: bracketed_def array_object_bracket)
    next
      case 4
      have "bracket_check CHR ''}'' (syntax_member (syntax_value d)) (v @ r) = Some (Some r)"
        using m 4 value_head [of d] by (intro bracket_accepts [OF member_accepts [OF Suc]]) auto
      then show ?thesis using 4 by (auto simp: bracketed_def array_object_bracket)
    qed
  qed
qed (simp add: accepts_def)

lemma json_syntax_exact:
  assumes "nul_free s"
  shows "json_syntax_valid s = Some (json_text 64 s)"
proof -
  obtain w where w: "s = w @ syntax_space s" "blanks w" using space_split [OF assms] by blast
  have n: "nul_free (syntax_space s)" by (rule space_nul_free [OF assms])
  have complete: "json_syntax_valid s = Some True" if t: "json_text 64 s"
  proof -
    obtain w v w' where s: "s = w @ v @ w'" "blanks w" "value_text 64 v" "blanks w'" using t unfolding json_text_def by blast
    have "syntax_space s = v @ w'" using value_head [OF s(3)] unfolding s(1) by (intro space_blanks s(2)) (simp add: solid_def)
    moreover have "follow w'" using follow_blanks [OF s(4), of "[]"] by (simp add: follow_def)
    moreover have "syntax_space w' = []" using space_blanks [OF s(4), of "[]"] by (simp add: solid_def)
    ultimately show ?thesis using value_accepts [of 64] s(3) by (simp add: json_syntax_valid_def accepts_def)
  qed
  from value_checks [of 64] n show ?thesis
  proof (cases rule: checksE)
    case (accept v r)
    then have "nul_free r" using n by (metis nul_free_simps(3))
    then obtain w' where w': "r = w' @ syntax_space r" "blanks w'" using space_split by blast
    have "json_text 64 s" if r: "syntax_space r = []"
    proof -
      have "r = w'" using w'(1) unfolding r by simp
      then have "w @ syntax_space s = w @ v @ w'" using accept(2) by simp
      with w(1) have "s = w @ v @ w'" by (rule trans)
      then show ?thesis using w(2) accept(3) w'(2) unfolding json_text_def by blast
    qed
    then show ?thesis using complete accept(1) by (auto simp: json_syntax_valid_def)
  next
    case reject
    then show ?thesis using complete by (auto simp: json_syntax_valid_def)
  qed
qed

text \<open>
  C37. JSON syntax.  On every text without a NUL byte, which the document parser refuses first, the
  recursive-descent check returns, and it accepts exactly the texts of the JSON grammar whose values
  nest at most 64 deep.
\<close>

theorem json_syntax_grammar:
  assumes "nul_free s"
  shows "json_syntax_valid s = Some (json_text 64 s)"
  using assms by (rule json_syntax_exact)

text \<open>The text \<open>{"n": [1, -2e5]}\<close> is accepted, and without its last bracket it is not.\<close>

definition sample_text :: string where
  "sample_text = [CHR ''{'', CHR 0x22, CHR ''n'', CHR 0x22, CHR '':'', CHR 0x20] @ ''[1, -2e5]}''"

theorem json_syntax_grammar_witness: "json_text 64 sample_text \<and> \<not> json_text 64 (butlast sample_text)"
proof -
  have "nul_free sample_text" "nul_free (butlast sample_text)" by code_simp+
  moreover have "json_syntax_valid sample_text = Some True" "json_syntax_valid (butlast sample_text) = Some False" by code_simp+
  ultimately show ?thesis
    using json_syntax_grammar [of sample_text] json_syntax_grammar [of "butlast sample_text"] by simp
qed

end
