(* ===== verification/JsonString.thy ===== *)
theory JsonString
  imports JsonGrammar Printf
begin

text \<open>
  Text handling of \<^verbatim>\<open>emu_json_internal.c\<close>: the UTF-8 check, the decoding of string tokens, 64-bit numbers
  in strings and the bounded output buffer.  A character is a byte.  An output array together with
  its fill count is the list of the bytes written so far.
\<close>

subsection \<open>UTF-8\<close>

definition utf8_lead :: "u32 \<Rightarrow> (u32 \<times> nat) option" where
  "utf8_lead first =
     (if first \<ge> 0xc2 \<and> first \<le> 0xdf then Some (first AND 0x1f, 1)
      else if first \<ge> 0xe0 \<and> first \<le> 0xef then Some (first AND 0x0f, 2)
      else if first \<ge> 0xf0 \<and> first \<le> 0xf4 then Some (first AND 0x07, 3)
      else None)"

fun utf8_continue :: "nat \<Rightarrow> u32 \<Rightarrow> string \<Rightarrow> (u32 \<times> string) option" where
  "utf8_continue 0 codepoint s = Some (codepoint, s)"
| "utf8_continue (Suc need) codepoint (ch # s) =
     (if (of_char ch :: u32) AND 0xc0 \<noteq> 0x80 then None
      else utf8_continue need (push_bit 6 codepoint OR (of_char ch AND 0x3f)) s)"
| "utf8_continue (Suc need) codepoint [] = None"

definition utf8_rejects :: "u32 \<Rightarrow> u32 \<Rightarrow> bool" where
  "utf8_rejects first codepoint \<longleftrightarrow>
     codepoint < 0x80 \<or> codepoint < 0x800 \<and> first \<ge> 0xe0 \<or> codepoint < 0x10000 \<and> first \<ge> 0xf0 \<or>
     codepoint \<ge> 0xd800 \<and> codepoint \<le> 0xdfff \<or> codepoint > 0x10ffff"

lemma utf8_continue_length: "utf8_continue n cp s = Some (cp', r) \<Longrightarrow> length r \<le> length s"
  by (induction n cp s rule: utf8_continue.induct) (auto split: if_splits)

function utf8_valid :: "string \<Rightarrow> bool" where
  "utf8_valid [] = True"
| "utf8_valid (ch # rest) =
     (let first = of_char ch :: u32
      in if first < 0x80 then utf8_valid rest
         else case utf8_lead first of
                None \<Rightarrow> False
              | Some (start, need) \<Rightarrow>
                  if need > length rest then False
                  else case utf8_continue need start rest of
                         None \<Rightarrow> False
                       | Some (codepoint, rest') \<Rightarrow> \<not> utf8_rejects first codepoint \<and> utf8_valid rest')"
  by pat_completeness auto
termination by (relation "measure length") (auto dest!: utf8_continue_length)

definition utf8_encode :: "u32 \<Rightarrow> string option" where
  "utf8_encode cp =
     (let byte = (\<lambda>w :: u32. char_of (unat w))
      in if cp \<le> 0x7f then Some [byte cp]
         else if cp \<le> 0x7ff then Some [byte (0xc0 OR drop_bit 6 cp), byte (0x80 OR (cp AND 0x3f))]
         else if cp \<le> 0xffff then
           Some [byte (0xe0 OR drop_bit 12 cp), byte (0x80 OR (drop_bit 6 cp AND 0x3f)), byte (0x80 OR (cp AND 0x3f))]
         else if cp \<le> 0x10ffff then
           Some [byte (0xf0 OR drop_bit 18 cp), byte (0x80 OR (drop_bit 12 cp AND 0x3f)),
                 byte (0x80 OR (drop_bit 6 cp AND 0x3f)), byte (0x80 OR (cp AND 0x3f))]
         else None)"

definition append_utf8 :: "nat \<Rightarrow> u32 \<Rightarrow> string \<Rightarrow> string option" where
  "append_utf8 capacity cp out =
     (case utf8_encode cp of
        None \<Rightarrow> None
      | Some encoded \<Rightarrow> if length out + length encoded \<ge> capacity then None else Some (out @ encoded))"

subsection \<open>Decoding a string token\<close>

text \<open>A byte of the text; a read past its end, which valid tokens never cause, answers 0 here.\<close>

definition text_at :: "string \<Rightarrow> nat \<Rightarrow> char" where
  "text_at text i = (if i < length text then text ! i else CHR 0x00)"

definition hex_value :: "char \<Rightarrow> int" where
  "hex_value d =
     (if (48 :: int) \<le> of_char d \<and> of_char d \<le> (57 :: int) then of_char d - 48
      else if (97 :: int) \<le> of_char d \<and> of_char d \<le> (102 :: int) then of_char d - 97 + 10
      else if (65 :: int) \<le> of_char d \<and> of_char d \<le> (70 :: int) then of_char d - 65 + 10
      else -1)"

definition hex4 :: "string \<Rightarrow> nat \<Rightarrow> u32" where
  "hex4 text i = fold (\<lambda>k cp. push_bit 4 cp OR word_of_int (hex_value (text_at text (i + k)))) [0..<4] 0"

definition decode_escape :: "char \<Rightarrow> char option" where
  "decode_escape v =
     (if v = CHR 0x22 then Some (CHR 0x22) else if v = CHR 0x5C then Some (CHR 0x5C)
      else if v = CHR ''/'' then Some (CHR ''/'') else if v = CHR ''b'' then Some (CHR 0x08)
      else if v = CHR ''f'' then Some (CHR 0x0C) else if v = CHR ''n'' then Some (CHR 0x0A)
      else if v = CHR ''r'' then Some (CHR 0x0D) else if v = CHR ''t'' then Some (CHR 0x09) else None)"

text \<open>The code point of a \<open>\u\<close> escape whose first digit is at \<open>i\<close>, and the position behind it.\<close>

definition decode_unicode :: "string \<Rightarrow> nat \<Rightarrow> nat \<Rightarrow> (u32 \<times> nat) option" where
  "decode_unicode text end_at i =
     (let cp = hex4 text i; last = i + 3
      in if cp \<ge> 0xd800 \<and> cp \<le> 0xdbff then
           if last + 6 \<ge> end_at \<or> text_at text (last + 1) \<noteq> CHR 0x5C \<or> text_at text (last + 2) \<noteq> CHR ''u'' then None
           else let low = hex4 text (last + 3)
                in if low < 0xdc00 \<or> low > 0xdfff then None
                   else Some (0x10000 + push_bit 10 (cp - 0xd800) + (low - 0xdc00), last + 7)
         else if cp \<ge> 0xdc00 \<and> cp \<le> 0xdfff then None
         else Some (cp, last + 1))"

lemma decode_unicode_pos: "decode_unicode text e i = Some (cp, j) \<Longrightarrow> i < j"
  by (auto simp: decode_unicode_def Let_def split: if_splits)

function decode_loop :: "string \<Rightarrow> nat \<Rightarrow> nat \<Rightarrow> bool \<Rightarrow> nat \<Rightarrow> string \<Rightarrow> string option" where
  "decode_loop text end_at capacity allow_null i out =
     (if i \<ge> end_at then Some out
      else
        let v = text_at text i
        in if v \<noteq> CHR 0x5C then
             (if length out + 1 \<ge> capacity then None
              else decode_loop text end_at capacity allow_null (i + 1) (out @ [v]))
           else if text_at text (i + 1) = CHR ''u'' then
             (case decode_unicode text end_at (i + 2) of
                None \<Rightarrow> None
              | Some (cp, j) \<Rightarrow>
                  if cp = 0 \<and> \<not> allow_null then None
                  else (case append_utf8 capacity cp out of
                          None \<Rightarrow> None
                        | Some out' \<Rightarrow> decode_loop text end_at capacity allow_null j out'))
           else
             (case decode_escape (text_at text (i + 1)) of
                None \<Rightarrow> None
              | Some d \<Rightarrow>
                  if length out + 1 \<ge> capacity then None
                  else decode_loop text end_at capacity allow_null (i + 2) (out @ [d])))"
  by auto
termination by (relation "measure (\<lambda>(text, e, cap, a, i, out). e - i)") (auto dest!: decode_unicode_pos)

declare decode_loop.simps [simp del]

datatype json_type = JSON_UNDEFINED | JSON_OBJECT | JSON_ARRAY | JSON_STRING | JSON_PRIMITIVE

record json_token =
  tok_type :: json_type
  tok_start :: int
  tok_end :: int
  tok_size :: int
  tok_parent :: int

record json_document =
  doc_text :: string
  doc_tokens :: "json_token list"
  doc_count :: int

definition json_string_decode :: "json_document \<Rightarrow> int \<Rightarrow> nat \<Rightarrow> bool \<Rightarrow> string option" where
  "json_string_decode d t capacity allow_null =
     (if t < 0 \<or> t \<ge> doc_count d \<or> capacity = 0 then None
      else let tok = doc_tokens d ! nat t
           in if tok_type tok \<noteq> JSON_STRING then None
              else decode_loop (doc_text d) (nat (tok_end tok)) capacity allow_null (nat (tok_start tok)) [])"

definition json_string :: "json_document \<Rightarrow> int \<Rightarrow> nat \<Rightarrow> string option" where
  "json_string d t capacity = json_string_decode d t capacity False"

subsection \<open>Output\<close>

record json_output =
  out_data :: string
  out_failed :: bool

definition output_raw :: "string \<Rightarrow> json_output \<Rightarrow> json_output" where
  "output_raw text out =
     (if out_failed out \<or> length (out_data out) + length text > 65536 then out\<lparr>out_failed := True\<rparr>
      else out\<lparr>out_data := out_data out @ text\<rparr>)"

definition escape_byte :: "char \<Rightarrow> string" where
  "escape_byte v =
     (if v = CHR 0x22 then [CHR 0x5C, CHR 0x22] else if v = CHR 0x5C then [CHR 0x5C, CHR 0x5C]
      else if v = CHR 0x08 then [CHR 0x5C, CHR ''b''] else if v = CHR 0x0C then [CHR 0x5C, CHR ''f'']
      else if v = CHR 0x0A then [CHR 0x5C, CHR ''n''] else if v = CHR 0x0D then [CHR 0x5C, CHR ''r'']
      else if v = CHR 0x09 then [CHR 0x5C, CHR ''t'']
      else if of_char v < (0x20 :: nat) then
        [CHR 0x5C, CHR ''u'', CHR ''0'', CHR ''0'', ''0123456789abcdef'' ! (of_char v div 16), ''0123456789abcdef'' ! (of_char v mod 16)]
      else [v])"

fun output_chars :: "string \<Rightarrow> json_output \<Rightarrow> json_output" where
  "output_chars [] out = out"
| "output_chars (v # s) out =
     (if out_failed out \<or> v = CHR 0x00 then out else output_chars s (output_raw (escape_byte v) out))"

definition output_string :: "string \<Rightarrow> json_output \<Rightarrow> json_output" where
  "output_string s out = output_raw [CHR 0x22] (output_chars s (output_raw [CHR 0x22] out))"

subsection \<open>Numbers in strings\<close>

text \<open>The digits loop of \<open>json_u64\<close> on the decoded text, up to its terminator.\<close>

fun u64_digits :: "string \<Rightarrow> u64 \<Rightarrow> u64 option" where
  "u64_digits [] n = Some n"
| "u64_digits (ch # s) n =
     (if ch = CHR 0x00 then Some n
      else if \<not> is_digit ch then None
      else let digit = of_char ch - 48
           in if n > (- 1 - digit) div 10 then None else u64_digits s (n * 10 + digit))"

definition u64_text :: "string \<Rightarrow> u64 option" where
  "u64_text s =
     (if text_at s 0 = CHR 0x00 \<or> text_at s 0 = CHR ''0'' \<and> text_at s 1 \<noteq> CHR 0x00 then None
      else u64_digits s 0)"

definition json_u64 :: "json_document \<Rightarrow> int \<Rightarrow> u64 option" where
  "json_u64 d t = (case json_string d t 21 of None \<Rightarrow> None | Some s \<Rightarrow> u64_text s)"

subsection \<open>Printed strings read back\<close>

definition escaped :: "string \<Rightarrow> string" where
  "escaped s = concat (map escape_byte s)"

lemma escaped_simps [simp]: "escaped [] = []" "escaped (v # s) = escape_byte v @ escaped s"
  by (simp_all add: escaped_def)

lemma text_at_append: "text_at (pre @ s) (length pre + k) = text_at s k"
  by (simp add: text_at_def nth_append)

lemma text_at_here: "text_at (pre @ s) (length pre) = text_at s 0"
  using text_at_append [of pre s 0] by simp

definition hex_word :: "char \<Rightarrow> char \<Rightarrow> char \<Rightarrow> char \<Rightarrow> u32" where
  "hex_word a b c d = push_bit 4 (push_bit 4 (push_bit 4 (word_of_int (hex_value a)) OR word_of_int (hex_value b)) OR
     word_of_int (hex_value c)) OR word_of_int (hex_value d)"

lemma hex4_word: "hex4 text i = hex_word (text_at text i) (text_at text (i + 1)) (text_at text (i + 2)) (text_at text (i + 3))"
proof -
  have "[0..<4] = [0, 1, 2, 3 :: nat]" by code_simp
  then show ?thesis by (simp add: hex4_def hex_word_def del: upt.simps)
qed

lemma control_hex:
  "list_all (\<lambda>n. hex_word CHR ''0'' CHR ''0'' (''0123456789abcdef'' ! (n div 16)) (''0123456789abcdef'' ! (n mod 16)) = word_of_nat n \<and>
     is_hex (''0123456789abcdef'' ! (n div 16)) \<and> is_hex (''0123456789abcdef'' ! (n mod 16))) [0..<32]"
  by code_simp

lemma of_char_word: "(of_char v :: 'a::len word) = word_of_nat (of_char v)"
  by (simp add: of_nat_of_char)

lemma control_escape:
  assumes "v \<noteq> CHR 0x00" "of_char v < (0x20 :: nat)"
  shows "decode_unicode (pre @ [CHR ''0'', CHR ''0'', ''0123456789abcdef'' ! (of_char v div 16), ''0123456789abcdef'' ! (of_char v mod 16)] @ post)
      e (length pre) = Some (of_char v, length pre + 4)"
    and "append_utf8 cap (of_char v) out = (if length out + 1 \<ge> cap then None else Some (out @ [v]))"
    and "of_char v \<noteq> (0 :: u32)"
proof -
  define n where "n = (of_char v :: nat)"
  have n: "n < 32" "v = char_of n" using assms(2) by (simp_all add: n_def)
  have w: "(of_char v :: u32) = word_of_nat n" by (simp add: n_def of_char_word)
  have u: "unat (word_of_nat n :: u32) = n" using n(1) by (simp add: unat_of_nat take_bit_nat_eq_self)
  have "n \<in> set [0..<32]" using n(1) by simp
  then have h: "hex_word CHR ''0'' CHR ''0'' (''0123456789abcdef'' ! (n div 16)) (''0123456789abcdef'' ! (n mod 16)) = word_of_nat n"
    using control_hex unfolding list_all_iff by blast
  have "hex4 (pre @ [CHR ''0'', CHR ''0'', ''0123456789abcdef'' ! (n div 16), ''0123456789abcdef'' ! (n mod 16)] @ post) (length pre) = word_of_nat n"
    unfolding hex4_word text_at_append text_at_here h [symmetric] by (simp add: text_at_def)
  moreover have "\<not> (word_of_nat n :: u32) \<ge> 0xd800" "\<not> (word_of_nat n :: u32) \<ge> 0xdc00" "(word_of_nat n :: u32) \<le> 0x7f"
    using n(1) u by (simp_all add: word_le_nat_alt)
  ultimately show "decode_unicode (pre @ [CHR ''0'', CHR ''0'', ''0123456789abcdef'' ! (of_char v div 16), ''0123456789abcdef'' ! (of_char v mod 16)] @ post)
      e (length pre) = Some (of_char v, length pre + 4)"
    "append_utf8 cap (of_char v) out = (if length out + 1 \<ge> cap then None else Some (out @ [v]))"
    using u n(2) unfolding w n_def [symmetric] by (simp_all add: decode_unicode_def append_utf8_def utf8_encode_def Let_def)
  have "n \<noteq> of_char CHR 0x00" using assms(1) unfolding n_def of_char_eq_iff .
  then have "n \<noteq> 0" by simp
  then show "of_char v \<noteq> (0 :: u32)" using u unfolding w by (metis unat_0)
qed

lemma decode_step_plain:
  assumes "v \<noteq> CHR 0x5C" "length pre < e" "length out + 1 < cap"
  shows "decode_loop (pre @ v # post) e cap a (length pre) out = decode_loop (pre @ v # post) e cap a (length pre + 1) (out @ [v])"
proof -
  have "text_at (pre @ v # post) (length pre) = v" by (simp add: text_at_def)
  then show ?thesis using assms by (subst decode_loop.simps) (simp add: Let_def)
qed

lemma decode_step_escape:
  assumes "decode_escape k = Some v" "length pre < e" "length out + 1 < cap"
  shows "decode_loop (pre @ CHR 0x5C # k # post) e cap a (length pre) out =
    decode_loop (pre @ CHR 0x5C # k # post) e cap a (length pre + 2) (out @ [v])"
proof -
  have "text_at (pre @ CHR 0x5C # k # post) (length pre) = CHR 0x5C" "text_at (pre @ CHR 0x5C # k # post) (Suc (length pre)) = k"
    by (simp_all add: text_at_def nth_append)
  moreover have "k \<noteq> CHR ''u''" using assms(1) by (auto simp: decode_escape_def)
  ultimately show ?thesis using assms by (subst decode_loop.simps) (simp add: Let_def)
qed

lemma decode_step_control:
  assumes "v \<noteq> CHR 0x00" "of_char v < (0x20 :: nat)" "length pre < e" "length out + 1 < cap"
  shows "decode_loop (pre @ [CHR 0x5C, CHR ''u'', CHR ''0'', CHR ''0'', ''0123456789abcdef'' ! (of_char v div 16),
        ''0123456789abcdef'' ! (of_char v mod 16)] @ post) e cap a (length pre) out =
    decode_loop (pre @ [CHR 0x5C, CHR ''u'', CHR ''0'', CHR ''0'', ''0123456789abcdef'' ! (of_char v div 16),
        ''0123456789abcdef'' ! (of_char v mod 16)] @ post) e cap a (length pre + 6) (out @ [v])"
    (is "decode_loop ?t e cap a (length pre) out = _")
proof -
  have "text_at ?t (length pre) = CHR 0x5C" "text_at ?t (Suc (length pre)) = CHR ''u''" by (simp_all add: text_at_def nth_append)
  moreover have "decode_unicode ((pre @ [CHR 0x5C, CHR ''u'']) @ [CHR ''0'', CHR ''0'', ''0123456789abcdef'' ! (of_char v div 16),
      ''0123456789abcdef'' ! (of_char v mod 16)] @ post) e (length pre + 2) = Some (of_char v, length pre + 6)"
    using control_escape(1) [OF assms(1,2), of "pre @ [CHR 0x5C, CHR ''u'']" post e] by simp
  ultimately show ?thesis
    using assms control_escape(2,3) [OF assms(1,2)] by (subst decode_loop.simps) (simp add: Let_def)
qed

lemma escape_byte_cases:
  obtains (escape) k where "escape_byte v = [CHR 0x5C, k]" "decode_escape k = Some v"
    | (control) "of_char v < (0x20 :: nat)" "escape_byte v = [CHR 0x5C, CHR ''u'', CHR ''0'', CHR ''0'', ''0123456789abcdef'' ! (of_char v div 16),
        ''0123456789abcdef'' ! (of_char v mod 16)]"
    | (plain) "escape_byte v = [v]" "v \<noteq> CHR 0x5C"
proof -
  define named where "named = [(CHR 0x22, CHR 0x22), (CHR 0x5C, CHR 0x5C), (CHR 0x08, CHR ''b''), (CHR 0x0C, CHR ''f''),
    (CHR 0x0A, CHR ''n''), (CHR 0x0D, CHR ''r''), (CHR 0x09, CHR ''t'')]"
  have table: "list_all (\<lambda>(v, k). escape_byte v = [CHR 0x5C, k] \<and> decode_escape k = Some v) named"
    unfolding named_def by code_simp
  show thesis
  proof (cases "v \<in> fst ` set named")
    case True
    then obtain k where "(v, k) \<in> set named" by auto
    then show thesis using table escape by (auto simp: list_all_iff)
  next
    case False
    then have n: "v \<noteq> CHR 0x22" "v \<noteq> CHR 0x5C" "v \<noteq> CHR 0x08" "v \<noteq> CHR 0x0C" "v \<noteq> CHR 0x0A" "v \<noteq> CHR 0x0D" "v \<noteq> CHR 0x09"
      by (simp_all add: named_def)
    show thesis
    proof (cases "of_char v < (0x20 :: nat)")
      case True
      then show thesis using n by (intro control) (simp_all add: escape_byte_def)
    next
      case False
      then show thesis using n by (intro plain) (simp_all add: escape_byte_def)
    qed
  qed
qed

lemma decode_step:
  assumes "v \<noteq> CHR 0x00" "length pre < e" "length out + 1 < cap"
  shows "decode_loop (pre @ escape_byte v @ post) e cap a (length pre) out =
    decode_loop (pre @ escape_byte v @ post) e cap a (length (pre @ escape_byte v)) (out @ [v])"
proof -
  consider (escape) k where "escape_byte v = [CHR 0x5C, k]" "decode_escape k = Some v"
    | (control) "of_char v < (0x20 :: nat)" "escape_byte v = [CHR 0x5C, CHR ''u'', CHR ''0'', CHR ''0'', ''0123456789abcdef'' ! (of_char v div 16),
        ''0123456789abcdef'' ! (of_char v mod 16)]"
    | (plain) "escape_byte v = [v]" "v \<noteq> CHR 0x5C"
    by (rule escape_byte_cases)
  then show ?thesis
  proof cases
    case escape
    then show ?thesis using decode_step_escape [OF escape(2) assms(2,3), of post a] by simp
  next
    case control
    have l: "length (pre @ escape_byte v) = length pre + 6" by (simp add: control(2))
    show ?thesis unfolding l unfolding control(2) by (rule decode_step_control [OF assms(1) control(1) assms(2,3)])
  next
    case plain
    then show ?thesis using decode_step_plain [OF plain(2) assms(2,3), of post a] by simp
  qed
qed

lemma escape_byte_Nil [simp]: "escape_byte v \<noteq> []"
  by (rule escape_byte_cases [of v]) simp_all

lemma decode_escaped:
  "CHR 0x00 \<notin> set s \<Longrightarrow> length out + length s < cap \<Longrightarrow>
   decode_loop (pre @ escaped s @ post) (length pre + length (escaped s)) cap a (length pre) out = Some (out @ s)"
proof (induction s arbitrary: pre out)
  case Nil
  then show ?case by (subst decode_loop.simps) simp
next
  case (Cons v s)
  let ?e = "length pre + length (escape_byte v @ escaped s)"
  have v: "v \<noteq> CHR 0x00" "CHR 0x00 \<notin> set s" using Cons.prems(1) by auto
  have "0 < length (escape_byte v)" by simp
  then have "length pre < ?e" by simp
  moreover have "length out + 1 < cap" using Cons.prems(2) by simp
  ultimately have "decode_loop (pre @ escape_byte v @ escaped s @ post) ?e cap a (length pre) out =
      decode_loop (pre @ escape_byte v @ escaped s @ post) ?e cap a (length (pre @ escape_byte v)) (out @ [v])"
    by (rule decode_step [OF v(1)])
  also have "\<dots> = Some ((out @ [v]) @ s)"
    using Cons.IH [OF v(2), of "out @ [v]" "pre @ escape_byte v"] Cons.prems(2) by (simp add: add.assoc)
  finally show ?case by simp
qed

lemma output_raw_fits:
  "\<not> out_failed out \<Longrightarrow> length (out_data out) + length t \<le> 65536 \<Longrightarrow> output_raw t out = out\<lparr>out_data := out_data out @ t\<rparr>"
  by (simp add: output_raw_def)

lemma output_chars_fits:
  "\<not> out_failed out \<Longrightarrow> CHR 0x00 \<notin> set s \<Longrightarrow> length (out_data out) + length (escaped s) \<le> 65536 \<Longrightarrow>
   output_chars s out = out\<lparr>out_data := out_data out @ escaped s\<rparr>"
proof (induction s arbitrary: out)
  case (Cons v s)
  have "output_raw (escape_byte v) out = out\<lparr>out_data := out_data out @ escape_byte v\<rparr>"
    using Cons.prems by (intro output_raw_fits) simp_all
  moreover have "v \<noteq> CHR 0x00" using Cons.prems(2) by auto
  ultimately show ?case using Cons.prems Cons.IH [of "out\<lparr>out_data := out_data out @ escape_byte v\<rparr>"] by simp
qed simp

lemma output_string_fits:
  assumes "\<not> out_failed out" "CHR 0x00 \<notin> set s" "length (out_data out) + length (escaped s) + 2 \<le> 65536"
  shows "output_string s out = out\<lparr>out_data := out_data out @ CHR 0x22 # escaped s @ [CHR 0x22]\<rparr>"
  using assms by (simp add: output_string_def output_raw_fits output_chars_fits)

lemma decode_escape_in: "decode_escape k = Some v \<Longrightarrow> k \<in> set json_escapes"
  by (simp add: decode_escape_def json_escapes_def split: if_splits)

lemma escape_byte_text: "string_chars t \<Longrightarrow> string_chars (escape_byte v @ t)"
proof (cases rule: escape_byte_cases [of v])
  case (escape k)
  then show "string_chars t \<Longrightarrow> ?thesis" using string_chars.escape decode_escape_in by simp
next
  case control
  define n where "n = (of_char v :: nat)"
  have "n \<in> set [0..<32]" using control(1) by (simp add: n_def)
  then have "is_hex (''0123456789abcdef'' ! (n div 16))" "is_hex (''0123456789abcdef'' ! (n mod 16))"
    using control_hex unfolding list_all_iff by blast+
  moreover have "is_hex CHR ''0''" by (simp add: is_hex_def is_digit_def)
  ultimately show "string_chars t \<Longrightarrow> ?thesis" unfolding control(2) n_def by (simp add: string_chars.unicode)
next
  case plain
  have "\<not> of_char v < (0x20 :: nat)" "v \<noteq> CHR 0x22" using plain by (auto simp: escape_byte_def split: if_splits)
  then show "string_chars t \<Longrightarrow> ?thesis" using plain by (simp add: string_chars.plain)
qed

lemma escaped_text: "string_chars (escaped s)"
  by (induction s) (simp_all add: string_chars.empty escape_byte_text)

text \<open>
  C40. A text without NUL that fits is printed by \<open>output_string\<close> as a JSON string behind what the buffer held, without
  failure, and any document holding those bytes with a string token over them decodes that token to the very text,
  whatever the capacity above its length.
\<close>

theorem string_round_trip:
  assumes "\<not> out_failed out" "CHR 0x00 \<notin> set s" "length (out_data out) + length (escaped s) + 2 \<le> 65536"
    and "out' = output_string s out" "doc_text d = out_data out' @ rest"
    and "0 \<le> t" "t < doc_count d" "tok_type (doc_tokens d ! nat t) = JSON_STRING"
    and "tok_start (doc_tokens d ! nat t) = int (length (out_data out)) + 1"
    and "tok_end (doc_tokens d ! nat t) = int (length (out_data out')) - 1" "length s < capacity"
  shows "\<not> out_failed out' \<and> (\<exists>w. string_text w \<and> out_data out' = out_data out @ w) \<and> json_string d t capacity = Some s"
proof (intro conjI)
  have o: "out' = out\<lparr>out_data := out_data out @ CHR 0x22 # escaped s @ [CHR 0x22]\<rparr>"
    using output_string_fits assms(1-4) by simp
  then show "\<not> out_failed out'" using assms(1) by simp
  have "string_text (CHR 0x22 # escaped s @ [CHR 0x22])" unfolding string_text_def using escaped_text by blast
  then show "\<exists>w. string_text w \<and> out_data out' = out_data out @ w" using o by auto
  have t: "doc_text d = (out_data out @ [CHR 0x22]) @ escaped s @ CHR 0x22 # rest" using o assms(5) by simp
  have n: "nat (tok_start (doc_tokens d ! nat t)) = length (out_data out @ [CHR 0x22])"
    "nat (tok_end (doc_tokens d ! nat t)) = length (out_data out @ [CHR 0x22]) + length (escaped s)"
    using assms(9,10) o by simp_all
  show "json_string d t capacity = Some s"
    using assms(6-8,11) decode_escaped [OF assms(2), of "[]" capacity "out_data out @ [CHR 0x22]" "CHR 0x22 # rest" False]
    by (simp add: json_string_def json_string_decode_def n t Let_def del: append_assoc length_append)
qed

theorem string_round_trip_witness:
  "let out' = output_string [CHR ''a'', CHR 0x22, CHR 0x01] \<lparr>out_data = ''k='', out_failed = False\<rparr>
   in json_string \<lparr>doc_text = out_data out' @ '';'',
        doc_tokens = [\<lparr>tok_type = JSON_STRING, tok_start = 3, tok_end = 12, tok_size = 0, tok_parent = - 1\<rparr>], doc_count = 1\<rparr> 0 4 =
      Some [CHR ''a'', CHR 0x22, CHR 0x01]"
proof -
  let ?out = "\<lparr>out_data = ''k='', out_failed = False\<rparr>"
  let ?s = "[CHR ''a'', CHR 0x22, CHR 0x01]"
  let ?d = "\<lparr>doc_text = out_data (output_string ?s ?out) @ '';'',
    doc_tokens = [\<lparr>tok_type = JSON_STRING, tok_start = 3, tok_end = 12, tok_size = 0, tok_parent = - 1\<rparr>], doc_count = 1\<rparr>"
  have e: "length (escaped ?s) = 9" by (simp add: escape_byte_def)
  then have "length (out_data (output_string ?s ?out)) = 13" by (subst output_string_fits) (simp_all del: escaped_simps)
  with e show ?thesis using string_round_trip [of ?out ?s _ ?d "'';''" 0 4] unfolding Let_def by simp
qed

end
