(* ===== verification/JsonTokens.thy ===== *)
theory JsonTokens
  imports JsonString
begin

text \<open>
  The tokenizer of \<^verbatim>\<open>emu_json_internal.c\<close> and the functions that walk its tokens.  The token array is the list
  of the tokens allocated so far, so \<open>next_token\<close> is its length; entries behind it are never read.
  Texts are at most 65535 bytes long, so positions are natural numbers.  A negative result of
  \<open>json_parse\<close> is an \<open>Inl\<close>, and then no caller reads the document.
\<close>

subsection \<open>Tokens\<close>

record json_parser =
  position :: nat
  tokens :: "json_token list"
  parent :: int

definition fresh_token :: json_token where
  "fresh_token = \<lparr>tok_type = JSON_UNDEFINED, tok_start = -1, tok_end = -1, tok_size = 0, tok_parent = -1\<rparr>"

definition json_allocate :: "nat \<Rightarrow> json_parser \<Rightarrow> json_parser option" where
  "json_allocate capacity p =
     (if length (tokens p) \<ge> capacity then None else Some (p\<lparr>tokens := tokens p @ [fresh_token]\<rparr>))"

definition count_child :: "int \<Rightarrow> json_token list \<Rightarrow> json_token list" where
  "count_child par toks =
     (if par \<ge> 0 then toks[nat par := (toks ! nat par)\<lparr>tok_size := tok_size (toks ! nat par) + 1\<rparr>] else toks)"

text \<open>The position of the closing quote, looked for from \<open>i\<close> on; \<open>None\<close> is the result \<open>-1\<close>.\<close>

function string_scan :: "string \<Rightarrow> nat \<Rightarrow> nat option" where
  "string_scan text i =
     (if i \<ge> length text then None
      else
        let v = text_at text i
        in if v = CHR 0x22 then Some i
           else if of_char v < (0x20 :: nat) then None
           else if v = CHR 0x5C then
             if i + 1 \<ge> length text then None
             else if text_at text (i + 1) = CHR ''u'' then
               if i + 5 \<ge> length text then None
               else if list_all (\<lambda>k. is_hex (text_at text (i + k))) [2, 3, 4, 5] then string_scan text (i + 6)
               else None
             else if strchr json_escapes (text_at text (i + 1)) then string_scan text (i + 2)
             else None
           else string_scan text (i + 1))"
  by auto
termination by (relation "measure (\<lambda>(text, i). length text - i)") auto

declare string_scan.simps [simp del]

definition json_parse_string :: "string \<Rightarrow> nat \<Rightarrow> json_parser \<Rightarrow> int + json_parser" where
  "json_parse_string text capacity p =
     (let start = position p + 1
      in case string_scan text start of
           None \<Rightarrow> Inl (-1)
         | Some i \<Rightarrow>
             (case json_allocate capacity p of
                None \<Rightarrow> Inl (-2)
              | Some p \<Rightarrow>
                  let new = length (tokens p) - 1;
                      toks = (tokens p)[new := (tokens p ! new)\<lparr>tok_type := JSON_STRING, tok_start := int start, tok_end := int i, tok_parent := parent p\<rparr>]
                  in Inr (p\<lparr>tokens := count_child (parent p) toks, position := i\<rparr>)))"

definition token_stop :: string where
  "token_stop = json_blank @ '',]}:''"

definition parse_open :: "string \<Rightarrow> nat \<Rightarrow> char \<Rightarrow> json_parser \<Rightarrow> int + json_parser" where
  "parse_open text capacity v p =
     (case json_allocate capacity p of
        None \<Rightarrow> Inl (-2)
      | Some p \<Rightarrow>
          let new = length (tokens p) - 1;
              toks = count_child (parent p) (tokens p);
              toks = toks[new := (toks ! new)\<lparr>tok_type := (if v = CHR ''{'' then JSON_OBJECT else JSON_ARRAY),
                                               tok_start := int (position p), tok_parent := parent p\<rparr>]
          in Inr (p\<lparr>tokens := toks, parent := int new\<rparr>))"

definition parse_close :: "char \<Rightarrow> json_parser \<Rightarrow> int + json_parser" where
  "parse_close v p =
     (let expected = (if v = CHR ''}'' then JSON_OBJECT else JSON_ARRAY);
          opened = parent p
      in if opened < 0 \<or> tok_type (tokens p ! nat opened) \<noteq> expected then Inl (-1)
         else
           let toks = (tokens p)[nat opened := (tokens p ! nat opened)\<lparr>tok_end := int (position p) + 1\<rparr>]
           in Inr (p\<lparr>tokens := toks, parent := tok_parent (toks ! nat opened)\<rparr>))"

definition parse_primitive :: "string \<Rightarrow> nat \<Rightarrow> json_parser \<Rightarrow> int + json_parser" where
  "parse_primitive text capacity p =
     (let start = position p;
          token = takeWhile (\<lambda>ch. \<not> strchr token_stop ch) (drop start text);
          stop = start + length token
      in if stop = start \<or> \<not> json_primitive_valid token then Inl (-1)
         else
           case json_allocate capacity (p\<lparr>position := stop\<rparr>) of
             None \<Rightarrow> Inl (-2)
           | Some p \<Rightarrow>
               let new = length (tokens p) - 1;
                   toks = (tokens p)[new := (tokens p ! new)\<lparr>tok_type := JSON_PRIMITIVE, tok_start := int start, tok_end := int stop, tok_parent := parent p\<rparr>]
               in Inr (p\<lparr>tokens := count_child (parent p) toks, position := stop - 1\<rparr>))"

definition parse_step :: "string \<Rightarrow> nat \<Rightarrow> json_parser \<Rightarrow> int + json_parser" where
  "parse_step text capacity p =
     (let v = text_at text (position p)
      in if v = CHR ''{'' \<or> v = CHR ''['' then parse_open text capacity v p
         else if v = CHR ''}'' \<or> v = CHR '']'' then parse_close v p
         else if v = CHR 0x22 then json_parse_string text capacity p
         else if v = CHR '':'' \<or> v = CHR '','' then Inr p
         else if v \<in> set json_blank then Inr p
         else parse_primitive text capacity p)"

lemma string_scan_ge: "string_scan s i = Some j \<Longrightarrow> i \<le> j \<and> j < length s"
proof (induction "length s - i" arbitrary: i rule: less_induct)
  case less
  have IH: "i' \<le> j \<and> j < length s" if "i < i'" "i < length s" "string_scan s i' = Some j" for i'
    using less.hyps [of i'] that by auto
  from less.prems show ?case using IH [of "i + 1"] IH [of "i + 2"] IH [of "i + 6"]
    by (subst (asm) string_scan.simps) (auto simp: Let_def split: if_splits)
qed

lemma parse_primitive_position: "parse_primitive text capacity p = Inr p' \<Longrightarrow> position p \<le> position p'"
proof -
  define token where "token = takeWhile (\<lambda>ch. \<not> strchr token_stop ch) (drop (position p) text)"
  have "position p \<le> position p + length token - 1" if "token \<noteq> []" using that by (cases token) auto
  then show "parse_primitive text capacity p = Inr p' \<Longrightarrow> position p \<le> position p'"
    unfolding parse_primitive_def Let_def token_def [symmetric] by (auto simp: json_allocate_def split: if_splits)
qed

lemma parse_step_position: "parse_step text capacity p = Inr p' \<Longrightarrow> position p \<le> position p'"
  by (auto simp: parse_step_def parse_open_def parse_close_def json_parse_string_def json_allocate_def Let_def
      dest!: string_scan_ge parse_primitive_position split: if_splits option.splits)

function parse_loop :: "string \<Rightarrow> nat \<Rightarrow> json_parser \<Rightarrow> int + json_parser" where
  "parse_loop text capacity p =
     (if position p < length text then
        case parse_step text capacity p of
          Inl e \<Rightarrow> Inl e
        | Inr p' \<Rightarrow> parse_loop text capacity (p'\<lparr>position := position p' + 1\<rparr>)
      else Inr p)"
  by auto
termination by (relation "measure (\<lambda>(text, cap, p). length text - position p)") (auto dest!: parse_step_position)

declare parse_loop.simps [simp del]

definition json_parse :: "string \<Rightarrow> nat \<Rightarrow> int + json_token list" where
  "json_parse text capacity =
     (case parse_loop text capacity \<lparr>position = 0, tokens = [], parent = -1\<rparr> of
        Inl e \<Rightarrow> Inl e
      | Inr p \<Rightarrow> if parent p \<noteq> -1 \<or> tokens p = [] then Inl (-1) else Inr (tokens p))"

subsection \<open>Nesting\<close>

definition container :: "json_token \<Rightarrow> bool" where
  "container t \<longleftrightarrow> tok_type t = JSON_OBJECT \<or> tok_type t = JSON_ARRAY"

text \<open>\<open>anc toks par t\<close>: token \<open>t\<close> is \<open>par\<close> or one of its ancestors.\<close>

inductive anc :: "json_token list \<Rightarrow> int \<Rightarrow> nat \<Rightarrow> bool" for toks where
  here: "t < length toks \<Longrightarrow> anc toks (int t) t"
| up: "k < length toks \<Longrightarrow> anc toks (tok_parent (toks ! k)) t \<Longrightarrow> anc toks (int k) t"

inductive_simps anc_int: "anc toks (int k) t"
inductive_simps anc_minus: "anc toks (- 1) t"

definition parents_ok :: "json_token list \<Rightarrow> bool" where
  "parents_ok toks \<longleftrightarrow> (\<forall>j < length toks. tok_parent (toks ! j) = -1 \<or>
     (\<exists>i < j. tok_parent (toks ! j) = int i \<and> container (toks ! i)))"

definition tokens_ok :: "nat \<Rightarrow> json_token list \<Rightarrow> int \<Rightarrow> bool" where
  "tokens_ok pos toks par \<longleftrightarrow>
     parents_ok toks \<and>
     (par = -1 \<or> (\<exists>k < length toks. par = int k \<and> container (toks ! k))) \<and>
     (\<forall>j < length toks. 0 \<le> tok_start (toks ! j) \<and> tok_start (toks ! j) < int pos \<and> tok_type (toks ! j) \<noteq> JSON_UNDEFINED \<and>
        (if anc toks par j then tok_end (toks ! j) = -1 else tok_start (toks ! j) \<le> tok_end (toks ! j) \<and> tok_end (toks ! j) \<le> int pos)) \<and>
     (\<forall>j < length toks. \<forall>i < j. tok_start (toks ! i) < tok_start (toks ! j) \<and>
        (if anc toks (tok_parent (toks ! j)) i then tok_end (toks ! i) = -1 \<or> tok_end (toks ! j) < tok_end (toks ! i) \<and> tok_end (toks ! j) \<noteq> -1
         else tok_end (toks ! i) \<noteq> -1 \<and> tok_end (toks ! i) \<le> tok_start (toks ! j)))"

lemma anc_less: "anc toks par t \<Longrightarrow> t < length toks"
  by (induction rule: anc.induct) auto

lemma anc_le: "anc toks par t \<Longrightarrow> parents_ok toks \<Longrightarrow> int t \<le> par"
proof (induction rule: anc.induct)
  case (up k t)
  from up.prems up.hyps(1) have "tok_parent (toks ! k) < int k" unfolding parents_ok_def by fastforce
  then show ?case using up.IH up.prems by simp
qed simp

lemma anc_cong:
  assumes "length toks' = length toks" "\<And>j. j < length toks \<Longrightarrow> tok_parent (toks' ! j) = tok_parent (toks ! j)"
  shows "anc toks' par t = anc toks par t"
proof -
  have "anc ys par t" if "anc xs par t" "length ys = length xs" "\<And>j. j < length xs \<Longrightarrow> tok_parent (ys ! j) = tok_parent (xs ! j)" for xs ys
    using that(1)
  proof (induction rule: anc.induct)
    case (here t)
    then show ?case using that(2) by (simp add: anc.here)
  next
    case (up k t)
    then show ?case using that(2,3) anc.up [of k ys t] by simp
  qed
  from this [of toks toks'] this [of toks' toks] show ?thesis using assms by auto
qed

lemma anc_append:
  assumes "parents_ok toks" "par < int (length toks)"
  shows "anc (toks @ [x]) par t = anc toks par t"
proof
  assume "anc (toks @ [x]) par t"
  then show "anc toks par t" using assms(2)
  proof (induction rule: anc.induct)
    case (up k t)
    then have "k < length toks" by simp
    moreover have "tok_parent (toks ! k) < int (length toks)" using assms(1) calculation unfolding parents_ok_def by fastforce
    ultimately show ?case using up by (auto simp: nth_append intro: anc.up)
  qed (auto intro: anc.here)
next
  assume "anc toks par t"
  then show "anc (toks @ [x]) par t"
  proof (induction rule: anc.induct)
    case (here t)
    then show ?case by (simp add: anc.here)
  next
    case (up k t)
    then show ?case using anc.up [of k "toks @ [x]" t] by (simp add: nth_append)
  qed
qed

lemma tokens_okD:
  assumes "tokens_ok pos toks par"
  shows "parents_ok toks" "par = -1 \<or> (\<exists>k < length toks. par = int k \<and> container (toks ! k))"
    "\<And>j. j < length toks \<Longrightarrow> 0 \<le> tok_start (toks ! j) \<and> tok_start (toks ! j) < int pos \<and> tok_type (toks ! j) \<noteq> JSON_UNDEFINED"
    "\<And>j. anc toks par j \<Longrightarrow> tok_end (toks ! j) = -1"
    "\<And>j. j < length toks \<Longrightarrow> \<not> anc toks par j \<Longrightarrow> tok_start (toks ! j) \<le> tok_end (toks ! j) \<and> tok_end (toks ! j) \<le> int pos"
    "\<And>i j. j < length toks \<Longrightarrow> i < j \<Longrightarrow> tok_start (toks ! i) < tok_start (toks ! j)"
    "\<And>i j. j < length toks \<Longrightarrow> anc toks (tok_parent (toks ! j)) i \<Longrightarrow>
      tok_end (toks ! i) = -1 \<or> tok_end (toks ! j) < tok_end (toks ! i) \<and> tok_end (toks ! j) \<noteq> -1"
    "\<And>i j. j < length toks \<Longrightarrow> i < j \<Longrightarrow> \<not> anc toks (tok_parent (toks ! j)) i \<Longrightarrow>
      tok_end (toks ! i) \<noteq> -1 \<and> tok_end (toks ! i) \<le> tok_start (toks ! j)"
proof -
  note t = assms [unfolded tokens_ok_def]
  show p: "parents_ok toks" and "par = -1 \<or> (\<exists>k < length toks. par = int k \<and> container (toks ! k))" using t by blast+
  show "0 \<le> tok_start (toks ! j) \<and> tok_start (toks ! j) < int pos \<and> tok_type (toks ! j) \<noteq> JSON_UNDEFINED" if "j < length toks" for j
    using t that by blast
  show "tok_end (toks ! j) = -1" if "anc toks par j" for j using t that anc_less [OF that] by metis
  show "tok_start (toks ! j) \<le> tok_end (toks ! j) \<and> tok_end (toks ! j) \<le> int pos" if "j < length toks" "\<not> anc toks par j" for j
    using t that by metis
  show "tok_start (toks ! i) < tok_start (toks ! j)" if "j < length toks" "i < j" for i j using t that by blast
  show "tok_end (toks ! i) = -1 \<or> tok_end (toks ! j) < tok_end (toks ! i) \<and> tok_end (toks ! j) \<noteq> -1"
    if "j < length toks" "anc toks (tok_parent (toks ! j)) i" for i j
  proof -
    have "int i \<le> tok_parent (toks ! j)" using anc_le that(2) p by blast
    then have "i < j" using p that(1) unfolding parents_ok_def by fastforce
    then show ?thesis using t that by metis
  qed
  show "tok_end (toks ! i) \<noteq> -1 \<and> tok_end (toks ! i) \<le> tok_start (toks ! j)"
    if "j < length toks" "i < j" "\<not> anc toks (tok_parent (toks ! j)) i" for i j using t that by metis
qed

lemma parents_ok_append:
  assumes "parents_ok toks" "tok_parent x = -1 \<or> (\<exists>k < length toks. tok_parent x = int k \<and> container (toks ! k))"
  shows "parents_ok (toks @ [x])"
  unfolding parents_ok_def
proof (intro allI impI)
  fix j assume j: "j < length (toks @ [x])"
  show "tok_parent ((toks @ [x]) ! j) = -1 \<or> (\<exists>i < j. tok_parent ((toks @ [x]) ! j) = int i \<and> container ((toks @ [x]) ! i))"
  proof (cases "j = length toks")
    case True
    then show ?thesis using assms(2) by (auto simp: nth_append)
  next
    case False
    then have "j < length toks" using j by simp
    then show ?thesis using assms(1) unfolding parents_ok_def by (fastforce simp: nth_append)
  qed
qed

lemma tokens_ok_append:
  assumes ok: "tokens_ok pos toks par" and x: "tok_parent x = par" "tok_type x \<noteq> JSON_UNDEFINED"
    and start: "int pos \<le> tok_start x" "tok_start x < int pos'"
    and fin: "if container x \<and> tok_end x = -1 then par' = int (length toks)
              else par' = par \<and> tok_start x \<le> tok_end x \<and> tok_end x \<le> int pos'"
  shows "tokens_ok pos' (toks @ [x]) par'"
proof -
  note d = tokens_okD [OF ok]
  have par: "par < int (length toks)" using d(2) by auto
  have anc_old: "anc (toks @ [x]) q t = anc toks q t" if "q < int (length toks)" for q t using anc_append [OF d(1) that] .
  have pj: "tok_parent (toks ! j) < int (length toks)" if "j < length toks" for j
    using d(1) that unfolding parents_ok_def by fastforce
  have new: "anc (toks @ [x]) (int (length toks)) t \<longleftrightarrow> t = length toks \<or> anc toks par t" for t
    using anc_old [OF par] x(1) by (auto simp: anc_int nth_append)
  have parents: "parents_ok (toks @ [x])" using parents_ok_append [OF d(1)] d(2) x(1) by simp
  have nanc: "\<not> anc toks par (length toks)" using anc_less by blast
  have opened: "anc (toks @ [x]) par' j \<longleftrightarrow> anc toks par j" if "j < length toks" for j
    using that fin new anc_old [OF par] by (auto split: if_splits)
  have last: "if anc (toks @ [x]) par' (length toks) then tok_end x = -1 else tok_start x \<le> tok_end x \<and> tok_end x \<le> int pos'"
    using fin new anc_old [OF par] nanc by (auto split: if_splits)
  have le: "int pos \<le> int pos'" using start by simp
  show ?thesis unfolding tokens_ok_def
  proof (intro conjI allI impI)
    show "parents_ok (toks @ [x])" by (rule parents)
    show "par' = -1 \<or> (\<exists>k < length (toks @ [x]). par' = int k \<and> container ((toks @ [x]) ! k))"
    proof (cases "container x \<and> tok_end x = -1")
      case True
      then show ?thesis using fin by (auto simp: nth_append)
    next
      case False
      then show ?thesis using fin d(2) by (auto simp: nth_append)
    qed
  next
    fix j assume j: "j < length (toks @ [x])"
    show "0 \<le> tok_start ((toks @ [x]) ! j)" "tok_start ((toks @ [x]) ! j) < int pos'" "tok_type ((toks @ [x]) ! j) \<noteq> JSON_UNDEFINED"
      using j d(3) [of j] start x(2) le by (auto simp: nth_append)
    show "if anc (toks @ [x]) par' j then tok_end ((toks @ [x]) ! j) = -1
      else tok_start ((toks @ [x]) ! j) \<le> tok_end ((toks @ [x]) ! j) \<and> tok_end ((toks @ [x]) ! j) \<le> int pos'"
    proof (cases "j = length toks")
      case True
      then show ?thesis using last by simp
    next
      case False
      then have "j < length toks" using j by simp
      then show ?thesis using d(4,5) [of j] le opened [of j] by (auto simp: nth_append)
    qed
  next
    fix j i assume j: "j < length (toks @ [x])" and i: "i < j"
    show "tok_start ((toks @ [x]) ! i) < tok_start ((toks @ [x]) ! j)"
    proof (cases "j = length toks")
      case True
      then show ?thesis using d(3) [of i] i start(1) by (simp add: nth_append)
    next
      case False
      then show ?thesis using d(6) [of j i] i j by (simp add: nth_append)
    qed
    show "if anc (toks @ [x]) (tok_parent ((toks @ [x]) ! j)) i
      then tok_end ((toks @ [x]) ! i) = -1 \<or> tok_end ((toks @ [x]) ! j) < tok_end ((toks @ [x]) ! i) \<and> tok_end ((toks @ [x]) ! j) \<noteq> -1
      else tok_end ((toks @ [x]) ! i) \<noteq> -1 \<and> tok_end ((toks @ [x]) ! i) \<le> tok_start ((toks @ [x]) ! j)"
    proof (cases "j = length toks")
      case True
      then show ?thesis using d(3-5) [of i] i start(1) anc_old [OF par, of i] x(1) by (auto simp: nth_append)
    next
      case False
      then have "j < length toks" using j by simp
      then show ?thesis using d(7,8) [of j i] i anc_old [OF pj, of j i] by (auto simp: nth_append)
    qed
  qed
qed

lemma tokens_ok_close:
  assumes ok: "tokens_ok pos toks (int k)" and k: "k < length toks"
  shows "tokens_ok (pos + 1) (toks[k := (toks ! k)\<lparr>tok_end := int pos + 1\<rparr>]) (tok_parent (toks ! k))" (is "tokens_ok _ ?toks ?par")
proof -
  note d = tokens_okD [OF ok]
  have fields: "length ?toks = length toks" "tok_type (?toks ! j) = tok_type (toks ! j)" "tok_start (?toks ! j) = tok_start (toks ! j)"
    "tok_parent (?toks ! j) = tok_parent (toks ! j)" "container (?toks ! j) = container (toks ! j)" if "j < length toks" for j
    using that k by (cases "j = k"; simp add: container_def)+
  have ends: "tok_end (?toks ! j) = (if j = k then int pos + 1 else tok_end (toks ! j))" if "j < length toks" for j
    using that by (simp add: nth_list_update)
  have anc: "anc ?toks q t = anc toks q t" for q t by (rule anc_cong) (simp_all add: fields)
  have up: "anc toks (int k) j \<longleftrightarrow> j = k \<or> anc toks ?par j" for j using k by (auto simp: anc_int)
  have not_self: "\<not> anc toks (tok_parent (toks ! j)) j" if "j < length toks" for j
    using anc_le [OF _ d(1), of "tok_parent (toks ! j)" j] d(1) that unfolding parents_ok_def by fastforce
  have par: "?par = -1 \<or> (\<exists>i < length toks. ?par = int i \<and> container (toks ! i))"
    using d(1) k less_trans unfolding parents_ok_def by blast
  show ?thesis unfolding tokens_ok_def
  proof (intro conjI allI impI)
    show "parents_ok ?toks" using d(1) fields unfolding parents_ok_def by (metis length_list_update less_trans)
    show "?par = -1 \<or> (\<exists>i < length ?toks. ?par = int i \<and> container (?toks ! i))" using par fields by auto
  next
    fix j assume "j < length ?toks"
    then have j: "j < length toks" by simp
    show "0 \<le> tok_start (?toks ! j)" "tok_start (?toks ! j) < int (pos + 1)" "tok_type (?toks ! j) \<noteq> JSON_UNDEFINED"
      using d(3) [OF j] fields [OF j] by auto
    show "if anc ?toks ?par j then tok_end (?toks ! j) = -1
      else tok_start (?toks ! j) \<le> tok_end (?toks ! j) \<and> tok_end (?toks ! j) \<le> int (pos + 1)"
      using d(3-5) [of j] j not_self [OF k] unfolding anc fields(3) [OF j] ends [OF j] by (auto simp: up)
  next
    fix j i assume "j < length ?toks" and i: "i < j"
    then have j: "j < length toks" by simp
    have il: "i < length toks" using i j by simp
    show "tok_start (?toks ! i) < tok_start (?toks ! j)" using d(6) [OF j i] fields(3) [OF j] fields(3) [OF il] by simp
    have open_k: "tok_end (toks ! k) = -1" using d(4) up by blast
    have under_k: "tok_end (toks ! j) \<noteq> -1 \<and> tok_end (toks ! j) < int pos + 1" if "anc toks (tok_parent (toks ! j)) k"
    proof -
      have "k < j" using anc_le [OF that d(1)] d(1) j unfolding parents_ok_def by fastforce
      then have "\<not> anc toks (int k) j" using anc_le [OF _ d(1), of "int k" j] by auto
      then show ?thesis using d(3,5) [OF j] by simp
    qed
    show "if anc ?toks (tok_parent (?toks ! j)) i
      then tok_end (?toks ! i) = -1 \<or> tok_end (?toks ! j) < tok_end (?toks ! i) \<and> tok_end (?toks ! j) \<noteq> -1
      else tok_end (?toks ! i) \<noteq> -1 \<and> tok_end (?toks ! i) \<le> tok_start (?toks ! j)"
      unfolding anc fields(3) [OF j] fields(4) [OF j] ends [OF j] ends [OF il]
      using d(7,8) [of j i] d(4) [of i] j i open_k under_k by (auto simp: up)
  qed
qed

lemma tokens_ok_cong:
  assumes "length toks' = length toks"
    and "\<And>j. j < length toks \<Longrightarrow> tok_type (toks' ! j) = tok_type (toks ! j) \<and> tok_start (toks' ! j) = tok_start (toks ! j) \<and>
      tok_end (toks' ! j) = tok_end (toks ! j) \<and> tok_parent (toks' ! j) = tok_parent (toks ! j)"
    and ok: "tokens_ok pos toks par"
  shows "tokens_ok pos toks' par"
proof -
  have anc: "anc toks' q t = anc toks q t" for q t using assms(1,2) by (intro anc_cong) simp_all
  have c: "container (toks' ! j) = container (toks ! j)" if "j < length toks" for j using assms(2) [OF that] by (simp add: container_def)
  have p: "parents_ok toks'" using tokens_okD(1) [OF ok] assms(1,2) c unfolding parents_ok_def by (metis less_trans)
  have o: "par = -1 \<or> (\<exists>k < length toks'. par = int k \<and> container (toks' ! k))" using tokens_okD(2) [OF ok] assms(1) c by auto
  show ?thesis using ok p o unfolding tokens_ok_def anc assms(1)
    by (simp add: assms(2) cong: conj_cong)
qed

subsection \<open>The tokenizer keeps the nesting\<close>

text \<open>The size of a container counts its direct children.\<close>

definition sizes_ok :: "json_token list \<Rightarrow> bool" where
  "sizes_ok toks \<longleftrightarrow> (\<forall>i < length toks. tok_size (toks ! i) = int (card {j. j < length toks \<and> tok_parent (toks ! j) = int i}))"

lemma count_child_append: "par < int (length toks) \<Longrightarrow> count_child par (toks @ [x]) = count_child par toks @ [x]"
  by (simp add: count_child_def nth_append list_update_append nat_less_iff)

lemma count_child_fields:
  assumes "par < int (length toks)" "j < length toks"
  shows "tok_type (count_child par toks ! j) = tok_type (toks ! j) \<and> tok_start (count_child par toks ! j) = tok_start (toks ! j) \<and>
    tok_end (count_child par toks ! j) = tok_end (toks ! j) \<and> tok_parent (count_child par toks ! j) = tok_parent (toks ! j)"
  using assms by (cases "nat par = j") (simp_all add: count_child_def)

lemma length_count_child [simp]: "length (count_child par toks) = length toks"
  by (simp add: count_child_def)

lemma tokens_ok_count: "par < int (length toks) \<Longrightarrow> tokens_ok pos toks q \<Longrightarrow> tokens_ok pos (count_child par toks) q"
  by (rule tokens_ok_cong [of _ toks]) (simp_all add: count_child_fields)

lemma sizes_ok_append:
  assumes ok: "tokens_ok pos toks par" and sz: "sizes_ok toks" and x: "tok_parent x = par" "tok_size x = 0"
  shows "sizes_ok (count_child par (toks @ [x]))"
proof -
  note d = tokens_okD [OF ok]
  have par: "par < int (length toks)" using d(2) by auto
  have parents: "tok_parent (toks ! j) < int (length toks)" if "j < length toks" for j
    using d(1) that unfolding parents_ok_def by fastforce
  have kids: "{j. j < length (toks @ [x]) \<and> tok_parent (count_child par (toks @ [x]) ! j) = int i} =
      {j. j < length toks \<and> tok_parent (toks ! j) = int i} \<union> (if par = int i then {length toks} else {})" for i
  proof -
    have "tok_parent (count_child par (toks @ [x]) ! j) = tok_parent ((toks @ [x]) ! j)" if "j < length (toks @ [x])" for j
      using count_child_fields [of par "toks @ [x]" j] par that by simp
    then show ?thesis using x(1) by (auto simp: nth_append less_Suc_eq split: if_splits)
  qed
  show ?thesis unfolding sizes_ok_def
  proof (intro allI impI)
    fix i assume "i < length (count_child par (toks @ [x]))"
    then consider (new) "i = length toks" | (old) "i < length toks" by fastforce
    then show "tok_size (count_child par (toks @ [x]) ! i) =
        int (card {j. j < length (count_child par (toks @ [x])) \<and> tok_parent (count_child par (toks @ [x]) ! j) = int i})"
    proof cases
      case new
      then have "{j. j < length toks \<and> tok_parent (toks ! j) = int i} = {}" using parents by fastforce
      then show ?thesis using kids [of i] new par x(2) count_child_append [OF par, of x] by (simp add: nth_append)
    next
      case old
      have "tok_size (count_child par toks ! i) = tok_size (toks ! i) + (if par = int i then 1 else 0)"
        using old par by (auto simp: count_child_def nth_list_update nat_less_iff)
      then show ?thesis using kids [of i] old sz count_child_append [OF par, of x] by (simp add: nth_append sizes_ok_def)
    qed
  qed
qed

lemma sizes_ok_close: "sizes_ok toks \<Longrightarrow> k < length toks \<Longrightarrow> sizes_ok (toks[k := (toks ! k)\<lparr>tok_end := e\<rparr>])"
proof -
  assume a: "sizes_ok toks" "k < length toks"
  have "tok_size (toks[k := (toks ! k)\<lparr>tok_end := e\<rparr>] ! j) = tok_size (toks ! j)"
    "tok_parent (toks[k := (toks ! k)\<lparr>tok_end := e\<rparr>] ! j) = tok_parent (toks ! j)" if "j < length toks" for j
    using that a(2) by (cases "j = k"; simp)+
  then show ?thesis using a(1) by (simp add: sizes_ok_def cong: conj_cong)
qed

definition parser_ok :: "string \<Rightarrow> nat \<Rightarrow> json_parser \<Rightarrow> bool" where
  "parser_ok s capacity p \<longleftrightarrow> tokens_ok (position p) (tokens p) (parent p) \<and> sizes_ok (tokens p) \<and> position p \<le> length s \<and> length (tokens p) \<le> capacity"

lemma parser_ok_append:
  assumes "parser_ok s capacity p" "length (tokens p) < capacity" "tok_parent x = parent p" "tok_type x \<noteq> JSON_UNDEFINED" "tok_size x = 0"
    and "int (position p) \<le> tok_start x" "tok_start x < int pos'" "pos' \<le> length s"
    and "if container x \<and> tok_end x = -1 then par' = int (length (tokens p))
              else par' = parent p \<and> tok_start x \<le> tok_end x \<and> tok_end x \<le> int pos'"
  shows "parser_ok s capacity \<lparr>position = pos', tokens = count_child (parent p) (tokens p @ [x]), parent = par'\<rparr>"
proof -
  have ok: "tokens_ok (position p) (tokens p) (parent p)" and sz: "sizes_ok (tokens p)" using assms(1) by (simp_all add: parser_ok_def)
  have "parent p < int (length (tokens p @ [x]))" using tokens_okD(2) [OF ok] by auto
  then show ?thesis
    using tokens_ok_append [OF ok assms(3,4,6,7,9)] sizes_ok_append [OF ok sz assms(3,5)] assms(2,8)
    by (simp add: parser_ok_def tokens_ok_count)
qed

lemma json_allocate_eq: "json_allocate capacity p = Some p' \<longleftrightarrow> length (tokens p) < capacity \<and> p' = p\<lparr>tokens := tokens p @ [fresh_token]\<rparr>"
  by (auto simp: json_allocate_def)

lemma parser_ok_string:
  assumes ok: "parser_ok s capacity p" and r: "json_parse_string s capacity p = Inr p'"
  shows "parser_ok s capacity (p'\<lparr>position := position p' + 1\<rparr>)"
proof -
  obtain i where i: "string_scan s (position p + 1) = Some i" using r by (auto simp: json_parse_string_def split: option.splits)
  have b: "position p + 1 \<le> i" "i < length s" using string_scan_ge [OF i] by simp_all
  let ?x = "fresh_token\<lparr>tok_type := JSON_STRING, tok_start := int (position p + 1), tok_end := int i, tok_parent := parent p\<rparr>"
  have p': "length (tokens p) < capacity" "p'\<lparr>position := position p' + 1\<rparr> =
      \<lparr>position = i + 1, tokens = count_child (parent p) (tokens p @ [?x]), parent = parent p\<rparr>"
    using r i by (auto simp: json_parse_string_def json_allocate_eq Let_def split: option.splits)
  show ?thesis unfolding p'(2)
    by (rule parser_ok_append [OF ok p'(1)]) (use b in \<open>simp_all add: fresh_token_def container_def\<close>)
qed

lemma parser_ok_open:
  assumes ok: "parser_ok s capacity p" and r: "parse_open s capacity v p = Inr p'" and b: "position p < length s"
  shows "parser_ok s capacity (p'\<lparr>position := position p' + 1\<rparr>)"
proof -
  let ?x = "fresh_token\<lparr>tok_type := if v = CHR ''{'' then JSON_OBJECT else JSON_ARRAY, tok_start := int (position p), tok_parent := parent p\<rparr>"
  have par: "parent p < int (length (tokens p))" using ok tokens_okD(2) by (fastforce simp: parser_ok_def)
  have p': "length (tokens p) < capacity" "p'\<lparr>position := position p' + 1\<rparr> =
      \<lparr>position = position p + 1, tokens = count_child (parent p) (tokens p @ [?x]), parent = int (length (tokens p))\<rparr>"
    using r by (auto simp: parse_open_def json_allocate_eq count_child_append [OF par] nth_append list_update_append Let_def split: option.splits)
  show ?thesis unfolding p'(2)
    by (rule parser_ok_append [OF ok p'(1)]) (use b in \<open>simp_all add: fresh_token_def container_def\<close>)
qed

lemma parser_ok_primitive:
  assumes ok: "parser_ok s capacity p" and r: "parse_primitive s capacity p = Inr p'"
  shows "parser_ok s capacity (p'\<lparr>position := position p' + 1\<rparr>)"
proof -
  define token where "token = takeWhile (\<lambda>ch. \<not> strchr token_stop ch) (drop (position p) s)"
  let ?x = "fresh_token\<lparr>tok_type := JSON_PRIMITIVE, tok_start := int (position p), tok_end := int (position p + length token), tok_parent := parent p\<rparr>"
  have b: "token \<noteq> []" using r by (auto simp: parse_primitive_def token_def Let_def split: if_splits)
  have "length token \<le> length (drop (position p) s)" unfolding token_def by (rule length_takeWhile_le)
  then have l: "position p + length token \<le> length s" using b by (cases "position p \<le> length s") auto
  have p': "length (tokens p) < capacity" "p'\<lparr>position := position p' + 1\<rparr> =
      \<lparr>position = position p + length token, tokens = count_child (parent p) (tokens p @ [?x]), parent = parent p\<rparr>"
    using r b unfolding parse_primitive_def Let_def token_def [symmetric]
    by (auto simp: json_allocate_eq Let_def split: option.splits if_splits)
  show ?thesis unfolding p'(2)
    by (rule parser_ok_append [OF ok p'(1)]) (use b l in \<open>simp_all add: fresh_token_def container_def\<close>)
qed

lemma tokens_ok_later: "tokens_ok pos toks par \<Longrightarrow> pos \<le> pos' \<Longrightarrow> tokens_ok pos' toks par"
  unfolding tokens_ok_def by (elim conjE, intro conjI) (auto split: if_splits)

lemma parser_ok_close:
  assumes ok: "parser_ok s capacity p" and r: "parse_close v p = Inr p'" and b: "position p < length s"
  shows "parser_ok s capacity (p'\<lparr>position := position p' + 1\<rparr>)"
proof -
  have t: "tokens_ok (position p) (tokens p) (parent p)" using ok by (simp add: parser_ok_def)
  obtain k where k: "parent p = int k" "k < length (tokens p)"
    using r tokens_okD(2) [OF t] by (auto simp: parse_close_def Let_def split: if_splits)
  then show ?thesis using r ok b tokens_ok_close [of "position p" "tokens p" k] sizes_ok_close [of "tokens p" k]
    by (auto simp: parse_close_def Let_def parser_ok_def split: if_splits)
qed

lemma parser_ok_step:
  assumes ok: "parser_ok s capacity p" and r: "parse_step s capacity p = Inr p'" and b: "position p < length s"
  shows "parser_ok s capacity (p'\<lparr>position := position p' + 1\<rparr>)"
proof -
  have "parser_ok s capacity (p\<lparr>position := position p + 1\<rparr>)"
    using ok b tokens_ok_later [of "position p" _ _ "position p + 1"] by (simp add: parser_ok_def)
  then show ?thesis using r parser_ok_open [OF ok _ b] parser_ok_close [OF ok _ b] parser_ok_string [OF ok] parser_ok_primitive [OF ok]
    by (auto simp: parse_step_def Let_def simp del: One_nat_def split: if_splits)
qed

lemma parser_ok_loop: "parser_ok s capacity p \<Longrightarrow> parse_loop s capacity p = Inr p' \<Longrightarrow> parser_ok s capacity p'"
proof (induction "length s - position p" arbitrary: p rule: less_induct)
  case less
  show ?case
  proof (cases "position p < length s")
    case True
    then obtain q where q: "parse_step s capacity p = Inr q" "parse_loop s capacity (q\<lparr>position := position q + 1\<rparr>) = Inr p'"
      using less.prems(2) by (subst (asm) parse_loop.simps) (auto split: sum.splits)
    moreover have "length s - position (q\<lparr>position := position q + 1\<rparr>) < length s - position p"
      using parse_step_position [OF q(1)] True by simp
    ultimately show ?thesis using less.hyps parser_ok_step [OF less.prems(1) q(1) True] by blast
  next
    case False
    then show ?thesis using less.prems by (subst (asm) parse_loop.simps) simp
  qed
qed

lemma json_parse_ok:
  assumes "json_parse s capacity = Inr toks"
  shows "tokens_ok (length s) toks (-1)" "sizes_ok toks" "0 < length toks" "length toks \<le> capacity"
proof -
  have "parser_ok s capacity \<lparr>position = 0, tokens = [], parent = -1\<rparr>"
    by (simp add: parser_ok_def tokens_ok_def parents_ok_def sizes_ok_def)
  moreover obtain p where p: "parse_loop s capacity \<lparr>position = 0, tokens = [], parent = -1\<rparr> = Inr p" "parent p = -1" "tokens p = toks" "toks \<noteq> []"
    using assms by (auto simp: json_parse_def split: sum.splits if_splits)
  ultimately have "parser_ok s capacity p" using parser_ok_loop by blast
  then show "tokens_ok (length s) toks (-1)" "sizes_ok toks" "0 < length toks" "length toks \<le> capacity"
    using p(2-4) tokens_ok_later by (auto simp: parser_ok_def)
qed

lemma tokens_ok_complete:
  assumes "tokens_ok pos toks (-1)"
  shows "j < length toks \<Longrightarrow> 0 \<le> tok_start (toks ! j) \<and> tok_start (toks ! j) \<le> tok_end (toks ! j) \<and> tok_end (toks ! j) \<le> int pos"
    and "j < length toks \<Longrightarrow> i < j \<Longrightarrow> anc toks (tok_parent (toks ! j)) i \<Longrightarrow> tok_end (toks ! j) < tok_end (toks ! i)"
    and "j < length toks \<Longrightarrow> i < j \<Longrightarrow> \<not> anc toks (tok_parent (toks ! j)) i \<Longrightarrow> tok_end (toks ! i) \<le> tok_start (toks ! j)"
proof -
  note d = tokens_okD [OF assms]
  have na: "\<not> anc toks (- 1) j" for j by (simp add: anc_minus)
  have e: "0 \<le> tok_start (toks ! j) \<and> tok_start (toks ! j) \<le> tok_end (toks ! j) \<and> tok_end (toks ! j) \<le> int pos" if "j < length toks" for j
    using d(3,5) [OF that] na by blast
  show "j < length toks \<Longrightarrow> 0 \<le> tok_start (toks ! j) \<and> tok_start (toks ! j) \<le> tok_end (toks ! j) \<and> tok_end (toks ! j) \<le> int pos"
    by (rule e)
  show "j < length toks \<Longrightarrow> i < j \<Longrightarrow> anc toks (tok_parent (toks ! j)) i \<Longrightarrow> tok_end (toks ! j) < tok_end (toks ! i)"
    using d(7) [of j i] e [of i] by auto
  show "j < length toks \<Longrightarrow> i < j \<Longrightarrow> \<not> anc toks (tok_parent (toks ! j)) i \<Longrightarrow> tok_end (toks ! i) \<le> tok_start (toks ! j)"
    using d(8) [of j i] by simp
qed

text \<open>
  C38. When \<open>json_parse\<close> accepts a text, its tokens form a forest laid out in the text: at most \<open>capacity\<close> of them, each
  with an extent inside the text, in strictly increasing order of their starts; the parent of a token is an
  earlier array or object; of two tokens the later one lies inside the extent of the earlier one when it is below it
  and starts behind its end otherwise; and the size of a token counts its direct children.
\<close>

theorem json_parse_forest:
  assumes "json_parse s capacity = Inr toks"
  shows "0 < length toks \<and> length toks \<le> capacity \<and> parents_ok toks \<and> sizes_ok toks \<and>
    (\<forall>j < length toks. 0 \<le> tok_start (toks ! j) \<and> tok_start (toks ! j) \<le> tok_end (toks ! j) \<and> tok_end (toks ! j) \<le> int (length s)) \<and>
    (\<forall>j < length toks. \<forall>i < j. tok_start (toks ! i) < tok_start (toks ! j) \<and>
       (if anc toks (tok_parent (toks ! j)) i then tok_end (toks ! j) < tok_end (toks ! i) else tok_end (toks ! i) \<le> tok_start (toks ! j)))"
proof (intro conjI allI impI)
  note ok = json_parse_ok [OF assms]
  show "0 < length toks" "length toks \<le> capacity" "parents_ok toks" "sizes_ok toks" using ok tokens_okD(1) by simp_all
  fix j assume j: "j < length toks"
  show "0 \<le> tok_start (toks ! j)" "tok_start (toks ! j) \<le> tok_end (toks ! j)" "tok_end (toks ! j) \<le> int (length s)"
    using tokens_ok_complete(1) [OF ok(1) j] by simp_all
  fix i assume i: "i < j"
  show "tok_start (toks ! i) < tok_start (toks ! j)" using tokens_okD(6) [OF ok(1) j i] .
  show "if anc toks (tok_parent (toks ! j)) i then tok_end (toks ! j) < tok_end (toks ! i) else tok_end (toks ! i) \<le> tok_start (toks ! j)"
    using tokens_ok_complete(2,3) [OF ok(1) j i] by simp
qed

theorem json_parse_forest_witness:
  "case json_parse (''{'' @ [CHR 0x22] @ ''a'' @ [CHR 0x22] @ '':[1,2]}'') 4096 of
     Inl e \<Rightarrow> False
   | Inr toks \<Rightarrow> length toks = 5 \<and> tok_size (toks ! 2) = 2 \<and> tok_end (toks ! 4) < tok_end (toks ! 2) \<and> sizes_ok toks"
proof -
  let ?s = "''{'' @ [CHR 0x22] @ ''a'' @ [CHR 0x22] @ '':[1,2]}''"
  have "case json_parse ?s 4096 of Inl e \<Rightarrow> False | Inr toks \<Rightarrow> length toks = 5 \<and> tok_size (toks ! 2) = 2 \<and> tok_parent (toks ! 4) = 2"
    by code_simp
  then obtain toks where r: "json_parse ?s 4096 = Inr toks" and t: "length toks = 5" "tok_size (toks ! 2) = 2" "tok_parent (toks ! 4) = 2"
    by (auto split: sum.splits)
  have "anc toks 2 2" using t(1) anc.here [of 2 toks] by simp
  then show ?thesis using json_parse_forest [OF r] r t by fastforce
qed

end
