(* ===== verification/JsonUtf8.thy ===== *)
theory JsonUtf8
  imports JsonString
begin

text \<open>
  The UTF-8 check against the definition of the encoding: a text is accepted exactly when it is a
  sequence of encoded Unicode scalar values, where the encoding is the one \<open>append_utf8\<close> writes.
\<close>

inductive utf8_text :: "string \<Rightarrow> bool" where
  empty: "utf8_text []"
| scalar: "unat cp \<le> 0x10ffff \<Longrightarrow> \<not> (0xd800 \<le> unat cp \<and> unat cp \<le> 0xdfff) \<Longrightarrow> utf8_encode cp = Some e \<Longrightarrow> utf8_text s \<Longrightarrow>
    utf8_text (e @ s)"

subsection \<open>The encoding in arithmetic\<close>

definition utf8_bytes :: "nat \<Rightarrow> nat list" where
  "utf8_bytes n =
     (if n < 0x80 then [n]
      else if n < 0x800 then [0xc0 + n div 64, 0x80 + n mod 64]
      else if n < 0x10000 then [0xe0 + n div 4096, 0x80 + n div 64 mod 64, 0x80 + n mod 64]
      else [0xf0 + n div 262144, 0x80 + n div 4096 mod 64, 0x80 + n div 64 mod 64, 0x80 + n mod 64])"

lemma or_tags:
  "list_all (\<lambda>n. unat (0xc0 OR word_of_nat n :: u32) = 0xc0 + n) [0..<32]"
  "list_all (\<lambda>n. unat (0xe0 OR word_of_nat n :: u32) = 0xe0 + n) [0..<16]"
  "list_all (\<lambda>n. unat (0xf0 OR word_of_nat n :: u32) = 0xf0 + n) [0..<8]"
  "list_all (\<lambda>n. unat (0x80 OR word_of_nat n :: u32) = 0x80 + n) [0..<64]"
  by code_simp+

lemma or_tag:
  "unat w < 32 \<Longrightarrow> unat (0xc0 OR w :: u32) = 0xc0 + unat w"
  "unat w < 16 \<Longrightarrow> unat (0xe0 OR w :: u32) = 0xe0 + unat w"
  "unat w < 8 \<Longrightarrow> unat (0xf0 OR w :: u32) = 0xf0 + unat w"
  "unat w < 64 \<Longrightarrow> unat (0x80 OR w :: u32) = 0x80 + unat w"
  using or_tags [unfolded list_all_iff, THEN bspec, of "unat w"] by simp_all

lemma low_six: "unat (w AND 0x3f :: u32) = unat w mod 64"
proof -
  have "w AND 0x3f = take_bit 6 w" by (simp add: take_bit_eq_mask mask_eq_exp_minus_1)
  then show ?thesis by (simp add: take_bit_eq_mod unat_mod)
qed

lemma unat_drop: "unat (drop_bit k w :: u32) = unat w div 2 ^ k"
  by (subst unat_drop_bit_eq) (rule drop_bit_eq_div)

lemma utf8_encode_bytes: "unat cp \<le> 0x10ffff \<Longrightarrow> utf8_encode cp = Some (map char_of (utf8_bytes (unat cp)))"
  by (auto simp: utf8_encode_def utf8_bytes_def Let_def word_le_nat_alt or_tag low_six unat_drop less_mult_imp_div_less)

lemma utf8_encode_none: "\<not> unat cp \<le> 0x10ffff \<Longrightarrow> utf8_encode cp = None"
  by (auto simp: utf8_encode_def Let_def word_le_nat_alt)

subsection \<open>The check in arithmetic\<close>

definition continues :: "char \<Rightarrow> bool" where
  "continues ch \<longleftrightarrow> (128 :: nat) \<le> of_char ch \<and> of_char ch < (192 :: nat)"

lemma byte_masks:
  "list_all (\<lambda>n. ((word_of_nat n :: u32) AND 0xc0 = 0x80) = (128 \<le> n \<and> n < 192)) [0..<256]"
  "list_all (\<lambda>n. (0xc0 \<le> n \<and> n < 0xe0 \<longrightarrow> (word_of_nat n :: u32) AND 0x1f = word_of_nat (n - 0xc0)) \<and>
     (0xe0 \<le> n \<and> n < 0xf0 \<longrightarrow> (word_of_nat n :: u32) AND 0x0f = word_of_nat (n - 0xe0)) \<and>
     (0xf0 \<le> n \<and> n < 0xf8 \<longrightarrow> (word_of_nat n :: u32) AND 0x07 = word_of_nat (n - 0xf0)) \<and>
     (128 \<le> n \<and> n < 192 \<longrightarrow> (word_of_nat n :: u32) AND 0x3f = word_of_nat (n - 128))) [0..<256]"
  by code_simp+

lemma in_bytes: "of_char ch \<in> set [0..<256 :: nat]"
  using nat_of_char_less_256 [of ch] by simp

lemma continues_mask: "((of_char ch :: u32) AND 0xc0 = 0x80) = continues ch"
  using byte_masks(1) [unfolded list_all_iff, THEN bspec, OF in_bytes [of ch]] by (simp add: continues_def of_char_word)

lemma lead_mask:
  "0xc0 \<le> (of_char ch :: nat) \<Longrightarrow> of_char ch < (0xe0 :: nat) \<Longrightarrow> (of_char ch :: u32) AND 0x1f = word_of_nat (of_char ch - 0xc0)"
  "0xe0 \<le> (of_char ch :: nat) \<Longrightarrow> of_char ch < (0xf0 :: nat) \<Longrightarrow> (of_char ch :: u32) AND 0x0f = word_of_nat (of_char ch - 0xe0)"
  "0xf0 \<le> (of_char ch :: nat) \<Longrightarrow> of_char ch < (0xf8 :: nat) \<Longrightarrow> (of_char ch :: u32) AND 0x07 = word_of_nat (of_char ch - 0xf0)"
  "continues ch \<Longrightarrow> (of_char ch :: u32) AND 0x3f = word_of_nat (of_char ch - 128)"
  using byte_masks(2) [unfolded list_all_iff, THEN bspec, OF in_bytes [of ch]] by (simp_all add: continues_def of_char_word)

lemma append_six:
  assumes "y < 64"
  shows "push_bit 6 (word_of_nat m) OR word_of_nat y = (word_of_nat (m * 64 + y) :: u32)"
proof -
  have "take_bit 6 y = y" using assms by (simp add: take_bit_nat_eq_self)
  then have y: "(word_of_nat y :: u32) = take_bit 6 (word_of_nat y)" by (metis of_nat_take_bit)
  have "push_bit 6 (word_of_nat m) AND (word_of_nat y :: u32) = 0"
    by (subst y, rule bit_eqI) (auto simp: bit_simps)
  then have "push_bit 6 (word_of_nat m) OR (word_of_nat y :: u32) = push_bit 6 (word_of_nat m) + word_of_nat y"
    by (simp add: disjunctive_add_eq_or)
  then show ?thesis by (simp add: push_bit_eq_mult mult.commute)
qed

lemma unat_u32_small: "n < 0x80000000 \<Longrightarrow> unat (word_of_nat n :: u32) = n"
  by (simp add: unat_of_nat take_bit_nat_eq_self)

lemma unat_of_char: "unat (of_char ch :: u32) = of_char ch"
  unfolding of_char_word by (rule unat_u32_small, rule less_trans [OF nat_of_char_less_256]) simp

lemmas word_nat = word_less_nat_alt word_le_nat_alt unat_of_char

lemma append_continuation:
  "continues ch \<Longrightarrow> push_bit 6 (word_of_nat m) OR ((of_char ch :: u32) AND 0x3f) = word_of_nat (m * 64 + (of_char ch - 128))"
  by (simp only: lead_mask(4)) (rule append_six, simp only: continues_def, arith)

definition second :: "char \<Rightarrow> nat \<Rightarrow> nat" where
  "second ch m = m * 64 + (of_char ch - 128)"

lemma utf8_continue_step:
  "utf8_continue (Suc need) (word_of_nat m) (ch # s) = (if continues ch then utf8_continue need (word_of_nat (second ch m)) s else None)"
  by (simp add: continues_mask append_continuation second_def del: push_bit_numeral push_bit_Suc of_nat_add of_nat_mult)

definition utf8_shortest :: "nat \<Rightarrow> nat \<Rightarrow> bool" where
  "utf8_shortest n cp \<longleftrightarrow> (0xe0 \<le> n \<longrightarrow> 0x800 \<le> cp) \<and> (0xf0 \<le> n \<longrightarrow> 0x10000 \<le> cp) \<and> \<not> (0xd800 \<le> cp \<and> cp \<le> 0xdfff) \<and> cp \<le> 0x10ffff"

lemma second_less: "continues b \<Longrightarrow> m < k \<Longrightarrow> second b m < 64 * k"
  unfolding second_def continues_def by linarith

lemma rejects_nat:
  assumes "cp < 0x80000000" "0x80 \<le> cp \<or> 0xe0 \<le> (of_char a :: nat)"
  shows "utf8_rejects (of_char a) (word_of_nat cp) = (\<not> utf8_shortest (of_char a) cp)"
  using unat_u32_small [OF assms(1)] assms(2)
  by (auto simp: utf8_rejects_def utf8_shortest_def word_nat)

lemma utf8_valid_two:
  assumes "0xc2 \<le> (of_char a :: nat)" "of_char a \<le> (0xdf :: nat)"
  shows "utf8_valid (a # b # r) = (continues b \<and> utf8_valid r)"
proof -
  have "utf8_lead (of_char a) = Some (word_of_nat (of_char a - 0xc0), 1)"
    using assms lead_mask(1) [of a] by (simp add: utf8_lead_def word_nat)
  moreover have "\<not> (of_char a :: u32) < 0x80" using assms by (simp add: word_nat)
  moreover have "\<not> utf8_rejects (of_char a) (word_of_nat (second b (of_char a - 0xc0)))" if "continues b"
  proof -
    have "second b (of_char a - 0xc0) < 0x800" "0x80 \<le> second b (of_char a - 0xc0)"
      using assms second_less [OF that, of "of_char a - 0xc0" 32] by (simp_all add: second_def)
    then show ?thesis using assms by (subst rejects_nat) (simp_all add: utf8_shortest_def)
  qed
  ultimately show ?thesis by (simp add: utf8_continue_step Let_def del: of_nat_diff utf8_continue.simps(2))
qed

lemma utf8_valid_three:
  assumes "0xe0 \<le> (of_char a :: nat)" "of_char a \<le> (0xef :: nat)"
  shows "utf8_valid (a # b # c # r) =
    (continues b \<and> continues c \<and> utf8_shortest (of_char a) (second c (second b (of_char a - 0xe0))) \<and> utf8_valid r)"
proof -
  have "utf8_lead (of_char a) = Some (word_of_nat (of_char a - 0xe0), 2)"
    using assms lead_mask(2) [of a] by (simp add: utf8_lead_def word_nat)
  moreover have "\<not> (of_char a :: u32) < 0x80" using assms by (simp add: word_nat)
  moreover have "utf8_rejects (of_char a) (word_of_nat (second c (second b (of_char a - 0xe0)))) =
      (\<not> utf8_shortest (of_char a) (second c (second b (of_char a - 0xe0))))" if "continues b" "continues c"
  proof (rule rejects_nat)
    have "of_char a - 0xe0 < (16 :: nat)" using assms by simp
    from second_less [OF that(2) second_less [OF that(1) this]]
    show "second c (second b (of_char a - 0xe0)) < 0x80000000" by simp
  qed (use assms in simp)
  ultimately show ?thesis by (simp add: utf8_continue_step Let_def numeral_2_eq_2 del: of_nat_diff utf8_continue.simps(2))
qed

lemma utf8_valid_four:
  assumes "0xf0 \<le> (of_char a :: nat)" "of_char a \<le> (0xf4 :: nat)"
  shows "utf8_valid (a # b # c # d # r) =
    (continues b \<and> continues c \<and> continues d \<and>
     utf8_shortest (of_char a) (second d (second c (second b (of_char a - 0xf0)))) \<and> utf8_valid r)"
proof -
  have "utf8_lead (of_char a) = Some (word_of_nat (of_char a - 0xf0), 3)"
    using assms lead_mask(3) [of a] by (simp add: utf8_lead_def word_nat)
  moreover have "\<not> (of_char a :: u32) < 0x80" using assms by (simp add: word_nat)
  moreover have "utf8_rejects (of_char a) (word_of_nat (second d (second c (second b (of_char a - 0xf0))))) =
      (\<not> utf8_shortest (of_char a) (second d (second c (second b (of_char a - 0xf0)))))" if "continues b" "continues c" "continues d"
  proof (rule rejects_nat)
    have "of_char a - 0xf0 < (8 :: nat)" using assms by simp
    from second_less [OF that(3) second_less [OF that(2) second_less [OF that(1) this]]]
    show "second d (second c (second b (of_char a - 0xf0))) < 0x80000000" by simp
  qed (use assms in simp)
  ultimately show ?thesis by (simp add: utf8_continue_step Let_def numeral_3_eq_3 del: of_nat_diff utf8_continue.simps(2))
qed

lemma utf8_valid_one: "of_char a < (0x80 :: nat) \<Longrightarrow> utf8_valid (a # r) = utf8_valid r"
  by (simp add: word_nat Let_def)

lemma utf8_lead_need:
  assumes "utf8_valid (a # s)" "\<not> of_char a < (0x80 :: nat)"
  obtains (two) "0xc2 \<le> (of_char a :: nat)" "of_char a \<le> (0xdf :: nat)" "0 < length s"
  | (three) "0xe0 \<le> (of_char a :: nat)" "of_char a \<le> (0xef :: nat)" "2 \<le> length s"
  | (four) "0xf0 \<le> (of_char a :: nat)" "of_char a \<le> (0xf4 :: nat)" "3 \<le> length s"
  using assms by (auto simp: Let_def word_nat utf8_lead_def split: if_splits option.splits)

subsection \<open>Accepted texts\<close>

lemma utf8_text_bytes:
  "n \<le> 0x10ffff \<Longrightarrow> \<not> (0xd800 \<le> n \<and> n \<le> 0xdfff) \<Longrightarrow> utf8_text s \<Longrightarrow> utf8_text (map char_of (utf8_bytes n) @ s)"
  using utf8_text.scalar [of "word_of_nat n"] utf8_encode_bytes [of "word_of_nat n"] unat_u32_small [of n] by simp

lemma second_div_mod:
  assumes "continues b"
  shows "second b m div 64 = m" "second b m mod 64 = of_char b - 128"
proof -
  have "of_char b - 128 < (64 :: nat)" using assms unfolding continues_def by arith
  then show "second b m div 64 = m" "second b m mod 64 = of_char b - 128" by (simp_all add: second_def del: add_diff_assoc)
qed

lemma continues_char: "continues b \<Longrightarrow> char_of (128 + (of_char b - 128) :: nat) = b"
  by (simp add: continues_def)

lemma bytes_two:
  assumes "0xc2 \<le> (of_char a :: nat)" "of_char a \<le> (0xdf :: nat)" "continues b"
  shows "map char_of (utf8_bytes (second b (of_char a - 0xc0))) = [a, b]"
proof -
  have "second b (of_char a - 0xc0) < 0x800" "\<not> second b (of_char a - 0xc0) < 0x80"
    using assms second_less [OF assms(3), of "of_char a - 0xc0" 32] by (simp_all add: second_def)
  then show ?thesis using assms by (simp add: utf8_bytes_def second_div_mod continues_char)
qed

lemma bytes_three:
  assumes "0xe0 \<le> (of_char a :: nat)" "of_char a \<le> (0xef :: nat)" "continues b" "continues c"
    and "cp = second c (second b (of_char a - 0xe0))" "0x800 \<le> cp"
  shows "map char_of (utf8_bytes cp) = [a, b, c]"
proof -
  have "cp < 0x10000"
    using assms(1,2,5) second_less [OF assms(4) second_less [OF assms(3)], of "of_char a - 0xe0" 16] by simp
  moreover have "cp div 4096 = of_char a - 0xe0" "cp div 64 = second b (of_char a - 0xe0)"
    using div_mult2_eq [of cp 64 64] assms(3-5) by (simp_all add: second_div_mod)
  ultimately show ?thesis using assms by (simp add: utf8_bytes_def second_div_mod continues_char)
qed

lemma bytes_four:
  assumes "0xf0 \<le> (of_char a :: nat)" "of_char a \<le> (0xf4 :: nat)" "continues b" "continues c" "continues d"
    and "cp = second d (second c (second b (of_char a - 0xf0)))" "0x10000 \<le> cp"
  shows "map char_of (utf8_bytes cp) = [a, b, c, d]"
proof -
  have "cp div 64 = second c (second b (of_char a - 0xf0))" "cp div 4096 = second b (of_char a - 0xf0)"
    "cp div 262144 = of_char a - 0xf0"
    using div_mult2_eq [of cp 64 64] div_mult2_eq [of cp 64 4096] div_mult2_eq [of "cp div 64" 64 64] assms(3-6)
    by (simp_all add: second_div_mod)
  then show ?thesis using assms by (simp add: utf8_bytes_def second_div_mod continues_char)
qed

lemma utf8_valid_text: "utf8_valid s \<Longrightarrow> utf8_text s"
proof (induction s rule: length_induct)
  case (1 s)
  show ?case
  proof (cases s)
    case (Cons a t)
    show ?thesis
    proof (cases "of_char a < (0x80 :: nat)")
      case True
      then have "utf8_text t" using 1 Cons by (simp add: utf8_valid_one del: utf8_valid.simps)
      then show ?thesis using True utf8_text_bytes [of "of_char a" t] Cons by (simp add: utf8_bytes_def)
    next
      case False
      have v: "utf8_valid (a # t)" using 1 Cons by simp
      from v False show ?thesis
      proof (cases rule: utf8_lead_need)
        case two
        then obtain b r where t: "t = b # r" by (cases t) auto
        then have "continues b" "utf8_valid r" using v two by (simp_all add: utf8_valid_two del: utf8_valid.simps)
        moreover have "utf8_text r" using 1 Cons t calculation by simp
        moreover have "second b (of_char a - 0xc0) < 0x800" using two second_less [OF calculation(1), of "of_char a - 0xc0" 32] by simp
        ultimately show ?thesis using utf8_text_bytes [of "second b (of_char a - 0xc0)" r] bytes_two [OF two(1,2)] Cons t by simp
      next
        case three
        then obtain b c r where t: "t = b # c # r" by (cases t; cases "tl t") auto
        then have c: "continues b" "continues c" "utf8_shortest (of_char a) (second c (second b (of_char a - 0xe0)))" "utf8_valid r"
          using v three by (simp_all add: utf8_valid_three del: utf8_valid.simps)
        moreover have "utf8_text r" using 1 Cons t c by simp
        ultimately show ?thesis
          using utf8_text_bytes [of "second c (second b (of_char a - 0xe0))" r] bytes_three [OF three(1,2) c(1,2) refl] three Cons t
          by (simp add: utf8_shortest_def)
      next
        case four
        then obtain b c d r where t: "t = b # c # d # r" by (cases t; cases "tl t"; cases "tl (tl t)") auto
        then have c: "continues b" "continues c" "continues d"
            "utf8_shortest (of_char a) (second d (second c (second b (of_char a - 0xf0))))" "utf8_valid r"
          using v four by (simp_all add: utf8_valid_four del: utf8_valid.simps)
        moreover have "utf8_text r" using 1 Cons t c by simp
        ultimately show ?thesis
          using utf8_text_bytes [of "second d (second c (second b (of_char a - 0xf0)))" r] bytes_four [OF four(1,2) c(1-3) refl] four Cons t
          by (simp add: utf8_shortest_def)
      qed
    qed
  qed (simp add: utf8_text.empty)
qed

lemma continues_of: "k < 64 \<Longrightarrow> continues (char_of (128 + k :: nat))" "k < 64 \<Longrightarrow> of_char (char_of (128 + k :: nat)) = 128 + k"
  by (simp_all add: continues_def)

lemma second_of: "k < 64 \<Longrightarrow> second (char_of (128 + k :: nat)) m = m * 64 + k"
  by (simp add: second_def continues_of)

lemma utf8_valid_bytes:
  assumes "n \<le> 0x10ffff" "\<not> (0xd800 \<le> n \<and> n \<le> 0xdfff)" "utf8_valid s"
  shows "utf8_valid (map char_of (utf8_bytes n) @ s)"
proof -
  have six: "n mod 64 < 64" "n div 64 mod 64 < 64" "n div 4096 mod 64 < 64" by simp_all
  have split: "n div 64 * 64 + n mod 64 = n" "n div 4096 * 64 + n div 64 mod 64 = n div 64" "n div 262144 * 64 + n div 4096 mod 64 = n div 4096"
    using div_mult_mod_eq [of n 64] div_mult_mod_eq [of "n div 64" 64] div_mult_mod_eq [of "n div 4096" 64] by (simp_all add: div_mult2_eq [symmetric])
  consider (one) "n < 0x80" | (two) "0x80 \<le> n" "n < 0x800" | (three) "0x800 \<le> n" "n < 0x10000" | (four) "0x10000 \<le> n" by linarith
  then show ?thesis
  proof cases
    case one
    then show ?thesis using assms(3) by (simp add: utf8_bytes_def utf8_valid_one del: utf8_valid.simps)
  next
    case two
    define k where "k = 0xc0 + n div 64"
    have k: "of_char (char_of k) = k" "0xc2 \<le> k" "k \<le> 0xdf" using two by (simp_all add: k_def)
    have "utf8_bytes n = [k, 128 + n mod 64]" using two by (simp add: utf8_bytes_def k_def)
    then show ?thesis using assms(3) k six by (simp add: utf8_valid_two continues_of del: utf8_valid.simps)
  next
    case three
    define k where "k = 0xe0 + n div 4096"
    have k: "of_char (char_of k) = k" "0xe0 \<le> k" "k \<le> 0xef" using three by (simp_all add: k_def)
    have "utf8_bytes n = [k, 128 + n div 64 mod 64, 128 + n mod 64]" using three by (simp add: utf8_bytes_def k_def)
    moreover have "utf8_shortest k n" using three assms(2) k(3) by (simp add: utf8_shortest_def)
    ultimately show ?thesis
      using assms(3) k six split by (simp add: utf8_valid_three continues_of second_of k_def del: utf8_valid.simps)
  next
    case four
    define k where "k = 0xf0 + n div 262144"
    have k: "of_char (char_of k) = k" "0xf0 \<le> k" "k \<le> 0xf4" using assms(1) by (simp_all add: k_def)
    have "utf8_bytes n = [k, 128 + n div 4096 mod 64, 128 + n div 64 mod 64, 128 + n mod 64]" using four by (simp add: utf8_bytes_def k_def)
    moreover have "utf8_shortest k n" using four assms(1) by (simp add: utf8_shortest_def)
    ultimately show ?thesis
      using assms(3) k six split by (simp add: utf8_valid_four continues_of second_of k_def del: utf8_valid.simps)
  qed
qed

lemma utf8_valid_iff: "utf8_valid s \<longleftrightarrow> utf8_text s"
proof
  assume "utf8_text s"
  then show "utf8_valid s"
  proof induction
    case (scalar cp e s)
    then show ?case using utf8_encode_bytes [of cp] utf8_valid_bytes [of "unat cp" s] by simp
  qed simp
qed (rule utf8_valid_text)

text \<open>
  C39. \<open>utf8_valid\<close> accepts exactly the UTF-8 texts: the concatenations of the shortest encodings of Unicode scalar
  values, so no overlong form, no surrogate, no value above 10FFFF and no truncated sequence passes.  The encodings
  are those \<open>append_utf8\<close> writes, so decoded escapes never leave the accepted texts.
\<close>

theorem utf8_valid_exact: "utf8_valid s \<longleftrightarrow> utf8_text s"
  by (rule utf8_valid_iff)

end
