(* ===== verification/JsonNumber.thy ===== *)
theory JsonNumber
  imports JsonString
begin

text \<open>Unsigned 64-bit numbers in strings: \<open>json_u64\<close> reads exactly the canonical decimal texts.\<close>

lemma is_digit_range:
  assumes "is_digit ch"
  shows "digit_value ch < 10" "unat (of_char ch - 48 :: u64) = digit_value ch" "ch = dec_digit (digit_value ch)"
proof -
  define n where "n = (of_char ch :: nat)"
  have ch: "ch = char_of n" by (simp add: n_def)
  have "n \<in> set [48..<58]" using assms unfolding is_digit_def n_def set_upt atLeastLessThan_iff by arith
  moreover have "list_all (\<lambda>n. digit_value (char_of n) < 10 \<and> unat (of_char (char_of n :: char) - 48 :: u64) = digit_value (char_of n) \<and>
     char_of n = dec_digit (digit_value (char_of n))) [48..<58]" by code_simp
  ultimately show "digit_value ch < 10" "unat (of_char ch - 48 :: u64) = digit_value ch" "ch = dec_digit (digit_value ch)"
    unfolding ch list_all_iff by blast+
qed

lemma dec_digit_is_digit: "d < 10 \<Longrightarrow> is_digit (dec_digit d) \<and> dec_digit d \<noteq> CHR 0x00 \<and> (dec_digit d = CHR ''0'' \<longrightarrow> d = 0)"
proof -
  assume "d < 10"
  then have "d \<in> set [0..<10]" by simp
  moreover have "list_all (\<lambda>d. is_digit (dec_digit d) \<and> dec_digit d \<noteq> CHR 0x00 \<and> (dec_digit d = CHR ''0'' \<longrightarrow> d = 0)) [0..<10]" by code_simp
  ultimately show ?thesis unfolding list_all_iff by blast
qed

definition read_on :: "string \<Rightarrow> nat \<Rightarrow> nat" where
  "read_on s n = fold (\<lambda>ch n. 10 * n + digit_value ch) s n"

lemma read_on_simps [simp]: "read_on [] n = n" "read_on (ch # s) n = read_on s (10 * n + digit_value ch)"
  by (simp_all add: read_on_def)

lemma read_on_ge: "n \<le> read_on s n"
proof (induction s arbitrary: n)
  case (Cons ch s)
  have "n \<le> 10 * n + digit_value ch" by simp
  also have "\<dots> \<le> read_on (ch # s) n" using Cons by simp
  finally show ?case .
qed simp

lemma unat_u64: "unat (w :: u64) < 2 ^ 64" "unat (- 1 :: u64) = 2 ^ 64 - 1"
  using unsigned_less [of w] by (simp_all add: unsigned_minus_1_eq_mask mask_eq_exp_minus_1)

lemma u64_guard:
  assumes "unat (d :: u64) < 10"
  shows "n > (- 1 - d) div 10 \<longleftrightarrow> 2 ^ 64 \<le> 10 * unat n + unat d"
    and "10 * unat n + unat d < 2 ^ 64 \<Longrightarrow> unat (n * 10 + d) = 10 * unat n + unat d"
proof -
  have "unat (- 1 - d) = 2 ^ 64 - 1 - unat d" by (subst unat_sub) (simp_all add: unat_u64(2))
  then have "unat ((- 1 - d) div 10) = (2 ^ 64 - 1 - unat d) div 10" by (simp add: unat_div)
  then show "n > (- 1 - d) div 10 \<longleftrightarrow> 2 ^ 64 \<le> 10 * unat n + unat d" using assms unfolding word_less_nat_alt by (simp add: div_less_iff_less_mult) linarith
  assume "10 * unat n + unat d < 2 ^ 64"
  then show "unat (n * 10 + d) = 10 * unat n + unat d"
    by (simp add: unat_word_ariths)
qed

lemma u64_digits_value:
  "CHR 0x00 \<notin> set s \<Longrightarrow>
   u64_digits s n = (if list_all is_digit s \<and> read_on s (unat n) < 2 ^ 64 then Some (word_of_nat (read_on s (unat n))) else None)"
proof (induction s arbitrary: n)
  case (Cons ch s)
  have ch: "ch \<noteq> CHR 0x00" using Cons.prems by auto
  show ?case
  proof (cases "is_digit ch")
    case True
    note d = is_digit_range [OF True]
    show ?thesis
    proof (cases "10 * unat n + digit_value ch < 2 ^ 64")
      case fits: True
      then show ?thesis using Cons True ch d u64_guard [of "of_char ch - 48" n] by (simp add: Let_def mult.commute)
    next
      case False
      have "10 * unat n + digit_value ch \<le> read_on s (10 * unat n + digit_value ch)" by (rule read_on_ge)
      then show ?thesis using False True ch d u64_guard(1) [of "of_char ch - 48" n] by (simp add: Let_def)
    qed
  qed (use ch in simp)
qed (use unat_u64(1) in simp)

lemma read_on_base: "read_on s 0 = read_base 10 s"
  by (simp add: read_on_def read_base_def)

lemma dec_digits_digits: "list_all is_digit (dec_digits n) \<and> CHR 0x00 \<notin> set (dec_digits n) \<and> dec_digits n \<noteq> []"
proof (induction n rule: dec_digits.induct)
  case (1 n)
  then show ?case using dec_digit_is_digit [of "n mod 10"] dec_digit_is_digit [of n] by (subst (1 2 3) dec_digits.simps) auto
qed

lemma dec_digits_lead: "0 < n \<Longrightarrow> hd (dec_digits n) \<noteq> CHR ''0''"
proof (induction n rule: dec_digits.induct)
  case (1 n)
  then show ?case using dec_digit_is_digit [of n] dec_digits_digits [of "n div 10"] by (subst dec_digits.simps) auto
qed

lemma dec_digits_read:
  "list_all is_digit s \<Longrightarrow> s \<noteq> [] \<Longrightarrow> hd s \<noteq> CHR ''0'' \<Longrightarrow> 0 < read_base 10 s \<and> dec_digits (read_base 10 s) = s"
proof (induction s rule: rev_induct)
  case (snoc ch s)
  have ch: "is_digit ch" using snoc.prems by simp
  note d = is_digit_range [OF ch]
  show ?case
  proof (cases "s = []")
    case True
    have "digit_value ch \<noteq> 0"
    proof
      assume "digit_value ch = 0"
      then have "ch = dec_digit 0" using d(3) by simp
      then show False using snoc.prems True by (simp add: dec_digit_def)
    qed
    then show ?thesis using True d by (subst dec_digits.simps) (simp add: read_base_def)
  next
    case False
    then have "0 < read_base 10 s" "dec_digits (read_base 10 s) = s" using snoc by simp_all
    then show ?thesis using d by (subst dec_digits.simps) simp
  qed
qed simp

text \<open>
  A text without NUL is read as an unsigned 64-bit number exactly when it is the canonical decimal text of that number:
  leading zeros, signs, blanks, an empty text and every value above 18446744073709551615 are refused, and
  no value is read with wrap-around.
\<close>

theorem u64_text_canonical:
  assumes "CHR 0x00 \<notin> set s"
  shows "u64_text s = Some w \<longleftrightarrow> s = dec_digits (unat w)"
proof
  assume u: "u64_text s = Some w"
  then have ne: "s \<noteq> []" by (auto simp: u64_text_def text_at_def)
  have v: "list_all is_digit s" "read_base 10 s < 2 ^ 64" "w = word_of_nat (read_base 10 s)"
    using u u64_digits_value [OF assms, of 0] by (auto simp: u64_text_def read_on_base split: if_splits)
  have w: "unat w = read_base 10 s" using v by (simp add: unat_of_nat take_bit_nat_eq_self)
  show "s = dec_digits (unat w)"
  proof (cases "hd s = CHR ''0''")
    case True
    then have "s = ''0''" using u ne assms by (cases s; cases "tl s") (auto simp: u64_text_def text_at_def split: if_splits)
    then show ?thesis by (subst w) (simp add: dec_digits.simps read_base_def digit_value_def dec_digit_def)
  next
    case False
    then show ?thesis using dec_digits_read [OF v(1) ne False] w by simp
  qed
next
  assume s: "s = dec_digits (unat w)"
  have g: "\<not> (text_at s 0 = CHR 0x00 \<or> text_at s 0 = CHR ''0'' \<and> text_at s 1 \<noteq> CHR 0x00)"
  proof (cases "unat w")
    case 0
    then show ?thesis using s by (simp add: dec_digits.simps dec_digit_def text_at_def)
  next
    case (Suc k)
    then have "hd s \<noteq> CHR ''0''" "s \<noteq> []" using s dec_digits_lead [of "unat w"] dec_digits_digits by auto
    then show ?thesis using assms by (cases s) (auto simp: text_at_def)
  qed
  show "u64_text s = Some w" using g unat_u64(1) [of w] u64_digits_value [OF assms, of 0] dec_digits_digits [of "unat w"] s
    by (simp add: u64_text_def read_on_base read_dec_digits)
qed

theorem u64_text_canonical_witness:
  "u64_text ''18446744073709551615'' = Some (- 1) \<and> u64_text ''007'' \<noteq> Some 7"
proof
  have d: "dec_digits 18446744073709551615 = ''18446744073709551615''" by (simp add: dec_digits.simps dec_digit_def)
  show "u64_text ''18446744073709551615'' = Some (- 1)"
    using u64_text_canonical [of "''18446744073709551615''" "- 1"] d unfolding unat_u64(2) by simp
  show "u64_text ''007'' \<noteq> Some 7"
    using u64_text_canonical [of "''007''" 7] by (simp add: dec_digits.simps)
qed

end
