(* ===== verification/JsonDocument.thy ===== *)
theory JsonDocument
  imports JsonTokens JsonUtf8 JsonNumber
begin

text \<open>
  Walking the tokens of a document and the document parser of \<^verbatim>\<open>emu_json_internal.c\<close>.  A failing
  \<open>malloc\<close> is an argument: \<open>malloc_ok n\<close> says whether a request for \<open>n\<close> bytes succeeds.  The loop that
  follows the parents of a token could run forever on a cyclic chain, so it is partial; the outer
  option of the document parser is \<open>None\<close> only when it does not return.
\<close>

subsection \<open>Walking tokens\<close>

function next_loop :: "json_document \<Rightarrow> int \<Rightarrow> int \<Rightarrow> int" where
  "next_loop d e n = (if n < doc_count d \<and> tok_start (doc_tokens d ! nat n) < e then next_loop d e (n + 1) else n)"
  by auto
termination by (relation "measure (\<lambda>(d, e, n). nat (doc_count d - n))") auto

declare next_loop.simps [simp del]

definition json_next :: "json_document \<Rightarrow> int \<Rightarrow> int" where
  "json_next d t = next_loop d (tok_end (doc_tokens d ! nat t)) (t + 1)"

definition raw_text :: "json_document \<Rightarrow> int \<Rightarrow> string" where
  "raw_text d t =
     (let tok = doc_tokens d ! nat t
      in take (nat (tok_end tok - tok_start tok)) (drop (nat (tok_start tok)) (doc_text d)))"

definition token_raw_equals :: "json_document \<Rightarrow> int \<Rightarrow> string \<Rightarrow> bool" where
  "token_raw_equals d t s \<longleftrightarrow>
     (let tok = doc_tokens d ! nat t
      in tok_type tok = JSON_STRING \<and> int (length s) = tok_end tok - tok_start tok \<and> raw_text d t = s)"

text \<open>C's \<open>strtoll\<close> with base 10: the value, the rest of the text and whether the range was exceeded.\<close>

definition is_space :: "char \<Rightarrow> bool" where
  "is_space ch \<longleftrightarrow> ch = CHR 0x20 \<or> (9 :: nat) \<le> of_char ch \<and> of_char ch \<le> (13 :: nat)"

definition strtoll :: "string \<Rightarrow> int \<times> string \<times> bool" where
  "strtoll s =
     (let t = dropWhile is_space s;
          neg = (case t of ch # _ \<Rightarrow> ch = CHR ''-'' | [] \<Rightarrow> False);
          u = (case t of ch # u \<Rightarrow> if ch = CHR ''-'' \<or> ch = CHR ''+'' then u else t | [] \<Rightarrow> t);
          ds = takeWhile is_digit u;
          rest = dropWhile is_digit u;
          v = (if neg then - int (read_base 10 ds) else int (read_base 10 ds))
      in if ds = [] then (0, s, False)
         else if v < - (2 ^ 63) then (- (2 ^ 63), rest, True)
         else if v \<ge> 2 ^ 63 then (2 ^ 63 - 1, rest, True)
         else (v, rest, False))"

definition json_integer :: "json_document \<Rightarrow> int \<Rightarrow> int \<Rightarrow> nat \<Rightarrow> int option" where
  "json_integer d t minimum maximum =
     (if t < 0 \<or> t \<ge> doc_count d then None
      else
        let tok = doc_tokens d ! nat t; len = nat (tok_end tok - tok_start tok); raw = raw_text d t
        in if tok_type tok \<noteq> JSON_PRIMITIVE \<or> len = 0 \<or> len \<ge> 32 \<or> CHR ''.'' \<in> set raw \<or> CHR ''e'' \<in> set raw \<or> CHR ''E'' \<in> set raw
           then None
           else case strtoll (takeWhile (\<lambda>ch. ch \<noteq> CHR 0x00) raw) of
                  (v, rest, overflow) \<Rightarrow>
                    if overflow \<or> rest \<noteq> [] \<or> v < minimum \<or> v \<ge> 0 \<and> nat v > maximum then None else Some v)"

lemma next_loop_ge: "n \<le> next_loop d e n"
proof (induction d e n rule: next_loop.induct)
  case (1 d e n)
  then show ?case by (subst next_loop.simps) auto
qed

lemma json_next_ge: "t < json_next d t"
  using next_loop_ge [of "t + 1" d] unfolding json_next_def by (metis less_add_one less_le_trans)

function member_loop :: "(nat \<Rightarrow> bool) \<Rightarrow> json_document \<Rightarrow> int \<Rightarrow> string \<Rightarrow> int \<Rightarrow> int \<Rightarrow> int" where
  "member_loop malloc_ok d object_end name cursor found =
     (if cursor < doc_count d \<and> tok_start (doc_tokens d ! nat cursor) < object_end then
        let key = doc_tokens d ! nat cursor; val = cursor + 1
        in if tok_type key \<noteq> JSON_STRING \<or> val \<ge> doc_count d \<or> tok_start (doc_tokens d ! nat val) \<ge> object_end then -2
           else
             let capacity = nat (tok_end key - tok_start key) + 1
             in if \<not> malloc_ok capacity then -2
                else case json_string_decode d cursor capacity True of
                       None \<Rightarrow> -2
                     | Some decoded \<Rightarrow>
                         if decoded = name then
                           if found \<ge> 0 then -2 else member_loop malloc_ok d object_end name (json_next d val) val
                         else member_loop malloc_ok d object_end name (json_next d val) found
      else found)"
  by auto
termination
proof (relation "measure (\<lambda>(m, d, e, name, cursor, found). nat (doc_count d - cursor))", goal_cases)
  case (2 m d e name cursor found)
  then show ?case using json_next_ge [of "cursor + 1" d] by auto
next
  case (3 m d e name cursor found)
  then show ?case using json_next_ge [of "cursor + 1" d] by auto
qed simp

declare member_loop.simps [simp del]

definition json_member :: "(nat \<Rightarrow> bool) \<Rightarrow> json_document \<Rightarrow> int \<Rightarrow> string \<Rightarrow> int" where
  "json_member malloc_ok d object name =
     (if object < 0 \<or> object \<ge> doc_count d then -1
      else if tok_type (doc_tokens d ! nat object) \<noteq> JSON_OBJECT then -1
      else member_loop malloc_ok d (tok_end (doc_tokens d ! nat object)) name (object + 1) (-1))"

subsection \<open>Output\<close>

text \<open>\<open>output_format\<close> on the text \<open>vsnprintf\<close> produces; what it writes without advancing the length is dead.\<close>

definition output_format :: "string \<Rightarrow> json_output \<Rightarrow> json_output" where
  "output_format formatted out =
     (if out_failed out then out
      else if length formatted > 65536 - length (out_data out) then out\<lparr>out_failed := True\<rparr>
      else out\<lparr>out_data := out_data out @ formatted\<rparr>)"

fun compact_loop :: "string \<Rightarrow> bool \<Rightarrow> bool \<Rightarrow> json_output \<Rightarrow> json_output" where
  "compact_loop [] in_string esc out = out"
| "compact_loop (ch # s) in_string esc out =
     (let out = (if in_string \<or> \<not> strchr json_blank ch then output_raw (if ch = CHR 0x00 then [] else [ch]) out else out)
      in if in_string \<and> esc then compact_loop s in_string False out
         else if in_string \<and> ch = CHR 0x5C then compact_loop s in_string True out
         else if ch = CHR 0x22 then compact_loop s (\<not> in_string) esc out
         else compact_loop s in_string esc out)"

definition json_compact :: "json_document \<Rightarrow> int \<Rightarrow> json_output \<Rightarrow> json_output" where
  "json_compact d t out =
     (if t < 0 \<or> t \<ge> doc_count d then out\<lparr>out_failed := True\<rparr>
      else
        let tok = doc_tokens d ! nat t; k = (if tok_type tok = JSON_STRING then 1 else 0);
            i = tok_start tok - k; e = tok_end tok + k
        in compact_loop (take (nat (e - i)) (drop (nat i) (doc_text d))) False False out)"

subsection \<open>The document parser\<close>

partial_function (option) chain_depth :: "json_token list \<Rightarrow> int \<Rightarrow> nat \<Rightarrow> nat option" where
  [code]: "chain_depth toks par depth = (if par \<ge> 0 then chain_depth toks (tok_parent (toks ! nat par)) (depth + 1) else Some depth)"

function prior_keys_differ :: "json_document \<Rightarrow> nat \<Rightarrow> int \<Rightarrow> string \<Rightarrow> int \<Rightarrow> bool" where
  "prior_keys_differ d capacity key decoded prior =
     (if prior < key then
        case json_string_decode d prior capacity True of
          None \<Rightarrow> False
        | Some other \<Rightarrow> if decoded = other then False else prior_keys_differ d capacity key decoded (json_next d (prior + 1))
      else True)"
  by auto
termination
proof (relation "measure (\<lambda>(d, c, key, decoded, prior). nat (key - prior))", goal_cases)
  case (2 d c key decoded prior other)
  then show ?case using json_next_ge [of "prior + 1" d] by auto
qed simp

declare prior_keys_differ.simps [simp del]

function keys_valid :: "json_document \<Rightarrow> nat \<Rightarrow> int \<Rightarrow> int \<Rightarrow> bool" where
  "keys_valid d capacity i key =
     (if key < doc_count d \<and> tok_start (doc_tokens d ! nat key) < tok_end (doc_tokens d ! nat i) then
        case json_string_decode d key capacity True of
          None \<Rightarrow> False
        | Some decoded \<Rightarrow>
            if \<not> prior_keys_differ d capacity key decoded (i + 1) then False
            else keys_valid d capacity i (json_next d (key + 1))
      else True)"
  by auto
termination
proof (relation "measure (\<lambda>(d, c, i, key). nat (doc_count d - key))", goal_cases)
  case (2 d c i key decoded)
  then show ?case using json_next_ge [of "key + 1" d] by auto
qed simp

declare keys_valid.simps [simp del]

text \<open>The loop over the tokens from the \<open>i\<close>-th on; the inner option is \<open>None\<close> at \<open>goto invalid\<close>.\<close>

fun strict_loop :: "json_document \<Rightarrow> nat \<Rightarrow> nat list \<Rightarrow> u32 \<Rightarrow> u32 option option" where
  "strict_loop d capacity [] vals = Some (Some vals)"
| "strict_loop d capacity (i # is) vals =
     (let tok = doc_tokens d ! i
      in case chain_depth (doc_tokens d) (tok_parent tok) 1 of
           None \<Rightarrow> None
         | Some depth \<Rightarrow>
             if depth > 16 \<or> tok_type tok = JSON_ARRAY \<and> tok_size tok > 1024 \<or> tok_type tok = JSON_OBJECT \<and> tok_size tok > 512
             then Some None
             else
               let vals = (if tok_type tok = JSON_OBJECT then vals - word_of_int (tok_size tok) div 2 else vals)
               in if tok_type tok = JSON_STRING \<and> json_string_decode d (int i) capacity True = None then Some None
                  else if tok_type tok = JSON_OBJECT \<and> \<not> keys_valid d capacity (int i) (int i + 1) then Some None
                  else strict_loop d capacity is vals)"

definition parse_document :: "(nat \<Rightarrow> bool) \<Rightarrow> string \<Rightarrow> bool \<Rightarrow> bool \<Rightarrow> json_document option option" where
  "parse_document malloc_ok s strict multiline =
     (if s = [] \<or> length s > 65535 \<or> CHR 0x00 \<in> set s \<or> \<not> utf8_valid s then Some None
      else case json_syntax_valid s of
        None \<Rightarrow> None
      | Some False \<Rightarrow> Some None
      | Some True \<Rightarrow>
          (case json_parse s (if strict then 16384 else 4096) of
             Inl e \<Rightarrow> Some None
           | Inr toks \<Rightarrow>
               let d = \<lparr>doc_text = s, doc_tokens = toks, doc_count = int (length toks)\<rparr>
               in if doc_count d < 1 \<or> tok_type (toks ! 0) \<noteq> JSON_OBJECT then Some None
                  else if \<not> strict then Some (Some d)
                  else if \<not> multiline \<and> (CHR 0x0D \<in> set s \<or> CHR 0x0A \<in> set s) then Some None
                  else if \<not> malloc_ok (2 * (length s + 1)) then Some None
                  else case strict_loop d (length s + 1) [0..<length toks] (word_of_nat (length toks)) of
                         None \<Rightarrow> None
                       | Some None \<Rightarrow> Some None
                       | Some (Some vals) \<Rightarrow> Some (if vals > 8192 then None else Some d)))"

definition json_document_parse :: "(nat \<Rightarrow> bool) \<Rightarrow> string \<Rightarrow> bool \<Rightarrow> json_document option option" where
  "json_document_parse malloc_ok s strict = parse_document malloc_ok s strict False"

definition json_document_parse_multiline :: "(nat \<Rightarrow> bool) \<Rightarrow> string \<Rightarrow> json_document option option" where
  "json_document_parse_multiline malloc_ok s = parse_document malloc_ok s True True"

subsection \<open>Subtrees\<close>

lemma next_loop_exact:
  "n \<le> doc_count d \<Longrightarrow> n \<le> next_loop d e n \<and> next_loop d e n \<le> doc_count d \<and>
   (\<forall>k. n \<le> k \<and> k < next_loop d e n \<longrightarrow> tok_start (doc_tokens d ! nat k) < e) \<and>
   (next_loop d e n < doc_count d \<longrightarrow> \<not> tok_start (doc_tokens d ! nat (next_loop d e n)) < e)"
proof (induction d e n rule: next_loop.induct)
  case (1 d e n)
  show ?case
  proof (cases "n < doc_count d \<and> tok_start (doc_tokens d ! nat n) < e")
    case True
    then have "next_loop d e n = next_loop d e (n + 1)" by (subst next_loop.simps) simp
    moreover have "n \<le> k \<longleftrightarrow> k = n \<or> n + 1 \<le> k" for k by auto
    ultimately show ?thesis using 1(1) [OF True] True by auto
  next
    case False
    then have "next_loop d e n = n" by (subst next_loop.simps) auto
    then show ?thesis using False 1(2) by auto
  qed
qed

lemma below_iff_start:
  assumes "tokens_ok pos toks (-1)" "j < length toks" "t < j"
  shows "anc toks (tok_parent (toks ! j)) t \<longleftrightarrow> tok_start (toks ! j) < tok_end (toks ! t)"
  using tokens_ok_complete [OF assms(1)] assms(2,3) by fastforce

lemma anc_parent_less:
  assumes "tokens_ok pos toks par" "j < length toks" "anc toks (tok_parent (toks ! j)) t"
  shows "t < j"
  using anc_le [OF assms(3) tokens_okD(1) [OF assms(1)]] tokens_okD(1) [OF assms(1)] assms(2) unfolding parents_ok_def by fastforce

text \<open>
  On the tokens of an accepted text, \<open>json_next\<close> skips a token together with everything below it: the tokens between
  \<open>t\<close> and the result are exactly the descendants of \<open>t\<close>, so a walk that steps with it visits each direct child of a container
  once and never enters one.
\<close>

theorem json_next_subtree:
  assumes "json_parse s capacity = Inr (doc_tokens d)" "doc_count d = int (length (doc_tokens d))" "t < length (doc_tokens d)"
  shows "int t < json_next d (int t) \<and> json_next d (int t) \<le> doc_count d \<and>
    {j. t < j \<and> int j < json_next d (int t)} = {j. j < length (doc_tokens d) \<and> anc (doc_tokens d) (tok_parent (doc_tokens d ! j)) t}"
proof (intro conjI)
  let ?toks = "doc_tokens d"
  let ?n = "json_next d (int t)"
  note ok = json_parse_ok(1) [OF assms(1)]
  have n: "int t + 1 \<le> ?n" "?n \<le> int (length ?toks)"
    and before: "\<And>k. int t + 1 \<le> k \<Longrightarrow> k < ?n \<Longrightarrow> tok_start (?toks ! nat k) < tok_end (?toks ! t)"
    and at: "?n < int (length ?toks) \<Longrightarrow> \<not> tok_start (?toks ! nat ?n) < tok_end (?toks ! t)"
    using next_loop_exact [of "int t + 1" d "tok_end (?toks ! t)"] assms(2,3) by (simp_all add: json_next_def)
  show "int t < ?n" "?n \<le> doc_count d" using n assms(2) by simp_all
  show "{j. t < j \<and> int j < ?n} = {j. j < length ?toks \<and> anc ?toks (tok_parent (?toks ! j)) t}"
  proof (intro equalityI subsetI CollectI)
    fix j assume "j \<in> {j. t < j \<and> int j < ?n}"
    then have j: "t < j" "int j < ?n" by simp_all
    then have "j < length ?toks" using n by simp
    then show "j < length ?toks \<and> anc ?toks (tok_parent (?toks ! j)) t"
      using before [of "int j"] j below_iff_start [OF ok _ j(1)] by simp
  next
    fix j assume "j \<in> {j. j < length ?toks \<and> anc ?toks (tok_parent (?toks ! j)) t}"
    then have j: "j < length ?toks" "anc ?toks (tok_parent (?toks ! j)) t" by simp_all
    note less = anc_parent_less [OF ok j]
    have "tok_start (?toks ! j) < tok_end (?toks ! t)" using below_iff_start [OF ok j(1) less] j(2) by simp
    moreover have "tok_start (?toks ! nat ?n) \<le> tok_start (?toks ! j)" if "\<not> int j < ?n"
    proof (cases "nat ?n = j")
      case False
      then have "nat ?n < j" using that n by linarith
      then show ?thesis using tokens_okD(6) [OF ok j(1)] by fastforce
    qed simp
    ultimately have "int j < ?n" using at j(1) by fastforce
    then show "t < j \<and> int j < ?n" using less by simp
  qed
qed

theorem json_next_subtree_witness:
  "case json_parse (''{'' @ [CHR 0x22] @ ''a'' @ [CHR 0x22] @ '':[1,2]}'') 4096 of
     Inl e \<Rightarrow> False
   | Inr toks \<Rightarrow> json_next \<lparr>doc_text = [], doc_tokens = toks, doc_count = 5\<rparr> 1 = 2 \<and>
       {j. 2 < j \<and> int j < json_next \<lparr>doc_text = [], doc_tokens = toks, doc_count = 5\<rparr> 2} = {j. j < 5 \<and> anc toks (tok_parent (toks ! j)) 2}"
proof -
  let ?s = "''{'' @ [CHR 0x22] @ ''a'' @ [CHR 0x22] @ '':[1,2]}''"
  have "case json_parse ?s 4096 of Inl e \<Rightarrow> False | Inr toks \<Rightarrow> length toks = 5 \<and> json_next \<lparr>doc_text = [], doc_tokens = toks, doc_count = 5\<rparr> 1 = 2"
    by code_simp
  then obtain toks where r: "json_parse ?s 4096 = Inr toks" and t: "length toks = 5" "json_next \<lparr>doc_text = [], doc_tokens = toks, doc_count = 5\<rparr> 1 = 2"
    by (auto split: sum.splits)
  then show ?thesis using json_next_subtree [of ?s 4096 "\<lparr>doc_text = [], doc_tokens = toks, doc_count = 5\<rparr>" 2] by simp
qed

subsection \<open>Accepted documents\<close>

lemma chain_depth_anc:
  assumes "parents_ok toks" "par = -1 \<or> (\<exists>k < length toks. par = int k)"
  shows "chain_depth toks par n = Some (n + card {i. anc toks par i})"
  using assms(2)
proof (induction "nat (par + 1)" arbitrary: par n rule: less_induct)
  case less
  show ?case
  proof (cases "par = -1")
    case True
    have "\<not> anc toks (-1) i" for i by (simp add: anc_minus)
    then have "card {i. anc toks (-1) i} = 0" by (simp only: empty_def [symmetric] card.empty simp_thms)
    with True show ?thesis by (subst chain_depth.simps) simp
  next
    case False
    then obtain k where k: "k < length toks" "par = int k" using less.prems by auto
    let ?up = "tok_parent (toks ! k)"
    have up: "?up = -1 \<or> (\<exists>i < length toks. ?up = int i)" "?up < int k"
      using assms(1) k(1) unfolding parents_ok_def by fastforce+
    have le: "-1 \<le> ?up" using up(1) by auto
    have "{i. anc toks par i} = insert k {i. anc toks ?up i}" using k by (auto simp: anc_int)
    moreover have "k \<notin> {i. anc toks ?up i}" using anc_le [OF _ assms(1), of ?up k] up(2) by auto
    moreover have "finite {i. anc toks ?up i}" by (rule finite_subset [of _ "{..<length toks}"]) (auto dest: anc_less)
    moreover have "chain_depth toks ?up (n + 1) = Some (n + 1 + card {i. anc toks ?up i})"
      using less.hyps [of ?up "n + 1"] up le k(2) by auto
    ultimately show ?thesis using k(2) by (subst chain_depth.simps) simp
  qed
qed

lemma strict_loop_returns:
  assumes ok: "tokens_ok pos (doc_tokens d) (-1)" and "\<forall>j \<in> set is. j < length (doc_tokens d)"
  shows "\<exists>r. strict_loop d capacity is vals = Some r \<and>
    (r \<noteq> None \<longrightarrow> (\<forall>j \<in> set is. card {i. anc (doc_tokens d) (tok_parent (doc_tokens d ! j)) i} < 16))"
  using assms(2)
proof (induction "is" arbitrary: vals)
  case (Cons j js)
  let ?tok = "doc_tokens d ! j"
  let ?c = "card {i. anc (doc_tokens d) (tok_parent ?tok) i}"
  let ?vals = "if tok_type ?tok = JSON_OBJECT then vals - word_of_int (tok_size ?tok) div 2 else vals"
  have j: "j < length (doc_tokens d)" using Cons.prems by simp
  have par: "tok_parent ?tok = -1 \<or> (\<exists>k < length (doc_tokens d). tok_parent ?tok = int k)"
    using tokens_okD(1) [OF ok] j unfolding parents_ok_def by fastforce
  have depth: "chain_depth (doc_tokens d) (tok_parent ?tok) 1 = Some (1 + ?c)"
    using chain_depth_anc [OF tokens_okD(1) [OF ok] par] .
  have unfold: "strict_loop d capacity (j # js) vals =
    (if 1 + ?c > 16 \<or> tok_type ?tok = JSON_ARRAY \<and> tok_size ?tok > 1024 \<or> tok_type ?tok = JSON_OBJECT \<and> tok_size ?tok > 512 then Some None
     else if tok_type ?tok = JSON_STRING \<and> json_string_decode d (int j) capacity True = None then Some None
     else if tok_type ?tok = JSON_OBJECT \<and> \<not> keys_valid d capacity (int j) (int j + 1) then Some None
     else strict_loop d capacity js ?vals)"
    unfolding strict_loop.simps Let_def depth by simp
  obtain r where "strict_loop d capacity js ?vals = Some r"
    "r \<noteq> None \<longrightarrow> (\<forall>j \<in> set js. card {i. anc (doc_tokens d) (tok_parent (doc_tokens d ! j)) i} < 16)"
    using Cons by fastforce
  then show ?case unfolding unfold by (auto simp del: strict_loop.simps)
qed simp

text \<open>
  C36. The document parser returns on every text and for every outcome of \<open>malloc\<close>.  What it accepts is a non-empty text of at most
  65535 bytes of UTF-8 without NUL that the JSON grammar derives with nesting at most 64; the document then holds that text
  and the tokens of \<open>json_parse\<close>, of which the first is an object, and in strict mode every token has fewer than 16 tokens
  above it.
\<close>

theorem document_parse_sound:
  "\<exists>r. parse_document malloc_ok s strict multiline = Some r \<and>
     (\<forall>d. r = Some d \<longrightarrow>
        s \<noteq> [] \<and> length s \<le> 65535 \<and> nul_free s \<and> utf8_text s \<and> json_text 64 s \<and>
        doc_text d = s \<and> json_parse s (if strict then 16384 else 4096) = Inr (doc_tokens d) \<and>
        doc_count d = int (length (doc_tokens d)) \<and> tok_type (doc_tokens d ! 0) = JSON_OBJECT \<and>
        (strict \<longrightarrow> (\<forall>j < length (doc_tokens d). card {i. anc (doc_tokens d) (tok_parent (doc_tokens d ! j)) i} < 16)))"
proof -
  let ?cap = "if strict then 16384 else 4096 :: nat"
  show ?thesis
  proof (cases "s = [] \<or> length s > 65535 \<or> CHR 0x00 \<in> set s \<or> \<not> utf8_valid s")
    case True
    then have "parse_document malloc_ok s strict multiline = Some None" unfolding parse_document_def by simp
    then show ?thesis by simp
  next
    case guard: False
    then have given: "s \<noteq> []" "length s \<le> 65535" "nul_free s" "utf8_text s" by (simp_all add: nul_free_def utf8_valid_iff)
    have syn: "json_syntax_valid s = Some (json_text 64 s)" by (rule json_syntax_exact [OF given(3)])
    show ?thesis
    proof (cases "json_text 64 s \<and> (\<exists>toks. json_parse s ?cap = Inr toks)")
      case False
      then show ?thesis using syn guard by (auto simp: parse_document_def split: sum.splits bool.splits)
    next
      case True
      then obtain toks where t: "json_parse s ?cap = Inr toks" "json_text 64 s" by blast
      let ?d = "\<lparr>doc_text = s, doc_tokens = toks, doc_count = int (length toks)\<rparr>"
      have "\<exists>r. strict_loop ?d (length s + 1) [0..<length toks] (word_of_nat (length toks)) = Some r \<and>
          (r \<noteq> None \<longrightarrow> (\<forall>j \<in> set [0..<length toks]. card {i. anc toks (tok_parent (toks ! j)) i} < 16))"
        using strict_loop_returns [of "length s" ?d "[0..<length toks]" "length s + 1" "word_of_nat (length toks)"] json_parse_ok(1) [OF t(1)]
        by simp
      then obtain r where r: "strict_loop ?d (length s + 1) [0..<length toks] (word_of_nat (length toks)) = Some r"
          "r \<noteq> None \<longrightarrow> (\<forall>j < length toks. card {i. anc toks (tok_parent (toks ! j)) i} < 16)" by force
      then show ?thesis using syn guard t given unfolding parse_document_def
        by (cases r) (auto simp: Let_def)
    qed
  qed
qed

theorem document_parse_sound_witness:
  "\<exists>d. parse_document (\<lambda>n. True) (''{'' @ [CHR 0x22] @ ''a'' @ [CHR 0x22] @ '':[1,2]}'') True False = Some (Some d) \<and>
     json_text 64 (doc_text d) \<and> card {i. anc (doc_tokens d) (tok_parent (doc_tokens d ! 3)) i} < 16"
proof -
  let ?s = "''{'' @ [CHR 0x22] @ ''a'' @ [CHR 0x22] @ '':[1,2]}''"
  have u: "utf8_valid ?s" "json_syntax_valid ?s = Some True" by code_simp+
  have "case json_parse ?s 16384 of
      Inl e \<Rightarrow> False
    | Inr toks \<Rightarrow> length toks = 5 \<and> tok_type (toks ! 0) = JSON_OBJECT \<and>
        strict_loop \<lparr>doc_text = ?s, doc_tokens = toks, doc_count = 5\<rparr> (length ?s + 1) [0..<5] 5 = Some (Some 4)" by code_simp
  then obtain toks where t: "json_parse ?s 16384 = Inr toks" "length toks = 5" "tok_type (toks ! 0) = JSON_OBJECT"
      "strict_loop \<lparr>doc_text = ?s, doc_tokens = toks, doc_count = 5\<rparr> (length ?s + 1) [0..<5] 5 = Some (Some 4)" by (auto split: sum.splits)
  let ?d = "\<lparr>doc_text = ?s, doc_tokens = toks, doc_count = 5\<rparr>"
  have "parse_document (\<lambda>n. True) ?s True False = Some (Some ?d)"
    unfolding parse_document_def using u t by (simp add: Let_def)
  with document_parse_sound [of "\<lambda>n. True" ?s True False] show ?thesis using t(2) by fastforce
qed

end
