(* ===== verification/Observation.thy ===== *)
theory Observation
  imports Prelude
begin

text \<open>
  The observation contract shared by the debug layers (\<^verbatim>\<open>contracts/observation.h\<close>, \<^verbatim>\<open>contracts/types.h\<close>): status codes, observed
  values and observations.  Fixed arrays are lists of their length; a text is the list of its bytes up
  to the terminator.
\<close>

abbreviation (input) EMUIF_OK :: u32 where "EMUIF_OK \<equiv> 0"
abbreviation (input) EMUIF_INVALID :: u32 where "EMUIF_INVALID \<equiv> 1"
abbreviation (input) EMUIF_VERSION :: u32 where "EMUIF_VERSION \<equiv> 2"
abbreviation (input) EMUIF_CAPACITY :: u32 where "EMUIF_CAPACITY \<equiv> 5"
abbreviation (input) EMUIF_FAULT :: u32 where "EMUIF_FAULT \<equiv> 10"
abbreviation (input) EMUIF_EXHAUSTED :: u32 where "EMUIF_EXHAUSTED \<equiv> 11"
abbreviation (input) EMUIF_NOT_FOUND :: u32 where "EMUIF_NOT_FOUND \<equiv> 14"

abbreviation (input) EMUIF_SPACE_CODE :: u32 where "EMUIF_SPACE_CODE \<equiv> 0"
abbreviation (input) EMUIF_SPACE_IRAM :: u32 where "EMUIF_SPACE_IRAM \<equiv> 1"
abbreviation (input) EMUIF_SPACE_SFR :: u32 where "EMUIF_SPACE_SFR \<equiv> 2"
abbreviation (input) EMUIF_SPACE_XDATA :: u32 where "EMUIF_SPACE_XDATA \<equiv> 3"

abbreviation (input) EMUIF_OBS_INSTRUCTION_BEGIN :: u32 where "EMUIF_OBS_INSTRUCTION_BEGIN \<equiv> 1"
abbreviation (input) EMUIF_OBS_INSTRUCTION_RETIRE :: u32 where "EMUIF_OBS_INSTRUCTION_RETIRE \<equiv> 2"
abbreviation (input) EMUIF_OBS_INSTRUCTION_ABORT :: u32 where "EMUIF_OBS_INSTRUCTION_ABORT \<equiv> 3"
abbreviation (input) EMUIF_OBS_ACCESS_ATTEMPT :: u32 where "EMUIF_OBS_ACCESS_ATTEMPT \<equiv> 4"
abbreviation (input) EMUIF_OBS_ACCESS_RESULT :: u32 where "EMUIF_OBS_ACCESS_RESULT \<equiv> 5"
abbreviation (input) EMUIF_OBS_CALL :: u32 where "EMUIF_OBS_CALL \<equiv> 6"
abbreviation (input) EMUIF_OBS_RET :: u32 where "EMUIF_OBS_RET \<equiv> 7"
abbreviation (input) EMUIF_OBS_IRQ_REQUEST :: u32 where "EMUIF_OBS_IRQ_REQUEST \<equiv> 8"
abbreviation (input) EMUIF_OBS_IRQ_ENTER :: u32 where "EMUIF_OBS_IRQ_ENTER \<equiv> 9"
abbreviation (input) EMUIF_OBS_RETI :: u32 where "EMUIF_OBS_RETI \<equiv> 10"
abbreviation (input) EMUIF_OBS_RESET :: u32 where "EMUIF_OBS_RESET \<equiv> 11"
abbreviation (input) EMUIF_OBS_LOAD :: u32 where "EMUIF_OBS_LOAD \<equiv> 12"
abbreviation (input) EMUIF_OBS_FAULT :: u32 where "EMUIF_OBS_FAULT \<equiv> 13"
abbreviation (input) EMUIF_OBS_WATCH :: u32 where "EMUIF_OBS_WATCH \<equiv> 28"
abbreviation (input) EMUIF_OBS_PHASE_BOUNDARY :: u32 where "EMUIF_OBS_PHASE_BOUNDARY \<equiv> 4"
abbreviation (input) EMUIF_OBS_KNOWN_PC :: u32 where "EMUIF_OBS_KNOWN_PC \<equiv> 1"
abbreviation (input) EMUIF_OBS_ACCESS_FETCH :: u32 where "EMUIF_OBS_ACCESS_FETCH \<equiv> 1"
abbreviation (input) EMUIF_OBS_ACCESS_READ :: u32 where "EMUIF_OBS_ACCESS_READ \<equiv> 2"
abbreviation (input) EMUIF_OBS_ACCESS_RMW :: u32 where "EMUIF_OBS_ACCESS_RMW \<equiv> 8"

text \<open>The prefix \<open>EMUIF_PREFIX\<close> of every structure.\<close>

record emuif_prefix =
  struct_size :: u32
  api_version :: u16
  flags :: u16

record emuif_observed_value = emuif_prefix +
  ov_value :: u64
  ov_width :: u32
  ov_known :: u32
  ov_is_signed :: u32
  ov_reserved :: u32

record emuif_observation = emuif_prefix +
  ob_generation :: u64
  ob_sequence :: u64
  ob_cycle :: u64
  ob_instruction_id :: u64
  ob_legacy_instructions :: u64
  ob_retired_instructions :: u64
  ob_access_id :: u64
  ob_parent_stimulus_id :: u64
  ob_cpu_input_order :: u64
  ob_frame_id :: u64
  ob_related_frame_id :: u64
  ob_context_id :: u64
  ob_parent_context_id :: u64
  ob_scheduled_cycle :: u64
  ob_start_cycle :: u64
  ob_source_event_sequence :: u64
  ob_begin_cycle :: u64
  ob_kind :: u32
  ob_phase :: u32
  ob_reason :: u32
  ob_known :: u32
  ob_input_stage :: u32
  ob_status :: u32
  ob_partial_effects :: u32
  ob_space :: u32
  ob_access :: u32
  ob_frame_kind :: u32
  ob_irq_source :: u32
  ob_irq_depth :: u32
  ob_watch_id :: u32
  ob_fired_actions :: u32
  ob_pc :: u16
  ob_target :: u16
  ob_address :: u16
  ob_return_pc :: u16
  ob_next_pc :: u16
  ob_reserved_pc :: u16
  ob_sp_before :: u8
  ob_sp_after :: u8
  ob_byte_count :: u8
  ob_bytes :: "u8 list"
  ob_uart_mode :: u8
  ob_uart_width :: u8
  ob_ninth :: u8
  ob_scon :: u8
  ob_tcon :: u8
  ob_reserved_bytes :: "u8 list"
  ob_old_value :: emuif_observed_value
  ob_new_value :: emuif_observed_value
  ob_text :: string
  ob_reserved_text :: "u8 list"

text \<open>The zeroed structures \<open>memset\<close> leaves.\<close>

definition zero_value :: emuif_observed_value where
  "zero_value = \<lparr>struct_size = 0, api_version = 0, flags = 0, ov_value = 0, ov_width = 0, ov_known = 0, ov_is_signed = 0, ov_reserved = 0\<rparr>"

definition zero_observation :: emuif_observation where
  "zero_observation = \<lparr>struct_size = 0, api_version = 0, flags = 0,
     ob_generation = 0, ob_sequence = 0, ob_cycle = 0, ob_instruction_id = 0, ob_legacy_instructions = 0,
     ob_retired_instructions = 0, ob_access_id = 0, ob_parent_stimulus_id = 0, ob_cpu_input_order = 0, ob_frame_id = 0,
     ob_related_frame_id = 0, ob_context_id = 0, ob_parent_context_id = 0, ob_scheduled_cycle = 0, ob_start_cycle = 0,
     ob_source_event_sequence = 0, ob_begin_cycle = 0, ob_kind = 0, ob_phase = 0, ob_reason = 0, ob_known = 0,
     ob_input_stage = 0, ob_status = 0, ob_partial_effects = 0, ob_space = 0, ob_access = 0, ob_frame_kind = 0,
     ob_irq_source = 0, ob_irq_depth = 0, ob_watch_id = 0, ob_fired_actions = 0, ob_pc = 0, ob_target = 0, ob_address = 0,
     ob_return_pc = 0, ob_next_pc = 0, ob_reserved_pc = 0, ob_sp_before = 0, ob_sp_after = 0, ob_byte_count = 0,
     ob_bytes = [0, 0, 0], ob_uart_mode = 0, ob_uart_width = 0, ob_ninth = 0, ob_scon = 0, ob_tcon = 0,
     ob_reserved_bytes = [0, 0, 0], ob_old_value = zero_value, ob_new_value = zero_value, ob_text = [],
     ob_reserved_text = [0, 0, 0, 0, 0, 0, 0]\<rparr>"

end
