(* ===== verification/DebugEvent.thy ===== *)
theory DebugEvent
  imports Observation
begin

text \<open>
  Debugger events, the event bus and watches (\<^verbatim>\<open>emu_debug_event.c\<close>, \<^verbatim>\<open>emu_debug_event.h\<close>).  A fixed array together with its
  count is the list of its first \<open>count\<close> entries; a count above the capacity is a longer list, which the checks
  refuse before an entry is read.  Null pointers are outside the model.
\<close>

subsection \<open>Data\<close>

datatype em8051_debug_event_status = EM8051_DEBUG_EVENT_OK | EM8051_DEBUG_EVENT_INVALID_ARGUMENT | EM8051_DEBUG_EVENT_LIMIT
  | EM8051_DEBUG_EVENT_BUSY | EM8051_DEBUG_EVENT_DUPLICATE_ID

abbreviation (input) EM8051_DEBUG_EVENT_INSTRUCTION_BEGIN :: u8 where "EM8051_DEBUG_EVENT_INSTRUCTION_BEGIN \<equiv> 0"
abbreviation (input) EM8051_DEBUG_EVENT_INSTRUCTION_END :: u8 where "EM8051_DEBUG_EVENT_INSTRUCTION_END \<equiv> 1"
abbreviation (input) EM8051_DEBUG_EVENT_CODE_FETCH :: u8 where "EM8051_DEBUG_EVENT_CODE_FETCH \<equiv> 2"
abbreviation (input) EM8051_DEBUG_EVENT_MEMORY_READ :: u8 where "EM8051_DEBUG_EVENT_MEMORY_READ \<equiv> 3"
abbreviation (input) EM8051_DEBUG_EVENT_MEMORY_WRITE :: u8 where "EM8051_DEBUG_EVENT_MEMORY_WRITE \<equiv> 4"
abbreviation (input) EM8051_DEBUG_EVENT_MEMORY_RMW :: u8 where "EM8051_DEBUG_EVENT_MEMORY_RMW \<equiv> 5"
abbreviation (input) EM8051_DEBUG_EVENT_CONTROL_CALL :: u8 where "EM8051_DEBUG_EVENT_CONTROL_CALL \<equiv> 6"
abbreviation (input) EM8051_DEBUG_EVENT_CONTROL_RETURN :: u8 where "EM8051_DEBUG_EVENT_CONTROL_RETURN \<equiv> 7"
abbreviation (input) EM8051_DEBUG_EVENT_INTERRUPT_REQUEST :: u8 where "EM8051_DEBUG_EVENT_INTERRUPT_REQUEST \<equiv> 8"
abbreviation (input) EM8051_DEBUG_EVENT_INTERRUPT_ENTER :: u8 where "EM8051_DEBUG_EVENT_INTERRUPT_ENTER \<equiv> 9"
abbreviation (input) EM8051_DEBUG_EVENT_INTERRUPT_EXIT :: u8 where "EM8051_DEBUG_EVENT_INTERRUPT_EXIT \<equiv> 10"
abbreviation (input) EM8051_DEBUG_EVENT_EXCEPTION :: u8 where "EM8051_DEBUG_EVENT_EXCEPTION \<equiv> 11"
abbreviation (input) EM8051_DEBUG_EVENT_UART :: u8 where "EM8051_DEBUG_EVENT_UART \<equiv> 14"
abbreviation (input) EM8051_DEBUG_EVENT_RESET :: u8 where "EM8051_DEBUG_EVENT_RESET \<equiv> 15"
abbreviation (input) EM8051_DEBUG_EVENT_LOAD :: u8 where "EM8051_DEBUG_EVENT_LOAD \<equiv> 16"
abbreviation (input) EM8051_DEBUG_EVENT_DEBUGGER_MUTATION :: u8 where "EM8051_DEBUG_EVENT_DEBUGGER_MUTATION \<equiv> 17"
abbreviation (input) EM8051_DEBUG_EVENT_WATCH_MATCH :: u8 where "EM8051_DEBUG_EVENT_WATCH_MATCH \<equiv> 18"

abbreviation (input) EM8051_DEBUG_SPACE_NONE :: u8 where "EM8051_DEBUG_SPACE_NONE \<equiv> 0"
abbreviation (input) EM8051_DEBUG_SPACE_CODE :: u8 where "EM8051_DEBUG_SPACE_CODE \<equiv> 1"
abbreviation (input) EM8051_DEBUG_SPACE_IRAM_LOWER :: u8 where "EM8051_DEBUG_SPACE_IRAM_LOWER \<equiv> 2"
abbreviation (input) EM8051_DEBUG_SPACE_IRAM_UPPER :: u8 where "EM8051_DEBUG_SPACE_IRAM_UPPER \<equiv> 3"
abbreviation (input) EM8051_DEBUG_SPACE_SFR :: u8 where "EM8051_DEBUG_SPACE_SFR \<equiv> 4"
abbreviation (input) EM8051_DEBUG_SPACE_XDATA :: u8 where "EM8051_DEBUG_SPACE_XDATA \<equiv> 5"

abbreviation (input) EM8051_DEBUG_WATCH_STOP :: u8 where "EM8051_DEBUG_WATCH_STOP \<equiv> 0"
abbreviation (input) EM8051_DEBUG_WATCH_CONSOLE :: u8 where "EM8051_DEBUG_WATCH_CONSOLE \<equiv> 1"
abbreviation (input) EM8051_DEBUG_WATCH_QUIET :: u8 where "EM8051_DEBUG_WATCH_QUIET \<equiv> 2"
abbreviation (input) EM8051_DEBUG_WATCH_ROUTE :: u8 where "EM8051_DEBUG_WATCH_ROUTE \<equiv> 3"

text \<open>The four access bits of \<open>enum em8051_debug_access_kind\<close>.\<close>

abbreviation (input) EM8051_DEBUG_ACCESS_ALL :: u8 where "EM8051_DEBUG_ACCESS_ALL \<equiv> 15"

record em8051_debug_value =
  dv_value :: u64
  dv_width :: u8
  dv_known :: u8
  dv_is_signed :: u8
  dv_reserved :: u8

record em8051_debug_event =
  ev_sequence :: u64
  ev_instruction_count :: u64
  ev_machine_cycle_count :: u64
  ev_generation :: u64
  ev_pc :: u16
  ev_address :: u16
  ev_phase :: u8
  ev_kind :: u8
  ev_address_space :: u8
  ev_access :: u8
  ev_old_value :: em8051_debug_value
  ev_new_value :: em8051_debug_value
  ev_observation :: emuif_observation

record em8051_debug_watch_condition =
  wc_constant :: u64
  wc_present :: u8
  wc_operand :: u8
  wc_comparison :: u8
  wc_width :: u8
  wc_is_signed :: u8

record em8051_debug_watch_action =
  wa_condition :: em8051_debug_watch_condition
  wa_trace_ids :: "u32 list"
  wa_kind :: u8
  wa_canonical :: u8

record em8051_debug_watch =
  w_actions :: "em8051_debug_watch_action list"
  w_id :: u32
  w_address_first :: u16
  w_address_last :: u16
  w_enabled :: u8
  w_address_space :: u8
  w_access_mask :: u8
  w_canonical_space :: u8

record em8051_debug_watch_result =
  wr_trace_ids :: "u32 list"
  wr_watch_id :: u32
  wr_fired_action_mask :: u32
  wr_source_event_sequence :: u64
  wr_stop :: u8
  wr_console :: u8
  wr_quiet :: u8

type_synonym em8051_debug_watch_table = "em8051_debug_watch list"

definition zero_debug_value :: em8051_debug_value where
  "zero_debug_value = \<lparr>dv_value = 0, dv_width = 0, dv_known = 0, dv_is_signed = 0, dv_reserved = 0\<rparr>"

definition zero_event :: em8051_debug_event where
  "zero_event = \<lparr>ev_sequence = 0, ev_instruction_count = 0, ev_machine_cycle_count = 0, ev_generation = 0, ev_pc = 0,
     ev_address = 0, ev_phase = 0, ev_kind = 0, ev_address_space = 0, ev_access = 0, ev_old_value = zero_debug_value,
     ev_new_value = zero_debug_value, ev_observation = zero_observation\<rparr>"

definition zero_watch_result :: em8051_debug_watch_result where
  "zero_watch_result = \<lparr>wr_trace_ids = [], wr_watch_id = 0, wr_fired_action_mask = 0, wr_source_event_sequence = 0,
     wr_stop = 0, wr_console = 0, wr_quiet = 0\<rparr>"

subsection \<open>Validation\<close>

definition value_width_valid :: "u8 \<Rightarrow> bool" where
  "value_width_valid w \<longleftrightarrow> w = 1 \<or> w = 8 \<or> w = 16 \<or> w = 32 \<or> w = 64"

definition width_mask :: "u8 \<Rightarrow> u64" where
  "width_mask w = (if w = 64 then - 1 else push_bit (unat w) 1 - 1)"

definition constant_valid :: "em8051_debug_watch_condition \<Rightarrow> bool" where
  "constant_valid c =
     (if \<not> value_width_valid (wc_width c) then False
      else
        let mask = width_mask (wc_width c)
        in if wc_is_signed c \<noteq> 0 then
             if wc_width c = 64 then True
             else
               let sign = push_bit (unat (wc_width c) - 1) 1
               in if wc_constant c AND sign \<noteq> 0 then wc_constant c OR mask = - 1
                  else wc_constant c AND NOT mask = 0
           else wc_constant c AND NOT mask = 0)"

definition order_of :: "u64 \<Rightarrow> u64 \<Rightarrow> int" where
  "order_of left right = (if left < right then -1 else if left > right then 1 else 0)"

definition value_ordering :: "u8 \<Rightarrow> u8 \<Rightarrow> u64 \<Rightarrow> u64 \<Rightarrow> int" where
  "value_ordering is_signed width left right =
     (if is_signed \<noteq> 0 then
        let sign = push_bit (unat width - 1) 1;
            left_negative = (left AND sign \<noteq> 0);
            right_negative = (right AND sign \<noteq> 0)
        in if left_negative \<noteq> right_negative then (if left_negative then -1 else 1) else order_of left right
      else order_of left right)"

definition compare_value :: "em8051_debug_value \<Rightarrow> em8051_debug_watch_condition \<Rightarrow> bool" where
  "compare_value v c =
     (if dv_known v = 0 \<or> dv_width v \<noteq> wc_width c \<or> dv_is_signed v \<noteq> wc_is_signed c then False
      else
        let left = dv_value v AND width_mask (dv_width v);
            right = wc_constant c AND width_mask (wc_width c);
            ordering = value_ordering (wc_is_signed c) (dv_width v) left right
        in if wc_comparison c = 0 then ordering = 0
           else if wc_comparison c = 1 then ordering \<noteq> 0
           else if wc_comparison c = 2 then ordering < 0
           else if wc_comparison c = 3 then ordering \<le> 0
           else if wc_comparison c = 4 then ordering > 0
           else if wc_comparison c = 5 then ordering \<ge> 0
           else False)"

definition condition_matches :: "em8051_debug_watch_condition \<Rightarrow> em8051_debug_event \<Rightarrow> bool" where
  "condition_matches c e =
     (if wc_present c = 0 then True
      else if wc_operand c = 0 then compare_value (ev_old_value e) c
      else compare_value (ev_new_value e) c)"

text \<open>Identifiers are positive and strictly increasing.\<close>

definition ids_increasing :: "u32 list \<Rightarrow> bool" where
  "ids_increasing ids = list_all (\<lambda>i. ids ! i \<noteq> 0 \<and> (i = 0 \<or> ids ! (i - 1) < ids ! i)) [0..<length ids]"

definition action_valid :: "em8051_debug_watch_action \<Rightarrow> bool" where
  "action_valid a =
     (if wa_canonical a > 1 \<or> wa_kind a > EM8051_DEBUG_WATCH_ROUTE then False
      else if wc_present (wa_condition a) > 1 then False
      else if wc_present (wa_condition a) \<noteq> 0 \<and>
              (wc_operand (wa_condition a) > 1 \<or> wc_comparison (wa_condition a) > 5 \<or> wc_is_signed (wa_condition a) > 1 \<or>
               \<not> constant_valid (wa_condition a)) then False
      else if wa_kind a \<noteq> EM8051_DEBUG_WATCH_ROUTE then wa_trace_ids a = []
      else if wa_canonical a = 0 \<and> wa_trace_ids a = [] \<or> length (wa_trace_ids a) > 16 then False
      else ids_increasing (wa_trace_ids a))"

fun collect_routes :: "u32 list \<Rightarrow> u32 list \<Rightarrow> u32 list option" where
  "collect_routes [] routes = Some routes"
| "collect_routes (i # ids) routes =
     (if i \<in> set routes then collect_routes ids routes
      else if length routes = 16 then None
      else collect_routes ids (routes @ [i]))"

fun actions_valid :: "em8051_debug_watch_action list \<Rightarrow> u32 list \<Rightarrow> bool" where
  "actions_valid [] routes = True"
| "actions_valid (a # as) routes =
     (if \<not> action_valid a then False
      else if wa_kind a \<noteq> EM8051_DEBUG_WATCH_ROUTE then actions_valid as routes
      else case collect_routes (wa_trace_ids a) routes of None \<Rightarrow> False | Some routes' \<Rightarrow> actions_valid as routes')"

definition watch_valid :: "em8051_debug_watch \<Rightarrow> bool" where
  "watch_valid w =
     (if w_id w = 0 \<or> w_enabled w > 1 \<or> w_canonical_space w > 4 \<or> w_address_space w = EM8051_DEBUG_SPACE_NONE \<or>
         w_address_space w > EM8051_DEBUG_SPACE_XDATA \<or> w_address_first w > w_address_last w \<or> w_access_mask w = 0 \<or>
         w_access_mask w AND NOT EM8051_DEBUG_ACCESS_ALL \<noteq> 0 \<or> w_actions w = [] \<or> length (w_actions w) > 8
      then False
      else actions_valid (w_actions w) [])"

subsection \<open>The event bus\<close>

text \<open>
  A slot names its observer by the function and the user pointer, here \<open>'c\<close>.  Calling observers is an
  argument of \<open>em8051_debug_event_bus_emit\<close>, which works on the bus inside a larger state \<open>'w\<close> that the observers change.
\<close>

record 'c em8051_debug_event_observer_slot =
  slot_callback :: 'c
  slot_id :: u32

record 'c em8051_debug_event_bus =
  bus_observers :: "'c em8051_debug_event_observer_slot list"
  bus_next_sequence :: u64
  bus_next_observer_id :: u32
  bus_dispatching :: u8

definition em8051_debug_event_bus_init :: "'c em8051_debug_event_bus" where
  "em8051_debug_event_bus_init = \<lparr>bus_observers = [], bus_next_sequence = 1, bus_next_observer_id = 1, bus_dispatching = 0\<rparr>"

definition em8051_debug_event_bus_subscribe ::
    "'c \<Rightarrow> 'c em8051_debug_event_bus \<Rightarrow> (em8051_debug_event_status \<times> u32 option) \<times> 'c em8051_debug_event_bus" where
  "em8051_debug_event_bus_subscribe cb b =
     (if bus_dispatching b \<noteq> 0 then ((EM8051_DEBUG_EVENT_BUSY, None), b)
      else if length (bus_observers b) \<ge> 8 \<or> bus_next_observer_id b = 0 then ((EM8051_DEBUG_EVENT_LIMIT, None), b)
      else
        ((EM8051_DEBUG_EVENT_OK, Some (bus_next_observer_id b)),
         b\<lparr>bus_observers := bus_observers b @ [\<lparr>slot_callback = cb, slot_id = bus_next_observer_id b\<rparr>],
           bus_next_observer_id := bus_next_observer_id b + 1\<rparr>))"

definition em8051_debug_event_bus_unsubscribe ::
    "u32 \<Rightarrow> 'c em8051_debug_event_bus \<Rightarrow> em8051_debug_event_status \<times> 'c em8051_debug_event_bus" where
  "em8051_debug_event_bus_unsubscribe ident b =
     (if ident = 0 then (EM8051_DEBUG_EVENT_INVALID_ARGUMENT, b)
      else if bus_dispatching b \<noteq> 0 then (EM8051_DEBUG_EVENT_BUSY, b)
      else
        let before = takeWhile (\<lambda>s. slot_id s \<noteq> ident) (bus_observers b);
            rest = dropWhile (\<lambda>s. slot_id s \<noteq> ident) (bus_observers b)
        in if rest = [] then (EM8051_DEBUG_EVENT_INVALID_ARGUMENT, b)
           else (EM8051_DEBUG_EVENT_OK, b\<lparr>bus_observers := before @ tl rest\<rparr>))"

definition em8051_debug_event_bus_emit ::
    "('w \<Rightarrow> 'c em8051_debug_event_bus) \<Rightarrow> (('c em8051_debug_event_bus \<Rightarrow> 'c em8051_debug_event_bus) \<Rightarrow> 'w \<Rightarrow> 'w) \<Rightarrow>
     ('c \<Rightarrow> em8051_debug_event \<Rightarrow> 'w \<Rightarrow> 'w) \<Rightarrow> em8051_debug_event \<Rightarrow> 'w \<Rightarrow> (em8051_debug_event_status \<times> u64 option) \<times> 'w" where
  "em8051_debug_event_bus_emit bus upd call e w =
     (if bus_dispatching (bus w) \<noteq> 0 then ((EM8051_DEBUG_EVENT_BUSY, None), w)
      else if bus_next_sequence (bus w) = 0 \<or> ev_sequence e \<noteq> 0 then ((EM8051_DEBUG_EVENT_INVALID_ARGUMENT, None), w)
      else
        let n = bus_next_sequence (bus w);
            e = e\<lparr>ev_sequence := n\<rparr>;
            e = (if ob_kind (ev_observation e) \<noteq> 0
                 then e\<lparr>ev_observation := (ev_observation e)\<lparr>ob_sequence := n, ob_generation := ev_generation e\<rparr>\<rparr>
                 else e);
            w = upd (\<lambda>b. b\<lparr>bus_next_sequence := n + 1, bus_dispatching := 1\<rparr>) w;
            w = fold (\<lambda>s w. call (slot_callback s) e w) (bus_observers (bus w)) w
        in ((EM8051_DEBUG_EVENT_OK, Some n), upd (bus_dispatching_update (\<lambda>_. 0)) w))"

subsection \<open>Watches\<close>

definition em8051_debug_watch_table_init :: em8051_debug_watch_table where
  "em8051_debug_watch_table_init = []"

text \<open>The insertion loop walks down from the end past the larger identifiers.\<close>

fun insert_watch :: "em8051_debug_watch list \<Rightarrow> em8051_debug_watch \<Rightarrow> em8051_debug_watch list" where
  "insert_watch sorted_ws w =
     (if sorted_ws \<noteq> [] \<and> w_id (last sorted_ws) > w_id w then insert_watch (butlast sorted_ws) w @ [last sorted_ws]
      else sorted_ws @ [w])"

declare insert_watch.simps [simp del]

fun sort_watches :: "em8051_debug_watch list \<Rightarrow> em8051_debug_watch list \<Rightarrow> em8051_debug_watch list option" where
  "sort_watches sorted_ws [] = Some sorted_ws"
| "sort_watches sorted_ws (w # ws) = (if \<not> watch_valid w then None else sort_watches (insert_watch sorted_ws w) ws)"

definition em8051_debug_watch_table_replace ::
    "em8051_debug_watch list \<Rightarrow> em8051_debug_watch_table \<Rightarrow> em8051_debug_event_status \<times> em8051_debug_watch_table" where
  "em8051_debug_watch_table_replace ws table =
     (if length ws > 64 then (EM8051_DEBUG_EVENT_LIMIT, table)
      else case sort_watches [] ws of
        None \<Rightarrow> (EM8051_DEBUG_EVENT_INVALID_ARGUMENT, table)
      | Some sorted_ws \<Rightarrow>
          let ids = map w_id sorted_ws
          in if \<exists>i \<in> set [1..<length ids]. ids ! (i - 1) = ids ! i
             then (EM8051_DEBUG_EVENT_DUPLICATE_ID, table)
             else (EM8051_DEBUG_EVENT_OK, sorted_ws))"

definition insert_route :: "u32 \<Rightarrow> em8051_debug_watch_result \<Rightarrow> em8051_debug_watch_result" where
  "insert_route ident r =
     (let ids = wr_trace_ids r; at = length (takeWhile (\<lambda>i. i < ident) ids)
      in if at < length ids \<and> ids ! at = ident then r
         else r\<lparr>wr_trace_ids := take at ids @ ident # drop at ids\<rparr>)"

definition watch_in_scope :: "em8051_debug_watch \<Rightarrow> em8051_debug_event \<Rightarrow> bool" where
  "watch_in_scope w e \<longleftrightarrow>
     \<not> (w_enabled w = 0 \<or>
        (if w_canonical_space w \<noteq> 0
         then ob_kind (ev_observation e) = 0 \<or> ob_space (ev_observation e) + 1 \<noteq> ucast (w_canonical_space w)
         else w_address_space w \<noteq> ev_address_space e) \<or>
        ev_address e < w_address_first w \<or> ev_address e > w_address_last w \<or> w_access_mask w AND ev_access e = 0)"

definition apply_action :: "em8051_debug_event \<Rightarrow> nat \<times> em8051_debug_watch_action \<Rightarrow> em8051_debug_watch_result \<Rightarrow> em8051_debug_watch_result" where
  "apply_action e = (\<lambda>(i, a) r.
     if \<not> condition_matches (wa_condition a) e then r
     else
       let r = r\<lparr>wr_fired_action_mask := wr_fired_action_mask r OR push_bit i 1\<rparr>
       in if wa_kind a = EM8051_DEBUG_WATCH_STOP then r\<lparr>wr_stop := 1\<rparr>
          else if wa_kind a = EM8051_DEBUG_WATCH_CONSOLE then r\<lparr>wr_console := 1\<rparr>
          else if wa_kind a = EM8051_DEBUG_WATCH_QUIET then r\<lparr>wr_quiet := 1\<rparr>
          else fold insert_route (wa_trace_ids a) r)"

definition watch_result :: "em8051_debug_watch \<Rightarrow> em8051_debug_event \<Rightarrow> em8051_debug_watch_result" where
  "watch_result w e =
     (let r = zero_watch_result\<lparr>wr_watch_id := w_id w, wr_source_event_sequence := ev_sequence e\<rparr>
      in fold (apply_action e) (enumerate 0 (w_actions w)) r)"

fun match_watches :: "em8051_debug_watch list \<Rightarrow> em8051_debug_event \<Rightarrow> em8051_debug_watch_result list" where
  "match_watches [] e = []"
| "match_watches (w # ws) e =
     (if \<not> watch_in_scope w e then match_watches ws e
      else
        let r = watch_result w e
        in if wr_fired_action_mask r = 0 then match_watches ws e
           else (if wr_quiet r \<noteq> 0 then r\<lparr>wr_console := 0\<rparr> else r) # match_watches ws e)"

text \<open>The results written within the capacity, and the number required.\<close>

definition em8051_debug_watch_table_match ::
    "em8051_debug_watch_table \<Rightarrow> em8051_debug_event \<Rightarrow> nat \<Rightarrow> em8051_debug_event_status \<times> em8051_debug_watch_result list \<times> nat" where
  "em8051_debug_watch_table_match table e capacity =
     (if ev_kind e = EM8051_DEBUG_EVENT_WATCH_MATCH \<or>
         ob_kind (ev_observation e) \<noteq> 0 \<and>
         (ob_kind (ev_observation e) \<noteq> EMUIF_OBS_ACCESS_RESULT \<or> ob_status (ev_observation e) \<noteq> EMUIF_OK)
      then (EM8051_DEBUG_EVENT_OK, [], 0)
      else
        let results = match_watches table e
        in (if length results > capacity then EM8051_DEBUG_EVENT_LIMIT else EM8051_DEBUG_EVENT_OK,
            take capacity results, length results))"

end
