(* ===== verification/TraceRouter.thy ===== *)
theory TraceRouter
  imports DebugEvent
begin

text \<open>
  The multi-trace router (\<^verbatim>\<open>emu_debug_trace.c\<close>, \<^verbatim>\<open>emu_debug_trace.h\<close>).  Fixed arrays with a count are lists of their first
  entries; the rings and the suppression states, which are indexed by destination and by trace, are
  functions.  The state behind the router's context pointer is a value \<open>'w\<close> that the \<open>deliver\<close> and \<open>eligible\<close>
  callbacks read and change; an operation takes and returns it beside the router.
\<close>

subsection \<open>Data\<close>

abbreviation (input) EM8051_DEBUG_TRACE_INCLUDE :: u8 where "EM8051_DEBUG_TRACE_INCLUDE \<equiv> 0"
abbreviation (input) EM8051_DEBUG_TRACE_SUPPRESS_DURING_INTERRUPT :: u8 where "EM8051_DEBUG_TRACE_SUPPRESS_DURING_INTERRUPT \<equiv> 1"
abbreviation (input) EM8051_DEBUG_TRACE_INTERRUPT_ONLY :: u8 where "EM8051_DEBUG_TRACE_INTERRUPT_ONLY \<equiv> 2"
abbreviation (input) EM8051_DEBUG_TRACE_GATE_ON :: u8 where "EM8051_DEBUG_TRACE_GATE_ON \<equiv> 0"
abbreviation (input) EM8051_DEBUG_TRACE_GATE_OFF :: u8 where "EM8051_DEBUG_TRACE_GATE_OFF \<equiv> 1"
abbreviation (input) EM8051_DEBUG_TRACE_GATE_BEFORE :: u8 where "EM8051_DEBUG_TRACE_GATE_BEFORE \<equiv> 0"
abbreviation (input) EM8051_DEBUG_TRACE_GATE_AFTER :: u8 where "EM8051_DEBUG_TRACE_GATE_AFTER \<equiv> 1"

datatype em8051_debug_trace_record_kind = EM8051_DEBUG_TRACE_RECORD_EVENT | EM8051_DEBUG_TRACE_RECORD_SUPPRESSION

record em8051_debug_trace_selector =
  sel_pc_first :: u16
  sel_pc_last :: u16
  sel_address_first :: u16
  sel_address_last :: u16
  sel_kind :: u8
  sel_match_kind :: u8
  sel_match_pc :: u8
  sel_match_address :: u8
  sel_address_space :: u8
  sel_match_address_space :: u8
  sel_observation_kind :: u8
  sel_match_observation_kind :: u8
  sel_access_mask :: u8
  sel_match_access :: u8
  sel_canonical_space :: u8
  sel_canonical :: u8

record em8051_debug_trace_session =
  tr_trace_id :: u32
  tr_destination_id :: u32
  tr_tag :: "u8 list"
  tr_comment :: "u8 list"
  tr_enabled :: u8
  tr_interrupt_policy :: u8

record em8051_debug_trace_destination =
  dst_destination_id :: u32

record em8051_debug_trace_point =
  pt_selector :: em8051_debug_trace_selector
  pt_trace_ids :: "u32 list"
  pt_point_id :: u32
  pt_enabled :: u8

record em8051_debug_trace_gate =
  gt_selector :: em8051_debug_trace_selector
  gt_trace_ids :: "u32 list"
  gt_gate_id :: u32
  gt_enabled :: u8
  gt_action :: u8
  gt_timing :: u8

record em8051_debug_trace_config =
  cf_traces :: "em8051_debug_trace_session list"
  cf_destinations :: "em8051_debug_trace_destination list"
  cf_points :: "em8051_debug_trace_point list"
  cf_gates :: "em8051_debug_trace_gate list"

record em8051_debug_trace_suppression =
  su_first_sequence :: u64
  su_last_sequence :: u64
  su_count :: u64
  su_trace_id :: u32
  su_entry_depth :: u32
  su_maximum_depth :: u32
  su_interrupt_policy :: u8

record em8051_debug_trace_record =
  rec_event :: em8051_debug_event
  rec_watch_result :: em8051_debug_watch_result
  rec_suppression :: em8051_debug_trace_suppression
  rec_trace_ids :: "u32 list"
  rec_destination_id :: u32
  rec_kind :: em8051_debug_trace_record_kind

record em8051_debug_trace_ring =
  ring_records :: "nat \<Rightarrow> em8051_debug_trace_record"
  ring_overwritten :: u64
  ring_head :: u16
  ring_count :: u16

record em8051_debug_trace_suppression_state =
  ss_value :: em8051_debug_trace_suppression
  ss_active :: u8

record 'w em8051_debug_trace_router =
  rt_config :: em8051_debug_trace_config
  rt_rings :: "nat \<Rightarrow> em8051_debug_trace_ring"
  rt_suppression :: "nat \<Rightarrow> em8051_debug_trace_suppression_state"
  rt_seen_trace_ids :: "u32 list"
  rt_last_sequence :: u64
  rt_interrupt_depth :: u32
  rt_open_source_event :: em8051_debug_event
  rt_source_open :: u8
  rt_deliver :: "(em8051_debug_trace_record \<Rightarrow> 'w \<Rightarrow> 'w) option"
  rt_eligible :: "(u32 \<Rightarrow> em8051_debug_event \<Rightarrow> 'w \<Rightarrow> bool \<times> 'w) option"

definition zero_suppression :: em8051_debug_trace_suppression where
  "zero_suppression = \<lparr>su_first_sequence = 0, su_last_sequence = 0, su_count = 0, su_trace_id = 0, su_entry_depth = 0,
     su_maximum_depth = 0, su_interrupt_policy = 0\<rparr>"

definition zero_suppression_state :: em8051_debug_trace_suppression_state where
  "zero_suppression_state = \<lparr>ss_value = zero_suppression, ss_active = 0\<rparr>"

definition zero_trace_record :: em8051_debug_trace_record where
  "zero_trace_record = \<lparr>rec_event = zero_event, rec_watch_result = zero_watch_result, rec_suppression = zero_suppression,
     rec_trace_ids = [], rec_destination_id = 0, rec_kind = EM8051_DEBUG_TRACE_RECORD_EVENT\<rparr>"

definition zero_ring :: em8051_debug_trace_ring where
  "zero_ring = \<lparr>ring_records = (\<lambda>_. zero_trace_record), ring_overwritten = 0, ring_head = 0, ring_count = 0\<rparr>"

definition em8051_debug_trace_router_init :: "'w em8051_debug_trace_router" where
  "em8051_debug_trace_router_init = \<lparr>rt_config = \<lparr>cf_traces = [], cf_destinations = [], cf_points = [], cf_gates = []\<rparr>,
     rt_rings = (\<lambda>_. zero_ring), rt_suppression = (\<lambda>_. zero_suppression_state), rt_seen_trace_ids = [], rt_last_sequence = 0,
     rt_interrupt_depth = 0, rt_open_source_event = zero_event, rt_source_open = 0, rt_deliver = None, rt_eligible = None\<rparr>"

subsection \<open>Validation\<close>

text \<open>A byte of a text field is at most 0x7f, a continuation byte lies from 0x80 to 0xbf.\<close>

definition continuation :: "u8 \<Rightarrow> bool" where
  "continuation b \<longleftrightarrow> \<not> (b < 0x80 \<or> b > 0xbf)"

function utf8_terminated_from :: "u8 list \<Rightarrow> nat \<Rightarrow> bool" where
  "utf8_terminated_from s at =
     (let n = length s
      in if at < n \<and> s ! at \<noteq> 0 then
           let lead = s ! at
           in if lead \<le> 0x7f then utf8_terminated_from s (at + 1)
              else if lead \<ge> 0xc2 \<and> lead \<le> 0xdf then
                if at + 1 \<ge> n \<or> \<not> continuation (s ! (at + 1)) then False
                else utf8_terminated_from s (at + 2)
              else if lead \<ge> 0xe0 \<and> lead \<le> 0xef then
                if at + 2 \<ge> n then False
                else
                  let second = s ! (at + 1)
                  in if \<not> continuation (s ! (at + 2)) \<or> lead = 0xe0 \<and> second < 0xa0 \<or> lead = 0xed \<and> second > 0x9f \<or>
                        \<not> continuation second then False
                     else utf8_terminated_from s (at + 3)
              else if lead \<ge> 0xf0 \<and> lead \<le> 0xf4 then
                if at + 3 \<ge> n then False
                else
                  let second = s ! (at + 1)
                  in if \<not> continuation (s ! (at + 2)) \<or> \<not> continuation (s ! (at + 3)) \<or> lead = 0xf0 \<and> second < 0x90 \<or>
                        lead = 0xf4 \<and> second > 0x8f \<or> \<not> continuation second then False
                     else utf8_terminated_from s (at + 4)
              else False
         else at < n)"
  by auto
termination by (relation "measure (\<lambda>(s, at). length s - at)") auto

declare utf8_terminated_from.simps [simp del]

definition utf8_terminated :: "u8 list \<Rightarrow> bool" where
  "utf8_terminated s = utf8_terminated_from s 0"

definition saturated_increment :: "u64 \<Rightarrow> u64" where
  "saturated_increment v = (if v \<noteq> - 1 then v + 1 else v)"

definition selector_valid :: "em8051_debug_trace_selector \<Rightarrow> bool" where
  "selector_valid s \<longleftrightarrow>
     sel_canonical s \<le> 1 \<and> sel_canonical_space s \<le> 4 \<and> sel_match_observation_kind s \<le> 1 \<and> sel_match_access s \<le> 1 \<and>
     (sel_match_observation_kind s = 0 \<or> sel_observation_kind s \<ge> 1 \<and> sel_observation_kind s \<le> 28) \<and>
     (sel_match_access s = 0 \<or> sel_access_mask s \<noteq> 0 \<and> sel_access_mask s AND NOT 15 = 0) \<and>
     sel_match_kind s \<le> 1 \<and> sel_match_pc s \<le> 1 \<and> sel_match_address s \<le> 1 \<and> sel_match_address_space s \<le> 1 \<and>
     (sel_match_kind s = 0 \<or> sel_kind s \<le> EM8051_DEBUG_EVENT_WATCH_MATCH) \<and>
     (sel_match_address_space s = 0 \<or> sel_address_space s \<ge> EM8051_DEBUG_SPACE_CODE \<and> sel_address_space s \<le> EM8051_DEBUG_SPACE_XDATA) \<and>
     (sel_match_pc s = 0 \<or> sel_pc_first s \<le> sel_pc_last s) \<and>
     (sel_match_address s = 0 \<or> sel_address_first s \<le> sel_address_last s)"

definition selector_match :: "em8051_debug_trace_selector \<Rightarrow> em8051_debug_event \<Rightarrow> bool" where
  "selector_match s e \<longleftrightarrow>
     (let ob = ev_observation e
      in (sel_canonical_space s = 0 \<or> ob_kind ob \<noteq> 0 \<and> ob_space ob + 1 = ucast (sel_canonical_space s)) \<and>
         (sel_match_observation_kind s = 0 \<or> ucast (sel_observation_kind s) = ob_kind ob) \<and>
         (sel_match_access s = 0 \<or> sel_access_mask s AND ev_access e \<noteq> 0) \<and>
         (ob_kind ob = 0 \<or> sel_match_pc s = 0 \<or> ob_known ob AND EMUIF_OBS_KNOWN_PC \<noteq> 0) \<and>
         (ob_kind ob = 0 \<or>
          \<not> (sel_match_address s \<noteq> 0 \<or> sel_match_address_space s \<noteq> 0 \<or> sel_canonical_space s \<noteq> 0 \<or> sel_match_access s \<noteq> 0) \<or>
          ob_kind ob = EMUIF_OBS_ACCESS_ATTEMPT \<or> ob_kind ob = EMUIF_OBS_ACCESS_RESULT) \<and>
         (sel_match_kind s = 0 \<or> sel_kind s = ev_kind e) \<and>
         (sel_match_address_space s = 0 \<or> sel_address_space s = ev_address_space e) \<and>
         (sel_match_pc s = 0 \<or> ev_pc e \<ge> sel_pc_first s \<and> ev_pc e \<le> sel_pc_last s) \<and>
         (sel_match_address s = 0 \<or> ev_address e \<ge> sel_address_first s \<and> ev_address e \<le> sel_address_last s))"

text \<open>The first index of an entry, or -1.\<close>

definition index_of :: "('a \<Rightarrow> bool) \<Rightarrow> 'a list \<Rightarrow> int" where
  "index_of p xs = (let n = length (takeWhile (\<lambda>x. \<not> p x) xs) in if n < length xs then int n else -1)"

definition trace_index :: "em8051_debug_trace_config \<Rightarrow> u32 \<Rightarrow> int" where
  "trace_index c ident = index_of (\<lambda>t. tr_trace_id t = ident) (cf_traces c)"

definition destination_index :: "em8051_debug_trace_config \<Rightarrow> u32 \<Rightarrow> int" where
  "destination_index c ident = index_of (\<lambda>d. dst_destination_id d = ident) (cf_destinations c)"

definition ids_valid :: "em8051_debug_trace_config \<Rightarrow> u32 list \<Rightarrow> bool" where
  "ids_valid c ids \<longleftrightarrow> ids \<noteq> [] \<and> length ids \<le> 16 \<and>
     list_all (\<lambda>i. trace_index c (ids ! i) \<ge> 0 \<and> (i = 0 \<or> ids ! (i - 1) < ids ! i)) [0..<length ids]"

definition trace_valid :: "em8051_debug_trace_config \<Rightarrow> em8051_debug_trace_session \<Rightarrow> bool" where
  "trace_valid c t \<longleftrightarrow> tr_trace_id t \<noteq> 0 \<and> tr_enabled t \<le> 1 \<and> tr_interrupt_policy t \<le> EM8051_DEBUG_TRACE_INTERRUPT_ONLY \<and>
     utf8_terminated (tr_tag t) \<and> utf8_terminated (tr_comment t) \<and> destination_index c (tr_destination_id t) \<ge> 0"

definition point_valid :: "em8051_debug_trace_config \<Rightarrow> em8051_debug_trace_point \<Rightarrow> bool" where
  "point_valid c p \<longleftrightarrow> pt_point_id p \<noteq> 0 \<and> pt_enabled p \<le> 1 \<and> selector_valid (pt_selector p) \<and>
     (sel_canonical (pt_selector p) \<noteq> 0 \<and> pt_trace_ids p = [] \<or> ids_valid c (pt_trace_ids p))"

definition gate_valid :: "em8051_debug_trace_config \<Rightarrow> em8051_debug_trace_gate \<Rightarrow> bool" where
  "gate_valid c g \<longleftrightarrow> gt_gate_id g \<noteq> 0 \<and> gt_enabled g \<le> 1 \<and> gt_action g \<le> EM8051_DEBUG_TRACE_GATE_OFF \<and>
     gt_timing g \<le> EM8051_DEBUG_TRACE_GATE_AFTER \<and> selector_valid (gt_selector g) \<and>
     (sel_canonical (gt_selector g) \<noteq> 0 \<and> gt_trace_ids g = [] \<or> ids_valid c (gt_trace_ids g))"

definition increasing_by :: "('a \<Rightarrow> u32) \<Rightarrow> 'a list \<Rightarrow> bool" where
  "increasing_by key xs = list_all (\<lambda>i. i = 0 \<or> key (xs ! (i - 1)) < key (xs ! i)) [0..<length xs]"

definition config_valid :: "em8051_debug_trace_config \<Rightarrow> bool" where
  "config_valid c \<longleftrightarrow>
     length (cf_traces c) \<le> 16 \<and> length (cf_destinations c) \<le> 8 \<and> length (cf_points c) \<le> 32 \<and> length (cf_gates c) \<le> 32 \<and>
     list_all (\<lambda>d. dst_destination_id d \<noteq> 0) (cf_destinations c) \<and> increasing_by dst_destination_id (cf_destinations c) \<and>
     list_all (trace_valid c) (cf_traces c) \<and> increasing_by tr_trace_id (cf_traces c) \<and>
     list_all (point_valid c) (cf_points c) \<and> increasing_by pt_point_id (cf_points c) \<and>
     list_all (gate_valid c) (cf_gates c) \<and> increasing_by gt_gate_id (cf_gates c)"

subsection \<open>Rings, gates and suppression\<close>

definition ring_push :: "em8051_debug_trace_record \<Rightarrow> em8051_debug_trace_ring \<Rightarrow> em8051_debug_trace_ring" where
  "ring_push x r =
     (let r = (if ring_count r = 128
               then r\<lparr>ring_head := ucast (((ucast (ring_head r) :: u32) + 1) mod 128), ring_count := ring_count r - 1,
                      ring_overwritten := saturated_increment (ring_overwritten r)\<rparr>
               else r);
          at = (ucast (((ucast (ring_head r) :: u32) + ucast (ring_count r)) mod 128) :: u16)
      in r\<lparr>ring_records := (ring_records r)(unat at := x), ring_count := ring_count r + 1\<rparr>)"

definition em8051_debug_trace_ring_pop :: "em8051_debug_trace_ring \<Rightarrow> em8051_debug_trace_record option \<times> em8051_debug_trace_ring" where
  "em8051_debug_trace_ring_pop r =
     (if ring_count r = 0 then (None, r)
      else (Some (ring_records r (unat (ring_head r))),
            r\<lparr>ring_head := ucast (((ucast (ring_head r) :: u32) + 1) mod 128), ring_count := ring_count r - 1\<rparr>))"

text \<open>
  Switching a trace; an index of -1 would be a write before the array, here without effect.  Valid
  configurations have none.
\<close>

definition set_enabled :: "int \<Rightarrow> u8 \<Rightarrow> em8051_debug_trace_config \<Rightarrow> em8051_debug_trace_config" where
  "set_enabled ti v c =
     (if ti < 0 then c else c\<lparr>cf_traces := (cf_traces c)[nat ti := (cf_traces c ! nat ti)\<lparr>tr_enabled := v\<rparr>]\<rparr>)"

definition apply_gate :: "em8051_debug_event \<Rightarrow> u8 \<Rightarrow> em8051_debug_trace_gate \<Rightarrow> em8051_debug_trace_config \<Rightarrow> em8051_debug_trace_config" where
  "apply_gate e timing g c =
     (if gt_enabled g = 0 \<or> gt_timing g \<noteq> timing \<or> \<not> selector_match (gt_selector g) e then c
      else fold (\<lambda>ident c. set_enabled (trace_index c ident) (if gt_action g = EM8051_DEBUG_TRACE_GATE_ON then 1 else 0) c) (gt_trace_ids g) c)"

definition apply_gates :: "em8051_debug_event \<Rightarrow> u8 \<Rightarrow> 'w em8051_debug_trace_router \<Rightarrow> 'w em8051_debug_trace_router" where
  "apply_gates e timing r = r\<lparr>rt_config := fold (apply_gate e timing) (cf_gates (rt_config r)) (rt_config r)\<rparr>"

definition policy_accepts :: "u8 \<Rightarrow> u8 \<Rightarrow> u32 \<Rightarrow> bool" where
  "policy_accepts policy kind depth =
     (let outer_enter = (kind = EM8051_DEBUG_EVENT_INTERRUPT_ENTER \<and> depth = 0);
          outer_exit = (kind = EM8051_DEBUG_EVENT_INTERRUPT_EXIT \<and> depth = 1)
      in if kind = EM8051_DEBUG_EVENT_RESET \<or> kind = EM8051_DEBUG_EVENT_LOAD then True
         else if policy = EM8051_DEBUG_TRACE_INCLUDE then True
         else if policy = EM8051_DEBUG_TRACE_SUPPRESS_DURING_INTERRUPT then depth = 0 \<or> outer_enter \<or> outer_exit
         else depth \<noteq> 0 \<or> outer_enter)"

definition suppression_add :: "nat \<Rightarrow> em8051_debug_event \<Rightarrow> 'w em8051_debug_trace_router \<Rightarrow> 'w em8051_debug_trace_router" where
  "suppression_add ti e r =
     (let s = rt_suppression r ti; t = cf_traces (rt_config r) ! ti;
          v = (if ss_active s = 0
               then zero_suppression\<lparr>su_first_sequence := ev_sequence e, su_trace_id := tr_trace_id t,
                      su_entry_depth := rt_interrupt_depth r, su_interrupt_policy := tr_interrupt_policy t\<rparr>
               else ss_value s);
          v = v\<lparr>su_last_sequence := ev_sequence e, su_count := saturated_increment (su_count v)\<rparr>;
          v = (if rt_interrupt_depth r > su_maximum_depth v then v\<lparr>su_maximum_depth := rt_interrupt_depth r\<rparr> else v)
      in r\<lparr>rt_suppression := (rt_suppression r)(ti := \<lparr>ss_value = v, ss_active = (if ss_active s = 0 then 1 else ss_active s)\<rparr>)\<rparr>)"

definition push_record :: "nat \<Rightarrow> em8051_debug_trace_record \<Rightarrow> 'w em8051_debug_trace_router \<times> 'w \<Rightarrow> 'w em8051_debug_trace_router \<times> 'w" where
  "push_record di x = (\<lambda>(r, w).
     (r\<lparr>rt_rings := (rt_rings r)(di := ring_push x (rt_rings r di))\<rparr>,
      case rt_deliver r of None \<Rightarrow> w | Some f \<Rightarrow> f x w))"

definition suppression_emit :: "nat \<Rightarrow> 'w em8051_debug_trace_router \<times> 'w \<Rightarrow> 'w em8051_debug_trace_router \<times> 'w" where
  "suppression_emit ti = (\<lambda>(r, w).
     let s = rt_suppression r ti; t = cf_traces (rt_config r) ! ti
     in if ss_active s = 0 then (r, w)
        else
          let di = destination_index (rt_config r) (tr_destination_id t);
              x = zero_trace_record\<lparr>rec_kind := EM8051_DEBUG_TRACE_RECORD_SUPPRESSION, rec_destination_id := tr_destination_id t,
                    rec_trace_ids := [tr_trace_id t], rec_suppression := ss_value s\<rparr>;
              (r, w) = push_record (nat di) x (r, w)
          in (r\<lparr>rt_suppression := (rt_suppression r)(ti := zero_suppression_state)\<rparr>, w))"

subsection \<open>Routing\<close>

text \<open>One turn of the routing loop over the router, the context and the records being built, one per destination.\<close>

definition route_one ::
    "em8051_debug_event \<Rightarrow> em8051_debug_watch_result option \<Rightarrow> u8 list option \<Rightarrow> u32 \<Rightarrow>
     'w em8051_debug_trace_router \<times> 'w \<times> (nat \<Rightarrow> em8051_debug_trace_record option) \<Rightarrow>
     'w em8051_debug_trace_router \<times> 'w \<times> (nat \<Rightarrow> em8051_debug_trace_record option)" where
  "route_one e watch snapshot ident = (\<lambda>(r, w, records).
     let ti = nat (trace_index (rt_config r) ident);
         t = cf_traces (rt_config r) ! ti
     in if (case snapshot of Some sn \<Rightarrow> sn ! ti | None \<Rightarrow> tr_enabled t) = 0 then (r, w, records)
        else
          let (ok, w) = (case rt_eligible r of None \<Rightarrow> (True, w) | Some f \<Rightarrow> f (tr_trace_id t) e w)
          in if \<not> ok then (r, w, records)
             else if \<not> policy_accepts (tr_interrupt_policy t) (ev_kind e) (rt_interrupt_depth r) then (suppression_add ti e r, w, records)
             else
               let (r, w) = suppression_emit ti (r, w);
                   di = nat (destination_index (rt_config r) (tr_destination_id t));
                   x = (case records di of
                          Some x \<Rightarrow> x
                        | None \<Rightarrow>
                            zero_trace_record\<lparr>rec_kind := EM8051_DEBUG_TRACE_RECORD_EVENT, rec_destination_id := tr_destination_id t, rec_event := e,
                              rec_watch_result := (case watch of Some wr \<Rightarrow> wr | None \<Rightarrow> zero_watch_result)\<rparr>)
               in (r, w, records(di := Some (x\<lparr>rec_trace_ids := rec_trace_ids x @ [tr_trace_id t]\<rparr>))))"

definition route_ids ::
    "em8051_debug_event \<Rightarrow> u32 list \<Rightarrow> em8051_debug_watch_result option \<Rightarrow> u8 list option \<Rightarrow>
     'w em8051_debug_trace_router \<times> 'w \<Rightarrow> em8051_debug_event_status \<times> 'w em8051_debug_trace_router \<times> 'w" where
  "route_ids e ids watch snapshot = (\<lambda>(r, w).
     if \<not> list_all (\<lambda>i. ids ! i \<noteq> 0 \<and> trace_index (rt_config r) (ids ! i) \<ge> 0 \<and> (i = 0 \<or> ids ! (i - 1) < ids ! i)) [0..<length ids]
     then (EM8051_DEBUG_EVENT_INVALID_ARGUMENT, r, w)
     else
       let (r, w, records) = fold (route_one e watch snapshot) ids (r, w, \<lambda>_. None)
       in (EM8051_DEBUG_EVENT_OK,
           fold (\<lambda>i rw. case records i of None \<Rightarrow> rw | Some x \<Rightarrow> push_record i x rw) [0..<length (cf_destinations (rt_config r))] (r, w)))"

definition insert_id :: "u32 \<Rightarrow> u32 list \<Rightarrow> u32 list" where
  "insert_id ident ids =
     (let at = length (takeWhile (\<lambda>i. i < ident) ids)
      in if at < length ids \<and> ids ! at = ident then ids else take at ids @ ident # drop at ids)"

definition point_ids :: "em8051_debug_event \<Rightarrow> em8051_debug_trace_config \<Rightarrow> u32 list" where
  "point_ids e c =
     fold (\<lambda>p ids. if pt_enabled p = 0 \<or> \<not> selector_match (pt_selector p) e then ids else fold insert_id (pt_trace_ids p) ids)
       (cf_points c) []"

definition em8051_debug_trace_router_source_begin ::
    "em8051_debug_event \<Rightarrow> 'w em8051_debug_trace_router \<times> 'w \<Rightarrow> em8051_debug_event_status \<times> 'w em8051_debug_trace_router \<times> 'w" where
  "em8051_debug_trace_router_source_begin e = (\<lambda>(r, w).
     if rt_source_open r \<noteq> 0 \<or> ev_sequence e = 0 \<or> ev_sequence e \<le> rt_last_sequence r \<or> ev_kind e = EM8051_DEBUG_EVENT_WATCH_MATCH \<or>
        ev_kind e = EM8051_DEBUG_EVENT_INTERRUPT_EXIT \<and> rt_interrupt_depth r = 0 \<or>
        ev_kind e = EM8051_DEBUG_EVENT_INTERRUPT_ENTER \<and> rt_interrupt_depth r = - 1
     then (EM8051_DEBUG_EVENT_INVALID_ARGUMENT, r, w)
     else
       let lifecycle = (ev_kind e = EM8051_DEBUG_EVENT_RESET \<or> ev_kind e = EM8051_DEBUG_EVENT_LOAD);
           snapshot = (if lifecycle then Some (map tr_enabled (cf_traces (rt_config r))) else None);
           everywhere = map tr_trace_id (cf_traces (rt_config r));
           r = apply_gates e EM8051_DEBUG_TRACE_GATE_BEFORE r;
           ids = (if lifecycle then everywhere else point_ids e (rt_config r));
           (status, r, w) = route_ids e ids None snapshot (r, w)
       in if status \<noteq> EM8051_DEBUG_EVENT_OK then (status, r, w)
          else
            let r = (if ev_kind e = EM8051_DEBUG_EVENT_INTERRUPT_ENTER then r\<lparr>rt_interrupt_depth := rt_interrupt_depth r + 1\<rparr>
                     else if ev_kind e = EM8051_DEBUG_EVENT_INTERRUPT_EXIT then r\<lparr>rt_interrupt_depth := rt_interrupt_depth r - 1\<rparr>
                     else r)
            in (EM8051_DEBUG_EVENT_OK, r\<lparr>rt_last_sequence := ev_sequence e, rt_open_source_event := e, rt_source_open := 1\<rparr>, w))"

definition em8051_debug_trace_router_source_end ::
    "'w em8051_debug_trace_router \<Rightarrow> em8051_debug_event_status \<times> 'w em8051_debug_trace_router" where
  "em8051_debug_trace_router_source_end r =
     (if rt_source_open r = 0 then (EM8051_DEBUG_EVENT_INVALID_ARGUMENT, r)
      else
        let r = apply_gates (rt_open_source_event r) EM8051_DEBUG_TRACE_GATE_AFTER r
        in (EM8051_DEBUG_EVENT_OK, r\<lparr>rt_open_source_event := zero_event, rt_source_open := 0\<rparr>))"

definition em8051_debug_trace_router_event ::
    "em8051_debug_event \<Rightarrow> 'w em8051_debug_trace_router \<times> 'w \<Rightarrow> em8051_debug_event_status \<times> 'w em8051_debug_trace_router \<times> 'w" where
  "em8051_debug_trace_router_event e rw =
     (let (status, r, w) = em8051_debug_trace_router_source_begin e rw
      in if status \<noteq> EM8051_DEBUG_EVENT_OK then (status, r, w)
         else let (status, r) = em8051_debug_trace_router_source_end r in (status, r, w))"

definition em8051_debug_trace_router_watch ::
    "em8051_debug_event \<Rightarrow> em8051_debug_watch_result \<Rightarrow> 'w em8051_debug_trace_router \<times> 'w \<Rightarrow>
     em8051_debug_event_status \<times> 'w em8051_debug_trace_router \<times> 'w" where
  "em8051_debug_trace_router_watch e result = (\<lambda>(r, w).
     if ev_kind e \<noteq> EM8051_DEBUG_EVENT_WATCH_MATCH \<or> ev_sequence e = 0 \<or> ev_sequence e \<le> rt_last_sequence r \<or>
        length (wr_trace_ids result) > 16 \<or>
        rt_source_open r \<noteq> 0 \<and>
        (wr_source_event_sequence result \<noteq> ev_sequence (rt_open_source_event r) \<or> ev_generation e \<noteq> ev_generation (rt_open_source_event r))
     then (EM8051_DEBUG_EVENT_INVALID_ARGUMENT, r, w)
     else
       let (status, r, w) = route_ids e (wr_trace_ids result) (Some result) None (r, w)
       in (status, if status = EM8051_DEBUG_EVENT_OK then r\<lparr>rt_last_sequence := ev_sequence e\<rparr> else r, w))"

definition em8051_debug_trace_router_flush ::
    "'w em8051_debug_trace_router \<times> 'w \<Rightarrow> em8051_debug_event_status \<times> 'w em8051_debug_trace_router \<times> 'w" where
  "em8051_debug_trace_router_flush = (\<lambda>(r, w).
     if rt_source_open r \<noteq> 0 then (EM8051_DEBUG_EVENT_BUSY, r, w)
     else (EM8051_DEBUG_EVENT_OK, fold suppression_emit [0..<length (cf_traces (rt_config r))] (r, w)))"

definition emu_debug_trace_flush_selected ::
    "u32 \<Rightarrow> u32 \<Rightarrow> 'w em8051_debug_trace_router \<times> 'w \<Rightarrow> em8051_debug_event_status \<times> 'w em8051_debug_trace_router \<times> 'w" where
  "emu_debug_trace_flush_selected destination_id trace_id = (\<lambda>(r, w).
     if rt_source_open r \<noteq> 0 then (EM8051_DEBUG_EVENT_BUSY, r, w)
     else
       (EM8051_DEBUG_EVENT_OK,
        fold (\<lambda>i (r, w).
                let t = cf_traces (rt_config r) ! i
                in if (destination_id = 0 \<or> tr_destination_id t = destination_id) \<and> (trace_id = 0 \<or> tr_trace_id t = trace_id)
                   then suppression_emit i (r, w) else (r, w))
          [0..<length (cf_traces (rt_config r))] (r, w)))"

definition em8051_debug_trace_router_ring :: "u32 \<Rightarrow> 'w em8051_debug_trace_router \<Rightarrow> em8051_debug_trace_ring option" where
  "em8051_debug_trace_router_ring ident r =
     (let di = destination_index (rt_config r) ident in if di < 0 then None else Some (rt_rings r (nat di)))"

subsection \<open>Replacing the configuration\<close>

text \<open>An active suppression of a trace survives only when the trace keeps its destination and policy.\<close>

definition suppression_kept :: "em8051_debug_trace_config \<Rightarrow> em8051_debug_trace_session \<Rightarrow> bool" where
  "suppression_kept c t =
     (let k = trace_index c (tr_trace_id t); t' = cf_traces c ! nat k
      in \<not> (k < 0 \<or> tr_destination_id t' \<noteq> tr_destination_id t \<or> tr_interrupt_policy t' \<noteq> tr_interrupt_policy t))"

fun new_trace_ids :: "'w em8051_debug_trace_router \<Rightarrow> em8051_debug_trace_session list \<Rightarrow> u32 list option" where
  "new_trace_ids r [] = Some []"
| "new_trace_ids r (t # ts) =
     (if trace_index (rt_config r) (tr_trace_id t) \<ge> 0 then new_trace_ids r ts
      else if tr_trace_id t \<in> set (rt_seen_trace_ids r) then None
      else map_option (Cons (tr_trace_id t)) (new_trace_ids r ts))"

definition carried_ring :: "'w em8051_debug_trace_router \<Rightarrow> em8051_debug_trace_config \<Rightarrow> nat \<Rightarrow> em8051_debug_trace_ring" where
  "carried_ring r c i =
     (if i < length (cf_destinations c) then
        let old = destination_index (rt_config r) (dst_destination_id (cf_destinations c ! i))
        in if old \<ge> 0 then rt_rings r (nat old) else zero_ring
      else zero_ring)"

definition carried_suppression :: "'w em8051_debug_trace_router \<Rightarrow> em8051_debug_trace_config \<Rightarrow> nat \<Rightarrow> em8051_debug_trace_suppression_state" where
  "carried_suppression r c i =
     (if i < length (cf_traces c) then
        let t = cf_traces c ! i; old = trace_index (rt_config r) (tr_trace_id t); u = cf_traces (rt_config r) ! nat old
        in if old \<ge> 0 \<and> tr_destination_id u = tr_destination_id t \<and> tr_interrupt_policy u = tr_interrupt_policy t
           then rt_suppression r (nat old) else zero_suppression_state
      else zero_suppression_state)"

definition em8051_debug_trace_router_replace ::
    "em8051_debug_trace_config \<Rightarrow> 'w em8051_debug_trace_router \<Rightarrow> em8051_debug_event_status \<times> 'w em8051_debug_trace_router" where
  "em8051_debug_trace_router_replace c r =
     (if \<not> config_valid c then (EM8051_DEBUG_EVENT_INVALID_ARGUMENT, r)
      else if rt_source_open r \<noteq> 0 then (EM8051_DEBUG_EVENT_BUSY, r)
      else if \<not> list_all (\<lambda>i. ss_active (rt_suppression r i) = 0 \<or> suppression_kept c (cf_traces (rt_config r) ! i)) [0..<length (cf_traces (rt_config r))]
      then (EM8051_DEBUG_EVENT_BUSY, r)
      else case new_trace_ids r (cf_traces c) of
        None \<Rightarrow> (EM8051_DEBUG_EVENT_DUPLICATE_ID, r)
      | Some new_ids \<Rightarrow>
          if length new_ids > 64 - length (rt_seen_trace_ids r) then (EM8051_DEBUG_EVENT_LIMIT, r)
          else
            (EM8051_DEBUG_EVENT_OK,
             r\<lparr>rt_config := c, rt_rings := carried_ring r c, rt_suppression := carried_suppression r c,
               rt_seen_trace_ids := rt_seen_trace_ids r @ new_ids\<rparr>))"

end
