(* ===== verification/DebugRuntime.thy ===== *)
theory DebugRuntime
  imports TraceRouter
begin

text \<open>
  The trace runtime (\<^verbatim>\<open>emu_debug_runtime.c\<close>): one event bus with one observer, a watch table and a
  router.  The state behind the context pointers of the delivery and observation callbacks is the value \<open>'w\<close>; the callbacks
  cannot re-enter the runtime with effect, which refuses every operation while it is busy.  The array of
  pending results and its count are one list.  Whether an allocation succeeds is an argument.
\<close>

datatype dispatch_phase = DISPATCH_IDLE | DISPATCH_SOURCE | DISPATCH_DERIVED

abbreviation (input) EM8051_DEBUG_RUNTIME_PENDING_CAPACITY :: nat where "EM8051_DEBUG_RUNTIME_PENDING_CAPACITY \<equiv> 32"
abbreviation (input) EM8051_DEBUG_WATCH_MAX_WATCHES :: nat where "EM8051_DEBUG_WATCH_MAX_WATCHES \<equiv> 64"

record em8051_debug_runtime_stop =
  st_source_event_sequence :: u64
  st_matching_watch_count :: u64
  st_watch_id :: u32
  st_pending :: u8

record em8051_debug_runtime_status =
  rs_next_sequence :: u64
  rs_accepted_source_events :: u64
  rs_rejected_source_events :: u64
  rs_derived_events :: u64
  rs_pending_overflows :: u64
  rs_console_matches :: u64
  rs_generation :: u64
  rs_interrupt_depth :: u32
  rs_trace_count :: u8
  rs_destination_count :: u8
  rs_point_count :: u8
  rs_gate_count :: u8
  rs_watch_count :: u8
  rs_stop_pending :: u8
  rs_busy :: u8

text \<open>The bus knows a single observer, the runtime itself, so its callback is \<^typ>\<open>unit\<close>.\<close>

record 'w em8051_debug_runtime =
  dr_bus :: "unit em8051_debug_event_bus"
  dr_watches :: em8051_debug_watch_table
  dr_router :: "'w em8051_debug_trace_router"
  dr_pending :: "em8051_debug_watch_result list"
  dr_source_event :: em8051_debug_event
  dr_stop :: em8051_debug_runtime_stop
  dr_accepted_source_events :: u64
  dr_rejected_source_events :: u64
  dr_derived_events :: u64
  dr_pending_overflows :: u64
  dr_console_matches :: u64
  dr_derived_index :: nat
  dr_observer_id :: u32
  dr_generation :: u64
  dr_observation_fn :: "(emuif_observation \<Rightarrow> 'w \<Rightarrow> 'w) option"
  dr_after_observation_fn :: "(emuif_observation \<Rightarrow> 'w \<Rightarrow> 'w) option"
  dr_dispatch_status :: em8051_debug_event_status
  dr_phase :: dispatch_phase
  dr_busy :: u8

definition zero_stop :: em8051_debug_runtime_stop where
  "zero_stop = \<lparr>st_source_event_sequence = 0, st_matching_watch_count = 0, st_watch_id = 0, st_pending = 0\<rparr>"

subsection \<open>Helpers\<close>

definition saturated_add :: "u64 \<Rightarrow> u64 \<Rightarrow> u64" where
  "saturated_add v addend = (if - 1 - v < addend then - 1 else v + addend)"

definition runtime_trace_index :: "em8051_debug_trace_config \<Rightarrow> u32 \<Rightarrow> int" where
  "runtime_trace_index c ident = index_of (\<lambda>t. tr_trace_id t = ident) (cf_traces c)"

definition runtime_destination_index :: "em8051_debug_trace_config \<Rightarrow> u32 \<Rightarrow> int" where
  "runtime_destination_index c ident = index_of (\<lambda>d. dst_destination_id d = ident) (cf_destinations c)"

definition watch_routes_valid :: "em8051_debug_watch_table \<Rightarrow> em8051_debug_trace_config \<Rightarrow> bool" where
  "watch_routes_valid ws c =
     list_all (\<lambda>w. list_all (\<lambda>a. wa_kind a \<noteq> EM8051_DEBUG_WATCH_ROUTE \<or> list_all (\<lambda>i. runtime_trace_index c i \<ge> 0) (wa_trace_ids a)) (w_actions w)) ws"

definition sequence_room :: "'c em8051_debug_event_bus \<Rightarrow> nat \<Rightarrow> bool" where
  "sequence_room b additional_events =
     (let additional = (word_of_nat additional_events :: u64)
      in if additional = 0 then True else bus_next_sequence b \<noteq> 0 \<and> additional - 1 \<le> - 1 - bus_next_sequence b)"

definition event_value_valid :: "em8051_debug_value \<Rightarrow> bool" where
  "event_value_valid v \<longleftrightarrow> dv_known v \<le> 1 \<and> dv_is_signed v \<le> 1 \<and>
     (dv_width v = 0 \<or> dv_width v = 1 \<or> dv_width v = 8 \<or> dv_width v = 16 \<or> dv_width v = 32 \<or> dv_width v = 64) \<and>
     (dv_known v = 0 \<or> dv_width v \<noteq> 0)"

definition source_event_valid :: "em8051_debug_event \<Rightarrow> bool" where
  "source_event_valid e \<longleftrightarrow> ev_kind e \<le> EM8051_DEBUG_EVENT_DEBUGGER_MUTATION \<and> ev_address_space e \<le> EM8051_DEBUG_SPACE_XDATA \<and>
     ev_access e AND NOT EM8051_DEBUG_ACCESS_ALL = 0 \<and> event_value_valid (ev_old_value e) \<and> event_value_valid (ev_new_value e)"

definition update_stop_candidate :: "u32 \<Rightarrow> u64 \<Rightarrow> em8051_debug_runtime_stop \<Rightarrow> em8051_debug_runtime_stop" where
  "update_stop_candidate watch_id source_sequence s =
     (let s = s\<lparr>st_matching_watch_count := saturated_increment (st_matching_watch_count s)\<rparr>;
          s = (if st_pending s = 0 \<or> watch_id < st_watch_id s \<or> watch_id = st_watch_id s \<and> source_sequence < st_source_event_sequence s
               then s\<lparr>st_watch_id := watch_id, st_source_event_sequence := source_sequence\<rparr> else s)
      in s\<lparr>st_pending := 1\<rparr>)"

definition pending_limit :: "em8051_debug_event \<Rightarrow> nat" where
  "pending_limit e = (if ob_kind (ev_observation e) \<noteq> 0 then EM8051_DEBUG_WATCH_MAX_WATCHES else EM8051_DEBUG_RUNTIME_PENDING_CAPACITY)"

subsection \<open>Dispatch\<close>

definition runtime_observer :: "em8051_debug_event \<Rightarrow> 'w em8051_debug_runtime \<times> 'w \<Rightarrow> 'w em8051_debug_runtime \<times> 'w" where
  "runtime_observer e = (\<lambda>(d, w).
     if dr_dispatch_status d \<noteq> EM8051_DEBUG_EVENT_OK then (d, w)
     else
       let w = (case dr_observation_fn d of Some f \<Rightarrow> if ob_kind (ev_observation e) \<noteq> 0 then f (ev_observation e) w else w | None \<Rightarrow> w)
       in if dr_phase d = DISPATCH_SOURCE then
            if ev_kind e = EM8051_DEBUG_EVENT_WATCH_MATCH then (d\<lparr>dr_dispatch_status := EM8051_DEBUG_EVENT_INVALID_ARGUMENT\<rparr>, w)
            else
              let (status, results, required) = em8051_debug_watch_table_match (dr_watches d) e (pending_limit e)
              in if status = EM8051_DEBUG_EVENT_LIMIT \<or> required > pending_limit e then
                   (d\<lparr>dr_pending := [], dr_pending_overflows := saturated_increment (dr_pending_overflows d),
                      dr_dispatch_status := EM8051_DEBUG_EVENT_LIMIT\<rparr>, w)
                 else if status \<noteq> EM8051_DEBUG_EVENT_OK \<or> \<not> sequence_room (dr_bus d) required then
                   (d\<lparr>dr_pending := [],
                      dr_dispatch_status := (if status = EM8051_DEBUG_EVENT_OK then EM8051_DEBUG_EVENT_LIMIT else status)\<rparr>, w)
                 else
                   let d = d\<lparr>dr_pending := results, dr_source_event := e\<rparr>;
                       (status, r, w) = em8051_debug_trace_router_source_begin e (dr_router d, w)
                   in (d\<lparr>dr_router := r, dr_dispatch_status := status\<rparr>, w)
          else if dr_phase d = DISPATCH_DERIVED then
            if dr_derived_index d \<ge> length (dr_pending d) \<or> ev_kind e \<noteq> EM8051_DEBUG_EVENT_WATCH_MATCH
            then (d\<lparr>dr_dispatch_status := EM8051_DEBUG_EVENT_INVALID_ARGUMENT\<rparr>, w)
            else
              let (status, r, w) = em8051_debug_trace_router_watch e (dr_pending d ! dr_derived_index d) (dr_router d, w)
              in (d\<lparr>dr_router := r, dr_dispatch_status := status\<rparr>, w)
          else (d\<lparr>dr_dispatch_status := EM8051_DEBUG_EVENT_BUSY\<rparr>, w))"

text \<open>Emission on the runtime's own bus.\<close>

definition runtime_emit ::
    "em8051_debug_event \<Rightarrow> 'w em8051_debug_runtime \<times> 'w \<Rightarrow> (em8051_debug_event_status \<times> u64 option) \<times> 'w em8051_debug_runtime \<times> 'w" where
  "runtime_emit =
     em8051_debug_event_bus_emit (\<lambda>(d, w). dr_bus d) (\<lambda>f (d, w). (d\<lparr>dr_bus := f (dr_bus d)\<rparr>, w)) (\<lambda>_. runtime_observer)"

definition derived_event :: "em8051_debug_event \<Rightarrow> em8051_debug_watch_result \<Rightarrow> em8051_debug_event" where
  "derived_event source result =
     (let e = source\<lparr>ev_sequence := 0, ev_kind := EM8051_DEBUG_EVENT_WATCH_MATCH\<rparr>; ob = ev_observation e
      in if ob_kind ob \<noteq> 0
         then e\<lparr>ev_observation := ob\<lparr>ob_kind := EMUIF_OBS_WATCH, ob_phase := EMUIF_OBS_PHASE_BOUNDARY,
                  ob_source_event_sequence := wr_source_event_sequence result, ob_watch_id := wr_watch_id result,
                  ob_fired_actions := wr_fired_action_mask result\<rparr>\<rparr>
         else e)"

text \<open>The loop over the pending results; it leaves the first status that is not OK.\<close>

fun emit_derived ::
    "nat list \<Rightarrow> 'w em8051_debug_runtime \<times> 'w \<Rightarrow> em8051_debug_event_status \<times> 'w em8051_debug_runtime \<times> 'w" where
  "emit_derived [] s = (EM8051_DEBUG_EVENT_OK, s)"
| "emit_derived (i # is) (d, w) =
     (let e = derived_event (dr_source_event d) (dr_pending d ! i);
          d = d\<lparr>dr_derived_index := i, dr_dispatch_status := EM8051_DEBUG_EVENT_OK\<rparr>;
          ((status, _), d, w) = runtime_emit e (d, w);
          status = (if status = EM8051_DEBUG_EVENT_OK then dr_dispatch_status d else status)
      in if status \<noteq> EM8051_DEBUG_EVENT_OK then (status, d, w) else emit_derived is (d, w))"

definition merge_one :: "em8051_debug_watch_result \<Rightarrow> 'w em8051_debug_runtime \<Rightarrow> 'w em8051_debug_runtime" where
  "merge_one result d =
     (let d = (if wr_stop result \<noteq> 0
               then d\<lparr>dr_stop := update_stop_candidate (wr_watch_id result) (wr_source_event_sequence result) (dr_stop d)\<rparr> else d)
      in if wr_console result \<noteq> 0 then d\<lparr>dr_console_matches := saturated_increment (dr_console_matches d)\<rparr> else d)"

definition merge_stops_and_counts :: "'w em8051_debug_runtime \<Rightarrow> 'w em8051_debug_runtime" where
  "merge_stops_and_counts d =
     (let d = fold merge_one (dr_pending d) d
      in d\<lparr>dr_derived_events := saturated_add (dr_derived_events d) (word_of_nat (length (dr_pending d)))\<rparr>)"

definition runtime_ingest ::
    "em8051_debug_event \<Rightarrow> bool \<Rightarrow> 'w em8051_debug_runtime \<times> 'w \<Rightarrow>
     (em8051_debug_event_status \<times> u64 option) \<times> 'w em8051_debug_runtime \<times> 'w" where
  "runtime_ingest source_event allow_lifecycle = (\<lambda>(d, w).
     if ev_sequence source_event \<noteq> 0 \<or>
        \<not> allow_lifecycle \<and> (ev_kind source_event = EM8051_DEBUG_EVENT_RESET \<or> ev_kind source_event = EM8051_DEBUG_EVENT_LOAD) \<or>
        \<not> source_event_valid source_event
     then ((EM8051_DEBUG_EVENT_INVALID_ARGUMENT, None), d, w)
     else if dr_busy d \<noteq> 0 then ((EM8051_DEBUG_EVENT_BUSY, None), d, w)
     else
       let d = d\<lparr>dr_busy := 1, dr_phase := DISPATCH_SOURCE, dr_dispatch_status := EM8051_DEBUG_EVENT_OK, dr_pending := [], dr_derived_index := 0\<rparr>;
           source = source_event\<lparr>ev_generation := dr_generation d\<rparr>;
           ((status, assigned), d, w) = runtime_emit source (d, w);
           status = (if status = EM8051_DEBUG_EVENT_OK then dr_dispatch_status d else status)
       in if status \<noteq> EM8051_DEBUG_EVENT_OK then
            ((status, assigned),
             d\<lparr>dr_rejected_source_events := saturated_increment (dr_rejected_source_events d), dr_phase := DISPATCH_IDLE, dr_busy := 0\<rparr>, w)
          else
            let d = d\<lparr>dr_phase := DISPATCH_DERIVED\<rparr>;
                (status, d, w) = emit_derived [0..<length (dr_pending d)] (d, w);
                (status, d) =
                  (if rt_source_open (dr_router d) \<noteq> 0 then
                     let (end_status, r) = em8051_debug_trace_router_source_end (dr_router d)
                     in (if status = EM8051_DEBUG_EVENT_OK then end_status else status, d\<lparr>dr_router := r\<rparr>)
                   else (status, d));
                d = (if status = EM8051_DEBUG_EVENT_OK
                     then (merge_stops_and_counts d)\<lparr>dr_accepted_source_events := saturated_increment (dr_accepted_source_events d)\<rparr>
                     else d\<lparr>dr_rejected_source_events := saturated_increment (dr_rejected_source_events d)\<rparr>)
            in ((status, assigned), d\<lparr>dr_phase := DISPATCH_IDLE, dr_busy := 0\<rparr>, w))"

definition em8051_debug_runtime_ingest ::
    "em8051_debug_event \<Rightarrow> 'w em8051_debug_runtime \<times> 'w \<Rightarrow>
     (em8051_debug_event_status \<times> u64 option) \<times> 'w em8051_debug_runtime \<times> 'w" where
  "em8051_debug_runtime_ingest e = runtime_ingest e False"

subsection \<open>Creation\<close>

definition runtime_initialize :: "em8051_debug_event_status \<times> 'w em8051_debug_runtime" where
  "runtime_initialize =
     (let ((status, ident), b) = em8051_debug_event_bus_subscribe () em8051_debug_event_bus_init
      in (status,
          \<lparr>dr_bus = b, dr_watches = em8051_debug_watch_table_init, dr_router = em8051_debug_trace_router_init, dr_pending = [],
           dr_source_event = zero_event, dr_stop = zero_stop, dr_accepted_source_events = 0, dr_rejected_source_events = 0,
           dr_derived_events = 0, dr_pending_overflows = 0, dr_console_matches = 0, dr_derived_index = 0,
           dr_observer_id = (case ident of Some i \<Rightarrow> i | None \<Rightarrow> 0), dr_generation = 1, dr_observation_fn = None,
           dr_after_observation_fn = None, dr_dispatch_status = EM8051_DEBUG_EVENT_OK, dr_phase = DISPATCH_IDLE, dr_busy = 0\<rparr>))"

definition em8051_debug_runtime_create :: "bool \<Rightarrow> em8051_debug_event_status \<times> 'w em8051_debug_runtime option" where
  "em8051_debug_runtime_create allocated =
     (if \<not> allocated then (EM8051_DEBUG_EVENT_LIMIT, None)
      else
        let (status, d) = runtime_initialize
        in if status \<noteq> EM8051_DEBUG_EVENT_OK then (status, None) else (EM8051_DEBUG_EVENT_OK, Some d))"

definition em8051_debug_runtime_clear_session :: "'w em8051_debug_runtime \<Rightarrow> em8051_debug_event_status \<times> 'w em8051_debug_runtime" where
  "em8051_debug_runtime_clear_session d = (if dr_busy d \<noteq> 0 then (EM8051_DEBUG_EVENT_BUSY, d) else runtime_initialize)"

subsection \<open>Configuration\<close>

definition replace_config :: "em8051_debug_trace_config \<Rightarrow> 'w em8051_debug_runtime \<Rightarrow> em8051_debug_event_status \<times> 'w em8051_debug_runtime" where
  "replace_config candidate d =
     (if \<not> watch_routes_valid (dr_watches d) candidate then (EM8051_DEBUG_EVENT_INVALID_ARGUMENT, d)
      else let (status, r) = em8051_debug_trace_router_replace candidate (dr_router d) in (status, d\<lparr>dr_router := r\<rparr>))"

definition em8051_debug_runtime_replace_watches ::
    "em8051_debug_watch list \<Rightarrow> 'w em8051_debug_runtime \<Rightarrow> em8051_debug_event_status \<times> 'w em8051_debug_runtime" where
  "em8051_debug_runtime_replace_watches ws d =
     (if dr_busy d \<noteq> 0 then (EM8051_DEBUG_EVENT_BUSY, d)
      else
        let (status, candidate) = em8051_debug_watch_table_replace ws em8051_debug_watch_table_init
        in if status \<noteq> EM8051_DEBUG_EVENT_OK then (status, d)
           else if \<not> watch_routes_valid candidate (rt_config (dr_router d)) then (EM8051_DEBUG_EVENT_INVALID_ARGUMENT, d)
           else (EM8051_DEBUG_EVENT_OK, d\<lparr>dr_watches := candidate\<rparr>))"

text \<open>The body of the macro \<open>DEFINE_REPLACE\<close> and its four instances.\<close>

definition replace_member ::
    "('a list \<Rightarrow> em8051_debug_trace_config \<Rightarrow> em8051_debug_trace_config) \<Rightarrow> nat \<Rightarrow> 'a list \<Rightarrow> 'w em8051_debug_runtime \<Rightarrow>
     em8051_debug_event_status \<times> 'w em8051_debug_runtime" where
  "replace_member put maximum values d =
     (if dr_busy d \<noteq> 0 then (EM8051_DEBUG_EVENT_BUSY, d)
      else if length values > maximum then (EM8051_DEBUG_EVENT_LIMIT, d)
      else replace_config (put values (rt_config (dr_router d))) d)"

definition em8051_debug_runtime_replace_traces ::
    "em8051_debug_trace_session list \<Rightarrow> 'w em8051_debug_runtime \<Rightarrow> em8051_debug_event_status \<times> 'w em8051_debug_runtime" where
  "em8051_debug_runtime_replace_traces = replace_member (\<lambda>vs c. c\<lparr>cf_traces := vs\<rparr>) 16"

definition em8051_debug_runtime_replace_destinations ::
    "em8051_debug_trace_destination list \<Rightarrow> 'w em8051_debug_runtime \<Rightarrow> em8051_debug_event_status \<times> 'w em8051_debug_runtime" where
  "em8051_debug_runtime_replace_destinations = replace_member (\<lambda>vs c. c\<lparr>cf_destinations := vs\<rparr>) 8"

definition em8051_debug_runtime_replace_points ::
    "em8051_debug_trace_point list \<Rightarrow> 'w em8051_debug_runtime \<Rightarrow> em8051_debug_event_status \<times> 'w em8051_debug_runtime" where
  "em8051_debug_runtime_replace_points = replace_member (\<lambda>vs c. c\<lparr>cf_points := vs\<rparr>) 32"

definition em8051_debug_runtime_replace_gates ::
    "em8051_debug_trace_gate list \<Rightarrow> 'w em8051_debug_runtime \<Rightarrow> em8051_debug_event_status \<times> 'w em8051_debug_runtime" where
  "em8051_debug_runtime_replace_gates = replace_member (\<lambda>vs c. c\<lparr>cf_gates := vs\<rparr>) 32"

fun enable_traces :: "u32 \<Rightarrow> u32 list \<Rightarrow> bool \<Rightarrow> em8051_debug_trace_config \<Rightarrow> em8051_debug_trace_config option" where
  "enable_traces prev [] on c = Some c"
| "enable_traces prev (i # ids) on c =
     (if i = 0 \<or> prev \<noteq> 0 \<and> prev \<ge> i then None
      else
        let index = runtime_trace_index c i
        in if index < 0 then None else enable_traces i ids on (set_enabled index (if on then 1 else 0) c))"

definition em8051_debug_runtime_set_trace_enabled ::
    "u32 list \<Rightarrow> bool \<Rightarrow> 'w em8051_debug_runtime \<Rightarrow> em8051_debug_event_status \<times> 'w em8051_debug_runtime" where
  "em8051_debug_runtime_set_trace_enabled ids on d =
     (if ids = [] then (EM8051_DEBUG_EVENT_INVALID_ARGUMENT, d)
      else if dr_busy d \<noteq> 0 then (EM8051_DEBUG_EVENT_BUSY, d)
      else if length ids > 16 then (EM8051_DEBUG_EVENT_LIMIT, d)
      else case enable_traces 0 ids on (rt_config (dr_router d)) of
        None \<Rightarrow> (EM8051_DEBUG_EVENT_INVALID_ARGUMENT, d)
      | Some candidate \<Rightarrow> replace_config candidate d)"

subsection \<open>Queries\<close>

text \<open>The body of the macro \<open>DEFINE_LIST\<close>: the entries written and the total.\<close>

definition list_page :: "nat \<Rightarrow> nat \<Rightarrow> 'a list \<Rightarrow> 'a list \<times> nat" where
  "list_page offset capacity xs =
     (let available = (if offset < length xs then length xs - offset else 0);
          written = (if available < capacity then available else capacity)
      in (take written (drop offset xs), length xs))"

definition em8051_debug_runtime_list_watches :: "nat \<Rightarrow> nat \<Rightarrow> 'w em8051_debug_runtime \<Rightarrow> em8051_debug_watch list \<times> nat" where
  "em8051_debug_runtime_list_watches offset capacity d = list_page offset capacity (dr_watches d)"

definition em8051_debug_runtime_list_traces :: "nat \<Rightarrow> nat \<Rightarrow> 'w em8051_debug_runtime \<Rightarrow> em8051_debug_trace_session list \<times> nat" where
  "em8051_debug_runtime_list_traces offset capacity d = list_page offset capacity (cf_traces (rt_config (dr_router d)))"

definition em8051_debug_runtime_list_destinations :: "nat \<Rightarrow> nat \<Rightarrow> 'w em8051_debug_runtime \<Rightarrow> em8051_debug_trace_destination list \<times> nat" where
  "em8051_debug_runtime_list_destinations offset capacity d = list_page offset capacity (cf_destinations (rt_config (dr_router d)))"

definition em8051_debug_runtime_list_points :: "nat \<Rightarrow> nat \<Rightarrow> 'w em8051_debug_runtime \<Rightarrow> em8051_debug_trace_point list \<times> nat" where
  "em8051_debug_runtime_list_points offset capacity d = list_page offset capacity (cf_points (rt_config (dr_router d)))"

definition em8051_debug_runtime_list_gates :: "nat \<Rightarrow> nat \<Rightarrow> 'w em8051_debug_runtime \<Rightarrow> em8051_debug_trace_gate list \<times> nat" where
  "em8051_debug_runtime_list_gates offset capacity d = list_page offset capacity (cf_gates (rt_config (dr_router d)))"

definition em8051_debug_runtime_get_status :: "'w em8051_debug_runtime \<Rightarrow> em8051_debug_runtime_status" where
  "em8051_debug_runtime_get_status d =
     \<lparr>rs_next_sequence = bus_next_sequence (dr_bus d), rs_accepted_source_events = dr_accepted_source_events d,
      rs_rejected_source_events = dr_rejected_source_events d, rs_derived_events = dr_derived_events d,
      rs_pending_overflows = dr_pending_overflows d, rs_console_matches = dr_console_matches d, rs_generation = dr_generation d,
      rs_interrupt_depth = rt_interrupt_depth (dr_router d), rs_trace_count = word_of_nat (length (cf_traces (rt_config (dr_router d)))),
      rs_destination_count = word_of_nat (length (cf_destinations (rt_config (dr_router d)))),
      rs_point_count = word_of_nat (length (cf_points (rt_config (dr_router d)))),
      rs_gate_count = word_of_nat (length (cf_gates (rt_config (dr_router d)))),
      rs_watch_count = word_of_nat (length (dr_watches d)), rs_stop_pending = st_pending (dr_stop d), rs_busy = dr_busy d\<rparr>"

definition em8051_debug_runtime_consume_stop ::
    "'w em8051_debug_runtime \<Rightarrow> (em8051_debug_event_status \<times> em8051_debug_runtime_stop option) \<times> 'w em8051_debug_runtime" where
  "em8051_debug_runtime_consume_stop d =
     (if dr_busy d \<noteq> 0 then ((EM8051_DEBUG_EVENT_BUSY, None), d)
      else ((EM8051_DEBUG_EVENT_OK, Some (dr_stop d)), d\<lparr>dr_stop := zero_stop\<rparr>))"

definition em8051_debug_runtime_read_ring ::
    "u32 \<Rightarrow> nat \<Rightarrow> nat \<Rightarrow> 'w em8051_debug_runtime \<Rightarrow> em8051_debug_event_status \<times> em8051_debug_trace_record list \<times> nat" where
  "em8051_debug_runtime_read_ring destination_id offset capacity d =
     (if dr_busy d \<noteq> 0 then (EM8051_DEBUG_EVENT_BUSY, [], 0)
      else
        let di = runtime_destination_index (rt_config (dr_router d)) destination_id
        in if di < 0 then (EM8051_DEBUG_EVENT_INVALID_ARGUMENT, [], 0)
           else
             let ring = rt_rings (dr_router d) (nat di);
                 available = (if offset < unat (ring_count ring) then unat (ring_count ring) - offset else 0);
                 n = (if available < capacity then available else capacity)
             in (EM8051_DEBUG_EVENT_OK, map (\<lambda>i. ring_records ring ((unat (ring_head ring) + offset + i) mod 128)) [0..<n], available - n))"

subsection \<open>Lifecycle\<close>

definition lifecycle_event ::
    "u8 \<Rightarrow> u64 \<Rightarrow> u64 \<Rightarrow> u16 \<Rightarrow> 'w em8051_debug_runtime \<times> 'w \<Rightarrow>
     (em8051_debug_event_status \<times> u64 option) \<times> 'w em8051_debug_runtime \<times> 'w" where
  "lifecycle_event kind instruction_count machine_cycle_count pc = (\<lambda>(d, w).
     if dr_busy d \<noteq> 0 then ((EM8051_DEBUG_EVENT_BUSY, None), d, w)
     else if dr_generation d = - 1 \<or> \<not> sequence_room (dr_bus d) 1 then ((EM8051_DEBUG_EVENT_LIMIT, None), d, w)
     else
       let e = zero_event\<lparr>ev_kind := kind, ev_instruction_count := instruction_count, ev_machine_cycle_count := machine_cycle_count, ev_pc := pc\<rparr>;
           old_generation = dr_generation d;
           old_interrupt_depth = rt_interrupt_depth (dr_router d);
           d = d\<lparr>dr_generation := dr_generation d + 1, dr_router := (dr_router d)\<lparr>rt_interrupt_depth := 0\<rparr>\<rparr>;
           ((status, assigned), d, w) = runtime_ingest e True (d, w)
       in if status \<noteq> EM8051_DEBUG_EVENT_OK
          then ((status, assigned),
                d\<lparr>dr_generation := old_generation, dr_router := (dr_router d)\<lparr>rt_interrupt_depth := old_interrupt_depth\<rparr>\<rparr>, w)
          else ((status, assigned), d, w))"

definition em8051_debug_runtime_reset ::
    "u64 \<Rightarrow> u64 \<Rightarrow> u16 \<Rightarrow> 'w em8051_debug_runtime \<times> 'w \<Rightarrow> (em8051_debug_event_status \<times> u64 option) \<times> 'w em8051_debug_runtime \<times> 'w" where
  "em8051_debug_runtime_reset = lifecycle_event EM8051_DEBUG_EVENT_RESET"

definition code_selector :: "em8051_debug_trace_selector \<Rightarrow> bool" where
  "code_selector s \<longleftrightarrow> sel_match_pc s \<noteq> 0 \<or>
     sel_match_address s \<noteq> 0 \<and> (sel_match_address_space s = 0 \<or> sel_address_space s = EM8051_DEBUG_SPACE_CODE) \<or>
     sel_match_address_space s \<noteq> 0 \<and> sel_address_space s = EM8051_DEBUG_SPACE_CODE"

definition disarm_code :: "em8051_debug_trace_config \<Rightarrow> em8051_debug_trace_config" where
  "disarm_code c = c\<lparr>cf_points := map (\<lambda>p. if code_selector (pt_selector p) then p\<lparr>pt_enabled := 0\<rparr> else p) (cf_points c),
                    cf_gates := map (\<lambda>g. if code_selector (gt_selector g) then g\<lparr>gt_enabled := 0\<rparr> else g) (cf_gates c)\<rparr>"

definition disarm_code_watches :: "em8051_debug_watch_table \<Rightarrow> em8051_debug_watch_table" where
  "disarm_code_watches ws = map (\<lambda>w. if w_address_space w = EM8051_DEBUG_SPACE_CODE then w\<lparr>w_enabled := 0\<rparr> else w) ws"

definition em8051_debug_runtime_load ::
    "u64 \<Rightarrow> u64 \<Rightarrow> u16 \<Rightarrow> 'w em8051_debug_runtime \<times> 'w \<Rightarrow> (em8051_debug_event_status \<times> u64 option) \<times> 'w em8051_debug_runtime \<times> 'w" where
  "em8051_debug_runtime_load instruction_count machine_cycle_count pc = (\<lambda>(d, w).
     if dr_busy d \<noteq> 0 then ((EM8051_DEBUG_EVENT_BUSY, None), d, w)
     else if dr_generation d = - 1 \<or> \<not> sequence_room (dr_bus d) 1 then ((EM8051_DEBUG_EVENT_LIMIT, None), d, w)
     else
       let watches = disarm_code_watches (dr_watches d);
           (status, d) = replace_config (disarm_code (rt_config (dr_router d))) d
       in if status \<noteq> EM8051_DEBUG_EVENT_OK then ((status, None), d, w)
          else lifecycle_event EM8051_DEBUG_EVENT_LOAD instruction_count machine_cycle_count pc (d\<lparr>dr_watches := watches\<rparr>, w))"

subsection \<open>The observation bridge\<close>

definition emu_debug_runtime_observer ::
    "(emuif_observation \<Rightarrow> 'w \<Rightarrow> 'w) option \<Rightarrow> 'w em8051_debug_runtime \<Rightarrow> em8051_debug_event_status \<times> 'w em8051_debug_runtime" where
  "emu_debug_runtime_observer fn d =
     (if dr_busy d \<noteq> 0 then (EM8051_DEBUG_EVENT_BUSY, d) else (EM8051_DEBUG_EVENT_OK, d\<lparr>dr_observation_fn := fn\<rparr>))"

definition emu_debug_runtime_after_observation ::
    "(emuif_observation \<Rightarrow> 'w \<Rightarrow> 'w) option \<Rightarrow> 'w em8051_debug_runtime \<Rightarrow> em8051_debug_event_status \<times> 'w em8051_debug_runtime" where
  "emu_debug_runtime_after_observation fn d =
     (if dr_busy d \<noteq> 0 then (EM8051_DEBUG_EVENT_BUSY, d) else (EM8051_DEBUG_EVENT_OK, d\<lparr>dr_after_observation_fn := fn\<rparr>))"

definition observation_is_access :: "emuif_observation \<Rightarrow> bool" where
  "observation_is_access ob \<longleftrightarrow> ob_kind ob = EMUIF_OBS_ACCESS_ATTEMPT \<or> ob_kind ob = EMUIF_OBS_ACCESS_RESULT"

text \<open>The switch over the kind of an observation.\<close>

definition observation_event_kind :: "emuif_observation \<Rightarrow> u8" where
  "observation_event_kind ob =
     (let k = ob_kind ob
      in if k = EMUIF_OBS_INSTRUCTION_BEGIN then EM8051_DEBUG_EVENT_INSTRUCTION_BEGIN
         else if k = EMUIF_OBS_INSTRUCTION_RETIRE then EM8051_DEBUG_EVENT_INSTRUCTION_END
         else if k = EMUIF_OBS_INSTRUCTION_ABORT \<or> k = EMUIF_OBS_FAULT then EM8051_DEBUG_EVENT_EXCEPTION
         else if observation_is_access ob then
           if ob_access ob = EMUIF_OBS_ACCESS_FETCH then EM8051_DEBUG_EVENT_CODE_FETCH
           else if ob_access ob = EMUIF_OBS_ACCESS_READ then EM8051_DEBUG_EVENT_MEMORY_READ
           else if ob_access ob = EMUIF_OBS_ACCESS_RMW then EM8051_DEBUG_EVENT_MEMORY_RMW
           else EM8051_DEBUG_EVENT_MEMORY_WRITE
         else if k = EMUIF_OBS_CALL then EM8051_DEBUG_EVENT_CONTROL_CALL
         else if k = EMUIF_OBS_RET then EM8051_DEBUG_EVENT_CONTROL_RETURN
         else if k = EMUIF_OBS_IRQ_REQUEST then EM8051_DEBUG_EVENT_INTERRUPT_REQUEST
         else if k = EMUIF_OBS_IRQ_ENTER then EM8051_DEBUG_EVENT_INTERRUPT_ENTER
         else if k = EMUIF_OBS_RETI then EM8051_DEBUG_EVENT_INTERRUPT_EXIT
         else if k = EMUIF_OBS_RESET then EM8051_DEBUG_EVENT_RESET
         else if k = EMUIF_OBS_LOAD then EM8051_DEBUG_EVENT_LOAD
         else EM8051_DEBUG_EVENT_UART)"

definition observation_address_space :: "emuif_observation \<Rightarrow> u8" where
  "observation_address_space ob =
     (if ob_space ob = EMUIF_SPACE_CODE then EM8051_DEBUG_SPACE_CODE
      else if ob_space ob = EMUIF_SPACE_IRAM then
        if ob_address ob < 128 then EM8051_DEBUG_SPACE_IRAM_LOWER else EM8051_DEBUG_SPACE_IRAM_UPPER
      else if ob_space ob = EMUIF_SPACE_SFR then EM8051_DEBUG_SPACE_SFR
      else EM8051_DEBUG_SPACE_XDATA)"

definition observation_value :: "emuif_observed_value \<Rightarrow> em8051_debug_value" where
  "observation_value v =
     \<lparr>dv_value = ov_value v, dv_width = ucast (ov_width v), dv_known = ucast (ov_known v), dv_is_signed = ucast (ov_is_signed v), dv_reserved = 0\<rparr>"

definition observation_event :: "emuif_observation \<Rightarrow> em8051_debug_event" where
  "observation_event ob =
     \<lparr>ev_sequence = 0, ev_instruction_count = ob_legacy_instructions ob, ev_machine_cycle_count = ob_cycle ob, ev_generation = ob_generation ob,
      ev_pc = ob_pc ob, ev_address = ob_address ob, ev_phase = ucast (ob_phase ob), ev_kind = observation_event_kind ob,
      ev_address_space = (if observation_is_access ob then observation_address_space ob else 0),
      ev_access = (if observation_is_access ob then ucast (ob_access ob) else 0),
      ev_old_value = observation_value (ob_old_value ob), ev_new_value = observation_value (ob_new_value ob),
      ev_observation = ob\<lparr>ob_sequence := 0\<rparr>\<rparr>"

definition emu_debug_runtime_observation ::
    "emuif_observation \<Rightarrow> 'w em8051_debug_runtime \<times> 'w \<Rightarrow> (em8051_debug_event_status \<times> u64 option) \<times> 'w em8051_debug_runtime \<times> 'w" where
  "emu_debug_runtime_observation ob = (\<lambda>(d, w).
     if ob_generation ob = 0 \<or> ob_kind ob < 1 \<or> ob_kind ob > 27 \<or> ob_source_event_sequence ob \<noteq> 0 \<or> ob_space ob > EMUIF_SPACE_XDATA
     then ((EM8051_DEBUG_EVENT_INVALID_ARGUMENT, None), d, w)
     else if dr_busy d \<noteq> 0 then ((EM8051_DEBUG_EVENT_BUSY, None), d, w)
     else
       let e = observation_event ob;
           old_generation = dr_generation d;
           old_depth = rt_interrupt_depth (dr_router d);
           d = d\<lparr>dr_generation := ob_generation ob\<rparr>;
           d = (if ob_kind ob = EMUIF_OBS_RESET \<or> ob_kind ob = EMUIF_OBS_LOAD
                then d\<lparr>dr_router := (dr_router d)\<lparr>rt_interrupt_depth := 0\<rparr>\<rparr> else d);
           e = (if ob_kind ob = EMUIF_OBS_RETI \<and> rt_interrupt_depth (dr_router d) = 0 then e\<lparr>ev_kind := EM8051_DEBUG_EVENT_CONTROL_RETURN\<rparr> else e);
           ((status, assigned), d, w) = runtime_ingest e True (d, w);
           w = (case dr_after_observation_fn d of
                  Some f \<Rightarrow> if status = EM8051_DEBUG_EVENT_OK then f (ev_observation (dr_source_event d)) w else w
                | None \<Rightarrow> w)
       in if status \<noteq> EM8051_DEBUG_EVENT_OK
          then ((status, assigned), d\<lparr>dr_generation := old_generation, dr_router := (dr_router d)\<lparr>rt_interrupt_depth := old_depth\<rparr>\<rparr>, w)
          else ((status, assigned), d, w))"

subsection \<open>Delivery and atomic configuration\<close>

definition emu_debug_runtime_delivery ::
    "(em8051_debug_trace_record \<Rightarrow> 'w \<Rightarrow> 'w) option \<Rightarrow> (u32 \<Rightarrow> em8051_debug_event \<Rightarrow> 'w \<Rightarrow> bool \<times> 'w) option \<Rightarrow>
     'w em8051_debug_runtime \<Rightarrow> em8051_debug_event_status \<times> 'w em8051_debug_runtime" where
  "emu_debug_runtime_delivery deliver eligible d =
     (if dr_busy d \<noteq> 0 then (EM8051_DEBUG_EVENT_BUSY, d)
      else (EM8051_DEBUG_EVENT_OK, d\<lparr>dr_router := (dr_router d)\<lparr>rt_deliver := deliver, rt_eligible := eligible\<rparr>\<rparr>))"

definition emu_debug_runtime_flush ::
    "'w em8051_debug_runtime \<times> 'w \<Rightarrow> em8051_debug_event_status \<times> 'w em8051_debug_runtime \<times> 'w" where
  "emu_debug_runtime_flush = (\<lambda>(d, w).
     if dr_busy d \<noteq> 0 then (EM8051_DEBUG_EVENT_BUSY, d, w)
     else let (status, r, w) = em8051_debug_trace_router_flush (dr_router d, w) in (status, d\<lparr>dr_router := r\<rparr>, w))"

definition emu_debug_runtime_flush_selected ::
    "u32 \<Rightarrow> u32 \<Rightarrow> 'w em8051_debug_runtime \<times> 'w \<Rightarrow> em8051_debug_event_status \<times> 'w em8051_debug_runtime \<times> 'w" where
  "emu_debug_runtime_flush_selected destination_id trace_id = (\<lambda>(d, w).
     if dr_busy d \<noteq> 0 then (EM8051_DEBUG_EVENT_BUSY, d, w)
     else let (status, r, w) = emu_debug_trace_flush_selected destination_id trace_id (dr_router d, w) in (status, d\<lparr>dr_router := r\<rparr>, w))"

definition emu_debug_runtime_configure ::
    "bool \<Rightarrow> em8051_debug_trace_config \<Rightarrow> em8051_debug_watch list \<Rightarrow> 'w em8051_debug_runtime \<times> 'w \<Rightarrow>
     em8051_debug_event_status \<times> 'w em8051_debug_runtime \<times> 'w" where
  "emu_debug_runtime_configure allocated c ws = (\<lambda>(d, w).
     if dr_busy d \<noteq> 0 then (EM8051_DEBUG_EVENT_BUSY, d, w)
     else
       let (status, watches) = em8051_debug_watch_table_replace ws em8051_debug_watch_table_init
       in if status \<noteq> EM8051_DEBUG_EVENT_OK \<or> \<not> watch_routes_valid watches c
          then (if status \<noteq> EM8051_DEBUG_EVENT_OK then status else EM8051_DEBUG_EVENT_INVALID_ARGUMENT, d, w)
          else if \<not> allocated then (EM8051_DEBUG_EVENT_LIMIT, d, w)
          else
            let candidate = (dr_router d)\<lparr>rt_suppression := (\<lambda>_. zero_suppression_state), rt_deliver := None, rt_eligible := None\<rparr>;
                (status, _) = em8051_debug_trace_router_replace c candidate
            in if status \<noteq> EM8051_DEBUG_EVENT_OK then (status, d, w)
               else
                 let (status, r, w) = em8051_debug_trace_router_flush (dr_router d, w);
                     d = d\<lparr>dr_router := r\<rparr>
                 in if status \<noteq> EM8051_DEBUG_EVENT_OK then (status, d, w)
                    else
                      let (status, r) = em8051_debug_trace_router_replace c (dr_router d);
                          d = d\<lparr>dr_router := r\<rparr>
                      in (status, if status = EM8051_DEBUG_EVENT_OK then d\<lparr>dr_watches := watches\<rparr> else d, w))"

definition emu_debug_runtime_pending_summaries :: "u32 \<Rightarrow> 'w em8051_debug_runtime \<Rightarrow> nat" where
  "emu_debug_runtime_pending_summaries ident d =
     length (filter (\<lambda>i. tr_destination_id (cf_traces (rt_config (dr_router d)) ! i) = ident \<and> ss_active (rt_suppression (dr_router d) i) \<noteq> 0)
       [0..<length (cf_traces (rt_config (dr_router d)))])"

definition emu_debug_runtime_discard_suppression ::
    "u32 \<Rightarrow> 'w em8051_debug_runtime \<Rightarrow> em8051_debug_event_status \<times> 'w em8051_debug_runtime" where
  "emu_debug_runtime_discard_suppression trace_id d =
     (if dr_busy d \<noteq> 0 then (EM8051_DEBUG_EVENT_BUSY, d)
      else
        (EM8051_DEBUG_EVENT_OK,
         d\<lparr>dr_router := (dr_router d)\<lparr>rt_suppression := (\<lambda>i.
            if i < length (cf_traces (rt_config (dr_router d))) \<and> tr_trace_id (cf_traces (rt_config (dr_router d)) ! i) = trace_id
            then zero_suppression_state else rt_suppression (dr_router d) i)\<rparr>\<rparr>))"

end
