(* ===== verification/TraceRing.thy ===== *)
theory TraceRing
  imports TraceRouter
begin

text \<open>
  The rings of the trace router as bounded logs.  A ring of 128 slots with a head and a count holds a list of
  records, oldest first; pushing appends and keeps the newest 128, popping removes the oldest.
\<close>

definition newest :: "nat \<Rightarrow> 'a list \<Rightarrow> 'a list" where
  "newest n xs = drop (length xs - n) xs"

lemma newest_short [simp]: "length xs \<le> n \<Longrightarrow> newest n xs = xs"
  by (simp add: newest_def)

lemma length_newest: "length (newest n xs) = min n (length xs)"
  by (simp add: newest_def min_def)

lemma newest_newest: "newest n (newest n xs @ ys) = newest n (xs @ ys)"
proof (cases "length xs \<le> n")
  case False
  let ?k = "length xs - n"
  have "newest n xs @ ys = drop ?k (xs @ ys)" using False by (simp add: newest_def)
  moreover have "length (drop ?k (xs @ ys)) - n + ?k = length (xs @ ys) - n" using False by simp
  ultimately show ?thesis by (simp add: newest_def)
qed simp

text \<open>What a bounded log promises to those who write to it and drain it.\<close>

locale bounded_log =
  fixes cap :: nat
    and ok :: "'r \<Rightarrow> bool"
    and content :: "'r \<Rightarrow> 'a list"
    and push :: "'a \<Rightarrow> 'r \<Rightarrow> 'r"
    and pop :: "'r \<Rightarrow> 'a option \<times> 'r"
  assumes content_bound: "ok r \<Longrightarrow> length (content r) \<le> cap"
    and push_ok: "ok r \<Longrightarrow> ok (push x r)"
    and push_content: "ok r \<Longrightarrow> content (push x r) = newest cap (content r @ [x])"
    and pop_ok: "ok r \<Longrightarrow> ok (snd (pop r))"
    and pop_content: "ok r \<Longrightarrow> fst (pop r) = (case content r of [] \<Rightarrow> None | x # _ \<Rightarrow> Some x) \<and> content (snd (pop r)) = tl (content r)"
begin

lemma push_all: "ok r \<Longrightarrow> ok (fold push xs r) \<and> content (fold push xs r) = newest cap (content r @ xs)"
proof (induction xs arbitrary: r)
  case Nil
  then show ?case using content_bound by simp
next
  case (Cons x xs)
  have "content (fold push xs (push x r)) = newest cap (newest cap (content r @ [x]) @ xs)"
    using Cons.IH [OF push_ok [OF Cons.prems]] push_content [OF Cons.prems] by simp
  then show ?case using Cons.IH [OF push_ok [OF Cons.prems]] by (simp add: newest_newest)
qed

text \<open>Draining a log yields its content, oldest first.\<close>

fun drain :: "nat \<Rightarrow> 'r \<Rightarrow> 'a list \<times> 'r" where
  "drain 0 r = ([], r)"
| "drain (Suc n) r = (case pop r of (None, r) \<Rightarrow> ([], r) | (Some x, r) \<Rightarrow> (case drain n r of (xs, r) \<Rightarrow> (x # xs, r)))"

lemma drain_content: "ok r \<Longrightarrow> fst (drain n r) = take n (content r) \<and> content (snd (drain n r)) = drop n (content r)"
proof (induction n arbitrary: r)
  case (Suc n)
  obtain y r' where p: "pop r = (y, r')" by fastforce
  then have r': "ok r'" "content r' = tl (content r)" "y = (case content r of [] \<Rightarrow> None | x # _ \<Rightarrow> Some x)"
    using pop_ok [OF Suc.prems] pop_content [OF Suc.prems] by simp_all
  then show ?case using Suc.IH [OF r'(1)] p by (cases "content r") (auto split: prod.splits)
qed simp

end

definition ring_ok :: "em8051_debug_trace_ring \<Rightarrow> bool" where
  "ring_ok r \<longleftrightarrow> unat (ring_head r) < 128 \<and> unat (ring_count r) \<le> 128"

definition ring_list :: "em8051_debug_trace_ring \<Rightarrow> em8051_debug_trace_record list" where
  "ring_list r = map (\<lambda>i. ring_records r ((unat (ring_head r) + i) mod 128)) [0..<unat (ring_count r)]"

lemma ring_slot:
  fixes h n :: u16
  assumes "unat h < 128" "unat n \<le> 128"
  shows "unat (ucast (((ucast h :: u32) + ucast n) mod 128) :: u16) = (unat h + unat n) mod 128"
proof -
  have s: "unat ((ucast h :: u32) + ucast n) = unat h + unat n"
    using assms by (subst unat_add_ok) simp_all
  have lt: "(unat h + unat n) mod 128 < 65536" by (rule less_trans [of _ 128]) simp_all
  have "unat (ucast (((ucast h :: u32) + ucast n) mod 128) :: u16) = take_bit 16 (unat (((ucast h :: u32) + ucast n) mod 128))"
    by (simp add: unsigned_ucast_eq)
  also have "\<dots> = (unat h + unat n) mod 128" using lt by (simp add: unat_mod s take_bit_nat_eq_self)
  finally show ?thesis .
qed

lemma ring_next:
  fixes h :: u16
  assumes "unat h < 128"
  shows "unat (ucast (((ucast h :: u32) + 1) mod 128) :: u16) = (unat h + 1) mod 128"
  using ring_slot [OF assms, of 1] by simp

lemma unat_pred_word: "w \<noteq> 0 \<Longrightarrow> unat (w - 1) = unat w - 1" for w :: "'a::len word"
  by (metis unat_minus_one)

lemma ring_push_room:
  fixes x
  assumes ok: "ring_ok r" and room: "unat (ring_count r) < 128"
  defines "r' \<equiv> r\<lparr>ring_records := (ring_records r)((unat (ring_head r) + unat (ring_count r)) mod 128 := x), ring_count := ring_count r + 1\<rparr>"
  shows "ring_ok r' \<and> ring_list r' = ring_list r @ [x]"
proof -
  have n: "unat (ring_count r + 1) = unat (ring_count r) + 1" using room by (subst unat_add_ok) simp_all
  have neq: "(unat (ring_head r) + i) mod 128 \<noteq> (unat (ring_head r) + unat (ring_count r)) mod 128"
    if "i < unat (ring_count r)" for i
  proof
    assume "(unat (ring_head r) + i) mod 128 = (unat (ring_head r) + unat (ring_count r)) mod 128"
    then have "(unat (ring_head r) + unat (ring_count r)) mod 128 = (unat (ring_head r) + i) mod 128" by simp
    then have "128 dvd unat (ring_count r) - i" using that by (subst (asm) mod_eq_dvd_iff_nat) simp_all
    with that room show False by (auto dest: dvd_imp_le)
  qed
  show ?thesis using ok room neq by (auto simp: r'_def ring_ok_def ring_list_def n)
qed

lemma ring_drop:
  assumes ok: "ring_ok r" and some: "ring_count r \<noteq> 0"
  defines "r' \<equiv> r\<lparr>ring_head := ucast (((ucast (ring_head r) :: u32) + 1) mod 128), ring_count := ring_count r - 1\<rparr>"
  shows "ring_ok r'" "ring_list r = ring_records r (unat (ring_head r)) # ring_list r'"
proof -
  have h: "unat (ring_head r) < 128" using ok by (simp add: ring_ok_def)
  have n: "unat (ring_count r) = Suc (unat (ring_count r - 1))" using some by (simp add: unat_pred_word unat_gt_0)
  show "ring_ok r'" using ok n by (simp add: r'_def ring_ok_def ring_next [OF h])
  have e: "ring_list r' = map (\<lambda>i. ring_records r ((unat (ring_head r) + Suc i) mod 128)) [0..<unat (ring_count r - 1)]"
    by (simp add: r'_def ring_list_def ring_next [OF h] mod_simps)
  show "ring_list r = ring_records r (unat (ring_head r)) # ring_list r'"
    unfolding e unfolding ring_list_def n using h by (simp add: upt_conv_Cons map_Suc_upt [symmetric] del: upt_Suc)
qed

lemma ring_list_length [simp]: "length (ring_list r) = unat (ring_count r)"
  by (simp add: ring_list_def)

lemma ring_list_overwritten [simp]: "ring_list (r\<lparr>ring_overwritten := n\<rparr>) = ring_list r" "ring_ok (r\<lparr>ring_overwritten := n\<rparr>) = ring_ok r"
  by (simp_all add: ring_list_def ring_ok_def)

lemma ring_push_list:
  assumes ok: "ring_ok r"
  shows "ring_ok (ring_push x r) \<and> ring_list (ring_push x r) = newest 128 (ring_list r @ [x])"
proof (cases "ring_count r = 128")
  case False
  then have room: "unat (ring_count r) < 128"
    using ok by (auto simp: ring_ok_def word_unat_eq_iff le_less)
  have h: "unat (ring_head r) < 128" "unat (ring_count r) \<le> 128" using ok by (simp_all add: ring_ok_def)
  show ?thesis using ring_push_room [OF ok room, of x] room False by (simp add: ring_push_def Let_def ring_slot [OF h])
next
  case True
  define r1 where "r1 = r\<lparr>ring_head := ucast (((ucast (ring_head r) :: u32) + 1) mod 128), ring_count := ring_count r - 1\<rparr>"
  define r2 where "r2 = r1\<lparr>ring_overwritten := saturated_increment (ring_overwritten r)\<rparr>"
  have nz: "ring_count r \<noteq> 0" using True by simp
  note d = ring_drop [OF ok nz, folded r1_def]
  have ok2: "ring_ok r2" using d(1) by (simp add: r2_def)
  have room: "unat (ring_count r2) < 128" using True by (simp add: r2_def r1_def)
  have h: "unat (ring_head r2) < 128" "unat (ring_count r2) \<le> 128" using ok2 by (simp_all add: ring_ok_def)
  have push: "ring_push x r = r2\<lparr>ring_records := (ring_records r2)((unat (ring_head r2) + unat (ring_count r2)) mod 128 := x), ring_count := ring_count r2 + 1\<rparr>"
    using True ring_slot [OF h] by (simp add: ring_push_def Let_def r2_def r1_def)
  have "newest 128 (ring_list r @ [x]) = ring_list r1 @ [x]"
    using True d(2) ring_list_length [of r] by (simp add: newest_def)
  then show ?thesis using ring_push_room [OF ok2 room, of x] by (simp add: push r2_def)
qed

interpretation ring: bounded_log 128 ring_ok ring_list ring_push em8051_debug_trace_ring_pop
proof unfold_locales
  fix r assume ok: "ring_ok r"
  show "length (ring_list r) \<le> 128" using ok by (simp add: ring_ok_def)
  show "ring_ok (ring_push x r)" "ring_list (ring_push x r) = newest 128 (ring_list r @ [x])" for x
    using ring_push_list [OF ok] by simp_all
  show "ring_ok (snd (em8051_debug_trace_ring_pop r))"
    using ring_drop(1) [OF ok] ok by (simp add: em8051_debug_trace_ring_pop_def)
  show "fst (em8051_debug_trace_ring_pop r) = (case ring_list r of [] \<Rightarrow> None | x # _ \<Rightarrow> Some x) \<and>
      ring_list (snd (em8051_debug_trace_ring_pop r)) = tl (ring_list r)"
  proof (cases "ring_count r = 0")
    case True
    then have "ring_list r = []" by (simp add: ring_list_def)
    with True show ?thesis by (simp add: em8051_debug_trace_ring_pop_def)
  next
    case False
    then show ?thesis using ring_drop(2) [OF ok False] by (simp add: em8051_debug_trace_ring_pop_def)
  qed
qed

lemma zero_ring [simp]: "ring_ok zero_ring" "ring_list zero_ring = []"
  by (simp_all add: zero_ring_def ring_ok_def ring_list_def)

end
