(* ===== verification/Routing.thy ===== *)
theory Routing
  imports TraceRing
begin

text \<open>
  Routing against its specification.  For a valid configuration every identifier a point, a gate or a watch
  names has an index, so the -1 of the searches never reaches an array; routing an event delivers
  the summaries of the suppressions it ends, then one record per destination, in the order of the destinations,
  that lists the traces which took the event.
\<close>

subsection \<open>Searches\<close>

lemma index_of_found: "index_of p xs \<ge> 0 \<longleftrightarrow> (\<exists>x \<in> set xs. p x)"
proof -
  have "length (takeWhile (\<lambda>x. \<not> p x) xs) < length xs \<longleftrightarrow> (\<exists>x \<in> set xs. p x)"
    by (induction xs) auto
  then show ?thesis by (simp add: index_of_def Let_def)
qed

lemma index_of_nth:
  assumes "index_of p xs \<ge> 0"
  shows "nat (index_of p xs) < length xs \<and> p (xs ! nat (index_of p xs))"
  using assms nth_length_takeWhile [of "\<lambda>x. \<not> p x" xs] by (auto simp: index_of_def Let_def split: if_splits)

lemma increasing_by_sorted: "increasing_by key xs = sorted_wrt (<) (map key xs)"
proof -
  have "sorted_wrt (<) (map key xs) \<longleftrightarrow> (\<forall>i. Suc i < length xs \<longrightarrow> key (xs ! i) < key (xs ! Suc i))"
    by (auto simp: sorted_wrt_iff_nth_Suc_transp)
  also have "\<dots> \<longleftrightarrow> (\<forall>i < length xs. i = 0 \<or> key (xs ! (i - 1)) < key (xs ! i))"
    by (metis Suc_pred' diff_Suc_1 less_Suc_eq_0_disj not_gr_zero zero_less_Suc)
  finally show ?thesis by (auto simp: increasing_by_def list_all_iff)
qed

lemma strictly_increasing_distinct: "sorted_wrt (<) (xs :: 'a::linorder list) \<Longrightarrow> distinct xs"
  by (simp add: strict_sorted_iff)

lemma index_of_unique:
  assumes d: "distinct (map key xs)" and i: "i < length xs"
  shows "index_of (\<lambda>x. key x = key (xs ! i)) xs = int i"
proof -
  have f: "index_of (\<lambda>x. key x = key (xs ! i)) xs \<ge> 0" using i by (auto simp: index_of_found)
  note n = index_of_nth [OF f]
  then have "map key xs ! nat (index_of (\<lambda>x. key x = key (xs ! i)) xs) = map key xs ! i" using i by simp
  then show ?thesis using n i d f by (subst (asm) nth_eq_iff_index_eq) auto
qed

abbreviation trace_of :: "em8051_debug_trace_config \<Rightarrow> u32 \<Rightarrow> em8051_debug_trace_session" where
  "trace_of c ident \<equiv> cf_traces c ! nat (trace_index c ident)"

definition dx :: "em8051_debug_trace_config \<Rightarrow> u32 \<Rightarrow> nat" where
  "dx c ident = nat (destination_index c ident)"

lemma trace_of_id: "trace_index c ident \<ge> 0 \<Longrightarrow> tr_trace_id (trace_of c ident) = ident \<and> nat (trace_index c ident) < length (cf_traces c)"
  unfolding trace_index_def by (drule index_of_nth) simp

lemma trace_index_inj: "trace_index c a \<ge> 0 \<Longrightarrow> trace_index c b \<ge> 0 \<Longrightarrow> nat (trace_index c a) = nat (trace_index c b) \<Longrightarrow> a = b"
  by (metis trace_of_id)

lemma config_distinct:
  assumes "config_valid c"
  shows "distinct (map tr_trace_id (cf_traces c))" "distinct (map dst_destination_id (cf_destinations c))"
  using assms by (simp_all add: config_valid_def increasing_by_sorted strictly_increasing_distinct)

lemma dx_nth: "config_valid c \<Longrightarrow> i < length (cf_destinations c) \<Longrightarrow> dx c (dst_destination_id (cf_destinations c ! i)) = i"
  by (simp add: dx_def destination_index_def index_of_unique config_distinct)

lemma trace_destination:
  assumes "config_valid c" "trace_index c ident \<ge> 0"
  defines "d \<equiv> tr_destination_id (trace_of c ident)"
  shows "destination_index c d \<ge> 0 \<and> dx c d < length (cf_destinations c) \<and> dst_destination_id (cf_destinations c ! dx c d) = d"
proof -
  have "trace_of c ident \<in> set (cf_traces c)" using trace_of_id [OF assms(2)] by simp
  then have f: "destination_index c d \<ge> 0"
    using assms(1) by (auto simp: config_valid_def trace_valid_def list_all_iff d_def)
  then show ?thesis using index_of_nth [OF f [unfolded destination_index_def]] by (simp add: dx_def destination_index_def)
qed

subsection \<open>Pushing records\<close>

definition deliver_all :: "('x \<Rightarrow> 'w \<Rightarrow> 'w) option \<Rightarrow> 'x list \<Rightarrow> 'w \<Rightarrow> 'w" where
  "deliver_all g xs w = (case g of None \<Rightarrow> w | Some f \<Rightarrow> fold f xs w)"

lemma deliver_all_simps [simp]:
  "deliver_all g [] w = w" "deliver_all g (x # xs) w = deliver_all g xs (case g of None \<Rightarrow> w | Some f \<Rightarrow> f x w)"
  "deliver_all g (xs @ ys) w = deliver_all g ys (deliver_all g xs w)"
  by (simp_all add: deliver_all_def split: option.splits)

text \<open>The router after records went to the rings of their destinations.\<close>

definition pushed :: "em8051_debug_trace_record list \<Rightarrow> 'w em8051_debug_trace_router \<Rightarrow> 'w em8051_debug_trace_router" where
  "pushed xs r = r\<lparr>rt_rings := (\<lambda>d. fold ring_push (filter (\<lambda>x. dx (rt_config r) (rec_destination_id x) = d) xs) (rt_rings r d))\<rparr>"

lemma pushed_nil [simp]: "pushed [] r = r"
  by (simp add: pushed_def)

lemma pushed_append: "pushed (xs @ ys) r = pushed ys (pushed xs r)"
  by (simp add: pushed_def)

lemma router_pushed_fields [simp]:
  "rt_config (pushed xs r) = rt_config r" "rt_suppression (pushed xs r) = rt_suppression r" "rt_deliver (pushed xs r) = rt_deliver r"
  "rt_eligible (pushed xs r) = rt_eligible r" "rt_interrupt_depth (pushed xs r) = rt_interrupt_depth r"
  "rt_last_sequence (pushed xs r) = rt_last_sequence r" "rt_source_open (pushed xs r) = rt_source_open r"
  "rt_seen_trace_ids (pushed xs r) = rt_seen_trace_ids r" "rt_open_source_event (pushed xs r) = rt_open_source_event r"
  by (simp_all add: pushed_def)

lemma pushed_suppression: "pushed xs (r\<lparr>rt_suppression := s\<rparr>) = (pushed xs r)\<lparr>rt_suppression := s\<rparr>"
  by (simp add: pushed_def)

lemma push_record_pushed:
  assumes "d = dx (rt_config r) (rec_destination_id x)"
  shows "push_record d x (r, w) = (pushed [x] r, deliver_all (rt_deliver r) [x] w)"
proof -
  have "(rt_rings r)(d := ring_push x (rt_rings r d)) =
      (\<lambda>k. fold ring_push (filter (\<lambda>x. dx (rt_config r) (rec_destination_id x) = k) [x]) (rt_rings r k))"
    using assms by (auto simp: fun_eq_iff)
  then show ?thesis by (simp add: push_record_def pushed_def)
qed

subsection \<open>What routing promises\<close>

text \<open>
  A trace takes an event by its interrupt policy, which looks at the interrupt depth before and after the event: a trace that
  is suppressed during interrupts takes what begins or ends outside every interrupt, an interrupt-only trace what
  begins or ends inside one; reset and load are always taken.
\<close>

definition nesting_after :: "em8051_debug_event \<Rightarrow> nat \<Rightarrow> nat" where
  "nesting_after e d =
     (if ev_kind e = EM8051_DEBUG_EVENT_INTERRUPT_ENTER then d + 1 else if ev_kind e = EM8051_DEBUG_EVENT_INTERRUPT_EXIT then d - 1 else d)"

definition takes :: "em8051_debug_event \<Rightarrow> 'w em8051_debug_trace_router \<Rightarrow> u32 \<Rightarrow> bool" where
  "takes e r ident \<longleftrightarrow>
     (let p = tr_interrupt_policy (trace_of (rt_config r) ident); d = unat (rt_interrupt_depth r)
      in ev_kind e \<in> {EM8051_DEBUG_EVENT_RESET, EM8051_DEBUG_EVENT_LOAD} \<or> p = EM8051_DEBUG_TRACE_INCLUDE \<or>
         p = EM8051_DEBUG_TRACE_SUPPRESS_DURING_INTERRUPT \<and> (d = 0 \<or> nesting_after e d = 0) \<or>
         p = EM8051_DEBUG_TRACE_INTERRUPT_ONLY \<and> (d \<noteq> 0 \<or> nesting_after e d \<noteq> 0))"

lemma word_at_most:
  "(p :: u8) \<le> 2 \<Longrightarrow> p = 0 \<or> p = 1 \<or> p = 2" "unat d - 1 = 0 \<longleftrightarrow> d = 0 \<or> d = (1 :: u32)"
proof -
  show "(p :: u8) \<le> 2 \<Longrightarrow> p = 0 \<or> p = 1 \<or> p = 2"
    by (auto simp: word_le_nat_alt word_unat_eq_iff)
  have "unat d - 1 = 0 \<longleftrightarrow> unat d = 0 \<or> unat d = 1" by linarith
  then show "unat d - 1 = 0 \<longleftrightarrow> d = 0 \<or> d = (1 :: u32)"
    by (simp add: word_unat_eq_iff)
qed

lemma policy_takes:
  assumes "config_valid (rt_config r)" "trace_index (rt_config r) i \<ge> 0"
  shows "policy_accepts (tr_interrupt_policy (trace_of (rt_config r) i)) (ev_kind e) (rt_interrupt_depth r) = takes e r i"
proof -
  define p where "p = tr_interrupt_policy (trace_of (rt_config r) i)"
  define d where "d = rt_interrupt_depth r"
  have "trace_of (rt_config r) i \<in> set (cf_traces (rt_config r))" using trace_of_id [OF assms(2)] by simp
  then have "p \<le> 2" using assms(1) by (auto simp: config_valid_def list_all_iff trace_valid_def p_def)
  then have "p = 0 \<or> p = 1 \<or> p = 2" by (rule word_at_most)
  moreover have "unat d = 0 \<longleftrightarrow> d = 0" "unat d - 1 = 0 \<longleftrightarrow> d = 0 \<or> d = 1"
    by (rule unat_eq_zero, rule word_at_most(2))
  ultimately show ?thesis
    unfolding takes_def p_def [symmetric] d_def [symmetric] Let_def
    by (elim disjE) (auto simp: policy_accepts_def Let_def nesting_after_def)
qed

definition suppressed :: "'w em8051_debug_trace_router \<Rightarrow> u32 \<Rightarrow> bool" where
  "suppressed r ident \<longleftrightarrow> ss_active (rt_suppression r (nat (trace_index (rt_config r) ident))) \<noteq> 0"

definition summary_record :: "'w em8051_debug_trace_router \<Rightarrow> u32 \<Rightarrow> em8051_debug_trace_record" where
  "summary_record r ident = zero_trace_record\<lparr>rec_kind := EM8051_DEBUG_TRACE_RECORD_SUPPRESSION,
     rec_destination_id := tr_destination_id (trace_of (rt_config r) ident), rec_trace_ids := [ident],
     rec_suppression := ss_value (rt_suppression r (nat (trace_index (rt_config r) ident)))\<rparr>"

definition event_record :: "em8051_debug_event \<Rightarrow> em8051_debug_watch_result option \<Rightarrow> u32 \<Rightarrow> u32 list \<Rightarrow> em8051_debug_trace_record" where
  "event_record e watch d ids = \<lparr>rec_event = e, rec_watch_result = (case watch of Some wr \<Rightarrow> wr | None \<Rightarrow> zero_watch_result),
     rec_suppression = zero_suppression, rec_trace_ids = ids, rec_destination_id = d, rec_kind = EM8051_DEBUG_TRACE_RECORD_EVENT\<rparr>"

definition summaries :: "'w em8051_debug_trace_router \<Rightarrow> u32 list \<Rightarrow> em8051_debug_trace_record list" where
  "summaries r acc = map (summary_record r) (filter (suppressed r) acc)"

abbreviation bound_for :: "em8051_debug_trace_config \<Rightarrow> u32 list \<Rightarrow> u32 \<Rightarrow> u32 list" where
  "bound_for c acc d \<equiv> filter (\<lambda>i. tr_destination_id (trace_of c i) = d) acc"

definition event_records :: "em8051_debug_event \<Rightarrow> em8051_debug_watch_result option \<Rightarrow> em8051_debug_trace_config \<Rightarrow> u32 list \<Rightarrow> em8051_debug_trace_record list" where
  "event_records e watch c acc =
     map (\<lambda>d. event_record e watch d (bound_for c acc d)) (filter (\<lambda>d. bound_for c acc d \<noteq> []) (map dst_destination_id (cf_destinations c)))"

text \<open>
  The suppression of a trace an event is withheld from: it starts with the event, or goes on to it with a count that
  stays at the largest value and the greatest depth met.
\<close>

definition continued ::
    "em8051_debug_event \<Rightarrow> u32 \<Rightarrow> em8051_debug_trace_session \<Rightarrow> em8051_debug_trace_suppression_state \<Rightarrow> em8051_debug_trace_suppression_state" where
  "continued e d t s =
     (if ss_active s = 0
      then \<lparr>ss_value = \<lparr>su_first_sequence = ev_sequence e, su_last_sequence = ev_sequence e, su_count = 1, su_trace_id = tr_trace_id t,
              su_entry_depth = d, su_maximum_depth = d, su_interrupt_policy = tr_interrupt_policy t\<rparr>, ss_active = 1\<rparr>
      else s\<lparr>ss_value := (ss_value s)\<lparr>su_last_sequence := ev_sequence e,
              su_count := (if su_count (ss_value s) = - 1 then - 1 else su_count (ss_value s) + 1),
              su_maximum_depth := max (su_maximum_depth (ss_value s)) d\<rparr>\<rparr>)"

text \<open>The suppressions afterwards: ended where a trace took the event, continued where it was withheld.\<close>

definition suppression_after ::
    "em8051_debug_event \<Rightarrow> 'w em8051_debug_trace_router \<Rightarrow> u32 list \<Rightarrow> u32 list \<Rightarrow> nat \<Rightarrow> em8051_debug_trace_suppression_state" where
  "suppression_after e r acc kept ti =
     (if ti \<in> (\<lambda>i. nat (trace_index (rt_config r) i)) ` {i \<in> set acc. suppressed r i} then zero_suppression_state
      else if ti \<in> (\<lambda>i. nat (trace_index (rt_config r) i)) ` set kept
        then continued e (rt_interrupt_depth r) (cf_traces (rt_config r) ! ti) (rt_suppression r ti)
      else rt_suppression r ti)"

text \<open>
  The callbacks are asked for the traces in order, switched-on ones only, and a trace that takes the event first has its
  suppression summary delivered, so that an answer may depend on every earlier answer and delivery.  The result is the
  state of the callbacks after the loop and the traces found eligible.
\<close>

definition turned_on :: "u8 list option \<Rightarrow> em8051_debug_trace_config \<Rightarrow> u32 \<Rightarrow> bool" where
  "turned_on snapshot c ident \<longleftrightarrow> (case snapshot of Some sn \<Rightarrow> sn ! nat (trace_index c ident) | None \<Rightarrow> tr_enabled (trace_of c ident)) \<noteq> 0"

definition ask :: "'w em8051_debug_trace_router \<Rightarrow> em8051_debug_event \<Rightarrow> u32 \<Rightarrow> 'w \<Rightarrow> bool \<times> 'w" where
  "ask r e ident w = (case rt_eligible r of None \<Rightarrow> (True, w) | Some f \<Rightarrow> f ident e w)"

definition consult_one ::
    "em8051_debug_event \<Rightarrow> u8 list option \<Rightarrow> 'w em8051_debug_trace_router \<Rightarrow> u32 \<Rightarrow> 'w \<times> u32 list \<Rightarrow> 'w \<times> u32 list" where
  "consult_one e snapshot r i = (\<lambda>(w, found).
     if \<not> turned_on snapshot (rt_config r) i then (w, found)
     else case ask r e i w of
       (False, w1) \<Rightarrow> (w1, found)
     | (True, w1) \<Rightarrow> (if takes e r i then deliver_all (rt_deliver r) (summaries r [i]) w1 else w1, found @ [i]))"

definition consult :: "em8051_debug_event \<Rightarrow> u8 list option \<Rightarrow> 'w em8051_debug_trace_router \<Rightarrow> u32 list \<Rightarrow> 'w \<Rightarrow> 'w \<times> u32 list" where
  "consult e snapshot r ids w = fold (consult_one e snapshot r) ids (w, [])"

lemma consult_subset: "set (snd (consult e snapshot r ids w)) \<subseteq> set ids"
  unfolding consult_def by (induction ids rule: rev_induct) (auto simp: consult_one_def split: prod.splits bool.splits if_splits)

subsection \<open>The routing loop\<close>

definition built :: "em8051_debug_event \<Rightarrow> em8051_debug_watch_result option \<Rightarrow> em8051_debug_trace_config \<Rightarrow> u32 list \<Rightarrow> nat \<Rightarrow> em8051_debug_trace_record option" where
  "built e watch c acc di =
     (let ids = filter (\<lambda>i. dx c (tr_destination_id (trace_of c i)) = di) acc
      in if ids = [] then None else Some (event_record e watch (tr_destination_id (trace_of c (hd ids))) ids))"

lemma built_snoc:
  "built e watch c (acc @ [i]) =
     (built e watch c acc)(dx c (tr_destination_id (trace_of c i)) :=
        Some (let x = (case built e watch c acc (dx c (tr_destination_id (trace_of c i))) of Some x \<Rightarrow> x
                       | None \<Rightarrow> event_record e watch (tr_destination_id (trace_of c i)) [])
              in x\<lparr>rec_trace_ids := rec_trace_ids x @ [i]\<rparr>))"
  by (auto simp: fun_eq_iff built_def event_record_def Let_def hd_append)

lemma suppression_add_other: "k \<noteq> ti \<Longrightarrow> rt_suppression (suppression_add ti e r) k = rt_suppression r k"
  by (simp add: suppression_add_def Let_def)

lemma suppression_add_fields:
  "suppression_add ti e r = r\<lparr>rt_suppression := (rt_suppression r)(ti := rt_suppression (suppression_add ti e r) ti)\<rparr>"
  by (simp add: suppression_add_def Let_def)

lemma suppression_add_continued:
  "rt_suppression (suppression_add ti e r) ti = continued e (rt_interrupt_depth r) (cf_traces (rt_config r) ! ti) (rt_suppression r ti)"
  by (auto simp: suppression_add_def Let_def continued_def zero_suppression_def saturated_increment_def max_def word_gt_0)

lemma suppression_emit_inactive: "ss_active (rt_suppression r ti) = 0 \<Longrightarrow> suppression_emit ti (r, w) = (r, w)"
  by (simp add: suppression_emit_def)

lemma suppression_emit_active:
  assumes "trace_index (rt_config r) i \<ge> 0" "suppressed r i"
  defines "ti \<equiv> nat (trace_index (rt_config r) i)"
  shows "suppression_emit ti (r, w) =
    ((pushed [summary_record r i] r)\<lparr>rt_suppression := (rt_suppression r)(ti := zero_suppression_state)\<rparr>,
     deliver_all (rt_deliver r) [summary_record r i] w)"
proof -
  have "tr_trace_id (cf_traces (rt_config r) ! ti) = i" using trace_of_id [OF assms(1)] by (simp add: ti_def)
  moreover have "push_record (nat (destination_index (rt_config r) (tr_destination_id (trace_of (rt_config r) i)))) (summary_record r i) (r, w) =
      (pushed [summary_record r i] r, deliver_all (rt_deliver r) [summary_record r i] w)"
    by (rule push_record_pushed) (simp add: summary_record_def dx_def)
  ultimately show ?thesis using assms(2)
    by (simp add: suppression_emit_def Let_def suppressed_def ti_def summary_record_def)
qed

lemma suppression_after_fresh:
  assumes v: "\<forall>j \<in> set acc \<union> set kept. trace_index (rt_config r) j \<ge> 0" and i: "trace_index (rt_config r) i \<ge> 0" "i \<notin> set acc \<union> set kept"
  defines "ti \<equiv> nat (trace_index (rt_config r) i)"
  shows "suppression_after e r acc kept ti = rt_suppression r ti"
    "suppression_after e r acc (kept @ [i]) = (suppression_after e r acc kept)(ti := continued e (rt_interrupt_depth r) (cf_traces (rt_config r) ! ti) (rt_suppression r ti))"
    "suppressed r i \<Longrightarrow> suppression_after e r (acc @ [i]) kept = (suppression_after e r acc kept)(ti := zero_suppression_state)"
    "\<not> suppressed r i \<Longrightarrow> suppression_after e r (acc @ [i]) kept = suppression_after e r acc kept"
proof -
  have fresh: "ti \<notin> (\<lambda>i. nat (trace_index (rt_config r) i)) ` set acc" "ti \<notin> (\<lambda>i. nat (trace_index (rt_config r) i)) ` set kept"
    using v i trace_index_inj [of "rt_config r" i] unfolding ti_def by blast+
  have sub: "{j. (j = i \<or> j \<in> set acc) \<and> suppressed r j} = (if suppressed r i then insert i {j \<in> set acc. suppressed r j} else {j \<in> set acc. suppressed r j})"
    by auto
  show "suppression_after e r acc kept ti = rt_suppression r ti"
    using fresh by (auto simp: suppression_after_def)
  show "suppression_after e r acc (kept @ [i]) = (suppression_after e r acc kept)(ti := continued e (rt_interrupt_depth r) (cf_traces (rt_config r) ! ti) (rt_suppression r ti))"
    using fresh by (auto simp: suppression_after_def fun_eq_iff ti_def)
  show "suppressed r i \<Longrightarrow> suppression_after e r (acc @ [i]) kept = (suppression_after e r acc kept)(ti := zero_suppression_state)"
    "\<not> suppressed r i \<Longrightarrow> suppression_after e r (acc @ [i]) kept = suppression_after e r acc kept"
    by (auto simp: suppression_after_def fun_eq_iff ti_def sub)
qed

lemma summary_record_local:
  assumes "rt_config r' = rt_config r"
    "rt_suppression r' (nat (trace_index (rt_config r) i)) = rt_suppression r (nat (trace_index (rt_config r) i))"
  shows "summary_record r' i = summary_record r i" "suppressed r' i = suppressed r i"
  using assms by (simp_all add: summary_record_def suppressed_def)

lemma route_one_cases:
  assumes c: "config_valid (rt_config r)" and i: "trace_index (rt_config r) i \<ge> 0"
  defines "c \<equiv> rt_config r" and "ti \<equiv> nat (trace_index (rt_config r) i)"
  shows "\<not> turned_on snapshot c i \<Longrightarrow> route_one e watch snapshot i (r, w, records) = (r, w, records)"
    "turned_on snapshot c i \<Longrightarrow> ask r e i w = (False, w1) \<Longrightarrow> route_one e watch snapshot i (r, w, records) = (r, w1, records)"
    "turned_on snapshot c i \<Longrightarrow> ask r e i w = (True, w1) \<Longrightarrow> \<not> takes e r i \<Longrightarrow>
       route_one e watch snapshot i (r, w, records) = (suppression_add ti e r, w1, records)"
    "turned_on snapshot c i \<Longrightarrow> ask r e i w = (True, w1) \<Longrightarrow> takes e r i \<Longrightarrow> suppression_emit ti (r, w1) = (r', w') \<Longrightarrow> rt_config r' = c \<Longrightarrow>
       route_one e watch snapshot i (r, w, records) = (r', w',
         records(dx c (tr_destination_id (trace_of c i)) :=
           Some (let x = (case records (dx c (tr_destination_id (trace_of c i))) of Some x \<Rightarrow> x
                          | None \<Rightarrow> event_record e watch (tr_destination_id (trace_of c i)) [])
                 in x\<lparr>rec_trace_ids := rec_trace_ids x @ [i]\<rparr>)))"
proof -
  note ident = trace_of_id [OF i, THEN conjunct1] policy_takes [OF c i, of e]
  have new: "zero_trace_record\<lparr>rec_kind := EM8051_DEBUG_TRACE_RECORD_EVENT, rec_destination_id := d, rec_event := e,
      rec_watch_result := (case watch of Some wr \<Rightarrow> wr | None \<Rightarrow> zero_watch_result)\<rparr> = event_record e watch d []" for d
    by (simp add: event_record_def zero_trace_record_def)
  have eq: "route_one e watch snapshot i (r, w, records) =
      (if \<not> turned_on snapshot c i then (r, w, records)
       else case ask r e i w of (ok, w1) \<Rightarrow>
         if \<not> ok then (r, w1, records) else if \<not> takes e r i then (suppression_add ti e r, w1, records)
         else case suppression_emit ti (r, w1) of (r', w') \<Rightarrow>
           let di = nat (destination_index (rt_config r') (tr_destination_id (trace_of c i)));
               x = (case records di of Some x \<Rightarrow> x | None \<Rightarrow> event_record e watch (tr_destination_id (trace_of c i)) [])
           in (r', w', records(di := Some (x\<lparr>rec_trace_ids := rec_trace_ids x @ [i]\<rparr>))))"
    unfolding route_one_def prod.case Let_def ident ask_def turned_on_def c_def ti_def new
    by simp
  show "\<not> turned_on snapshot c i \<Longrightarrow> route_one e watch snapshot i (r, w, records) = (r, w, records)"
    "turned_on snapshot c i \<Longrightarrow> ask r e i w = (False, w1) \<Longrightarrow> route_one e watch snapshot i (r, w, records) = (r, w1, records)"
    "turned_on snapshot c i \<Longrightarrow> ask r e i w = (True, w1) \<Longrightarrow> \<not> takes e r i \<Longrightarrow>
       route_one e watch snapshot i (r, w, records) = (suppression_add ti e r, w1, records)"
    "turned_on snapshot c i \<Longrightarrow> ask r e i w = (True, w1) \<Longrightarrow> takes e r i \<Longrightarrow> suppression_emit ti (r, w1) = (r', w') \<Longrightarrow> rt_config r' = c \<Longrightarrow>
       route_one e watch snapshot i (r, w, records) = (r', w',
         records(dx c (tr_destination_id (trace_of c i)) :=
           Some (let x = (case records (dx c (tr_destination_id (trace_of c i))) of Some x \<Rightarrow> x
                          | None \<Rightarrow> event_record e watch (tr_destination_id (trace_of c i)) [])
                 in x\<lparr>rec_trace_ids := rec_trace_ids x @ [i]\<rparr>)))"
    unfolding eq by (simp_all add: dx_def Let_def)
qed

definition taken :: "em8051_debug_event \<Rightarrow> u8 list option \<Rightarrow> 'w em8051_debug_trace_router \<Rightarrow> u32 list \<Rightarrow> 'w \<Rightarrow> u32 list" where
  "taken e snapshot r ids w = filter (takes e r) (snd (consult e snapshot r ids w))"

definition withheld :: "em8051_debug_event \<Rightarrow> u8 list option \<Rightarrow> 'w em8051_debug_trace_router \<Rightarrow> u32 list \<Rightarrow> 'w \<Rightarrow> u32 list" where
  "withheld e snapshot r ids w = filter (\<lambda>i. \<not> takes e r i) (snd (consult e snapshot r ids w))"

text \<open>One more trace, as the consultation and the two groups see it.\<close>

lemma consult_snoc:
  assumes "consult e snapshot r ids w = (w1, found)"
  shows "\<not> turned_on snapshot (rt_config r) i \<Longrightarrow> consult e snapshot r (ids @ [i]) w = (w1, found)"
    "turned_on snapshot (rt_config r) i \<Longrightarrow> ask r e i w1 = (False, w2) \<Longrightarrow> consult e snapshot r (ids @ [i]) w = (w2, found)"
    "turned_on snapshot (rt_config r) i \<Longrightarrow> ask r e i w1 = (True, w2) \<Longrightarrow> \<not> takes e r i \<Longrightarrow> consult e snapshot r (ids @ [i]) w = (w2, found @ [i])"
    "turned_on snapshot (rt_config r) i \<Longrightarrow> ask r e i w1 = (True, w2) \<Longrightarrow> takes e r i \<Longrightarrow>
       consult e snapshot r (ids @ [i]) w = (deliver_all (rt_deliver r) (summaries r [i]) w2, found @ [i])"
  using assms by (simp_all add: consult_def consult_one_def)

lemma suppression_emit_summaries:
  assumes i: "trace_index (rt_config r) i \<ge> 0"
  defines "ti \<equiv> nat (trace_index (rt_config r) i)"
  shows "suppression_emit ti (r, w) =
    ((pushed (summaries r [i]) r)\<lparr>rt_suppression := (if suppressed r i then (rt_suppression r)(ti := zero_suppression_state) else rt_suppression r)\<rparr>,
     deliver_all (rt_deliver r) (summaries r [i]) w)"
proof (cases "suppressed r i")
  case True
  then show ?thesis using suppression_emit_active [OF i True, of w] by (simp add: ti_def summaries_def del: deliver_all_simps(2))
next
  case False
  then have "ss_active (rt_suppression r ti) = 0" by (simp add: suppressed_def ti_def)
  from suppression_emit_inactive [OF this] show ?thesis using False by (simp add: summaries_def)
qed

lemma route_fold:
  assumes c: "config_valid (rt_config r)" and "\<forall>i \<in> set ids. trace_index (rt_config r) i \<ge> 0" "distinct ids"
  shows "fold (route_one e watch snapshot) ids (r, w, \<lambda>_. None) =
    ((pushed (summaries r (taken e snapshot r ids w)) r)
       \<lparr>rt_suppression := suppression_after e r (taken e snapshot r ids w) (withheld e snapshot r ids w)\<rparr>,
     fst (consult e snapshot r ids w),
     built e watch (rt_config r) (taken e snapshot r ids w))"
  using assms(2,3)
proof (induction ids rule: rev_induct)
  case Nil
  show ?case by (auto simp: taken_def withheld_def consult_def summaries_def built_def suppression_after_def fun_eq_iff)
next
  case (snoc i ids)
  obtain w1 found where con: "consult e snapshot r ids w = (w1, found)" by (cases "consult e snapshot r ids w")
  define acc where "acc = filter (takes e r) found"
  define kept where "kept = filter (\<lambda>i. \<not> takes e r i) found"
  define r1 where "r1 = (pushed (summaries r acc) r)\<lparr>rt_suppression := suppression_after e r acc kept\<rparr>"
  define ti where "ti = nat (trace_index (rt_config r) i)"
  have IH: "fold (route_one e watch snapshot) ids (r, w, \<lambda>_. None) = (r1, w1, built e watch (rt_config r) acc)"
    using snoc by (simp add: r1_def acc_def kept_def taken_def withheld_def con)
  have "set found \<subseteq> set ids" using consult_subset [of e snapshot r ids w] by (simp add: con)
  then have v: "\<forall>j \<in> set acc \<union> set kept. trace_index (rt_config r) j \<ge> 0" and i: "trace_index (rt_config r) i \<ge> 0" "i \<notin> set acc \<union> set kept"
    using snoc.prems by (auto simp: acc_def kept_def)
  note fresh = suppression_after_fresh [OF v i, where e = e, folded ti_def]
  have c1: "rt_config r1 = rt_config r" "rt_interrupt_depth r1 = rt_interrupt_depth r" "rt_deliver r1 = rt_deliver r" "rt_suppression r1 ti = rt_suppression r ti"
    by (simp_all add: r1_def fresh(1))
  have t1: "takes e r1 i = takes e r i" "ask r1 e' i w' = ask r e' i w'" for e' w'
    by (simp add: takes_def c1) (simp add: ask_def r1_def)
  have loc: "summaries r1 [i] = summaries r [i]" "suppressed r1 i = suppressed r i"
    using summary_record_local [of r1 r i] c1 by (simp_all add: ti_def summaries_def)
  have i1: "trace_index (rt_config r1) i \<ge> 0" "config_valid (rt_config r1)" using i(1) c by (simp_all add: c1)
  note one = route_one_cases [OF i1(2,1), where e = e, unfolded c1(1) t1, folded ti_def]
  note sn = consult_snoc [OF con, of i]
  note grp = taken_def withheld_def acc_def [symmetric] kept_def [symmetric]
  obtain ok w2 where a: "ask r e i w1 = (ok, w2)" by (cases "ask r e i w1")
  consider "\<not> turned_on snapshot (rt_config r) i" | "turned_on snapshot (rt_config r) i" "\<not> ok"
    | "turned_on snapshot (rt_config r) i" ok "\<not> takes e r i" | "turned_on snapshot (rt_config r) i" ok "takes e r i" by blast
  then show ?case
  proof cases
    case 1
    show ?thesis using IH by (simp add: one(1) [OF 1] grp sn(1) [OF 1]) (simp add: r1_def)
  next
    case 2
    then have a2: "ask r e i w1 = (False, w2)" using a by simp
    show ?thesis using IH by (simp add: one(2) [OF 2(1) a2] grp sn(2) [OF 2(1) a2]) (simp add: r1_def)
  next
    case 3
    then have a2: "ask r e i w1 = (True, w2)" using a by simp
    have "suppression_add ti e r1 =
        r1\<lparr>rt_suppression := (rt_suppression r1)(ti := continued e (rt_interrupt_depth r) (cf_traces (rt_config r) ! ti) (rt_suppression r ti))\<rparr>"
      using suppression_add_fields [of ti e r1] by (simp add: suppression_add_continued c1)
    then show ?thesis using IH 3(3)
      by (simp add: one(3) [OF 3(1) a2 3(3)] grp sn(3) [OF 3(1) a2 3(3)]) (simp add: r1_def fresh(2) fun_upd_def)
  next
    case 4
    then have a2: "ask r e i w1 = (True, w2)" using a by simp
    note em = suppression_emit_summaries [OF i1(1), of w2, unfolded loc c1(1), folded ti_def]
    have s: "suppression_after e r (acc @ [i]) kept =
        (if suppressed r i then (suppression_after e r acc kept)(ti := zero_suppression_state) else suppression_after e r acc kept)"
      using fresh(3,4) by simp
    have sm: "summaries r (acc @ [i]) = summaries r acc @ summaries r [i]" by (simp add: summaries_def)
    show ?thesis using IH 4(3) c1
      by (simp add: one(4) [OF 4(1) a2 4(3) em] grp sn(4) [OF 4(1) a2 4(3)] built_snoc [of e watch "rt_config r" acc i, folded ti_def] s sm)
         (simp add: r1_def pushed_append pushed_suppression fun_upd_def)
  qed
qed

lemma built_destination:
  assumes c: "config_valid c" and v: "\<forall>j \<in> set acc. trace_index c j \<ge> 0" and i: "i < length (cf_destinations c)"
  defines "d \<equiv> dst_destination_id (cf_destinations c ! i)"
  shows "built e watch c acc i = (if bound_for c acc d = [] then None else Some (event_record e watch d (bound_for c acc d)))"
proof -
  have "dx c (tr_destination_id (trace_of c j)) = i \<longleftrightarrow> tr_destination_id (trace_of c j) = d" if "j \<in> set acc" for j
    using trace_destination [OF c, of j] dx_nth [OF c i] v that by (auto simp: d_def)
  then have f: "filter (\<lambda>j. dx c (tr_destination_id (trace_of c j)) = i) acc = bound_for c acc d" by (simp cong: filter_cong)
  have "tr_destination_id (trace_of c (hd (bound_for c acc d))) = d" if "bound_for c acc d \<noteq> []"
    using hd_in_set [OF that] by simp
  then show ?thesis by (simp add: built_def f Let_def)
qed

lemma push_built:
  assumes c: "config_valid (rt_config r)" and v: "\<forall>j \<in> set acc. trace_index (rt_config r) j \<ge> 0"
  shows "fold (\<lambda>i rw. case built e watch (rt_config r) acc i of None \<Rightarrow> rw | Some x \<Rightarrow> push_record i x rw) [0..<length (cf_destinations (rt_config r))] (r, w) =
    (pushed (event_records e watch (rt_config r) acc) r, deliver_all (rt_deliver r) (event_records e watch (rt_config r) acc) w)"
proof -
  let ?c = "rt_config r"
  let ?rec = "\<lambda>d. event_record e watch d (bound_for ?c acc d)"
  define xs where "xs n = map ?rec (filter (\<lambda>d. bound_for ?c acc d \<noteq> []) (map dst_destination_id (take n (cf_destinations ?c))))" for n
  have "fold (\<lambda>i rw. case built e watch ?c acc i of None \<Rightarrow> rw | Some x \<Rightarrow> push_record i x rw) [0..<n] (r, w) = (pushed (xs n) r, deliver_all (rt_deliver r) (xs n) w)"
    if "n \<le> length (cf_destinations ?c)" for n
    using that
  proof (induction n)
    case (Suc n)
    define d where "d = dst_destination_id (cf_destinations ?c ! n)"
    have n: "n < length (cf_destinations ?c)" using Suc.prems by simp
    note b = built_destination [OF c v n, of e watch, folded d_def]
    have x: "xs (Suc n) = xs n @ (if bound_for ?c acc d = [] then [] else [?rec d])"
      using n by (simp add: xs_def take_Suc_conv_app_nth d_def)
    have p: "push_record n (?rec d) (r1, w1) = (pushed [?rec d] r1, deliver_all (rt_deliver r1) [?rec d] w1)" if "rt_config r1 = ?c" for r1 w1
      by (rule push_record_pushed) (simp add: event_record_def that d_def dx_nth [OF c n])
    show ?case using Suc.IH n by (simp add: b x pushed_append p)
  qed (simp add: xs_def)
  from this [OF order_refl] show ?thesis by (simp add: xs_def event_records_def)
qed

definition route_stream ::
    "em8051_debug_event \<Rightarrow> em8051_debug_watch_result option \<Rightarrow> 'w em8051_debug_trace_router \<Rightarrow> u32 list \<Rightarrow> em8051_debug_trace_record list" where
  "route_stream e watch r acc = summaries r acc @ event_records e watch (rt_config r) acc"

definition ids_routable :: "em8051_debug_trace_config \<Rightarrow> u32 list \<Rightarrow> bool" where
  "ids_routable c ids \<longleftrightarrow> sorted_wrt (<) ids \<and> 0 \<notin> set ids \<and> (\<forall>i \<in> set ids. trace_index c i \<ge> 0)"

lemma route_guard:
  "list_all (\<lambda>i. ids ! i \<noteq> 0 \<and> trace_index c (ids ! i) \<ge> 0 \<and> (i = 0 \<or> ids ! (i - 1) < ids ! i)) [0..<length ids] = ids_routable c ids"
proof -
  have "sorted_wrt (<) ids \<longleftrightarrow> (\<forall>i < length ids. i = 0 \<or> ids ! (i - 1) < ids ! i)"
    using increasing_by_sorted [of "\<lambda>i. i" ids] by (auto simp: increasing_by_def list_all_iff)
  then show ?thesis by (auto simp: ids_routable_def list_all_iff in_set_conv_nth all_set_conv_all_nth)
qed

text \<open>Routing in closed form, for any callbacks.\<close>

definition routed ::
    "em8051_debug_event \<Rightarrow> em8051_debug_watch_result option \<Rightarrow> u8 list option \<Rightarrow> u32 list \<Rightarrow>
     'w em8051_debug_trace_router \<Rightarrow> 'w \<Rightarrow> 'w em8051_debug_trace_router" where
  "routed e watch snapshot ids r w =
     (pushed (route_stream e watch r (taken e snapshot r ids w)) r)
       \<lparr>rt_suppression := suppression_after e r (taken e snapshot r ids w) (withheld e snapshot r ids w)\<rparr>"

lemma route_ids_routed:
  assumes c: "config_valid (rt_config r)"
  shows "route_ids e ids watch snapshot (r, w) =
    (if ids_routable (rt_config r) ids
     then (EM8051_DEBUG_EVENT_OK, routed e watch snapshot ids r w,
           deliver_all (rt_deliver r) (event_records e watch (rt_config r) (taken e snapshot r ids w)) (fst (consult e snapshot r ids w)))
     else (EM8051_DEBUG_EVENT_INVALID_ARGUMENT, r, w))"
proof (cases "ids_routable (rt_config r) ids")
  case True
  define acc where "acc = taken e snapshot r ids w"
  have "set acc \<subseteq> set ids" using consult_subset [of e snapshot r ids w] by (auto simp: acc_def taken_def)
  then have v: "\<forall>i \<in> set ids. trace_index (rt_config r) i \<ge> 0" "distinct ids" "\<forall>i \<in> set acc. trace_index (rt_config r) i \<ge> 0"
    using True by (auto simp: ids_routable_def strictly_increasing_distinct)
  define r1 where "r1 = (pushed (summaries r acc) r)\<lparr>rt_suppression := suppression_after e r acc (withheld e snapshot r ids w)\<rparr>"
  have c1: "rt_config r1 = rt_config r" "rt_deliver r1 = rt_deliver r" by (simp_all add: r1_def)
  note f = route_fold [OF c v(1,2), of e watch snapshot w, folded acc_def, folded r1_def]
  note p = push_built [of r1 acc e watch, unfolded c1, OF c v(3)]
  have "pushed (event_records e watch (rt_config r) acc) r1 = routed e watch snapshot ids r w"
    unfolding routed_def acc_def [symmetric] by (simp add: route_stream_def pushed_append r1_def pushed_suppression)
  then show ?thesis unfolding route_ids_def prod.case route_guard
    by (simp add: True f c1 p acc_def [symmetric])
next
  case False
  then show ?thesis unfolding route_ids_def prod.case route_guard by simp
qed

end
