(* ===== verification/Watches.thy ===== *)
theory Watches
  imports DebugEvent "HOL-Library.Multiset"
begin

text \<open>
  Watch matching against its specification: comparisons are comparisons of integers, a table holds valid
  watches in strictly increasing order of their identifiers, and a match reports exactly the watches
  that fire, with the sorted set of their routes.
\<close>

subsection \<open>Comparisons as comparisons of integers\<close>

definition int_value :: "u8 \<Rightarrow> u8 \<Rightarrow> u64 \<Rightarrow> int" where
  "int_value is_signed width v =
     (if is_signed \<noteq> 0 then signed_take_bit (unat width - 1) (uint v) else take_bit (unat width) (uint v))"

definition compare_int :: "u8 \<Rightarrow> int \<Rightarrow> int \<Rightarrow> bool" where
  "compare_int cmp a b \<longleftrightarrow>
     cmp = 0 \<and> a = b \<or> cmp = 1 \<and> a \<noteq> b \<or> cmp = 2 \<and> a < b \<or> cmp = 3 \<and> a \<le> b \<or> cmp = 4 \<and> a > b \<or> cmp = 5 \<and> a \<ge> b"

lemma width_unat:
  assumes "value_width_valid w"
  shows "0 < unat w" "unat w \<le> 64" "w = 64 \<longleftrightarrow> unat w = 64"
  using assms by (auto simp: value_width_valid_def)

lemma width_mask_take_bit:
  assumes "value_width_valid w"
  shows "v AND width_mask w = take_bit (unat w) v"
proof (cases "w = 64")
  case True
  then show ?thesis by (simp add: width_mask_def take_bit_word_eq_self)
next
  case False
  then show ?thesis by (simp add: width_mask_def take_bit_eq_mask mask_eq_exp_minus_1)
qed

lemma sign_bit: "(v AND push_bit n 1 \<noteq> (0 :: u64)) = bit v n"
  by (simp add: bit_iff_and_push_bit_not_eq_0)

lemma uint_low: "uint (take_bit n (v :: u64)) = take_bit n (uint v)"
  by (simp add: unsigned_take_bit_eq)

lemma order_of_sgn: "order_of l r = sgn (uint l - uint r)"
  by (simp add: order_of_def word_less_def)

lemma signed_low: "0 < n \<Longrightarrow> signed_take_bit (n - 1) k = take_bit n k - (if bit k (n - 1) then 2 ^ n else 0)" for k :: int
  using signed_take_bit_eq_take_bit_minus [of "n - 1" k] by simp

lemma value_ordering_int:
  assumes w: "value_width_valid w"
  shows "value_ordering sg w (take_bit (unat w) l) (take_bit (unat w) r) = sgn (int_value sg w l - int_value sg w r)"
proof (cases "sg = 0")
  case True
  then show ?thesis by (simp add: value_ordering_def order_of_sgn uint_low int_value_def)
next
  case False
  define n where "n = unat w"
  have n: "0 < n" "n - 1 < 64" using width_unat [OF w] by (simp_all add: n_def)
  have b: "bit (take_bit n v) (n - 1) = bit (uint v) (n - 1)" for v :: u64
    using n by (simp add: bit_take_bit_iff bit_uint_iff)
  have shift: "(if x \<noteq> y then (if x then -1 else 1) else sgn (a - c)) = sgn ((a - (if x then p else 0)) - (c - (if y then p else 0)))"
    if "0 \<le> a" "a < p" "0 \<le> c" "c < p" for a c p :: int and x y using that by (auto simp: sgn_if)
  have "value_ordering sg w (take_bit n l) (take_bit n r) =
      (if bit (uint l) (n - 1) \<noteq> bit (uint r) (n - 1) then (if bit (uint l) (n - 1) then -1 else 1)
       else sgn (take_bit n (uint l) - take_bit n (uint r)))"
    using False unfolding value_ordering_def n_def [symmetric] sign_bit b Let_def order_of_sgn uint_low by simp
  also have "\<dots> = sgn (int_value sg w l - int_value sg w r)"
    using False unfolding int_value_def n_def [symmetric] signed_low [OF n(1)] by (subst shift [where p = "2 ^ n"]) simp_all
  finally show ?thesis unfolding n_def .
qed

lemma compare_value_int:
  assumes "value_width_valid (wc_width c)"
  shows "compare_value v c \<longleftrightarrow>
    dv_known v \<noteq> 0 \<and> dv_width v = wc_width c \<and> dv_is_signed v = wc_is_signed c \<and>
    compare_int (wc_comparison c) (int_value (wc_is_signed c) (wc_width c) (dv_value v)) (int_value (wc_is_signed c) (wc_width c) (wc_constant c))"
proof (cases "dv_known v = 0 \<or> dv_width v \<noteq> wc_width c \<or> dv_is_signed v \<noteq> wc_is_signed c")
  case False
  then show ?thesis
    by (simp add: compare_value_def width_mask_take_bit [OF assms] value_ordering_int [OF assms] compare_int_def Let_def) (auto simp: sgn_if)
qed (auto simp: compare_value_def)

subsection \<open>Conditions and actions\<close>

definition condition_holds :: "em8051_debug_watch_condition \<Rightarrow> em8051_debug_event \<Rightarrow> bool" where
  "condition_holds c e \<longleftrightarrow> wc_present c = 0 \<or>
     (let v = (if wc_operand c = 0 then ev_old_value e else ev_new_value e)
      in dv_known v \<noteq> 0 \<and> dv_width v = wc_width c \<and> dv_is_signed v = wc_is_signed c \<and>
         compare_int (wc_comparison c) (int_value (wc_is_signed c) (wc_width c) (dv_value v))
           (int_value (wc_is_signed c) (wc_width c) (wc_constant c)))"

lemma condition_matches_int: "action_valid a \<Longrightarrow> condition_matches (wa_condition a) e = condition_holds (wa_condition a) e"
  by (auto simp: action_valid_def constant_valid_def condition_matches_def condition_holds_def compare_value_int Let_def split: if_splits)

definition action_fires :: "em8051_debug_event \<Rightarrow> em8051_debug_watch_action \<Rightarrow> bool" where
  "action_fires e a \<longleftrightarrow> condition_holds (wa_condition a) e"

definition fired :: "em8051_debug_watch \<Rightarrow> em8051_debug_event \<Rightarrow> nat list" where
  "fired w e = filter (\<lambda>i. action_fires e (w_actions w ! i)) [0..<length (w_actions w)]"

definition fires_kind :: "u8 \<Rightarrow> em8051_debug_watch \<Rightarrow> em8051_debug_event \<Rightarrow> bool" where
  "fires_kind k w e \<longleftrightarrow> (\<exists>a \<in> set (w_actions w). action_fires e a \<and> wa_kind a = k)"

definition fired_routes :: "em8051_debug_watch \<Rightarrow> em8051_debug_event \<Rightarrow> u32 set" where
  "fired_routes w e = (\<Union>a \<in> {a \<in> set (w_actions w). action_fires e a \<and> wa_kind a = EM8051_DEBUG_WATCH_ROUTE}. set (wa_trace_ids a))"

text \<open>What the documentation of the watches promises for a watch that fires on an event.\<close>

definition expected_result :: "em8051_debug_event \<Rightarrow> em8051_debug_watch \<Rightarrow> em8051_debug_watch_result" where
  "expected_result e w = \<lparr>
     wr_trace_ids = sorted_list_of_set (fired_routes w e),
     wr_watch_id = w_id w,
     wr_fired_action_mask = fold (\<lambda>i m. m OR push_bit i 1) (fired w e) 0,
     wr_source_event_sequence = ev_sequence e,
     wr_stop = of_bool (fires_kind EM8051_DEBUG_WATCH_STOP w e),
     wr_console = of_bool (fires_kind EM8051_DEBUG_WATCH_CONSOLE w e \<and> \<not> fires_kind EM8051_DEBUG_WATCH_QUIET w e),
     wr_quiet = of_bool (fires_kind EM8051_DEBUG_WATCH_QUIET w e)\<rparr>"

lemma insert_route_ids:
  assumes "sorted_wrt (<) (wr_trace_ids r)"
  shows "sorted_wrt (<) (wr_trace_ids (insert_route i r)) \<and> set (wr_trace_ids (insert_route i r)) = insert i (set (wr_trace_ids r))"
    and "insert_route i r = r\<lparr>wr_trace_ids := wr_trace_ids (insert_route i r)\<rparr>"
proof -
  define ids where "ids = wr_trace_ids r"
  define pre where "pre = takeWhile (\<lambda>j. j < i) ids"
  define post where "post = dropWhile (\<lambda>j. j < i) ids"
  have ids: "ids = pre @ post" by (simp add: pre_def post_def)
  have td: "take (length pre) ids = pre" "drop (length pre) ids = post" by (simp_all add: ids)
  show "insert_route i r = r\<lparr>wr_trace_ids := wr_trace_ids (insert_route i r)\<rparr>" by (simp add: insert_route_def Let_def)
  have new: "wr_trace_ids (insert_route i r) = (if post \<noteq> [] \<and> hd post = i then ids else pre @ i # post)"
    unfolding insert_route_def Let_def ids_def [symmetric] pre_def [symmetric] td
    by (cases post) (auto simp: ids ids_def [symmetric])
  show "sorted_wrt (<) (wr_trace_ids (insert_route i r)) \<and> set (wr_trace_ids (insert_route i r)) = insert i (set (wr_trace_ids r))"
  proof (cases "post \<noteq> [] \<and> hd post = i")
    case True
    then show ?thesis using assms new ids by (cases post) (auto simp: ids_def)
  next
    case False
    have "i < y" if "y \<in> set post" for y
    proof (cases post)
      case (Cons h t)
      then have "\<not> h < i" unfolding post_def using hd_dropWhile [of "\<lambda>j. j < i" ids] by fastforce
      then have "i < h" using False Cons by auto
      moreover have "sorted_wrt (<) post" using assms ids by (simp add: ids_def sorted_wrt_append)
      ultimately show ?thesis using that Cons by (auto intro: less_trans)
    qed (use that in simp)
    moreover have "y < i" if "y \<in> set pre" for y using that by (auto simp: pre_def dest: set_takeWhileD)
    ultimately show ?thesis using assms new False unfolding ids_def [symmetric] ids
      by (auto simp: sorted_wrt_append)
  qed
qed

lemma insert_routes_ids:
  "sorted_wrt (<) (wr_trace_ids r) \<Longrightarrow>
   sorted_wrt (<) (wr_trace_ids (fold insert_route js r)) \<and> set (wr_trace_ids (fold insert_route js r)) = set js \<union> set (wr_trace_ids r) \<and>
   fold insert_route js r = r\<lparr>wr_trace_ids := wr_trace_ids (fold insert_route js r)\<rparr>"
proof (induction js arbitrary: r)
  case (Cons j js)
  note one = insert_route_ids [OF Cons.prems, of j]
  have "fold insert_route js (insert_route j r) = r\<lparr>wr_trace_ids := wr_trace_ids (fold insert_route js (insert_route j r))\<rparr>"
    using Cons.IH [of "insert_route j r"] one by (metis em8051_debug_watch_result.update_convs(1) em8051_debug_watch_result.surjective)
  then show ?case using Cons.IH [of "insert_route j r"] one by auto
qed simp

lemma kind_cases: "k \<le> 3 \<Longrightarrow> k = 0 \<or> k = 1 \<or> k = 2 \<or> k = 3" for k :: u8
proof -
  assume "k \<le> 3"
  then have "unat k = 0 \<or> unat k = 1 \<or> unat k = 2 \<or> unat k = 3" by (simp add: word_le_nat_alt) linarith
  moreover have "k = of_nat (unat k)" by simp
  ultimately show ?thesis by (elim disjE) simp_all
qed

definition action_ids :: "em8051_debug_event \<Rightarrow> em8051_debug_watch_action \<Rightarrow> u32 set" where
  "action_ids e a = (if action_fires e a \<and> wa_kind a = EM8051_DEBUG_WATCH_ROUTE then set (wa_trace_ids a) else {})"

definition action_sets :: "u8 \<Rightarrow> em8051_debug_event \<Rightarrow> em8051_debug_watch_action \<Rightarrow> bool" where
  "action_sets k e a \<longleftrightarrow> action_fires e a \<and> wa_kind a = k"

lemma apply_action_fields:
  assumes "action_valid a" "sorted_wrt (<) (wr_trace_ids r)" "r' = apply_action e (i, a) r"
  shows "wr_watch_id r' = wr_watch_id r" "wr_source_event_sequence r' = wr_source_event_sequence r"
    "wr_fired_action_mask r' = (if action_fires e a then wr_fired_action_mask r OR push_bit i 1 else wr_fired_action_mask r)"
    "wr_stop r' = (if action_sets EM8051_DEBUG_WATCH_STOP e a then 1 else wr_stop r)"
    "wr_console r' = (if action_sets EM8051_DEBUG_WATCH_CONSOLE e a then 1 else wr_console r)"
    "wr_quiet r' = (if action_sets EM8051_DEBUG_WATCH_QUIET e a then 1 else wr_quiet r)"
    "sorted_wrt (<) (wr_trace_ids r')" "set (wr_trace_ids r') = set (wr_trace_ids r) \<union> action_ids e a"
proof -
  have m: "condition_matches (wa_condition a) e = action_fires e a" using condition_matches_int [OF assms(1)] by (simp add: action_fires_def)
  define q where "q = r\<lparr>wr_fired_action_mask := wr_fired_action_mask r OR push_bit i 1\<rparr>"
  have ids: "sorted_wrt (<) (wr_trace_ids (fold insert_route js q))" "set (wr_trace_ids (fold insert_route js q)) = set js \<union> set (wr_trace_ids r)"
    "wr_watch_id (fold insert_route js q) = wr_watch_id r" "wr_source_event_sequence (fold insert_route js q) = wr_source_event_sequence r"
    "wr_fired_action_mask (fold insert_route js q) = wr_fired_action_mask r OR push_bit i 1"
    "wr_stop (fold insert_route js q) = wr_stop r" "wr_console (fold insert_route js q) = wr_console r" "wr_quiet (fold insert_route js q) = wr_quiet r"
    for js
  proof -
    have "sorted_wrt (<) (wr_trace_ids q)" using assms(2) by (simp add: q_def)
    from insert_routes_ids [OF this, of js] obtain t where t: "fold insert_route js q = q\<lparr>wr_trace_ids := t\<rparr>" "sorted_wrt (<) t" "set t = set js \<union> set (wr_trace_ids q)"
      by blast
    show "sorted_wrt (<) (wr_trace_ids (fold insert_route js q))" "set (wr_trace_ids (fold insert_route js q)) = set js \<union> set (wr_trace_ids r)"
      "wr_watch_id (fold insert_route js q) = wr_watch_id r" "wr_source_event_sequence (fold insert_route js q) = wr_source_event_sequence r"
      "wr_fired_action_mask (fold insert_route js q) = wr_fired_action_mask r OR push_bit i 1"
      "wr_stop (fold insert_route js q) = wr_stop r" "wr_console (fold insert_route js q) = wr_console r" "wr_quiet (fold insert_route js q) = wr_quiet r"
      unfolding t(1) using t(2,3) by (simp_all add: q_def)
  qed
  have k: "wa_kind a = 0 \<or> wa_kind a = 1 \<or> wa_kind a = 2 \<or> wa_kind a = 3"
    using assms(1) by (intro kind_cases) (simp add: action_valid_def split: if_splits)
  have r': "r' = (if \<not> action_fires e a then r else if wa_kind a = 0 then q\<lparr>wr_stop := 1\<rparr> else if wa_kind a = 1 then q\<lparr>wr_console := 1\<rparr>
      else if wa_kind a = 2 then q\<lparr>wr_quiet := 1\<rparr> else fold insert_route (wa_trace_ids a) q)"
    unfolding assms(3) apply_action_def prod.case m q_def Let_def ..
  have q: "wr_watch_id q = wr_watch_id r" "wr_source_event_sequence q = wr_source_event_sequence r" "wr_trace_ids q = wr_trace_ids r"
    "wr_fired_action_mask q = wr_fired_action_mask r OR push_bit i 1" "wr_stop q = wr_stop r" "wr_console q = wr_console r" "wr_quiet q = wr_quiet r"
    by (simp_all add: q_def)
  show "wr_watch_id r' = wr_watch_id r" "wr_source_event_sequence r' = wr_source_event_sequence r"
    "wr_fired_action_mask r' = (if action_fires e a then wr_fired_action_mask r OR push_bit i 1 else wr_fired_action_mask r)"
    "wr_stop r' = (if action_sets EM8051_DEBUG_WATCH_STOP e a then 1 else wr_stop r)"
    "wr_console r' = (if action_sets EM8051_DEBUG_WATCH_CONSOLE e a then 1 else wr_console r)"
    "wr_quiet r' = (if action_sets EM8051_DEBUG_WATCH_QUIET e a then 1 else wr_quiet r)"
    "sorted_wrt (<) (wr_trace_ids r')" "set (wr_trace_ids r') = set (wr_trace_ids r) \<union> action_ids e a"
    using k assms(2) unfolding r' action_sets_def action_ids_def by (auto simp: q ids)
qed

lemma fold_actions:
  assumes "\<forall>(i, a) \<in> set xs. action_valid a" "sorted_wrt (<) (wr_trace_ids r)" "r' = fold (apply_action e) xs r"
  shows "wr_watch_id r' = wr_watch_id r \<and> wr_source_event_sequence r' = wr_source_event_sequence r \<and>
    wr_fired_action_mask r' = fold (\<lambda>i m. m OR push_bit i 1) (map fst (filter (\<lambda>(i, a). action_fires e a) xs)) (wr_fired_action_mask r) \<and>
    wr_stop r' = (if \<exists>(i, a) \<in> set xs. action_sets EM8051_DEBUG_WATCH_STOP e a then 1 else wr_stop r) \<and>
    wr_console r' = (if \<exists>(i, a) \<in> set xs. action_sets EM8051_DEBUG_WATCH_CONSOLE e a then 1 else wr_console r) \<and>
    wr_quiet r' = (if \<exists>(i, a) \<in> set xs. action_sets EM8051_DEBUG_WATCH_QUIET e a then 1 else wr_quiet r) \<and>
    sorted_wrt (<) (wr_trace_ids r') \<and> set (wr_trace_ids r') = set (wr_trace_ids r) \<union> (\<Union>(i, a) \<in> set xs. action_ids e a)"
  using assms
proof (induction xs arbitrary: r)
  case (Cons x xs)
  obtain i a where x: "x = (i, a)" by (cases x)
  have a: "action_valid a" and xs: "\<forall>(i, a) \<in> set xs. action_valid a" using Cons.prems(1) x by auto
  note one = apply_action_fields [OF a Cons.prems(2) refl, of e i]
  have rest: "r' = fold (apply_action e) xs (apply_action e (i, a) r)" using Cons.prems(3) x by simp
  from Cons.IH [OF xs one(7) rest] one(1-6,8) show ?case unfolding x by (simp add: Un_assoc)
qed simp

lemma enumerate_indices: "enumerate 0 xs = map (\<lambda>i. (i, xs ! i)) [0..<length xs]"
  by (rule nth_equalityI) (simp_all add: nth_enumerate_eq)

lemma collect_routes_set:
  "collect_routes ids routes = Some routes' \<Longrightarrow> distinct routes \<Longrightarrow> length routes \<le> 16 \<Longrightarrow>
   set routes' = set routes \<union> set ids \<and> distinct routes' \<and> length routes' \<le> 16"
proof (induction ids arbitrary: routes)
  case (Cons i ids)
  show ?case
  proof (cases "i \<in> set routes")
    case True
    then show ?thesis using Cons by auto
  next
    case False
    then have "length routes < 16" "collect_routes ids (routes @ [i]) = Some routes'" using Cons.prems by (auto split: if_splits)
    then show ?thesis using Cons.IH [of "routes @ [i]"] Cons.prems(2) False by auto
  qed
qed simp

lemma actions_valid_routes:
  assumes "actions_valid as routes" "distinct routes" "length routes \<le> 16"
  shows "(\<forall>a \<in> set as. action_valid a) \<and>
    (\<exists>all. distinct all \<and> length all \<le> 16 \<and>
      set routes \<union> (\<Union>a \<in> {a \<in> set as. wa_kind a = EM8051_DEBUG_WATCH_ROUTE}. set (wa_trace_ids a)) \<subseteq> set all)"
  using assms
proof (induction as arbitrary: routes)
  case (Cons a as)
  have a: "action_valid a" using Cons.prems(1) by (auto split: if_splits)
  show ?case
  proof (cases "wa_kind a = EM8051_DEBUG_WATCH_ROUTE")
    case True
    then obtain routes' where r: "collect_routes (wa_trace_ids a) routes = Some routes'" "actions_valid as routes'"
      using Cons.prems(1) a by (auto split: option.splits)
    have s: "set routes' = set routes \<union> set (wa_trace_ids a)" "distinct routes'" "length routes' \<le> 16"
      using collect_routes_set [OF r(1) Cons.prems(2,3)] by simp_all
    obtain all where all: "distinct all" "length all \<le> 16" "\<forall>a \<in> set as. action_valid a"
        "set routes' \<union> (\<Union>a \<in> {a \<in> set as. wa_kind a = EM8051_DEBUG_WATCH_ROUTE}. set (wa_trace_ids a)) \<subseteq> set all"
      using Cons.IH [OF r(2) s(2,3)] by blast
    then show ?thesis using a s(1) True by (intro conjI exI [of _ all]) auto
  next
    case False
    then have "actions_valid as routes" using Cons.prems(1) a by simp
    moreover have "{x \<in> set (a # as). wa_kind x = EM8051_DEBUG_WATCH_ROUTE} = {x \<in> set as. wa_kind x = EM8051_DEBUG_WATCH_ROUTE}"
      using False by auto
    ultimately show ?thesis using Cons.IH [OF _ Cons.prems(2,3)] a by (simp only:) simp
  qed
qed auto

lemma watch_valid_actions:
  assumes "watch_valid w"
  shows "\<forall>a \<in> set (w_actions w). action_valid a" "length (w_actions w) \<le> 8" "card (fired_routes w e) \<le> 16" "finite (fired_routes w e)"
proof -
  have v: "actions_valid (w_actions w) []" and l: "length (w_actions w) \<le> 8" using assms by (auto simp: watch_valid_def split: if_splits)
  then show "length (w_actions w) \<le> 8" by simp
  obtain all where all: "\<forall>a \<in> set (w_actions w). action_valid a" "distinct all" "length all \<le> 16"
      "(\<Union>a \<in> {a \<in> set (w_actions w). wa_kind a = EM8051_DEBUG_WATCH_ROUTE}. set (wa_trace_ids a)) \<subseteq> set all"
    using actions_valid_routes [OF v] by auto
  show "\<forall>a \<in> set (w_actions w). action_valid a" by (rule all(1))
  have "fired_routes w e \<subseteq> set all" using all(4) by (auto simp: fired_routes_def)
  then show "card (fired_routes w e) \<le> 16" "finite (fired_routes w e)"
    using card_mono [of "set all" "fired_routes w e"] all(2,3) by (auto simp: distinct_card intro: finite_subset)
qed

lemma mask_zero: "(fold (\<lambda>i m. m OR push_bit i 1) is m = (0 :: u32)) = (m = 0 \<and> (\<forall>i \<in> set is. 32 \<le> i))"
proof (induction "is" arbitrary: m)
  case (Cons i js)
  have "(push_bit i 1 = (0 :: u32)) = (32 \<le> i)" by (simp add: push_bit_of_1 not_less)
  moreover have "(x OR y = 0) = (x = 0 \<and> y = 0)" for x y :: u32 by (auto simp: bit_eq_iff bit_or_iff)
  ultimately show ?case using Cons [of "m OR push_bit i 1"] by auto
qed simp

lemma watch_result_expected:
  assumes "watch_valid w" "r = watch_result w e"
  shows "(if wr_quiet r \<noteq> 0 then r\<lparr>wr_console := 0\<rparr> else r) = expected_result e w" and "(wr_fired_action_mask r = 0) = (fired w e = [])"
proof -
  let ?xs = "enumerate 0 (w_actions w)"
  let ?z = "zero_watch_result\<lparr>wr_watch_id := w_id w, wr_source_event_sequence := ev_sequence e\<rparr>"
  have valid: "\<forall>(i, a) \<in> set ?xs. action_valid a" using watch_valid_actions(1) [OF assms(1)] by (auto simp: enumerate_indices)
  have r: "r = fold (apply_action e) ?xs ?z" using assms(2) by (simp add: watch_result_def)
  have snd: "set (w_actions w) = snd ` set ?xs" by (simp flip: set_map)
  have ex: "(\<exists>(i, a) \<in> set ?xs. action_sets k e a) = fires_kind k w e" for k
    unfolding fires_kind_def snd action_sets_def by force
  have ids: "(\<Union>(i, a) \<in> set ?xs. action_ids e a) = fired_routes w e"
    unfolding fired_routes_def snd action_ids_def by (auto split: if_splits)
  have idx: "map fst (filter (\<lambda>(i, a). action_fires e a) ?xs) = fired w e"
    by (simp add: enumerate_indices fired_def filter_map o_def)
  note f = fold_actions [OF valid _ r, unfolded ex ids idx]
  have f: "wr_watch_id r = w_id w" "wr_source_event_sequence r = ev_sequence e"
    "wr_fired_action_mask r = fold (\<lambda>i m. m OR push_bit i 1) (fired w e) 0"
    "wr_stop r = of_bool (fires_kind EM8051_DEBUG_WATCH_STOP w e)" "wr_console r = of_bool (fires_kind EM8051_DEBUG_WATCH_CONSOLE w e)"
    "wr_quiet r = of_bool (fires_kind EM8051_DEBUG_WATCH_QUIET w e)" "sorted_wrt (<) (wr_trace_ids r)" "set (wr_trace_ids r) = fired_routes w e"
    using f by (simp_all add: zero_watch_result_def)
  have "wr_trace_ids r = sorted_list_of_set (fired_routes w e)"
    using sorted_list_of_set.idem_if_sorted_distinct [of "wr_trace_ids r"] f(7,8) by (simp add: strict_sorted_iff)
  then show "(if wr_quiet r \<noteq> 0 then r\<lparr>wr_console := 0\<rparr> else r) = expected_result e w"
    using f unfolding expected_result_def by (auto simp: of_bool_def)
  have "\<forall>i \<in> set (fired w e). i < 32" using watch_valid_actions(2) [OF assms(1)] by (auto simp: fired_def)
  then show "(wr_fired_action_mask r = 0) = (fired w e = [])" unfolding f(3) mask_zero by (cases "fired w e") auto
qed

subsection \<open>The table\<close>

lemma insert_watch_sorted:
  "sorted (map w_id ws) \<Longrightarrow> sorted (map w_id (insert_watch ws w)) \<and> mset (insert_watch ws w) = add_mset w (mset ws)"
proof (induction ws rule: rev_induct)
  case Nil
  then show ?case by (subst (1 2) insert_watch.simps) simp
next
  case (snoc x ws)
  show ?case
  proof (cases "w_id x > w_id w")
    case True
    have s: "sorted (map w_id ws)" "\<forall>y \<in> set ws. w_id y \<le> w_id x" using snoc.prems by (auto simp: sorted_append)
    note ih = snoc.IH [OF s(1)]
    have "set (insert_watch ws w) = insert w (set ws)" using ih by (metis set_mset_add_mset_insert set_mset_mset)
    moreover have "insert_watch (ws @ [x]) w = insert_watch ws w @ [x]" using True by (subst insert_watch.simps) simp
    ultimately show ?thesis using ih s(2) True by (auto simp: sorted_append)
  next
    case False
    then have "insert_watch (ws @ [x]) w = (ws @ [x]) @ [w]" by (subst insert_watch.simps) simp
    then show ?thesis using snoc.prems False by (auto simp: sorted_append)
  qed
qed

lemma sort_watches_result:
  "sorted (map w_id acc) \<Longrightarrow> sort_watches acc ws =
     (if list_all watch_valid ws then Some (fold (\<lambda>w acc. insert_watch acc w) ws acc) else None) \<and>
   sorted (map w_id (fold (\<lambda>w acc. insert_watch acc w) ws acc)) \<and> mset (fold (\<lambda>w acc. insert_watch acc w) ws acc) = mset acc + mset ws"
proof (induction ws arbitrary: acc)
  case (Cons w ws)
  then show ?case using insert_watch_sorted [OF Cons.prems, of w] Cons.IH [of "insert_watch acc w"] by auto
qed simp

lemma adjacent_distinct:
  fixes xs :: "'a :: linorder list"
  assumes "sorted xs"
  shows "(\<exists>i \<in> set [1..<length xs]. xs ! (i - 1) = xs ! i) = (\<not> distinct xs)"
proof -
  have "sorted_wrt (<) xs" if "\<not> (\<exists>i \<in> set [1..<length xs]. xs ! (i - 1) = xs ! i)"
    unfolding sorted_wrt_iff_nth_Suc_transp [OF transp_on_less]
  proof (intro allI impI)
    fix i assume i: "Suc i < length xs"
    then have "xs ! i \<le> xs ! Suc i" using assms by (simp add: sorted_iff_nth_Suc)
    moreover have "Suc i \<in> set [1..<length xs]" using i by simp
    ultimately show "xs ! i < xs ! Suc i" using that by (metis diff_Suc_1 le_less)
  qed
  moreover have "\<not> distinct xs" if "i \<in> set [1..<length xs]" "xs ! (i - 1) = xs ! i" for i
  proof -
    have "i - 1 < length xs" "i < length xs" "i - 1 \<noteq> i" using that(1) by auto
    then show ?thesis using that(2) unfolding distinct_conv_nth by blast
  qed
  ultimately show ?thesis unfolding strict_sorted_iff by blast
qed

lemma table_replace_result:
  assumes "em8051_debug_watch_table_replace ws old = (st, table)"
  shows "st = EM8051_DEBUG_EVENT_OK \<Longrightarrow> length ws \<le> 64 \<and> mset table = mset ws \<and> sorted_wrt (<) (map w_id table) \<and> (\<forall>w \<in> set table. watch_valid w)"
    and "st \<noteq> EM8051_DEBUG_EVENT_OK \<Longrightarrow> table = old"
proof -
  note s = sort_watches_result [of "[]" ws]
  let ?t = "fold (\<lambda>w acc. insert_watch acc w) ws []"
  have s: "sort_watches [] ws = (if list_all watch_valid ws then Some ?t else None)" "sorted (map w_id ?t)" "mset ?t = mset ws"
    using s by simp_all
  have r: "em8051_debug_watch_table_replace ws old =
      (if length ws > 64 then (EM8051_DEBUG_EVENT_LIMIT, old) else if \<not> list_all watch_valid ws then (EM8051_DEBUG_EVENT_INVALID_ARGUMENT, old)
       else if \<not> distinct (map w_id ?t) then (EM8051_DEBUG_EVENT_DUPLICATE_ID, old) else (EM8051_DEBUG_EVENT_OK, ?t))"
    unfolding em8051_debug_watch_table_replace_def s(1) Let_def by (simp add: adjacent_distinct [OF s(2), simplified])
  show "st = EM8051_DEBUG_EVENT_OK \<Longrightarrow> length ws \<le> 64 \<and> mset table = mset ws \<and> sorted_wrt (<) (map w_id table) \<and> (\<forall>w \<in> set table. watch_valid w)"
  proof -
    assume "st = EM8051_DEBUG_EVENT_OK"
    then have t: "length ws \<le> 64" "list_all watch_valid ws" "table = ?t" "distinct (map w_id ?t)"
      using assms unfolding r by (auto split: if_splits)
    have "set ?t = set ws" using s(3) by (metis set_mset_mset)
    then show ?thesis using t s by (auto simp: strict_sorted_iff list_all_iff)
  qed
  show "st \<noteq> EM8051_DEBUG_EVENT_OK \<Longrightarrow> table = old" using assms unfolding r by (auto split: if_splits)
qed

lemma match_watches_expected:
  "\<forall>w \<in> set ws. watch_valid w \<Longrightarrow>
   match_watches ws e = map (expected_result e) (filter (\<lambda>w. watch_in_scope w e \<and> fired w e \<noteq> []) ws)"
proof (induction ws)
  case (Cons w ws)
  then have "watch_valid w" by simp
  from watch_result_expected [OF this refl, of e] show ?case using Cons by (auto simp: Let_def)
qed simp

subsection \<open>Well-formed watches\<close>

text \<open>What the interface demands of a watch, in terms of numbers and sets.\<close>

definition condition_well_formed :: "em8051_debug_watch_condition \<Rightarrow> bool" where
  "condition_well_formed c \<longleftrightarrow> wc_present c = 0 \<or>
     wc_present c = 1 \<and> wc_operand c \<in> {0, 1} \<and> unat (wc_comparison c) \<le> 5 \<and> wc_is_signed c \<in> {0, 1} \<and> unat (wc_width c) \<in> {1, 8, 16, 32, 64} \<and>
     (if wc_is_signed c = 1 then sint (wc_constant c) \<in> {- (2 ^ (unat (wc_width c) - 1)) ..< 2 ^ (unat (wc_width c) - 1)}
      else uint (wc_constant c) < 2 ^ unat (wc_width c))"

definition action_well_formed :: "em8051_debug_watch_action \<Rightarrow> bool" where
  "action_well_formed a \<longleftrightarrow> wa_canonical a \<in> {0, 1} \<and> unat (wa_kind a) \<le> 3 \<and> condition_well_formed (wa_condition a) \<and>
     (if wa_kind a = EM8051_DEBUG_WATCH_ROUTE
      then (wa_trace_ids a \<noteq> [] \<or> wa_canonical a = 1) \<and> length (wa_trace_ids a) \<le> 16 \<and> sorted_wrt (<) (wa_trace_ids a) \<and> 0 \<notin> set (wa_trace_ids a)
      else wa_trace_ids a = [])"

definition watch_well_formed :: "em8051_debug_watch \<Rightarrow> bool" where
  "watch_well_formed w \<longleftrightarrow> w_id w \<noteq> 0 \<and> w_enabled w \<in> {0, 1} \<and> unat (w_canonical_space w) \<le> 4 \<and> unat (w_address_space w) \<in> {1..5} \<and>
     w_address_first w \<le> w_address_last w \<and> unat (w_access_mask w) \<in> {1..15} \<and> length (w_actions w) \<in> {1..8} \<and>
     (\<forall>a \<in> set (w_actions w). action_well_formed a) \<and>
     card (\<Union>a \<in> {a \<in> set (w_actions w). wa_kind a = EM8051_DEBUG_WATCH_ROUTE}. set (wa_trace_ids a)) \<le> 16"

text \<open>Which events a watch is about.\<close>

definition concerns :: "em8051_debug_watch \<Rightarrow> em8051_debug_event \<Rightarrow> bool" where
  "concerns w e \<longleftrightarrow> w_enabled w \<noteq> 0 \<and> ev_address e \<in> {w_address_first w .. w_address_last w} \<and> (\<exists>i. bit (w_access_mask w) i \<and> bit (ev_access e) i) \<and>
     (if w_canonical_space w = 0 then ev_address_space e = w_address_space w
      else ob_kind (ev_observation e) \<noteq> 0 \<and> unat (ob_space (ev_observation e)) + 1 = unat (w_canonical_space w))"

lemma concerns_scope: "watch_in_scope w e = concerns w e"
proof -
  have len: "i < 8" if "bit x i" for x :: u8 and i using bit_imp_le_length [OF that] by simp
  have "(w_access_mask w AND ev_access e = 0) = (\<not> (\<exists>i. bit (w_access_mask w) i \<and> bit (ev_access e) i))"
    by (auto simp: bit_eq_iff bit_and_iff dest: len)
  moreover have "(ob_space (ev_observation e) + 1 = ucast (w_canonical_space w)) = (unat (ob_space (ev_observation e)) + 1 = unat (w_canonical_space w))"
    if "w_canonical_space w \<noteq> 0"
  proof -
    let ?s = "ob_space (ev_observation e)" and ?k = "ucast (w_canonical_space w) :: u32"
    have k: "unat ?k = unat (w_canonical_space w)" "?k \<noteq> 0"
      using that unat_u8 [of "w_canonical_space w"] by (simp_all add: unsigned_ucast_eq word_unat_eq_iff take_bit_nat_eq_self)
    have "unat (?s + 1) = (if ?s = - 1 then 0 else unat ?s + 1)" using unatSuc [of ?s] by (auto simp: add.commute eq_neg_iff_add_eq_0)
    moreover have "unat (- 1 :: u32) + 1 \<noteq> unat (w_canonical_space w)" using unat_u8 [of "w_canonical_space w"] by (simp add: unsigned_minus_1_eq_mask mask_eq_exp_minus_1)
    ultimately show ?thesis using k by (auto simp: word_unat_eq_iff)
  qed
  ultimately show ?thesis by (auto simp: watch_in_scope_def concerns_def not_less)
qed

lemma low_constant:
  fixes v :: u64
  shows "(v AND NOT (mask n) = 0) = (uint v < 2 ^ n)"
proof -
  have "(v AND NOT (mask n) = 0) = (take_bit n v = v)" by (auto simp: bit_eq_iff bit_simps)
  also have "\<dots> = (take_bit n (uint v) = uint v)" by (metis uint_low word_uint_eq_iff)
  finally show ?thesis by (simp add: take_bit_int_eq_self_iff)
qed

lemma signed_constant:
  fixes v :: u64
  assumes "0 < n" "n < 64"
  shows "(if bit v (n - 1) then v OR mask n = - 1 else v AND NOT (mask n) = 0) = (sint v \<in> {- (2 ^ (n - 1)) ..< 2 ^ (n - 1)})"
proof -
  have b: "bit (sint v) i = bit v (min i 63)" for i by (auto simp: bit_sint_iff min_def dest: bit_imp_le_length)
  have "(if bit v (n - 1) then v OR mask n = - 1 else v AND NOT (mask n) = 0) = (\<forall>i. n \<le> i \<longrightarrow> i < 64 \<longrightarrow> bit v i = bit v (n - 1))"
    by (auto simp: bit_eq_iff bit_simps not_le)
  also have "\<dots> = (\<forall>i. bit v (min (min (n - 1) i) 63) = bit v (min i 63))"
  proof (rule iffI; intro allI impI)
    fix i
    assume h: "\<forall>i. n \<le> i \<longrightarrow> i < 64 \<longrightarrow> bit v i = bit v (n - 1)"
    show "bit v (min (min (n - 1) i) 63) = bit v (min i 63)"
    proof (cases "n \<le> i")
      case True
      have "bit v (min i 63) = bit v (n - 1)" using h True assms(2) by simp
      moreover have "min (min (n - 1) i) 63 = n - 1" using True assms by simp
      ultimately show ?thesis by simp
    next
      case False
      then have "min (n - 1) i = i" by simp
      then show ?thesis by simp
    qed
  next
    fix i
    assume h: "\<forall>i. bit v (min (min (n - 1) i) 63) = bit v (min i 63)" and i: "n \<le> i" "i < 64"
    have "min (min (n - 1) i) 63 = n - 1" "min i 63 = i" using i assms by simp_all
    then show "bit v i = bit v (n - 1)" using h by metis
  qed
  also have "\<dots> = (signed_take_bit (n - 1) (sint v) = sint v)"
    by (simp add: bit_eq_iff bit_signed_take_bit_iff b min.assoc)
  finally show ?thesis by (simp add: signed_take_bit_int_eq_self_iff)
qed

lemma constant_range:
  assumes "wc_is_signed c \<in> {0, 1}"
  shows "constant_valid c \<longleftrightarrow> unat (wc_width c) \<in> {1, 8, 16, 32, 64} \<and>
    (if wc_is_signed c = 1 then sint (wc_constant c) \<in> {- (2 ^ (unat (wc_width c) - 1)) ..< 2 ^ (unat (wc_width c) - 1)}
     else uint (wc_constant c) < 2 ^ unat (wc_width c))"
proof -
  have w: "value_width_valid (wc_width c) \<longleftrightarrow> unat (wc_width c) \<in> {1, 8, 16, 32, 64}" by (auto simp: value_width_valid_def word_unat_eq_iff)
  show ?thesis
  proof (cases "value_width_valid (wc_width c)")
    case True
    define n where "n = unat (wc_width c)"
    have n: "0 < n" "n \<le> 64" "wc_width c = 64 \<longleftrightarrow> n = 64" using width_unat [OF True] by (simp_all add: n_def)
    have m: "width_mask (wc_width c) = mask n" using n(3) by (auto simp: width_mask_def n_def mask_eq_exp_minus_1 push_bit_of_1)
    have all: "sint (wc_constant c) \<in> {- (2 ^ 63) ..< 2 ^ 63}" using sint_range_size [of "wc_constant c"] by (simp add: word_size)
    have "constant_valid c \<longleftrightarrow> (if wc_is_signed c = 1 then n = 64 \<or> (if bit (wc_constant c) (n - 1) then wc_constant c OR mask n = - 1 else wc_constant c AND NOT (mask n) = 0)
        else wc_constant c AND NOT (mask n) = 0)"
      using True assms unfolding constant_valid_def Let_def m n(3) n_def [symmetric] sign_bit by auto
    also have "\<dots> \<longleftrightarrow> (if wc_is_signed c = 1 then sint (wc_constant c) \<in> {- (2 ^ (n - 1)) ..< 2 ^ (n - 1)} else uint (wc_constant c) < 2 ^ n)"
      using n(2) signed_constant [OF n(1), of "wc_constant c"] all by (cases "n = 64") (auto simp: low_constant)
    finally show ?thesis using True w by (simp add: n_def)
  next
    case False
    then have "unat (wc_width c) \<notin> {1, 8, 16, 32, 64}" using w by blast
    then show ?thesis using False unfolding constant_valid_def by argo
  qed
qed

lemma u8_bit: "(k :: u8) \<le> 1 \<longleftrightarrow> k \<in> {0, 1}"
  by (auto simp: word_le_nat_alt word_unat_eq_iff le_Suc_eq)

lemma ids_increasing_sorted: "ids_increasing ids \<longleftrightarrow> sorted_wrt (<) ids \<and> 0 \<notin> set ids"
proof -
  have "(\<forall>i < length ids. i = 0 \<or> ids ! (i - 1) < ids ! i) \<longleftrightarrow> (\<forall>i. Suc i < length ids \<longrightarrow> ids ! i < ids ! Suc i)"
  proof (intro iffI allI impI)
    fix i
    assume "\<forall>i < length ids. i = 0 \<or> ids ! (i - 1) < ids ! i" "Suc i < length ids"
    then show "ids ! i < ids ! Suc i" by fastforce
  next
    fix i
    assume "\<forall>i. Suc i < length ids \<longrightarrow> ids ! i < ids ! Suc i" "i < length ids"
    then show "i = 0 \<or> ids ! (i - 1) < ids ! i" by (cases i) auto
  qed
  then have "(\<forall>i < length ids. i = 0 \<or> ids ! (i - 1) < ids ! i) \<longleftrightarrow> sorted_wrt (<) ids"
    unfolding sorted_wrt_iff_nth_Suc_transp [OF transp_on_less] .
  moreover have "ids_increasing ids \<longleftrightarrow> (\<forall>i < length ids. ids ! i \<noteq> 0) \<and> (\<forall>i < length ids. i = 0 \<or> ids ! (i - 1) < ids ! i)"
    by (auto simp: ids_increasing_def list_all_iff)
  moreover have "(\<forall>i < length ids. ids ! i \<noteq> 0) \<longleftrightarrow> 0 \<notin> set ids" by (auto simp: in_set_conv_nth)
  ultimately show ?thesis by blast
qed

lemma action_valid_iff: "action_valid a = action_well_formed a"
proof -
  define c where "c = wa_condition a"
  have u: "(k > 1) = (k \<notin> {0, 1})" "(k > 5) = (\<not> unat k \<le> 5)" "(k > 3) = (\<not> unat k \<le> 3)" for k :: u8
    using u8_bit [of k] by (auto simp: word_less_nat_alt not_le)
  have "condition_well_formed c \<longleftrightarrow> wc_present c \<in> {0, 1} \<and>
      \<not> (wc_present c \<noteq> 0 \<and> (wc_operand c > 1 \<or> wc_comparison c > 5 \<or> wc_is_signed c > 1 \<or> \<not> constant_valid c))"
    unfolding condition_well_formed_def u using constant_range [of c] by blast
  then show ?thesis unfolding action_valid_def action_well_formed_def c_def [symmetric] u ids_increasing_sorted
    by (cases "wa_kind a = EM8051_DEBUG_WATCH_ROUTE") (auto simp: u)
qed

lemma collect_routes_room:
  "distinct routes \<Longrightarrow> length routes \<le> 16 \<Longrightarrow> (\<exists>r. collect_routes ids routes = Some r) = (card (set routes \<union> set ids) \<le> 16)"
proof (induction ids arbitrary: routes)
  case (Cons i ids)
  show ?case
  proof (cases "i \<in> set routes")
    case True
    then show ?thesis using Cons by (simp add: insert_absorb)
  next
    case False
    have "card (set (routes @ [i])) \<le> card (set routes \<union> set (i # ids))" by (rule card_mono) auto
    then show ?thesis using Cons.IH [of "routes @ [i]"] Cons.prems False by (auto simp: distinct_card card_insert_if)
  qed
qed (simp add: distinct_card)

lemma actions_valid_iff:
  "distinct routes \<Longrightarrow> length routes \<le> 16 \<Longrightarrow> actions_valid as routes \<longleftrightarrow> (\<forall>a \<in> set as. action_valid a) \<and>
     card (set routes \<union> (\<Union>a \<in> {a \<in> set as. wa_kind a = EM8051_DEBUG_WATCH_ROUTE}. set (wa_trace_ids a))) \<le> 16"
proof (induction as arbitrary: routes)
  case (Cons a as)
  let ?U = "\<Union>a \<in> {a \<in> set as. wa_kind a = EM8051_DEBUG_WATCH_ROUTE}. set (wa_trace_ids a)"
  show ?case
  proof (cases "wa_kind a = EM8051_DEBUG_WATCH_ROUTE")
    case False
    then have "{x \<in> set (a # as). wa_kind x = EM8051_DEBUG_WATCH_ROUTE} = {x \<in> set as. wa_kind x = EM8051_DEBUG_WATCH_ROUTE}" by auto
    then show ?thesis using Cons.IH [OF Cons.prems] False by (simp only:) simp
  next
    case True
    have u: "(\<Union>a \<in> {x \<in> set (a # as). wa_kind x = EM8051_DEBUG_WATCH_ROUTE}. set (wa_trace_ids a)) = set (wa_trace_ids a) \<union> ?U" using True by auto
    note room = collect_routes_room [OF Cons.prems, of "wa_trace_ids a"]
    show ?thesis
    proof (cases "collect_routes (wa_trace_ids a) routes")
      case None
      have "card (set routes \<union> set (wa_trace_ids a)) \<le> card (set routes \<union> (set (wa_trace_ids a) \<union> ?U))" by (rule card_mono) auto
      then show ?thesis using None room True by (simp only: u) simp
    next
      case (Some r)
      note r = collect_routes_set [OF Some Cons.prems]
      show ?thesis using Cons.IH [of r] r True Some by (simp only: u) (simp add: Un_assoc)
    qed
  qed
qed (simp add: distinct_card)

lemma watch_valid_iff: "watch_valid = watch_well_formed"
proof
  fix w :: em8051_debug_watch
  have "(w_access_mask w = 0 \<or> w_access_mask w AND NOT EM8051_DEBUG_ACCESS_ALL \<noteq> 0) = (unat (w_access_mask w) \<notin> {1..15})"
  proof -
    have "(x AND NOT 15 = 0) = (unat x \<le> 15)" for x :: u8
    proof -
      have "(x AND NOT (mask 4) = 0) = (take_bit 4 x = x)" by (auto simp: bit_eq_iff bit_simps)
      also have "\<dots> = (unat x < 16)" by (auto simp: word_unat_eq_iff unsigned_take_bit_eq take_bit_nat_eq_self_iff)
      finally show ?thesis by (auto simp: mask_eq_exp_minus_1)
    qed
    then show ?thesis by (auto simp: Suc_le_eq unat_gt_0)
  qed
  moreover have "(w_address_space w = EM8051_DEBUG_SPACE_NONE \<or> w_address_space w > EM8051_DEBUG_SPACE_XDATA) = (unat (w_address_space w) \<notin> {1..5})"
    by (auto simp: word_less_nat_alt Suc_le_eq unat_gt_0)
  moreover have "(w_actions w = [] \<or> length (w_actions w) > 8) = (length (w_actions w) \<notin> {1..8})" by (auto simp: Suc_le_eq)
  moreover have "(w_enabled w > 1) = (w_enabled w \<notin> {0, 1})" "(w_canonical_space w > 4) = (\<not> unat (w_canonical_space w) \<le> 4)"
    using u8_bit [of "w_enabled w"] by (auto simp: word_less_nat_alt not_le)
  moreover have "actions_valid (w_actions w) [] \<longleftrightarrow> (\<forall>a \<in> set (w_actions w). action_well_formed a) \<and>
      card (\<Union>a \<in> {a \<in> set (w_actions w). wa_kind a = EM8051_DEBUG_WATCH_ROUTE}. set (wa_trace_ids a)) \<le> 16"
    using actions_valid_iff [of "[]" "w_actions w"] by (simp add: action_valid_iff)
  ultimately show "watch_valid w = watch_well_formed w" unfolding watch_valid_def watch_well_formed_def not_less [symmetric] by argo
qed

lemma table_replace_status:
  assumes "em8051_debug_watch_table_replace ws old = (st, table)"
  shows "st = (if length ws > 64 then EM8051_DEBUG_EVENT_LIMIT else if \<not> list_all watch_valid ws then EM8051_DEBUG_EVENT_INVALID_ARGUMENT
    else if \<not> distinct (map w_id ws) then EM8051_DEBUG_EVENT_DUPLICATE_ID else EM8051_DEBUG_EVENT_OK)"
proof -
  let ?t = "fold (\<lambda>w acc. insert_watch acc w) ws []"
  have s: "sort_watches [] ws = (if list_all watch_valid ws then Some ?t else None)" "sorted (map w_id ?t)" "mset ?t = mset ws"
    using sort_watches_result [of "[]" ws] by simp_all
  have "distinct (map w_id ?t) = distinct (map w_id ws)" using s(3) by (metis mset_eq_imp_distinct_iff mset_map)
  then show ?thesis using assms unfolding em8051_debug_watch_table_replace_def s(1) Let_def
    by (auto simp: adjacent_distinct [OF s(2), simplified] split: if_splits)
qed

text \<open>
  C29. Watches fire exactly as documented.  Replacing a table answers the limit for more than 64 watches, an invalid argument when
  one of them is malformed (identifier, flags, spaces, address range, access mask, actions, conditions with constants outside their
  width, routes), a duplicate for equal identifiers, and otherwise succeeds; only then the table changes, and holds the given
  watches in order of their identifiers.  On a legacy event or a successful access observation, a match reports exactly the
  watches about the event with a fired action, in that order and cut at the capacity, where conditions compare
  the values as signed or unsigned integers of their width; the fired actions decide the flags, quiet silences the console,
  and the routes are the sorted set of the fired routes, never more than the sixteen the result has room for.
\<close>

theorem watch_match_exact:
  assumes "em8051_debug_watch_table_replace ws old = (st, table)"
    and "ev_kind e \<noteq> EM8051_DEBUG_EVENT_WATCH_MATCH"
    and "ob_kind (ev_observation e) = 0 \<or> ob_kind (ev_observation e) = EMUIF_OBS_ACCESS_RESULT \<and> ob_status (ev_observation e) = EMUIF_OK"
    and "results = map (expected_result e) (filter (\<lambda>w. concerns w e \<and> fired w e \<noteq> []) table)"
  shows "st = (if length ws > 64 then EM8051_DEBUG_EVENT_LIMIT else if \<not> list_all watch_well_formed ws then EM8051_DEBUG_EVENT_INVALID_ARGUMENT
      else if \<not> distinct (map w_id ws) then EM8051_DEBUG_EVENT_DUPLICATE_ID else EM8051_DEBUG_EVENT_OK) \<and>
    (if st = EM8051_DEBUG_EVENT_OK then
      mset table = mset ws \<and> sorted_wrt (<) (map w_id table) \<and>
      em8051_debug_watch_table_match table e capacity =
        (if length results > capacity then EM8051_DEBUG_EVENT_LIMIT else EM8051_DEBUG_EVENT_OK, take capacity results, length results) \<and>
      list_all (\<lambda>r. length (wr_trace_ids r) \<le> 16) results
    else table = old)"
proof -
  have st: "st = (if length ws > 64 then EM8051_DEBUG_EVENT_LIMIT else if \<not> list_all watch_well_formed ws then EM8051_DEBUG_EVENT_INVALID_ARGUMENT
      else if \<not> distinct (map w_id ws) then EM8051_DEBUG_EVENT_DUPLICATE_ID else EM8051_DEBUG_EVENT_OK)"
    using table_replace_status [OF assms(1)] unfolding watch_valid_iff .
  show ?thesis
  proof (cases "st = EM8051_DEBUG_EVENT_OK")
    case True
    note t = table_replace_result(1) [OF assms(1) True]
    have m: "match_watches table e = results" using match_watches_expected [of table e] t assms(4) by (simp add: concerns_scope)
    have "length (wr_trace_ids (expected_result e w)) \<le> 16" if "w \<in> set table" for w
      using watch_valid_actions(3) [of w e] t that by (simp add: expected_result_def)
    then have "list_all (\<lambda>r. length (wr_trace_ids r) \<le> 16) results" by (auto simp: assms(4) list_all_iff)
    moreover have "em8051_debug_watch_table_match table e capacity =
        (if length results > capacity then EM8051_DEBUG_EVENT_LIMIT else EM8051_DEBUG_EVENT_OK, take capacity results, length results)"
      using assms(2,3) unfolding em8051_debug_watch_table_match_def m by (auto simp: Let_def)
    ultimately show ?thesis using True t st by simp
  next
    case False
    then show ?thesis using table_replace_result(2) [OF assms(1)] st by simp
  qed
qed

text \<open>Two watches on writes to XDATA 16: one routes to traces 3 and 5 above the signed value -2, one stops.\<close>

definition sample_condition :: em8051_debug_watch_condition where
  "sample_condition = \<lparr>wc_constant = - 2, wc_present = 1, wc_operand = 1, wc_comparison = 4, wc_width = 8, wc_is_signed = 1\<rparr>"

definition sample_watches :: "em8051_debug_watch list" where
  "sample_watches =
     [\<lparr>w_actions = [\<lparr>wa_condition = sample_condition, wa_trace_ids = [3, 5], wa_kind = 3, wa_canonical = 0\<rparr>], w_id = 9, w_address_first = 16,
       w_address_last = 16, w_enabled = 1, w_address_space = 5, w_access_mask = 4, w_canonical_space = 0\<rparr>,
      \<lparr>w_actions = [\<lparr>wa_condition = sample_condition\<lparr>wc_present := 0\<rparr>, wa_trace_ids = [], wa_kind = 0, wa_canonical = 0\<rparr>], w_id = 2,
       w_address_first = 0, w_address_last = 100, w_enabled = 1, w_address_space = 5, w_access_mask = 4, w_canonical_space = 0\<rparr>]"

definition sample_write :: em8051_debug_event where
  "sample_write = zero_event\<lparr>ev_sequence := 7, ev_kind := EM8051_DEBUG_EVENT_MEMORY_WRITE, ev_address := 16, ev_address_space := 5, ev_access := 4,
     ev_new_value := \<lparr>dv_value = 0xff, dv_width = 8, dv_known = 1, dv_is_signed = 1, dv_reserved = 0\<rparr>\<rparr>"

theorem watch_match_exact_witness:
  "case em8051_debug_watch_table_replace sample_watches [] of (st, table) \<Rightarrow>
     st = EM8051_DEBUG_EVENT_OK \<and> sorted_wrt (<) (map w_id table) \<and>
     snd (snd (em8051_debug_watch_table_match table sample_write 32)) = length (map (expected_result sample_write)
       (filter (\<lambda>w. concerns w sample_write \<and> fired w sample_write \<noteq> []) table)) \<and>
     snd (snd (em8051_debug_watch_table_match table sample_write 32)) = 2"
proof -
  have e: "ev_kind sample_write \<noteq> EM8051_DEBUG_EVENT_WATCH_MATCH" "ob_kind (ev_observation sample_write) = 0" by code_simp+
  have "case em8051_debug_watch_table_replace sample_watches [] of (st, table) \<Rightarrow>
      st = EM8051_DEBUG_EVENT_OK \<and> snd (snd (em8051_debug_watch_table_match table sample_write 32)) = 2" by code_simp
  then obtain table where t: "em8051_debug_watch_table_replace sample_watches [] = (EM8051_DEBUG_EVENT_OK, table)"
      "snd (snd (em8051_debug_watch_table_match table sample_write 32)) = 2" by (auto split: prod.splits)
  show ?thesis using watch_match_exact [OF t(1) e(1) _ refl, of 32] e(2) t by simp
qed

end
