(* ===== verification/RouterInv.thy ===== *)
theory RouterInv
  imports Routing Watches
begin

text \<open>
  The invariant of the trace router and its consequences: gates in closed form, the identifiers a
  source event selects, and that every operation of the router keeps the configuration, the rings, the
  seen identifiers and the suppressions consistent.
\<close>

subsection \<open>Selectors\<close>

text \<open>
  What a selector asks of an event, one criterion after the other.  Of an event with a canonical observation, the
  program counter counts only if it is known, and addresses, spaces and kinds of access only for memory accesses.
\<close>

definition selects :: "em8051_debug_trace_selector \<Rightarrow> em8051_debug_event \<Rightarrow> bool" where
  "selects s e \<longleftrightarrow>
     (let ob = ev_observation e; observed = (ob_kind ob \<noteq> 0);
          memory = (observed \<longrightarrow> ob_kind ob \<in> {EMUIF_OBS_ACCESS_ATTEMPT, EMUIF_OBS_ACCESS_RESULT})
      in (sel_match_kind s \<noteq> 0 \<longrightarrow> ev_kind e = sel_kind s) \<and>
         (sel_match_observation_kind s \<noteq> 0 \<longrightarrow> ob_kind ob = ucast (sel_observation_kind s)) \<and>
         (sel_match_pc s \<noteq> 0 \<longrightarrow> ev_pc e \<in> {sel_pc_first s..sel_pc_last s} \<and> (observed \<longrightarrow> ob_known ob AND EMUIF_OBS_KNOWN_PC \<noteq> 0)) \<and>
         (sel_match_address s \<noteq> 0 \<longrightarrow> ev_address e \<in> {sel_address_first s..sel_address_last s} \<and> memory) \<and>
         (sel_match_address_space s \<noteq> 0 \<longrightarrow> ev_address_space e = sel_address_space s \<and> memory) \<and>
         (sel_canonical_space s \<noteq> 0 \<longrightarrow> observed \<and> ob_space ob = ucast (sel_canonical_space s) - 1 \<and> memory) \<and>
         (sel_match_access s \<noteq> 0 \<longrightarrow> (\<exists>n. bit (sel_access_mask s) n \<and> bit (ev_access e) n) \<and> memory))"

lemma selector_match_selects: "selector_match s e = selects s e"
proof -
  have "sel_access_mask s AND ev_access e \<noteq> 0 \<longleftrightarrow> (\<exists>n. bit (sel_access_mask s) n \<and> bit (ev_access e) n)"
    using bit_u8_length [of "sel_access_mask s"] by (simp add: bit_eq_iff bit_simps) blast
  moreover have "ob_space (ev_observation e) + 1 = ucast (sel_canonical_space s) \<longleftrightarrow> ob_space (ev_observation e) = ucast (sel_canonical_space s) - 1"
    by (auto simp: algebra_simps)
  ultimately show ?thesis unfolding selector_match_def selects_def Let_def atLeastAtMost_iff insert_iff empty_iff by argo
qed

subsection \<open>Gates\<close>

definition fires :: "em8051_debug_event \<Rightarrow> u8 \<Rightarrow> em8051_debug_trace_gate \<Rightarrow> bool" where
  "fires e timing g \<longleftrightarrow> gt_enabled g \<noteq> 0 \<and> gt_timing g = timing \<and> selects (gt_selector g) e"

text \<open>The switch of a trace after the gates: the last gate that fires and names the trace decides.\<close>

definition gate_effect :: "em8051_debug_event \<Rightarrow> u8 \<Rightarrow> em8051_debug_trace_gate list \<Rightarrow> em8051_debug_trace_session \<Rightarrow> u8" where
  "gate_effect e timing gates t =
     fold (\<lambda>g en. if fires e timing g \<and> tr_trace_id t \<in> set (gt_trace_ids g) then (if gt_action g = EM8051_DEBUG_TRACE_GATE_ON then 1 else 0) else en)
       gates (tr_enabled t)"

definition switched :: "(em8051_debug_trace_session \<Rightarrow> u8) \<Rightarrow> em8051_debug_trace_config \<Rightarrow> em8051_debug_trace_config" where
  "switched f c = c\<lparr>cf_traces := map (\<lambda>t. t\<lparr>tr_enabled := f t\<rparr>) (cf_traces c)\<rparr>"

lemma index_of_map: "index_of p (map f xs) = index_of (\<lambda>x. p (f x)) xs"
  by (simp add: index_of_def Let_def takeWhile_map comp_def)

lemma switched_simps [simp]:
  "cf_destinations (switched f c) = cf_destinations c" "cf_points (switched f c) = cf_points c" "cf_gates (switched f c) = cf_gates c"
  "length (cf_traces (switched f c)) = length (cf_traces c)" "map tr_trace_id (cf_traces (switched f c)) = map tr_trace_id (cf_traces c)"
  "trace_index (switched f c) ident = trace_index c ident" "destination_index (switched f c) ident = destination_index c ident"
  "i < length (cf_traces c) \<Longrightarrow> cf_traces (switched f c) ! i = (cf_traces c ! i)\<lparr>tr_enabled := f (cf_traces c ! i)\<rparr>"
  by (simp_all add: switched_def trace_index_def destination_index_def index_of_map comp_def)

lemma switched_switched: "switched f (switched g c) = switched (\<lambda>t. f (t\<lparr>tr_enabled := g t\<rparr>)) c"
  by (simp add: switched_def)

lemma switched_id: "switched tr_enabled c = c"
  by (simp add: switched_def)

lemma switched_valid:
  assumes "config_valid c" "\<forall>t \<in> set (cf_traces c). f t \<le> 1"
  shows "config_valid (switched f c)"
proof -
  have t: "list_all (trace_valid (switched f c)) (cf_traces (switched f c))"
    using assms by (auto simp: config_valid_def list_all_iff trace_valid_def) (auto simp: switched_def)
  have i: "ids_valid (switched f c) = ids_valid c" by (simp add: ids_valid_def fun_eq_iff)
  have "point_valid (switched f c) = point_valid c" "gate_valid (switched f c) = gate_valid c"
    by (simp_all add: point_valid_def gate_valid_def fun_eq_iff i)
  then show ?thesis using assms(1) t by (simp add: config_valid_def increasing_by_sorted)
qed

lemma set_enabled_switched:
  assumes d: "distinct (map tr_trace_id (cf_traces c))" and i: "trace_index c ident \<ge> 0"
  shows "set_enabled (trace_index c ident) v c = switched (\<lambda>t. if tr_trace_id t = ident then v else tr_enabled t) c"
proof -
  note n = trace_of_id [OF i]
  have "(cf_traces c)[nat (trace_index c ident) := (trace_of c ident)\<lparr>tr_enabled := v\<rparr>] =
      map (\<lambda>t. t\<lparr>tr_enabled := if tr_trace_id t = ident then v else tr_enabled t\<rparr>) (cf_traces c)"
  proof (rule nth_equalityI)
    fix k assume "k < length ((cf_traces c)[nat (trace_index c ident) := (trace_of c ident)\<lparr>tr_enabled := v\<rparr>])"
    then have k: "k < length (cf_traces c)" by simp
    have "tr_trace_id (cf_traces c ! k) = ident \<longleftrightarrow> k = nat (trace_index c ident)"
      using d k n nth_eq_iff_index_eq [OF d, of k "nat (trace_index c ident)"] by auto
    then show "(cf_traces c)[nat (trace_index c ident) := (trace_of c ident)\<lparr>tr_enabled := v\<rparr>] ! k =
      map (\<lambda>t. t\<lparr>tr_enabled := if tr_trace_id t = ident then v else tr_enabled t\<rparr>) (cf_traces c) ! k"
      using k n by (auto simp: nth_list_update)
  qed simp
  then show ?thesis using i by (simp add: set_enabled_def switched_def)
qed

lemma set_enabled_all:
  assumes "distinct (map tr_trace_id (cf_traces c))" "\<forall>i \<in> set ids. trace_index c i \<ge> 0"
  shows "fold (\<lambda>ident c. set_enabled (trace_index c ident) v c) ids c = switched (\<lambda>t. if tr_trace_id t \<in> set ids then v else tr_enabled t) c"
  using assms
proof (induction ids arbitrary: c)
  case Nil
  then show ?case by (simp add: switched_id)
next
  case (Cons i ids)
  then have "set_enabled (trace_index c i) v c = switched (\<lambda>t. if tr_trace_id t = i then v else tr_enabled t) c"
    by (simp add: set_enabled_switched)
  moreover have "fold (\<lambda>ident c. set_enabled (trace_index c ident) v c) ids (switched (\<lambda>t. if tr_trace_id t = i then v else tr_enabled t) c) =
      switched (\<lambda>t. if tr_trace_id t \<in> set ids then v else tr_enabled t) (switched (\<lambda>t. if tr_trace_id t = i then v else tr_enabled t) c)"
    using Cons.prems by (intro Cons.IH) simp_all
  ultimately show ?case by (simp add: switched_switched) (auto simp: switched_def)
qed

lemma gate_ids_found: "gate_valid c g \<Longrightarrow> i \<in> set (gt_trace_ids g) \<Longrightarrow> trace_index c i \<ge> 0"
  by (auto simp: gate_valid_def ids_valid_def list_all_iff in_set_conv_nth)

lemma point_ids_found: "point_valid c p \<Longrightarrow> i \<in> set (pt_trace_ids p) \<Longrightarrow> trace_index c i \<ge> 0"
  by (auto simp: point_valid_def ids_valid_def list_all_iff in_set_conv_nth)

lemma apply_gates_fold:
  assumes "distinct (map tr_trace_id (cf_traces c))" "\<forall>g \<in> set gates. \<forall>i \<in> set (gt_trace_ids g). trace_index c i \<ge> 0"
  shows "fold (apply_gate e timing) gates c = switched (gate_effect e timing gates) c"
  using assms
proof (induction gates arbitrary: c)
  case Nil
  then show ?case by (simp add: gate_effect_def switched_id)
next
  case (Cons g gates)
  define f where "f = (\<lambda>t :: em8051_debug_trace_session. if fires e timing g \<and> tr_trace_id t \<in> set (gt_trace_ids g) then (if gt_action g = EM8051_DEBUG_TRACE_GATE_ON then 1 else 0) else tr_enabled t)"
  have g: "apply_gate e timing g c = switched f c"
    using Cons.prems by (auto simp: apply_gate_def fires_def selector_match_selects f_def set_enabled_all switched_id)
  have "fold (apply_gate e timing) gates (switched f c) = switched (gate_effect e timing gates) (switched f c)"
    using Cons.prems by (intro Cons.IH) simp_all
  then show ?case by (simp add: g switched_switched) (simp add: gate_effect_def f_def)
qed

definition gated :: "em8051_debug_event \<Rightarrow> u8 \<Rightarrow> em8051_debug_trace_config \<Rightarrow> em8051_debug_trace_config" where
  "gated e timing c = switched (gate_effect e timing (cf_gates c)) c"

lemma config_gate: "config_valid c \<Longrightarrow> g \<in> set (cf_gates c) \<Longrightarrow> gate_valid c g"
  by (simp add: config_valid_def list_all_iff)

lemma apply_gates_gated: "config_valid (rt_config r) \<Longrightarrow> apply_gates e timing r = r\<lparr>rt_config := gated e timing (rt_config r)\<rparr>"
  unfolding apply_gates_def gated_def
  by (subst apply_gates_fold) (auto simp: config_distinct intro: gate_ids_found [OF config_gate])

lemma gate_effect_bool: "tr_enabled t \<le> 1 \<Longrightarrow> gate_effect e timing gates t \<le> 1"
proof -
  have "x \<le> 1 \<Longrightarrow> fold (\<lambda>g en. if fires e timing g \<and> tr_trace_id t \<in> set (gt_trace_ids g) then (if gt_action g = EM8051_DEBUG_TRACE_GATE_ON then 1 else 0) else en) gates x \<le> 1" for x :: u8
    by (induction gates arbitrary: x) auto
  then show "tr_enabled t \<le> 1 \<Longrightarrow> gate_effect e timing gates t \<le> 1" by (simp add: gate_effect_def)
qed

lemma gated_valid: "config_valid c \<Longrightarrow> config_valid (gated e timing c)"
  unfolding gated_def by (rule switched_valid) (auto simp: config_valid_def list_all_iff trace_valid_def gate_effect_bool)

lemma gated_simps [simp]:
  "cf_destinations (gated e timing c) = cf_destinations c" "cf_points (gated e timing c) = cf_points c" "cf_gates (gated e timing c) = cf_gates c"
  "length (cf_traces (gated e timing c)) = length (cf_traces c)" "map tr_trace_id (cf_traces (gated e timing c)) = map tr_trace_id (cf_traces c)"
  "trace_index (gated e timing c) ident = trace_index c ident" "destination_index (gated e timing c) ident = destination_index c ident"
  "i < length (cf_traces c) \<Longrightarrow> cf_traces (gated e timing c) ! i = (cf_traces c ! i)\<lparr>tr_enabled := gate_effect e timing (cf_gates c) (cf_traces c ! i)\<rparr>"
  by (simp_all add: gated_def)

subsection \<open>The traces a source event selects\<close>

definition lifecycle :: "em8051_debug_event \<Rightarrow> bool" where
  "lifecycle e \<longleftrightarrow> ev_kind e = EM8051_DEBUG_EVENT_RESET \<or> ev_kind e = EM8051_DEBUG_EVENT_LOAD"

definition selected :: "em8051_debug_event \<Rightarrow> em8051_debug_trace_config \<Rightarrow> u32 list" where
  "selected e c =
     sorted_list_of_set (if lifecycle e then tr_trace_id ` set (cf_traces c)
       else \<Union>p \<in> {p \<in> set (cf_points c). pt_enabled p \<noteq> 0 \<and> selects (pt_selector p) e}. set (pt_trace_ids p))"

lemma insert_id_set:
  assumes "sorted_wrt (<) ids"
  shows "sorted_wrt (<) (insert_id i ids) \<and> set (insert_id i ids) = insert i (set ids)"
proof -
  have "insert_id i ids = wr_trace_ids (insert_route i (zero_watch_result\<lparr>wr_trace_ids := ids\<rparr>))"
    by (simp add: insert_id_def insert_route_def Let_def)
  then show ?thesis using insert_route_ids(1) [of "zero_watch_result\<lparr>wr_trace_ids := ids\<rparr>" i] assms by simp
qed

lemma insert_ids_set:
  "sorted_wrt (<) ids \<Longrightarrow> sorted_wrt (<) (fold insert_id is ids) \<and> set (fold insert_id is ids) = set is \<union> set ids"
  by (induction "is" arbitrary: ids) (auto simp: insert_id_set)

lemma point_ids_set:
  "sorted_wrt (<) ids \<Longrightarrow>
   (let out = fold (\<lambda>p ids. if pt_enabled p = 0 \<or> \<not> selector_match (pt_selector p) e then ids else fold insert_id (pt_trace_ids p) ids) ps ids
    in sorted_wrt (<) out \<and>
       set out = (\<Union>p \<in> {p \<in> set ps. pt_enabled p \<noteq> 0 \<and> selector_match (pt_selector p) e}. set (pt_trace_ids p)) \<union> set ids)"
proof (induction ps arbitrary: ids)
  case (Cons p ps)
  show ?case
  proof (cases "pt_enabled p = 0 \<or> \<not> selector_match (pt_selector p) e")
    case True
    then have "{q \<in> set (p # ps). pt_enabled q \<noteq> 0 \<and> selector_match (pt_selector q) e} = {q \<in> set ps. pt_enabled q \<noteq> 0 \<and> selector_match (pt_selector q) e}"
      by auto
    then show ?thesis using Cons True by (simp add: Let_def)
  next
    case False
    then have "{q \<in> set (p # ps). pt_enabled q \<noteq> 0 \<and> selector_match (pt_selector q) e} = insert p {q \<in> set ps. pt_enabled q \<noteq> 0 \<and> selector_match (pt_selector q) e}"
      by auto
    moreover have "sorted_wrt (<) (fold insert_id (pt_trace_ids p) ids)" "set (fold insert_id (pt_trace_ids p) ids) = set (pt_trace_ids p) \<union> set ids"
      using insert_ids_set [OF Cons.prems] by simp_all
    ultimately show ?thesis using Cons.IH [of "fold insert_id (pt_trace_ids p) ids"] False by (auto simp: Let_def)
  qed
qed simp

lemma sorted_list_unique: "sorted_wrt (<) xs \<Longrightarrow> set xs = A \<Longrightarrow> xs = sorted_list_of_set A" for xs :: "'a::linorder list"
  using sorted_list_of_set.idem_if_sorted_distinct [of xs] by (auto simp: strict_sorted_iff)

lemma selected_ids:
  assumes "config_valid c"
  shows "(if lifecycle e then map tr_trace_id (cf_traces c) else point_ids e c) = selected e c" "ids_routable c (selected e c)"
proof -
  have a: "sorted_wrt (<) (point_ids e c)"
    "set (point_ids e c) = (\<Union>p \<in> {p \<in> set (cf_points c). pt_enabled p \<noteq> 0 \<and> selector_match (pt_selector p) e}. set (pt_trace_ids p))"
    using point_ids_set [of "[]" e "cf_points c"] by (simp_all add: point_ids_def Let_def)
  have b: "sorted_wrt (<) (map tr_trace_id (cf_traces c))" using assms by (simp add: config_valid_def increasing_by_sorted)
  show eq: "(if lifecycle e then map tr_trace_id (cf_traces c) else point_ids e c) = selected e c"
    using sorted_list_unique [OF a] sorted_list_unique [OF b] by (simp add: selected_def selector_match_selects)
  have nz: "tr_trace_id t \<noteq> 0" if "t \<in> set (cf_traces c)" for t using assms that by (auto simp: config_valid_def list_all_iff trace_valid_def)
  have pts: "trace_index c i \<ge> 0" if "i \<in> set (point_ids e c)" for i
    using that assms by (auto simp: a(2) config_valid_def list_all_iff intro: point_ids_found)
  have tr: "trace_index c i \<ge> 0" if "i \<in> set (map tr_trace_id (cf_traces c))" for i
    using that by (auto simp: trace_index_def index_of_found)
  have "i \<noteq> 0" if "trace_index c i \<ge> 0" for i
    using trace_of_id [OF that] nz by (metis nth_mem)
  then show "ids_routable c (selected e c)"
    unfolding eq [symmetric] ids_routable_def using a(1) b pts tr by (cases "lifecycle e") auto
qed

subsection \<open>Source events in closed form\<close>

definition begin_allowed :: "em8051_debug_event \<Rightarrow> 'w em8051_debug_trace_router \<Rightarrow> bool" where
  "begin_allowed e r \<longleftrightarrow> rt_source_open r = 0 \<and> ev_sequence e > rt_last_sequence r \<and> ev_kind e \<noteq> EM8051_DEBUG_EVENT_WATCH_MATCH \<and>
     (ev_kind e = EM8051_DEBUG_EVENT_INTERRUPT_EXIT \<longrightarrow> rt_interrupt_depth r \<noteq> 0) \<and>
     (ev_kind e = EM8051_DEBUG_EVENT_INTERRUPT_ENTER \<longrightarrow> rt_interrupt_depth r \<noteq> - 1)"

definition depth_after :: "em8051_debug_event \<Rightarrow> u32 \<Rightarrow> u32" where
  "depth_after e d = (if ev_kind e = EM8051_DEBUG_EVENT_INTERRUPT_ENTER then d + 1 else if ev_kind e = EM8051_DEBUG_EVENT_INTERRUPT_EXIT then d - 1 else d)"

definition snapshot_of :: "em8051_debug_event \<Rightarrow> em8051_debug_trace_config \<Rightarrow> u8 list option" where
  "snapshot_of e c = (if lifecycle e then Some (map tr_enabled (cf_traces c)) else None)"

text \<open>
  The router with the gates before the event applied; the callbacks' state after they were asked about the selected traces,
  the traces that then take the event, and those it is withheld from.
\<close>

definition before_gates :: "em8051_debug_event \<Rightarrow> 'w em8051_debug_trace_router \<Rightarrow> 'w em8051_debug_trace_router" where
  "before_gates e r = r\<lparr>rt_config := gated e EM8051_DEBUG_TRACE_GATE_BEFORE (rt_config r)\<rparr>"

definition asked :: "em8051_debug_event \<Rightarrow> 'w em8051_debug_trace_router \<Rightarrow> 'w \<Rightarrow> 'w \<times> u32 list" where
  "asked e r w = consult e (snapshot_of e (rt_config r)) (before_gates e r) (selected e (rt_config r)) w"

definition audience :: "em8051_debug_event \<Rightarrow> 'w em8051_debug_trace_router \<Rightarrow> 'w \<Rightarrow> u32 list" where
  "audience e r w = filter (takes e (before_gates e r)) (snd (asked e r w))"

definition excluded :: "em8051_debug_event \<Rightarrow> 'w em8051_debug_trace_router \<Rightarrow> 'w \<Rightarrow> u32 list" where
  "excluded e r w = filter (\<lambda>i. \<not> takes e (before_gates e r) i) (snd (asked e r w))"

lemma before_gates_simps [simp]:
  "rt_config (before_gates e r) = gated e EM8051_DEBUG_TRACE_GATE_BEFORE (rt_config r)" "rt_deliver (before_gates e r) = rt_deliver r"
  "rt_eligible (before_gates e r) = rt_eligible r" "rt_interrupt_depth (before_gates e r) = rt_interrupt_depth r"
  "rt_suppression (before_gates e r) = rt_suppression r" "rt_rings (before_gates e r) = rt_rings r"
  "rt_last_sequence (before_gates e r) = rt_last_sequence r" "rt_source_open (before_gates e r) = rt_source_open r"
  "rt_seen_trace_ids (before_gates e r) = rt_seen_trace_ids r" "rt_open_source_event (before_gates e r) = rt_open_source_event r"
  by (simp_all add: before_gates_def)

lemma selected_gated: "selected e (gated f timing c) = selected e c"
proof -
  have "set (map tr_trace_id (cf_traces (gated f timing c))) = set (map tr_trace_id (cf_traces c))" by (simp only: gated_simps)
  then have "tr_trace_id ` set (cf_traces (gated f timing c)) = tr_trace_id ` set (cf_traces c)" unfolding set_map .
  then show ?thesis by (simp add: selected_def)
qed

definition opened :: "em8051_debug_event \<Rightarrow> 'w em8051_debug_trace_router \<Rightarrow> 'w em8051_debug_trace_router" where
  "opened e r = r\<lparr>rt_interrupt_depth := depth_after e (rt_interrupt_depth r), rt_last_sequence := ev_sequence e, rt_open_source_event := e, rt_source_open := 1\<rparr>"

text \<open>Under a valid configuration beginning a source event is routing to the selected traces.\<close>

lemma source_begin_route:
  assumes c: "config_valid (rt_config r)" and a: "begin_allowed e r"
  shows "em8051_debug_trace_router_source_begin e (r, w) =
    (case route_ids e (selected e (rt_config r)) None (snapshot_of e (rt_config r)) (before_gates e r, w) of
       (status, r', w') \<Rightarrow> (status, if status = EM8051_DEBUG_EVENT_OK then opened e r' else r', w'))"
proof -
  have g: "apply_gates e EM8051_DEBUG_TRACE_GATE_BEFORE r = before_gates e r"
    using c by (simp add: apply_gates_gated before_gates_def)
  have i: "(if lifecycle e then map tr_trace_id (cf_traces (rt_config r)) else point_ids e (rt_config (before_gates e r))) = selected e (rt_config r)"
    using selected_ids(1) [OF gated_valid [OF c, of e EM8051_DEBUG_TRACE_GATE_BEFORE], of e] by (cases "lifecycle e") (simp_all add: selected_gated)
  have nz: "ev_sequence e \<noteq> 0" using a by (auto simp: begin_allowed_def)
  have dist: "(9 :: u8) \<noteq> 10" by simp
  have guard: "\<not> (rt_source_open r \<noteq> 0 \<or> ev_sequence e = 0 \<or> ev_sequence e \<le> rt_last_sequence r \<or> ev_kind e = EM8051_DEBUG_EVENT_WATCH_MATCH \<or>
        ev_kind e = EM8051_DEBUG_EVENT_INTERRUPT_EXIT \<and> rt_interrupt_depth r = 0 \<or>
        ev_kind e = EM8051_DEBUG_EVENT_INTERRUPT_ENTER \<and> rt_interrupt_depth r = - 1)"
    using a nz by (auto simp: begin_allowed_def not_le)
  show ?thesis
    unfolding em8051_debug_trace_router_source_begin_def prod.case if_not_P [OF guard] Let_def g
      lifecycle_def [symmetric] i snapshot_of_def [symmetric]
    by (auto simp: opened_def depth_after_def split: prod.splits)
qed

lemma source_begin_refused:
  assumes "\<not> begin_allowed e r"
  shows "em8051_debug_trace_router_source_begin e (r, w) = (EM8051_DEBUG_EVENT_INVALID_ARGUMENT, r, w)"
proof -
  have "rt_source_open r \<noteq> 0 \<or> ev_sequence e = 0 \<or> ev_sequence e \<le> rt_last_sequence r \<or> ev_kind e = EM8051_DEBUG_EVENT_WATCH_MATCH \<or>
        ev_kind e = EM8051_DEBUG_EVENT_INTERRUPT_EXIT \<and> rt_interrupt_depth r = 0 \<or>
        ev_kind e = EM8051_DEBUG_EVENT_INTERRUPT_ENTER \<and> rt_interrupt_depth r = - 1"
    using assms by (auto simp: begin_allowed_def not_less)
  then show ?thesis unfolding em8051_debug_trace_router_source_begin_def prod.case by (rule if_P)
qed

lemma source_begin_exact:
  assumes c: "config_valid (rt_config r)" and a: "begin_allowed e r"
  shows "em8051_debug_trace_router_source_begin e (r, w) =
    (EM8051_DEBUG_EVENT_OK,
     opened e ((pushed (route_stream e None (before_gates e r) (audience e r w)) (before_gates e r))
       \<lparr>rt_suppression := suppression_after e (before_gates e r) (audience e r w) (excluded e r w)\<rparr>),
     deliver_all (rt_deliver r) (event_records e None (rt_config (before_gates e r)) (audience e r w)) (fst (asked e r w)))"
proof -
  have c': "config_valid (rt_config (before_gates e r))" using gated_valid [OF c] by simp
  have "ids_routable (rt_config (before_gates e r)) (selected e (rt_config r))"
    using selected_ids(2) [OF c', of e] by (simp add: selected_gated)
  then show ?thesis
    using route_ids_routed [OF c', of e] by (simp add: source_begin_route [OF c a] audience_def excluded_def asked_def routed_def taken_def withheld_def)
qed

subsection \<open>The invariant\<close>

text \<open>
  A suppression is either clear or in progress: it then belongs to the trace, under a policy that withholds, counts at
  least one event and spans sequence numbers up to the bound.
\<close>

definition suppression_ok :: "u64 \<Rightarrow> em8051_debug_trace_session \<Rightarrow> em8051_debug_trace_suppression_state \<Rightarrow> bool" where
  "suppression_ok bound t s \<longleftrightarrow> s = zero_suppression_state \<or>
     ss_active s = 1 \<and> su_trace_id (ss_value s) = tr_trace_id t \<and> su_interrupt_policy (ss_value s) = tr_interrupt_policy t \<and>
     tr_interrupt_policy t \<noteq> EM8051_DEBUG_TRACE_INCLUDE \<and> su_count (ss_value s) \<noteq> 0 \<and>
     0 < su_first_sequence (ss_value s) \<and> su_first_sequence (ss_value s) \<le> su_last_sequence (ss_value s) \<and>
     su_last_sequence (ss_value s) \<le> bound \<and> su_entry_depth (ss_value s) \<le> su_maximum_depth (ss_value s)"

definition parts_ok :: "u64 \<Rightarrow> 'w em8051_debug_trace_router \<Rightarrow> bool" where
  "parts_ok bound r \<longleftrightarrow> config_valid (rt_config r) \<and> (\<forall>d. ring_ok (rt_rings r d)) \<and>
     distinct (rt_seen_trace_ids r) \<and> length (rt_seen_trace_ids r) \<le> 64 \<and>
     tr_trace_id ` set (cf_traces (rt_config r)) \<subseteq> set (rt_seen_trace_ids r) \<and>
     (\<forall>i < length (cf_traces (rt_config r)). suppression_ok bound (cf_traces (rt_config r) ! i) (rt_suppression r i))"

definition router_ok :: "'w em8051_debug_trace_router \<Rightarrow> bool" where
  "router_ok r \<longleftrightarrow> parts_ok (rt_last_sequence r) r \<and> rt_source_open r \<le> 1 \<and>
     (rt_source_open r = 1 \<longrightarrow> 0 < ev_sequence (rt_open_source_event r) \<and> ev_sequence (rt_open_source_event r) \<le> rt_last_sequence r \<and>
        ev_kind (rt_open_source_event r) \<noteq> EM8051_DEBUG_EVENT_WATCH_MATCH)"

lemma suppression_ok_mono: "suppression_ok m t s \<Longrightarrow> m \<le> n \<Longrightarrow> suppression_ok n t s"
  by (auto simp: suppression_ok_def)

lemma parts_ok_mono: "parts_ok m r \<Longrightarrow> m \<le> n \<Longrightarrow> parts_ok n r"
  by (auto simp: parts_ok_def intro: suppression_ok_mono)

lemma suppression_ok_zero [simp]: "suppression_ok n t zero_suppression_state"
  by (simp add: suppression_ok_def)

lemma saturated_increment_pos: "saturated_increment n \<noteq> 0"
  by (auto simp: saturated_increment_def eq_neg_iff_add_eq_0)

lemma policy_withholds: "\<not> policy_accepts policy kind depth \<Longrightarrow> policy \<noteq> EM8051_DEBUG_TRACE_INCLUDE"
  by (auto simp: policy_accepts_def Let_def split: if_splits)

lemma suppression_add_ok:
  assumes ok: "parts_ok (ev_sequence e) r" and ti: "ti < length (cf_traces (rt_config r))"
    and p: "tr_interrupt_policy (cf_traces (rt_config r) ! ti) \<noteq> EM8051_DEBUG_TRACE_INCLUDE" and s: "ev_sequence e \<noteq> 0"
  shows "parts_ok (ev_sequence e) (suppression_add ti e r)"
proof -
  define t where "t = cf_traces (rt_config r) ! ti"
  have old: "suppression_ok (ev_sequence e) t (rt_suppression r ti)" using ok ti by (simp add: parts_ok_def t_def)
  have "suppression_ok (ev_sequence e) t (rt_suppression (suppression_add ti e r) ti)"
  proof (cases "rt_suppression r ti = zero_suppression_state")
    case True
    then show ?thesis using p s
      by (simp add: suppression_add_def suppression_ok_def zero_suppression_state_def zero_suppression_def saturated_increment_pos
          t_def [symmetric] Let_def word_gt_0)
  next
    case False
    with old have "ss_active (rt_suppression r ti) = 1" by (simp add: suppression_ok_def)
    with old False show ?thesis
      by (auto simp: suppression_add_def suppression_ok_def saturated_increment_pos Let_def)
  qed
  then have "suppression_ok (ev_sequence e) (cf_traces (rt_config r) ! i) (rt_suppression (suppression_add ti e r) i)"
    if "i < length (cf_traces (rt_config r))" for i
    using ok that by (cases "i = ti") (simp_all add: t_def parts_ok_def suppression_add_other)
  moreover have "rt_config (suppression_add ti e r) = rt_config r" "rt_rings (suppression_add ti e r) = rt_rings r"
    "rt_seen_trace_ids (suppression_add ti e r) = rt_seen_trace_ids r"
    by (simp_all add: suppression_add_def Let_def)
  ultimately show ?thesis using ok by (simp add: parts_ok_def)
qed

text \<open>Everything that only pushes records and clears suppressions.\<close>

definition quieter :: "'w em8051_debug_trace_router \<Rightarrow> 'w em8051_debug_trace_router \<Rightarrow> bool" where
  "quieter r r' \<longleftrightarrow>
     rt_config r' = rt_config r \<and> rt_seen_trace_ids r' = rt_seen_trace_ids r \<and> rt_last_sequence r' = rt_last_sequence r \<and>
     rt_source_open r' = rt_source_open r \<and> rt_open_source_event r' = rt_open_source_event r \<and> rt_interrupt_depth r' = rt_interrupt_depth r \<and>
     rt_deliver r' = rt_deliver r \<and> rt_eligible r' = rt_eligible r \<and> (\<forall>d. ring_ok (rt_rings r d) \<longrightarrow> ring_ok (rt_rings r' d)) \<and>
     (\<forall>i. rt_suppression r' i \<in> {rt_suppression r i, zero_suppression_state})"

lemma quieter_refl [simp]: "quieter r r"
  by (simp add: quieter_def)

lemma quieter_trans:
  assumes "quieter r r1" "quieter r1 r2"
  shows "quieter r r2"
proof -
  have "rt_suppression r2 i \<in> {rt_suppression r i, zero_suppression_state}" for i
  proof -
    have "rt_suppression r2 i \<in> {rt_suppression r1 i, zero_suppression_state}" "rt_suppression r1 i \<in> {rt_suppression r i, zero_suppression_state}"
      using assms by (simp_all only: quieter_def)
    then show ?thesis by auto
  qed
  then show ?thesis using assms unfolding quieter_def by simp
qed

lemma quieter_parts:
  assumes q: "quieter r r'" and ok: "parts_ok n r"
  shows "parts_ok n r'"
proof -
  have "suppression_ok n (cf_traces (rt_config r) ! i) (rt_suppression r' i)" if "i < length (cf_traces (rt_config r))" for i
  proof -
    have "rt_suppression r' i = rt_suppression r i \<or> rt_suppression r' i = zero_suppression_state" using q by (simp add: quieter_def)
    then show ?thesis using ok that by (auto simp: parts_ok_def)
  qed
  then show ?thesis using q ok by (simp add: parts_ok_def quieter_def)
qed

lemma quieter_fields:
  assumes "quieter r r'"
  shows "rt_config r' = rt_config r" "rt_seen_trace_ids r' = rt_seen_trace_ids r" "rt_last_sequence r' = rt_last_sequence r"
    "rt_source_open r' = rt_source_open r" "rt_open_source_event r' = rt_open_source_event r" "rt_interrupt_depth r' = rt_interrupt_depth r"
    "rt_deliver r' = rt_deliver r" "rt_eligible r' = rt_eligible r"
  using assms by (simp_all add: quieter_def)

lemma push_record_quieter: "quieter r (fst (push_record d x (r, w)))"
  by (simp add: quieter_def push_record_def ring.push_ok)

lemma suppression_emit_quieter: "quieter r (fst (suppression_emit ti (r, w)))"
  by (simp add: suppression_emit_def push_record_def Let_def quieter_def ring.push_ok)

lemma fold_quieter:
  assumes "\<And>a r w. quieter r (fst (f a (r, w)))"
  shows "quieter r (fst (fold f xs (r, w)))"
proof (induction xs arbitrary: r w)
  case (Cons a xs)
  obtain r1 w1 where p: "f a (r, w) = (r1, w1)" by fastforce
  show ?case using Cons.IH [of r1 w1] assms [of r a w] by (auto simp: p intro: quieter_trans)
qed simp

lemma quieter_ok: "quieter r r' \<Longrightarrow> router_ok r \<Longrightarrow> router_ok r'"
  by (simp add: router_ok_def quieter_fields quieter_parts)

subsection \<open>Routing keeps the parts\<close>

text \<open>What routing an event leaves alone.\<close>

definition same_frame :: "'w em8051_debug_trace_router \<Rightarrow> 'w em8051_debug_trace_router \<Rightarrow> bool" where
  "same_frame r r' \<longleftrightarrow> rt_config r' = rt_config r \<and> rt_seen_trace_ids r' = rt_seen_trace_ids r \<and> rt_last_sequence r' = rt_last_sequence r \<and>
     rt_source_open r' = rt_source_open r \<and> rt_open_source_event r' = rt_open_source_event r \<and> rt_interrupt_depth r' = rt_interrupt_depth r \<and>
     rt_deliver r' = rt_deliver r \<and> rt_eligible r' = rt_eligible r"

lemma quieter_frame: "quieter r r' \<Longrightarrow> same_frame r r'"
  by (simp add: quieter_def same_frame_def)

lemma same_frame_trans: "same_frame r r1 \<Longrightarrow> same_frame r1 r2 \<Longrightarrow> same_frame r r2"
  by (simp add: same_frame_def)

lemma suppression_add_frame: "same_frame r (suppression_add ti e r)"
  by (simp add: same_frame_def suppression_add_def Let_def)

lemma route_one_ok:
  assumes ok: "parts_ok (ev_sequence e) r" and s: "ev_sequence e \<noteq> 0" and i: "trace_index (rt_config r) i \<ge> 0"
    and out: "route_one e watch snapshot i (r, w, records) = (r', w', records')"
  shows "parts_ok (ev_sequence e) r' \<and> same_frame r r'"
proof -
  define ti where "ti = nat (trace_index (rt_config r) i)"
  have ti: "ti < length (cf_traces (rt_config r))" using trace_of_id [OF i] by (simp add: ti_def)
  have "r' = r \<or> r' = suppression_add ti e r \<and> \<not> policy_accepts (tr_interrupt_policy (cf_traces (rt_config r) ! ti)) (ev_kind e) (rt_interrupt_depth r) \<or>
      (\<exists>w. r' = fst (suppression_emit ti (r, w)))"
    using out by (auto simp: route_one_def Let_def ti_def split: if_splits prod.splits) (metis fst_conv)+
  then show ?thesis
    using ok suppression_add_ok [OF ok ti policy_withholds s] suppression_add_frame [of r ti e]
      quieter_parts [OF suppression_emit_quieter ok] quieter_frame [OF suppression_emit_quieter [of r ti]]
    by (auto simp: same_frame_def)
qed

lemma route_loop_ok:
  assumes "parts_ok (ev_sequence e) r" "ev_sequence e \<noteq> 0" "\<forall>i \<in> set ids. trace_index (rt_config r) i \<ge> 0"
  shows "case fold (route_one e watch snapshot) ids (r, w, records) of (r', w', records') \<Rightarrow> parts_ok (ev_sequence e) r' \<and> same_frame r r'"
  using assms
proof (induction ids arbitrary: r w records)
  case (Cons i ids)
  obtain r1 w1 rec1 where p: "route_one e watch snapshot i (r, w, records) = (r1, w1, rec1)" by (cases "route_one e watch snapshot i (r, w, records)") auto
  have o: "parts_ok (ev_sequence e) r1" "same_frame r r1" using route_one_ok [OF Cons.prems(1,2) _ p] Cons.prems(3) by simp_all
  have "\<forall>i \<in> set ids. trace_index (rt_config r1) i \<ge> 0" using Cons.prems(3) o(2) by (simp add: same_frame_def)
  from Cons.IH [OF o(1) Cons.prems(2) this, of w1 rec1] show ?case
    using o(2) by (auto simp: p intro: same_frame_trans split: prod.splits)
qed (simp add: same_frame_def)

lemma route_ids_ok:
  assumes ok: "parts_ok (ev_sequence e) r" "ev_sequence e \<noteq> 0" and out: "route_ids e ids watch snapshot (r, w) = (status, r', w')"
  shows "parts_ok (ev_sequence e) r' \<and> same_frame r r' \<and> (status = EM8051_DEBUG_EVENT_OK \<longleftrightarrow> ids_routable (rt_config r) ids) \<and>
    (status \<noteq> EM8051_DEBUG_EVENT_OK \<longrightarrow> r' = r \<and> w' = w)"
proof (cases "ids_routable (rt_config r) ids")
  case True
  obtain r1 w1 rec1 where f: "fold (route_one e watch snapshot) ids (r, w, \<lambda>_. None) = (r1, w1, rec1)"
    by (cases "fold (route_one e watch snapshot) ids (r, w, \<lambda>_. None)") auto
  have o: "parts_ok (ev_sequence e) r1" "same_frame r r1"
    using route_loop_ok [OF ok, of ids watch snapshot w "\<lambda>_. None"] True by (simp_all add: f ids_routable_def)
  define push where "push = (\<lambda>i rw. case rec1 i of None \<Rightarrow> rw | Some x \<Rightarrow> push_record i x (rw :: 'a em8051_debug_trace_router \<times> 'a))"
  have q: "quieter r1 (fst (fold push [0..<length (cf_destinations (rt_config r1))] (r1, w1)))"
    by (rule fold_quieter) (auto simp: push_def push_record_quieter split: option.splits)
  have "status = EM8051_DEBUG_EVENT_OK" "(r', w') = fold push [0..<length (cf_destinations (rt_config r1))] (r1, w1)"
    using out True unfolding route_ids_def prod.case route_guard by (simp_all add: f push_def)
  then have "quieter r1 r'" "status = EM8051_DEBUG_EVENT_OK" using q by (simp_all flip: \<open>(r', w') = _\<close>)
  then show ?thesis using o True quieter_parts [OF _ o(1)] quieter_frame by (auto intro: same_frame_trans)
next
  case False
  then have "status = EM8051_DEBUG_EVENT_INVALID_ARGUMENT \<and> r' = r \<and> w' = w"
    using out unfolding route_ids_def prod.case route_guard by simp
  then show ?thesis using ok False by (simp add: same_frame_def)
qed

lemma before_gates_parts: "parts_ok n r \<Longrightarrow> parts_ok n (before_gates e r)"
proof -
  have "tr_trace_id ` set (cf_traces (gated e EM8051_DEBUG_TRACE_GATE_BEFORE c)) = tr_trace_id ` set (cf_traces c)" for c
    unfolding set_map [symmetric] by (simp only: gated_simps)
  then show "parts_ok n r \<Longrightarrow> parts_ok n (before_gates e r)"
    by (simp add: parts_ok_def gated_valid suppression_ok_def)
qed

lemma source_begin_ok:
  assumes ok: "router_ok r" and out: "em8051_debug_trace_router_source_begin e (r, w) = (status, r', w')"
  shows "router_ok r' \<and> (status = EM8051_DEBUG_EVENT_OK \<longleftrightarrow> begin_allowed e r) \<and> (status \<noteq> EM8051_DEBUG_EVENT_OK \<longrightarrow> r' = r \<and> w' = w) \<and>
    (status = EM8051_DEBUG_EVENT_OK \<longrightarrow> rt_config r' = gated e EM8051_DEBUG_TRACE_GATE_BEFORE (rt_config r) \<and> rt_last_sequence r' = ev_sequence e \<and>
       rt_source_open r' = 1 \<and> rt_open_source_event r' = e \<and> rt_interrupt_depth r' = depth_after e (rt_interrupt_depth r))"
proof (cases "begin_allowed e r")
  case True
  have c: "config_valid (rt_config r)" using ok by (simp add: router_ok_def parts_ok_def)
  have s: "ev_sequence e \<noteq> 0" "rt_last_sequence r \<le> ev_sequence e" using True by (auto simp: begin_allowed_def)
  have p: "parts_ok (ev_sequence e) (before_gates e r)"
    using ok s(2) by (auto simp: router_ok_def intro: before_gates_parts parts_ok_mono)
  obtain st r1 w1 where rt: "route_ids e (selected e (rt_config r)) None (snapshot_of e (rt_config r)) (before_gates e r, w) = (st, r1, w1)"
    by (cases "route_ids e (selected e (rt_config r)) None (snapshot_of e (rt_config r)) (before_gates e r, w)") auto
  have "ids_routable (rt_config (before_gates e r)) (selected e (rt_config r))"
    using selected_ids(2) [OF gated_valid [OF c, of e EM8051_DEBUG_TRACE_GATE_BEFORE], of e] by (simp add: selected_gated)
  then have "st = EM8051_DEBUG_EVENT_OK" "parts_ok (ev_sequence e) r1" "same_frame (before_gates e r) r1"
    using route_ids_ok [OF p s(1) rt] by simp_all
  moreover have "(status, r', w') = (EM8051_DEBUG_EVENT_OK, opened e r1, w1)"
    using out source_begin_route [OF c True, of w] calculation(1) by (simp add: rt)
  moreover have "ev_kind e \<noteq> EM8051_DEBUG_EVENT_WATCH_MATCH" using True by (simp add: begin_allowed_def)
  ultimately show ?thesis using True s by (simp add: router_ok_def opened_def parts_ok_def word_gt_0 same_frame_def)
next
  case False
  then show ?thesis using out ok by (simp add: source_begin_refused)
qed

subsection \<open>The other operations\<close>

lemma router_ok_config: "router_ok r \<Longrightarrow> config_valid (rt_config r)"
  by (simp add: router_ok_def parts_ok_def)

lemma source_end_ok:
  assumes ok: "router_ok r" and out: "em8051_debug_trace_router_source_end r = (status, r')"
  shows "router_ok r' \<and> (status = EM8051_DEBUG_EVENT_OK \<longleftrightarrow> rt_source_open r \<noteq> 0) \<and> (status \<noteq> EM8051_DEBUG_EVENT_OK \<longrightarrow> r' = r) \<and>
    (status = EM8051_DEBUG_EVENT_OK \<longrightarrow> rt_source_open r' = 0 \<and> rt_last_sequence r' = rt_last_sequence r \<and> rt_interrupt_depth r' = rt_interrupt_depth r \<and>
       rt_config r' = gated (rt_open_source_event r) EM8051_DEBUG_TRACE_GATE_AFTER (rt_config r))"
proof (cases "rt_source_open r = 0")
  case False
  define e where "e = rt_open_source_event r"
  have ids: "tr_trace_id ` set (cf_traces (gated e timing c)) = tr_trace_id ` set (cf_traces c)" for timing c
    unfolding set_map [symmetric] by (simp only: gated_simps)
  have "r' = r\<lparr>rt_config := gated e EM8051_DEBUG_TRACE_GATE_AFTER (rt_config r), rt_open_source_event := zero_event, rt_source_open := 0\<rparr>"
    and "status = EM8051_DEBUG_EVENT_OK"
    using out False router_ok_config [OF ok] by (auto simp: em8051_debug_trace_router_source_end_def Let_def apply_gates_gated e_def)
  then show ?thesis using ok False by (simp add: router_ok_def parts_ok_def gated_valid suppression_ok_def ids [unfolded e_def] e_def)
qed (use assms in \<open>simp add: em8051_debug_trace_router_source_end_def\<close>)

definition watch_allowed :: "em8051_debug_event \<Rightarrow> em8051_debug_watch_result \<Rightarrow> 'w em8051_debug_trace_router \<Rightarrow> bool" where
  "watch_allowed e result r \<longleftrightarrow> ev_kind e = EM8051_DEBUG_EVENT_WATCH_MATCH \<and> rt_last_sequence r < ev_sequence e \<and> length (wr_trace_ids result) \<le> 16 \<and>
     (rt_source_open r \<noteq> 0 \<longrightarrow>
        wr_source_event_sequence result = ev_sequence (rt_open_source_event r) \<and> ev_generation e = ev_generation (rt_open_source_event r)) \<and>
     ids_routable (rt_config r) (wr_trace_ids result)"

lemma watch_ok:
  assumes ok: "router_ok r" and out: "em8051_debug_trace_router_watch e result (r, w) = (status, r', w')"
  shows "router_ok r' \<and> (status = EM8051_DEBUG_EVENT_OK \<longleftrightarrow> watch_allowed e result r) \<and> (status \<noteq> EM8051_DEBUG_EVENT_OK \<longrightarrow> r' = r \<and> w' = w) \<and>
    (status = EM8051_DEBUG_EVENT_OK \<longrightarrow> rt_config r' = rt_config r \<and> rt_last_sequence r' = ev_sequence e \<and> rt_source_open r' = rt_source_open r \<and>
       rt_open_source_event r' = rt_open_source_event r \<and> rt_interrupt_depth r' = rt_interrupt_depth r)"
proof (cases "ev_kind e \<noteq> EM8051_DEBUG_EVENT_WATCH_MATCH \<or> ev_sequence e = 0 \<or> ev_sequence e \<le> rt_last_sequence r \<or>
        length (wr_trace_ids result) > 16 \<or>
        rt_source_open r \<noteq> 0 \<and>
        (wr_source_event_sequence result \<noteq> ev_sequence (rt_open_source_event r) \<or> ev_generation e \<noteq> ev_generation (rt_open_source_event r))")
  case True
  moreover have "\<not> watch_allowed e result r" using True by (auto simp: watch_allowed_def)
  ultimately show ?thesis using out ok unfolding em8051_debug_trace_router_watch_def prod.case if_P [OF True] by simp
next
  case False
  then have s: "ev_sequence e \<noteq> 0" "rt_last_sequence r \<le> ev_sequence e" by auto
  have al: "watch_allowed e result r = ids_routable (rt_config r) (wr_trace_ids result)" using False by (auto simp: watch_allowed_def not_le)
  obtain st r1 w1 where rt: "route_ids e (wr_trace_ids result) (Some result) None (r, w) = (st, r1, w1)"
    by (cases "route_ids e (wr_trace_ids result) (Some result) None (r, w)") auto
  have p: "parts_ok (ev_sequence e) r" using ok s(2) by (auto simp: router_ok_def intro: parts_ok_mono)
  note k = route_ids_ok [OF p s(1) rt]
  have "status = st" "r' = (if st = EM8051_DEBUG_EVENT_OK then r1\<lparr>rt_last_sequence := ev_sequence e\<rparr> else r1)" "w' = w1"
    using out unfolding em8051_debug_trace_router_watch_def prod.case if_not_P [OF False] by (auto simp: rt)
  then show ?thesis using k ok s unfolding al by (auto simp: router_ok_def parts_ok_def same_frame_def)
qed

lemma flush_quieter: "quieter r (fst (snd (em8051_debug_trace_router_flush (r, w))))"
  by (simp add: em8051_debug_trace_router_flush_def) (intro impI fold_quieter suppression_emit_quieter)

lemma flush_selected_quieter: "quieter r (fst (snd (emu_debug_trace_flush_selected d t (r, w))))"
proof -
  have "quieter r (fst (fold (\<lambda>i (r, w). let t' = cf_traces (rt_config r) ! i
                in if (d = 0 \<or> tr_destination_id t' = d) \<and> (t = 0 \<or> tr_trace_id t' = t)
                   then suppression_emit i (r, w) else (r, w)) xs (r, w)))" for xs
    by (rule fold_quieter) (simp add: suppression_emit_quieter Let_def)
  then show ?thesis by (simp add: emu_debug_trace_flush_selected_def)
qed

lemma new_trace_ids_spec:
  assumes "new_trace_ids r ts = Some ids" "distinct (map tr_trace_id ts)"
  shows "distinct ids \<and> set ids = {i \<in> tr_trace_id ` set ts. trace_index (rt_config r) i < 0} \<and> set ids \<inter> set (rt_seen_trace_ids r) = {}"
  using assms
proof (induction ts arbitrary: ids)
  case (Cons t ts)
  show ?case
  proof (cases "trace_index (rt_config r) (tr_trace_id t) \<ge> 0")
    case True
    then show ?thesis using Cons by auto
  next
    case False
    then obtain ids' where "new_trace_ids r ts = Some ids'" "ids = tr_trace_id t # ids'" "tr_trace_id t \<notin> set (rt_seen_trace_ids r)"
      using Cons.prems by (auto split: if_splits)
    then show ?thesis using Cons False by auto
  qed
qed simp

lemma carried_suppression_ok:
  assumes ok: "parts_ok n r" and i: "i < length (cf_traces c)"
  shows "suppression_ok n (cf_traces c ! i) (carried_suppression r c i)"
proof -
  define old where "old = trace_index (rt_config r) (tr_trace_id (cf_traces c ! i))"
  show ?thesis
  proof (cases "old \<ge> 0 \<and> tr_interrupt_policy (cf_traces (rt_config r) ! nat old) = tr_interrupt_policy (cf_traces c ! i)")
    case True
    then have "tr_trace_id (cf_traces (rt_config r) ! nat old) = tr_trace_id (cf_traces c ! i)" "nat old < length (cf_traces (rt_config r))"
      using trace_of_id [of "rt_config r" "tr_trace_id (cf_traces c ! i)"] by (simp_all add: old_def)
    moreover from this(2) have "suppression_ok n (cf_traces (rt_config r) ! nat old) (rt_suppression r (nat old))"
      using ok by (simp add: parts_ok_def)
    ultimately have "suppression_ok n (cf_traces c ! i) (rt_suppression r (nat old))" using True by (simp add: suppression_ok_def)
    then show ?thesis using i by (simp add: carried_suppression_def Let_def old_def)
  next
    case False
    then have "carried_suppression r c i = zero_suppression_state" using i by (auto simp: carried_suppression_def Let_def old_def)
    then show ?thesis by simp
  qed
qed

lemma replace_ok:
  assumes ok: "router_ok r" and out: "em8051_debug_trace_router_replace c r = (status, r')"
  shows "router_ok r' \<and> (status \<noteq> EM8051_DEBUG_EVENT_OK \<longrightarrow> r' = r) \<and> (status = EM8051_DEBUG_EVENT_OK \<longrightarrow> rt_config r' = c)"
proof (cases "status = EM8051_DEBUG_EVENT_OK")
  case False
  then have "r' = r" using out by (auto simp: em8051_debug_trace_router_replace_def split: if_splits option.splits)
  then show ?thesis using ok False by simp
next
  case True
  then obtain new_ids where new: "new_trace_ids r (cf_traces c) = Some new_ids" and c: "config_valid c" "rt_source_open r = 0"
    and room: "length new_ids \<le> 64 - length (rt_seen_trace_ids r)"
    and r': "r' = r\<lparr>rt_config := c, rt_rings := carried_ring r c, rt_suppression := carried_suppression r c,
               rt_seen_trace_ids := rt_seen_trace_ids r @ new_ids\<rparr>"
    using out by (auto simp: em8051_debug_trace_router_replace_def split: if_splits option.splits)
  have p: "parts_ok (rt_last_sequence r) r" using ok by (simp add: router_ok_def)
  note ids = new_trace_ids_spec [OF new config_distinct(1) [OF c(1)]]
  have "i \<in> set (rt_seen_trace_ids r)" if "trace_index (rt_config r) i \<ge> 0" for i
    using p trace_of_id [OF that] unfolding parts_ok_def by (metis image_subset_iff nth_mem)
  then have "tr_trace_id ` set (cf_traces c) \<subseteq> set (rt_seen_trace_ids r @ new_ids)" using ids by fastforce
  moreover have "ring_ok (carried_ring r c d)" for d using p by (simp add: carried_ring_def parts_ok_def Let_def)
  moreover have "distinct (rt_seen_trace_ids r @ new_ids)" "length (rt_seen_trace_ids r @ new_ids) \<le> 64"
    using ids p room by (auto simp: parts_ok_def)
  ultimately have "parts_ok (rt_last_sequence r) r'"
    using c(1) carried_suppression_ok [OF p] by (simp add: parts_ok_def r' del: set_append distinct_append length_append)
  then show ?thesis using c True by (simp add: router_ok_def r')
qed

subsection \<open>Reachable routers\<close>

text \<open>
  Everything that happens to a router: its operations, its owner's changes of the callbacks, of the
  interrupt depth and of a suppression, and a reader that pops records from a ring.
\<close>

inductive router_step :: "'w em8051_debug_trace_router \<times> 'w \<Rightarrow> 'w em8051_debug_trace_router \<times> 'w \<Rightarrow> bool" where
  step_begin: "em8051_debug_trace_router_source_begin e (r, w) = (status, r', w') \<Longrightarrow> router_step (r, w) (r', w')"
| step_end: "em8051_debug_trace_router_source_end r = (status, r') \<Longrightarrow> router_step (r, w) (r', w)"
| step_watch: "em8051_debug_trace_router_watch e result (r, w) = (status, r', w') \<Longrightarrow> router_step (r, w) (r', w')"
| step_flush: "em8051_debug_trace_router_flush (r, w) = (status, r', w') \<Longrightarrow> router_step (r, w) (r', w')"
| step_flush_selected: "emu_debug_trace_flush_selected d t (r, w) = (status, r', w') \<Longrightarrow> router_step (r, w) (r', w')"
| step_replace: "em8051_debug_trace_router_replace c r = (status, r') \<Longrightarrow> router_step (r, w) (r', w)"
| step_pop: "em8051_debug_trace_ring_pop (rt_rings r d) = (x, ring) \<Longrightarrow> router_step (r, w) (r\<lparr>rt_rings := (rt_rings r)(d := ring)\<rparr>, w)"
| step_delivery: "router_step (r, w) (r\<lparr>rt_deliver := g, rt_eligible := f\<rparr>, w')"
| step_depth: "router_step (r, w) (r\<lparr>rt_interrupt_depth := n\<rparr>, w)"
| step_discard: "router_step (r, w) (r\<lparr>rt_suppression := (rt_suppression r)(ti := zero_suppression_state)\<rparr>, w)"

inductive router_reach :: "'w em8051_debug_trace_router \<times> 'w \<Rightarrow> bool" where
  reach_init: "router_reach (em8051_debug_trace_router_init, w)"
| reach_step: "router_reach rw \<Longrightarrow> router_step rw rw' \<Longrightarrow> router_reach rw'"

lemma router_init_ok: "router_ok em8051_debug_trace_router_init"
  by (simp add: router_ok_def parts_ok_def em8051_debug_trace_router_init_def config_valid_def increasing_by_def)

lemma router_step_ok: "router_step rw rw' \<Longrightarrow> router_ok (fst rw) \<Longrightarrow> router_ok (fst rw')"
proof (induction rule: router_step.induct)
  case (step_flush r w status r' w')
  then show ?case using quieter_ok [OF flush_quieter [of r w]] by simp
next
  case (step_flush_selected d t r w status r' w')
  then show ?case using quieter_ok [OF flush_selected_quieter [of r d t w]] by simp
next
  case (step_pop r d x ring w)
  have "ring_ok ring" using ring.pop_ok [of "rt_rings r d"] step_pop by (simp add: router_ok_def parts_ok_def)
  then show ?case using step_pop.prems by (simp add: router_ok_def parts_ok_def)
next
  case (step_begin e r w status r' w')
  then show ?case using source_begin_ok [of r e w status r' w'] by simp
next
  case (step_end r status r' w)
  then show ?case using source_end_ok [of r status r'] by simp
next
  case (step_watch e result r w status r' w')
  then show ?case using watch_ok [of r e result w status r' w'] by simp
next
  case (step_replace c r status r' w)
  then show ?case using replace_ok [of r c status r'] by simp
qed (simp_all add: router_ok_def parts_ok_def)

lemma router_reach_ok: "router_reach rw \<Longrightarrow> router_ok (fst rw)"
  by (induction rule: router_reach.induct) (auto simp: router_init_ok intro: router_step_ok)

lemma begin_accepted: "router_ok r \<Longrightarrow> fst (em8051_debug_trace_router_source_begin e (r, w)) = EM8051_DEBUG_EVENT_OK \<longleftrightarrow> begin_allowed e r"
  using source_begin_ok [of r e w] by (cases "em8051_debug_trace_router_source_begin e (r, w)") auto

subsection \<open>Rings after a source event\<close>

lemma pushed_rings:
  assumes ok: "ring_ok (rt_rings r d)"
    and d: "\<And>x. x \<in> set xs \<Longrightarrow> dx (rt_config r) (rec_destination_id x) = d \<longleftrightarrow> rec_destination_id x = ident"
  shows "ring_list (rt_rings (pushed xs r) d) = newest 128 (ring_list (rt_rings r d) @ filter (\<lambda>x. rec_destination_id x = ident) xs)"
proof -
  have "filter (\<lambda>x. dx (rt_config r) (rec_destination_id x) = d) xs = filter (\<lambda>x. rec_destination_id x = ident) xs"
    using d by (auto intro: filter_cong)
  then show ?thesis using ring.push_all [OF ok] by (simp add: pushed_def)
qed

lemma route_stream_destination:
  assumes c: "config_valid (rt_config r)" and v: "\<forall>i \<in> set acc. trace_index (rt_config r) i \<ge> 0"
    and x: "x \<in> set (route_stream e watch r acc)" and d: "d < length (cf_destinations (rt_config r))"
  shows "dx (rt_config r) (rec_destination_id x) = d \<longleftrightarrow> rec_destination_id x = dst_destination_id (cf_destinations (rt_config r) ! d)"
proof -
  have "\<exists>k < length (cf_destinations (rt_config r)). rec_destination_id x = dst_destination_id (cf_destinations (rt_config r) ! k)"
  proof (cases "x \<in> set (summaries r acc)")
    case True
    then obtain i where i: "i \<in> set acc" "x = summary_record r i" by (auto simp: summaries_def)
    then have "trace_index (rt_config r) i \<ge> 0" using v by simp
    from trace_destination [OF c this] show ?thesis by (auto simp: i(2) summary_record_def)
  next
    case False
    then obtain dst where "dst \<in> set (cf_destinations (rt_config r))" "rec_destination_id x = dst_destination_id dst"
      using x by (auto simp: route_stream_def event_records_def event_record_def)
    then show ?thesis by (metis in_set_conv_nth)
  qed
  then show ?thesis using dx_nth [OF c] d by metis
qed

lemma depth_nesting:
  assumes "begin_allowed e r"
  shows "unat (depth_after e (rt_interrupt_depth r)) = nesting_after e (unat (rt_interrupt_depth r))"
proof -
  have "unat (d + 1) = unat d + 1" if "d \<noteq> - 1" for d :: u32
    using that unatSuc [of d] by (simp add: add.commute eq_neg_iff_add_eq_0)
  then show ?thesis using assms unat_minus_one [of "rt_interrupt_depth r"]
    by (auto simp: begin_allowed_def depth_after_def nesting_after_def)
qed

text \<open>
  C27. Routing of a source event.  In a router with a valid configuration, an event that may begin is accepted, whatever the
  installed callbacks do.  The gates before it decide the switches; the enabled points that match it (or, for reset and load,
  every trace, with its switch as it was before the gates) select traces.  The selected traces are gone through in
  increasing order: for one that is switched on the eligibility callback, where installed, is asked in the
  state that all earlier answers and deliveries left, and an eligible trace takes the event unless its interrupt policy holds
  it back, judged by the interrupt depth before and after the event.  A trace that takes the event ends its
  suppression, whose summary is delivered at once; one that is held back starts or continues its
  suppression (first and last sequence number, saturating count, entry and greatest depth).  Finally one record per destination
  with its traces in increasing order is delivered, and each destination's ring keeps the newest 128 of its old records, the
  summaries and these records.
\<close>

theorem route_event_exact:
  fixes r :: "'w em8051_debug_trace_router" and w :: 'w
  assumes ok: "router_ok r" and a: "begin_allowed e r"
  defines "c \<equiv> rt_config r" and "b \<equiv> before_gates e r"
    and "stream \<equiv> summaries (before_gates e r) (audience e r w) @ event_records e None (rt_config (before_gates e r)) (audience e r w)"
  shows "\<exists>r'. em8051_debug_trace_router_source_begin e (r, w) =
      (EM8051_DEBUG_EVENT_OK, r', deliver_all (rt_deliver r) (event_records e None (rt_config b) (audience e r w)) (fst (asked e r w))) \<and>
    (\<forall>d < length (cf_destinations c). ring_list (rt_rings r' d) =
       newest 128 (ring_list (rt_rings r d) @ filter (\<lambda>x. rec_destination_id x = dst_destination_id (cf_destinations c ! d)) stream)) \<and>
    rt_suppression r' = suppression_after e b (audience e r w) (excluded e r w) \<and>
    rt_config r' = gated e EM8051_DEBUG_TRACE_GATE_BEFORE c \<and> unat (rt_interrupt_depth r') = nesting_after e (unat (rt_interrupt_depth r)) \<and>
    rt_last_sequence r' = ev_sequence e \<and> rt_source_open r' = 1 \<and> rt_open_source_event r' = e \<and>
    rt_seen_trace_ids r' = rt_seen_trace_ids r \<and> rt_deliver r' = rt_deliver r \<and> rt_eligible r' = rt_eligible r"
proof -
  have c': "config_valid (rt_config b)" using gated_valid [OF router_ok_config [OF ok]] by (simp add: b_def)
  have "ids_routable (rt_config b) (selected e (rt_config r))"
    using selected_ids(2) [OF c', of e] by (simp add: b_def selected_gated)
  moreover have "set (audience e r w) \<subseteq> set (selected e (rt_config r))"
    using consult_subset by (fastforce simp: audience_def asked_def)
  ultimately have v: "\<forall>i \<in> set (audience e r w). trace_index (rt_config b) i \<ge> 0" by (auto simp: ids_routable_def)
  have st: "stream = route_stream e None b (audience e r w)" by (simp add: stream_def route_stream_def b_def)
  have rings: "ring_list (rt_rings (pushed stream b) d) = newest 128 (ring_list (rt_rings r d) @ filter (\<lambda>x. rec_destination_id x = dst_destination_id (cf_destinations c ! d)) stream)"
    if d: "d < length (cf_destinations c)" for d
    using pushed_rings [of b d stream "dst_destination_id (cf_destinations c ! d)"] route_stream_destination [OF c' v, of _ e None d] d ok
    by (simp add: st b_def c_def router_ok_def parts_ok_def)
  define r' where "r' = opened e ((pushed stream b)\<lparr>rt_suppression := suppression_after e b (audience e r w) (excluded e r w)\<rparr>)"
  have "rt_rings r' = rt_rings (pushed stream b)" by (simp add: r'_def opened_def)
  then show ?thesis
    using source_begin_exact [OF router_ok_config [OF ok] a, of w] rings depth_nesting [OF a]
    by (intro exI [of _ r']) (simp add: r'_def [symmetric] st b_def [symmetric], simp add: r'_def opened_def b_def c_def)
qed

text \<open>A router with one destination and one trace behind a point that matches every event.\<close>

definition sample_config :: em8051_debug_trace_config where
  "sample_config = \<lparr>
     cf_traces = [\<lparr>tr_trace_id = 7, tr_destination_id = 1, tr_tag = [0], tr_comment = [0], tr_enabled = 1, tr_interrupt_policy = 1\<rparr>],
     cf_destinations = [\<lparr>dst_destination_id = 1\<rparr>],
     cf_points = [\<lparr>pt_selector = \<lparr>sel_pc_first = 0, sel_pc_last = 0, sel_address_first = 0, sel_address_last = 0, sel_kind = 0, sel_match_kind = 0,
       sel_match_pc = 0, sel_match_address = 0, sel_address_space = 0, sel_match_address_space = 0, sel_observation_kind = 0,
       sel_match_observation_kind = 0, sel_access_mask = 0, sel_match_access = 0, sel_canonical_space = 0, sel_canonical = 0\<rparr>,
       pt_trace_ids = [7], pt_point_id = 1, pt_enabled = 1\<rparr>],
     cf_gates = []\<rparr>"

definition sample_router :: "em8051_debug_trace_record list em8051_debug_trace_router" where
  "sample_router = (snd (em8051_debug_trace_router_replace sample_config em8051_debug_trace_router_init))\<lparr>rt_deliver := Some (\<lambda>x w. w @ [x])\<rparr>"

abbreviation sample_event :: em8051_debug_event where
  "sample_event \<equiv> zero_event\<lparr>ev_sequence := 5\<rparr>"

lemma index_of_simps [simp]: "index_of p (x # xs) = (if p x then 0 else if index_of p xs < 0 then -1 else index_of p xs + 1)" "index_of p [] = -1"
  by (simp_all add: index_of_def Let_def)

lemma sample_config_valid: "config_valid sample_config"
  by (simp add: sample_config_def config_valid_def increasing_by_def trace_valid_def utf8_terminated_def utf8_terminated_from.simps
      destination_index_def point_valid_def selector_valid_def ids_valid_def trace_index_def)

lemma sample_replace: "em8051_debug_trace_router_replace sample_config (em8051_debug_trace_router_init :: 'w em8051_debug_trace_router) =
    (EM8051_DEBUG_EVENT_OK, snd (em8051_debug_trace_router_replace sample_config em8051_debug_trace_router_init))"
  by (simp add: em8051_debug_trace_router_replace_def sample_config_valid)
     (simp add: em8051_debug_trace_router_init_def sample_config_def trace_index_def)

lemma router_ok_deliver: "router_ok (r\<lparr>rt_deliver := g\<rparr>) = router_ok r"
  by (simp add: router_ok_def parts_ok_def)

lemma sample_router_ok: "router_ok sample_router"
  unfolding sample_router_def router_ok_deliver
  using replace_ok [where 'a = "em8051_debug_trace_record list", OF router_init_ok sample_replace] by simp

lemma sample_fields:
  "rt_config sample_router = sample_config" "rt_deliver sample_router = Some (\<lambda>x w. w @ [x])" "rt_eligible sample_router = None"
  "rt_source_open sample_router = 0" "rt_last_sequence sample_router = 0" "rt_interrupt_depth sample_router = 0"
  "rt_suppression sample_router = (\<lambda>_. zero_suppression_state)" "rt_rings sample_router d = zero_ring"
proof -
  define r0 :: "em8051_debug_trace_record list em8051_debug_trace_router" where "r0 = em8051_debug_trace_router_init"
  have sr: "sample_router = r0\<lparr>rt_config := sample_config, rt_rings := carried_ring r0 sample_config, rt_suppression := carried_suppression r0 sample_config,
      rt_seen_trace_ids := [7], rt_deliver := Some (\<lambda>x w. w @ [x])\<rparr>"
    by (simp add: sample_router_def em8051_debug_trace_router_replace_def sample_config_valid)
       (simp add: r0_def em8051_debug_trace_router_init_def sample_config_def trace_index_def)
  show "rt_config sample_router = sample_config" "rt_deliver sample_router = Some (\<lambda>x w. w @ [x])" "rt_eligible sample_router = None"
    "rt_source_open sample_router = 0" "rt_last_sequence sample_router = 0" "rt_interrupt_depth sample_router = 0"
    "rt_suppression sample_router = (\<lambda>_. zero_suppression_state)" "rt_rings sample_router d = zero_ring"
    unfolding sr by (simp_all add: r0_def em8051_debug_trace_router_init_def carried_ring_def carried_suppression_def destination_index_def trace_index_def fun_eq_iff)
qed

text \<open>
  Callbacks that take part: two interrupt-only traces are eligible as long as nothing has been delivered, and the first
  has an event withheld.  The entry of an interrupt ends its suppression; the delivered summary makes the second
  trace ineligible.
\<close>

definition capture_config :: em8051_debug_trace_config where
  "capture_config = sample_config\<lparr>
     cf_traces := map (\<lambda>i. \<lparr>tr_trace_id = i, tr_destination_id = 1, tr_tag = [0], tr_comment = [0], tr_enabled = 1, tr_interrupt_policy = 2\<rparr>) [7, 8],
     cf_points := map (\<lambda>p. p\<lparr>pt_trace_ids := [7, 8]\<rparr>) (cf_points sample_config)\<rparr>"

definition held_back :: em8051_debug_trace_suppression where
  "held_back = \<lparr>su_first_sequence = 2, su_last_sequence = 3, su_count = 2, su_trace_id = 7, su_entry_depth = 0, su_maximum_depth = 0,
     su_interrupt_policy = 2\<rparr>"

definition capture_router :: "em8051_debug_trace_record list em8051_debug_trace_router" where
  "capture_router = em8051_debug_trace_router_init\<lparr>rt_config := capture_config, rt_seen_trace_ids := [7, 8], rt_last_sequence := 3,
     rt_suppression := (\<lambda>_. zero_suppression_state)(0 := \<lparr>ss_value = held_back, ss_active = 1\<rparr>),
     rt_deliver := Some (\<lambda>x w. w @ [x]), rt_eligible := Some (\<lambda>_ _ w. (w = [], w))\<rparr>"

definition entry_event :: em8051_debug_event where
  "entry_event = zero_event\<lparr>ev_sequence := 5, ev_kind := EM8051_DEBUG_EVENT_INTERRUPT_ENTER\<rparr>"

lemma capture_config_valid: "config_valid capture_config"
  by (simp add: capture_config_def sample_config_def config_valid_def increasing_by_def trace_valid_def utf8_terminated_def utf8_terminated_from.simps
      destination_index_def point_valid_def selector_valid_def ids_valid_def trace_index_def upt_conv_Cons)

lemma capture_router_ok: "router_ok capture_router"
  using capture_config_valid
  by (auto simp: router_ok_def parts_ok_def capture_router_def em8051_debug_trace_router_init_def suppression_ok_def held_back_def
      capture_config_def less_Suc_eq)

lemma capture_asked:
  defines "su \<equiv> zero_trace_record\<lparr>rec_kind := EM8051_DEBUG_TRACE_RECORD_SUPPRESSION, rec_destination_id := 1, rec_trace_ids := [7],
    rec_suppression := held_back\<rparr>"
  shows "asked entry_event capture_router [] = ([su], [7])" "audience entry_event capture_router [] = [7]"
    "summaries (before_gates entry_event capture_router) [7] = [su]"
    "event_records entry_event None capture_config [7] = [event_record entry_event None 1 [7]]"
    "rt_config (before_gates entry_event capture_router) = capture_config"
proof -
  have g: "gated entry_event 0 capture_config = capture_config"
    by (simp add: gated_def capture_config_def sample_config_def gate_effect_def switched_def)
  have f: "rt_config (before_gates entry_event capture_router) = capture_config" "rt_config capture_router = capture_config"
    "rt_interrupt_depth capture_router = 0" "rt_deliver capture_router = Some (\<lambda>x w. w @ [x])" "rt_eligible capture_router = Some (\<lambda>_ _ w. (w = [], w))"
    by (simp_all add: g capture_router_def em8051_debug_trace_router_init_def)
  have s: "selected entry_event capture_config = [7, 8]"
    by (simp add: selected_def lifecycle_def capture_config_def sample_config_def selects_def entry_event_def zero_event_def zero_observation_def Let_def)
  have i: "trace_index capture_config 7 = 0" "trace_index capture_config 8 = 1" by (simp_all add: trace_index_def capture_config_def)
  have t: "takes entry_event (before_gates entry_event capture_router) i" if "i = 7 \<or> i = 8" for i
    using that by (auto simp: takes_def f i nesting_after_def entry_event_def) (simp_all add: capture_config_def)
  show su: "summaries (before_gates entry_event capture_router) [7] = [su]"
    by (simp add: summaries_def suppressed_def f i summary_record_def su_def) (simp add: capture_router_def capture_config_def)
  have on: "turned_on (snapshot_of entry_event capture_config) capture_config i" if "i = 7 \<or> i = 8" for i
    using that by (auto simp: turned_on_def snapshot_of_def lifecycle_def entry_event_def i) (simp_all add: capture_config_def)
  show a: "asked entry_event capture_router [] = ([su], [7])"
    by (simp add: asked_def consult_def consult_one_def f g s on ask_def t su)
  show "audience entry_event capture_router [] = [7]" by (simp add: audience_def a t)
  show "event_records entry_event None capture_config [7] = [event_record entry_event None 1 [7]]"
    by (simp add: event_records_def f g i) (simp add: capture_config_def sample_config_def)
  show "rt_config (before_gates entry_event capture_router) = capture_config" by (rule f(1))
qed

theorem route_event_exact_witness:
  "\<exists>r'. em8051_debug_trace_router_source_begin entry_event (capture_router, []) =
     (EM8051_DEBUG_EVENT_OK, r', [zero_trace_record\<lparr>rec_kind := EM8051_DEBUG_TRACE_RECORD_SUPPRESSION, rec_destination_id := 1, rec_trace_ids := [7],
        rec_suppression := held_back\<rparr>, event_record entry_event None 1 [7]]) \<and>
     map rec_trace_ids (ring_list (rt_rings r' 0)) = [[7], [7]] \<and> unat (rt_interrupt_depth r') = 1"
proof -
  have a: "begin_allowed entry_event capture_router"
    by (simp add: begin_allowed_def capture_router_def em8051_debug_trace_router_init_def entry_event_def)
  have f: "rt_deliver capture_router = Some (\<lambda>x w. w @ [x])" "length (cf_destinations (rt_config capture_router)) = 1"
    "dst_destination_id (cf_destinations (rt_config capture_router) ! 0) = 1" "ring_list (rt_rings capture_router 0) = []" "rt_interrupt_depth capture_router = 0"
    by (simp_all add: capture_router_def capture_config_def sample_config_def em8051_debug_trace_router_init_def)
  show ?thesis
    using route_event_exact [OF capture_router_ok a, of "[]"]
    by (auto simp: capture_asked f deliver_all_def simp del: before_gates_simps) (auto simp: event_record_def nesting_after_def entry_event_def)
qed

text \<open>
  C28. The router's invariant.  Whatever sequence of operations, callbacks and readers works on a router, its
  configuration stays valid (so every search for a trace or destination that a gate, point or suppression
  names succeeds), ring heads and counts stay within the 128 slots, trace identifiers ever used stay distinct and
  at most 64, and a suppression in progress belongs to its trace under a withholding policy with ordered sequence
  numbers not above the last one seen; and beginning a source event fails only for the documented reasons.
\<close>

theorem router_invariant:
  assumes "router_reach (r, w)"
  shows "router_ok r \<and> (fst (em8051_debug_trace_router_source_begin e (r, w')) = EM8051_DEBUG_EVENT_OK \<longleftrightarrow> begin_allowed e r)"
  using router_reach_ok [OF assms] begin_accepted [of r e w'] by simp

theorem router_invariant_witness:
  "router_ok sample_router \<and> fst (em8051_debug_trace_router_source_begin sample_event (sample_router, [])) = EM8051_DEBUG_EVENT_OK"
proof -
  define r0 :: "em8051_debug_trace_record list em8051_debug_trace_router" where
    "r0 = snd (em8051_debug_trace_router_replace sample_config em8051_debug_trace_router_init)"
  have sr: "sample_router = r0\<lparr>rt_deliver := Some (\<lambda>x w. w @ [x])\<rparr>" by (simp add: sample_router_def r0_def)
  have "rt_eligible r0 = None" using sample_fields(3) by (simp add: sr)
  then have "r0\<lparr>rt_deliver := Some (\<lambda>x w. w @ [x]), rt_eligible := None\<rparr> = sample_router" by (cases r0) (simp add: sr)
  moreover have "router_reach (r0, [])"
    unfolding r0_def by (rule reach_step [OF reach_init step_replace [OF sample_replace]])
  ultimately have "router_reach (sample_router, [])"
    using reach_step [OF _ step_delivery [where g = "Some (\<lambda>x w. w @ [x])" and f = None and w' = "[]" and w = "[]" and r = r0]] by simp
  from router_invariant [OF this, of sample_event "[]"] show ?thesis
    by (simp add: begin_allowed_def sample_fields zero_event_def)
qed

end
