(* ===== verification/RuntimeInv.thy ===== *)
theory RuntimeInv
  imports DebugRuntime RouterInv
begin

text \<open>
  The trace runtime as a whole: an accepted source event also delivers every watch match derived from it, sequence
  numbers are handed out without gaps inside a dispatch, and the runtime is idle again after every
  operation.
\<close>

subsection \<open>Emission\<close>

text \<open>The event as the bus stamps it.\<close>

definition stamped :: "u64 \<Rightarrow> em8051_debug_event \<Rightarrow> em8051_debug_event" where
  "stamped n e =
     (let e = e\<lparr>ev_sequence := n\<rparr>
      in if ob_kind (ev_observation e) \<noteq> 0
         then e\<lparr>ev_observation := (ev_observation e)\<lparr>ob_sequence := n, ob_generation := ev_generation e\<rparr>\<rparr> else e)"

lemma stamped_simps [simp]:
  "ev_sequence (stamped n e) = n" "ev_kind (stamped n e) = ev_kind e" "ev_generation (stamped n e) = ev_generation e"
  "ob_kind (ev_observation (stamped n e)) = ob_kind (ev_observation e)"
  by (simp_all add: stamped_def Let_def)

definition bus_ok :: "unit em8051_debug_event_bus \<Rightarrow> bool" where
  "bus_ok b \<longleftrightarrow> length (bus_observers b) = 1 \<and> bus_dispatching b = 0"

abbreviation next_sequence :: "'w em8051_debug_runtime \<Rightarrow> u64" where
  "next_sequence d \<equiv> bus_next_sequence (dr_bus d)"

lemma observer_bus: "runtime_observer e (d, w) = (d', w') \<Longrightarrow> dr_bus d' = dr_bus d"
  by (auto simp: runtime_observer_def Let_def split: if_splits prod.splits)

lemma runtime_emit_refused:
  "bus_ok (dr_bus d) \<Longrightarrow> next_sequence d = 0 \<or> ev_sequence e \<noteq> 0 \<Longrightarrow> runtime_emit e (d, w) = ((EM8051_DEBUG_EVENT_INVALID_ARGUMENT, None), d, w)"
  by (auto simp: runtime_emit_def em8051_debug_event_bus_emit_def bus_ok_def)

lemma runtime_emit_step:
  assumes b: "bus_ok (dr_bus d)" and n: "next_sequence d \<noteq> 0" "ev_sequence e = 0"
    and o: "runtime_observer (stamped (next_sequence d) e)
      (d\<lparr>dr_bus := (dr_bus d)\<lparr>bus_next_sequence := next_sequence d + 1, bus_dispatching := 1\<rparr>\<rparr>, w) = (d', w')"
  shows "runtime_emit e (d, w) =
    ((EM8051_DEBUG_EVENT_OK, Some (next_sequence d)), d'\<lparr>dr_bus := (dr_bus d)\<lparr>bus_next_sequence := next_sequence d + 1\<rparr>\<rparr>, w')"
proof -
  obtain slot where s: "bus_observers (dr_bus d) = [slot]" using b by (auto simp: bus_ok_def length_Suc_conv)
  have e: "(if ob_kind (ev_observation (e\<lparr>ev_sequence := n\<rparr>)) \<noteq> 0
      then (e\<lparr>ev_sequence := n\<rparr>)\<lparr>ev_observation := (ev_observation (e\<lparr>ev_sequence := n\<rparr>))\<lparr>ob_sequence := n, ob_generation := ev_generation (e\<lparr>ev_sequence := n\<rparr>)\<rparr>\<rparr>
      else e\<lparr>ev_sequence := n\<rparr>) = stamped n e" for n
    by (simp add: stamped_def Let_def)
  have "dr_bus d' = (dr_bus d)\<lparr>bus_next_sequence := next_sequence d + 1, bus_dispatching := 1\<rparr>" using observer_bus [OF o] by simp
  moreover have "(dr_bus d)\<lparr>bus_next_sequence := next_sequence d + 1, bus_dispatching := 1, bus_dispatching := 0\<rparr> = (dr_bus d)\<lparr>bus_next_sequence := next_sequence d + 1\<rparr>"
    using b by (simp add: bus_ok_def)
  ultimately show ?thesis
    unfolding runtime_emit_def em8051_debug_event_bus_emit_def Let_def prod.case e
    using b n o by (simp add: bus_ok_def s)
qed

subsection \<open>The results of the watches\<close>

definition matched :: "em8051_debug_watch_table \<Rightarrow> em8051_debug_event \<Rightarrow> em8051_debug_watch_result list" where
  "matched table e =
     (if ob_kind (ev_observation e) \<noteq> 0 \<and> (ob_kind (ev_observation e) \<noteq> EMUIF_OBS_ACCESS_RESULT \<or> ob_status (ev_observation e) \<noteq> EMUIF_OK)
      then [] else map (expected_result e) (filter (\<lambda>w. concerns w e \<and> fired w e \<noteq> []) table))"

lemma table_match_matched:
  assumes "\<forall>w \<in> set table. watch_valid w" "ev_kind e \<noteq> EM8051_DEBUG_EVENT_WATCH_MATCH"
  shows "em8051_debug_watch_table_match table e n =
    (if length (matched table e) > n then EM8051_DEBUG_EVENT_LIMIT else EM8051_DEBUG_EVENT_OK, take n (matched table e), length (matched table e))"
  using assms unfolding em8051_debug_watch_table_match_def matched_def match_watches_expected [OF assms(1)] by (simp add: Let_def concerns_scope)

definition result_ok :: "em8051_debug_trace_config \<Rightarrow> em8051_debug_event \<Rightarrow> em8051_debug_watch_result \<Rightarrow> bool" where
  "result_ok c e result \<longleftrightarrow> ids_routable c (wr_trace_ids result) \<and> length (wr_trace_ids result) \<le> 16 \<and> wr_source_event_sequence result = ev_sequence e"

lemma runtime_trace_index_eq: "runtime_trace_index = trace_index"
  by (simp add: fun_eq_iff runtime_trace_index_def trace_index_def)

lemma fired_routes_found:
  assumes "watch_routes_valid ws c" "w \<in> set ws" "i \<in> fired_routes w e"
  shows "trace_index c i \<ge> 0"
  using assms by (auto simp: watch_routes_valid_def list_all_iff fired_routes_def runtime_trace_index_eq)

lemma trace_index_nonzero: "config_valid c \<Longrightarrow> trace_index c i \<ge> 0 \<Longrightarrow> i \<noteq> 0"
  using trace_of_id [of c i] by (auto simp: config_valid_def trace_valid_def list_all_iff)

lemma matched_ok:
  assumes c: "config_valid c" and v: "\<forall>w \<in> set table. watch_valid w" and r: "watch_routes_valid table c" and x: "x \<in> set (matched table e)"
  shows "result_ok c e x"
proof -
  obtain w where w: "w \<in> set table" "x = expected_result e w" using x by (auto simp: matched_def split: if_splits)
  have "watch_valid w" using v w by simp
  note fin = watch_valid_actions(3,4) [OF this, of e]
  have found: "trace_index c i \<ge> 0 \<and> i \<noteq> 0" if "i \<in> fired_routes w e" for i
    using fired_routes_found [OF r w(1) that] trace_index_nonzero [OF c] by blast
  have "sorted_wrt (<) (sorted_list_of_set (fired_routes w e))" by (rule strict_sorted_list_of_set)
  then show ?thesis using fin found by (auto simp: w(2) result_ok_def expected_result_def ids_routable_def)
qed

lemma matched_short: "length (matched table e) \<le> length table"
  by (simp add: matched_def)

subsection \<open>What a dispatch promises\<close>

text \<open>The observation callback hears every event that carries an observation.\<close>

definition observed :: "(emuif_observation \<Rightarrow> 'w \<Rightarrow> 'w) option \<Rightarrow> em8051_debug_event \<Rightarrow> 'w \<Rightarrow> 'w" where
  "observed fn e w = (case fn of Some f \<Rightarrow> if ob_kind (ev_observation e) \<noteq> 0 then f (ev_observation e) w else w | None \<Rightarrow> w)"

text \<open>The event of a match under its sequence number: the source event turned into a match, its observation naming the watch.\<close>

definition announced :: "u64 \<Rightarrow> em8051_debug_event \<Rightarrow> em8051_debug_watch_result \<Rightarrow> em8051_debug_event" where
  "announced n source m = source\<lparr>ev_sequence := n, ev_kind := EM8051_DEBUG_EVENT_WATCH_MATCH,
     ev_observation := (let ob = ev_observation source
       in if ob_kind ob = 0 then ob
          else ob\<lparr>ob_sequence := n, ob_generation := ev_generation source, ob_kind := EMUIF_OBS_WATCH, ob_phase := EMUIF_OBS_PHASE_BOUNDARY,
                 ob_source_event_sequence := wr_source_event_sequence m, ob_watch_id := wr_watch_id m, ob_fired_actions := wr_fired_action_mask m\<rparr>)\<rparr>"

text \<open>
  The router and the callbacks' state after the source event, after a match for the traces it names, after all matches in order
  under consecutive numbers, and after the end of the source event.
\<close>

definition source_routed :: "em8051_debug_event \<Rightarrow> 'w em8051_debug_trace_router \<times> 'w \<Rightarrow> 'w em8051_debug_trace_router \<times> 'w" where
  "source_routed e = (\<lambda>(r, w).
     (opened e ((pushed (route_stream e None (before_gates e r) (audience e r w)) (before_gates e r))
        \<lparr>rt_suppression := suppression_after e (before_gates e r) (audience e r w) (excluded e r w)\<rparr>),
      deliver_all (rt_deliver r) (event_records e None (rt_config (before_gates e r)) (audience e r w)) (fst (asked e r w))))"

definition match_routed ::
    "em8051_debug_event \<Rightarrow> em8051_debug_watch_result \<Rightarrow> 'w em8051_debug_trace_router \<times> 'w \<Rightarrow> 'w em8051_debug_trace_router \<times> 'w" where
  "match_routed e m = (\<lambda>(r, w).
     ((routed e (Some m) None (wr_trace_ids m) r w)\<lparr>rt_last_sequence := ev_sequence e\<rparr>,
      deliver_all (rt_deliver r) (event_records e (Some m) (rt_config r) (taken e None r (wr_trace_ids m) w)) (fst (consult e None r (wr_trace_ids m) w))))"

fun announce ::
    "(emuif_observation \<Rightarrow> 'w \<Rightarrow> 'w) option \<Rightarrow> em8051_debug_event \<Rightarrow> u64 \<Rightarrow> em8051_debug_watch_result list \<Rightarrow>
     'w em8051_debug_trace_router \<times> 'w \<Rightarrow> 'w em8051_debug_trace_router \<times> 'w" where
  "announce fn source n [] s = s"
| "announce fn source n (m # ms) (r, w) =
     announce fn source (n + 1) ms (match_routed (announced n source m) m (r, observed fn (announced n source m) w))"

definition closed :: "em8051_debug_event \<Rightarrow> 'w em8051_debug_trace_router \<Rightarrow> 'w em8051_debug_trace_router" where
  "closed e r = r\<lparr>rt_config := gated e EM8051_DEBUG_TRACE_GATE_AFTER (rt_config r), rt_open_source_event := zero_event, rt_source_open := 0\<rparr>"

text \<open>A 64-bit counter that grew by \<open>k\<close> and stops at its largest value.\<close>

definition grows :: "u64 \<Rightarrow> nat \<Rightarrow> u64 \<Rightarrow> bool" where
  "grows n k n' \<longleftrightarrow> unat n' = min (2 ^ 64 - 1) (unat n + k)"

text \<open>
  The pending stop: the least watch that asked for it, and of its requests the oldest, among the matches and the stop
  pending before; every match that asks for a stop counts.
\<close>

definition stop_merged :: "em8051_debug_runtime_stop \<Rightarrow> em8051_debug_watch_result list \<Rightarrow> em8051_debug_runtime_stop \<Rightarrow> bool" where
  "stop_merged s ms s' \<longleftrightarrow>
     (let hits = filter (\<lambda>m. wr_stop m \<noteq> 0) ms;
          candidates = (if st_pending s = 0 then {} else {(st_watch_id s, st_source_event_sequence s)}) \<union>
            (\<lambda>m. (wr_watch_id m, wr_source_event_sequence m)) ` set hits
      in if hits = [] then s' = s
         else st_pending s' = 1 \<and> grows (st_matching_watch_count s) (length hits) (st_matching_watch_count s') \<and>
           (st_watch_id s', st_source_event_sequence s') \<in> candidates \<and>
           (\<forall>(i, q) \<in> candidates. st_watch_id s' < i \<or> st_watch_id s' = i \<and> st_source_event_sequence s' \<le> q))"

lemma announced_stamped: "stamped n (derived_event source m) = announced n source m"
  by (rule em8051_debug_event.equality) (simp_all add: stamped_def derived_event_def announced_def Let_def)

lemma announced_simps [simp]:
  "ev_sequence (announced n e m) = n" "ev_kind (announced n e m) = EM8051_DEBUG_EVENT_WATCH_MATCH" "ev_generation (announced n e m) = ev_generation e"
  by (simp_all add: announced_def)

lemma watch_match_routed:
  assumes ok: "router_ok r" and a: "watch_allowed e m r"
  shows "em8051_debug_trace_router_watch e m (r, w) = (EM8051_DEBUG_EVENT_OK, match_routed e m (r, w))"
proof -
  have g: "\<not> (ev_kind e \<noteq> EM8051_DEBUG_EVENT_WATCH_MATCH \<or> ev_sequence e = 0 \<or> ev_sequence e \<le> rt_last_sequence r \<or>
        length (wr_trace_ids m) > 16 \<or>
        rt_source_open r \<noteq> 0 \<and>
        (wr_source_event_sequence m \<noteq> ev_sequence (rt_open_source_event r) \<or> ev_generation e \<noteq> ev_generation (rt_open_source_event r)))"
    using a by (auto simp: watch_allowed_def)
  have i: "ids_routable (rt_config r) (wr_trace_ids m)" using a by (simp add: watch_allowed_def)
  show ?thesis unfolding em8051_debug_trace_router_watch_def prod.case if_not_P [OF g]
    using i by (simp add: route_ids_routed [OF router_ok_config [OF ok]] match_routed_def)
qed

lemma source_begin_routed:
  "config_valid (rt_config r) \<Longrightarrow> begin_allowed e r \<Longrightarrow>
   em8051_debug_trace_router_source_begin e (r, w) = (EM8051_DEBUG_EVENT_OK, source_routed e (r, w))"
  by (simp add: source_begin_exact source_routed_def)

lemma grows_simps:
  "grows n 0 n" "grows n k m \<Longrightarrow> grows n (Suc k) (saturated_increment m)" "k < 2 ^ 64 \<Longrightarrow> grows n k (saturated_add n (word_of_nat k))"
proof -
  have top: "unat (- 1 :: u64) = 2 ^ 64 - 1" by (simp add: unsigned_minus_1_eq_mask mask_eq_exp_minus_1)
  have lt: "unat x < 2 ^ 64" for x :: u64 using unat_lt [of x] by simp
  show "grows n 0 n" using lt [of n] by (simp add: grows_def)
  have inc: "unat (saturated_increment m) = min (2 ^ 64 - 1) (Suc (unat m))" for m
  proof (cases "m = - 1")
    case True
    then show ?thesis by (simp add: saturated_increment_def top)
  next
    case False
    then have "1 + m \<noteq> 0" by (simp add: add.commute eq_neg_iff_add_eq_0)
    from unatSuc [OF this] show ?thesis using False lt [of "1 + m"] by (simp add: saturated_increment_def add.commute)
  qed
  show "grows n k m \<Longrightarrow> grows n (Suc k) (saturated_increment m)" by (simp add: grows_def inc)
  have m: "unat (- 1 - n) = 2 ^ 64 - 1 - unat n" using top by (subst unat_sub) simp_all
  assume k: "k < 2 ^ 64"
  then have uk: "unat (word_of_nat k :: u64) = k" by (simp add: unat_of_nat take_bit_nat_eq_self)
  have le: "- 1 - n < word_of_nat k \<longleftrightarrow> 2 ^ 64 - 1 - unat n < k" unfolding word_less_nat_alt m uk ..
  have "unat (n + word_of_nat k) = unat n + k" if "\<not> 2 ^ 64 - 1 - unat n < k"
    using that lt [of n] uk by (subst unat_add_ok) simp_all
  then show "grows n k (saturated_add n (word_of_nat k))"
    using lt [of n] by (auto simp: grows_def saturated_add_def le top)
qed

lemma grows_one: "grows n (Suc 0) (saturated_increment n)"
  by (rule grows_simps(2) [OF grows_simps(1)])

definition merge_stop :: "em8051_debug_watch_result \<Rightarrow> em8051_debug_runtime_stop \<Rightarrow> em8051_debug_runtime_stop" where
  "merge_stop m s = (if wr_stop m \<noteq> 0 then update_stop_candidate (wr_watch_id m) (wr_source_event_sequence m) s else s)"

lemma merge_stops: "stop_merged s ms (fold merge_stop ms s)"
proof (induction ms rule: rev_induct)
  case Nil
  show ?case by (simp add: stop_merged_def)
next
  case (snoc m ms)
  define s1 where "s1 = fold merge_stop ms s"
  define hits where "hits = filter (\<lambda>m. wr_stop m \<noteq> 0) ms"
  define old where "old = (if st_pending s = 0 then {} else {(st_watch_id s, st_source_event_sequence s)})"
  define C where "C = old \<union> (\<lambda>m. (wr_watch_id m, wr_source_event_sequence m)) ` set hits"
  let ?s' = "update_stop_candidate (wr_watch_id m) (wr_source_event_sequence m) s1"
  note IH = snoc [unfolded stop_merged_def Let_def, folded s1_def hits_def, folded old_def, folded C_def]
  show ?case
  proof (cases "wr_stop m = 0")
    case True
    then show ?thesis using snoc by (simp add: stop_merged_def merge_stop_def)
  next
    case False
    have fields: "st_pending ?s' = 1" "st_matching_watch_count ?s' = saturated_increment (st_matching_watch_count s1)"
      "(st_watch_id ?s', st_source_event_sequence ?s') =
        (if st_pending s1 = 0 \<or> wr_watch_id m < st_watch_id s1 \<or> wr_watch_id m = st_watch_id s1 \<and> wr_source_event_sequence m < st_source_event_sequence s1
         then (wr_watch_id m, wr_source_event_sequence m) else (st_watch_id s1, st_source_event_sequence s1))"
      by (simp_all add: update_stop_candidate_def Let_def)
    have count: "grows (st_matching_watch_count s) (Suc (length hits)) (st_matching_watch_count ?s')"
      unfolding fields(2) by (rule grows_simps(2)) (use IH in \<open>cases "hits = []"; simp add: grows_simps(1)\<close>)
    have least: "(st_watch_id ?s', st_source_event_sequence ?s') \<in> insert (wr_watch_id m, wr_source_event_sequence m) C \<and>
        (\<forall>(i, q) \<in> insert (wr_watch_id m, wr_source_event_sequence m) C. st_watch_id ?s' < i \<or> st_watch_id ?s' = i \<and> st_source_event_sequence ?s' \<le> q)"
    proof (cases "hits = []")
      case True
      then have "s1 = s" "C = old" using IH by (simp_all add: C_def)
      then show ?thesis using fields(3) by (auto simp: old_def split: if_splits)
    next
      case h: False
      then have "st_pending s1 = 1" "(st_watch_id s1, st_source_event_sequence s1) \<in> C"
        and low: "(i, q) \<in> C \<Longrightarrow> st_watch_id s1 < i \<or> st_watch_id s1 = i \<and> st_source_event_sequence s1 \<le> q" for i q using IH by auto
      then show ?thesis using fields(3)
        by (auto split: if_splits dest!: low)
    qed
    have "C \<union> {(wr_watch_id m, wr_source_event_sequence m)} = old \<union> (\<lambda>m. (wr_watch_id m, wr_source_event_sequence m)) ` set (hits @ [m])"
      by (auto simp: C_def)
    then show ?thesis using False count least fields(1)
      unfolding stop_merged_def Let_def old_def [symmetric]
      by (simp add: merge_stop_def hits_def [symmetric] s1_def [symmetric] del: set_filter)
  qed
qed

lemma unat_one_iff: "unat n = Suc 0 \<longleftrightarrow> n = 1" for n :: u64
  using word_unat_eq_iff [of n 1] by simp

subsection \<open>The derived events\<close>

text \<open>The runtime between the source event and the end of its dispatch.\<close>

definition deriving :: "em8051_debug_event \<Rightarrow> 'w em8051_debug_runtime \<Rightarrow> bool" where
  "deriving e d \<longleftrightarrow> bus_ok (dr_bus d) \<and> dr_phase d = DISPATCH_DERIVED \<and> dr_source_event d = e \<and> router_ok (dr_router d) \<and>
     rt_source_open (dr_router d) = 1 \<and> rt_open_source_event (dr_router d) = e \<and> rt_last_sequence (dr_router d) = next_sequence d - 1 \<and>
     (\<forall>x \<in> set (dr_pending d). result_ok (rt_config (dr_router d)) e x)"

lemma derived_event_simps [simp]:
  "ev_sequence (derived_event e x) = 0" "ev_kind (derived_event e x) = EM8051_DEBUG_EVENT_WATCH_MATCH"
  "ev_generation (derived_event e x) = ev_generation e"
  by (simp_all add: derived_event_def Let_def)

lemma word_pred_less: "n \<noteq> 0 \<Longrightarrow> n - 1 < n" for n :: "'a::len word"
  by (simp add: word_less_nat_alt unat_minus_one unat_gt_0)

text \<open>The runtime after the loop over some pending results, with the router the announcements leave.\<close>

lemma emit_one_derived:
  assumes d: "deriving e d" and i: "i < length (dr_pending d)" and n: "next_sequence d \<noteq> 0"
  defines "d0 \<equiv> d\<lparr>dr_derived_index := i, dr_dispatch_status := EM8051_DEBUG_EVENT_OK\<rparr>" and "x \<equiv> dr_pending d ! i"
  defines "ee \<equiv> announced (next_sequence d) e x"
  shows "\<exists>r' w'. match_routed ee x (dr_router d, observed (dr_observation_fn d) ee w) = (r', w') \<and>
    runtime_emit (derived_event (dr_source_event d) x) (d0, w) =
      ((EM8051_DEBUG_EVENT_OK, Some (next_sequence d)),
       d0\<lparr>dr_bus := (dr_bus d)\<lparr>bus_next_sequence := next_sequence d + 1\<rparr>, dr_router := r'\<rparr>, w') \<and>
    deriving e (d0\<lparr>dr_bus := (dr_bus d)\<lparr>bus_next_sequence := next_sequence d + 1\<rparr>, dr_router := r'\<rparr>) \<and>
    rt_config r' = rt_config (dr_router d) \<and> rt_interrupt_depth r' = rt_interrupt_depth (dr_router d)"
proof -
  define d1 where "d1 = d0\<lparr>dr_bus := (dr_bus d)\<lparr>bus_next_sequence := next_sequence d + 1, bus_dispatching := 1\<rparr>\<rparr>"
  define w1 where "w1 = observed (dr_observation_fn d) ee w"
  have x: "result_ok (rt_config (dr_router d)) e x" using d i by (simp add: deriving_def x_def)
  have al: "watch_allowed ee x (dr_router d)"
    using d x n word_pred_less [OF n] by (simp add: watch_allowed_def ee_def deriving_def result_ok_def)
  have ok: "router_ok (dr_router d)" using d by (simp add: deriving_def)
  obtain r' w' where mr: "match_routed ee x (dr_router d, w1) = (r', w')" by (cases "match_routed ee x (dr_router d, w1)")
  have out: "em8051_debug_trace_router_watch ee x (dr_router d, w1) = (EM8051_DEBUG_EVENT_OK, r', w')"
    using watch_match_routed [OF ok al, of w1] by (simp add: mr)
  note k = watch_ok [OF ok out]
  have "runtime_observer ee (d1, w) = (d1\<lparr>dr_router := r', dr_dispatch_status := EM8051_DEBUG_EVENT_OK\<rparr>, w')"
    using d i out unfolding runtime_observer_def prod.case
    by (simp add: d1_def d0_def deriving_def w1_def observed_def x_def Let_def) (simp add: ee_def)
  moreover have "bus_ok (dr_bus d0)" using d by (simp add: deriving_def d0_def)
  ultimately have em: "runtime_emit (derived_event e x) (d0, w) =
      ((EM8051_DEBUG_EVENT_OK, Some (next_sequence d)), d0\<lparr>dr_bus := (dr_bus d)\<lparr>bus_next_sequence := next_sequence d + 1\<rparr>, dr_router := r'\<rparr>, w')"
    using runtime_emit_step [of d0 "derived_event e x" w] n by (simp add: d1_def announced_stamped ee_def d0_def)
  have "deriving e (d0\<lparr>dr_bus := (dr_bus d)\<lparr>bus_next_sequence := next_sequence d + 1\<rparr>, dr_router := r'\<rparr>)"
    using d k by (simp add: deriving_def d0_def bus_ok_def ee_def)
  then show ?thesis using em k mr d by (intro exI [of _ r'] exI [of _ w']) (simp add: w1_def deriving_def)
qed

lemma emit_derived_ok:
  assumes "deriving e d" "\<forall>i \<in> set is. i < length (dr_pending d)" "is = [] \<or> next_sequence d \<noteq> 0 \<and> unat (next_sequence d) + length is \<le> 2 ^ 64"
  shows "\<exists>r' j st w'. announce (dr_observation_fn d) e (next_sequence d) (map (\<lambda>i. dr_pending d ! i) is) (dr_router d, w) = (r', w') \<and>
    emit_derived is (d, w) =
      (EM8051_DEBUG_EVENT_OK, d\<lparr>dr_bus := (dr_bus d)\<lparr>bus_next_sequence := next_sequence d + word_of_nat (length is)\<rparr>, dr_router := r',
         dr_derived_index := j, dr_dispatch_status := st\<rparr>, w') \<and>
    deriving e (d\<lparr>dr_bus := (dr_bus d)\<lparr>bus_next_sequence := next_sequence d + word_of_nat (length is)\<rparr>, dr_router := r',
         dr_derived_index := j, dr_dispatch_status := st\<rparr>) \<and>
    rt_config r' = rt_config (dr_router d) \<and> rt_interrupt_depth r' = rt_interrupt_depth (dr_router d)"
  using assms
proof (induction "is" arbitrary: d w)
  case Nil
  have "d\<lparr>dr_bus := (dr_bus d)\<lparr>bus_next_sequence := next_sequence d\<rparr>, dr_router := dr_router d, dr_derived_index := dr_derived_index d,
      dr_dispatch_status := dr_dispatch_status d\<rparr> = d" by simp
  then show ?case using Nil.prems(1)
    by (intro exI [of _ "dr_router d"] exI [of _ "dr_derived_index d"] exI [of _ "dr_dispatch_status d"] exI [of _ w]) simp
next
  case (Cons i js)
  have n: "next_sequence d \<noteq> 0" "unat (next_sequence d) + Suc (length js) \<le> 2 ^ 64" and i: "i < length (dr_pending d)" using Cons.prems by simp_all
  define d0 where "d0 = d\<lparr>dr_derived_index := i, dr_dispatch_status := EM8051_DEBUG_EVENT_OK\<rparr>"
  define ee where "ee = announced (next_sequence d) e (dr_pending d ! i)"
  obtain r1 w1 where mr: "match_routed ee (dr_pending d ! i) (dr_router d, observed (dr_observation_fn d) ee w) = (r1, w1)"
    and one: "runtime_emit (derived_event (dr_source_event d) (dr_pending d ! i)) (d0, w) =
      ((EM8051_DEBUG_EVENT_OK, Some (next_sequence d)), d0\<lparr>dr_bus := (dr_bus d)\<lparr>bus_next_sequence := next_sequence d + 1\<rparr>, dr_router := r1\<rparr>, w1)"
    and d1: "deriving e (d0\<lparr>dr_bus := (dr_bus d)\<lparr>bus_next_sequence := next_sequence d + 1\<rparr>, dr_router := r1\<rparr>)"
    and c1: "rt_config r1 = rt_config (dr_router d)" "rt_interrupt_depth r1 = rt_interrupt_depth (dr_router d)"
    using emit_one_derived [OF Cons.prems(1) i n(1), of w] unfolding d0_def ee_def by blast
  define d1 where "d1 = d0\<lparr>dr_bus := (dr_bus d)\<lparr>bus_next_sequence := next_sequence d + 1\<rparr>, dr_router := r1\<rparr>"
  have step: "emit_derived (i # js) (d, w) = emit_derived js (d1, w1)"
    unfolding emit_derived.simps Let_def d0_def [symmetric] one prod.case by (simp add: d1_def d0_def)
  have fits: "js = [] \<or> next_sequence d1 \<noteq> 0 \<and> unat (next_sequence d1) + length js \<le> 2 ^ 64"
  proof (cases js)
    case (Cons a as)
    then have lt: "unat (next_sequence d) + 1 < 2 ^ 64" using n(2) by simp
    then have u: "unat (next_sequence d + 1) = unat (next_sequence d) + 1" by (subst unat_add_ok) simp_all
    then have "next_sequence d + 1 \<noteq> 0" by (metis add_is_0 one_neq_zero unat_0)
    then show ?thesis using u n(2) by (simp add: d1_def)
  qed simp
  have len: "dr_pending d1 = dr_pending d" "dr_observation_fn d1 = dr_observation_fn d" "next_sequence d1 = next_sequence d + 1" "dr_router d1 = r1"
    by (simp_all add: d1_def d0_def)
  from Cons.IH [of d1 w1] d1 [folded d1_def] fits Cons.prems(2)
  obtain r' j st w' where ih: "announce (dr_observation_fn d) e (next_sequence d + 1) (map (\<lambda>i. dr_pending d ! i) js) (r1, w1) = (r', w')"
    "emit_derived js (d1, w1) = (EM8051_DEBUG_EVENT_OK,
      d1\<lparr>dr_bus := (dr_bus d1)\<lparr>bus_next_sequence := next_sequence d + 1 + word_of_nat (length js)\<rparr>, dr_router := r', dr_derived_index := j, dr_dispatch_status := st\<rparr>, w')"
    "deriving e (d1\<lparr>dr_bus := (dr_bus d1)\<lparr>bus_next_sequence := next_sequence d + 1 + word_of_nat (length js)\<rparr>, dr_router := r', dr_derived_index := j, dr_dispatch_status := st\<rparr>)"
    "rt_config r' = rt_config r1" "rt_interrupt_depth r' = rt_interrupt_depth r1"
    unfolding len by auto
  have "d1\<lparr>dr_bus := (dr_bus d1)\<lparr>bus_next_sequence := next_sequence d + 1 + word_of_nat (length js)\<rparr>, dr_router := r', dr_derived_index := j, dr_dispatch_status := st\<rparr> =
      d\<lparr>dr_bus := (dr_bus d)\<lparr>bus_next_sequence := next_sequence d + word_of_nat (length (i # js))\<rparr>, dr_router := r', dr_derived_index := j, dr_dispatch_status := st\<rparr>"
    by (simp add: d1_def d0_def add.assoc)
  moreover have "announce (dr_observation_fn d) e (next_sequence d) (map (\<lambda>i. dr_pending d ! i) (i # js)) (dr_router d, w) = (r', w')"
    using ih(1) mr by (simp add: ee_def)
  ultimately show ?case using ih(2-) c1 unfolding step by (intro exI [of _ r'] exI [of _ j] exI [of _ st] exI [of _ w']) simp
qed

subsection \<open>Ingesting a source event\<close>

definition runtime_ok :: "'w em8051_debug_runtime \<Rightarrow> bool" where
  "runtime_ok d \<longleftrightarrow> bus_ok (dr_bus d) \<and> router_ok (dr_router d) \<and> rt_source_open (dr_router d) = 0 \<and>
     (next_sequence d = 0 \<or> rt_last_sequence (dr_router d) < next_sequence d) \<and>
     (\<forall>w \<in> set (dr_watches d). watch_valid w) \<and> length (dr_watches d) \<le> 64 \<and> watch_routes_valid (dr_watches d) (rt_config (dr_router d)) \<and>
     dr_busy d = 0 \<and> dr_phase d = DISPATCH_IDLE"

definition depth_allowed :: "em8051_debug_event \<Rightarrow> u32 \<Rightarrow> bool" where
  "depth_allowed e depth \<longleftrightarrow> (ev_kind e = EM8051_DEBUG_EVENT_INTERRUPT_EXIT \<longrightarrow> depth \<noteq> 0) \<and> (ev_kind e = EM8051_DEBUG_EVENT_INTERRUPT_ENTER \<longrightarrow> depth \<noteq> - 1)"

text \<open>Whether the numbers from \<open>n\<close> on hold another \<open>k\<close> of them.\<close>

definition numbers_left :: "u64 \<Rightarrow> nat \<Rightarrow> bool" where
  "numbers_left n k \<longleftrightarrow> k = 0 \<or> n \<noteq> 0 \<and> unat n + k \<le> 2 ^ 64"

text \<open>The event as the observer sees it, and the status an ingest owes.\<close>

definition source_of :: "em8051_debug_event \<Rightarrow> 'w em8051_debug_runtime \<Rightarrow> em8051_debug_event" where
  "source_of e d = stamped (next_sequence d) (e\<lparr>ev_generation := dr_generation d\<rparr>)"

definition ingest_status :: "em8051_debug_event \<Rightarrow> 'w em8051_debug_runtime \<Rightarrow> em8051_debug_event_status" where
  "ingest_status e d =
     (let k = length (matched (dr_watches d) (source_of e d))
      in if next_sequence d = 0 then EM8051_DEBUG_EVENT_INVALID_ARGUMENT
         else if k > (if ob_kind (ev_observation e) \<noteq> 0 then 64 else 32) \<or> \<not> numbers_left (next_sequence d + 1) k then EM8051_DEBUG_EVENT_LIMIT
         else if \<not> depth_allowed e (rt_interrupt_depth (dr_router d)) then EM8051_DEBUG_EVENT_INVALID_ARGUMENT
         else EM8051_DEBUG_EVENT_OK)"

lemma sequence_room_numbers:
  assumes "k < 2 ^ 64"
  shows "sequence_room b k = numbers_left (bus_next_sequence b) k"
proof (cases "k = 0")
  case False
  define a where "a = (word_of_nat k :: u64)"
  have ua: "unat a = k" using assms by (simp add: a_def unat_of_nat take_bit_nat_eq_self)
  then have a0: "a \<noteq> 0" using False by auto
  have m: "unat (- 1 - bus_next_sequence b) = 2 ^ 64 - 1 - unat (bus_next_sequence b)"
  proof -
    have "unat (- 1 :: u64) = 2 ^ 64 - 1" by (simp add: unsigned_minus_1_eq_mask mask_eq_exp_minus_1)
    then show ?thesis by (subst unat_sub) simp_all
  qed
  have "a - 1 \<le> - 1 - bus_next_sequence b \<longleftrightarrow> k - 1 \<le> 2 ^ 64 - 1 - unat (bus_next_sequence b)"
    unfolding word_le_nat_alt m by (simp add: unat_pred_word [OF a0] ua)
  moreover have "unat (bus_next_sequence b) < 2 ^ 64" using unat_lt [of "bus_next_sequence b"] by simp
  ultimately show ?thesis using a0 False by (auto simp: sequence_room_def a_def [symmetric] numbers_left_def Let_def)
qed (simp add: sequence_room_def numbers_left_def)

lemma pending_limit_of: "pending_limit (source_of e d) = (if ob_kind (ev_observation e) \<noteq> 0 then 64 else 32)"
  by (simp add: pending_limit_def source_of_def)

lemma begin_allowed_source:
  assumes "runtime_ok d" "next_sequence d \<noteq> 0" "ev_kind e \<noteq> EM8051_DEBUG_EVENT_WATCH_MATCH"
  shows "begin_allowed (source_of e d) (dr_router d) = depth_allowed e (rt_interrupt_depth (dr_router d))"
  using assms by (simp add: begin_allowed_def runtime_ok_def source_of_def depth_allowed_def)

definition overflows :: "em8051_debug_event \<Rightarrow> 'w em8051_debug_runtime \<Rightarrow> u64" where
  "overflows e d =
     (if length (matched (dr_watches d) (source_of e d)) > pending_limit (source_of e d) then saturated_increment (dr_pending_overflows d)
      else dr_pending_overflows d)"

text \<open>The source phase: refused with only the overflow counter changed, or the source event opened.\<close>

abbreviation started :: "'w em8051_debug_runtime \<Rightarrow> 'w em8051_debug_runtime" where
  "started d \<equiv> d\<lparr>dr_busy := 1, dr_phase := DISPATCH_SOURCE, dr_dispatch_status := EM8051_DEBUG_EVENT_OK, dr_pending := [], dr_derived_index := 0\<rparr>"

lemma source_phase:
  assumes d: "runtime_ok d" and n: "next_sequence d \<noteq> 0" and k: "ev_kind e \<noteq> EM8051_DEBUG_EVENT_WATCH_MATCH" "ev_sequence e = 0"
  defines "ee \<equiv> source_of e d" and "b \<equiv> (dr_bus d)\<lparr>bus_next_sequence := next_sequence d + 1\<rparr>"
  shows "\<exists>d' w'. runtime_emit (e\<lparr>ev_generation := dr_generation d\<rparr>) (started d, w) = ((EM8051_DEBUG_EVENT_OK, Some (next_sequence d)), d', w') \<and>
    dr_dispatch_status d' = ingest_status e d \<and>
    (if ingest_status e d = EM8051_DEBUG_EVENT_OK
     then (\<exists>r'. source_routed ee (dr_router d, observed (dr_observation_fn d) ee w) = (r', w') \<and>
             d' = (started d)\<lparr>dr_bus := b, dr_pending := matched (dr_watches d) ee, dr_source_event := ee, dr_router := r'\<rparr> \<and> router_ok r' \<and>
             rt_config r' = gated ee EM8051_DEBUG_TRACE_GATE_BEFORE (rt_config (dr_router d)) \<and> rt_last_sequence r' = next_sequence d \<and>
             rt_source_open r' = 1 \<and> rt_open_source_event r' = ee)
     else w' = observed (dr_observation_fn d) ee w \<and>
       (\<exists>ps se st. d' = (started d)\<lparr>dr_bus := b, dr_pending := ps, dr_source_event := se, dr_pending_overflows := overflows e d, dr_dispatch_status := st\<rparr>))"
proof -
  define ms where "ms = matched (dr_watches d) ee"
  define d1 where "d1 = (started d)\<lparr>dr_bus := (dr_bus d)\<lparr>bus_next_sequence := next_sequence d + 1, bus_dispatching := 1\<rparr>\<rparr>"
  define w1 where "w1 = observed (dr_observation_fn d) ee w"
  have kind: "ev_kind ee \<noteq> EM8051_DEBUG_EVENT_WATCH_MATCH" "ev_kind ee = ev_kind e" "ev_sequence ee = next_sequence d" using k by (simp_all add: ee_def source_of_def)
  have v: "\<forall>w \<in> set (dr_watches d). watch_valid w" using d by (simp add: runtime_ok_def)
  have short: "length ms \<le> 64" using d matched_short [of "dr_watches d" ee] by (simp add: runtime_ok_def ms_def)
  note tm = table_match_matched [OF v kind(1), of "pending_limit ee", folded ms_def]
  have room: "sequence_room (dr_bus d1) (length ms) = numbers_left (next_sequence d + 1) (length ms)"
    using sequence_room_numbers [of "length ms" "dr_bus d1"] short by (simp add: d1_def)
  have lim: "pending_limit ee = (if ob_kind (ev_observation e) \<noteq> 0 then 64 else 32)" by (simp add: ee_def pending_limit_of)
  have ok: "router_ok (dr_router d)" using d by (simp add: runtime_ok_def)
  obtain st r' w' where out: "em8051_debug_trace_router_source_begin ee (dr_router d, w1) = (st, r', w')"
    by (cases "em8051_debug_trace_router_source_begin ee (dr_router d, w1)") auto
  note sb = source_begin_ok [OF ok out]
  have sb_status: "st = EM8051_DEBUG_EVENT_OK \<longleftrightarrow> depth_allowed e (rt_interrupt_depth (dr_router d))"
    using sb begin_allowed_source [OF d n k(1)] by (simp add: ee_def)
  have accepted: "source_routed ee (dr_router d, w1) = (r', w')" if "st = EM8051_DEBUG_EVENT_OK"
    using that out sb source_begin_routed [OF router_ok_config [OF ok], of ee w1] by simp
  have refused: "st = EM8051_DEBUG_EVENT_INVALID_ARGUMENT \<and> r' = dr_router d \<and> w' = w1" if "st \<noteq> EM8051_DEBUG_EVENT_OK"
    using that out sb source_begin_refused [of ee "dr_router d" w1] by auto
  have obs: "runtime_observer ee (d1, w) =
      (if length ms > pending_limit ee then (d1\<lparr>dr_pending_overflows := saturated_increment (dr_pending_overflows d), dr_dispatch_status := EM8051_DEBUG_EVENT_LIMIT\<rparr>, w1)
       else if \<not> numbers_left (next_sequence d + 1) (length ms) then (d1\<lparr>dr_dispatch_status := EM8051_DEBUG_EVENT_LIMIT\<rparr>, w1)
       else (d1\<lparr>dr_pending := ms, dr_source_event := ee, dr_router := r', dr_dispatch_status := st\<rparr>, w'))"
    unfolding runtime_observer_def prod.case
    using kind(1) by (simp add: room [symmetric]) (simp add: d1_def tm out Let_def w1_def [unfolded observed_def, symmetric])
  obtain d2 w2 where o: "runtime_observer ee (d1, w) = (d2, w2)" by (cases "runtime_observer ee (d1, w)") auto
  have "bus_ok (dr_bus (started d))" using d by (simp add: runtime_ok_def)
  from runtime_emit_step [OF this, of "e\<lparr>ev_generation := dr_generation d\<rparr>" w d2 w2] o n k(2)
  have em: "runtime_emit (e\<lparr>ev_generation := dr_generation d\<rparr>) (started d, w) = ((EM8051_DEBUG_EVENT_OK, Some (next_sequence d)), d2\<lparr>dr_bus := b\<rparr>, w2)"
    by (simp add: d1_def ee_def source_of_def b_def)
  have stat: "ingest_status e d = (if length ms > pending_limit ee \<or> \<not> numbers_left (next_sequence d + 1) (length ms) then EM8051_DEBUG_EVENT_LIMIT else st)"
    using n sb_status refused by (auto simp: ingest_status_def Let_def ee_def [symmetric] ms_def [symmetric] lim)
  show ?thesis
  proof (cases "ingest_status e d = EM8051_DEBUG_EVENT_OK")
    case True
    then have d2: "d2 = d1\<lparr>dr_pending := ms, dr_source_event := ee, dr_router := r', dr_dispatch_status := st\<rparr>" and st: "st = EM8051_DEBUG_EVENT_OK" "w2 = w'"
      using o obs by (auto simp: stat split: if_splits)
    have eq: "d2\<lparr>dr_bus := b\<rparr> = (started d)\<lparr>dr_bus := b, dr_pending := ms, dr_source_event := ee, dr_router := r'\<rparr>"
      by (rule em8051_debug_runtime.equality) (simp_all add: d2 st d1_def)
    show ?thesis using em [unfolded eq] sb st True kind(3) accepted
      by (intro exI [of _ "(started d)\<lparr>dr_bus := b, dr_pending := ms, dr_source_event := ee, dr_router := r'\<rparr>"] exI [of _ w'])
         (auto simp: ms_def w1_def)
  next
    case False
    have ov: "overflows e d = (if length ms > pending_limit ee then saturated_increment (dr_pending_overflows d) else dr_pending_overflows d)"
      by (simp add: overflows_def ms_def ee_def)
    have "w2 = w1 \<and> (d2 = d1\<lparr>dr_pending_overflows := overflows e d, dr_dispatch_status := EM8051_DEBUG_EVENT_LIMIT\<rparr> \<or>
        d2 = d1\<lparr>dr_pending := ms, dr_source_event := ee, dr_router := dr_router d, dr_pending_overflows := overflows e d, dr_dispatch_status := st\<rparr>)"
      using False o obs refused by (auto simp: stat ov d1_def split: if_splits)
    then have w2: "w2 = w1" and "d2 = d1\<lparr>dr_pending_overflows := overflows e d, dr_dispatch_status := EM8051_DEBUG_EVENT_LIMIT\<rparr> \<or>
        d2 = d1\<lparr>dr_pending := ms, dr_source_event := ee, dr_router := dr_router d, dr_pending_overflows := overflows e d, dr_dispatch_status := st\<rparr>"
      by blast+
    then have "d2\<lparr>dr_bus := b\<rparr> = (started d)\<lparr>dr_bus := b, dr_pending := dr_pending d2, dr_source_event := dr_source_event d2,
        dr_pending_overflows := overflows e d, dr_dispatch_status := dr_dispatch_status d2\<rparr>"
      by (elim disjE; intro em8051_debug_runtime.equality) (simp_all add: d1_def)
    then have "\<exists>ps se st. d2\<lparr>dr_bus := b\<rparr> = (started d)\<lparr>dr_bus := b, dr_pending := ps, dr_source_event := se, dr_pending_overflows := overflows e d, dr_dispatch_status := st\<rparr>"
      by blast
    moreover have "dr_dispatch_status d2 = ingest_status e d" using o obs by (auto simp: stat split: if_splits)
    ultimately show ?thesis using em False by (intro exI [of _ "d2\<lparr>dr_bus := b\<rparr>"] exI [of _ w2]) (simp add: w2 w1_def)
  qed
qed

lemma merge_one_fields:
  "merge_one x d = d\<lparr>dr_stop := merge_stop x (dr_stop d),
     dr_console_matches := (if wr_console x \<noteq> 0 then saturated_increment (dr_console_matches d) else dr_console_matches d)\<rparr>"
  by (rule em8051_debug_runtime.equality) (simp_all add: merge_one_def merge_stop_def Let_def)

lemma merge_fold_fields:
  "\<exists>n. fold merge_one xs d = d\<lparr>dr_stop := fold merge_stop xs (dr_stop d), dr_console_matches := n\<rparr> \<and>
     grows (dr_console_matches d) (length (filter (\<lambda>x. wr_console x \<noteq> 0) xs)) n"
proof (induction xs rule: rev_induct)
  case Nil
  have "d = d\<lparr>dr_stop := dr_stop d, dr_console_matches := dr_console_matches d\<rparr>" by simp
  then show ?case using grows_simps(1) by (intro exI [of _ "dr_console_matches d"]) simp
next
  case (snoc x xs)
  then obtain n where n: "fold merge_one xs d = d\<lparr>dr_stop := fold merge_stop xs (dr_stop d), dr_console_matches := n\<rparr>"
    "grows (dr_console_matches d) (length (filter (\<lambda>x. wr_console x \<noteq> 0) xs)) n" by blast
  show ?case using grows_simps(2) [OF n(2)] n
    by (intro exI [of _ "if wr_console x \<noteq> 0 then saturated_increment n else n"])
       (simp add: merge_one_fields [of x "d\<lparr>dr_stop := fold merge_stop xs (dr_stop d), dr_console_matches := n\<rparr>"])
qed

lemma merge_fields:
  "\<exists>st n. merge_stops_and_counts d =
     d\<lparr>dr_stop := st, dr_console_matches := n, dr_derived_events := saturated_add (dr_derived_events d) (word_of_nat (length (dr_pending d)))\<rparr> \<and>
     stop_merged (dr_stop d) (dr_pending d) st \<and> grows (dr_console_matches d) (length (filter (\<lambda>x. wr_console x \<noteq> 0) (dr_pending d))) n"
proof -
  obtain n where "fold merge_one (dr_pending d) d = d\<lparr>dr_stop := fold merge_stop (dr_pending d) (dr_stop d), dr_console_matches := n\<rparr>"
    "grows (dr_console_matches d) (length (filter (\<lambda>x. wr_console x \<noteq> 0) (dr_pending d))) n" using merge_fold_fields by blast
  then show ?thesis using merge_stops by (auto simp: merge_stops_and_counts_def Let_def)
qed

lemma routes_valid_gated: "watch_routes_valid ws (gated e timing c) = watch_routes_valid ws c"
  by (simp add: watch_routes_valid_def runtime_trace_index_eq)

lemma result_ok_gated: "result_ok (gated e timing c) ee x = result_ok c ee x"
  by (simp add: result_ok_def ids_routable_def)

lemma source_valid_kind: "source_event_valid e \<Longrightarrow> ev_kind e \<noteq> EM8051_DEBUG_EVENT_WATCH_MATCH"
  by (auto simp: source_event_valid_def)

definition ingest_arguments :: "em8051_debug_event \<Rightarrow> bool \<Rightarrow> bool" where
  "ingest_arguments e allow \<longleftrightarrow> ev_sequence e = 0 \<and> (allow \<or> \<not> lifecycle e) \<and> source_event_valid e"

text \<open>What an ingest leaves, by the status it owes.\<close>

definition ingest_result ::
    "em8051_debug_event \<Rightarrow> 'w em8051_debug_runtime \<times> 'w \<Rightarrow> em8051_debug_event_status \<times> u64 option \<Rightarrow> 'w em8051_debug_runtime \<times> 'w \<Rightarrow> bool" where
  "ingest_result e = (\<lambda>(d, w) out (d', w').
     let n = next_sequence d; source = source_of e d; ms = matched (dr_watches d) source; w0 = observed (dr_observation_fn d) source w
     in fst out = ingest_status e d \<and> snd out = (if n = 0 then None else Some n) \<and>
        dr_generation d' = dr_generation d \<and> dr_watches d' = dr_watches d \<and> dr_observer_id d' = dr_observer_id d \<and>
        dr_observation_fn d' = dr_observation_fn d \<and> dr_after_observation_fn d' = dr_after_observation_fn d \<and>
        (if fst out = EM8051_DEBUG_EVENT_OK then
           next_sequence d' = n + 1 + word_of_nat (length ms) \<and> dr_pending d' = ms \<and> dr_source_event d' = source \<and>
           (case announce (dr_observation_fn d) source (n + 1) ms (source_routed source (dr_router d, w0)) of (r, w1) \<Rightarrow>
              dr_router d' = closed source r \<and> w' = w1) \<and>
           grows (dr_accepted_source_events d) 1 (dr_accepted_source_events d') \<and> dr_rejected_source_events d' = dr_rejected_source_events d \<and>
           grows (dr_derived_events d) (length ms) (dr_derived_events d') \<and> dr_pending_overflows d' = dr_pending_overflows d \<and>
           grows (dr_console_matches d) (length (filter (\<lambda>m. wr_console m \<noteq> 0) ms)) (dr_console_matches d') \<and>
           stop_merged (dr_stop d) ms (dr_stop d')
         else
           next_sequence d' = (if n = 0 then 0 else n + 1) \<and> dr_router d' = dr_router d \<and> w' = (if n = 0 then w else w0) \<and>
           dr_accepted_source_events d' = dr_accepted_source_events d \<and> grows (dr_rejected_source_events d) 1 (dr_rejected_source_events d') \<and>
           grows (dr_pending_overflows d)
             (of_bool (n \<noteq> 0 \<and> length ms > (if ob_kind (ev_observation e) \<noteq> 0 then 64 else 32))) (dr_pending_overflows d') \<and>
           dr_derived_events d' = dr_derived_events d \<and> dr_stop d' = dr_stop d \<and> dr_console_matches d' = dr_console_matches d))"

lemma ingest_started:
  assumes "runtime_ok d" "ingest_arguments e allow"
  shows "runtime_ingest e allow (d, w) =
    (let ((status, assigned), d, w) = runtime_emit (e\<lparr>ev_generation := dr_generation d\<rparr>) (started d, w);
         status = (if status = EM8051_DEBUG_EVENT_OK then dr_dispatch_status d else status)
     in if status \<noteq> EM8051_DEBUG_EVENT_OK then
          ((status, assigned),
           d\<lparr>dr_rejected_source_events := saturated_increment (dr_rejected_source_events d), dr_phase := DISPATCH_IDLE, dr_busy := 0\<rparr>, w)
        else
          let d = d\<lparr>dr_phase := DISPATCH_DERIVED\<rparr>;
              (status, d, w) = emit_derived [0..<length (dr_pending d)] (d, w);
              (status, d) =
                (if rt_source_open (dr_router d) \<noteq> 0 then
                   let (end_status, r) = em8051_debug_trace_router_source_end (dr_router d)
                   in (if status = EM8051_DEBUG_EVENT_OK then end_status else status, d\<lparr>dr_router := r\<rparr>)
                 else (status, d));
              d = (if status = EM8051_DEBUG_EVENT_OK
                   then (merge_stops_and_counts d)\<lparr>dr_accepted_source_events := saturated_increment (dr_accepted_source_events d)\<rparr>
                   else d\<lparr>dr_rejected_source_events := saturated_increment (dr_rejected_source_events d)\<rparr>)
          in ((status, assigned), d\<lparr>dr_phase := DISPATCH_IDLE, dr_busy := 0\<rparr>, w))"
proof -
  have g: "\<not> (ev_sequence e \<noteq> 0 \<or> \<not> allow \<and> (ev_kind e = EM8051_DEBUG_EVENT_RESET \<or> ev_kind e = EM8051_DEBUG_EVENT_LOAD) \<or> \<not> source_event_valid e)"
    using assms(2) by (simp add: ingest_arguments_def lifecycle_def)
  have b: "\<not> dr_busy d \<noteq> 0" using assms(1) by (simp add: runtime_ok_def)
  show ?thesis unfolding runtime_ingest_def prod.case if_not_P [OF g] if_not_P [OF b] Let_def by simp
qed

lemma less_succ: "l < n \<Longrightarrow> n + 1 = 0 \<or> l < n + 1" for l n :: "'a::len word"
proof (cases "n + 1 = 0")
  case False
  then have "unat (n + 1) = Suc (unat n)" using unatSuc [of n] by (simp add: add.commute)
  then show "l < n \<Longrightarrow> n + 1 = 0 \<or> l < n + 1" by (simp add: word_less_nat_alt)
qed simp

lemma ingest_rejected:
  assumes d: "runtime_ok d" and a: "ingest_arguments e allow" and s: "ingest_status e d \<noteq> EM8051_DEBUG_EVENT_OK"
  shows "\<exists>out d' w'. runtime_ingest e allow (d, w) = (out, d', w') \<and> ingest_result e (d, w) out (d', w') \<and> runtime_ok d'"
proof (cases "next_sequence d = 0")
  case True
  have "bus_ok (dr_bus (started d))" using d by (simp add: runtime_ok_def)
  from runtime_emit_refused [OF this, of "e\<lparr>ev_generation := dr_generation d\<rparr>" w] True
  have "runtime_emit (e\<lparr>ev_generation := dr_generation d\<rparr>) (started d, w) = ((EM8051_DEBUG_EVENT_INVALID_ARGUMENT, None), started d, w)" by simp
  then show ?thesis using d True
    by (intro exI) (auto simp: ingest_started [OF d a] ingest_result_def ingest_status_def runtime_ok_def grows_one grows_simps(1) Let_def)
next
  case False
  have k: "ev_kind e \<noteq> EM8051_DEBUG_EVENT_WATCH_MATCH" "ev_sequence e = 0" using a by (simp_all add: ingest_arguments_def source_valid_kind)
  obtain d' w' ps se st where em: "runtime_emit (e\<lparr>ev_generation := dr_generation d\<rparr>) (started d, w) = ((EM8051_DEBUG_EVENT_OK, Some (next_sequence d)), d', w')"
    and st: "dr_dispatch_status d' = ingest_status e d"
    and d': "d' = (started d)\<lparr>dr_bus := (dr_bus d)\<lparr>bus_next_sequence := next_sequence d + 1\<rparr>, dr_pending := ps, dr_source_event := se, dr_pending_overflows := overflows e d, dr_dispatch_status := st\<rparr>"
    and w': "w' = observed (dr_observation_fn d) (source_of e d) w"
    using source_phase [OF d False k, of w] s by auto
  have "rt_last_sequence (dr_router d) < next_sequence d" using d False by (simp add: runtime_ok_def)
  then have "next_sequence d + 1 = 0 \<or> rt_last_sequence (dr_router d) < next_sequence d + 1"
    by (rule less_succ)
  then have "runtime_ok (d'\<lparr>dr_rejected_source_events := saturated_increment (dr_rejected_source_events d'), dr_phase := DISPATCH_IDLE, dr_busy := 0\<rparr>)"
    using d by (simp add: runtime_ok_def d' bus_ok_def)
  moreover have "runtime_ingest e allow (d, w) = ((ingest_status e d, Some (next_sequence d)),
      d'\<lparr>dr_rejected_source_events := saturated_increment (dr_rejected_source_events d'), dr_phase := DISPATCH_IDLE, dr_busy := 0\<rparr>, w')"
    unfolding ingest_started [OF d a] em Let_def prod.case using s st by simp
  moreover have "grows (dr_pending_overflows d)
      (of_bool (length (matched (dr_watches d) (source_of e d)) > (if ob_kind (ev_observation e) \<noteq> 0 then 64 else 32))) (overflows e d)"
    unfolding overflows_def pending_limit_of by (simp add: grows_one grows_simps(1))
  then have "ingest_result e (d, w) (ingest_status e d, Some (next_sequence d))
      (d'\<lparr>dr_rejected_source_events := saturated_increment (dr_rejected_source_events d'), dr_phase := DISPATCH_IDLE, dr_busy := 0\<rparr>, w')"
    using s False by (simp add: ingest_result_def d' w' Let_def grows_one)
  ultimately show ?thesis by blast
qed

lemma ingest_accepted:
  assumes d: "runtime_ok d" and a: "ingest_arguments e allow" and s: "ingest_status e d = EM8051_DEBUG_EVENT_OK"
  shows "\<exists>out d' w'. runtime_ingest e allow (d, w) = (out, d', w') \<and> ingest_result e (d, w) out (d', w') \<and> runtime_ok d'"
proof -
  have n: "next_sequence d \<noteq> 0" using s by (auto simp: ingest_status_def Let_def split: if_splits)
  have k: "ev_kind e \<noteq> EM8051_DEBUG_EVENT_WATCH_MATCH" "ev_sequence e = 0" using a by (simp_all add: ingest_arguments_def source_valid_kind)
  define ee where "ee = source_of e d"
  define ms where "ms = matched (dr_watches d) ee"
  define c where "c = gated ee EM8051_DEBUG_TRACE_GATE_BEFORE (rt_config (dr_router d))"
  obtain d1 w1 r1 where em: "runtime_emit (e\<lparr>ev_generation := dr_generation d\<rparr>) (started d, w) = ((EM8051_DEBUG_EVENT_OK, Some (next_sequence d)), d1, w1)"
    and st: "dr_dispatch_status d1 = EM8051_DEBUG_EVENT_OK"
    and sr: "source_routed ee (dr_router d, observed (dr_observation_fn d) ee w) = (r1, w1)"
    and d1: "d1 = (started d)\<lparr>dr_bus := (dr_bus d)\<lparr>bus_next_sequence := next_sequence d + 1\<rparr>, dr_pending := ms, dr_source_event := ee, dr_router := r1\<rparr>"
    and r1: "router_ok r1" "rt_config r1 = c" "rt_last_sequence r1 = next_sequence d" "rt_source_open r1 = 1" "rt_open_source_event r1 = ee"
    using source_phase [OF d n k, of w] s unfolding ee_def [symmetric] ms_def [symmetric] c_def [symmetric] by auto
  define d2 where "d2 = d1\<lparr>dr_phase := DISPATCH_DERIVED\<rparr>"
  have cv: "config_valid (rt_config (dr_router d))" using d by (simp add: runtime_ok_def router_ok_config)
  have "result_ok c ee x" if "x \<in> set ms" for x
    using matched_ok [OF cv, of "dr_watches d" x ee] that d by (simp add: ms_def c_def result_ok_gated runtime_ok_def)
  then have der: "deriving ee d2" using d r1 by (simp add: deriving_def d2_def d1 runtime_ok_def bus_ok_def)
  have room: "numbers_left (next_sequence d2) (length ms)"
    using s by (simp add: ingest_status_def Let_def ee_def [symmetric] ms_def [symmetric] d2_def d1 split: if_splits)
  have p2: "dr_pending d2 = ms" "dr_observation_fn d2 = dr_observation_fn d" "dr_router d2 = r1" "next_sequence d2 = next_sequence d + 1"
    by (simp_all add: d2_def d1 r1)
  have todo: "\<forall>i \<in> set [0..<length ms]. i < length (dr_pending d2)"
    "[0..<length ms] = [] \<or> next_sequence d2 \<noteq> 0 \<and> unat (next_sequence d2) + length [0..<length ms] \<le> 2 ^ 64"
    using room by (auto simp: p2 numbers_left_def)
  have pick: "map (\<lambda>i. ms ! i) [0..<length ms] = ms" by (rule map_nth)
  obtain r' j st' w' where loop: "emit_derived [0..<length ms] (d2, w1) = (EM8051_DEBUG_EVENT_OK,
        d2\<lparr>dr_bus := (dr_bus d2)\<lparr>bus_next_sequence := next_sequence d + 1 + word_of_nat (length ms)\<rparr>, dr_router := r', dr_derived_index := j, dr_dispatch_status := st'\<rparr>, w')"
    and der': "deriving ee (d2\<lparr>dr_bus := (dr_bus d2)\<lparr>bus_next_sequence := next_sequence d + 1 + word_of_nat (length ms)\<rparr>, dr_router := r', dr_derived_index := j, dr_dispatch_status := st'\<rparr>)"
    and r': "rt_config r' = c" and an: "announce (dr_observation_fn d) ee (next_sequence d + 1) ms (r1, w1) = (r', w')"
    using emit_derived_ok [OF der todo, of w1] unfolding p2 pick length_upt diff_zero r1(2) by blast
  define d3 where "d3 = d2\<lparr>dr_bus := (dr_bus d2)\<lparr>bus_next_sequence := next_sequence d + 1 + word_of_nat (length ms)\<rparr>, dr_router := r', dr_derived_index := j, dr_dispatch_status := st'\<rparr>"
  have open3: "rt_source_open r' = 1" "router_ok r'" "rt_open_source_event r' = ee" "rt_last_sequence r' = next_sequence d + 1 + word_of_nat (length ms) - 1"
    using der' by (simp_all add: deriving_def)
  obtain st4 r4 where fin: "em8051_debug_trace_router_source_end r' = (st4, r4)" by fastforce
  note se = source_end_ok [OF open3(2) fin]
  have st4: "st4 = EM8051_DEBUG_EVENT_OK" using se open3(1) by simp
  have r4: "r4 = closed ee r'"
    using fin open3 by (simp add: em8051_debug_trace_router_source_end_def Let_def apply_gates_gated router_ok_config closed_def)
  define d4 where "d4 = d3\<lparr>dr_router := r4\<rparr>"
  obtain sp cm where mg: "merge_stops_and_counts d4 =
      d4\<lparr>dr_stop := sp, dr_console_matches := cm, dr_derived_events := saturated_add (dr_derived_events d4) (word_of_nat (length (dr_pending d4)))\<rparr>"
    and stops: "stop_merged (dr_stop d4) (dr_pending d4) sp" "grows (dr_console_matches d4) (length (filter (\<lambda>x. wr_console x \<noteq> 0) (dr_pending d4))) cm"
    using merge_fields by blast
  define d5 where "d5 = (merge_stops_and_counts d4)\<lparr>dr_accepted_source_events := saturated_increment (dr_accepted_source_events d4), dr_phase := DISPATCH_IDLE, dr_busy := 0\<rparr>"
  have out: "runtime_ingest e allow (d, w) = ((EM8051_DEBUG_EVENT_OK, Some (next_sequence d)), d5, w')"
    unfolding ingest_started [OF d a] em Let_def prod.case
    using st open3(1) by (simp add: d2_def [symmetric] p2 loop d3_def [symmetric] fin st4 d5_def d4_def) (simp add: d3_def fin st4)
  have f5: "dr_bus d5 = (dr_bus d)\<lparr>bus_next_sequence := next_sequence d + 1 + word_of_nat (length ms)\<rparr>" "dr_router d5 = r4" "dr_watches d5 = dr_watches d"
    "dr_pending d5 = ms" "dr_generation d5 = dr_generation d" "dr_busy d5 = 0" "dr_phase d5 = DISPATCH_IDLE"
    "dr_accepted_source_events d5 = saturated_increment (dr_accepted_source_events d)" "dr_rejected_source_events d5 = dr_rejected_source_events d"
    "dr_derived_events d5 = saturated_add (dr_derived_events d) (word_of_nat (length ms))" "dr_stop d5 = sp" "dr_console_matches d5 = cm"
    "dr_pending_overflows d5 = dr_pending_overflows d" "dr_observer_id d5 = dr_observer_id d" "dr_source_event d5 = ee"
    "dr_observation_fn d5 = dr_observation_fn d" "dr_after_observation_fn d5 = dr_after_observation_fn d"
    unfolding d5_def mg by (simp_all add: d4_def d3_def d2_def d1)
  have last: "rt_last_sequence r4 = next_sequence d + word_of_nat (length ms)" using se st4 open3(4) by (simp add: d2_def d1)
  have "next_sequence d5 = 0 \<or> rt_last_sequence r4 < next_sequence d5"
    using word_pred_less [of "next_sequence d5"] by (auto simp: last f5(1) algebra_simps)
  moreover have "watch_routes_valid (dr_watches d) (rt_config r4)" using d se st4 r' by (simp add: runtime_ok_def routes_valid_gated c_def)
  ultimately have "runtime_ok d5" using d se st4 by (simp add: runtime_ok_def f5 bus_ok_def)
  moreover have "stop_merged (dr_stop d) ms sp" "grows (dr_console_matches d) (length (filter (\<lambda>x. wr_console x \<noteq> 0) ms)) cm"
    using stops by (simp_all add: d4_def d3_def d2_def d1)
  moreover have "grows (dr_derived_events d) (length ms) (saturated_add (dr_derived_events d) (word_of_nat (length ms)))"
    using matched_short [of "dr_watches d" ee] d by (intro grows_simps(3)) (simp add: ms_def runtime_ok_def)
  ultimately have "ingest_result e (d, w) (EM8051_DEBUG_EVENT_OK, Some (next_sequence d)) (d5, w') \<and> runtime_ok d5"
    using s n by (simp add: ingest_result_def Let_def ee_def [symmetric] ms_def [symmetric] sr an f5 r4 grows_one)
  then show ?thesis using out by blast
qed

lemma ingest_total:
  assumes "runtime_ok d" "ingest_arguments e allow"
  shows "\<exists>out d' w'. runtime_ingest e allow (d, w) = (out, d', w') \<and> ingest_result e (d, w) out (d', w') \<and> runtime_ok d'"
  using ingest_accepted [OF assms] ingest_rejected [OF assms] by blast

lemma ingest_refused:
  assumes "\<not> ingest_arguments e allow"
  shows "runtime_ingest e allow (d, w) = ((EM8051_DEBUG_EVENT_INVALID_ARGUMENT, None), d, w)"
proof -
  have "ev_sequence e \<noteq> 0 \<or> \<not> allow \<and> (ev_kind e = EM8051_DEBUG_EVENT_RESET \<or> ev_kind e = EM8051_DEBUG_EVENT_LOAD) \<or> \<not> source_event_valid e"
    using assms by (auto simp: ingest_arguments_def lifecycle_def)
  then show ?thesis unfolding runtime_ingest_def prod.case by (rule if_P)
qed

lemma ingest_ok: "runtime_ok d \<Longrightarrow> runtime_ingest e allow (d, w) = (out, d', w') \<Longrightarrow> runtime_ok d'"
  using ingest_total [of d e allow w] ingest_refused [of e allow d w] by (cases "ingest_arguments e allow") auto

subsection \<open>The other operations\<close>

lemma runtime_ok_router:
  assumes "runtime_ok d" "router_ok r" "rt_source_open r = 0" "rt_last_sequence r = rt_last_sequence (dr_router d)" "watch_routes_valid (dr_watches d) (rt_config r)"
  shows "runtime_ok (d\<lparr>dr_router := r\<rparr>)"
  using assms by (simp add: runtime_ok_def)

lemma router_ok_depth: "router_ok (r\<lparr>rt_interrupt_depth := n\<rparr>) = router_ok r"
  by (simp add: router_ok_def parts_ok_def)

lemma runtime_ok_depth: "runtime_ok d \<Longrightarrow> runtime_ok (d\<lparr>dr_generation := g, dr_router := (dr_router d)\<lparr>rt_interrupt_depth := n\<rparr>\<rparr>)"
  by (simp add: runtime_ok_def router_ok_depth)

lemma runtime_ok_generation: "runtime_ok (d\<lparr>dr_generation := g\<rparr>) = runtime_ok d"
  by (simp add: runtime_ok_def)

lemma runtime_initialize_ok: "fst runtime_initialize = EM8051_DEBUG_EVENT_OK \<and> runtime_ok (snd runtime_initialize)"
  by (simp add: runtime_initialize_def em8051_debug_event_bus_subscribe_def em8051_debug_event_bus_init_def runtime_ok_def bus_ok_def router_init_ok
      em8051_debug_watch_table_init_def watch_routes_valid_def) (simp add: em8051_debug_trace_router_init_def)

lemma initialized_ok: "runtime_initialize = (st, d) \<Longrightarrow> runtime_ok d"
  using runtime_initialize_ok by (metis snd_conv)

lemma replace_frame:
  "em8051_debug_trace_router_replace c r = (status, r') \<Longrightarrow> rt_source_open r' = rt_source_open r \<and> rt_last_sequence r' = rt_last_sequence r"
  by (auto simp: em8051_debug_trace_router_replace_def split: if_splits option.splits)

lemma replace_config_ok:
  assumes d: "runtime_ok d" and out: "replace_config c d = (status, d')"
  shows "runtime_ok d' \<and> dr_watches d' = dr_watches d \<and> dr_generation d' = dr_generation d \<and> dr_bus d' = dr_bus d \<and> (status = EM8051_DEBUG_EVENT_OK \<longrightarrow> rt_config (dr_router d') = c)"
proof (cases "watch_routes_valid (dr_watches d) c")
  case True
  obtain st r where r: "em8051_debug_trace_router_replace c (dr_router d) = (st, r)" by fastforce
  have ok: "router_ok (dr_router d)" "rt_source_open (dr_router d) = 0" using d by (simp_all add: runtime_ok_def)
  note rep = replace_ok [OF ok(1) r] replace_frame [OF r]
  have d': "d' = d\<lparr>dr_router := r\<rparr>" "status = st" using out True by (simp_all add: replace_config_def r)
  have "watch_routes_valid (dr_watches d) (rt_config r)" using rep True d by (cases "st = EM8051_DEBUG_EVENT_OK") (simp_all add: runtime_ok_def)
  then show ?thesis unfolding d' using runtime_ok_router [OF d, of r] rep ok by simp
next
  case False
  then show ?thesis using out d by (auto simp: replace_config_def)
qed

lemma replace_member_ok: "runtime_ok d \<Longrightarrow> replace_member put n vs d = (status, d') \<Longrightarrow> runtime_ok d'"
  using replace_config_ok [of d "put vs (rt_config (dr_router d))" status d'] by (auto simp: replace_member_def split: if_splits)

lemma replace_watches_ok:
  assumes d: "runtime_ok d" and out: "em8051_debug_runtime_replace_watches ws d = (status, d')"
  shows "runtime_ok d'"
proof -
  obtain st table where t: "em8051_debug_watch_table_replace ws em8051_debug_watch_table_init = (st, table)" by fastforce
  show ?thesis
  proof (cases "st = EM8051_DEBUG_EVENT_OK \<and> watch_routes_valid table (rt_config (dr_router d))")
    case True
    note tr = table_replace_result(1) [OF t]
    have "length table \<le> 64" using tr True by (metis size_mset)
    moreover have "d' = d\<lparr>dr_watches := table\<rparr>" using out True d by (simp add: em8051_debug_runtime_replace_watches_def t runtime_ok_def)
    ultimately show ?thesis using d tr True by (simp add: runtime_ok_def)
  next
    case False
    then have "d' = d" using out d by (auto simp: em8051_debug_runtime_replace_watches_def t split: if_splits)
    then show ?thesis using d by simp
  qed
qed

lemma lifecycle_ok:
  assumes d: "runtime_ok d" and out: "lifecycle_event kind ic mc pc (d, w) = (st, d', w')"
  shows "runtime_ok d'"
proof (cases "dr_busy d \<noteq> 0 \<or> dr_generation d = - 1 \<or> \<not> sequence_room (dr_bus d) 1")
  case True
  then have "d' = d" using out by (auto simp: lifecycle_event_def split: if_splits)
  then show ?thesis using d by simp
next
  case False
  define e where "e = zero_event\<lparr>ev_kind := kind, ev_instruction_count := ic, ev_machine_cycle_count := mc, ev_pc := pc\<rparr>"
  define d0 where "d0 = d\<lparr>dr_generation := dr_generation d + 1, dr_router := (dr_router d)\<lparr>rt_interrupt_depth := 0\<rparr>\<rparr>"
  obtain status assigned d1 w1 where i: "runtime_ingest e True (d0, w) = ((status, assigned), d1, w1)"
    by (cases "runtime_ingest e True (d0, w)") auto
  have "runtime_ok d0" using runtime_ok_depth [OF d] by (simp add: d0_def)
  from ingest_ok [OF this i] have ok: "runtime_ok d1" .
  have "d' = d1 \<or> d' = d1\<lparr>dr_generation := dr_generation d, dr_router := (dr_router d1)\<lparr>rt_interrupt_depth := rt_interrupt_depth (dr_router d)\<rparr>\<rparr>"
    using out False unfolding lifecycle_event_def prod.case
    by (simp add: Let_def e_def [symmetric] d0_def [symmetric] i) (auto split: if_splits)
  then show ?thesis using ok runtime_ok_depth [OF ok] by auto
qed

lemma disarm_code_watches_ok: "runtime_ok d \<Longrightarrow> runtime_ok (d\<lparr>dr_watches := disarm_code_watches (dr_watches d)\<rparr>)"
  by (auto simp: runtime_ok_def disarm_code_watches_def watch_routes_valid_def list_all_iff watch_valid_def split: if_splits)

lemma load_ok:
  assumes d: "runtime_ok d" and out: "em8051_debug_runtime_load ic mc pc (d, w) = (st, d', w')"
  shows "runtime_ok d'"
proof (cases "dr_busy d \<noteq> 0 \<or> dr_generation d = - 1 \<or> \<not> sequence_room (dr_bus d) 1")
  case True
  then have "d' = d" using out by (auto simp: em8051_debug_runtime_load_def split: if_splits)
  then show ?thesis using d by simp
next
  case False
  obtain status d1 where r: "replace_config (disarm_code (rt_config (dr_router d))) d = (status, d1)" by fastforce
  note ok = replace_config_ok [OF d r]
  show ?thesis
  proof (cases "status = EM8051_DEBUG_EVENT_OK")
    case True
    have "runtime_ok (d1\<lparr>dr_watches := disarm_code_watches (dr_watches d)\<rparr>)" using disarm_code_watches_ok [of d1] ok by simp
    from lifecycle_ok [OF this] show ?thesis using out False True by (simp add: em8051_debug_runtime_load_def r)
  next
    case f: False
    then show ?thesis using out False ok by (simp add: em8051_debug_runtime_load_def r)
  qed
qed

lemma observation_ok:
  assumes d: "runtime_ok d" and out: "emu_debug_runtime_observation ob (d, w) = (st, d', w')"
  shows "runtime_ok d'"
proof (cases "ob_generation ob = 0 \<or> ob_kind ob < 1 \<or> ob_kind ob > 27 \<or> ob_source_event_sequence ob \<noteq> 0 \<or> ob_space ob > EMUIF_SPACE_XDATA \<or> dr_busy d \<noteq> 0")
  case True
  then have "d' = d" using out by (auto simp: emu_debug_runtime_observation_def split: if_splits)
  then show ?thesis using d by simp
next
  case False
  define d0 where "d0 = (if ob_kind ob = EMUIF_OBS_RESET \<or> ob_kind ob = EMUIF_OBS_LOAD
      then d\<lparr>dr_generation := ob_generation ob, dr_router := (dr_router d)\<lparr>rt_interrupt_depth := 0\<rparr>\<rparr> else d\<lparr>dr_generation := ob_generation ob\<rparr>)"
  define e where "e = (if ob_kind ob = EMUIF_OBS_RETI \<and> rt_interrupt_depth (dr_router d0) = 0
      then (observation_event ob)\<lparr>ev_kind := EM8051_DEBUG_EVENT_CONTROL_RETURN\<rparr> else observation_event ob)"
  obtain status assigned d1 w1 where i: "runtime_ingest e True (d0, w) = ((status, assigned), d1, w1)"
    by (cases "runtime_ingest e True (d0, w)") auto
  have "runtime_ok d0" using runtime_ok_depth [OF d] d by (simp add: d0_def runtime_ok_generation)
  from ingest_ok [OF this i] have ok: "runtime_ok d1" .
  have "d' = d1 \<or> d' = d1\<lparr>dr_generation := dr_generation d, dr_router := (dr_router d1)\<lparr>rt_interrupt_depth := rt_interrupt_depth (dr_router d)\<rparr>\<rparr>"
    using out False i unfolding emu_debug_runtime_observation_def prod.case Let_def e_def d0_def
    by (simp add: Let_def split: if_splits)
  then show ?thesis using ok runtime_ok_depth [OF ok] by auto
qed

lemma quieter_runtime:
  assumes "runtime_ok d" "quieter (dr_router d) r"
  shows "runtime_ok (d\<lparr>dr_router := r\<rparr>)"
  using assms quieter_ok [OF assms(2)] by (intro runtime_ok_router) (simp_all add: runtime_ok_def quieter_fields)

lemma configure_ok:
  assumes d: "runtime_ok d" and out: "emu_debug_runtime_configure mem c ws (d, w) = (st, d', w')"
  shows "runtime_ok d'"
proof -
  obtain st0 table where t: "em8051_debug_watch_table_replace ws em8051_debug_watch_table_init = (st0, table)" by fastforce
  define cand where "cand = (dr_router d)\<lparr>rt_suppression := (\<lambda>_. zero_suppression_state), rt_deliver := None, rt_eligible := None\<rparr>"
  obtain st1 x where c1: "em8051_debug_trace_router_replace c cand = (st1, x)" by fastforce
  obtain st2 r2 w2 where fl: "em8051_debug_trace_router_flush (dr_router d, w) = (st2, r2, w2)" by (cases "em8051_debug_trace_router_flush (dr_router d, w)") auto
  obtain st3 r3 where rp: "em8051_debug_trace_router_replace c r2 = (st3, r3)" by fastforce
  have q: "quieter (dr_router d) r2" using flush_quieter [of "dr_router d" w] by (simp add: fl)
  note d2 = quieter_runtime [OF d q]
  have ok2: "router_ok r2" "rt_source_open r2 = 0" "rt_last_sequence r2 = rt_last_sequence (dr_router d)" using d2 quieter_fields [OF q] by (simp_all add: runtime_ok_def)
  note r3 = replace_ok [OF ok2(1) rp] replace_frame [OF rp]
  have "d' = d \<or> d' = d\<lparr>dr_router := r2\<rparr> \<or> d' = d\<lparr>dr_router := r3\<rparr> \<and> st3 \<noteq> EM8051_DEBUG_EVENT_OK \<or>
      d' = d\<lparr>dr_router := r3, dr_watches := table\<rparr> \<and> st3 = EM8051_DEBUG_EVENT_OK \<and> st0 = EM8051_DEBUG_EVENT_OK \<and> watch_routes_valid table c"
    using out unfolding emu_debug_runtime_configure_def prod.case
    by (simp add: t c1 [unfolded cand_def] fl rp Let_def split: if_splits)
  then show ?thesis
  proof (elim disjE conjE)
    assume "d' = d\<lparr>dr_router := r3\<rparr>" "st3 \<noteq> EM8051_DEBUG_EVENT_OK"
    then show ?thesis using r3 d2 by simp
  next
    assume a: "d' = d\<lparr>dr_router := r3, dr_watches := table\<rparr>" "st3 = EM8051_DEBUG_EVENT_OK" "st0 = EM8051_DEBUG_EVENT_OK" "watch_routes_valid table c"
    note tr = table_replace_result(1) [OF t a(3)]
    have "length table \<le> 64" using tr by (metis size_mset)
    then show ?thesis using r3 ok2 d tr a by (simp add: runtime_ok_def)
  qed (use d d2 in simp_all)
qed

lemma discard_ok:
  assumes "runtime_ok d" "emu_debug_runtime_discard_suppression ident d = (st, d')"
  shows "runtime_ok d'"
proof -
  have "quieter (dr_router d) ((dr_router d)\<lparr>rt_suppression := (\<lambda>i. if P i then zero_suppression_state else rt_suppression (dr_router d) i)\<rparr>)" for P
    by (simp add: quieter_def)
  from quieter_runtime [OF assms(1) this] show ?thesis
    using assms by (auto simp: emu_debug_runtime_discard_suppression_def split: if_splits)
qed

lemma enable_ok:
  assumes d: "runtime_ok d" and out: "em8051_debug_runtime_set_trace_enabled ids on d = (st, d')"
  shows "runtime_ok d'"
proof (cases "ids = [] \<or> dr_busy d \<noteq> 0 \<or> length ids > 16 \<or> enable_traces 0 ids on (rt_config (dr_router d)) = None")
  case True
  then have "d' = d" using out by (auto simp: em8051_debug_runtime_set_trace_enabled_def split: if_splits option.splits)
  then show ?thesis using d by simp
next
  case False
  then show ?thesis using out replace_config_ok [OF d] by (auto simp: em8051_debug_runtime_set_trace_enabled_def)
qed

subsection \<open>Reachable runtimes\<close>

text \<open>One rule per operation of the runtime that changes state.\<close>

inductive runtime_step :: "'w em8051_debug_runtime \<times> 'w \<Rightarrow> 'w em8051_debug_runtime \<times> 'w \<Rightarrow> bool" where
  "em8051_debug_runtime_ingest e s = (out, s') \<Longrightarrow> runtime_step s s'"
| "em8051_debug_runtime_reset ic mc pc s = (out, s') \<Longrightarrow> runtime_step s s'"
| "em8051_debug_runtime_load ic mc pc s = (out, s') \<Longrightarrow> runtime_step s s'"
| "emu_debug_runtime_observation ob s = (out, s') \<Longrightarrow> runtime_step s s'"
| "emu_debug_runtime_configure mem c ws s = (st, s') \<Longrightarrow> runtime_step s s'"
| "emu_debug_runtime_flush s = (st, s') \<Longrightarrow> runtime_step s s'"
| "emu_debug_runtime_flush_selected di ti s = (st, s') \<Longrightarrow> runtime_step s s'"
| "em8051_debug_runtime_clear_session d = (st, d') \<Longrightarrow> runtime_step (d, w) (d', w)"
| "em8051_debug_runtime_replace_watches ws d = (st, d') \<Longrightarrow> runtime_step (d, w) (d', w)"
| "em8051_debug_runtime_replace_traces ts d = (st, d') \<Longrightarrow> runtime_step (d, w) (d', w)"
| "em8051_debug_runtime_replace_destinations ds d = (st, d') \<Longrightarrow> runtime_step (d, w) (d', w)"
| "em8051_debug_runtime_replace_points ps d = (st, d') \<Longrightarrow> runtime_step (d, w) (d', w)"
| "em8051_debug_runtime_replace_gates gs d = (st, d') \<Longrightarrow> runtime_step (d, w) (d', w)"
| "em8051_debug_runtime_set_trace_enabled ids on d = (st, d') \<Longrightarrow> runtime_step (d, w) (d', w)"
| "em8051_debug_runtime_consume_stop d = (out, d') \<Longrightarrow> runtime_step (d, w) (d', w)"
| "emu_debug_runtime_observer fn d = (st, d') \<Longrightarrow> runtime_step (d, w) (d', w)"
| "emu_debug_runtime_after_observation fn d = (st, d') \<Longrightarrow> runtime_step (d, w) (d', w)"
| "emu_debug_runtime_delivery g f d = (st, d') \<Longrightarrow> runtime_step (d, w) (d', w')"
| "emu_debug_runtime_discard_suppression ti d = (st, d') \<Longrightarrow> runtime_step (d, w) (d', w)"

inductive runtime_reach :: "'w em8051_debug_runtime \<times> 'w \<Rightarrow> bool" where
  created: "em8051_debug_runtime_create True = (st, Some d) \<Longrightarrow> runtime_reach (d, w)"
| stepped: "runtime_reach s \<Longrightarrow> runtime_step s s' \<Longrightarrow> runtime_reach s'"

lemma router_ok_callbacks: "router_ok (r\<lparr>rt_deliver := g, rt_eligible := f\<rparr>) = router_ok r"
  by (simp add: router_ok_def parts_ok_def)

lemma runtime_step_ok: "runtime_step s s' \<Longrightarrow> runtime_ok (fst s) \<Longrightarrow> runtime_ok (fst s')"
proof (induction rule: runtime_step.induct)
  case (1 e s out s')
  then show ?case using ingest_ok [of "fst s" e False "snd s" out "fst s'" "snd s'"] by (simp add: em8051_debug_runtime_ingest_def)
next
  case (2 ic mc pc s out s')
  then show ?case using lifecycle_ok [of "fst s" _ ic mc pc "snd s" out "fst s'" "snd s'"] by (simp add: em8051_debug_runtime_reset_def)
next
  case (3 ic mc pc s out s')
  then show ?case using load_ok [of "fst s" ic mc pc "snd s" out "fst s'" "snd s'"] by simp
next
  case (4 ob s out s')
  then show ?case using observation_ok [of "fst s" ob "snd s" out "fst s'" "snd s'"] by simp
next
  case (5 mem c ws s st s')
  then show ?case using configure_ok [of "fst s" mem c ws "snd s" st "fst s'" "snd s'"] by simp
next
  case (6 s st s')
  then show ?case using quieter_runtime [OF _ flush_quieter [of "dr_router (fst s)" "snd s"]]
    by (cases s) (auto simp: emu_debug_runtime_flush_def split: if_splits prod.splits)
next
  case (7 di ti s st s')
  then show ?case using quieter_runtime [OF _ flush_selected_quieter [of "dr_router (fst s)" di ti "snd s"]]
    by (cases s) (auto simp: emu_debug_runtime_flush_selected_def split: if_splits prod.splits)
next
  case (8 d st d' w)
  then show ?case by (auto simp: initialized_ok em8051_debug_runtime_clear_session_def split: if_splits)
next
  case (18 g f d st d' w w')
  then show ?case by (auto simp: emu_debug_runtime_delivery_def runtime_ok_def router_ok_callbacks split: if_splits)
next
  case (15 d out d' w)
  then show ?case by (auto simp: em8051_debug_runtime_consume_stop_def runtime_ok_def split: if_splits)
next
  case (16 fn d st d' w)
  then show ?case by (auto simp: emu_debug_runtime_observer_def runtime_ok_def split: if_splits)
next
  case (17 fn d st d' w)
  then show ?case by (auto simp: emu_debug_runtime_after_observation_def runtime_ok_def split: if_splits)
qed (auto simp: em8051_debug_runtime_replace_traces_def em8051_debug_runtime_replace_destinations_def em8051_debug_runtime_replace_points_def
    em8051_debug_runtime_replace_gates_def dest: replace_watches_ok replace_member_ok enable_ok discard_ok)

lemma runtime_reach_ok: "runtime_reach s \<Longrightarrow> runtime_ok (fst s)"
proof (induction rule: runtime_reach.induct)
  case (created st d w)
  then show ?case by (auto simp: initialized_ok em8051_debug_runtime_create_def split: prod.splits if_splits)
qed (auto intro: runtime_step_ok)

text \<open>
  C26. Dispatch of the trace runtime.  From any reachable runtime, with any callbacks, ingesting a well-formed source
  event always returns with the runtime idle and its invariant kept, and its status is decided before anything is
  routed: the sequence numbers are exhausted, more watches match than can be held or numbered, the interrupt
  depth cannot move, or else the event is accepted.  An accepted event takes the next sequence number and is routed; then
  every matching watch, in the order of the table and under the numbers that follow, is announced to the observation
  callback and routed to the traces its actions name, as the source event turned into a match that carries the
  watch's identifier, its fired actions and its result; at the end the gates after the event are applied.  Router and callback state
  are exactly those of this sequence.  The counters grow by one accepted event, by the number of matches and by the number of
  console matches, up to their largest value, and the pending stop is that of the least watch identifier, then the oldest source event, that
  asked for one.  A refused event leaves the router, the stop and the counters of matches untouched, counts as one rejected event
  (and an overflow when too many watches match) and costs at most its sequence number; only the observation callback has heard it.
\<close>

theorem runtime_dispatch:
  assumes "runtime_reach (d, w)" and "ingest_arguments e False"
  shows "\<exists>out d' w'. em8051_debug_runtime_ingest e (d, w) = (out, d', w') \<and> ingest_result e (d, w) out (d', w') \<and> runtime_ok d'"
  using ingest_total [OF _ assms(2)] runtime_reach_ok [OF assms(1)] by (simp add: em8051_debug_runtime_ingest_def)

definition stop_watch :: em8051_debug_watch where
  "stop_watch = \<lparr>w_actions = [\<lparr>wa_condition = \<lparr>wc_constant = 0, wc_present = 0, wc_operand = 0, wc_comparison = 0, wc_width = 0, wc_is_signed = 0\<rparr>,
       wa_trace_ids = [], wa_kind = EM8051_DEBUG_WATCH_STOP, wa_canonical = 0\<rparr>], w_id = 2, w_address_first = 0, w_address_last = 100,
     w_enabled = 1, w_address_space = 5, w_access_mask = 4, w_canonical_space = 0\<rparr>"

abbreviation watched_runtime :: "unit em8051_debug_runtime" where
  "watched_runtime \<equiv> (snd runtime_initialize)\<lparr>dr_watches := [stop_watch]\<rparr>"

theorem runtime_dispatch_witness:
  "\<exists>d'. fst (em8051_debug_runtime_ingest (sample_write\<lparr>ev_sequence := 0\<rparr>) (watched_runtime, ())) = (EM8051_DEBUG_EVENT_OK, Some 1) \<and>
     fst (snd (em8051_debug_runtime_ingest (sample_write\<lparr>ev_sequence := 0\<rparr>) (watched_runtime, ()))) = d' \<and>
     bus_next_sequence (dr_bus d') = 3 \<and> dr_derived_events d' = 1 \<and> dr_accepted_source_events d' = 1 \<and>
     dr_stop d' = \<lparr>st_source_event_sequence = 1, st_matching_watch_count = 1, st_watch_id = 2, st_pending = 1\<rparr>"
proof -
  let ?e = "sample_write\<lparr>ev_sequence := 0\<rparr>" and ?d = watched_runtime
  have init: "em8051_debug_runtime_create True = (EM8051_DEBUG_EVENT_OK, Some (snd runtime_initialize :: unit em8051_debug_runtime))"
    by (simp add: em8051_debug_runtime_create_def runtime_initialize_def em8051_debug_event_bus_subscribe_def em8051_debug_event_bus_init_def)
  have rep: "em8051_debug_runtime_replace_watches [stop_watch] (snd runtime_initialize :: unit em8051_debug_runtime) = (EM8051_DEBUG_EVENT_OK, ?d)"
  proof -
    have "em8051_debug_watch_table_replace [stop_watch] [] = (EM8051_DEBUG_EVENT_OK, [stop_watch])"
      by (simp add: em8051_debug_watch_table_replace_def insert_watch.simps) (simp add: stop_watch_def watch_valid_def action_valid_def)
    then show ?thesis
      by (simp add: em8051_debug_runtime_replace_watches_def em8051_debug_watch_table_init_def watch_routes_valid_def)
         (simp add: stop_watch_def runtime_initialize_def em8051_debug_event_bus_subscribe_def em8051_debug_event_bus_init_def)
  qed
  have reach: "runtime_reach (?d, ())" by (rule stepped [OF created [OF init] runtime_step.intros(9) [OF rep]])
  have args: "ingest_arguments ?e False"
    by (simp add: ingest_arguments_def lifecycle_def source_event_valid_def sample_write_def zero_event_def event_value_valid_def zero_debug_value_def)
  have f: "next_sequence ?d = 1" "dr_generation ?d = 1" "dr_accepted_source_events ?d = 0" "dr_derived_events ?d = 0" "rt_interrupt_depth (dr_router ?d) = 0" "dr_stop ?d = zero_stop"
    by (simp_all add: runtime_initialize_def em8051_debug_event_bus_subscribe_def em8051_debug_event_bus_init_def em8051_debug_trace_router_init_def)
  obtain m where m: "matched [stop_watch] (source_of ?e ?d) = [m]" "wr_stop m = 1" "wr_watch_id m = 2" "wr_source_event_sequence m = 1"
    using f(1) by (simp add: source_of_def f stamped_def matched_def sample_write_def zero_event_def zero_observation_def concerns_scope [symmetric]
        watch_in_scope_def stop_watch_def fired_def action_fires_def condition_holds_def expected_result_def fires_kind_def)
  have ob: "ob_kind (ev_observation sample_write) = 0" "ev_kind sample_write = 4" by (simp_all add: sample_write_def zero_event_def zero_observation_def)
  have st: "ingest_status ?e ?d = EM8051_DEBUG_EVENT_OK"
    using m f by (simp add: ingest_status_def numbers_left_def depth_allowed_def ob)
  obtain out d' w' where r: "em8051_debug_runtime_ingest ?e (?d, ()) = (out, d', w')" "ingest_result ?e (?d, ()) out (d', w')"
    using runtime_dispatch [OF reach args] by blast
  then have g: "grows 0 1 (dr_derived_events d')" "grows 0 1 (dr_accepted_source_events d')" "stop_merged zero_stop [m] (dr_stop d')"
    and out: "out = (EM8051_DEBUG_EVENT_OK, Some 1)" "next_sequence d' = 3"
    using st m(1) f by (cases out; simp add: ingest_result_def Let_def)+
  have "dr_stop d' = \<lparr>st_source_event_sequence = 1, st_matching_watch_count = 1, st_watch_id = 2, st_pending = 1\<rparr>"
    using g(3) m by (intro em8051_debug_runtime_stop.equality) (simp_all add: stop_merged_def zero_stop_def grows_def unat_one_iff)
  then show ?thesis using r out g by (simp add: grows_def unat_one_iff)
qed

subsection \<open>Reading a ring\<close>

lemma read_ring_page:
  assumes "runtime_ok d" "destination_index (rt_config (dr_router d)) ident \<ge> 0"
  defines "xs \<equiv> ring_list (rt_rings (dr_router d) (dx (rt_config (dr_router d)) ident))"
  shows "em8051_debug_runtime_read_ring ident offset capacity d =
    (EM8051_DEBUG_EVENT_OK, take capacity (drop offset xs), length xs - offset - capacity)"
proof -
  define ring where "ring = rt_rings (dr_router d) (dx (rt_config (dr_router d)) ident)"
  have i: "runtime_destination_index c j = destination_index c j" for c j by (simp add: runtime_destination_index_def destination_index_def)
  have "map (\<lambda>i. ring_records ring ((unat (ring_head ring) + offset + i) mod 128)) [0..<min capacity (length xs - offset)] = take capacity (drop offset xs)"
    by (rule nth_equalityI) (auto simp: xs_def ring_def [symmetric] ring_list_def add.assoc)
  then show ?thesis using assms(1,2)
    by (auto simp: em8051_debug_runtime_read_ring_def runtime_ok_def i Let_def dx_def [symmetric] ring_def [symmetric] xs_def min_def split: if_splits)
qed

end
