(* ===== verification/Outcome.thy ===== *)
theory Outcome
  imports Observation
begin

text \<open>
  Bounded retention of outcomes (\<^verbatim>\<open>emu_outcome_internal.c\<close>): the ring of trace records and the page a reader asks for.  What \<open>sizeof\<close> yields for the structures of the contract is an argument; the
  caller's strided record array is the list of its elements, absent for a null pointer; a \<open>char\<close> array is the
  list of its characters.
\<close>

subsection \<open>Data\<close>

abbreviation (input) EMUIF_RECORD_EVENT :: u32 where "EMUIF_RECORD_EVENT \<equiv> 0"
abbreviation (input) EMUIF_RECORD_SUPPRESSION :: u32 where "EMUIF_RECORD_SUPPRESSION \<equiv> 1"
abbreviation (input) EMUIF_RECORD_LOSS :: u32 where "EMUIF_RECORD_LOSS \<equiv> 2"
abbreviation (input) EMUIF_RECORD_SINK :: u32 where "EMUIF_RECORD_SINK \<equiv> 3"
abbreviation (input) EMUIF_CURSOR_CURRENT :: u32 where "EMUIF_CURSOR_CURRENT \<equiv> 0"
abbreviation (input) EMUIF_CURSOR_EXPIRED :: u32 where "EMUIF_CURSOR_EXPIRED \<equiv> 1"
abbreviation (input) EMUIF_CURSOR_AHEAD :: u32 where "EMUIF_CURSOR_AHEAD \<equiv> 2"
abbreviation (input) EMUIF_CURSOR_WRONG_SESSION :: u32 where "EMUIF_CURSOR_WRONG_SESSION \<equiv> 3"
abbreviation (input) EMUIF_CURSOR_WRONG_EPOCH :: u32 where "EMUIF_CURSOR_WRONG_EPOCH \<equiv> 4"
abbreviation (input) EMU_OUTCOME_CAPACITY :: u32 where "EMU_OUTCOME_CAPACITY \<equiv> 1024"

record emuif_trace_record = emuif_prefix +
  tc_epoch :: u64
  tc_record_sequence :: u64
  tc_generation :: u64
  tc_first_source_sequence :: u64
  tc_last_source_sequence :: u64
  tc_count :: u64
  tc_kind :: u32
  tc_destination_id :: u32
  tc_route_count :: u32
  tc_trace_ids :: "u32 list"
  tc_trace_id :: u32
  tc_interrupt_policy :: u32
  tc_entry_depth :: u32
  tc_maximum_depth :: u32
  tc_status :: u32
  tc_reserved :: u32
  tc_event :: emuif_observation

record emuif_trace_page_request = emuif_prefix +
  rq_session_id :: string
  rq_reserved :: "u8 list"
  rq_destination_id :: u32
  rq_max_records :: u32
  rq_epoch :: u64
  rq_after_record_sequence :: u64

record emuif_trace_page = emuif_prefix +
  pg_session_id :: string
  pg_reserved :: "u8 list"
  pg_destination_id :: u32
  pg_cursor_state :: u32
  pg_epoch :: u64
  pg_requested_after :: u64
  pg_oldest :: u64
  pg_newest :: u64
  pg_first :: u64
  pg_last :: u64
  pg_next_after :: u64
  pg_overwritten :: u64
  pg_dropped :: u64
  pg_lost_before_page :: u64
  pg_remaining :: u32
  pg_more :: u32
  pg_written :: u32
  pg_required :: u32
  pg_records :: "emuif_trace_record list option"
  pg_element_size :: u32
  pg_capacity :: u32

record emu_outcome_ring =
  oc_records :: "nat \<Rightarrow> emuif_trace_record"
  oc_next_sequence :: u64
  oc_overwritten :: u64
  oc_head :: u32
  oc_count :: u32

text \<open>The values of \<open>sizeof\<close>.\<close>

record contract_sizes =
  size_value :: u32
  size_observation :: u32
  size_record :: u32
  size_request :: u32
  size_page :: u32

definition zero_record :: emuif_trace_record where
  "zero_record = \<lparr>struct_size = 0, api_version = 0, flags = 0, tc_epoch = 0, tc_record_sequence = 0, tc_generation = 0, tc_first_source_sequence = 0,
     tc_last_source_sequence = 0, tc_count = 0, tc_kind = 0, tc_destination_id = 0, tc_route_count = 0, tc_trace_ids = replicate 16 0,
     tc_trace_id = 0, tc_interrupt_policy = 0, tc_entry_depth = 0, tc_maximum_depth = 0, tc_status = 0, tc_reserved = 0, tc_event = zero_observation\<rparr>"

definition zero_page :: emuif_trace_page where
  "zero_page = \<lparr>struct_size = 0, api_version = 0, flags = 0, pg_session_id = replicate 33 (CHR 0x00), pg_reserved = replicate 7 0, pg_destination_id = 0,
     pg_cursor_state = 0, pg_epoch = 0, pg_requested_after = 0, pg_oldest = 0, pg_newest = 0, pg_first = 0, pg_last = 0, pg_next_after = 0,
     pg_overwritten = 0, pg_dropped = 0, pg_lost_before_page = 0, pg_remaining = 0, pg_more = 0, pg_written = 0, pg_required = 0,
     pg_records = None, pg_element_size = 0, pg_capacity = 0\<rparr>"

text \<open>The macro \<open>INIT\<close> on the structures it is used on.\<close>

definition init_record :: "contract_sizes \<Rightarrow> emuif_trace_record" where
  "init_record z = zero_record\<lparr>struct_size := size_record z, api_version := 1\<rparr>"

definition init_observation :: "contract_sizes \<Rightarrow> emuif_observation" where
  "init_observation z = zero_observation\<lparr>struct_size := size_observation z, api_version := 1\<rparr>"

definition init_value :: "contract_sizes \<Rightarrow> emuif_observed_value" where
  "init_value z = zero_value\<lparr>struct_size := size_value z, api_version := 1\<rparr>"

subsection \<open>The ring\<close>

definition zero_bytes :: "u8 list \<Rightarrow> bool" where
  "zero_bytes bs = list_all (\<lambda>b. b = 0) bs"

definition sized :: "'a emuif_prefix_scheme \<Rightarrow> u32 \<Rightarrow> u32" where
  "sized p n =
     (if struct_size p < 8 then EMUIF_INVALID
      else if api_version p \<noteq> 1 then EMUIF_VERSION
      else if struct_size p < n \<or> flags p \<noteq> 0 then EMUIF_INVALID
      else EMUIF_OK)"

definition emu_outcome_init :: emu_outcome_ring where
  "emu_outcome_init = \<lparr>oc_records = (\<lambda>_. zero_record), oc_next_sequence = 1, oc_overwritten = 0, oc_head = 0, oc_count = 0\<rparr>"

definition insert_record :: "emuif_trace_record \<Rightarrow> emu_outcome_ring \<Rightarrow> emu_outcome_ring" where
  "insert_record v r =
     r\<lparr>oc_next_sequence := oc_next_sequence r + 1,
       oc_records := (oc_records r)(unat ((oc_head r + oc_count r) mod EMU_OUTCOME_CAPACITY) := v\<lparr>tc_record_sequence := oc_next_sequence r\<rparr>),
       oc_count := oc_count r + 1\<rparr>"

text \<open>One turn of the loop that drops an old record and notes it in the loss record.\<close>

definition drop_oldest :: "emuif_trace_record \<times> emu_outcome_ring \<Rightarrow> emuif_trace_record \<times> emu_outcome_ring" where
  "drop_oldest = (\<lambda>(v, r).
     let old = oc_records r (unat (oc_head r));
         first = (if tc_kind old = EMUIF_RECORD_EVENT then ob_sequence (tc_event old) else 0);
         last = (if tc_kind old = EMUIF_RECORD_EVENT then ob_sequence (tc_event old) else 0);
         n = (if tc_kind old = EMUIF_RECORD_EVENT then 1 else 0);
         v = (if tc_first_source_sequence v = 0 \<or> first \<noteq> 0 \<and> first < tc_first_source_sequence v then v\<lparr>tc_first_source_sequence := first\<rparr> else v);
         v = (if last > tc_last_source_sequence v then v\<lparr>tc_last_source_sequence := last\<rparr> else v);
         v = v\<lparr>tc_count := (if - 1 - tc_count v < n then - 1 else tc_count v + n)\<rparr>
     in (v, r\<lparr>oc_head := (oc_head r + 1) mod EMU_OUTCOME_CAPACITY, oc_count := oc_count r - 1,
             oc_overwritten := (if oc_overwritten r \<noteq> - 1 then oc_overwritten r + 1 else oc_overwritten r)\<rparr>))"

definition loss_record :: "contract_sizes \<Rightarrow> u64 \<Rightarrow> emuif_trace_record" where
  "loss_record z generation =
     (init_record z)\<lparr>tc_event := (init_observation z)\<lparr>ob_old_value := (init_value z)\<lparr>ov_width := 8\<rparr>, ob_new_value := (init_value z)\<lparr>ov_width := 8\<rparr>\<rparr>,
       tc_epoch := 1, tc_generation := generation, tc_kind := EMUIF_RECORD_LOSS\<rparr>"

definition emu_outcome_append :: "contract_sizes \<Rightarrow> emuif_observation \<Rightarrow> emu_outcome_ring \<Rightarrow> u32 \<times> emu_outcome_ring" where
  "emu_outcome_append z ob r =
     (let needed = (if oc_count r = EMU_OUTCOME_CAPACITY then 2 else 1 :: u64)
      in if oc_next_sequence r = 0 \<or> - 1 - oc_next_sequence r < needed - 1 then (EMUIF_EXHAUSTED, r)
         else
           let r = (if oc_count r = EMU_OUTCOME_CAPACITY
                    then let (v, r) = drop_oldest (drop_oldest (loss_record z (ob_generation ob), r)) in insert_record v r
                    else r)
           in (EMUIF_OK, insert_record ((init_record z)\<lparr>tc_epoch := 1, tc_generation := ob_generation ob, tc_event := ob\<rparr>) r))"

subsection \<open>Pages\<close>

text \<open>The text of a \<open>char\<close> array, up to its terminator.\<close>

definition c_text :: "string \<Rightarrow> string" where
  "c_text s = takeWhile (\<lambda>ch. ch \<noteq> CHR 0x00) s"

definition session_digit :: "char \<Rightarrow> bool" where
  "session_digit ch \<longleftrightarrow> (48 :: nat) \<le> of_char ch \<and> of_char ch \<le> (57 :: nat) \<or> (97 :: nat) \<le> of_char ch \<and> of_char ch \<le> (102 :: nat)"

definition page_request_valid :: "contract_sizes \<Rightarrow> emuif_trace_page_request \<Rightarrow> emuif_trace_page \<Rightarrow> bool" where
  "page_request_valid z q out \<longleftrightarrow>
     \<not> (rq_destination_id q \<noteq> 0 \<or> rq_max_records q > 16 \<or> rq_epoch q = 0 \<or> \<not> zero_bytes (rq_reserved q) \<or> \<not> zero_bytes (pg_reserved out) \<or>
        CHR 0x00 \<notin> set (rq_session_id q) \<or>
        pg_capacity out \<noteq> 0 \<and> (pg_records out = None \<or> pg_element_size out < size_record z)) \<and>
     list_all session_digit (take 32 (rq_session_id q)) \<and> rq_session_id q ! 32 = CHR 0x00"

definition slot_status :: "contract_sizes \<Rightarrow> u32 \<Rightarrow> emuif_trace_record \<Rightarrow> u32" where
  "slot_status z element_size slot =
     (let status = sized slot (size_record z)
      in if status \<noteq> EMUIF_OK then status
         else if struct_size slot > element_size \<or> tc_reserved slot \<noteq> 0 \<or> ob_reserved_pc (tc_event slot) \<noteq> 0 \<or>
                 \<not> zero_bytes (ob_reserved_bytes (tc_event slot)) \<or> \<not> zero_bytes (ob_reserved_text (tc_event slot)) \<or>
                 ov_reserved (ob_old_value (tc_event slot)) \<noteq> 0 \<or> ov_reserved (ob_new_value (tc_event slot)) \<noteq> 0 then EMUIF_INVALID
         else
           let status = sized (tc_event slot) (size_observation z)
           in if status \<noteq> EMUIF_OK then status
              else
                let status = sized (ob_old_value (tc_event slot)) (size_value z)
                in if status \<noteq> EMUIF_OK then status else sized (ob_new_value (tc_event slot)) (size_value z))"

fun slots_status :: "contract_sizes \<Rightarrow> u32 \<Rightarrow> emuif_trace_record list \<Rightarrow> u32" where
  "slots_status z element_size [] = EMUIF_OK"
| "slots_status z element_size (slot # slots) =
     (let status = slot_status z element_size slot in if status \<noteq> EMUIF_OK then status else slots_status z element_size slots)"

text \<open>A record as it is stored in a slot: the sizes the caller announced are kept.\<close>

definition fill_slot :: "emuif_trace_record \<Rightarrow> emuif_trace_record \<Rightarrow> emuif_trace_record" where
  "fill_slot v previous =
     v\<lparr>struct_size := struct_size previous,
       tc_event := (tc_event v)\<lparr>struct_size := struct_size (tc_event previous),
         ob_old_value := (ob_old_value (tc_event v))\<lparr>struct_size := struct_size (ob_old_value (tc_event previous))\<rparr>,
         ob_new_value := (ob_new_value (tc_event v))\<lparr>struct_size := struct_size (ob_new_value (tc_event previous))\<rparr>\<rparr>\<rparr>"

abbreviation ring_record :: "emu_outcome_ring \<Rightarrow> u32 \<Rightarrow> emuif_trace_record" where
  "ring_record r i \<equiv> oc_records r (unat ((oc_head r + i) mod EMU_OUTCOME_CAPACITY))"

definition page_header :: "emu_outcome_ring \<Rightarrow> string \<Rightarrow> emuif_trace_page_request \<Rightarrow> emuif_trace_page \<Rightarrow> emuif_trace_page" where
  "page_header r session q out =
     (let p = zero_page\<lparr>struct_size := struct_size out, api_version := 1, pg_session_id := take 33 session, pg_epoch := 1,
            pg_requested_after := rq_after_record_sequence q, pg_next_after := rq_after_record_sequence q, pg_overwritten := oc_overwritten r,
            pg_records := pg_records out, pg_capacity := pg_capacity out, pg_element_size := pg_element_size out\<rparr>;
          p = (if oc_count r \<noteq> 0
               then p\<lparr>pg_oldest := tc_record_sequence (oc_records r (unat (oc_head r))), pg_newest := tc_record_sequence (ring_record r (oc_count r - 1))\<rparr>
               else p)
      in if c_text (rq_session_id q) \<noteq> c_text session then p\<lparr>pg_cursor_state := EMUIF_CURSOR_WRONG_SESSION\<rparr>
         else if rq_epoch q \<noteq> 1 then p\<lparr>pg_cursor_state := EMUIF_CURSOR_WRONG_EPOCH\<rparr>
         else if rq_after_record_sequence q > pg_newest p then p\<lparr>pg_cursor_state := EMUIF_CURSOR_AHEAD\<rparr>
         else p)"

text \<open>The records from \<open>offset\<close> on, as far as the request and the slots go.\<close>

definition page_fill ::
    "contract_sizes \<Rightarrow> emu_outcome_ring \<Rightarrow> u32 \<Rightarrow> u32 \<Rightarrow> u32 \<Rightarrow> emuif_trace_page \<Rightarrow> emuif_trace_page \<Rightarrow> u32 \<times> emuif_trace_page" where
  "page_fill z r offset available required out p =
     (let slots = (case pg_records p of Some xs \<Rightarrow> xs | None \<Rightarrow> []);
          status = slots_status z (pg_element_size p) (take (unat required) slots)
      in if status \<noteq> EMUIF_OK then (status, out)
         else
           let filled = map (\<lambda>i. fill_slot (ring_record r (offset + word_of_nat i)) (slots ! i)) [0..<unat required];
               remaining = available - required;
               p = p\<lparr>pg_records := (if pg_records p = None then None else Some (filled @ drop (unat required) slots)),
                     pg_written := required, pg_remaining := remaining, pg_more := (if remaining \<noteq> 0 then 1 else 0)\<rparr>;
               p = (if required \<noteq> 0
                    then p\<lparr>pg_first := tc_record_sequence (ring_record r offset),
                           pg_last := tc_record_sequence (ring_record r (offset + required - 1)),
                           pg_next_after := tc_record_sequence (ring_record r (offset + required - 1))\<rparr>
                    else p)
           in (EMUIF_OK, p))"

definition page_body :: "contract_sizes \<Rightarrow> emu_outcome_ring \<Rightarrow> emuif_trace_page_request \<Rightarrow> emuif_trace_page \<Rightarrow> emuif_trace_page \<Rightarrow> u32 \<times> emuif_trace_page" where
  "page_body z r q out p =
     (let oldest = pg_oldest p;
          expired = (oldest \<noteq> 0 \<and> rq_after_record_sequence q < oldest - 1);
          p = (if expired
               then p\<lparr>pg_cursor_state := EMUIF_CURSOR_EXPIRED, pg_lost_before_page := oldest - rq_after_record_sequence q - 1\<rparr> else p);
          offset = (if \<not> expired \<and> oc_count r \<noteq> 0 \<and> rq_after_record_sequence q \<ge> oldest
                    then ucast (rq_after_record_sequence q - oldest + 1) else 0 :: u32);
          available = oc_count r - offset;
          required = (if available < rq_max_records q then available else rq_max_records q);
          p = p\<lparr>pg_required := required\<rparr>
      in if pg_capacity out < required
         then (EMUIF_CAPACITY, p\<lparr>pg_remaining := available, pg_more := (if available \<noteq> 0 then 1 else 0)\<rparr>)
         else page_fill z r offset available required out p)"

definition emu_outcome_page ::
    "contract_sizes \<Rightarrow> emu_outcome_ring \<Rightarrow> string \<Rightarrow> emuif_trace_page_request \<Rightarrow> emuif_trace_page \<Rightarrow> u32 \<times> emuif_trace_page" where
  "emu_outcome_page z r session q out =
     (let status = sized q (size_request z)
      in if status \<noteq> EMUIF_OK then (status, out)
         else
           let status = sized out (size_page z)
           in if status \<noteq> EMUIF_OK then (status, out)
              else if \<not> page_request_valid z q out then (EMUIF_INVALID, out)
              else
                let p = page_header r session q out
                in if pg_cursor_state p \<noteq> 0 then (EMUIF_OK, p) else page_body z r q out p)"

end
