(* ===== verification/Circular.thy ===== *)
theory Circular
  imports Prelude
begin

text \<open>Circular arrays: the list held by the \<open>k\<close> slots from \<open>h\<close> on in an array of \<open>n\<close> slots that wraps around.\<close>

definition circ :: "nat \<Rightarrow> (nat \<Rightarrow> 'a) \<Rightarrow> nat \<Rightarrow> nat \<Rightarrow> 'a list" where
  "circ n f h k = map (\<lambda>i. f ((h + i) mod n)) [0..<k]"

lemma length_circ [simp]: "length (circ n f h k) = k"
  by (simp add: circ_def)

lemma circ_nth: "i < k \<Longrightarrow> circ n f h k ! i = f ((h + i) mod n)"
  by (simp add: circ_def)

lemma circ_0 [simp]: "circ n f h 0 = []"
  by (simp add: circ_def)

lemma circ_slots_differ:
  fixes i k n h :: nat
  assumes "i < k" "k < n"
  shows "(h + i) mod n \<noteq> (h + k) mod n"
proof
  assume "(h + i) mod n = (h + k) mod n"
  then have "(h + k) mod n = (h + i) mod n" by simp
  then have "n dvd k - i" using assms by (subst (asm) mod_eq_dvd_iff_nat) simp_all
  with assms show False by (auto dest: dvd_imp_le)
qed

lemma circ_push: "k < n \<Longrightarrow> circ n (f((h + k) mod n := x)) h (Suc k) = circ n f h k @ [x]"
  using circ_slots_differ [of _ k n h] by (auto simp: circ_def)

lemma circ_pop:
  assumes "0 < k" "h < n"
  shows "circ n f h k = f h # circ n f ((h + 1) mod n) (k - 1)"
proof -
  obtain j where k: "k = Suc j" using assms(1) by (cases k) simp_all
  have e: "circ n f ((h + 1) mod n) j = map (\<lambda>i. f ((h + Suc i) mod n)) [0..<j]" by (simp add: circ_def mod_simps)
  show ?thesis unfolding k diff_Suc_1 e unfolding circ_def using assms(2)
    by (simp add: upt_conv_Cons map_Suc_upt [symmetric] del: upt_Suc)
qed

lemma take_drop_circ: "a + m \<le> k \<Longrightarrow> take m (drop a (circ n f h k)) = map (\<lambda>i. f ((h + a + i) mod n)) [0..<m]"
  by (rule nth_equalityI) (simp_all add: circ_nth add.assoc)

end
