(* ===== verification/OutcomeLog.thy ===== *)
theory OutcomeLog
  imports Outcome Circular
begin

text \<open>
  The outcome ring as a log.  Its records carry consecutive sequence numbers, an overflow replaces the two oldest records by a
  note of the loss, and a page shows a reader exactly the records after its cursor and how many it missed.
\<close>

definition outcomes :: "emu_outcome_ring \<Rightarrow> emuif_trace_record list" where
  "outcomes r = circ 1024 (oc_records r) (unat (oc_head r)) (unat (oc_count r))"

text \<open>\<open>N\<close> records were ever inserted, and those held are the last of them.\<close>

definition numbered :: "nat \<Rightarrow> emuif_trace_record list \<Rightarrow> bool" where
  "numbered N xs \<longleftrightarrow> length xs \<le> N \<and> N < 2 ^ 64 \<and> (\<forall>i < length xs. unat (tc_record_sequence (xs ! i)) = N - length xs + i + 1)"

definition outcome_ok :: "nat \<Rightarrow> emu_outcome_ring \<Rightarrow> bool" where
  "outcome_ok N r \<longleftrightarrow> unat (oc_head r) < 1024 \<and> unat (oc_count r) \<le> 1024 \<and> oc_next_sequence r = word_of_nat (N + 1) \<and> numbered N (outcomes r)"

lemma length_outcomes [simp]: "length (outcomes r) = unat (oc_count r)"
  by (simp add: outcomes_def)

lemma slot_index:
  fixes h i :: u32
  assumes "unat h < 1024" "unat i \<le> 1024"
  shows "unat ((h + i) mod 1024) = (unat h + unat i) mod 1024"
  using assms by (simp add: unat_mod unat_add_ok)

lemma outcomes_nth:
  fixes i :: u32
  assumes "outcome_ok N r" "unat i < unat (oc_count r)"
  shows "oc_records r (unat ((oc_head r + i) mod 1024)) = outcomes r ! unat i"
  using assms by (simp add: outcome_ok_def slot_index outcomes_def circ_nth)

subsection \<open>Inserting and dropping\<close>

lemma numbered_snoc:
  assumes "numbered N xs" "N + 1 < 2 ^ 64" "tc_record_sequence x = word_of_nat (N + 1)"
  shows "numbered (N + 1) (xs @ [x])"
proof -
  have "unat (word_of_nat (N + 1) :: u64) = N + 1"
    using assms(2) by (simp add: unat_of_nat take_bit_nat_eq_self del: of_nat_add of_nat_Suc)
  then have "unat (tc_record_sequence x) = N + 1" by (simp only: assms(3))
  then show ?thesis using assms(1,2) by (auto simp: numbered_def nth_append less_Suc_eq)
qed

lemma insert_record_ok:
  assumes ok: "outcome_ok N r" and room: "unat (oc_count r) < 1024" "N + 1 < 2 ^ 64"
  shows "outcome_ok (N + 1) (insert_record v r) \<and> outcomes (insert_record v r) = outcomes r @ [v\<lparr>tc_record_sequence := oc_next_sequence r\<rparr>] \<and>
    oc_overwritten (insert_record v r) = oc_overwritten r \<and> unat (oc_count (insert_record v r)) = unat (oc_count r) + 1"
proof -
  have h: "unat (oc_head r) < 1024" "unat (oc_count r) \<le> 1024" using ok by (simp_all add: outcome_ok_def)
  have c: "unat (oc_count r + 1) = unat (oc_count r) + 1" using room(1) by (subst unat_add_ok) simp_all
  have o: "outcomes (insert_record v r) = outcomes r @ [v\<lparr>tc_record_sequence := oc_next_sequence r\<rparr>]"
    using room(1) by (simp add: outcomes_def insert_record_def slot_index [OF h] c circ_push)
  have "numbered (N + 1) (outcomes r @ [v\<lparr>tc_record_sequence := oc_next_sequence r\<rparr>])"
    using ok room(2) by (intro numbered_snoc) (simp_all add: outcome_ok_def)
  then show ?thesis using ok h c room(1) o by (simp add: outcome_ok_def insert_record_def)
qed

lemma drop_oldest_ok:
  assumes ok: "outcome_ok N r" and some: "0 < unat (oc_count r)" and out: "drop_oldest (v, r) = (v', r')"
  shows "outcome_ok N r' \<and> outcomes r' = tl (outcomes r) \<and> unat (oc_count r') = unat (oc_count r) - 1 \<and> oc_next_sequence r' = oc_next_sequence r"
proof -
  have h: "unat (oc_head r) < 1024" "unat (oc_count r) \<le> 1024" using ok by (simp_all add: outcome_ok_def)
  have r': "oc_head r' = (oc_head r + 1) mod 1024" "oc_count r' = oc_count r - 1" "oc_records r' = oc_records r" "oc_next_sequence r' = oc_next_sequence r"
    using arg_cong [OF out [symmetric], of snd] by (simp_all add: drop_oldest_def Let_def)
  have i: "unat ((oc_head r + 1) mod 1024) = (unat (oc_head r) + 1) mod 1024" using slot_index [OF h(1), of 1] by simp
  have c: "unat (oc_count r - 1) = unat (oc_count r) - 1" using some by (subst unat_sub) (simp_all add: word_le_nat_alt)
  have o: "outcomes r' = tl (outcomes r)" unfolding outcomes_def r' i c by (simp add: circ_pop [OF some h(1)])
  have "numbered N (tl (outcomes r))" using ok some by (auto simp: outcome_ok_def numbered_def nth_tl)
  then show ?thesis using ok h o c i by (simp add: outcome_ok_def r')
qed

lemma drop_oldest_loss:
  assumes "drop_oldest (v, r) = (v', r')" "outcome_ok N r" "0 < unat (oc_count r)" "tc_count v \<noteq> - 1"
  shows "tc_kind v' = tc_kind v" "tc_epoch v' = tc_epoch v" "tc_generation v' = tc_generation v"
    "tc_count v' = tc_count v + of_bool (tc_kind (hd (outcomes r)) = EMUIF_RECORD_EVENT)"
proof -
  have "hd (outcomes r) = oc_records r (unat (oc_head r))"
    using circ_pop [OF assms(3), of "unat (oc_head r)" 1024 "oc_records r"] assms(2) by (simp add: outcomes_def outcome_ok_def)
  moreover have "- 1 - tc_count v \<noteq> 0" using assms(4) by auto
  then have "\<not> - 1 - tc_count v < 1" by (simp add: word_less_nat_alt unat_eq_zero)
  ultimately show "tc_kind v' = tc_kind v" "tc_epoch v' = tc_epoch v" "tc_generation v' = tc_generation v"
    "tc_count v' = tc_count v + of_bool (tc_kind (hd (outcomes r)) = EMUIF_RECORD_EVENT)"
    using arg_cong [OF assms(1) [symmetric], of fst] by (simp_all add: drop_oldest_def Let_def)
qed

subsection \<open>Appending\<close>

definition outcome_record :: "contract_sizes \<Rightarrow> emuif_observation \<Rightarrow> u64 \<Rightarrow> emuif_trace_record" where
  "outcome_record z ob n = (init_record z)\<lparr>tc_epoch := 1, tc_generation := ob_generation ob, tc_event := ob, tc_record_sequence := n\<rparr>"

lemma exhausted:
  fixes needed :: u64
  assumes N: "N < 2 ^ 64" and n: "n = (word_of_nat (N + 1) :: u64)" and k: "needed = 1 \<or> needed = 2"
  shows "n = 0 \<or> - 1 - n < needed - 1 \<longleftrightarrow> N + unat needed \<ge> 2 ^ 64"
proof (cases "N + 1 = 2 ^ 64")
  case True
  then have "n = 0" unfolding n by (simp only: True) (simp add: word_of_nat_eq_0_iff)
  then show ?thesis using True k by auto
next
  case False
  then have u: "unat n = N + 1" using N unfolding n by (simp add: unat_of_nat take_bit_nat_eq_self del: of_nat_add of_nat_Suc)
  then have nz: "n \<noteq> 0" by auto
  have "unat (- 1 - n) = 2 ^ 64 - 1 - (N + 1)"
  proof -
    have "unat (- 1 :: u64) = 2 ^ 64 - 1" by (simp add: unsigned_minus_1_eq_mask mask_eq_exp_minus_1)
    then show ?thesis using u by (subst unat_sub) simp_all
  qed
  moreover have "unat (needed - 1) = unat needed - 1" using k by auto
  ultimately show ?thesis using k nz N False by (auto simp: word_less_nat_alt)
qed

lemma append_ok:
  assumes ok: "outcome_ok N r" and out: "emu_outcome_append z ob r = (st, r')"
  shows "if N + (if length (outcomes r) = 1024 then 2 else 1) \<ge> 2 ^ 64 then st = EMUIF_EXHAUSTED \<and> r' = r
    else st = EMUIF_OK \<and>
      (if length (outcomes r) = 1024
       then outcome_ok (N + 2) r' \<and> (\<exists>loss. outcomes r' = drop 2 (outcomes r) @ [loss, outcome_record z ob (word_of_nat (N + 2))] \<and>
              tc_kind loss = EMUIF_RECORD_LOSS \<and> tc_record_sequence loss = word_of_nat (N + 1) \<and>
              tc_count loss = word_of_nat (length (filter (\<lambda>x. tc_kind x = EMUIF_RECORD_EVENT) (take 2 (outcomes r)))))
       else outcome_ok (N + 1) r' \<and> outcomes r' = outcomes r @ [outcome_record z ob (word_of_nat (N + 1))])"
proof -
  have N: "N < 2 ^ 64" and nx: "oc_next_sequence r = word_of_nat (N + 1)" and le: "unat (oc_count r) \<le> 1024"
    using ok by (simp_all add: outcome_ok_def numbered_def)
  have full: "oc_count r = 1024 \<longleftrightarrow> unat (oc_count r) = 1024" by (auto simp: word_unat_eq_iff)
  define needed :: u64 where "needed = (if oc_count r = 1024 then 2 else 1)"
  have k: "needed = 1 \<or> needed = 2" "unat needed = (if length (outcomes r) = 1024 then 2 else 1)" by (auto simp: needed_def full)
  note ex = exhausted [OF N nx k(1), unfolded k(2)]
  show ?thesis
  proof (cases "N + (if length (outcomes r) = 1024 then 2 else 1) \<ge> 2 ^ 64")
    case True
    then show ?thesis using out ex unfolding emu_outcome_append_def needed_def [symmetric] Let_def by simp
  next
    case False
    then have nex: "\<not> (oc_next_sequence r = 0 \<or> - 1 - oc_next_sequence r < needed - 1)" using ex by simp
    show ?thesis
    proof (cases "oc_count r = 1024")
      case f: False
      then have c: "unat (oc_count r) < 1024" using full le by simp
      have "st = EMUIF_OK" "r' = insert_record ((init_record z)\<lparr>tc_epoch := 1, tc_generation := ob_generation ob, tc_event := ob\<rparr>) r"
        using out nex f unfolding emu_outcome_append_def needed_def [symmetric] Let_def by simp_all
      then show ?thesis using insert_record_ok [OF ok c, of "(init_record z)\<lparr>tc_epoch := 1, tc_generation := ob_generation ob, tc_event := ob\<rparr>"] False c nx
        by (simp add: outcome_record_def)
    next
      case t: True
      then have c: "unat (oc_count r) = 1024" by simp
      define v0 where "v0 = loss_record z (ob_generation ob)"
      obtain v1 r1 where d1: "drop_oldest (v0, r) = (v1, r1)" by fastforce
      obtain v2 r2 where d2: "drop_oldest (v1, r1) = (v2, r2)" by fastforce
      have v0: "tc_kind v0 = EMUIF_RECORD_LOSS" "tc_count v0 = 0" by (simp_all add: v0_def loss_record_def init_record_def zero_record_def)
      note o1 = drop_oldest_ok [OF ok _ d1] and l1 = drop_oldest_loss [OF d1 ok]
      have ok1: "outcome_ok N r1" "outcomes r1 = tl (outcomes r)" "unat (oc_count r1) = 1023" "oc_next_sequence r1 = oc_next_sequence r" using o1 c by simp_all
      have c1: "tc_kind v1 = EMUIF_RECORD_LOSS" "tc_count v1 = of_bool (tc_kind (hd (outcomes r)) = EMUIF_RECORD_EVENT)" using l1 c v0 by simp_all
      note o2 = drop_oldest_ok [OF ok1(1) _ d2] and l2 = drop_oldest_loss [OF d2 ok1(1)]
      have ok2: "outcome_ok N r2" "outcomes r2 = tl (tl (outcomes r))" "unat (oc_count r2) = 1022" "oc_next_sequence r2 = oc_next_sequence r" using o2 ok1 by simp_all
      have c2: "tc_kind v2 = EMUIF_RECORD_LOSS" "tc_count v2 = of_bool (tc_kind (hd (outcomes r)) = EMUIF_RECORD_EVENT) + of_bool (tc_kind (hd (tl (outcomes r))) = EMUIF_RECORD_EVENT)"
        using l2 ok1 c1 by (simp_all add: of_bool_def split: if_splits)
      have "2 \<le> length (outcomes r)" using c by (simp only: length_outcomes)
      then obtain a b xs where xs: "outcomes r = a # b # xs" by (cases "outcomes r"; cases "tl (outcomes r)") simp_all
      have lx: "length xs = 1022" using length_outcomes [of r] c by (simp add: xs)
      have N2: "N + 2 < 2 ^ 64" using False c by simp
      note i1 = insert_record_ok [OF ok2(1), of v2]
      define r3 where "r3 = insert_record v2 r2"
      have i1: "outcome_ok (N + 1) r3" "outcomes r3 = xs @ [v2\<lparr>tc_record_sequence := word_of_nat (N + 1)\<rparr>]" "unat (oc_count r3) = 1023"
        using i1 ok2 N2 nx by (simp_all add: r3_def xs)
      note i2 = insert_record_ok [OF i1(1), of "(init_record z)\<lparr>tc_epoch := 1, tc_generation := ob_generation ob, tc_event := ob\<rparr>"]
      have "st = EMUIF_OK" "r' = insert_record ((init_record z)\<lparr>tc_epoch := 1, tc_generation := ob_generation ob, tc_event := ob\<rparr>) r3"
        using out nex t unfolding emu_outcome_append_def needed_def [symmetric] Let_def by (simp_all add: v0_def [symmetric] d1 d2 r3_def)
      moreover have "oc_next_sequence r3 = word_of_nat (N + 1 + 1)" using i1(1) by (simp only: outcome_ok_def)
      moreover have "N + 1 + 1 = N + 2" by simp
      ultimately show ?thesis using i2 i1 N2 c c2 False
        by (simp add: xs lx outcome_record_def)
    qed
  qed
qed

subsection \<open>Reading a page\<close>

definition unread :: "u64 \<Rightarrow> emu_outcome_ring \<Rightarrow> emuif_trace_record list" where
  "unread after r = filter (\<lambda>x. after < tc_record_sequence x) (outcomes r)"

lemma filter_suffix:
  "(\<And>i. i < length xs \<Longrightarrow> P (xs ! i) \<longleftrightarrow> k \<le> i) \<Longrightarrow> filter P xs = drop k xs"
proof (induction xs arbitrary: k)
  case (Cons x xs)
  have "filter P xs = drop (k - 1) xs" using Cons(2) [of "Suc _"] by (intro Cons(1)) auto
  moreover have "P x \<longleftrightarrow> k = 0" using Cons(2) [of 0] by simp
  ultimately show ?case by (cases k) simp_all
qed simp

lemma unread_drop:
  assumes "outcome_ok N r"
  shows "unread after r = drop (unat after - (N - unat (oc_count r))) (outcomes r)"
  unfolding unread_def
proof (rule filter_suffix)
  fix i assume "i < length (outcomes r)"
  then have "unat (tc_record_sequence (outcomes r ! i)) = N - unat (oc_count r) + i + 1"
    using assms by (simp add: outcome_ok_def numbered_def)
  then show "after < tc_record_sequence (outcomes r ! i) \<longleftrightarrow> unat after - (N - unat (oc_count r)) \<le> i"
    unfolding word_less_nat_alt by arith
qed

text \<open>The sequence numbers of the oldest and the newest record; zero for an empty ring.\<close>

definition oldest_newest :: "emu_outcome_ring \<Rightarrow> u64 \<times> u64" where
  "oldest_newest r = (if outcomes r = [] then (0, 0) else (tc_record_sequence (hd (outcomes r)), tc_record_sequence (last (outcomes r))))"

lemma outcomes_empty: "outcomes r = [] \<longleftrightarrow> oc_count r = 0"
  using length_outcomes [of r] by (metis length_0_conv unat_eq_zero)

lemma oldest_newest_unat:
  assumes "outcome_ok N r" "outcomes r \<noteq> []"
  shows "unat (fst (oldest_newest r)) = N - unat (oc_count r) + 1" "unat (snd (oldest_newest r)) = N"
proof -
  have "0 < unat (oc_count r)" using assms(2) by (simp add: outcomes_empty unat_gt_0)
  then show "unat (fst (oldest_newest r)) = N - unat (oc_count r) + 1" "unat (snd (oldest_newest r)) = N"
    using assms by (auto simp: oldest_newest_def hd_conv_nth last_conv_nth outcome_ok_def numbered_def)
qed

lemma page_header_current:
  assumes ok: "outcome_ok N r" and id: "c_text (rq_session_id q) = c_text session" "rq_epoch q = 1"
    and cur: "rq_after_record_sequence q \<le> snd (oldest_newest r)"
  shows "page_header r session q out =
    zero_page\<lparr>struct_size := struct_size out, api_version := 1, pg_session_id := take 33 session, pg_epoch := 1,
      pg_requested_after := rq_after_record_sequence q, pg_next_after := rq_after_record_sequence q, pg_overwritten := oc_overwritten r,
      pg_records := pg_records out, pg_capacity := pg_capacity out, pg_element_size := pg_element_size out,
      pg_oldest := fst (oldest_newest r), pg_newest := snd (oldest_newest r)\<rparr>"
proof (cases "oc_count r = 0")
  case True
  then have "oldest_newest r = (0, 0)" by (simp add: oldest_newest_def outcomes_empty)
  then show ?thesis using True id cur unfolding page_header_def Let_def by (simp add: zero_page_def)
next
  case False
  have h: "unat (oc_head r) < 1024" using ok by (simp add: outcome_ok_def)
  have c: "unat (oc_count r - 1) = unat (oc_count r) - 1" "0 < unat (oc_count r)" using False by (simp_all add: unat_minus_one unat_gt_0)
  have "ring_record r (oc_count r - 1) = last (outcomes r)"
    using outcomes_nth [OF ok, of "oc_count r - 1"] c False by (simp add: last_conv_nth outcomes_empty)
  moreover have "oc_records r (unat (oc_head r)) = hd (outcomes r)"
    by (simp add: outcomes_def circ_pop [OF c(2) h])
  ultimately have "oldest_newest r = (tc_record_sequence (oc_records r (unat (oc_head r))), tc_record_sequence (ring_record r (oc_count r - 1)))"
    using False by (simp add: oldest_newest_def outcomes_empty)
  then show ?thesis using False id cur unfolding page_header_def Let_def by (simp add: not_less)
qed

definition page_offset :: "u64 \<Rightarrow> emu_outcome_ring \<Rightarrow> u32" where
  "page_offset after r =
     (let oldest = fst (oldest_newest r)
      in if \<not> (oldest \<noteq> 0 \<and> after < oldest - 1) \<and> oc_count r \<noteq> 0 \<and> after \<ge> oldest then ucast (after - oldest + 1) else 0)"

lemma page_offset_exact:
  assumes ok: "outcome_ok N r" and cur: "after \<le> snd (oldest_newest r)"
  shows "unat (page_offset after r) = unat after - (N - unat (oc_count r))" (is ?offset)
    and "page_offset after r \<le> oc_count r" (is ?le)
    and "fst (oldest_newest r) \<noteq> 0 \<and> after < fst (oldest_newest r) - 1 \<longleftrightarrow> unat after + 1 < unat (fst (oldest_newest r))" (is ?expired)
proof -
  show ?expired
  proof (cases "fst (oldest_newest r) = 0")
    case False
    then show ?thesis by (auto simp: word_less_nat_alt unat_minus_one)
  qed simp
  then have ex: "fst (oldest_newest r) \<noteq> 0 \<and> after < fst (oldest_newest r) - 1 \<longleftrightarrow> unat after + 1 < unat (fst (oldest_newest r))" .
  show off: ?offset
  proof (cases "outcomes r = []")
    case True
    then show ?thesis using cur by (simp add: page_offset_def oldest_newest_def outcomes_empty)
  next
    case False
    note o = oldest_newest_unat [OF ok False]
    have c: "unat (oc_count r) \<le> N" "unat (oc_count r) \<le> 1024" using ok by (simp_all add: outcome_ok_def numbered_def)
    have a: "unat after \<le> N" using cur o by (simp add: word_le_nat_alt)
    show ?thesis
    proof (cases "fst (oldest_newest r) \<le> after")
      case True
      then have u: "unat (after - fst (oldest_newest r)) = unat after - (N - unat (oc_count r) + 1)" using o by (simp add: unat_sub)
      have le: "N - unat (oc_count r) + 1 \<le> unat after" using True o by (simp add: word_le_nat_alt)
      have "unat (after - fst (oldest_newest r) + 1) = unat after - (N - unat (oc_count r))"
        using a c le u by (subst unat_add_ok) simp_all
      moreover have "page_offset after r = ucast (after - fst (oldest_newest r) + 1)"
        unfolding page_offset_def Let_def ex using True o le False by (simp add: outcomes_empty)
      moreover have "unat after - (N - unat (oc_count r)) < 2 ^ 32" using a c by simp
      ultimately show ?thesis by (simp add: unsigned_ucast_eq take_bit_nat_eq_self)
    next
      case nle: False
      then show ?thesis unfolding page_offset_def Let_def using o by (simp add: word_le_nat_alt)
    qed
  qed
  have "unat after \<le> N \<or> outcomes r = []" using cur oldest_newest_unat(2) [OF ok] by (auto simp: word_le_nat_alt)
  moreover have "unat (oc_count r) \<le> N" using ok by (simp add: outcome_ok_def numbered_def)
  moreover have "page_offset after r = 0" if "outcomes r = []" using that by (simp add: page_offset_def outcomes_empty)
  ultimately show ?le unfolding word_le_nat_alt by (cases "outcomes r = []") (auto simp: off)
qed

lemma fill_slots:
  assumes ok: "outcome_ok N r" and m: "unat a + m \<le> unat (oc_count r)" "m \<le> length slots"
  shows "map (\<lambda>i. fill_slot (ring_record r (a + word_of_nat i)) (slots ! i)) [0..<m] = map2 fill_slot (take m (drop (unat a) (outcomes r))) slots"
proof (rule nth_equalityI)
  fix i assume "i < length (map (\<lambda>i. fill_slot (ring_record r (a + word_of_nat i)) (slots ! i)) [0..<m])"
  then have i: "i < m" by simp
  have c: "unat (oc_count r) \<le> 1024" using ok by (simp add: outcome_ok_def)
  have w: "unat (word_of_nat i :: u32) = i" using i m c by (simp add: unat_of_nat take_bit_nat_eq_self)
  have "unat (a + word_of_nat i) = unat a + i" using i m c by (subst unat_add_ok) (simp_all add: w)
  then have "ring_record r (a + word_of_nat i) = outcomes r ! (unat a + i)" using outcomes_nth [OF ok, of "a + word_of_nat i"] i m by simp
  then show "map (\<lambda>i. fill_slot (ring_record r (a + word_of_nat i)) (slots ! i)) [0..<m] ! i =
      map2 fill_slot (take m (drop (unat a) (outcomes r))) slots ! i" using i m by simp
qed (use m in simp)

lemma page_fill_exact:
  assumes ok: "outcome_ok N r" and slots: "pg_records p = Some slots" "unat required \<le> length slots"
    and status: "slots_status z (pg_element_size p) (take (unat required) slots) = EMUIF_OK" and le: "unat a + unat required \<le> unat (oc_count r)"
  shows "\<exists>p'. page_fill z r a available required out p = (EMUIF_OK, p') \<and>
    pg_records p' = Some (map2 fill_slot (take (unat required) (drop (unat a) (outcomes r))) slots @ drop (unat required) slots) \<and>
    pg_written p' = required \<and> pg_remaining p' = available - required \<and> pg_lost_before_page p' = pg_lost_before_page p \<and>
    (if required = 0 then pg_next_after p' = pg_next_after p else unat (pg_next_after p') = N - unat (oc_count r) + unat a + unat required)"
proof (cases "required = 0")
  case True
  then show ?thesis using slots status by (simp add: page_fill_def)
next
  case False
  have c: "unat (oc_count r) \<le> 1024" using ok by (simp add: outcome_ok_def)
  have pos: "unat (required - 1) = unat required - 1" "0 < unat required" using False by (simp_all add: unat_minus_one unat_gt_0)
  moreover have "a + required - 1 = a + (required - 1)" by simp
  ultimately have i: "unat (a + required - 1) = unat a + (unat required - 1)" using le c by (simp only:) (subst unat_add_ok, simp_all)
  have "ring_record r (a + required - 1) = outcomes r ! (unat a + (unat required - 1))"
    using outcomes_nth [OF ok, of "a + required - 1"] le pos(2) by (simp add: i)
  moreover have "unat (tc_record_sequence (outcomes r ! (unat a + (unat required - 1)))) = N - unat (oc_count r) + unat a + unat required"
    using ok le pos(2) by (auto simp: outcome_ok_def numbered_def)
  ultimately show ?thesis using False slots status fill_slots [OF ok le slots(2)] by (simp add: page_fill_def Let_def)
qed

lemma page_body_exact:
  assumes ok: "outcome_ok N r" and cur: "after \<le> snd (oldest_newest r)" and q: "rq_after_record_sequence q = after"
    and p: "pg_oldest p = fst (oldest_newest r)" "pg_records p = Some slots" "pg_next_after p = after" "pg_lost_before_page p = 0"
    and k: "k = min (unat (rq_max_records q)) (length (unread after r))" "k \<le> unat (pg_capacity out)" "k \<le> length slots"
    and status: "slots_status z (pg_element_size p) (take k slots) = EMUIF_OK"
  shows "\<exists>p'. page_body z r q out p = (EMUIF_OK, p') \<and> pg_records p' = Some (map2 fill_slot (take k (unread after r)) slots @ drop k slots) \<and>
    unat (pg_written p') = k \<and> unat (pg_remaining p') = length (unread after r) - k \<and>
    unat (pg_lost_before_page p') = unat (fst (oldest_newest r)) - 1 - unat after \<and> unread (pg_next_after p') r = drop k (unread after r)"
proof -
  define a where "a = page_offset after r"
  define available where "available = oc_count r - a"
  define required where "required = (if available < rq_max_records q then available else rq_max_records q)"
  define ex where "ex \<longleftrightarrow> fst (oldest_newest r) \<noteq> 0 \<and> after < fst (oldest_newest r) - 1"
  note off = page_offset_exact [OF ok cur, folded a_def ex_def]
  have u: "unread after r = drop (unat a) (outcomes r)" by (simp add: unread_drop [OF ok] off)
  have av: "unat available = length (unread after r)" using off(2) by (simp add: available_def u unat_sub)
  have kr: "unat required = k" by (simp add: required_def k(1) av [symmetric] word_less_nat_alt min_def)
  have cap: "\<not> pg_capacity out < required" using k(2) by (simp add: word_less_nat_alt kr)
  have ak: "unat a + unat required \<le> unat (oc_count r)" unfolding kr k(1) u using off(2) by (auto simp: word_le_nat_alt)
  have a_eq: "(if \<not> ex \<and> oc_count r \<noteq> 0 \<and> fst (oldest_newest r) \<le> after then ucast (after - fst (oldest_newest r) + 1) else 0) = a"
    by (simp add: a_def page_offset_def ex_def)
  define lost where "lost = (if ex then fst (oldest_newest r) - after - 1 else 0)"
  define p1 where "p1 = (if ex then p\<lparr>pg_cursor_state := EMUIF_CURSOR_EXPIRED, pg_lost_before_page := fst (oldest_newest r) - after - 1\<rparr> else p)\<lparr>pg_required := required\<rparr>"
  have body: "page_body z r q out p = page_fill z r a available required out p1"
    unfolding page_body_def q p(1) ex_def [symmetric] Let_def a_eq available_def [symmetric] required_def [symmetric] p1_def using cap by simp
  have p1: "pg_records p1 = Some slots" "pg_next_after p1 = after" "pg_element_size p1 = pg_element_size p" "pg_lost_before_page p1 = lost"
    using p by (simp_all add: p1_def lost_def)
  have l: "unat lost = unat (fst (oldest_newest r)) - 1 - unat after"
  proof (cases ex)
    case True
    then have "unat after + 1 < unat (fst (oldest_newest r))" by (simp only: off(3))
    then have d: "unat (fst (oldest_newest r) - after) = unat (fst (oldest_newest r)) - unat after" "unat after < unat (fst (oldest_newest r))"
      by (simp_all add: unat_sub word_le_nat_alt)
    then have "fst (oldest_newest r) - after \<noteq> 0" by (metis less_irrefl eq_iff_diff_eq_0)
    then have "unat (fst (oldest_newest r) - after - 1) = unat (fst (oldest_newest r)) - unat after - 1" using d(1) by (simp add: unat_minus_one)
    then show ?thesis using True by (simp add: lost_def)
  qed (use off(3) in \<open>simp add: lost_def\<close>)
  obtain p' where p': "page_fill z r a available required out p1 = (EMUIF_OK, p')"
      "pg_records p' = Some (map2 fill_slot (take k (unread after r)) slots @ drop k slots)" "pg_written p' = required" "pg_remaining p' = available - required" "pg_lost_before_page p' = lost"
    and nx: "if required = 0 then pg_next_after p' = after else unat (pg_next_after p') = N - unat (oc_count r) + unat a + k"
    using page_fill_exact [OF ok p1(1), of required z a available out, unfolded kr p1, OF k(3) status ak [unfolded kr]] unfolding u by blast
  have "unread (pg_next_after p') r = drop k (unread after r)"
  proof (cases "required = 0")
    case True
    then show ?thesis using nx kr by simp
  next
    case False
    then have "unat (pg_next_after p') - (N - unat (oc_count r)) = unat a + k" using nx by simp
    then show ?thesis by (simp add: unread_drop [OF ok, of "pg_next_after p'"] u add.commute)
  qed
  moreover have "unat (available - required) = length (unread after r) - k" using av kr k(1) by (simp add: unat_sub word_le_nat_alt)
  ultimately show ?thesis using p' l kr unfolding body by simp
qed

subsection \<open>Rings in use\<close>

inductive outcome_reach :: "contract_sizes \<Rightarrow> emu_outcome_ring \<Rightarrow> bool" for z where
  reach_init: "outcome_reach z emu_outcome_init"
| reach_append: "outcome_reach z r \<Longrightarrow> outcome_reach z (snd (emu_outcome_append z ob r))"

lemma outcome_ok_init: "outcome_ok 0 emu_outcome_init"
  by (simp add: outcome_ok_def numbered_def emu_outcome_init_def)

lemma outcome_reach_ok: "outcome_reach z r \<Longrightarrow> \<exists>N. outcome_ok N r"
proof (induction rule: outcome_reach.induct)
  case reach_init
  then show ?case using outcome_ok_init by blast
next
  case (reach_append r ob)
  then obtain N where ok: "outcome_ok N r" by blast
  obtain st r' where out: "emu_outcome_append z ob r = (st, r')" by fastforce
  show ?case using append_ok [OF ok out] ok out by (auto split: if_splits)
qed

lemma sequence_end:
  assumes "N < 2 ^ 64"
  shows "2 ^ 64 \<le> N + (if full then 2 else 1) \<longleftrightarrow> (word_of_nat (N + 1) :: u64) = 0 \<or> (word_of_nat (N + 1) :: u64) = - 1 \<and> full"
proof (cases "N + 1 = 2 ^ 64")
  case True
  then have "(word_of_nat (N + 1) :: u64) = 0" by (simp only: True) (simp add: word_of_nat_eq_0_iff)
  then show ?thesis using True by simp
next
  case False
  then have u: "unat (word_of_nat (N + 1) :: u64) = N + 1" using assms by (simp add: unat_of_nat take_bit_nat_eq_self del: of_nat_add of_nat_Suc)
  have "unat (- 1 :: u64) = 2 ^ 64 - 1" by (simp add: unsigned_minus_1_eq_mask mask_eq_exp_minus_1)
  then have "(word_of_nat (N + 1) :: u64) = - 1 \<longleftrightarrow> N + 1 = 2 ^ 64 - 1" "(word_of_nat (N + 1) :: u64) \<noteq> 0"
    unfolding word_unat_eq_iff u by simp_all
  then show ?thesis using False assms by auto
qed

text \<open>
  C31. Appending to an outcome ring in use: unless the sequence numbers are exhausted, the observation becomes the newest record under the
  next sequence number; a full ring gives up its two oldest records for a loss record that counts the events among them.  On exhaustion
  the ring is unchanged.
\<close>

theorem outcome_append_exact:
  assumes "outcome_reach z r" "emu_outcome_append z ob r = (st, r')"
  shows "if oc_next_sequence r = 0 \<or> oc_next_sequence r = - 1 \<and> length (outcomes r) = 1024 then st = EMUIF_EXHAUSTED \<and> r' = r
    else st = EMUIF_OK \<and>
     (if length (outcomes r) = 1024
      then \<exists>loss. outcomes r' = drop 2 (outcomes r) @ [loss, outcome_record z ob (oc_next_sequence r + 1)] \<and>
             tc_kind loss = EMUIF_RECORD_LOSS \<and> tc_record_sequence loss = oc_next_sequence r \<and>
             tc_count loss = word_of_nat (length (filter (\<lambda>x. tc_kind x = EMUIF_RECORD_EVENT) (take 2 (outcomes r))))
      else outcomes r' = outcomes r @ [outcome_record z ob (oc_next_sequence r)])"
proof -
  obtain N where ok: "outcome_ok N r" using outcome_reach_ok [OF assms(1)] by blast
  then have n: "word_of_nat (N + 1) = oc_next_sequence r" "word_of_nat (N + 2) = oc_next_sequence r + 1" by (simp_all add: outcome_ok_def)
  have "N < 2 ^ 64" using ok by (simp add: outcome_ok_def numbered_def)
  note e = sequence_end [OF this, unfolded n]
  show ?thesis using append_ok [OF ok assms(2)] unfolding n e by (cases "length (outcomes r) = 1024") simp_all
qed

theorem outcome_append_exact_witness:
  "outcomes (snd (emu_outcome_append (contract_sizes.make 24 320 480 80 200) zero_observation emu_outcome_init)) =
     [outcome_record (contract_sizes.make 24 320 480 80 200) zero_observation 1]"
proof -
  have "outcomes emu_outcome_init = []" "oc_next_sequence emu_outcome_init = 1" by (simp_all add: outcomes_empty emu_outcome_init_def)
  then show ?thesis using outcome_append_exact [OF reach_init prod.collapse [symmetric], of "contract_sizes.make 24 320 480 80 200" zero_observation] by simp
qed

text \<open>
  C30. Reading an outcome page: for the right session and epoch and a cursor that is not ahead, a reader with enough slots receives, in
  order, the unread records up to its maximum; the page tells exactly how many records remain and how many were lost to it before, and
  the cursor it returns continues without a gap or a repetition.
\<close>

theorem outcome_page_exact:
  assumes "outcome_reach z r"
    and "sized q (size_request z) = EMUIF_OK" "sized out (size_page z) = EMUIF_OK" "page_request_valid z q out"
    and "c_text (rq_session_id q) = c_text session" "rq_epoch q = 1" "rq_after_record_sequence q = after" "after \<le> snd (oldest_newest r)"
    and "k = min (unat (rq_max_records q)) (length (unread after r))" "k \<le> unat (pg_capacity out)"
    and "pg_records out = Some slots" "k \<le> length slots" "slots_status z (pg_element_size out) (take k slots) = EMUIF_OK"
  shows "\<exists>p. emu_outcome_page z r session q out = (EMUIF_OK, p) \<and>
    pg_records p = Some (map2 fill_slot (take k (unread after r)) slots @ drop k slots) \<and>
    unat (pg_written p) = k \<and> unat (pg_remaining p) = length (unread after r) - k \<and>
    unat (pg_lost_before_page p) = unat (fst (oldest_newest r)) - 1 - unat after \<and>
    unread (pg_next_after p) r = drop k (unread after r)"
proof -
  obtain N where ok: "outcome_ok N r" using outcome_reach_ok [OF assms(1)] by blast
  let ?p = "page_header r session q out"
  note h = page_header_current [OF ok assms(5,6), unfolded assms(7), OF assms(8), of out]
  have p: "pg_cursor_state ?p = 0" "pg_oldest ?p = fst (oldest_newest r)" "pg_records ?p = Some slots" "pg_next_after ?p = after" "pg_lost_before_page ?p = 0"
    "pg_element_size ?p = pg_element_size out"
    unfolding h by (simp_all add: assms(11) zero_page_def)
  have "emu_outcome_page z r session q out = page_body z r q out ?p" using assms(2-4) p(1) by (simp add: emu_outcome_page_def)
  then show ?thesis using page_body_exact [OF ok assms(8,7) p(2-5) assms(9,10,12)] assms(13) by (simp add: p(6))
qed

definition example_ring :: "contract_sizes \<Rightarrow> emu_outcome_ring" where
  "example_ring z = snd (emu_outcome_append z zero_observation emu_outcome_init)"

definition example_slot :: "contract_sizes \<Rightarrow> emuif_trace_record" where
  "example_slot z = (init_record z)\<lparr>tc_event := (init_observation z)\<lparr>ob_old_value := init_value z, ob_new_value := init_value z\<rparr>\<rparr>"

definition example_request :: "contract_sizes \<Rightarrow> emuif_trace_page_request" where
  "example_request z = \<lparr>struct_size = size_request z, api_version = 1, flags = 0, rq_session_id = replicate 32 CHR ''a'' @ [CHR 0x00], rq_reserved = replicate 7 0,
     rq_destination_id = 0, rq_max_records = 16, rq_epoch = 1, rq_after_record_sequence = 0\<rparr>"

definition example_page :: "contract_sizes \<Rightarrow> emuif_trace_page" where
  "example_page z = zero_page\<lparr>struct_size := size_page z, api_version := 1, pg_records := Some [example_slot z], pg_element_size := size_record z, pg_capacity := 1\<rparr>"

lemma example_outcomes: "outcomes (example_ring z) = [outcome_record z zero_observation 1]"
  using append_ok [OF outcome_ok_init prod.collapse [symmetric], of z zero_observation] unfolding example_ring_def
  by (simp add: outcomes_empty emu_outcome_init_def split: if_splits)

theorem outcome_page_exact_witness:
  "\<exists>p. emu_outcome_page (contract_sizes.make 24 320 480 80 200) (example_ring (contract_sizes.make 24 320 480 80 200)) (replicate 32 CHR ''a'' @ [CHR 0x00])
     (example_request (contract_sizes.make 24 320 480 80 200)) (example_page (contract_sizes.make 24 320 480 80 200)) = (EMUIF_OK, p) \<and>
     unat (pg_written p) = 1 \<and> unat (pg_remaining p) = 0 \<and> unat (pg_lost_before_page p) = 0"
proof -
  let ?z = "contract_sizes.make 24 320 480 80 200"
  have s: "tc_record_sequence (outcome_record ?z zero_observation 1) = 1" by (simp add: outcome_record_def)
  have u: "unread 0 (example_ring ?z) = [outcome_record ?z zero_observation 1]" by (simp add: unread_def example_outcomes s)
  have o: "oldest_newest (example_ring ?z) = (1, 1)" by (simp add: oldest_newest_def example_outcomes s)
  have "outcome_reach ?z (example_ring ?z)" unfolding example_ring_def by (intro outcome_reach.intros)
  moreover have "sized (example_request ?z) (size_request ?z) = EMUIF_OK" by (simp add: sized_def example_request_def contract_sizes.defs)
  moreover have "sized (example_page ?z) (size_page ?z) = EMUIF_OK" by (simp add: sized_def example_page_def zero_page_def contract_sizes.defs)
  moreover have "page_request_valid ?z (example_request ?z) (example_page ?z)" by code_simp
  moreover have "c_text (rq_session_id (example_request ?z)) = c_text (replicate 32 CHR ''a'' @ [CHR 0x00])" by (simp add: example_request_def)
  moreover have "rq_epoch (example_request ?z) = 1" "rq_after_record_sequence (example_request ?z) = 0" "unat (rq_max_records (example_request ?z)) = 16" by (simp_all add: example_request_def)
  moreover have "pg_records (example_page ?z) = Some [example_slot ?z]" "unat (pg_capacity (example_page ?z)) = 1" by (simp_all add: example_page_def)
  moreover have "slots_status ?z (pg_element_size (example_page ?z)) (take 1 [example_slot ?z]) = EMUIF_OK" by code_simp
  ultimately have "\<exists>p. emu_outcome_page ?z (example_ring ?z) (replicate 32 CHR ''a'' @ [CHR 0x00]) (example_request ?z) (example_page ?z) = (EMUIF_OK, p) \<and>
      pg_records p = Some (map2 fill_slot (take 1 (unread 0 (example_ring ?z))) [example_slot ?z] @ drop 1 [example_slot ?z]) \<and>
      unat (pg_written p) = 1 \<and> unat (pg_remaining p) = length (unread 0 (example_ring ?z)) - 1 \<and>
      unat (pg_lost_before_page p) = unat (fst (oldest_newest (example_ring ?z))) - 1 - unat (0 :: u64) \<and>
      unread (pg_next_after p) (example_ring ?z) = drop 1 (unread 0 (example_ring ?z))"
    by (intro outcome_page_exact) (simp_all add: u o)
  then show ?thesis by (auto simp: u o)
qed

end
