(* ===== verification/JsonWriter.thy ===== *)
theory JsonWriter
  imports JsonDocument
begin

text \<open>
  Writing JSON through the bounded output buffer: what a sequence of output calls prints as a whole, and the texts of objects and
  arrays put together from their members.  A printer adds its whole text or marks the buffer as failed, and never writes past
  the buffer's limit.
\<close>

subsection \<open>Sequences of output calls\<close>

definition outputs :: "(json_output \<Rightarrow> json_output) list \<Rightarrow> json_output \<Rightarrow> json_output" where
  "outputs fs out = fold (\<lambda>f. f) fs out"

definition prints :: "string \<Rightarrow> (json_output \<Rightarrow> json_output) \<Rightarrow> bool" where
  "prints s f \<longleftrightarrow> (\<forall>out. length (out_data out) \<le> 65536 \<longrightarrow> length (out_data (f out)) \<le> 65536 \<and>
     (if \<not> out_failed out \<and> length (out_data out) + length s \<le> 65536
      then f out = out\<lparr>out_data := out_data out @ s\<rparr> else out_failed (f out)))"

lemma prints_comp:
  assumes f: "prints s f" and g: "prints t g"
  shows "prints (s @ t) (\<lambda>out. g (f out))"
  unfolding prints_def
proof (intro allI impI)
  fix out :: json_output assume l: "length (out_data out) \<le> 65536"
  note f' = f [unfolded prints_def, rule_format, OF l]
  note g' = g [unfolded prints_def, rule_format, of "f out"]
  have l': "length (out_data (f out)) \<le> 65536" using f' by simp
  show "length (out_data (g (f out))) \<le> 65536 \<and>
     (if \<not> out_failed out \<and> length (out_data out) + length (s @ t) \<le> 65536
      then g (f out) = out\<lparr>out_data := out_data out @ s @ t\<rparr> else out_failed (g (f out)))"
  proof (cases "\<not> out_failed out \<and> length (out_data out) + length s \<le> 65536")
    case True
    then have "f out = out\<lparr>out_data := out_data out @ s\<rparr>" using f' by simp
    then show ?thesis using g' l' True by (simp add: add.assoc split: if_splits)
  next
    case False
    then have "out_failed (f out)" using f' by (simp split: if_splits)
    then show ?thesis using g' l' False by auto
  qed
qed

lemma prints_id: "prints [] (\<lambda>out. out)"
  by (simp add: prints_def)

lemma prints_outputs: "list_all2 prints ss fs \<Longrightarrow> concat ss = s \<Longrightarrow> prints s (outputs fs)"
proof (induction ss fs arbitrary: s rule: list_all2_induct)
  case Nil
  then show ?case using prints_id by (simp add: outputs_def [abs_def])
next
  case (Cons t ss f fs)
  have "prints (t @ concat ss) (\<lambda>out. outputs fs (f out))" by (intro prints_comp Cons) simp
  then show ?case using Cons(4) by (simp add: outputs_def [abs_def])
qed

lemma prints_raw: "prints s (output_raw s)"
  by (auto simp: prints_def output_raw_def)

lemma prints_format: "prints s (output_format s)"
  by (auto simp: prints_def output_format_def)

definition quoted :: "string \<Rightarrow> string" where
  "quoted s = CHR 0x22 # escaped (takeWhile (\<lambda>ch. ch \<noteq> CHR 0x00) s) @ [CHR 0x22]"

lemma output_raw_failed: "out_failed out \<Longrightarrow> output_raw s out = out"
  by (simp add: output_raw_def)

lemma prints_chars: "prints (escaped (takeWhile (\<lambda>ch. ch \<noteq> CHR 0x00) s)) (output_chars s)"
proof (induction s)
  case Nil
  have "output_chars [] = (\<lambda>out. out)" by (rule ext) simp
  then show ?case using prints_id by simp
next
  case (Cons v s)
  show ?case
  proof (cases "v = CHR 0x00")
    case True
    then have "output_chars (v # s) = (\<lambda>out. out)" by (intro ext) simp
    then show ?thesis using prints_id True by simp
  next
    case False
    have "output_chars s out = out" if "out_failed out" for out using that by (cases s) simp_all
    then have "output_chars (v # s) = (\<lambda>out. output_chars s (output_raw (escape_byte v) out))"
      using False by (intro ext) (simp add: output_raw_failed)
    then show ?thesis using prints_comp [OF prints_raw Cons, of "escape_byte v"] False by simp
  qed
qed

lemma prints_string: "prints (quoted s) (output_string s)"
proof -
  have "prints ([CHR 0x22] @ escaped (takeWhile (\<lambda>ch. ch \<noteq> CHR 0x00) s) @ [CHR 0x22]) (\<lambda>out. output_raw [CHR 0x22] (output_chars s (output_raw [CHR 0x22] out)))"
    unfolding append_assoc [symmetric] by (intro prints_comp prints_raw prints_chars)
  then show ?thesis by (simp add: quoted_def output_string_def [abs_def])
qed

subsection \<open>Separated items\<close>

fun joined :: "string list \<Rightarrow> string" where
  "joined [] = []"
| "joined [x] = x"
| "joined (x # y # xs) = x @ '','' @ joined (y # xs)"

lemma joined_Cons: "joined (x # xs) = x @ concat (map (\<lambda>y. '','' @ y) xs)"
  by (induction xs arbitrary: x) simp_all

lemma joined_snoc: "joined (xs @ [x]) = joined xs @ (if xs = [] then [] else '','') @ x"
  by (cases xs) (simp_all add: joined_Cons)

lemma prints_items:
  assumes "\<And>i. i < n \<Longrightarrow> prints ((if i = 0 then [] else '','') @ t i) (f i)"
  shows "prints (joined (map t [0..<n])) (fold f [0..<n])"
  using assms
proof (induction n)
  case 0
  have "fold f [0..<0] = (\<lambda>out. out)" by (rule ext) simp
  then show ?case using prints_id by simp
next
  case (Suc n)
  have "prints (joined (map t [0..<n])) (fold f [0..<n])" using Suc by simp
  note prints_comp [OF this Suc(2), of n]
  moreover have "fold f [0..<Suc n] = (\<lambda>out. f n (fold f [0..<n] out))" by (rule ext) simp
  ultimately show ?case by (simp add: joined_snoc)
qed

subsection \<open>Texts of values\<close>

definition array_text :: "string list \<Rightarrow> string" where
  "array_text vs = ''['' @ joined vs @ '']''"

definition object_text :: "(string \<times> string) list \<Rightarrow> string" where
  "object_text kvs = ''{'' @ joined (map (\<lambda>(k, v). CHR 0x22 # k @ CHR 0x22 # CHR '':'' # v) kvs) @ ''}''"

lemma joined_list_text:
  assumes "list_all I xs" "xs \<noteq> []"
  shows "list_text I (joined xs)"
  using assms
proof (induction xs rule: joined.induct)
  case (2 x)
  then show ?case using list_text.last [of I x "[]"] by (simp add: blanks_def)
next
  case (3 x y xs)
  then show ?case using list_text.more [of I x "[]" "[]" "joined (y # xs)"] by (simp add: blanks_def)
qed simp

lemma array_value_text: "list_all (value_text d) vs \<Longrightarrow> value_text (Suc d) (array_text vs)"
proof -
  assume "list_all (value_text d) vs"
  then have "joined vs = [] \<or> list_text (value_text d) (joined vs)" using joined_list_text by (cases vs) auto
  then have "bracketed CHR ''['' CHR '']'' (value_text d) (array_text vs)"
    unfolding bracketed_def array_text_def by (intro exI [of _ "[]"] exI [of _ "joined vs"]) (simp add: blanks_def)
  then show ?thesis by simp
qed

definition plain_key :: "string \<Rightarrow> bool" where
  "plain_key k \<longleftrightarrow> list_all (\<lambda>ch. (0x20 :: nat) \<le> of_char ch \<and> ch \<noteq> CHR 0x22 \<and> ch \<noteq> CHR 0x5C) k"

lemma plain_chars [simp]: "plain_key []" "plain_key (ch # s) \<longleftrightarrow> (0x20 :: nat) \<le> of_char ch \<and> ch \<noteq> CHR 0x22 \<and> ch \<noteq> CHR 0x5C \<and> plain_key s"
  by (auto simp: plain_key_def)

lemma plain_string_text: "plain_key k \<Longrightarrow> string_text (CHR 0x22 # k @ [CHR 0x22])"
proof -
  assume "plain_key k"
  then have "string_chars k" by (induction k) (auto simp: plain_key_def intro: string_chars.intros)
  then show ?thesis by (auto simp: string_text_def)
qed

lemma object_value_text:
  assumes "list_all (\<lambda>(k, v). plain_key k \<and> value_text d v) kvs"
  shows "value_text (Suc d) (object_text kvs)"
proof -
  let ?m = "map (\<lambda>(k, v). CHR 0x22 # k @ CHR 0x22 # CHR '':'' # v) kvs"
  have "list_all (member_text (value_text d)) ?m"
    unfolding list_all_length
  proof (intro allI impI)
    fix i assume i: "i < length ?m"
    obtain k v where kv: "kvs ! i = (k, v)" by fastforce
    then have "plain_key k" "value_text d v" using assms i unfolding list_all_length by auto
    then show "member_text (value_text d) (?m ! i)" using i kv plain_string_text [of k] unfolding member_text_def
      by (intro exI [of _ "CHR 0x22 # k @ [CHR 0x22]"] exI [of _ "[]"] exI [of _ v]) (simp add: blanks_def)
  qed
  then have "joined ?m = [] \<or> list_text (member_text (value_text d)) (joined ?m)" using joined_list_text by (cases kvs) auto
  then have "bracketed CHR ''{'' CHR ''}'' (member_text (value_text d)) (object_text kvs)"
    unfolding bracketed_def object_text_def by (intro exI [of _ "[]"] exI [of _ "joined ?m"]) (simp add: blanks_def)
  then show ?thesis by simp
qed

lemma decimal_value_text [simp]: "value_text (Suc d) (dec_digits n)"
proof -
  have "dec_digits n = ''0'' \<or> digits (dec_digits n) \<and> hd (dec_digits n) \<noteq> CHR ''0''"
    using dec_digits_digits [of n] dec_digits_lead [of n] by (cases n) (auto simp: digits_def dec_digits.simps dec_digit_def)
  then have "number_text (dec_digits n)" unfolding number_text_def by (intro exI [of _ "[]"] exI [of _ "dec_digits n"]) simp
  then show ?thesis by (simp add: primitive_text_def)
qed

lemma quoted_value_text [simp]: "value_text (Suc d) (quoted s)"
  using escaped_text [of "takeWhile (\<lambda>ch. ch \<noteq> CHR 0x00) s"] by (auto simp: quoted_def string_text_def)

lemma plain_value_text: "plain_key k \<Longrightarrow> value_text (Suc d) (CHR 0x22 # k @ [CHR 0x22])"
  using plain_string_text [of k] by simp

lemma truth_value_text [simp]: "value_text (Suc d) ''true''" "value_text (Suc d) ''false''"
  by (simp_all add: primitive_text_def)

lemma plain_decimal [simp]: "plain_key (dec_digits n)"
proof -
  have "(0x20 :: nat) \<le> of_char ch \<and> ch \<noteq> CHR 0x22 \<and> ch \<noteq> CHR 0x5C" if "is_digit ch" for ch
    using that by (auto simp: is_digit_def)
  then show ?thesis using dec_digits_digits [of n] unfolding plain_key_def by (auto simp: list_all_iff)
qed

end
