(* ===== verification/OutcomeJson.thy ===== *)
theory OutcomeJson
  imports OutcomeLog JsonWriter
begin

text \<open>
  Outcomes as JSON (\<^verbatim>\<open>emu_outcome_internal.c\<close>): observations, trace records and pages.  A page prints completely as one JSON value
  or marks the buffer as failed.
\<close>

subsection \<open>Printing\<close>

definition status_names :: "string list" where
  "status_names = [''OK'', ''INVALID'', ''VERSION'', ''STATE'', ''RANGE'', ''CAPACITY'', ''UNSUPPORTED'', ''BUSY'', ''STALE'', ''DENIED'',
     ''FAULT'', ''EXHAUSTED'', ''IO'', ''HASH'', ''NOT_FOUND'']"

definition status_name :: "u32 \<Rightarrow> string" where
  "status_name s = (if s \<le> EMUIF_NOT_FOUND then status_names ! unat s else ''FAULT'')"

definition truth :: "u32 \<Rightarrow> string" where
  "truth b = (if b \<noteq> 0 then ''true'' else ''false'')"

definition u64_quoted :: "u64 \<Rightarrow> string" where
  "u64_quoted n = CHR 0x22 # dec_digits (unat n) @ [CHR 0x22]"

abbreviation output_u64 :: "u64 \<Rightarrow> json_output \<Rightarrow> json_output" where
  "output_u64 n \<equiv> output_format (u64_quoted n)"

definition value_json :: "emuif_observed_value \<Rightarrow> json_output \<Rightarrow> json_output" where
  "value_json v = output_format
     (''{\"value\":'' @ u64_quoted (ov_value v) @ '',\"width\":'' @ dec_digits (unat (ov_width v)) @
      '',\"known\":'' @ truth (ov_known v) @ '',\"isSigned\":'' @ truth (ov_is_signed v) @ ''}'')"

abbreviation comma :: "nat \<Rightarrow> string" where
  "comma i \<equiv> (if i = 0 then [] else '','')"

definition bytes_json :: "emuif_observation \<Rightarrow> json_output \<Rightarrow> json_output" where
  "bytes_json v = fold (\<lambda>i. output_format (comma i @ dec_digits (unat (ob_bytes v ! i)))) [0..<min (unat (ob_byte_count v)) 3]"

definition emu_observation_json :: "emuif_observation \<Rightarrow> json_output \<Rightarrow> json_output" where
  "emu_observation_json v = outputs
     [output_raw ''{'',
      output_raw ''\"generation\":'', output_u64 (ob_generation v), output_raw '',\"sequence\":'', output_u64 (ob_sequence v),
      output_raw '',\"cycle\":'', output_u64 (ob_cycle v), output_raw '',\"instructionId\":'', output_u64 (ob_instruction_id v),
      output_raw '',\"legacyInstructions\":'', output_u64 (ob_legacy_instructions v), output_raw '',\"retiredInstructions\":'', output_u64 (ob_retired_instructions v),
      output_raw '',\"accessId\":'', output_u64 (ob_access_id v), output_raw '',\"parentStimulusId\":'', output_u64 (ob_parent_stimulus_id v),
      output_raw '',\"cpuInputOrder\":'', output_u64 (ob_cpu_input_order v), output_raw '',\"frameId\":'', output_u64 (ob_frame_id v),
      output_raw '',\"relatedFrameId\":'', output_u64 (ob_related_frame_id v), output_raw '',\"contextId\":'', output_u64 (ob_context_id v),
      output_raw '',\"parentContextId\":'', output_u64 (ob_parent_context_id v), output_raw '',\"scheduledCycle\":'', output_u64 (ob_scheduled_cycle v),
      output_raw '',\"startCycle\":'', output_u64 (ob_start_cycle v), output_raw '',\"sourceEventSequence\":'', output_u64 (ob_source_event_sequence v),
      output_raw '',\"beginCycle\":'', output_u64 (ob_begin_cycle v), output_raw '',\"kind\":'', output_format (dec_digits (unat (ob_kind v))),
      output_raw '',\"inputStage\":'', output_format (dec_digits (unat (ob_input_stage v))), output_raw '',\"phase\":'', output_format (dec_digits (unat (ob_phase v))),
      output_raw '',\"reason\":'', output_format (dec_digits (unat (ob_reason v))), output_raw '',\"known\":'', output_format (dec_digits (unat (ob_known v))),
      output_raw '',\"status\":'', output_string (status_name (ob_status v)), output_raw '',\"partialEffects\":'', output_raw (truth (ob_partial_effects v)),
      output_raw '',\"space\":'', output_format (dec_digits (unat (ob_space v))), output_raw '',\"access\":'', output_format (dec_digits (unat (ob_access v))),
      output_raw '',\"frameKind\":'', output_format (dec_digits (unat (ob_frame_kind v))), output_raw '',\"irqSource\":'', output_format (dec_digits (unat (ob_irq_source v))),
      output_raw '',\"irqDepth\":'', output_format (dec_digits (unat (ob_irq_depth v))), output_raw '',\"watchId\":'', output_format (dec_digits (unat (ob_watch_id v))),
      output_raw '',\"firedActions\":'', output_format (dec_digits (unat (ob_fired_actions v))), output_raw '',\"pc\":'', output_format (dec_digits (unat (ob_pc v))),
      output_raw '',\"target\":'', output_format (dec_digits (unat (ob_target v))), output_raw '',\"address\":'', output_format (dec_digits (unat (ob_address v))),
      output_raw '',\"returnPc\":'', output_format (dec_digits (unat (ob_return_pc v))), output_raw '',\"nextPc\":'', output_format (dec_digits (unat (ob_next_pc v))),
      output_raw '',\"spBefore\":'', output_format (dec_digits (unat (ob_sp_before v))), output_raw '',\"spAfter\":'', output_format (dec_digits (unat (ob_sp_after v))),
      output_raw '',\"bytes\":'', output_raw ''['', bytes_json v, output_raw '']'', output_raw '',\"uartMode\":'', output_format (dec_digits (unat (ob_uart_mode v))),
      output_raw '',\"uartWidth\":'', output_format (dec_digits (unat (ob_uart_width v))), output_raw '',\"ninth\":'', output_format (dec_digits (unat (ob_ninth v))),
      output_raw '',\"scon\":'', output_format (dec_digits (unat (ob_scon v))), output_raw '',\"tcon\":'', output_format (dec_digits (unat (ob_tcon v))),
      output_raw '',\"oldValue\":'', value_json (ob_old_value v), output_raw '',\"newValue\":'', value_json (ob_new_value v),
      output_raw '',\"text\":'', output_string (ob_text v),
      output_raw ''}'']"

definition trace_ids_json :: "emuif_trace_record \<Rightarrow> json_output \<Rightarrow> json_output" where
  "trace_ids_json r = fold (\<lambda>i. output_format (comma i @ dec_digits (unat (tc_trace_ids r ! i)))) [0..<unat (tc_route_count r)]"

definition emu_trace_record_json :: "emuif_trace_record \<Rightarrow> json_output \<Rightarrow> json_output" where
  "emu_trace_record_json r = outputs (
     [output_format (''{\"epoch\":'' @ u64_quoted (tc_epoch r) @ '',\"recordSequence\":'' @ u64_quoted (tc_record_sequence r) @
        '',\"generation\":'' @ u64_quoted (tc_generation r) @ '',\"destinationId\":'' @ dec_digits (unat (tc_destination_id r)) @ '',\"traceIds\":[''),
      trace_ids_json r,
      output_format (''],\"kind\":'' @ dec_digits (unat (tc_kind r)))] @
     (if tc_kind r = EMUIF_RECORD_EVENT then [output_raw '',\"event\":'', emu_observation_json (tc_event r)]
      else if tc_kind r = EMUIF_RECORD_LOSS \<or> tc_kind r = EMUIF_RECORD_SUPPRESSION
      then [output_format ('',\"firstSourceSequence\":'' @ u64_quoted (tc_first_source_sequence r) @
              '',\"lastSourceSequence\":'' @ u64_quoted (tc_last_source_sequence r) @ '',\"count\":'' @ u64_quoted (tc_count r))]
      else []) @
     (if tc_kind r = EMUIF_RECORD_SUPPRESSION
      then [output_format ('',\"traceId\":'' @ dec_digits (unat (tc_trace_id r)) @ '',\"interruptPolicy\":'' @ dec_digits (unat (tc_interrupt_policy r)) @
              '',\"entryDepth\":'' @ dec_digits (unat (tc_entry_depth r)) @ '',\"maximumDepth\":'' @ dec_digits (unat (tc_maximum_depth r)))]
      else []) @
     (if tc_kind r = EMUIF_RECORD_SINK
      then [output_format ('',\"status\":\"'' @ status_names ! unat (if tc_status r \<le> EMUIF_NOT_FOUND then tc_status r else EMUIF_FAULT) @ ''\"'')]
      else []) @
     [output_raw ''}''])"

definition cursor_states :: "string list" where
  "cursor_states = [''current'', ''expired'', ''ahead'', ''wrong-session'', ''wrong-epoch'']"

definition records_json :: "emuif_trace_record list \<Rightarrow> nat \<Rightarrow> json_output \<Rightarrow> json_output" where
  "records_json rs n = fold (\<lambda>i out. emu_trace_record_json (rs ! i) (if i \<noteq> 0 then output_raw '','' out else out)) [0..<n]"

definition emu_trace_page_json :: "emuif_trace_page \<Rightarrow> json_output \<Rightarrow> json_output" where
  "emu_trace_page_json p = outputs
     [output_format (''{\"sessionId\":\"'' @ c_text (pg_session_id p) @ ''\",\"destinationId\":'' @ dec_digits (unat (pg_destination_id p)) @
        '',\"epoch\":'' @ u64_quoted (pg_epoch p) @ '',\"cursorState\":\"'' @ cursor_states ! unat (pg_cursor_state p) @
        ''\",\"requestedAfter\":'' @ u64_quoted (pg_requested_after p) @ '',\"oldest\":'' @ u64_quoted (pg_oldest p) @
        '',\"newest\":'' @ u64_quoted (pg_newest p) @ '',\"first\":'' @ u64_quoted (pg_first p) @ '',\"last\":'' @ u64_quoted (pg_last p) @
        '',\"nextAfter\":'' @ u64_quoted (pg_next_after p) @ '',\"overwritten\":'' @ u64_quoted (pg_overwritten p) @
        '',\"dropped\":'' @ u64_quoted (pg_dropped p) @ '',\"lostBeforePage\":'' @ u64_quoted (pg_lost_before_page p) @
        '',\"remaining\":'' @ dec_digits (unat (pg_remaining p)) @ '',\"more\":'' @ truth (pg_more p) @ '',\"records\":[''),
      records_json (case pg_records p of Some xs \<Rightarrow> xs | None \<Rightarrow> []) (unat (pg_written p)),
      output_raw '']}'']"

subsection \<open>The printed texts\<close>

definition value_object :: "emuif_observed_value \<Rightarrow> string" where
  "value_object v = object_text [(''value'', u64_quoted (ov_value v)), (''width'', dec_digits (unat (ov_width v))),
     (''known'', truth (ov_known v)), (''isSigned'', truth (ov_is_signed v))]"

definition byte_texts :: "emuif_observation \<Rightarrow> string list" where
  "byte_texts v = map (\<lambda>i. dec_digits (unat (ob_bytes v ! i))) [0..<min (unat (ob_byte_count v)) 3]"

definition observation_object :: "emuif_observation \<Rightarrow> string" where
  "observation_object v = object_text
    [(''generation'', u64_quoted (ob_generation v)), (''sequence'', u64_quoted (ob_sequence v)), (''cycle'', u64_quoted (ob_cycle v)),
     (''instructionId'', u64_quoted (ob_instruction_id v)), (''legacyInstructions'', u64_quoted (ob_legacy_instructions v)), (''retiredInstructions'', u64_quoted (ob_retired_instructions v)),
     (''accessId'', u64_quoted (ob_access_id v)), (''parentStimulusId'', u64_quoted (ob_parent_stimulus_id v)), (''cpuInputOrder'', u64_quoted (ob_cpu_input_order v)),
     (''frameId'', u64_quoted (ob_frame_id v)), (''relatedFrameId'', u64_quoted (ob_related_frame_id v)), (''contextId'', u64_quoted (ob_context_id v)),
     (''parentContextId'', u64_quoted (ob_parent_context_id v)), (''scheduledCycle'', u64_quoted (ob_scheduled_cycle v)), (''startCycle'', u64_quoted (ob_start_cycle v)),
     (''sourceEventSequence'', u64_quoted (ob_source_event_sequence v)), (''beginCycle'', u64_quoted (ob_begin_cycle v)), (''kind'', dec_digits (unat (ob_kind v))),
     (''inputStage'', dec_digits (unat (ob_input_stage v))), (''phase'', dec_digits (unat (ob_phase v))), (''reason'', dec_digits (unat (ob_reason v))),
     (''known'', dec_digits (unat (ob_known v))), (''status'', quoted (status_name (ob_status v))), (''partialEffects'', truth (ob_partial_effects v)),
     (''space'', dec_digits (unat (ob_space v))), (''access'', dec_digits (unat (ob_access v))), (''frameKind'', dec_digits (unat (ob_frame_kind v))),
     (''irqSource'', dec_digits (unat (ob_irq_source v))), (''irqDepth'', dec_digits (unat (ob_irq_depth v))), (''watchId'', dec_digits (unat (ob_watch_id v))),
     (''firedActions'', dec_digits (unat (ob_fired_actions v))), (''pc'', dec_digits (unat (ob_pc v))), (''target'', dec_digits (unat (ob_target v))),
     (''address'', dec_digits (unat (ob_address v))), (''returnPc'', dec_digits (unat (ob_return_pc v))), (''nextPc'', dec_digits (unat (ob_next_pc v))),
     (''spBefore'', dec_digits (unat (ob_sp_before v))), (''spAfter'', dec_digits (unat (ob_sp_after v))), (''bytes'', array_text (byte_texts v)),
     (''uartMode'', dec_digits (unat (ob_uart_mode v))), (''uartWidth'', dec_digits (unat (ob_uart_width v))), (''ninth'', dec_digits (unat (ob_ninth v))),
     (''scon'', dec_digits (unat (ob_scon v))), (''tcon'', dec_digits (unat (ob_tcon v))), (''oldValue'', value_object (ob_old_value v)),
     (''newValue'', value_object (ob_new_value v)), (''text'', quoted (ob_text v))]"

lemma u64_value_text [simp]: "value_text (Suc d) (u64_quoted n)"
  unfolding u64_quoted_def by (rule plain_value_text) simp

lemma truth_text [simp]: "value_text (Suc d) (truth b)"
  unfolding truth_def by (simp del: value_text.simps)

lemma value_object_text: "value_text (Suc (Suc d)) (value_object v)"
  unfolding value_object_def by (rule object_value_text) (simp del: value_text.simps)

lemma observation_object_text: "value_text (Suc (Suc (Suc d))) (observation_object v)"
proof -
  have "value_text (Suc (Suc d)) (array_text (byte_texts v))" by (rule array_value_text) (simp add: byte_texts_def list_all_iff del: value_text.simps)
  then show ?thesis unfolding observation_object_def by (intro object_value_text) (simp add: value_object_text del: value_text.simps)
qed

lemma prints_value: "prints (value_object v) (value_json v)"
proof -
  have "value_object v = ''{\"value\":'' @ u64_quoted (ov_value v) @ '',\"width\":'' @ dec_digits (unat (ov_width v)) @
      '',\"known\":'' @ truth (ov_known v) @ '',\"isSigned\":'' @ truth (ov_is_signed v) @ ''}''"
    by (simp add: value_object_def object_text_def)
  then show ?thesis using prints_format by (simp add: value_json_def)
qed

lemma prints_bytes: "prints (joined (byte_texts v)) (bytes_json v)"
  unfolding byte_texts_def bytes_json_def by (rule prints_items) (rule prints_format)

lemmas prints_intros = prints_raw prints_format prints_string prints_value prints_bytes

lemma prints_observation: "prints (observation_object v) (emu_observation_json v)"
  unfolding emu_observation_json_def
  by (rule prints_outputs, (rule list.rel_intros prints_intros)+) (simp add: observation_object_def object_text_def array_text_def)

subsection \<open>Records and pages\<close>

definition id_texts :: "emuif_trace_record \<Rightarrow> string list" where
  "id_texts r = map (\<lambda>i. dec_digits (unat (tc_trace_ids r ! i))) [0..<unat (tc_route_count r)]"

definition record_object :: "emuif_trace_record \<Rightarrow> string" where
  "record_object r = object_text (
     [(''epoch'', u64_quoted (tc_epoch r)), (''recordSequence'', u64_quoted (tc_record_sequence r)), (''generation'', u64_quoted (tc_generation r)),
      (''destinationId'', dec_digits (unat (tc_destination_id r))), (''traceIds'', array_text (id_texts r)), (''kind'', dec_digits (unat (tc_kind r)))] @
     (if tc_kind r = EMUIF_RECORD_EVENT then [(''event'', observation_object (tc_event r))] else []) @
     (if tc_kind r = EMUIF_RECORD_LOSS \<or> tc_kind r = EMUIF_RECORD_SUPPRESSION
      then [(''firstSourceSequence'', u64_quoted (tc_first_source_sequence r)), (''lastSourceSequence'', u64_quoted (tc_last_source_sequence r)),
            (''count'', u64_quoted (tc_count r))] else []) @
     (if tc_kind r = EMUIF_RECORD_SUPPRESSION
      then [(''traceId'', dec_digits (unat (tc_trace_id r))), (''interruptPolicy'', dec_digits (unat (tc_interrupt_policy r))),
            (''entryDepth'', dec_digits (unat (tc_entry_depth r))), (''maximumDepth'', dec_digits (unat (tc_maximum_depth r)))] else []) @
     (if tc_kind r = EMUIF_RECORD_SINK then [(''status'', CHR 0x22 # status_name (tc_status r) @ [CHR 0x22])] else []))"

lemma plain_names: "list_all plain_key status_names" "list_all plain_key cursor_states"
  by (simp_all add: status_names_def cursor_states_def)

lemma plain_status [simp]: "plain_key (status_name s)"
proof (cases "s \<le> EMUIF_NOT_FOUND")
  case True
  then have "unat s < length status_names" by (simp add: status_names_def word_le_nat_alt)
  then show ?thesis using plain_names(1) True by (simp add: status_name_def list_all_length)
qed (simp add: status_name_def)

lemma record_object_text: "value_text (Suc (Suc (Suc (Suc d)))) (record_object r)"
proof -
  have "value_text (Suc (Suc (Suc d))) (array_text (id_texts r))" by (rule array_value_text) (simp add: id_texts_def list_all_iff del: value_text.simps)
  moreover have "value_text (Suc (Suc (Suc d))) (CHR 0x22 # status_name (tc_status r) @ [CHR 0x22])" by (rule plain_value_text) simp
  ultimately show ?thesis unfolding record_object_def by (intro object_value_text) (simp add: observation_object_text del: value_text.simps)
qed

lemma prints_trace_ids: "prints (joined (id_texts r)) (trace_ids_json r)"
  unfolding id_texts_def trace_ids_json_def by (rule prints_items) (rule prints_format)

lemma status_text: "status_names ! unat (if s \<le> EMUIF_NOT_FOUND then s else EMUIF_FAULT) = status_name s"
  by (simp add: status_name_def) (simp add: status_names_def)

lemma prints_record: "prints (record_object r) (emu_trace_record_json r)"
proof -
  note members = list.rel_intros prints_intros prints_trace_ids prints_observation
  note texts = record_object_def object_text_def array_text_def
  consider (event) "tc_kind r = EMUIF_RECORD_EVENT" | (suppression) "tc_kind r = EMUIF_RECORD_SUPPRESSION" | (loss) "tc_kind r = EMUIF_RECORD_LOSS"
    | (sink) "tc_kind r = EMUIF_RECORD_SINK"
    | (other) "tc_kind r \<noteq> EMUIF_RECORD_EVENT" "tc_kind r \<noteq> EMUIF_RECORD_SUPPRESSION" "tc_kind r \<noteq> EMUIF_RECORD_LOSS" "tc_kind r \<noteq> EMUIF_RECORD_SINK" by blast
  then show ?thesis
  proof cases
    case event
    show ?thesis unfolding emu_trace_record_json_def status_text event by (simp, rule prints_outputs, (rule members)+) (simp add: texts event)
  next
    case suppression
    show ?thesis unfolding emu_trace_record_json_def status_text suppression by (simp, rule prints_outputs, (rule members)+) (simp add: texts suppression)
  next
    case loss
    show ?thesis unfolding emu_trace_record_json_def status_text loss by (simp, rule prints_outputs, (rule members)+) (simp add: texts loss)
  next
    case sink
    show ?thesis unfolding emu_trace_record_json_def status_text sink by (simp, rule prints_outputs, (rule members)+) (simp add: texts sink)
  next
    case other
    then have "emu_trace_record_json r = outputs
     [output_format (''{\"epoch\":'' @ u64_quoted (tc_epoch r) @ '',\"recordSequence\":'' @ u64_quoted (tc_record_sequence r) @
        '',\"generation\":'' @ u64_quoted (tc_generation r) @ '',\"destinationId\":'' @ dec_digits (unat (tc_destination_id r)) @ '',\"traceIds\":[''),
      trace_ids_json r, output_format (''],\"kind\":'' @ dec_digits (unat (tc_kind r))), output_raw ''}'']"
      by (simp add: emu_trace_record_json_def)
    then show ?thesis by (simp only:) (rule prints_outputs, (rule members)+, simp add: texts other)
  qed
qed

definition page_object :: "emuif_trace_page \<Rightarrow> emuif_trace_record list \<Rightarrow> string" where
  "page_object p rs = object_text
     [(''sessionId'', CHR 0x22 # c_text (pg_session_id p) @ [CHR 0x22]), (''destinationId'', dec_digits (unat (pg_destination_id p))),
      (''epoch'', u64_quoted (pg_epoch p)), (''cursorState'', CHR 0x22 # cursor_states ! unat (pg_cursor_state p) @ [CHR 0x22]),
      (''requestedAfter'', u64_quoted (pg_requested_after p)), (''oldest'', u64_quoted (pg_oldest p)), (''newest'', u64_quoted (pg_newest p)),
      (''first'', u64_quoted (pg_first p)), (''last'', u64_quoted (pg_last p)), (''nextAfter'', u64_quoted (pg_next_after p)),
      (''overwritten'', u64_quoted (pg_overwritten p)), (''dropped'', u64_quoted (pg_dropped p)), (''lostBeforePage'', u64_quoted (pg_lost_before_page p)),
      (''remaining'', dec_digits (unat (pg_remaining p))), (''more'', truth (pg_more p)), (''records'', array_text (map record_object rs))]"

lemma prints_records: "n \<le> length rs \<Longrightarrow> prints (joined (map record_object (take n rs))) (records_json rs n)"
proof -
  assume n: "n \<le> length rs"
  have "map record_object (take n rs) = map (\<lambda>i. record_object (rs ! i)) [0..<n]" using n by (intro nth_equalityI) simp_all
  moreover have "prints (comma i @ record_object (rs ! i)) (\<lambda>out. emu_trace_record_json (rs ! i) (if i \<noteq> 0 then output_raw '','' out else out))" for i
    by (rule prints_comp [OF _ prints_record]) (cases i, simp_all add: prints_id prints_raw)
  ultimately show ?thesis unfolding records_json_def by (simp only: prints_items)
qed

lemma prints_page:
  assumes "pg_records p = Some rs" "unat (pg_written p) \<le> length rs"
  shows "prints (page_object p (take (unat (pg_written p)) rs)) (emu_trace_page_json p)"
  unfolding emu_trace_page_json_def assms(1) option.case
  by (rule prints_outputs, (rule list.rel_intros prints_intros prints_records [OF assms(2)])+) (simp add: page_object_def object_text_def array_text_def)

lemma page_object_text:
  assumes "plain_key (c_text (pg_session_id p))" "unat (pg_cursor_state p) < 5"
  shows "value_text (Suc (Suc (Suc (Suc (Suc (Suc d)))))) (page_object p rs)"
proof -
  have "value_text (Suc (Suc (Suc (Suc (Suc d))))) (array_text (map record_object rs))" by (rule array_value_text) (simp add: list_all_iff record_object_text del: value_text.simps)
  moreover have "plain_key (cursor_states ! unat (pg_cursor_state p))" using plain_names(2) assms(2) by (simp add: list_all_length cursor_states_def del: plain_chars)
  ultimately show ?thesis unfolding page_object_def using assms(1) by (intro object_value_text) (simp add: plain_value_text del: value_text.simps)
qed

lemma takeWhile_prefix_set: "set (takeWhile P xs) \<subseteq> set (takeWhile P (xs @ ys))"
  by (induction xs) auto

lemma session_plain: "list_all session_digit (c_text session) \<Longrightarrow> plain_key (c_text (take 33 session))"
proof -
  assume a: "list_all session_digit (c_text session)"
  have "set (takeWhile (\<lambda>ch. ch \<noteq> CHR 0x00) (take 33 session)) \<subseteq> set (takeWhile (\<lambda>ch. ch \<noteq> CHR 0x00) (take 33 session @ drop 33 session))"
    by (rule takeWhile_prefix_set)
  then have "list_all session_digit (c_text (take 33 session))" using a unfolding c_text_def list_all_iff append_take_drop_id by blast
  moreover have "(0x20 :: nat) \<le> of_char ch \<and> ch \<noteq> CHR 0x22 \<and> ch \<noteq> CHR 0x5C" if "session_digit ch" for ch
    using that by (auto simp: session_digit_def)
  ultimately show ?thesis by (auto simp: plain_key_def list_all_iff)
qed

lemma page_header_fields:
  "pg_session_id (page_header r session q out) = take 33 session" "pg_records (page_header r session q out) = pg_records out"
  "unat (pg_cursor_state (page_header r session q out)) < 5" "pg_written (page_header r session q out) = 0"
  by (simp_all add: page_header_def Let_def zero_page_def)

lemma page_fill_fields:
  assumes "page_fill z r offset available required out p = (EMUIF_OK, p')" "pg_records p = Some slots" "unat required \<le> length slots"
  shows "pg_session_id p' = pg_session_id p \<and> pg_cursor_state p' = pg_cursor_state p \<and>
    (\<exists>rs. pg_records p' = Some rs \<and> length rs = length slots \<and> pg_written p' = required)"
  using assms by (auto simp: page_fill_def Let_def split: if_splits)

lemma page_body_fields:
  assumes "page_body z r q out p = (EMUIF_OK, p')" "pg_records p = Some slots" "length slots = unat (pg_capacity out)" "unat (pg_cursor_state p) < 5"
  shows "pg_session_id p' = pg_session_id p \<and> unat (pg_cursor_state p') < 5 \<and>
    (\<exists>rs. pg_records p' = Some rs \<and> length rs = length slots \<and> unat (pg_written p') \<le> length slots)"
proof -
  define expired where "expired \<longleftrightarrow> pg_oldest p \<noteq> 0 \<and> rq_after_record_sequence q < pg_oldest p - 1"
  define p0 where "p0 = (if expired then p\<lparr>pg_cursor_state := EMUIF_CURSOR_EXPIRED, pg_lost_before_page := pg_oldest p - rq_after_record_sequence q - 1\<rparr> else p)"
  define offset where "offset = (if \<not> expired \<and> oc_count r \<noteq> 0 \<and> rq_after_record_sequence q \<ge> pg_oldest p
    then ucast (rq_after_record_sequence q - pg_oldest p + 1) else 0 :: u32)"
  define required where "required = (if oc_count r - offset < rq_max_records q then oc_count r - offset else rq_max_records q)"
  have p0: "pg_records p0 = Some slots" "pg_session_id p0 = pg_session_id p" "unat (pg_cursor_state p0) < 5" using assms by (simp_all add: p0_def)
  have body: "(if pg_capacity out < required then (EMUIF_CAPACITY, p0\<lparr>pg_required := required, pg_remaining := oc_count r - offset, pg_more := (if oc_count r - offset \<noteq> 0 then 1 else 0)\<rparr>)
      else page_fill z r offset (oc_count r - offset) required out (p0\<lparr>pg_required := required\<rparr>)) = (EMUIF_OK, p')"
    using assms(1) unfolding page_body_def Let_def expired_def [symmetric] p0_def [symmetric] offset_def [symmetric] required_def [symmetric] by simp
  then have "\<not> pg_capacity out < required" by auto
  then have "page_fill z r offset (oc_count r - offset) required out (p0\<lparr>pg_required := required\<rparr>) = (EMUIF_OK, p')" "unat required \<le> length slots"
    using body assms(3) by (simp_all add: word_less_nat_alt)
  from page_fill_fields [OF this(1) _ this(2)] show ?thesis using p0 \<open>unat required \<le> length slots\<close> by auto
qed

text \<open>
  C32. A page that was read prints as one JSON value, nested at most six deep: in a buffer with room for it the whole text is added,
  otherwise the buffer is marked as failed, and the buffer's limit is never passed.
\<close>

theorem page_prints_json:
  assumes page: "emu_outcome_page z r session q out = (EMUIF_OK, p)" and slots: "pg_records out = Some slots" "length slots = unat (pg_capacity out)"
    and session: "list_all session_digit (c_text session)"
  shows "\<exists>s. value_text 6 s \<and> (\<forall>buffer. length (out_data buffer) \<le> 65536 \<longrightarrow>
    length (out_data (emu_trace_page_json p buffer)) \<le> 65536 \<and>
    (if \<not> out_failed buffer \<and> length (out_data buffer) + length s \<le> 65536
     then emu_trace_page_json p buffer = buffer\<lparr>out_data := out_data buffer @ s\<rparr> else out_failed (emu_trace_page_json p buffer)))"
proof -
  let ?h = "page_header r session q out"
  note h = page_header_fields [of r session q out]
  have "p = ?h \<or> page_body z r q out ?h = (EMUIF_OK, p)" using page by (auto simp: emu_outcome_page_def Let_def split: if_splits)
  then have "pg_session_id p = take 33 session \<and> unat (pg_cursor_state p) < 5 \<and> (\<exists>rs. pg_records p = Some rs \<and> unat (pg_written p) \<le> length rs)"
  proof
    assume "page_body z r q out ?h = (EMUIF_OK, p)"
    from page_body_fields [OF this, unfolded h(1,2), OF slots h(3)] show ?thesis by auto
  qed (use h slots in simp)
  then obtain rs where p: "pg_session_id p = take 33 session" "unat (pg_cursor_state p) < 5" "pg_records p = Some rs" "unat (pg_written p) \<le> length rs" by blast
  have "value_text 6 (page_object p (take (unat (pg_written p)) rs))"
    using page_object_text [of p 0] p(1,2) session_plain [OF session] by (simp add: numeral_eq_Suc del: value_text.simps)
  then show ?thesis using prints_page [OF p(3,4)] unfolding prints_def by blast
qed

theorem page_prints_json_witness:
  "\<exists>s. value_text 6 s \<and>
     (if length s \<le> 65536
      then emu_trace_page_json (snd (emu_outcome_page (contract_sizes.make 24 320 480 80 200) (example_ring (contract_sizes.make 24 320 480 80 200))
             (replicate 32 CHR ''a'' @ [CHR 0x00]) (example_request (contract_sizes.make 24 320 480 80 200)) (example_page (contract_sizes.make 24 320 480 80 200))))
             \<lparr>out_data = [], out_failed = False\<rparr> = \<lparr>out_data = s, out_failed = False\<rparr>
      else out_failed (emu_trace_page_json (snd (emu_outcome_page (contract_sizes.make 24 320 480 80 200) (example_ring (contract_sizes.make 24 320 480 80 200))
             (replicate 32 CHR ''a'' @ [CHR 0x00]) (example_request (contract_sizes.make 24 320 480 80 200)) (example_page (contract_sizes.make 24 320 480 80 200))))
             \<lparr>out_data = [], out_failed = False\<rparr>))"
proof -
  let ?z = "contract_sizes.make 24 320 480 80 200"
  let ?page = "emu_outcome_page ?z (example_ring ?z) (replicate 32 CHR ''a'' @ [CHR 0x00]) (example_request ?z) (example_page ?z)"
  have "fst ?page = EMUIF_OK" by code_simp
  then have page: "?page = (EMUIF_OK, snd ?page)" by (metis prod.collapse)
  have "pg_records (example_page ?z) = Some [example_slot ?z]" "length [example_slot ?z] = unat (pg_capacity (example_page ?z))" by (simp_all add: example_page_def)
  moreover have "list_all session_digit (c_text (replicate 32 CHR ''a'' @ [CHR 0x00]))" by code_simp
  ultimately obtain s where s: "value_text 6 s" "\<forall>buffer. length (out_data buffer) \<le> 65536 \<longrightarrow>
    length (out_data (emu_trace_page_json (snd ?page) buffer)) \<le> 65536 \<and>
    (if \<not> out_failed buffer \<and> length (out_data buffer) + length s \<le> 65536
     then emu_trace_page_json (snd ?page) buffer = buffer\<lparr>out_data := out_data buffer @ s\<rparr> else out_failed (emu_trace_page_json (snd ?page) buffer))"
    using page_prints_json [OF page] by blast
  from s(2) [rule_format, of "\<lparr>out_data = [], out_failed = False\<rparr>"] show ?thesis using s(1) by (auto simp del: value_text.simps)
qed

end
