(* ===== verification/Debugger.thy ===== *)
theory Debugger
  imports DecodeWindow Breakpoints Sha256 Loader RunControl Reset
begin

text \<open>
  The debugger (\<^verbatim>\<open>emu_debug.c\<close>): a CPU with its code memory and image, decoder history, breakpoints and the snapshot of the last
  stop.  The code array is the buffer behind the CPU's code pointer.  The host's file, memory allocation and the
  contents of fresh stack memory are arguments; texts are lists of their characters up to the terminator.
\<close>

subsection \<open>Data\<close>

datatype em8051_debug_result_kind = EM8051_DEBUG_ARCHITECTURAL_STOP | EM8051_DEBUG_YIELD

datatype em8051_debug_reason =
  EM8051_DEBUG_REASON_ENTRY | EM8051_DEBUG_REASON_BREAKPOINT | EM8051_DEBUG_REASON_STEP
| EM8051_DEBUG_REASON_EXCEPTION | EM8051_DEBUG_REASON_HALT | EM8051_DEBUG_REASON_YIELD

record em8051_debug_snapshot =
  sn_pc :: u16
  sn_a :: u8
  sn_b :: u8
  sn_psw :: u8
  sn_sp :: u8
  sn_dptr :: u16
  sn_r :: "u8 list"
  sn_variant :: em8051_variant
  sn_instruction_count :: u64
  sn_machine_cycle_count :: u64
  sn_result_kind :: em8051_debug_result_kind
  sn_reason :: em8051_debug_reason
  sn_exception_code :: int

record em8051_debugger =
  dbg_cpu :: em8051
  dbg_image :: "u16 \<Rightarrow> u8"
  dbg_decode_cache :: emu_decode_cache
  dbg_breakpoints :: "nat \<Rightarrow> u8"
  dbg_boundary :: em8051_debug_snapshot
  dbg_observed_pc :: u16
  dbg_observed_size :: u8
  dbg_loaded :: bool
  dbg_boundary_valid :: bool
  dbg_observed_instruction :: bool

definition zero_snapshot :: em8051_debug_snapshot where
  "zero_snapshot = \<lparr>sn_pc = 0, sn_a = 0, sn_b = 0, sn_psw = 0, sn_sp = 0, sn_dptr = 0, sn_r = replicate 8 0, sn_variant = EM8051_VARIANT_8051,
     sn_instruction_count = 0, sn_machine_cycle_count = 0, sn_result_kind = EM8051_DEBUG_ARCHITECTURAL_STOP, sn_reason = EM8051_DEBUG_REASON_ENTRY,
     sn_exception_code = 0\<rparr>"

text \<open>The only callback the debugger installs is the trace observer; the decoder table is the one \<open>reset\<close> fills.\<close>

definition debugger_callbacks :: em8051_callbacks where
  "debugger_callbacks = null_callbacks\<lparr>cpu_trace := True\<rparr>"

definition debugger_decoder :: "u8 \<Rightarrow> decoder" where
  "debugger_decoder = disasm_setptrs (\<lambda>_ _ _. (0, []))"

subsection \<open>Observing and capturing\<close>

definition absolute_path :: "string \<Rightarrow> bool" where
  "absolute_path aPath \<longleftrightarrow> aPath \<noteq> [] \<and> hd aPath = CHR ''/''"

definition clear_predecessors :: "em8051_debugger \<Rightarrow> em8051_debugger" where
  "clear_predecessors d = d\<lparr>dbg_decode_cache := emu_decode_clear (dbg_decode_cache d)\<rparr>"

definition decode_at :: "em8051_debugger \<Rightarrow> u16 \<Rightarrow> u8 \<times> string" where
  "decode_at d aAddress = emu_decode_at debugger_decoder (dbg_cpu d) aAddress"

definition observe_instruction :: "em8051_trace_record \<Rightarrow> em8051_debugger \<Rightarrow> em8051_debugger" where
  "observe_instruction aRecord d =
     (if tr_type aRecord \<noteq> EM8051_TRACE_INSTRUCTION then d
      else let n = fst (decode_at d (tr_pc aRecord))
           in d\<lparr>dbg_observed_pc := tr_pc aRecord, dbg_observed_size := n, dbg_observed_instruction := (n \<noteq> 0)\<rparr>)"

definition em8051_debug_capture_snapshot ::
    "em8051 \<Rightarrow> em8051_debug_result_kind \<Rightarrow> em8051_debug_reason \<Rightarrow> int \<Rightarrow> em8051_debug_snapshot" where
  "em8051_debug_capture_snapshot c aResultKind aReason aExceptionCode =
     (let psw = mSFR c REG_PSW;
          bank = drop_bit 3 psw AND 3
      in \<lparr>sn_pc = mPC c, sn_a = mSFR c REG_ACC, sn_b = mSFR c REG_B, sn_psw = psw, sn_sp = mSFR c REG_SP,
          sn_dptr = push_bit 8 (ucast (mSFR c REG_DPH)) OR ucast (mSFR c REG_DPL),
          sn_r = map (\<lambda>i. mLowerData c (unat bank * 8 + i)) [0..<8],
          sn_variant = mVariant c, sn_instruction_count = mInstructionCount c, sn_machine_cycle_count = mMachineCycleCount c,
          sn_result_kind = aResultKind, sn_reason = aReason, sn_exception_code = aExceptionCode\<rparr>)"

subsection \<open>Life cycle\<close>

definition em8051_debugger_create :: "u8 \<Rightarrow> bool \<Rightarrow> em8051_debugger option" where
  "em8051_debugger_create rand allocated =
     (if \<not> allocated then None
      else let (r, c) = em8051_init_variant rand 2 (zero_cpu\<lparr>mCodeMem := Some 0, mCodeMemMaxIdx := 0xffff\<rparr>)
           in if r \<noteq> 0 then None
              else Some \<lparr>dbg_cpu = c, dbg_image = (\<lambda>_. 0), dbg_decode_cache = \<lparr>dc_predecessor = (\<lambda>_. 0), dc_known = (\<lambda>_. False)\<rparr>,
                     dbg_breakpoints = (\<lambda>_. 0), dbg_boundary = zero_snapshot, dbg_observed_pc = 0, dbg_observed_size = 0,
                     dbg_loaded = False, dbg_boundary_valid = False, dbg_observed_instruction = False\<rparr>)"

text \<open>The value is the status, the digest written to the caller, if any, and the debugger.\<close>

definition em8051_debugger_load ::
    "sha256_context \<Rightarrow> host_file \<Rightarrow> string \<Rightarrow> string \<Rightarrow> em8051_debugger \<Rightarrow> (em8051_debug_status \<times> string option \<times> em8051_debugger) option" where
  "em8051_debugger_load context f aAbsolutePath aExpectedSha256 d =
     (if \<not> absolute_path aAbsolutePath \<or> length aExpectedSha256 \<noteq> 64 then Some (EM8051_DEBUG_INVALID_ARGUMENT, None, d)
      else if \<not> hf_allocates f then Some (EM8051_DEBUG_INTERNAL, None, d)
      else if \<not> hf_opens f then Some (EM8051_DEBUG_IMAGE_READ, None, d)
      else if hf_fails f then Some (EM8051_DEBUG_IMAGE_READ, None, d)
      else if \<not> hf_closes f then Some (EM8051_DEBUG_IMAGE_READ, None, d)
      else if length (hf_bytes f) \<noteq> 65536 then Some (EM8051_DEBUG_IMAGE_SIZE, None, d)
      else case sha256_hex context (hf_bytes f) of
        None \<Rightarrow> None
      | Some actual \<Rightarrow>
          if actual \<noteq> aExpectedSha256 then Some (EM8051_DEBUG_IMAGE_HASH, Some actual, d)
          else Some (EM8051_DEBUG_OK, Some actual,
                 clear_predecessors (d\<lparr>dbg_image := (\<lambda>x. hf_bytes f ! unat x), dbg_cpu := copy_image (hf_bytes f) 0 (dbg_cpu d),
                   dbg_loaded := True, dbg_boundary_valid := False\<rparr>)))"

text \<open>Storing the snapshot of a stop.\<close>

definition stop_at :: "em8051_debug_result_kind \<Rightarrow> em8051_debug_reason \<Rightarrow> int \<Rightarrow> em8051_debugger \<Rightarrow> em8051_debug_status \<times> em8051_debug_snapshot option \<times> em8051_debugger" where
  "stop_at kind reason exception_code d =
     (let s = em8051_debug_capture_snapshot (dbg_cpu d) kind reason exception_code
      in (EM8051_DEBUG_OK, Some s, d\<lparr>dbg_boundary := s, dbg_boundary_valid := True\<rparr>))"

definition em8051_debugger_reset :: "u8 \<Rightarrow> u32 \<Rightarrow> u16 \<Rightarrow> em8051_debugger \<Rightarrow> em8051_debug_status \<times> em8051_debug_snapshot option \<times> em8051_debugger" where
  "em8051_debugger_reset rand aSeed aEntry d =
     (if \<not> dbg_loaded d then (EM8051_DEBUG_INVALID_STATE, None, d)
      else
        let c = reset rand True (em8051_set_reset_seed aSeed (dbg_cpu d));
            c = mBuffers_update (\<lambda>m. m(0 := dbg_image d)) c;
            c = c\<lparr>mPC := aEntry\<rparr>;
            d = clear_predecessors (d\<lparr>dbg_cpu := c, dbg_breakpoints := (\<lambda>_. 0)\<rparr>)
        in stop_at EM8051_DEBUG_ARCHITECTURAL_STOP EM8051_DEBUG_REASON_ENTRY (-1) d)"

definition em8051_debugger_get_state :: "em8051_debugger \<Rightarrow> em8051_debug_status \<times> em8051_debug_snapshot option" where
  "em8051_debugger_get_state d =
     (if \<not> dbg_boundary_valid d then (EM8051_DEBUG_INVALID_STATE, None) else (EM8051_DEBUG_OK, Some (dbg_boundary d)))"

definition em8051_debugger_decode_code ::
    "bool \<Rightarrow> u16 \<Rightarrow> int \<Rightarrow> int \<Rightarrow> nat \<Rightarrow> em8051_debug_decoded list \<Rightarrow> em8051_debugger \<Rightarrow> em8051_debug_status \<times> em8051_debug_decoded list \<times> em8051_debugger" where
  "em8051_debugger_decode_code allocated aReference aByteOffset aInstructionOffset aCount aRecords d =
     (if aCount = 0 \<or> aCount > 256 \<or> aByteOffset < -65536 \<or> aByteOffset > 65536 \<or> aInstructionOffset < -65536 \<or> aInstructionOffset > 65536
      then (EM8051_DEBUG_INVALID_ARGUMENT, aRecords, d)
      else if \<not> dbg_loaded d then (EM8051_DEBUG_INVALID_STATE, aRecords, d)
      else let (status, cache, records) =
                 emu_decode_window debugger_decoder (dbg_cpu d) (dbg_decode_cache d) allocated aReference aByteOffset aInstructionOffset aCount aRecords
           in (status, records, d\<lparr>dbg_decode_cache := cache\<rparr>))"

definition em8051_debugger_replace_breakpoints :: "(nat \<Rightarrow> u8) \<Rightarrow> u16 list \<Rightarrow> em8051_debugger \<Rightarrow> em8051_debug_status \<times> em8051_debugger" where
  "em8051_debugger_replace_breakpoints replacement aAddresses d =
     (if length aAddresses > 1024 then (EM8051_DEBUG_BREAKPOINT_LIMIT, d)
      else case emu_breakpoint_replace replacement aAddresses of
             (False, _) \<Rightarrow> (EM8051_DEBUG_INVALID_ARGUMENT, d)
           | (True, replacement) \<Rightarrow> (EM8051_DEBUG_OK, d\<lparr>dbg_breakpoints := replacement\<rparr>))"

definition breakpoint_at :: "em8051_debugger \<Rightarrow> u16 \<Rightarrow> bool" where
  "breakpoint_at d aAddress = emu_breakpoint_at (dbg_breakpoints d) aAddress"

subsection \<open>Execution\<close>

text \<open>
  The trace records reported since the log was \<open>before\<close>, oldest first.  The observer decodes with the CPU as it is after the
  instruction; what it reads of it, the code, does not change in between.
\<close>

definition reported :: "em8051_event list \<Rightarrow> em8051_event list \<Rightarrow> em8051_trace_record list" where
  "reported before after =
     concat (map (\<lambda>e. case e of EvTrace r \<Rightarrow> [r] | _ \<Rightarrow> []) (rev (take (length after - length before) after)))"

definition execute_one :: "em8051_debugger \<Rightarrow> (em8051_debug_reason \<times> int \<times> em8051_debugger) option" where
  "execute_one d =
     (case em8051_step_instruction debugger_callbacks (dbg_cpu d) of
        None \<Rightarrow> None
      | Some (result, c) \<Rightarrow>
          let before = mInstructionCount (dbg_cpu d);
              d1 = fold observe_instruction (reported (mEvents (dbg_cpu d)) (mEvents c)) (d\<lparr>dbg_observed_instruction := False, dbg_cpu := c\<rparr>);
              d2 = (if mInstructionCount c = before + 1 \<and> dbg_observed_instruction d1
                    then d1\<lparr>dbg_decode_cache := emu_decode_completed (dbg_observed_pc d1) (dbg_observed_size d1) (mPC c) (dbg_decode_cache d1)\<rparr>
                    else d1)
          in Some (case rr_reason result of
                     EM8051_STOP_EXCEPTION \<Rightarrow> (EM8051_DEBUG_REASON_EXCEPTION, rr_exception_code result, d2)
                   | EM8051_STOP_HALT \<Rightarrow> (EM8051_DEBUG_REASON_HALT, -1, d2)
                   | _ \<Rightarrow> (EM8051_DEBUG_REASON_STEP, -1, d2)))"

text \<open>The loop of a run, with the turns that are left.\<close>

fun run_instructions :: "nat \<Rightarrow> int \<Rightarrow> em8051_debugger \<Rightarrow> (em8051_debug_reason \<times> int \<times> em8051_debugger) option" where
  "run_instructions 0 exception_code d = Some (EM8051_DEBUG_REASON_YIELD, exception_code, d)"
| "run_instructions (Suc n) exception_code d =
     (if breakpoint_at d (mPC (dbg_cpu d)) then Some (EM8051_DEBUG_REASON_BREAKPOINT, exception_code, d)
      else case execute_one d of
        None \<Rightarrow> None
      | Some (reason, exception_code, d) \<Rightarrow>
          if reason = EM8051_DEBUG_REASON_EXCEPTION \<or> reason = EM8051_DEBUG_REASON_HALT then Some (reason, exception_code, d)
          else run_instructions n exception_code d)"

definition em8051_debugger_run :: "u32 \<Rightarrow> em8051_debugger \<Rightarrow> (em8051_debug_status \<times> em8051_debug_snapshot option \<times> em8051_debugger) option" where
  "em8051_debugger_run aMaxInstructions d =
     (if aMaxInstructions = 0 \<or> aMaxInstructions > 1000000 then Some (EM8051_DEBUG_INVALID_ARGUMENT, None, d)
      else if \<not> dbg_boundary_valid d then Some (EM8051_DEBUG_INVALID_STATE, None, d)
      else case run_instructions (unat aMaxInstructions) (-1) d of
        None \<Rightarrow> None
      | Some (reason, exception_code, d) \<Rightarrow>
          Some (stop_at (if reason = EM8051_DEBUG_REASON_YIELD then EM8051_DEBUG_YIELD else EM8051_DEBUG_ARCHITECTURAL_STOP) reason exception_code d))"

definition em8051_debugger_step :: "em8051_debugger \<Rightarrow> (em8051_debug_status \<times> em8051_debug_snapshot option \<times> em8051_debugger) option" where
  "em8051_debugger_step d =
     (if \<not> dbg_boundary_valid d then Some (EM8051_DEBUG_INVALID_STATE, None, d)
      else case execute_one d of
        None \<Rightarrow> None
      | Some (reason, exception_code, d) \<Rightarrow> Some (stop_at EM8051_DEBUG_ARCHITECTURAL_STOP reason exception_code d))"

subsection \<open>Names\<close>

definition em8051_debug_variant_name :: "em8051_variant \<Rightarrow> string" where
  "em8051_debug_variant_name aVariant =
     (case aVariant of EM8051_VARIANT_8051 \<Rightarrow> ''8051'' | EM8051_VARIANT_8052 \<Rightarrow> ''8052'' | EM8051_VARIANT_SAB80535 \<Rightarrow> ''sab80535'')"

definition em8051_debug_reason_name :: "em8051_debug_reason \<Rightarrow> string" where
  "em8051_debug_reason_name aReason =
     (case aReason of
        EM8051_DEBUG_REASON_ENTRY \<Rightarrow> ''entry'' | EM8051_DEBUG_REASON_BREAKPOINT \<Rightarrow> ''breakpoint'' | EM8051_DEBUG_REASON_STEP \<Rightarrow> ''step''
      | EM8051_DEBUG_REASON_EXCEPTION \<Rightarrow> ''exception'' | EM8051_DEBUG_REASON_HALT \<Rightarrow> ''halt'' | EM8051_DEBUG_REASON_YIELD \<Rightarrow> ''yield'')"

definition em8051_debug_exception_code :: "int \<Rightarrow> string" where
  "em8051_debug_exception_code aCode =
     (if aCode = EXCEPTION_STACK then ''EMU_EXCEPTION_STACK''
      else if aCode = EXCEPTION_ACC_TO_A then ''EMU_EXCEPTION_ACC_TO_A''
      else if aCode = EXCEPTION_IRET_PSW_MISMATCH then ''EMU_EXCEPTION_RETI_PSW''
      else if aCode = EXCEPTION_IRET_SP_MISMATCH then ''EMU_EXCEPTION_RETI_SP''
      else if aCode = EXCEPTION_IRET_ACC_MISMATCH then ''EMU_EXCEPTION_RETI_ACC''
      else if aCode = EXCEPTION_ILLEGAL_OPCODE then ''EMU_EXCEPTION_ILLEGAL_OPCODE''
      else ''EMU_EXCEPTION_UNKNOWN'')"

definition em8051_debug_exception_message :: "int \<Rightarrow> string" where
  "em8051_debug_exception_message aCode =
     (if aCode = EXCEPTION_STACK then ''invalid stack access''
      else if aCode = EXCEPTION_ACC_TO_A then ''illegal accumulator move''
      else if aCode = EXCEPTION_IRET_PSW_MISMATCH then ''RETI restored mismatched PSW''
      else if aCode = EXCEPTION_IRET_SP_MISMATCH then ''RETI restored mismatched SP''
      else if aCode = EXCEPTION_IRET_ACC_MISMATCH then ''RETI restored mismatched A''
      else if aCode = EXCEPTION_ILLEGAL_OPCODE then ''illegal opcode''
      else ''emulator execution exception'')"

end
