(* ===== verification/IdTable.thy ===== *)
theory IdTable
  imports Prelude
begin

text \<open>
  The request identifiers a debug session has seen (\<open>id_insert\<close> of \<^verbatim>\<open>emu_debug_server.c\<close>): a table of 16384 slots with linear
  probing, at most half full.  It implements a bounded set.
\<close>

subsection \<open>The table\<close>

abbreviation (input) MAX_REQUEST_IDS :: nat where "MAX_REQUEST_IDS \<equiv> 8192"
abbreviation (input) REQUEST_ID_SLOTS :: nat where "REQUEST_ID_SLOTS \<equiv> 16384"

record id_table =
  request_ids :: "nat \<Rightarrow> u64"
  request_id_count :: nat

definition id_slot :: "u64 \<Rightarrow> nat" where
  "id_slot aId = unat (drop_bit 50 (aId * 11400714819323198485))"

fun id_probe :: "nat list \<Rightarrow> u64 \<Rightarrow> 'a id_table_scheme \<Rightarrow> bool \<times> 'a id_table_scheme" where
  "id_probe [] aId t = (False, t)"
| "id_probe (probe # probes) aId t =
     (let entry = (id_slot aId + probe) mod REQUEST_ID_SLOTS
      in if request_ids t entry = aId then (False, t)
         else if request_ids t entry = 0 then
           (if request_id_count t \<ge> MAX_REQUEST_IDS then (False, t)
            else (True, t\<lparr>request_ids := (request_ids t)(entry := aId), request_id_count := request_id_count t + 1\<rparr>))
         else id_probe probes aId t)"

definition id_insert :: "u64 \<Rightarrow> 'a id_table_scheme \<Rightarrow> bool \<times> 'a id_table_scheme" where
  "id_insert aId t = id_probe [0..<REQUEST_ID_SLOTS] aId t"

definition no_ids :: id_table where
  "no_ids = \<lparr>request_ids = (\<lambda>_. 0), request_id_count = 0\<rparr>"

subsection \<open>Bounded sets\<close>

text \<open>
  What a session needs of the table: an insertion reports whether the element is new and there was room, and then adds exactly it.
  Then the accepted elements are the first occurrences, as far as there is room.
\<close>

fun first_of_each :: "'e set \<Rightarrow> 'e list \<Rightarrow> 'e list" where
  "first_of_each seen [] = []"
| "first_of_each seen (x # xs) = (if x \<in> seen then first_of_each seen xs else x # first_of_each (insert x seen) xs)"

text \<open>The elements accepted when a list is inserted one after the other.\<close>

fun accepted :: "('e \<Rightarrow> 't \<Rightarrow> bool \<times> 't) \<Rightarrow> 'e list \<Rightarrow> 't \<Rightarrow> 'e list" where
  "accepted insert_new [] t = []"
| "accepted insert_new (x # xs) t = (let (b, t') = insert_new x t in if b then x # accepted insert_new xs t' else accepted insert_new xs t')"

locale bounded_set =
  fixes insert_new :: "'e \<Rightarrow> 't \<Rightarrow> bool \<times> 't" and elems :: "'t \<Rightarrow> 'e set" and good :: "'t \<Rightarrow> bool" and valid :: "'e \<Rightarrow> bool" and room :: nat
  assumes finite_elems: "good t \<Longrightarrow> finite (elems t)"
    and insert_spec: "good t \<Longrightarrow> valid x \<Longrightarrow> insert_new x t = (b, t') \<Longrightarrow>
      good t' \<and> (b \<longleftrightarrow> x \<notin> elems t \<and> card (elems t) < room) \<and> elems t' = (if b then insert x (elems t) else elems t)"
begin

lemma accepted_first:
  assumes "good t" "list_all valid xs" "card (elems t) \<le> room"
  shows "accepted insert_new xs t = take (room - card (elems t)) (first_of_each (elems t) xs)"
  using assms
proof (induction xs arbitrary: t)
  case (Cons x xs)
  obtain b t' where ins: "insert_new x t = (b, t')" by fastforce
  have s: "good t'" "b \<longleftrightarrow> x \<notin> elems t \<and> card (elems t) < room" "elems t' = (if b then insert x (elems t) else elems t)"
    using insert_spec [OF Cons.prems(1) _ ins] Cons.prems(2) by simp_all
  show ?case
  proof (cases b)
    case True
    then have c: "card (elems t') = Suc (card (elems t))" "card (elems t') \<le> room" using s finite_elems [OF Cons.prems(1)] by simp_all
    have "accepted insert_new xs t' = take (room - card (elems t')) (first_of_each (elems t') xs)" using Cons s(1) c(2) by simp
    then show ?thesis using True ins s c by (simp add: Suc_diff_Suc take_Suc_Cons [symmetric] del: take_Suc_Cons)
  next
    case False
    have "accepted insert_new xs t' = take (room - card (elems t)) (first_of_each (elems t) xs)" using Cons s(1,3) False by simp
    then show ?thesis using False ins s(2) Cons.prems(3) by (cases "card (elems t) = room") auto
  qed
qed simp

end

subsection \<open>Probing\<close>

definition ids :: "'a id_table_scheme \<Rightarrow> u64 set" where
  "ids t = {request_ids t j | j. j < REQUEST_ID_SLOTS} - {0}"

text \<open>An identifier is never behind a free slot of its own probe sequence, and is stored once.\<close>

definition id_ok :: "'a id_table_scheme \<Rightarrow> bool" where
  "id_ok t \<longleftrightarrow> request_id_count t = card {j. j < REQUEST_ID_SLOTS \<and> request_ids t j \<noteq> 0} \<and> request_id_count t \<le> MAX_REQUEST_IDS \<and>
     inj_on (request_ids t) {j. j < REQUEST_ID_SLOTS \<and> request_ids t j \<noteq> 0} \<and>
     (\<forall>x p. x \<noteq> 0 \<and> p < REQUEST_ID_SLOTS \<and> request_ids t ((id_slot x + p) mod REQUEST_ID_SLOTS) = x \<longrightarrow>
        (\<forall>q < p. request_ids t ((id_slot x + q) mod REQUEST_ID_SLOTS) \<noteq> 0))"

abbreviation slots_used :: "'a id_table_scheme \<Rightarrow> nat set" where
  "slots_used t \<equiv> {j. j < REQUEST_ID_SLOTS \<and> request_ids t j \<noteq> 0}"

abbreviation (input) probe_at :: "u64 \<Rightarrow> nat \<Rightarrow> nat" where
  "probe_at x p \<equiv> (id_slot x + p) mod REQUEST_ID_SLOTS"

lemma ids_image: "ids t = request_ids t ` slots_used t"
  by (auto simp: ids_def)

lemma finite_used [simp]: "finite (slots_used t)"
  by simp

lemma card_ids: "id_ok t \<Longrightarrow> card (ids t) = request_id_count t"
  by (simp add: ids_image id_ok_def card_image)

lemma probe_covers:
  assumes "j < REQUEST_ID_SLOTS"
  shows "\<exists>p < REQUEST_ID_SLOTS. probe_at x p = j"
proof -
  define h where "h = id_slot x mod REQUEST_ID_SLOTS"
  have h: "h < REQUEST_ID_SLOTS" "probe_at x p = (h + p) mod REQUEST_ID_SLOTS" for p by (simp_all add: h_def mod_simps)
  show ?thesis
  proof (cases "h \<le> j")
    case True
    then have "probe_at x (j - h) = j" using assms by (simp only: h(2)) simp
    then show ?thesis using assms by (intro exI [of _ "j - h"]) simp
  next
    case False
    then have "h + (j + REQUEST_ID_SLOTS - h) = j + REQUEST_ID_SLOTS" using h(1) by simp
    then have "probe_at x (j + REQUEST_ID_SLOTS - h) = j" using assms by (simp only: h(2)) simp
    then show ?thesis using False h(1) by (intro exI [of _ "j + REQUEST_ID_SLOTS - h"]) simp
  qed
qed

lemma probe_inj:
  assumes "probe_at x p = probe_at x q" "p < REQUEST_ID_SLOTS" "q < REQUEST_ID_SLOTS"
  shows "p = q"
proof -
  have le: "p = q" if "p \<le> q" "probe_at x p = probe_at x q" "q < REQUEST_ID_SLOTS" for p q
  proof -
    have "REQUEST_ID_SLOTS dvd (id_slot x + q) - (id_slot x + p)" using that(1,2) by (subst mod_eq_dvd_iff_nat [symmetric]) simp_all
    then show ?thesis using that by (auto dest: dvd_imp_le)
  qed
  show ?thesis using le [of p q] le [of q p] assms by (cases "p \<le> q") auto
qed

lemma probe_skip:
  assumes "p \<le> q" "q < REQUEST_ID_SLOTS" "\<And>i. p \<le> i \<Longrightarrow> i < q \<Longrightarrow> request_ids t (probe_at x i) \<notin> {x, 0}"
  shows "id_probe [p..<REQUEST_ID_SLOTS] x t = id_probe [q..<REQUEST_ID_SLOTS] x t"
  using assms
proof (induction "q - p" arbitrary: p)
  case (Suc n)
  then have "p < q" by simp
  then have "[p..<REQUEST_ID_SLOTS] = p # [Suc p..<REQUEST_ID_SLOTS]" using Suc.prems by (simp add: upt_conv_Cons)
  then have "id_probe [p..<REQUEST_ID_SLOTS] x t = id_probe [Suc p..<REQUEST_ID_SLOTS] x t" using Suc.prems(3) [of p] \<open>p < q\<close> by (simp add: Let_def)
  also have "\<dots> = id_probe [q..<REQUEST_ID_SLOTS] x t" using Suc.hyps(2) Suc.prems \<open>p < q\<close> by (intro Suc.hyps(1)) auto
  finally show ?case .
qed simp

text \<open>Where the search for \<open>x\<close> ends: at the identifier itself or at the first free slot.\<close>

lemma probe_stops:
  assumes "id_ok t"
  obtains p where "p < REQUEST_ID_SLOTS" "request_ids t (probe_at x p) \<in> {x, 0}" "\<And>i. i < p \<Longrightarrow> request_ids t (probe_at x i) \<notin> {x, 0}"
proof -
  have "slots_used t \<noteq> {..<REQUEST_ID_SLOTS}"
  proof
    assume "slots_used t = {..<REQUEST_ID_SLOTS}"
    then have "card (slots_used t) = REQUEST_ID_SLOTS" by (simp only: card_lessThan)
    then show False using assms by (auto simp: id_ok_def)
  qed
  then obtain j where "j < REQUEST_ID_SLOTS" "request_ids t j = 0" by blast
  then obtain p0 where p0: "p0 < REQUEST_ID_SLOTS" "request_ids t (probe_at x p0) \<in> {x, 0}" using probe_covers [of j x] by auto
  define p where "p = (LEAST p. request_ids t (probe_at x p) \<in> {x, 0})"
  have "request_ids t (probe_at x p) \<in> {x, 0}" unfolding p_def by (rule LeastI) (rule p0(2))
  moreover have "p \<le> p0" unfolding p_def by (rule Least_le) (rule p0(2))
  moreover have "request_ids t (probe_at x i) \<notin> {x, 0}" if "i < p" for i using that unfolding p_def by (rule not_less_Least)
  ultimately show ?thesis using that [of p] p0(1) by simp
qed

lemma id_insert_at:
  assumes "p < REQUEST_ID_SLOTS" "request_ids t (probe_at x p) \<in> {x, 0}" "\<And>i. i < p \<Longrightarrow> request_ids t (probe_at x i) \<notin> {x, 0}"
  shows "id_insert x t = (if request_ids t (probe_at x p) = x \<or> request_id_count t \<ge> MAX_REQUEST_IDS then (False, t)
    else (True, t\<lparr>request_ids := (request_ids t)(probe_at x p := x), request_id_count := request_id_count t + 1\<rparr>))"
proof -
  have "id_insert x t = id_probe [p..<REQUEST_ID_SLOTS] x t" unfolding id_insert_def by (rule probe_skip) (use assms in auto)
  moreover have "[p..<REQUEST_ID_SLOTS] = p # [Suc p..<REQUEST_ID_SLOTS]" using assms(1) by (simp add: upt_conv_Cons)
  ultimately show ?thesis using assms(2) by (auto simp: Let_def)
qed

lemma known_found:
  assumes ok: "id_ok t" and x: "x \<noteq> 0" "x \<in> ids t" and p: "p < REQUEST_ID_SLOTS" "request_ids t (probe_at x p) \<in> {x, 0}"
    "\<And>i. i < p \<Longrightarrow> request_ids t (probe_at x i) \<notin> {x, 0}"
  shows "request_ids t (probe_at x p) = x"
proof (rule ccontr)
  assume "request_ids t (probe_at x p) \<noteq> x"
  then have z: "request_ids t (probe_at x p) = 0" using p(2) by simp
  obtain j where j: "j < REQUEST_ID_SLOTS" "request_ids t j = x" using x(2) by (auto simp: ids_def)
  obtain r where r: "r < REQUEST_ID_SLOTS" "probe_at x r = j" using probe_covers [OF j(1)] by blast
  have "\<not> p < r" using ok x(1) r j(2) z by (auto simp: id_ok_def)
  moreover have "r \<noteq> p" using r(2) j(2) z x(1) by auto
  ultimately have "r < p" by simp
  then show False using p(3) [of r] r(2) j(2) by simp
qed

lemma id_ok_insert:
  assumes ok: "id_ok t" and x: "x \<noteq> 0" "x \<notin> ids t" and room: "request_id_count t < MAX_REQUEST_IDS" and p: "p < REQUEST_ID_SLOTS" "request_ids t (probe_at x p) = 0"
    "\<And>i. i < p \<Longrightarrow> request_ids t (probe_at x i) \<notin> {x, 0}"
  defines "t' \<equiv> t\<lparr>request_ids := (request_ids t)(probe_at x p := x), request_id_count := request_id_count t + 1\<rparr>"
  shows "id_ok t'" "ids t' = insert x (ids t)"
proof -
  define e where "e = probe_at x p"
  have e: "e < REQUEST_ID_SLOTS" "request_ids t e = 0" using p by (simp_all add: e_def)
  have used: "slots_used t' = insert e (slots_used t)" "e \<notin> slots_used t" using e x(1) by (auto simp: t'_def e_def [symmetric])
  have r': "request_ids t' j = (if j = e then x else request_ids t j)" "request_id_count t' = request_id_count t + 1" for j by (simp_all add: t'_def e_def [symmetric])
  have old: "request_ids t j \<noteq> x" if "j < REQUEST_ID_SLOTS" for j using that x by (auto simp: ids_def)
  show "ids t' = insert x (ids t)" using e x(1) by (auto simp: ids_image used(1) r')
  have c: "request_id_count t = card (slots_used t)" and inj: "inj_on (request_ids t) (slots_used t)"
    and chain: "\<And>y p. y \<noteq> 0 \<Longrightarrow> p < REQUEST_ID_SLOTS \<Longrightarrow> request_ids t (probe_at y p) = y \<Longrightarrow> \<forall>q < p. request_ids t (probe_at y q) \<noteq> 0"
    using ok unfolding id_ok_def by blast+
  have "request_id_count t' = card (slots_used t')" unfolding used(1) r'(2) c using used(2) by (subst card_insert_disjoint) simp_all
  moreover have "inj_on (request_ids t') (slots_used t')" unfolding used(1)
    using inj used(2) old by (auto simp: inj_on_def r')
  moreover have "\<forall>q < k. request_ids t' (probe_at y q) \<noteq> 0" if "y \<noteq> 0" "k < REQUEST_ID_SLOTS" "request_ids t' (probe_at y k) = y" for y k
  proof (cases "probe_at y k = e")
    case True
    then have "y = x" using that(3) by (simp add: r')
    moreover have "k = p" by (rule probe_inj [of x]) (use True that(2) p(1) \<open>y = x\<close> in \<open>simp_all add: e_def\<close>)
    ultimately show ?thesis using p(3) x(1) by (auto simp: r')
  next
    case False
    then have "request_ids t (probe_at y k) = y" using that(3) by (simp add: r')
    then show ?thesis using chain [OF that(1,2)] x(1) by (auto simp: r')
  qed
  ultimately show "id_ok t'" unfolding id_ok_def using room r'(2) by auto
qed

lemma id_insert_spec:
  assumes ok: "id_ok t" and x: "x \<noteq> 0" and ins: "id_insert x t = (b, t')"
  shows "id_ok t' \<and> (b \<longleftrightarrow> x \<notin> ids t \<and> card (ids t) < MAX_REQUEST_IDS) \<and> ids t' = (if b then insert x (ids t) else ids t)"
proof -
  obtain p where p: "p < REQUEST_ID_SLOTS" "request_ids t (probe_at x p) \<in> {x, 0}" "\<And>i. i < p \<Longrightarrow> request_ids t (probe_at x i) \<notin> {x, 0}"
    using probe_stops [OF ok, of x] by metis
  note at = id_insert_at [OF p] and c = card_ids [OF ok]
  consider (known) "request_ids t (probe_at x p) = x" | (full) "request_ids t (probe_at x p) = 0" "request_id_count t \<ge> MAX_REQUEST_IDS"
    | (new) "request_ids t (probe_at x p) = 0" "request_id_count t < MAX_REQUEST_IDS" using p(2) by fastforce
  then show ?thesis
  proof cases
    case known
    then have "x \<in> ids t" using x by (auto simp: ids_def intro!: exI [of _ "probe_at x p"])
    then show ?thesis using at known ins ok by simp
  next
    case full
    then show ?thesis using at ins ok c by simp
  next
    case new
    have n: "x \<notin> ids t" using known_found [OF ok x _ p] new(1) x by auto
    note k = id_ok_insert [OF ok x n new(2) p(1) new(1) p(3)]
    show ?thesis using at new ins x c n k by auto
  qed
qed

interpretation session_ids: bounded_set id_insert ids id_ok "\<lambda>x. x \<noteq> 0" MAX_REQUEST_IDS
proof
  show "finite (ids t)" for t :: "'a id_table_scheme" by (simp add: ids_image)
qed (rule id_insert_spec)

text \<open>
  C25. Request identifiers.  However many identifiers a session sends, the hash table accepts exactly the first occurrence of each, up to
  its limit of 8192: no identifier is lost to a collision, none is accepted twice, and none is refused while there is room.
\<close>

theorem request_ids_exact:
  assumes "list_all (\<lambda>x. x \<noteq> 0) xs"
  shows "accepted id_insert xs no_ids = take 8192 (first_of_each {} xs)"
proof -
  have e: "ids no_ids = {}" by (auto simp: ids_def no_ids_def)
  have "id_ok no_ids" by (simp add: id_ok_def no_ids_def)
  from session_ids.accepted_first [OF this assms] show ?thesis by (simp add: e)
qed

theorem request_ids_exact_witness: "accepted id_insert [7, 9, 7, 16391] no_ids = [7, 9, 16391]"
  using request_ids_exact [of "[7, 9, 7, 16391]"] by simp

end
