(* ===== verification/DebugServer.thy ===== *)
theory DebugServer
  imports Debugger JsonDocument JsonWriter IdTable
begin

text \<open>
  The debug server (\<^verbatim>\<open>emu_debug_server.c\<close>): requests and responses as lines of JSON, a session that starts with a greeting, and one
  handler per command above the debugger.  What the host contributes to a request is the record \<open>server_host\<close>; the commit the
  program was built from is an argument.  A function that the model cannot show to return yields \<open>None\<close>.
\<close>

subsection \<open>Data\<close>

record request =
  req_id :: u64
  req_command :: string
  req_arguments :: int

record server = id_table +
  srv_debugger :: em8051_debugger
  srv_first_command :: bool
  srv_hello_complete :: bool
  srv_terminate :: bool
  srv_fatal_after_response :: bool

text \<open>
  The host during one request: allocation by size, the file behind a path, the contents of fresh stack memory, whether
  the decoder's buffer is allocated and whether writing to the standard output succeeds.
\<close>

record server_host =
  sh_malloc :: "nat \<Rightarrow> bool"
  sh_file :: "string \<Rightarrow> host_file"
  sh_context :: sha256_context
  sh_rand :: u8
  sh_window :: bool
  sh_replacement :: "nat \<Rightarrow> u8"
  sh_records :: "em8051_debug_decoded list"
  sh_writes :: bool

subsection \<open>Responses\<close>

definition empty_output :: json_output where
  "empty_output = \<lparr>out_data = [], out_failed = False\<rparr>"

definition response_prefix :: "request \<Rightarrow> bool \<Rightarrow> json_output" where
  "response_prefix aRequest aSuccess = outputs
     [output_format (''{\"type\":\"response\",\"id\":'' @ dec_digits (unat (req_id aRequest)) @ '',\"command\":''),
      output_string (req_command aRequest),
      output_raw (if aSuccess then '',\"success\":true,\"body\":'' else '',\"success\":false,\"error\":'')] empty_output"

definition response_error :: "request \<Rightarrow> string \<Rightarrow> string \<Rightarrow> json_output" where
  "response_error aRequest aCode aMessage = outputs
     [output_raw ''{\"code\":'', output_string aCode, output_raw '',\"message\":'', output_string aMessage,
      output_raw '',\"retryable\":false,\"data\":{}}}''] (response_prefix aRequest False)"

text \<open>The line that is written, if writing succeeds.\<close>

definition response_write :: "bool \<Rightarrow> request \<Rightarrow> json_output \<Rightarrow> string option" where
  "response_write writes aRequest aOutput =
     (let out = (if out_failed aOutput then response_error aRequest ''RESPONSE_TOO_LARGE'' ''response exceeds maxRecordBytes'' else aOutput)
      in if out_failed out \<or> length (out_data out) > 65536 \<or> \<not> writes then None else Some (out_data out))"

definition registers_json :: "em8051_debug_snapshot \<Rightarrow> json_output \<Rightarrow> json_output" where
  "registers_json s = fold (\<lambda>i out. output_format (dec_digits (unat (sn_r s ! i))) (if i \<noteq> 0 then output_raw '','' out else out)) [0..<8]"

definition snapshot_json :: "em8051_debug_snapshot \<Rightarrow> json_output \<Rightarrow> json_output" where
  "snapshot_json s = outputs (
     [output_raw ''{\"state\":\"idle\",\"resultKind\":'',
      output_string (if sn_result_kind s = EM8051_DEBUG_YIELD then ''yield'' else ''architectural-stop''),
      output_raw '',\"reason\":'', output_string (em8051_debug_reason_name (sn_reason s)),
      output_format ('',\"pc\":'' @ dec_digits (unat (sn_pc s)) @ '',\"registers\":{\"a\":'' @ dec_digits (unat (sn_a s)) @ '',\"b\":'' @ dec_digits (unat (sn_b s)) @
        '',\"psw\":'' @ dec_digits (unat (sn_psw s)) @ '',\"sp\":'' @ dec_digits (unat (sn_sp s)) @ '',\"dptr\":'' @ dec_digits (unat (sn_dptr s)) @ '',\"r\":[''),
      registers_json s,
      output_raw '']},\"variant\":'', output_string (em8051_debug_variant_name (sn_variant s)),
      output_format ('',\"instructionCount\":'' @ dec_digits (unat (sn_instruction_count s)) @ '',\"machineCycleCount\":'' @ dec_digits (unat (sn_machine_cycle_count s)))] @
     (if sn_reason s = EM8051_DEBUG_REASON_EXCEPTION
      then [output_raw '',\"exception\":{\"code\":'', output_string (em8051_debug_exception_code (sn_exception_code s)),
            output_raw '',\"message\":'', output_string (em8051_debug_exception_message (sn_exception_code s)), output_raw ''}'']
      else []) @
     [output_raw ''}''])"

subsection \<open>Requests\<close>

definition request_parse :: "(nat \<Rightarrow> bool) \<Rightarrow> json_document \<Rightarrow> request option" where
  "request_parse malloc_ok d =
     (if tok_type (doc_tokens d ! 0) \<noteq> JSON_OBJECT then None
      else
        let type = json_member malloc_ok d 0 ''type'';
            ident = json_member malloc_ok d 0 ''id'';
            command = json_member malloc_ok d 0 ''command'';
            arguments = json_member malloc_ok d 0 ''arguments''
        in if type < 0 \<or> ident < 0 \<or> command < 0 \<or> arguments = -2 \<or> \<not> token_raw_equals d type ''request'' then None
           else case json_integer d ident 1 9007199254740991 of
             None \<Rightarrow> None
           | Some numeric_id \<Rightarrow>
               (case json_string d command 64 of
                  None \<Rightarrow> None
                | Some name \<Rightarrow>
                    if text_at name 0 = CHR 0x00 \<or> arguments \<ge> 0 \<and> tok_type (doc_tokens d ! nat arguments) \<noteq> JSON_OBJECT then None
                    else Some \<lparr>req_id = word_of_int numeric_id, req_command = name, req_arguments = arguments\<rparr>))"

definition argument_integer :: "(nat \<Rightarrow> bool) \<Rightarrow> json_document \<Rightarrow> request \<Rightarrow> string \<Rightarrow> int \<Rightarrow> nat \<Rightarrow> int option" where
  "argument_integer malloc_ok d aRequest aName aMinimum aMaximum =
     (if req_arguments aRequest < 0 then None
      else let token = json_member malloc_ok d (req_arguments aRequest) aName
           in if token \<ge> 0 then json_integer d token aMinimum aMaximum else None)"

definition debug_status_code :: "em8051_debug_status \<Rightarrow> string" where
  "debug_status_code aStatus =
     (case aStatus of
        EM8051_DEBUG_INVALID_ARGUMENT \<Rightarrow> ''INVALID_REQUEST'' | EM8051_DEBUG_INVALID_STATE \<Rightarrow> ''INVALID_STATE'' | EM8051_DEBUG_IMAGE_READ \<Rightarrow> ''IMAGE_READ''
      | EM8051_DEBUG_IMAGE_SIZE \<Rightarrow> ''IMAGE_SIZE'' | EM8051_DEBUG_IMAGE_HASH \<Rightarrow> ''IMAGE_HASH'' | EM8051_DEBUG_RANGE \<Rightarrow> ''RANGE''
      | EM8051_DEBUG_BREAKPOINT_LIMIT \<Rightarrow> ''BREAKPOINT_LIMIT'' | EM8051_DEBUG_INTERNAL \<Rightarrow> ''INTERNAL_ERROR'' | _ \<Rightarrow> ''INTERNAL_ERROR'')"

definition debug_status_message :: "em8051_debug_status \<Rightarrow> string" where
  "debug_status_message aStatus =
     (case aStatus of
        EM8051_DEBUG_INVALID_ARGUMENT \<Rightarrow> ''invalid command arguments'' | EM8051_DEBUG_INVALID_STATE \<Rightarrow> ''no valid instruction boundary is available''
      | EM8051_DEBUG_IMAGE_READ \<Rightarrow> ''raw image could not be read'' | EM8051_DEBUG_IMAGE_SIZE \<Rightarrow> ''raw image must be exactly 65536 bytes''
      | EM8051_DEBUG_IMAGE_HASH \<Rightarrow> ''raw image SHA-256 does not match'' | EM8051_DEBUG_RANGE \<Rightarrow> ''requested CODE window leaves uint16 range''
      | EM8051_DEBUG_BREAKPOINT_LIMIT \<Rightarrow> ''CODE breakpoint limit exceeded'' | _ \<Rightarrow> ''internal emulator error'')"

definition status_error :: "request \<Rightarrow> em8051_debug_status \<Rightarrow> json_output" where
  "status_error aRequest status = response_error aRequest (debug_status_code status) (debug_status_message status)"

definition capabilities :: "string list" where
  "capabilities = [''rawCode64k'', ''deterministicReset'', ''snapshotBasicRegisters'', ''decodeCode'', ''replaceCodeBreakpoints'', ''boundedRun'', ''stepInstruction'']"

definition capability_supported :: "string \<Rightarrow> bool" where
  "capability_supported aCapability = list_ex (\<lambda>c. aCapability = c) capabilities"

definition lowercase_sha256 :: "string \<Rightarrow> bool" where
  "lowercase_sha256 aDigest \<longleftrightarrow> length aDigest = 64 \<and>
     list_all (\<lambda>ch. (48 :: nat) \<le> of_char ch \<and> of_char ch \<le> (57 :: nat) \<or> (97 :: nat) \<le> of_char ch \<and> of_char ch \<le> (102 :: nat)) aDigest"

subsection \<open>The greeting\<close>

text \<open>The walk over the required capabilities; the value is the error, if there is one.\<close>

function required_loop :: "json_document \<Rightarrow> int \<Rightarrow> int \<Rightarrow> (string \<times> string) option" where
  "required_loop d required_end cursor =
     (if cursor < doc_count d \<and> tok_start (doc_tokens d ! nat cursor) < required_end then
        (case json_string d cursor 64 of
           None \<Rightarrow> Some (''INVALID_REQUEST'', ''requiredCapabilities must contain strings'')
         | Some capability \<Rightarrow>
             if \<not> capability_supported capability then Some (''UNSUPPORTED_CAPABILITY'', ''unsupported required capability'')
             else required_loop d required_end (json_next d cursor))
      else None)"
  by auto
termination
proof (relation "measure (\<lambda>(d, e, cursor). nat (doc_count d - cursor))", goal_cases)
  case (2 d e cursor)
  then show ?case using json_next_ge [of cursor d] by auto
qed simp

declare required_loop.simps [simp del]

definition hello_arguments :: "(nat \<Rightarrow> bool) \<Rightarrow> json_document \<Rightarrow> request \<Rightarrow> (int \<times> int) option" where
  "hello_arguments malloc_ok d r =
     (if req_arguments r < 0 then None
      else
        let protocol = json_member malloc_ok d (req_arguments r) ''protocol''
        in if protocol < 0 \<or> tok_type (doc_tokens d ! nat protocol) \<noteq> JSON_OBJECT then None
           else
             let major = json_member malloc_ok d protocol ''major''; minor = json_member malloc_ok d protocol ''minor''
             in if major < 0 \<or> minor < 0 then None
                else case json_integer d major 0 65535 of
                  None \<Rightarrow> None
                | Some numeric_major \<Rightarrow>
                    if json_integer d minor 0 65535 = None then None
                    else
                      let required = json_member malloc_ok d (req_arguments r) ''requiredCapabilities''
                      in if required < 0 \<or> tok_type (doc_tokens d ! nat required) \<noteq> JSON_ARRAY then None
                         else Some (numeric_major, required))"

definition handle_hello :: "string \<Rightarrow> server_host \<Rightarrow> json_document \<Rightarrow> request \<Rightarrow> server \<Rightarrow> json_output \<times> server" where
  "handle_hello commit h d r srv =
     (case hello_arguments (sh_malloc h) d r of
        None \<Rightarrow> (response_error r ''INVALID_REQUEST'' ''invalid hello arguments'', srv)
      | Some (numeric_major, required) \<Rightarrow>
          if numeric_major \<noteq> 1
          then (response_error r ''UNSUPPORTED_PROTOCOL'' ''unsupported emu-debug protocol major'', srv\<lparr>srv_fatal_after_response := True\<rparr>)
          else case required_loop d (tok_end (doc_tokens d ! nat required)) (required + 1) of
            Some (code, message) \<Rightarrow> (response_error r code message, srv)
          | None \<Rightarrow>
              (outputs
                 [output_raw ''{\"protocol\":{\"major\":1,\"minor\":0},\"product\":\"emuSA80535-N\",\"productVersion\":\"1.0.0\",\"commit\":'',
                  output_string commit,
                  output_raw ('',\"variants\":[\"sab80535\"],\"capabilities\":[\"rawCode64k\",\"deterministicReset\",'' @
                    ''\"snapshotBasicRegisters\",\"decodeCode\",\"replaceCodeBreakpoints\",\"boundedRun\",'' @
                    ''\"stepInstruction\"],\"limits\":{\"maxBreakpoints\":1024,\"maxRunChunkInstructions\":1000000,'' @
                    ''\"maxDisassembleInstructions\":256,\"maxRecordBytes\":65536}}''),
                  output_raw ''}''] (response_prefix r True), srv\<lparr>srv_hello_complete := True\<rparr>))"

subsection \<open>Commands\<close>

definition load_arguments :: "(nat \<Rightarrow> bool) \<Rightarrow> json_document \<Rightarrow> request \<Rightarrow> (int \<times> string) option" where
  "load_arguments malloc_ok d r =
     (if req_arguments r < 0 then None
      else
        let path_token = json_member malloc_ok d (req_arguments r) ''path'';
            format_token = json_member malloc_ok d (req_arguments r) ''format'';
            hash_token = json_member malloc_ok d (req_arguments r) ''expectedSha256''
        in if path_token < 0 \<or> format_token < 0 \<or> hash_token < 0 then None
           else if json_string d format_token 32 \<noteq> Some ''raw-code-64k'' then None
           else case json_string d hash_token 65 of
             None \<Rightarrow> None
           | Some expected \<Rightarrow> if lowercase_sha256 expected then Some (path_token, expected) else None)"

definition handle_load :: "server_host \<Rightarrow> json_document \<Rightarrow> request \<Rightarrow> server \<Rightarrow> (json_output \<times> server) option" where
  "handle_load h d r srv =
     (case load_arguments (sh_malloc h) d r of
        None \<Rightarrow> Some (response_error r ''INVALID_REQUEST'' ''invalid raw image load arguments'', srv)
      | Some (path_token, expected) \<Rightarrow>
          let capacity = nat (tok_end (doc_tokens d ! nat path_token) - tok_start (doc_tokens d ! nat path_token)) * 3 + 1
          in if \<not> sh_malloc h capacity then Some (response_error r ''INTERNAL_ERROR'' ''path allocation failed'', srv)
             else case json_string d path_token capacity of
               None \<Rightarrow> Some (response_error r ''INVALID_REQUEST'' ''image path is not valid UTF-8 JSON text'', srv)
             | Some path \<Rightarrow>
                 (case em8051_debugger_load (sh_context h) (sh_file h path) path expected (srv_debugger srv) of
                    None \<Rightarrow> None
                  | Some (status, actual, dbg) \<Rightarrow>
                      let srv = srv\<lparr>srv_debugger := dbg\<rparr>
                      in if status \<noteq> EM8051_DEBUG_OK then Some (status_error r status, srv)
                         else Some (outputs [output_raw ''{\"sha256\":'', output_string (case actual of Some a \<Rightarrow> a | None \<Rightarrow> []), output_raw ''}}'']
                                      (response_prefix r True), srv)))"

text \<open>The response to a command that yields a snapshot.\<close>

definition snapshot_response :: "request \<Rightarrow> em8051_debug_status \<Rightarrow> em8051_debug_snapshot option \<Rightarrow> json_output" where
  "snapshot_response r status s =
     (if status \<noteq> EM8051_DEBUG_OK then status_error r status
      else case s of
        Some snapshot \<Rightarrow> outputs [snapshot_json snapshot, output_raw ''}''] (response_prefix r True)
      | None \<Rightarrow> status_error r EM8051_DEBUG_INTERNAL)"

definition handle_reset :: "server_host \<Rightarrow> json_document \<Rightarrow> request \<Rightarrow> server \<Rightarrow> json_output \<times> server" where
  "handle_reset h d r srv =
     (case (argument_integer (sh_malloc h) d r ''seed'' 0 4294967295, argument_integer (sh_malloc h) d r ''entryAddress'' 0 65535) of
        (Some seed, Some entry) \<Rightarrow>
          let (status, s, dbg) = em8051_debugger_reset (sh_rand h) (word_of_int seed) (word_of_int entry) (srv_debugger srv)
          in (snapshot_response r status s, srv\<lparr>srv_debugger := dbg\<rparr>)
      | _ \<Rightarrow> (response_error r ''INVALID_REQUEST'' ''reset requires uint32 seed and uint16 entryAddress'', srv))"

definition handle_state :: "request \<Rightarrow> server \<Rightarrow> json_output \<times> server" where
  "handle_state r srv =
     (let (status, s) = em8051_debugger_get_state (srv_debugger srv) in (snapshot_response r status s, srv))"

definition decoded_json :: "em8051_debug_decoded \<Rightarrow> json_output \<Rightarrow> json_output" where
  "decoded_json x = outputs (
     [output_format (''{\"address\":'' @ dec_digits (unat (dd_address x)) @ '',\"size\":'' @ dec_digits (unat (dd_size x)) @
        '',\"valid\":'' @ (if dd_valid x then ''true'' else ''false'') @ '',\"text\":''),
      output_string (dd_text x)] @
     (if \<not> dd_valid x then [output_raw '',\"reason\":\"unknown-predecessor\"''] else []) @
     [output_raw ''}''])"

definition handle_decode :: "server_host \<Rightarrow> json_document \<Rightarrow> request \<Rightarrow> server \<Rightarrow> json_output \<times> server" where
  "handle_decode h d r srv =
     (case (argument_integer (sh_malloc h) d r ''reference'' 0 65535, argument_integer (sh_malloc h) d r ''byteOffset'' (-65536) 65536,
            argument_integer (sh_malloc h) d r ''instructionOffset'' (-65536) 65536, argument_integer (sh_malloc h) d r ''instructionCount'' 1 256) of
        (Some reference, Some byte_offset, Some instruction_offset, Some n) \<Rightarrow>
          let (status, records, dbg) =
                em8051_debugger_decode_code (sh_window h) (word_of_int reference) byte_offset instruction_offset (nat n) (sh_records h) (srv_debugger srv);
              srv = srv\<lparr>srv_debugger := dbg\<rparr>
          in if status \<noteq> EM8051_DEBUG_OK then (status_error r status, srv)
             else (outputs [output_raw ''{\"instructions\":['',
                      fold (\<lambda>i out. decoded_json (records ! i) (if i \<noteq> 0 then output_raw '','' out else out)) [0..<nat n],
                      output_raw '']}}''] (response_prefix r True), srv)
      | _ \<Rightarrow> (response_error r ''INVALID_REQUEST'' ''invalid decodeCode arguments'', srv))"

function addresses_loop :: "json_document \<Rightarrow> int \<Rightarrow> int \<Rightarrow> u16 list \<Rightarrow> (string \<times> string) + u16 list" where
  "addresses_loop d addresses_end cursor addresses =
     (if cursor < doc_count d \<and> tok_start (doc_tokens d ! nat cursor) < addresses_end then
        if length addresses \<ge> 1024 then Inl (''BREAKPOINT_LIMIT'', ''at most 1024 CODE breakpoints are supported'')
        else case json_integer d cursor 0 65535 of
          None \<Rightarrow> Inl (''INVALID_REQUEST'', ''addresses must be unique uint16 values'')
        | Some v \<Rightarrow> addresses_loop d addresses_end (json_next d cursor) (addresses @ [word_of_int v])
      else Inr addresses)"
  by auto
termination
proof (relation "measure (\<lambda>(d, e, cursor, a). nat (doc_count d - cursor))", goal_cases)
  case (2 d e cursor a v)
  then show ?case using json_next_ge [of cursor d] by auto
qed simp

declare addresses_loop.simps [simp del]

definition handle_breakpoints :: "server_host \<Rightarrow> json_document \<Rightarrow> request \<Rightarrow> server \<Rightarrow> json_output \<times> server" where
  "handle_breakpoints h d r srv =
     (let addresses_token = (if req_arguments r < 0 then -1 else json_member (sh_malloc h) d (req_arguments r) ''addresses'')
      in if addresses_token < 0 \<or> tok_type (doc_tokens d ! nat addresses_token) \<noteq> JSON_ARRAY
         then (response_error r ''INVALID_REQUEST'' ''addresses must be an array'', srv)
         else case addresses_loop d (tok_end (doc_tokens d ! nat addresses_token)) (addresses_token + 1) [] of
           Inl (code, message) \<Rightarrow> (response_error r code message, srv)
         | Inr addresses \<Rightarrow>
             let (status, dbg) = em8051_debugger_replace_breakpoints (sh_replacement h) addresses (srv_debugger srv);
                 srv = srv\<lparr>srv_debugger := dbg\<rparr>
             in if status \<noteq> EM8051_DEBUG_OK
                then (response_error r (debug_status_code status)
                        (if status = EM8051_DEBUG_INVALID_ARGUMENT then ''addresses must be unique uint16 values'' else debug_status_message status), srv)
                else (outputs [output_raw ''{\"accepted\":['',
                         fold (\<lambda>i out. output_format (dec_digits (unat (addresses ! i))) (if i \<noteq> 0 then output_raw '','' out else out)) [0..<length addresses],
                         output_raw ''],\"rejected\":[],\"limit\":1024}}''] (response_prefix r True), srv))"

definition handle_run :: "server_host \<Rightarrow> json_document \<Rightarrow> request \<Rightarrow> server \<Rightarrow> (json_output \<times> server) option" where
  "handle_run h d r srv =
     (case argument_integer (sh_malloc h) d r ''maxInstructions'' 1 1000000 of
        None \<Rightarrow> Some (response_error r ''INVALID_REQUEST'' ''run requires a negotiated positive instruction bound'', srv)
      | Some maximum \<Rightarrow>
          (case em8051_debugger_run (word_of_int maximum) (srv_debugger srv) of
             None \<Rightarrow> None
           | Some (status, s, dbg) \<Rightarrow> Some (snapshot_response r status s, srv\<lparr>srv_debugger := dbg\<rparr>)))"

definition handle_step :: "request \<Rightarrow> server \<Rightarrow> (json_output \<times> server) option" where
  "handle_step r srv =
     (case em8051_debugger_step (srv_debugger srv) of
        None \<Rightarrow> None
      | Some (status, s, dbg) \<Rightarrow> Some (snapshot_response r status s, srv\<lparr>srv_debugger := dbg\<rparr>))"

subsection \<open>Sessions\<close>

definition dispatch_command :: "server_host \<Rightarrow> json_document \<Rightarrow> request \<Rightarrow> server \<Rightarrow> (json_output \<times> server) option" where
  "dispatch_command h d r srv =
     (if req_command r = ''load'' then handle_load h d r srv
      else if req_command r = ''reset'' then Some (handle_reset h d r srv)
      else if req_command r = ''getState'' then Some (handle_state r srv)
      else if req_command r = ''decodeCode'' then Some (handle_decode h d r srv)
      else if req_command r = ''replaceCodeBreakpoints'' then Some (handle_breakpoints h d r srv)
      else if req_command r = ''run'' then handle_run h d r srv
      else if req_command r = ''stepInstruction'' then handle_step r srv
      else if req_command r = ''terminate''
      then Some (outputs [output_raw ''{\"terminated\":true}}''] (response_prefix r True), srv\<lparr>srv_terminate := True\<rparr>)
      else Some (response_error r ''UNSUPPORTED_COMMAND'' ''unsupported emu-debug command'', srv))"

definition dispatch :: "string \<Rightarrow> server_host \<Rightarrow> json_document \<Rightarrow> request \<Rightarrow> server \<Rightarrow> (json_output \<times> server) option" where
  "dispatch commit h d r srv =
     (let (inserted, srv) = id_insert (req_id r) srv
      in if \<not> inserted then Some (response_error r ''INVALID_REQUEST'' ''request id must be positive and unique for the session'', srv)
         else if srv_first_command srv \<and> req_command r \<noteq> ''hello''
         then Some (response_error r ''INVALID_STATE'' ''hello must be the first command'', srv\<lparr>srv_first_command := False\<rparr>)
         else if \<not> srv_first_command srv \<and> req_command r = ''hello''
         then Some (response_error r ''INVALID_STATE'' ''hello is accepted exactly once'', srv)
         else if srv_first_command srv then Some (handle_hello commit h d r (srv\<lparr>srv_first_command := False\<rparr>))
         else if \<not> srv_hello_complete srv
         then Some (response_error r ''INVALID_STATE'' ''hello did not establish a compatible session'', srv)
         else dispatch_command h d r srv)"

text \<open>
  One record: the response that was written, the exit code if the loop ends there, and the server.
\<close>

definition parse_record :: "server_host \<Rightarrow> string \<Rightarrow> (json_document \<times> request) option option" where
  "parse_record h line =
     (if line = [] \<or> \<not> utf8_valid line then Some None
      else case json_syntax_valid line of
        None \<Rightarrow> None
      | Some False \<Rightarrow> Some None
      | Some True \<Rightarrow>
          (case json_parse line 4096 of
             Inl e \<Rightarrow> Some None
           | Inr toks \<Rightarrow>
               let d = \<lparr>doc_text = line, doc_tokens = toks, doc_count = int (length toks)\<rparr>
               in if toks = [] then Some None else Some (case request_parse (sh_malloc h) d of None \<Rightarrow> None | Some r \<Rightarrow> Some (d, r))))"

definition handle_record :: "string \<Rightarrow> server_host \<Rightarrow> string \<Rightarrow> server \<Rightarrow> (string option \<times> int option \<times> server) option" where
  "handle_record commit h line srv =
     (case parse_record h line of
        None \<Rightarrow> None
      | Some None \<Rightarrow> Some (None, Some 65, srv)
      | Some (Some (d, r)) \<Rightarrow>
          (case dispatch commit h d r srv of
             None \<Rightarrow> None
           | Some (out, srv) \<Rightarrow>
               Some (case response_write (sh_writes h) r out of
                       None \<Rightarrow> (None, Some 70, srv)
                     | Some response \<Rightarrow> (Some response, if srv_fatal_after_response srv then Some 65 else None, srv))))"

definition strip_return :: "string \<Rightarrow> string" where
  "strip_return line = (if line \<noteq> [] \<and> last line = CHR 0x0D then butlast line else line)"

text \<open>
  The loop over the bytes of the standard input, with the bytes of the current line and the number of the record; the value is the
  exit code and the responses written.
\<close>

fun protocol_loop :: "string \<Rightarrow> (nat \<Rightarrow> server_host) \<Rightarrow> bool \<Rightarrow> nat \<Rightarrow> string \<Rightarrow> string \<Rightarrow> server \<Rightarrow> (int \<times> string list) option" where
  "protocol_loop commit hosts read_error n line [] srv =
     Some (if srv_terminate srv then 0 else if read_error then 74 else if line \<noteq> [] then 65 else 0, [])"
| "protocol_loop commit hosts read_error n line (ch # input) srv =
     (if srv_terminate srv then Some (0, [])
      else if ch \<noteq> CHR 0x0A then
        (if length line \<ge> 65536 then Some (65, []) else protocol_loop commit hosts read_error n (line @ [ch]) input srv)
      else case handle_record commit (hosts n) (strip_return line) srv of
        None \<Rightarrow> None
      | Some (response, ended, srv) \<Rightarrow>
          let written = (case response of Some x \<Rightarrow> [x] | None \<Rightarrow> [])
          in (case ended of
                Some code \<Rightarrow> Some (code, written)
              | None \<Rightarrow>
                  (case protocol_loop commit hosts read_error (Suc n) [] input srv of
                     None \<Rightarrow> None
                   | Some (code, responses) \<Rightarrow> Some (code, written @ responses))))"

definition new_server :: "em8051_debugger \<Rightarrow> server" where
  "new_server dbg = \<lparr>request_ids = (\<lambda>_. 0), request_id_count = 0, srv_debugger = dbg, srv_first_command = True, srv_hello_complete = False,
     srv_terminate = False, srv_fatal_after_response = False\<rparr>"

text \<open>\<open>allocated\<close> says whether the line buffer and the debugger are allocated, \<open>rand\<close> what the C library's generator yields.\<close>

definition run_protocol :: "string \<Rightarrow> bool \<times> bool \<Rightarrow> u8 \<Rightarrow> (nat \<Rightarrow> server_host) \<Rightarrow> bool \<Rightarrow> string \<Rightarrow> (int \<times> string list) option" where
  "run_protocol commit allocated rand hosts read_error input =
     (case em8051_debugger_create rand (snd allocated) of
        None \<Rightarrow> Some (70, [])
      | Some dbg \<Rightarrow> if \<not> fst allocated then Some (70, []) else protocol_loop commit hosts read_error 0 [] input (new_server dbg))"

text \<open>The program: exit code and lines on the standard output.\<close>

definition main :: "string \<Rightarrow> bool \<times> bool \<Rightarrow> u8 \<Rightarrow> (nat \<Rightarrow> server_host) \<Rightarrow> bool \<Rightarrow> string list \<Rightarrow> string \<Rightarrow> (int \<times> string list) option" where
  "main commit allocated rand hosts read_error arguments input =
     (if arguments = [''--version''] then Some (0, [''emuSA80535-N emu-debug 1.0.0 '' @ commit])
      else if length arguments > 1 \<or> length arguments = 1 \<and> arguments \<noteq> [''--headless-debug''] then Some (64, [])
      else run_protocol commit allocated rand hosts read_error input)"

end
