(* ===== verification/ServerJson.thy ===== *)
theory ServerJson
  imports DebugServer
begin

text \<open>
  The responses of the debug server are JSON: every handler prints one object or overruns the buffer, and what is written in
  place of an overrun always fits.
\<close>

subsection \<open>The frame of a response\<close>

lemma outputs_append: "outputs gs (outputs fs out) = outputs (fs @ gs) out"
  by (simp add: outputs_def)

definition response_object :: "request \<Rightarrow> bool \<Rightarrow> string \<Rightarrow> string" where
  "response_object r success body = object_text
     [(''type'', CHR 0x22 # ''response'' @ [CHR 0x22]), (''id'', dec_digits (unat (req_id r))), (''command'', quoted (req_command r)),
      (''success'', if success then ''true'' else ''false''), (if success then ''body'' else ''error'', body)]"

lemma response_object_text: "value_text (Suc d) body \<Longrightarrow> value_text (Suc (Suc d)) (response_object r success body)"
proof -
  assume "value_text (Suc d) body"
  moreover have "value_text (Suc d) (CHR 0x22 # ''response'' @ [CHR 0x22])" by (rule plain_value_text) simp
  ultimately show ?thesis unfolding response_object_def by (intro object_value_text) (simp del: value_text.simps)
qed

lemma response_object_text5: "value_text 4 body \<Longrightarrow> value_text 5 (response_object r success body)"
  using response_object_text [of 3 body r success] by (simp add: eval_nat_numeral del: value_text.simps)

lemma prints_empty: "prints s f \<Longrightarrow> if length s \<le> 65536 then f empty_output = \<lparr>out_data = s, out_failed = False\<rparr> else out_failed (f empty_output)"
  by (drule prints_def [THEN iffD1, rule_format, of _ _ empty_output]) (simp_all add: empty_output_def split: if_splits)

text \<open>A response is the whole object, or the buffer is marked as overrun.\<close>

lemma response_text:
  assumes "list_all2 prints ss fs" "concat ss = body @ ''}''"
  shows "if length (response_object r success body) \<le> 65536
    then outputs fs (response_prefix r success) = \<lparr>out_data = response_object r success body, out_failed = False\<rparr>
    else out_failed (outputs fs (response_prefix r success))"
proof -
  define ps where "ps = [''{\"type\":\"response\",\"id\":'' @ dec_digits (unat (req_id r)) @ '',\"command\":'', quoted (req_command r),
    if success then '',\"success\":true,\"body\":'' else '',\"success\":false,\"error\":'']"
  define gs where "gs = [output_format (''{\"type\":\"response\",\"id\":'' @ dec_digits (unat (req_id r)) @ '',\"command\":''), output_string (req_command r),
    output_raw (if success then '',\"success\":true,\"body\":'' else '',\"success\":false,\"error\":'')]"
  have "list_all2 prints ps gs" by (simp add: ps_def gs_def prints_format prints_string prints_raw)
  then have "list_all2 prints (ps @ ss) (gs @ fs)" using assms(1) by (rule list_all2_appendI)
  moreover have "concat (ps @ ss) = response_object r success body" using assms(2) by (simp add: ps_def response_object_def object_text_def)
  ultimately have "prints (response_object r success body) (outputs (gs @ fs))" by (rule prints_outputs)
  from prints_empty [OF this] show ?thesis by (simp only: response_prefix_def gs_def [symmetric] outputs_append)
qed

subsection \<open>The responses\<close>

lemma empty_object_text: "value_text (Suc d) ''{}''"
  using object_value_text [of d "[]"] by (simp add: object_text_def del: value_text.simps)

text \<open>
  An output answers a request when it is the request's response around one JSON value, or overran the buffer.  Responses nest
  at most five deep, so their bodies four.
\<close>

definition answers :: "request \<Rightarrow> json_output \<Rightarrow> bool" where
  "answers r out \<longleftrightarrow> out_failed out \<or>
     (\<exists>success body. out = \<lparr>out_data = response_object r success body, out_failed = False\<rparr> \<and> value_text 4 body \<and> length (response_object r success body) \<le> 65536)"

lemma answersI:
  "(if length (response_object r success body) \<le> 65536 then out = \<lparr>out_data = response_object r success body, out_failed = False\<rparr> else out_failed out) \<Longrightarrow>
   value_text 4 body \<Longrightarrow> answers r out"
  by (auto simp: answers_def split: if_splits)

lemma response_answers:
  assumes "list_all2 prints ss fs" "concat ss = body @ ''}''" "value_text 4 body"
  shows "answers r (outputs fs (response_prefix r success))"
  by (rule answersI [OF response_text [OF assms(1,2)] assms(3)])

lemma object_text4: "list_all (\<lambda>(k, v). plain_key k \<and> value_text 3 v) kvs \<Longrightarrow> value_text 4 (object_text kvs)"
  using object_value_text [of 3 kvs] by (simp add: eval_nat_numeral del: value_text.simps)

lemma value_text3 [simp]: "value_text 3 (dec_digits n)" "value_text 3 (quoted s)" "value_text 3 ''true''" "value_text 3 ''false''" "value_text 3 ''{}''"
  by (simp_all add: numeral_3_eq_3 empty_object_text del: value_text.simps)

lemma plain_text3: "plain_key k \<Longrightarrow> value_text 3 (CHR 0x22 # k @ [CHR 0x22])"
  unfolding numeral_3_eq_3 by (rule plain_value_text)

definition error_object :: "string \<Rightarrow> string \<Rightarrow> string" where
  "error_object code message = object_text [(''code'', quoted code), (''message'', quoted message), (''retryable'', ''false''), (''data'', ''{}'')]"

lemma error_text:
  "if length (response_object r False (error_object code message)) \<le> 65536
   then response_error r code message = \<lparr>out_data = response_object r False (error_object code message), out_failed = False\<rparr>
   else out_failed (response_error r code message)"
  unfolding response_error_def
  by (rule response_text, (rule list.rel_intros prints_raw prints_string)+) (simp add: error_object_def object_text_def)

lemma error_object_text: "value_text 4 (error_object code message)"
  unfolding error_object_def by (rule object_text4) simp

lemma error_answers: "answers r (response_error r code message)"
  by (rule answersI [OF error_text error_object_text])

lemma status_error_answers: "answers r (status_error r status)"
  unfolding status_error_def by (rule error_answers)

definition register_texts :: "em8051_debug_snapshot \<Rightarrow> string list" where
  "register_texts s = map (\<lambda>i. dec_digits (unat (sn_r s ! i))) [0..<8]"

lemma prints_comma_items:
  assumes "\<And>i. prints (t i) (f i)"
  shows "prints (joined (map t [0..<n])) (fold (\<lambda>i out. f i (if i \<noteq> 0 then output_raw '','' out else out)) [0..<n])"
proof (rule prints_items)
  fix i
  show "prints ((if i = 0 then [] else '','') @ t i) (\<lambda>out. f i (if i \<noteq> 0 then output_raw '','' out else out))"
    by (rule prints_comp [OF _ assms]) (cases i, simp_all add: prints_id prints_raw)
qed

lemma prints_registers: "prints (joined (register_texts s)) (registers_json s)"
  unfolding register_texts_def registers_json_def by (rule prints_comma_items) (rule prints_format)

definition snapshot_object :: "em8051_debug_snapshot \<Rightarrow> string" where
  "snapshot_object s = object_text (
     [(''state'', CHR 0x22 # ''idle'' @ [CHR 0x22]), (''resultKind'', quoted (if sn_result_kind s = EM8051_DEBUG_YIELD then ''yield'' else ''architectural-stop'')),
      (''reason'', quoted (em8051_debug_reason_name (sn_reason s))), (''pc'', dec_digits (unat (sn_pc s))),
      (''registers'', object_text [(''a'', dec_digits (unat (sn_a s))), (''b'', dec_digits (unat (sn_b s))), (''psw'', dec_digits (unat (sn_psw s))),
         (''sp'', dec_digits (unat (sn_sp s))), (''dptr'', dec_digits (unat (sn_dptr s))), (''r'', array_text (register_texts s))]),
      (''variant'', quoted (em8051_debug_variant_name (sn_variant s))), (''instructionCount'', dec_digits (unat (sn_instruction_count s))),
      (''machineCycleCount'', dec_digits (unat (sn_machine_cycle_count s)))] @
     (if sn_reason s = EM8051_DEBUG_REASON_EXCEPTION
      then [(''exception'', object_text [(''code'', quoted (em8051_debug_exception_code (sn_exception_code s))),
              (''message'', quoted (em8051_debug_exception_message (sn_exception_code s)))])]
      else []))"

lemma snapshot_object_text: "value_text 4 (snapshot_object s)"
proof -
  have r: "value_text (Suc (Suc d)) (array_text (register_texts s))" for d by (rule array_value_text) (simp add: register_texts_def list_all_iff del: value_text.simps)
  have g: "value_text 3 (object_text [(''a'', dec_digits (unat (sn_a s))), (''b'', dec_digits (unat (sn_b s))), (''psw'', dec_digits (unat (sn_psw s))),
         (''sp'', dec_digits (unat (sn_sp s))), (''dptr'', dec_digits (unat (sn_dptr s))), (''r'', array_text (register_texts s))])"
    unfolding numeral_3_eq_3 by (rule object_value_text) (simp add: r del: value_text.simps)
  have x: "value_text 3 (object_text [(''code'', quoted c), (''message'', quoted m)])" for c m
    unfolding numeral_3_eq_3 by (rule object_value_text) (simp del: value_text.simps)
  have i: "value_text 3 (CHR 0x22 # ''idle'' @ [CHR 0x22])" by (rule plain_text3) simp
  show ?thesis unfolding snapshot_object_def using g x i by (intro object_text4) simp
qed

lemma prints_snapshot: "prints (snapshot_object s) (snapshot_json s)"
proof (cases "sn_reason s = EM8051_DEBUG_REASON_EXCEPTION")
  case True
  show ?thesis unfolding snapshot_json_def
    by (simp only: True simp_thms if_True append_Cons append_Nil, rule prints_outputs, (rule list.rel_intros prints_raw prints_string prints_format prints_registers)+)
      (simp add: snapshot_object_def object_text_def array_text_def True)
next
  case False
  show ?thesis unfolding snapshot_json_def
    by (simp only: False if_False append_Cons append_Nil, rule prints_outputs, (rule list.rel_intros prints_raw prints_string prints_format prints_registers)+)
      (simp add: snapshot_object_def object_text_def array_text_def False)
qed

lemma snapshot_response_answers: "answers r (snapshot_response r status s)"
proof (cases s)
  case (Some x)
  have "answers r (outputs [snapshot_json x, output_raw ''}''] (response_prefix r True))"
    by (rule response_answers [OF _ _ snapshot_object_text [of x]], (rule list.rel_intros prints_raw prints_snapshot)+) simp
  then show ?thesis using Some status_error_answers by (simp add: snapshot_response_def)
qed (simp add: snapshot_response_def status_error_answers)

subsection \<open>The handlers\<close>

lemma load_answers:
  assumes "handle_load h d r srv = Some (out, srv')"
  shows "answers r out"
proof -
  have ok: "answers r (outputs [output_raw ''{\"sha256\":'', output_string a, output_raw ''}}''] (response_prefix r True))" for a
  proof -
    have b: "value_text 4 (object_text [(''sha256'', quoted a)])" by (rule object_text4) simp
    show ?thesis by (rule response_answers [OF _ _ b], (rule list.rel_intros prints_raw prints_string)+) (simp add: object_text_def)
  qed
  show ?thesis using assms error_answers status_error_answers ok
    by (auto simp: handle_load_def Let_def split: option.splits prod.splits if_splits)
qed

lemma reset_answers: "answers r (fst (handle_reset h d r srv))"
  by (simp add: handle_reset_def error_answers snapshot_response_answers split: option.split prod.split)

lemma state_answers: "answers r (fst (handle_state r srv))"
  by (simp add: handle_state_def snapshot_response_answers split: prod.split)

lemma run_answers: "handle_run h d r srv = Some (out, srv') \<Longrightarrow> answers r out"
  using error_answers snapshot_response_answers by (auto simp: handle_run_def split: option.splits)

lemma step_answers: "handle_step r srv = Some (out, srv') \<Longrightarrow> answers r out"
  using snapshot_response_answers by (auto simp: handle_step_def split: option.splits)

definition decoded_object :: "em8051_debug_decoded \<Rightarrow> string" where
  "decoded_object x = object_text (
     [(''address'', dec_digits (unat (dd_address x))), (''size'', dec_digits (unat (dd_size x))),
      (''valid'', if dd_valid x then ''true'' else ''false''), (''text'', quoted (dd_text x))] @
     (if dd_valid x then [] else [(''reason'', CHR 0x22 # ''unknown-predecessor'' @ [CHR 0x22])]))"

lemma prints_decoded: "prints (decoded_object x) (decoded_json x)"
proof (cases "dd_valid x")
  case True
  show ?thesis unfolding decoded_json_def
    by (simp only: True simp_thms if_True if_False append_Cons append_Nil, rule prints_outputs, (rule list.rel_intros prints_raw prints_string prints_format)+)
      (simp add: decoded_object_def object_text_def True)
next
  case False
  show ?thesis unfolding decoded_json_def
    by (simp only: False simp_thms if_True if_False append_Cons append_Nil, rule prints_outputs, (rule list.rel_intros prints_raw prints_string prints_format)+)
      (simp add: decoded_object_def object_text_def False)
qed

lemma decoded_object_text: "value_text (Suc (Suc d)) (decoded_object x)"
proof -
  have "value_text (Suc d) (CHR 0x22 # ''unknown-predecessor'' @ [CHR 0x22])" by (rule plain_value_text) simp
  then show ?thesis unfolding decoded_object_def by (intro object_value_text) (simp del: value_text.simps)
qed

lemma array_text3: "list_all (value_text 2) vs \<Longrightarrow> value_text 3 (array_text vs)"
  using array_value_text [of 2 vs] by (simp add: eval_nat_numeral del: value_text.simps)

lemma decode_answers: "answers r (fst (handle_decode h d r srv))"
proof -
  have ok: "answers r (outputs [output_raw ''{\"instructions\":['',
      fold (\<lambda>i out. decoded_json (records ! i) (if i \<noteq> 0 then output_raw '','' out else out)) [0..<n], output_raw '']}}''] (response_prefix r True))" for records n
  proof -
    let ?t = "map (\<lambda>i. decoded_object (records ! i)) [0..<n]"
    have "value_text 3 (array_text ?t)" by (rule array_text3) (simp add: list_all_iff numeral_2_eq_2 decoded_object_text del: value_text.simps)
    then have b: "value_text 4 (object_text [(''instructions'', array_text ?t)])" by (intro object_text4) simp
    show ?thesis
      by (rule response_answers [OF _ _ b], (rule list.rel_intros prints_raw prints_comma_items prints_decoded)+) (simp add: object_text_def array_text_def)
  qed
  show ?thesis using ok by (simp add: handle_decode_def error_answers status_error_answers Let_def split: option.split prod.split)
qed

lemma breakpoints_answers: "answers r (fst (handle_breakpoints h d r srv))"
proof -
  have ok: "answers r (outputs [output_raw ''{\"accepted\":['',
      fold (\<lambda>i out. output_format (dec_digits (unat (addresses ! i))) (if i \<noteq> 0 then output_raw '','' out else out)) [0..<n],
      output_raw ''],\"rejected\":[],\"limit\":1024}}''] (response_prefix r True))" for addresses :: "u16 list" and n
  proof -
    let ?t = "map (\<lambda>i. dec_digits (unat (addresses ! i))) [0..<n]"
    have a: "value_text 3 (array_text ?t)" by (rule array_text3) (simp add: list_all_iff numeral_2_eq_2 del: value_text.simps)
    have "value_text 3 (array_text [])" by (rule array_text3) simp
    moreover have "dec_digits 1024 = ''1024''" by code_simp
    ultimately have b: "value_text 4 (object_text [(''accepted'', array_text ?t), (''rejected'', ''[]''), (''limit'', ''1024'')])"
      using a value_text3(1) [of 1024] by (intro object_text4) (simp add: array_text_def)
    show ?thesis
      by (rule response_answers [OF _ _ b], (rule list.rel_intros prints_raw prints_comma_items prints_format)+) (simp add: object_text_def array_text_def)
  qed
  show ?thesis using ok by (simp add: handle_breakpoints_def error_answers status_error_answers Let_def split: sum.split prod.split)
qed

definition string_texts :: "string list \<Rightarrow> string list" where
  "string_texts ss = map (\<lambda>s. CHR 0x22 # s @ [CHR 0x22]) ss"

lemma string_texts_text: "list_all plain_key ss \<Longrightarrow> list_all (value_text (Suc d)) (string_texts ss)"
  using plain_value_text by (simp add: string_texts_def list_all_iff del: value_text.simps)

lemma dec_digits_limits: "dec_digits (Suc 0) = ''1''" "dec_digits 0 = ''0''" "dec_digits 1024 = ''1024''" "dec_digits 1000000 = ''1000000''" "dec_digits 256 = ''256''" "dec_digits 65536 = ''65536''"
  by (simp_all add: dec_digits.simps dec_digit_def)

definition hello_object :: "string \<Rightarrow> string" where
  "hello_object commit = object_text
     [(''protocol'', object_text [(''major'', dec_digits (Suc 0)), (''minor'', dec_digits 0)]), (''product'', CHR 0x22 # ''emuSA80535-N'' @ [CHR 0x22]),
      (''productVersion'', CHR 0x22 # ''1.0.0'' @ [CHR 0x22]), (''commit'', quoted commit), (''variants'', array_text (string_texts [''sab80535''])),
      (''capabilities'', array_text (string_texts capabilities)),
      (''limits'', object_text [(''maxBreakpoints'', dec_digits 1024), (''maxRunChunkInstructions'', dec_digits 1000000),
         (''maxDisassembleInstructions'', dec_digits 256), (''maxRecordBytes'', dec_digits 65536)])]"

lemma hello_object_text: "value_text 4 (hello_object commit)"
proof -
  have o: "value_text 3 (object_text kvs)" if "list_all (\<lambda>(k, v). plain_key k \<and> value_text 2 v) kvs" for kvs
    using object_value_text [of 2 kvs] that by (simp add: eval_nat_numeral del: value_text.simps)
  have v: "value_text 2 (dec_digits n)" for n by (simp add: numeral_2_eq_2 del: value_text.simps)
  have "value_text 3 (array_text (string_texts ss))" if "list_all plain_key ss" for ss
    using string_texts_text [OF that, of 1] by (intro array_text3) (simp add: eval_nat_numeral del: value_text.simps)
  moreover have "value_text 3 (CHR 0x22 # ''emuSA80535-N'' @ [CHR 0x22])" "value_text 3 (CHR 0x22 # ''1.0.0'' @ [CHR 0x22])"
    by (rule plain_text3, simp)+
  ultimately show ?thesis unfolding hello_object_def by (intro object_text4) (simp add: o v capabilities_def)
qed

lemma hello_answers: "answers r (fst (handle_hello commit h d r srv))"
proof -
  have ok: "answers r (outputs
     [output_raw ''{\"protocol\":{\"major\":1,\"minor\":0},\"product\":\"emuSA80535-N\",\"productVersion\":\"1.0.0\",\"commit\":'',
      output_string commit,
      output_raw ('',\"variants\":[\"sab80535\"],\"capabilities\":[\"rawCode64k\",\"deterministicReset\",'' @
        ''\"snapshotBasicRegisters\",\"decodeCode\",\"replaceCodeBreakpoints\",\"boundedRun\",'' @
        ''\"stepInstruction\"],\"limits\":{\"maxBreakpoints\":1024,\"maxRunChunkInstructions\":1000000,'' @
        ''\"maxDisassembleInstructions\":256,\"maxRecordBytes\":65536}}''),
      output_raw ''}''] (response_prefix r True))"
    by (rule response_answers [OF _ _ hello_object_text [of commit]], (rule list.rel_intros prints_raw prints_string)+)
      (simp add: hello_object_def object_text_def array_text_def string_texts_def capabilities_def dec_digits_limits)
  show ?thesis by (simp add: handle_hello_def error_answers ok [simplified] split: option.split prod.split)
qed

lemma terminate_answers: "answers r (outputs [output_raw ''{\"terminated\":true}}''] (response_prefix r True))"
proof -
  have b: "value_text 4 (object_text [(''terminated'', ''true'')])" by (rule object_text4) simp
  show ?thesis by (rule response_answers [OF _ _ b], (rule list.rel_intros prints_raw)+) (simp add: object_text_def)
qed

lemma dispatch_command_answers: "dispatch_command h d r srv = Some (out, srv') \<Longrightarrow> answers r out"
  using load_answers reset_answers [of r h d srv] state_answers [of r srv] decode_answers [of r h d srv] breakpoints_answers [of r h d srv]
    run_answers step_answers terminate_answers [of r] error_answers [of r]
  by (auto simp: dispatch_command_def split: if_splits)

lemma dispatch_answers: "dispatch commit h d r srv = Some (out, srv') \<Longrightarrow> answers r out"
proof -
  assume a: "dispatch commit h d r srv = Some (out, srv')"
  obtain ok s where i: "id_insert (req_id r) srv = (ok, s)" by fastforce
  have "answers r o'" if "handle_hello commit h d r x = (o', s')" for o' s' x
    using hello_answers [of r commit h d x] that by simp
  then show ?thesis using a error_answers [of r] dispatch_command_answers by (auto simp: dispatch_def i split: if_splits)
qed

subsection \<open>What is written\<close>

lemma escape_byte_length: "length (escape_byte v) \<le> 6"
  by (simp add: escape_byte_def)

lemma escaped_length: "length (escaped s) \<le> 6 * length s"
  using escape_byte_length by (induction s) (simp_all add: add_mono)

lemma quoted_length: "length (quoted s) \<le> 6 * length s + 2"
  using escaped_length [of "takeWhile (\<lambda>ch. ch \<noteq> CHR 0x00) s"] length_takeWhile_le [of "\<lambda>ch. ch \<noteq> CHR 0x00" s] by (simp add: quoted_def)

lemma append_utf8_length: "append_utf8 capacity cp out = Some out' \<Longrightarrow> length out' < capacity"
  by (auto simp: append_utf8_def split: option.splits if_splits)

lemma decode_loop_length: "decode_loop t e capacity a i out = Some s \<Longrightarrow> length out < capacity \<Longrightarrow> length s < capacity"
proof (induction t e capacity a i out rule: decode_loop.induct)
  case (1 t e capacity a i out)
  note step = 1(4) [unfolded decode_loop.simps [of t e capacity a i out]]
  consider "i \<ge> e" | "i < e" "text_at t i \<noteq> CHR 0x5C" | "i < e" "text_at t i = CHR 0x5C" "text_at t (i + 1) = CHR ''u''"
    | "i < e" "text_at t i = CHR 0x5C" "text_at t (i + 1) \<noteq> CHR ''u''"
    using leI by blast
  then show ?case
  proof cases
    case 3
    then obtain cp j out' where "decode_unicode t e (i + 2) = Some (cp, j)" "\<not> (cp = 0 \<and> \<not> a)" "append_utf8 capacity cp out = Some out'"
      "decode_loop t e capacity a j out' = Some s" using step by (auto simp: Let_def split: option.splits if_splits)
    then show ?thesis using 1(2) [OF _ refl] 3 append_utf8_length by simp
  next
    case 4
    then obtain x where "decode_escape (text_at t (i + 1)) = Some x" "\<not> length out + 1 \<ge> capacity" "decode_loop t e capacity a (i + 2) (out @ [x]) = Some s"
      using step by (auto simp: Let_def split: option.splits if_splits)
    then show ?thesis using 1(3) [OF _ refl] 4 by simp
  qed (use step 1(1) [OF _ refl] 1(5) in \<open>auto simp: Let_def split: if_splits\<close>)
qed

lemma json_string_length: "json_string d t capacity = Some s \<Longrightarrow> length s < capacity"
  by (auto simp: json_string_def json_string_decode_def Let_def split: if_splits dest: decode_loop_length)

lemma request_command_length: "request_parse m d = Some r \<Longrightarrow> length (req_command r) < 64"
  by (auto simp: request_parse_def Let_def split: if_splits option.splits dest: json_string_length)

lemma response_error_fits:
  assumes "length (req_command r) < 64"
  shows "\<not> out_failed (response_error r ''RESPONSE_TOO_LARGE'' ''response exceeds maxRecordBytes'')"
proof -
  have "unat (req_id r) < 10 ^ Suc 19" using unsigned_less [of "req_id r", where ?'a = nat] by simp
  then have "length (dec_digits (unat (req_id r))) \<le> 20" using length_dec_digits by fastforce
  moreover have "length (quoted (req_command r)) \<le> 400" using quoted_length [of "req_command r"] assms by simp
  moreover have "length (quoted ''RESPONSE_TOO_LARGE'') \<le> 200" "length (quoted ''response exceeds maxRecordBytes'') \<le> 200"
    using quoted_length [of "''RESPONSE_TOO_LARGE''"] quoted_length [of "''response exceeds maxRecordBytes''"] by simp_all
  ultimately have "length (response_object r False (error_object ''RESPONSE_TOO_LARGE'' ''response exceeds maxRecordBytes'')) \<le> 65536"
    by (simp add: response_object_def error_object_def object_text_def)
  then show ?thesis using error_text [of r "''RESPONSE_TOO_LARGE''" "''response exceeds maxRecordBytes''"] by simp
qed

text \<open>What is written is a response to the request within the record limit, whatever the handler printed.\<close>

lemma response_write_answers:
  assumes "answers r out" "length (req_command r) < 64"
  shows "if writes then \<exists>success body. response_write writes r out = Some (response_object r success body) \<and> value_text 4 body \<and>
      length (response_object r success body) \<le> 65536 else response_write writes r out = None"
proof -
  let ?out = "if out_failed out then response_error r ''RESPONSE_TOO_LARGE'' ''response exceeds maxRecordBytes'' else out"
  have "answers r ?out" "\<not> out_failed ?out"
    using assms(1) error_answers [of r "''RESPONSE_TOO_LARGE''" "''response exceeds maxRecordBytes''"] response_error_fits [OF assms(2)] by simp_all
  then show ?thesis unfolding response_write_def Let_def answers_def by (elim disjE exE conjE) (simp, fastforce simp del: value_text.simps)
qed

end
