(* ===== verification/DebuggerInv.thy ===== *)
theory DebuggerInv
  imports Debugger
begin

text \<open>
  What a debugger guarantees: a run ends at the first breakpoint, exception or halt within its limit; the code memory is the loaded
  image at all times, the decoder history stays true and the reported state is the CPU's.
\<close>

subsection \<open>The code is never written\<close>

lemma debugger_callbacks_slots [simp]:
  "except debugger_callbacks = None" "sfrread debugger_callbacks i = None" "sfrwrite debugger_callbacks i = None"
  "xread debugger_callbacks = None" "xwrite debugger_callbacks = None" "execution_abort debugger_callbacks = None"
  "mObservation debugger_callbacks = None"
  by (simp_all add: debugger_callbacks_def)

lemma debugger_keeps_run: "keeps_run debugger_callbacks"
  by (simp add: keeps_run_def)

lemma debugger_not_aborted [simp]: "\<not> em8051_execution_aborted debugger_callbacks c"
  by (simp add: em8051_execution_aborted_def)

text \<open>Without external data memory every buffer is out of the program's reach.\<close>

definition code_part :: "em8051 \<Rightarrow> nat option \<times> u16 \<times> nat option \<times> (nat \<Rightarrow> u16 \<Rightarrow> u8) option" where
  "code_part c = (mCodeMem c, mCodeMemMaxIdx c, mExtData c, if mExtData c = None then Some (mBuffers c) else None)"

interpretation dbg_code: service_frame debugger_callbacks code_part
  by unfold_locales (auto simp: code_part_def lower_set_def extdata_set_def split: option.split)

lemma code_part_updates [simp]:
  "code_part (mTracePC_update f c) = code_part c" "code_part (mInInstruction_update g c) = code_part c" "code_part (mInstructionCount_update h c) = code_part c"
  "code_part (mExceptionRaised_update g c) = code_part c" "code_part (mLastException_update k c) = code_part c"
  by (simp_all add: code_part_def)

lemma execute_code: "code_part (snd (execute_opcode debugger_callbacks c)) = code_part c"
  by (simp add: execute_opcode_def Let_def split_beta raw_note_def emu_cpu_raw_def em8051_trace_emit_eq dbg_code.F_log dbg_code.F_inhibit)

lemma tick_code: "code_part (snd (tick debugger_callbacks c)) = code_part c"
proof -
  have cyc: "code_part (advance_machine_cycle debugger_callbacks d) = code_part d" for d by (simp add: code_part_def)
  have par: "code_part (update_parity d) = code_part d" for d by (simp add: update_parity_def)
  show ?thesis by (simp add: tick_def Let_def split_beta cyc par execute_code)
qed

lemma step_returns: "\<exists>r c'. em8051_step_instruction debugger_callbacks c = Some (r, c')"
proof -
  let ?c = "c\<lparr>mExceptionRaised := False, mLastException := -1\<rparr>"
  obtain rd where "run_loop debugger_callbacks (run_stop debugger_callbacks False 0 1 (mInstructionCount c)) ?c = Some rd"
    using run_loop_returns [OF debugger_keeps_run, of "mInstructionCount c" ?c 1 False 0] by (auto simp: executed_def)
  then show ?thesis by (simp add: em8051_step_instruction_def em8051_run_def run_control_def split_beta)
qed

lemma step_code:
  assumes "em8051_step_instruction debugger_callbacks c = Some (r, c')"
  shows "code_part c' = code_part c" "mTickDelay c' = 0"
proof -
  let ?c = "c\<lparr>mExceptionRaised := False, mLastException := -1\<rparr>"
  obtain rd where loop: "run_loop debugger_callbacks (run_stop debugger_callbacks False 0 1 (mInstructionCount c)) ?c = Some rd" "c' = snd rd"
    using assms by (auto simp: em8051_step_instruction_def em8051_run_def run_control_def Let_def split: option.splits)
  note ends = run_loop_ends [OF loop(1)]
  have "code_part (snd rd) = code_part c"
    using ends tick_code by (auto dest!: conjunct1 spec [of _ "\<lambda>d. code_part d = code_part c"])
  then show "code_part c' = code_part c" using loop(2) by simp
  show "mTickDelay c' = 0" using ends loop(2) by simp
qed

subsection \<open>One instruction\<close>

lemma observe_fields [simp]:
  "dbg_cpu (observe_instruction r d) = dbg_cpu d" "dbg_image (observe_instruction r d) = dbg_image d"
  "dbg_decode_cache (observe_instruction r d) = dbg_decode_cache d" "dbg_breakpoints (observe_instruction r d) = dbg_breakpoints d"
  "dbg_boundary (observe_instruction r d) = dbg_boundary d" "dbg_loaded (observe_instruction r d) = dbg_loaded d"
  "dbg_boundary_valid (observe_instruction r d) = dbg_boundary_valid d"
  by (simp_all add: observe_instruction_def Let_def)

lemma observed_fields:
  "dbg_cpu (fold observe_instruction rs d) = dbg_cpu d" "dbg_image (fold observe_instruction rs d) = dbg_image d"
  "dbg_decode_cache (fold observe_instruction rs d) = dbg_decode_cache d" "dbg_breakpoints (fold observe_instruction rs d) = dbg_breakpoints d"
  "dbg_boundary (fold observe_instruction rs d) = dbg_boundary d" "dbg_loaded (fold observe_instruction rs d) = dbg_loaded d"
  "dbg_boundary_valid (fold observe_instruction rs d) = dbg_boundary_valid d"
  by (induction rs arbitrary: d) simp_all

lemma observed_size:
  "(dbg_observed_instruction d \<Longrightarrow> dbg_observed_size d = fst (decode_at d (dbg_observed_pc d))) \<Longrightarrow>
   dbg_observed_instruction (fold observe_instruction rs d) \<Longrightarrow>
   dbg_observed_size (fold observe_instruction rs d) = fst (emu_decode_at debugger_decoder (dbg_cpu d) (dbg_observed_pc (fold observe_instruction rs d)))"
proof (induction rs arbitrary: d)
  case Nil
  then show ?case by (simp add: decode_at_def)
next
  case (Cons r rs)
  have "dbg_observed_instruction (observe_instruction r d) \<Longrightarrow>
      dbg_observed_size (observe_instruction r d) = fst (decode_at (observe_instruction r d) (dbg_observed_pc (observe_instruction r d)))"
    using Cons.prems(1) by (auto simp: observe_instruction_def decode_at_def Let_def)
  from Cons.IH [OF this] Cons.prems(2) show ?case by simp
qed

text \<open>Instruction sizes depend on nothing but the code.\<close>

lemma decoded_size:
  assumes "code_part a = code_part b" "mExtData a = None"
  shows "fst (emu_decode_at debugger_decoder a x) = fst (emu_decode_at debugger_decoder b x)"
proof -
  have e: "mCodeMem a = mCodeMem b" "mBuffers a = mBuffers b" using assms by (auto simp: code_part_def split: if_splits)
  show ?thesis unfolding emu_decode_at_def debugger_decoder_def e by (simp only: decoder_lookup [where c = a]) (rule size_const)
qed

lemma history_code:
  assumes "code_part a = code_part b" "mExtData a = None" "history_ok debugger_decoder a cache"
  shows "history_ok debugger_decoder b cache"
  using assms(3) by (simp add: history_ok_def decoded_size [OF assms(1,2)])

lemma execute_one_returns: "\<exists>reason e d'. execute_one d = Some (reason, e, d')"
proof -
  obtain r c where "em8051_step_instruction debugger_callbacks (dbg_cpu d) = Some (r, c)" using step_returns by blast
  then show ?thesis by (simp add: execute_one_def Let_def split: em8051_stop_reason.split)
qed

lemma execute_one_fields:
  assumes "execute_one d = Some (reason, e, d')"
  shows "code_part (dbg_cpu d') = code_part (dbg_cpu d)" "mTickDelay (dbg_cpu d') = 0" "dbg_image d' = dbg_image d" "dbg_breakpoints d' = dbg_breakpoints d"
    "dbg_loaded d' = dbg_loaded d" "dbg_boundary_valid d' = dbg_boundary_valid d"
    "reason \<in> {EM8051_DEBUG_REASON_EXCEPTION, EM8051_DEBUG_REASON_HALT, EM8051_DEBUG_REASON_STEP}" "reason \<noteq> EM8051_DEBUG_REASON_EXCEPTION \<Longrightarrow> e = -1"
    "mExtData (dbg_cpu d) = None \<Longrightarrow> history_ok debugger_decoder (dbg_cpu d) (dbg_decode_cache d) \<Longrightarrow> history_ok debugger_decoder (dbg_cpu d') (dbg_decode_cache d')"
proof -
  obtain r c where st: "em8051_step_instruction debugger_callbacks (dbg_cpu d) = Some (r, c)" using step_returns by blast
  define d1 where "d1 = fold observe_instruction (reported (mEvents (dbg_cpu d)) (mEvents c)) (d\<lparr>dbg_observed_instruction := False, dbg_cpu := c\<rparr>)"
  define d2 where "d2 = (if mInstructionCount c = mInstructionCount (dbg_cpu d) + 1 \<and> dbg_observed_instruction d1
     then d1\<lparr>dbg_decode_cache := emu_decode_completed (dbg_observed_pc d1) (dbg_observed_size d1) (mPC c) (dbg_decode_cache d1)\<rparr> else d1)"
  have e: "d' = d2" "reason \<in> {EM8051_DEBUG_REASON_EXCEPTION, EM8051_DEBUG_REASON_HALT, EM8051_DEBUG_REASON_STEP}" "reason \<noteq> EM8051_DEBUG_REASON_EXCEPTION \<Longrightarrow> e = -1"
    using assms unfolding execute_one_def st option.case prod.case Let_def d1_def [symmetric] d2_def [symmetric]
    by (auto split: em8051_stop_reason.splits)
  have d1: "dbg_cpu d1 = c" "dbg_image d1 = dbg_image d" "dbg_decode_cache d1 = dbg_decode_cache d" "dbg_breakpoints d1 = dbg_breakpoints d"
    "dbg_loaded d1 = dbg_loaded d" "dbg_boundary_valid d1 = dbg_boundary_valid d"
    by (simp_all add: d1_def observed_fields)
  show "code_part (dbg_cpu d') = code_part (dbg_cpu d)" "mTickDelay (dbg_cpu d') = 0" "dbg_image d' = dbg_image d" "dbg_breakpoints d' = dbg_breakpoints d"
    "dbg_loaded d' = dbg_loaded d" "dbg_boundary_valid d' = dbg_boundary_valid d"
    using step_code [OF st] by (simp_all add: e d2_def d1)
  show "reason \<in> {EM8051_DEBUG_REASON_EXCEPTION, EM8051_DEBUG_REASON_HALT, EM8051_DEBUG_REASON_STEP}" "reason \<noteq> EM8051_DEBUG_REASON_EXCEPTION \<Longrightarrow> e = -1" by fact+
  assume x: "mExtData (dbg_cpu d) = None" "history_ok debugger_decoder (dbg_cpu d) (dbg_decode_cache d)"
  have h: "history_ok debugger_decoder c (dbg_decode_cache d)" by (rule history_code [OF step_code(1) [OF st, symmetric] x])
  have "dbg_observed_size d1 = fst (emu_decode_at debugger_decoder c (dbg_observed_pc d1))" if "dbg_observed_instruction d1"
    using observed_size [of "d\<lparr>dbg_observed_instruction := False, dbg_cpu := c\<rparr>"] that by (simp add: d1_def)
  then show "history_ok debugger_decoder (dbg_cpu d') (dbg_decode_cache d')" using h completed_ok [OF h] by (simp add: e d2_def d1)
qed

subsection \<open>Runs\<close>

abbreviation at_breakpoint :: "em8051_debugger \<Rightarrow> bool" where
  "at_breakpoint d \<equiv> breakpoint_at d (mPC (dbg_cpu d))"

text \<open>\<open>n\<close> instructions in a row, none of them at a breakpoint and none that stops the run.\<close>

inductive free_run :: "em8051_debugger \<Rightarrow> nat \<Rightarrow> em8051_debugger \<Rightarrow> bool" where
  stay: "free_run d 0 d"
| go: "\<not> at_breakpoint d \<Longrightarrow> execute_one d = Some (EM8051_DEBUG_REASON_STEP, -1, d1) \<Longrightarrow> free_run d1 n d' \<Longrightarrow> free_run d (Suc n) d'"

text \<open>How a run that started at \<open>d\<close> may stop.\<close>

definition stops :: "em8051_debugger \<Rightarrow> nat \<Rightarrow> em8051_debug_reason \<Rightarrow> int \<Rightarrow> em8051_debugger \<Rightarrow> bool" where
  "stops d n reason e d' \<longleftrightarrow> (\<exists>k d1. free_run d k d1 \<and>
     (case reason of
        EM8051_DEBUG_REASON_YIELD \<Rightarrow> k = n \<and> d' = d1 \<and> e = -1
      | EM8051_DEBUG_REASON_BREAKPOINT \<Rightarrow> k < n \<and> at_breakpoint d1 \<and> d' = d1 \<and> e = -1
      | EM8051_DEBUG_REASON_EXCEPTION \<Rightarrow> k < n \<and> \<not> at_breakpoint d1 \<and> execute_one d1 = Some (reason, e, d')
      | EM8051_DEBUG_REASON_HALT \<Rightarrow> k < n \<and> \<not> at_breakpoint d1 \<and> execute_one d1 = Some (reason, e, d')
      | _ \<Rightarrow> False))"

lemma stops_later:
  assumes "\<not> at_breakpoint d" "execute_one d = Some (EM8051_DEBUG_REASON_STEP, -1, d1)" "stops d1 n reason e d'"
  shows "stops d (Suc n) reason e d'"
proof -
  obtain k d2 where k: "free_run d1 k d2" and "case reason of
        EM8051_DEBUG_REASON_YIELD \<Rightarrow> k = n \<and> d' = d2 \<and> e = -1
      | EM8051_DEBUG_REASON_BREAKPOINT \<Rightarrow> k < n \<and> at_breakpoint d2 \<and> d' = d2 \<and> e = -1
      | EM8051_DEBUG_REASON_EXCEPTION \<Rightarrow> k < n \<and> \<not> at_breakpoint d2 \<and> execute_one d2 = Some (reason, e, d')
      | EM8051_DEBUG_REASON_HALT \<Rightarrow> k < n \<and> \<not> at_breakpoint d2 \<and> execute_one d2 = Some (reason, e, d')
      | _ \<Rightarrow> False"
    using assms(3) unfolding stops_def by blast
  with free_run.go [OF assms(1,2) k] show ?thesis unfolding stops_def
    by (intro exI [of _ "Suc k"] exI [of _ d2]) (auto split: em8051_debug_reason.splits)
qed

lemma run_stops: "\<exists>reason e d'. run_instructions n (-1) d = Some (reason, e, d') \<and> stops d n reason e d'"
proof (induction n arbitrary: d)
  case 0
  have "stops d 0 EM8051_DEBUG_REASON_YIELD (-1) d" unfolding stops_def by (intro exI [of _ 0] exI [of _ d]) (simp add: free_run.stay)
  then show ?case by simp
next
  case (Suc n)
  obtain reason e d1 where x: "execute_one d = Some (reason, e, d1)" using execute_one_returns by blast
  note f = execute_one_fields(7,8) [OF x]
  consider (brk) "at_breakpoint d" | (stop) "\<not> at_breakpoint d" "reason = EM8051_DEBUG_REASON_EXCEPTION \<or> reason = EM8051_DEBUG_REASON_HALT"
    | (step) "\<not> at_breakpoint d" "reason = EM8051_DEBUG_REASON_STEP" "e = -1" using f by auto
  then show ?case
  proof cases
    case brk
    then have "stops d (Suc n) EM8051_DEBUG_REASON_BREAKPOINT (-1) d" unfolding stops_def by (intro exI [of _ 0] exI [of _ d]) (simp add: free_run.stay)
    then show ?thesis using brk by simp
  next
    case stop
    then have "stops d (Suc n) reason e d1" using x unfolding stops_def by (intro exI [of _ 0] exI [of _ d]) (auto simp: free_run.stay)
    then show ?thesis using stop x by auto
  next
    case step
    obtain reason' e' d' where "run_instructions n (-1) d1 = Some (reason', e', d')" "stops d1 n reason' e' d'" using Suc by blast
    then show ?thesis using stops_later [of d d1 n reason' e' d'] step x by simp
  qed
qed

text \<open>
  C20. A bounded run always returns.  Without a boundary or with a limit out of range it is refused and changes nothing; otherwise
  it stops at the first breakpoint, exception or halt, counted in completed instructions, or yields after exactly its limit, and
  the snapshot shows the CPU it stopped with and why.
\<close>

theorem debugger_run_exact:
  "if limit = 0 \<or> limit > 1000000 then em8051_debugger_run limit d = Some (EM8051_DEBUG_INVALID_ARGUMENT, None, d)
   else if \<not> dbg_boundary_valid d then em8051_debugger_run limit d = Some (EM8051_DEBUG_INVALID_STATE, None, d)
   else \<exists>s d'. em8051_debugger_run limit d = Some (EM8051_DEBUG_OK, Some s, d'\<lparr>dbg_boundary := s, dbg_boundary_valid := True\<rparr>) \<and>
     stops d (unat limit) (sn_reason s) (sn_exception_code s) d' \<and>
     s = em8051_debug_capture_snapshot (dbg_cpu d') (if sn_reason s = EM8051_DEBUG_REASON_YIELD then EM8051_DEBUG_YIELD else EM8051_DEBUG_ARCHITECTURAL_STOP)
       (sn_reason s) (sn_exception_code s)"
proof -
  obtain reason e d' where run: "run_instructions (unat limit) (-1) d = Some (reason, e, d')" "stops d (unat limit) reason e d'" using run_stops by blast
  define s where "s = em8051_debug_capture_snapshot (dbg_cpu d') (if reason = EM8051_DEBUG_REASON_YIELD then EM8051_DEBUG_YIELD else EM8051_DEBUG_ARCHITECTURAL_STOP) reason e"
  have "sn_reason s = reason" "sn_exception_code s = e" by (simp_all add: s_def em8051_debug_capture_snapshot_def Let_def)
  moreover have "em8051_debugger_run limit d = Some (EM8051_DEBUG_OK, Some s, d'\<lparr>dbg_boundary := s, dbg_boundary_valid := True\<rparr>)"
    if "limit \<noteq> 0" "\<not> limit > 1000000" "dbg_boundary_valid d"
    using that run(1) by (simp add: em8051_debugger_run_def stop_at_def s_def Let_def)
  ultimately have "\<exists>s d'. em8051_debugger_run limit d = Some (EM8051_DEBUG_OK, Some s, d'\<lparr>dbg_boundary := s, dbg_boundary_valid := True\<rparr>) \<and>
     stops d (unat limit) (sn_reason s) (sn_exception_code s) d' \<and>
     s = em8051_debug_capture_snapshot (dbg_cpu d') (if sn_reason s = EM8051_DEBUG_REASON_YIELD then EM8051_DEBUG_YIELD else EM8051_DEBUG_ARCHITECTURAL_STOP)
       (sn_reason s) (sn_exception_code s)"
    if "limit \<noteq> 0" "\<not> limit > 1000000" "dbg_boundary_valid d"
    using that run(2) s_def by (intro exI [of _ s] exI [of _ d']) simp
  then show ?thesis by (simp add: em8051_debugger_run_def)
qed

subsection \<open>Debuggers in use\<close>

definition dbg_core :: "em8051_debugger \<Rightarrow> bool" where
  "dbg_core d \<longleftrightarrow> mCodeMem (dbg_cpu d) = Some 0 \<and> mCodeMemMaxIdx (dbg_cpu d) = 0xffff \<and> mExtData (dbg_cpu d) = None \<and>
     (dbg_loaded d \<longrightarrow> mBuffers (dbg_cpu d) 0 = dbg_image d) \<and> history_ok debugger_decoder (dbg_cpu d) (dbg_decode_cache d)"

text \<open>A snapshot shows a CPU when it is the one captured from it.\<close>

definition shows_cpu :: "em8051_debug_snapshot \<Rightarrow> em8051 \<Rightarrow> bool" where
  "shows_cpu s c \<longleftrightarrow> s = em8051_debug_capture_snapshot c (sn_result_kind s) (sn_reason s) (sn_exception_code s)"

definition dbg_ok :: "em8051_debugger \<Rightarrow> bool" where
  "dbg_ok d \<longleftrightarrow> dbg_core d \<and>
     (dbg_boundary_valid d \<longrightarrow> dbg_loaded d \<and> mTickDelay (dbg_cpu d) = 0 \<and>  shows_cpu (dbg_boundary d) (dbg_cpu d))"

lemma shows_captured [simp]: "shows_cpu (em8051_debug_capture_snapshot c k r e) c"
  by (simp add: shows_cpu_def em8051_debug_capture_snapshot_def Let_def)

inductive dbg_reach :: "em8051_debugger \<Rightarrow> bool" where
  created: "em8051_debugger_create rand allocated = Some d \<Longrightarrow> dbg_reach d"
| loaded: "dbg_reach d \<Longrightarrow> em8051_debugger_load context f path expected d = Some (status, actual, d') \<Longrightarrow> dbg_reach d'"
| started: "dbg_reach d \<Longrightarrow> em8051_debugger_reset rand seed entry d = (status, s, d') \<Longrightarrow> dbg_reach d'"
| decoded: "dbg_reach d \<Longrightarrow> em8051_debugger_decode_code allocated ref bo io n records d = (status, records', d') \<Longrightarrow> dbg_reach d'"
| marked: "dbg_reach d \<Longrightarrow> em8051_debugger_replace_breakpoints fresh addresses d = (status, d') \<Longrightarrow> dbg_reach d'"
| ran: "dbg_reach d \<Longrightarrow> em8051_debugger_run limit d = Some (status, s, d') \<Longrightarrow> dbg_reach d'"
| stepped: "dbg_reach d \<Longrightarrow> em8051_debugger_step d = Some (status, s, d') \<Longrightarrow> dbg_reach d'"

lemma wipe_pointers [simp]:
  "mCodeMem (wipe_buffer p m c) = mCodeMem c" "mCodeMemMaxIdx (wipe_buffer p m c) = mCodeMemMaxIdx c" "mExtData (wipe_buffer p m c) = mExtData c"
  "mCodeMem (upper_fill f c) = mCodeMem c" "mCodeMemMaxIdx (upper_fill f c) = mCodeMemMaxIdx c" "mExtData (upper_fill f c) = mExtData c"
  by (simp_all add: wipe_buffer_def upper_fill_def split: option.split upper_ptr.split)

lemma reset_wipe_pointers [simp]:
  "mCodeMem (fst (reset_wipe c)) = mCodeMem c" "mCodeMemMaxIdx (fst (reset_wipe c)) = mCodeMemMaxIdx c" "mExtData (fst (reset_wipe c)) = mExtData c"
  by (simp_all add: reset_wipe_def Let_def split_beta)

lemma reset_pointers [simp]:
  "mCodeMem (reset rand w c) = mCodeMem c" "mCodeMemMaxIdx (reset rand w c) = mCodeMemMaxIdx c" "mExtData (reset rand w c) = mExtData c" "mTickDelay (reset rand w c) = 0"
  by (simp_all add: reset_def reset_internal_def reset_sfr_def reset_peripherals_def op_setptrs_def Let_def split_beta)

lemma dbg_ok_created: "em8051_debugger_create rand allocated = Some d \<Longrightarrow> dbg_ok d"
  by (auto simp: em8051_debugger_create_def em8051_init_variant_def em8051_get_variant_descriptor_def em8051_set_reset_seed_def Let_def dbg_ok_def dbg_core_def
      history_ok_def zero_cpu_def split: if_splits)

lemma dbg_ok_stop:
  assumes "dbg_core d" "dbg_loaded d" "mTickDelay (dbg_cpu d) = 0" "stop_at kind reason e d = (status, s, d')"
  shows "dbg_ok d'"
proof -
  have "d' = d\<lparr>dbg_boundary := em8051_debug_capture_snapshot (dbg_cpu d) kind reason e, dbg_boundary_valid := True\<rparr>"
    using assms(4) by (simp add: stop_at_def Let_def)
  then show ?thesis using assms(1-3) by (simp add: dbg_ok_def dbg_core_def)
qed

lemma dbg_core_execute:
  assumes "dbg_core d" "execute_one d = Some (reason, e, d')"
  shows "dbg_core d'"
  using assms(1) execute_one_fields [OF assms(2)] by (auto simp: dbg_core_def code_part_def split: if_splits)

lemma dbg_core_run:
  assumes "run_instructions n e d = Some (reason, e', d')" "dbg_core d" "mTickDelay (dbg_cpu d) = 0"
  shows "dbg_core d' \<and> dbg_loaded d' = dbg_loaded d \<and> mTickDelay (dbg_cpu d') = 0"
  using assms
proof (induction n e d rule: run_instructions.induct)
  case (2 n e d)
  obtain r x d1 where one: "execute_one d = Some (r, x, d1)" using execute_one_returns by blast
  note f = execute_one_fields(2,5) [OF one] dbg_core_execute [OF 2(3) one]
  consider (brk) "at_breakpoint d" | (stop) "\<not> at_breakpoint d" "r = EM8051_DEBUG_REASON_EXCEPTION \<or> r = EM8051_DEBUG_REASON_HALT"
    | (more) "\<not> at_breakpoint d" "\<not> (r = EM8051_DEBUG_REASON_EXCEPTION \<or> r = EM8051_DEBUG_REASON_HALT)" by blast
  then show ?case
  proof cases
    case more
    then show ?thesis using 2(1) [OF _ one] 2(2) one f by simp
  next
    case stop
    then show ?thesis using 2(2) one f by auto
  next
    case brk
    then show ?thesis using 2(2,3,4) by simp
  qed
qed simp

lemma dbg_ok_load:
  assumes "dbg_ok d" "em8051_debugger_load context f path expected d = Some (status, actual, d')"
  shows "dbg_ok d'"
proof (cases "d' = d")
  case False
  then have "d' = clear_predecessors (d\<lparr>dbg_image := (\<lambda>x. hf_bytes f ! unat x), dbg_cpu := copy_image (hf_bytes f) 0 (dbg_cpu d), dbg_loaded := True, dbg_boundary_valid := False\<rparr>)"
    using assms(2) by (auto simp: em8051_debugger_load_def split: if_splits option.splits)
  then show ?thesis using assms(1) by (simp add: dbg_ok_def dbg_core_def clear_predecessors_def copy_image_def clear_ok)
qed (use assms(1) in simp)

lemma dbg_ok_reset:
  assumes "dbg_ok d" "em8051_debugger_reset rand seed entry d = (status, s, d')"
  shows "dbg_ok d'"
proof (cases "dbg_loaded d")
  case True
  define c where "c = (mBuffers_update (\<lambda>m. m(0 := dbg_image d)) (reset rand True (em8051_set_reset_seed seed (dbg_cpu d))))\<lparr>mPC := entry\<rparr>"
  have "stop_at EM8051_DEBUG_ARCHITECTURAL_STOP EM8051_DEBUG_REASON_ENTRY (-1) (clear_predecessors (d\<lparr>dbg_cpu := c, dbg_breakpoints := (\<lambda>_. 0)\<rparr>)) = (status, s, d')"
    using assms(2) True by (simp add: em8051_debugger_reset_def c_def Let_def)
  then show ?thesis using assms(1) True
    by (elim dbg_ok_stop [rotated -1]) (simp_all add: dbg_ok_def dbg_core_def clear_predecessors_def clear_ok c_def em8051_set_reset_seed_def)
qed (use assms in \<open>simp add: em8051_debugger_reset_def\<close>)

lemma window_refused:
  "emu_decode_window dec c cache allocated ref bo io n records = (status, cache', out) \<Longrightarrow> status \<noteq> EM8051_DEBUG_OK \<Longrightarrow> cache' = cache \<and> out = records"
  by (auto simp: emu_decode_window_def Let_def split: if_splits sum.splits)

lemma dbg_ok_decode:
  assumes "dbg_ok d" "em8051_debugger_decode_code allocated ref bo io n records d = (status, records', d')"
  shows "dbg_ok d'"
proof -
  obtain st cache out where w: "emu_decode_window debugger_decoder (dbg_cpu d) (dbg_decode_cache d) allocated ref bo io n records = (st, cache, out)"
    by (metis prod_cases3)
  have h: "history_ok debugger_decoder (dbg_cpu d) (dbg_decode_cache d)" using assms(1) by (simp add: dbg_ok_def dbg_core_def)
  have "history_ok debugger_decoder (dbg_cpu d) cache" using window_refused [OF w] window_ok [OF h, of allocated ref bo io n records cache out] w h by (cases "st = EM8051_DEBUG_OK") auto
  then show ?thesis using assms w by (auto simp: em8051_debugger_decode_code_def dbg_ok_def dbg_core_def split: if_splits)
qed

lemma dbg_ok_run:
  assumes "dbg_ok d" "em8051_debugger_run limit d = Some (status, s, d')"
  shows "dbg_ok d'"
proof (cases "d' = d")
  case False
  then obtain reason e d1 kind where v: "dbg_boundary_valid d" and r: "run_instructions (unat limit) (-1) d = Some (reason, e, d1)"
    and st: "stop_at kind reason e d1 = (status, s, d')"
    using assms(2) by (auto simp: em8051_debugger_run_def split: if_splits option.splits)
  have "dbg_core d" "dbg_loaded d" "mTickDelay (dbg_cpu d) = 0" using assms(1) v by (simp_all add: dbg_ok_def)
  with dbg_core_run [OF r] dbg_ok_stop [OF _ _ _ st] show ?thesis by simp
qed (use assms(1) in simp)

lemma dbg_ok_step:
  assumes "dbg_ok d" "em8051_debugger_step d = Some (status, s, d')"
  shows "dbg_ok d'"
proof (cases "d' = d")
  case False
  then obtain reason e d1 where v: "dbg_boundary_valid d" and x: "execute_one d = Some (reason, e, d1)"
    and st: "stop_at EM8051_DEBUG_ARCHITECTURAL_STOP reason e d1 = (status, s, d')"
    using assms(2) by (auto simp: em8051_debugger_step_def split: if_splits option.splits)
  have "dbg_core d" "dbg_loaded d" using assms(1) v by (simp_all add: dbg_ok_def)
  with dbg_core_execute [OF _ x] execute_one_fields [OF x] dbg_ok_stop [OF _ _ _ st] show ?thesis by simp
qed (use assms(1) in simp)

lemma dbg_ok_breakpoints:
  "dbg_ok d \<Longrightarrow> em8051_debugger_replace_breakpoints fresh addresses d = (status, d') \<Longrightarrow> dbg_ok d'"
  by (auto simp: em8051_debugger_replace_breakpoints_def dbg_ok_def dbg_core_def split: if_splits bool.splits prod.splits)

lemmas dbg_ok_steps = dbg_ok_created dbg_ok_load dbg_ok_reset dbg_ok_decode dbg_ok_breakpoints dbg_ok_run dbg_ok_step

lemma dbg_reach_ok: "dbg_reach d \<Longrightarrow> dbg_ok d"
  by (induction rule: dbg_reach.induct) (blast intro: dbg_ok_steps)+

text \<open>
  C21. Whatever a debugger was asked to do, its code memory is the loaded image, byte for byte, the decoder history is true of that code,
  and the state it reports is the state of the CPU, which stands between two instructions.
\<close>

theorem debugger_invariant:
  assumes "dbg_reach d"
  shows "(dbg_loaded d \<longrightarrow> (\<forall>x. CODEMEM (dbg_cpu d) x = dbg_image d x)) \<and> history_ok debugger_decoder (dbg_cpu d) (dbg_decode_cache d) \<and>
    (case em8051_debugger_get_state d of
       (status, None) \<Rightarrow> status = EM8051_DEBUG_INVALID_STATE
     | (status, Some s) \<Rightarrow> status = EM8051_DEBUG_OK \<and> mTickDelay (dbg_cpu d) = 0 \<and> shows_cpu s (dbg_cpu d))"
proof -
  have ok: "dbg_ok d" by (rule dbg_reach_ok [OF assms])
  have m: "x AND 0xffff = x" for x :: u16
  proof -
    have "mask 16 = (0xffff :: u16)" by (simp add: mask_eq_exp_minus_1)
    moreover have "x AND mask 16 = x" by (rule bit_word_eqI) (simp add: bit_and_iff bit_mask_iff)
    ultimately show ?thesis by metis
  qed
  show ?thesis using ok by (auto simp: dbg_ok_def dbg_core_def em8051_debugger_get_state_def CODEMEM_def m)
qed

text \<open>Loading an image of zeros under its own digest and starting it.\<close>

definition zero_file :: host_file where
  "zero_file = \<lparr>hf_opens = True, hf_allocates = True, hf_bytes = replicate 65536 0, hf_fails = False, hf_closes = True\<rparr>"

lemma length_digest: "length (sha256_digest m) = 32"
proof -
  have "length (fold compress bs v) = 8" if "length v = 8" for bs v using that by (induction bs arbitrary: v) simp_all
  then have "length (fold compress (blocks (pad_message m)) sha256_initial) = 8" by (simp add: sha256_initial_def)
  moreover have "length (concat (map be32_bytes ws)) = 4 * length ws" for ws by (induction ws) (simp_all add: be32_bytes_def)
  ultimately show ?thesis by (simp add: sha256_digest_def)
qed

lemma length_hex: "length (hex_of_bytes bs) = 2 * length bs"
  by (induction bs) (simp_all add: hex_of_bytes_def)

lemma zero_session:
  obtains d d1 d2 s where "em8051_debugger_create 0 True = Some d"
    "em8051_debugger_load stale_context zero_file ''/zeros'' (hex_of_bytes (sha256_digest (replicate 65536 0))) d =
       Some (EM8051_DEBUG_OK, Some (hex_of_bytes (sha256_digest (replicate 65536 0))), d1)"
    "em8051_debugger_reset 0 1 0 d1 = (EM8051_DEBUG_OK, Some s, d2)" "dbg_loaded d2" "dbg_image d2 = (\<lambda>x. replicate 65536 0 ! unat x)" "dbg_boundary_valid d2"
proof -
  obtain d where d: "em8051_debugger_create 0 True = Some d"
    by (simp add: em8051_debugger_create_def em8051_init_variant_def em8051_get_variant_descriptor_def Let_def)
  have "sha256_hex stale_context (replicate 65536 0) = Some (hex_of_bytes (sha256_digest (replicate 65536 0)))" by (rule hex_digest) (simp add: stale_context_def)
  then obtain d1 where l: "em8051_debugger_load stale_context zero_file ''/zeros'' (hex_of_bytes (sha256_digest (replicate 65536 0))) d =
      Some (EM8051_DEBUG_OK, Some (hex_of_bytes (sha256_digest (replicate 65536 0))), d1)" "dbg_loaded d1" "dbg_image d1 = (\<lambda>x. replicate 65536 0 ! unat x)"
    by (simp add: em8051_debugger_load_def absolute_path_def zero_file_def length_hex length_digest clear_predecessors_def)
  obtain s d2 where "em8051_debugger_reset 0 1 0 d1 = (EM8051_DEBUG_OK, Some s, d2)" "dbg_loaded d2" "dbg_image d2 = dbg_image d1" "dbg_boundary_valid d2"
    using l(2) by (simp add: em8051_debugger_reset_def stop_at_def clear_predecessors_def Let_def)
  then show ?thesis using that d l by simp
qed

theorem debugger_invariant_witness:
  "\<exists>d s. dbg_reach d \<and> dbg_loaded d \<and> CODEMEM (dbg_cpu d) 0x1234 = 0 \<and> em8051_debugger_get_state d = (EM8051_DEBUG_OK, Some s) \<and> shows_cpu s (dbg_cpu d)"
proof -
  obtain d d1 d2 s where d: "em8051_debugger_create 0 True = Some d"
    "em8051_debugger_load stale_context zero_file ''/zeros'' (hex_of_bytes (sha256_digest (replicate 65536 0))) d =
       Some (EM8051_DEBUG_OK, Some (hex_of_bytes (sha256_digest (replicate 65536 0))), d1)"
    "em8051_debugger_reset 0 1 0 d1 = (EM8051_DEBUG_OK, Some s, d2)" and d2: "dbg_loaded d2" "dbg_image d2 = (\<lambda>x. replicate 65536 0 ! unat x)" "dbg_boundary_valid d2"
    by (rule zero_session)
  have r: "dbg_reach d2" by (rule started [OF loaded [OF created [OF d(1)] d(2)] d(3)])
  show ?thesis using debugger_invariant [OF r] d2 r by (auto simp: em8051_debugger_get_state_def)
qed

end
