(* ===== verification/ServerSession.thy ===== *)
theory ServerSession
  imports ServerJson DebuggerInv
begin

text \<open>
  Sessions of the debug server: it answers every request, every line it writes is one JSON value within the record limit, and what
  a session keeps from its first record to its last.
\<close>

subsection \<open>The syntax check returns\<close>

text \<open>On any bytes, NUL included: a check returns, and behind what it accepts there is no more text than before.\<close>

definition shortens :: "checker \<Rightarrow> bool" where
  "shortens f \<longleftrightarrow> (\<forall>s. \<exists>x. f s = Some x \<and> (\<forall>r. x = Some r \<longrightarrow> length r \<le> length s))"

lemma shortensE:
  assumes "shortens f"
  obtains "f s = Some None" | r where "f s = Some (Some r)" "length r \<le> length s"
proof -
  obtain x where "f s = Some x" "\<forall>r. x = Some r \<longrightarrow> length r \<le> length s" using assms unfolding shortens_def by blast
  then show thesis using that by (cases x) auto
qed

lemma space_length: "length (syntax_space s) \<le> length s"
  by (simp add: syntax_space_def length_dropWhile_le)

lemma string_tail_length: "string_tail s = Some r \<Longrightarrow> length r \<le> length s"
proof (induction s rule: string_tail.induct)
  case (2 ch t)
  then show ?case by (auto split: if_splits list.splits) fastforce+
qed simp

lemma syntax_string_length: "syntax_string s = Some r \<Longrightarrow> length r \<le> length s"
  using string_tail_length by (fastforce simp: syntax_string_def split: list.splits if_splits)

lemma list_loop_shortens:
  assumes "shortens item"
  shows "\<exists>x. list_loop closing item s = Some x \<and> (\<forall>r. x = Some r \<longrightarrow> length r \<le> length s)"
proof (induction s rule: measure_induct_rule [of length])
  case (less s)
  show ?case
  proof (cases rule: shortensE [OF assms, of s])
    case 1
    then show ?thesis by (subst list_loop.simps) simp
  next
    case (2 r)
    note accept = this
    show ?thesis
    proof (cases "syntax_space r")
      case Nil
      then show ?thesis using accept by (subst list_loop.simps) simp
    next
      case (Cons ch t)
      then have "length t < length s" using accept(2) space_length [of r] by simp
      then have t: "length (syntax_space t) < length s" using space_length [of t] by simp
      show ?thesis
      proof (cases "ch = closing \<or> ch \<noteq> CHR '',''")
        case True
        then show ?thesis using accept Cons \<open>length t < length s\<close> by (subst list_loop.simps) auto
      next
        case False
        obtain x where "list_loop closing item (syntax_space t) = Some x" "\<forall>r. x = Some r \<longrightarrow> length r \<le> length (syntax_space t)"
          using less [OF t] by blast
        then show ?thesis using accept Cons False t by (subst list_loop.simps) fastforce
      qed
    qed
  qed
qed

lemma member_shortens: "shortens val \<Longrightarrow> shortens (syntax_member val)"
proof -
  assume v: "shortens val"
  have "\<exists>x. syntax_member val s = Some x \<and> (\<forall>r. x = Some r \<longrightarrow> length r \<le> length s)" for s
  proof (cases "syntax_string s")
    case (Some r)
    show ?thesis
    proof (cases "syntax_space r")
      case (Cons colon t)
      have "length (syntax_space t) \<le> length s"
        using Cons space_length [of r] space_length [of t] syntax_string_length [OF Some] by simp
      then show ?thesis using Some Cons by (cases rule: shortensE [OF v, of "syntax_space t"]) (auto simp: syntax_member_def)
    qed (simp add: syntax_member_def Some)
  qed (simp add: syntax_member_def)
  then show ?thesis by (simp add: shortens_def)
qed

lemma bracket_shortens:
  assumes "shortens item"
  shows "shortens (\<lambda>s. case syntax_space (tl s) of [] \<Rightarrow> list_loop closing item []
    | ch # t \<Rightarrow> if ch = closing then Some (Some t) else list_loop closing item (ch # t))"
  unfolding shortens_def
proof
  fix s
  have l: "length (syntax_space (tl s)) \<le> length s" using space_length [of "tl s"] by simp
  show "\<exists>x. (case syntax_space (tl s) of [] \<Rightarrow> list_loop closing item []
    | ch # t \<Rightarrow> if ch = closing then Some (Some t) else list_loop closing item (ch # t)) = Some x \<and> (\<forall>r. x = Some r \<longrightarrow> length r \<le> length s)"
    using l list_loop_shortens [OF assms, of closing "syntax_space (tl s)"]
    by (cases "syntax_space (tl s)") (auto intro: order_trans)
qed

lemma value_shortens: "shortens (syntax_value depth)"
proof (induction depth)
  case (Suc depth)
  have o: "shortens (syntax_object (syntax_value depth))" and a: "shortens (syntax_array (syntax_value depth))"
    using bracket_shortens [OF Suc] bracket_shortens [OF member_shortens [OF Suc]] by (simp_all add: syntax_object_def [abs_def] syntax_array_def [abs_def])
  show ?case unfolding shortens_def
  proof
    fix s
    show "\<exists>x. syntax_value (Suc depth) s = Some x \<and> (\<forall>r. x = Some r \<longrightarrow> length r \<le> length s)"
    proof (cases s)
      case (Cons ch t)
      consider "ch = CHR ''{''" | "ch = CHR ''[''" | "ch = CHR 0x22" | "ch \<notin> {CHR ''{'', CHR ''['', CHR 0x22}" by blast
      then show ?thesis
      proof cases
        case 1
        then show ?thesis using o [unfolded shortens_def, rule_format, of s] Cons by simp
      next
        case 2
        then show ?thesis using a [unfolded shortens_def, rule_format, of s] Cons by simp
      next
        case 3
        then show ?thesis using syntax_string_length [of s] Cons by simp
      next
        case 4
        then show ?thesis using Cons by (simp add: syntax_primitive_def Let_def)
      qed
    qed simp
  qed
qed (simp add: shortens_def)

lemma json_syntax_returns: "\<exists>b. json_syntax_valid s = Some b"
  by (cases rule: shortensE [OF value_shortens, of 64 "syntax_space s"]) (auto simp: json_syntax_valid_def)

lemma parse_record_returns: "\<exists>p. parse_record h line = Some p"
  using json_syntax_returns [of line] by (auto simp: parse_record_def Let_def split: bool.split sum.split)

subsection \<open>Requests and responses\<close>

text \<open>The digest's buffer on the stack has the 64 bytes the C type gives it.\<close>

definition host_ok :: "server_host \<Rightarrow> bool" where
  "host_ok h \<longleftrightarrow> length (sc_block (sh_context h)) = 64"

lemma request_id_positive: "request_parse m d = Some r \<Longrightarrow> req_id r \<noteq> 0"
proof -
  assume "request_parse m d = Some r"
  then obtain t v where v: "json_integer d t 1 9007199254740991 = Some v" "req_id r = word_of_int v"
    by (auto simp: request_parse_def Let_def split: if_splits option.splits)
  then have "0 < v" "v < 2 ^ 64" by (auto simp: json_integer_def Let_def split: if_splits prod.splits)
  then have "uint (word_of_int v :: u64) = v" by (simp add: uint_word_of_int)
  then show ?thesis using v(2) \<open>0 < v\<close> by fastforce
qed

lemma id_insert_frame:
  assumes "id_insert x t = (b, t')"
  shows "if b then \<exists>q n. t' = t\<lparr>request_ids := q, request_id_count := n\<rparr> else t' = t"
proof -
  have "if b then \<exists>q n. t' = t\<lparr>request_ids := q, request_id_count := n\<rparr> else t' = t" if "id_probe ps x t = (b, t')" for ps
    using that by (induction ps) (auto simp: Let_def split: if_splits)
  from this [OF assms [unfolded id_insert_def]] show ?thesis .
qed

lemma load_returns:
  assumes "length (sc_block context) = 64"
  shows "\<exists>status actual d'. em8051_debugger_load context f path expected d = Some (status, actual, d')"
  by (simp add: em8051_debugger_load_def hex_digest [OF assms])

lemma run_returns: "\<exists>status s d'. em8051_debugger_run limit d = Some (status, s, d')"
  using run_stops [of "unat limit" d] by (auto simp: em8051_debugger_run_def stop_at_def Let_def)

lemma step_instruction_returns: "\<exists>status s d'. em8051_debugger_step d = Some (status, s, d')"
  using execute_one_returns [of d] by (auto simp: em8051_debugger_step_def stop_at_def Let_def)

lemma dispatch_command_returns: "host_ok h \<Longrightarrow> \<exists>out srv'. dispatch_command h d r srv = Some (out, srv')"
proof -
  assume h: "host_ok h"
  have "handle_load h d r srv \<noteq> None"
    using load_returns [OF h [unfolded host_ok_def]] by (auto simp: handle_load_def Let_def split: option.splits prod.splits) (metis option.distinct(1))
  moreover have "handle_run h d r srv \<noteq> None" using run_returns by (auto simp: handle_run_def split: option.splits) (metis option.distinct(1))
  moreover have "\<exists>x. handle_step r srv = Some x" using step_instruction_returns [of "srv_debugger srv"] by (auto simp: handle_step_def)
  ultimately show ?thesis by (auto simp: dispatch_command_def)
qed

lemma dispatch_returns: "host_ok h \<Longrightarrow> \<exists>out srv'. dispatch commit h d r srv = Some (out, srv')"
proof -
  assume h: "host_ok h"
  obtain b s where "id_insert (req_id r) srv = (b, s)" by fastforce
  then show ?thesis using dispatch_command_returns [OF h] by (simp add: dispatch_def)
qed

text \<open>The records of an input: its lines, as far as they are ended, without a carriage return at the end.\<close>

fun records_of :: "string \<Rightarrow> string \<Rightarrow> string list" where
  "records_of line [] = []"
| "records_of line (ch # input) = (if ch = CHR 0x0A then strip_return line # records_of [] input else records_of (line @ [ch]) input)"

text \<open>A line that answers a record: the record is a request, and the line the response with its id and command around one JSON value.\<close>

definition answer_to :: "server_host \<Rightarrow> string \<Rightarrow> string \<Rightarrow> bool" where
  "answer_to h line x \<longleftrightarrow> (\<exists>d r success body. parse_record h line = Some (Some (d, r)) \<and> x = response_object r success body \<and>
     value_text 4 body \<and> length x \<le> 65536)"

lemma parse_record_request: "parse_record h line = Some (Some (d, r)) \<Longrightarrow> request_parse (sh_malloc h) d = Some r"
  by (auto simp: parse_record_def Let_def split: if_splits option.splits bool.splits sum.splits)

lemma handle_record_answers:
  assumes "host_ok h"
  obtains (refused) "handle_record commit h line srv = Some (None, Some 65, srv)" "\<And>d r. parse_record h line \<noteq> Some (Some (d, r))"
  | (unwritten) srv' where "handle_record commit h line srv = Some (None, Some 70, srv')" "\<not> sh_writes h"
  | (answered) x srv' where "handle_record commit h line srv = Some (Some x, if srv_fatal_after_response srv' then Some 65 else None, srv')" "answer_to h line x"
proof -
  consider "parse_record h line = Some None" | d r where "parse_record h line = Some (Some (d, r))" using parse_record_returns [of h line] by fastforce
  then show thesis
  proof cases
    case 1
    then show ?thesis using refused by (simp add: handle_record_def)
  next
    case (2 d r)
    obtain out srv' where o: "dispatch commit h d r srv = Some (out, srv')" using dispatch_returns [OF assms] by blast
    have w: "if sh_writes h then \<exists>success body. response_write (sh_writes h) r out = Some (response_object r success body) \<and> value_text 4 body \<and>
      length (response_object r success body) \<le> 65536 else response_write (sh_writes h) r out = None"
      by (rule response_write_answers [OF dispatch_answers [OF o] request_command_length [OF parse_record_request [OF 2]]])
    show ?thesis
    proof (cases "sh_writes h")
      case True
      then obtain success body where x: "response_write True r out = Some (response_object r success body)" "value_text 4 body"
        "length (response_object r success body) \<le> 65536" using w by auto
      then have "answer_to h line (response_object r success body)" using 2 by (auto simp: answer_to_def)
      then show ?thesis using answered 2 o x True by (simp add: handle_record_def)
    next
      case False
      then show ?thesis using unwritten 2 o w by (simp add: handle_record_def)
    qed
  qed
qed

definition loop_ok :: "(nat \<Rightarrow> server_host) \<Rightarrow> nat \<Rightarrow> string list \<Rightarrow> (int \<times> string list) option \<Rightarrow> bool" where
  "loop_ok hosts n lines result \<longleftrightarrow> (\<exists>code responses. result = Some (code, responses) \<and> code \<in> {0, 65, 70, 74} \<and>
     (code = 70 \<longrightarrow> (\<exists>k. \<not> sh_writes (hosts k))) \<and> length responses \<le> length lines \<and>
     (\<forall>i < length responses. answer_to (hosts (n + i)) (lines ! i) (responses ! i)))"

lemma loop_ok_stop: "code \<in> {0, 65, 74} \<Longrightarrow> loop_ok hosts n lines (Some (code, []))"
  by (auto simp: loop_ok_def)

lemma loop_ok_more:
  assumes "answer_to (hosts n) l x" "loop_ok hosts (Suc n) lines (Some (code, responses))"
  shows "loop_ok hosts n (l # lines) (Some (code, x # responses))"
  using assms by (auto simp: loop_ok_def nth_Cons split: nat.split)

lemma protocol_loop_ok:
  assumes h: "\<And>n. host_ok (hosts n)"
  shows "loop_ok hosts n (records_of line input) (protocol_loop commit hosts read_error n line input srv)"
proof (induction input arbitrary: n line srv)
  case (Cons ch input)
  consider (over) "srv_terminate srv" | (byte) "\<not> srv_terminate srv" "ch \<noteq> CHR 0x0A" | (ended) "\<not> srv_terminate srv" "ch = CHR 0x0A" by blast
  then show ?case
  proof cases
    case ended
    from h [of n] show ?thesis
    proof (cases rule: handle_record_answers [where commit = commit and line = "strip_return line" and srv = srv])
      case refused
      then show ?thesis using ended loop_ok_stop by simp
    next
      case (unwritten srv')
      then show ?thesis using ended by (auto simp: loop_ok_def)
    next
      case (answered x srv')
      obtain code responses where m: "protocol_loop commit hosts read_error (Suc n) [] input srv' = Some (code, responses)"
        "loop_ok hosts (Suc n) (records_of [] input) (Some (code, responses))" using Cons [of "Suc n" "[]" srv'] by (auto simp: loop_ok_def)
      have "loop_ok hosts (Suc n) (records_of [] input) (Some (65, []))" by (rule loop_ok_stop) simp
      then show ?thesis using ended answered m loop_ok_more [of hosts n, OF answered(2)] by simp
    qed
  qed (use Cons loop_ok_stop in simp_all)
qed (simp add: loop_ok_stop)

text \<open>A host on which everything succeeds, and a greeting.\<close>

definition quiet_host :: server_host where
  "quiet_host = \<lparr>sh_malloc = (\<lambda>_. True), sh_file = (\<lambda>_. zero_file), sh_context = stale_context, sh_rand = 0, sh_window = True, sh_replacement = (\<lambda>_. 0),
     sh_records = [], sh_writes = True\<rparr>"

definition greeting :: string where
  "greeting = ''{\"type\":\"request\",\"id\":1,\"command\":\"hello\"}''"

lemma quiet_host_ok: "host_ok quiet_host"
  by (simp add: host_ok_def quiet_host_def stale_context_def)

definition greeting_tokens :: "json_token list" where
  "greeting_tokens = map (\<lambda>(t, a, b, n, p). \<lparr>tok_type = t, tok_start = a, tok_end = b, tok_size = n, tok_parent = p\<rparr>)
     [(JSON_OBJECT, 0, 43, 6, -1), (JSON_STRING, 2, 6, 0, 0), (JSON_STRING, 9, 16, 0, 0), (JSON_STRING, 19, 21, 0, 0), (JSON_PRIMITIVE, 23, 24, 0, 0),
      (JSON_STRING, 26, 33, 0, 0), (JSON_STRING, 36, 41, 0, 0)]"

definition greeting_document :: json_document where
  "greeting_document = \<lparr>doc_text = greeting, doc_tokens = greeting_tokens, doc_count = 7\<rparr>"

lemma greeting_parses: "json_parse greeting 4096 = Inr greeting_tokens" "utf8_valid greeting" "json_syntax_valid greeting = Some True"
  by code_simp+

lemma greeting_members:
  "json_member (\<lambda>_. True) greeting_document 0 ''type'' = 2" "json_member (\<lambda>_. True) greeting_document 0 ''id'' = 4"
  "json_member (\<lambda>_. True) greeting_document 0 ''command'' = 6" "json_member (\<lambda>_. True) greeting_document 0 ''arguments'' = -1"
  "token_raw_equals greeting_document 2 ''request''" "json_string greeting_document 6 64 = Some ''hello''"
  by code_simp+

lemma greeting_id: "json_integer greeting_document 4 1 9007199254740991 = Some 1"
proof -
  have "raw_text greeting_document 4 = ''1''" "strtoll ''1'' = (1, [], False)" by code_simp+
  then show ?thesis by (simp add: json_integer_def greeting_document_def greeting_tokens_def Let_def)
qed

lemma greeting_request: "\<exists>d r. parse_record quiet_host greeting = Some (Some (d, r)) \<and> req_id r = 1"
proof -
  have "doc_tokens greeting_document ! 0 = \<lparr>tok_type = JSON_OBJECT, tok_start = 0, tok_end = 43, tok_size = 6, tok_parent = -1\<rparr>"
    by (simp add: greeting_document_def greeting_tokens_def)
  then have "request_parse (\<lambda>_. True) greeting_document = Some \<lparr>req_id = 1, req_command = ''hello'', req_arguments = -1\<rparr>"
    by (simp add: request_parse_def greeting_members greeting_id text_at_def Let_def)
  moreover have "greeting \<noteq> []" "greeting_tokens \<noteq> []" "length greeting_tokens = 7" by (simp_all add: greeting_def greeting_tokens_def)
  ultimately show ?thesis by (simp add: parse_record_def greeting_parses greeting_document_def quiet_host_def Let_def)
qed

text \<open>
  C3. The debug server returns from every session, with one of its documented exit codes, and answers the records one by one: the
  i-th line it writes is the response to the i-th record, with that request's id and command around one well-formed JSON value, and within the
  record limit.  An internal failure (70) is reported only when memory or the output fails; other arguments print the version or
  are refused.
\<close>

theorem debug_server_answers:
  assumes "\<And>n. host_ok (hosts n)"
  shows "if arguments = [''--version''] then main commit allocated rand hosts read_error arguments input = Some (0, [''emuSA80535-N emu-debug 1.0.0 '' @ commit])
    else if arguments \<notin> {[], [''--headless-debug'']} then main commit allocated rand hosts read_error arguments input = Some (64, [])
    else \<exists>code responses. main commit allocated rand hosts read_error arguments input = Some (code, responses) \<and> code \<in> {0, 65, 70, 74} \<and>
      (code = 70 \<longrightarrow> \<not> fst allocated \<or> \<not> snd allocated \<or> (\<exists>k. \<not> sh_writes (hosts k))) \<and>
      length responses \<le> length (records_of [] input) \<and> (\<forall>i < length responses. answer_to (hosts i) (records_of [] input ! i) (responses ! i))"
proof -
  have g: "length arguments > 1 \<or> length arguments = 1 \<and> arguments \<noteq> [''--headless-debug''] \<longleftrightarrow> arguments \<notin> {[], [''--headless-debug'']}"
    by (cases arguments rule: remdups_adj.cases) auto
  have c: "em8051_debugger_create rand b = None \<longleftrightarrow> \<not> b" for b
    by (simp add: em8051_debugger_create_def em8051_init_variant_def em8051_get_variant_descriptor_def Let_def)
  have "\<exists>code responses. run_protocol commit allocated rand hosts read_error input = Some (code, responses) \<and> code \<in> {0, 65, 70, 74} \<and>
      (code = 70 \<longrightarrow> \<not> fst allocated \<or> \<not> snd allocated \<or> (\<exists>k. \<not> sh_writes (hosts k))) \<and>
      length responses \<le> length (records_of [] input) \<and> (\<forall>i < length responses. answer_to (hosts i) (records_of [] input ! i) (responses ! i))"
  proof (cases "fst allocated \<and> snd allocated")
    case True
    then obtain dbg where "em8051_debugger_create rand (snd allocated) = Some dbg" using c by fastforce
    then show ?thesis using True protocol_loop_ok [where hosts = hosts and n = 0 and line = "[]" and input = input and commit = commit and srv = "new_server dbg"] assms
      by (auto simp: run_protocol_def loop_ok_def)
  next
    case False
    then show ?thesis using c [of "snd allocated"] by (cases "em8051_debugger_create rand (snd allocated)") (auto simp: run_protocol_def)
  qed
  then show ?thesis unfolding main_def g by simp
qed

theorem debug_server_answers_witness:
  "\<exists>code responses. main ''0'' (True, True) 0 (\<lambda>_. quiet_host) False [] (greeting @ [CHR 0x0A]) = Some (code, responses) \<and> code \<noteq> 70 \<and>
     length responses \<le> 1 \<and> (\<forall>x \<in> set responses. answer_to quiet_host greeting x)"
proof -
  have "records_of [] (greeting @ [CHR 0x0A]) = [greeting]" "sh_writes quiet_host" by (simp_all add: greeting_def strip_return_def quiet_host_def)
  then obtain code responses where r: "main ''0'' (True, True) 0 (\<lambda>_. quiet_host) False [] (greeting @ [CHR 0x0A]) = Some (code, responses)" "code \<noteq> 70"
    "length responses \<le> 1" "\<forall>i < length responses. answer_to quiet_host ([greeting] ! i) (responses ! i)"
    using debug_server_answers [of "\<lambda>_. quiet_host" "[]" "''0''" "(True, True)" 0 False "greeting @ [CHR 0x0A]"] quiet_host_ok by auto
  then have "\<forall>x \<in> set responses. answer_to quiet_host greeting x" by (cases responses) auto
  with r show ?thesis by blast
qed

subsection \<open>What a session keeps\<close>

inductive session :: "server \<Rightarrow> bool" where
  opened: "em8051_debugger_create rand allocated = Some dbg \<Longrightarrow> session (new_server dbg)"
| served: "session srv \<Longrightarrow> request_parse malloc_ok d = Some r \<Longrightarrow> dispatch commit h d r srv = Some (out, srv') \<Longrightarrow> session srv'"

lemma dispatch_command_server:
  assumes "dispatch_command h d r srv = Some (out, srv')" "dbg_reach (srv_debugger srv)"
  shows "\<exists>dbg t. srv' = srv\<lparr>srv_debugger := dbg, srv_terminate := t\<rparr> \<and> dbg_reach dbg"
proof -
  have k: ?thesis if "srv' = srv\<lparr>srv_debugger := dbg\<rparr>" "dbg_reach dbg" for dbg
    using that by (intro exI [of _ dbg] exI [of _ "srv_terminate srv"]) simp
  have n: ?thesis if "srv' = srv" using k [of "srv_debugger srv"] that assms(2) by simp
  note reach = dbg_reach.intros(2-) [OF assms(2)]
  consider "handle_load h d r srv = Some (out, srv')" | "handle_reset h d r srv = (out, srv')" | "handle_state r srv = (out, srv')"
    | "handle_decode h d r srv = (out, srv')" | "handle_breakpoints h d r srv = (out, srv')" | "handle_run h d r srv = Some (out, srv')"
    | "handle_step r srv = Some (out, srv')" | "srv' = srv\<lparr>srv_terminate := True\<rparr>" | "srv' = srv"
    using assms(1) unfolding dispatch_command_def by (simp only: option.inject prod.inject split: if_split_asm)
  then show ?thesis
  proof cases
    case 1
    then show ?thesis using k n reach(1) by (fastforce simp: handle_load_def Let_def split: option.splits prod.splits if_splits)
  next
    case 2
    then show ?thesis using k n reach(2) by (fastforce simp: handle_reset_def Let_def split: option.splits prod.splits)
  next
    case 3
    then show ?thesis using n by (auto simp: handle_state_def split: prod.splits)
  next
    case 4
    then show ?thesis using k n reach(3) by (fastforce simp: handle_decode_def Let_def split: option.splits prod.splits if_splits)
  next
    case 5
    then show ?thesis using k n reach(4) by (fastforce simp: handle_breakpoints_def Let_def split: sum.splits prod.splits if_splits)
  next
    case 6
    then show ?thesis using k n reach(5) by (fastforce simp: handle_run_def split: option.splits)
  next
    case 7
    then show ?thesis using k n reach(6) by (fastforce simp: handle_step_def split: option.splits)
  next
    case 8
    then show ?thesis using assms(2) by (intro exI [of _ "srv_debugger srv"] exI [of _ True]) simp
  qed (rule n)
qed

definition session_ok :: "server \<Rightarrow> bool" where
  "session_ok srv \<longleftrightarrow> id_ok srv \<and> dbg_reach (srv_debugger srv) \<and> (srv_first_command srv \<longrightarrow> ids srv = {} \<and> \<not> srv_hello_complete srv) \<and>
     (\<not> srv_hello_complete srv \<longrightarrow> \<not> dbg_loaded (srv_debugger srv) \<and> \<not> srv_terminate srv)"

lemma ids_frame [simp]: "ids (srv\<lparr>srv_debugger := a, srv_terminate := b\<rparr>) = ids srv" "ids (srv\<lparr>srv_first_command := c\<rparr>) = ids srv"
  "ids (srv\<lparr>srv_first_command := c, srv_hello_complete := e\<rparr>) = ids srv" "ids (srv\<lparr>srv_first_command := c, srv_fatal_after_response := e\<rparr>) = ids srv"
  by (simp_all add: ids_def)

lemma id_ok_frame [simp]: "id_ok (srv\<lparr>srv_debugger := a, srv_terminate := b\<rparr>) = id_ok srv" "id_ok (srv\<lparr>srv_first_command := c\<rparr>) = id_ok srv"
  "id_ok (srv\<lparr>srv_first_command := c, srv_hello_complete := e\<rparr>) = id_ok srv" "id_ok (srv\<lparr>srv_first_command := c, srv_fatal_after_response := e\<rparr>) = id_ok srv"
  by (simp_all add: id_ok_def)

lemma session_ok_opened: "em8051_debugger_create rand allocated = Some dbg \<Longrightarrow> session_ok (new_server dbg)"
proof -
  assume c: "em8051_debugger_create rand allocated = Some dbg"
  have "ids (new_server dbg) = {}" by (auto simp: ids_def new_server_def)
  moreover have "id_ok (new_server dbg)" by (simp add: id_ok_def new_server_def)
  moreover have "\<not> dbg_loaded dbg" using c by (auto simp: em8051_debugger_create_def Let_def split: if_splits prod.splits)
  ultimately show ?thesis using created [OF c] by (simp add: session_ok_def new_server_def)
qed

lemma hello_server:
  "handle_hello commit h d r srv = (out, srv') \<Longrightarrow> srv' \<in> {srv, srv\<lparr>srv_hello_complete := True\<rparr>, srv\<lparr>srv_fatal_after_response := True\<rparr>}"
  by (auto simp: handle_hello_def split: option.splits prod.splits if_splits)

lemma dispatch_server:
  assumes ok: "session_ok srv" and x: "req_id r \<noteq> 0" and out: "dispatch commit h d r srv = Some (out, srv')"
  shows "session_ok srv' \<and> ids srv' = ids (snd (id_insert (req_id r) srv))"
proof -
  obtain b s where ins: "id_insert (req_id r) srv = (b, s)" by fastforce
  have i: "id_ok s" "\<not> b \<Longrightarrow> s = srv" using id_insert_spec [OF _ x ins] ok id_insert_frame [OF ins] by (auto simp: session_ok_def split: if_splits)
  have f: "srv_debugger s = srv_debugger srv" "srv_first_command s = srv_first_command srv" "srv_hello_complete s = srv_hello_complete srv" "srv_terminate s = srv_terminate srv"
    using id_insert_frame [OF ins] by (auto split: if_splits)
  note o = out [unfolded dispatch_def ins Let_def prod.case]
  have early: "session_ok (s\<lparr>srv_first_command := False\<rparr>)" using ok i f by (simp add: session_ok_def)
  consider (known) "\<not> b" | (hello) "b" "srv_first_command s" "req_command r = ''hello''" "handle_hello commit h d r (s\<lparr>srv_first_command := False\<rparr>) = (out, srv')"
    | (early) "b" "srv_first_command s" "srv' = s\<lparr>srv_first_command := False\<rparr>" | (late) "b" "\<not> srv_first_command s" "srv' = s"
    | (run) "b" "\<not> srv_first_command s" "srv_hello_complete s" "dispatch_command h d r s = Some (out, srv')"
    using o by (cases b; cases "srv_first_command s"; cases "req_command r = ''hello''"; cases "srv_hello_complete s") simp_all
  then show ?thesis
  proof cases
    case known
    then show ?thesis using o i ok ins by simp
  next
    case hello
    then show ?thesis using hello_server [OF hello(4)] ok i f ins by (auto simp: session_ok_def)
  next
    case early
    then show ?thesis using \<open>session_ok (s\<lparr>srv_first_command := False\<rparr>)\<close> ins by simp
  next
    case late
    then show ?thesis using ok i f ins by (simp add: session_ok_def)
  next
    case run
    then show ?thesis using dispatch_command_server [OF run(4)] ok i f ins by (auto simp: session_ok_def)
  qed
qed

lemma session_reach: "session srv \<Longrightarrow> session_ok srv"
proof (induction rule: session.induct)
  case opened
  then show ?case by (rule session_ok_opened)
next
  case served
  then show ?case using dispatch_server [OF served(4) request_id_positive] by blast
qed

text \<open>
  C24. In every session of the debug server the table of identifiers stays well formed and the debugger is one its own operations
  reach.  Until a greeting has been accepted no image is loaded and the session is not over, and a request whose identifier was used before is
  refused without any effect.
\<close>

theorem debug_session_invariant:
  assumes "session srv"
  shows "id_ok srv \<and> dbg_reach (srv_debugger srv) \<and> (srv_first_command srv \<longrightarrow> ids srv = {} \<and> \<not> srv_hello_complete srv) \<and>
    (\<not> srv_hello_complete srv \<longrightarrow> \<not> dbg_loaded (srv_debugger srv) \<and> em8051_debugger_get_state (srv_debugger srv) = (EM8051_DEBUG_INVALID_STATE, None) \<and> \<not> srv_terminate srv) \<and>
    (\<forall>commit h d r. req_id r \<in> ids srv \<longrightarrow>
       dispatch commit h d r srv = Some (response_error r ''INVALID_REQUEST'' ''request id must be positive and unique for the session'', srv))"
proof -
  have ok: "session_ok srv" by (rule session_reach [OF assms])
  have "dispatch commit h d r srv = Some (response_error r ''INVALID_REQUEST'' ''request id must be positive and unique for the session'', srv)"
    if "req_id r \<in> ids srv" for commit h d r
  proof -
    obtain b s where ins: "id_insert (req_id r) srv = (b, s)" by fastforce
    have "req_id r \<noteq> 0" using that by (auto simp: ids_def)
    then have "\<not> b" using id_insert_spec [OF _ _ ins] ok that by (simp add: session_ok_def)
    then show ?thesis using id_insert_frame [OF ins] ins by (simp add: dispatch_def)
  qed
  moreover have "em8051_debugger_get_state (srv_debugger srv) = (EM8051_DEBUG_INVALID_STATE, None)" if "\<not> srv_hello_complete srv"
  proof -
    have "\<not> dbg_boundary_valid (srv_debugger srv)" using dbg_reach_ok [of "srv_debugger srv"] ok that by (auto simp: session_ok_def dbg_ok_def)
    then show ?thesis by (simp add: em8051_debugger_get_state_def)
  qed
  ultimately show ?thesis using ok by (simp add: session_ok_def)
qed

theorem debug_session_invariant_witness:
  "\<exists>d r srv. session srv \<and> req_id r = 1 \<and> dbg_reach (srv_debugger srv) \<and>
     dispatch ''0'' quiet_host d r srv = Some (response_error r ''INVALID_REQUEST'' ''request id must be positive and unique for the session'', srv)"
proof -
  obtain d r where r: "parse_record quiet_host greeting = Some (Some (d, r))" "req_id r = 1" using greeting_request by blast
  obtain dbg where c: "em8051_debugger_create 0 True = Some dbg" by (rule zero_session)
  obtain out srv where s: "dispatch ''0'' quiet_host d r (new_server dbg) = Some (out, srv)" using dispatch_returns [OF quiet_host_ok] by blast
  have "session srv" by (rule served [OF opened [OF c] parse_record_request [OF r(1)] s])
  moreover have "1 \<in> ids srv"
  proof -
    have "ids (new_server dbg) = {}" "id_ok (new_server dbg)" using session_ok_opened [OF c] by (simp_all add: session_ok_def new_server_def)
    then show ?thesis using dispatch_server [OF session_ok_opened [OF c] _ s] id_insert_spec [of "new_server dbg" 1] r(2)
      by (cases "id_insert 1 (new_server dbg)") simp
  qed
  ultimately show ?thesis using debug_session_invariant [of srv] r(2) by (intro exI [of _ d] exI [of _ r] exI [of _ srv]) simp
qed

end
