(* ===== verification/CpuFacade.thy ===== *)
theory CpuFacade
  imports Outcome DecodeWindow Reset Uart Ports Adc
begin

text \<open>
  The observing side of the CPU facade (\<^verbatim>\<open>emu_cpu_facade.c\<close>): the object \<open>emuif_cpu\<close> with its observation state, and what the facade
  makes of the raw facts the core reports.  The bound sink receives immutable records; what it has received is kept, newest
  first, in a log.  The code array is the buffer behind the core's code pointer.  The values of \<open>sizeof\<close> are an argument.
\<close>

subsection \<open>Data\<close>

abbreviation (input) EMUIF_STATE :: u32 where "EMUIF_STATE \<equiv> 3"
abbreviation (input) EMUIF_RANGE :: u32 where "EMUIF_RANGE \<equiv> 4"
abbreviation (input) EMUIF_UNSUPPORTED :: u32 where "EMUIF_UNSUPPORTED \<equiv> 6"
abbreviation (input) EMUIF_BUSY :: u32 where "EMUIF_BUSY \<equiv> 7"
abbreviation (input) EMUIF_STALE :: u32 where "EMUIF_STALE \<equiv> 8"
abbreviation (input) EMUIF_ACCESS_READ :: u32 where "EMUIF_ACCESS_READ \<equiv> 0"
abbreviation (input) EMUIF_ACCESS_WRITE :: u32 where "EMUIF_ACCESS_WRITE \<equiv> 1"

abbreviation (input) EMUIF_OBS_RX_START :: u32 where "EMUIF_OBS_RX_START \<equiv> 18"
abbreviation (input) EMUIF_OBS_RX_ACCEPT :: u32 where "EMUIF_OBS_RX_ACCEPT \<equiv> 19"
abbreviation (input) EMUIF_OBS_RX_DROP :: u32 where "EMUIF_OBS_RX_DROP \<equiv> 20"
abbreviation (input) EMUIF_OBS_RX_END :: u32 where "EMUIF_OBS_RX_END \<equiv> 21"
abbreviation (input) EMUIF_OBS_TX_HOLD :: u32 where "EMUIF_OBS_TX_HOLD \<equiv> 22"
abbreviation (input) EMUIF_OBS_TX_REPLACE :: u32 where "EMUIF_OBS_TX_REPLACE \<equiv> 23"
abbreviation (input) EMUIF_OBS_TX_START :: u32 where "EMUIF_OBS_TX_START \<equiv> 24"
abbreviation (input) EMUIF_OBS_TX_STOP :: u32 where "EMUIF_OBS_TX_STOP \<equiv> 25"
abbreviation (input) EMUIF_OBS_TX_TI :: u32 where "EMUIF_OBS_TX_TI \<equiv> 26"
abbreviation (input) EMUIF_OBS_TX_END :: u32 where "EMUIF_OBS_TX_END \<equiv> 27"
abbreviation (input) EMUIF_OBS_PHASE_PRE :: u32 where "EMUIF_OBS_PHASE_PRE \<equiv> 0"
abbreviation (input) EMUIF_OBS_PHASE_EFFECT :: u32 where "EMUIF_OBS_PHASE_EFFECT \<equiv> 1"
abbreviation (input) EMUIF_OBS_PHASE_RETIRE :: u32 where "EMUIF_OBS_PHASE_RETIRE \<equiv> 2"
abbreviation (input) EMUIF_OBS_PHASE_PERIPHERAL :: u32 where "EMUIF_OBS_PHASE_PERIPHERAL \<equiv> 3"
abbreviation (input) EMUIF_OBS_REASON_REN :: u32 where "EMUIF_OBS_REASON_REN \<equiv> 1"
abbreviation (input) EMUIF_OBS_REASON_BUSY :: u32 where "EMUIF_OBS_REASON_BUSY \<equiv> 2"
abbreviation (input) EMUIF_OBS_REASON_REPLACED :: u32 where "EMUIF_OBS_REASON_REPLACED \<equiv> 5"
abbreviation (input) EMUIF_OBS_REASON_RESET :: u32 where "EMUIF_OBS_REASON_RESET \<equiv> 6"
abbreviation (input) EMUIF_OBS_REASON_UNSUPPORTED :: u32 where "EMUIF_OBS_REASON_UNSUPPORTED \<equiv> 7"
abbreviation (input) EMUIF_OBS_REASON_DEVICE :: u32 where "EMUIF_OBS_REASON_DEVICE \<equiv> 8"
abbreviation (input) EMUIF_OBS_REASON_CONTEXT :: u32 where "EMUIF_OBS_REASON_CONTEXT \<equiv> 9"
abbreviation (input) EMUIF_OBS_REASON_EXHAUSTED :: u32 where "EMUIF_OBS_REASON_EXHAUSTED \<equiv> 10"
abbreviation (input) EMUIF_OBS_KNOWN_TARGET :: u32 where "EMUIF_OBS_KNOWN_TARGET \<equiv> 2"
abbreviation (input) EMUIF_OBS_KNOWN_CONTEXT :: u32 where "EMUIF_OBS_KNOWN_CONTEXT \<equiv> 4"
abbreviation (input) EMUIF_OBS_KNOWN_UART_STATE :: u32 where "EMUIF_OBS_KNOWN_UART_STATE \<equiv> 8"
abbreviation (input) EMUIF_OBS_KNOWN_TIMING :: u32 where "EMUIF_OBS_KNOWN_TIMING \<equiv> 16"
abbreviation (input) EMUIF_OBS_KNOWN_NEXT_PC :: u32 where "EMUIF_OBS_KNOWN_NEXT_PC \<equiv> 32"
abbreviation (input) EMUIF_OBS_ACCESS_WRITE :: u32 where "EMUIF_OBS_ACCESS_WRITE \<equiv> 4"
abbreviation (input) EMUIF_OBS_FRAME_CALL :: u8 where "EMUIF_OBS_FRAME_CALL \<equiv> 1"
abbreviation (input) EMUIF_OBS_FRAME_IRQ :: u8 where "EMUIF_OBS_FRAME_IRQ \<equiv> 2"

record observed_frame =
  of_id :: u64
  of_parent :: u64
  of_return_pc :: u16
  of_sp :: u8
  of_kind :: u8
  of_irq_source :: u8

record observed_uart =
  ou_id :: u64
  ou_parent :: u64
  ou_order :: u64
  ou_scheduled :: u64
  ou_start :: u64
  ou_instruction :: u64
  ou_access :: u64
  ou_value :: u16
  ou_started :: bool

record cpu_observation_state =
  co_delivered :: "emuif_observation list"
  co_generation :: u64
  co_sequence :: u64
  co_next_instruction :: u64
  co_next_access :: u64
  co_next_context :: u64
  co_next_frame :: u64
  co_retired :: u64
  co_instruction :: u64
  co_begin :: u64
  co_delivery_parent :: u64
  co_delivery_order :: u64
  co_delivery_cycle :: u64
  co_current_access :: u64
  co_attempted_cycle :: u64
  co_unbound_cycle :: u64
  co_unbound_instructions :: u64
  co_access_old_known :: bool
  co_access_old :: u8
  co_access_kind :: u32
  co_access_space :: u32
  co_access_address :: u16
  co_pc :: u16
  co_next_pc :: u16
  co_bytes :: "nat \<Rightarrow> u8"
  co_byte_mask :: u8
  co_depth :: u8
  co_irq_depth :: u8
  co_bound :: bool
  co_pending :: bool
  co_opcode_done :: bool
  co_closing :: bool
  co_fault_emitted :: bool
  co_unknown_base :: bool
  co_frames :: "nat \<Rightarrow> observed_frame"
  co_rx :: observed_uart
  co_tx :: observed_uart
  co_hold :: observed_uart

record emuif_bus_access = emuif_prefix +
  ba_cycle :: u64
  ba_sequence :: u64
  ba_direction :: u32
  ba_pc :: u16
  ba_address :: u16
  ba_value :: u8
  ba_port_latches :: "u8 list"

record emuif_bus_result = emuif_prefix +
  br_value :: u8
  br_reserved :: "u8 list"
  br_diagnostics :: u32

record emuif_port_output = emuif_prefix +
  po_cycle :: u64
  po_sequence :: u64
  po_port :: u32
  po_previous_latch :: u8
  po_latch :: u8
  po_changed_mask :: u8

record emuif_signal_output = emuif_prefix +
  so_cycle :: u64
  so_start_cycle :: u64
  so_sequence :: u64
  so_kind :: u32
  so_index :: u32
  so_value :: u32
  so_width :: u32

text \<open>The embedder's hooks, with the state behind their context pointer.\<close>

record 'h emuif_cpu_hooks = emuif_prefix +
  hk_bus_access :: "('h \<Rightarrow> emuif_bus_access \<Rightarrow> emuif_bus_result \<Rightarrow> u32 \<times> emuif_bus_result \<times> 'h) option"
  hk_port_output :: "('h \<Rightarrow> emuif_port_output \<Rightarrow> u32 \<times> 'h) option"
  hk_signal_output :: "('h \<Rightarrow> emuif_signal_output \<Rightarrow> u32 \<times> 'h) option"

record 'h emuif_cpu =
  fc_core :: em8051
  fc_observation :: cpu_observation_state
  fc_decode_cache :: emu_decode_cache
  fc_hooks :: "'h emuif_cpu_hooks"
  fc_context :: 'h
  fc_sequence :: u64
  fc_input_order :: u64
  fc_input_cycle :: u64
  fc_input_max_order :: u64
  fc_input_reset_floor :: u64
  fc_input_seen :: bool
  fc_tx_start :: u64
  fc_observed_pc :: u16
  fc_observed_size :: u8
  fc_port_latches :: "nat \<Rightarrow> u8"
  fc_fault :: u32
  fc_busy :: bool
  fc_loaded :: bool
  fc_instruction_pending :: bool

record facade_sizes = contract_sizes +
  size_config :: u32
  size_hooks :: u32
  size_reset :: u32
  size_bus_access :: u32
  size_bus_result :: u32
  size_port_output :: u32
  size_signal_output :: u32
  size_input :: u32
  size_cycle_result :: u32
  size_snapshot :: u32
  size_memory_request :: u32
  size_decode_request :: u32
  size_decoded :: u32
  size_binding :: u32
  size_observer :: u32
  size_observed_input :: u32
  size_cpu_api :: u32
  size_observation_api :: u32

definition zero_frame :: observed_frame where
  "zero_frame = \<lparr>of_id = 0, of_parent = 0, of_return_pc = 0, of_sp = 0, of_kind = 0, of_irq_source = 0\<rparr>"

definition zero_uart :: observed_uart where
  "zero_uart = \<lparr>ou_id = 0, ou_parent = 0, ou_order = 0, ou_scheduled = 0, ou_start = 0, ou_instruction = 0, ou_access = 0, ou_value = 0, ou_started = False\<rparr>"

definition zero_observation_state :: cpu_observation_state where
  "zero_observation_state = \<lparr>co_delivered = [], co_generation = 0, co_sequence = 0, co_next_instruction = 0, co_next_access = 0, co_next_context = 0,
     co_next_frame = 0, co_retired = 0, co_instruction = 0, co_begin = 0, co_delivery_parent = 0, co_delivery_order = 0, co_delivery_cycle = 0,
     co_current_access = 0, co_attempted_cycle = 0, co_unbound_cycle = 0, co_unbound_instructions = 0, co_access_old_known = False, co_access_old = 0,
     co_access_kind = 0, co_access_space = 0, co_access_address = 0, co_pc = 0, co_next_pc = 0, co_bytes = (\<lambda>_. 0), co_byte_mask = 0, co_depth = 0,
     co_irq_depth = 0, co_bound = False, co_pending = False, co_opcode_done = False, co_closing = False, co_fault_emitted = False, co_unknown_base = False,
     co_frames = (\<lambda>_. zero_frame), co_rx = zero_uart, co_tx = zero_uart, co_hold = zero_uart\<rparr>"

definition port_addresses :: "u8 list" where
  "port_addresses = [0x80, 0x90, 0xa0, 0xb0, 0xe8, 0xf8]"

text \<open>The decoder table is the one \<open>reset\<close> fills.\<close>

definition facade_decoder :: "u8 \<Rightarrow> decoder" where
  "facade_decoder = disasm_setptrs (\<lambda>_ _ _. (0, []))"

abbreviation obs_update :: "(cpu_observation_state \<Rightarrow> cpu_observation_state) \<Rightarrow> 'h emuif_cpu \<Rightarrow> 'h emuif_cpu" where
  "obs_update \<equiv> fc_observation_update"

subsection \<open>Checks and faults\<close>

definition prefix_check :: "'a emuif_prefix_scheme \<Rightarrow> u32 \<Rightarrow> u32" where
  "prefix_check p minimum =
     (if struct_size p < 8 then EMUIF_INVALID
      else if api_version p \<noteq> 1 then EMUIF_VERSION
      else if flags p \<noteq> 0 \<or> struct_size p < minimum then EMUIF_INVALID
      else EMUIF_OK)"

definition available :: "'h emuif_cpu \<Rightarrow> u32" where
  "available cpu = (if fc_busy cpu then EMUIF_BUSY else EMUIF_OK)"

definition abort_execution :: "'h emuif_cpu \<Rightarrow> bool" where
  "abort_execution cpu \<longleftrightarrow> fc_fault cpu \<noteq> EMUIF_OK"

definition fail_cpu :: "u32 \<Rightarrow> 'h emuif_cpu \<Rightarrow> 'h emuif_cpu" where
  "fail_cpu status cpu =
     (if status \<noteq> EMUIF_OK \<and> fc_fault cpu = EMUIF_OK
      then cpu\<lparr>fc_fault := if status > EMUIF_NOT_FOUND then EMUIF_FAULT else status\<rparr> else cpu)"

definition obs_failure_reason :: "u32 \<Rightarrow> u32" where
  "obs_failure_reason status =
     (if status = EMUIF_UNSUPPORTED then EMUIF_OBS_REASON_UNSUPPORTED
      else if status = EMUIF_EXHAUSTED then EMUIF_OBS_REASON_EXHAUSTED else EMUIF_OBS_REASON_DEVICE)"

text \<open>The next value of a counter, which the caller stores in the counter as well, or a fault.\<close>

definition obs_id :: "u64 \<Rightarrow> 'h emuif_cpu \<Rightarrow> u64 option \<times> 'h emuif_cpu" where
  "obs_id counter cpu = (if counter = - 1 then (None, fail_cpu EMUIF_EXHAUSTED cpu) else (Some (counter + 1), cpu))"

subsection \<open>Observations\<close>

definition obs_init :: "facade_sizes \<Rightarrow> 'h emuif_cpu \<Rightarrow> u32 \<Rightarrow> u32 \<Rightarrow> u64 \<Rightarrow> emuif_observation" where
  "obs_init z cpu kind phase cycle =
     (let ob = fc_observation cpu; pending = co_pending ob;
          v = zero_value\<lparr>struct_size := size_value z, api_version := 1, ov_width := 8\<rparr>
      in zero_observation\<lparr>struct_size := size_observation z, api_version := 1, ob_old_value := v, ob_new_value := v,
           ob_generation := co_generation ob, ob_cycle := cycle, ob_kind := kind, ob_phase := phase,
           ob_legacy_instructions := mInstructionCount (fc_core cpu), ob_retired_instructions := co_retired ob,
           ob_instruction_id := if pending then co_instruction ob else 0, ob_begin_cycle := if pending then co_begin ob else 0,
           ob_pc := if pending then co_pc ob else mPC (fc_core cpu), ob_known := EMUIF_OBS_KNOWN_PC, ob_irq_depth := ucast (co_irq_depth ob)\<rparr>)"

text \<open>While the sink runs the CPU is busy, so that it cannot call back.\<close>

definition obs_emit :: "emuif_observation \<Rightarrow> 'h emuif_cpu \<Rightarrow> 'h emuif_cpu" where
  "obs_emit e cpu =
     (if \<not> co_bound (fc_observation cpu) then cpu
      else case obs_id (co_sequence (fc_observation cpu)) cpu of
        (None, cpu) \<Rightarrow> cpu
      | (Some n, cpu) \<Rightarrow> obs_update (\<lambda>ob. ob\<lparr>co_sequence := n, co_delivered := e\<lparr>ob_sequence := n\<rparr> # co_delivered ob\<rparr>) cpu)"

definition obs_bytes :: "'h emuif_cpu \<Rightarrow> emuif_observation \<Rightarrow> emuif_observation" where
  "obs_bytes cpu e =
     (let ob = fc_observation cpu;
          n = length (takeWhile (\<lambda>i. bit (co_byte_mask ob) i) [0..<3]);
          bytes = map (\<lambda>i. if i < n then co_bytes ob i else 0) [0..<3]
      in e\<lparr>ob_byte_count := word_of_nat n, ob_bytes := bytes,
           ob_text := snd (em8051_decode_captured facade_decoder (fc_core cpu) (co_pc ob) (\<lambda>i. bytes ! i) n)\<rparr>)"

definition obs_uart_event :: "facade_sizes \<Rightarrow> observed_uart \<Rightarrow> u32 \<Rightarrow> u32 \<Rightarrow> u64 \<Rightarrow> u64 \<Rightarrow> 'h emuif_cpu \<Rightarrow> 'h emuif_cpu" where
  "obs_uart_event z f kind reason cycle displaced cpu =
     (if ou_id f = 0 then cpu
      else
        let rx = (EMUIF_OBS_RX_START \<le> kind \<and> kind \<le> EMUIF_OBS_RX_END);
            hold = (kind = EMUIF_OBS_TX_HOLD \<or> kind = EMUIF_OBS_TX_REPLACE);
            scon = mSFR (fc_core cpu) REG_SCON;
            mode = drop_bit 6 scon;
            e = obs_init z cpu kind (if hold then EMUIF_OBS_PHASE_EFFECT else EMUIF_OBS_PHASE_PERIPHERAL) cycle;
            e = e\<lparr>ob_frame_id := ou_id f, ob_related_frame_id := displaced, ob_reason := reason,
                   ob_known := ob_known e OR EMUIF_OBS_KNOWN_UART_STATE OR EMUIF_OBS_KNOWN_TIMING,
                   ob_uart_mode := mode, ob_uart_width := if mode \<ge> 2 then 9 else 8, ob_ninth := ucast (drop_bit 8 (ou_value f) AND 1),
                   ob_scon := scon, ob_tcon := mSFR (fc_core cpu) REG_TCON, ob_start_cycle := ou_start f, ob_scheduled_cycle := ou_scheduled f\<rparr>;
            e = (if rx then e\<lparr>ob_parent_stimulus_id := ou_parent f, ob_cpu_input_order := ou_order f, ob_input_stage := 1\<rparr> else e);
            e = (if hold then e\<lparr>ob_instruction_id := ou_instruction f, ob_access_id := ou_access f\<rparr> else e);
            e = (if kind = EMUIF_OBS_RX_ACCEPT \<or> kind = EMUIF_OBS_RX_START \<or> hold \<or> kind = EMUIF_OBS_TX_START
                 then e\<lparr>ob_new_value := (ob_new_value e)\<lparr>ov_known := 1, ov_width := 16, ov_value := ucast (ou_value f)\<rparr>\<rparr> else e)
        in obs_emit e cpu)"

text \<open>A new UART frame, if there is an identifier left; the frame stays zeroed otherwise.\<close>

definition obs_uart_new :: "u16 \<Rightarrow> 'h emuif_cpu \<Rightarrow> observed_uart option \<times> 'h emuif_cpu" where
  "obs_uart_new value cpu =
     (case obs_id (co_next_frame (fc_observation cpu)) cpu of
        (None, cpu) \<Rightarrow> (None, cpu)
      | (Some n, cpu) \<Rightarrow> (Some (zero_uart\<lparr>ou_id := n, ou_value := value\<rparr>), obs_update (\<lambda>ob. ob\<lparr>co_next_frame := n\<rparr>) cpu))"

definition obs_context_push :: "u8 \<Rightarrow> u16 \<Rightarrow> u16 \<Rightarrow> u8 \<Rightarrow> u8 \<Rightarrow> u32 \<Rightarrow> emuif_observation \<Rightarrow> 'h emuif_cpu \<Rightarrow> emuif_observation \<times> 'h emuif_cpu" where
  "obs_context_push kind target return_pc sp_before sp_after source e cpu =
     (let ob = fc_observation cpu;
          e = e\<lparr>ob_frame_kind := ucast kind, ob_target := target, ob_return_pc := return_pc, ob_sp_before := sp_before, ob_sp_after := sp_after,
                ob_known := ob_known e OR EMUIF_OBS_KNOWN_TARGET\<rparr>
      in if co_depth ob = 64 then
           let e = e\<lparr>ob_reason := EMUIF_OBS_REASON_EXHAUSTED\<rparr>;
               cpu = obs_update (\<lambda>ob. ob\<lparr>co_unknown_base := True, co_depth := 0\<rparr>) cpu
           in (case obs_id (co_next_context ob) cpu of
                 (None, cpu) \<Rightarrow> (e\<lparr>ob_sp_before := 0, ob_sp_after := 0\<rparr>, cpu)
               | (Some n, cpu) \<Rightarrow> (e\<lparr>ob_context_id := n, ob_sp_before := 0, ob_sp_after := 0\<rparr>, obs_update (\<lambda>ob. ob\<lparr>co_next_context := n\<rparr>) cpu))
         else
           let at = unat (co_depth ob)
           in (case obs_id (co_next_context ob) cpu of
                 (None, cpu) \<Rightarrow> (e, obs_update (\<lambda>ob. ob\<lparr>co_frames := (co_frames ob)(at := zero_frame)\<rparr>) cpu)
               | (Some n, cpu) \<Rightarrow>
                   let parent = (if co_depth ob \<noteq> 0 then of_id (co_frames ob (at - 1)) else 0);
                       f = \<lparr>of_id = n, of_parent = parent, of_return_pc = return_pc, of_sp = sp_after, of_kind = kind,
                            of_irq_source = if kind = EMUIF_OBS_FRAME_IRQ then ucast source else 0\<rparr>
                   in (e\<lparr>ob_context_id := n, ob_parent_context_id := parent, ob_known := ob_known e OR EMUIF_OBS_KNOWN_CONTEXT\<rparr>,
                       obs_update (\<lambda>ob. ob\<lparr>co_next_context := n, co_frames := (co_frames ob)(at := f), co_depth := co_depth ob + 1\<rparr>) cpu)))"

subsection \<open>Raw facts\<close>

text \<open>Each case of \<open>obs_raw_fact\<close>; a fact without an answer answers 0.\<close>

definition raw_begin :: "facade_sizes \<Rightarrow> emu_cpu_raw_record \<Rightarrow> 'h emuif_cpu \<Rightarrow> 'h emuif_cpu" where
  "raw_begin z r cpu =
     (case obs_id (co_next_instruction (fc_observation cpu)) cpu of
        (None, cpu) \<Rightarrow> cpu
      | (Some n, cpu) \<Rightarrow>
          let cpu = obs_update (\<lambda>ob. ob\<lparr>co_next_instruction := n, co_instruction := n, co_pending := True, co_opcode_done := False, co_closing := False,
                co_pc := ucast (rw_a r), co_begin := rw_cycle r, co_attempted_cycle := rw_cycle r, co_byte_mask := 1,
                co_bytes := (\<lambda>i. if i = 0 then ucast (rw_b r) else 0)\<rparr>) cpu
          in obs_emit (obs_bytes cpu (obs_init z cpu EMUIF_OBS_INSTRUCTION_BEGIN EMUIF_OBS_PHASE_PRE (rw_cycle r))) cpu)"

definition raw_operand :: "emu_cpu_raw_record \<Rightarrow> 'h emuif_cpu \<Rightarrow> 'h emuif_cpu" where
  "raw_operand r cpu =
     (if co_pending (fc_observation cpu) \<and> rw_a r < 3 \<and> \<not> bit (co_byte_mask (fc_observation cpu)) (unat (rw_a r))
      then obs_update (\<lambda>ob. ob\<lparr>co_bytes := (co_bytes ob)(unat (rw_a r) := ucast (rw_b r)), co_byte_mask := co_byte_mask ob OR push_bit (unat (rw_a r)) 1\<rparr>) cpu
      else cpu)"

definition raw_enter :: "facade_sizes \<Rightarrow> bool \<Rightarrow> emu_cpu_raw_record \<Rightarrow> 'h emuif_cpu \<Rightarrow> 'h emuif_cpu" where
  "raw_enter z call r cpu =
     (let e = (if call then obs_init z cpu EMUIF_OBS_CALL EMUIF_OBS_PHASE_EFFECT (rw_cycle r) else obs_init z cpu EMUIF_OBS_IRQ_ENTER EMUIF_OBS_PHASE_BOUNDARY (rw_cycle r));
          (e, cpu) = obs_context_push (if call then EMUIF_OBS_FRAME_CALL else EMUIF_OBS_FRAME_IRQ) (if call then ucast (rw_a r) else mPC (fc_core cpu))
                       (ucast (rw_b r)) (ucast (rw_c r)) (ucast (rw_d r)) (ucast (rw_a r)) e cpu
      in if ob_context_id e = 0 then cpu
         else
           let e = (if call then e else e\<lparr>ob_irq_source := ucast (rw_a r)\<rparr>);
               cpu = obs_emit e cpu
           in if \<not> call \<and> co_irq_depth (fc_observation cpu) < 255 then obs_update (\<lambda>ob. ob\<lparr>co_irq_depth := co_irq_depth ob + 1\<rparr>) cpu else cpu)"

text \<open>The known top frame fits a return when it has the kind, the return address and the stack pointer of the return.\<close>

definition frame_fits :: "u8 \<Rightarrow> emu_cpu_raw_record \<Rightarrow> observed_frame \<Rightarrow> bool" where
  "frame_fits expected r f \<longleftrightarrow>
     of_kind f = expected \<and> ucast (of_return_pc f) = rw_a r \<and> ucast (of_sp f) = rw_c r \<and> ucast (of_sp f - 2) = rw_d r"

definition return_source :: "bool \<Rightarrow> observed_frame \<Rightarrow> emuif_observation \<Rightarrow> emuif_observation" where
  "return_source isret f e = (if \<not> isret \<and> of_kind f = EMUIF_OBS_FRAME_IRQ then e\<lparr>ob_irq_source := ucast (of_irq_source f)\<rparr> else e)"

definition return_observed :: "bool \<Rightarrow> emuif_observation \<Rightarrow> 'h emuif_cpu \<Rightarrow> 'h emuif_cpu" where
  "return_observed isret e cpu =
     (let cpu = obs_emit e cpu
      in if \<not> isret \<and> co_irq_depth (fc_observation cpu) \<noteq> 0 then obs_update (\<lambda>ob. ob\<lparr>co_irq_depth := co_irq_depth ob - 1\<rparr>) cpu else cpu)"

definition raw_return :: "facade_sizes \<Rightarrow> bool \<Rightarrow> emu_cpu_raw_record \<Rightarrow> 'h emuif_cpu \<Rightarrow> 'h emuif_cpu" where
  "raw_return z isret r cpu =
     (let expected = (if isret then EMUIF_OBS_FRAME_CALL else EMUIF_OBS_FRAME_IRQ);
          e = obs_init z cpu (if isret then EMUIF_OBS_RET else EMUIF_OBS_RETI) EMUIF_OBS_PHASE_EFFECT (rw_cycle r);
          e = e\<lparr>ob_frame_kind := ucast expected, ob_target := ucast (rw_a r), ob_return_pc := ucast (rw_a r), ob_known := ob_known e OR EMUIF_OBS_KNOWN_TARGET\<rparr>;
          ob = fc_observation cpu;
          f = co_frames ob (unat (co_depth ob - 1))
      in if co_depth ob \<noteq> 0 then
           if \<not> frame_fits expected r f then
             (case obs_id (co_next_context ob) (obs_update (\<lambda>ob. ob\<lparr>co_unknown_base := True, co_depth := 0\<rparr>) cpu) of
                (None, cpu) \<Rightarrow> cpu
              | (Some n, cpu) \<Rightarrow>
                  return_observed isret (return_source isret f (e\<lparr>ob_reason := EMUIF_OBS_REASON_CONTEXT, ob_context_id := n\<rparr>))
                    (obs_update (\<lambda>ob. ob\<lparr>co_next_context := n\<rparr>) cpu))
           else return_observed isret (return_source isret f (e\<lparr>ob_context_id := of_id f, ob_parent_context_id := of_parent f, ob_sp_before := ucast (rw_c r),
                  ob_sp_after := ucast (rw_d r), ob_known := ob_known e OR EMUIF_OBS_KNOWN_CONTEXT\<rparr>)) (obs_update (\<lambda>ob. ob\<lparr>co_closing := True\<rparr>) cpu)
         else
           (case obs_id (co_next_context ob) cpu of
              (None, cpu) \<Rightarrow> cpu
            | (Some n, cpu) \<Rightarrow>
                return_observed isret (e\<lparr>ob_context_id := n, ob_reason := EMUIF_OBS_REASON_CONTEXT\<rparr>)
                  (obs_update (\<lambda>ob. ob\<lparr>co_next_context := n, co_unknown_base := True\<rparr>) cpu)))"

definition frame_value :: "emu_cpu_raw_record \<Rightarrow> u16" where
  "frame_value r = ucast (rw_a r OR ucast (push_bit 8 (ucast (rw_b r) :: u16)))"

definition raw_tx_hold :: "facade_sizes \<Rightarrow> emu_cpu_raw_record \<Rightarrow> 'h emuif_cpu \<Rightarrow> 'h emuif_cpu" where
  "raw_tx_hold z r cpu =
     (let displaced = ou_id (co_hold (fc_observation cpu))
      in case obs_uart_new (frame_value r) cpu of
           (None, cpu) \<Rightarrow> obs_update (\<lambda>ob. ob\<lparr>co_hold := zero_uart\<rparr>) cpu
         | (Some f, cpu) \<Rightarrow>
             let ob = fc_observation cpu;
                 f = f\<lparr>ou_instruction := if co_pending ob then co_instruction ob else 0, ou_access := co_current_access ob, ou_scheduled := rw_cycle r\<rparr>
             in obs_uart_event z f (if displaced \<noteq> 0 then EMUIF_OBS_TX_REPLACE else EMUIF_OBS_TX_HOLD) (if displaced \<noteq> 0 then EMUIF_OBS_REASON_REPLACED else 0)
                  (rw_cycle r) displaced (obs_update (\<lambda>ob. ob\<lparr>co_hold := f\<rparr>) cpu))"

definition raw_tx_start :: "facade_sizes \<Rightarrow> emu_cpu_raw_record \<Rightarrow> 'h emuif_cpu \<Rightarrow> 'h emuif_cpu" where
  "raw_tx_start z r cpu =
     (let f = (co_hold (fc_observation cpu))\<lparr>ou_start := rw_cycle r, ou_started := True\<rparr>
      in obs_uart_event z f EMUIF_OBS_TX_START 0 (rw_cycle r) 0 (obs_update (\<lambda>ob. ob\<lparr>co_tx := f, co_hold := zero_uart\<rparr>) cpu))"

definition raw_rx_start :: "facade_sizes \<Rightarrow> emu_cpu_raw_record \<Rightarrow> 'h emuif_cpu \<Rightarrow> 'h emuif_cpu" where
  "raw_rx_start z r cpu =
     (case obs_uart_new (frame_value r) cpu of
        (None, cpu) \<Rightarrow> obs_update (\<lambda>ob. ob\<lparr>co_rx := zero_uart\<rparr>) cpu
      | (Some f, cpu) \<Rightarrow>
          let ob = fc_observation cpu;
              f = f\<lparr>ou_parent := co_delivery_parent ob, ou_order := co_delivery_order ob, ou_scheduled := co_delivery_cycle ob,
                    ou_start := rw_cycle r, ou_started := True\<rparr>
          in obs_uart_event z f EMUIF_OBS_RX_START 0 (rw_cycle r) 0 (obs_update (\<lambda>ob. ob\<lparr>co_rx := f\<rparr>) cpu))"

definition raw_access_begin :: "facade_sizes \<Rightarrow> emu_cpu_raw_record \<Rightarrow> 'h emuif_cpu \<Rightarrow> u64 \<times> 'h emuif_cpu" where
  "raw_access_begin z r cpu =
     (let ob = fc_observation cpu
      in if rw_b r = EMUIF_SPACE_SFR \<and> rw_a r = 0x99 \<and> mSFR (fc_core cpu) REG_SCON AND 0xc0 = 0xc0 \<and> co_next_frame ob = - 1
         then (0, fail_cpu EMUIF_EXHAUSTED cpu)
         else if co_current_access ob \<noteq> 0 \<and> co_access_space ob = rw_b r \<and> ucast (co_access_address ob) = rw_a r then (co_current_access ob, cpu)
         else if \<not> co_pending ob then (0, cpu)
         else case obs_id (co_next_access ob) cpu of
           (None, cpu) \<Rightarrow> (0, cpu)
         | (Some n, cpu) \<Rightarrow>
             let cpu = obs_update (\<lambda>ob. ob\<lparr>co_next_access := n, co_current_access := n, co_access_kind := rw_c r, co_access_space := rw_b r,
                         co_access_address := ucast (rw_a r), co_access_old_known := False\<rparr>) cpu;
                 e = (obs_init z cpu EMUIF_OBS_ACCESS_ATTEMPT EMUIF_OBS_PHASE_EFFECT (rw_cycle r))
                       \<lparr>ob_access_id := n, ob_space := rw_b r, ob_address := ucast (rw_a r), ob_access := rw_c r\<rparr>;
                 e = (if rw_c r = EMUIF_OBS_ACCESS_WRITE then e\<lparr>ob_new_value := (ob_new_value e)\<lparr>ov_known := 1, ov_value := ucast (rw_d r)\<rparr>\<rparr> else e)
             in (n, obs_emit e cpu))"

definition raw_access_end :: "facade_sizes \<Rightarrow> emu_cpu_raw_record \<Rightarrow> 'h emuif_cpu \<Rightarrow> 'h emuif_cpu" where
  "raw_access_end z r cpu =
     (if rw_a r = 0 then cpu
      else
        let ob = fc_observation cpu; current = (rw_a r = co_current_access ob); fault = fc_fault cpu;
            e = (obs_init z cpu EMUIF_OBS_ACCESS_RESULT EMUIF_OBS_PHASE_EFFECT (rw_cycle r))
                  \<lparr>ob_access_id := rw_a r, ob_address := ucast (rw_b r), ob_space := drop_bit 16 (rw_c r) AND 255,
                   ob_access := if current then co_access_kind ob else rw_c r AND 255\<rparr>;
            e = (if current \<and> co_access_old_known ob then e\<lparr>ob_old_value := (ob_old_value e)\<lparr>ov_known := 1, ov_value := ucast (co_access_old ob)\<rparr>\<rparr> else e);
            e = e\<lparr>ob_status := fault, ob_partial_effects := of_bool (fault \<noteq> 0)\<rparr>;
            e = (if fault \<noteq> 0 then e\<lparr>ob_reason := obs_failure_reason fault\<rparr>
                 else e\<lparr>ob_new_value := (ob_new_value e)\<lparr>ov_known := 1, ov_value := ucast (rw_d r)\<rparr>\<rparr>)
        in obs_update (\<lambda>ob. ob\<lparr>co_current_access := 0\<rparr>) (obs_emit e cpu))"

definition obs_raw_fact :: "facade_sizes \<Rightarrow> emu_cpu_raw_record \<Rightarrow> 'h emuif_cpu \<Rightarrow> u64 \<times> 'h emuif_cpu" where
  "obs_raw_fact z r cpu =
     (let ob = fc_observation cpu; cycle = rw_cycle r
      in if \<not> co_bound ob then (0, cpu)
         else case rw_kind r of
           EMU_RAW_BEGIN \<Rightarrow> (0, raw_begin z r cpu)
         | EMU_RAW_OPERAND \<Rightarrow> (0, raw_operand r cpu)
         | EMU_RAW_CYCLE_BEGIN \<Rightarrow> (0, obs_update (\<lambda>ob. ob\<lparr>co_attempted_cycle := cycle\<rparr>) cpu)
         | EMU_RAW_OPCODE_END \<Rightarrow>
             (0, if co_pending ob \<and> fc_fault cpu = 0 then obs_update (\<lambda>ob. ob\<lparr>co_opcode_done := True, co_next_pc := ucast (rw_a r)\<rparr>) cpu else cpu)
         | EMU_RAW_CONTEXT_PREFLIGHT \<Rightarrow> if co_next_context ob = - 1 then (0, fail_cpu EMUIF_EXHAUSTED cpu) else (1, cpu)
         | EMU_RAW_CALL \<Rightarrow> (0, raw_enter z True r cpu)
         | EMU_RAW_IRQ_ENTER \<Rightarrow> (0, raw_enter z False r cpu)
         | EMU_RAW_RET \<Rightarrow> (0, raw_return z True r cpu)
         | EMU_RAW_RETI \<Rightarrow> (0, raw_return z False r cpu)
         | EMU_RAW_IRQ_REQUEST \<Rightarrow>
             (0, obs_emit ((obs_init z cpu EMUIF_OBS_IRQ_REQUEST EMUIF_OBS_PHASE_PERIPHERAL cycle)\<lparr>ob_irq_source := ucast (rw_a r)\<rparr>) cpu)
         | EMU_RAW_TX_HOLD \<Rightarrow> (0, raw_tx_hold z r cpu)
         | EMU_RAW_TX_START \<Rightarrow> (0, raw_tx_start z r cpu)
         | EMU_RAW_TX_STOP \<Rightarrow> (0, obs_uart_event z (co_tx ob) EMUIF_OBS_TX_STOP 0 cycle 0 cpu)
         | EMU_RAW_TX_TI \<Rightarrow> (0, obs_uart_event z (co_tx ob) EMUIF_OBS_TX_TI 0 cycle 0 cpu)
         | EMU_RAW_TX_END \<Rightarrow> (0, obs_update (\<lambda>ob. ob\<lparr>co_tx := zero_uart\<rparr>) (obs_uart_event z (co_tx ob) EMUIF_OBS_TX_END 0 cycle 0 cpu))
         | EMU_RAW_RX_START \<Rightarrow> (0, raw_rx_start z r cpu)
         | EMU_RAW_RX_ACCEPT \<Rightarrow> (0, obs_uart_event z (co_rx ob) EMUIF_OBS_RX_ACCEPT 0 cycle 0 cpu)
         | EMU_RAW_RX_DROP \<Rightarrow> (0, obs_uart_event z (co_rx ob) EMUIF_OBS_RX_DROP (ucast (rw_a r)) cycle 0 cpu)
         | EMU_RAW_RX_END \<Rightarrow> (0, obs_update (\<lambda>ob. ob\<lparr>co_rx := zero_uart\<rparr>) (obs_uart_event z (co_rx ob) EMUIF_OBS_RX_END 0 cycle 0 cpu))
         | EMU_RAW_ACCESS_BEGIN \<Rightarrow> raw_access_begin z r cpu
         | EMU_RAW_ACCESS_OLD \<Rightarrow>
             (0, if rw_a r \<noteq> 0 \<and> rw_a r = co_current_access ob then obs_update (\<lambda>ob. ob\<lparr>co_access_old := ucast (rw_b r), co_access_old_known := True\<rparr>) cpu else cpu)
         | EMU_RAW_ACCESS_END \<Rightarrow> (0, raw_access_end z r cpu))"

definition obs_fact :: "facade_sizes \<Rightarrow> emu_cpu_raw_record \<Rightarrow> 'h emuif_cpu \<Rightarrow> 'h emuif_cpu" where
  "obs_fact z r cpu = snd (obs_raw_fact z r cpu)"

subsection \<open>Boundaries\<close>

definition count_retired :: "'h emuif_cpu \<Rightarrow> 'h emuif_cpu" where
  "count_retired cpu =
     (let cpu = (if fc_fault cpu = 0 \<and> co_retired (fc_observation cpu) = - 1 then fail_cpu EMUIF_EXHAUSTED cpu else cpu)
      in if fc_fault cpu = 0 then obs_update (\<lambda>ob. ob\<lparr>co_retired := co_retired ob + 1\<rparr>) cpu else cpu)"

definition finish_instruction :: "facade_sizes \<Rightarrow> 'h emuif_cpu \<Rightarrow> 'h emuif_cpu" where
  "finish_instruction z cpu =
     (let cpu = count_retired cpu; fault = fc_fault cpu; ob = fc_observation cpu;
          e = obs_init z cpu (if fault \<noteq> 0 then EMUIF_OBS_INSTRUCTION_ABORT else EMUIF_OBS_INSTRUCTION_RETIRE)
                (if fault \<noteq> 0 then EMUIF_OBS_PHASE_BOUNDARY else EMUIF_OBS_PHASE_RETIRE) (if fault \<noteq> 0 then co_attempted_cycle ob else mMachineCycleCount (fc_core cpu));
          e = e\<lparr>ob_status := fault, ob_partial_effects := of_bool (fault \<noteq> 0)\<rparr>;
          e = (if fault \<noteq> 0 then e\<lparr>ob_reason := obs_failure_reason fault\<rparr> else e);
          e = (if co_opcode_done ob then e\<lparr>ob_next_pc := co_next_pc ob, ob_known := ob_known e OR EMUIF_OBS_KNOWN_NEXT_PC\<rparr> else e);
          cpu = obs_emit (obs_bytes cpu e) cpu;
          ob = fc_observation cpu;
          cpu = (if fc_fault cpu = 0 \<and> co_closing ob \<and> co_depth ob \<noteq> 0 then obs_update (\<lambda>ob. ob\<lparr>co_depth := co_depth ob - 1\<rparr>) cpu else cpu)
      in obs_update (\<lambda>ob. ob\<lparr>co_pending := False, co_closing := False\<rparr>) cpu)"

definition obs_finish :: "facade_sizes \<Rightarrow> 'h emuif_cpu \<Rightarrow> 'h emuif_cpu" where
  "obs_finish z cpu =
     (if \<not> co_bound (fc_observation cpu) then cpu
      else
        let ob = fc_observation cpu;
            cpu = (if co_pending ob \<and> (fc_fault cpu \<noteq> 0 \<or> co_opcode_done ob \<and> mTickDelay (fc_core cpu) = 0) then finish_instruction z cpu else cpu)
        in if fc_fault cpu \<noteq> 0 \<and> \<not> co_fault_emitted (fc_observation cpu) then
             let e = (obs_init z cpu EMUIF_OBS_FAULT EMUIF_OBS_PHASE_BOUNDARY (co_attempted_cycle (fc_observation cpu)))
                       \<lparr>ob_status := fc_fault cpu, ob_partial_effects := 1, ob_reason := obs_failure_reason (fc_fault cpu)\<rparr>
             in obs_emit e (obs_update (\<lambda>ob. ob\<lparr>co_fault_emitted := True\<rparr>) cpu)
           else cpu)"

definition abort_pending :: "facade_sizes \<Rightarrow> 'h emuif_cpu \<Rightarrow> 'h emuif_cpu" where
  "abort_pending z cpu =
     (let ob = fc_observation cpu; cycle = mMachineCycleCount (fc_core cpu);
          e = (obs_init z cpu EMUIF_OBS_INSTRUCTION_ABORT EMUIF_OBS_PHASE_BOUNDARY cycle)
                \<lparr>ob_status := EMUIF_STATE, ob_reason := EMUIF_OBS_REASON_RESET, ob_partial_effects := 1\<rparr>;
          e = (if co_opcode_done ob then e\<lparr>ob_next_pc := co_next_pc ob, ob_known := ob_known e OR EMUIF_OBS_KNOWN_NEXT_PC\<rparr> else e)
      in obs_update (\<lambda>ob. ob\<lparr>co_pending := False\<rparr>) (obs_emit (obs_bytes cpu e) cpu))"

definition obs_reset :: "facade_sizes \<Rightarrow> 'h emuif_cpu \<Rightarrow> 'h emuif_cpu" where
  "obs_reset z cpu =
     (let cycle = mMachineCycleCount (fc_core cpu);
          cpu = (if co_bound (fc_observation cpu) then
                   let cpu = (if co_pending (fc_observation cpu) then abort_pending z cpu else cpu);
                       cpu = obs_uart_event z (co_rx (fc_observation cpu)) EMUIF_OBS_RX_END EMUIF_OBS_REASON_RESET cycle 0 cpu;
                       cpu = obs_uart_event z (co_tx (fc_observation cpu)) EMUIF_OBS_TX_END EMUIF_OBS_REASON_RESET cycle 0 cpu
                   in obs_uart_event z (co_hold (fc_observation cpu)) EMUIF_OBS_TX_END EMUIF_OBS_REASON_RESET cycle 0 cpu
                 else cpu)
      in obs_update (\<lambda>ob. ob\<lparr>co_rx := zero_uart, co_tx := zero_uart, co_hold := zero_uart, co_pending := False, co_closing := False, co_depth := 0,
           co_irq_depth := 0, co_unknown_base := False, co_fault_emitted := False, co_current_access := 0, co_unbound_cycle := 0,
           co_unbound_instructions := 0, co_attempted_cycle := 0\<rparr>) cpu)"

end
