(* ===== verification/CpuApi.thy ===== *)
theory CpuApi
  imports CpuFacade
begin

text \<open>
  The interface of the CPU facade (\<^verbatim>\<open>emu_cpu_facade.c\<close>): the callbacks it installs in the core, the operations of the CPU interface and of its
  observation extension.  The core calls back in the middle of a tick; here the calls of a tick, each with the core as it is then,
  and the core after it are arguments of \<open>cycle_cpu\<close>, so that what is shown holds for every behaviour of the core.  Inputs are applied
  by the core's own operations, whose raw facts are handed on after them: they read nothing that these operations change later.
\<close>

subsection \<open>Data\<close>

record emuif_cpu_config = emuif_prefix +
  cf_variant :: u32
  cf_oscillator_hz :: u32

record emuif_reset = emuif_prefix +
  rs_seed :: u32
  rs_entry :: u16
  rs_reserved :: u16

record emuif_input = emuif_prefix +
  in_cycle :: u64
  in_order :: u64
  in_kind :: u32
  in_index :: u32
  in_value :: u32
  in_mask :: u32

record emuif_cycle_result = emuif_prefix +
  cr_cycle :: u64
  cr_instructions :: u64
  cr_progressed :: u32
  cr_safe_boundary :: u32
  cr_idle :: u32
  cr_power_down :: u32

record emuif_snapshot = emuif_prefix +
  es_generation :: u64
  es_cycle :: u64
  es_instructions :: u64
  es_state :: u32
  es_variant :: u32
  es_pc :: u16
  es_dptr :: u16
  es_a :: u8
  es_b :: u8
  es_psw :: u8
  es_sp :: u8
  es_r :: "u8 list"
  es_idle :: u8
  es_power_down :: u8
  es_safe_boundary :: u8
  es_reserved :: u8

record emuif_memory_request = emuif_prefix +
  mr_space :: u32
  mr_address :: u32
  mr_count :: u32
  mr_reserved :: u32

record emuif_decode_request = emuif_prefix +
  dr_address :: u16
  dr_reserved :: u16
  dr_byte_offset :: int
  dr_instruction_offset :: int
  dr_count :: u32

record emuif_decoded = emuif_prefix +
  ed_address :: u16
  ed_size :: u8
  ed_valid :: u8
  ed_text :: string
  ed_reserved :: "u8 list"

record emuif_observer = emuif_prefix +
  sink_observe :: bool

record emuif_observation_binding = emuif_prefix +
  bd_generation :: u64
  bd_observer :: emuif_observer

record emuif_observed_input = emuif_prefix +
  oi_parent_stimulus_id :: u64
  oi_input :: emuif_input

subsection \<open>Callbacks of the core\<close>

definition facade_sequence :: "'h emuif_cpu \<Rightarrow> u64 option \<times> 'h emuif_cpu" where
  "facade_sequence cpu =
     (if fc_sequence cpu = - 1 then (None, fail_cpu EMUIF_EXHAUSTED cpu) else (Some (fc_sequence cpu + 1), cpu\<lparr>fc_sequence := fc_sequence cpu + 1\<rparr>))"

definition port_latch :: "em8051 \<Rightarrow> nat \<Rightarrow> u8" where
  "port_latch c p = mSFR c (unat (port_addresses ! p) - 0x80)"

definition capture_access :: "facade_sizes \<Rightarrow> u16 \<Rightarrow> u32 \<Rightarrow> u8 \<Rightarrow> 'h emuif_cpu \<Rightarrow> emuif_bus_access" where
  "capture_access z address direction v cpu =
     \<lparr>struct_size = size_bus_access z, api_version = 1, flags = 0, ba_cycle = mMachineCycleCount (fc_core cpu), ba_sequence = 0, ba_direction = direction,
      ba_pc = mPC (fc_core cpu), ba_address = address, ba_value = v,
      ba_port_latches = map (\<lambda>p. if p < 4 \<or> is_sab (fc_core cpu) then port_latch (fc_core cpu) p else 0) [0..<6]\<rparr>"

text \<open>Asking the embedder for one access; a fault leaves 0.\<close>

definition bus_transfer :: "facade_sizes \<Rightarrow> u16 \<Rightarrow> u32 \<Rightarrow> u8 \<Rightarrow> 'h emuif_cpu \<Rightarrow> u8 \<times> 'h emuif_cpu" where
  "bus_transfer z address direction v cpu =
     (case facade_sequence cpu of
        (None, cpu) \<Rightarrow> (0, cpu)
      | (Some n, cpu) \<Rightarrow>
          let access = (capture_access z address direction v cpu)\<lparr>ba_sequence := n\<rparr>;
              blank = \<lparr>struct_size = size_bus_result z, api_version = 1, flags = 0, br_value = 0, br_reserved = [0, 0, 0], br_diagnostics = 0\<rparr>
          in (case hk_bus_access (fc_hooks cpu) of
                None \<Rightarrow> (0, cpu)
              | Some hook \<Rightarrow>
                  let (status, result, context) = hook (fc_context cpu) access blank;
                      cpu = cpu\<lparr>fc_context := context\<rparr>
                  in if status \<noteq> EMUIF_OK then (0, fail_cpu status cpu)
                     else if prefix_check result (size_bus_result z) \<noteq> EMUIF_OK \<or> list_ex (\<lambda>b. b \<noteq> 0) (br_reserved result) \<or>
                             direction = EMUIF_ACCESS_WRITE \<and> br_value result \<noteq> v
                     then (0, fail_cpu EMUIF_FAULT cpu)
                     else (br_value result, cpu)))"

definition bus :: "facade_sizes \<Rightarrow> u16 \<Rightarrow> u32 \<Rightarrow> u8 \<Rightarrow> 'h emuif_cpu \<Rightarrow> u8 \<times> 'h emuif_cpu" where
  "bus z address direction v cpu =
     (if fc_fault cpu \<noteq> EMUIF_OK then (0, cpu)
      else
        let observed_direction = (if direction = EMUIF_ACCESS_READ then EMUIF_OBS_ACCESS_READ else EMUIF_OBS_ACCESS_WRITE);
            (observed_access, cpu) = obs_raw_fact z \<lparr>rw_kind = EMU_RAW_ACCESS_BEGIN, rw_cycle = mMachineCycleCount (fc_core cpu), rw_a = ucast address,
              rw_b = EMUIF_SPACE_XDATA, rw_c = observed_direction, rw_d = ucast v\<rparr> cpu
        in if fc_fault cpu \<noteq> 0 then (0, cpu)
           else
             let (returned, cpu) = bus_transfer z address direction v cpu
             in (returned, obs_fact z \<lparr>rw_kind = EMU_RAW_ACCESS_END, rw_cycle = mMachineCycleCount (fc_core cpu), rw_a = observed_access, rw_b = ucast address,
                   rw_c = push_bit 16 EMUIF_SPACE_XDATA OR observed_direction, rw_d = ucast returned\<rparr> cpu))"

definition read_bus :: "facade_sizes \<Rightarrow> u16 \<Rightarrow> 'h emuif_cpu \<Rightarrow> u8 \<times> 'h emuif_cpu" where
  "read_bus z address cpu = bus z address EMUIF_ACCESS_READ 0 cpu"

definition write_bus :: "facade_sizes \<Rightarrow> u16 \<Rightarrow> u8 \<Rightarrow> 'h emuif_cpu \<Rightarrow> 'h emuif_cpu" where
  "write_bus z address v cpu = snd (bus z address EMUIF_ACCESS_WRITE v cpu)"

definition port_write :: "facade_sizes \<Rightarrow> u8 \<Rightarrow> 'h emuif_cpu \<Rightarrow> 'h emuif_cpu" where
  "port_write z address cpu =
     (if fc_fault cpu \<noteq> EMUIF_OK then cpu
      else
        let p = length (takeWhile (\<lambda>a. a \<noteq> address) port_addresses)
        in if p = 6 then fail_cpu EMUIF_FAULT cpu
           else case facade_sequence cpu of
             (None, cpu) \<Rightarrow> cpu
           | (Some n, cpu) \<Rightarrow>
               let previous = fc_port_latches cpu p; latch = mSFR (fc_core cpu) (unat address - 0x80);
                   out = \<lparr>struct_size = size_port_output z, api_version = 1, flags = 0, po_cycle = mMachineCycleCount (fc_core cpu), po_sequence = n,
                          po_port = word_of_nat p, po_previous_latch = previous, po_latch = latch, po_changed_mask = previous XOR latch\<rparr>;
                   cpu = cpu\<lparr>fc_port_latches := (fc_port_latches cpu)(p := latch)\<rparr>
               in (case hk_port_output (fc_hooks cpu) of
                     None \<Rightarrow> cpu
                   | Some hook \<Rightarrow> let (status, context) = hook (fc_context cpu) out in fail_cpu status (cpu\<lparr>fc_context := context\<rparr>)))"

definition uart_trace :: "facade_sizes \<Rightarrow> em8051_sab_uart_trace_record \<Rightarrow> 'h emuif_cpu \<Rightarrow> 'h emuif_cpu" where
  "uart_trace z r cpu =
     (if fc_fault cpu \<noteq> EMUIF_OK then cpu
      else if ua_event r = EM8051_SAB_UART_TRACE_TX_START then cpu\<lparr>fc_tx_start := ua_machine_cycle r\<rparr>
      else if ua_event r \<noteq> EM8051_SAB_UART_TRACE_TX_END then cpu
      else case facade_sequence cpu of
        (None, cpu) \<Rightarrow> cpu
      | (Some n, cpu) \<Rightarrow>
          let out = \<lparr>struct_size = size_signal_output z, api_version = 1, flags = 0, so_cycle = ua_machine_cycle r, so_start_cycle = fc_tx_start cpu,
                so_sequence = n, so_kind = 1, so_index = 0, so_value = ucast (ua_data r) OR (if ua_ninth_bit r then 256 else 0), so_width = 9\<rparr>
          in (case hk_signal_output (fc_hooks cpu) of
                None \<Rightarrow> cpu
              | Some hook \<Rightarrow> let (status, context) = hook (fc_context cpu) out in fail_cpu status (cpu\<lparr>fc_context := context\<rparr>)))"

definition instruction_trace :: "em8051_trace_record \<Rightarrow> 'h emuif_cpu \<Rightarrow> 'h emuif_cpu" where
  "instruction_trace r cpu =
     (if tr_type r \<noteq> EM8051_TRACE_INSTRUCTION then cpu
      else cpu\<lparr>fc_observed_pc := tr_pc r, fc_observed_size := fst (emu_decode_at facade_decoder (fc_core cpu) (tr_pc r)), fc_instruction_pending := True\<rparr>)"

definition exception_raised :: "int \<Rightarrow> 'h emuif_cpu \<Rightarrow> 'h emuif_cpu" where
  "exception_raised code cpu = fail_cpu EMUIF_FAULT cpu"

text \<open>The calls the core makes, with the core at the moment of the call.\<close>

datatype core_callback =
  CallRaw emu_cpu_raw_record
| CallRead u16
| CallWrite u16 u8
| CallPort u8
| CallUart em8051_sab_uart_trace_record
| CallTrace em8051_trace_record
| CallException int

definition core_call :: "facade_sizes \<Rightarrow> em8051 \<times> core_callback \<Rightarrow> 'h emuif_cpu \<Rightarrow> 'h emuif_cpu" where
  "core_call z = (\<lambda>(c, call) cpu.
     let cpu = cpu\<lparr>fc_core := c\<rparr>
     in case call of
          CallRaw r \<Rightarrow> obs_fact z r cpu
        | CallRead address \<Rightarrow> snd (read_bus z address cpu)
        | CallWrite address v \<Rightarrow> write_bus z address v cpu
        | CallPort address \<Rightarrow> port_write z address cpu
        | CallUart r \<Rightarrow> uart_trace z r cpu
        | CallTrace r \<Rightarrow> instruction_trace r cpu
        | CallException code \<Rightarrow> exception_raised code cpu)"

subsection \<open>Life cycle\<close>

definition reset_private :: "'h emuif_cpu \<Rightarrow> 'h emuif_cpu" where
  "reset_private cpu =
     cpu\<lparr>fc_fault := EMUIF_OK, fc_input_reset_floor := fc_input_max_order cpu, fc_input_seen := False, fc_loaded := False,
       fc_instruction_pending := False, fc_tx_start := 0, fc_decode_cache := emu_decode_clear (fc_decode_cache cpu),
       fc_port_latches := (\<lambda>p. if p < 6 then port_latch (fc_core cpu) p else fc_port_latches cpu p)\<rparr>"

definition create_cpu :: "facade_sizes \<Rightarrow> u8 \<Rightarrow> bool \<Rightarrow> emuif_cpu_config \<Rightarrow> 'h emuif_cpu_hooks \<Rightarrow> 'h \<Rightarrow> u32 \<times> 'h emuif_cpu option" where
  "create_cpu z rand allocated config hooks context =
     (if prefix_check config (size_config z) \<noteq> EMUIF_OK then (prefix_check config (size_config z), None)
      else if prefix_check hooks (size_hooks z) \<noteq> EMUIF_OK then (prefix_check hooks (size_hooks z), None)
      else if cf_variant config > 2 then (EMUIF_UNSUPPORTED, None)
      else if cf_oscillator_hz config < 1 \<or> cf_oscillator_hz config > 100000000 then (EMUIF_RANGE, None)
      else if hk_bus_access hooks = None \<or> hk_port_output hooks = None \<or> hk_signal_output hooks = None then (EMUIF_INVALID, None)
      else if \<not> allocated then (EMUIF_FAULT, None)
      else
        let (r, c) = em8051_init_variant rand (uint (cf_variant config)) (zero_cpu\<lparr>mCodeMem := Some 0, mCodeMemMaxIdx := 65535\<rparr>)
        in if r \<noteq> 0 then (EMUIF_UNSUPPORTED, None)
           else (EMUIF_OK, Some (reset_private \<lparr>fc_core = c\<lparr>mOscillatorHz := cf_oscillator_hz config\<rparr>, fc_observation = zero_observation_state,
             fc_decode_cache = \<lparr>dc_predecessor = (\<lambda>_. 0), dc_known = (\<lambda>_. False)\<rparr>, fc_hooks = hooks, fc_context = context, fc_sequence = 0,
             fc_input_order = 0, fc_input_cycle = 0, fc_input_max_order = 0, fc_input_reset_floor = 0, fc_input_seen = False, fc_tx_start = 0,
             fc_observed_pc = 0, fc_observed_size = 0, fc_port_latches = (\<lambda>_. 0), fc_fault = 0, fc_busy = False, fc_loaded = False,
             fc_instruction_pending = False\<rparr>)))"

text \<open>Destroying frees the object, here \<open>None\<close>, unless it is busy.\<close>

definition destroy_cpu :: "'h emuif_cpu \<Rightarrow> 'h emuif_cpu option" where
  "destroy_cpu cpu = (if fc_busy cpu then Some (fail_cpu EMUIF_FAULT cpu) else None)"

definition reset_cpu :: "facade_sizes \<Rightarrow> u8 \<Rightarrow> emuif_reset \<Rightarrow> 'h emuif_cpu \<Rightarrow> u32 \<times> 'h emuif_cpu" where
  "reset_cpu z rand request cpu =
     (if available cpu \<noteq> EMUIF_OK then (available cpu, cpu)
      else if prefix_check request (size_reset z) \<noteq> EMUIF_OK then (prefix_check request (size_reset z), cpu)
      else if rs_reserved request \<noteq> 0 then (EMUIF_INVALID, cpu)
      else
        let cpu = obs_reset z (cpu\<lparr>fc_busy := True\<rparr>);
            c = reset rand True (em8051_set_reset_seed (rs_seed request) (fc_core cpu));
            cpu = cpu\<lparr>fc_fault := EMUIF_OK, fc_core := c\<lparr>mPC := rs_entry request\<rparr>\<rparr>
        in (EMUIF_OK, (reset_private cpu)\<lparr>fc_busy := False\<rparr>))"

definition load_code :: "u8 list \<Rightarrow> 'h emuif_cpu \<Rightarrow> u32 \<times> 'h emuif_cpu" where
  "load_code code cpu =
     (if available cpu \<noteq> EMUIF_OK then (available cpu, cpu)
      else if length code \<noteq> 65536 then (EMUIF_RANGE, cpu)
      else if fc_fault cpu \<noteq> 0 \<or> mMachineCycleCount (fc_core cpu) \<noteq> 0 \<or> mTickDelay (fc_core cpu) \<noteq> 0 then (EMUIF_STATE, cpu)
      else (EMUIF_OK, cpu\<lparr>fc_core := mBuffers_update (\<lambda>m. m(0 := \<lambda>x. code ! unat x)) (fc_core cpu),
             fc_decode_cache := emu_decode_clear (fc_decode_cache cpu), fc_loaded := True\<rparr>))"

subsection \<open>Inputs\<close>

definition obs_rx_rejected :: "facade_sizes \<Rightarrow> emuif_input \<Rightarrow> u32 \<Rightarrow> 'h emuif_cpu \<Rightarrow> 'h emuif_cpu" where
  "obs_rx_rejected z i status cpu =
     (if \<not> co_bound (fc_observation cpu) then cpu
      else case obs_uart_new (ucast (in_value i)) cpu of
        (None, cpu) \<Rightarrow> cpu
      | (Some f, cpu) \<Rightarrow>
          let ob = fc_observation cpu;
              f = f\<lparr>ou_parent := if co_delivery_order ob = in_order i then co_delivery_parent ob else 0, ou_order := in_order i, ou_scheduled := in_cycle i\<rparr>;
              reason = (if status = EMUIF_BUSY then EMUIF_OBS_REASON_BUSY else EMUIF_OBS_REASON_REN);
              cycle = mMachineCycleCount (fc_core cpu)
          in obs_uart_event z f EMUIF_OBS_RX_END reason cycle 0 (obs_uart_event z f EMUIF_OBS_RX_DROP reason cycle 0 cpu))"

text \<open>
  The callbacks of the core that matter to an input: the observers, whose answers the core discards here, and the abort
  predicate, which sees the fault of the facade as it is when the input is applied.
\<close>

definition input_callbacks :: "'h emuif_cpu \<Rightarrow> em8051_callbacks" where
  "input_callbacks cpu = null_callbacks\<lparr>cpu_trace := True, sab_uart_trace := True, execution_abort := Some (\<lambda>_. abort_execution cpu),
     mObservation := if co_bound (fc_observation cpu) then Some (\<lambda>_ _. 0) else None\<rparr>"

definition raw_facts :: "em8051_event list \<Rightarrow> em8051_event list \<Rightarrow> emu_cpu_raw_record list" where
  "raw_facts before after = concat (map (\<lambda>e. case e of EvRaw r \<Rightarrow> [r] | _ \<Rightarrow> []) (rev (take (length after - length before) after)))"

definition core_operation :: "facade_sizes \<Rightarrow> (em8051_callbacks \<Rightarrow> em8051 \<Rightarrow> bool \<times> em8051) \<Rightarrow> 'h emuif_cpu \<Rightarrow> bool \<times> 'h emuif_cpu" where
  "core_operation z f cpu =
     (let c = fc_core cpu; (applied, c') = f (input_callbacks cpu) c
      in (applied, fold (obs_fact z) (raw_facts (mEvents c) (mEvents c')) (cpu\<lparr>fc_core := c'\<rparr>)))"

definition admit_input :: "facade_sizes \<Rightarrow> emuif_input \<Rightarrow> 'h emuif_cpu \<Rightarrow> u32" where
  "admit_input z i cpu =
     (if available cpu \<noteq> EMUIF_OK then available cpu
      else if prefix_check i (size_input z) \<noteq> EMUIF_OK then prefix_check i (size_input z)
      else if fc_fault cpu \<noteq> 0 then EMUIF_STATE
      else if in_order i = 0 then EMUIF_INVALID
      else if in_order i \<le> fc_input_reset_floor cpu \<or> fc_input_seen cpu \<and> in_cycle i = fc_input_cycle cpu \<and> in_order i \<le> fc_input_order cpu \<or>
              in_cycle i < mMachineCycleCount (fc_core cpu) then EMUIF_STALE
      else if in_cycle i \<noteq> mMachineCycleCount (fc_core cpu) then EMUIF_RANGE
      else if in_kind i > 4 then EMUIF_INVALID
      else if \<not> is_sab (fc_core cpu) then EMUIF_UNSUPPORTED
      else EMUIF_OK)"

text \<open>What the input does, by its kind: the refusal, or whether the core applied it; the CPU is the one afterwards.\<close>

definition input_effect :: "facade_sizes \<Rightarrow> emuif_input \<Rightarrow> 'h emuif_cpu \<Rightarrow> (u32 + bool) \<times> 'h emuif_cpu" where
  "input_effect z i cpu =
     (let applied = (\<lambda>f. let (b, cpu) = core_operation z f cpu in (Inr b, cpu));
          index = in_index i; v = in_value i; mask = in_mask i; scon = mSFR (fc_core cpu) REG_SCON
      in if in_kind i = 0 then
           if index > 5 \<or> v > 255 \<or> mask > 255 then (Inl EMUIF_RANGE, cpu)
           else if index = 0 \<or> index = 2 then (Inl EMUIF_UNSUPPORTED, cpu)
           else applied (\<lambda>E. em8051_sab_port_drive E (port_addresses ! unat index) (ucast mask) (ucast v))
         else if in_kind i = 1 then
           if index > 6 \<or> v > 1 \<or> mask \<noteq> 1 then (Inl EMUIF_RANGE, cpu)
           else applied (\<lambda>E. em8051_sab_external_drive E (uint index) (v \<noteq> 0))
         else if in_kind i = 2 then
           if index > 7 \<or> v > 65535 \<or> mask \<noteq> 65535 then (Inl EMUIF_RANGE, cpu)
           else applied (\<lambda>E. em8051_sab_adc_set_input (ucast index) (ucast v))
         else if in_kind i = 3 then
           if index \<noteq> 0 \<or> v > 511 \<or> mask \<noteq> 511 then (Inl EMUIF_RANGE, cpu)
           else if scon AND 0xc0 \<noteq> 0xc0 then (Inl EMUIF_UNSUPPORTED, cpu)
           else if co_bound (fc_observation cpu) \<and> co_next_frame (fc_observation cpu) = - 1 then (Inl EMUIF_EXHAUSTED, cpu)
           else if scon AND SCONMASK_REN = 0 then (Inl EMUIF_STATE, obs_rx_rejected z i EMUIF_STATE cpu)
           else if mSABUartRxActive (fc_core cpu) then (Inl EMUIF_BUSY, obs_rx_rejected z i EMUIF_BUSY cpu)
           else
             let direct = (co_delivery_order (fc_observation cpu) = 0);
                 cpu = (if direct then obs_update (\<lambda>ob. ob\<lparr>co_delivery_order := in_order i, co_delivery_cycle := in_cycle i\<rparr>) cpu else cpu);
                 (b, cpu) = core_operation z (\<lambda>E. em8051_sab_uart_inject_rx_frame E (ucast v) (v AND 256 \<noteq> 0)) cpu
             in (Inr b, if direct then obs_update (\<lambda>ob. ob\<lparr>co_delivery_order := 0, co_delivery_cycle := 0\<rparr>) cpu else cpu)
         else if v \<noteq> 0 then (Inl EMUIF_RANGE, cpu)
         else if index \<le> 5 then
           if mask > 255 then (Inl EMUIF_RANGE, cpu)
           else if index = 0 \<or> index = 2 then (Inl EMUIF_UNSUPPORTED, cpu)
           else applied (\<lambda>E. em8051_sab_port_release E (port_addresses ! unat index) (ucast mask))
         else if index \<ge> 256 \<and> index \<le> 262 \<and> mask = 1 then applied (\<lambda>E. em8051_sab_external_release E (uint index - 256))
         else (Inl EMUIF_RANGE, cpu))"

definition apply_input :: "facade_sizes \<Rightarrow> emuif_input \<Rightarrow> 'h emuif_cpu \<Rightarrow> u32 \<times> 'h emuif_cpu" where
  "apply_input z i cpu =
     (if admit_input z i cpu \<noteq> EMUIF_OK then (admit_input z i cpu, cpu)
      else case input_effect z i cpu of
        (Inl status, cpu) \<Rightarrow> (status, cpu)
      | (Inr False, cpu) \<Rightarrow> (EMUIF_UNSUPPORTED, cpu)
      | (Inr True, cpu) \<Rightarrow>
          (EMUIF_OK, cpu\<lparr>fc_input_order := in_order i, fc_input_cycle := in_cycle i, fc_input_seen := True,
             fc_input_max_order := if in_order i > fc_input_max_order cpu then in_order i else fc_input_max_order cpu\<rparr>))"

subsection \<open>Cycles\<close>

definition cycle_result :: "u32 \<Rightarrow> u32 \<Rightarrow> 'h emuif_cpu \<Rightarrow> emuif_cycle_result" where
  "cycle_result struct_bytes progressed cpu =
     \<lparr>struct_size = struct_bytes, api_version = 1, flags = 0, cr_cycle = mMachineCycleCount (fc_core cpu), cr_instructions = mInstructionCount (fc_core cpu),
      cr_progressed = progressed, cr_safe_boundary = of_bool (fc_fault cpu = 0 \<and> mTickDelay (fc_core cpu) = 0),
      cr_idle = of_bool (mSFR (fc_core cpu) REG_PCON AND 1 \<noteq> 0), cr_power_down = of_bool (mSFR (fc_core cpu) REG_PCON AND 2 \<noteq> 0)\<rparr>"

definition cycle_cpu :: "facade_sizes \<Rightarrow> (em8051 \<times> core_callback) list \<Rightarrow> em8051 \<Rightarrow> emuif_cycle_result \<Rightarrow> 'h emuif_cpu \<Rightarrow> u32 \<times> emuif_cycle_result \<times> 'h emuif_cpu" where
  "cycle_cpu z calls ticked out cpu =
     (if available cpu \<noteq> EMUIF_OK then (available cpu, out, cpu)
      else if prefix_check out (size_cycle_result z) \<noteq> EMUIF_OK then (prefix_check out (size_cycle_result z), out, cpu)
      else if \<not> fc_loaded cpu \<or> fc_fault cpu \<noteq> 0 then (EMUIF_STATE, out, cpu)
      else if mSFR (fc_core cpu) REG_PCON AND 2 \<noteq> 0 \<and> mTickDelay (fc_core cpu) = 0 then (EMUIF_UNSUPPORTED, cycle_result (struct_size out) 0 cpu, cpu)
      else if mMachineCycleCount (fc_core cpu) = - 1 \<or> mInstructionCount (fc_core cpu) = - 1
      then (EMUIF_EXHAUSTED, out, obs_finish z (fail_cpu EMUIF_EXHAUSTED cpu))
      else
        let earlier = mMachineCycleCount (fc_core cpu);
            latches = (\<lambda>p. if p < 6 then port_latch (fc_core cpu) p else fc_port_latches cpu p);
            cpu = fold (core_call z) calls (cpu\<lparr>fc_port_latches := latches, fc_busy := True\<rparr>);
            cpu = (obs_finish z (cpu\<lparr>fc_core := ticked\<rparr>))\<lparr>fc_busy := False\<rparr>
        in if fc_fault cpu \<noteq> 0 then (fc_fault cpu, out, cpu)
           else
             let cpu = (if fc_instruction_pending cpu \<and> mTickDelay (fc_core cpu) = 0
                        then cpu\<lparr>fc_decode_cache := emu_decode_completed (fc_observed_pc cpu) (fc_observed_size cpu) (mPC (fc_core cpu)) (fc_decode_cache cpu),
                               fc_instruction_pending := False\<rparr>
                        else cpu)
             in (EMUIF_OK, cycle_result (struct_size out) (of_bool (mMachineCycleCount (fc_core cpu) \<noteq> earlier)) cpu, cpu))"

subsection \<open>Inspection\<close>

definition variant_code :: "em8051_variant \<Rightarrow> u32" where
  "variant_code v = (case v of EM8051_VARIANT_8051 \<Rightarrow> 0 | EM8051_VARIANT_8052 \<Rightarrow> 1 | EM8051_VARIANT_SAB80535 \<Rightarrow> 2)"

definition snapshot_cpu :: "facade_sizes \<Rightarrow> emuif_snapshot \<Rightarrow> 'h emuif_cpu \<Rightarrow> u32 \<times> emuif_snapshot" where
  "snapshot_cpu z out cpu =
     (if available cpu \<noteq> EMUIF_OK then (available cpu, out)
      else if prefix_check out (size_snapshot z) \<noteq> EMUIF_OK then (prefix_check out (size_snapshot z), out)
      else if es_reserved out \<noteq> 0 then (EMUIF_INVALID, out)
      else
        let c = fc_core cpu; psw = mSFR c REG_PSW; bank = unat (drop_bit 3 psw AND 3)
        in (EMUIF_OK, \<lparr>struct_size = struct_size out, api_version = 1, flags = 0, es_generation = 0, es_cycle = mMachineCycleCount c,
              es_instructions = mInstructionCount c, es_state = if fc_fault cpu \<noteq> 0 then 2 else 0, es_variant = variant_code (mVariant c), es_pc = mPC c,
              es_dptr = push_bit 8 (ucast (mSFR c REG_DPH)) OR ucast (mSFR c REG_DPL), es_a = mSFR c REG_ACC, es_b = mSFR c REG_B, es_psw = psw,
              es_sp = mSFR c REG_SP, es_r = map (\<lambda>i. mLowerData c (bank * 8 + i)) [0..<8], es_idle = of_bool (mSFR c REG_PCON AND 1 \<noteq> 0),
              es_power_down = of_bool (mSFR c REG_PCON AND 2 \<noteq> 0), es_safe_boundary = of_bool (fc_fault cpu = 0 \<and> mTickDelay c = 0), es_reserved = 0\<rparr>))"

definition supported_sfr :: "em8051_variant \<Rightarrow> nat \<Rightarrow> bool" where
  "supported_sfr variant address =
     (if address \<in> set [0x80, 0x81, 0x82, 0x83, 0x87, 0x88, 0x89, 0x8a, 0x8b, 0x8c, 0x8d, 0x90, 0x98, 0x99, 0xa0, 0xa8, 0xb0, 0xb8, 0xd0, 0xe0, 0xf0] then True
      else if address \<in> set [0xc8, 0xca, 0xcb, 0xcc, 0xcd] then variant \<noteq> EM8051_VARIANT_8051
      else if address \<in> set [0xa9, 0xb9, 0xc0, 0xc1, 0xd8, 0xd9, 0xda, 0xdb, 0xe8, 0xf8] then variant = EM8051_VARIANT_SAB80535
      else False)"

definition upper_byte :: "em8051 \<Rightarrow> nat \<Rightarrow> u8" where
  "upper_byte c x = (case mUpperData c of UpperNull \<Rightarrow> 0 | UpperOwned \<Rightarrow> mOwnedUpperData c x | UpperCaller \<Rightarrow> mCallerUpperData c x)"

definition peek_byte :: "u32 \<Rightarrow> em8051 \<Rightarrow> nat \<Rightarrow> u8 option" where
  "peek_byte space c address =
     (if space = EMUIF_SPACE_CODE then Some (mBuffers c 0 (word_of_nat address))
      else if space = EMUIF_SPACE_IRAM then Some (if address < 128 then mLowerData c address else upper_byte c (address - 128))
      else if \<not> supported_sfr (mVariant c) address then None
      else Some (mSFR c (address - 128)))"

fun peek_loop :: "u32 \<Rightarrow> em8051 \<Rightarrow> nat list \<Rightarrow> u8 list option" where
  "peek_loop space c [] = Some []"
| "peek_loop space c (address # rest) =
     (case peek_byte space c address of None \<Rightarrow> None | Some b \<Rightarrow> (case peek_loop space c rest of None \<Rightarrow> None | Some bs \<Rightarrow> Some (b # bs)))"

definition peek_cpu :: "facade_sizes \<Rightarrow> emuif_memory_request \<Rightarrow> u32 \<Rightarrow> 'h emuif_cpu \<Rightarrow> u32 \<times> u8 list option" where
  "peek_cpu z request capacity cpu =
     (let c = fc_core cpu; space = mr_space request; address = unat (mr_address request); n = unat (mr_count request);
          iram = (if mUpperData c \<noteq> UpperNull then 256 else 128)
      in if available cpu \<noteq> EMUIF_OK then (available cpu, None)
         else if prefix_check request (size_memory_request z) \<noteq> EMUIF_OK then (prefix_check request (size_memory_request z), None)
         else if mr_reserved request \<noteq> 0 then (EMUIF_INVALID, None)
         else if mr_count request > 256 \<or> mr_count request > capacity then (EMUIF_CAPACITY, None)
         else if fc_fault cpu \<noteq> 0 \<or> mTickDelay c \<noteq> 0 then (EMUIF_STATE, None)
         else if space > EMUIF_SPACE_XDATA then (EMUIF_INVALID, None)
         else if space = EMUIF_SPACE_XDATA then (EMUIF_UNSUPPORTED, None)
         else if address > 65535 \<or> n > 65536 - address then (EMUIF_RANGE, None)
         else if space = EMUIF_SPACE_CODE \<and> \<not> fc_loaded cpu then (EMUIF_STATE, None)
         else if space = EMUIF_SPACE_IRAM \<and> (address \<ge> iram \<or> address + n > iram) then (EMUIF_RANGE, None)
         else if space = EMUIF_SPACE_SFR \<and> (address < 128 \<or> address > 255 \<or> address + n > 256) then (EMUIF_RANGE, None)
         else case peek_loop space c [address..<address + n] of
           None \<Rightarrow> (EMUIF_UNSUPPORTED, None)
         | Some bytes \<Rightarrow> (EMUIF_OK, Some bytes))"

text \<open>The check of the caller's elements, the first that is not as it should be.\<close>

fun elements_status :: "facade_sizes \<Rightarrow> u32 \<Rightarrow> emuif_decoded list \<Rightarrow> u32" where
  "elements_status z element_size [] = EMUIF_OK"
| "elements_status z element_size (e # es) =
     (if prefix_check e (size_decoded z) \<noteq> EMUIF_OK then prefix_check e (size_decoded z)
      else if struct_size e > element_size \<or> list_ex (\<lambda>b. b \<noteq> 0) (ed_reserved e) then EMUIF_INVALID
      else elements_status z element_size es)"

text \<open>The element count times the element size is within 64 bits, so the source's last capacity check always passes.\<close>

definition decode_cpu :: "facade_sizes \<Rightarrow> bool \<Rightarrow> em8051_debug_decoded list \<Rightarrow> emuif_decode_request \<Rightarrow> emuif_decoded list \<Rightarrow> u32 \<Rightarrow> u32 \<Rightarrow> 'h emuif_cpu
    \<Rightarrow> u32 \<times> emuif_decoded list \<times> 'h emuif_cpu" where
  "decode_cpu z allocated records request out element_size capacity cpu =
     (let n = unat (dr_count request)
      in if available cpu \<noteq> EMUIF_OK then (available cpu, out, cpu)
         else if prefix_check request (size_decode_request z) \<noteq> EMUIF_OK then (prefix_check request (size_decode_request z), out, cpu)
         else if dr_reserved request \<noteq> 0 \<or> n = 0 \<or> n > 256 then (EMUIF_INVALID, out, cpu)
         else if element_size < size_decoded z \<or> capacity < dr_count request then (EMUIF_CAPACITY, out, cpu)
         else if fc_fault cpu \<noteq> 0 \<or> mTickDelay (fc_core cpu) \<noteq> 0 \<or> \<not> fc_loaded cpu then (EMUIF_STATE, out, cpu)
         else if elements_status z element_size (take n out) \<noteq> EMUIF_OK then (elements_status z element_size (take n out), out, cpu)
         else
           let (decoded, cache, records) = emu_decode_window facade_decoder (fc_core cpu) (fc_decode_cache cpu) allocated (dr_address request)
                 (dr_byte_offset request) (dr_instruction_offset request) n records;
               cpu = cpu\<lparr>fc_decode_cache := cache\<rparr>
           in if decoded \<noteq> EM8051_DEBUG_OK
              then (if decoded = EM8051_DEBUG_RANGE then EMUIF_RANGE else if decoded = EM8051_DEBUG_INVALID_ARGUMENT then EMUIF_INVALID else EMUIF_FAULT, out, cpu)
              else (EMUIF_OK,
                map (\<lambda>i. if i < n then \<lparr>struct_size = struct_size (out ! i), api_version = 1, flags = 0, ed_address = dd_address (records ! i),
                           ed_size = dd_size (records ! i), ed_valid = of_bool (dd_valid (records ! i)), ed_text = dd_text (records ! i), ed_reserved = [0, 0, 0]\<rparr>
                         else out ! i) [0..<length out], cpu))"

subsection \<open>The observation extension\<close>

definition bind_observation :: "facade_sizes \<Rightarrow> emuif_observation_binding \<Rightarrow> 'h emuif_cpu \<Rightarrow> u32 \<times> 'h emuif_cpu" where
  "bind_observation z b cpu =
     (let c = fc_core cpu; ob = fc_observation cpu
      in if available cpu \<noteq> EMUIF_OK then (available cpu, cpu)
         else if prefix_check b (size_binding z) \<noteq> EMUIF_OK then (prefix_check b (size_binding z), cpu)
         else if prefix_check (bd_observer b) (size_observer z) \<noteq> EMUIF_OK then (prefix_check (bd_observer b) (size_observer z), cpu)
         else if bd_generation b = 0 \<or> \<not> sink_observe (bd_observer b) then (EMUIF_INVALID, cpu)
         else if \<not> is_sab c then (EMUIF_UNSUPPORTED, cpu)
         else if co_bound ob then (EMUIF_BUSY, cpu)
         else if fc_fault cpu \<noteq> 0 \<or> mTickDelay c \<noteq> 0 \<or> mSABUartTxActive c \<or> mSABUartTxPending c \<or> mSABUartRxActive c then (EMUIF_STATE, cpu)
         else
           let cpu = (if mMachineCycleCount c \<noteq> co_unbound_cycle ob \<or> mInstructionCount c \<noteq> co_unbound_instructions ob
                      then obs_update (\<lambda>ob. ob\<lparr>co_unknown_base := True, co_depth := 0, co_irq_depth := mSABIrqDepth c\<rparr>) cpu else cpu)
           in (EMUIF_OK, obs_update (\<lambda>ob. ob\<lparr>co_generation := bd_generation b, co_bound := True\<rparr>) cpu))"

definition unbind_observation :: "'h emuif_cpu \<Rightarrow> u32 \<times> 'h emuif_cpu" where
  "unbind_observation cpu =
     (let c = fc_core cpu; ob = fc_observation cpu
      in if available cpu \<noteq> EMUIF_OK then (available cpu, cpu)
         else if \<not> co_bound ob then (EMUIF_OK, cpu)
         else if mTickDelay c \<noteq> 0 \<or> co_pending ob then (EMUIF_STATE, cpu)
         else (EMUIF_OK, obs_update (\<lambda>ob. ob\<lparr>co_unbound_cycle := mMachineCycleCount c, co_unbound_instructions := mInstructionCount c, co_bound := False\<rparr>) cpu))"

definition deliver_observation :: "facade_sizes \<Rightarrow> emuif_observed_input \<Rightarrow> 'h emuif_cpu \<Rightarrow> u32 \<times> 'h emuif_cpu" where
  "deliver_observation z envelope cpu =
     (if available cpu \<noteq> EMUIF_OK then (available cpu, cpu)
      else if prefix_check envelope (size_observed_input z) \<noteq> EMUIF_OK then (prefix_check envelope (size_observed_input z), cpu)
      else if prefix_check (oi_input envelope) (size_input z) \<noteq> EMUIF_OK then (prefix_check (oi_input envelope) (size_input z), cpu)
      else if \<not> co_bound (fc_observation cpu) then (EMUIF_STATE, cpu)
      else
        let i = oi_input envelope;
            cpu = obs_update (\<lambda>ob. ob\<lparr>co_delivery_parent := oi_parent_stimulus_id envelope, co_delivery_order := in_order i, co_delivery_cycle := in_cycle i\<rparr>) cpu;
            (status, cpu) = apply_input z i cpu
        in (status, obs_update (\<lambda>ob. ob\<lparr>co_delivery_parent := 0, co_delivery_order := 0, co_delivery_cycle := 0\<rparr>) cpu))"

definition emu_cpu_observation_lifecycle :: "facade_sizes \<Rightarrow> u32 \<Rightarrow> u32 \<Rightarrow> 'h emuif_cpu \<Rightarrow> u32 \<times> 'h emuif_cpu" where
  "emu_cpu_observation_lifecycle z kind status cpu =
     (if available cpu \<noteq> EMUIF_OK then (available cpu, cpu)
      else if \<not> co_bound (fc_observation cpu) then (EMUIF_STATE, cpu)
      else if kind \<noteq> EMUIF_OBS_RESET \<and> kind \<noteq> EMUIF_OBS_LOAD \<and> kind \<noteq> EMUIF_OBS_FAULT \<or> status > EMUIF_NOT_FOUND \<or>
              (if kind = EMUIF_OBS_FAULT then status = EMUIF_OK else status \<noteq> EMUIF_OK) then (EMUIF_INVALID, cpu)
      else if kind = EMUIF_OBS_FAULT \<and> co_fault_emitted (fc_observation cpu) then (EMUIF_OK, cpu)
      else
        let e = (obs_init z cpu kind EMUIF_OBS_PHASE_BOUNDARY (mMachineCycleCount (fc_core cpu)))\<lparr>ob_status := status\<rparr>
        in (EMUIF_OK,
             if kind = EMUIF_OBS_FAULT
             then obs_emit (e\<lparr>ob_partial_effects := 1, ob_reason := EMUIF_OBS_REASON_DEVICE\<rparr>) (obs_update (\<lambda>ob. ob\<lparr>co_fault_emitted := True\<rparr>) cpu)
             else obs_emit e cpu))"

end
