(* ===== verification/FacadeInv.thy ===== *)
theory FacadeInv
  imports CpuApi
begin

text \<open>
  What the CPU facade keeps, whatever it is asked for and whatever the core reports in between: observations are numbered without a gap, the
  known call frames form a linked stack, identifiers are not reused, and inputs are admitted in order.
\<close>

subsection \<open>The observation state\<close>

fun log_numbered :: "emuif_observation list \<Rightarrow> bool" where
  "log_numbered [] \<longleftrightarrow> True"
| "log_numbered (e # es) \<longleftrightarrow> ob_sequence e = word_of_nat (Suc (length es)) \<and> log_numbered es"

definition log_ok :: "cpu_observation_state \<Rightarrow> bool" where
  "log_ok ob \<longleftrightarrow> length (co_delivered ob) = unat (co_sequence ob) \<and> log_numbered (co_delivered ob)"

text \<open>The known frames: each below the next, with its identifier as the next one's parent.\<close>

definition frames_ok :: "nat \<Rightarrow> u64 \<Rightarrow> (nat \<Rightarrow> observed_frame) \<Rightarrow> bool" where
  "frames_ok depth bound frames \<longleftrightarrow> depth \<le> 64 \<and>
     (\<forall>i < depth. of_id (frames i) \<noteq> 0 \<and> of_id (frames i) \<le> bound \<and> of_parent (frames i) = (if i = 0 then 0 else of_id (frames (i - 1))) \<and>
        (i \<noteq> 0 \<longrightarrow> of_id (frames (i - 1)) < of_id (frames i)))"

definition uart_ok :: "u64 \<Rightarrow> observed_uart \<Rightarrow> observed_uart \<Rightarrow> observed_uart \<Rightarrow> bool" where
  "uart_ok bound rx tx hold \<longleftrightarrow> ou_id rx \<le> bound \<and> ou_id tx \<le> bound \<and> ou_id hold \<le> bound \<and>
     (ou_id rx \<noteq> 0 \<longrightarrow> ou_id rx \<noteq> ou_id tx \<and> ou_id rx \<noteq> ou_id hold) \<and> (ou_id tx \<noteq> 0 \<longrightarrow> ou_id tx \<noteq> ou_id hold)"

definition retired_ok :: "bool \<Rightarrow> u64 \<Rightarrow> u64 \<Rightarrow> bool" where
  "retired_ok pending retired started \<longleftrightarrow> unat retired + of_bool pending \<le> unat started"

definition obs_ok :: "cpu_observation_state \<Rightarrow> bool" where
  "obs_ok ob \<longleftrightarrow> log_ok ob \<and> frames_ok (unat (co_depth ob)) (co_next_context ob) (co_frames ob) \<and>
     uart_ok (co_next_frame ob) (co_rx ob) (co_tx ob) (co_hold ob) \<and> retired_ok (co_pending ob) (co_retired ob) (co_next_instruction ob)"

lemma unat_next: "(b :: u64) \<noteq> - 1 \<Longrightarrow> unat (b + 1) = Suc (unat b)"
  using unatSuc [of b] by (simp add: add.commute eq_neg_iff_add_eq_0)

lemma next_greater: "(b :: u64) \<noteq> - 1 \<Longrightarrow> b < b + 1"
  by (simp add: word_less_nat_alt unat_next)

lemma frames_ok_0 [simp]: "frames_ok 0 b f"
  by (simp add: frames_ok_def)

lemma frames_ok_less: "frames_ok n b f \<Longrightarrow> m \<le> n \<Longrightarrow> frames_ok m b f"
  by (simp add: frames_ok_def)

lemma frames_ok_push:
  assumes "frames_ok n b f" "n < 64" "b \<noteq> - 1" "of_id x = b + 1" "of_parent x = (if n = 0 then 0 else of_id (f (n - 1)))"
  shows "frames_ok (Suc n) (b + 1) (f(n := x))"
proof -
  have l: "b < b + 1" by (rule next_greater [OF assms(3)])
  have "of_id (f i) \<le> b" if "i < n" for i using assms(1) that by (simp add: frames_ok_def)
  then have "of_id (f i) < b + 1" if "i < n" for i using that l by (meson le_less_trans)
  moreover have "b + 1 \<noteq> 0" using l by auto
  ultimately show ?thesis using assms by (auto simp: frames_ok_def less_Suc_eq intro: less_imp_le)
qed

subsection \<open>Emitting\<close>

lemma fail_fields [simp]:
  "fc_observation (fail_cpu s cpu) = fc_observation cpu" "fc_core (fail_cpu s cpu) = fc_core cpu" "fc_busy (fail_cpu s cpu) = fc_busy cpu"
  "fc_input_order (fail_cpu s cpu) = fc_input_order cpu" "fc_input_cycle (fail_cpu s cpu) = fc_input_cycle cpu" "fc_input_seen (fail_cpu s cpu) = fc_input_seen cpu"
  "fc_input_max_order (fail_cpu s cpu) = fc_input_max_order cpu" "fc_input_reset_floor (fail_cpu s cpu) = fc_input_reset_floor cpu"
  by (simp_all add: fail_cpu_def)

text \<open>What observing leaves alone: everything but the observation state and the fault.\<close>

definition facade_rest :: "'h emuif_cpu \<Rightarrow> 'h emuif_cpu" where
  "facade_rest cpu = cpu\<lparr>fc_observation := zero_observation_state, fc_fault := 0\<rparr>"

lemma rest_update [simp]: "facade_rest (obs_update f cpu) = facade_rest cpu" "facade_rest (fail_cpu s cpu) = facade_rest cpu"
  by (simp_all add: facade_rest_def fail_cpu_def)

lemma obs_emit_observation: "fc_observation (obs_emit e cpu) =
  (let ob = fc_observation cpu in if co_bound ob \<and> co_sequence ob \<noteq> - 1
   then ob\<lparr>co_sequence := co_sequence ob + 1, co_delivered := e\<lparr>ob_sequence := co_sequence ob + 1\<rparr> # co_delivered ob\<rparr> else ob)"
  by (simp add: obs_emit_def obs_id_def Let_def)

lemma obs_emit_fields [simp]:
  "co_depth (fc_observation (obs_emit e cpu)) = co_depth (fc_observation cpu)" "co_frames (fc_observation (obs_emit e cpu)) = co_frames (fc_observation cpu)"
  "co_next_context (fc_observation (obs_emit e cpu)) = co_next_context (fc_observation cpu)" "co_next_frame (fc_observation (obs_emit e cpu)) = co_next_frame (fc_observation cpu)"
  "co_rx (fc_observation (obs_emit e cpu)) = co_rx (fc_observation cpu)" "co_tx (fc_observation (obs_emit e cpu)) = co_tx (fc_observation cpu)"
  "co_hold (fc_observation (obs_emit e cpu)) = co_hold (fc_observation cpu)" "co_pending (fc_observation (obs_emit e cpu)) = co_pending (fc_observation cpu)"
  "co_retired (fc_observation (obs_emit e cpu)) = co_retired (fc_observation cpu)" "co_bound (fc_observation (obs_emit e cpu)) = co_bound (fc_observation cpu)"
  "co_next_instruction (fc_observation (obs_emit e cpu)) = co_next_instruction (fc_observation cpu)" "co_closing (fc_observation (obs_emit e cpu)) = co_closing (fc_observation cpu)"
  "co_irq_depth (fc_observation (obs_emit e cpu)) = co_irq_depth (fc_observation cpu)"
  by (simp_all add: obs_emit_observation Let_def)

lemma obs_emit_rest [simp]: "facade_rest (obs_emit e cpu) = facade_rest cpu"
  by (simp add: obs_emit_def obs_id_def)

lemma log_ok_emit: "log_ok (fc_observation cpu) \<Longrightarrow> log_ok (fc_observation (obs_emit e cpu))"
proof -
  assume ok: "log_ok (fc_observation cpu)"
  then have "word_of_nat (Suc (length (co_delivered (fc_observation cpu)))) = co_sequence (fc_observation cpu) + 1"
    by (simp add: log_ok_def add.commute)
  then show ?thesis using ok by (simp add: log_ok_def obs_emit_observation unat_next Let_def)
qed

lemma obs_ok_emit: "obs_ok (fc_observation cpu) \<Longrightarrow> obs_ok (fc_observation (obs_emit e cpu))"
  by (simp add: obs_ok_def log_ok_emit)

lemma obs_ok_uart_event: "obs_ok (fc_observation cpu) \<Longrightarrow> obs_ok (fc_observation (obs_uart_event z f k r cy d cpu))"
  by (simp add: obs_uart_event_def obs_ok_emit Let_def)

lemma obs_uart_event_rest [simp]: "facade_rest (obs_uart_event z f k r cy d cpu) = facade_rest cpu"
  by (simp add: obs_uart_event_def Let_def)

text \<open>The state observed after an update is sound when the update keeps what the invariant reads.\<close>

lemma obs_okI:
  assumes "obs_ok ob" "co_sequence ob' = co_sequence ob" "co_delivered ob' = co_delivered ob"
    "frames_ok (unat (co_depth ob')) (co_next_context ob') (co_frames ob')" "uart_ok (co_next_frame ob') (co_rx ob') (co_tx ob') (co_hold ob')"
    "retired_ok (co_pending ob') (co_retired ob') (co_next_instruction ob')"
  shows "obs_ok ob'"
  using assms by (simp add: obs_ok_def log_ok_def)

lemma obs_id_cases:
  assumes "obs_id k cpu = (r, cpu')"
  obtains "k = - 1" "r = None" "cpu' = fail_cpu EMUIF_EXHAUSTED cpu" | "k \<noteq> - 1" "r = Some (k + 1)" "cpu' = cpu"
  using assms by (auto simp: obs_id_def split: if_splits)

lemma obs_okD:
  assumes "obs_ok ob"
  shows "frames_ok (unat (co_depth ob)) (co_next_context ob) (co_frames ob)" "uart_ok (co_next_frame ob) (co_rx ob) (co_tx ob) (co_hold ob)"
    "retired_ok (co_pending ob) (co_retired ob) (co_next_instruction ob)"
  using assms by (simp_all add: obs_ok_def)

subsection \<open>Raw facts\<close>

lemma uart_ok_new:
  assumes "uart_ok b rx tx hold" "b \<noteq> - 1" "ou_id f = b + 1"
  shows "uart_ok (b + 1) f tx hold" "uart_ok (b + 1) rx tx f"
proof -
  have "ou_id x \<noteq> b + 1 \<and> ou_id x \<le> b + 1" if "ou_id x \<le> b" for x
    using next_greater [OF assms(2)] that by (auto intro: less_imp_le)
  note this [of rx] this [of tx] this [of hold]
  then show "uart_ok (b + 1) f tx hold" "uart_ok (b + 1) rx tx f" using assms by (auto simp: uart_ok_def)
qed

lemma uart_ok_zero: "uart_ok b rx tx hold \<Longrightarrow> ou_id f = 0 \<Longrightarrow> uart_ok b f tx hold \<and> uart_ok b rx f hold \<and> uart_ok b rx tx f"
  by (auto simp: uart_ok_def)

lemma raw_begin_ok: "obs_ok (fc_observation cpu) \<Longrightarrow> obs_ok (fc_observation (raw_begin z r cpu))"
proof -
  assume ok: "obs_ok (fc_observation cpu)"
  obtain x cpu1 where i: "obs_id (co_next_instruction (fc_observation cpu)) cpu = (x, cpu1)" by fastforce
  then show ?thesis
  proof (cases rule: obs_id_cases)
    case 2
    have "unat (co_next_instruction (fc_observation cpu) + 1) = Suc (unat (co_next_instruction (fc_observation cpu)))" by (rule unat_next [OF 2(1)])
    then have "retired_ok True (co_retired (fc_observation cpu)) (co_next_instruction (fc_observation cpu) + 1)"
      using obs_okD(3) [OF ok] by (simp add: retired_ok_def)
    then show ?thesis using i 2 obs_okD [OF ok] unfolding raw_begin_def by (auto simp: Let_def intro!: obs_ok_emit obs_okI [OF ok])
  qed (use i ok in \<open>simp add: raw_begin_def\<close>)
qed

lemma obs_ok_quiet:
  assumes "obs_ok ob" "co_sequence ob' = co_sequence ob" "co_delivered ob' = co_delivered ob" "co_depth ob' = co_depth ob"
    "co_next_context ob' = co_next_context ob" "co_frames ob' = co_frames ob" "co_next_frame ob' = co_next_frame ob" "co_rx ob' = co_rx ob"
    "co_tx ob' = co_tx ob" "co_hold ob' = co_hold ob" "co_pending ob' = co_pending ob" "co_retired ob' = co_retired ob"
    "co_next_instruction ob' = co_next_instruction ob"
  shows "obs_ok ob'"
  using assms by (simp add: obs_ok_def log_ok_def)

lemma raw_operand_ok:
  assumes ok: "obs_ok (fc_observation cpu)"
  shows "obs_ok (fc_observation (raw_operand r cpu))"
proof -
  have "obs_ok ((fc_observation cpu)\<lparr>co_bytes := b, co_byte_mask := m\<rparr>)" for b m by (rule obs_ok_quiet [OF ok]) simp_all
  then show ?thesis using ok by (simp add: raw_operand_def)
qed

lemma context_push_ok:
  assumes ok: "obs_ok (fc_observation cpu)" and p: "obs_context_push kind target return_pc spb spa source e cpu = (e', cpu')"
  shows "obs_ok (fc_observation cpu')"
proof -
  let ?ob = "fc_observation cpu"
  obtain x cpu1 where i: "obs_id (co_next_context ?ob) (if co_depth ?ob = 64 then obs_update (\<lambda>ob. ob\<lparr>co_unknown_base := True, co_depth := 0\<rparr>) cpu else cpu) = (x, cpu1)"
    by fastforce
  note f = obs_okD [OF ok]
  have d: "unat (co_depth ?ob) < 64" if "co_depth ?ob \<noteq> 64" 
  proof -
    have "unat (co_depth ?ob) \<le> 64" using f(1) by (simp add: frames_ok_def)
    moreover have "unat (co_depth ?ob) \<noteq> 64" using that word_unat_eq_iff [of "co_depth ?ob" 64] by simp
    ultimately show ?thesis by simp
  qed
  from i show ?thesis
  proof (cases rule: obs_id_cases)
    case 1
    show ?thesis
    proof (cases "co_depth ?ob = 64")
      case True
      then show ?thesis using 1 i p f unfolding obs_context_push_def by (auto simp: Let_def intro!: obs_okI [OF ok])
    next
      case False
      have "frames_ok (unat (co_depth ?ob)) (co_next_context ?ob) ((co_frames ?ob)(unat (co_depth ?ob) := zero_frame))" using f(1) by (auto simp: frames_ok_def)
      then show ?thesis using 1 i p f False unfolding obs_context_push_def by (auto simp: Let_def intro!: obs_okI [OF ok])
    qed
  next
    case 2
    show ?thesis
    proof (cases "co_depth ?ob = 64")
      case True
      then show ?thesis using 2 i p f unfolding obs_context_push_def by (auto simp: Let_def intro!: obs_okI [OF ok])
    next
      case False
      have z: "(unat (co_depth ?ob) = 0) = (co_depth ?ob = 0)" by (simp add: unat_eq_0)
      have s: "unat (co_depth ?ob + 1) = Suc (unat (co_depth ?ob))" using d [OF False] by (simp add: unat_word_ariths)
      show ?thesis using 2 i p f False unfolding obs_context_push_def
        by (auto simp: Let_def s intro!: obs_okI [OF ok] frames_ok_push d) (auto simp: z)
    qed
  qed
qed

lemma raw_enter_ok:
  assumes ok: "obs_ok (fc_observation cpu)"
  shows "obs_ok (fc_observation (raw_enter z call r cpu))"
proof -
  obtain e cpu1 where p: "obs_context_push (if call then EMUIF_OBS_FRAME_CALL else EMUIF_OBS_FRAME_IRQ) (if call then ucast (rw_a r) else mPC (fc_core cpu))
      (ucast (rw_b r)) (ucast (rw_c r)) (ucast (rw_d r)) (ucast (rw_a r))
      (if call then obs_init z cpu EMUIF_OBS_CALL EMUIF_OBS_PHASE_EFFECT (rw_cycle r) else obs_init z cpu EMUIF_OBS_IRQ_ENTER EMUIF_OBS_PHASE_BOUNDARY (rw_cycle r)) cpu = (e, cpu1)"
    by (rule prod.exhaust)
  have ok1: "obs_ok (fc_observation cpu1)" by (rule context_push_ok [OF ok p])
  have "obs_ok (fc_observation (obs_update (\<lambda>ob. ob\<lparr>co_irq_depth := co_irq_depth ob + 1\<rparr>) (obs_emit x cpu1)))" for x
    by (rule obs_ok_quiet [OF obs_ok_emit [OF ok1, of x]]) simp_all
  then have "obs_ok (fc_observation (if \<not> call \<and> co_irq_depth (fc_observation (obs_emit x cpu1)) < 255
      then obs_update (\<lambda>ob. ob\<lparr>co_irq_depth := co_irq_depth ob + 1\<rparr>) (obs_emit x cpu1) else obs_emit x cpu1))" for x
    using obs_ok_emit [OF ok1, of x] by (cases "\<not> call \<and> co_irq_depth (fc_observation (obs_emit x cpu1)) < 255") (simp_all only: if_True if_False simp_thms)
  then show ?thesis using ok1 unfolding raw_enter_def Let_def p prod.case by (cases "ob_context_id e = 0") (simp_all only: if_True if_False simp_thms)
qed

lemma return_observed_ok: "obs_ok (fc_observation cpu) \<Longrightarrow> obs_ok (fc_observation (return_observed isret e cpu))"
  using obs_ok_emit [of cpu e] by (auto simp: return_observed_def Let_def intro: obs_ok_quiet)

lemma frames_ok_up: "frames_ok n b g \<Longrightarrow> b \<noteq> - 1 \<Longrightarrow> frames_ok n (b + 1) g"
  using next_greater [of b] by (auto simp: frames_ok_def intro: order_trans less_imp_le)

lemma raw_return_ok:
  assumes ok: "obs_ok (fc_observation cpu)"
  shows "obs_ok (fc_observation (raw_return z isret r cpu))"
proof -
  let ?ob = "fc_observation cpu" and ?un = "\<lambda>ob. ob\<lparr>co_unknown_base := True, co_depth := 0\<rparr>"
  note f = obs_okD [OF ok]
  have un: "obs_ok (?un ?ob)" by (rule obs_okI [OF ok]) (simp_all add: f)
  have next1: "obs_ok ((?un ?ob)\<lparr>co_next_context := co_next_context ?ob + 1\<rparr>)" by (rule obs_okI [OF ok]) (simp_all add: f)
  have next2: "obs_ok (?ob\<lparr>co_next_context := co_next_context ?ob + 1, co_unknown_base := True\<rparr>)" if "co_next_context ?ob \<noteq> - 1"
    by (rule obs_okI [OF ok]) (simp_all add: f frames_ok_up that)
  have closing: "obs_ok (?ob\<lparr>co_closing := True\<rparr>)" by (rule obs_ok_quiet [OF ok]) simp_all
  show ?thesis unfolding raw_return_def Let_def obs_id_def using ok un next1 next2 closing
    by (simp add: return_observed_ok split: if_split)
qed

lemma obs_uart_new_cases:
  assumes ok: "obs_ok (fc_observation cpu)" and n: "obs_uart_new v cpu = (x, cpu')"
  obtains "x = None" "fc_observation cpu' = fc_observation cpu"
  | f where "x = Some f" "ou_id f = co_next_frame (fc_observation cpu) + 1" "co_next_frame (fc_observation cpu) \<noteq> - 1"
      "fc_observation cpu' = (fc_observation cpu)\<lparr>co_next_frame := co_next_frame (fc_observation cpu) + 1\<rparr>"
  using n by (auto simp: obs_uart_new_def obs_id_def split: if_splits)

lemma uart_event_fields [simp]:
  "co_rx (fc_observation (obs_uart_event z f k r cy d cpu)) = co_rx (fc_observation cpu)"
  "co_tx (fc_observation (obs_uart_event z f k r cy d cpu)) = co_tx (fc_observation cpu)"
  "co_hold (fc_observation (obs_uart_event z f k r cy d cpu)) = co_hold (fc_observation cpu)"
  "co_bound (fc_observation (obs_uart_event z f k r cy d cpu)) = co_bound (fc_observation cpu)"
  by (simp_all add: obs_uart_event_def Let_def)

lemma raw_tx_hold_ok:
  assumes ok: "obs_ok (fc_observation cpu)"
  shows "obs_ok (fc_observation (raw_tx_hold z r cpu))"
proof -
  obtain x cpu1 where n: "obs_uart_new (frame_value r) cpu = (x, cpu1)" by fastforce
  note f = obs_okD [OF ok]
  from ok n show ?thesis
  proof (cases rule: obs_uart_new_cases)
    case 1
    then show ?thesis using n f uart_ok_zero [OF f(2)] unfolding raw_tx_hold_def by (auto simp: Let_def zero_uart_def intro!: obs_okI [OF ok])
  next
    case (2 g)
    have "uart_ok (co_next_frame (fc_observation cpu) + 1) (co_rx (fc_observation cpu)) (co_tx (fc_observation cpu)) (g\<lparr>ou_instruction := a, ou_access := b, ou_scheduled := c\<rparr>)"
      for a b c by (rule uart_ok_new(2) [OF f(2) 2(3)]) (simp add: 2(2))
    then show ?thesis using n 2 f unfolding raw_tx_hold_def by (auto simp: Let_def intro!: obs_ok_uart_event obs_okI [OF ok])
  qed
qed

lemma raw_rx_start_ok:
  assumes ok: "obs_ok (fc_observation cpu)"
  shows "obs_ok (fc_observation (raw_rx_start z r cpu))"
proof -
  obtain x cpu1 where n: "obs_uart_new (frame_value r) cpu = (x, cpu1)" by fastforce
  note f = obs_okD [OF ok]
  from ok n show ?thesis
  proof (cases rule: obs_uart_new_cases)
    case 1
    then show ?thesis using n f uart_ok_zero [OF f(2)] unfolding raw_rx_start_def by (auto simp: Let_def zero_uart_def intro!: obs_okI [OF ok])
  next
    case (2 g)
    have "uart_ok (co_next_frame (fc_observation cpu) + 1) (g\<lparr>ou_parent := a, ou_order := b, ou_scheduled := c, ou_start := d, ou_started := True\<rparr>)
        (co_tx (fc_observation cpu)) (co_hold (fc_observation cpu))" for a b c d
      by (rule uart_ok_new(1) [OF f(2) 2(3)]) (simp add: 2(2))
    then show ?thesis using n 2 f unfolding raw_rx_start_def by (auto simp: Let_def intro!: obs_ok_uart_event obs_okI [OF ok])
  qed
qed

lemma raw_tx_start_ok:
  assumes ok: "obs_ok (fc_observation cpu)"
  shows "obs_ok (fc_observation (raw_tx_start z r cpu))"
proof -
  note f = obs_okD [OF ok]
  have "uart_ok (co_next_frame (fc_observation cpu)) (co_rx (fc_observation cpu)) ((co_hold (fc_observation cpu))\<lparr>ou_start := a, ou_started := True\<rparr>) zero_uart" for a
    using f(2) by (auto simp: uart_ok_def zero_uart_def)
  then show ?thesis using f unfolding raw_tx_start_def by (auto simp: Let_def intro!: obs_ok_uart_event obs_okI [OF ok])
qed

lemma uart_end_ok:
  assumes ok: "obs_ok (fc_observation cpu)"
  shows "obs_ok (fc_observation (obs_update (\<lambda>ob. ob\<lparr>co_tx := zero_uart\<rparr>) (obs_uart_event z f k r cy d cpu)))"
    "obs_ok (fc_observation (obs_update (\<lambda>ob. ob\<lparr>co_rx := zero_uart\<rparr>) (obs_uart_event z f k r cy d cpu)))"
proof -
  note ok' = obs_ok_uart_event [OF ok, of z f k r cy d] and f = obs_okD [OF ok']
  show "obs_ok (fc_observation (obs_update (\<lambda>ob. ob\<lparr>co_tx := zero_uart\<rparr>) (obs_uart_event z f k r cy d cpu)))"
    "obs_ok (fc_observation (obs_update (\<lambda>ob. ob\<lparr>co_rx := zero_uart\<rparr>) (obs_uart_event z f k r cy d cpu)))"
    using f uart_ok_zero [OF f(2), of zero_uart] by (auto simp: zero_uart_def intro!: obs_okI [OF ok'])
qed

lemma raw_access_ok:
  assumes ok: "obs_ok (fc_observation cpu)"
  shows "obs_ok (fc_observation (snd (raw_access_begin z r cpu)))" "obs_ok (fc_observation (raw_access_end z r cpu))"
proof -
  have "obs_ok ((fc_observation cpu)\<lparr>co_next_access := n, co_current_access := n, co_access_kind := a, co_access_space := b, co_access_address := c, co_access_old_known := False\<rparr>)"
    for n a b c by (rule obs_ok_quiet [OF ok]) simp_all
  then show "obs_ok (fc_observation (snd (raw_access_begin z r cpu)))"
    unfolding raw_access_begin_def Let_def obs_id_def using ok by (simp add: obs_ok_emit)
  have "obs_ok (fc_observation (obs_update (\<lambda>ob. ob\<lparr>co_current_access := 0\<rparr>) (obs_emit e cpu)))" for e
    by (rule obs_ok_quiet [OF obs_ok_emit [OF ok, of e]]) simp_all
  then show "obs_ok (fc_observation (raw_access_end z r cpu))" unfolding raw_access_end_def Let_def using ok by (cases "rw_a r = 0") (simp_all only: if_True if_False simp_thms)
qed

lemma obs_fact_ok:
  assumes ok: "obs_ok (fc_observation cpu)"
  shows "obs_ok (fc_observation (snd (obs_raw_fact z r cpu)))"
proof -
  have q: "obs_ok ((fc_observation cpu)\<lparr>co_attempted_cycle := a\<rparr>)" "obs_ok ((fc_observation cpu)\<lparr>co_opcode_done := True, co_next_pc := p\<rparr>)"
    "obs_ok ((fc_observation cpu)\<lparr>co_access_old := v, co_access_old_known := True\<rparr>)" for a p v by (rule obs_ok_quiet [OF ok], simp_all)+
  note steps = raw_begin_ok raw_operand_ok raw_enter_ok raw_return_ok raw_tx_hold_ok raw_tx_start_ok raw_rx_start_ok raw_access_ok uart_end_ok obs_ok_uart_event obs_ok_emit
  show ?thesis
  proof (cases "co_bound (fc_observation cpu)")
    case True
    then show ?thesis using ok q steps [OF ok] by (cases "rw_kind r") (simp_all add: obs_raw_fact_def Let_def)
  qed (simp add: obs_raw_fact_def ok)
qed

subsection \<open>Boundaries\<close>

lemma retire_ok:
  assumes ok: "obs_ok ob" "co_pending ob" "co_retired ob \<noteq> - 1"
  shows "retired_ok False (co_retired ob + 1) (co_next_instruction ob)"
  using obs_okD(3) [OF ok(1)] ok(2) unat_next [OF ok(3)] by (simp add: retired_ok_def)

lemma obs_ok_closed:
  assumes ok: "log_ok ob" "frames_ok (unat (co_depth ob)) (co_next_context ob) (co_frames ob)"
    "uart_ok (co_next_frame ob) (co_rx ob) (co_tx ob) (co_hold ob)" "retired_ok False (co_retired ob) (co_next_instruction ob)"
  shows "obs_ok (ob\<lparr>co_pending := False, co_closing := False\<rparr>)" "co_depth ob \<noteq> 0 \<Longrightarrow> obs_ok (ob\<lparr>co_depth := co_depth ob - 1, co_pending := False, co_closing := False\<rparr>)"
proof -
  show "obs_ok (ob\<lparr>co_pending := False, co_closing := False\<rparr>)" using ok by (simp add: obs_ok_def log_ok_def)
  assume d: "co_depth ob \<noteq> 0"
  then have "frames_ok (unat (co_depth ob - 1)) (co_next_context ob) (co_frames ob)"
    by (intro frames_ok_less [OF ok(2)]) (simp add: unat_minus_one)
  then show "obs_ok (ob\<lparr>co_depth := co_depth ob - 1, co_pending := False, co_closing := False\<rparr>)" using ok by (simp add: obs_ok_def log_ok_def)
qed

lemma finish_instruction_form:
  obtains e where "finish_instruction z cpu = obs_update (\<lambda>ob. ob\<lparr>co_pending := False, co_closing := False\<rparr>)
      (if fc_fault (obs_emit e (count_retired cpu)) = 0 \<and> co_closing (fc_observation (obs_emit e (count_retired cpu))) \<and> co_depth (fc_observation (obs_emit e (count_retired cpu))) \<noteq> 0
       then obs_update (\<lambda>ob. ob\<lparr>co_depth := co_depth ob - 1\<rparr>) (obs_emit e (count_retired cpu)) else obs_emit e (count_retired cpu))"
  unfolding finish_instruction_def Let_def by blast

lemma count_retired_ok:
  assumes ok: "obs_ok (fc_observation cpu)" and p: "co_pending (fc_observation cpu)"
  shows "log_ok (fc_observation (count_retired cpu))" "retired_ok False (co_retired (fc_observation (count_retired cpu))) (co_next_instruction (fc_observation (count_retired cpu)))"
    "frames_ok (unat (co_depth (fc_observation (count_retired cpu)))) (co_next_context (fc_observation (count_retired cpu))) (co_frames (fc_observation (count_retired cpu)))"
    "uart_ok (co_next_frame (fc_observation (count_retired cpu))) (co_rx (fc_observation (count_retired cpu))) (co_tx (fc_observation (count_retired cpu))) (co_hold (fc_observation (count_retired cpu)))"
proof -
  have "fc_fault (fail_cpu EMUIF_EXHAUSTED cpu) \<noteq> 0" by (simp add: fail_cpu_def)
  then have c: "fc_observation (count_retired cpu) = fc_observation cpu \<or>
      fc_observation (count_retired cpu) = (fc_observation cpu)\<lparr>co_retired := co_retired (fc_observation cpu) + 1\<rparr> \<and> co_retired (fc_observation cpu) \<noteq> - 1"
    by (auto simp: count_retired_def Let_def)
  note f = obs_okD [OF ok]
  show "retired_ok False (co_retired (fc_observation (count_retired cpu))) (co_next_instruction (fc_observation (count_retired cpu)))"
    using c retire_ok [OF ok p] f(3) by (auto simp: retired_ok_def)
  show "log_ok (fc_observation (count_retired cpu))" using c ok by (auto simp: obs_ok_def log_ok_def)
  show "frames_ok (unat (co_depth (fc_observation (count_retired cpu)))) (co_next_context (fc_observation (count_retired cpu))) (co_frames (fc_observation (count_retired cpu)))"
    "uart_ok (co_next_frame (fc_observation (count_retired cpu))) (co_rx (fc_observation (count_retired cpu))) (co_tx (fc_observation (count_retired cpu))) (co_hold (fc_observation (count_retired cpu)))"
    using c f by auto
qed

lemma finish_instruction_ok:
  assumes ok: "obs_ok (fc_observation cpu)" and p: "co_pending (fc_observation cpu)"
  shows "obs_ok (fc_observation (finish_instruction z cpu))"
proof (rule finish_instruction_form [of z cpu])
  fix e
  let ?d = "obs_emit e (count_retired cpu)"
  assume fin: "finish_instruction z cpu = obs_update (\<lambda>ob. ob\<lparr>co_pending := False, co_closing := False\<rparr>)
      (if fc_fault ?d = 0 \<and> co_closing (fc_observation ?d) \<and> co_depth (fc_observation ?d) \<noteq> 0 then obs_update (\<lambda>ob. ob\<lparr>co_depth := co_depth ob - 1\<rparr>) ?d else ?d)"
  note c = count_retired_ok [OF ok p]
  have ok2: "log_ok (fc_observation ?d)" "frames_ok (unat (co_depth (fc_observation ?d))) (co_next_context (fc_observation ?d)) (co_frames (fc_observation ?d))"
    "uart_ok (co_next_frame (fc_observation ?d)) (co_rx (fc_observation ?d)) (co_tx (fc_observation ?d)) (co_hold (fc_observation ?d))"
    "retired_ok False (co_retired (fc_observation ?d)) (co_next_instruction (fc_observation ?d))"
    using log_ok_emit [OF c(1)] c by simp_all
  show ?thesis unfolding fin using obs_ok_closed [OF ok2] by (simp del: obs_emit_fields)
qed

lemma obs_finish_ok:
  assumes ok: "obs_ok (fc_observation cpu)"
  shows "obs_ok (fc_observation (obs_finish z cpu))"
proof -
  let ?ob = "fc_observation cpu"
  define cpu1 where "cpu1 = (if co_pending ?ob \<and> (fc_fault cpu \<noteq> 0 \<or> co_opcode_done ?ob \<and> mTickDelay (fc_core cpu) = 0) then finish_instruction z cpu else cpu)"
  have ok1: "obs_ok (fc_observation cpu1)" using finish_instruction_ok [OF ok] ok by (simp add: cpu1_def)
  have "obs_ok (fc_observation (obs_update (\<lambda>ob. ob\<lparr>co_fault_emitted := True\<rparr>) cpu1))" by (rule obs_ok_quiet [OF ok1]) simp_all
  from obs_ok_emit [OF this] show ?thesis unfolding obs_finish_def Let_def cpu1_def [symmetric] using ok ok1 by (simp split: if_split)
qed

lemma obs_reset_ok:
  assumes ok: "obs_ok (fc_observation cpu)"
  shows "obs_ok (fc_observation (obs_reset z cpu))"
proof -
  have cleared: "obs_ok ((fc_observation c)\<lparr>co_rx := zero_uart, co_tx := zero_uart, co_hold := zero_uart, co_pending := False, co_closing := False, co_depth := 0,
           co_irq_depth := 0, co_unknown_base := False, co_fault_emitted := False, co_current_access := 0, co_unbound_cycle := 0,
           co_unbound_instructions := 0, co_attempted_cycle := 0\<rparr>)" if "obs_ok (fc_observation c)" for c :: "'a emuif_cpu"
    by (rule obs_okI [OF that]) (use obs_okD(3) [OF that] in \<open>auto simp: uart_ok_def zero_uart_def retired_ok_def\<close>)
  have "obs_ok (fc_observation (abort_pending z cpu))"
  proof -
    obtain e where a: "abort_pending z cpu = obs_update (\<lambda>ob. ob\<lparr>co_pending := False\<rparr>) (obs_emit e cpu)" unfolding abort_pending_def Let_def by blast
    have e: "obs_ok (fc_observation (obs_emit e cpu))" by (rule obs_ok_emit [OF ok])
    show ?thesis unfolding a by (rule obs_okI [OF e]) (use obs_okD [OF e] in \<open>simp_all add: retired_ok_def\<close>)
  qed
  then have "obs_ok (fc_observation (if co_pending (fc_observation cpu) then abort_pending z cpu else cpu))" using ok by simp
  then show ?thesis unfolding obs_reset_def Let_def using ok
    by (simp add: cleared obs_ok_uart_event split: if_split)
qed

subsection \<open>What observing leaves alone\<close>

lemma obs_id_rest [simp]: "facade_rest (snd (obs_id k cpu)) = facade_rest cpu"
  by (simp add: obs_id_def)

lemma context_push_rest: "facade_rest (snd (obs_context_push kind target return_pc spb spa source e cpu)) = facade_rest cpu"
  by (simp add: obs_context_push_def obs_id_def Let_def)

lemma return_observed_rest [simp]: "facade_rest (return_observed isret e cpu) = facade_rest cpu"
  by (simp add: return_observed_def Let_def)

lemma uart_new_rest: "obs_uart_new v cpu = (x, cpu') \<Longrightarrow> facade_rest cpu' = facade_rest cpu"
  by (auto simp: obs_uart_new_def obs_id_def split: if_splits)

lemma raw_enter_rest [simp]: "facade_rest (raw_enter z call r cpu) = facade_rest cpu"
proof -
  obtain e cpu1 where p: "obs_context_push (if call then EMUIF_OBS_FRAME_CALL else EMUIF_OBS_FRAME_IRQ) (if call then ucast (rw_a r) else mPC (fc_core cpu))
      (ucast (rw_b r)) (ucast (rw_c r)) (ucast (rw_d r)) (ucast (rw_a r))
      (if call then obs_init z cpu EMUIF_OBS_CALL EMUIF_OBS_PHASE_EFFECT (rw_cycle r) else obs_init z cpu EMUIF_OBS_IRQ_ENTER EMUIF_OBS_PHASE_BOUNDARY (rw_cycle r)) cpu = (e, cpu1)"
    by (rule prod.exhaust)
  have "facade_rest cpu1 = facade_rest cpu" using context_push_rest by (metis p snd_conv)
  then show ?thesis unfolding raw_enter_def Let_def p prod.case by (simp split: if_split)
qed

lemma raw_rests [simp]:
  "facade_rest (raw_begin z r cpu) = facade_rest cpu" "facade_rest (raw_operand r cpu) = facade_rest cpu" "facade_rest (raw_return z isret r cpu) = facade_rest cpu"
  "facade_rest (raw_tx_start z r cpu) = facade_rest cpu" "facade_rest (snd (raw_access_begin z r cpu)) = facade_rest cpu" "facade_rest (raw_access_end z r cpu) = facade_rest cpu"
  by (simp_all add: raw_begin_def raw_operand_def raw_return_def raw_tx_start_def raw_access_begin_def raw_access_end_def obs_id_def Let_def)

lemma raw_uart_rests [simp]: "facade_rest (raw_tx_hold z r cpu) = facade_rest cpu" "facade_rest (raw_rx_start z r cpu) = facade_rest cpu"
  by (auto simp: raw_tx_hold_def raw_rx_start_def Let_def split: prod.split option.split dest!: uart_new_rest)

lemma obs_fact_rest [simp]: "facade_rest (snd (obs_raw_fact z r cpu)) = facade_rest cpu"
  by (cases "rw_kind r") (simp_all add: obs_raw_fact_def Let_def)

lemma finish_rest [simp]: "facade_rest (finish_instruction z cpu) = facade_rest cpu" "facade_rest (abort_pending z cpu) = facade_rest cpu"
proof -
  have "facade_rest (count_retired cpu) = facade_rest cpu" by (simp add: count_retired_def Let_def)
  then show "facade_rest (finish_instruction z cpu) = facade_rest cpu" by (cases rule: finish_instruction_form [of z cpu]) simp
qed (simp add: abort_pending_def Let_def)

lemma obs_boundary_rest [simp]: "facade_rest (obs_finish z cpu) = facade_rest cpu" "facade_rest (obs_reset z cpu) = facade_rest cpu"
  by (simp_all add: obs_finish_def obs_reset_def Let_def)

lemma rest_fields:
  assumes "facade_rest a = facade_rest b"
  shows "fc_core a = fc_core b" "fc_input_order a = fc_input_order b" "fc_input_cycle a = fc_input_cycle b" "fc_input_max_order a = fc_input_max_order b"
    "fc_input_reset_floor a = fc_input_reset_floor b" "fc_input_seen a = fc_input_seen b" "fc_busy a = fc_busy b"
  using arg_cong [OF assms, of fc_core] arg_cong [OF assms, of fc_input_order] arg_cong [OF assms, of fc_input_cycle] arg_cong [OF assms, of fc_input_max_order]
    arg_cong [OF assms, of fc_input_reset_floor] arg_cong [OF assms, of fc_input_seen] arg_cong [OF assms, of fc_busy]
  by (simp_all add: facade_rest_def)

lemmas fact_fields [simp] = rest_fields [OF obs_fact_rest] rest_fields [OF obs_boundary_rest(1)] rest_fields [OF obs_boundary_rest(2)]

subsection \<open>Callbacks\<close>

text \<open>The part of the facade that only its interface changes.\<close>

definition input_part :: "'h emuif_cpu \<Rightarrow> u64 \<times> u64 \<times> u64 \<times> u64 \<times> bool \<times> bool" where
  "input_part cpu = (fc_input_order cpu, fc_input_cycle cpu, fc_input_max_order cpu, fc_input_reset_floor cpu, fc_input_seen cpu, fc_busy cpu)"

lemma input_part_rest: "facade_rest a = facade_rest b \<Longrightarrow> input_part a = input_part b"
  using rest_fields [of a b] by (simp add: input_part_def)

lemma input_part_update [simp]:
  "input_part (cpu\<lparr>fc_core := c\<rparr>) = input_part cpu" "input_part (cpu\<lparr>fc_context := x\<rparr>) = input_part cpu" "input_part (cpu\<lparr>fc_sequence := n\<rparr>) = input_part cpu"
  "input_part (cpu\<lparr>fc_port_latches := l\<rparr>) = input_part cpu" "input_part (cpu\<lparr>fc_port_latches := l, fc_context := x\<rparr>) = input_part cpu" "input_part (cpu\<lparr>fc_tx_start := n\<rparr>) = input_part cpu"
  "input_part (cpu\<lparr>fc_observed_pc := a, fc_observed_size := b, fc_instruction_pending := d\<rparr>) = input_part cpu" "input_part (obs_update f cpu) = input_part cpu"
  by (simp_all add: input_part_def)

definition keeps :: "'h emuif_cpu \<Rightarrow> 'h emuif_cpu \<Rightarrow> bool" where
  "keeps cpu cpu' \<longleftrightarrow> input_part cpu' = input_part cpu \<and> (obs_ok (fc_observation cpu) \<longrightarrow> obs_ok (fc_observation cpu'))"

lemma keeps_trans: "keeps a b \<Longrightarrow> keeps b c \<Longrightarrow> keeps a c"
  by (simp add: keeps_def)

lemma keeps_fact: "keeps cpu (snd (obs_raw_fact z r cpu))"
  using input_part_rest [OF obs_fact_rest [of z r cpu]] obs_fact_ok by (auto simp: keeps_def)

lemma keeps_quiet: "fc_observation cpu' = fc_observation cpu \<Longrightarrow> input_part cpu' = input_part cpu \<Longrightarrow> keeps cpu cpu'"
  by (simp add: keeps_def)

lemma fail_input_part [simp]: "input_part (fail_cpu s cpu) = input_part cpu"
  by (simp add: input_part_def fail_cpu_def)

lemma facade_sequence_keeps: "facade_sequence cpu = (x, cpu') \<Longrightarrow> fc_observation cpu' = fc_observation cpu \<and> input_part cpu' = input_part cpu"
  by (auto simp: facade_sequence_def split: if_splits)

lemma transfer_keeps: "bus_transfer z address direction v cpu = (b, cpu') \<Longrightarrow> keeps cpu cpu'"
  by (rule keeps_quiet; auto simp: bus_transfer_def Let_def split: prod.splits option.splits if_splits dest!: facade_sequence_keeps)

lemma bus_keeps: "bus z address direction v cpu = (b, cpu') \<Longrightarrow> keeps cpu cpu'"
proof -
  assume b: "bus z address direction v cpu = (b, cpu')"
  define fact where "fact = obs_raw_fact z \<lparr>rw_kind = EMU_RAW_ACCESS_BEGIN, rw_cycle = mMachineCycleCount (fc_core cpu), rw_a = ucast address,
      rw_b = EMUIF_SPACE_XDATA, rw_c = (if direction = EMUIF_ACCESS_READ then EMUIF_OBS_ACCESS_READ else EMUIF_OBS_ACCESS_WRITE), rw_d = ucast v\<rparr> cpu"
  obtain id1 cpu1 where 1: "fact = (id1, cpu1)" by fastforce
  obtain v2 cpu2 where 2: "bus_transfer z address direction v cpu1 = (v2, cpu2)" by fastforce
  have k1: "keeps cpu cpu1" using keeps_fact 1 unfolding fact_def by (metis snd_conv)
  have "cpu' = cpu \<or> cpu' = cpu1 \<or> (\<exists>r. cpu' = snd (obs_raw_fact z r cpu2))"
    using b 1 2 by (auto simp: bus_def Let_def fact_def [symmetric] obs_fact_def split: if_splits)
  then show ?thesis using k1 keeps_trans [OF keeps_trans [OF k1 transfer_keeps [OF 2]] keeps_fact] by (auto simp: keeps_quiet)
qed

lemma core_call_keeps: "keeps cpu (core_call z x cpu)"
proof -
  obtain c call where x: "x = (c, call)" by fastforce
  have k: "keeps cpu (cpu\<lparr>fc_core := c\<rparr>)" by (rule keeps_quiet) simp_all
  have b: "keeps d (snd (bus z a t v d))" for a t v and d :: "'a emuif_cpu" using bus_keeps [of z a t v d] by (cases "bus z a t v d") simp
  have "keeps (cpu\<lparr>fc_core := c\<rparr>) (core_call z x cpu)"
  proof (cases call)
    case (CallRaw r)
    then show ?thesis using keeps_fact by (simp add: x core_call_def obs_fact_def Let_def)
  next
    case (CallRead a)
    then show ?thesis using b by (simp add: x core_call_def read_bus_def Let_def)
  next
    case (CallWrite a v)
    then show ?thesis using b by (simp add: x core_call_def write_bus_def Let_def)
  next
    case (CallPort a)
    show ?thesis
      by (rule keeps_quiet; simp add: CallPort x core_call_def port_write_def Let_def;
          auto simp: Let_def split: prod.splits option.splits dest!: facade_sequence_keeps)
  next
    case (CallUart r)
    show ?thesis
      by (rule keeps_quiet; simp add: CallUart x core_call_def uart_trace_def Let_def;
          auto simp: Let_def split: prod.splits option.splits dest!: facade_sequence_keeps)
  next
    case (CallTrace r)
    show ?thesis by (rule keeps_quiet) (simp_all add: CallTrace x core_call_def instruction_trace_def Let_def)
  next
    case (CallException r)
    show ?thesis by (rule keeps_quiet) (simp_all add: CallException x core_call_def exception_raised_def Let_def)
  qed
  then show ?thesis by (rule keeps_trans [OF k])
qed

lemma core_calls_keep: "keeps cpu (fold (core_call z) calls cpu)"
proof (induction calls arbitrary: cpu)
  case (Cons x calls)
  show ?case using keeps_trans [OF core_call_keeps Cons] by simp
qed (simp add: keeps_quiet)

end
