(* ===== verification/FacadeInput.thy ===== *)
theory FacadeInput
  imports FacadeInv
begin

text \<open>
  The interface of the CPU facade in use: which inputs are admitted, and the invariant in every facade its operations reach.
\<close>

subsection \<open>Inputs\<close>

lemma no_raw_facts [simp]: "raw_facts l l = []"
  by (simp add: raw_facts_def)

lemma facts_keep: "keeps cpu (fold (obs_fact z) rs cpu)"
proof (induction rs arbitrary: cpu)
  case (Cons r rs)
  show ?case using keeps_trans [OF keeps_fact [of cpu z r] Cons] by (simp add: obs_fact_def)
qed (simp add: keeps_quiet)

lemma core_operation_keeps:
  assumes "core_operation z f cpu = (b, cpu')"
  shows "keeps cpu cpu'"
proof -
  obtain c where c: "f (input_callbacks cpu) (fc_core cpu) = (b, c)" using assms by (auto simp: core_operation_def Let_def split: prod.splits)
  have "keeps cpu (cpu\<lparr>fc_core := c\<rparr>)" by (rule keeps_quiet) simp_all
  from keeps_trans [OF this facts_keep] show ?thesis using assms c by (auto simp: core_operation_def Let_def)
qed

text \<open>An operation of the core that refuses leaves the CPU alone.\<close>

definition refuses_unchanged :: "(em8051_callbacks \<Rightarrow> em8051 \<Rightarrow> bool \<times> em8051) \<Rightarrow> bool" where
  "refuses_unchanged f \<longleftrightarrow> (\<forall>E c c'. f E c = (False, c') \<longrightarrow> c' = c)"

lemma core_operation_refused: "refuses_unchanged f \<Longrightarrow> core_operation z f cpu = (False, cpu') \<Longrightarrow> cpu' = cpu"
proof -
  assume "refuses_unchanged f" and o: "core_operation z f cpu = (False, cpu')"
  then have "f (input_callbacks cpu) (fc_core cpu) = (False, fc_core cpu)" by (auto simp: core_operation_def refuses_unchanged_def Let_def split: prod.splits)
  then show ?thesis using o by (simp add: core_operation_def Let_def)
qed

lemma port_operations_refuse:
  "refuses_unchanged (\<lambda>E. em8051_sab_port_drive E port m levels)" "refuses_unchanged (\<lambda>E. em8051_sab_port_release E port m)"
  "refuses_unchanged (\<lambda>E. em8051_sab_external_drive E source level)" "refuses_unchanged (\<lambda>E. em8051_sab_external_release E source)"
  "refuses_unchanged (\<lambda>E. em8051_sab_adc_set_input channel v)" "refuses_unchanged (\<lambda>E. em8051_sab_uart_inject_rx_frame E d n)"
  by (auto simp: refuses_unchanged_def em8051_sab_port_drive_def em8051_sab_port_release_def em8051_sab_external_drive_def em8051_sab_external_release_def
      em8051_sab_adc_set_input_def em8051_sab_uart_inject_rx_frame_def Let_def split: option.splits if_splits prod.splits)

lemma rx_rejected_rest: "facade_rest (obs_rx_rejected z i s cpu) = facade_rest cpu"
  by (auto simp: obs_rx_rejected_def Let_def split: prod.split option.split dest!: uart_new_rest)

lemma rx_rejected_ok: "obs_ok (fc_observation cpu) \<Longrightarrow> obs_ok (fc_observation (obs_rx_rejected z i s cpu))"
proof -
  assume ok: "obs_ok (fc_observation cpu)"
  obtain x cpu1 where n: "obs_uart_new (ucast (in_value i)) cpu = (x, cpu1)" by fastforce
  note f = obs_okD [OF ok]
  from ok n show ?thesis
  proof (cases rule: obs_uart_new_cases)
    case (2 g)
    have "uart_ok (co_next_frame (fc_observation cpu) + 1) (co_rx (fc_observation cpu)) (co_tx (fc_observation cpu)) (co_hold (fc_observation cpu))"
      using f(2) next_greater [OF 2(3)] by (auto simp: uart_ok_def intro: order_trans less_imp_le)
    then have "obs_ok (fc_observation cpu1)" using 2 f by (auto intro!: obs_okI [OF ok])
    then show ?thesis using n 2 ok by (simp add: obs_rx_rejected_def obs_ok_uart_event Let_def)
  qed (use n ok in \<open>simp_all add: obs_rx_rejected_def\<close>)
qed

lemma rx_rejected_keeps: "keeps cpu (obs_rx_rejected z i s cpu)"
  using rx_rejected_ok input_part_rest [OF rx_rejected_rest] by (auto simp: keeps_def)

text \<open>
  When a received frame is turned away while observations are delivered: the frame takes the next frame identifier, and two
  observations report its drop and its end, with the input's order and cycle, the reason and the next sequence
  numbers.  If the sequence numbers run out, the CPU is exhausted.  Nothing else changes.
\<close>

definition drop_entry :: "emuif_input \<Rightarrow> u32 \<Rightarrow> 'h emuif_cpu \<Rightarrow> u32 \<Rightarrow> emuif_observation \<Rightarrow> bool" where
  "drop_entry i reason cpu kind e \<longleftrightarrow>
     (let ob = fc_observation cpu
      in ob_kind e = kind \<and> ob_phase e = EMUIF_OBS_PHASE_PERIPHERAL \<and> ob_generation e = co_generation ob \<and> ob_cycle e = mMachineCycleCount (fc_core cpu) \<and>
         ob_frame_id e = co_next_frame ob + 1 \<and> ob_related_frame_id e = 0 \<and> ob_reason e = reason \<and> ob_cpu_input_order e = in_order i \<and>
         ob_scheduled_cycle e = in_cycle i \<and> ob_parent_stimulus_id e = (if co_delivery_order ob = in_order i then co_delivery_parent ob else 0) \<and>
         ob_scon e = mSFR (fc_core cpu) REG_SCON)"

definition turned_away :: "emuif_input \<Rightarrow> u32 \<Rightarrow> 'h emuif_cpu \<Rightarrow> 'h emuif_cpu \<Rightarrow> bool" where
  "turned_away i reason cpu cpu' \<longleftrightarrow>
     (let ob = fc_observation cpu; q = co_sequence ob
      in if \<not> co_bound ob then cpu' = cpu
         else \<exists>es. length es = min 2 (2 ^ 64 - 1 - unat q) \<and>
           (\<forall>j < length es. drop_entry i reason cpu ([EMUIF_OBS_RX_DROP, EMUIF_OBS_RX_END] ! j) (es ! j) \<and> ob_sequence (es ! j) = q + word_of_nat (Suc j)) \<and>
           cpu' = cpu\<lparr>fc_observation := ob\<lparr>co_next_frame := co_next_frame ob + 1, co_sequence := q + word_of_nat (length es),
               co_delivered := rev es @ co_delivered ob\<rparr>,
             fc_fault := if length es < 2 then EMUIF_EXHAUSTED else EMUIF_OK\<rparr>)"

lemma drop_entry_sequence: "drop_entry i reason cpu kind (e\<lparr>ob_sequence := n\<rparr>) = drop_entry i reason cpu kind e"
  by (simp add: drop_entry_def)

lemma uart_event_emits:
  assumes "ou_id f \<noteq> 0" "EMUIF_OBS_RX_START \<le> kind" "kind \<le> EMUIF_OBS_RX_END"
  shows "\<exists>e. obs_uart_event z f kind reason cycle displaced cpu = obs_emit e cpu \<and>
    ob_kind e = kind \<and> ob_phase e = EMUIF_OBS_PHASE_PERIPHERAL \<and> ob_generation e = co_generation (fc_observation cpu) \<and> ob_cycle e = cycle \<and>
    ob_frame_id e = ou_id f \<and> ob_related_frame_id e = displaced \<and> ob_reason e = reason \<and> ob_cpu_input_order e = ou_order f \<and>
    ob_scheduled_cycle e = ou_scheduled f \<and> ob_parent_stimulus_id e = ou_parent f \<and> ob_scon e = mSFR (fc_core cpu) REG_SCON"
proof -
  have "kind \<noteq> EMUIF_OBS_TX_HOLD \<and> kind \<noteq> EMUIF_OBS_TX_REPLACE" using assms(2,3) by auto
  then show ?thesis unfolding obs_uart_event_def Let_def if_not_P [OF assms(1)]
    by - (rule exI, rule conjI, rule refl, use assms in \<open>simp add: obs_init_def Let_def\<close>)
qed

lemma emit_bound:
  assumes "co_bound (fc_observation cpu)" "fc_fault cpu \<in> {EMUIF_OK, EMUIF_EXHAUSTED}"
  shows "obs_emit e cpu =
    (if co_sequence (fc_observation cpu) = - 1 then cpu\<lparr>fc_fault := EMUIF_EXHAUSTED\<rparr>
     else obs_update (\<lambda>ob. ob\<lparr>co_sequence := co_sequence ob + 1, co_delivered := e\<lparr>ob_sequence := co_sequence ob + 1\<rparr> # co_delivered ob\<rparr>) cpu)"
  using assms by (cases cpu) (auto simp: obs_emit_def obs_id_def fail_cpu_def)

lemma numbers_above:
  "min 2 (2 ^ 64 - 1 - unat q) = (if q = - 1 then 0 else if q + 1 = - 1 then 1 else 2)" for q :: u64
proof -
  have top: "unat (- 1 :: u64) = 2 ^ 64 - 1" by (simp add: unsigned_minus_1_eq_mask mask_eq_exp_minus_1)
  have lt: "unat q < 2 ^ 64" using unat_lt [of q] by simp
  show ?thesis
  proof (cases "q = - 1")
    case True
    then show ?thesis by (simp add: top)
  next
    case False
    then have "1 + q \<noteq> 0" by (simp add: add.commute eq_neg_iff_add_eq_0)
    from unatSuc [OF this] have s: "unat (q + 1) = Suc (unat q)" by (simp add: add.commute)
    then have "q + 1 = - 1 \<longleftrightarrow> Suc (unat q) = 2 ^ 64 - 1" using top by (metis word_unat_eq_iff)
    moreover have "Suc (unat q) < 2 ^ 64" using s unat_lt [of "q + 1"] by simp
    ultimately show ?thesis using False by auto
  qed
qed

lemma rx_rejected_exact:
  assumes f: "fc_fault cpu = EMUIF_OK" and n: "\<not> (co_bound (fc_observation cpu) \<and> co_next_frame (fc_observation cpu) = - 1)"
  shows "turned_away i (if s = EMUIF_BUSY then EMUIF_OBS_REASON_BUSY else EMUIF_OBS_REASON_REN) cpu (obs_rx_rejected z i s cpu)"
proof (cases "co_bound (fc_observation cpu)")
  case b: True
  define reason where "reason = (if s = EMUIF_BUSY then EMUIF_OBS_REASON_BUSY else EMUIF_OBS_REASON_REN)"
  define ob where "ob = fc_observation cpu"
  define q where "q = co_sequence ob"
  define cy where "cy = mMachineCycleCount (fc_core cpu)"
  define cpu1 where "cpu1 = obs_update (\<lambda>x. x\<lparr>co_next_frame := co_next_frame (fc_observation cpu) + 1\<rparr>) cpu"
  define fr where "fr = zero_uart\<lparr>ou_id := co_next_frame ob + 1, ou_value := ucast (in_value i),
    ou_parent := if co_delivery_order ob = in_order i then co_delivery_parent ob else 0, ou_order := in_order i, ou_scheduled := in_cycle i\<rparr>"
  have nz: "ou_id fr \<noteq> 0" using b n by (simp add: fr_def ob_def eq_neg_iff_add_eq_0)
  define cpu2 where "cpu2 = obs_uart_event z fr EMUIF_OBS_RX_DROP reason cy 0 cpu1"
  have rej: "obs_rx_rejected z i s cpu = obs_uart_event z fr EMUIF_OBS_RX_END reason cy 0 cpu2"
    using b n by (simp add: obs_rx_rejected_def obs_uart_new_def obs_id_def Let_def cpu2_def fr_def reason_def cy_def cpu1_def ob_def)
  have first: "co_bound (fc_observation cpu1)" "fc_fault cpu1 \<in> {EMUIF_OK, EMUIF_EXHAUSTED}" using b f by (simp_all add: cpu1_def)
  obtain e1 where e1: "cpu2 = obs_emit e1 cpu1" "drop_entry i reason cpu EMUIF_OBS_RX_DROP e1"
    using uart_event_emits [of fr EMUIF_OBS_RX_DROP z reason cy 0 cpu1] nz by (auto simp: cpu2_def drop_entry_def fr_def cpu1_def cy_def ob_def)
  have same: "fc_core cpu2 = fc_core cpu" "co_generation (fc_observation cpu2) = co_generation ob" "co_bound (fc_observation cpu2)"
    "fc_fault cpu2 \<in> {EMUIF_OK, EMUIF_EXHAUSTED}"
    using b f by (simp_all add: e1(1) emit_bound cpu1_def ob_def)
  obtain e2 where e2: "obs_rx_rejected z i s cpu = obs_emit e2 cpu2" "drop_entry i reason cpu EMUIF_OBS_RX_END e2"
    using uart_event_emits [of fr EMUIF_OBS_RX_END z reason cy 0 cpu2] nz same
    by (auto simp: rej drop_entry_def fr_def cy_def ob_def)
  define es where "es = (if q = - 1 then [] else if q + 1 = - 1 then [e1\<lparr>ob_sequence := q + 1\<rparr>] else [e1\<lparr>ob_sequence := q + 1\<rparr>, e2\<lparr>ob_sequence := q + 2\<rparr>])"
  have "length es = min 2 (2 ^ 64 - 1 - unat q)" unfolding numbers_above by (simp add: es_def)
  moreover have "drop_entry i reason cpu ([EMUIF_OBS_RX_DROP, EMUIF_OBS_RX_END] ! j) (es ! j) \<and> ob_sequence (es ! j) = q + word_of_nat (Suc j)" if "j < length es" for j
    using that e1(2) e2(2) by (auto simp: es_def drop_entry_sequence less_Suc_eq split: if_splits)
  moreover have "obs_rx_rejected z i s cpu = cpu\<lparr>fc_observation := ob\<lparr>co_next_frame := co_next_frame ob + 1, co_sequence := q + word_of_nat (length es),
      co_delivered := rev es @ co_delivered ob\<rparr>, fc_fault := if length es < 2 then EMUIF_EXHAUSTED else EMUIF_OK\<rparr>"
    unfolding e2(1) emit_bound [OF same(3,4)] unfolding e1(1) emit_bound [OF first] unfolding cpu1_def ob_def q_def es_def
    using f by (cases cpu) (auto simp: add.assoc)
  ultimately show ?thesis using b unfolding turned_away_def Let_def ob_def [symmetric] q_def [symmetric] reason_def [symmetric]
    by (subst if_not_P, simp, intro exI [of _ es] conjI allI impI) blast+
qed (simp add: turned_away_def obs_rx_rejected_def Let_def)

text \<open>When an input is admitted, and what one that is not applied leaves, by the frame it may carry.\<close>

definition input_admissible :: "facade_sizes \<Rightarrow> emuif_input \<Rightarrow> 'h emuif_cpu \<Rightarrow> bool" where
  "input_admissible z i cpu \<longleftrightarrow> \<not> fc_busy cpu \<and> fc_fault cpu = EMUIF_OK \<and> prefix_check i (size_input z) = EMUIF_OK \<and> is_sab (fc_core cpu) \<and> in_kind i \<le> 4 \<and>
     in_cycle i = mMachineCycleCount (fc_core cpu) \<and> fc_input_reset_floor cpu < in_order i \<and>
     \<not> (fc_input_seen cpu \<and> fc_input_cycle cpu = in_cycle i \<and> in_order i \<le> fc_input_order cpu)"

definition frame_offered :: "facade_sizes \<Rightarrow> emuif_input \<Rightarrow> 'h emuif_cpu \<Rightarrow> bool" where
  "frame_offered z i cpu \<longleftrightarrow> input_admissible z i cpu \<and> in_kind i = 3 \<and> in_index i = 0 \<and> in_value i \<le> 511 \<and> in_mask i = 511 \<and>
     mSFR (fc_core cpu) REG_SCON AND 0xc0 = 0xc0 \<and> \<not> (co_bound (fc_observation cpu) \<and> co_next_frame (fc_observation cpu) = - 1)"

definition input_refused :: "facade_sizes \<Rightarrow> emuif_input \<Rightarrow> 'h emuif_cpu \<Rightarrow> u32 \<Rightarrow> 'h emuif_cpu \<Rightarrow> bool" where
  "input_refused z i cpu status cpu' \<longleftrightarrow>
     (if \<not> frame_offered z i cpu then cpu' = cpu
      else if mSFR (fc_core cpu) REG_SCON AND SCONMASK_REN = 0 then status = EMUIF_STATE \<and> turned_away i EMUIF_OBS_REASON_REN cpu cpu'
      else if mSABUartRxActive (fc_core cpu) then status = EMUIF_BUSY \<and> turned_away i EMUIF_OBS_REASON_BUSY cpu cpu'
      else status = EMUIF_UNSUPPORTED \<and> mSFR (fc_core cpu) SAB_ADCON AND SAB_ADCONMASK_BD \<noteq> 0 \<and>
        cpu' = obs_update (\<lambda>ob. ob\<lparr>co_delivery_cycle := if co_delivery_order ob = 0 then 0 else co_delivery_cycle ob\<rparr>) cpu)"

definition effect_sound :: "emuif_input \<Rightarrow> 'h emuif_cpu \<Rightarrow> (u32 + bool) \<times> 'h emuif_cpu \<Rightarrow> bool" where
  "effect_sound i cpu = (\<lambda>(x, cpu'). keeps cpu cpu' \<and> x \<noteq> Inl EMUIF_OK \<and> (x \<noteq> Inr True \<and> in_kind i \<noteq> 3 \<longrightarrow> cpu' = cpu))"

lemma effect_refused: "s \<noteq> EMUIF_OK \<Longrightarrow> effect_sound i cpu (Inl s, cpu)"
  by (simp add: effect_sound_def keeps_quiet)

lemma effect_core:
  assumes "refuses_unchanged f"
  shows "effect_sound i cpu (let (b, cpu) = core_operation z f cpu in (Inr b, cpu))"
proof -
  obtain b cpu' where o: "core_operation z f cpu = (b, cpu')" by fastforce
  then show ?thesis using core_operation_keeps [OF o] core_operation_refused [OF assms, of z cpu cpu'] by (cases b) (auto simp: effect_sound_def)
qed

lemma effect_rejected: "s \<noteq> EMUIF_OK \<Longrightarrow> in_kind i = 3 \<Longrightarrow> effect_sound i cpu (Inl s, obs_rx_rejected z i s cpu)"
  by (simp add: effect_sound_def rx_rejected_keeps)

lemma obs_ok_delivery: "obs_ok ob \<Longrightarrow> obs_ok (ob\<lparr>co_delivery_order := a, co_delivery_cycle := b\<rparr>)"
  "obs_ok ob \<Longrightarrow> obs_ok (ob\<lparr>co_delivery_parent := p, co_delivery_order := a, co_delivery_cycle := b\<rparr>)"
  by (erule obs_ok_quiet; simp)+

lemma keeps_delivery: "keeps cpu (obs_update (\<lambda>ob. ob\<lparr>co_delivery_order := a, co_delivery_cycle := b\<rparr>) cpu)"
  "keeps cpu (obs_update (\<lambda>ob. ob\<lparr>co_delivery_parent := p, co_delivery_order := a, co_delivery_cycle := b\<rparr>) cpu)"
  by (simp_all add: keeps_def obs_ok_delivery)

lemma effect_uart:
  assumes "in_kind i = 3"
  shows "effect_sound i cpu
    (let direct = (co_delivery_order (fc_observation cpu) = 0);
         cpu = (if direct then obs_update (\<lambda>ob. ob\<lparr>co_delivery_order := in_order i, co_delivery_cycle := in_cycle i\<rparr>) cpu else cpu);
         (b, cpu) = core_operation z (\<lambda>E. em8051_sab_uart_inject_rx_frame E d n) cpu
     in (Inr b, if direct then obs_update (\<lambda>ob. ob\<lparr>co_delivery_order := 0, co_delivery_cycle := 0\<rparr>) cpu else cpu))"
proof -
  define direct where "direct = (co_delivery_order (fc_observation cpu) = 0)"
  define cpu1 where "cpu1 = (if direct then obs_update (\<lambda>ob. ob\<lparr>co_delivery_order := in_order i, co_delivery_cycle := in_cycle i\<rparr>) cpu else cpu)"
  obtain b cpu2 where o: "core_operation z (\<lambda>E. em8051_sab_uart_inject_rx_frame E d n) cpu1 = (b, cpu2)" by fastforce
  define cpu3 where "cpu3 = (if direct then obs_update (\<lambda>ob. ob\<lparr>co_delivery_order := 0, co_delivery_cycle := 0\<rparr>) cpu2 else cpu2)"
  have "keeps cpu cpu1" by (simp add: cpu1_def keeps_delivery keeps_quiet)
  then have "keeps cpu cpu2" using core_operation_keeps [OF o] by (rule keeps_trans)
  moreover have "keeps cpu2 cpu3" by (simp add: cpu3_def keeps_delivery keeps_quiet)
  ultimately have k: "keeps cpu cpu3" by (rule keeps_trans)
  have "effect_sound i cpu (Inr b, cpu3)" using k assms by (auto simp: effect_sound_def)
  then show ?thesis unfolding Let_def direct_def [symmetric] cpu1_def [symmetric] o prod.case cpu3_def [symmetric] .
qed

lemma effect_if: "(c \<Longrightarrow> effect_sound i cpu a) \<Longrightarrow> (\<not> c \<Longrightarrow> effect_sound i cpu b) \<Longrightarrow> effect_sound i cpu (if c then a else b)"
  by simp

lemma input_effect_sound: "effect_sound i cpu (input_effect z i cpu)"
proof -
  note core = effect_core [OF port_operations_refuse(1)] effect_core [OF port_operations_refuse(2)] effect_core [OF port_operations_refuse(3)]
    effect_core [OF port_operations_refuse(4)] effect_core [OF port_operations_refuse(5)]
  note r = effect_refused core [unfolded Let_def] effect_rejected effect_uart [unfolded Let_def]
  show ?thesis unfolding input_effect_def Let_def
    by (intro effect_if; rule r; (assumption | simp))
qed

lemma admitted: "admit_input z i cpu = EMUIF_OK \<longleftrightarrow> input_admissible z i cpu"
  by (auto simp: admit_input_def input_admissible_def available_def not_le)

text \<open>A frame: applied, or refused as specified.\<close>

lemma inject_refused:
  assumes "is_sab c" "mSFR c REG_SCON AND 0xc0 = 0xc0" "mSFR c REG_SCON AND SCONMASK_REN \<noteq> 0" "\<not> mSABUartRxActive c"
    and "em8051_sab_uart_inject_rx_frame E d n c = (False, c')"
  shows "mSFR c SAB_ADCON AND SAB_ADCONMASK_BD \<noteq> 0"
  using assms by (auto simp: em8051_sab_uart_inject_rx_frame_def sab_uart_mode3_def Let_def split: if_splits)

lemma uart_effect:
  assumes o: "frame_offered z i cpu" and ren: "mSFR (fc_core cpu) REG_SCON AND SCONMASK_REN \<noteq> 0" and act: "\<not> mSABUartRxActive (fc_core cpu)"
    and e: "input_effect z i cpu = (x, cpu')"
  shows "x = Inr True \<or> x = Inr False \<and> input_refused z i cpu EMUIF_UNSUPPORTED cpu'"
proof -
  define direct where "direct = (co_delivery_order (fc_observation cpu) = 0)"
  define cpu1 where "cpu1 = (if direct then obs_update (\<lambda>ob. ob\<lparr>co_delivery_order := in_order i, co_delivery_cycle := in_cycle i\<rparr>) cpu else cpu)"
  obtain b cpu2 where c: "core_operation z (\<lambda>E. em8051_sab_uart_inject_rx_frame E (ucast (in_value i)) (in_value i AND 256 \<noteq> 0)) cpu1 = (b, cpu2)" by fastforce
  have "in_kind i = 3" "in_index i = 0" "\<not> in_value i > 511" "in_mask i = 511" "mSFR (fc_core cpu) REG_SCON AND 0xc0 = 0xc0"
    "\<not> (co_bound (fc_observation cpu) \<and> co_next_frame (fc_observation cpu) = - 1)" and sab: "is_sab (fc_core cpu)"
    using o by (auto simp: frame_offered_def input_admissible_def)
  then have "input_effect z i cpu = (let (b, cpu) = core_operation z (\<lambda>E. em8051_sab_uart_inject_rx_frame E (ucast (in_value i)) (in_value i AND 256 \<noteq> 0)) cpu1
      in (Inr b, if direct then obs_update (\<lambda>ob. ob\<lparr>co_delivery_order := 0, co_delivery_cycle := 0\<rparr>) cpu else cpu))"
    using ren act unfolding input_effect_def Let_def direct_def [symmetric] cpu1_def by auto
  then have x: "x = Inr b" "cpu' = (if direct then obs_update (\<lambda>ob. ob\<lparr>co_delivery_order := 0, co_delivery_cycle := 0\<rparr>) cpu2 else cpu2)"
    using e by (simp_all add: c)
  show ?thesis
  proof (cases b)
    case False
    then have cpu2: "cpu2 = cpu1" using core_operation_refused [OF port_operations_refuse(6)] c by simp
    have "\<exists>c'. em8051_sab_uart_inject_rx_frame (input_callbacks cpu1) (ucast (in_value i)) (in_value i AND 256 \<noteq> 0) (fc_core cpu1) = (False, c')"
      using c False by (auto simp: core_operation_def Let_def split: prod.splits)
    moreover have "fc_core cpu1 = fc_core cpu" by (simp add: cpu1_def)
    ultimately have "mSFR (fc_core cpu) SAB_ADCON AND SAB_ADCONMASK_BD \<noteq> 0"
      using inject_refused [OF sab] o ren act by (auto simp: frame_offered_def)
    moreover have "cpu' = obs_update (\<lambda>ob. ob\<lparr>co_delivery_cycle := if co_delivery_order ob = 0 then 0 else co_delivery_cycle ob\<rparr>) cpu"
      unfolding x cpu2 cpu1_def direct_def by (cases cpu) simp
    ultimately show ?thesis using x False o ren act by (simp add: input_refused_def)
  qed (simp add: x)
qed

lemma input_effect_refused:
  assumes a: "input_admissible z i cpu" and e: "input_effect z i cpu = (x, cpu')" and x: "x \<noteq> Inr True"
  shows "input_refused z i cpu (case x of Inl s \<Rightarrow> s | Inr _ \<Rightarrow> EMUIF_UNSUPPORTED) cpu'"
proof (cases "in_kind i = 3")
  case False
  then show ?thesis using input_effect_sound [of i cpu z] e x by (simp add: effect_sound_def input_refused_def frame_offered_def)
next
  case k: True
  let ?scon = "mSFR (fc_core cpu) REG_SCON"
  have f: "fc_fault cpu = EMUIF_OK" using a by (simp add: input_admissible_def)
  show ?thesis
  proof (cases "frame_offered z i cpu")
    case False
    then have "in_index i \<noteq> 0 \<or> in_value i > 511 \<or> in_mask i \<noteq> 511 \<or> ?scon AND 0xc0 \<noteq> 0xc0 \<or> co_bound (fc_observation cpu) \<and> co_next_frame (fc_observation cpu) = - 1"
      using a k by (auto simp: frame_offered_def not_le)
    then have "cpu' = cpu" using e k unfolding input_effect_def Let_def by (auto split: if_splits)
    then show ?thesis using False by (simp add: input_refused_def)
  next
    case o: True
    then have n: "\<not> (co_bound (fc_observation cpu) \<and> co_next_frame (fc_observation cpu) = - 1)"
      and g: "in_index i = 0" "\<not> in_value i > 511" "in_mask i = 511" "?scon AND 0xc0 = 0xc0" by (auto simp: frame_offered_def)
    show ?thesis
    proof (cases "?scon AND SCONMASK_REN \<noteq> 0 \<and> \<not> mSABUartRxActive (fc_core cpu)")
      case True
      then show ?thesis using uart_effect [OF o _ _ e] x by auto
    next
      case False
      then have "x = Inl (if ?scon AND SCONMASK_REN = 0 then EMUIF_STATE else EMUIF_BUSY)"
        "cpu' = obs_rx_rejected z i (if ?scon AND SCONMASK_REN = 0 then EMUIF_STATE else EMUIF_BUSY) cpu"
        using e k g n unfolding input_effect_def Let_def by (auto split: if_splits)
      then show ?thesis
        using rx_rejected_exact [OF f n, of i EMUIF_STATE z] rx_rejected_exact [OF f n, of i EMUIF_BUSY z] o False by (auto simp: input_refused_def)
    qed
  qed
qed

text \<open>
  C23. Admission of inputs.  An input is accepted only by an idle, healthy SAB80535, at the current cycle, with an order above the one of the last
  reset and above the last one accepted in the same cycle, and is then remembered.  A refused input changes nothing at all, except
  when it is a well-formed frame for a serial port in a 9-bit mode: with the receiver disabled (status STATE) or still receiving (status BUSY) the
  bound observer is told, by exactly two observations in order that drop and end a new frame, with the input's
  order, the cycle and the reason, and only the numbering of frames and observations advances (the CPU is left exhausted when the
  numbers end there); a port that the baud rate selector excludes (status UNSUPPORTED) clears at most the remembered delivery cycle.
\<close>

theorem facade_input_admission:
  "case apply_input z i cpu of (status, cpu') \<Rightarrow>
     if status = EMUIF_OK
     then input_admissible z i cpu \<and> fc_input_order cpu' = in_order i \<and> fc_input_cycle cpu' = in_cycle i \<and> fc_input_seen cpu' \<and>
       fc_input_max_order cpu' = max (fc_input_max_order cpu) (in_order i) \<and> fc_input_reset_floor cpu' = fc_input_reset_floor cpu
     else input_refused z i cpu status cpu'"
proof (cases "input_admissible z i cpu")
  case True
  then have a: "admit_input z i cpu = EMUIF_OK" by (simp add: admitted)
  obtain x cpu' where e: "input_effect z i cpu = (x, cpu')" by fastforce
  have s: "keeps cpu cpu'" "x \<noteq> Inl EMUIF_OK" using input_effect_sound [of i cpu z] by (simp_all add: e effect_sound_def)
  show ?thesis
  proof (cases "x = Inr True")
    case applied: True
    have "fc_input_max_order cpu' = fc_input_max_order cpu" "fc_input_reset_floor cpu' = fc_input_reset_floor cpu" using s(1) by (simp_all add: keeps_def input_part_def)
    then show ?thesis using a True by (auto simp: apply_input_def e applied max_def)
  next
    case False
    note r = input_effect_refused [OF True e False]
    show ?thesis
    proof (cases x)
      case (Inl st)
      then show ?thesis using a r s(2) by (simp add: apply_input_def e)
    next
      case (Inr b)
      then show ?thesis using a r False by (cases b) (simp_all add: apply_input_def e)
    qed
  qed
next
  case False
  then have "admit_input z i cpu \<noteq> EMUIF_OK" "\<not> frame_offered z i cpu" by (simp_all add: admitted frame_offered_def)
  then show ?thesis by (simp add: apply_input_def input_refused_def)
qed

subsection \<open>Facades in use\<close>

definition facade_ok :: "'h emuif_cpu \<Rightarrow> bool" where
  "facade_ok cpu \<longleftrightarrow> obs_ok (fc_observation cpu) \<and> \<not> fc_busy cpu \<and> fc_input_reset_floor cpu \<le> fc_input_max_order cpu \<and>
     (fc_input_seen cpu \<longrightarrow> fc_input_reset_floor cpu < fc_input_order cpu \<and> fc_input_order cpu \<le> fc_input_max_order cpu)"

inductive facade_reach :: "facade_sizes \<Rightarrow> 'h emuif_cpu \<Rightarrow> bool" for z where
  created: "create_cpu z rand allocated config hooks context = (status, Some cpu) \<Longrightarrow> facade_reach z cpu"
| restarted: "facade_reach z cpu \<Longrightarrow> reset_cpu z rand request cpu = (status, cpu') \<Longrightarrow> facade_reach z cpu'"
| loaded: "facade_reach z cpu \<Longrightarrow> load_code code cpu = (status, cpu') \<Longrightarrow> facade_reach z cpu'"
| driven: "facade_reach z cpu \<Longrightarrow> apply_input z i cpu = (status, cpu') \<Longrightarrow> facade_reach z cpu'"
| delivered: "facade_reach z cpu \<Longrightarrow> deliver_observation z envelope cpu = (status, cpu') \<Longrightarrow> facade_reach z cpu'"
| cycled: "facade_reach z cpu \<Longrightarrow> cycle_cpu z calls ticked out cpu = (status, out', cpu') \<Longrightarrow> facade_reach z cpu'"
| decoded: "facade_reach z cpu \<Longrightarrow> decode_cpu z allocated records request out bytes capacity cpu = (status, out', cpu') \<Longrightarrow> facade_reach z cpu'"
| bound: "facade_reach z cpu \<Longrightarrow> bind_observation z binding cpu = (status, cpu') \<Longrightarrow> facade_reach z cpu'"
| unbound: "facade_reach z cpu \<Longrightarrow> unbind_observation cpu = (status, cpu') \<Longrightarrow> facade_reach z cpu'"
| announced: "facade_reach z cpu \<Longrightarrow> emu_cpu_observation_lifecycle z kind reported cpu = (status, cpu') \<Longrightarrow> facade_reach z cpu'"

lemma facade_ok_keeps: "facade_ok cpu \<Longrightarrow> keeps cpu cpu' \<Longrightarrow> facade_ok cpu'"
  by (auto simp: facade_ok_def keeps_def input_part_def)

lemma facade_ok_created: "create_cpu z rand allocated config hooks context = (status, Some cpu) \<Longrightarrow> facade_ok cpu"
  by (auto simp: create_cpu_def reset_private_def facade_ok_def obs_ok_def log_ok_def uart_ok_def retired_ok_def zero_observation_state_def zero_uart_def Let_def
      split: if_splits prod.splits)

lemma facade_ok_reset: "facade_ok cpu \<Longrightarrow> reset_cpu z rand request cpu = (status, cpu') \<Longrightarrow> facade_ok cpu'"
proof -
  assume ok: "facade_ok cpu" and r: "reset_cpu z rand request cpu = (status, cpu')"
  let ?cpu = "obs_reset z (cpu\<lparr>fc_busy := True\<rparr>)"
  have "obs_ok (fc_observation ?cpu)" using ok by (intro obs_reset_ok) (simp add: facade_ok_def)
  then show ?thesis using ok r by (auto simp: reset_cpu_def reset_private_def facade_ok_def Let_def split: if_splits)
qed

lemma facade_ok_apply:
  assumes ok: "facade_ok cpu" and a: "apply_input z i cpu = (status, cpu')"
  shows "facade_ok cpu'"
proof (cases "admit_input z i cpu = EMUIF_OK")
  case True
  obtain x cpu1 where e: "input_effect z i cpu = (x, cpu1)" by fastforce
  have ok1: "facade_ok cpu1" using facade_ok_keeps [OF ok] input_effect_sound [of i cpu z] by (simp add: e effect_sound_def)
  have "fc_input_reset_floor cpu < in_order i" using True by (auto simp: admit_input_def split: if_splits)
  moreover have "fc_input_reset_floor cpu1 = fc_input_reset_floor cpu" using input_effect_sound [of i cpu z] by (simp add: e effect_sound_def keeps_def input_part_def)
  ultimately show ?thesis using a True ok1 by (auto simp: apply_input_def e facade_ok_def split: sum.splits bool.splits if_splits)
qed (use a ok in \<open>simp add: apply_input_def\<close>)

lemma facade_ok_deliver:
  assumes ok: "facade_ok cpu" and d: "deliver_observation z envelope cpu = (status, cpu')"
  shows "facade_ok cpu'"
proof (cases "cpu' = cpu")
  case False
  let ?cpu = "obs_update (\<lambda>ob. ob\<lparr>co_delivery_parent := oi_parent_stimulus_id envelope, co_delivery_order := in_order (oi_input envelope), co_delivery_cycle := in_cycle (oi_input envelope)\<rparr>) cpu"
  obtain s cpu1 where a: "apply_input z (oi_input envelope) ?cpu = (s, cpu1)" by fastforce
  have "facade_ok cpu1" by (rule facade_ok_apply [OF facade_ok_keeps [OF ok keeps_delivery(2)] a])
  moreover have "cpu' = obs_update (\<lambda>ob. ob\<lparr>co_delivery_parent := 0, co_delivery_order := 0, co_delivery_cycle := 0\<rparr>) cpu1"
    using d False a by (auto simp: deliver_observation_def Let_def split: if_splits)
  ultimately show ?thesis using facade_ok_keeps [OF _ keeps_delivery(2)] by simp
qed (use ok in simp)

lemma facade_ok_cycle:
  assumes ok: "facade_ok cpu" and c: "cycle_cpu z calls ticked out cpu = (status, out', cpu')"
  shows "facade_ok cpu'"
proof -
  define cpu0 where "cpu0 = cpu\<lparr>fc_port_latches := (\<lambda>p. if p < 6 then port_latch (fc_core cpu) p else fc_port_latches cpu p), fc_busy := True\<rparr>"
  define cpu1 where "cpu1 = fold (core_call z) calls cpu0"
  define cpu2 where "cpu2 = (obs_finish z (cpu1\<lparr>fc_core := ticked\<rparr>))\<lparr>fc_busy := False\<rparr>"
  have "keeps cpu0 cpu1" unfolding cpu1_def by (rule core_calls_keep)
  then have ok1: "obs_ok (fc_observation cpu1)" "input_part cpu1 = input_part cpu0" using ok by (simp_all add: keeps_def facade_ok_def cpu0_def)
  have "obs_ok (fc_observation cpu2)" unfolding cpu2_def using obs_finish_ok [of "cpu1\<lparr>fc_core := ticked\<rparr>" z] ok1(1) by simp
  then have ok2: "facade_ok cpu2" using ok ok1(2) by (auto simp: facade_ok_def cpu2_def cpu0_def input_part_def)
  have fin: "facade_ok (obs_finish z (fail_cpu EMUIF_EXHAUSTED cpu))" using ok obs_finish_ok [of "fail_cpu EMUIF_EXHAUSTED cpu" z] by (simp add: facade_ok_def)
  have "cpu' = cpu \<or> cpu' = obs_finish z (fail_cpu EMUIF_EXHAUSTED cpu) \<or> (\<exists>cache p. cpu' = cpu2\<lparr>fc_decode_cache := cache, fc_instruction_pending := p\<rparr>) \<or> cpu' = cpu2"
    using c unfolding cycle_cpu_def Let_def cpu0_def [symmetric] cpu1_def [symmetric] cpu2_def [symmetric] by (auto split: if_splits)
  then show ?thesis using ok fin ok2 by (auto simp: facade_ok_def)
qed

lemma facade_ok_bind:
  assumes ok: "facade_ok cpu" and b: "bind_observation z binding cpu = (status, cpu')"
  shows "facade_ok cpu'"
proof -
  have o: "obs_ok (fc_observation cpu)" using ok by (simp add: facade_ok_def)
  have "obs_ok ((fc_observation cpu)\<lparr>co_unknown_base := True, co_depth := 0, co_irq_depth := d, co_generation := g, co_bound := True\<rparr>)"
    "obs_ok ((fc_observation cpu)\<lparr>co_generation := g, co_bound := True\<rparr>)" for d g
    by (rule obs_okI [OF o]; use obs_okD [OF o] in simp)+
  then show ?thesis using ok b by (auto simp: bind_observation_def facade_ok_def Let_def split: if_splits)
qed

lemma facade_ok_quiet:
  assumes ok: "facade_ok cpu"
  shows "load_code code cpu = (s1, c1) \<Longrightarrow> facade_ok c1" "decode_cpu z allocated records request out bytes capacity cpu = (s2, out', c2) \<Longrightarrow> facade_ok c2"
    "unbind_observation cpu = (s3, c3) \<Longrightarrow> facade_ok c3" "emu_cpu_observation_lifecycle z kind reported cpu = (s4, c4) \<Longrightarrow> facade_ok c4"
proof -
  have o: "obs_ok (fc_observation cpu)" using ok by (simp add: facade_ok_def)
  have u: "obs_ok ((fc_observation cpu)\<lparr>co_unbound_cycle := a, co_unbound_instructions := b, co_bound := False\<rparr>)" for a b by (rule obs_ok_quiet [OF o]) simp_all
  show "facade_ok c1" if "load_code code cpu = (s1, c1)" using that ok by (auto simp: load_code_def facade_ok_def split: if_splits)
  show "facade_ok c2" if "decode_cpu z allocated records request out bytes capacity cpu = (s2, out', c2)"
    using that ok by (auto simp: decode_cpu_def facade_ok_def Let_def split: if_splits prod.splits)
  show "facade_ok c3" if "unbind_observation cpu = (s3, c3)" using that ok u by (auto simp: unbind_observation_def facade_ok_def Let_def split: if_splits)
  have f: "obs_ok ((fc_observation cpu)\<lparr>co_fault_emitted := True\<rparr>)" by (rule obs_ok_quiet [OF o]) simp_all
  have k: "keeps cpu (obs_emit e cpu1)" if "obs_ok (fc_observation cpu1)" "facade_rest cpu1 = facade_rest cpu" for e cpu1
    using obs_ok_emit [OF that(1)] input_part_rest [of "obs_emit e cpu1" cpu] that(2) by (simp add: keeps_def)
  have "facade_ok (obs_emit e cpu)" "facade_ok (obs_emit e (obs_update (\<lambda>ob. ob\<lparr>co_fault_emitted := True\<rparr>) cpu))" for e
    by (rule facade_ok_keeps [OF ok k]; simp add: o f)+
  then show "facade_ok c4" if "emu_cpu_observation_lifecycle z kind reported cpu = (s4, c4)"
    using that ok by (auto simp: emu_cpu_observation_lifecycle_def Let_def split: if_splits)
qed

lemma facade_reach_ok: "facade_reach z cpu \<Longrightarrow> facade_ok cpu"
proof (induction rule: facade_reach.induct)
  case created
  then show ?case by (rule facade_ok_created)
next
  case restarted
  then show ?case using facade_ok_reset by blast
next
  case loaded
  then show ?case using facade_ok_quiet(1) by blast
next
  case driven
  then show ?case using facade_ok_apply by blast
next
  case delivered
  then show ?case using facade_ok_deliver by blast
next
  case cycled
  then show ?case using facade_ok_cycle by blast
next
  case decoded
  then show ?case using facade_ok_quiet(2) by blast
next
  case bound
  then show ?case using facade_ok_bind by blast
next
  case unbound
  then show ?case using facade_ok_quiet(3) by blast
next
  case announced
  then show ?case using facade_ok_quiet(4) by blast
qed

lemma log_numbered_nth: "log_numbered es \<Longrightarrow> i < length es \<Longrightarrow> ob_sequence (rev es ! i) = word_of_nat (Suc i)"
  by (induction es) (auto simp: nth_append less_Suc_eq)

text \<open>
  C22. Invariant of the CPU facade.  Whatever a facade is asked for, and whatever the core reports during the cycles, the observations delivered
  so far are numbered 1, 2, 3, \<dots> without a gap; at most 64 call frames are known, each the parent of the next and older than it; the
  frames of the receiver, the transmitter and its holding register have different identifiers; no more instructions retire than have
  started; no operation leaves the facade busy; and inputs that count were accepted above the floor set by the last reset.
\<close>

theorem facade_invariant:
  assumes "facade_reach z cpu"
  shows "let ob = fc_observation cpu; n = unat (co_sequence ob); frame = co_frames ob; depth = unat (co_depth ob) in
    length (co_delivered ob) = n \<and> (\<forall>i < n. ob_sequence (rev (co_delivered ob) ! i) = word_of_nat (Suc i)) \<and>
    depth \<le> 64 \<and> (\<forall>i. Suc i < depth \<longrightarrow> of_parent (frame (Suc i)) = of_id (frame i) \<and> of_id (frame i) < of_id (frame (Suc i))) \<and>
    (0 < depth \<longrightarrow> of_parent (frame 0) = 0 \<and> of_id (frame 0) \<noteq> 0 \<and> of_id (frame (depth - 1)) \<le> co_next_context ob) \<and>
    (ou_id (co_rx ob) \<noteq> 0 \<longrightarrow> ou_id (co_rx ob) \<noteq> ou_id (co_tx ob) \<and> ou_id (co_rx ob) \<noteq> ou_id (co_hold ob)) \<and>
    (ou_id (co_tx ob) \<noteq> 0 \<longrightarrow> ou_id (co_tx ob) \<noteq> ou_id (co_hold ob)) \<and>
    unat (co_retired ob) + of_bool (co_pending ob) \<le> unat (co_next_instruction ob) \<and>
    \<not> fc_busy cpu \<and> (fc_input_seen cpu \<longrightarrow> fc_input_reset_floor cpu < fc_input_order cpu \<and> fc_input_order cpu \<le> fc_input_max_order cpu)"
proof -
  define ob where "ob = fc_observation cpu"
  have f: "obs_ok ob" "\<not> fc_busy cpu" "fc_input_seen cpu \<longrightarrow> fc_input_reset_floor cpu < fc_input_order cpu \<and> fc_input_order cpu \<le> fc_input_max_order cpu"
    using facade_reach_ok [OF assms] by (simp_all add: facade_ok_def ob_def)
  have l: "length (co_delivered ob) = unat (co_sequence ob)" "log_numbered (co_delivered ob)" using f(1) by (simp_all add: obs_ok_def log_ok_def)
  have fr: "frames_ok (unat (co_depth ob)) (co_next_context ob) (co_frames ob)" by (rule obs_okD(1) [OF f(1)])
  have "of_parent (co_frames ob (Suc i)) = of_id (co_frames ob i) \<and> of_id (co_frames ob i) < of_id (co_frames ob (Suc i))" if "Suc i < unat (co_depth ob)" for i
    using fr that unfolding frames_ok_def by (metis diff_Suc_1 nat.distinct(1))
  moreover have "of_parent (co_frames ob 0) = 0 \<and> of_id (co_frames ob 0) \<noteq> 0 \<and> of_id (co_frames ob (unat (co_depth ob) - 1)) \<le> co_next_context ob"
    if "0 < unat (co_depth ob)" using fr that by (simp add: frames_ok_def)
  ultimately show ?thesis using l f(2,3) fr log_numbered_nth [OF l(2)] obs_okD(2,3) [OF f(1)]
    unfolding ob_def [symmetric] Let_def by (simp add: frames_ok_def uart_ok_def retired_ok_def)
qed

definition facade_ex_sizes :: facade_sizes where
  "facade_ex_sizes = \<lparr>size_value = 16, size_observation = 16, size_record = 16, size_request = 16, size_page = 16, size_config = 16, size_hooks = 16, size_reset = 16,
     size_bus_access = 16, size_bus_result = 16, size_port_output = 16, size_signal_output = 16, size_input = 16, size_cycle_result = 16, size_snapshot = 16,
     size_memory_request = 16, size_decode_request = 16, size_decoded = 16, size_binding = 16, size_observer = 16, size_observed_input = 16, size_cpu_api = 16,
     size_observation_api = 16\<rparr>"

definition facade_ex_hooks :: "unit emuif_cpu_hooks" where
  "facade_ex_hooks = \<lparr>struct_size = 16, api_version = 1, flags = 0, hk_bus_access = Some (\<lambda>h _ r. (EMUIF_OK, r, h)), hk_port_output = Some (\<lambda>h _. (EMUIF_OK, h)),
     hk_signal_output = Some (\<lambda>h _. (EMUIF_OK, h))\<rparr>"

definition facade_ex_created :: "unit emuif_cpu" where
  "facade_ex_created = the (snd (create_cpu facade_ex_sizes 0 True \<lparr>struct_size = 16, api_version = 1, flags = 0, cf_variant = 2, cf_oscillator_hz = 12000000\<rparr> facade_ex_hooks ()))"

definition facade_ex_bound :: "unit emuif_cpu" where
  "facade_ex_bound = snd (bind_observation facade_ex_sizes \<lparr>struct_size = 16, api_version = 1, flags = 0, bd_generation = 1,
     bd_observer = \<lparr>struct_size = 16, api_version = 1, flags = 0, sink_observe = True\<rparr>\<rparr> facade_ex_created)"

definition facade_ex :: "unit emuif_cpu" where
  "facade_ex = snd (emu_cpu_observation_lifecycle facade_ex_sizes EMUIF_OBS_RESET EMUIF_OK facade_ex_bound)"

lemma facade_ex_reach: "facade_reach facade_ex_sizes facade_ex"
proof -
  have "create_cpu facade_ex_sizes 0 True \<lparr>struct_size = 16, api_version = 1, flags = 0, cf_variant = 2, cf_oscillator_hz = 12000000\<rparr> facade_ex_hooks () = (EMUIF_OK, Some facade_ex_created)"
    by (simp add: facade_ex_created_def create_cpu_def facade_ex_sizes_def facade_ex_hooks_def prefix_check_def em8051_init_variant_def em8051_get_variant_descriptor_def Let_def)
  then have "facade_reach facade_ex_sizes facade_ex_created" by (rule facade_reach.created)
  then have "facade_reach facade_ex_sizes facade_ex_bound" unfolding facade_ex_bound_def by (rule facade_reach.bound [OF _ prod.collapse [symmetric]])
  then show ?thesis unfolding facade_ex_def by (rule facade_reach.announced [OF _ prod.collapse [symmetric]])
qed

lemma wiped_variant: "mVariant (fst (reset_wipe c)) = mVariant c"
proof -
  have "mVariant (wipe_buffer p m c) = mVariant c" "mVariant (upper_fill f c) = mVariant c" for p m f c
    by (simp_all add: wipe_buffer_def upper_fill_def split: option.split upper_ptr.split)
  then show ?thesis by (simp add: reset_wipe_def Let_def split_beta)
qed

lemma reset_core:
  "mVariant (reset rand w c) = mVariant c" "mTickDelay (reset rand w c) = 0" "mSABUartTxActive (reset rand w c) = False" "mSABUartTxPending (reset rand w c) = False"
  "mSABUartRxActive (reset rand w c) = False" "mMachineCycleCount (reset rand w c) = 0" "mInstructionCount (reset rand w c) = 0"
  by (simp_all add: reset_def reset_internal_def reset_sfr_def reset_peripherals_def op_setptrs_def wiped_variant Let_def split_beta)

lemma facade_ex_created_fields:
  "fc_busy facade_ex_created = False" "fc_fault facade_ex_created = 0" "fc_observation facade_ex_created = zero_observation_state" "is_sab (fc_core facade_ex_created)"
  "mTickDelay (fc_core facade_ex_created) = 0" "mSABUartTxActive (fc_core facade_ex_created) = False" "mSABUartTxPending (fc_core facade_ex_created) = False"
  "mSABUartRxActive (fc_core facade_ex_created) = False" "mMachineCycleCount (fc_core facade_ex_created) = 0" "mInstructionCount (fc_core facade_ex_created) = 0"
  by (simp_all add: facade_ex_created_def create_cpu_def facade_ex_sizes_def facade_ex_hooks_def prefix_check_def em8051_init_variant_def em8051_get_variant_descriptor_def
      reset_private_def reset_core em8051_set_reset_seed_def Let_def)

lemma facade_ex_sequence: "co_sequence (fc_observation facade_ex) = 1"
proof -
  have b: "facade_ex_bound = obs_update (\<lambda>ob. ob\<lparr>co_generation := 1, co_bound := True\<rparr>) facade_ex_created"
    by (simp add: facade_ex_bound_def bind_observation_def facade_ex_created_fields available_def prefix_check_def facade_ex_sizes_def zero_observation_state_def)
  show ?thesis by (simp add: facade_ex_def emu_cpu_observation_lifecycle_def b facade_ex_created_fields available_def obs_emit_observation zero_observation_state_def Let_def)
qed

theorem facade_invariant_witness:
  "length (co_delivered (fc_observation facade_ex)) = 1 \<and> ob_sequence (hd (co_delivered (fc_observation facade_ex))) = 1 \<and> \<not> fc_busy facade_ex"
proof -
  have n: "length (co_delivered (fc_observation facade_ex)) = 1" and s: "\<forall>i < 1. ob_sequence (rev (co_delivered (fc_observation facade_ex)) ! i) = word_of_nat (Suc i)"
    and b: "\<not> fc_busy facade_ex" using facade_invariant [OF facade_ex_reach] by (simp_all add: facade_ex_sequence Let_def)
  from n obtain e where "co_delivered (fc_observation facade_ex) = [e]" by (auto simp: length_Suc_conv)
  then show ?thesis using s b by simp
qed

end
