(* ===== verification/Spec2Isabelle.thy ===== *)
theory Spec2Isabelle
  imports RunControl IrqService Reachable TickTime DispatchTable DecodeLength DecodeWindow Sha256
    Breakpoints Loader JsonDocument RuntimeInv OutcomeJson ServerSession FacadeInput
begin

text \<open>
  Verification of the SAB80535 emulator, a C program with three layers.  The \<^bold>\<open>core\<close> (\<^verbatim>\<open>src/core.c\<close>,
  \<^verbatim>\<open>src/opcodes.c\<close>, \<^verbatim>\<open>src/emu_cpu_observation_internal.h\<close>, with the data of
  \<^verbatim>\<open>src/lib/include/emusa80535/emu8051.h\<close>) executes 8051, 8052 and SAB80535 programs one machine cycle at
  a time: a tick executes an instruction or a pending cycle, lets the interrupt controller act and then
  advances the peripherals.  The \<^bold>\<open>tools\<close> beside it print and identify programs: the disassembler
  (\<^verbatim>\<open>src/disasm.c\<close>), the decoder history of the debugger (\<^verbatim>\<open>src/emu_decode_internal.c\<close>), the image
  loader (\<^verbatim>\<open>src/binary_loader.c\<close>), the digest (\<^verbatim>\<open>src/emu_sha_internal.c\<close>) and the breakpoint bitmap
  (\<^verbatim>\<open>src/emu_breakpoint_internal.h\<close>), and the JSON reader and writer (\<^verbatim>\<open>src/emu_json_internal.c\<close>).
  The \<^bold>\<open>debug runtime\<close> observes and drives both; of it, events and watches (\<^verbatim>\<open>src/emu_debug_event.c\<close>), the trace router
  (\<^verbatim>\<open>src/emu_debug_trace.c\<close>) and the runtime that joins them (\<^verbatim>\<open>src/emu_debug_runtime.c\<close>) are modelled.  The
  \<^bold>\<open>debugger\<close> (\<^verbatim>\<open>src/emu_debug.c\<close>) puts a CPU, its image, decoder history and breakpoints behind commands, and the debug server
  (\<^verbatim>\<open>src/emu_debug_server.c\<close>) offers them as lines of JSON on the standard streams; both are modelled whole.  The \<^bold>\<open>CPU facade\<close>
  (\<^verbatim>\<open>src/emu_cpu_facade.c\<close>) is the library's interface to one CPU.

  \<^bold>\<open>State.\<close>  The C object \<open>struct em8051\<close> is the record \<open>em8051\<close> of data fields together with the record
  \<open>em8051_callbacks\<close> of the embedder's function pointers, which no operation of the core changes and which
  every operation takes as its argument \<open>E\<close>; hooks are arbitrary functions on the CPU, observers are flags
  whose deliveries are kept in a log.  Integers have their width in C (\<open>u8\<close>, \<open>u16\<close>, \<open>u32\<close>, \<open>u64\<close>), arrays
  are total functions so that an access past the end is visible, memory behind pointers is a store of
  numbered buffers.  In the debug layers a fixed array with a count is the list of its first entries, and the
  state behind a callback's context pointer is a value the callbacks change.  An operation returns its value and the updated CPU.

  \<^bold>\<open>Theories.\<close>
  \<^item> \<open>Prelude\<close>: word types and arithmetic facts shared by all.  \<open>Machine\<close>, \<open>Observe\<close>, \<open>Frame\<close>: the CPU object,
    its enumerations and records, register access, emitters, the zero-initialised CPU and field frames.
  \<^item> \<open>Ports\<close>, \<open>Schedule\<close>, \<open>Uart\<close>, \<open>Adc\<close>, \<open>Sfr\<close>, \<open>Timers\<close>, \<open>Irq\<close>: the peripherals of \<^verbatim>\<open>core.c\<close>, one definition
    per C function.  Shown: the event ring refines a bounded time-ordered queue; UART frames have the
    right bits, rate and flags; the converter is exact, clamped and takes fifteen cycles; the timers count
    with the right modulus and flags; arbitration picks the first source of highest priority.
  \<^item> \<open>Memory\<close>, \<open>OpcodeBase\<close>, \<open>OpsArith\<close>, \<open>OpsLogic\<close>, \<open>OpsBits\<close>, \<open>OpsJump\<close>, \<open>OpsMove\<close>, \<open>Dispatch\<close>: \<^verbatim>\<open>opcodes.c\<close>,
    one definition per handler.  Shown: arithmetic against integers, stack and call round trips, and
    (\<open>DispatchTable\<close>) that the function-pointer table and the switch are the same dispatcher.
  \<^item> \<open>Cycle\<close>, \<open>Exec\<close>, \<open>Reset\<close>: \<open>advance_machine_cycle\<close>, \<open>tick\<close>, \<open>run_control\<close>, variants and reset.
  \<^item> \<open>OpFrame\<close>, \<open>ServiceFrame\<close>: the contracts \<open>access_frame\<close>, \<open>op_frame\<close> and \<open>service_frame\<close> between
    instruction execution and any part of the CPU its elementary updates leave alone, proved once and
    interpreted on the controller state, the run counters, the clock and the code.
  \<^item> \<open>IrqNesting\<close>, \<open>Reachable\<close>, \<open>IrqService\<close>: the services in progress as a stack, the step relation
    \<open>nest_step\<close>, the invariant in every reachable state, and the round trip of a service and its return.
  \<^item> \<open>RunControl\<close>, \<open>TickTime\<close>: every run ends with the reason that holds; a tick is a cycle.
  \<^item> \<open>Printf\<close>, \<open>Disasm\<close>, \<open>DisasmTable\<close>, \<open>DecodeLength\<close>, \<open>DecodeWindow\<close>: the disassembler, one definition per
    decoder, its table, the text bounds, captured bytes, decoded against executed size, and windows.
  \<^item> \<open>Sha256\<close>: the streaming digest against the standard.  \<open>Breakpoints\<close>, \<open>Loader\<close>: the bitmap and the loader.
  \<^item> \<open>JsonSyntax\<close>, \<open>JsonGrammar\<close>, \<open>JsonString\<close>, \<open>JsonUtf8\<close>, \<open>JsonNumber\<close>, \<open>JsonTokens\<close>, \<open>JsonDocument\<close>: the JSON reader and
    writer of \<^verbatim>\<open>src/emu_json_internal.c\<close>.  Shown: the syntax check decides the JSON grammar and the UTF-8 check
    the encoding, strings and numbers round-trip, tokens form a forest, and documents are parsed soundly.
  \<^item> \<open>Observation\<close>, \<open>DebugEvent\<close>, \<open>Watches\<close>: observations, events, the event bus and watches.  Shown: a match reports
    exactly the watches that fire, by comparison of integers.  \<open>TraceRouter\<close>, \<open>TraceRing\<close>, \<open>Routing\<close>, \<open>RouterInv\<close>: the
    router.  Shown: its rings are bounded logs (contract \<open>bounded_log\<close>), a source event reaches exactly its audience,
    whatever state the callbacks keep and however deliveries change their answers, and the invariant holds under every sequence of operations (\<open>router_step\<close>).  \<open>DebugRuntime\<close>, \<open>RuntimeInv\<close>: the
    runtime.  Shown: from every reachable state (\<open>runtime_step\<close>, one rule per operation) an event is dispatched to
    the end with each of its watch matches in order, exact counters and stops, and consecutive sequence numbers.
  \<^item> \<open>Circular\<close>, \<open>Outcome\<close>, \<open>OutcomeLog\<close>, \<open>JsonWriter\<close>, \<open>OutcomeJson\<close>: the retained outcomes of \<^verbatim>\<open>src/emu_outcome_internal.c\<close>.
    Shown: the ring is a log with consecutive numbers and counted losses, pages continue without gap or repetition,
    and a page prints as one JSON value or fails as a whole.

  \<^item> \<open>Debugger\<close>, \<open>DebuggerInv\<close>: the debugger, one definition per function of \<^verbatim>\<open>src/emu_debug.c\<close>.  Its host (files, memory, fresh
    stack contents) is an argument; the trace observer is run on the records an instruction reported, after the instruction, whose
    code it reads and no instruction changes.  Shown: a bounded run returns and stops exactly where it should, and in every
    reachable debugger (\<open>dbg_reach\<close>, one rule per operation) code, history and reported state are true of the CPU.
  \<^item> \<open>IdTable\<close>, \<open>DebugServer\<close>, \<open>ServerJson\<close>, \<open>ServerSession\<close>: the debug server, from the table of request identifiers to \<open>main\<close>.  The
    standard input is the list of its bytes and the standard output the list of lines written.  Shown: the table is a bounded set
    (contract \<open>bounded_set\<close>); every handler prints one JSON object or overruns the buffer, and what is written instead fits; every
    session ends, each record is answered in order by a response with its id, and the session discipline holds (\<open>session\<close>).
  \<^item> \<open>CpuFacade\<close>, \<open>CpuApi\<close>, \<open>FacadeInv\<close>, \<open>FacadeInput\<close>: the CPU facade of \<^verbatim>\<open>src/emu_cpu_facade.c\<close>, the interface through which embedders
    drive a CPU and observe it.  The core calls the facade back in the middle of a tick; the calls of a tick, each with the core as it
    is then, and the core after it are arguments of \<open>cycle_cpu\<close>, so that what is shown holds whatever the core reports.  Shown: inputs
    are admitted in order and refused without effect but the report of a frame turned away, and in every facade its operations reach (\<open>facade_reach\<close>, one rule per operation)
    observations are numbered without a gap, call frames form a linked stack and identifiers are not reused.

  \<^bold>\<open>Loops and fuel.\<close>  No definition uses fuel.  The run loop, the cycle-completion loop and the digest's
  update loop may not end for arbitrary states (an observer may abort for ever, a context may be full), nor
  the JSON list and parent loops, so
  they are \<^theory_text>\<open>partial_function\<close> in the option type or terminate by a measure; that they return is proved where
  the code relies on it.

  \<^bold>\<open>Not modelled.\<close>  The session controller (\<^verbatim>\<open>src/emu_session.c\<close>) and the capture scopes above the trace runtime
  (\<^verbatim>\<open>src/emu_trace_internal.c\<close>) hand callbacks of one another through the core in the middle of a cycle, which the observers of this model,
  flags with a log, do not express; for the same reason the facade's cycle takes the core's calls as an argument.  The runtime program and
  the curses front end are operating system input and output.  Observers that call back into the facade, the functions that only hand out
  tables of entry points, null pointers passed to the debug interfaces, freed objects, the Windows branches and the C objects' padding are
  outside the model.
\<close>

end
